(* ===== verification/Prelude.thy ===== *)
theory Prelude
  imports
    Main
    "HOL-Library.List_Lexorder"
    "HOL-Library.Char_ord"
    "HOL-Library.Finite_Map"
    "HOL-Library.AList"
    "HOL-Library.Sublist"
    "HOL-Library.Multiset"
    "HOL-Library.Word"
begin

text \<open>
  What the components share: the part of the Go language and of its standard library that
  the repository uses (byte strings and the functions of package \<^verbatim>\<open>strings\<close>,
  \<^verbatim>\<open>sort.Strings\<close>, \<^verbatim>\<open>strconv.Itoa\<close>, \<^verbatim>\<open>path/filepath\<close>), the result type
  of code that may panic, the order in which a map is iterated, and generic lemmas on lists
  and maps. A Go string is a list of bytes, here \<^typ>\<open>string\<close>; \<^typ>\<open>char\<close> has the order
  of the byte values and lists of them the lexicographic order, which is Go's order on strings.
\<close>

named_theorems go_strings \<open>the functions of package strings, unfolded\<close>
named_theorems dedup \<open>facts on appending what is not yet contained\<close>

declare length_dropWhile_le [THEN le_imp_less_Suc, termination_simp]
declare length_dropWhile_le [THEN le_imp_less_Suc, THEN less_SucI, termination_simp]

lemma map_sort_key: "map f (sort_key f xs) = sort (map f xs)"
proof -
  have "map f (insort_key f x ys) = insort (f x) (map f ys)" for x ys by (induction ys) auto
  then show ?thesis by (induction xs) (auto simp: sort_key_def)
qed

section \<open>Strings\<close>

definition HasPrefix :: "string \<Rightarrow> string \<Rightarrow> bool" where
  "HasPrefix s p \<longleftrightarrow> take (length p) s = p"

definition HasSuffix :: "string \<Rightarrow> string \<Rightarrow> bool" where
  "HasSuffix s p \<longleftrightarrow> length p \<le> length s \<and> drop (length s - length p) s = p"

definition TrimPrefix :: "string \<Rightarrow> string \<Rightarrow> string" where
  "TrimPrefix s p = (if HasPrefix s p then drop (length p) s else s)"

definition TrimSuffix :: "string \<Rightarrow> string \<Rightarrow> string" where
  "TrimSuffix s p = (if HasSuffix s p then take (length s - length p) s else s)"

text \<open>\<^verbatim>\<open>strings.ToLower\<close> on ASCII text.\<close>

definition ToLower :: "string \<Rightarrow> string" where
  "ToLower s = map (\<lambda>c. if CHR ''A'' \<le> c \<and> c \<le> CHR ''Z'' then char_of (of_char c + 32 :: nat) else c) s"

fun Contains :: "string \<Rightarrow> string \<Rightarrow> bool" where
  "Contains [] p = (p = [])"
| "Contains (c # s) p = (HasPrefix (c # s) p \<or> Contains s p)"

text \<open>\<^verbatim>\<open>strings.Split\<close> with a separator of one byte: never the empty list.\<close>

fun Split :: "string \<Rightarrow> char \<Rightarrow> string list" where
  "Split [] d = [[]]"
| "Split (c # s) d =
     (if c = d then [] # Split s d
      else case Split s d of [] \<Rightarrow> [[c]] | w # ws \<Rightarrow> (c # w) # ws)"

fun Join :: "string list \<Rightarrow> string \<Rightarrow> string" where
  "Join [] d = []"
| "Join [w] d = w"
| "Join (w # ws) d = w @ d @ Join ws d"

lemma HasPrefix_iff: "HasPrefix s p \<longleftrightarrow> prefix p s"
  unfolding HasPrefix_def prefix_def by (metis append_eq_conv_conj append_take_drop_id)

lemma HasSuffix_iff: "HasSuffix s p \<longleftrightarrow> suffix p s"
proof
  assume "HasSuffix s p"
  then have "s = take (length s - length p) s @ p"
    unfolding HasSuffix_def by (metis append_take_drop_id)
  then show "suffix p s" unfolding suffix_def by blast
next
  assume "suffix p s"
  then show "HasSuffix s p" unfolding HasSuffix_def suffix_def by auto
qed

lemma Contains_iff: "Contains s p \<longleftrightarrow> (\<exists>a b. s = a @ p @ b)"
proof (induction s)
  case (Cons c s)
  show ?case
  proof
    assume "Contains (c # s) p"
    then consider "prefix p (c # s)" | "Contains s p" by (auto simp: HasPrefix_iff)
    then show "\<exists>a b. c # s = a @ p @ b"
    proof cases
      case 1
      then show ?thesis by (metis append_Nil prefix_def)
    next
      case 2
      then show ?thesis using Cons.IH by (metis append_Cons)
    qed
  next
    assume "\<exists>a b. c # s = a @ p @ b"
    then obtain a b where eq: "c # s = a @ p @ b" by blast
    show "Contains (c # s) p"
    proof (cases a)
      case Nil
      with eq have "HasPrefix (c # s) p" by (simp add: HasPrefix_iff)
      then show ?thesis by simp
    next
      case (Cons x xs)
      with eq Cons.IH show ?thesis by auto
    qed
  qed
qed auto

lemma Split_not_Nil [simp]: "Split s d \<noteq> []"
  by (cases s) (auto split: list.splits)

lemma Split_no_sep: "d \<notin> set s \<Longrightarrow> Split s d = [s]"
  by (induction s) auto

lemma Split_pieces: "w \<in> set (Split s d) \<Longrightarrow> d \<notin> set w"
proof (induction s arbitrary: w)
  case (Cons c s)
  then show ?case
    by (cases "Split s d") (auto split: if_splits)
qed simp

lemma Split_append: "d \<notin> set w \<Longrightarrow> Split (w @ d # s) d = w # Split s d"
  by (induction w) auto

text \<open>Splitting a joined list of pieces without the separator gives the pieces back.\<close>

lemma Split_Join:
  assumes "ws \<noteq> []" and "\<forall>w \<in> set ws. d \<notin> set w"
  shows "Split (Join ws [d]) d = ws"
  using assms
proof (induction ws "[d]" rule: Join.induct)
  case (3 w v vs)
  then show ?case by (simp add: Split_append)
qed (auto simp: Split_no_sep)

lemma Join_Split: "Join (Split s d) [d] = s"
proof (induction s)
  case (Cons c s)
  show ?case
  proof (cases "Split s d")
    case (Cons w ws)
    then show ?thesis using Cons.IH by (cases ws) auto
  qed simp
qed simp

section \<open>Numbers as text\<close>

text \<open>\<^verbatim>\<open>strconv.Itoa\<close> and \<^verbatim>\<open>strconv.FormatUint(_, 10)\<close>: decimal digits.\<close>

function digits_of :: "int \<Rightarrow> string" where
  "digits_of n =
     (if n < 10 then [char_of (48 + n)]
      else digits_of (n div 10) @ [char_of (48 + n mod 10)])"
  by pat_completeness auto
termination by (relation "measure nat") auto

declare digits_of.simps [simp del]

definition Itoa :: "int \<Rightarrow> string" where
  "Itoa i = (if i < 0 then CHR ''-'' # digits_of (- i) else digits_of i)"

fun int_of_digits :: "int \<Rightarrow> string \<Rightarrow> int" where
  "int_of_digits a [] = a"
| "int_of_digits a (c # s) = int_of_digits (10 * a + (of_char c - 48)) s"

lemma int_of_digits_append: "int_of_digits a (s @ t) = int_of_digits (int_of_digits a s) t"
  by (induction s arbitrary: a) auto

lemma of_char_digit: "0 \<le> (d :: int) \<Longrightarrow> d < 10 \<Longrightarrow> of_char (char_of (48 + d)) = 48 + d"
  by (simp add: of_char_of)

lemma int_of_digits_of: "0 \<le> n \<Longrightarrow> int_of_digits 0 (digits_of n) = n"
proof (induction n rule: digits_of.induct)
  case (1 n)
  show ?case
    using 1 by (subst digits_of.simps) (auto simp: int_of_digits_append of_char_digit)
qed

lemma digits_of_inj: "0 \<le> m \<Longrightarrow> 0 \<le> n \<Longrightarrow> digits_of m = digits_of n \<Longrightarrow> m = n"
  by (metis int_of_digits_of)

lemma digits_of_chars:
  "0 \<le> n \<Longrightarrow> c \<in> set (digits_of n) \<Longrightarrow> of_char c \<ge> (48 :: int) \<and> of_char c \<le> (57 :: int)"
proof (induction n rule: digits_of.induct)
  case (1 n)
  then show ?case
    by (subst (asm) (2) digits_of.simps) (auto simp: of_char_digit split: if_splits)
qed

lemma digits_of_no_minus: "0 \<le> n \<Longrightarrow> hd (digits_of n) \<noteq> CHR ''-'' \<and> digits_of n \<noteq> []"
proof
  assume n: "0 \<le> n"
  show "digits_of n \<noteq> []" by (subst digits_of.simps) simp
  then have "hd (digits_of n) \<in> set (digits_of n)" by simp
  then have "of_char (hd (digits_of n)) \<ge> (48 :: int)" using digits_of_chars [OF n] by blast
  then show "hd (digits_of n) \<noteq> CHR ''-''" by auto
qed

lemma Itoa_inj: "Itoa i = Itoa j \<longleftrightarrow> i = j"
proof
  assume eq: "Itoa i = Itoa j"
  have neq: "0 \<le> n \<Longrightarrow> CHR ''-'' # digits_of m \<noteq> digits_of n" for m n
    by (metis digits_of_no_minus list.sel(1))
  from eq show "i = j"
    using neq neq [symmetric]
    by (auto simp: Itoa_def split: if_splits dest!: digits_of_inj [rotated 2])
qed simp

section \<open>Code that may panic\<close>

text \<open>A Go run-time panic aborts the function; a value \<^term>\<open>Inl p\<close> is that outcome.\<close>

datatype go_panic = IndexOutOfRange | NilMapWrite | NilDereference | TypeAssertion | CloseOfClosedChannel

fun go_bind :: "go_panic + 'a \<Rightarrow> ('a \<Rightarrow> go_panic + 'b) \<Rightarrow> go_panic + 'b" where
  "go_bind (Inl e) f = Inl e"
| "go_bind (Inr x) f = f x"

text \<open>A \<^verbatim>\<open>for _, x := range xs\<close> whose body may panic.\<close>

fun foldM :: "('s \<Rightarrow> 'a \<Rightarrow> go_panic + 's) \<Rightarrow> 's \<Rightarrow> 'a list \<Rightarrow> go_panic + 's" where
  "foldM f s [] = Inr s"
| "foldM f s (x # xs) = go_bind (f s x) (\<lambda>s'. foldM f s' xs)"

text \<open>The index expression \<^verbatim>\<open>xs[i]\<close>.\<close>

definition index :: "'a list \<Rightarrow> nat \<Rightarrow> go_panic + 'a" where
  "index xs i = (if i < length xs then Inr (xs ! i) else Inl IndexOutOfRange)"

lemma index_0_Cons [simp]: "index (x # xs) 0 = Inr x"
  by (simp add: index_def)

lemma index_Nil [simp]: "index [] i = Inl IndexOutOfRange"
  by (simp add: index_def)

lemma go_bind_Inr_iff: "go_bind m f = Inr y \<longleftrightarrow> (\<exists>x. m = Inr x \<and> f x = Inr y)"
  by (cases m) auto

lemma foldM_append: "foldM f s (xs @ ys) = go_bind (foldM f s xs) (\<lambda>s'. foldM f s' ys)"
proof (induction xs arbitrary: s)
  case (Cons x xs)
  then show ?case by (cases "f s x") auto
qed simp

text \<open>A loop whose body keeps an invariant and does not panic under it does not panic.\<close>

lemma foldM_total:
  assumes "I s" and "\<And>s x. I s \<Longrightarrow> x \<in> set xs \<Longrightarrow> \<exists>s'. f s x = Inr s' \<and> I s'"
  shows "\<exists>s'. foldM f s xs = Inr s' \<and> I s'"
  using assms
proof (induction xs arbitrary: s)
  case (Cons x xs)
  from Cons.prems obtain s' where "f s x = Inr s'" "I s'" by (meson list.set_intros(1))
  then show ?case using Cons.IH [of s'] Cons.prems(2) by simp
qed simp

lemma foldM_invariant:
  assumes "foldM f s xs = Inr s'" and "I s"
    and "\<And>s x s'. I s \<Longrightarrow> x \<in> set xs \<Longrightarrow> f s x = Inr s' \<Longrightarrow> I s'"
  shows "I s'"
  using assms
proof (induction xs arbitrary: s)
  case (Cons x xs)
  from Cons.prems(1) obtain t where t: "f s x = Inr t" "foldM f t xs = Inr s'"
    by (auto simp: go_bind_Inr_iff)
  have "I t" by (rule Cons.prems(3) [OF Cons.prems(2) _ t(1)]) simp
  show ?case
    by (rule Cons.IH [OF t(2) \<open>I t\<close>], erule Cons.prems(3), simp_all)
qed simp

lemma fold_invariant:
  assumes "I s" and "\<And>s x. I s \<Longrightarrow> x \<in> set xs \<Longrightarrow> I (f x s)"
  shows "I (fold f xs s)"
  using assms by (induction xs arbitrary: s) auto

section \<open>Appending what is missing\<close>

text \<open>\<^verbatim>\<open>libs.ContainsElement\<close>, by reflection over any slice, and the loop
  \<^verbatim>\<open>if !libs.ContainsElement(xs, y) { xs = append(xs, y) }\<close> that the packages repeat.\<close>

definition ContainsElement :: "'a list \<Rightarrow> 'a \<Rightarrow> bool" where
  "ContainsElement xs x = List.member xs x"

fun append_missing :: "'a list \<Rightarrow> 'a list \<Rightarrow> 'a list" where
  "append_missing xs [] = xs"
| "append_missing xs (y # ys) =
     append_missing (if ContainsElement xs y then xs else xs @ [y]) ys"

lemma ContainsElement_iff [simp, dedup]: "ContainsElement xs x \<longleftrightarrow> x \<in> set xs"
  by (simp add: ContainsElement_def)

lemma set_append_missing [simp, dedup]: "set (append_missing xs ys) = set xs \<union> set ys"
  by (induction ys arbitrary: xs) auto

lemma distinct_append_missing [simp, dedup]: "distinct (append_missing xs ys) = distinct xs"
proof (induction ys arbitrary: xs)
  case (Cons y ys)
  then show ?case by (cases "y \<in> set xs") auto
qed simp

lemma append_missing_Nil_iff [dedup]: "append_missing [] ys = [] \<longleftrightarrow> ys = []"
  by (simp flip: set_empty)

lemma append_missing_prefix [dedup]: "prefix xs (append_missing xs ys)"
proof (induction ys arbitrary: xs)
  case (Cons y ys)
  then show ?case
    by (cases "y \<in> set xs") (auto dest: append_prefixD)
qed simp

lemma append_missing_subset [dedup]: "set ys \<subseteq> set xs \<Longrightarrow> append_missing xs ys = xs"
  by (induction ys) auto

section \<open>Maps\<close>

text \<open>
  Go iterates over a map in an unspecified order, which may differ at every iteration. A loop
  over a map takes the order as a parameter: a function that permutes the list of entries.
\<close>

definition iter_order :: "('a list \<Rightarrow> 'a list) \<Rightarrow> bool" where
  "iter_order ord \<longleftrightarrow> (\<forall>m. mset (ord m) = mset m)"

lemma iter_order_id [simp]: "iter_order (\<lambda>m. m)"
  by (simp add: iter_order_def)

lemma iter_order_rev [simp]: "iter_order rev"
  by (simp add: iter_order_def)

lemma iter_order_set: "iter_order ord \<Longrightarrow> set (ord m) = set m"
  unfolding iter_order_def by (metis set_mset_mset)

lemma iter_order_length: "iter_order ord \<Longrightarrow> length (ord m) = length m"
  unfolding iter_order_def by (metis size_mset)

lemma iter_order_distinct: "iter_order ord \<Longrightarrow> distinct (ord m) \<longleftrightarrow> distinct m"
  unfolding iter_order_def by (metis mset_eq_imp_distinct_iff)

lemma iter_order_map: "iter_order ord \<Longrightarrow> mset (map f (ord m)) = mset (map f m)"
  unfolding iter_order_def by simp

text \<open>Assignments to an association list with one entry for each key.\<close>

lemma set_AList_update:
  assumes "distinct (map fst xs)"
  shows "set (AList.update k v xs) = insert (k, v) {(a, b). (a, b) \<in> set xs \<and> a \<noteq> k}"
  using assms by (induction xs) (auto simp: rev_image_eqI)

lemma distinct_AList_update:
  "distinct (map fst xs) \<Longrightarrow> distinct (map fst (AList.update k v xs))"
  by (simp add: distinct_update)

text \<open>Assigning a list of entries no two of which give a key different values.\<close>

lemma fold_AList_update:
  assumes "distinct (map fst m)" and "\<And>k v v'. (k, v) \<in> set xs \<Longrightarrow> (k, v') \<in> set xs \<Longrightarrow> v = v'"
    and "\<And>k v v'. (k, v) \<in> set xs \<Longrightarrow> (k, v') \<in> set m \<Longrightarrow> v = v'"
  shows "set (fold (\<lambda>(k, v). AList.update k v) xs m) = set m \<union> set xs \<and>
    distinct (map fst (fold (\<lambda>(k, v). AList.update k v) xs m))"
  using assms
proof (induction xs arbitrary: m)
  case (Cons x xs)
  obtain k v where x: "x = (k, v)" by fastforce
  have upd: "set (AList.update k v m) = insert (k, v) (set m)"
    using Cons.prems(1,3) x by (auto simp: set_AList_update)
  have "set (fold (\<lambda>(k, v). AList.update k v) xs (AList.update k v m)) =
      set (AList.update k v m) \<union> set xs \<and>
    distinct (map fst (fold (\<lambda>(k, v). AList.update k v) xs (AList.update k v m)))"
  proof (rule Cons.IH)
    show "distinct (map fst (AList.update k v m))" using Cons.prems(1) by (rule distinct_AList_update)
    show "a = b" if "(c, a) \<in> set xs" "(c, b) \<in> set xs" for a b c
      using Cons.prems(2) [of c a b] that by simp
    show "a = b" if "(c, a) \<in> set xs" "(c, b) \<in> set (AList.update k v m)" for a b c
      using Cons.prems(2) [of c a b] Cons.prems(3) [of c a b] that x upd by auto
  qed
  then show ?case using x upd by auto
qed simp

text \<open>The entry \<^verbatim>\<open>m[k]\<close> of a map from strings to strings: a missing key reads as the empty string.\<close>

type_synonym str_map = "(string, string) fmap"

definition lookup_str :: "str_map \<Rightarrow> string \<Rightarrow> string" where
  "lookup_str m k = (case fmlookup m k of None \<Rightarrow> [] | Some v \<Rightarrow> v)"

lemma lookup_str_upd [simp]: "lookup_str (fmupd k v m) k' = (if k = k' then v else lookup_str m k')"
  by (simp add: lookup_str_def)

lemma lookup_str_empty [simp]: "lookup_str fmempty k = []"
  by (simp add: lookup_str_def)

section \<open>File paths\<close>

text \<open>
  \<^verbatim>\<open>filepath.Clean\<close> on Unix: the elements between slashes without the empty ones and the
  dots, with each dot-dot removing the element before it; at the root a dot-dot is dropped, and
  in a relative path a leading one stays.
\<close>

fun clean_elems :: "bool \<Rightarrow> string list \<Rightarrow> string list \<Rightarrow> string list" where
  "clean_elems rooted acc [] = rev acc"
| "clean_elems rooted acc (e # es) =
     (if e = [] \<or> e = ''.'' then clean_elems rooted acc es
      else if e = ''..'' then
        (case acc of
           [] \<Rightarrow> if rooted then clean_elems rooted [] es else clean_elems rooted [e] es
         | x # xs \<Rightarrow> if x = ''..'' then clean_elems rooted (e # acc) es
                     else clean_elems rooted xs es)
      else clean_elems rooted (e # acc) es)"

definition Clean :: "string \<Rightarrow> string" where
  "Clean p =
     (if p = [] then ''.''
      else if HasPrefix p ''/'' then CHR ''/'' # Join (clean_elems True [] (Split p (CHR ''/''))) ''/''
      else (case clean_elems False [] (Split p (CHR ''/'')) of
              [] \<Rightarrow> ''.'' | es \<Rightarrow> Join es ''/''))"

text \<open>\<^verbatim>\<open>filepath.Dir\<close>: what stands before the last slash, that slash included, cleaned.\<close>

definition Dir :: "string \<Rightarrow> string" where
  "Dir p = Clean (rev (dropWhile (\<lambda>c. c \<noteq> CHR ''/'') (rev p)))"

lemma Clean_examples:
  "Clean ''/usr//bin/../lib/.'' = ''/usr/lib''"
  "Clean ''../a/../..'' = ''../..''"
  "Clean ''/..'' = ''/''"
  "Dir ''/usr/bin/ls'' = ''/usr/bin''"
  "Dir ''ls'' = ''.''"
  by code_simp+

end
