(* ===== verification/PathTree.thy ===== *)
theory PathTree
  imports Prelude
begin

text \<open>
  The tree of path components of \<^verbatim>\<open>common/pathAggregator.go\<close>: the type
  \<^verbatim>\<open>Node\<close>, its methods, and the regular expressions they use. The lemmas show the tree
  as a trie: \<^verbatim>\<open>follow n ts\<close> walks down the components \<^verbatim>\<open>ts\<close>; insertion adds exactly
  the prefixes of what is inserted, and aggregation keeps a node exactly when none of its proper
  ancestors has more than three children.
\<close>

section \<open>Regular expressions\<close>

text \<open>
  \<^verbatim>\<open>pattern.FindAllString(p, -1)\<close> for the pattern \<^verbatim>\<open>(/.[^/]*)\<close>: from left to right, a
  slash, one character that is not a newline, and everything up to the next slash.
\<close>

fun path_tokens :: "string \<Rightarrow> string list" where
  "path_tokens [] = []"
| "path_tokens [c] = []"
| "path_tokens (c # d # s) =
     (if c = CHR ''/'' \<and> d \<noteq> CHR 0x0A
      then (c # d # takeWhile (\<lambda>x. x \<noteq> CHR ''/'') s) # path_tokens (dropWhile (\<lambda>x. x \<noteq> CHR ''/'') s)
      else path_tokens (d # s))"

text \<open>
  \<^verbatim>\<open>FindString\<close> for \<^verbatim>\<open>/C+\<close> with a class \<^verbatim>\<open>C\<close> of characters: the leftmost slash that
  a character of the class follows, with all the characters of the class after it; the empty
  string if there is none.
\<close>

fun find_slash_plus :: "(char \<Rightarrow> bool) \<Rightarrow> string \<Rightarrow> string" where
  "find_slash_plus P [] = []"
| "find_slash_plus P [c] = []"
| "find_slash_plus P (c # d # s) =
     (if c = CHR ''/'' \<and> P d then c # takeWhile P (d # s) else find_slash_plus P (d # s))"

definition WildPathDigit :: string where
  "WildPathDigit = ''/[0-9]+''"

definition WildPathChar :: string where
  "WildPathChar = ''/.+''"

definition WildPaths :: "string list" where
  "WildPaths = [WildPathDigit, WildPathChar]"

text \<open>\<^verbatim>\<open>r.FindString\<close> for the compiled expression of one of the \<^verbatim>\<open>WildPaths\<close>.\<close>

definition wild_find :: "string \<Rightarrow> string \<Rightarrow> string" where
  "wild_find w p =
     (if w = WildPathDigit
      then find_slash_plus (\<lambda>c. CHR ''0'' \<le> c \<and> c \<le> CHR ''9'') p
      else find_slash_plus (\<lambda>c. c \<noteq> CHR 0x0A) p)"

section \<open>Nodes\<close>

datatype node = Node (node_path: string) (node_isDir: bool) (node_depth: int)
  (node_touchCount: int) (childNodes: "node list")

definition Threshold :: nat where
  "Threshold = 3"

text \<open>The child that \<^verbatim>\<open>findChildNode\<close> returns a pointer to, by its position.\<close>

definition child_matches :: "string \<Rightarrow> int \<Rightarrow> node \<Rightarrow> bool" where
  "child_matches p d c =
     (if ContainsElement WildPaths (node_path c) \<and> node_depth c = d
      then wild_find (node_path c) p = p
      else node_path c = p \<and> node_depth c = d)"

fun find_index :: "('a \<Rightarrow> bool) \<Rightarrow> 'a list \<Rightarrow> nat option" where
  "find_index P [] = None"
| "find_index P (x # xs) = (if P x then Some 0 else map_option Suc (find_index P xs))"

definition findChildNode :: "node \<Rightarrow> string \<Rightarrow> int \<Rightarrow> nat option" where
  "findChildNode n p d = find_index (child_matches p d) (childNodes n)"

fun touch :: "node \<Rightarrow> node" where
  "touch (Node p b d t cs) = Node p b d (t + 1) cs"

text \<open>
  The method mutates the children in place; here it returns the node. Its loop over
  \<^verbatim>\<open>paths\<close> breaks after the first element.
\<close>

fun node_insert :: "string list \<Rightarrow> node \<Rightarrow> node" where
  "node_insert [] n = n"
| "node_insert (p # ps) (Node q b d t cs) =
     (case findChildNode (Node q b d t cs) p (d + 1) of
        None \<Rightarrow> Node q b d t (cs @ [node_insert ps (Node p False (d + 1) 1 [])])
      | Some i \<Rightarrow> Node q b d t (cs[i := node_insert ps (touch (cs ! i))]))"

fun aggregateChildNodes :: "node \<Rightarrow> node" where
  "aggregateChildNodes (Node p b d t cs) =
     (if length (map aggregateChildNodes cs) > Threshold then Node p True d 1 []
      else Node p b d t (map aggregateChildNodes cs))"

fun makeChildNodeToDir :: "node \<Rightarrow> node" where
  "makeChildNodeToDir (Node p b d t cs) =
     (if map makeChildNodeToDir cs = [] then Node p True d (int Threshold + 1) []
      else Node p b d t (map makeChildNodeToDir cs))"

text \<open>The map of results is an association list with one entry for each key.\<close>

fun generatePaths :: "node \<Rightarrow> (string \<times> bool) list \<Rightarrow> string \<Rightarrow> (string \<times> bool) list" where
  "generatePaths (Node p b d t cs) results parentPath =
     (let results' = fold (\<lambda>c r. generatePaths c r (parentPath @ p)) cs results
      in if cs = [] then AList.update (parentPath @ p) b results' else results')"

section \<open>Components\<close>

text \<open>What the pattern matches, one match: a slash, a character, and no slash after it.\<close>

definition good_token :: "string \<Rightarrow> bool" where
  "good_token t \<longleftrightarrow>
     (\<exists>d r. t = CHR ''/'' # d # r \<and> d \<noteq> CHR 0x0A \<and> CHR ''/'' \<notin> set r)"

lemma path_tokens_good: "t \<in> set (path_tokens p) \<Longrightarrow> good_token t"
proof (induction p rule: path_tokens.induct)
  case (3 c d s)
  then show ?case
    by (auto simp: good_token_def split: if_splits dest: set_takeWhileD)
qed auto

lemma path_tokens_Cons:
  assumes "good_token t" and "s = [] \<or> (\<exists>s'. s = CHR ''/'' # s')"
  shows "path_tokens (t @ s) = t # path_tokens s"
proof -
  obtain d r where t: "t = CHR ''/'' # d # r" "d \<noteq> CHR 0x0A" "CHR ''/'' \<notin> set r"
    using assms(1) by (auto simp: good_token_def)
  have "takeWhile (\<lambda>x. x \<noteq> CHR ''/'') (r @ s) = r \<and> dropWhile (\<lambda>x. x \<noteq> CHR ''/'') (r @ s) = s"
    using t(3) assms(2) by (induction r) auto
  then show ?thesis using t by simp
qed

lemma concat_good_head:
  assumes "\<forall>t \<in> set ts. good_token t"
  shows "concat ts = [] \<or> (\<exists>s. concat ts = CHR ''/'' # s)"
  using assms by (cases ts) (auto simp: good_token_def)

text \<open>Components can be read back from their concatenation.\<close>

lemma path_tokens_concat:
  assumes "\<forall>t \<in> set ts. good_token t"
  shows "path_tokens (concat ts) = ts"
  using assms
proof (induction ts)
  case (Cons t ts)
  then show ?case
    using path_tokens_Cons [of t "concat ts"] concat_good_head [of ts] by simp
qed simp

lemma concat_good_inj:
  assumes "\<forall>t \<in> set ts. good_token t" and "\<forall>t \<in> set us. good_token t"
    and "concat ts = concat us"
  shows "ts = us"
  using assms path_tokens_concat by metis

section \<open>The tree as a trie\<close>

text \<open>The walk down the components \<^verbatim>\<open>ts\<close>.\<close>

fun follow :: "node \<Rightarrow> string list \<Rightarrow> node option" where
  "follow n [] = Some n"
| "follow n (t # ts) =
     (case List.find (\<lambda>c. node_path c = t) (childNodes n) of
        None \<Rightarrow> None | Some c \<Rightarrow> follow c ts)"

text \<open>
  A tree in which every component means itself: depths grow by one, siblings have different
  components, and no component is one of the wild ones.
\<close>

fun node_wf :: "int \<Rightarrow> node \<Rightarrow> bool" where
  "node_wf k (Node p b d t cs) \<longleftrightarrow>
     d = k \<and> p \<notin> set WildPaths \<and> good_token p \<and> distinct (map node_path cs) \<and>
     list_all (node_wf (k + 1)) cs"

lemma find_SomeD: "List.find P xs = Some x \<Longrightarrow> x \<in> set xs \<and> P x"
  by (induction xs) (auto split: if_splits)

lemma find_index_Some:
  "find_index P xs = Some i \<Longrightarrow> i < length xs \<and> P (xs ! i)"
  by (induction xs arbitrary: i) (auto split: if_splits)

lemma find_index_None: "find_index P xs = None \<longleftrightarrow> (\<forall>x \<in> set xs. \<not> P x)"
  by (induction xs) auto

lemma node_wf_path: "node_wf k n \<Longrightarrow> node_path n \<notin> set WildPaths \<and> good_token (node_path n)"
  by (cases n) auto

lemma node_wf_depth: "node_wf k n \<Longrightarrow> node_depth n = k"
  by (cases n) auto

lemma node_wf_children:
  "node_wf k n \<Longrightarrow> c \<in> set (childNodes n) \<Longrightarrow> node_wf (k + 1) c"
  by (cases n) (auto simp: list_all_iff)

lemma child_matches_wf:
  "node_wf k c \<Longrightarrow> child_matches p k c \<longleftrightarrow> node_path c = p"
  using node_wf_path [of k c] node_wf_depth [of k c] by (auto simp: child_matches_def)

lemma node_wf_touch [simp]: "node_wf k (touch n) = node_wf k n"
  by (cases n) auto

lemma touch_simps [simp]:
  "node_path (touch n) = node_path n" "node_isDir (touch n) = node_isDir n"
  "childNodes (touch n) = childNodes n"
  by (cases n, simp)+

lemma follow_touch: "follow (touch n) ts = None \<longleftrightarrow> follow n ts = None"
  by (cases ts) auto

lemma find_Some_iff_distinct:
  assumes "distinct (map node_path cs)"
  shows "List.find (\<lambda>c. node_path c = t) cs = Some c \<longleftrightarrow> c \<in> set cs \<and> node_path c = t"
  using assms by (induction cs) (auto simp: rev_image_eqI)

lemma node_path_insert [simp]: "node_path (node_insert ps n) = node_path n"
  by (cases "(ps, n)" rule: node_insert.cases) (auto split: option.splits)

lemma node_isDir_insert [simp]: "node_isDir (node_insert ps n) = node_isDir n"
  by (cases "(ps, n)" rule: node_insert.cases) (auto split: option.splits)

text \<open>Insertion keeps the tree well formed and adds the prefixes of the inserted components.\<close>

lemma node_wf_insert:
  assumes "node_wf k n" and "\<forall>p \<in> set ps. p \<notin> set WildPaths \<and> good_token p"
  shows "node_wf k (node_insert ps n)"
  using assms
proof (induction ps n arbitrary: k rule: node_insert.induct)
  case (2 p ps q b d t cs)
  let ?n = "Node q b d t cs"
  have d: "d = k" and wf: "\<And>c. c \<in> set cs \<Longrightarrow> node_wf (k + 1) c"
    using "2.prems"(1) by (auto simp: list_all_iff)
  show ?case
  proof (cases "findChildNode ?n p (d + 1)")
    case None
    then have "p \<notin> node_path ` set cs"
      using child_matches_wf wf d by (auto simp: findChildNode_def find_index_None)
    moreover have "node_wf (k + 1) (node_insert ps (Node p False (d + 1) 1 []))"
      by (rule "2.IH"(1) [OF None]) (use "2.prems" d in auto)
    ultimately show ?thesis using None "2.prems" wf by (auto simp: list_all_iff)
  next
    case (Some i)
    then have i: "i < length cs" by (auto simp: findChildNode_def dest!: find_index_Some)
    then have "node_wf (k + 1) (touch (cs ! i))" using wf by simp
    then have "node_wf (k + 1) (node_insert ps (touch (cs ! i)))"
      by (rule "2.IH"(2) [OF Some]) (use "2.prems" in auto)
    moreover have "map node_path (cs[i := node_insert ps (touch (cs ! i))]) = map node_path cs"
      using i by (simp add: map_update list_update_same_conv)
    ultimately show ?thesis
      using Some "2.prems" wf by (auto simp: list_all_iff dest!: set_update_subset_insert [THEN subsetD])
  qed
qed simp

lemma follow_fresh: "follow (Node p b d t []) ts = (if ts = [] then Some (Node p b d t []) else None)"
  by (cases ts) auto

lemma follow_insert:
  assumes "node_wf k n" and "\<forall>p \<in> set ps. p \<notin> set WildPaths \<and> good_token p"
  shows "follow (node_insert ps n) ts \<noteq> None \<longleftrightarrow> follow n ts \<noteq> None \<or> prefix ts ps"
  using assms
proof (induction ps n arbitrary: k ts rule: node_insert.induct)
  case (1 n)
  then show ?case by (cases ts) auto
next
  case (2 p ps q b d t cs)
  let ?n = "Node q b d t cs"
  have d: "d = k" and wf: "\<And>c. c \<in> set cs \<Longrightarrow> node_wf (k + 1) c" and dist: "distinct (map node_path cs)"
    using "2.prems"(1) by (auto simp: list_all_iff)
  show ?case
  proof (cases ts)
    case (Cons u us)
    show ?thesis
    proof (cases "findChildNode ?n p (d + 1)")
      case None
      then have notin: "p \<notin> node_path ` set cs"
        using child_matches_wf wf d by (auto simp: findChildNode_def find_index_None)
      let ?c = "node_insert ps (Node p False (d + 1) 1 [])"
      have IH: "follow ?c us \<noteq> None \<longleftrightarrow> follow (Node p False (d + 1) 1 []) us \<noteq> None \<or> prefix us ps"
        by (rule "2.IH"(1) [OF None, of "k + 1"]) (use "2.prems" d in auto)
      have "List.find (\<lambda>c. node_path c = u) (cs @ [?c]) =
          (case List.find (\<lambda>c. node_path c = u) cs of
             None \<Rightarrow> if u = p then Some ?c else None | Some c \<Rightarrow> Some c)"
        by (induction cs) auto
      moreover have "u = p \<Longrightarrow> List.find (\<lambda>c. node_path c = u) cs = None"
        using notin by (auto simp: find_None_iff)
      ultimately show ?thesis using Cons None IH by (auto simp: follow_fresh split: option.splits)
    next
      case (Some i)
      then have i: "i < length cs" and m: "node_path (cs ! i) = p"
        using child_matches_wf wf d by (auto simp: findChildNode_def dest!: find_index_Some)
      let ?c = "node_insert ps (touch (cs ! i))"
      have IH: "follow ?c us \<noteq> None \<longleftrightarrow> follow (touch (cs ! i)) us \<noteq> None \<or> prefix us ps"
        by (rule "2.IH"(2) [OF Some, of "k + 1"]) (use "2.prems" wf i in auto)
      have paths: "map node_path (cs[i := ?c]) = map node_path cs"
        using i by (simp add: map_update list_update_same_conv)
      have same: "u = p \<Longrightarrow> List.find (\<lambda>c. node_path c = u) (cs[i := ?c]) = Some ?c"
        "u = p \<Longrightarrow> List.find (\<lambda>c. node_path c = u) cs = Some (cs ! i)"
        using i m dist paths by (auto simp: find_Some_iff_distinct set_update_memI)
      have other: "u \<noteq> p \<Longrightarrow> List.find (\<lambda>c. node_path c = u) (cs[i := ?c]) =
          List.find (\<lambda>c. node_path c = u) cs"
        using i m by (induction cs arbitrary: i) (auto split: nat.splits)
      show ?thesis
      proof (cases "u = p")
        case True
        then show ?thesis using Cons Some IH same follow_touch [of "cs ! i" us] by auto
      next
        case False
        then show ?thesis using Cons Some other by auto
      qed
    qed
  qed simp
qed

text \<open>No node below the root is a directory before aggregation.\<close>

fun no_dirs_below :: "node \<Rightarrow> bool" where
  "no_dirs_below (Node p b d t cs) \<longleftrightarrow> list_all (\<lambda>c. \<not> node_isDir c \<and> no_dirs_below c) cs"

lemma no_dirs_below_touch [simp]: "no_dirs_below (touch n) = no_dirs_below n"
  by (cases n) auto

lemma no_dirs_below_insert: "no_dirs_below n \<Longrightarrow> no_dirs_below (node_insert ps n)"
proof (induction ps n rule: node_insert.induct)
  case (2 p ps q b d t cs)
  let ?n = "Node q b d t cs"
  have all: "\<And>c. c \<in> set cs \<Longrightarrow> \<not> node_isDir c \<and> no_dirs_below c"
    using "2.prems" by (auto simp: list_all_iff)
  show ?case
  proof (cases "findChildNode ?n p (d + 1)")
    case None
    then show ?thesis using "2.IH"(1) [OF None] all by (auto simp: list_all_iff)
  next
    case (Some i)
    then have "cs ! i \<in> set cs" by (auto simp: findChildNode_def dest!: find_index_Some)
    then show ?thesis using Some "2.IH"(2) [OF Some] all
      by (auto simp: list_all_iff dest!: set_update_subset_insert [THEN subsetD])
  qed
qed simp

lemma follow_isDir: "no_dirs_below n \<Longrightarrow> ts \<noteq> [] \<Longrightarrow> follow n ts = Some m \<Longrightarrow> \<not> node_isDir m"
proof (induction n ts rule: follow.induct)
  case (2 n t ts)
  then obtain c where c: "List.find (\<lambda>c. node_path c = t) (childNodes n) = Some c" "follow c ts = Some m"
    by (auto split: option.splits)
  then have "c \<in> set (childNodes n)" by (auto dest: find_SomeD)
  then have "\<not> node_isDir c \<and> no_dirs_below c"
    using "2.prems"(1) by (cases n) (auto simp: list_all_iff)
  then show ?case using "2.IH" [OF c(1)] c(2) by (cases "ts = []") auto
qed simp

section \<open>Aggregation\<close>

lemma node_path_aggregate [simp]: "node_path (aggregateChildNodes n) = node_path n"
  by (cases n) auto

lemma childNodes_aggregate:
  "childNodes (aggregateChildNodes n) =
     (if length (childNodes n) > Threshold then [] else map aggregateChildNodes (childNodes n))"
  by (cases n) auto

lemma node_isDir_aggregate:
  "node_isDir (aggregateChildNodes n) \<longleftrightarrow> node_isDir n \<or> length (childNodes n) > Threshold"
  by (cases n) auto

lemma find_map_path:
  "(\<And>c. node_path (f c) = node_path c) \<Longrightarrow>
   List.find (\<lambda>c. node_path c = t) (map f cs) = map_option f (List.find (\<lambda>c. node_path c = t) cs)"
  by (induction cs) auto

lemma strict_prefix_Cons_iff:
  "strict_prefix us (t # ts) \<longleftrightarrow> us = [] \<or> (\<exists>vs. us = t # vs \<and> strict_prefix vs ts)"
  by (cases us) auto

text \<open>
  What is left after aggregation: the nodes none of whose proper ancestors has more children
  than the threshold, each of them aggregated.
\<close>

lemma follow_aggregate:
  "follow (aggregateChildNodes n) ts = Some m \<longleftrightarrow>
   (\<exists>m0. follow n ts = Some m0 \<and> m = aggregateChildNodes m0 \<and>
     (\<forall>us. strict_prefix us ts \<longrightarrow>
        (\<forall>m'. follow n us = Some m' \<longrightarrow> length (childNodes m') \<le> Threshold)))"
proof (induction ts arbitrary: n)
  case (Cons t ts)
  let ?find = "List.find (\<lambda>c. node_path c = t) (childNodes n)"
  show ?case
  proof (cases "length (childNodes n) > Threshold")
    case True
    then have "\<not> (\<forall>us. strict_prefix us (t # ts) \<longrightarrow>
        (\<forall>m'. follow n us = Some m' \<longrightarrow> length (childNodes m') \<le> Threshold))"
      by (metis follow.simps(1) not_le strict_prefix_simps(2))
    then show ?thesis using True by (auto simp: childNodes_aggregate)
  next
    case False
    show ?thesis
    proof (cases ?find)
      case None
      then show ?thesis using False by (simp add: childNodes_aggregate find_map_path)
    next
      case (Some c)
      have "(\<forall>us. strict_prefix us (t # ts) \<longrightarrow>
          (\<forall>m'. follow n us = Some m' \<longrightarrow> length (childNodes m') \<le> Threshold)) \<longleftrightarrow>
        (\<forall>us. strict_prefix us ts \<longrightarrow>
          (\<forall>m'. follow c us = Some m' \<longrightarrow> length (childNodes m') \<le> Threshold))"
        using False Some by (auto simp: strict_prefix_Cons_iff)
      then show ?thesis
        using False Some Cons.IH [of c] by (simp add: childNodes_aggregate find_map_path)
    qed
  qed
qed auto

lemma node_wf_aggregate: "node_wf k n \<Longrightarrow> node_wf k (aggregateChildNodes n)"
proof (induction n arbitrary: k rule: aggregateChildNodes.induct)
  case (1 p b d t cs)
  then show ?case by (auto simp: list_all_iff comp_def)
qed

section \<open>The generated paths\<close>

text \<open>The leaves in depth-first order, each with the components that lead to it.\<close>

fun leaves :: "node \<Rightarrow> (string list \<times> bool) list" where
  "leaves (Node p b d t cs) =
     (if cs = [] then [([p], b)] else map (\<lambda>(ts, b). (p # ts, b)) (concat (map leaves cs)))"

definition put_path :: "string \<Rightarrow> string list \<times> bool \<Rightarrow> (string \<times> bool) list \<Rightarrow> (string \<times> bool) list" where
  "put_path parent tb = AList.update (parent @ concat (fst tb)) (snd tb)"

lemma fold_concat_map: "fold f (concat xss) r = fold (\<lambda>xs r. fold f xs r) xss r"
  by (induction xss arbitrary: r) auto

lemma generatePaths_leaves:
  "generatePaths n r parent = fold (put_path parent) (leaves n) r"
proof (induction n r parent rule: generatePaths.induct)
  case (1 p b d t cs r parent)
  have shift: "(\<lambda>x. put_path parent (case x of (ts, b) \<Rightarrow> (p # ts, b))) = put_path (parent @ p)"
    by (auto simp: fun_eq_iff put_path_def)
  have "fold (\<lambda>c r. generatePaths c r (parent @ p)) cs r =
      fold (\<lambda>c r. fold (put_path (parent @ p)) (leaves c) r) cs r"
    by (rule fold_cong) (use "1.IH" in auto)
  also have "\<dots> = fold (put_path (parent @ p)) (concat (map leaves cs)) r"
    by (simp add: fold_concat_map fold_map comp_def)
  also have "\<dots> = fold (put_path parent) (map (\<lambda>(ts, b). (p # ts, b)) (concat (map leaves cs))) r"
    by (simp add: fold_map comp_def shift)
  finally show ?case by (cases "cs = []") (simp_all add: put_path_def [of parent "([p], b)"])
qed

lemma set_leaves:
  assumes "node_wf k n"
  shows "(ts, b) \<in> set (leaves n) \<longleftrightarrow>
     (\<exists>us m. ts = node_path n # us \<and> follow n us = Some m \<and> childNodes m = [] \<and> node_isDir m = b)"
  using assms
proof (induction n arbitrary: k ts b rule: leaves.induct)
  case (1 p bd d t cs)
  show ?case
  proof (cases "cs = []")
    case True
    then show ?thesis by (auto simp: follow_fresh split: if_splits)
  next
    case False
    have dist: "distinct (map node_path cs)" and wf: "\<And>c. c \<in> set cs \<Longrightarrow> node_wf (k + 1) c"
      using "1.prems" by (auto simp: list_all_iff)
    have IH: "\<And>c ts b. c \<in> set cs \<Longrightarrow> (ts, b) \<in> set (leaves c) \<longleftrightarrow>
        (\<exists>us m. ts = node_path c # us \<and> follow c us = Some m \<and> childNodes m = [] \<and> node_isDir m = b)"
      using "1.IH" [OF False] wf by blast
    have "(ts, b) \<in> set (leaves (Node p bd d t cs)) \<longleftrightarrow>
        (\<exists>vs. ts = p # vs \<and> (\<exists>c \<in> set cs. (vs, b) \<in> set (leaves c)))"
      using False by auto
    also have "\<dots> \<longleftrightarrow> (\<exists>c \<in> set cs. \<exists>us m. ts = p # node_path c # us \<and>
        follow c us = Some m \<and> childNodes m = [] \<and> node_isDir m = b)"
      using IH by auto
    also have "\<dots> \<longleftrightarrow> (\<exists>us m. ts = p # us \<and> follow (Node p bd d t cs) us = Some m \<and>
        childNodes m = [] \<and> node_isDir m = b)" (is "?L \<longleftrightarrow> ?R")
    proof
      assume ?L
      then obtain c us m where c: "c \<in> set cs" "ts = p # node_path c # us" "follow c us = Some m"
        "childNodes m = []" "node_isDir m = b" by blast
      have "List.find (\<lambda>d. node_path d = node_path c) cs = Some c"
        using c(1) dist by (simp add: find_Some_iff_distinct)
      then have "follow (Node p bd d t cs) (node_path c # us) = Some m" using c by simp
      then show ?R using c by blast
    next
      assume ?R
      then obtain us m where u: "ts = p # us" "follow (Node p bd d t cs) us = Some m"
        "childNodes m = []" "node_isDir m = b" by blast
      with False obtain v vs where us: "us = v # vs" by (cases us) auto
      then obtain c where c: "List.find (\<lambda>d. node_path d = v) cs = Some c" "follow c vs = Some m"
        using u by (auto split: option.splits)
      then have "c \<in> set cs \<and> node_path c = v" using dist by (simp add: find_Some_iff_distinct)
      then have "c \<in> set cs" "ts = p # node_path c # vs" using u us by auto
      then show ?L using c(2) u(3,4) by (intro bexI [of _ c] exI conjI)
    qed
    finally show ?thesis by simp
  qed
qed

lemma follow_wf: "node_wf k n \<Longrightarrow> follow n ts = Some m \<Longrightarrow> node_wf (k + int (length ts)) m"
proof (induction ts arbitrary: k n)
  case (Cons t ts)
  then obtain c where c: "List.find (\<lambda>c. node_path c = t) (childNodes n) = Some c" "follow c ts = Some m"
    by (auto split: option.splits)
  then have "c \<in> set (childNodes n)" by (auto dest: find_SomeD)
  then have "node_wf (k + 1) c" using Cons.prems(1) node_wf_children by blast
  then show ?case using Cons.IH c(2) by (fastforce simp: algebra_simps)
qed simp

lemma follow_good: "node_wf k n \<Longrightarrow> follow n ts = Some m \<Longrightarrow> \<forall>t \<in> set ts. good_token t"
proof (induction ts arbitrary: k n)
  case (Cons t ts)
  then obtain c where c: "List.find (\<lambda>c. node_path c = t) (childNodes n) = Some c" "follow c ts = Some m"
    by (auto split: option.splits)
  then have mem: "c \<in> set (childNodes n)" and "node_path c = t"
    by (auto dest: find_SomeD)
  moreover have "node_wf (k + 1) c" using mem Cons.prems(1) node_wf_children by blast
  ultimately show ?case using Cons.IH c(2) node_wf_path by fastforce
qed simp

text \<open>The children of the node at \<^verbatim>\<open>ts\<close> are the ways in which \<^verbatim>\<open>ts\<close> continues.\<close>

lemma follow_snoc:
  "follow n (ts @ [t]) =
     (case follow n ts of None \<Rightarrow> None
      | Some m \<Rightarrow> List.find (\<lambda>c. node_path c = t) (childNodes m))"
proof (induction ts arbitrary: n)
  case Nil
  show ?case by (auto split: option.splits)
qed (auto split: option.splits)

lemma children_card:
  assumes "node_wf k n" and "follow n ts = Some m"
  shows "length (childNodes m) = card {t. follow n (ts @ [t]) \<noteq> None}"
proof -
  have wf: "node_wf (k + int (length ts)) m" using assms by (rule follow_wf)
  have "{t. follow n (ts @ [t]) \<noteq> None} = set (map node_path (childNodes m))"
    using assms(2) by (auto simp: follow_snoc find_None_iff image_iff)
  moreover have "distinct (map node_path (childNodes m))" using wf by (cases m) auto
  ultimately show ?thesis by (metis distinct_card length_map)
qed

end
