(* ===== verification/PathAggregator.thy ===== *)
theory PathAggregator
  imports PathTree
begin

text \<open>
  The functions of \<^verbatim>\<open>common/pathAggregator.go\<close> on whole sets of paths:
  \<^verbatim>\<open>buildPathTree\<close>, \<^verbatim>\<open>AggregatePaths\<close>, \<^verbatim>\<open>mergeFileInDir\<close>,
  \<^verbatim>\<open>MergeAndAggregatePaths\<close> and \<^verbatim>\<open>AggregatePathsExt\<close>. The specification
  \<^verbatim>\<open>agg_leaf\<close> says on the set of component lists which paths the aggregation yields; the
  lemma \<^verbatim>\<open>set_AggregatePaths\<close> shows that the tree computes exactly that set, in whatever
  order the maps are iterated.
\<close>

record SysPath =
  sp_Path :: string
  sp_IsDir :: bool

type_synonym tree_map = "(string \<times> node) list"

section \<open>Building the tree\<close>

text \<open>The body of the loop over the sorted paths.\<close>

definition insert_path :: "string \<Rightarrow> tree_map \<Rightarrow> tree_map" where
  "insert_path path treeMap =
     (if path = ''/'' then treeMap
      else case path_tokens path of
        [] \<Rightarrow> treeMap
      | rootPath # rest \<Rightarrow>
          (let tokenizedPaths = (if rootPath = ''/tmp'' then path_tokens ''/tmp/'' else rootPath # rest)
           in case map_of treeMap rootPath of
                None \<Rightarrow>
                  treeMap @ [(rootPath, node_insert (tl tokenizedPaths)
                    (Node rootPath (rootPath = ''/tmp'') 0 1 []))]
              | Some rootNode \<Rightarrow>
                  AList.update rootPath (node_insert (tl tokenizedPaths) (touch rootNode)) treeMap))"

definition buildPathTree :: "tree_map \<Rightarrow> string list \<Rightarrow> tree_map" where
  "buildPathTree treeMap paths = fold insert_path (sort paths) treeMap"

section \<open>Aggregation\<close>

text \<open>A loop over the roots that mutates each of them.\<close>

definition map_roots :: "(node \<Rightarrow> node) \<Rightarrow> tree_map \<Rightarrow> tree_map" where
  "map_roots f treeMap = map (\<lambda>(k, n). (k, f n)) treeMap"

definition generate_all :: "(tree_map \<Rightarrow> tree_map) \<Rightarrow> tree_map \<Rightarrow> (string \<times> bool) list" where
  "generate_all ord treeMap = fold (\<lambda>(k, n) r. generatePaths n r []) (ord treeMap) []"

definition with_slash :: "string \<Rightarrow> string" where
  "with_slash p = (if HasSuffix p ''/'' then p else p @ ''/'')"

definition AggregatePaths ::
  "(tree_map \<Rightarrow> tree_map) \<Rightarrow> ((string \<times> bool) list \<Rightarrow> (string \<times> bool) list) \<Rightarrow> string list \<Rightarrow> SysPath list" where
  "AggregatePaths ord ord' paths =
     (let treeMap = map_roots aggregateChildNodes (buildPathTree [] paths)
      in map (\<lambda>(path, isDir). \<lparr>sp_Path = (if isDir \<and> \<not> HasSuffix path ''/'' then path @ ''/'' else path),
                sp_IsDir = isDir\<rparr>)
           (ord' (generate_all ord treeMap)))"

definition MergeAndAggregatePaths ::
  "(tree_map \<Rightarrow> tree_map) \<Rightarrow> ((string \<times> bool) list \<Rightarrow> (string \<times> bool) list) \<Rightarrow>
   string list \<Rightarrow> string list \<Rightarrow> SysPath list" where
  "MergeAndAggregatePaths ord ord' dirs paths =
     (let treeMap = map_roots makeChildNodeToDir (buildPathTree [] dirs);
          treeMap = buildPathTree treeMap paths;
          treeMap = map_roots aggregateChildNodes treeMap
      in map (\<lambda>(path, isDir). \<lparr>sp_Path = path, sp_IsDir = isDir\<rparr>) (ord' (generate_all ord treeMap)))"

text \<open>The set of directories is the list of its elements, each once.\<close>

definition mergeFileInDir :: "string list \<Rightarrow> string list \<times> string list" where
  "mergeFileInDir paths =
     (let dirlist = append_missing [] (filter (\<lambda>p. HasSuffix p ''/'') paths);
          filelist = filter (\<lambda>p. \<not> HasSuffix p ''/'') paths
      in if length dirlist \<le> 0 then (dirlist, filelist)
         else (dirlist, filter (\<lambda>p. \<not> ContainsElement dirlist (Dir p @ ''/'')) filelist))"

definition AggregatePathsExt ::
  "(tree_map \<Rightarrow> tree_map) \<Rightarrow> ((string \<times> bool) list \<Rightarrow> (string \<times> bool) list) \<Rightarrow>
   (string list \<Rightarrow> string list) \<Rightarrow> string list \<Rightarrow> string list" where
  "AggregatePathsExt ord ord' ord'' paths =
     (let (dirlist, filelist) = mergeFileInDir paths;
          results = AggregatePaths ord ord' filelist;
          flist = concat (map (\<lambda>sp.
            (if sp_IsDir sp
             then (let rec = with_slash (sp_Path sp)
                   in if ContainsElement dirlist rec then [] else [rec])
             else [sp_Path sp])) results)
      in sort (flist @ ord'' dirlist))"

section \<open>Specification\<close>

text \<open>The components under which a path is filed; everything under \<^verbatim>\<open>/tmp\<close> is one directory.\<close>

definition components :: "string \<Rightarrow> string list" where
  "components p =
     (let ts = path_tokens p in if ts \<noteq> [] \<and> hd ts = ''/tmp'' then [''/tmp''] else ts)"

definition all_components :: "string list \<Rightarrow> string list set" where
  "all_components ps = components ` set ps - {[]}"

definition no_wild :: "string list \<Rightarrow> bool" where
  "no_wild ps \<longleftrightarrow> list_all (\<lambda>p. list_all (\<lambda>t. t \<notin> set WildPaths) (path_tokens p)) ps"

text \<open>The different ways in which the recorded paths go on after \<^verbatim>\<open>ts\<close>.\<close>

definition kids :: "string list set \<Rightarrow> string list \<Rightarrow> string set" where
  "kids C ts = {t. \<exists>p \<in> C. prefix (ts @ [t]) p}"

text \<open>
  A path of the result: a prefix of a recorded path, no proper prefix of which goes on in more
  than \<^verbatim>\<open>Threshold\<close> ways. It is a directory if it goes on in more ways than that itself; if it
  does not go on at all it is a file.
\<close>

definition agg_leaf :: "string list set \<Rightarrow> string list \<Rightarrow> bool \<Rightarrow> bool" where
  "agg_leaf C ts d \<longleftrightarrow>
     ts \<noteq> [] \<and> (\<exists>p \<in> C. prefix ts p) \<and>
     (\<forall>us. us \<noteq> [] \<longrightarrow> strict_prefix us ts \<longrightarrow> card (kids C us) \<le> Threshold) \<and>
     (if card (kids C ts) > Threshold then d else kids C ts = {} \<and> (d \<longleftrightarrow> ts = [''/tmp'']))"

section \<open>The tree holds the components\<close>

definition node_rel :: "string list set \<Rightarrow> string \<Rightarrow> node \<Rightarrow> bool" where
  "node_rel C r n \<longleftrightarrow> node_path n = r \<and> node_wf 0 n \<and> no_dirs_below n \<and>
     (node_isDir n \<longleftrightarrow> r = ''/tmp'') \<and>
     (\<forall>us. follow n us \<noteq> None \<longleftrightarrow> (\<exists>ts \<in> C. prefix (r # us) ts))"

definition tree_rel :: "string list set \<Rightarrow> tree_map \<Rightarrow> bool" where
  "tree_rel C tm \<longleftrightarrow> distinct (map fst tm) \<and> fst ` set tm = hd ` C \<and> (\<forall>(r, n) \<in> set tm. node_rel C r n)"

lemma node_rel_mono:
  assumes "node_rel C r n" and "hd ts \<noteq> r"
  shows "node_rel (insert ts C) r n"
proof -
  have "\<not> prefix (r # us) ts" for us using assms(2) by (cases ts) auto
  then show ?thesis using assms(1) by (simp add: node_rel_def)
qed

lemma node_rel_insert:
  assumes rel: "node_rel C r n" and good: "\<forall>t \<in> set rest. t \<notin> set WildPaths \<and> good_token t"
  shows "node_rel (insert (r # rest) C) r (node_insert rest (touch n))"
proof -
  have wf: "node_wf 0 (touch n)" using rel by (simp add: node_rel_def)
  have "follow (node_insert rest (touch n)) us \<noteq> None \<longleftrightarrow>
      (\<exists>ts \<in> insert (r # rest) C. prefix (r # us) ts)" for us
    using follow_insert [OF wf good, of us] follow_touch [of n us] rel by (auto simp: node_rel_def)
  then show ?thesis
    using rel node_wf_insert [OF wf good] by (simp add: node_rel_def no_dirs_below_insert)
qed

lemma node_rel_new:
  assumes good: "\<forall>t \<in> set (r # rest). t \<notin> set WildPaths \<and> good_token t" and "r \<notin> hd ` C"
    and "[] \<notin> C"
  shows "node_rel (insert (r # rest) C) r (node_insert rest (Node r (r = ''/tmp'') 0 1 []))"
proof -
  let ?n = "Node r (r = ''/tmp'') 0 1 []"
  have wf: "node_wf 0 ?n" using good by simp
  have none: "\<not> prefix (r # us) ts" if "ts \<in> C" for us ts
    using that assms(2,3) by (cases ts) (auto simp: rev_image_eqI)
  have "follow (node_insert rest ?n) us \<noteq> None \<longleftrightarrow> (\<exists>ts \<in> insert (r # rest) C. prefix (r # us) ts)" for us
    using follow_insert [OF wf, of rest us] good none by (auto simp: follow_fresh split: if_splits)
  then show ?thesis
    using node_wf_insert [OF wf, of rest] good by (simp add: node_rel_def no_dirs_below_insert)
qed

lemma good_tmp: "good_token ''/tmp'' \<and> ''/tmp'' \<notin> set WildPaths"
  by (simp add: good_token_def WildPaths_def WildPathChar_def WildPathDigit_def)

text \<open>The loop body of \<^verbatim>\<open>buildPathTree\<close>, on components.\<close>

lemma insert_path_eq:
  "insert_path p tm =
     (case components p of
        [] \<Rightarrow> tm
      | r # rest \<Rightarrow>
          (case map_of tm r of
             None \<Rightarrow> tm @ [(r, node_insert rest (Node r (r = ''/tmp'') 0 1 []))]
           | Some n \<Rightarrow> AList.update r (node_insert rest (touch n)) tm))"
proof -
  have tmp: "path_tokens ''/tmp/'' = [''/tmp'']" by simp
  show ?thesis
  proof (cases "path_tokens p")
    case Nil
    then show ?thesis by (auto simp: insert_path_def components_def)
  next
    case (Cons r rest)
    then have "p \<noteq> ''/''" by auto
    then show ?thesis using Cons tmp
      by (simp add: insert_path_def components_def Let_def del: path_tokens.simps split: option.splits)
  qed
qed

lemma components_ok:
  assumes "list_all (\<lambda>t. t \<notin> set WildPaths) (path_tokens p)"
  shows "\<forall>t \<in> set (components p). t \<notin> set WildPaths \<and> good_token t"
  using assms path_tokens_good [of _ p] good_tmp by (auto simp: components_def Let_def list_all_iff)

lemma tree_rel_step:
  assumes rel: "tree_rel C tm" and ok: "\<forall>t \<in> set (components p). t \<notin> set WildPaths \<and> good_token t"
    and "[] \<notin> C"
  shows "tree_rel (if components p = [] then C else insert (components p) C) (insert_path p tm)"
proof (cases "components p")
  case Nil
  then show ?thesis using rel by (simp add: insert_path_eq)
next
  case (Cons r rest)
  show ?thesis
  proof (cases "map_of tm r")
    case None
    then have new: "r \<notin> hd ` C" using rel by (metis map_of_eq_None_iff tree_rel_def)
    then have "node_rel (insert (r # rest) C) r (node_insert rest (Node r (r = ''/tmp'') 0 1 []))"
      using ok Cons assms(3) by (intro node_rel_new) auto
    moreover have "(k, n) \<in> set tm \<Longrightarrow> node_rel (insert (r # rest) C) k n" for k n
      using rel new by (intro node_rel_mono) (auto simp: tree_rel_def rev_image_eqI)
    ultimately show ?thesis
      using rel Cons None new by (auto simp: tree_rel_def insert_path_eq rev_image_eqI)
  next
    case (Some n)
    then have mem: "(r, n) \<in> set tm" by (rule map_of_SomeD)
    then have "node_rel (insert (r # rest) C) r (node_insert rest (touch n))"
      using rel ok Cons by (intro node_rel_insert) (auto simp: tree_rel_def)
    moreover have "k \<noteq> r \<Longrightarrow> (k, m) \<in> set tm \<Longrightarrow> node_rel (insert (r # rest) C) k m" for k m
      using rel by (intro node_rel_mono) (auto simp: tree_rel_def)
    moreover have "distinct (map fst tm)" using rel by (simp add: tree_rel_def)
    ultimately have "\<forall>(k, m) \<in> set (insert_path p tm). node_rel (insert (r # rest) C) k m"
      and "fst ` set (insert_path p tm) = insert r (fst ` set tm)"
      and "distinct (map fst (insert_path p tm))"
      using Some mem Cons
      by (auto simp: insert_path_eq set_AList_update distinct_AList_update image_iff)
    then show ?thesis using rel Cons by (simp add: tree_rel_def)
  qed
qed

lemma tree_rel_build:
  assumes "no_wild ps"
  shows "tree_rel (all_components ps) (buildPathTree [] ps)"
proof -
  have "tree_rel (C \<union> all_components qs) (fold insert_path qs tm)"
    if "no_wild qs" "tree_rel C tm" "[] \<notin> C" for qs C tm
    using that
  proof (induction qs arbitrary: C tm)
    case (Cons q qs)
    let ?C = "if components q = [] then C else insert (components q) C"
    have "tree_rel ?C (insert_path q tm)"
      using Cons.prems by (intro tree_rel_step components_ok) (auto simp: no_wild_def)
    moreover have "?C \<union> all_components qs = C \<union> all_components (q # qs)"
      by (auto simp: all_components_def)
    ultimately show ?case
      using Cons.IH [of ?C "insert_path q tm"] Cons.prems by (auto simp: no_wild_def)
  qed (simp add: all_components_def)
  from this [of "sort ps" "{}" "[]"] assms show ?thesis
    by (simp add: buildPathTree_def tree_rel_def no_wild_def all_components_def list_all_iff)
qed

section \<open>The tree computes the specification\<close>

lemma node_rel_follow:
  assumes "node_rel C r n" and "follow n us = Some m"
  shows "length (childNodes m) = card (kids C (r # us))"
    and "childNodes m = [] \<longleftrightarrow> kids C (r # us) = {}"
    and "node_isDir m \<longleftrightarrow> r # us = [''/tmp'']"
proof -
  have wf: "node_wf 0 n" using assms(1) by (simp add: node_rel_def)
  have kids: "{t. follow n (us @ [t]) \<noteq> None} = kids C (r # us)"
    using assms(1) by (auto simp: node_rel_def kids_def)
  show len: "length (childNodes m) = card (kids C (r # us))"
    using children_card [OF wf assms(2)] kids by simp
  have "kids C (r # us) = set (map node_path (childNodes m))"
    unfolding kids [symmetric] using assms(2) by (auto simp: follow_snoc find_None_iff image_iff)
  then show "childNodes m = [] \<longleftrightarrow> kids C (r # us) = {}" by auto
  show "node_isDir m \<longleftrightarrow> r # us = [''/tmp'']"
  proof (cases us)
    case Nil
    then show ?thesis using assms by (simp add: node_rel_def)
  next
    case (Cons v vs)
    then show ?thesis using assms follow_isDir [of n us m] by (simp add: node_rel_def)
  qed
qed

lemma leaves_aggregate:
  assumes rel: "node_rel C r n"
  shows "(ts, d) \<in> set (leaves (aggregateChildNodes n)) \<longleftrightarrow> ts \<noteq> [] \<and> hd ts = r \<and> agg_leaf C ts d"
proof -
  have wf: "node_wf 0 (aggregateChildNodes n)" and r: "node_path n = r"
    using rel by (auto simp: node_rel_def node_wf_aggregate)
  have anc: "(\<forall>vs. strict_prefix vs us \<longrightarrow>
        (\<forall>m'. follow n vs = Some m' \<longrightarrow> length (childNodes m') \<le> Threshold)) \<longleftrightarrow>
      (\<forall>vs. vs \<noteq> [] \<longrightarrow> strict_prefix vs (r # us) \<longrightarrow> card (kids C vs) \<le> Threshold)"
    if "follow n us = Some m" for us m
  proof -
    have "\<exists>m'. follow n vs = Some m'" if "strict_prefix vs us" for vs
    proof -
      have "\<exists>ts \<in> C. prefix (r # us) ts" using rel \<open>follow n us = Some m\<close> by (auto simp: node_rel_def)
      then have "\<exists>ts \<in> C. prefix (r # vs) ts"
        using that by (meson Cons_prefix_Cons prefix_order.order_trans prefix_order.less_imp_le)
      then show ?thesis using rel by (auto simp: node_rel_def)
    qed
    then show ?thesis
      using node_rel_follow(1) [OF rel] by (auto simp: strict_prefix_Cons_iff)
  qed
  have leaf: "childNodes (aggregateChildNodes m) = [] \<and> node_isDir (aggregateChildNodes m) = d \<longleftrightarrow>
      (if card (kids C (r # us)) > Threshold then d
       else kids C (r # us) = {} \<and> (d \<longleftrightarrow> r # us = [''/tmp'']))"
    if "follow n us = Some m" for us m
    using node_rel_follow [OF rel that]
    by (auto simp: childNodes_aggregate node_isDir_aggregate)
  have ex: "(\<exists>p \<in> C. prefix (r # us) p) \<longleftrightarrow> (\<exists>m. follow n us = Some m)" for us
    using rel by (auto simp: node_rel_def)
  have "(ts, d) \<in> set (leaves (aggregateChildNodes n)) \<longleftrightarrow>
      (\<exists>us m. ts = r # us \<and> follow n us = Some m \<and>
        (\<forall>vs. strict_prefix vs us \<longrightarrow>
          (\<forall>m'. follow n vs = Some m' \<longrightarrow> length (childNodes m') \<le> Threshold)) \<and>
        childNodes (aggregateChildNodes m) = [] \<and> node_isDir (aggregateChildNodes m) = d)"
    unfolding set_leaves [OF wf] follow_aggregate node_path_aggregate r by blast
  also have "\<dots> \<longleftrightarrow> (\<exists>us. ts = r # us \<and> agg_leaf C (r # us) d)"
    unfolding agg_leaf_def ex using anc leaf by (simp cong: conj_cong)
  also have "\<dots> \<longleftrightarrow> ts \<noteq> [] \<and> hd ts = r \<and> agg_leaf C ts d" by (cases ts) auto
  finally show ?thesis .
qed

lemma agg_leaf_fun: "agg_leaf C ts d \<Longrightarrow> agg_leaf C ts d' \<Longrightarrow> d = d'"
  by (auto simp: agg_leaf_def split: if_splits)

lemma agg_leaf_good:
  assumes "agg_leaf (all_components ps) ts d"
  shows "\<forall>t \<in> set ts. good_token t"
proof -
  obtain p where p: "p \<in> all_components ps" "prefix ts p" using assms by (auto simp: agg_leaf_def)
  then have "\<forall>t \<in> set p. good_token t"
    using path_tokens_good good_tmp by (auto simp: all_components_def components_def Let_def split: if_splits)
  then show ?thesis using p(2) by (auto dest: set_mono_prefix)
qed

lemma set_generate_all:
  assumes wild: "no_wild ps" and ord: "iter_order ord"
  shows "set (generate_all ord (map_roots aggregateChildNodes (buildPathTree [] ps))) =
    {(concat ts, d) |ts d. agg_leaf (all_components ps) ts d}"
proof -
  let ?C = "all_components ps" and ?tm = "buildPathTree [] ps"
  have rel: "tree_rel ?C ?tm" using wild by (rule tree_rel_build)
  define L where "L = concat (map (leaves \<circ> snd) (ord (map_roots aggregateChildNodes ?tm)))"
  have "(ts, d) \<in> set L \<longleftrightarrow> (\<exists>(r, n) \<in> set ?tm. (ts, d) \<in> set (leaves (aggregateChildNodes n)))" for ts d
    using iter_order_set [OF ord] by (simp add: L_def map_roots_def case_prod_unfold)
  moreover have "(\<exists>(r, n) \<in> set ?tm. (ts, d) \<in> set (leaves (aggregateChildNodes n))) \<longleftrightarrow> agg_leaf ?C ts d" for ts d
  proof
    assume "\<exists>(r, n) \<in> set ?tm. (ts, d) \<in> set (leaves (aggregateChildNodes n))"
    then obtain r n where "node_rel ?C r n" "(ts, d) \<in> set (leaves (aggregateChildNodes n))"
      using rel by (auto simp: tree_rel_def)
    then show "agg_leaf ?C ts d" using leaves_aggregate by blast
  next
    assume leaf: "agg_leaf ?C ts d"
    then have "ts \<noteq> []" and "hd ts \<in> hd ` ?C"
      by (auto simp: agg_leaf_def prefix_def) (metis hd_append2 imageI)
    then have "hd ts \<in> fst ` set ?tm" using rel by (simp add: tree_rel_def)
    then obtain n where "(hd ts, n) \<in> set ?tm" by auto
    moreover from this have "node_rel ?C (hd ts) n" using rel by (auto simp: tree_rel_def)
    then have "(ts, d) \<in> set (leaves (aggregateChildNodes n))"
      using leaf \<open>ts \<noteq> []\<close> leaves_aggregate by blast
    ultimately show "\<exists>(r, n) \<in> set ?tm. (ts, d) \<in> set (leaves (aggregateChildNodes n))"
      by blast
  qed
  ultimately have "(ts, d) \<in> set L \<longleftrightarrow> agg_leaf ?C ts d" for ts d by simp
  then have L: "set L = {(ts, d). agg_leaf ?C ts d}" by auto
  have put: "put_path [] = (\<lambda>x. AList.update (concat (fst x)) (snd x))"
    by (simp add: put_path_def fun_eq_iff)
  have "generate_all ord (map_roots aggregateChildNodes ?tm) = fold (put_path []) L []"
    by (simp add: generate_all_def L_def generatePaths_leaves fold_concat_map fold_map comp_def case_prod_unfold)
  also have "\<dots> = fold (\<lambda>(k, v). AList.update k v) (map (\<lambda>(ts, d). (concat ts, d)) L) []"
    by (simp add: fold_map comp_def put case_prod_unfold)
  finally have gen: "generate_all ord (map_roots aggregateChildNodes ?tm) =
      fold (\<lambda>(k, v). AList.update k v) (map (\<lambda>(ts, d). (concat ts, d)) L) []" .
  have "v = v'" if kv: "(k, v) \<in> set (map (\<lambda>(ts, d). (concat ts, d)) L)"
    "(k, v') \<in> set (map (\<lambda>(ts, d). (concat ts, d)) L)" for k v v'
  proof -
    obtain ts us where "agg_leaf ?C ts v" "agg_leaf ?C us v'" "concat ts = concat us"
      using kv L by auto
    then show ?thesis using agg_leaf_good concat_good_inj agg_leaf_fun by metis
  qed
  then have "set (generate_all ord (map_roots aggregateChildNodes ?tm)) =
      set (map (\<lambda>(ts, d). (concat ts, d)) L)"
    unfolding gen using fold_AList_update [of "[]" "map (\<lambda>(ts, d). (concat ts, d)) L"] by simp
  then show ?thesis using L by auto
qed

text \<open>The paths that the specification asks for, as the code writes them.\<close>

definition agg_paths :: "string list set \<Rightarrow> SysPath set" where
  "agg_paths C = {\<lparr>sp_Path = (if d then with_slash (concat ts) else concat ts), sp_IsDir = d\<rparr> |ts d. agg_leaf C ts d}"

lemma image_compr2: "f ` {h a b |a b. P a b} = {f (h a b) |a b. P a b}"
  by blast

lemma set_AggregatePaths:
  assumes "no_wild ps" and "iter_order ord" and "iter_order ord'"
  shows "set (AggregatePaths ord ord' ps) = agg_paths (all_components ps)"
proof -
  have same: "(\<lambda>(path, isDir). \<lparr>sp_Path = (if isDir \<and> \<not> HasSuffix path ''/'' then path @ ''/'' else path),
      sp_IsDir = isDir\<rparr>) =
    (\<lambda>(path, d). \<lparr>sp_Path = (if d then with_slash path else path), sp_IsDir = d\<rparr>)"
    by (auto simp: with_slash_def fun_eq_iff)
  have "set (AggregatePaths ord ord' ps) =
      (\<lambda>(path, d). \<lparr>sp_Path = (if d then with_slash path else path), sp_IsDir = d\<rparr>) `
        {(concat ts, d) |ts d. agg_leaf (all_components ps) ts d}"
    using set_generate_all [OF assms(1,2)] iter_order_set [OF assms(3)]
    by (simp add: AggregatePaths_def Let_def same)
  then show ?thesis by (simp add: agg_paths_def image_compr2)
qed

text \<open>A recorded path that goes on in no way is kept, or one of its ancestors is as a directory.\<close>

lemma prefix_take: "prefix us p \<Longrightarrow> us = take (length us) p"
  by (auto simp: prefix_def)

lemma agg_leaf_exists:
  assumes "p \<in> C" and "p \<noteq> []" and "kids C p = {}"
  shows "\<exists>us d. prefix us p \<and> agg_leaf C us d \<and> (d \<or> us = p)"
proof (cases "\<exists>k. 0 < k \<and> k \<le> length p \<and> card (kids C (take k p)) > Threshold")
  case True
  define k where "k = (LEAST k. 0 < k \<and> k \<le> length p \<and> card (kids C (take k p)) > Threshold)"
  from True have k: "0 < k \<and> k \<le> length p \<and> card (kids C (take k p)) > Threshold"
    unfolding k_def by (rule LeastI_ex)
  have "card (kids C us) \<le> Threshold" if "us \<noteq> []" "strict_prefix us (take k p)" for us
  proof -
    have len: "length us < k" using k prefix_length_less [OF that(2)] by simp
    have "prefix us p" using that(2) take_is_prefix [of k p] by (meson prefix_order.less_imp_le prefix_order.trans)
    then have "us = take (length us) p" by (rule prefix_take)
    moreover have "\<not> card (kids C (take (length us) p)) > Threshold"
      using not_less_Least [of "length us", folded k_def] len k that(1) unfolding k_def by fastforce
    ultimately show ?thesis by (metis not_le)
  qed
  then have "agg_leaf C (take k p) True"
    using k assms(1,2) take_is_prefix [of k p] by (auto simp: agg_leaf_def)
  then show ?thesis using take_is_prefix [of k p] by blast
next
  case False
  have "card (kids C us) \<le> Threshold" if us: "us \<noteq> []" "strict_prefix us p" for us
  proof -
    have "us = take (length us) p" using us(2) by (simp add: prefix_take prefix_order.less_imp_le)
    moreover have "length us \<le> length p" using prefix_length_less [OF us(2)] by simp
    ultimately show ?thesis using False us(1) by (metis length_greater_0_conv not_le)
  qed
  then have "agg_leaf C p (p = [''/tmp''])" using assms by (auto simp: agg_leaf_def)
  then show ?thesis by blast
qed

section \<open>What the result permits\<close>

text \<open>
  A path that the components describe completely: it does not end in a slash, and no slash in it
  stands before a newline. A file rule permits its path, a directory rule what lies under it and
  the directory itself.
\<close>

definition canonical :: "string \<Rightarrow> bool" where
  "canonical p \<longleftrightarrow> p \<noteq> [] \<and> concat (path_tokens p) = p"

definition covers :: "SysPath \<Rightarrow> string \<Rightarrow> bool" where
  "covers sp p \<longleftrightarrow> (if sp_IsDir sp then HasPrefix (p @ ''/'') (sp_Path sp) else sp_Path sp = p)"

lemma components_prefix: "prefix (components p) (path_tokens p)"
  by (cases "path_tokens p") (auto simp: components_def Let_def)

lemma canonical_components: "canonical p \<Longrightarrow> components p \<noteq> []"
  by (auto simp: canonical_def components_def Let_def)

lemma under_prefix:
  assumes "canonical p" and "prefix us (components p)"
  shows "HasPrefix (p @ ''/'') (with_slash (concat us))"
proof -
  obtain vs where vs: "path_tokens p = us @ vs"
    using assms(2) components_prefix [of p] by (meson prefixE prefix_order.trans)
  then have p: "p = concat us @ concat vs" using assms(1) by (metis canonical_def concat_append)
  have "\<forall>t \<in> set vs. good_token t" using path_tokens_good [of _ p] vs by simp
  then have "concat vs = [] \<or> (\<exists>s. concat vs = CHR ''/'' # s)" by (rule concat_good_head)
  then show ?thesis using p by (auto simp: with_slash_def HasPrefix_iff)
qed

lemma kids_empty: "(\<And>q. q \<in> C \<Longrightarrow> \<not> strict_prefix ts q) \<Longrightarrow> kids C ts = {}"
  unfolding kids_def by (auto simp: strict_prefix_def prefix_def)

lemma agg_paths_cover:
  assumes p: "p \<in> set ps" "canonical p"
    and last: "\<And>q. q \<in> set ps \<Longrightarrow> \<not> strict_prefix (components p) (components q)"
  shows "\<exists>sp \<in> agg_paths (all_components ps). covers sp p"
proof -
  have "components p \<in> all_components ps"
    using p canonical_components by (auto simp: all_components_def)
  moreover have "kids (all_components ps) (components p) = {}"
    by (rule kids_empty) (use last in \<open>auto simp: all_components_def\<close>)
  ultimately obtain us d where us: "prefix us (components p)" "agg_leaf (all_components ps) us d"
    "d \<or> us = components p"
    using agg_leaf_exists canonical_components p(2) by blast
  show ?thesis
  proof (cases d)
    case True
    then show ?thesis using us under_prefix [OF p(2) us(1)]
      by (intro bexI [of _ "\<lparr>sp_Path = with_slash (concat us), sp_IsDir = True\<rparr>"])
        (auto simp: covers_def agg_paths_def)
  next
    case False
    then have eq: "us = components p" using us(3) by simp
    then have "us \<noteq> [''/tmp'']" using us(2) False by (auto simp: agg_leaf_def split: if_splits)
    then have "us = path_tokens p" using eq by (auto simp: components_def Let_def split: if_splits)
    then have "concat us = p" using p(2) by (simp add: canonical_def)
    then show ?thesis using us(2) False
      by (intro bexI [of _ "\<lparr>sp_Path = p, sp_IsDir = False\<rparr>"]) (auto simp: covers_def agg_paths_def)
  qed
qed

lemma agg_paths_precise:
  assumes sp: "sp \<in> agg_paths (all_components ps)" and can: "\<And>p. p \<in> set ps \<Longrightarrow> p \<noteq> ''/'' \<Longrightarrow> canonical p"
  shows "if sp_IsDir sp
    then sp_Path sp = ''/tmp/'' \<or> Threshold < card {p \<in> set ps. HasPrefix (p @ ''/'') (sp_Path sp)}
    else sp_Path sp \<in> set ps"
proof -
  let ?C = "all_components ps"
  obtain ts d where sp: "sp = \<lparr>sp_Path = (if d then with_slash (concat ts) else concat ts), sp_IsDir = d\<rparr>"
    and leaf: "agg_leaf ?C ts d"
    using sp by (auto simp: agg_paths_def)
  have can': "canonical p" if "p \<in> set ps" "components p \<noteq> []" for p
  proof (rule can [OF that(1)])
    show "p \<noteq> ''/''" using that(2) by (auto simp: components_def)
  qed
  show ?thesis
  proof (cases "card (kids ?C ts) > Threshold")
    case True
    then have d: d using leaf by (simp add: agg_leaf_def)
    let ?U = "{p \<in> set ps. HasPrefix (p @ ''/'') (with_slash (concat ts))}"
    have "kids ?C ts \<subseteq> (\<lambda>p. components p ! length ts) ` ?U"
    proof
      fix t assume "t \<in> kids ?C ts"
      then obtain p where p: "p \<in> set ps" "prefix (ts @ [t]) (components p)"
        by (auto simp: kids_def all_components_def)
      then have "canonical p" "prefix ts (components p)" "components p ! length ts = t"
        using can' by (auto simp: prefix_def)
      then show "t \<in> (\<lambda>p. components p ! length ts) ` ?U"
        using under_prefix p(1) by blast
    qed
    then have "card (kids ?C ts) \<le> card ?U" by (intro surj_card_le) auto
    then show ?thesis using True d sp by simp
  next
    case False
    then have none: "kids ?C ts = {}" and tmp: "d \<longleftrightarrow> ts = [''/tmp'']"
      using leaf by (auto simp: agg_leaf_def)
    obtain p where p: "p \<in> set ps" "components p \<noteq> []" "prefix ts (components p)"
      using leaf by (auto simp: agg_leaf_def all_components_def)
    have "components p = ts"
    proof (rule ccontr)
      assume "components p \<noteq> ts"
      then obtain t us where "components p = ts @ t # us" using p(3) by (metis append_Nil2 neq_Nil_conv prefixE)
      then have "t \<in> kids ?C ts" using p(1) by (auto simp: kids_def all_components_def intro!: rev_bexI)
      then show False using none by simp
    qed
    then show ?thesis using can' [OF p(1,2)] p(1) sp tmp
      by (auto simp: components_def canonical_def with_slash_def HasSuffix_def Let_def split: if_splits)
  qed
qed

section \<open>The list of strings\<close>

text \<open>In a list of strings a directory is what ends in a slash.\<close>

definition covers_string :: "string \<Rightarrow> string \<Rightarrow> bool" where
  "covers_string q p \<longleftrightarrow> q = p \<or> HasSuffix q ''/'' \<and> HasPrefix (p @ ''/'') q"

lemma HasSuffix_with_slash [simp]: "HasSuffix (with_slash q) ''/''"
  by (auto simp: with_slash_def HasSuffix_iff)

lemma with_slash_id: "HasSuffix q ''/'' \<Longrightarrow> with_slash q = q"
  by (simp add: with_slash_def)

lemma set_mergeFileInDir:
  "set (fst (mergeFileInDir ps)) = {p \<in> set ps. HasSuffix p ''/''}"
  "set (snd (mergeFileInDir ps)) = {p \<in> set ps. \<not> HasSuffix p ''/'' \<and> Dir p @ ''/'' \<notin> set ps}"
proof -
  let ?dirs = "filter (\<lambda>p. HasSuffix p ''/'') ps"
  have dir: "HasSuffix (Dir p @ ''/'') ''/''" for p by (simp add: HasSuffix_iff)
  have empty: "append_missing [] ?dirs = [] \<longleftrightarrow> ?dirs = []"
    by (rule append_missing_Nil_iff)
  show "set (fst (mergeFileInDir ps)) = {p \<in> set ps. HasSuffix p ''/''}"
    by (simp add: mergeFileInDir_def Let_def append_missing_Nil_iff filter_empty_conv)
  show "set (snd (mergeFileInDir ps)) = {p \<in> set ps. \<not> HasSuffix p ''/'' \<and> Dir p @ ''/'' \<notin> set ps}"
  proof (cases "?dirs = []")
    case True
    then have "\<And>p. Dir p @ ''/'' \<notin> set ps" using dir by (metis filter_empty_conv)
    then show ?thesis using True by (auto simp: mergeFileInDir_def Let_def)
  next
    case False
    then have "append_missing [] ?dirs \<noteq> []" using empty by blast
    then show ?thesis using dir by (auto simp: mergeFileInDir_def Let_def)
  qed
qed

lemma set_AggregatePathsExt:
  assumes "no_wild (snd (mergeFileInDir ps))" and "iter_order ord" and "iter_order ord'" and "iter_order ord''"
  shows "set (AggregatePathsExt ord ord' ord'' ps) =
    sp_Path ` agg_paths (all_components (snd (mergeFileInDir ps))) \<union> {p \<in> set ps. HasSuffix p ''/''}"
proof -
  let ?d = "fst (mergeFileInDir ps)" and ?f = "snd (mergeFileInDir ps)"
  have sp: "sp \<in> set (AggregatePaths ord ord' ?f) \<Longrightarrow> sp_IsDir sp \<Longrightarrow> with_slash (sp_Path sp) = sp_Path sp" for sp
    using assms(1-3) by (auto simp: set_AggregatePaths agg_paths_def with_slash_id)
  have each: "set (if sp_IsDir sp then (if ContainsElement ?d (with_slash (sp_Path sp)) then []
        else [with_slash (sp_Path sp)]) else [sp_Path sp]) \<union> set ?d = insert (sp_Path sp) (set ?d)"
    if "sp \<in> set (AggregatePaths ord ord' ?f)" for sp
    using sp [OF that] by auto
  have union: "(\<Union>x \<in> X. g x) \<union> D = h ` X \<union> D"
    if "\<And>x. x \<in> X \<Longrightarrow> g x \<union> D = insert (h x) D" for X :: "SysPath set" and g h and D :: "string set"
    using that by blast
  have "set (AggregatePathsExt ord ord' ord'' ps) =
      (\<Union>sp \<in> set (AggregatePaths ord ord' ?f).
        set (if sp_IsDir sp then (if ContainsElement ?d (with_slash (sp_Path sp)) then []
          else [with_slash (sp_Path sp)]) else [sp_Path sp])) \<union> set ?d"
    unfolding AggregatePathsExt_def Let_def case_prod_unfold set_sort set_append set_concat set_map
      image_image iter_order_set [OF assms(4)] by (rule refl)
  also have "\<dots> = sp_Path ` set (AggregatePaths ord ord' ?f) \<union> set ?d"
    by (rule union [OF each])
  finally have "set (AggregatePathsExt ord ord' ord'' ps) =
      sp_Path ` set (AggregatePaths ord ord' ?f) \<union> set ?d" .
  then show ?thesis using assms(1-3) by (simp add: set_AggregatePaths set_mergeFileInDir)
qed

lemma AggregatePathsExt_permits:
  assumes "no_wild (snd (mergeFileInDir ps))"
    and "iter_order ord" and "iter_order ord'" and "iter_order ord''"
    and "p \<in> set ps" and "HasSuffix p ''/'' \<or> canonical p"
    and "\<And>q. q \<in> set ps \<Longrightarrow> \<not> HasSuffix q ''/'' \<Longrightarrow> \<not> strict_prefix (components p) (components q)"
  shows "sorted (AggregatePathsExt ord ord' ord'' ps) \<and>
    (\<exists>q \<in> set (AggregatePathsExt ord ord' ord'' ps). covers_string q p \<or> q = Dir p @ ''/'')"
proof
  let ?f = "snd (mergeFileInDir ps)"
  have set: "set (AggregatePathsExt ord ord' ord'' ps) =
      sp_Path ` agg_paths (all_components ?f) \<union> {p \<in> set ps. HasSuffix p ''/''}"
    by (rule set_AggregatePathsExt [OF assms(1-4)])
  show "\<exists>q \<in> set (AggregatePathsExt ord ord' ord'' ps). covers_string q p \<or> q = Dir p @ ''/''"
  proof (cases "p \<in> set ?f")
    case False
    then consider "HasSuffix p ''/''" | "Dir p @ ''/'' \<in> set ps"
      using assms(5) by (auto simp: set_mergeFileInDir)
    then show ?thesis
    proof cases
      case 1
      then show ?thesis using set assms(5) by (intro bexI [of _ p]) (auto simp: covers_string_def)
    next
      case 2
      then show ?thesis
        using set by (intro bexI [of _ "Dir p @ ''/''"]) (auto simp: HasSuffix_iff)
    qed
  next
    case True
    have "\<exists>sp \<in> agg_paths (all_components ?f). covers sp p"
      using True assms(6,7) by (intro agg_paths_cover) (auto simp: set_mergeFileInDir)
    then obtain sp where sp: "sp \<in> agg_paths (all_components ?f)" "covers sp p" by blast
    then have "covers_string (sp_Path sp) p"
      by (auto simp: covers_def covers_string_def agg_paths_def)
    then show ?thesis using set sp(1) by blast
  qed
qed (simp add: AggregatePathsExt_def case_prod_unfold Let_def)

text \<open>The result has no characters that the input did not have, slashes apart.\<close>

lemma path_tokens_chars: "t \<in> set (path_tokens p) \<Longrightarrow> set t \<subseteq> set p"
proof (induction p rule: path_tokens.induct)
  case (3 c d s)
  then show ?case
    by (auto split: if_splits dest: set_takeWhileD set_dropWhileD)
qed simp_all

lemma components_chars: "t \<in> set (components p) \<Longrightarrow> set t \<subseteq> set p"
  using path_tokens_chars set_mono_prefix [OF components_prefix] by blast

lemma AggregatePathsExt_chars:
  assumes "no_wild (snd (mergeFileInDir ps))"
    and "iter_order ord" and "iter_order ord'" and "iter_order ord''"
    and "q \<in> set (AggregatePathsExt ord ord' ord'' ps)" and "c \<in> set q"
  shows "c = CHR ''/'' \<or> (\<exists>p \<in> set ps. c \<in> set p)"
proof -
  consider sp where "sp \<in> agg_paths (all_components (snd (mergeFileInDir ps)))" "q = sp_Path sp" | "q \<in> set ps"
    using assms(5) set_AggregatePathsExt [OF assms(1-4)] by auto
  then show ?thesis
  proof cases
    case 1
    then obtain ts d where leaf: "agg_leaf (all_components (snd (mergeFileInDir ps))) ts d"
      and q: "q = with_slash (concat ts) \<or> q = concat ts"
      by (auto simp: agg_paths_def)
    then obtain p where ts: "p \<in> set ps" "prefix ts (components p)"
      by (auto simp: agg_leaf_def all_components_def set_mergeFileInDir)
    then have sub: "set (concat ts) \<subseteq> set p"
      using components_chars [of _ p] set_mono_prefix [OF ts(2)] by fastforce
    have "c \<in> set (concat ts) \<or> c = CHR ''/''"
      using q assms(6) by (auto simp: with_slash_def split: if_splits)
    then show ?thesis using ts(1) sub by blast
  qed (use assms(6) in blast)
qed

section \<open>Properties\<close>

text \<open>C1: the tree aggregation computes its specification: whatever the order in which Go
  iterates over its two maps, the set of paths that \<^verbatim>\<open>AggregatePaths\<close> returns is exactly the
  set of those prefixes of the observed paths at which no ancestor branches in more than
  \<^verbatim>\<open>Threshold\<close> ways and that either end there (a file) or branch in more ways themselves
  (a directory, with a trailing slash). The paths contain no component that the code reads as a
  regular expression.\<close>

theorem AggregatePaths_exact:
  assumes "no_wild ps" and "iter_order ord" and "iter_order ord'"
  shows "set (AggregatePaths ord ord' ps) = agg_paths (all_components ps)"
  using assms by (rule set_AggregatePaths)

theorem AggregatePaths_exact_witness:
  "set (AggregatePaths rev rev [''/usr/bin/a'', ''/etc/x'', ''/usr/bin/b'']) =
   agg_paths {[''/usr'', ''/bin'', ''/a''], [''/etc'', ''/x''], [''/usr'', ''/bin'', ''/b'']}"
proof -
  have "all_components [''/usr/bin/a'', ''/etc/x'', ''/usr/bin/b''] =
      {[''/usr'', ''/bin'', ''/a''], [''/etc'', ''/x''], [''/usr'', ''/bin'', ''/b'']}"
    by (auto simp: all_components_def components_def)
  moreover have "no_wild [''/usr/bin/a'', ''/etc/x'', ''/usr/bin/b'']" by code_simp
  ultimately show ?thesis using AggregatePaths_exact [of _ rev rev] by simp
qed

text \<open>Nothing observed is lost. A file rule permits its path and a directory rule what lies
  under it; every observed path that is not a proper ancestor of another observed path is permitted
  by a rule of the result.\<close>

theorem AggregatePaths_covers:
  assumes "no_wild ps" and "iter_order ord" and "iter_order ord'"
    and "p \<in> set ps" and "canonical p"
    and "\<And>q. q \<in> set ps \<Longrightarrow> \<not> strict_prefix (components p) (components q)"
  shows "\<exists>sp \<in> set (AggregatePaths ord ord' ps). covers sp p"
  using agg_paths_cover [OF assms(4-6)] set_AggregatePaths [OF assms(1-3)] by simp

theorem AggregatePaths_covers_witness:
  "\<exists>sp \<in> set (AggregatePaths rev id [''/usr/bin/a'', ''/tmp/x'', ''/etc/b'']). covers sp ''/tmp/x''"
proof (rule AggregatePaths_covers)
  show "no_wild [''/usr/bin/a'', ''/tmp/x'', ''/etc/b'']" by code_simp
  show "canonical ''/tmp/x''" by code_simp
  show "\<not> strict_prefix (components ''/tmp/x'') (components q)"
    if "q \<in> set [''/usr/bin/a'', ''/tmp/x'', ''/etc/b'']" for q
    using that by (auto simp: components_def)
qed (simp_all add: iter_order_def)

text \<open>Nothing is invented. A file of the result is an observed path; a directory of the result
  is \<^verbatim>\<open>/tmp/\<close>, or more than \<^verbatim>\<open>Threshold\<close> observed paths lie under it.\<close>

theorem AggregatePaths_precise:
  assumes "no_wild ps" and "iter_order ord" and "iter_order ord'"
    and "\<And>p. p \<in> set ps \<Longrightarrow> p \<noteq> ''/'' \<Longrightarrow> canonical p"
    and "sp \<in> set (AggregatePaths ord ord' ps)"
  shows "if sp_IsDir sp
    then sp_Path sp = ''/tmp/'' \<or> Threshold < card {p \<in> set ps. HasPrefix (p @ ''/'') (sp_Path sp)}
    else sp_Path sp \<in> set ps"
  using agg_paths_precise assms(4,5) set_AggregatePaths [OF assms(1-3)] by simp

theorem AggregatePaths_precise_witness:
  "Threshold < card {p \<in> set [''/a/1'', ''/a/2'', ''/a/3'', ''/a/4'']. HasPrefix (p @ ''/'') ''/a/''}"
proof -
  let ?ps = "[''/a/1'', ''/a/2'', ''/a/3'', ''/a/4'']"
  have "no_wild ?ps" by code_simp
  moreover have "p \<in> set ?ps \<Longrightarrow> canonical p" for p by (auto simp: canonical_def)
  moreover have "\<lparr>sp_Path = ''/a/'', sp_IsDir = True\<rparr> \<in> set (AggregatePaths id id ?ps)" by code_simp
  ultimately show ?thesis
    using AggregatePaths_precise [of ?ps id id "\<lparr>sp_Path = ''/a/'', sp_IsDir = True\<rparr>"]
    by (simp add: iter_order_def)
qed

text \<open>\<^verbatim>\<open>AggregatePathsExt\<close> returns a sorted list that contains every observed directory
  and permits every observed file: the file itself, a directory of the result that contains it, or
  its parent directory that was observed as a whole. Only a file that is a proper ancestor of
  another one is excepted.\<close>

theorem AggregatePathsExt_correct:
  assumes "no_wild (snd (mergeFileInDir ps))"
    and "iter_order ord" and "iter_order ord'" and "iter_order ord''"
    and "p \<in> set ps" and "HasSuffix p ''/'' \<or> canonical p"
    and "\<And>q. q \<in> set ps \<Longrightarrow> \<not> HasSuffix q ''/'' \<Longrightarrow> \<not> strict_prefix (components p) (components q)"
  shows "sorted (AggregatePathsExt ord ord' ord'' ps) \<and>
    (\<exists>q \<in> set (AggregatePathsExt ord ord' ord'' ps). covers_string q p \<or> q = Dir p @ ''/'')"
  using assms by (rule AggregatePathsExt_permits)

theorem AggregatePathsExt_correct_witness:
  "\<exists>q \<in> set (AggregatePathsExt rev id id [''/usr/lib/'', ''/usr/lib/x'', ''/etc/b'']).
     covers_string q ''/usr/lib/x'' \<or> q = ''/usr/lib/''"
proof -
  let ?ps = "[''/usr/lib/'', ''/usr/lib/x'', ''/etc/b'']"
  have "no_wild (snd (mergeFileInDir ?ps))" "canonical ''/usr/lib/x''" by code_simp+
  moreover have "\<not> strict_prefix (components ''/usr/lib/x'') (components q)" if "q \<in> set ?ps" for q
    using that by (auto simp: components_def)
  moreover have "Dir ''/usr/lib/x'' @ ''/'' = ''/usr/lib/''" by code_simp
  ultimately show ?thesis
    using AggregatePathsExt_correct [of ?ps rev id id "''/usr/lib/x''"] by (simp add: iter_order_def)
qed

text \<open>Merging new files into the directories of an existing policy can take a directory rule
  away. A directory is a leaf of the tree that \<^verbatim>\<open>MergeAndAggregatePaths\<close> builds; a file under
  it becomes its child, so that only the file is generated.\<close>

theorem MergeAndAggregatePaths_drops_dir:
  "MergeAndAggregatePaths id id [''/usr/lib/''] [''/usr/lib/x''] =
     [\<lparr>sp_Path = ''/usr/lib/x'', sp_IsDir = False\<rparr>]"
  by code_simp

end
