(* ===== verification/Types.thy ===== *)
theory Types
  imports Prelude
begin

text \<open>
  The data of package \<^verbatim>\<open>types\<close>: network policies, system policies, logs, Kubernetes
  objects, filters and configuration. A struct is a record with the fields of the source in its
  order; the fields carry a short prefix, because field names of different structs coincide. Slices
  are lists (a nil slice is the empty list); maps from strings to strings are finite maps, except
  that the labels of an ingress or egress rule are optional, since the code asks whether that map is
  nil. Go's \<^verbatim>\<open>int\<close> is \<^typ>\<open>int\<close>, \<^verbatim>\<open>uint8\<close> is \<^typ>\<open>8 word\<close>.
\<close>

section \<open>Network policies\<close>

type_synonym LabelMap = str_map

record SpecCIDR =
  cidr_CIDRs :: "string list"
  cidr_Except :: "string list"

record SpecICMP =
  icmp_Family :: string
  icmp_Type :: "8 word"

record SpecPort =
  port_Port :: string
  port_Protocol :: string

record SpecService =
  svc_ServiceName :: string
  svc_Namespace :: string

record SpecFQDN =
  fqdn_MatchNames :: "string list"

record SpecHTTP =
  http_Method :: string
  http_Path :: string
  http_Aggregated :: bool

record Selector =
  sel_MatchLabels :: LabelMap

record Ingress =
  in_MatchLabels :: "LabelMap option"
  in_ICMPs :: "SpecICMP list"
  in_ToPorts :: "SpecPort list"
  in_ToHTTPs :: "SpecHTTP list"
  in_FromCIDRs :: "SpecCIDR list"
  in_FromEntities :: "string list"

record Egress =
  eg_MatchLabels :: "LabelMap option"
  eg_ICMPs :: "SpecICMP list"
  eg_ToPorts :: "SpecPort list"
  eg_ToCIDRs :: "SpecCIDR list"
  eg_ToEntities :: "string list"
  eg_ToServices :: "SpecService list"
  eg_ToFQDNs :: "SpecFQDN list"
  eg_ToHTTPs :: "SpecHTTP list"

record Spec =
  spec_Selector :: Selector
  spec_Egress :: "Egress list"
  spec_Ingress :: "Ingress list"
  spec_Action :: string

record KnoxNetworkPolicy =
  np_APIVersion :: string
  np_Kind :: string
  np_FlowIDs :: "int list"
  np_Metadata :: str_map
  np_Outdated :: string
  np_Spec :: Spec
  np_GeneratedTime :: int
  np_UpdatedTime :: int

text \<open>The zero values of the structs that the code builds up field by field.\<close>

definition Ingress_zero :: Ingress where
  "Ingress_zero = \<lparr>in_MatchLabels = None, in_ICMPs = [], in_ToPorts = [], in_ToHTTPs = [],
     in_FromCIDRs = [], in_FromEntities = []\<rparr>"

definition Egress_zero :: Egress where
  "Egress_zero = \<lparr>eg_MatchLabels = None, eg_ICMPs = [], eg_ToPorts = [], eg_ToCIDRs = [],
     eg_ToEntities = [], eg_ToServices = [], eg_ToFQDNs = [], eg_ToHTTPs = []\<rparr>"

definition SpecICMP_Equal :: "SpecICMP \<Rightarrow> SpecICMP \<Rightarrow> bool" where
  "SpecICMP_Equal x y \<longleftrightarrow> icmp_Family x = icmp_Family y \<and> icmp_Type x = icmp_Type y"

definition SpecPort_Equal :: "SpecPort \<Rightarrow> SpecPort \<Rightarrow> bool" where
  "SpecPort_Equal x y \<longleftrightarrow> port_Port x = port_Port y \<and> port_Protocol x = port_Protocol y"

lemma SpecICMP_Equal_iff [simp]: "SpecICMP_Equal x y \<longleftrightarrow> x = y"
  by (cases x; cases y) (simp add: SpecICMP_Equal_def)

lemma SpecPort_Equal_iff [simp]: "SpecPort_Equal x y \<longleftrightarrow> x = y"
  by (cases x; cases y) (simp add: SpecPort_Equal_def)

text \<open>The methods of the interface \<^verbatim>\<open>L47Rule\<close>, which both kinds of rules implement.\<close>

definition Ingress_GetICMPRules :: "Ingress \<Rightarrow> SpecICMP list" where
  "Ingress_GetICMPRules x = in_ICMPs x"

definition Ingress_GetPortRules :: "Ingress \<Rightarrow> SpecPort list" where
  "Ingress_GetPortRules x = in_ToPorts x"

definition Ingress_GetHTTPRules :: "Ingress \<Rightarrow> SpecHTTP list" where
  "Ingress_GetHTTPRules x = in_ToHTTPs x"

definition Egress_GetICMPRules :: "Egress \<Rightarrow> SpecICMP list" where
  "Egress_GetICMPRules x = eg_ICMPs x"

definition Egress_GetPortRules :: "Egress \<Rightarrow> SpecPort list" where
  "Egress_GetPortRules x = eg_ToPorts x"

definition Egress_GetHTTPRules :: "Egress \<Rightarrow> SpecHTTP list" where
  "Egress_GetHTTPRules x = eg_ToHTTPs x"

section \<open>System policies\<close>

record KnoxFromSource =
  fs_Path :: string
  fs_Dir :: string

record KnoxMatchPaths =
  mp_Path :: string
  mp_ReadOnly :: bool
  mp_OwnerOnly :: bool
  mp_FromSource :: "KnoxFromSource list"

record KnoxMatchDirectories =
  md_Dir :: string
  md_Recursive :: bool
  md_ReadOnly :: bool
  md_OwnerOnly :: bool
  md_FromSource :: "KnoxFromSource list"

record KnoxMatchProtocols =
  mpr_Protocol :: string
  mpr_FromSource :: "KnoxFromSource list"

record KnoxSys =
  ks_MatchPaths :: "KnoxMatchPaths list"
  ks_MatchDirectories :: "KnoxMatchDirectories list"

record NetworkRule =
  nr_MatchProtocols :: "KnoxMatchProtocols list"

record KnoxSystemSpec =
  ss_Severity :: int
  ss_Tags :: "string list"
  ss_Message :: string
  ss_Selector :: Selector
  ss_Process :: KnoxSys
  ss_File :: KnoxSys
  ss_Network :: NetworkRule
  ss_Action :: string

record KnoxSystemPolicy =
  sysp_APIVersion :: string
  sysp_Kind :: string
  sysp_Metadata :: str_map
  sysp_Outdated :: string
  sysp_Spec :: KnoxSystemSpec
  sysp_GeneratedTime :: int
  sysp_UpdatedTime :: int
  sysp_Latest :: bool

definition KnoxSys_zero :: KnoxSys where
  "KnoxSys_zero = \<lparr>ks_MatchPaths = [], ks_MatchDirectories = []\<rparr>"

definition KnoxSystemSpec_zero :: KnoxSystemSpec where
  "KnoxSystemSpec_zero = \<lparr>ss_Severity = 0, ss_Tags = [], ss_Message = [],
     ss_Selector = \<lparr>sel_MatchLabels = fmempty\<rparr>, ss_Process = KnoxSys_zero, ss_File = KnoxSys_zero,
     ss_Network = \<lparr>nr_MatchProtocols = []\<rparr>, ss_Action = []\<rparr>"

section \<open>Policies in the store\<close>

record PolicyFilter =
  pf_Cluster :: string
  pf_Namespace :: string
  pf_Labels :: LabelMap

record PolicyYaml =
  py_Type :: string
  py_Kind :: string
  py_Name :: string
  py_Namespace :: string
  py_Cluster :: string
  py_ClusterId :: int
  py_WorkspaceId :: int
  py_Labels :: LabelMap
  py_Yaml :: string

section \<open>Logs\<close>

record KnoxNetworkLog =
  nl_FlowID :: int
  nl_ClusterName :: string
  nl_ContainerName :: string
  nl_SrcNamespace :: string
  nl_SrcReservedLabels :: "string list"
  nl_SrcPodName :: string
  nl_DstNamespace :: string
  nl_DstReservedLabels :: "string list"
  nl_DstPodName :: string
  nl_EtherType :: int
  nl_Protocol :: int
  nl_SrcIP :: string
  nl_DstIP :: string
  nl_SrcPort :: int
  nl_DstPort :: int
  nl_ICMPType :: int
  nl_SynFlag :: bool
  nl_IsReply :: bool
  nl_L7Protocol :: string
  nl_DNSQuery :: string
  nl_DNSRes :: string
  nl_DNSResIPs :: "string list"
  nl_HTTPMethod :: string
  nl_HTTPPath :: string
  nl_Direction :: string
  nl_Action :: string

record KnoxSystemLog =
  sl_LogID :: int
  sl_ClusterName :: string
  sl_HostName :: string
  sl_Namespace :: string
  sl_ContainerName :: string
  sl_PodName :: string
  sl_SourceOrigin :: string
  sl_Source :: string
  sl_Operation :: string
  sl_ResourceOrigin :: string
  sl_Resource :: string
  sl_Data :: string
  sl_ReadOnly :: bool
  sl_Result :: string

definition KnoxNetworkLog_zero :: KnoxNetworkLog where
  "KnoxNetworkLog_zero = \<lparr>nl_FlowID = 0, nl_ClusterName = [], nl_ContainerName = [],
     nl_SrcNamespace = [], nl_SrcReservedLabels = [], nl_SrcPodName = [], nl_DstNamespace = [],
     nl_DstReservedLabels = [], nl_DstPodName = [], nl_EtherType = 0, nl_Protocol = 0, nl_SrcIP = [],
     nl_DstIP = [], nl_SrcPort = 0, nl_DstPort = 0, nl_ICMPType = 0, nl_SynFlag = False,
     nl_IsReply = False, nl_L7Protocol = [], nl_DNSQuery = [], nl_DNSRes = [], nl_DNSResIPs = [],
     nl_HTTPMethod = [], nl_HTTPPath = [], nl_Direction = [], nl_Action = []\<rparr>"

definition KnoxSystemLog_zero :: KnoxSystemLog where
  "KnoxSystemLog_zero = \<lparr>sl_LogID = 0, sl_ClusterName = [], sl_HostName = [], sl_Namespace = [],
     sl_ContainerName = [], sl_PodName = [], sl_SourceOrigin = [], sl_Source = [], sl_Operation = [],
     sl_ResourceOrigin = [], sl_Resource = [], sl_Data = [], sl_ReadOnly = False, sl_Result = []\<rparr>"

section \<open>Kubernetes objects\<close>

record Mapping_rec =
  map_Protocol :: string
  map_IP :: string
  map_Port :: int

record Endpoint =
  ep_Namespace :: string
  ep_EndpointName :: string
  ep_Labels :: "string list"
  ep_Endpoints :: "Mapping_rec list"

record Service =
  sv_Namespace :: string
  sv_ServiceName :: string
  sv_Labels :: "string list"
  sv_Type :: string
  sv_Protocol :: string
  sv_ClusterIP :: string
  sv_ServicePort :: int
  sv_NodePort :: int
  sv_TargetPort :: int
  sv_ExternalIPs :: "string list"
  sv_Selector :: str_map

record Pod =
  pod_Namespace :: string
  pod_PodName :: string
  pod_Labels :: "string list"
  pod_PodIP :: string

record Deployment =
  dep_Name :: string
  dep_Namespace :: string
  dep_Labels :: string

section \<open>Filters and file sets\<close>

record NetworkLogFilter =
  nlf_SourceNamespace :: string
  nlf_SourceLabels :: "string list"
  nlf_DestinationNamespace :: string
  nlf_DestinationLabels :: "string list"
  nlf_Protocol :: string
  nlf_PortNumber :: string

record SystemLogFilter =
  slf_Namespace :: string
  slf_Labels :: "string list"
  slf_FileFormats :: "string list"
  slf_ProcessFormats :: "string list"
  slf_FileDirs :: "string list"
  slf_ProcessDirs :: "string list"

record WorkloadProcessFileSet =
  wpfs_ClusterName :: string
  wpfs_ContainerName :: string
  wpfs_Namespace :: string
  wpfs_Labels :: string
  wpfs_FromSource :: string
  wpfs_SetType :: string

end
