(* ===== verification/Libs.thy ===== *)
theory Libs
  imports Types
begin

text \<open>
  The helpers of \<^verbatim>\<open>libs/common.go\<close> and \<^verbatim>\<open>common/common.go\<close>: protocol numbers, label
  maps and their text, duplicates, the hash of policy names.
\<close>

unbundle bit_operations_syntax

section \<open>Protocols\<close>

definition IPProtoUnknown :: int where "IPProtoUnknown = - 1"
definition IPProtocolICMP :: int where "IPProtocolICMP = 1"
definition IPProtocolTCP :: int where "IPProtocolTCP = 6"
definition IPProtocolUDP :: int where "IPProtocolUDP = 17"
definition IPProtocolICMPv6 :: int where "IPProtocolICMPv6 = 58"
definition IPProtocolSCTP :: int where "IPProtocolSCTP = 132"

definition protocolMap :: "int \<rightharpoonup> string" where
  "protocolMap = map_of
     [(IPProtoUnknown, ''Unknown''), (IPProtocolICMP, ''ICMP''), (IPProtocolTCP, ''TCP''),
      (IPProtocolUDP, ''UDP''), (IPProtocolICMPv6, ''ICMPv6''), (IPProtocolSCTP, ''SCTP'')]"

definition ICMPReplyType :: "int list" where
  "ICMPReplyType = [0]"

definition L7ProtocolDNS :: string where "L7ProtocolDNS = ''dns''"
definition L7ProtocolHTTP :: string where "L7ProtocolHTTP = ''http''"

lemmas protocol_numbers = IPProtoUnknown_def IPProtocolICMP_def IPProtocolTCP_def IPProtocolUDP_def
  IPProtocolICMPv6_def IPProtocolSCTP_def

text \<open>A number that is not in the map gives the empty string.\<close>

definition GetProtocol :: "int \<Rightarrow> string" where
  "GetProtocol protocol = (case protocolMap protocol of None \<Rightarrow> [] | Some s \<Rightarrow> s)"

definition IsICMP :: "int \<Rightarrow> bool" where
  "IsICMP protocol = (if protocol = IPProtocolICMP \<or> protocol = IPProtocolICMPv6 then True else False)"

definition IsReplyICMP :: "int \<Rightarrow> bool" where
  "IsReplyICMP icmpType = ContainsElement ICMPReplyType icmpType"

section \<open>Labels\<close>

text \<open>\<^verbatim>\<open>strings.FieldsFunc\<close>: the maximal runs of characters that are no separators.\<close>

fun FieldsFunc :: "(char \<Rightarrow> bool) \<Rightarrow> string \<Rightarrow> string list" where
  "FieldsFunc sep [] = []"
| "FieldsFunc sep (c # s) =
     (if sep c then FieldsFunc sep s
      else (c # takeWhile (\<lambda>x. \<not> sep x) s) # FieldsFunc sep (dropWhile (\<lambda>x. \<not> sep x) s))"

definition labelKVSplitter :: "char \<Rightarrow> bool" where
  "labelKVSplitter r \<longleftrightarrow> r = CHR '':'' \<or> r = CHR ''=''"

definition labelArrSplitter :: "char \<Rightarrow> bool" where
  "labelArrSplitter r \<longleftrightarrow> r = CHR '','' \<or> r = CHR '';''"

text \<open>A loop over the entries of a finite map, here in the order of the keys; the functions below
  do not depend on it.\<close>

definition IsLabelMapSubset :: "LabelMap \<Rightarrow> LabelMap \<Rightarrow> bool" where
  "IsLabelMapSubset m1 m2 = list_all (\<lambda>(k, v). lookup_str m1 k = v) (sorted_list_of_fmap m2)"

definition LabelMapFromLabelArray :: "string list \<Rightarrow> LabelMap" where
  "LabelMapFromLabelArray labels =
     fold (\<lambda>label m. case FieldsFunc labelKVSplitter label of
        [k, v] \<Rightarrow> fmupd k v m
      | _ \<Rightarrow> m) labels fmempty"

definition LabelMapToLabelArray :: "LabelMap \<Rightarrow> string list" where
  "LabelMapToLabelArray labelMap =
     sort (map (\<lambda>(k, v). k @ ''='' @ v) (sorted_list_of_fmap labelMap))"

definition LabelMapToString :: "LabelMap \<Rightarrow> string" where
  "LabelMapToString lm = Join (LabelMapToLabelArray lm) '',''"

definition LabelMapFromString :: "string \<Rightarrow> LabelMap" where
  "LabelMapFromString labels = LabelMapFromLabelArray (FieldsFunc labelArrSplitter labels)"

text \<open>Removes the labels whose text starts with the key.\<close>

definition RemoveFieldFromLabel :: "string \<Rightarrow> string \<Rightarrow> string" where
  "RemoveFieldFromLabel srcLabel keyLabel =
     Join (filter (\<lambda>label. \<not> HasPrefix label keyLabel) (Split srcLabel (CHR '',''))) '',''"

section \<open>Lists of strings\<close>

text \<open>The labels of Cilium and Kubernetes itself are left out, the rest joined by commas.\<close>

fun ConvertArrayToString_from :: "string \<Rightarrow> string list \<Rightarrow> string" where
  "ConvertArrayToString_from str [] = str"
| "ConvertArrayToString_from str (label # arr) =
     ConvertArrayToString_from
       (if \<not> HasPrefix label ''k8s:io.cilium.''
        then if \<not> HasPrefix label ''k8s:io.kubernetes.''
          then (if str \<noteq> [] then str @ '','' else str) @ TrimPrefix label ''k8s:''
          else str
        else str) arr"

definition ConvertArrayToString :: "string list \<Rightarrow> string" where
  "ConvertArrayToString arr = ConvertArrayToString_from [] arr"

definition ConvertStringToArray :: "string \<Rightarrow> string list" where
  "ConvertStringToArray str = Split str (CHR '','')"

fun ConvertFilterString_from :: "nat \<Rightarrow> nat \<Rightarrow> string \<Rightarrow> string list \<Rightarrow> string" where
  "ConvertFilterString_from n i query [] = query"
| "ConvertFilterString_from n i query (value # vs) =
     (let query = query @ [CHR 0x22] @ value @ [CHR 0x22]
      in ConvertFilterString_from n (i + 1) (if n > i + 1 then query @ '','' else query) vs)"

definition ConvertFilterString :: "string list \<Rightarrow> string" where
  "ConvertFilterString vs = ConvertFilterString_from (length vs) 0 [] vs"

text \<open>The set of keys seen so far is the list of results itself.\<close>

fun StringDeDuplication_from :: "string list \<Rightarrow> string list \<Rightarrow> string list \<Rightarrow> string list" where
  "StringDeDuplication_from keys list [] = list"
| "StringDeDuplication_from keys list (entry # strSlice) =
     (if List.member keys entry then StringDeDuplication_from keys list strSlice
      else StringDeDuplication_from (entry # keys) (list @ [entry]) strSlice)"

definition StringDeDuplication :: "string list \<Rightarrow> string list" where
  "StringDeDuplication strSlice = StringDeDuplication_from [] [] strSlice"

section \<open>Hash\<close>

text \<open>\<^verbatim>\<open>fnv.New32a\<close>: the offset basis, and for each byte an exclusive or and a
  multiplication by the prime, modulo \<^term>\<open>2 ^ 32\<close>.\<close>

definition fnv32a_step :: "char \<Rightarrow> 32 word \<Rightarrow> 32 word" where
  "fnv32a_step c h = (h XOR of_char c) * 16777619"

definition HashInt :: "string \<Rightarrow> 32 word" where
  "HashInt s = fold fnv32a_step s 2166136261"

text \<open>A map is moved to a new one entry by entry.\<close>

definition MoveMap :: "('k, 'v) fmap \<Rightarrow> ('k, 'v) fmap \<times> ('k, 'v) fmap" where
  "MoveMap m = (m, fmempty)"

section \<open>Facts\<close>

lemma sorted_entries_keys: "map fst (sorted_list_of_fmap m) = sorted_list_of_set (fset (fmdom m))"
  by (simp add: sorted_list_of_fmap_def sorted_list_of_fset.rep_eq comp_def)

lemma sorted_entries_distinct [simp]: "distinct (map fst (sorted_list_of_fmap m))"
  by (simp add: sorted_entries_keys)

lemma sorted_entries_mem: "(k, v) \<in> set (sorted_list_of_fmap m) \<longleftrightarrow> fmlookup m k = Some v"
  by (metis sorted_entries_distinct map_of_eq_Some_iff map_of_sorted_list)

lemma IsLabelMapSubset_iff:
  "IsLabelMapSubset m1 m2 \<longleftrightarrow> (\<forall>k v. fmlookup m2 k = Some v \<longrightarrow> lookup_str m1 k = v)"
  by (auto simp: IsLabelMapSubset_def list_all_iff simp flip: sorted_entries_mem)

lemma fold_fmupd_lookup:
  assumes "distinct (map fst xs)"
  shows "fmlookup (fold (\<lambda>(k, v) m. fmupd k v m) xs m) a =
    (case map_of xs a of Some v \<Rightarrow> Some v | None \<Rightarrow> fmlookup m a)"
  using assms
proof (induction xs arbitrary: m)
  case (Cons x xs)
  then show ?case by (cases x) (auto split: option.splits dest: map_of_SomeD simp: rev_image_eqI)
qed simp

lemma FieldsFunc_no_sep: "\<forall>c \<in> set s. \<not> sep c \<Longrightarrow> s \<noteq> [] \<Longrightarrow> FieldsFunc sep s = [s]"
  by (cases s) (auto simp: takeWhile_eq_all_conv [THEN iffD2] dropWhile_eq_Nil_conv [THEN iffD2])

lemma FieldsFunc_split:
  assumes "\<forall>c \<in> set w. \<not> sep c" and "w \<noteq> []" and "sep d"
  shows "FieldsFunc sep (w @ d # s) = w # FieldsFunc sep s"
proof -
  obtain c w' where w: "w = c # w'" using assms(2) by (cases w) auto
  have "takeWhile (\<lambda>x. \<not> sep x) (w' @ d # s) = w'" "dropWhile (\<lambda>x. \<not> sep x) (w' @ d # s) = d # s"
    using assms w by (auto simp: takeWhile_append dropWhile_append)
  then show ?thesis using assms w by simp
qed

lemma FieldsFunc_Join:
  assumes "\<forall>w \<in> set ws. w \<noteq> [] \<and> (\<forall>c \<in> set w. \<not> sep c)" and "sep d"
  shows "FieldsFunc sep (Join ws [d]) = ws"
  using assms
proof (induction ws "[d]" rule: Join.induct)
  case (3 w v vs)
  then show ?case by (simp add: FieldsFunc_split del: FieldsFunc.simps)
qed (simp_all add: FieldsFunc_no_sep)

text \<open>A label map whose text can be read back: no key or value is empty or has a separator.\<close>

definition label_text :: "string \<Rightarrow> bool" where
  "label_text s \<longleftrightarrow> s \<noteq> [] \<and> list_all (\<lambda>c. \<not> labelKVSplitter c \<and> \<not> labelArrSplitter c) s"

definition plain_labels :: "LabelMap \<Rightarrow> bool" where
  "plain_labels m = list_all (\<lambda>(k, v). label_text k \<and> label_text v) (sorted_list_of_fmap m)"

definition label_of :: "string \<times> string \<Rightarrow> string" where
  "label_of kv = fst kv @ ''='' @ snd kv"

lemma LabelMapToLabelArray_eq:
  "LabelMapToLabelArray m = map label_of (sort_key label_of (sorted_list_of_fmap m))"
proof -
  have "(\<lambda>(k, v). k @ ''='' @ v) = label_of" by (simp add: fun_eq_iff label_of_def)
  then show ?thesis by (simp add: LabelMapToLabelArray_def map_sort_key)
qed

lemma label_of_fields:
  assumes "label_text (fst kv)" and "label_text (snd kv)"
  shows "FieldsFunc labelKVSplitter (label_of kv) = [fst kv, snd kv]"
  using assms FieldsFunc_split [of "fst kv" labelKVSplitter "CHR ''=''" "snd kv"]
    FieldsFunc_no_sep [of "snd kv" labelKVSplitter]
  by (simp add: label_of_def label_text_def labelKVSplitter_def list_all_iff)

lemma LabelMapFromLabelArray_labels:
  assumes "\<forall>kv \<in> set xs. label_text (fst kv) \<and> label_text (snd kv)" and "distinct (map fst xs)"
  shows "fmlookup (LabelMapFromLabelArray (map label_of xs)) = map_of xs"
proof -
  have "fold (\<lambda>label m. case FieldsFunc labelKVSplitter label of [k, v] \<Rightarrow> fmupd k v m | _ \<Rightarrow> m)
      (map label_of xs) m = fold (\<lambda>(k, v) m. fmupd k v m) xs m" for m
    using assms(1) by (induction xs arbitrary: m) (auto simp: label_of_fields case_prod_unfold)
  then show ?thesis
    using fold_fmupd_lookup [OF assms(2), of fmempty]
    by (auto simp: LabelMapFromLabelArray_def fun_eq_iff split: option.splits)
qed

lemma plain_labels_entries:
  assumes "plain_labels m"
  shows "\<forall>kv \<in> set (sort_key label_of (sorted_list_of_fmap m)). label_text (fst kv) \<and> label_text (snd kv)"
  using assms by (auto simp: plain_labels_def list_all_iff)

lemma LabelMap_array_roundtrip:
  assumes "plain_labels m"
  shows "LabelMapFromLabelArray (LabelMapToLabelArray m) = m"
proof (rule fmap_ext)
  fix k
  let ?xs = "sort_key label_of (sorted_list_of_fmap m)"
  have dist: "distinct (map fst ?xs)"
    by (metis mset_eq_imp_distinct_iff mset_map mset_sort sorted_entries_distinct)
  have "map_of ?xs = map_of (sorted_list_of_fmap m)"
    using dist by (intro map_of_inject_set [THEN iffD2]) (auto simp: distinct_map)
  then show "fmlookup (LabelMapFromLabelArray (LabelMapToLabelArray m)) k = fmlookup m k"
    using LabelMapFromLabelArray_labels [OF plain_labels_entries [OF assms] dist]
    by (simp add: LabelMapToLabelArray_eq)
qed

lemma LabelMap_string_inverse:
  assumes "plain_labels m"
  shows "LabelMapFromString (LabelMapToString m) = m"
proof -
  have eq: "\<not> labelArrSplitter (CHR ''='')" by (simp add: labelArrSplitter_def)
  have "\<forall>w \<in> set (LabelMapToLabelArray m). w \<noteq> [] \<and> (\<forall>c \<in> set w. \<not> labelArrSplitter c)"
    using plain_labels_entries [OF assms]
    by (fastforce simp: LabelMapToLabelArray_eq label_of_def label_text_def list_all_iff eq)
  then have "FieldsFunc labelArrSplitter (LabelMapToString m) = LabelMapToLabelArray m"
    unfolding LabelMapToString_def by (intro FieldsFunc_Join) (auto simp: labelArrSplitter_def)
  then show ?thesis using LabelMap_array_roundtrip [OF assms] by (simp add: LabelMapFromString_def)
qed

text \<open>Duplicates: the first occurrence of each string, in the order of the input.\<close>

lemma StringDeDuplication_append_missing: "StringDeDuplication xs = append_missing [] xs"
proof -
  have "set keys = set list \<Longrightarrow> StringDeDuplication_from keys list xs = append_missing list xs" for keys list
    by (induction xs arbitrary: keys list) auto
  then show ?thesis by (simp add: StringDeDuplication_def)
qed

lemma StringDeDuplication_set [simp]: "set (StringDeDuplication xs) = set xs"
  by (simp add: StringDeDuplication_append_missing)

lemma StringDeDuplication_distinct [simp]: "distinct (StringDeDuplication xs)"
  by (simp add: StringDeDuplication_append_missing)

lemma ConvertFilterString_from_Join:
  "n = i + length vs \<Longrightarrow>
   ConvertFilterString_from n i q vs = q @ Join (map (\<lambda>v. [CHR 0x22] @ v @ [CHR 0x22]) vs) '',''"
proof (induction n i q vs rule: ConvertFilterString_from.induct)
  case (2 n i q v vs)
  then show ?case by (cases vs) (auto simp: Let_def)
qed simp

lemma ConvertFilterString_Join:
  "ConvertFilterString vs = Join (map (\<lambda>v. [CHR 0x22] @ v @ [CHR 0x22]) vs) '',''"
  by (simp add: ConvertFilterString_def ConvertFilterString_from_Join)

text \<open>The hash of a text that is extended goes on from the hash of the text.\<close>

lemma HashInt_append: "HashInt (s @ t) = fold fnv32a_step t (HashInt s)"
  by (simp add: HashInt_def)

lemma HashInt_examples:
  "HashInt ''a'' = 0xE40C292C" "HashInt ''foobar'' = 0xBF9CF968"
  by code_simp+

section \<open>Properties\<close>

text \<open>Label maps survive their text form. When no key or value is empty or contains one of
  the separators, \<^verbatim>\<open>LabelMapFromString\<close> reads back what \<^verbatim>\<open>LabelMapToString\<close> wrote.\<close>

theorem LabelMap_string_roundtrip:
  assumes "plain_labels m"
  shows "LabelMapFromString (LabelMapToString m) = m"
  using assms by (rule LabelMap_string_inverse)

theorem LabelMap_string_roundtrip_witness:
  "LabelMapFromString (LabelMapToString (fmap_of_list [(''tier'', ''web''), (''app'', ''shop'')])) =
     fmap_of_list [(''tier'', ''web''), (''app'', ''shop'')]"
proof (rule LabelMap_string_roundtrip)
  show "plain_labels (fmap_of_list [(''tier'', ''web''), (''app'', ''shop'')])" by code_simp
qed

text \<open>\<^verbatim>\<open>StringDeDuplication\<close> keeps the elements, drops the duplicates, and keeps the order
  of the first occurrences; a list without duplicates is not changed.\<close>

theorem StringDeDuplication_correct:
  "set (StringDeDuplication xs) = set xs \<and> distinct (StringDeDuplication xs) \<and>
   StringDeDuplication xs = rev (remdups (rev xs)) \<and>
   StringDeDuplication (StringDeDuplication xs) = StringDeDuplication xs"
proof -
  have app: "append_missing ys xs = ys @ rev (remdups (filter (\<lambda>x. x \<notin> set ys) (rev xs)))"
    if "distinct ys" for ys xs :: "string list"
    using that
  proof (induction xs arbitrary: ys)
    case (Cons x xs)
    show ?case
    proof (cases "x \<in> set ys")
      case True
      then show ?thesis using Cons by simp
    next
      case False
      have "remdups (zs @ [x]) = remdups (filter (\<lambda>z. z \<noteq> x) zs) @ [x]" for zs
        by (induction zs) auto
      then show ?thesis
        using Cons.IH [of "ys @ [x]"] Cons.prems False
        by (simp add: filter_filter remdups_filter conj_commute)
    qed
  qed simp
  have "StringDeDuplication zs = zs" if "distinct zs" for zs
    using app [of "[]" zs] that by (simp add: StringDeDuplication_append_missing distinct_remdups_id)
  then show ?thesis
    using app [of "[]" xs] by (simp add: StringDeDuplication_append_missing)
qed

end
