(* ===== verification/SystemFilter.thy ===== *)
theory SystemFilter
  imports Libs
begin

text \<open>
  \<^verbatim>\<open>systempolicy/helperFunctions.go\<close>: which system logs the configuration filters out, with
  the bit masks of the code. The lemma \<^verbatim>\<open>filter_matches_iff\<close> reads the masks: a filter matches
  when every criterion that it configures holds.
\<close>

unbundle bit_operations_syntax

section \<open>Constants and globals of the package\<close>

definition SYS_OP_PROCESS :: string where "SYS_OP_PROCESS = ''Process''"
definition SYS_OP_FILE :: string where "SYS_OP_FILE = ''File''"
definition SYS_OP_NETWORK :: string where "SYS_OP_NETWORK = ''Network''"
definition SYS_OP_PROCESS_INT :: int where "SYS_OP_PROCESS_INT = 1"
definition SYS_OP_FILE_INT :: int where "SYS_OP_FILE_INT = 2"
definition SYS_OP_NETWORK_INT :: int where "SYS_OP_NETWORK_INT = 4"
definition SOURCE_ALL :: string where "SOURCE_ALL = ''/ALL''"

lemmas sys_ops = SYS_OP_PROCESS_def SYS_OP_FILE_def SYS_OP_NETWORK_def

definition PolicyDiscoveryVMNamespace :: string where
  "PolicyDiscoveryVMNamespace = ''accuknox-vm-namespace''"
definition PolicyDiscoveryVMPodName :: string where
  "PolicyDiscoveryVMPodName = ''accuknox-vm-podname''"
definition PolicyDiscoveryContainerNamespace :: string where
  "PolicyDiscoveryContainerNamespace = ''container_namespace''"
definition PolicyDiscoveryContainerPodName :: string where
  "PolicyDiscoveryContainerPodName = ''container_podname''"

text \<open>The directory of the shared libraries, which every policy allows.\<close>

definition PreConfiguredKubearmorRule :: string where
  "PreConfiguredKubearmorRule = ''/lib/x86_64-linux-gnu/''"


record SysGlobals =
  g_DBDriver :: string
  g_SystemPolicyTo :: string
  g_SystemPolicyTypes :: int
  g_SystemLogFilters :: "SystemLogFilter list"
  g_ProcessFromSource :: bool
  g_FileFromSource :: bool

section \<open>Matching\<close>

definition containLabelByConfiguration :: "string list \<Rightarrow> string list \<Rightarrow> bool" where
  "containLabelByConfiguration igLabels flowLabels =
     list_all (\<lambda>label. ContainsElement flowLabels label) igLabels"

definition getLabelsFromPod :: "string \<Rightarrow> Pod list \<Rightarrow> string list" where
  "getLabelsFromPod podName pods =
     (case List.find (\<lambda>pod. pod_PodName pod = podName) pods of
        Some pod \<Rightarrow> pod_Labels pod | None \<Rightarrow> [])"

definition getHaveToCheckItems :: "SystemLogFilter \<Rightarrow> int" where
  "getHaveToCheckItems flt =
     (let check = 0;
          check = (if slf_Namespace flt \<noteq> [] then check OR push_bit 0 1 else check);
          check = (if length (slf_Labels flt) > 0 then check OR push_bit 1 1 else check);
          check = (if length (slf_FileFormats flt) > 0 then check OR push_bit 2 1 else check);
          check = (if length (slf_ProcessFormats flt) > 0 then check OR push_bit 3 1 else check);
          check = (if length (slf_FileDirs flt) > 0 then check OR push_bit 4 1 else check);
          check = (if length (slf_ProcessDirs flt) > 0 then check OR push_bit 5 1 else check)
      in check)"

definition containsFormat :: "string list \<Rightarrow> string \<Rightarrow> bool" where
  "containsFormat filterFormats logFormat = list_ex (\<lambda>f. HasSuffix logFormat f) filterFormats"

definition containsDirectory :: "string list \<Rightarrow> string \<Rightarrow> bool" where
  "containsDirectory filterDirs logDir = list_ex (\<lambda>d. HasPrefix logDir d) filterDirs"

text \<open>The labels are not compared for logs of virtual machines and of plain containers.\<close>

definition label_check :: "SystemLogFilter \<Rightarrow> KnoxSystemLog \<Rightarrow> Pod list \<Rightarrow> bool" where
  "label_check flt log pods \<longleftrightarrow>
     sl_Namespace log = PolicyDiscoveryVMNamespace \<or>
     sl_Namespace log = PolicyDiscoveryContainerNamespace \<or>
     containLabelByConfiguration (slf_Labels flt) (getLabelsFromPod (sl_PodName log) pods)"

text \<open>The body of the loop over the filters: the checks that hold, as a mask, and the comparison.\<close>

definition filter_matches :: "KnoxSystemLog \<Rightarrow> Pod list \<Rightarrow> SystemLogFilter \<Rightarrow> bool" where
  "filter_matches log pods flt =
     (let checkItems = getHaveToCheckItems flt;
          checkedItems = 0;
          checkedItems = (if checkItems AND 1 > 0 \<and> slf_Namespace flt = sl_Namespace log
            then checkedItems OR push_bit 0 1 else checkedItems);
          checkedItems = (if checkItems AND 2 > 0 \<and> label_check flt log pods
            then checkedItems OR push_bit 1 1 else checkedItems);
          checkedItems = (if sl_Operation log = SYS_OP_FILE \<and> checkItems AND 4 > 0 \<and>
              containsFormat (slf_FileFormats flt) (sl_Resource log)
            then checkedItems OR push_bit 2 1 else checkedItems);
          checkedItems = (if sl_Operation log = SYS_OP_PROCESS \<and> checkItems AND 8 > 0 \<and>
              containsFormat (slf_ProcessFormats flt) (sl_Resource log)
            then checkedItems OR push_bit 3 1 else checkedItems);
          checkedItems = (if sl_Operation log = SYS_OP_FILE \<and> checkItems AND 16 > 0 \<and>
              containsDirectory (slf_FileDirs flt) (sl_Resource log)
            then checkedItems OR push_bit 4 1 else checkedItems);
          checkedItems = (if sl_Operation log = SYS_OP_PROCESS \<and> checkItems AND 32 > 0 \<and>
              containsFormat (slf_ProcessDirs flt) (sl_Resource log)
            then checkedItems OR push_bit 5 1 else checkedItems)
      in checkItems = checkedItems)"

text \<open>The three basic checks, each of which skips the log.\<close>

definition basic_checks :: "KnoxSystemLog \<Rightarrow> bool" where
  "basic_checks log \<longleftrightarrow>
     \<not> (sl_Namespace log = [] \<or> sl_PodName log = []) \<and>
     \<not> (sl_Result log \<noteq> ''Passed'' \<and> sl_Result log \<noteq> ''Permission denied'' \<and>
        sl_Result log \<noteq> ''Operation now in progress'') \<and>
     \<not> (sl_Operation log \<noteq> SYS_OP_NETWORK \<and> \<not> HasPrefix (sl_Resource log) ''/'') \<and>
     \<not> (sl_Operation log = ''File'' \<and> \<not> HasPrefix (sl_Source log) ''/'')"

definition FilterSystemLogsByConfig ::
  "SystemLogFilter list \<Rightarrow> KnoxSystemLog list \<Rightarrow> Pod list \<Rightarrow> KnoxSystemLog list" where
  "FilterSystemLogsByConfig SystemLogFilters logs pods =
     filter (\<lambda>log. basic_checks log \<and> \<not> list_ex (filter_matches log pods) SystemLogFilters) logs"

text \<open>The sources of the file sets of virtual machines; the store is a list of keys and file
  sets, and iterated in an unspecified order.\<close>

definition GetWPFSSources ::
  "((WorkloadProcessFileSet \<times> string list) list \<Rightarrow> (WorkloadProcessFileSet \<times> string list) list) \<Rightarrow>
   (WorkloadProcessFileSet \<times> string list) list \<Rightarrow> string list" where
  "GetWPFSSources ord res =
     map wpfs_FromSource (filter (\<lambda>w. wpfs_FromSource w \<noteq> [] \<and>
       wpfs_Namespace w = PolicyDiscoveryVMNamespace) (map fst (ord res)))"

section \<open>The masks\<close>

lemma bit_or_push: "bit (if b then x OR push_bit k 1 else x) n \<longleftrightarrow> bit (x :: int) n \<or> b \<and> n = k"
  by (auto simp: bit_simps)

lemma and_pos: "(x :: int) AND 2 ^ k > 0 \<longleftrightarrow> bit x k"
proof -
  have "x AND 2 ^ k \<ge> 0" by simp
  then show ?thesis using and_exp_eq_0_iff_not_bit [of x k] by linarith
qed

lemmas and_pos_numeral = and_pos [of _ 0, simplified] and_pos [of _ 1, simplified]
  and_pos [of _ 2, simplified] and_pos [of _ 3, simplified] and_pos [of _ 4, simplified]
  and_pos [of _ 5, simplified]

lemma bit_getHaveToCheckItems:
  "bit (getHaveToCheckItems f) n \<longleftrightarrow>
     slf_Namespace f \<noteq> [] \<and> n = 0 \<or> slf_Labels f \<noteq> [] \<and> n = 1 \<or> slf_FileFormats f \<noteq> [] \<and> n = 2 \<or>
     slf_ProcessFormats f \<noteq> [] \<and> n = 3 \<or> slf_FileDirs f \<noteq> [] \<and> n = 4 \<or> slf_ProcessDirs f \<noteq> [] \<and> n = 5"
  unfolding getHaveToCheckItems_def Let_def bit_or_push by auto

text \<open>A filter matches a log when each criterion that it configures holds of it.\<close>

definition filter_spec :: "KnoxSystemLog \<Rightarrow> Pod list \<Rightarrow> SystemLogFilter \<Rightarrow> bool" where
  "filter_spec log pods f \<longleftrightarrow>
     (slf_Namespace f \<noteq> [] \<longrightarrow> slf_Namespace f = sl_Namespace log) \<and>
     (slf_Labels f \<noteq> [] \<longrightarrow> label_check f log pods) \<and>
     (slf_FileFormats f \<noteq> [] \<longrightarrow> sl_Operation log = SYS_OP_FILE \<and>
        (\<exists>x \<in> set (slf_FileFormats f). suffix x (sl_Resource log))) \<and>
     (slf_ProcessFormats f \<noteq> [] \<longrightarrow> sl_Operation log = SYS_OP_PROCESS \<and>
        (\<exists>x \<in> set (slf_ProcessFormats f). suffix x (sl_Resource log))) \<and>
     (slf_FileDirs f \<noteq> [] \<longrightarrow> sl_Operation log = SYS_OP_FILE \<and>
        (\<exists>x \<in> set (slf_FileDirs f). prefix x (sl_Resource log))) \<and>
     (slf_ProcessDirs f \<noteq> [] \<longrightarrow> sl_Operation log = SYS_OP_PROCESS \<and>
        (\<exists>x \<in> set (slf_ProcessDirs f). suffix x (sl_Resource log)))"

lemma containsFormat_iff: "containsFormat fs s \<longleftrightarrow> (\<exists>x \<in> set fs. suffix x s)"
  by (auto simp: containsFormat_def list_ex_iff HasSuffix_iff)

lemma containsDirectory_iff: "containsDirectory ds s \<longleftrightarrow> (\<exists>x \<in> set ds. prefix x s)"
  by (auto simp: containsDirectory_def list_ex_iff HasPrefix_iff)

lemma mask_eq_iff:
  fixes a b c d e g a' b' c' d' e' g' :: bool
  shows "(\<forall>n :: nat. (a \<and> n = 0 \<or> b \<and> n = 1 \<or> c \<and> n = 2 \<or> d \<and> n = 3 \<or> e \<and> n = 4 \<or> g \<and> n = 5) =
      (a' \<and> n = 0 \<or> b' \<and> n = 1 \<or> c' \<and> n = 2 \<or> d' \<and> n = 3 \<or> e' \<and> n = 4 \<or> g' \<and> n = 5)) \<longleftrightarrow>
    a = a' \<and> b = b' \<and> c = c' \<and> d = d' \<and> e = e' \<and> g = g'" (is "(\<forall>n. ?P n) \<longleftrightarrow> ?R")
proof
  assume P: "\<forall>n. ?P n"
  show ?R
    using spec [OF P, of 0] spec [OF P, of 1] spec [OF P, of 2] spec [OF P, of 3] spec [OF P, of 4]
      spec [OF P, of 5] by simp
qed simp

lemma filter_matches_iff: "filter_matches log pods f \<longleftrightarrow> filter_spec log pods f"
proof -
  let ?c = "getHaveToCheckItems f"
  let ?a = "\<lambda>n. slf_Namespace f \<noteq> [] \<and> slf_Namespace f = sl_Namespace log \<and> n = (0 :: nat) \<or>
     (slf_Labels f \<noteq> [] \<and> label_check f log pods) \<and> n = 1 \<or>
     (sl_Operation log = SYS_OP_FILE \<and> slf_FileFormats f \<noteq> [] \<and>
        containsFormat (slf_FileFormats f) (sl_Resource log)) \<and> n = 2 \<or>
     (sl_Operation log = SYS_OP_PROCESS \<and> slf_ProcessFormats f \<noteq> [] \<and>
        containsFormat (slf_ProcessFormats f) (sl_Resource log)) \<and> n = 3 \<or>
     (sl_Operation log = SYS_OP_FILE \<and> slf_FileDirs f \<noteq> [] \<and>
        containsDirectory (slf_FileDirs f) (sl_Resource log)) \<and> n = 4 \<or>
     (sl_Operation log = SYS_OP_PROCESS \<and> slf_ProcessDirs f \<noteq> [] \<and>
        containsFormat (slf_ProcessDirs f) (sl_Resource log)) \<and> n = 5"
  have "filter_matches log pods f \<longleftrightarrow> (\<forall>n. bit ?c n \<longleftrightarrow> ?a n)"
    unfolding filter_matches_def Let_def bit_eq_iff bit_or_push and_pos_numeral
    by (simp add: bit_getHaveToCheckItems)
  also have "\<dots> \<longleftrightarrow> filter_spec log pods f"
    unfolding bit_getHaveToCheckItems conj_assoc [symmetric] mask_eq_iff filter_spec_def
      containsFormat_iff containsDirectory_iff by blast
  finally show ?thesis .
qed

section \<open>Properties\<close>

text \<open>\<^verbatim>\<open>FilterSystemLogsByConfig\<close> keeps, in their order, the logs that pass the basic checks
  and that no filter matches, where a filter matches when each criterion that it configures holds of
  the log. The bit masks of the code compute this.\<close>

theorem FilterSystemLogsByConfig_spec:
  "FilterSystemLogsByConfig flts logs pods =
     filter (\<lambda>log. basic_checks log \<and> \<not> (\<exists>f. f \<in> set flts \<and> filter_spec log pods f)) logs"
  by (simp add: FilterSystemLogsByConfig_def filter_matches_iff list_ex_iff Bex_def)

text \<open>A filter that configures nothing has the empty mask, which equals the mask of the checks
  that hold: it removes every log.\<close>

theorem FilterSystemLogsByConfig_empty_filter:
  "FilterSystemLogsByConfig
     [\<lparr>slf_Namespace = [], slf_Labels = [], slf_FileFormats = [], slf_ProcessFormats = [],
       slf_FileDirs = [], slf_ProcessDirs = []\<rparr>] logs pods = []"
  by (simp add: FilterSystemLogsByConfig_def filter_matches_iff filter_spec_def)

text \<open>The directories of a process filter are compared as suffixes, those of a file filter as
  prefixes: filtering the directory \<^verbatim>\<open>/usr/bin/\<close> drops the file \<^verbatim>\<open>/usr/bin/ls\<close> but keeps
  the process.\<close>

definition dir_filter :: "string list \<Rightarrow> string list \<Rightarrow> SystemLogFilter" where
  "dir_filter fdirs pdirs = \<lparr>slf_Namespace = [], slf_Labels = [], slf_FileFormats = [],
     slf_ProcessFormats = [], slf_FileDirs = fdirs, slf_ProcessDirs = pdirs\<rparr>"

definition op_log :: "string \<Rightarrow> string \<Rightarrow> KnoxSystemLog" where
  "op_log op res = KnoxSystemLog_zero\<lparr>sl_Namespace := ''ns'', sl_PodName := ''pod'', sl_Source := ''/bin/sh'',
     sl_Operation := op, sl_Resource := res, sl_Result := ''Passed''\<rparr>"

theorem process_dirs_are_suffixes:
  "FilterSystemLogsByConfig [dir_filter [''/usr/bin/''] []] [op_log SYS_OP_FILE ''/usr/bin/ls''] [] = [] \<and>
   FilterSystemLogsByConfig [dir_filter [] [''/usr/bin/'']] [op_log SYS_OP_PROCESS ''/usr/bin/ls''] [] =
     [op_log SYS_OP_PROCESS ''/usr/bin/ls'']"
  by code_simp

end
