(* ===== verification/SystemPolicy.thy ===== *)
theory SystemPolicy
  imports SystemFilter PathAggregator
begin

text \<open>
  The building blocks of \<^verbatim>\<open>systempolicy/systemPolicy.go\<close>: grouping the logs, building a
  policy, adding a path or directory rule to it, the selector, and the discovery of file and process
  policies from the logs of a pod. The globals of the package are the record \<^verbatim>\<open>SysGlobals\<close>.
\<close>

section \<open>Grouping logs\<close>

record SysLogKey =
  slk_Namespace :: string
  slk_PodName :: string

text \<open>\<^verbatim>\<open>results[key] = append(results[key], x)\<close> on a map with list values.\<close>

definition entries :: "('k \<times> 'v list) list \<Rightarrow> 'k \<Rightarrow> 'v list" where
  "entries m k = (case map_of m k of None \<Rightarrow> [] | Some xs \<Rightarrow> xs)"

definition append_at :: "'k \<Rightarrow> 'v list \<Rightarrow> ('k \<times> 'v list) list \<Rightarrow> ('k \<times> 'v list) list" where
  "append_at k vs m = AList.update k (entries m k @ vs) m"

definition clusteringSystemLogsByCluster :: "KnoxSystemLog list \<Rightarrow> (string \<times> KnoxSystemLog list) list" where
  "clusteringSystemLogsByCluster logs =
     fold (\<lambda>log results. append_at (sl_ClusterName log) [log] results) logs []"

definition clusteringSystemLogsByNamespacePod ::
  "KnoxSystemLog list \<Rightarrow> (SysLogKey \<times> KnoxSystemLog list) list" where
  "clusteringSystemLogsByNamespacePod logs =
     fold (\<lambda>log results.
       append_at \<lparr>slk_Namespace = sl_Namespace log, slk_PodName = sl_PodName log\<rparr> [log] results) logs []"

text \<open>The map of logs is the list of its keys; it is emptied while it is read.\<close>

definition cleanseSystemLog ::
  "(KnoxSystemLog list \<Rightarrow> KnoxSystemLog list) \<Rightarrow> KnoxSystemLog list \<Rightarrow> KnoxSystemLog list \<times> KnoxSystemLog list" where
  "cleanseSystemLog ord logMap =
     fold (\<lambda>log (results, logMap).
       if sl_Source log = sl_Resource log then (results, remove1 log logMap)
       else if sl_PodName log = [] \<or> sl_Namespace log = [] then (results, remove1 log logMap)
       else (results @ [log], remove1 log logMap)) (ord logMap) ([], logMap)"

definition getOperationLogs :: "string \<Rightarrow> KnoxSystemLog list \<Rightarrow> KnoxSystemLog list" where
  "getOperationLogs operation logs = filter (\<lambda>log. sl_Operation log = operation) logs"

definition getPodInstance :: "SysLogKey \<Rightarrow> Pod list \<Rightarrow> string + Pod" where
  "getPodInstance key pods =
     (case List.find (\<lambda>pod. slk_Namespace key = pod_Namespace pod \<and> slk_PodName key = pod_PodName pod) pods of
        Some pod \<Rightarrow> Inr pod
      | None \<Rightarrow> Inl (''Not exist: '' @ slk_Namespace key @ '' '' @ slk_PodName key))"

section \<open>Building a policy\<close>

definition buildSystemPolicy :: KnoxSystemPolicy where
  "buildSystemPolicy =
     \<lparr>sysp_APIVersion = ''v1'', sysp_Kind = ''KnoxSystemPolicy'', sysp_Metadata = fmempty,
      sysp_Outdated = [], sysp_Spec = KnoxSystemSpec_zero\<lparr>ss_Severity := 1, ss_Action := ''Allow''\<rparr>,
      sysp_GeneratedTime = 0, sysp_UpdatedTime = 0, sysp_Latest = False\<rparr>"

definition set_meta :: "string \<Rightarrow> string \<Rightarrow> KnoxSystemPolicy \<Rightarrow> KnoxSystemPolicy" where
  "set_meta k v policy = policy\<lparr>sysp_Metadata := fmupd k v (sysp_Metadata policy)\<rparr>"

definition upd_file :: "(KnoxSys \<Rightarrow> KnoxSys) \<Rightarrow> KnoxSystemPolicy \<Rightarrow> KnoxSystemPolicy" where
  "upd_file f policy = policy\<lparr>sysp_Spec := (sysp_Spec policy)\<lparr>ss_File := f (ss_File (sysp_Spec policy))\<rparr>\<rparr>"

definition upd_process :: "(KnoxSys \<Rightarrow> KnoxSys) \<Rightarrow> KnoxSystemPolicy \<Rightarrow> KnoxSystemPolicy" where
  "upd_process f policy =
     policy\<lparr>sysp_Spec := (sysp_Spec policy)\<lparr>ss_Process := f (ss_Process (sysp_Spec policy))\<rparr>\<rparr>"

definition upd_network :: "(NetworkRule \<Rightarrow> NetworkRule) \<Rightarrow> KnoxSystemPolicy \<Rightarrow> KnoxSystemPolicy" where
  "upd_network f policy =
     policy\<lparr>sysp_Spec := (sysp_Spec policy)\<lparr>ss_Network := f (ss_Network (sysp_Spec policy))\<rparr>\<rparr>"

definition add_path :: "KnoxMatchPaths \<Rightarrow> KnoxSys \<Rightarrow> KnoxSys" where
  "add_path mp ks = ks\<lparr>ks_MatchPaths := ks_MatchPaths ks @ [mp]\<rparr>"

definition add_dir :: "KnoxMatchDirectories \<Rightarrow> KnoxSys \<Rightarrow> KnoxSys" where
  "add_dir md ks = ks\<lparr>ks_MatchDirectories := ks_MatchDirectories ks @ [md]\<rparr>"

definition fromSource_of :: "bool \<Rightarrow> string \<Rightarrow> KnoxFromSource list" where
  "fromSource_of on src = (if on then if src \<noteq> [] then [\<lparr>fs_Path = src, fs_Dir = []\<rparr>] else [] else [])"

definition matchPath_of :: "bool \<Rightarrow> string \<Rightarrow> SysPath \<Rightarrow> KnoxMatchPaths" where
  "matchPath_of on src pathSpec = \<lparr>mp_Path = sp_Path pathSpec, mp_ReadOnly = False, mp_OwnerOnly = False,
     mp_FromSource = fromSource_of on src\<rparr>"

definition matchDir_of :: "bool \<Rightarrow> string \<Rightarrow> SysPath \<Rightarrow> KnoxMatchDirectories" where
  "matchDir_of on src pathSpec =
     \<lparr>md_Dir = (if \<not> HasSuffix (sp_Path pathSpec) ''/'' then sp_Path pathSpec @ ''/'' else sp_Path pathSpec),
      md_Recursive = True, md_ReadOnly = False, md_OwnerOnly = False, md_FromSource = fromSource_of on src\<rparr>"

definition updateSysPolicySpec ::
  "SysGlobals \<Rightarrow> string \<Rightarrow> KnoxSystemPolicy \<Rightarrow> string \<Rightarrow> SysPath \<Rightarrow> KnoxSystemPolicy" where
  "updateSysPolicySpec g opType policy src pathSpec =
     (if opType = SYS_OP_NETWORK then
        upd_network (\<lambda>nr. nr\<lparr>nr_MatchProtocols := nr_MatchProtocols nr @
            [\<lparr>mpr_Protocol = sp_Path pathSpec, mpr_FromSource = [\<lparr>fs_Path = src, fs_Dir = []\<rparr>]\<rparr>]\<rparr>)
          (set_meta ''fromSource'' src policy)
      else if sp_IsDir pathSpec then
        (if opType = SYS_OP_FILE then
           upd_file (add_dir (matchDir_of (g_FileFromSource g) src pathSpec))
             (if g_FileFromSource g then set_meta ''fromSource'' src policy else policy)
         else if opType = SYS_OP_PROCESS then
           upd_process (add_dir (matchDir_of (g_ProcessFromSource g) src pathSpec))
             (if g_ProcessFromSource g then set_meta ''fromSource'' src policy else policy)
         else policy)
      else
        (if opType = SYS_OP_FILE then
           upd_file (add_path (matchPath_of (g_FileFromSource g) src pathSpec))
             (if g_FileFromSource g then set_meta ''fromSource'' src policy else policy)
         else if opType = SYS_OP_PROCESS then
           upd_process (add_path (matchPath_of (g_ProcessFromSource g) src pathSpec))
             (if g_ProcessFromSource g then set_meta ''fromSource'' src policy else policy)
         else policy))"

text \<open>\<^verbatim>\<open>strings.Split(label, "=")[0]\<close> and \<^verbatim>\<open>[1]\<close>: a label without the sign panics.\<close>

definition split_label :: "string \<Rightarrow> go_panic + string \<times> string" where
  "split_label label =
     go_bind (index (Split label (CHR ''='')) 0) (\<lambda>k.
     go_bind (index (Split label (CHR ''='')) 1) (\<lambda>v. Inr (k, v)))"

definition set_selector_label :: "KnoxSystemPolicy \<Rightarrow> string \<Rightarrow> go_panic + KnoxSystemPolicy" where
  "set_selector_label policy label =
     go_bind (split_label label) (\<lambda>(k, v).
       Inr (policy\<lparr>sysp_Spec := (sysp_Spec policy)\<lparr>ss_Selector :=
         \<lparr>sel_MatchLabels = fmupd k v (sel_MatchLabels (ss_Selector (sysp_Spec policy)))\<rparr>\<rparr>\<rparr>))"

fun updateSysPolicySelector ::
  "string \<Rightarrow> Pod \<Rightarrow> KnoxSystemPolicy list \<Rightarrow> go_panic + KnoxSystemPolicy list" where
  "updateSysPolicySelector clusterName pod [] = Inr []"
| "updateSysPolicySelector clusterName pod (policy # policies) =
     go_bind (foldM set_selector_label
         (set_meta ''namespace'' (pod_Namespace pod) (set_meta ''clusterName'' clusterName policy))
         (pod_Labels pod)) (\<lambda>policy'.
     go_bind (updateSysPolicySelector clusterName pod policies) (\<lambda>results. Inr (policy' # results)))"

section \<open>Discovery from the logs of a pod\<close>

definition group_step ::
  "bool \<Rightarrow> KnoxSystemLog \<Rightarrow> (string \<times> string list) list \<Rightarrow> (string \<times> string list) list" where
  "group_step fromSource log srcToDest =
     (let src = (if \<not> fromSource then SOURCE_ALL else sl_Source log)
      in case map_of srcToDest src of
           Some val \<Rightarrow>
             if \<not> ContainsElement val (sl_Resource log)
             then AList.update src (val @ [sl_Resource log]) srcToDest else srcToDest
         | None \<Rightarrow> AList.update src [sl_Resource log] srcToDest)"

definition group_resources :: "bool \<Rightarrow> KnoxSystemLog list \<Rightarrow> (string \<times> string list) list" where
  "group_resources fromSource logs = fold (group_step fromSource) logs []"

text \<open>The orders in which the maps of one discovery are iterated.\<close>

record iteration =
  it_tree :: "tree_map \<Rightarrow> tree_map"
  it_paths :: "(string \<times> bool) list \<Rightarrow> (string \<times> bool) list"
  it_src :: "(string \<times> string list) list \<Rightarrow> (string \<times> string list) list"

definition iteration_ok :: "iteration \<Rightarrow> bool" where
  "iteration_ok it \<longleftrightarrow> iter_order (it_tree it) \<and> iter_order (it_paths it) \<and> iter_order (it_src it)"

definition append_rules ::
  "iteration \<Rightarrow> SysGlobals \<Rightarrow> string \<Rightarrow> (string \<times> string list) list \<Rightarrow> KnoxSystemPolicy \<Rightarrow> bool \<times> KnoxSystemPolicy" where
  "append_rules it g opType srcToDest policy =
     fold (\<lambda>(src, paths) ap.
       fold (\<lambda>filePath (appended, policy). (True, updateSysPolicySpec g opType policy src filePath))
         (AggregatePaths (it_tree it) (it_paths it) paths) ap)
       (it_src it srcToDest) (False, policy)"

definition discoverFileOperationPolicy ::
  "iteration \<Rightarrow> SysGlobals \<Rightarrow> KnoxSystemPolicy list \<Rightarrow> Pod \<Rightarrow> KnoxSystemLog list \<Rightarrow> KnoxSystemPolicy list" where
  "discoverFileOperationPolicy it g results pod logs =
     (let srcToDest = group_resources (g_FileFromSource g) logs;
          policy = upd_file (\<lambda>_. KnoxSys_zero) (set_meta ''type'' SYS_OP_FILE buildSystemPolicy);
          (appended, policy) = append_rules it g SYS_OP_FILE srcToDest policy
      in if appended then results @ [policy] else results)"

definition discoverProcessOperationPolicy ::
  "iteration \<Rightarrow> SysGlobals \<Rightarrow> KnoxSystemPolicy list \<Rightarrow> Pod \<Rightarrow> KnoxSystemLog list \<Rightarrow> KnoxSystemPolicy list" where
  "discoverProcessOperationPolicy it g results pod logs =
     (let srcToDest = group_resources (g_ProcessFromSource g) logs;
          policy = upd_process (\<lambda>_. KnoxSys_zero) (set_meta ''type'' SYS_OP_PROCESS buildSystemPolicy);
          (appended, policy) = append_rules it g SYS_OP_PROCESS srcToDest policy
      in if appended then results @ [policy] else results)"

section \<open>Facts\<close>

lemma set_meta_spec [simp]: "sysp_Spec (set_meta k v p) = sysp_Spec p"
  by (simp add: set_meta_def)

lemma set_meta_metadata [simp]: "sysp_Metadata (set_meta k v p) = fmupd k v (sysp_Metadata p)"
  by (simp add: set_meta_def)

lemma upd_file_simps [simp]:
  "ss_File (sysp_Spec (upd_file f p)) = f (ss_File (sysp_Spec p))"
  "ss_Process (sysp_Spec (upd_file f p)) = ss_Process (sysp_Spec p)"
  "ss_Network (sysp_Spec (upd_file f p)) = ss_Network (sysp_Spec p)"
  "ss_Selector (sysp_Spec (upd_file f p)) = ss_Selector (sysp_Spec p)"
  "ss_Action (sysp_Spec (upd_file f p)) = ss_Action (sysp_Spec p)"
  "sysp_Metadata (upd_file f p) = sysp_Metadata p"
  by (simp_all add: upd_file_def)

lemma upd_process_simps [simp]:
  "ss_File (sysp_Spec (upd_process f p)) = ss_File (sysp_Spec p)"
  "ss_Process (sysp_Spec (upd_process f p)) = f (ss_Process (sysp_Spec p))"
  "ss_Network (sysp_Spec (upd_process f p)) = ss_Network (sysp_Spec p)"
  "ss_Selector (sysp_Spec (upd_process f p)) = ss_Selector (sysp_Spec p)"
  "ss_Action (sysp_Spec (upd_process f p)) = ss_Action (sysp_Spec p)"
  "sysp_Metadata (upd_process f p) = sysp_Metadata p"
  by (simp_all add: upd_process_def)

lemma upd_network_simps [simp]:
  "ss_File (sysp_Spec (upd_network f p)) = ss_File (sysp_Spec p)"
  "ss_Process (sysp_Spec (upd_network f p)) = ss_Process (sysp_Spec p)"
  "ss_Network (sysp_Spec (upd_network f p)) = f (ss_Network (sysp_Spec p))"
  "ss_Selector (sysp_Spec (upd_network f p)) = ss_Selector (sysp_Spec p)"
  "ss_Action (sysp_Spec (upd_network f p)) = ss_Action (sysp_Spec p)"
  "sysp_Metadata (upd_network f p) = sysp_Metadata p"
  by (simp_all add: upd_network_def)

lemma add_simps [simp]:
  "ks_MatchPaths (add_path mp ks) = ks_MatchPaths ks @ [mp]"
  "ks_MatchDirectories (add_path mp ks) = ks_MatchDirectories ks"
  "ks_MatchPaths (add_dir md ks) = ks_MatchPaths ks"
  "ks_MatchDirectories (add_dir md ks) = ks_MatchDirectories ks @ [md]"
  by (simp_all add: add_path_def add_dir_def)

lemma append_at_distinct: "distinct (map fst m) \<Longrightarrow> distinct (map fst (append_at k vs m))"
  by (simp add: append_at_def distinct_update)

lemma entries_Nil [simp]: "entries [] k = []"
  by (simp add: entries_def)

lemma entries_update: "entries (AList.update k v m) k' = (if k' = k then v else entries m k')"
  by (simp add: entries_def update_conv')

lemma entries_append_at: "entries (append_at k vs m) k' = (if k' = k then entries m k @ vs else entries m k')"
  by (simp add: append_at_def entries_update)

lemma entries_mem: "entries m k \<noteq> [] \<Longrightarrow> (k, entries m k) \<in> set m"
  by (auto simp: entries_def split: option.splits dest: map_of_SomeD)

lemma entries_of_mem: "distinct (map fst m) \<Longrightarrow> (k, v) \<in> set m \<Longrightarrow> entries m k = v"
  by (simp add: entries_def)

text \<open>The part of a policy that an operation type adds rules to, and whether it follows sources.\<close>

definition op_rules :: "string \<Rightarrow> KnoxSystemPolicy \<Rightarrow> KnoxSys" where
  "op_rules op pol = (if op = SYS_OP_FILE then ss_File (sysp_Spec pol) else ss_Process (sysp_Spec pol))"

definition op_fromSource :: "SysGlobals \<Rightarrow> string \<Rightarrow> bool" where
  "op_fromSource g op = (if op = SYS_OP_FILE then g_FileFromSource g else g_ProcessFromSource g)"

lemma op_rules_update:
  assumes "op = SYS_OP_FILE \<or> op = SYS_OP_PROCESS"
  shows "op_rules op (updateSysPolicySpec g op pol src sp) =
    (if sp_IsDir sp then add_dir (matchDir_of (op_fromSource g op) src sp) (op_rules op pol)
     else add_path (matchPath_of (op_fromSource g op) src sp) (op_rules op pol))"
  using assms by (auto simp: op_rules_def op_fromSource_def updateSysPolicySpec_def sys_ops)

lemma op_rules_fold:
  assumes "op = SYS_OP_FILE \<or> op = SYS_OP_PROCESS"
  shows "op_rules op (fold (\<lambda>(src, sp) pol. updateSysPolicySpec g op pol src sp) rs pol) =
    (op_rules op pol)
      \<lparr>ks_MatchPaths := ks_MatchPaths (op_rules op pol) @
         map (\<lambda>(src, sp). matchPath_of (op_fromSource g op) src sp) (filter (\<lambda>(src, sp). \<not> sp_IsDir sp) rs),
       ks_MatchDirectories := ks_MatchDirectories (op_rules op pol) @
         map (\<lambda>(src, sp). matchDir_of (op_fromSource g op) src sp) (filter (\<lambda>(src, sp). sp_IsDir sp) rs)\<rparr>"
proof (induction rs arbitrary: pol)
  case (Cons r rs)
  obtain src sp where r: "r = (src, sp)" by fastforce
  show ?case
    using Cons.IH [of "updateSysPolicySpec g op pol src sp"] op_rules_update [OF assms, of g pol src sp] r
    by (simp add: add_path_def add_dir_def)
qed simp

text \<open>All the rules of one discovery, each with its source.\<close>

definition rules_of :: "iteration \<Rightarrow> (string \<times> string list) list \<Rightarrow> (string \<times> SysPath) list" where
  "rules_of it m = concat (map (\<lambda>(src, paths). map (Pair src) (AggregatePaths (it_tree it) (it_paths it) paths)) (it_src it m))"

lemma append_rules_eq:
  "append_rules it g op m pol =
     (rules_of it m \<noteq> [], fold (\<lambda>(src, sp) pol. updateSysPolicySpec g op pol src sp) (rules_of it m) pol)"
proof -
  let ?f = "\<lambda>(src, sp) pol. updateSysPolicySpec g op pol src sp"
  have inner: "fold (\<lambda>fp (appended, pol). (True, updateSysPolicySpec g op pol src fp)) sps (a, pol) =
      (a \<or> sps \<noteq> [], fold ?f (map (Pair src) sps) pol)" for src sps a pol
    by (induction sps arbitrary: a pol) auto
  have "fold (\<lambda>(src, paths) ap.
       fold (\<lambda>filePath (appended, policy). (True, updateSysPolicySpec g op policy src filePath))
         (AggregatePaths (it_tree it) (it_paths it) paths) ap) xs (a, pol) =
    (let rs = concat (map (\<lambda>(src, paths). map (Pair src) (AggregatePaths (it_tree it) (it_paths it) paths)) xs)
     in (a \<or> rs \<noteq> [], fold ?f rs pol))" for xs a pol
    by (induction xs arbitrary: a pol) (auto simp: inner Let_def)
  then show ?thesis by (simp add: append_rules_def rules_of_def Let_def)
qed

text \<open>The groups hold every resource under its source, and nothing else.\<close>

definition log_src :: "bool \<Rightarrow> KnoxSystemLog \<Rightarrow> string" where
  "log_src fromSource log = (if \<not> fromSource then SOURCE_ALL else sl_Source log)"

lemma group_step_distinct: "distinct (map fst m) \<Longrightarrow> distinct (map fst (group_step fs log m))"
  by (auto simp: group_step_def Let_def distinct_update split: option.splits)

lemma group_step_entries:
  "set (entries (group_step fs log m) s) =
     set (entries m s) \<union> (if s = log_src fs log then {sl_Resource log} else {})"
proof (cases "map_of m (log_src fs log)")
  case None
  then show ?thesis
    by (auto simp: group_step_def entries_update log_src_def [symmetric]) (auto simp: entries_def)
next
  case (Some val)
  then have "entries m (log_src fs log) = val" by (simp add: entries_def)
  then show ?thesis using Some
    by (auto simp: group_step_def entries_update log_src_def [symmetric])
qed

lemma group_resources_inv:
  "distinct (map fst (group_resources fs logs)) \<and>
   set (entries (group_resources fs logs) s) = sl_Resource ` {log \<in> set logs. log_src fs log = s}"
proof -
  have "distinct (map fst (fold (group_step fs) logs m)) \<and>
      set (entries (fold (group_step fs) logs m) s) =
        set (entries m s) \<union> sl_Resource ` {log \<in> set logs. log_src fs log = s}"
    if "distinct (map fst m)" for m
    using that
  proof (induction logs arbitrary: m)
    case (Cons log logs)
    then show ?case
      using Cons.IH [OF group_step_distinct [OF Cons.prems]] by (auto simp: group_step_entries)
  qed simp
  from this [of "[]"] show ?thesis by (simp add: group_resources_def)
qed

lemma group_resources_distinct: "distinct (map fst (group_resources fs logs))"
  using group_resources_inv by blast

lemma group_resources_entry:
  assumes "log \<in> set logs"
  obtains paths where "(log_src fs log, paths) \<in> set (group_resources fs logs)"
    and "set paths = sl_Resource ` {l \<in> set logs. log_src fs l = log_src fs log}"
proof
  let ?es = "entries (group_resources fs logs) (log_src fs log)"
  show eq: "set ?es = sl_Resource ` {l \<in> set logs. log_src fs l = log_src fs log}"
    using group_resources_inv by blast
  then have "set ?es \<noteq> {}" using assms by auto
  then show "(log_src fs log, ?es) \<in> set (group_resources fs logs)" by (intro entries_mem) auto
qed

section \<open>What a policy permits\<close>

text \<open>A rule permits a resource to a source if it names no source or names that one.\<close>

definition source_ok :: "KnoxFromSource list \<Rightarrow> string \<Rightarrow> bool" where
  "source_ok fs src \<longleftrightarrow> fs = [] \<or> (\<exists>f \<in> set fs. fs_Path f = src)"

definition ks_permits :: "KnoxSys \<Rightarrow> string \<Rightarrow> string \<Rightarrow> bool" where
  "ks_permits ks src r \<longleftrightarrow>
     (\<exists>mp \<in> set (ks_MatchPaths ks). mp_Path mp = r \<and> source_ok (mp_FromSource mp) src) \<or>
     (\<exists>md \<in> set (ks_MatchDirectories ks). HasPrefix (r @ ''/'') (md_Dir md) \<and> source_ok (md_FromSource md) src)"

lemma covers_permits:
  assumes "covers sp r" and "source_ok (fromSource_of on src) src'"
    and "sp_IsDir sp \<Longrightarrow> matchDir_of on src sp \<in> set (ks_MatchDirectories ks)"
    and "\<not> sp_IsDir sp \<Longrightarrow> matchPath_of on src sp \<in> set (ks_MatchPaths ks)"
    and "sp_IsDir sp \<Longrightarrow> HasSuffix (sp_Path sp) ''/''"
  shows "ks_permits ks src' r"
proof (cases "sp_IsDir sp")
  case True
  then show ?thesis
    using assms(1,2) assms(3,5) [OF True]
    by (auto simp: ks_permits_def covers_def matchDir_of_def intro!: rev_bexI)
next
  case False
  then show ?thesis
    using assms(1,2) assms(4) [OF False]
    by (auto simp: ks_permits_def covers_def matchPath_of_def intro!: rev_bexI)
qed

lemma agg_paths_slash: "sp \<in> agg_paths C \<Longrightarrow> sp_IsDir sp \<Longrightarrow> HasSuffix (sp_Path sp) ''/''"
  by (auto simp: agg_paths_def)

lemma discovered_permits:
  assumes it: "iteration_ok it" and op: "op = SYS_OP_FILE \<or> op = SYS_OP_PROCESS"
    and wild: "no_wild (map sl_Resource logs)"
    and log: "log \<in> set logs" and can: "canonical (sl_Resource log)"
    and last: "\<And>l. l \<in> set logs \<Longrightarrow> \<not> strict_prefix (components (sl_Resource log)) (components (sl_Resource l))"
  shows "fst (append_rules it g op (group_resources (op_fromSource g op) logs) pol)"
    and "ks_permits (op_rules op (snd (append_rules it g op (group_resources (op_fromSource g op) logs) pol)))
      (sl_Source log) (sl_Resource log)"
proof -
  let ?fs = "op_fromSource g op" and ?r = "sl_Resource log"
  let ?m = "group_resources ?fs logs" and ?src = "log_src ?fs log"
  obtain paths where p: "(?src, paths) \<in> set ?m"
    and paths: "set paths = sl_Resource ` {l \<in> set logs. log_src ?fs l = ?src}"
    using group_resources_entry [OF log] by blast
  have wp: "no_wild paths" using wild paths by (auto simp: no_wild_def list_all_iff)
  have r: "?r \<in> set paths" using paths log by auto
  have "\<exists>sp \<in> agg_paths (all_components paths). covers sp ?r"
    by (rule agg_paths_cover [OF r can]) (use paths last in auto)
  then obtain sp where sp: "sp \<in> agg_paths (all_components paths)" "covers sp ?r" by blast
  then have "sp \<in> set (AggregatePaths (it_tree it) (it_paths it) paths)"
    using set_AggregatePaths [OF wp] it by (simp add: iteration_ok_def)
  moreover have "(?src, paths) \<in> set (it_src it ?m)"
    using p it iter_order_set [of "it_src it"] by (simp add: iteration_ok_def)
  ultimately have rule: "(?src, sp) \<in> set (rules_of it ?m)" by (fastforce simp: rules_of_def)
  then show "fst (append_rules it g op ?m pol)" by (auto simp: append_rules_eq)
  let ?ks = "op_rules op (snd (append_rules it g op ?m pol))"
  show "ks_permits ?ks (sl_Source log) ?r"
  proof (rule covers_permits [OF sp(2)])
    show "source_ok (fromSource_of ?fs ?src) (sl_Source log)"
      by (auto simp: source_ok_def fromSource_of_def log_src_def)
    show "matchDir_of ?fs ?src sp \<in> set (ks_MatchDirectories ?ks)" if "sp_IsDir sp"
      using rule that by (auto simp: append_rules_eq op_rules_fold [OF op] image_iff intro!: rev_bexI)
    show "matchPath_of ?fs ?src sp \<in> set (ks_MatchPaths ?ks)" if "\<not> sp_IsDir sp"
      using rule that by (auto simp: append_rules_eq op_rules_fold [OF op] image_iff intro!: rev_bexI)
    show "HasSuffix (sp_Path sp) ''/''" if "sp_IsDir sp"
      using agg_paths_slash sp(1) that by blast
  qed
qed

section \<open>The selector\<close>

lemma split_label_Inr: "CHR ''='' \<in> set l \<Longrightarrow> \<exists>k v. split_label l = Inr (k, v)"
proof -
  assume "CHR ''='' \<in> set l"
  then obtain k s where "l = k @ CHR ''='' # s" "CHR ''='' \<notin> set k" by (meson split_list_first)
  then have eq: "Split l (CHR ''='') = k # Split s (CHR ''='')" by (simp add: Split_append)
  obtain v vs where "Split s (CHR ''='') = v # vs" by (cases "Split s (CHR ''='')") auto
  then show ?thesis using eq by (simp add: split_label_def index_def)
qed

lemma split_label_Inl: "CHR ''='' \<notin> set l \<Longrightarrow> split_label l = Inl IndexOutOfRange"
  by (simp add: split_label_def Split_no_sep index_def)

lemma split_label_eq: "CHR ''='' \<notin> set k \<Longrightarrow> CHR ''='' \<notin> set v \<Longrightarrow> split_label (k @ ''='' @ v) = Inr (k, v)"
  by (simp add: split_label_def Split_append Split_no_sep index_def)

lemma set_selector_label_panic:
  "set_selector_label pol l = Inl e \<longleftrightarrow> CHR ''='' \<notin> set l \<and> e = IndexOutOfRange"
proof (cases "CHR ''='' \<in> set l")
  case True
  then show ?thesis using split_label_Inr [OF True] by (auto simp: set_selector_label_def)
next
  case False
  then show ?thesis using split_label_Inl [OF False] by (auto simp: set_selector_label_def)
qed

lemma foldM_panic:
  assumes "\<And>s x e. f s x = Inl e \<longleftrightarrow> P x \<and> e = e0"
  shows "foldM f s xs = Inl e \<longleftrightarrow> (\<exists>x \<in> set xs. P x) \<and> e = e0"
proof (induction xs arbitrary: s)
  case (Cons x xs)
  then show ?case using assms [of s x] by (cases "f s x") auto
qed simp

lemma updateSysPolicySelector_Inl:
  "updateSysPolicySelector c pod ps = Inl e \<longleftrightarrow>
     ps \<noteq> [] \<and> (\<exists>l \<in> set (pod_Labels pod). CHR ''='' \<notin> set l) \<and> e = IndexOutOfRange"
proof (induction ps)
  case (Cons p ps)
  have panic: "foldM set_selector_label q (pod_Labels pod) = Inl e \<longleftrightarrow>
      (\<exists>l \<in> set (pod_Labels pod). CHR ''='' \<notin> set l) \<and> e = IndexOutOfRange" for q e
    by (rule foldM_panic) (rule set_selector_label_panic)
  show ?case
  proof (cases "foldM set_selector_label
      (set_meta ''namespace'' (pod_Namespace pod) (set_meta ''clusterName'' c p)) (pod_Labels pod)")
    case (Inl e')
    then have "(\<exists>l \<in> set (pod_Labels pod). CHR ''='' \<notin> set l) \<and> e' = IndexOutOfRange"
      using panic by blast
    then show ?thesis using Inl by auto
  next
    case (Inr q)
    then have "\<not> (\<exists>l \<in> set (pod_Labels pod). CHR ''='' \<notin> set l)" 
      using panic [of "set_meta ''namespace'' (pod_Namespace pod) (set_meta ''clusterName'' c p)" IndexOutOfRange]
      by auto
    then show ?thesis using Inr Cons.IH by (cases "updateSysPolicySelector c pod ps") auto
  qed
qed simp

section \<open>Properties\<close>


definition it_id :: iteration where
  "it_id = \<lparr>it_tree = id, it_paths = id, it_src = id\<rparr>"

definition g_sources :: SysGlobals where
  "g_sources = \<lparr>g_DBDriver = ''mysql'', g_SystemPolicyTo = ''db'', g_SystemPolicyTypes = 7,
     g_SystemLogFilters = [], g_ProcessFromSource = True, g_FileFromSource = True\<rparr>"

definition g_pod :: Pod where
  "g_pod = \<lparr>pod_Namespace = ''ns'', pod_PodName = ''web-1'', pod_Labels = [''app=web''], pod_PodIP = ''10.0.0.1''\<rparr>"


text \<open>The same for process policies: every logged process is permitted to the source that
  started it.\<close>

theorem discoverProcessOperationPolicy_permits:
  assumes "iteration_ok it" and "no_wild (map sl_Resource logs)"
    and "log \<in> set logs" and "canonical (sl_Resource log)"
    and "\<And>l. l \<in> set logs \<Longrightarrow> \<not> strict_prefix (components (sl_Resource log)) (components (sl_Resource l))"
  shows "\<exists>pol. discoverProcessOperationPolicy it g results pod logs = results @ [pol] \<and>
    ks_permits (ss_Process (sysp_Spec pol)) (sl_Source log) (sl_Resource log)"
proof -
  have neq: "SYS_OP_PROCESS \<noteq> SYS_OP_FILE" by (simp add: sys_ops)
  let ?pol = "upd_process (\<lambda>_. KnoxSys_zero) (set_meta ''type'' SYS_OP_PROCESS buildSystemPolicy)"
  let ?r = "append_rules it g SYS_OP_PROCESS (group_resources (op_fromSource g SYS_OP_PROCESS) logs) ?pol"
  have "fst ?r" "ks_permits (op_rules SYS_OP_PROCESS (snd ?r)) (sl_Source log) (sl_Resource log)"
    using discovered_permits [OF assms(1) _ assms(2-5), of SYS_OP_PROCESS g ?pol] by blast+
  then show ?thesis using neq
    by (auto simp: discoverProcessOperationPolicy_def op_rules_def op_fromSource_def case_prod_unfold Let_def)
qed

theorem discoverProcessOperationPolicy_permits_witness:
  "\<exists>pol. discoverProcessOperationPolicy it_id g_sources [] g_pod
      [op_log SYS_OP_PROCESS ''/bin/ls'', op_log SYS_OP_PROCESS ''/bin/cat''] = [] @ [pol] \<and>
    ks_permits (ss_Process (sysp_Spec pol)) (sl_Source (op_log SYS_OP_PROCESS ''/bin/ls''))
      (sl_Resource (op_log SYS_OP_PROCESS ''/bin/ls''))"
proof (rule discoverProcessOperationPolicy_permits)
  show "iteration_ok it_id" by (simp add: iteration_ok_def it_id_def iter_order_def)
  show "no_wild (map sl_Resource [op_log SYS_OP_PROCESS ''/bin/ls'', op_log SYS_OP_PROCESS ''/bin/cat''])"
    by code_simp
  show "canonical (sl_Resource (op_log SYS_OP_PROCESS ''/bin/ls''))" by code_simp
  show "\<not> strict_prefix (components (sl_Resource (op_log SYS_OP_PROCESS ''/bin/ls''))) (components (sl_Resource l))"
    if "l \<in> set [op_log SYS_OP_PROCESS ''/bin/ls'', op_log SYS_OP_PROCESS ''/bin/cat'']" for l
    using that by (auto simp: components_def op_log_def)
qed simp

text \<open>\<^verbatim>\<open>updateSysPolicySelector\<close> panics exactly when there is a policy and a label of the
  pod has no equals sign; otherwise it returns.\<close>

theorem updateSysPolicySelector_panics_iff:
  "updateSysPolicySelector clusterName pod policies = Inl e \<longleftrightarrow>
     policies \<noteq> [] \<and> \<not> list_all (\<lambda>l. CHR ''='' \<in> set l) (pod_Labels pod) \<and> e = IndexOutOfRange"
  by (auto simp: updateSysPolicySelector_Inl list_all_iff)

end
