(* ===== verification/SystemMerge.thy ===== *)
theory SystemMerge
  imports SystemPolicy
begin

text \<open>
  The merging of system policies in \<^verbatim>\<open>systempolicy/systemPolicy.go\<close>: policies of the same
  cluster, namespace and labels become one (\<^verbatim>\<open>mergeSysPolicies\<close>), rules of the same path become
  one rule with all their sources (\<^verbatim>\<open>mergeFromSource\<close>), and the file sets of the store become
  policies (\<^verbatim>\<open>ConvertWPFSToKnoxSysPolicy\<close>). The three kinds of rules with sources share the
  contract \<^verbatim>\<open>from_source_rule\<close>, inside which the merge is proved once.
\<close>

section \<open>Comparing\<close>

definition same_meta :: "KnoxSystemPolicy \<Rightarrow> KnoxSystemPolicy \<Rightarrow> bool" where
  "same_meta pin v \<longleftrightarrow>
     lookup_str (sysp_Metadata pin) ''clusterName'' = lookup_str (sysp_Metadata v) ''clusterName'' \<and>
     lookup_str (sysp_Metadata pin) ''namespace'' = lookup_str (sysp_Metadata v) ''namespace'' \<and>
     lookup_str (sysp_Metadata pin) ''labels'' = lookup_str (sysp_Metadata v) ''labels''"

definition checkIfMetadataMatches :: "KnoxSystemPolicy \<Rightarrow> KnoxSystemPolicy list \<Rightarrow> int" where
  "checkIfMetadataMatches pin hay =
     (case find_index (same_meta pin) hay of None \<Rightarrow> - 1 | Some idx \<Rightarrow> int idx)"

definition cmpGenPathDir :: "string \<Rightarrow> KnoxFromSource list \<Rightarrow> string \<Rightarrow> KnoxFromSource list \<Rightarrow> bool" where
  "cmpGenPathDir p1 p1fs p2 p2fs \<longleftrightarrow>
     (if length p1fs > 0 then fold (\<lambda>v p. p @ fs_Path v) p1fs p1 else p1) <
     (if length p2fs > 0 then fold (\<lambda>v p. p @ fs_Path v) p2fs p2 else p2)"

definition cmpPaths :: "KnoxMatchPaths \<Rightarrow> KnoxMatchPaths \<Rightarrow> bool" where
  "cmpPaths p1 p2 = cmpGenPathDir (mp_Path p1) (mp_FromSource p1) (mp_Path p2) (mp_FromSource p2)"

definition cmpProts :: "KnoxMatchProtocols \<Rightarrow> KnoxMatchProtocols \<Rightarrow> bool" where
  "cmpProts p1 p2 = cmpGenPathDir (mpr_Protocol p1) (mpr_FromSource p1) (mpr_Protocol p2) (mpr_FromSource p2)"

definition cmpDirs :: "KnoxMatchDirectories \<Rightarrow> KnoxMatchDirectories \<Rightarrow> bool" where
  "cmpDirs p1 p2 = cmpGenPathDir (md_Dir p1) (md_FromSource p1) (md_Dir p2) (md_FromSource p2)"

text \<open>\<^verbatim>\<open>sort.Slice\<close> with a strict comparison; the model sorts stably.\<close>

fun insort_by :: "('a \<Rightarrow> 'a \<Rightarrow> bool) \<Rightarrow> 'a \<Rightarrow> 'a list \<Rightarrow> 'a list" where
  "insort_by lt x [] = [x]"
| "insort_by lt x (y # ys) = (if lt y x then y # insort_by lt x ys else x # y # ys)"

definition sort_by :: "('a \<Rightarrow> 'a \<Rightarrow> bool) \<Rightarrow> 'a list \<Rightarrow> 'a list" where
  "sort_by lt xs = foldr (insort_by lt) xs []"

definition sortFromSource :: "KnoxFromSource list \<Rightarrow> KnoxFromSource list" where
  "sortFromSource fs =
     (if length fs \<le> 1 then fs
      else sort_by (\<lambda>x y. fs_Path x @ fs_Dir x < fs_Path y @ fs_Dir y) fs)"

section \<open>Merging rules\<close>

text \<open>The three functions \<^verbatim>\<open>mergeFromSourceMatch*\<close> have one body, for three types of rules.\<close>

definition merge_rule ::
  "('r \<Rightarrow> string) \<Rightarrow> ('r \<Rightarrow> KnoxFromSource list) \<Rightarrow> (KnoxFromSource list \<Rightarrow> 'r \<Rightarrow> 'r) \<Rightarrow> 'r \<Rightarrow> 'r list \<Rightarrow> 'r list" where
  "merge_rule key fs set_fs pp mp =
     (let match = list_ex (\<lambda>rp. key pp = key rp) mp;
          mp' = map (\<lambda>rp. let rp' = (if key pp = key rp then set_fs (fs rp @ fs pp) rp else rp)
                          in set_fs (sortFromSource (fs rp')) rp') mp
      in if \<not> match then mp' @ [pp] else mp')"

definition merge_rules ::
  "('r \<Rightarrow> string) \<Rightarrow> ('r \<Rightarrow> KnoxFromSource list) \<Rightarrow> (KnoxFromSource list \<Rightarrow> 'r \<Rightarrow> 'r) \<Rightarrow> 'r list \<Rightarrow> 'r list \<Rightarrow> 'r list" where
  "merge_rules key fs set_fs pmp mp = fold (merge_rule key fs set_fs) pmp mp"

definition set_mp_fs :: "KnoxFromSource list \<Rightarrow> KnoxMatchPaths \<Rightarrow> KnoxMatchPaths" where
  "set_mp_fs l r = r\<lparr>mp_FromSource := l\<rparr>"

definition set_md_fs :: "KnoxFromSource list \<Rightarrow> KnoxMatchDirectories \<Rightarrow> KnoxMatchDirectories" where
  "set_md_fs l r = r\<lparr>md_FromSource := l\<rparr>"

definition set_mpr_fs :: "KnoxFromSource list \<Rightarrow> KnoxMatchProtocols \<Rightarrow> KnoxMatchProtocols" where
  "set_mpr_fs l r = r\<lparr>mpr_FromSource := l\<rparr>"

definition mergeFromSourceMatchPaths :: "KnoxMatchPaths list \<Rightarrow> KnoxMatchPaths list \<Rightarrow> KnoxMatchPaths list" where
  "mergeFromSourceMatchPaths pmp mp = merge_rules mp_Path mp_FromSource set_mp_fs pmp mp"

definition mergeFromSourceMatchDirs ::
  "KnoxMatchDirectories list \<Rightarrow> KnoxMatchDirectories list \<Rightarrow> KnoxMatchDirectories list" where
  "mergeFromSourceMatchDirs pmp mp = merge_rules md_Dir md_FromSource set_md_fs pmp mp"

definition mergeFromSourceMatchProt ::
  "KnoxMatchProtocols list \<Rightarrow> KnoxMatchProtocols list \<Rightarrow> KnoxMatchProtocols list" where
  "mergeFromSourceMatchProt pmp mp = merge_rules mpr_Protocol mpr_FromSource set_mpr_fs pmp mp"

section \<open>Merging policies\<close>

definition clear_rules :: "KnoxSystemPolicy \<Rightarrow> KnoxSystemPolicy" where
  "clear_rules pol = upd_process (\<lambda>_. KnoxSys_zero) (upd_file (\<lambda>_. KnoxSys_zero)
     (upd_network (\<lambda>_. \<lparr>nr_MatchProtocols = []\<rparr>) pol))"

definition merge_ks :: "KnoxSys \<Rightarrow> KnoxSys \<Rightarrow> KnoxSys" where
  "merge_ks p r = \<lparr>ks_MatchPaths = mergeFromSourceMatchPaths (ks_MatchPaths p) (ks_MatchPaths r),
     ks_MatchDirectories = mergeFromSourceMatchDirs (ks_MatchDirectories p) (ks_MatchDirectories r)\<rparr>"

definition merge_pol :: "KnoxSystemPolicy \<Rightarrow> KnoxSystemPolicy \<Rightarrow> KnoxSystemPolicy" where
  "merge_pol pol res =
     upd_network (\<lambda>nr. \<lparr>nr_MatchProtocols =
         mergeFromSourceMatchProt (nr_MatchProtocols (ss_Network (sysp_Spec pol))) (nr_MatchProtocols nr)\<rparr>)
     (upd_process (merge_ks (ss_Process (sysp_Spec pol)))
     (upd_file (merge_ks (ss_File (sysp_Spec pol))) res))"

text \<open>The label \<^verbatim>\<open>check\<close> and the jump back to it, once.\<close>

function merge_into :: "bool \<Rightarrow> KnoxSystemPolicy \<Rightarrow> KnoxSystemPolicy list \<Rightarrow> KnoxSystemPolicy list" where
  "merge_into checked pol results =
     (let i = checkIfMetadataMatches pol results
      in if i < 0 then (if checked then results else merge_into True pol (results @ [clear_rules pol]))
         else results[nat i := merge_pol pol (results ! nat i)])"
  by pat_completeness auto
termination by (relation "measure (\<lambda>(checked, _, _). if checked then 0 else 1)") auto

declare merge_into.simps [simp del]

definition mergeFromSource :: "KnoxSystemPolicy list \<Rightarrow> KnoxSystemPolicy list" where
  "mergeFromSource pols = fold (merge_into False) pols []"

definition sysPolicyName :: "KnoxSystemPolicy \<Rightarrow> string" where
  "sysPolicyName pol = ''autopol-system-'' @
     digits_of (uint (HashInt (lookup_str (sysp_Metadata pol) ''labels'' @
       lookup_str (sysp_Metadata pol) ''namespace'' @ lookup_str (sysp_Metadata pol) ''clustername'')))"

definition append_ks :: "KnoxSys \<Rightarrow> KnoxSys \<Rightarrow> KnoxSys" where
  "append_ks p r =
     (let r = (if length (ks_MatchPaths p) > 0
               then r\<lparr>ks_MatchPaths := ks_MatchPaths r @ ks_MatchPaths p\<rparr> else r)
      in if length (ks_MatchDirectories p) > 0
         then r\<lparr>ks_MatchDirectories := ks_MatchDirectories r @ ks_MatchDirectories p\<rparr> else r)"

definition append_nr :: "NetworkRule \<Rightarrow> NetworkRule \<Rightarrow> NetworkRule" where
  "append_nr p r = (if length (nr_MatchProtocols p) > 0
     then r\<lparr>nr_MatchProtocols := nr_MatchProtocols r @ nr_MatchProtocols p\<rparr> else r)"

definition append_pol :: "KnoxSystemPolicy \<Rightarrow> KnoxSystemPolicy \<Rightarrow> KnoxSystemPolicy" where
  "append_pol pol res =
     set_meta ''name'' (lookup_str (sysp_Metadata pol) ''name'')
     (upd_network (append_nr (ss_Network (sysp_Spec pol)))
     (upd_process (append_ks (ss_Process (sysp_Spec pol)))
     (upd_file (append_ks (ss_File (sysp_Spec pol))) res)))"

definition merge_step :: "KnoxSystemPolicy \<Rightarrow> KnoxSystemPolicy list \<Rightarrow> KnoxSystemPolicy list" where
  "merge_step pol results =
     (let pol = set_meta ''name'' (sysPolicyName pol) pol;
          i = checkIfMetadataMatches pol results
      in if i < 0 then results @ [pol]
         else results[nat i := append_pol pol (results ! nat i)])"

definition sort_ks :: "KnoxSys \<Rightarrow> KnoxSys" where
  "sort_ks ks = \<lparr>ks_MatchPaths =
       (if length (ks_MatchPaths ks) > 0 then sort_by cmpPaths (ks_MatchPaths ks) else ks_MatchPaths ks),
     ks_MatchDirectories =
       (if length (ks_MatchDirectories ks) > 0 then sort_by cmpDirs (ks_MatchDirectories ks)
        else ks_MatchDirectories ks)\<rparr>"

definition sort_nr :: "NetworkRule \<Rightarrow> NetworkRule" where
  "sort_nr nr = (if length (nr_MatchProtocols nr) > 0
     then nr\<lparr>nr_MatchProtocols := sort_by cmpProts (nr_MatchProtocols nr)\<rparr> else nr)"

definition sort_pol :: "KnoxSystemPolicy \<Rightarrow> KnoxSystemPolicy" where
  "sort_pol pol = upd_network sort_nr (upd_process sort_ks (upd_file sort_ks pol))"

definition mergeSysPolicies :: "KnoxSystemPolicy list \<Rightarrow> KnoxSystemPolicy list" where
  "mergeSysPolicies pols = map sort_pol (mergeFromSource (fold merge_step pols []))"

section \<open>From the store to policies\<close>

type_synonym ResourceSetMap = "(WorkloadProcessFileSet \<times> string list) list"
type_synonym PolicyNameMap = "(WorkloadProcessFileSet \<times> string) list"

definition wpfs_source :: "WorkloadProcessFileSet \<Rightarrow> string" where
  "wpfs_source w = (if wpfs_SetType w = SYS_OP_NETWORK \<or> HasPrefix (wpfs_FromSource w) ''/''
     then wpfs_FromSource w else [])"

definition wpfs_sysPath :: "string \<Rightarrow> SysPath" where
  "wpfs_sysPath fpath = \<lparr>sp_Path = fpath, sp_IsDir = HasSuffix fpath ''/''\<rparr>"

text \<open>The body of the loop over the file sets, up to the labels of the selector.\<close>

definition wpfs_policy ::
  "SysGlobals \<Rightarrow> PolicyNameMap \<Rightarrow> WorkloadProcessFileSet \<Rightarrow> string list \<Rightarrow> KnoxSystemPolicy" where
  "wpfs_policy g pnMap w fsset =
     set_meta ''name'' (case map_of pnMap w of None \<Rightarrow> [] | Some n \<Rightarrow> n)
     (set_meta ''labels'' (wpfs_Labels w)
     (set_meta ''containername'' (wpfs_ContainerName w)
     (set_meta ''namespace'' (wpfs_Namespace w)
     (set_meta ''clusterName'' (wpfs_ClusterName w)
     (fold (\<lambda>fpath policy. updateSysPolicySpec g (wpfs_SetType w) policy (wpfs_source w) (wpfs_sysPath fpath))
        fsset (set_meta ''type'' (wpfs_SetType w) buildSystemPolicy))))))"

definition convert_one ::
  "SysGlobals \<Rightarrow> PolicyNameMap \<Rightarrow> WorkloadProcessFileSet \<times> string list \<Rightarrow> go_panic + KnoxSystemPolicy" where
  "convert_one g pnMap ws =
     (if wpfs_Labels (fst ws) \<noteq> []
      then foldM set_selector_label (wpfs_policy g pnMap (fst ws) (snd ws))
             (Split (wpfs_Labels (fst ws)) (CHR '',''))
      else Inr (wpfs_policy g pnMap (fst ws) (snd ws)))"

definition ConvertWPFSToKnoxSysPolicy ::
  "(ResourceSetMap \<Rightarrow> ResourceSetMap) \<Rightarrow> SysGlobals \<Rightarrow> ResourceSetMap \<Rightarrow> PolicyNameMap \<Rightarrow>
   go_panic + KnoxSystemPolicy list" where
  "ConvertWPFSToKnoxSysPolicy ord g wpfsSet pnMap =
     go_bind (foldM (\<lambda>results ws. go_bind (convert_one g pnMap ws) (\<lambda>pol. Inr (results @ [pol])))
         [] (ord wpfsSet)) (\<lambda>results. Inr (mergeSysPolicies results))"

section \<open>Sorting\<close>

lemma sort_by_key: "sort_by (\<lambda>x y. f x < (f y :: 'b :: linorder)) xs = sort_key f xs"
proof -
  have "insort_by (\<lambda>x y. f x < f y) x ys = insort_key f x ys" for x ys
    by (induction ys) auto
  then have "insort_by (\<lambda>x y. f x < f y) = insort_key f" by (simp add: fun_eq_iff)
  then show ?thesis by (simp add: sort_by_def sort_key_def)
qed

lemma set_sort_by [simp]: "set (sort_by lt xs) = set xs"
proof -
  have "set (insort_by lt x ys) = insert x (set ys)" for x ys by (induction ys) auto
  then show ?thesis by (induction xs) (auto simp: sort_by_def)
qed

lemma mset_sort_by [simp]: "mset (sort_by lt xs) = mset xs"
proof -
  have "mset (insort_by lt x ys) = add_mset x (mset ys)" for x ys by (induction ys) auto
  then show ?thesis by (induction xs) (auto simp: sort_by_def)
qed

lemma distinct_map_sort_by [simp]: "distinct (map f (sort_by lt xs)) = distinct (map f xs)"
  by (metis mset_eq_imp_distinct_iff mset_map mset_sort_by)

lemma set_sortFromSource [simp]: "set (sortFromSource fs) = set fs"
  by (simp add: sortFromSource_def)

definition sort_text :: "string \<Rightarrow> KnoxFromSource list \<Rightarrow> string" where
  "sort_text p fs = p @ concat (map fs_Path fs)"

lemma cmpGenPathDir_iff: "cmpGenPathDir p1 fs1 p2 fs2 \<longleftrightarrow> sort_text p1 fs1 < sort_text p2 fs2"
proof -
  have "fold (\<lambda>v p. p @ fs_Path v) fs p = sort_text p fs" for fs :: "KnoxFromSource list" and p
    unfolding sort_text_def by (induction fs arbitrary: p) auto
  then show ?thesis by (simp add: cmpGenPathDir_def) (auto simp: sort_text_def)
qed

lemma sort_by_cmp:
  "sort_by cmpPaths mps = sort_key (\<lambda>m. sort_text (mp_Path m) (mp_FromSource m)) mps"
  "sort_by cmpDirs mds = sort_key (\<lambda>m. sort_text (md_Dir m) (md_FromSource m)) mds"
  "sort_by cmpProts prs = sort_key (\<lambda>m. sort_text (mpr_Protocol m) (mpr_FromSource m)) prs"
  using sort_by_key [of "\<lambda>m. sort_text (mp_Path m) (mp_FromSource m)" mps]
    sort_by_key [of "\<lambda>m. sort_text (md_Dir m) (md_FromSource m)" mds]
    sort_by_key [of "\<lambda>m. sort_text (mpr_Protocol m) (mpr_FromSource m)" prs]
  by (simp_all add: cmpPaths_def [abs_def] cmpDirs_def [abs_def] cmpProts_def [abs_def] cmpGenPathDir_iff)

section \<open>The contract of a rule with sources\<close>

locale from_source_rule =
  fixes key :: "'r \<Rightarrow> string"
    and fs :: "'r \<Rightarrow> KnoxFromSource list"
    and set_fs :: "KnoxFromSource list \<Rightarrow> 'r \<Rightarrow> 'r"
  assumes fs_set [simp]: "fs (set_fs l r) = l"
    and key_set [simp]: "key (set_fs l r) = key r"
begin

text \<open>The paths of a list of rules, and the sources of each path.\<close>

definition paths :: "'r list \<Rightarrow> string set" where
  "paths rs = key ` set rs"

definition sources :: "'r list \<Rightarrow> (string \<times> KnoxFromSource) set" where
  "sources rs = {(key r, s) |r s. r \<in> set rs \<and> s \<in> set (fs r)}"

lemma keys_merge_rule:
  "map key (merge_rule key fs set_fs pp mp) =
     (if key pp \<in> key ` set mp then map key mp else map key mp @ [key pp])"
  by (auto simp: merge_rule_def Let_def list_ex_iff comp_def)

lemma paths_merge_rule: "paths (merge_rule key fs set_fs pp mp) = insert (key pp) (paths mp)"
proof -
  have "paths rs = set (map key rs)" for rs by (simp add: paths_def)
  then show ?thesis by (simp only: keys_merge_rule) auto
qed

lemma sources_Nil [simp]: "sources [] = {}"
  by (simp add: sources_def)

lemma sources_Cons: "sources (r # rs) = Pair (key r) ` set (fs r) \<union> sources rs"
  by (auto simp: sources_def)

lemma sources_append: "sources (xs @ ys) = sources xs \<union> sources ys"
  by (auto simp: sources_def)

lemma sources_merge_rule:
  "sources (merge_rule key fs set_fs pp mp) = sources mp \<union> Pair (key pp) ` set (fs pp)"
proof -
  define f where "f = (\<lambda>rp. let rp' = (if key pp = key rp then set_fs (fs rp @ fs pp) rp else rp)
                  in set_fs (sortFromSource (fs rp')) rp')"
  have key_f: "key (f r) = key r" for r by (simp add: f_def Let_def)
  have fs_f: "set (fs (f r)) = set (fs r) \<union> (if key pp = key r then set (fs pp) else {})" for r
    by (simp add: f_def Let_def)
  have map_f: "sources (map f mp) = sources mp \<union>
      (if key pp \<in> key ` set mp then Pair (key pp) ` set (fs pp) else {})"
    by (induction mp) (auto simp: sources_Cons key_f fs_f)
  have eq: "merge_rule key fs set_fs pp mp =
      (if \<not> list_ex (\<lambda>rp. key pp = key rp) mp then map f mp @ [pp] else map f mp)"
    unfolding merge_rule_def f_def by (simp add: Let_def)
  show ?thesis
  proof (cases "key pp \<in> key ` set mp")
    case True
    then have "list_ex (\<lambda>rp. key pp = key rp) mp" by (auto simp: list_ex_iff)
    then show ?thesis using map_f True by (simp add: eq)
  next
    case False
    then have "\<not> list_ex (\<lambda>rp. key pp = key rp) mp" by (auto simp: list_ex_iff)
    then show ?thesis using map_f False
      by (simp add: eq sources_append sources_Cons)
  qed
qed

lemma paths_merge_rules: "paths (merge_rules key fs set_fs pmp mp) = paths pmp \<union> paths mp"
  unfolding merge_rules_def
  by (induction pmp arbitrary: mp) (auto simp: paths_merge_rule, auto simp: paths_def)

lemma sources_merge_rules: "sources (merge_rules key fs set_fs pmp mp) = sources pmp \<union> sources mp"
  unfolding merge_rules_def
  by (induction pmp arbitrary: mp) (auto simp: sources_merge_rule sources_Cons)

lemma distinct_merge_rules:
  "distinct (map key mp) \<Longrightarrow> distinct (map key (merge_rules key fs set_fs pmp mp))"
  unfolding merge_rules_def by (induction pmp arbitrary: mp) (auto simp: keys_merge_rule)

end

interpretation path_rules: from_source_rule mp_Path mp_FromSource set_mp_fs
  by unfold_locales (simp_all add: set_mp_fs_def)

interpretation dir_rules: from_source_rule md_Dir md_FromSource set_md_fs
  by unfold_locales (simp_all add: set_md_fs_def)

interpretation prot_rules: from_source_rule mpr_Protocol mpr_FromSource set_mpr_fs
  by unfold_locales (simp_all add: set_mpr_fs_def)

section \<open>Policies as sets of rules\<close>

datatype rule_kind = FilePath | FileDir | ProcPath | ProcDir | NetProt

definition rule_paths :: "KnoxSystemPolicy \<Rightarrow> (rule_kind \<times> string) set" where
  "rule_paths pol =
     (let s = sysp_Spec pol in
      Pair FilePath ` path_rules.paths (ks_MatchPaths (ss_File s)) \<union>
      Pair FileDir ` dir_rules.paths (ks_MatchDirectories (ss_File s)) \<union>
      Pair ProcPath ` path_rules.paths (ks_MatchPaths (ss_Process s)) \<union>
      Pair ProcDir ` dir_rules.paths (ks_MatchDirectories (ss_Process s)) \<union>
      Pair NetProt ` prot_rules.paths (nr_MatchProtocols (ss_Network s)))"

definition rule_sources :: "KnoxSystemPolicy \<Rightarrow> (rule_kind \<times> string \<times> KnoxFromSource) set" where
  "rule_sources pol =
     (let s = sysp_Spec pol in
      Pair FilePath ` path_rules.sources (ks_MatchPaths (ss_File s)) \<union>
      Pair FileDir ` dir_rules.sources (ks_MatchDirectories (ss_File s)) \<union>
      Pair ProcPath ` path_rules.sources (ks_MatchPaths (ss_Process s)) \<union>
      Pair ProcDir ` dir_rules.sources (ks_MatchDirectories (ss_Process s)) \<union>
      Pair NetProt ` prot_rules.sources (nr_MatchProtocols (ss_Network s)))"

text \<open>No path has two rules of a kind.\<close>

definition rules_distinct :: "KnoxSystemPolicy \<Rightarrow> bool" where
  "rules_distinct pol \<longleftrightarrow>
     (let s = sysp_Spec pol in
      distinct (map mp_Path (ks_MatchPaths (ss_File s))) \<and>
      distinct (map md_Dir (ks_MatchDirectories (ss_File s))) \<and>
      distinct (map mp_Path (ks_MatchPaths (ss_Process s))) \<and>
      distinct (map md_Dir (ks_MatchDirectories (ss_Process s))) \<and>
      distinct (map mpr_Protocol (nr_MatchProtocols (ss_Network s))))"

text \<open>What the merging identifies a policy by.\<close>

definition meta_key :: "KnoxSystemPolicy \<Rightarrow> string \<times> string \<times> string" where
  "meta_key pol = (lookup_str (sysp_Metadata pol) ''clusterName'',
     lookup_str (sysp_Metadata pol) ''namespace'', lookup_str (sysp_Metadata pol) ''labels'')"

text \<open>All the rules of a list of policies, with the key of the policy they stand in.\<close>

definition keyed :: "(KnoxSystemPolicy \<Rightarrow> 'b set) \<Rightarrow> KnoxSystemPolicy list \<Rightarrow> ((string \<times> string \<times> string) \<times> 'b) set" where
  "keyed rules pols = (\<Union>p \<in> set pols. Pair (meta_key p) ` rules p)"

lemma keyed_simps [simp]:
  "keyed rules [] = {}"
  "keyed rules (p # ps) = Pair (meta_key p) ` rules p \<union> keyed rules ps"
  "keyed rules (ps @ qs) = keyed rules ps \<union> keyed rules qs"
  by (auto simp: keyed_def)

lemma keyed_update:
  assumes "i < length ps" and "meta_key q = meta_key (ps ! i)" and "rules q = rules (ps ! i) \<union> A"
  shows "keyed rules (ps[i := q]) = keyed rules ps \<union> Pair (meta_key (ps ! i)) ` A"
  using assms
proof (induction ps arbitrary: i)
  case (Cons p ps)
  then show ?case by (cases i) auto
qed simp

lemma same_meta_iff: "same_meta p q \<longleftrightarrow> meta_key p = meta_key q"
  by (simp add: same_meta_def meta_key_def)

lemma checkIfMetadataMatches_neg:
  "checkIfMetadataMatches p ps < 0 \<longleftrightarrow> meta_key p \<notin> meta_key ` set ps"
  by (auto simp: checkIfMetadataMatches_def find_index_None same_meta_iff split: option.splits
      dest!: find_index_Some)

lemma checkIfMetadataMatches_index:
  assumes "\<not> checkIfMetadataMatches p ps < 0"
  shows "nat (checkIfMetadataMatches p ps) < length ps \<and>
    meta_key (ps ! nat (checkIfMetadataMatches p ps)) = meta_key p"
  using assms by (auto simp: checkIfMetadataMatches_def same_meta_iff split: option.splits
      dest!: find_index_Some)

lemma keyed_image: "(\<And>p. p \<in> set ps \<Longrightarrow> meta_key (f p) = meta_key p \<and> rules (f p) = rules p) \<Longrightarrow>
   keyed rules (map f ps) = keyed rules ps"
  by (auto simp: keyed_def)

section \<open>The first stage: one policy for each key\<close>

lemma meta_key_upd [simp]:
  "meta_key (upd_file f p) = meta_key p" "meta_key (upd_process f p) = meta_key p"
  "meta_key (upd_network h p) = meta_key p" "meta_key (set_meta ''name'' v p) = meta_key p"
  by (simp_all add: meta_key_def)

lemma rules_set_meta [simp]:
  "rule_paths (set_meta k v p) = rule_paths p" "rule_sources (set_meta k v p) = rule_sources p"
  by (simp_all add: rule_paths_def rule_sources_def)

lemma append_ks_simps [simp]:
  "ks_MatchPaths (append_ks p r) = ks_MatchPaths r @ ks_MatchPaths p"
  "ks_MatchDirectories (append_ks p r) = ks_MatchDirectories r @ ks_MatchDirectories p"
  by (simp_all add: append_ks_def)

lemma append_nr_simps [simp]: "nr_MatchProtocols (append_nr p r) = nr_MatchProtocols r @ nr_MatchProtocols p"
  by (simp add: append_nr_def)

lemma append_pol_rules:
  "meta_key (append_pol p r) = meta_key r"
  "rule_paths (append_pol p r) = rule_paths r \<union> rule_paths p"
  "rule_sources (append_pol p r) = rule_sources r \<union> rule_sources p"
  by (auto simp: append_pol_def rule_paths_def rule_sources_def Let_def path_rules.paths_def
      dir_rules.paths_def prot_rules.paths_def path_rules.sources_append dir_rules.sources_append
      prot_rules.sources_append)

lemma keyed_merge_step:
  assumes rules: "\<And>p r. rules (append_pol p r) = rules r \<union> rules p"
    and meta: "\<And>v p. rules (set_meta ''name'' v p) = rules p"
  shows "keyed rules (merge_step p rs) = keyed rules rs \<union> Pair (meta_key p) ` rules p"
proof -
  let ?p = "set_meta ''name'' (sysPolicyName p) p"
  let ?i = "checkIfMetadataMatches ?p rs"
  show ?thesis
  proof (cases "?i < 0")
    case True
    then show ?thesis by (simp add: merge_step_def Let_def meta)
  next
    case False
    then have i: "nat ?i < length rs" "meta_key (rs ! nat ?i) = meta_key p"
      using checkIfMetadataMatches_index [OF False] by auto
    have "keyed rules (rs[nat ?i := append_pol ?p (rs ! nat ?i)]) =
        keyed rules rs \<union> Pair (meta_key (rs ! nat ?i)) ` rules p"
      using i by (intro keyed_update) (simp_all add: append_pol_rules rules meta)
    then show ?thesis using False i by (simp add: merge_step_def Let_def)
  qed
qed

lemma map_update_same: "i < length xs \<Longrightarrow> f y = f (xs ! i) \<Longrightarrow> map f (xs[i := y]) = map f xs"
  by (simp add: map_update list_update_same_conv)

lemma distinct_merge_step:
  assumes "distinct (map meta_key rs)"
  shows "distinct (map meta_key (merge_step p rs))"
proof -
  let ?p = "set_meta ''name'' (sysPolicyName p) p"
  let ?i = "checkIfMetadataMatches ?p rs"
  show ?thesis
  proof (cases "?i < 0")
    case True
    then show ?thesis using assms checkIfMetadataMatches_neg [of ?p rs] by (simp add: merge_step_def Let_def)
  next
    case False
    then show ?thesis
      using assms checkIfMetadataMatches_index [OF False]
      by (simp add: merge_step_def Let_def map_update_same append_pol_rules)
  qed
qed

lemma merge_stage1:
  "keyed rule_paths (fold merge_step pols rs) = keyed rule_paths rs \<union> keyed rule_paths pols"
  "keyed rule_sources (fold merge_step pols rs) = keyed rule_sources rs \<union> keyed rule_sources pols"
  "distinct (map meta_key rs) \<Longrightarrow> distinct (map meta_key (fold merge_step pols rs))"
  by (induction pols arbitrary: rs)
    (auto simp: keyed_merge_step append_pol_rules distinct_merge_step)

section \<open>The second stage: one rule for each path\<close>

lemma merge_into_eq:
  "merge_into False p rs =
     (let rs' = (if meta_key p \<in> meta_key ` set rs then rs else rs @ [clear_rules p]);
          i = nat (checkIfMetadataMatches p rs')
      in rs'[i := merge_pol p (rs' ! i)])"
proof -
  have "meta_key (clear_rules p) = meta_key p" by (simp add: clear_rules_def)
  then have found: "\<not> checkIfMetadataMatches p (rs @ [clear_rules p]) < 0"
    by (simp add: checkIfMetadataMatches_neg)
  show ?thesis
  proof (cases "meta_key p \<in> meta_key ` set rs")
    case True
    then have "\<not> checkIfMetadataMatches p rs < 0" by (simp add: checkIfMetadataMatches_neg)
    then show ?thesis using True by (simp add: merge_into.simps [of False] Let_def)
  next
    case False
    then have "checkIfMetadataMatches p rs < 0" by (simp add: checkIfMetadataMatches_neg)
    then have "merge_into False p rs = merge_into True p (rs @ [clear_rules p])"
      by (simp add: merge_into.simps [of False] Let_def)
    then show ?thesis using False found by (simp add: merge_into.simps [of True] Let_def)
  qed
qed

lemma clear_rules_rules [simp]:
  "meta_key (clear_rules p) = meta_key p" "rule_paths (clear_rules p) = {}"
  "rule_sources (clear_rules p) = {}" "rules_distinct (clear_rules p)"
  by (simp_all add: clear_rules_def rule_paths_def rule_sources_def rules_distinct_def KnoxSys_zero_def
      path_rules.paths_def dir_rules.paths_def prot_rules.paths_def)

lemma merge_ks_simps [simp]:
  "ks_MatchPaths (merge_ks p r) = mergeFromSourceMatchPaths (ks_MatchPaths p) (ks_MatchPaths r)"
  "ks_MatchDirectories (merge_ks p r) = mergeFromSourceMatchDirs (ks_MatchDirectories p) (ks_MatchDirectories r)"
  by (simp_all add: merge_ks_def)

lemmas merge_kinds = mergeFromSourceMatchPaths_def mergeFromSourceMatchDirs_def mergeFromSourceMatchProt_def

lemma merge_pol_rules:
  "meta_key (merge_pol p r) = meta_key r"
  "rule_paths (merge_pol p r) = rule_paths r \<union> rule_paths p"
  "rule_sources (merge_pol p r) = rule_sources r \<union> rule_sources p"
  "rules_distinct r \<Longrightarrow> rules_distinct (merge_pol p r)"
  by (auto simp: merge_pol_def rule_paths_def rule_sources_def rules_distinct_def Let_def merge_kinds
      path_rules.paths_merge_rules dir_rules.paths_merge_rules prot_rules.paths_merge_rules
      path_rules.sources_merge_rules dir_rules.sources_merge_rules prot_rules.sources_merge_rules
      path_rules.distinct_merge_rules dir_rules.distinct_merge_rules prot_rules.distinct_merge_rules)

lemma keyed_merge_into:
  assumes rules: "\<And>p r. rules (merge_pol p r) = rules r \<union> rules p" and clear: "\<And>p. rules (clear_rules p) = {}"
  shows "keyed rules (merge_into False p rs) = keyed rules rs \<union> Pair (meta_key p) ` rules p"
proof -
  define rs' where "rs' = (if meta_key p \<in> meta_key ` set rs then rs else rs @ [clear_rules p])"
  let ?i = "nat (checkIfMetadataMatches p rs')"
  have "\<not> checkIfMetadataMatches p rs' < 0" by (auto simp: checkIfMetadataMatches_neg rs'_def)
  then have i: "?i < length rs'" "meta_key (rs' ! ?i) = meta_key p"
    using checkIfMetadataMatches_index by blast+
  have "keyed rules rs' = keyed rules rs" by (simp add: rs'_def clear)
  moreover have "keyed rules (rs'[?i := merge_pol p (rs' ! ?i)]) =
      keyed rules rs' \<union> Pair (meta_key (rs' ! ?i)) ` rules p"
    using i by (intro keyed_update) (simp_all add: merge_pol_rules rules)
  ultimately show ?thesis using i by (simp add: merge_into_eq Let_def rs'_def [symmetric])
qed

lemma merge_into_inv:
  assumes "distinct (map meta_key rs)" and "\<forall>r \<in> set rs. rules_distinct r"
  shows "distinct (map meta_key (merge_into False p rs)) \<and> (\<forall>r \<in> set (merge_into False p rs). rules_distinct r)"
proof -
  define rs' where "rs' = (if meta_key p \<in> meta_key ` set rs then rs else rs @ [clear_rules p])"
  let ?i = "nat (checkIfMetadataMatches p rs')"
  have "\<not> checkIfMetadataMatches p rs' < 0" by (auto simp: checkIfMetadataMatches_neg rs'_def)
  then have i: "?i < length rs'" using checkIfMetadataMatches_index by blast
  have d: "distinct (map meta_key rs')" "\<forall>r \<in> set rs'. rules_distinct r"
    using assms by (auto simp: rs'_def)
  have "map meta_key (rs'[?i := merge_pol p (rs' ! ?i)]) = map meta_key rs'"
    using i by (intro map_update_same) (simp_all add: merge_pol_rules)
  moreover have "\<forall>r \<in> set (rs'[?i := merge_pol p (rs' ! ?i)]). rules_distinct r"
    using d(2) i by (auto dest!: set_update_subset_insert [THEN subsetD] intro: merge_pol_rules(4))
  ultimately show ?thesis using d(1) by (simp add: merge_into_eq Let_def rs'_def [symmetric])
qed

lemma merge_stage2:
  "keyed rule_paths (mergeFromSource pols) = keyed rule_paths pols"
  "keyed rule_sources (mergeFromSource pols) = keyed rule_sources pols"
  "distinct (map meta_key (mergeFromSource pols))"
  "\<forall>r \<in> set (mergeFromSource pols). rules_distinct r"
proof -
  have "keyed rules (fold (merge_into False) pols rs) = keyed rules rs \<union> keyed rules pols"
    if "\<And>p r. rules (merge_pol p r) = rules r \<union> rules p" "\<And>p. rules (clear_rules p) = {}"
    for rules :: "KnoxSystemPolicy \<Rightarrow> 'b set" and rs
    using that by (induction pols arbitrary: rs) (auto simp: keyed_merge_into)
  from this [of rule_paths "[]"] this [of rule_sources "[]"] show
    "keyed rule_paths (mergeFromSource pols) = keyed rule_paths pols"
    "keyed rule_sources (mergeFromSource pols) = keyed rule_sources pols"
    by (simp_all add: mergeFromSource_def merge_pol_rules)
next
  have "distinct (map meta_key (fold (merge_into False) pols rs)) \<and>
      (\<forall>r \<in> set (fold (merge_into False) pols rs). rules_distinct r)"
    if "distinct (map meta_key rs) \<and> (\<forall>r \<in> set rs. rules_distinct r)" for rs
    by (rule fold_invariant [of "\<lambda>rs. distinct (map meta_key rs) \<and> (\<forall>r \<in> set rs. rules_distinct r)"])
      (use that merge_into_inv in auto)
  from this [of "[]"] show "distinct (map meta_key (mergeFromSource pols))"
    "\<forall>r \<in> set (mergeFromSource pols). rules_distinct r"
    by (simp_all add: mergeFromSource_def)
qed

section \<open>The third stage: sorted rules\<close>

lemma sort_ks_simps [simp]:
  "ks_MatchPaths (sort_ks ks) = sort_by cmpPaths (ks_MatchPaths ks)"
  "ks_MatchDirectories (sort_ks ks) = sort_by cmpDirs (ks_MatchDirectories ks)"
  by (simp_all add: sort_ks_def) (simp_all add: sort_by_def)

lemma sort_nr_simps [simp]: "nr_MatchProtocols (sort_nr nr) = sort_by cmpProts (nr_MatchProtocols nr)"
  by (simp add: sort_nr_def) (simp add: sort_by_def)

lemma sort_pol_rules [simp]:
  "meta_key (sort_pol p) = meta_key p" "rule_paths (sort_pol p) = rule_paths p"
  "rule_sources (sort_pol p) = rule_sources p" "rules_distinct (sort_pol p) = rules_distinct p"
  by (simp_all add: Let_def sort_pol_def rule_paths_def rule_sources_def rules_distinct_def path_rules.paths_def
      dir_rules.paths_def prot_rules.paths_def path_rules.sources_def dir_rules.sources_def
      prot_rules.sources_def)

definition rules_sorted :: "KnoxSystemPolicy \<Rightarrow> bool" where
  "rules_sorted pol \<longleftrightarrow>
     (let s = sysp_Spec pol in
      sorted (map (\<lambda>m. sort_text (mp_Path m) (mp_FromSource m)) (ks_MatchPaths (ss_File s))) \<and>
      sorted (map (\<lambda>m. sort_text (md_Dir m) (md_FromSource m)) (ks_MatchDirectories (ss_File s))) \<and>
      sorted (map (\<lambda>m. sort_text (mp_Path m) (mp_FromSource m)) (ks_MatchPaths (ss_Process s))) \<and>
      sorted (map (\<lambda>m. sort_text (md_Dir m) (md_FromSource m)) (ks_MatchDirectories (ss_Process s))) \<and>
      sorted (map (\<lambda>m. sort_text (mpr_Protocol m) (mpr_FromSource m)) (nr_MatchProtocols (ss_Network s))))"

lemma rules_sorted_sort [simp]: "rules_sorted (sort_pol p)"
  by (simp add: rules_sorted_def sort_pol_def sort_by_cmp)

lemma mergeSysPolicies_facts:
  "keyed rule_paths (mergeSysPolicies pols) = keyed rule_paths pols"
  "keyed rule_sources (mergeSysPolicies pols) = keyed rule_sources pols"
  "distinct (map meta_key (mergeSysPolicies pols))"
  "\<forall>r \<in> set (mergeSysPolicies pols). rules_distinct r \<and> rules_sorted r"
proof -
  have comp: "meta_key \<circ> sort_pol = meta_key" by (simp add: fun_eq_iff)
  show "keyed rule_paths (mergeSysPolicies pols) = keyed rule_paths pols"
    "keyed rule_sources (mergeSysPolicies pols) = keyed rule_sources pols"
    "distinct (map meta_key (mergeSysPolicies pols))"
    "\<forall>r \<in> set (mergeSysPolicies pols). rules_distinct r \<and> rules_sorted r"
    using merge_stage1 [of pols "[]"] merge_stage2 [of "fold merge_step pols []"]
    by (simp_all add: mergeSysPolicies_def keyed_image comp)
qed

section \<open>The file sets as rules\<close>

definition kind_of :: "string \<Rightarrow> string \<Rightarrow> rule_kind option" where
  "kind_of setType f =
     (if setType = SYS_OP_NETWORK then Some NetProt
      else if setType = SYS_OP_FILE then Some (if HasSuffix f ''/'' then FileDir else FilePath)
      else if setType = SYS_OP_PROCESS then Some (if HasSuffix f ''/'' then ProcDir else ProcPath)
      else None)"

definition wpfs_fs :: "SysGlobals \<Rightarrow> WorkloadProcessFileSet \<Rightarrow> KnoxFromSource list" where
  "wpfs_fs g w =
     (if wpfs_SetType w = SYS_OP_NETWORK then [\<lparr>fs_Path = wpfs_source w, fs_Dir = []\<rparr>]
      else fromSource_of (op_fromSource g (wpfs_SetType w)) (wpfs_source w))"

definition wpfs_key :: "WorkloadProcessFileSet \<Rightarrow> string \<times> string \<times> string" where
  "wpfs_key w = (wpfs_ClusterName w, wpfs_Namespace w, wpfs_Labels w)"

text \<open>The rules that a set of file sets asks for: a path for each file, with the source of its set.\<close>

definition wpfs_paths :: "ResourceSetMap \<Rightarrow> ((string \<times> string \<times> string) \<times> rule_kind \<times> string) set" where
  "wpfs_paths S = {(wpfs_key w, k, f) |w fs f k. (w, fs) \<in> set S \<and> f \<in> set fs \<and> kind_of (wpfs_SetType w) f = Some k}"

definition wpfs_sources ::
  "SysGlobals \<Rightarrow> ResourceSetMap \<Rightarrow> ((string \<times> string \<times> string) \<times> rule_kind \<times> string \<times> KnoxFromSource) set" where
  "wpfs_sources g S = {(wpfs_key w, k, f, s) |w fs f k s. (w, fs) \<in> set S \<and> f \<in> set fs \<and>
     kind_of (wpfs_SetType w) f = Some k \<and> s \<in> set (wpfs_fs g w)}"

lemma rules_add:
  "path_rules.paths (xs @ [x]) = insert (mp_Path x) (path_rules.paths xs)"
  "dir_rules.paths (ys @ [y]) = insert (md_Dir y) (dir_rules.paths ys)"
  "prot_rules.paths (zs @ [z]) = insert (mpr_Protocol z) (prot_rules.paths zs)"
  by (auto simp: path_rules.paths_def dir_rules.paths_def prot_rules.paths_def)

lemmas rules_add_sources = path_rules.sources_append dir_rules.sources_append prot_rules.sources_append
  path_rules.sources_Cons dir_rules.sources_Cons prot_rules.sources_Cons

lemma rules_add_rule:
  "rule_paths (upd_file (add_path m) p) = insert (FilePath, mp_Path m) (rule_paths p)"
  "rule_paths (upd_file (add_dir d) p) = insert (FileDir, md_Dir d) (rule_paths p)"
  "rule_paths (upd_process (add_path m) p) = insert (ProcPath, mp_Path m) (rule_paths p)"
  "rule_paths (upd_process (add_dir d) p) = insert (ProcDir, md_Dir d) (rule_paths p)"
  "rule_paths (upd_network (\<lambda>nr. nr\<lparr>nr_MatchProtocols := nr_MatchProtocols nr @ [n]\<rparr>) p) =
     insert (NetProt, mpr_Protocol n) (rule_paths p)"
  by (simp_all add: rule_paths_def Let_def rules_add Un_ac)

lemma rules_add_rule_sources:
  "rule_sources (upd_file (add_path m) p) =
     rule_sources p \<union> (\<lambda>s. (FilePath, mp_Path m, s)) ` set (mp_FromSource m)"
  "rule_sources (upd_file (add_dir d) p) =
     rule_sources p \<union> (\<lambda>s. (FileDir, md_Dir d, s)) ` set (md_FromSource d)"
  "rule_sources (upd_process (add_path m) p) =
     rule_sources p \<union> (\<lambda>s. (ProcPath, mp_Path m, s)) ` set (mp_FromSource m)"
  "rule_sources (upd_process (add_dir d) p) =
     rule_sources p \<union> (\<lambda>s. (ProcDir, md_Dir d, s)) ` set (md_FromSource d)"
  "rule_sources (upd_network (\<lambda>nr. nr\<lparr>nr_MatchProtocols := nr_MatchProtocols nr @ [n]\<rparr>) p) =
     rule_sources p \<union> (\<lambda>s. (NetProt, mpr_Protocol n, s)) ` set (mpr_FromSource n)"
  by (simp_all add: rule_sources_def Let_def rules_add_sources image_Un image_image Un_ac)

lemma rules_update:
  "rule_paths (updateSysPolicySpec g t p src (wpfs_sysPath f)) =
     rule_paths p \<union> (case kind_of t f of None \<Rightarrow> {} | Some k \<Rightarrow> {(k, f)})"
  "rule_sources (updateSysPolicySpec g t p src (wpfs_sysPath f)) =
     rule_sources p \<union> (case kind_of t f of None \<Rightarrow> {}
       | Some k \<Rightarrow> (\<lambda>s. (k, f, s)) ` set (if t = SYS_OP_NETWORK then [\<lparr>fs_Path = src, fs_Dir = []\<rparr>]
            else fromSource_of (op_fromSource g t) src))"
  by (simp_all add: updateSysPolicySpec_def wpfs_sysPath_def kind_of_def rules_add_rule
      rules_add_rule_sources matchDir_of_def matchPath_of_def op_fromSource_def sys_ops)

lemma rules_build [simp]: "rule_paths buildSystemPolicy = {}" "rule_sources buildSystemPolicy = {}"
  by (simp_all add: buildSystemPolicy_def KnoxSystemSpec_zero_def KnoxSys_zero_def rule_paths_def
      rule_sources_def path_rules.paths_def dir_rules.paths_def prot_rules.paths_def)

lemma rules_wpfs_policy:
  "rule_paths (wpfs_policy g pn w fs) = {(k, f) |k f. f \<in> set fs \<and> kind_of (wpfs_SetType w) f = Some k}"
  "rule_sources (wpfs_policy g pn w fs) =
     {(k, f, s) |k f s. f \<in> set fs \<and> kind_of (wpfs_SetType w) f = Some k \<and> s \<in> set (wpfs_fs g w)}"
proof -
  let ?upd = "\<lambda>f p. updateSysPolicySpec g (wpfs_SetType w) p (wpfs_source w) (wpfs_sysPath f)"
  have upd: "rule_sources (?upd f p) = rule_sources p \<union> (case kind_of (wpfs_SetType w) f of None \<Rightarrow> {}
      | Some k \<Rightarrow> (\<lambda>s. (k, f, s)) ` set (wpfs_fs g w))" for f p
    by (auto simp: rules_update wpfs_fs_def split: option.splits)
  have "rule_paths (fold ?upd fs p) = rule_paths p \<union>
      {(k, f) |k f. f \<in> set fs \<and> kind_of (wpfs_SetType w) f = Some k}" for p
    by (induction fs arbitrary: p) (auto simp: rules_update split: option.splits)
  moreover have "rule_sources (fold ?upd fs p) = rule_sources p \<union>
      {(k, f, s) |k f s. f \<in> set fs \<and> kind_of (wpfs_SetType w) f = Some k \<and> s \<in> set (wpfs_fs g w)}" for p
    by (induction fs arbitrary: p) (auto simp: upd split: option.splits)
  ultimately show
    "rule_paths (wpfs_policy g pn w fs) = {(k, f) |k f. f \<in> set fs \<and> kind_of (wpfs_SetType w) f = Some k}"
    "rule_sources (wpfs_policy g pn w fs) =
       {(k, f, s) |k f s. f \<in> set fs \<and> kind_of (wpfs_SetType w) f = Some k \<and> s \<in> set (wpfs_fs g w)}"
    by (simp_all add: wpfs_policy_def)
qed

lemma meta_wpfs_policy: "meta_key (wpfs_policy g pn w fs) = wpfs_key w"
  by (simp add: wpfs_policy_def meta_key_def wpfs_key_def)

lemma set_selector_label_same:
  assumes "set_selector_label p l = Inr q"
  shows "meta_key q = meta_key p \<and> rule_paths q = rule_paths p \<and> rule_sources q = rule_sources p \<and>
    sysp_Metadata q = sysp_Metadata p"
proof -
  obtain kv where "q = p\<lparr>sysp_Spec := (sysp_Spec p)\<lparr>ss_Selector :=
      \<lparr>sel_MatchLabels = fmupd (fst kv) (snd kv) (sel_MatchLabels (ss_Selector (sysp_Spec p)))\<rparr>\<rparr>\<rparr>"
    using assms by (auto simp: set_selector_label_def go_bind_Inr_iff)
  then show ?thesis by (simp add: meta_key_def rule_paths_def rule_sources_def Let_def)
qed

lemma convert_one_rules:
  assumes "convert_one g pn (w, fs) = Inr q"
  shows "meta_key q = wpfs_key w \<and> rule_paths q = rule_paths (wpfs_policy g pn w fs) \<and>
    rule_sources q = rule_sources (wpfs_policy g pn w fs) \<and>
    sysp_Metadata q = sysp_Metadata (wpfs_policy g pn w fs)"
proof -
  let ?p = "wpfs_policy g pn w fs"
  have "meta_key q = meta_key ?p \<and> rule_paths q = rule_paths ?p \<and> rule_sources q = rule_sources ?p \<and>
      sysp_Metadata q = sysp_Metadata ?p"
  proof (cases "wpfs_Labels w = []")
    case False
    then have "foldM set_selector_label ?p (Split (wpfs_Labels w) (CHR '','')) = Inr q"
      using assms by (simp add: convert_one_def)
    then show ?thesis
      by (rule foldM_invariant [where I = "\<lambda>r. meta_key r = meta_key ?p \<and> rule_paths r = rule_paths ?p \<and>
          rule_sources r = rule_sources ?p \<and> sysp_Metadata r = sysp_Metadata ?p"])
        (auto dest: set_selector_label_same)
  qed (use assms in \<open>simp add: convert_one_def\<close>)
  then show ?thesis by (simp add: meta_wpfs_policy)
qed

text \<open>The loop over the file sets returns one policy for each of them.\<close>

lemma convert_loop:
  "foldM (\<lambda>results ws. go_bind (convert_one g pn ws) (\<lambda>pol. Inr (results @ [pol]))) rs S = Inr ps \<longleftrightarrow>
     (\<exists>qs. ps = rs @ qs \<and> list_all2 (\<lambda>ws q. convert_one g pn ws = Inr q) S qs)"
proof (induction S arbitrary: rs)
  case (Cons ws S)
  show ?case
  proof (cases "convert_one g pn ws")
    case (Inl e)
    then show ?thesis by (auto simp: list_all2_Cons1)
  next
    case (Inr q)
    then show ?thesis using Cons.IH [of "rs @ [q]"] by (auto simp: list_all2_Cons1)
  qed
qed auto

lemma keyed_convert:
  assumes "list_all2 (\<lambda>ws q. convert_one g pn ws = Inr q) S qs"
  shows "keyed rule_paths qs = wpfs_paths S" and "keyed rule_sources qs = wpfs_sources g S"
proof -
  have "keyed rule_paths qs = wpfs_paths S \<and> keyed rule_sources qs = wpfs_sources g S"
    using assms
  proof (induction S qs rule: list_all2_induct)
    case Nil
    then show ?case by (simp add: wpfs_paths_def wpfs_sources_def)
  next
    case (Cons ws S q qs)
    obtain w fs where ws: "ws = (w, fs)" by fastforce
    have "wpfs_paths (ws # S) = Pair (wpfs_key w) ` rule_paths (wpfs_policy g pn w fs) \<union> wpfs_paths S"
      by (simp add: ws wpfs_paths_def rules_wpfs_policy) blast
    moreover have "wpfs_sources g (ws # S) =
        Pair (wpfs_key w) ` rule_sources (wpfs_policy g pn w fs) \<union> wpfs_sources g S"
      by (simp add: ws wpfs_sources_def rules_wpfs_policy) blast
    ultimately show ?case using Cons convert_one_rules [of g pn w fs q] ws by simp
  qed
  then show "keyed rule_paths qs = wpfs_paths S" "keyed rule_sources qs = wpfs_sources g S" by auto
qed

lemma wpfs_perm:
  assumes "set S = set S'"
  shows "wpfs_paths S = wpfs_paths S'" "wpfs_sources g S = wpfs_sources g S'"
  using assms by (auto simp: wpfs_paths_def wpfs_sources_def)

section \<open>Names\<close>

definition has_hash_name :: "KnoxSystemPolicy \<Rightarrow> bool" where
  "has_hash_name p \<longleftrightarrow> lookup_str (sysp_Metadata p) ''clustername'' = [] \<and>
     lookup_str (sysp_Metadata p) ''name'' = ''autopol-system-'' @
       digits_of (uint (HashInt (snd (snd (meta_key p)) @ fst (snd (meta_key p)))))"

lemma metadata_upd [simp]:
  "sysp_Metadata (append_pol p r) = fmupd ''name'' (lookup_str (sysp_Metadata p) ''name'') (sysp_Metadata r)"
  "sysp_Metadata (merge_pol p r) = sysp_Metadata r" "sysp_Metadata (clear_rules p) = sysp_Metadata p"
  "sysp_Metadata (sort_pol p) = sysp_Metadata p"
  by (simp_all add: append_pol_def merge_pol_def clear_rules_def sort_pol_def)

lemma hash_name_merge_step:
  assumes "lookup_str (sysp_Metadata p) ''clustername'' = []" and "\<forall>r \<in> set rs. has_hash_name r"
  shows "\<forall>r \<in> set (merge_step p rs). has_hash_name r"
proof -
  let ?p = "set_meta ''name'' (sysPolicyName p) p"
  let ?i = "checkIfMetadataMatches ?p rs"
  have p: "has_hash_name ?p"
    using assms(1) by (simp add: has_hash_name_def sysPolicyName_def) (simp add: meta_key_def)
  show ?thesis
  proof (cases "?i < 0")
    case True
    then show ?thesis using assms(2) p by (simp add: merge_step_def Let_def)
  next
    case False
    then have i: "nat ?i < length rs" "meta_key (rs ! nat ?i) = meta_key ?p"
      using checkIfMetadataMatches_index [OF False] by auto
    then have "has_hash_name (append_pol ?p (rs ! nat ?i))"
      using p assms(2) nth_mem [OF i(1)] by (simp add: has_hash_name_def append_pol_rules)
    then show ?thesis using assms(2) False
      by (auto simp: merge_step_def Let_def dest!: set_update_subset_insert [THEN subsetD])
  qed
qed

lemma hash_name_merge_into:
  assumes "has_hash_name p" and "\<forall>r \<in> set rs. has_hash_name r"
  shows "\<forall>r \<in> set (merge_into False p rs). has_hash_name r"
proof -
  define rs' where "rs' = (if meta_key p \<in> meta_key ` set rs then rs else rs @ [clear_rules p])"
  let ?i = "nat (checkIfMetadataMatches p rs')"
  have "\<not> checkIfMetadataMatches p rs' < 0" by (auto simp: checkIfMetadataMatches_neg rs'_def)
  then have i: "?i < length rs'" using checkIfMetadataMatches_index by blast
  have rs': "\<forall>r \<in> set rs'. has_hash_name r" using assms by (auto simp: rs'_def has_hash_name_def)
  then have "has_hash_name (merge_pol p (rs' ! ?i))"
    using nth_mem [OF i] by (simp add: has_hash_name_def merge_pol_rules)
  then show ?thesis using rs'
    by (auto simp: merge_into_eq Let_def rs'_def [symmetric] dest!: set_update_subset_insert [THEN subsetD])
qed

lemma hash_names_merged:
  assumes "\<forall>p \<in> set pols. lookup_str (sysp_Metadata p) ''clustername'' = []"
  shows "\<forall>r \<in> set (mergeSysPolicies pols). has_hash_name r"
proof -
  let ?I = "\<lambda>rs. \<forall>r \<in> set rs. has_hash_name r"
  have 1: "?I (fold merge_step pols [])"
  proof (rule fold_invariant [of ?I])
    show "?I (merge_step p rs)" if "?I rs" "p \<in> set pols" for rs p
      using that assms by (intro hash_name_merge_step) blast+
  qed simp
  have "?I (mergeFromSource (fold merge_step pols []))"
    unfolding mergeFromSource_def
  proof (rule fold_invariant [of ?I])
    show "?I (merge_into False p rs)" if "?I rs" "p \<in> set (fold merge_step pols [])" for rs p
      using that 1 by (intro hash_name_merge_into) blast+
  qed simp
  then show ?thesis by (auto simp: mergeSysPolicies_def has_hash_name_def)
qed

lemma updateSysPolicySpec_metadata:
  "k \<noteq> ''fromSource'' \<Longrightarrow>
   lookup_str (sysp_Metadata (updateSysPolicySpec g t p src sp)) k = lookup_str (sysp_Metadata p) k"
  by (simp add: updateSysPolicySpec_def)

lemma wpfs_policy_no_clustername: "lookup_str (sysp_Metadata (wpfs_policy g pn w fs)) ''clustername'' = []"
proof -
  have "lookup_str (sysp_Metadata (fold (\<lambda>f p. updateSysPolicySpec g t p src (wpfs_sysPath f)) fs p)) ''clustername'' =
      lookup_str (sysp_Metadata p) ''clustername''" for t src p
    by (induction fs arbitrary: p) (auto simp: updateSysPolicySpec_metadata)
  then show ?thesis by (simp add: wpfs_policy_def buildSystemPolicy_def)
qed

section \<open>Properties\<close>

text \<open>C5: the policies made from the file sets are those of the specification, whatever the order
  in which the sets are read. Each cluster, namespace and set of labels has one policy; its rules are
  exactly the files of the sets of that workload, each path once for each kind of rule, with exactly
  the sources of those sets; and the rules are sorted.\<close>

theorem ConvertWPFSToKnoxSysPolicy_correct:
  assumes "iter_order ord" and "ConvertWPFSToKnoxSysPolicy ord g wpfsSet pnMap = Inr pols"
  shows "distinct (map meta_key pols) \<and> keyed rule_paths pols = wpfs_paths wpfsSet \<and>
    keyed rule_sources pols = wpfs_sources g wpfsSet \<and>
    (\<forall>p \<in> set pols. rules_distinct p \<and> rules_sorted p)"
proof -
  obtain qs where qs: "list_all2 (\<lambda>ws q. convert_one g pnMap ws = Inr q) (ord wpfsSet) qs"
    and pols: "pols = mergeSysPolicies qs"
    using assms(2) by (auto simp: ConvertWPFSToKnoxSysPolicy_def go_bind_Inr_iff convert_loop)
  have "set (ord wpfsSet) = set wpfsSet" using assms(1) by (rule iter_order_set)
  then show ?thesis
    using keyed_convert [OF qs] mergeSysPolicies_facts [of qs] wpfs_perm [of "ord wpfsSet" wpfsSet] pols
    by simp
qed

definition demo_set :: "string \<Rightarrow> string \<Rightarrow> string list \<Rightarrow> WorkloadProcessFileSet \<times> string list" where
  "demo_set cluster src fs = (\<lparr>wpfs_ClusterName = cluster, wpfs_ContainerName = ''c'', wpfs_Namespace = ''ns'',
     wpfs_Labels = ''a=b'', wpfs_FromSource = src, wpfs_SetType = SYS_OP_FILE\<rparr>, fs)"

theorem ConvertWPFSToKnoxSysPolicy_correct_witness:
  "\<exists>pols. ConvertWPFSToKnoxSysPolicy id g_sources
      [demo_set ''k'' ''/bin/ls'' [''/etc/ld.so''], demo_set ''k'' ''/bin/sh'' [''/etc/ld.so'']] [] = Inr pols \<and>
    length pols = 1 \<and> keyed rule_paths pols =
      wpfs_paths [demo_set ''k'' ''/bin/ls'' [''/etc/ld.so''], demo_set ''k'' ''/bin/sh'' [''/etc/ld.so'']]"
proof -
  let ?S = "[demo_set ''k'' ''/bin/ls'' [''/etc/ld.so''], demo_set ''k'' ''/bin/sh'' [''/etc/ld.so'']]"
  have "case ConvertWPFSToKnoxSysPolicy id g_sources ?S [] of Inl _ \<Rightarrow> False | Inr pols \<Rightarrow> length pols = 1"
    by code_simp
  then obtain pols where pols: "ConvertWPFSToKnoxSysPolicy id g_sources ?S [] = Inr pols" "length pols = 1"
    by (auto split: sum.splits)
  have "keyed rule_paths pols = wpfs_paths ?S"
    using ConvertWPFSToKnoxSysPolicy_correct [OF _ pols(1)] by (simp add: iter_order_def)
  then show ?thesis using pols by blast
qed

text \<open>The conversion panics exactly when a file set has labels one of which, between commas,
  contains no equals sign.\<close>

theorem ConvertWPFSToKnoxSysPolicy_panics_iff:
  assumes "iter_order ord"
  shows "ConvertWPFSToKnoxSysPolicy ord g wpfsSet pnMap = Inl e \<longleftrightarrow>
    e = IndexOutOfRange \<and> (\<exists>ws \<in> set wpfsSet. wpfs_Labels (fst ws) \<noteq> [] \<and>
      (\<exists>l \<in> set (Split (wpfs_Labels (fst ws)) (CHR '','')). CHR ''='' \<notin> set l))"
proof -
  have one: "convert_one g pnMap ws = Inl e' \<longleftrightarrow> (wpfs_Labels (fst ws) \<noteq> [] \<and>
      (\<exists>l \<in> set (Split (wpfs_Labels (fst ws)) (CHR '','')). CHR ''='' \<notin> set l)) \<and> e' = IndexOutOfRange" for ws e'
    using foldM_panic [of set_selector_label "\<lambda>l. CHR ''='' \<notin> set l" IndexOutOfRange]
      set_selector_label_panic by (auto simp: convert_one_def)
  have "go_bind (convert_one g pnMap ws) (\<lambda>pol. Inr (rs @ [pol])) = Inl e' \<longleftrightarrow> (wpfs_Labels (fst ws) \<noteq> [] \<and>
      (\<exists>l \<in> set (Split (wpfs_Labels (fst ws)) (CHR '','')). CHR ''='' \<notin> set l)) \<and> e' = IndexOutOfRange" for rs ws e'
    using one [of ws e'] by (cases "convert_one g pnMap ws") auto
  then have loop: "foldM (\<lambda>results ws. go_bind (convert_one g pnMap ws) (\<lambda>pol. Inr (results @ [pol]))) [] (ord wpfsSet) = Inl e \<longleftrightarrow>
      (\<exists>ws \<in> set (ord wpfsSet). wpfs_Labels (fst ws) \<noteq> [] \<and>
      (\<exists>l \<in> set (Split (wpfs_Labels (fst ws)) (CHR '','')). CHR ''='' \<notin> set l)) \<and> e = IndexOutOfRange"
    by (rule foldM_panic)
  have bind: "go_bind m (\<lambda>results. Inr (mergeSysPolicies results)) = Inl e \<longleftrightarrow> m = Inl e" for m
    by (cases m) auto
  show ?thesis
    unfolding ConvertWPFSToKnoxSysPolicy_def bind loop iter_order_set [OF assms] by blast
qed

theorem ConvertWPFSToKnoxSysPolicy_panics_iff_witness:
  "ConvertWPFSToKnoxSysPolicy rev g_sources [demo_set ''k'' ''/bin/ls'' [''/x'']] [] \<noteq> Inl IndexOutOfRange"
  using ConvertWPFSToKnoxSysPolicy_panics_iff [of rev g_sources "[demo_set ''k'' ''/bin/ls'' [''/x'']]" "[]" IndexOutOfRange]
  by (auto simp: iter_order_def demo_set_def)

text \<open>The name of a policy depends on its namespace and labels alone: the code hashes the
  metadata entry \<^verbatim>\<open>clustername\<close>, but the policies carry \<^verbatim>\<open>clusterName\<close>. Policies of
  different clusters with the same namespace and labels get the same name.\<close>

theorem sysPolicy_name_ignores_cluster:
  assumes "ConvertWPFSToKnoxSysPolicy ord g wpfsSet pnMap = Inr pols"
    and "p \<in> set pols" and "q \<in> set pols" and "snd (meta_key p) = snd (meta_key q)"
  shows "lookup_str (sysp_Metadata p) ''name'' = lookup_str (sysp_Metadata q) ''name''"
proof -
  obtain qs where qs: "list_all2 (\<lambda>ws q. convert_one g pnMap ws = Inr q) (ord wpfsSet) qs"
    and pols: "pols = mergeSysPolicies qs"
    using assms(1) by (auto simp: ConvertWPFSToKnoxSysPolicy_def go_bind_Inr_iff convert_loop)
  have "\<forall>q \<in> set qs. lookup_str (sysp_Metadata q) ''clustername'' = []"
    using qs by (auto simp: list_all2_conv_all_nth in_set_conv_nth)
      (metis convert_one_rules prod.collapse wpfs_policy_no_clustername)
  then have "has_hash_name p" "has_hash_name q" using hash_names_merged assms(2,3) pols by auto
  then show ?thesis using assms(4) by (simp add: has_hash_name_def)
qed

theorem sysPolicy_name_ignores_cluster_witness:
  "\<exists>p q. meta_key p = (''k1'', ''ns'', ''a=b'') \<and> meta_key q = (''k2'', ''ns'', ''a=b'') \<and>
    lookup_str (sysp_Metadata p) ''name'' = lookup_str (sysp_Metadata q) ''name''"
proof -
  let ?S = "[demo_set ''k1'' ''/bin/ls'' [''/x''], demo_set ''k2'' ''/bin/ls'' [''/x'']]"
  have "case ConvertWPFSToKnoxSysPolicy id g_sources ?S [] of Inl _ \<Rightarrow> False
      | Inr pols \<Rightarrow> map meta_key pols = [(''k1'', ''ns'', ''a=b''), (''k2'', ''ns'', ''a=b'')]"
    by code_simp
  then obtain p q where c: "ConvertWPFSToKnoxSysPolicy id g_sources ?S [] = Inr [p, q]"
    "meta_key p = (''k1'', ''ns'', ''a=b'')" "meta_key q = (''k2'', ''ns'', ''a=b'')"
    by (auto split: sum.splits)
  then show ?thesis using sysPolicy_name_ignores_cluster [OF c(1), of p q] by auto
qed

text \<open>Merging narrows a rule for all sources. A rule without sources permits every process; when
  it is merged with a rule for one source, the result permits that source only.\<close>

theorem mergeFromSource_narrows:
  "mergeFromSourceMatchPaths
     [\<lparr>mp_Path = p, mp_ReadOnly = r, mp_OwnerOnly = w, mp_FromSource = [\<lparr>fs_Path = src, fs_Dir = []\<rparr>]\<rparr>]
     [\<lparr>mp_Path = p, mp_ReadOnly = False, mp_OwnerOnly = False, mp_FromSource = []\<rparr>] =
   [\<lparr>mp_Path = p, mp_ReadOnly = False, mp_OwnerOnly = False, mp_FromSource = [\<lparr>fs_Path = src, fs_Dir = []\<rparr>]\<rparr>]"
  by (simp add: mergeFromSourceMatchPaths_def merge_rules_def merge_rule_def set_mp_fs_def sortFromSource_def)

end
