(* ===== verification/SystemDedup.thy ===== *)
theory SystemDedup
  imports SystemMerge
begin

text \<open>
  \<^verbatim>\<open>systempolicy/deduplicator.go\<close>: discovered system policies are compared with the existing
  ones, named, and merged with the latest policy of the same kind. The name of a policy ends in a
  random sequence; the sequences that \<^verbatim>\<open>libs.RandSeq\<close> returns are a parameter, the list of
  the draws, and a function that has used them all without coming to an end returns \<^verbatim>\<open>None\<close>.
  \<^verbatim>\<open>cmp.Equal\<close> is the parameter \<^verbatim>\<open>cmp_equal\<close>. The calls of
  \<^verbatim>\<open>libs.UpdateOutdatedSystemPolicy\<close> are part of the result, as pairs of an outdated and a
  latest name.
\<close>

section \<open>Comparison and names\<close>

definition IsExistingPolicy_sys ::
  "(KnoxSystemSpec \<Rightarrow> KnoxSystemSpec \<Rightarrow> bool) \<Rightarrow> KnoxSystemPolicy list \<Rightarrow> KnoxSystemPolicy \<Rightarrow> bool" where
  "IsExistingPolicy_sys cmp_equal existingPolicies newPolicy =
     list_ex (\<lambda>exist.
       lookup_str (sysp_Metadata exist) ''clusterName'' = lookup_str (sysp_Metadata newPolicy) ''clusterName'' \<and>
       lookup_str (sysp_Metadata exist) ''namespace'' = lookup_str (sysp_Metadata newPolicy) ''namespace'' \<and>
       cmp_equal (sysp_Spec exist) (sysp_Spec newPolicy)) existingPolicies"

text \<open>The set of names, a map to \<^verbatim>\<open>true\<close>, is the list of its keys.\<close>

definition existPolicyName :: "string list \<Rightarrow> string \<Rightarrow> bool" where
  "existPolicyName policyNamesMap name = List.member policyNamesMap name"

definition sys_prefix :: "string \<Rightarrow> string" where
  "sys_prefix polType =
     (if polType = ''file'' then ''autopol-file-''
      else if polType = ''process'' then ''autopol-process-'' else ''autopol-network-'')"

text \<open>The loop draws until the name is not taken.\<close>

fun draw_name :: "string list \<Rightarrow> string \<Rightarrow> string \<Rightarrow> string list \<Rightarrow> (string \<times> string list) option" where
  "draw_name names polType name draws =
     (if existPolicyName names name then
        (case draws of [] \<Rightarrow> None | r # rs \<Rightarrow> draw_name names polType (sys_prefix polType @ r) rs)
      else Some (name, draws))"

declare draw_name.simps [simp del]

definition GeneratePolicyName_sys ::
  "string list \<Rightarrow> KnoxSystemPolicy \<Rightarrow> string \<Rightarrow> string list \<Rightarrow>
   (KnoxSystemPolicy \<times> string list \<times> string list) option" where
  "GeneratePolicyName_sys names policy clusterName draws =
     (let polType = ToLower (lookup_str (sysp_Metadata policy) ''type'') in
      case draws of [] \<Rightarrow> None
      | r # rs \<Rightarrow>
          (case draw_name names polType (''autopol-'' @ polType @ ''-'' @ r) rs of
             None \<Rightarrow> None
           | Some (name, rs') \<Rightarrow>
               Some (set_meta ''clusterName'' clusterName (set_meta ''name'' name policy), name # names, rs')))"

section \<open>The latest policy\<close>

definition includeSelectorLabels :: "LabelMap \<Rightarrow> LabelMap \<Rightarrow> bool" where
  "includeSelectorLabels newSelectorLabels existSelectorLabels =
     list_all (\<lambda>(k, v). lookup_str existSelectorLabels k = v) (sorted_list_of_fmap newSelectorLabels)"

definition is_latest :: "KnoxSystemPolicy \<Rightarrow> KnoxSystemPolicy \<Rightarrow> bool" where
  "is_latest policy exist \<longleftrightarrow>
     lookup_str (sysp_Metadata exist) ''namespace'' = lookup_str (sysp_Metadata policy) ''namespace'' \<and>
     lookup_str (sysp_Metadata exist) ''type'' = lookup_str (sysp_Metadata policy) ''type'' \<and>
     lookup_str (sysp_Metadata exist) ''status'' = ''latest'' \<and>
     \<not> (Contains (lookup_str (sysp_Metadata policy) ''type'') ''fromSource'' \<and>
        lookup_str (sysp_Metadata exist) ''fromSource'' \<noteq> lookup_str (sysp_Metadata policy) ''fromSource'') \<and>
     includeSelectorLabels (sel_MatchLabels (ss_Selector (sysp_Spec policy)))
       (sel_MatchLabels (ss_Selector (sysp_Spec exist)))"

definition GetLatestPolicy :: "KnoxSystemPolicy list \<Rightarrow> KnoxSystemPolicy \<Rightarrow> KnoxSystemPolicy list" where
  "GetLatestPolicy existingPolicies policy = filter (is_latest policy) existingPolicies"

section \<open>Updating rules\<close>

text \<open>Step 1: the directories of the latest policy that the new one does not have.\<close>

definition include_dirs ::
  "KnoxMatchDirectories list \<Rightarrow> KnoxMatchDirectories list \<Rightarrow> KnoxMatchDirectories list" where
  "include_dirs latest new =
     fold (\<lambda>l ds. if list_ex (\<lambda>d. md_Dir l = md_Dir d) ds then ds else ds @ [l]) latest new"

text \<open>Step 3: \<^verbatim>\<open>paths = append(dirs, path)\<close>, which starts from \<^verbatim>\<open>dirs\<close> each time.\<close>

definition collect_paths :: "string list \<Rightarrow> KnoxMatchPaths list \<Rightarrow> string list" where
  "collect_paths dirs mps =
     fold (\<lambda>mp paths. if \<not> ContainsElement dirs (mp_Path mp) then dirs @ [mp_Path mp] else paths) mps []"

text \<open>Step 4: the rules of the merged paths.\<close>

definition rebuild_rules :: "string \<Rightarrow> SysPath list \<Rightarrow> KnoxSys" where
  "rebuild_rules src mergedSysPaths =
     fold (\<lambda>pathSpec ks.
       if sp_IsDir pathSpec then
         add_dir \<lparr>md_Dir = sp_Path pathSpec, md_Recursive = False, md_ReadOnly = False, md_OwnerOnly = False,
           md_FromSource = fromSource_of True src\<rparr> ks
       else add_path \<lparr>mp_Path = sp_Path pathSpec, mp_ReadOnly = False, mp_OwnerOnly = False,
           mp_FromSource = fromSource_of True src\<rparr> ks) mergedSysPaths KnoxSys_zero"

text \<open>Steps 1 to 4, on the part of the policy for the operation.\<close>

definition update_rules :: "iteration \<Rightarrow> string \<Rightarrow> KnoxSys \<Rightarrow> KnoxSys \<Rightarrow> KnoxSys" where
  "update_rules it src latest new =
     (let newDirs = include_dirs (ks_MatchDirectories latest) (ks_MatchDirectories new);
          dirs = append_missing [] (map md_Dir newDirs);
          paths = collect_paths dirs (ks_MatchPaths new)
      in rebuild_rules src (MergeAndAggregatePaths (it_tree it) (it_paths it) dirs paths))"

type_synonym outdated = "(string \<times> string) list"

definition UpdateProcessOperation ::
  "iteration \<Rightarrow> KnoxSystemPolicy \<Rightarrow> KnoxSystemPolicy list \<Rightarrow> KnoxSystemPolicy \<times> bool \<times> outdated" where
  "UpdateProcessOperation it newPolicy existingPolicies =
     (case GetLatestPolicy existingPolicies newPolicy of
        [] \<Rightarrow> (newPolicy, False, [])
      | latestPolicy # _ \<Rightarrow>
          (upd_process (update_rules it (lookup_str (sysp_Metadata latestPolicy) ''fromSource'')
             (ss_Process (sysp_Spec latestPolicy))) newPolicy, True,
           [(lookup_str (sysp_Metadata latestPolicy) ''name'', lookup_str (sysp_Metadata newPolicy) ''name'')]))"

definition UpdateFileOperation ::
  "iteration \<Rightarrow> KnoxSystemPolicy \<Rightarrow> KnoxSystemPolicy list \<Rightarrow> KnoxSystemPolicy \<times> bool \<times> outdated" where
  "UpdateFileOperation it newPolicy existingPolicies =
     (case GetLatestPolicy existingPolicies newPolicy of
        [] \<Rightarrow> (newPolicy, False, [])
      | latestPolicy # _ \<Rightarrow>
          (upd_file (update_rules it (lookup_str (sysp_Metadata latestPolicy) ''fromSource'')
             (ss_File (sysp_Spec latestPolicy))) newPolicy, True,
           [(lookup_str (sysp_Metadata latestPolicy) ''name'', lookup_str (sysp_Metadata newPolicy) ''name'')]))"

section \<open>Updating the policies\<close>

record dedup_state =
  dd_names :: "string list"
  dd_draws :: "string list"
  dd_outdated :: outdated
  dd_new :: "KnoxSystemPolicy list"

definition dedup_step ::
  "iteration \<Rightarrow> (KnoxSystemSpec \<Rightarrow> KnoxSystemSpec \<Rightarrow> bool) \<Rightarrow> KnoxSystemPolicy list \<Rightarrow> string \<Rightarrow> int \<Rightarrow>
   KnoxSystemPolicy \<Rightarrow> dedup_state \<Rightarrow> dedup_state option" where
  "dedup_step it cmp_equal existing clusterName now policy st =
     (if IsExistingPolicy_sys cmp_equal existing policy then Some st
      else case GeneratePolicyName_sys (dd_names st) policy clusterName (dd_draws st) of
        None \<Rightarrow> None
      | Some (namedPolicy, names, draws) \<Rightarrow>
          (let (p1, u1, o1) = UpdateFileOperation it namedPolicy existing;
               isFile = (lookup_str (sysp_Metadata policy) ''type'' = SYS_OP_FILE);
               named1 = (if isFile \<and> u1 then p1 else namedPolicy);
               (p2, u2, o2) = UpdateProcessOperation it named1 existing;
               isProc = (lookup_str (sysp_Metadata policy) ''type'' = SYS_OP_PROCESS);
               named2 = (if isProc \<and> u2 then p2 else named1);
               final = (set_meta ''status'' ''latest'' named2)\<lparr>sysp_GeneratedTime := now\<rparr>
           in Some \<lparr>dd_names = names, dd_draws = draws,
                dd_outdated = dd_outdated st @ (if isFile then o1 else []) @ (if isProc then o2 else []),
                dd_new = dd_new st @ [final]\<rparr>))"

fun dedup_loop ::
  "iteration \<Rightarrow> (KnoxSystemSpec \<Rightarrow> KnoxSystemSpec \<Rightarrow> bool) \<Rightarrow> KnoxSystemPolicy list \<Rightarrow> string \<Rightarrow> int \<Rightarrow>
   KnoxSystemPolicy list \<Rightarrow> dedup_state \<Rightarrow> dedup_state option" where
  "dedup_loop it cmp_equal existing clusterName now [] st = Some st"
| "dedup_loop it cmp_equal existing clusterName now (p # ps) st =
     (case dedup_step it cmp_equal existing clusterName now p st of
        None \<Rightarrow> None | Some st' \<Rightarrow> dedup_loop it cmp_equal existing clusterName now ps st')"

definition sys_name :: "KnoxSystemPolicy \<Rightarrow> string" where
  "sys_name p = lookup_str (sysp_Metadata p) ''name''"

definition UpdateDuplicatedPolicy_sys ::
  "iteration \<Rightarrow> (KnoxSystemSpec \<Rightarrow> KnoxSystemSpec \<Rightarrow> bool) \<Rightarrow> string list \<Rightarrow> int \<Rightarrow>
   KnoxSystemPolicy list \<Rightarrow> KnoxSystemPolicy list \<Rightarrow> string \<Rightarrow> (KnoxSystemPolicy list \<times> outdated) option" where
  "UpdateDuplicatedPolicy_sys it cmp_equal draws now existing discovered clusterName =
     (case dedup_loop it cmp_equal existing clusterName now discovered
        \<lparr>dd_names = map sys_name existing, dd_draws = draws, dd_outdated = [], dd_new = []\<rparr> of
        None \<Rightarrow> None
      | Some st \<Rightarrow> Some (sort_by (\<lambda>x y. sys_name x < sys_name y) (dd_new st), dd_outdated st))"

section \<open>Names\<close>

lemma existPolicyName_iff [simp]: "existPolicyName names n \<longleftrightarrow> n \<in> set names"
  by (simp add: existPolicyName_def)

lemma draw_name_simps:
  "n \<notin> set names \<Longrightarrow> draw_name names pt n draws = Some (n, draws)"
  "n \<in> set names \<Longrightarrow> draw_name names pt n [] = None"
  "n \<in> set names \<Longrightarrow> draw_name names pt n (r # rs) = draw_name names pt (sys_prefix pt @ r) rs"
  by (simp_all add: draw_name.simps [of names pt n])

lemma draw_name_fresh: "draw_name names pt n draws = Some (n', rs) \<Longrightarrow> n' \<notin> set names"
proof (induction draws arbitrary: n)
  case Nil
  then show ?case by (cases "n \<in> set names") (auto simp: draw_name_simps)
next
  case (Cons r draws)
  then show ?case by (cases "n \<in> set names") (auto simp: draw_name_simps)
qed

text \<open>If not every draw is taken, the loop ends, and what it uses before is taken.\<close>

lemma draw_name_ends:
  assumes "distinct draws" and "card (set names) < length draws"
  shows "\<exists>n' used rs. draw_name names pt n draws = Some (n', rs) \<and> draws = used @ rs \<and>
    length used \<le> card (set names) + 1"
proof -
  have hits: "length hs \<le> card (set names)" if "distinct hs" "\<forall>h \<in> set hs. sys_prefix pt @ h \<in> set names" for hs
  proof -
    have "card ((@) (sys_prefix pt) ` set hs) = length hs"
      using that(1) by (simp add: card_image inj_on_def distinct_card)
    moreover have "(@) (sys_prefix pt) ` set hs \<subseteq> set names" using that(2) by auto
    ultimately show ?thesis by (metis List.finite_set card_mono)
  qed
  have loop: "(\<exists>n' used rs. draw_name names pt n ds = Some (n', rs) \<and> ds = used @ rs \<and>
        (\<forall>h \<in> set (butlast used). sys_prefix pt @ h \<in> set names)) \<or>
      draw_name names pt n ds = None \<and> (\<forall>h \<in> set ds. sys_prefix pt @ h \<in> set names)" for ds
  proof (induction ds arbitrary: n)
    case Nil
    then show ?case by (cases "n \<in> set names") (auto simp: draw_name_simps)
  next
    case (Cons d ds)
    show ?case
    proof (cases "n \<in> set names")
      case False
      then show ?thesis by (auto simp: draw_name_simps)
    next
      case True
      let ?m = "sys_prefix pt @ d"
      show ?thesis
      proof (cases "?m \<in> set names")
        case False
        then show ?thesis using True
          by (intro disjI1 exI [of _ ?m] exI [of _ "[d]"] exI [of _ ds]) (auto simp: draw_name_simps)
      next
        case m: True
        from Cons.IH [of ?m] show ?thesis
        proof (elim disjE exE conjE)
          fix n' used rs
          assume "draw_name names pt ?m ds = Some (n', rs)" "ds = used @ rs"
            "\<forall>h \<in> set (butlast used). sys_prefix pt @ h \<in> set names"
          then show ?thesis using True m
            by (intro disjI1 exI [of _ n'] exI [of _ "d # used"] exI [of _ rs]) (auto simp: draw_name_simps)
        qed (use True m in \<open>auto simp: draw_name_simps\<close>)
      qed
    qed
  qed
  from loop [of draws] show ?thesis
  proof (elim disjE exE conjE)
    fix n' used rs
    assume r: "draw_name names pt n draws = Some (n', rs)" "draws = used @ rs"
      and h: "\<forall>h \<in> set (butlast used). sys_prefix pt @ h \<in> set names"
    have "length (butlast used) \<le> card (set names)"
      using hits [OF _ h] assms(1) r(2) by (simp add: distinct_butlast)
    then show ?thesis using r by auto
  next
    assume "\<forall>h \<in> set draws. sys_prefix pt @ h \<in> set names"
    then show ?thesis using hits [OF assms(1)] assms(2) by simp
  qed
qed

lemma GeneratePolicyName_ends:
  assumes "distinct draws" and "card (set names) + 1 < length draws"
  shows "\<exists>p' used rs. GeneratePolicyName_sys names policy c draws = Some (p', sys_name p' # names, rs) \<and>
    draws = used @ rs \<and> length used \<le> card (set names) + 2 \<and> sys_name p' \<notin> set names"
proof -
  obtain r ds where draws: "draws = r # ds" using assms(2) by (cases draws) auto
  let ?pt = "ToLower (lookup_str (sysp_Metadata policy) ''type'')"
  let ?n = "''autopol-'' @ ?pt @ ''-'' @ r"
  obtain n' used rs where d: "draw_name names ?pt ?n ds = Some (n', rs)" "ds = used @ rs"
    "length used \<le> card (set names) + 1"
    using draw_name_ends [of ds names ?pt ?n] assms draws by auto
  then show ?thesis
    using draw_name_fresh [OF d(1)] draws
    by (auto simp: GeneratePolicyName_sys_def sys_name_def set_meta_def intro!: exI [of _ "r # used"])
qed

lemma GeneratePolicyName_result:
  assumes "GeneratePolicyName_sys names policy c draws = Some (p', names', rs)"
  shows "names' = sys_name p' # names" "sys_name p' \<notin> set names"
    "p' = set_meta ''clusterName'' c (set_meta ''name'' (sys_name p') policy)"
  using assms
  by (auto simp: GeneratePolicyName_sys_def sys_name_def set_meta_def Let_def draw_name_fresh
      split: list.splits option.splits)

section \<open>The loop\<close>

lemma upd_meta [simp]:
  "sysp_Metadata (upd_file f p) = sysp_Metadata p" "sysp_Metadata (upd_process f p) = sysp_Metadata p"
  by (simp_all add: upd_file_def upd_process_def)

lemma Update_meta:
  "sysp_Metadata (fst (UpdateFileOperation it p existing)) = sysp_Metadata p"
  "sysp_Metadata (fst (UpdateProcessOperation it p existing)) = sysp_Metadata p"
  by (simp_all add: UpdateFileOperation_def UpdateProcessOperation_def split: list.splits)

text \<open>What holds of a policy that a step adds.\<close>

definition deduped :: "string \<Rightarrow> int \<Rightarrow> KnoxSystemPolicy \<Rightarrow> bool" where
  "deduped clusterName now p \<longleftrightarrow>
     lookup_str (sysp_Metadata p) ''clusterName'' = clusterName \<and>
     lookup_str (sysp_Metadata p) ''status'' = ''latest'' \<and> sysp_GeneratedTime p = now"

lemma dedup_step_cases:
  assumes "dedup_step it cmp_equal existing c now policy st = Some st'"
  obtains "IsExistingPolicy_sys cmp_equal existing policy" "st' = st"
  | p where "\<not> IsExistingPolicy_sys cmp_equal existing policy" "dd_new st' = dd_new st @ [p]"
      "dd_names st' = sys_name p # dd_names st" "sys_name p \<notin> set (dd_names st)" "deduped c now p"
proof (cases "IsExistingPolicy_sys cmp_equal existing policy")
  case True
  then show thesis using assms that(1) by (simp add: dedup_step_def)
next
  case False
  then obtain q names rs where g: "GeneratePolicyName_sys (dd_names st) policy c (dd_draws st) = Some (q, names, rs)"
    using assms by (auto simp: dedup_step_def split: option.splits)
  note r = GeneratePolicyName_result [OF g]
  let ?f = "UpdateFileOperation it q existing"
  let ?p1 = "if lookup_str (sysp_Metadata policy) ''type'' = SYS_OP_FILE \<and> fst (snd ?f) then fst ?f else q"
  let ?g = "UpdateProcessOperation it ?p1 existing"
  let ?p2 = "if lookup_str (sysp_Metadata policy) ''type'' = SYS_OP_PROCESS \<and> fst (snd ?g) then fst ?g else ?p1"
  let ?p = "(set_meta ''status'' ''latest'' ?p2)\<lparr>sysp_GeneratedTime := now\<rparr>"
  have meta: "sysp_Metadata ?p2 = sysp_Metadata q" by (simp add: Update_meta)
  have "lookup_str (sysp_Metadata q) ''clusterName'' = c"
    by (subst r(3)) (simp add: set_meta_def)
  then have p: "sys_name ?p = sys_name q" "deduped c now ?p"
    using meta by (simp_all add: sys_name_def deduped_def set_meta_def)
  have "dd_new st' = dd_new st @ [?p]" "dd_names st' = names"
    using assms False g by (auto simp: dedup_step_def Let_def case_prod_unfold)
  then show thesis using that(2) [of ?p] False r(1,2) p by simp
qed

definition dedup_inv :: "string list \<Rightarrow> string \<Rightarrow> int \<Rightarrow> dedup_state \<Rightarrow> bool" where
  "dedup_inv names c now st \<longleftrightarrow>
     dd_names st = rev (map sys_name (dd_new st)) @ names \<and>
     distinct (map sys_name (dd_new st)) \<and> sys_name ` set (dd_new st) \<inter> set names = {} \<and>
     list_all (deduped c now) (dd_new st)"

lemma dedup_loop_inv:
  assumes "dedup_loop it cmp_equal existing c now ps st = Some st'" and "dedup_inv names c now st"
  shows "dedup_inv names c now st' \<and>
    length (dd_new st') = length (dd_new st) + length (filter (\<lambda>p. \<not> IsExistingPolicy_sys cmp_equal existing p) ps)"
  using assms
proof (induction ps arbitrary: st)
  case (Cons p ps)
  then obtain st1 where st1: "dedup_step it cmp_equal existing c now p st = Some st1"
    and loop: "dedup_loop it cmp_equal existing c now ps st1 = Some st'"
    by (auto split: option.splits)
  from st1 show ?case
  proof (cases rule: dedup_step_cases)
    case 1
    then show ?thesis using Cons.IH [OF loop] Cons.prems(2) by simp
  next
    case (2 q)
    then have "dedup_inv names c now st1" using Cons.prems(2) by (auto simp: dedup_inv_def)
    then show ?thesis using Cons.IH [OF loop] 2 by simp
  qed
qed simp

lemma dedup_loop_ends:
  assumes "distinct (dd_draws st)"
    and "length ps * (length (dd_names st) + length ps + 2) \<le> length (dd_draws st)"
  shows "dedup_loop it cmp_equal existing c now ps st \<noteq> None"
  using assms
proof (induction ps arbitrary: st)
  case (Cons p ps)
  show ?case
  proof (cases "IsExistingPolicy_sys cmp_equal existing p")
    case True
    then have "dedup_step it cmp_equal existing c now p st = Some st" by (simp add: dedup_step_def)
    moreover have "dedup_loop it cmp_equal existing c now ps st \<noteq> None"
      using Cons.prems by (intro Cons.IH) (auto simp: algebra_simps)
    ultimately show ?thesis by simp
  next
    case False
    have card: "card (set (dd_names st)) \<le> length (dd_names st)" by (rule card_length)
    have len: "length (dd_names st) + 2 < length (dd_draws st) + 1" using Cons.prems(2) by simp
    then have "card (set (dd_names st)) + 1 < length (dd_draws st)" using card by simp
    from GeneratePolicyName_ends [OF Cons.prems(1) this, of p c]
    obtain q used rs where q: "GeneratePolicyName_sys (dd_names st) p c (dd_draws st) = Some (q, sys_name q # dd_names st, rs)"
      "dd_draws st = used @ rs" "length used \<le> card (set (dd_names st)) + 2"
      by blast
    from q(1) False obtain st1 where st1: "dedup_step it cmp_equal existing c now p st = Some st1"
      "dd_draws st1 = rs" "dd_names st1 = sys_name q # dd_names st"
      by (auto simp: dedup_step_def Let_def case_prod_unfold)
    have "length ps * (length (dd_names st1) + length ps + 2) \<le> length (dd_draws st1)"
      using Cons.prems(2) q(2,3) st1(2,3) card by (simp add: algebra_simps)
    moreover have "distinct (dd_draws st1)" using Cons.prems(1) q(2) st1(2) by simp
    ultimately show ?thesis using Cons.IH st1(1) by simp
  qed
qed simp

section \<open>The paths that are kept\<close>

lemma collect_paths_snoc:
  "mp_Path p \<notin> set dirs \<Longrightarrow> collect_paths dirs (mps @ [p]) = dirs @ [mp_Path p]"
  by (simp add: collect_paths_def)

lemma include_dirs_subset: "md_Dir ` set (include_dirs latest new) \<subseteq> md_Dir ` set latest \<union> md_Dir ` set new"
proof -
  have "set (include_dirs latest new) \<subseteq> set latest \<union> set new"
    unfolding include_dirs_def by (rule fold_invariant) auto
  then show ?thesis by blast
qed

lemma update_rules_snoc:
  assumes "mp_Path p \<notin> md_Dir ` (set (ks_MatchDirectories latest) \<union> set (ks_MatchDirectories ks))"
  shows "update_rules it src latest (ks\<lparr>ks_MatchPaths := mps @ [p]\<rparr>) =
    update_rules it src latest (ks\<lparr>ks_MatchPaths := [p]\<rparr>)"
proof -
  let ?dirs = "append_missing [] (map md_Dir (include_dirs (ks_MatchDirectories latest) (ks_MatchDirectories ks)))"
  have "mp_Path p \<notin> set ?dirs"
    using assms include_dirs_subset [of "ks_MatchDirectories latest" "ks_MatchDirectories ks"] by auto
  then show ?thesis
    using collect_paths_snoc [of p ?dirs mps] collect_paths_snoc [of p ?dirs "[]"]
    by (simp add: update_rules_def Let_def)
qed

lemma GetLatestPolicy_upd_file: "GetLatestPolicy existing (upd_file f p) = GetLatestPolicy existing p"
  by (simp add: GetLatestPolicy_def is_latest_def [abs_def] upd_file_def)

section \<open>Properties\<close>

text \<open>C31: naming comes to an end: with enough different random sequences
  \<^verbatim>\<open>UpdateDuplicatedPolicy\<close> returns, and every policy of the result has a name that no
  existing policy and no other policy of the result has, the cluster, the status
  \<^verbatim>\<open>latest\<close> and the time of the run. One policy is returned for each discovered policy that
  does not exist yet, in the order of the names.\<close>

theorem UpdateDuplicatedPolicy_sys_correct:
  assumes "distinct draws"
    and "length discovered * (length existing + length discovered + 2) \<le> length draws"
  shows "\<exists>new outdated. UpdateDuplicatedPolicy_sys it cmp_equal draws now existing discovered c = Some (new, outdated) \<and>
    sorted (map sys_name new) \<and> distinct (map sys_name new) \<and>
    sys_name ` set new \<inter> sys_name ` set existing = {} \<and>
    length new = length (filter (\<lambda>p. \<not> IsExistingPolicy_sys cmp_equal existing p) discovered) \<and>
    (\<forall>p \<in> set new. deduped c now p)"
proof -
  let ?st = "\<lparr>dd_names = map sys_name existing, dd_draws = draws, dd_outdated = [], dd_new = []\<rparr>"
  have "dedup_loop it cmp_equal existing c now discovered ?st \<noteq> None"
    using assms by (intro dedup_loop_ends) simp_all
  then obtain st where st: "dedup_loop it cmp_equal existing c now discovered ?st = Some st" by blast
  have inv: "dedup_inv (map sys_name existing) c now st"
    "length (dd_new st) = length (filter (\<lambda>p. \<not> IsExistingPolicy_sys cmp_equal existing p) discovered)"
    using dedup_loop_inv [OF st, of "map sys_name existing"] by (simp_all add: dedup_inv_def)
  let ?new = "sort_by (\<lambda>x y. sys_name x < sys_name y) (dd_new st)"
  have "sorted (map sys_name ?new)" by (simp add: sort_by_key)
  moreover have "length ?new = length (dd_new st)" by (simp add: sort_by_key)
  ultimately show ?thesis
    using st inv by (auto simp: UpdateDuplicatedPolicy_sys_def dedup_inv_def list_all_iff)
qed

theorem UpdateDuplicatedPolicy_sys_correct_witness:
  "UpdateDuplicatedPolicy_sys it_id (=) [''aa'', ''ab'', ''ac'', ''ad''] 7
     [set_meta ''name'' ''autopol-file-aa'' buildSystemPolicy] [set_meta ''type'' SYS_OP_FILE (upd_file (add_path
       \<lparr>mp_Path = ''/etc/a'', mp_ReadOnly = False, mp_OwnerOnly = False, mp_FromSource = []\<rparr>) buildSystemPolicy)] ''c1''
   \<noteq> None"
  using UpdateDuplicatedPolicy_sys_correct [of "[''aa'', ''ab'', ''ac'', ''ad'']" "[set_meta ''type'' SYS_OP_FILE (upd_file (add_path
       \<lparr>mp_Path = ''/etc/a'', mp_ReadOnly = False, mp_OwnerOnly = False, mp_FromSource = []\<rparr>) buildSystemPolicy)]"
      "[set_meta ''name'' ''autopol-file-aa'' buildSystemPolicy]" it_id "(=)" 7 "''c1''"]
  by auto

text \<open>When a file policy is merged with the latest one, its paths but the last are lost: the result
  is the same as if the policy had only its last path, unless that is one of the directories. (Step 3 assigns
  \<^verbatim>\<open>append(dirs, path)\<close>, not \<^verbatim>\<open>append(paths, path)\<close>.)\<close>

theorem UpdateFileOperation_keeps_last_path:
  assumes "GetLatestPolicy existing policy = latest # rest"
    and "mp_Path p \<notin> md_Dir ` (set (ks_MatchDirectories (ss_File (sysp_Spec latest))) \<union>
      set (ks_MatchDirectories (ss_File (sysp_Spec policy))))"
  shows "UpdateFileOperation it (upd_file (\<lambda>ks. ks\<lparr>ks_MatchPaths := mps @ [p]\<rparr>) policy) existing =
    UpdateFileOperation it (upd_file (\<lambda>ks. ks\<lparr>ks_MatchPaths := [p]\<rparr>) policy) existing"
  using assms(1) update_rules_snoc [OF assms(2)]
  by (simp add: UpdateFileOperation_def GetLatestPolicy_upd_file) (simp add: upd_file_def)

definition demo_path :: "string \<Rightarrow> KnoxMatchPaths" where
  "demo_path p = \<lparr>mp_Path = p, mp_ReadOnly = False, mp_OwnerOnly = False, mp_FromSource = []\<rparr>"

definition demo_latest :: KnoxSystemPolicy where
  "demo_latest = set_meta ''type'' SYS_OP_FILE (set_meta ''status'' ''latest'' buildSystemPolicy)"

theorem UpdateFileOperation_keeps_last_path_witness:
  "map mp_Path (ks_MatchPaths (ss_File (sysp_Spec (fst (UpdateFileOperation it_id
     (upd_file (\<lambda>ks. ks\<lparr>ks_MatchPaths := [demo_path ''/etc/a'', demo_path ''/usr/b'']\<rparr>) demo_latest) [demo_latest]))))) =
   [''/usr/b'']"
proof -
  have latest: "GetLatestPolicy [demo_latest] demo_latest = [demo_latest]" by code_simp
  have eq: "UpdateFileOperation it_id (upd_file (\<lambda>ks. ks\<lparr>ks_MatchPaths := [demo_path ''/etc/a''] @ [demo_path ''/usr/b'']\<rparr>)
        demo_latest) [demo_latest] =
      UpdateFileOperation it_id (upd_file (\<lambda>ks. ks\<lparr>ks_MatchPaths := [demo_path ''/usr/b'']\<rparr>) demo_latest) [demo_latest]"
    by (rule UpdateFileOperation_keeps_last_path [OF latest])
      (simp add: demo_latest_def set_meta_def buildSystemPolicy_def KnoxSys_zero_def KnoxSystemSpec_zero_def)
  have "map mp_Path (ks_MatchPaths (ss_File (sysp_Spec (fst (UpdateFileOperation it_id
      (upd_file (\<lambda>ks. ks\<lparr>ks_MatchPaths := [demo_path ''/usr/b'']\<rparr>) demo_latest) [demo_latest]))))) = [''/usr/b'']"
    by code_simp
  then show ?thesis using eq by simp
qed

end
