(* ===== verification/FileSet.thy ===== *)
theory FileSet
  imports SystemMerge
begin

text \<open>
  The table of file sets and its use. The first part is the table behind
  \<^verbatim>\<open>GetWorkloadProcessFileSet\<close>, \<^verbatim>\<open>InsertWorkloadProcessFileSet\<close>,
  \<^verbatim>\<open>UpdateWorkloadProcessFileSet*\<close> and \<^verbatim>\<open>ClearWPFSDb\<close> of package
  \<^verbatim>\<open>libs\<close> with both drivers, which run the same statements: a list of rows, whose
  queries compare columns for equality (the widths of the columns of MySQL are left out). The locale \<^verbatim>\<open>wpfs_store\<close> is what its client relies on.
  The second part is the client, \<^verbatim>\<open>GenFileSetForAllPodsInCluster\<close> of
  \<^verbatim>\<open>systempolicy/systemPolicy.go\<close>.
\<close>

section \<open>The table\<close>

text \<open>\<^verbatim>\<open>strings.Split\<close> with a separator of two bytes.\<close>

fun Split2 :: "char \<Rightarrow> char \<Rightarrow> string \<Rightarrow> string list" where
  "Split2 a b [] = [[]]"
| "Split2 a b [c] = [[c]]"
| "Split2 a b (c # d # s) =
     (if c = a \<and> d = b then [] # Split2 a b s
      else case Split2 a b (d # s) of [] \<Rightarrow> [[c]] | w # ws \<Rightarrow> (c # w) # ws)"

definition RecordSeparator :: string where
  "RecordSeparator = ''^^''"

definition split_record :: "string \<Rightarrow> string list" where
  "split_record s = Split2 (CHR ''^'') (CHR ''^'') s"

record wpfs_row =
  row_policyName :: string
  row_key :: WorkloadProcessFileSet
  row_fileset :: string
  row_createdtime :: int
  row_updatedtime :: int

text \<open>The \<^verbatim>\<open>WHERE\<close> clause: the columns for which the pattern has a text.\<close>

definition where_match :: "WorkloadProcessFileSet \<Rightarrow> wpfs_row \<Rightarrow> bool" where
  "where_match w r \<longleftrightarrow>
     (wpfs_ClusterName w \<noteq> [] \<longrightarrow> wpfs_ClusterName (row_key r) = wpfs_ClusterName w) \<and>
     (wpfs_Namespace w \<noteq> [] \<longrightarrow> wpfs_Namespace (row_key r) = wpfs_Namespace w) \<and>
     (wpfs_ContainerName w \<noteq> [] \<longrightarrow> wpfs_ContainerName (row_key r) = wpfs_ContainerName w) \<and>
     (wpfs_Labels w \<noteq> [] \<longrightarrow> wpfs_Labels (row_key r) = wpfs_Labels w) \<and>
     (wpfs_FromSource w \<noteq> [] \<longrightarrow> wpfs_FromSource (row_key r) = wpfs_FromSource w) \<and>
     (wpfs_SetType w \<noteq> [] \<longrightarrow> wpfs_SetType (row_key r) = wpfs_SetType w)"

text \<open>The rows of a query as the two maps that are returned.\<close>

definition scan_sets :: "wpfs_row list \<Rightarrow> ResourceSetMap \<times> PolicyNameMap" where
  "scan_sets rows = fold (\<lambda>r (res, pnMap).
     (AList.update (row_key r) (split_record (row_fileset r)) res,
      AList.update (row_key r) (row_policyName r) pnMap)) rows ([], [])"

definition GetWorkloadProcessFileSetMySQL :: "wpfs_row list \<Rightarrow> WorkloadProcessFileSet \<Rightarrow> ResourceSetMap \<times> PolicyNameMap" where
  "GetWorkloadProcessFileSetMySQL db w = scan_sets (filter (where_match w) db)"

definition GetWorkloadProcessFileSetSQLite :: "wpfs_row list \<Rightarrow> WorkloadProcessFileSet \<Rightarrow> ResourceSetMap \<times> PolicyNameMap" where
  "GetWorkloadProcessFileSetSQLite db w = scan_sets (filter (where_match w) db)"

definition GetWorkloadProcessFileSet ::
  "string \<Rightarrow> wpfs_row list \<Rightarrow> WorkloadProcessFileSet \<Rightarrow> string + ResourceSetMap \<times> PolicyNameMap" where
  "GetWorkloadProcessFileSet driver db w =
     (if driver = ''mysql'' then Inr (GetWorkloadProcessFileSetMySQL db w)
      else if driver = ''sqlite3'' then Inr (GetWorkloadProcessFileSetSQLite db w)
      else Inl ''no db driver'')"

lemma GetWorkloadProcessFileSet_eq:
  "GetWorkloadProcessFileSet driver db w =
     (if driver = ''mysql'' \<or> driver = ''sqlite3'' then Inr (scan_sets (filter (where_match w) db)) else Inl ''no db driver'')"
  by (simp add: GetWorkloadProcessFileSet_def GetWorkloadProcessFileSetMySQL_def GetWorkloadProcessFileSetSQLite_def)

text \<open>The random part of the policy name and the time are parameters.\<close>

definition new_set_row :: "string \<Rightarrow> int \<Rightarrow> WorkloadProcessFileSet \<Rightarrow> string list \<Rightarrow> wpfs_row" where
  "new_set_row rand now w fs = \<lparr>row_policyName = ''autopol-'' @ ToLower (wpfs_SetType w) @ ''-'' @ rand, row_key = w,
     row_fileset = Join fs RecordSeparator, row_createdtime = now, row_updatedtime = now\<rparr>"

definition InsertWorkloadProcessFileSetMySQL ::
  "string \<Rightarrow> int \<Rightarrow> wpfs_row list \<Rightarrow> WorkloadProcessFileSet \<Rightarrow> string list \<Rightarrow> wpfs_row list" where
  "InsertWorkloadProcessFileSetMySQL rand now db w fs = db @ [new_set_row rand now w fs]"

definition InsertWorkloadProcessFileSetSQLite ::
  "string \<Rightarrow> int \<Rightarrow> wpfs_row list \<Rightarrow> WorkloadProcessFileSet \<Rightarrow> string list \<Rightarrow> wpfs_row list" where
  "InsertWorkloadProcessFileSetSQLite rand now db w fs = db @ [new_set_row rand now w fs]"

definition InsertWorkloadProcessFileSet ::
  "string \<Rightarrow> string \<Rightarrow> int \<Rightarrow> wpfs_row list \<Rightarrow> WorkloadProcessFileSet \<Rightarrow> string list \<Rightarrow> string + wpfs_row list" where
  "InsertWorkloadProcessFileSet driver rand now db w fs =
     (if driver = ''mysql'' then Inr (InsertWorkloadProcessFileSetMySQL rand now db w fs)
      else if driver = ''sqlite3'' then Inr (InsertWorkloadProcessFileSetSQLite rand now db w fs)
      else Inl ''no db driver'')"

definition UpdateWorkloadProcessFileSet ::
  "int \<Rightarrow> wpfs_row list \<Rightarrow> WorkloadProcessFileSet \<Rightarrow> string list \<Rightarrow> wpfs_row list" where
  "UpdateWorkloadProcessFileSet now db w fs =
     map (\<lambda>r. if wpfs_ClusterName (row_key r) = wpfs_ClusterName w \<and>
                 wpfs_ContainerName (row_key r) = wpfs_ContainerName w \<and>
                 wpfs_Namespace (row_key r) = wpfs_Namespace w \<and> wpfs_Labels (row_key r) = wpfs_Labels w \<and>
                 wpfs_FromSource (row_key r) = wpfs_FromSource w \<and> wpfs_SetType (row_key r) = wpfs_SetType w
              then r\<lparr>row_fileset := Join fs RecordSeparator, row_updatedtime := now\<rparr> else r) db"

text \<open>Both drivers execute the same statement.\<close>

definition UpdateWorkloadProcessFileSetMySQL ::
  "int \<Rightarrow> wpfs_row list \<Rightarrow> WorkloadProcessFileSet \<Rightarrow> string list \<Rightarrow> wpfs_row list" where
  "UpdateWorkloadProcessFileSetMySQL now db w fs = UpdateWorkloadProcessFileSet now db w fs"

definition UpdateWorkloadProcessFileSetSQLite ::
  "int \<Rightarrow> wpfs_row list \<Rightarrow> WorkloadProcessFileSet \<Rightarrow> string list \<Rightarrow> wpfs_row list" where
  "UpdateWorkloadProcessFileSetSQLite now db w fs = UpdateWorkloadProcessFileSet now db w fs"

text \<open>The set type of the pattern is not part of this \<^verbatim>\<open>WHERE\<close> clause.\<close>

definition cleared_row :: "int \<Rightarrow> WorkloadProcessFileSet \<Rightarrow> int \<Rightarrow> wpfs_row \<Rightarrow> bool" where
  "cleared_row now w duration r \<longleftrightarrow> where_match (w\<lparr>wpfs_SetType := []\<rparr>) r \<and>
     (duration \<noteq> 0 \<longrightarrow> now - duration \<le> row_createdtime r \<and> row_createdtime r \<le> now)"

definition ClearWPFSDbMySQL :: "int \<Rightarrow> wpfs_row list \<Rightarrow> WorkloadProcessFileSet \<Rightarrow> int \<Rightarrow> wpfs_row list" where
  "ClearWPFSDbMySQL now db w duration = filter (\<lambda>r. \<not> cleared_row now w duration r) db"

definition ClearWPFSDbSQLite :: "int \<Rightarrow> wpfs_row list \<Rightarrow> WorkloadProcessFileSet \<Rightarrow> int \<Rightarrow> wpfs_row list" where
  "ClearWPFSDbSQLite now db w duration = filter (\<lambda>r. \<not> cleared_row now w duration r) db"

definition ClearWPFSDb ::
  "string \<Rightarrow> int \<Rightarrow> wpfs_row list \<Rightarrow> WorkloadProcessFileSet \<Rightarrow> int \<Rightarrow> string + wpfs_row list" where
  "ClearWPFSDb driver now db w duration =
     (if driver = ''mysql'' then Inr (ClearWPFSDbMySQL now db w duration)
      else if driver = ''sqlite3'' then Inr (ClearWPFSDbSQLite now db w duration)
      else Inl ''no db driver'')"

section \<open>The contract of the store\<close>

text \<open>
  What the client relies on: the operations return, a set that was inserted or updated is read back,
  and no other set changes. The file sets that can be stored are described by \<^verbatim>\<open>storable\<close>;
  \<^verbatim>\<open>inv\<close> is the invariant of the store, and \<^verbatim>\<open>lookup s w = []\<close> says that \<^verbatim>\<open>w\<close>
  has no set.
\<close>

locale wpfs_store =
  fixes lookup :: "'s \<Rightarrow> WorkloadProcessFileSet \<Rightarrow> string list"
    and ins :: "'s \<Rightarrow> WorkloadProcessFileSet \<Rightarrow> string list \<Rightarrow> 's"
    and upd :: "'s \<Rightarrow> WorkloadProcessFileSet \<Rightarrow> string list \<Rightarrow> 's"
    and inv :: "'s \<Rightarrow> bool"
    and storable :: "string list \<Rightarrow> bool"
  assumes inv_ins: "inv s \<Longrightarrow> lookup s w = [] \<Longrightarrow> inv (ins s w fs)"
    and inv_upd: "inv s \<Longrightarrow> inv (upd s w fs)"
    and lookup_ins: "inv s \<Longrightarrow> lookup s w = [] \<Longrightarrow> storable fs \<Longrightarrow>
      lookup (ins s w fs) w' = (if w' = w then fs else lookup s w')"
    and lookup_upd: "inv s \<Longrightarrow> lookup s w \<noteq> [] \<Longrightarrow> storable fs \<Longrightarrow>
      lookup (upd s w fs) w' = (if w' = w then fs else lookup s w')"
    and lookup_ins_other: "inv s \<Longrightarrow> lookup s w = [] \<Longrightarrow> w' \<noteq> w \<Longrightarrow> lookup (ins s w fs) w' = lookup s w'"
    and lookup_upd_other: "inv s \<Longrightarrow> w' \<noteq> w \<Longrightarrow> lookup (upd s w fs) w' = lookup s w'"
begin

text \<open>One round of the client: a new set is inserted, a changed one is updated.\<close>

definition save :: "'s \<Rightarrow> WorkloadProcessFileSet \<Rightarrow> string list \<Rightarrow> 's \<times> bool" where
  "save s w fs =
     (if lookup s w = [] then (ins s w fs, True)
      else if fs \<noteq> lookup s w then (upd s w fs, True) else (s, False))"

lemma save_inv: "inv s \<Longrightarrow> inv (fst (save s w fs))"
  by (simp add: save_def inv_ins inv_upd)

lemma save_lookup:
  "inv s \<Longrightarrow> storable fs \<Longrightarrow> lookup (fst (save s w fs)) w' = (if w' = w then fs else lookup s w')"
  by (simp add: save_def lookup_ins lookup_upd)

lemma save_unchanged: "\<not> snd (save s w fs) \<Longrightarrow> fst (save s w fs) = s"
  by (auto simp: save_def split: if_splits)

text \<open>A loop that merges a list of new files for each key into the store.\<close>

definition save_all ::
  "(string list \<Rightarrow> string list) \<Rightarrow> (WorkloadProcessFileSet \<times> string list) list \<Rightarrow> 's \<Rightarrow> 's \<times> bool" where
  "save_all merge news s =
     fold (\<lambda>(w, fs) (s, b). let (s', b') = save s w (merge (fs @ lookup s w)) in (s', b \<or> b')) news (s, False)"

lemma save_all_step:
  "fold (\<lambda>(w, fs) (s, b). let (s', b') = save s w (merge (fs @ lookup s w)) in (s', b \<or> b')) news (s, b) =
     (fst (save_all merge news s), b \<or> snd (save_all merge news s))"
proof (induction news arbitrary: s b)
  case (Cons n news)
  obtain w fs where n: "n = (w, fs)" by fastforce
  obtain s' b' where s': "save s w (merge (fs @ lookup s w)) = (s', b')" by fastforce
  then show ?case using Cons.IH [of s' "b \<or> b'"] Cons.IH [of s' b'] n
    by (simp add: save_all_def)
qed (simp add: save_all_def)

lemma save_all_Cons:
  "save_all merge ((w, fs) # news) s =
     (let (s', b') = save s w (merge (fs @ lookup s w))
      in (fst (save_all merge news s'), b' \<or> snd (save_all merge news s')))"
  using save_all_step [of merge news "fst (save s w (merge (fs @ lookup s w)))" "snd (save s w (merge (fs @ lookup s w)))"]
  by (simp add: save_all_def Let_def case_prod_unfold)

lemma save_all_Nil: "save_all merge [] s = (s, False)"
  by (simp add: save_all_def)

lemma save_all_inv: "inv s \<Longrightarrow> inv (fst (save_all merge news s))"
proof (induction news arbitrary: s)
  case (Cons n news)
  then show ?case
    by (cases n) (simp add: save_all_Cons Let_def case_prod_unfold save_inv)
qed (simp add: save_all_Nil)

lemma save_all_lookup:
  assumes "inv s" and "distinct (map fst news)"
    and "\<And>w fs. (w, fs) \<in> set news \<Longrightarrow> storable (merge (fs @ lookup s w))"
  shows "lookup (fst (save_all merge news s)) w =
    (case map_of news w of None \<Rightarrow> lookup s w | Some fs \<Rightarrow> merge (fs @ lookup s w))"
  using assms
proof (induction news arbitrary: s)
  case (Cons n news)
  obtain v fs where n: "n = (v, fs)" by fastforce
  let ?fs = "merge (fs @ lookup s v)" and ?s = "fst (save s v (merge (fs @ lookup s v)))"
  have st: "storable ?fs" using Cons.prems(3) n by simp
  have look: "lookup ?s w' = (if w' = v then ?fs else lookup s w')" for w'
    using Cons.prems(1) st by (rule save_lookup)
  have v: "v \<notin> fst ` set news" using Cons.prems(2) n by simp
  have "lookup (fst (save_all merge news ?s)) w =
      (case map_of news w of None \<Rightarrow> lookup ?s w | Some fs \<Rightarrow> merge (fs @ lookup ?s w))"
  proof (rule Cons.IH)
    show "inv ?s" using Cons.prems(1) by (rule save_inv)
    show "distinct (map fst news)" using Cons.prems(2) by simp
    show "storable (merge (gs @ lookup ?s u))" if "(u, gs) \<in> set news" for u gs
      using Cons.prems(3) [of u gs] that look [of u] v by (auto simp: n image_iff)
  qed
  moreover have "map_of news v = None" using v by (simp add: map_of_eq_None_iff)
  ultimately show ?case
    using look n by (auto simp: save_all_Cons Let_def case_prod_unfold split: option.splits)
qed (simp add: save_all_Nil)

text \<open>A set that is not among the new ones is left alone, whatever is stored for the others.\<close>

lemma save_other: "inv s \<Longrightarrow> w' \<noteq> w \<Longrightarrow> lookup (fst (save s w fs)) w' = lookup s w'"
  by (simp add: save_def lookup_ins_other lookup_upd_other)

lemma save_all_other:
  "inv s \<Longrightarrow> w \<notin> fst ` set news \<Longrightarrow> lookup (fst (save_all merge news s)) w = lookup s w"
proof (induction news arbitrary: s)
  case (Cons n news)
  then show ?case
    by (cases n) (simp add: save_all_Cons Let_def case_prod_unfold save_inv save_other)
qed (simp add: save_all_Nil)

lemma save_all_unchanged: "\<not> snd (save_all merge news s) \<Longrightarrow> fst (save_all merge news s) = s"
proof (induction news arbitrary: s)
  case (Cons n news)
  then show ?case
    by (cases n) (auto simp: save_all_Cons Let_def case_prod_unfold dest: save_unchanged)
qed (simp add: save_all_Nil)

end

section \<open>The table keeps the contract\<close>

definition db_ok :: "wpfs_row list \<Rightarrow> bool" where
  "db_ok db \<longleftrightarrow> distinct (map row_key db)"

definition fs_ok :: "string list \<Rightarrow> bool" where
  "fs_ok fs \<longleftrightarrow> fs \<noteq> [] \<and> (\<forall>f \<in> set fs. CHR ''^'' \<notin> set f)"

definition driver_ok :: "string \<Rightarrow> bool" where
  "driver_ok driver \<longleftrightarrow> driver = ''mysql'' \<or> driver = ''sqlite3''"

text \<open>\<^verbatim>\<open>out[wpfs]\<close> of the result of the query for \<^verbatim>\<open>wpfs\<close>.\<close>

definition db_lookup :: "string \<Rightarrow> wpfs_row list \<Rightarrow> WorkloadProcessFileSet \<Rightarrow> string list" where
  "db_lookup driver db w =
     (case GetWorkloadProcessFileSet driver db w of Inl _ \<Rightarrow> [] | Inr (out, _) \<Rightarrow> entries out w)"

lemma Split2_not_Nil [simp]: "Split2 a b s \<noteq> []"
  by (induction a b s rule: Split2.induct) (auto split: list.splits)

lemma split_record_not_Nil [simp]: "split_record s \<noteq> []" "[] \<noteq> split_record s"
  by (simp_all add: split_record_def) (metis Split2_not_Nil)

lemma Split2_no_sep: "a \<notin> set s \<Longrightarrow> Split2 a b s = [s]"
  by (induction a b s rule: Split2.induct) auto

lemma Split2_append: "a \<notin> set w \<Longrightarrow> Split2 a b (w @ a # b # s) = w # Split2 a b s"
proof (induction w)
  case (Cons c w)
  then show ?case by (cases w) auto
qed simp

lemma split_record_Join:
  assumes "fs_ok fs"
  shows "split_record (Join fs RecordSeparator) = fs"
proof -
  have "Split2 (CHR ''^'') (CHR ''^'') (Join fs ''^^'') = fs"
    if "fs \<noteq> []" "\<forall>f \<in> set fs. CHR ''^'' \<notin> set f"
    using that
  proof (induction fs "''^^''" rule: Join.induct)
    case (3 w v vs)
    then show ?case using Split2_append [of "CHR ''^''" w "CHR ''^''"] by simp
  qed (auto simp: Split2_no_sep)
  then show ?thesis using assms by (simp add: fs_ok_def split_record_def RecordSeparator_def)
qed

lemma where_match_self: "where_match w r \<longleftrightarrow> True" if "row_key r = w"
  using that by (simp add: where_match_def)

lemma db_lookup_row:
  assumes "driver_ok driver" and "db_ok db"
  shows "db_lookup driver db w =
    (case map_of (map (\<lambda>r. (row_key r, split_record (row_fileset r))) db) w of None \<Rightarrow> [] | Some fs \<Rightarrow> fs)"
proof -
  let ?v = "\<lambda>r. split_record (row_fileset r)"
  have fst: "fst (fold (\<lambda>r (res, pn). (AList.update (row_key r) (?v r) res, AList.update (row_key r) (row_policyName r) pn)) rs (a, c)) =
      fold (\<lambda>r. AList.update (row_key r) (?v r)) rs a" for rs a c
    by (induction rs arbitrary: a c) auto
  have look: "entries (fold (\<lambda>r. AList.update (row_key r) (?v r)) (filter (where_match w) rs) a) w =
      (case map_of (map (\<lambda>r. (row_key r, ?v r)) rs) w of None \<Rightarrow> entries a w | Some fs \<Rightarrow> fs)"
    if "distinct (map row_key rs)" for rs a
    using that
  proof (induction rs arbitrary: a)
    case (Cons r rs)
    show ?case
    proof (cases "row_key r = w")
      case True
      then have "map_of (map (\<lambda>r. (row_key r, ?v r)) rs) w = None"
        using Cons.prems by (auto simp: map_of_eq_None_iff)
      then show ?thesis using Cons True where_match_self [OF True] by (simp add: entries_update)
    next
      case False
      then show ?thesis using Cons by (auto simp: entries_update split: option.splits)
    qed
  qed simp
  show ?thesis
    using assms fst [of "filter (where_match w) db" "[]" "[]"] look [of db "[]", unfolded entries_Nil]
    by (auto simp: db_lookup_def GetWorkloadProcessFileSet_eq scan_sets_def driver_ok_def db_ok_def split: prod.splits)
qed

lemma db_lookup_none:
  "driver_ok driver \<Longrightarrow> db_ok db \<Longrightarrow> db_lookup driver db w = [] \<longleftrightarrow> w \<notin> row_key ` set db"
  by (auto simp: db_lookup_row split: option.splits dest!: map_of_SomeD) (auto simp: map_of_eq_None_iff image_iff)

definition insert_row :: "string \<Rightarrow> string \<Rightarrow> int \<Rightarrow> wpfs_row list \<Rightarrow> WorkloadProcessFileSet \<Rightarrow> string list \<Rightarrow> wpfs_row list" where
  "insert_row driver rand now db w fs =
     (case InsertWorkloadProcessFileSet driver rand now db w fs of Inl _ \<Rightarrow> db | Inr db' \<Rightarrow> db')"

lemma insert_row_eq:
  "driver = ''mysql'' \<or> driver = ''sqlite3'' \<Longrightarrow>
   insert_row driver rand now db w fs = db @ [\<lparr>row_policyName = ''autopol-'' @ ToLower (wpfs_SetType w) @ ''-'' @ rand,
      row_key = w, row_fileset = Join fs RecordSeparator, row_createdtime = now, row_updatedtime = now\<rparr>]"
  by (auto simp: insert_row_def InsertWorkloadProcessFileSet_def InsertWorkloadProcessFileSetMySQL_def
      InsertWorkloadProcessFileSetSQLite_def new_set_row_def)

lemma update_row:
  "UpdateWorkloadProcessFileSet now db w fs =
     map (\<lambda>r. if row_key r = w then r\<lparr>row_fileset := Join fs RecordSeparator, row_updatedtime := now\<rparr> else r) db"
  unfolding UpdateWorkloadProcessFileSet_def
  by (intro map_cong) (auto simp: WorkloadProcessFileSet.equality)

lemma update_keys: "map row_key (UpdateWorkloadProcessFileSet now db w fs) = map row_key db"
  by (simp add: update_row comp_def if_distrib cong: if_cong)

lemma wpfs_table:
  assumes d: "driver_ok driver"
  shows "wpfs_store (db_lookup driver) (insert_row driver rand now) (UpdateWorkloadProcessFileSet now) db_ok fs_ok"
proof
  fix db w fs w'
  let ?row = "\<lambda>r. (row_key r, split_record (row_fileset r))"
  have ins: "insert_row driver rand now db w fs = db @ [\<lparr>row_policyName = ''autopol-'' @ ToLower (wpfs_SetType w) @ ''-'' @ rand,
      row_key = w, row_fileset = Join fs RecordSeparator, row_createdtime = now, row_updatedtime = now\<rparr>]"
    using d unfolding driver_ok_def by (rule insert_row_eq)
  assume ok: "db_ok db"
  show upd_ok: "db_ok (UpdateWorkloadProcessFileSet now db w fs)"
    using ok by (simp add: db_ok_def update_keys)
  show "db_lookup driver (UpdateWorkloadProcessFileSet now db w fs) w' = db_lookup driver db w'" if "w' \<noteq> w"
  proof -
    have "map_of (map ?row (UpdateWorkloadProcessFileSet now rs w fs)) w' = map_of (map ?row rs) w'" for rs
      using that by (induction rs) (auto simp: update_row)
    then show ?thesis by (simp add: db_lookup_row [OF d upd_ok] db_lookup_row [OF d ok])
  qed
  {
    assume none: "db_lookup driver db w = []"
    then have new: "w \<notin> row_key ` set db" using db_lookup_none d ok by blast
    show ins_ok: "db_ok (insert_row driver rand now db w fs)"
      using ok new by (auto simp: db_ok_def ins)
    show "db_lookup driver (insert_row driver rand now db w fs) w' = db_lookup driver db w'" if "w' \<noteq> w"
      unfolding db_lookup_row [OF d ins_ok] db_lookup_row [OF d ok] unfolding ins
      using that by (simp add: map_add_def split: option.splits)
    assume "fs_ok fs"
    then have split: "split_record (Join fs RecordSeparator) = fs" by (rule split_record_Join)
    have "map_of (map ?row db) w = None" using new by (auto simp: map_of_eq_None_iff image_iff)
    then show "db_lookup driver (insert_row driver rand now db w fs) w' =
        (if w' = w then fs else db_lookup driver db w')"
      unfolding db_lookup_row [OF d ins_ok] db_lookup_row [OF d ok] unfolding ins
      using split by (auto simp: map_add_def split: option.splits)
  next
    assume some: "db_lookup driver db w \<noteq> []" and "fs_ok fs"
    then have split: "split_record (Join fs RecordSeparator) = fs" by (intro split_record_Join)
    have mem: "w \<in> row_key ` set db" using some db_lookup_none d ok by blast
    have "map_of (map ?row (UpdateWorkloadProcessFileSet now rs w fs)) w' =
        (if w' = w \<and> w \<in> row_key ` set rs then Some fs else map_of (map ?row rs) w')" for rs
      by (induction rs) (auto simp: update_row split)
    then show "db_lookup driver (UpdateWorkloadProcessFileSet now db w fs) w' =
        (if w' = w then fs else db_lookup driver db w')"
      using mem by (simp add: db_lookup_row [OF d upd_ok] db_lookup_row [OF d ok])
  }
qed

interpretation mysql: wpfs_store "db_lookup ''mysql''" "insert_row ''mysql'' rand now"
    "UpdateWorkloadProcessFileSet now" db_ok fs_ok for rand now
  by (rule wpfs_table) (simp add: driver_ok_def)

interpretation sqlite: wpfs_store "db_lookup ''sqlite3''" "insert_row ''sqlite3'' rand now"
    "UpdateWorkloadProcessFileSet now" db_ok fs_ok for rand now
  by (rule wpfs_table) (simp add: driver_ok_def)

section \<open>Cleaning resources\<close>

text \<open>
  The regular expressions of \<^verbatim>\<open>getProtocolType\<close>, as matchers with the rest of the expression
  as a continuation: a literal, \<^verbatim>\<open>.*\<close> (no newline), and a search from any position.
\<close>

definition re_lit :: "string \<Rightarrow> (string \<Rightarrow> bool) \<Rightarrow> string \<Rightarrow> bool" where
  "re_lit l k s \<longleftrightarrow> HasPrefix s l \<and> k (drop (length l) s)"

fun re_dots :: "(string \<Rightarrow> bool) \<Rightarrow> string \<Rightarrow> bool" where
  "re_dots k [] = k []"
| "re_dots k (c # s) = (k (c # s) \<or> c \<noteq> CHR 0x0A \<and> re_dots k s)"

fun re_search :: "(string \<Rightarrow> bool) \<Rightarrow> string \<Rightarrow> bool" where
  "re_search k [] = k []"
| "re_search k (c # s) = (k (c # s) \<or> re_search k s)"

text \<open>\<^verbatim>\<open>\b\<close> after a digit: the end of the text or no word character.\<close>

definition word_char :: "char \<Rightarrow> bool" where
  "word_char c \<longleftrightarrow> CHR ''0'' \<le> c \<and> c \<le> CHR ''9'' \<or> CHR ''A'' \<le> c \<and> c \<le> CHR ''Z'' \<or>
     CHR ''a'' \<le> c \<and> c \<le> CHR ''z'' \<or> c = CHR ''_''"

definition re_boundary :: "string \<Rightarrow> bool" where
  "re_boundary s \<longleftrightarrow> (case s of [] \<Rightarrow> True | c # _ \<Rightarrow> \<not> word_char c)"

definition retcp :: "string \<Rightarrow> bool" where
  "retcp = re_search (re_lit ''domain='' (re_dots (re_lit ''type=SOCK_STREAM'' (\<lambda>_. True))))"

definition reudp :: "string \<Rightarrow> bool" where
  "reudp = re_search (re_lit ''domain='' (re_dots (re_lit ''type=SOCK_DGRAM'' (\<lambda>_. True))))"

definition reraw :: "string \<Rightarrow> bool" where
  "reraw = re_search (re_lit ''domain='' (re_dots (re_lit ''type=SOCK_RAW'' (\<lambda>_. True))))"

definition reicmp :: "string \<Rightarrow> bool" where
  "reicmp = re_search (re_lit ''domain='' (re_dots (re_lit ''protocol=''
     (\<lambda>s. re_lit ''58'' re_boundary s \<or> re_lit ''1'' re_boundary s))))"

definition getProtocolType :: "string \<Rightarrow> string" where
  "getProtocolType str =
     (if reicmp str then ''icmp'' else if retcp str then ''tcp''
      else if reudp str then ''udp'' else if reraw str then ''raw'' else [])"

definition cleanResource :: "string \<Rightarrow> string \<Rightarrow> string list" where
  "cleanResource op str =
     (if op = SYS_OP_NETWORK then
        (let prot = getProtocolType str in if prot \<noteq> [] then Split prot (CHR '','') else [])
      else if HasPrefix str ''/proc'' then [''/proc/'']
      else if HasPrefix str ''/sys'' then [''/sys/'']
      else [str])"

fun skip_equal :: "string \<Rightarrow> string list \<Rightarrow> string list" where
  "skip_equal prev [] = []"
| "skip_equal prev (v # arr) = (if prev = v then skip_equal prev arr else v # skip_equal v arr)"

definition removeDuplicates :: "string list \<Rightarrow> string list" where
  "removeDuplicates arr = skip_equal [] (sort arr)"

text \<open>The map of \<^verbatim>\<open>mergeStringSlices\<close> is its keys, once each.\<close>

definition mergeStringSlices :: "string list \<Rightarrow> string list \<Rightarrow> string list" where
  "mergeStringSlices a b = sort (append_missing [] (a @ b))"

definition GetPodLabels :: "string \<Rightarrow> string \<Rightarrow> string \<Rightarrow> Pod list \<Rightarrow> string + string list" where
  "GetPodLabels cn pn ns pods =
     (case List.find (\<lambda>pod. pod_Namespace pod = ns \<and> pod_PodName pod = pn) pods of
        Some pod \<Rightarrow> Inr (pod_Labels pod) | None \<Rightarrow> Inl ''pod not found'')"

section \<open>Generating the file sets\<close>

text \<open>The loop over the merged files: what lies under a directory of the list is removed.\<close>

fun prune_dirs :: "string list \<Rightarrow> string list" where
  "prune_dirs [] = []"
| "prune_dirs (x # xs) =
     x # prune_dirs (if HasSuffix x ''/''
       then filter (\<lambda>y. \<not> (length x < length y \<and> HasPrefix y x)) xs else xs)"

definition log_wpfs :: "string \<Rightarrow> string list \<Rightarrow> KnoxSystemLog \<Rightarrow> WorkloadProcessFileSet" where
  "log_wpfs settype labels slog =
     \<lparr>wpfs_ClusterName = sl_ClusterName slog, wpfs_ContainerName = sl_ContainerName slog,
      wpfs_Namespace = sl_Namespace slog, wpfs_Labels = Join labels '','', wpfs_FromSource = sl_Source slog,
      wpfs_SetType = settype\<rparr>"

definition log_labels :: "KnoxSystemLog \<Rightarrow> string list \<Rightarrow> string list" where
  "log_labels slog labels =
     (if sl_Namespace slog = PolicyDiscoveryContainerNamespace
      then labels @ [''kubearmor.io/container.name='' @ sl_ContainerName slog] else labels)"

text \<open>What a log adds to the sets: nothing if its pod is unknown or it has no resource.\<close>

definition log_entry ::
  "Pod list \<Rightarrow> string \<Rightarrow> KnoxSystemLog \<Rightarrow> (WorkloadProcessFileSet \<times> string list) option" where
  "log_entry pods settype slog =
     (case GetPodLabels (sl_ClusterName slog) (sl_PodName slog) (sl_Namespace slog) pods of
        Inl _ \<Rightarrow> None
      | Inr labels \<Rightarrow>
          (let resource = (if settype = SYS_OP_NETWORK then cleanResource settype (sl_ResourceOrigin slog)
                           else cleanResource settype (sl_Resource slog))
           in if length resource = 0 then None
              else Some (log_wpfs settype (log_labels slog labels) slog, resource)))"

definition collect_sets :: "Pod list \<Rightarrow> string \<Rightarrow> KnoxSystemLog list \<Rightarrow> ResourceSetMap" where
  "collect_sets pods settype slogs =
     fold (\<lambda>slog res. case log_entry pods settype slog of
        None \<Rightarrow> res | Some (w, resource) \<Rightarrow> append_at w resource res) slogs []"

record fs_iteration = iteration +
  it_dirs :: "string list \<Rightarrow> string list"
  it_sets :: "ResourceSetMap \<Rightarrow> ResourceSetMap"

definition merge_files :: "fs_iteration \<Rightarrow> bool \<Rightarrow> string list \<Rightarrow> string list" where
  "merge_files it isNetworkOp fs =
     (let mergedfs = removeDuplicates fs;
          mergedfs = (if \<not> isNetworkOp
            then AggregatePathsExt (it_tree it) (it_paths it) (it_dirs it) mergedfs else mergedfs)
      in prune_dirs (sort_key length mergedfs))"

definition save_set ::
  "fs_iteration \<Rightarrow> string \<Rightarrow> string \<Rightarrow> int \<Rightarrow> bool \<Rightarrow> WorkloadProcessFileSet \<times> string list \<Rightarrow>
   wpfs_row list \<times> bool \<Rightarrow> wpfs_row list \<times> bool" where
  "save_set it driver rand now isNetworkOp wfs st =
     (let (w, fs) = wfs; (db, status) = st in
      case GetWorkloadProcessFileSet driver db w of
        Inl _ \<Rightarrow> (db, status)
      | Inr (out, _) \<Rightarrow>
          (let dbEntry = (length (entries out w) \<noteq> 0);
               mergedfs = merge_files it isNetworkOp (fs @ entries out w)
           in if \<not> dbEntry then (insert_row driver rand now db w mergedfs, True)
              else if mergedfs \<noteq> entries out w then
                (if driver = ''mysql'' then (UpdateWorkloadProcessFileSetMySQL now db w mergedfs, True)
                 else if driver = ''sqlite3'' then (UpdateWorkloadProcessFileSetSQLite now db w mergedfs, True)
                 else (db, status))
              else (db, status)))"

definition GenFileSetForAllPodsInCluster ::
  "fs_iteration \<Rightarrow> string \<Rightarrow> string \<Rightarrow> int \<Rightarrow> wpfs_row list \<Rightarrow> Pod list \<Rightarrow> string \<Rightarrow> KnoxSystemLog list \<Rightarrow>
   wpfs_row list \<times> bool" where
  "GenFileSetForAllPodsInCluster it driver rand now db pods settype slogs =
     fold (save_set it driver rand now (settype = SYS_OP_NETWORK))
       (it_sets it (collect_sets pods settype slogs)) (db, False)"

section \<open>Facts on the lists\<close>

lemma skip_equal_spec:
  assumes "sorted arr" and "\<forall>x \<in> set arr. prev \<le> x"
  shows "set (skip_equal prev arr) = set arr - {prev} \<and> sorted (skip_equal prev arr) \<and>
    distinct (skip_equal prev arr)"
  using assms
proof (induction prev arr rule: skip_equal.induct)
  case (2 prev v arr)
  show ?case
  proof (cases "prev = v")
    case True
    then show ?thesis using 2 by auto
  next
    case False
    then have "prev < v" using 2 by (simp add: order_less_le)
    moreover have "set (skip_equal v arr) = set arr - {v} \<and> sorted (skip_equal v arr) \<and> distinct (skip_equal v arr)"
      using 2 False by simp
    moreover have "\<forall>x \<in> set arr. v \<le> x" using "2.prems"(1) by simp
    ultimately show ?thesis using False by auto
  qed
qed simp

lemma removeDuplicates_spec:
  "set (removeDuplicates arr) = set arr - {[]}" "sorted (removeDuplicates arr)"
  "distinct (removeDuplicates arr)"
proof -
  have "\<forall>x \<in> set (sort arr). [] \<le> x" by simp
  from skip_equal_spec [OF _ this] show
    "set (removeDuplicates arr) = set arr - {[]}" "sorted (removeDuplicates arr)"
    "distinct (removeDuplicates arr)"
    by (simp_all add: removeDuplicates_def)
qed

lemma prune_dirs_subset: "set (prune_dirs xs) \<subseteq> set xs"
proof (induction xs rule: prune_dirs.induct)
  case (2 x xs)
  then show ?case by (auto split: if_splits)
qed simp

text \<open>What is removed lies under a directory that stays.\<close>

lemma prune_dirs_cover:
  "x \<in> set xs \<Longrightarrow> \<exists>y \<in> set (prune_dirs xs). y = x \<or> HasSuffix y ''/'' \<and> HasPrefix x y"
proof (induction xs rule: prune_dirs.induct)
  case (2 z xs)
  let ?xs = "if HasSuffix z ''/'' then filter (\<lambda>y. \<not> (length z < length y \<and> HasPrefix y z)) xs else xs"
  show ?case
  proof (cases "x \<in> set ?xs")
    case True
    then show ?thesis using "2.IH" by auto
  next
    case False
    then have "x = z \<or> HasSuffix z ''/'' \<and> HasPrefix x z" using "2.prems" by (auto split: if_splits)
    then show ?thesis by auto
  qed
qed simp

lemma prune_dirs_antichain:
  assumes "sorted (map length xs)" and "x \<in> set (prune_dirs xs)" and "y \<in> set (prune_dirs xs)"
    and "HasSuffix x ''/''" and "length x < length y"
  shows "\<not> HasPrefix y x"
  using assms
proof (induction xs rule: prune_dirs.induct)
  case (2 z xs)
  let ?xs = "if HasSuffix z ''/'' then filter (\<lambda>y. \<not> (length z < length y \<and> HasPrefix y z)) xs else xs"
  have sub: "set (prune_dirs ?xs) \<subseteq> set ?xs" by (rule prune_dirs_subset)
  have sorted: "sorted (map length ?xs)" using "2.prems"(1) by (simp add: sorted_filter)
  have le: "\<forall>y \<in> set ?xs. length z \<le> length y" using "2.prems"(1) by auto
  consider "x \<in> set (prune_dirs ?xs)" "y \<in> set (prune_dirs ?xs)" | "x = z" | "y = z" "x \<in> set (prune_dirs ?xs)"
    using "2.prems"(2,3) by (auto simp: Let_def)
  then show ?case
  proof cases
    case 1
    then show ?thesis using "2.IH" sorted "2.prems"(4,5) by blast
  next
    case 2
    then have "y \<in> set ?xs" using "2.prems"(3,5) sub by auto
    then show ?thesis using 2 "2.prems"(4,5) by auto
  next
    case 3
    then show ?thesis using le sub "2.prems"(5) by fastforce
  qed
qed simp

lemma prune_dirs_id:
  "list_all (\<lambda>x. \<not> HasSuffix x ''/'') xs \<Longrightarrow> prune_dirs xs = xs"
  by (induction xs rule: prune_dirs.induct) auto

section \<open>The loop is the client of the store\<close>

lemma GenFileSet_save_all:
  assumes d: "driver_ok driver"
  shows "GenFileSetForAllPodsInCluster it driver rand now db pods settype slogs =
    wpfs_store.save_all (db_lookup driver) (insert_row driver rand now) (UpdateWorkloadProcessFileSet now)
      (merge_files it (settype = SYS_OP_NETWORK)) (it_sets it (collect_sets pods settype slogs)) db"
proof -
  note store = wpfs_table [OF d, of rand now]
  let ?net = "settype = SYS_OP_NETWORK"
  have step: "save_set it driver rand now ?net wfs st =
      (case wfs of (w, fs) \<Rightarrow> \<lambda>(s, b). let (s', b') = wpfs_store.save (db_lookup driver) (insert_row driver rand now)
         (UpdateWorkloadProcessFileSet now) s w (merge_files it ?net (fs @ db_lookup driver s w)) in (s', b \<or> b')) st"
    for wfs st
  proof -
    obtain w fs s b where ws: "wfs = (w, fs)" "st = (s, b)" by (cases wfs, cases st) auto
    have "\<exists>r. GetWorkloadProcessFileSet driver s w = Inr r"
      using d unfolding GetWorkloadProcessFileSet_eq driver_ok_def by simp
    then obtain out pn where get: "GetWorkloadProcessFileSet driver s w = Inr (out, pn)" by auto
    then have look: "db_lookup driver s w = entries out w" by (simp add: db_lookup_def)
    have upd: "(if driver = ''mysql'' then (u, True) else if driver = ''sqlite3'' then (u, True) else v) = (u, True)"
      for u :: "wpfs_row list" and v using d by (auto simp: driver_ok_def)
    show ?thesis
      unfolding ws save_set_def prod.case Let_def get sum.case UpdateWorkloadProcessFileSetMySQL_def
        UpdateWorkloadProcessFileSetSQLite_def upd look wpfs_store.save_def [OF store]
      by (simp split: if_split)
  qed
  show ?thesis
    unfolding GenFileSetForAllPodsInCluster_def wpfs_store.save_all_def [OF store]
    by (rule fold_cong [OF refl refl], rule ext) (simp only: step split: prod.split)
qed

text \<open>The facts of the contract, on the two drivers.\<close>

lemma collect_sets_distinct: "distinct (map fst (collect_sets pods settype slogs))"
proof -
  have "distinct (map fst (fold (\<lambda>slog res. case log_entry pods settype slog of
        None \<Rightarrow> res | Some (w, resource) \<Rightarrow> append_at w resource res) slogs m))"
    if "distinct (map fst m)" for m
    using that by (induction slogs arbitrary: m) (auto split: option.splits simp: append_at_distinct)
  then show ?thesis by (simp add: collect_sets_def)
qed

lemma GenFileSet_lookup:
  assumes "driver_ok driver" and "db_ok db" and "iter_order (it_sets it)"
    and "\<And>w fs. (w, fs) \<in> set (collect_sets pods settype slogs) \<Longrightarrow>
      fs_ok (merge_files it (settype = SYS_OP_NETWORK) (fs @ db_lookup driver db w))"
  shows "db_lookup driver (fst (GenFileSetForAllPodsInCluster it driver rand now db pods settype slogs)) w =
    (case map_of (collect_sets pods settype slogs) w of None \<Rightarrow> db_lookup driver db w
     | Some fs \<Rightarrow> merge_files it (settype = SYS_OP_NETWORK) (fs @ db_lookup driver db w))"
proof -
  let ?m = "collect_sets pods settype slogs"
  have dist: "distinct (map fst ?m)" by (rule collect_sets_distinct)
  have "mset (map fst (it_sets it ?m)) = mset (map fst ?m)" using assms(3) by (rule iter_order_map)
  then have dist': "distinct (map fst (it_sets it ?m))" using dist by (metis mset_eq_imp_distinct_iff)
  have set: "set (it_sets it ?m) = set ?m" using assms(3) by (rule iter_order_set)
  have map: "map_of (it_sets it ?m) = map_of ?m" using dist dist' set by (intro map_of_inject_set [THEN iffD2])
  consider "driver = ''mysql''" | "driver = ''sqlite3''" using assms(1) by (auto simp: driver_ok_def)
  then show ?thesis
  proof cases
    case 1
    then show ?thesis
      using mysql.save_all_lookup [OF assms(2) dist', of "merge_files it (settype = SYS_OP_NETWORK)" rand now w]
        assms(4) set map
      unfolding GenFileSet_save_all [OF assms(1)] unfolding 1 by simp
  next
    case 2
    then show ?thesis
      using sqlite.save_all_lookup [OF assms(2) dist', of "merge_files it (settype = SYS_OP_NETWORK)" rand now w]
        assms(4) set map
      unfolding GenFileSet_save_all [OF assms(1)] unfolding 2 by simp
  qed
qed

lemma GenFileSet_inv:
  assumes "driver_ok driver" and "db_ok db"
  shows "db_ok (fst (GenFileSetForAllPodsInCluster it driver rand now db pods settype slogs))"
proof -
  consider "driver = ''mysql''" | "driver = ''sqlite3''" using assms(1) by (auto simp: driver_ok_def)
  then show ?thesis
    using mysql.save_all_inv [OF assms(2)] sqlite.save_all_inv [OF assms(2)]
    unfolding GenFileSet_save_all [OF assms(1)] by cases simp_all
qed

lemma GenFileSet_unchanged:
  assumes "driver_ok driver"
    and "\<not> snd (GenFileSetForAllPodsInCluster it driver rand now db pods settype slogs)"
  shows "fst (GenFileSetForAllPodsInCluster it driver rand now db pods settype slogs) = db"
proof -
  consider "driver = ''mysql''" | "driver = ''sqlite3''" using assms(1) by (auto simp: driver_ok_def)
  then show ?thesis
    using assms(2) mysql.save_all_unchanged sqlite.save_all_unchanged
    unfolding GenFileSet_save_all [OF assms(1)] by cases simp_all
qed

lemma GenFileSet_other:
  assumes "driver_ok driver" and "db_ok db" and "iter_order (it_sets it)"
    and "w \<notin> fst ` set (collect_sets pods settype slogs)"
  shows "db_lookup driver (fst (GenFileSetForAllPodsInCluster it driver rand now db pods settype slogs)) w =
    db_lookup driver db w"
proof -
  have w: "w \<notin> fst ` set (it_sets it (collect_sets pods settype slogs))" using assms(3,4) by (simp add: iter_order_set)
  consider "driver = ''mysql''" | "driver = ''sqlite3''" using assms(1) by (auto simp: driver_ok_def)
  then show ?thesis
    using mysql.save_all_other [OF assms(2) w] sqlite.save_all_other [OF assms(2) w]
    unfolding GenFileSet_save_all [OF assms(1)] by cases simp_all
qed

text \<open>The collected sets hold what the logs add.\<close>

lemma collect_sets_entries:
  "set (entries (collect_sets pods settype slogs) w) =
     {r. \<exists>slog \<in> set slogs. \<exists>rs. log_entry pods settype slog = Some (w, rs) \<and> r \<in> set rs}"
proof -
  let ?step = "\<lambda>slog res. case log_entry pods settype slog of
      None \<Rightarrow> res | Some (w, resource) \<Rightarrow> append_at w resource res"
  have "set (entries (fold ?step slogs m) w) = set (entries m w) \<union>
      {r. \<exists>slog \<in> set slogs. \<exists>rs. log_entry pods settype slog = Some (w, rs) \<and> r \<in> set rs}" for m
  proof (induction slogs arbitrary: m)
    case (Cons slog slogs)
    show ?case
    proof (cases "log_entry pods settype slog")
      case None
      then show ?thesis using Cons.IH [of m] by auto
    next
      case (Some e)
      then obtain v rs where "log_entry pods settype slog = Some (v, rs)" by (cases e) auto
      then show ?thesis using Cons.IH [of "append_at v rs m"] by (auto simp: entries_append_at)
    qed
  qed simp
  from this [of "[]"] show ?thesis by (simp add: collect_sets_def)
qed

section \<open>What the merged file sets permit\<close>

text \<open>
  A path of the result permits a file or directory if it is it, or if it is a directory with it or
  with its parent directory in it.
\<close>

definition permits_path :: "string \<Rightarrow> string \<Rightarrow> bool" where
  "permits_path q p \<longleftrightarrow>
     q = p \<or> HasSuffix q ''/'' \<and> (HasPrefix (p @ ''/'') q \<or> HasPrefix (Dir p @ ''/'') q)"

text \<open>The lists of paths for which the aggregation permits every path of the list.\<close>

definition paths_ok :: "string list \<Rightarrow> bool" where
  "paths_ok ps \<longleftrightarrow>
     ps \<noteq> [] \<and> no_wild (snd (mergeFileInDir ps)) \<and>
     list_all (\<lambda>p. CHR ''^'' \<notin> set p \<and> (HasSuffix p ''/'' \<or> canonical p)) ps \<and>
     list_all (\<lambda>p. list_all (\<lambda>q. HasSuffix q ''/'' \<or> \<not> strict_prefix (components p) (components q)) ps) ps"

lemma HasPrefix_trans: "HasPrefix s t \<Longrightarrow> HasPrefix t u \<Longrightarrow> HasPrefix s u"
  by (auto simp: HasPrefix_iff)

lemma HasPrefix_refl [simp]: "HasPrefix s s"
  by (simp add: HasPrefix_iff)

lemma HasPrefix_append: "HasPrefix s t \<Longrightarrow> HasPrefix (s @ u) t"
  by (auto simp: HasPrefix_iff)

lemma prune_dirs_permits:
  assumes "q \<in> set qs" and "covers_string q p \<or> q = Dir p @ ''/''"
  shows "\<exists>q \<in> set (prune_dirs qs). permits_path q p"
proof -
  obtain y where y: "y \<in> set (prune_dirs qs)" "y = q \<or> HasSuffix y ''/'' \<and> HasPrefix q y"
    using prune_dirs_cover [OF assms(1)] by blast
  have "permits_path y p"
    using y(2) assms(2) HasPrefix_trans [of "p @ ''/''" q y] HasPrefix_append [of p y "''/''"]
    by (auto simp: permits_path_def covers_string_def HasSuffix_iff)
  then show ?thesis using y(1) by blast
qed

definition iteration_fs_ok :: "fs_iteration \<Rightarrow> bool" where
  "iteration_fs_ok it \<longleftrightarrow>
     iter_order (it_tree it) \<and> iter_order (it_paths it) \<and> iter_order (it_dirs it) \<and> iter_order (it_sets it)"

lemma merge_files_permits:
  assumes "iteration_fs_ok it" and "paths_ok (removeDuplicates fs)" and "p \<in> set fs" and "p \<noteq> []"
  shows "\<exists>q \<in> set (merge_files it False fs). permits_path q p"
proof -
  let ?ps = "removeDuplicates fs"
  let ?qs = "AggregatePathsExt (it_tree it) (it_paths it) (it_dirs it) ?ps"
  have p: "p \<in> set ?ps" using assms(3,4) by (simp add: removeDuplicates_spec)
  then have "\<exists>q \<in> set ?qs. covers_string q p \<or> q = Dir p @ ''/''"
    using assms(1,2) AggregatePathsExt_permits [of ?ps "it_tree it" "it_paths it" "it_dirs it" p]
    by (auto simp: paths_ok_def iteration_fs_ok_def list_all_iff)
  then obtain q where "q \<in> set (sort_key length ?qs)" "covers_string q p \<or> q = Dir p @ ''/''"
    by auto
  then show ?thesis unfolding merge_files_def Let_def by (simp add: prune_dirs_permits)
qed

lemma merge_files_ok:
  assumes "iteration_fs_ok it" and "paths_ok (removeDuplicates fs)"
  shows "fs_ok (merge_files it False fs)"
proof -
  have "set (removeDuplicates fs) \<noteq> {}" using assms(2) by (auto simp: paths_ok_def)
  then have some: "\<exists>p \<in> set fs. p \<noteq> []" by (auto simp: removeDuplicates_spec)
  let ?ps = "removeDuplicates fs"
  let ?qs = "AggregatePathsExt (it_tree it) (it_paths it) (it_dirs it) ?ps"
  have "CHR ''^'' \<notin> set q" if "q \<in> set ?qs" for q
    using assms(1,2) that AggregatePathsExt_chars [of ?ps "it_tree it" "it_paths it" "it_dirs it" q "CHR ''^''"]
    by (auto simp: paths_ok_def iteration_fs_ok_def list_all_iff)
  then have "CHR ''^'' \<notin> set q" if "q \<in> set (merge_files it False fs)" for q
    using that prune_dirs_subset [of "sort_key length ?qs"] by (auto simp: merge_files_def Let_def)
  moreover have "merge_files it False fs \<noteq> []"
    using assms some merge_files_permits by fastforce
  ultimately show ?thesis by (simp add: fs_ok_def)
qed

lemma merge_files_network:
  assumes "\<And>p. p \<in> set fs \<Longrightarrow> p \<noteq> [] \<and> \<not> HasSuffix p ''/''"
  shows "set (merge_files it True fs) = set fs"
proof -
  have "prune_dirs (sort_key length (removeDuplicates fs)) = sort_key length (removeDuplicates fs)"
    using assms by (intro prune_dirs_id) (auto simp: list_all_iff removeDuplicates_spec)
  then show ?thesis using assms by (auto simp: merge_files_def Let_def removeDuplicates_spec)
qed

lemma entries_map_of: "entries m w = (case map_of m w of None \<Rightarrow> [] | Some fs \<Rightarrow> fs)"
  by (simp add: entries_def)

lemma AList_update_mem: "(a, b) \<in> set (AList.update k v m) \<Longrightarrow> a = k \<and> b = v \<or> (a, b) \<in> set m"
  by (induction m) (auto split: if_splits)

lemma collect_sets_not_Nil:
  assumes "(w, fs) \<in> set (collect_sets pods settype slogs)"
  shows "fs \<noteq> []"
proof -
  have "\<forall>(w, fs) \<in> set (fold (\<lambda>slog res. case log_entry pods settype slog of
      None \<Rightarrow> res | Some (w, resource) \<Rightarrow> append_at w resource res) slogs m). fs \<noteq> []"
    if "\<forall>(w, fs) \<in> set m. fs \<noteq> []" for m
    using that
  proof (induction slogs arbitrary: m)
    case (Cons slog slogs)
    show ?case
    proof (cases "log_entry pods settype slog")
      case None
      then show ?thesis using Cons by simp
    next
      case (Some e)
      then obtain v rs where e: "e = (v, rs)" "rs \<noteq> []"
        by (auto simp: log_entry_def Let_def split: sum.splits if_splits)
      have "\<forall>(w, fs) \<in> set (append_at v rs m). fs \<noteq> []"
        using Cons.prems e by (auto simp: append_at_def dest!: AList_update_mem)
      then show ?thesis using Cons.IH Some e by simp
    qed
  qed simp
  from this [of "[]"] show ?thesis using assms unfolding collect_sets_def by auto
qed

lemma collect_sets_key:
  assumes "map_of (collect_sets pods settype slogs) w = Some fs"
  shows "wpfs_SetType w = settype"
proof -
  let ?step = "\<lambda>slog res. case log_entry pods settype slog of
      None \<Rightarrow> res | Some (w, resource) \<Rightarrow> append_at w resource res"
  have "wpfs_SetType w = settype"
    if "map_of (fold ?step slogs m) w = Some fs" "\<And>fs. map_of m w = Some fs \<Longrightarrow> wpfs_SetType w = settype" for m
    using that
  proof (induction slogs arbitrary: m)
    case (Cons slog slogs)
    show ?case
    proof (rule Cons.IH)
      show "map_of (fold ?step slogs (?step slog m)) w = Some fs" using Cons.prems(1) by simp
      show "wpfs_SetType w = settype" if "map_of (?step slog m) w = Some gs" for gs
        using that Cons.prems(2)
        by (auto simp: append_at_def update_conv' log_entry_def log_wpfs_def Let_def
            split: option.splits sum.splits if_splits)
    qed
  qed simp
  from this [of "[]"] assms show ?thesis by (simp add: collect_sets_def)
qed

lemma collect_sets_nonempty:
  assumes "entries (collect_sets pods settype slogs) w \<noteq> []"
  shows "map_of (collect_sets pods settype slogs) w = Some (entries (collect_sets pods settype slogs) w)"
  using assms by (cases "map_of (collect_sets pods settype slogs) w") (simp_all add: entries_map_of)

definition protocols :: "string set" where
  "protocols = {''icmp'', ''tcp'', ''udp'', ''raw''}"

lemma cleanResource_network: "set (cleanResource SYS_OP_NETWORK str) \<subseteq> protocols"
  by (auto simp: cleanResource_def getProtocolType_def protocols_def Let_def split: if_splits)

lemma log_entry_network: "log_entry pods SYS_OP_NETWORK slog = Some (w, rs) \<Longrightarrow> set rs \<subseteq> protocols"
  using cleanResource_network by (auto simp: log_entry_def Let_def split: sum.splits if_splits)

lemma collected_network: "set (entries (collect_sets pods SYS_OP_NETWORK slogs) w) \<subseteq> protocols"
  using log_entry_network by (fastforce simp: collect_sets_entries)

lemma merge_files_protocols:
  assumes "set fs \<subseteq> protocols"
  shows "set (merge_files it True fs) = set fs"
proof (rule merge_files_network)
  fix p assume "p \<in> set fs"
  then show "p \<noteq> [] \<and> \<not> HasSuffix p ''/''" using assms by (auto simp: protocols_def HasSuffix_def)
qed

lemma GenFileSet_network_sets:
  assumes "driver_ok driver" and "db_ok db" and "iter_order (it_sets it)"
    and "\<And>w. wpfs_SetType w = SYS_OP_NETWORK \<Longrightarrow> set (db_lookup driver db w) \<subseteq> protocols"
  shows "set (db_lookup driver (fst (GenFileSetForAllPodsInCluster it driver rand now db pods SYS_OP_NETWORK slogs)) w) =
    set (db_lookup driver db w) \<union>
    {r. \<exists>slog \<in> set slogs. \<exists>rs. log_entry pods SYS_OP_NETWORK slog = Some (w, rs) \<and> r \<in> set rs}"
proof -
  let ?m = "collect_sets pods SYS_OP_NETWORK slogs"
  have all: "set (fs @ db_lookup driver db v) \<subseteq> protocols" if "map_of ?m v = Some fs" for v fs
    using that assms(4) collect_sets_key [OF that] collected_network [of pods slogs v] by (auto simp: entries_map_of)
  have dist: "map_of ?m v = Some fs" if "(v, fs) \<in> set ?m" for v fs
    using that collect_sets_distinct by (simp add: map_of_eq_Some_iff)
  have ok: "fs_ok (merge_files it True (fs @ db_lookup driver db v))" if "(v, fs) \<in> set ?m" for v fs
  proof -
    have eq: "set (merge_files it True (fs @ db_lookup driver db v)) = set (fs @ db_lookup driver db v)"
      using all [OF dist [OF that]] by (rule merge_files_protocols)
    moreover have "fs \<noteq> []" using collect_sets_not_Nil that by blast
    ultimately have "set (merge_files it True (fs @ db_lookup driver db v)) \<noteq> {}" by simp
    moreover have "CHR ''^'' \<notin> set p" if "p \<in> protocols" for p using that by (auto simp: protocols_def)
    ultimately show ?thesis using eq all [OF dist [OF that]] unfolding fs_ok_def by blast
  qed
  have "db_lookup driver (fst (GenFileSetForAllPodsInCluster it driver rand now db pods SYS_OP_NETWORK slogs)) w =
      (case map_of ?m w of None \<Rightarrow> db_lookup driver db w
       | Some fs \<Rightarrow> merge_files it True (fs @ db_lookup driver db w))"
    using GenFileSet_lookup [OF assms(1-3), of pods SYS_OP_NETWORK slogs rand now w] ok
    by (simp split: option.split)
  then have "set (db_lookup driver (fst (GenFileSetForAllPodsInCluster it driver rand now db pods SYS_OP_NETWORK slogs)) w) =
      set (db_lookup driver db w) \<union> set (entries ?m w)"
    using merge_files_protocols [OF all] by (auto simp: entries_map_of split: option.splits)
  then show ?thesis by (simp add: collect_sets_entries)
qed

section \<open>Properties\<close>

text \<open>The inputs on which the properties are evaluated.\<close>

definition demo_pods :: "Pod list" where
  "demo_pods = [\<lparr>pod_Namespace = ''ns'', pod_PodName = ''web-1'', pod_Labels = [''app=web''],
     pod_PodIP = ''10.0.0.1''\<rparr>]"

definition demo_log :: "string \<Rightarrow> KnoxSystemLog" where
  "demo_log path = KnoxSystemLog_zero\<lparr>sl_ClusterName := ''c1'', sl_Namespace := ''ns'', sl_PodName := ''web-1'',
     sl_ContainerName := ''web'', sl_Source := ''/bin/sh'', sl_Resource := path, sl_ResourceOrigin := path\<rparr>"

definition demo_key :: "string \<Rightarrow> WorkloadProcessFileSet" where
  "demo_key settype = log_wpfs settype [''app=web''] (demo_log [])"

definition fs_it_id :: fs_iteration where
  "fs_it_id = \<lparr>it_tree = id, it_paths = id, it_src = id, it_dirs = id, it_sets = id\<rparr>"

lemma fs_it_id_ok: "iteration_fs_ok fs_it_id"
  by (simp add: iteration_fs_ok_def fs_it_id_def iter_order_def)

text \<open>Generating the file sets keeps the store consistent: no two rows have the same key
  afterwards, and a run that reports no change has written nothing, for both database drivers.\<close>

theorem GenFileSet_store_safe:
  assumes "driver_ok driver" and "db_ok db"
    and "GenFileSetForAllPodsInCluster it driver rand now db pods settype slogs = (db', status)"
  shows "db_ok db' \<and> (\<not> status \<longrightarrow> db' = db)"
  using GenFileSet_inv [OF assms(1,2)] GenFileSet_unchanged [OF assms(1)] assms(3) by (metis fst_conv snd_conv)


text \<open>For network operations the stored sets are exact: what is stored for a key of set type
  \<^verbatim>\<open>Network\<close> after a run is what was stored before together with the protocols of the logs of
  this run, and sets of other types are untouched.\<close>

theorem GenFileSet_network_exact:
  assumes "driver_ok driver" and "db_ok db" and "iter_order (it_sets it)"
    and "\<And>w. wpfs_SetType w = SYS_OP_NETWORK \<Longrightarrow> set (db_lookup driver db w) \<subseteq> protocols"
  shows "set (db_lookup driver (fst (GenFileSetForAllPodsInCluster it driver rand now db pods SYS_OP_NETWORK slogs)) w) =
    set (db_lookup driver db w) \<union>
    {r. \<exists>slog \<in> set slogs. \<exists>rs. log_entry pods SYS_OP_NETWORK slog = Some (w, rs) \<and> r \<in> set rs}"
  using assms by (rule GenFileSet_network_sets)

theorem GenFileSet_store_safe_witness:
  "db_ok (fst (GenFileSetForAllPodsInCluster fs_it_id ''sqlite3'' ''x'' 0 [] demo_pods SYS_OP_FILE [demo_log ''/etc/a'']))"
  using GenFileSet_store_safe [of "''sqlite3''" "[]" fs_it_id "''x''" 0 demo_pods SYS_OP_FILE "[demo_log ''/etc/a'']"]
  by (simp add: driver_ok_def db_ok_def prod_eq_iff)


theorem GenFileSet_network_exact_witness:
  "set (db_lookup ''mysql'' (fst (GenFileSetForAllPodsInCluster fs_it_id ''mysql'' ''x'' 0 [] demo_pods
      SYS_OP_NETWORK [demo_log ''domain=AF_INET type=SOCK_STREAM'', demo_log ''domain=AF_INET type=SOCK_DGRAM'']))
      (demo_key SYS_OP_NETWORK)) = {''tcp'', ''udp''}"
proof -
  let ?logs = "[demo_log ''domain=AF_INET type=SOCK_STREAM'', demo_log ''domain=AF_INET type=SOCK_DGRAM'']"
  have empty: "db_lookup ''mysql'' [] w = []" for w by (simp add: db_lookup_none driver_ok_def db_ok_def)
  have entry: "map (log_entry demo_pods SYS_OP_NETWORK) ?logs =
      [Some (demo_key SYS_OP_NETWORK, [''tcp'']), Some (demo_key SYS_OP_NETWORK, [''udp''])]"
    by code_simp
  show ?thesis
    using GenFileSet_network_exact [of "''mysql''" "[]" fs_it_id "''x''" 0 demo_pods ?logs "demo_key SYS_OP_NETWORK"]
      entry fs_it_id_ok
    by (auto simp: driver_ok_def db_ok_def empty iteration_fs_ok_def)
qed

end
