(* ===== verification/KubeArmor.thy ===== *)
theory KubeArmor
  imports FileSet
begin

text \<open>
  KubeArmor policies: \<^verbatim>\<open>ConvertKnoxSystemPolicyToKubeArmorPolicy\<close> of
  \<^verbatim>\<open>plugin/kubearmor.go\<close>, and the policies that \<^verbatim>\<open>systempolicy/systemPolicy.go\<close>
  extracts from the stored file sets. Of the third-party type of the metadata the model has the
  fields that the code uses.
\<close>

section \<open>Policies\<close>

record ObjectMeta =
  om_Name :: string
  om_Namespace :: string
  om_Annotations :: str_map

record KubeArmorPolicy =
  kap_APIVersion :: string
  kap_Kind :: string
  kap_Metadata :: ObjectMeta
  kap_Spec :: KnoxSystemSpec

definition KindKubeArmorPolicy :: string where "KindKubeArmorPolicy = ''KubeArmorPolicy''"
definition KindKubeArmorHostPolicy :: string where "KindKubeArmorHostPolicy = ''KubeArmorHostPolicy''"

section \<open>Conversion\<close>

definition generateProcessPaths :: "KnoxFromSource list \<Rightarrow> string list" where
  "generateProcessPaths fromSrc = map fs_Path fromSrc"

definition kubearmor_meta :: "KnoxSystemPolicy \<Rightarrow> ObjectMeta" where
  "kubearmor_meta policy =
     (let m = lookup_str (sysp_Metadata policy) in
      \<lparr>om_Name = m ''name'',
       om_Namespace = (if sysp_Kind policy \<noteq> KindKubeArmorHostPolicy then m ''namespace'' else []),
       om_Annotations =
         (if m ''annotation-tldr'' \<noteq> [] \<or> m ''annotation-description'' \<noteq> [] then
            fmupd ''app.accuknox.com/description'' (m ''annotation-description'')
              (fmupd ''app.accuknox.com/tldr'' (m ''annotation-tldr'') fmempty)
          else fmempty)\<rparr>)"

definition kubearmor_kind :: "KnoxSystemPolicy \<Rightarrow> string" where
  "kubearmor_kind policy =
     (if lookup_str (sysp_Metadata policy) ''namespace'' = PolicyDiscoveryVMNamespace
      then ''KubeArmorHostPolicy'' else ''KubeArmorPolicy'')"

text \<open>The directory of the shared libraries, added to the files of a policy that allows.\<close>

definition add_preconfigured :: "string \<Rightarrow> KnoxSystemSpec \<Rightarrow> KnoxSystemSpec" where
  "add_preconfigured kind spec =
     (if kind = KindKubeArmorPolicy \<and> ss_Action spec = ''Allow'' then
        spec\<lparr>ss_File := (ss_File spec)\<lparr>ks_MatchDirectories := ks_MatchDirectories (ss_File spec) @
          [\<lparr>md_Dir = PreConfiguredKubearmorRule, md_Recursive = True, md_ReadOnly = False,
            md_OwnerOnly = False, md_FromSource = []\<rparr>]\<rparr>\<rparr>
      else spec)"

text \<open>The sources of the file rules that no process path of the policy names.\<close>

definition missing_sources :: "KnoxSystemSpec \<Rightarrow> string list" where
  "missing_sources spec =
     (let processPaths = map mp_Path (ks_MatchPaths (ss_Process spec));
          filePathsFromSrc = concat (map (generateProcessPaths \<circ> mp_FromSource) (ks_MatchPaths (ss_File spec))) @
            concat (map (generateProcessPaths \<circ> md_FromSource) (ks_MatchDirectories (ss_File spec)));
          filePathsFromSrc = StringDeDuplication filePathsFromSrc;
          procPaths = StringDeDuplication processPaths
      in StringDeDuplication (filter (\<lambda>file. \<not> list_ex (\<lambda>proc. proc = file) procPaths) filePathsFromSrc))"

definition source_rule :: "string \<Rightarrow> KnoxMatchPaths" where
  "source_rule path = \<lparr>mp_Path = path, mp_ReadOnly = False, mp_OwnerOnly = False, mp_FromSource = []\<rparr>"

definition kubearmor_policy :: "KnoxSystemPolicy \<Rightarrow> KubeArmorPolicy" where
  "kubearmor_policy policy =
     (let kind = kubearmor_kind policy;
          spec = add_preconfigured kind (sysp_Spec policy);
          process = ss_Process spec
      in \<lparr>kap_APIVersion = ''security.kubearmor.com/v1'', kap_Kind = kind,
          kap_Metadata = kubearmor_meta policy,
          kap_Spec = spec\<lparr>ss_Process := process\<lparr>ks_MatchPaths :=
            ks_MatchPaths process @ map source_rule (missing_sources spec)\<rparr>\<rparr>\<rparr>)"

definition ConvertKnoxSystemPolicyToKubeArmorPolicy :: "KnoxSystemPolicy list \<Rightarrow> KubeArmorPolicy list" where
  "ConvertKnoxSystemPolicyToKubeArmorPolicy knoxPolicies = map kubearmor_policy knoxPolicies"

section \<open>Policies from the store\<close>

text \<open>The map of file sets that the query returns is iterated in the order \<^verbatim>\<open>ord\<close>.\<close>

definition populateKnoxSysPolicyFromWPFSDb ::
  "SysGlobals \<Rightarrow> (ResourceSetMap \<Rightarrow> ResourceSetMap) \<Rightarrow> wpfs_row list \<Rightarrow>
   string \<Rightarrow> string \<Rightarrow> string \<Rightarrow> string \<Rightarrow> go_panic + KnoxSystemPolicy list" where
  "populateKnoxSysPolicyFromWPFSDb g ord db namespace clustername labels fromsource =
     (case GetWorkloadProcessFileSet (g_DBDriver g) db
        \<lparr>wpfs_ClusterName = clustername, wpfs_ContainerName = [], wpfs_Namespace = namespace,
         wpfs_Labels = labels, wpfs_FromSource = fromsource, wpfs_SetType = []\<rparr> of
        Inl _ \<Rightarrow> Inr []
      | Inr (res, pnMap) \<Rightarrow> ConvertWPFSToKnoxSysPolicy ord g res pnMap)"

text \<open>The binaries without a source, each once.\<close>

definition globalbinaries :: "KnoxMatchPaths list \<Rightarrow> string list" where
  "globalbinaries mps =
     fold (\<lambda>binary gs. if length (mp_FromSource binary) = 0 \<and> \<not> List.member gs (mp_Path binary)
       then gs @ [mp_Path binary] else gs) mps []"

text \<open>A rule with one of the global binaries among its sources becomes a rule for every source.\<close>

definition globalize :: "string list \<Rightarrow> ('r \<Rightarrow> KnoxFromSource list) \<Rightarrow> (KnoxFromSource list \<Rightarrow> 'r \<Rightarrow> 'r) \<Rightarrow> 'r \<Rightarrow> 'r" where
  "globalize gs fs set_fs r =
     (if list_ex (\<lambda>binary. List.member gs (fs_Path binary)) (fs r) then set_fs [] r else r)"

definition extract_process :: "KnoxSys \<Rightarrow> KnoxSys" where
  "extract_process ks =
     ks\<lparr>ks_MatchPaths := map (\<lambda>r. if length (mp_FromSource r) \<noteq> 0 then set_mp_fs [] r else r) (ks_MatchPaths ks),
        ks_MatchDirectories := map (\<lambda>r. if length (md_FromSource r) \<noteq> 0 then set_md_fs [] r else r)
          (ks_MatchDirectories ks)\<rparr>"

definition extract_spec :: "bool \<Rightarrow> KnoxSystemSpec \<Rightarrow> KnoxSystemSpec" where
  "extract_spec includeNetwork spec =
     (let network = (if \<not> includeNetwork then \<lparr>nr_MatchProtocols = []\<rparr> else ss_Network spec);
          process = extract_process (ss_Process spec);
          gs = globalbinaries (ks_MatchPaths process);
          filePaths = ks_MatchPaths (ss_File spec) @
            map (\<lambda>binary. \<lparr>mp_Path = binary, mp_ReadOnly = True, mp_OwnerOnly = False, mp_FromSource = []\<rparr>) gs
      in spec\<lparr>ss_Process := process,
           ss_File := \<lparr>ks_MatchPaths = map (globalize gs mp_FromSource set_mp_fs) filePaths,
             ks_MatchDirectories =
               map (globalize gs md_FromSource set_md_fs) (ks_MatchDirectories (ss_File spec))\<rparr>,
           ss_Network := \<lparr>nr_MatchProtocols =
             map (globalize gs mpr_FromSource set_mpr_fs) (nr_MatchProtocols network)\<rparr>\<rparr>)"

definition extractK8SSystemPolicies ::
  "SysGlobals \<Rightarrow> (ResourceSetMap \<Rightarrow> ResourceSetMap) \<Rightarrow> wpfs_row list \<Rightarrow>
   string \<Rightarrow> string \<Rightarrow> string \<Rightarrow> string \<Rightarrow> bool \<Rightarrow> go_panic + KubeArmorPolicy list" where
  "extractK8SSystemPolicies g ord db namespace clustername labels fromsource includeNetwork =
     go_bind (populateKnoxSysPolicyFromWPFSDb g ord db namespace clustername labels fromsource) (\<lambda>sysPols.
       Inr (map (\<lambda>pol. pol\<lparr>kap_Spec := extract_spec includeNetwork (kap_Spec pol)\<rparr>)
         (filter (\<lambda>pol. om_Namespace (kap_Metadata pol) \<noteq> PolicyDiscoveryVMNamespace)
           (ConvertKnoxSystemPolicyToKubeArmorPolicy sysPols))))"

definition extractVM_source ::
  "SysGlobals \<Rightarrow> (ResourceSetMap \<Rightarrow> ResourceSetMap) \<Rightarrow> wpfs_row list \<Rightarrow> string \<Rightarrow> string \<Rightarrow> string \<Rightarrow>
   (KubeArmorPolicy list \<times> string list) \<Rightarrow> string \<Rightarrow> go_panic + KubeArmorPolicy list \<times> string list" where
  "extractVM_source g ord db namespace clustername labels acc fromSource =
     go_bind (populateKnoxSysPolicyFromWPFSDb g ord db namespace clustername labels fromSource) (\<lambda>sysPols.
       (let pols = filter (\<lambda>pol. om_Namespace (kap_Metadata pol) = PolicyDiscoveryVMNamespace)
              (ConvertKnoxSystemPolicyToKubeArmorPolicy sysPols)
        in Inr (fst acc @ pols, snd acc @ map (\<lambda>_. fromSource) pols)))"

definition extractVMSystemPolicies ::
  "SysGlobals \<Rightarrow> (ResourceSetMap \<Rightarrow> ResourceSetMap) \<Rightarrow> wpfs_row list \<Rightarrow>
   string \<Rightarrow> string \<Rightarrow> string \<Rightarrow> string \<Rightarrow> go_panic + KubeArmorPolicy list \<times> string list" where
  "extractVMSystemPolicies g ord db namespace clustername labels fromSource =
     (let sources = (if fromSource = [] then
            (case GetWorkloadProcessFileSet (g_DBDriver g) db
               \<lparr>wpfs_ClusterName = [], wpfs_ContainerName = [], wpfs_Namespace = [], wpfs_Labels = [],
                wpfs_FromSource = [], wpfs_SetType = []\<rparr> of
               Inl _ \<Rightarrow> [] | Inr (res, _) \<Rightarrow> GetWPFSSources ord res)
          else [fromSource])
      in foldM (extractVM_source g ord db namespace clustername labels) ([], []) sources)"

section \<open>Sources of file rules\<close>

definition file_sources :: "KnoxSystemSpec \<Rightarrow> string set" where
  "file_sources spec = {fs_Path s |s. (\<exists>r \<in> set (ks_MatchPaths (ss_File spec)). s \<in> set (mp_FromSource r)) \<or>
     (\<exists>r \<in> set (ks_MatchDirectories (ss_File spec)). s \<in> set (md_FromSource r))}"

definition process_paths :: "KnoxSystemSpec \<Rightarrow> string set" where
  "process_paths spec = mp_Path ` set (ks_MatchPaths (ss_Process spec))"

lemma missing_sources_set: "set (missing_sources spec) = file_sources spec - process_paths spec"
  by (auto simp: missing_sources_def file_sources_def process_paths_def generateProcessPaths_def
      Let_def list_ex_iff)

lemma missing_sources_distinct: "distinct (missing_sources spec)"
  by (simp add: missing_sources_def Let_def)

lemma file_sources_preconfigured [simp]: "file_sources (add_preconfigured kind spec) = file_sources spec"
  by (auto simp: file_sources_def add_preconfigured_def)

lemma process_preconfigured [simp]: "ss_Process (add_preconfigured kind spec) = ss_Process spec"
  by (simp add: add_preconfigured_def)

lemma source_rule_path [simp]: "mp_Path (source_rule p) = p" "mp_FromSource (source_rule p) = []"
  by (simp_all add: source_rule_def)

lemma kubearmor_process:
  "ss_Process (kap_Spec (kubearmor_policy policy)) = (ss_Process (sysp_Spec policy))\<lparr>ks_MatchPaths :=
     ks_MatchPaths (ss_Process (sysp_Spec policy)) @
     map source_rule (missing_sources (add_preconfigured (kubearmor_kind policy) (sysp_Spec policy)))\<rparr>"
  by (simp add: kubearmor_policy_def Let_def)

lemma kubearmor_sources:
  "file_sources (kap_Spec (kubearmor_policy policy)) \<subseteq> process_paths (kap_Spec (kubearmor_policy policy))"
proof -
  have "file_sources (kap_Spec (kubearmor_policy policy)) = file_sources (sysp_Spec policy)"
    using file_sources_preconfigured [of "kubearmor_kind policy" "sysp_Spec policy"]
    by (simp add: kubearmor_policy_def Let_def file_sources_def)
  then show ?thesis
    by (auto simp: process_paths_def kubearmor_process missing_sources_set image_Un image_image)
qed

section \<open>Extraction\<close>

lemma set_globalbinaries:
  "set (globalbinaries mps) = mp_Path ` {r \<in> set mps. mp_FromSource r = []}"
proof -
  have "set (fold (\<lambda>binary gs. if length (mp_FromSource binary) = 0 \<and> \<not> List.member gs (mp_Path binary)
       then gs @ [mp_Path binary] else gs) mps gs) = set gs \<union> mp_Path ` {r \<in> set mps. mp_FromSource r = []}" for gs
    by (induction mps arbitrary: gs) auto
  from this [of "[]"] show ?thesis by (simp add: globalbinaries_def)
qed

lemma extract_process_rules:
  "r \<in> set (ks_MatchPaths (extract_process ks)) \<Longrightarrow> mp_FromSource r = []"
  "d \<in> set (ks_MatchDirectories (extract_process ks)) \<Longrightarrow> md_FromSource d = []"
  by (auto simp: extract_process_def set_mp_fs_def set_md_fs_def)

lemma extract_process_paths: "map mp_Path (ks_MatchPaths (extract_process ks)) = map mp_Path (ks_MatchPaths ks)"
  by (simp add: extract_process_def set_mp_fs_def)

lemma globals_extracted:
  "set (globalbinaries (ks_MatchPaths (extract_process (ss_Process spec)))) = process_paths spec"
proof -
  have "{r \<in> set (ks_MatchPaths (extract_process (ss_Process spec))). mp_FromSource r = []} =
      set (ks_MatchPaths (extract_process (ss_Process spec)))"
    using extract_process_rules(1) by blast
  then show ?thesis
    unfolding set_globalbinaries process_paths_def
    by (simp flip: set_map add: extract_process_paths)
qed

text \<open>All the sources of the file rules are among the global binaries.\<close>

lemma globalize_clears:
  assumes "\<And>s. s \<in> set (fs r) \<Longrightarrow> fs_Path s \<in> set gs" and "\<And>r. fs (set_fs [] r) = []"
  shows "fs (globalize gs fs set_fs r) = []"
  using assms by (cases "fs r") (auto simp: globalize_def)

lemma extract_file_rules:
  fixes spec defines "gs \<equiv> globalbinaries (ks_MatchPaths (extract_process (ss_Process spec)))"
  shows "ks_MatchPaths (ss_File (extract_spec n spec)) =
      map (globalize gs mp_FromSource set_mp_fs) (ks_MatchPaths (ss_File spec) @
        map (\<lambda>binary. \<lparr>mp_Path = binary, mp_ReadOnly = True, mp_OwnerOnly = False, mp_FromSource = []\<rparr>) gs)"
    and "ks_MatchDirectories (ss_File (extract_spec n spec)) =
      map (globalize gs md_FromSource set_md_fs) (ks_MatchDirectories (ss_File spec))"
  by (simp_all add: extract_spec_def Let_def gs_def)

lemma extract_spec_clears:
  assumes "file_sources spec \<subseteq> process_paths spec"
  shows "\<forall>r \<in> set (ks_MatchPaths (ss_File (extract_spec n spec))). mp_FromSource r = []"
    and "\<forall>d \<in> set (ks_MatchDirectories (ss_File (extract_spec n spec))). md_FromSource d = []"
proof -
  let ?gs = "globalbinaries (ks_MatchPaths (extract_process (ss_Process spec)))"
  have gs: "set ?gs = process_paths spec" by (rule globals_extracted)
  have "mp_FromSource (globalize ?gs mp_FromSource set_mp_fs r) = []"
    if "r \<in> set (ks_MatchPaths (ss_File spec)) \<or> mp_FromSource r = []" for r
  proof (rule globalize_clears)
    fix s assume s: "s \<in> set (mp_FromSource r)"
    then have "r \<in> set (ks_MatchPaths (ss_File spec))" using that by auto
    then have "fs_Path s \<in> file_sources spec" using s unfolding file_sources_def by blast
    then show "fs_Path s \<in> set ?gs" using assms gs by blast
  qed (simp add: set_mp_fs_def)
  then show "\<forall>r \<in> set (ks_MatchPaths (ss_File (extract_spec n spec))). mp_FromSource r = []"
    unfolding extract_file_rules by auto
  have "md_FromSource (globalize ?gs md_FromSource set_md_fs d) = []"
    if "d \<in> set (ks_MatchDirectories (ss_File spec))" for d
  proof (rule globalize_clears)
    fix s assume "s \<in> set (md_FromSource d)"
    then have "fs_Path s \<in> file_sources spec" using that unfolding file_sources_def by blast
    then show "fs_Path s \<in> set ?gs" using assms gs by blast
  qed (simp add: set_md_fs_def)
  then show "\<forall>d \<in> set (ks_MatchDirectories (ss_File (extract_spec n spec))). md_FromSource d = []"
    unfolding extract_file_rules by auto
qed

lemma globalize_path:
  "mp_Path (globalize gs mp_FromSource set_mp_fs r) = mp_Path r"
  by (simp add: globalize_def set_mp_fs_def)

lemma extract_spec_paths:
  "mp_Path ` set (ks_MatchPaths (ss_File (extract_spec n spec))) =
     mp_Path ` set (ks_MatchPaths (ss_File spec)) \<union> process_paths spec"
  by (simp add: extract_file_rules image_Un image_image globalize_path globals_extracted)

section \<open>Properties\<close>

text \<open>The conversion lets every source of a file rule run. The KubeArmor policy keeps the process
  paths of the policy and adds, each once, exactly the sources of the file rules that are not
  among them; its file rules are those of the policy, with the directory of the shared libraries
  if the policy allows and is not one of a virtual machine.\<close>

theorem ConvertKnoxSystemPolicyToKubeArmorPolicy_correct:
  "list_all2 (\<lambda>p k. \<exists>added.
     map mp_Path (ks_MatchPaths (ss_Process (kap_Spec k))) =
       map mp_Path (ks_MatchPaths (ss_Process (sysp_Spec p))) @ added \<and>
     distinct added \<and> set added = file_sources (sysp_Spec p) - process_paths (sysp_Spec p) \<and>
     ks_MatchPaths (ss_File (kap_Spec k)) = ks_MatchPaths (ss_File (sysp_Spec p)) \<and>
     map md_Dir (ks_MatchDirectories (ss_File (kap_Spec k))) = map md_Dir (ks_MatchDirectories (ss_File (sysp_Spec p))) @
       (if lookup_str (sysp_Metadata p) ''namespace'' \<noteq> PolicyDiscoveryVMNamespace \<and> ss_Action (sysp_Spec p) = ''Allow''
        then [PreConfiguredKubearmorRule] else []))
     policies (ConvertKnoxSystemPolicyToKubeArmorPolicy policies)"
proof -
  have "\<exists>added.
     map mp_Path (ks_MatchPaths (ss_Process (kap_Spec (kubearmor_policy p)))) =
       map mp_Path (ks_MatchPaths (ss_Process (sysp_Spec p))) @ added \<and>
     distinct added \<and> set added = file_sources (sysp_Spec p) - process_paths (sysp_Spec p)" for p
  proof -
    let ?spec = "add_preconfigured (kubearmor_kind p) (sysp_Spec p)"
    have "process_paths ?spec = process_paths (sysp_Spec p)" by (simp add: process_paths_def)
    then show ?thesis
      by (intro exI [of _ "missing_sources ?spec"])
        (simp add: kubearmor_process missing_sources_set missing_sources_distinct comp_def)
  qed
  then show ?thesis
    by (auto simp: ConvertKnoxSystemPolicyToKubeArmorPolicy_def list_all2_conv_all_nth kubearmor_policy_def
        Let_def add_preconfigured_def kubearmor_kind_def KindKubeArmorPolicy_def)
qed

text \<open>A policy extracted for Kubernetes has no sources: every file and process rule, whatever
  source it was learned for, is a rule for every process. (The sources of the process rules are
  cleared first, the conversion has made every source of a file rule a process rule, and a file
  rule one of whose sources is a process rule without sources is cleared too.) The file rules name
  the paths of the converted policy and its process paths.\<close>

theorem extractK8SSystemPolicies_drops_sources:
  assumes "extractK8SSystemPolicies g ord db namespace clustername labels fromsource includeNetwork = Inr pols"
    and "pol \<in> set pols"
  shows "(\<forall>r \<in> set (ks_MatchPaths (ss_File (kap_Spec pol))). mp_FromSource r = []) \<and>
    (\<forall>d \<in> set (ks_MatchDirectories (ss_File (kap_Spec pol))). md_FromSource d = []) \<and>
    (\<forall>r \<in> set (ks_MatchPaths (ss_Process (kap_Spec pol))). mp_FromSource r = []) \<and>
    (\<forall>d \<in> set (ks_MatchDirectories (ss_Process (kap_Spec pol))). md_FromSource d = [])"
proof -
  from assms obtain p where pol: "pol = (kubearmor_policy p)\<lparr>kap_Spec := extract_spec includeNetwork (kap_Spec (kubearmor_policy p))\<rparr>"
    by (auto simp: extractK8SSystemPolicies_def go_bind_Inr_iff ConvertKnoxSystemPolicyToKubeArmorPolicy_def)
  have "ss_Process (extract_spec n spec) = extract_process (ss_Process spec)" for n spec
    by (simp add: extract_spec_def Let_def)
  then show ?thesis
    using extract_spec_clears [OF kubearmor_sources] extract_process_rules unfolding pol by simp
qed

definition demo_rows :: "wpfs_row list" where
  "demo_rows = [\<lparr>row_policyName = ''autopol-file-x'',
     row_key = \<lparr>wpfs_ClusterName = ''c1'', wpfs_ContainerName = ''web'', wpfs_Namespace = ''ns'',
       wpfs_Labels = ''app=web'', wpfs_FromSource = ''/bin/sh'', wpfs_SetType = SYS_OP_FILE\<rparr>,
     row_fileset = ''/etc/a^^/usr/lib/'', row_createdtime = 0, row_updatedtime = 0\<rparr>]"

definition demo_extracted :: "KubeArmorPolicy list" where
  "demo_extracted = (case extractK8SSystemPolicies g_sources id demo_rows ''ns'' ''c1'' [] [] True of
     Inl _ \<Rightarrow> [] | Inr pols \<Rightarrow> pols)"

theorem extractK8SSystemPolicies_drops_sources_witness:
  "map mp_Path (ks_MatchPaths (ss_File (kap_Spec (hd demo_extracted)))) = [''/etc/a'', ''/bin/sh''] \<and>
   list_all (\<lambda>r. mp_FromSource r = []) (ks_MatchPaths (ss_File (kap_Spec (hd demo_extracted))))"
proof -
  have ok: "\<not> isl (extractK8SSystemPolicies g_sources id demo_rows ''ns'' ''c1'' [] [] True)" by code_simp
  have "demo_extracted \<noteq> []" by code_simp
  moreover have "extractK8SSystemPolicies g_sources id demo_rows ''ns'' ''c1'' [] [] True = Inr demo_extracted"
    using ok by (auto simp: demo_extracted_def isl_def split: sum.splits)
  ultimately have "\<forall>r \<in> set (ks_MatchPaths (ss_File (kap_Spec (hd demo_extracted)))). mp_FromSource r = []"
    using extractK8SSystemPolicies_drops_sources [of g_sources id demo_rows "''ns''" "''c1''" "[]" "[]" True demo_extracted
        "hd demo_extracted"] by simp
  moreover have "map mp_Path (ks_MatchPaths (ss_File (kap_Spec (hd demo_extracted)))) = [''/etc/a'', ''/bin/sh'']"
    by code_simp
  ultimately show ?thesis by (simp add: list_all_iff)
qed

end
