(* ===== verification/KubeArmorRelay.thy ===== *)
theory KubeArmorRelay
  imports SystemFilter
begin

text \<open>
  The logs of KubeArmor in \<^verbatim>\<open>plugin/kubearmor.go\<close>: their conversion, the filters, the
  buffers and the state machine of \<^verbatim>\<open>StartKubeArmorRelay\<close>, whose two goroutines append what
  they receive and whose readers take what was appended. A step of the relation is one call, or one
  round of the loop of a goroutine; the mutex makes the accesses to a buffer atomic.
\<close>

section \<open>Logs\<close>

record Podowner =
  po_Ref :: string
  po_Name :: string

text \<open>The fields of \<^verbatim>\<open>pb.Alert\<close> that the code uses.\<close>

record Alert =
  al_Timestamp :: int
  al_UpdatedTime :: string
  al_ClusterName :: string
  al_HostName :: string
  al_NamespaceName :: string
  al_PodName :: string
  al_Labels :: string
  al_ContainerID :: string
  al_ContainerName :: string
  al_ContainerImage :: string
  al_ParentProcessName :: string
  al_ProcessName :: string
  al_HostPPID :: int
  al_HostPID :: int
  al_PPID :: int
  al_PID :: int
  al_UID :: int
  al_Type :: string
  al_Source :: string
  al_Operation :: string
  al_Resource :: string
  al_Data :: string
  al_Result :: string
  al_Action :: string
  al_Enforcer :: string
  al_Tags :: string
  al_Message :: string
  al_Severity :: string
  al_PolicyName :: string
  al_Owner :: "Podowner option"

text \<open>\<^verbatim>\<open>strings.Split(s, " ")[0]\<close>; the list is never empty.\<close>

definition first_word :: "string \<Rightarrow> string" where
  "first_word s = (let ws = Split s (CHR '' '') in if length ws \<ge> 1 then ws ! 0 else [])"

definition IsAbs :: "string \<Rightarrow> bool" where
  "IsAbs path = HasPrefix path ''/''"

definition read_only :: "string \<Rightarrow> bool" where
  "read_only data \<longleftrightarrow> data \<noteq> [] \<and> Contains data ''O_RDONLY''"

definition ConvertKubeArmorLogToKnoxSystemLog :: "Alert \<Rightarrow> string + KnoxSystemLog" where
  "ConvertKubeArmorLogToKnoxSystemLog relayLog =
     (let source = first_word (al_Source relayLog) in
      if \<not> IsAbs source \<or> HasSuffix source ''/'' then Inl ''invalid file source''
      else
       (let resource = first_word (al_Resource relayLog) in
        if (al_Operation relayLog = ''File'' \<or> al_Operation relayLog = ''Process'') \<and> \<not> IsAbs resource
        then Inl ''invalid file resource''
        else
         (let source = (if Contains source ''runc'' then [] else source);
              resource = (if Contains resource ''runc'' then [] else resource)
          in if HasPrefix resource PreConfiguredKubearmorRule then Inl ''predefined file resource''
          else
           (let knoxSystemLog = KnoxSystemLog_zero\<lparr>
                  sl_ClusterName := al_ClusterName relayLog, sl_HostName := al_HostName relayLog,
                  sl_Namespace := al_NamespaceName relayLog, sl_ContainerName := al_ContainerName relayLog,
                  sl_PodName := al_PodName relayLog, sl_Source := source, sl_SourceOrigin := al_Source relayLog,
                  sl_Operation := al_Operation relayLog, sl_ResourceOrigin := al_Resource relayLog,
                  sl_Resource := resource, sl_Data := al_Data relayLog,
                  sl_ReadOnly := read_only (al_Data relayLog), sl_Result := al_Result relayLog\<rparr>;
                knoxSystemLog = (if al_Type relayLog = ''HostLog'' then
                  knoxSystemLog\<lparr>sl_ContainerName := al_HostName relayLog,
                    sl_Namespace := PolicyDiscoveryVMNamespace, sl_PodName := PolicyDiscoveryVMPodName\<rparr>
                  else knoxSystemLog);
                knoxSystemLog = (if al_Type relayLog = ''ContainerLog'' \<and>
                    al_NamespaceName relayLog = PolicyDiscoveryContainerNamespace then
                  knoxSystemLog\<lparr>sl_ContainerName := al_ContainerName relayLog,
                    sl_Namespace := PolicyDiscoveryContainerNamespace,
                    sl_PodName := PolicyDiscoveryContainerPodName\<rparr>
                  else knoxSystemLog)
            in Inr knoxSystemLog))))"

text \<open>
  The logs of the database. The round trip of a document through JSON into the struct is the
  parameter \<^verbatim>\<open>decode\<close>; a document that cannot be written as JSON is skipped. The
  record has the fields that the conversion reads.
\<close>

record SystemLogEvent =
  se_ClusterName :: string
  se_HostName :: string
  se_NamespaceName :: string
  se_PodName :: string
  se_ContainerName :: string
  se_Source :: string
  se_Operation :: string
  se_Resource :: string
  se_Data :: string
  se_Result :: string

definition system_log_of :: "SystemLogEvent \<Rightarrow> KnoxSystemLog" where
  "system_log_of syslog = KnoxSystemLog_zero\<lparr>
     sl_ClusterName := se_ClusterName syslog, sl_HostName := se_HostName syslog,
     sl_Namespace := se_NamespaceName syslog, sl_ContainerName := se_ContainerName syslog,
     sl_PodName := se_PodName syslog, sl_Source := first_word (se_Source syslog),
     sl_SourceOrigin := se_Source syslog, sl_Operation := se_Operation syslog,
     sl_ResourceOrigin := se_Resource syslog, sl_Resource := first_word (se_Resource syslog),
     sl_Data := se_Data syslog, sl_ReadOnly := read_only (se_Data syslog), sl_Result := se_Result syslog\<rparr>"

definition ConvertSQLiteKubeArmorLogsToKnoxSystemLogs ::
  "('doc \<Rightarrow> SystemLogEvent option) \<Rightarrow> 'doc list \<Rightarrow> KnoxSystemLog list" where
  "ConvertSQLiteKubeArmorLogsToKnoxSystemLogs decode docs = map system_log_of (List.map_filter decode docs)"

definition ConvertMySQLKubeArmorLogsToKnoxSystemLogs ::
  "('doc \<Rightarrow> SystemLogEvent option) \<Rightarrow> 'doc list \<Rightarrow> KnoxSystemLog list" where
  "ConvertMySQLKubeArmorLogsToKnoxSystemLogs decode docs = map system_log_of (List.map_filter decode docs)"

definition ConvertKubeArmorSystemLogsToKnoxSystemLogs ::
  "('doc \<Rightarrow> SystemLogEvent option) \<Rightarrow> string \<Rightarrow> 'doc list \<Rightarrow> KnoxSystemLog list" where
  "ConvertKubeArmorSystemLogsToKnoxSystemLogs decode dbDriver docs =
     (if dbDriver = ''mysql'' then ConvertMySQLKubeArmorLogsToKnoxSystemLogs decode docs
      else if dbDriver = ''sqlite3'' then ConvertSQLiteKubeArmorLogsToKnoxSystemLogs decode docs
      else [])"

section \<open>Filters\<close>

definition ignoreLogFromRelayWithSource :: "string list \<Rightarrow> string \<Rightarrow> bool" where
  "ignoreLogFromRelayWithSource flt source = list_ex (\<lambda>srcFilter. Contains source srcFilter) flt"

definition ignoreLogFromRelayWithNamespace :: "string list \<Rightarrow> string list \<Rightarrow> string \<Rightarrow> bool" where
  "ignoreLogFromRelayWithNamespace nsFilter nsNotFilter namespace =
     (if length nsFilter > 0 then list_ex (\<lambda>ns. \<not> Contains namespace ns) nsFilter
      else if length nsNotFilter > 0 then list_ex (\<lambda>notns. Contains namespace notns) nsNotFilter
      else False)"

section \<open>The state\<close>

datatype relay_stream = LogStream | AlertStream

text \<open>
  \<^verbatim>\<open>ka_streams\<close> are the goroutines that run, each with the number of its connection;
  \<^verbatim>\<open>ka_next\<close> is the number of connections made so far.
\<close>

record RelayState =
  ka_RelayLogs :: "Alert list"
  ka_NetworkLogs :: "Alert list"
  ka_FCLogs :: "KnoxSystemLog list"
  ka_Started :: bool
  ka_streams :: "(relay_stream \<times> nat) list"
  ka_next :: nat

record RelayCfg =
  rc_NsFilter :: "string list"
  rc_NsNotFilter :: "string list"
  rc_FromSourceFilter :: "string list"
  rc_NetworkLogFrom :: string

definition relay_init :: RelayState where
  "relay_init = \<lparr>ka_RelayLogs = [], ka_NetworkLogs = [], ka_FCLogs = [], ka_Started = False,
     ka_streams = [], ka_next = 0\<rparr>"

section \<open>Reading the buffers\<close>

definition GetSystemAlertsFromKubeArmorRelay :: "int \<Rightarrow> RelayState \<Rightarrow> Alert list \<times> RelayState" where
  "GetSystemAlertsFromKubeArmorRelay trigger s =
     (if length (ka_RelayLogs s) = 0 then ([], s)
      else if int (length (ka_RelayLogs s)) < trigger then ([], s)
      else (ka_RelayLogs s, s\<lparr>ka_RelayLogs := []\<rparr>))"

definition GetSystemLogsFromFeedConsumer :: "int \<Rightarrow> RelayState \<Rightarrow> KnoxSystemLog list \<times> RelayState" where
  "GetSystemLogsFromFeedConsumer trigger s =
     (if length (ka_FCLogs s) = 0 then ([], s)
      else if int (length (ka_FCLogs s)) < trigger then ([], s)
      else (ka_FCLogs s, s\<lparr>ka_FCLogs := []\<rparr>))"

definition GetNetworkLogsFromKubeArmor :: "RelayState \<Rightarrow> Alert list \<times> RelayState" where
  "GetNetworkLogsFromKubeArmor s = (ka_NetworkLogs s, s\<lparr>ka_NetworkLogs := []\<rparr>)"

section \<open>Receiving\<close>

definition LabelJobControllerUid :: string where
  "LabelJobControllerUid = ''controller-uid''"

definition relay_ignored :: "RelayCfg \<Rightarrow> Alert \<Rightarrow> bool" where
  "relay_ignored cfg res \<longleftrightarrow>
     ignoreLogFromRelayWithNamespace (rc_NsFilter cfg) (rc_NsNotFilter cfg) (al_NamespaceName res) \<or>
     ignoreLogFromRelayWithSource (rc_FromSourceFilter cfg) (al_Source res) \<or>
     length (al_Resource res) \<noteq> 0 \<and> al_Operation res \<noteq> ''Network'' \<and> \<not> HasPrefix (al_Resource res) ''/''"

text \<open>A log is copied field by field and always has an owner; an alert is kept as it is.\<close>

definition relay_alert :: "relay_stream \<Rightarrow> Alert \<Rightarrow> Alert" where
  "relay_alert stream res =
     (let res = (case stream of
            LogStream \<Rightarrow> res\<lparr>al_Owner := Some (case al_Owner res of
                None \<Rightarrow> \<lparr>po_Ref = [], po_Name = []\<rparr> | Some ow \<Rightarrow> ow)\<rparr>
          | AlertStream \<Rightarrow> res)
      in res\<lparr>al_Labels := RemoveFieldFromLabel (al_Labels res) LabelJobControllerUid\<rparr>)"

definition relay_receive :: "RelayCfg \<Rightarrow> relay_stream \<Rightarrow> Alert \<Rightarrow> RelayState \<Rightarrow> RelayState" where
  "relay_receive cfg stream res s =
     (if relay_ignored cfg res then s
      else (let a = relay_alert stream res;
                s = s\<lparr>ka_RelayLogs := ka_RelayLogs s @ [a]\<rparr>
            in if rc_NetworkLogFrom cfg = ''kubearmor'' \<and> al_Operation res = ''Network''
               then s\<lparr>ka_NetworkLogs := ka_NetworkLogs s @ [a]\<rparr> else s))"

section \<open>The state machine\<close>

text \<open>
  \<^verbatim>\<open>Start c\<close> is a call of \<^verbatim>\<open>StartKubeArmorRelay\<close> whose connection succeeds if
  \<^verbatim>\<open>c\<close>, \<^verbatim>\<open>Stop\<close> the end of a goroutine (the stop channel, a stream that cannot be opened,
  or an error of \<^verbatim>\<open>Recv\<close>), and \<^verbatim>\<open>Take\<close> and \<^verbatim>\<open>TakeNetwork\<close> are reads with their
  results.
\<close>

datatype relay_event =
    Start bool
  | Recv relay_stream nat Alert
  | Stop relay_stream nat
  | Take int "Alert list"
  | TakeNetwork "Alert list"

inductive relay_step :: "RelayCfg \<Rightarrow> RelayState \<Rightarrow> relay_event \<Rightarrow> RelayState \<Rightarrow> bool" for cfg where
  start_again: "ka_Started s \<Longrightarrow> relay_step cfg s (Start c) s"
| start_fails: "\<not> ka_Started s \<Longrightarrow> relay_step cfg s (Start False) (s\<lparr>ka_Started := True\<rparr>)"
| start_connects: "\<not> ka_Started s \<Longrightarrow> relay_step cfg s (Start True)
    (s\<lparr>ka_Started := True, ka_streams := ka_streams s @ [(LogStream, ka_next s), (AlertStream, ka_next s)],
       ka_next := ka_next s + 1\<rparr>)"
| receive: "(stream, n) \<in> set (ka_streams s) \<Longrightarrow>
    relay_step cfg s (Recv stream n a) (relay_receive cfg stream a s)"
| stop: "(stream, n) \<in> set (ka_streams s) \<Longrightarrow>
    relay_step cfg s (Stop stream n) (s\<lparr>ka_Started := False, ka_streams := remove1 (stream, n) (ka_streams s)\<rparr>)"
| take: "GetSystemAlertsFromKubeArmorRelay trigger s = (results, s') \<Longrightarrow>
    relay_step cfg s (Take trigger results) s'"
| take_network: "GetNetworkLogsFromKubeArmor s = (results, s') \<Longrightarrow>
    relay_step cfg s (TakeNetwork results) s'"

inductive relay_run :: "RelayCfg \<Rightarrow> RelayState \<Rightarrow> relay_event list \<Rightarrow> RelayState \<Rightarrow> bool" for cfg where
  run_Nil: "relay_run cfg s [] s"
| run_Cons: "relay_step cfg s e s' \<Longrightarrow> relay_run cfg s' es s'' \<Longrightarrow> relay_run cfg s (e # es) s''"

inductive_cases relay_stepE: "relay_step cfg s e s'"
inductive_cases relay_runE: "relay_run cfg s (e # es) s'"
inductive_simps relay_run_Nil: "relay_run cfg s [] s'"

section \<open>What a run does to the buffers\<close>

definition received :: "RelayCfg \<Rightarrow> relay_event \<Rightarrow> Alert list" where
  "received cfg e = (case e of
     Recv stream n a \<Rightarrow> if relay_ignored cfg a then [] else [relay_alert stream a] | _ \<Rightarrow> [])"

definition received_network :: "RelayCfg \<Rightarrow> relay_event \<Rightarrow> Alert list" where
  "received_network cfg e = (if rc_NetworkLogFrom cfg = ''kubearmor''
     then filter (\<lambda>a. al_Operation a = ''Network'') (received cfg e) else [])"

definition taken :: "relay_event \<Rightarrow> Alert list" where
  "taken e = (case e of Take t r \<Rightarrow> r | _ \<Rightarrow> [])"

definition taken_network :: "relay_event \<Rightarrow> Alert list" where
  "taken_network e = (case e of TakeNetwork r \<Rightarrow> r | _ \<Rightarrow> [])"

lemma relay_alert_operation [simp]: "al_Operation (relay_alert stream a) = al_Operation a"
  by (cases stream) (simp_all add: relay_alert_def Let_def)

lemma relay_step_buffers:
  assumes "relay_step cfg s e s'"
  shows "taken e @ ka_RelayLogs s' = ka_RelayLogs s @ received cfg e"
    and "taken_network e @ ka_NetworkLogs s' = ka_NetworkLogs s @ received_network cfg e"
    and "e = Take t r \<Longrightarrow> r = [] \<or> t \<le> int (length r)"
  using assms
  by (auto elim!: relay_stepE simp: received_def received_network_def taken_def taken_network_def relay_receive_def
      Let_def GetSystemAlertsFromKubeArmorRelay_def GetNetworkLogsFromKubeArmor_def split: if_splits)

lemma relay_step_stuck:
  assumes "relay_step cfg s e s'" and "ka_Started s" and "ka_streams s = []"
  shows "ka_Started s' \<and> ka_streams s' = [] \<and> (\<forall>stream n a. e \<noteq> Recv stream n a)"
  using assms
  by (auto elim!: relay_stepE simp: GetSystemAlertsFromKubeArmorRelay_def GetNetworkLogsFromKubeArmor_def split: if_splits)

section \<open>Properties\<close>


text \<open>A connection that fails is never tried again: once \<^verbatim>\<open>StartKubeArmorRelay\<close> has not been
  able to connect, the flag stays set and no goroutine runs, in every continuation, so that no log is
  received any more, however often it is called.\<close>

theorem relay_never_retries:
  assumes "relay_run cfg s es s'" and "ka_Started s" and "ka_streams s = []"
  shows "ka_Started s' \<and> ka_streams s' = [] \<and> (\<forall>stream n a. Recv stream n a \<notin> set es)"
  using assms
proof (induction rule: relay_run.induct)
  case (run_Cons s e s' es s'')
  then show ?case using relay_step_stuck [OF run_Cons.hyps(1)] by auto
qed simp

text \<open>What the container runtime does never reaches the discovery: a file log whose source
  names \<^verbatim>\<open>runc\<close>, or a file or process log whose resource does, is converted to a log that the
  filter of the system policies drops. (The text is searched in the whole path, so that the program
  \<^verbatim>\<open>/usr/bin/truncate\<close> is taken for the runtime as well.)\<close>

theorem runtime_logs_are_dropped:
  assumes "ConvertKubeArmorLogToKnoxSystemLog a = Inr l"
    and "al_Operation a = ''File'' \<and> Contains (first_word (al_Source a)) ''runc'' \<or>
      al_Operation a \<in> {''File'', ''Process''} \<and> Contains (first_word (al_Resource a)) ''runc''"
  shows "l \<notin> set (FilterSystemLogsByConfig filters logs pods)"
proof -
  have "sl_Operation l = al_Operation a"
    "sl_Source l = (if Contains (first_word (al_Source a)) ''runc'' then [] else first_word (al_Source a))"
    "sl_Resource l = (if Contains (first_word (al_Resource a)) ''runc'' then [] else first_word (al_Resource a))"
    using assms(1) by (auto simp: ConvertKubeArmorLogToKnoxSystemLog_def Let_def split: if_splits)
  moreover have "\<not> HasPrefix [] ''/''" by (simp add: HasPrefix_def)
  ultimately have "\<not> basic_checks l" using assms(2) by (auto simp: basic_checks_def SYS_OP_NETWORK_def)
  then show ?thesis by (simp add: FilterSystemLogsByConfig_def)
qed

section \<open>Runs\<close>

definition demo_alert :: Alert where
  "demo_alert = \<lparr>al_Timestamp = 1, al_UpdatedTime = [], al_ClusterName = ''c1'', al_HostName = ''node'',
     al_NamespaceName = ''ns'', al_PodName = ''web-1'', al_Labels = ''app=web'', al_ContainerID = [],
     al_ContainerName = ''web'', al_ContainerImage = [], al_ParentProcessName = [], al_ProcessName = [],
     al_HostPPID = 0, al_HostPID = 0, al_PPID = 0, al_PID = 0, al_UID = 0, al_Type = ''ContainerLog'',
     al_Source = ''/usr/bin/truncate -s 0 /var/log/a'', al_Operation = ''File'', al_Resource = ''/var/log/a'',
     al_Data = ''syscall=SYS_OPENAT'', al_Result = ''Passed'', al_Action = [], al_Enforcer = [],
     al_Tags = [], al_Message = [], al_Severity = [], al_PolicyName = [], al_Owner = None\<rparr>"

definition demo_cfg :: RelayCfg where
  "demo_cfg = \<lparr>rc_NsFilter = [], rc_NsNotFilter = [''kube-system''], rc_FromSourceFilter = [],
     rc_NetworkLogFrom = ''hubble''\<rparr>"

definition demo_batch :: "Alert list" where
  "demo_batch = [relay_alert AlertStream demo_alert, relay_alert LogStream demo_alert]"

lemma demo_run:
  "relay_run demo_cfg relay_init
     [Start True, Recv AlertStream 0 demo_alert, Take 2 [], Recv LogStream 0 demo_alert, Take 2 demo_batch]
     (relay_init\<lparr>ka_Started := True, ka_streams := [(LogStream, 0), (AlertStream, 0)], ka_next := 1\<rparr>)"
proof -
  let ?s1 = "relay_init\<lparr>ka_Started := True, ka_streams := [(LogStream, 0), (AlertStream, 0)], ka_next := 1\<rparr>"
  let ?s2 = "?s1\<lparr>ka_RelayLogs := [relay_alert AlertStream demo_alert]\<rparr>"
  let ?s3 = "?s1\<lparr>ka_RelayLogs := demo_batch\<rparr>"
  have keep: "\<not> relay_ignored demo_cfg demo_alert" by code_simp
  have net: "rc_NetworkLogFrom demo_cfg \<noteq> ''kubearmor''" by (simp add: demo_cfg_def)
  have 1: "relay_step demo_cfg relay_init (Start True) ?s1"
    using start_connects [of relay_init demo_cfg] by (simp add: relay_init_def)
  have 2: "relay_step demo_cfg ?s1 (Recv AlertStream 0 demo_alert) ?s2"
    using receive [of AlertStream 0 ?s1 demo_cfg demo_alert]
    by (simp add: relay_receive_def keep net Let_def relay_init_def)
  have 3: "relay_step demo_cfg ?s2 (Take 2 []) ?s2"
    by (rule take) (simp add: GetSystemAlertsFromKubeArmorRelay_def)
  have 4: "relay_step demo_cfg ?s2 (Recv LogStream 0 demo_alert) ?s3"
    using receive [of LogStream 0 ?s2 demo_cfg demo_alert]
    by (simp add: relay_receive_def keep net Let_def relay_init_def demo_batch_def)
  have 5: "relay_step demo_cfg ?s3 (Take 2 demo_batch) ?s1"
    by (rule take) (simp add: GetSystemAlertsFromKubeArmorRelay_def demo_batch_def relay_init_def)
  show ?thesis
    by (rule run_Cons [OF 1 run_Cons [OF 2 run_Cons [OF 3 run_Cons [OF 4 run_Cons [OF 5 run_Nil]]]]])
qed


theorem relay_never_retries_witness:
  "ka_Started (relay_init\<lparr>ka_Started := True\<rparr>) \<and>
   (\<forall>stream n a. Recv stream n a \<notin> set [Start True, Take 1 []])"
proof -
  have "relay_run demo_cfg (relay_init\<lparr>ka_Started := True\<rparr>) [Start True, Take 1 []] (relay_init\<lparr>ka_Started := True\<rparr>)"
    by (rule run_Cons [OF start_again run_Cons [OF take run_Nil]])
      (simp_all add: GetSystemAlertsFromKubeArmorRelay_def relay_init_def)
  from relay_never_retries [OF this] show ?thesis by (simp add: relay_init_def)
qed

theorem runtime_logs_are_dropped_witness:
  "projr (ConvertKubeArmorLogToKnoxSystemLog demo_alert) \<notin>
     set (FilterSystemLogsByConfig [] [projr (ConvertKubeArmorLogToKnoxSystemLog demo_alert)] [])"
proof (rule runtime_logs_are_dropped)
  have "\<not> isl (ConvertKubeArmorLogToKnoxSystemLog demo_alert)" by code_simp
  then show "ConvertKubeArmorLogToKnoxSystemLog demo_alert = Inr (projr (ConvertKubeArmorLogToKnoxSystemLog demo_alert))"
    by (simp add: isl_def split: sum.splits)
  have "al_Operation demo_alert = ''File'' \<and> Contains (first_word (al_Source demo_alert)) ''runc''" by code_simp
  then show "al_Operation demo_alert = ''File'' \<and> Contains (first_word (al_Source demo_alert)) ''runc'' \<or>
      al_Operation demo_alert \<in> {''File'', ''Process''} \<and> Contains (first_word (al_Resource demo_alert)) ''runc''"
    by blast
qed

end
