(* ===== verification/PolicyStore.thy ===== *)
theory PolicyStore
  imports Libs
begin

text \<open>
  \<^verbatim>\<open>libs/consumer.go\<close>: the consumers of discovered policies. A consumer is registered in a
  store, a published policy goes into the channel of every registered consumer whose filter it
  matches, and a goroutine relays the channel to the gRPC stream of the client. The store is a step
  relation: \<^verbatim>\<open>Publish\<close> holds the mutex while it sends, and a send waits while the channel is
  full. A consumer is a pointer, here a number.
\<close>

section \<open>Consumers\<close>

definition PolicyTypeSystem :: string where "PolicyTypeSystem = ''system''"
definition PolicyTypeNetwork :: string where "PolicyTypeNetwork = ''network''"

record GetPolicyRequest =
  rq_Kind :: "string list"
  rq_Cluster :: string
  rq_Namespace :: string
  rq_Label :: "string list"

record PolicyConsumer =
  pc_policyType :: "string list"
  pc_Kind :: "string list"
  pc_Filter :: PolicyFilter

definition IsTypeNetwork :: "PolicyConsumer \<Rightarrow> bool" where
  "IsTypeNetwork pc = ContainsElement (pc_policyType pc) PolicyTypeNetwork"

definition IsTypeSystem :: "PolicyConsumer \<Rightarrow> bool" where
  "IsTypeSystem pc = ContainsElement (pc_policyType pc) PolicyTypeSystem"

text \<open>
  The two kinds of Cilium are constants of a library, \<^verbatim>\<open>cnp\<close> and \<^verbatim>\<open>ccnp\<close>.
\<close>

definition getPolicyTypeFromKind :: "string \<Rightarrow> string \<Rightarrow> string list \<Rightarrow> string list" where
  "getPolicyTypeFromKind cnp ccnp kind =
     (let (isTypeNetwork, isTypeSystem) =
        fold (\<lambda>k (n, s).
          if k = cnp \<or> k = ''NetworkPolicy'' \<or> k = ccnp then (True, s)
          else if k = ''KubeArmorPolicy'' \<or> k = ''KubeArmorHostPolicy'' then (n, True)
          else (n, s)) kind (False, False)
      in (if isTypeNetwork then [PolicyTypeNetwork] else []) @ (if isTypeSystem then [PolicyTypeSystem] else []))"

definition convertGrpcRequestToPolicyFilter :: "GetPolicyRequest \<Rightarrow> PolicyFilter" where
  "convertGrpcRequestToPolicyFilter req =
     \<lparr>pf_Cluster = rq_Cluster req, pf_Namespace = rq_Namespace req,
      pf_Labels = LabelMapFromLabelArray (rq_Label req)\<rparr>"

definition NewPolicyConsumer :: "string \<Rightarrow> string \<Rightarrow> GetPolicyRequest \<Rightarrow> PolicyConsumer" where
  "NewPolicyConsumer cnp ccnp req =
     \<lparr>pc_policyType = getPolicyTypeFromKind cnp ccnp (rq_Kind req), pc_Kind = rq_Kind req,
      pc_Filter = convertGrpcRequestToPolicyFilter req\<rparr>"

section \<open>Matching\<close>

definition matchPolicyYaml :: "PolicyYaml \<Rightarrow> PolicyConsumer \<Rightarrow> bool" where
  "matchPolicyYaml p c =
     (let f = pc_Filter c in
      if pf_Cluster f \<noteq> [] \<and> pf_Cluster f \<noteq> py_Cluster p then False
      else if pf_Namespace f \<noteq> [] \<and> pf_Namespace f \<noteq> py_Namespace p then False
      else if length (sorted_list_of_fmap (pf_Labels f)) \<noteq> 0 \<and> \<not> IsLabelMapSubset (py_Labels p) (pf_Labels f) then False
      else if \<not> ContainsElement (pc_Kind c) (py_Kind p) then False
      else True)"

definition FilterPolicyYamls :: "PolicyYaml list \<Rightarrow> PolicyConsumer \<Rightarrow> PolicyYaml list" where
  "FilterPolicyYamls policyYamls consumer = filter (\<lambda>p. matchPolicyYaml p consumer) policyYamls"

text \<open>The policies of the database, \<^verbatim>\<open>Inl\<close> if they cannot be read.\<close>

definition GetPolicyYamlFromDB :: "string + PolicyYaml list \<Rightarrow> PolicyConsumer \<Rightarrow> PolicyYaml list" where
  "GetPolicyYamlFromDB yamls consumer =
     (case yamls of Inl err \<Rightarrow> [] | Inr policyYamls \<Rightarrow> FilterPolicyYamls policyYamls consumer)"

record GetPolicyResponse =
  rs_Kind :: string
  rs_Name :: string
  rs_Cluster :: string
  rs_Namespace :: string
  rs_Label :: "string list"
  rs_Yaml :: string
  rs_WorkspaceId :: int
  rs_ClusterId :: int

definition convertPolicyYamlToGrpcResponse :: "PolicyYaml \<Rightarrow> GetPolicyResponse" where
  "convertPolicyYamlToGrpcResponse p =
     \<lparr>rs_Kind = py_Kind p, rs_Name = py_Name p, rs_Cluster = py_Cluster p, rs_Namespace = py_Namespace p,
      rs_Label = LabelMapToLabelArray (py_Labels p), rs_Yaml = py_Yaml p,
      rs_WorkspaceId = py_WorkspaceId p, rs_ClusterId = py_ClusterId p\<rparr>"

section \<open>The store\<close>

text \<open>
  \<^verbatim>\<open>ps_publishing\<close> is the call of \<^verbatim>\<open>Publish\<close> that holds the mutex, with the consumers that
  its loop has still to visit; \<^verbatim>\<open>ps_Events\<close> are the channels, \<^verbatim>\<open>ps_relaying\<close> the consumers
  whose goroutine still reads its channel, and \<^verbatim>\<open>ps_sent\<close> what the goroutines have sent.
\<close>

record PolicyStore =
  ps_Consumers :: "(nat \<times> PolicyConsumer) list"
  ps_publishing :: "(PolicyYaml \<times> nat list) option"
  ps_Events :: "nat \<Rightarrow> PolicyYaml list"
  ps_relaying :: "nat set"
  ps_sent :: "nat \<Rightarrow> GetPolicyResponse list"

definition event_capacity :: nat where
  "event_capacity = 64"

definition store_init :: PolicyStore where
  "store_init = \<lparr>ps_Consumers = [], ps_publishing = None, ps_Events = (\<lambda>_. []), ps_relaying = {},
     ps_sent = (\<lambda>_. [])\<rparr>"

definition AddConsumer :: "nat \<Rightarrow> PolicyConsumer \<Rightarrow> PolicyStore \<Rightarrow> PolicyStore" where
  "AddConsumer i c st = st\<lparr>ps_Consumers := AList.update i c (ps_Consumers st), ps_relaying := insert i (ps_relaying st)\<rparr>"

definition RemoveConsumer :: "nat \<Rightarrow> PolicyStore \<Rightarrow> PolicyStore" where
  "RemoveConsumer i st = st\<lparr>ps_Consumers := AList.delete i (ps_Consumers st)\<rparr>"

definition consumer_matches :: "PolicyStore \<Rightarrow> PolicyYaml \<Rightarrow> nat \<Rightarrow> bool" where
  "consumer_matches st p i =
     (case map_of (ps_Consumers st) i of None \<Rightarrow> False | Some c \<Rightarrow> matchPolicyYaml p c)"

datatype store_event =
    Add nat PolicyConsumer
  | Remove nat
  | PublishCall PolicyYaml
  | Visit nat
  | PublishReturn
  | Relay nat
  | Disconnect nat

text \<open>
  \<^verbatim>\<open>Visit i\<close> is a round of the loop of \<^verbatim>\<open>Publish\<close>: it skips a consumer or sends to it,
  which needs room in the channel. \<^verbatim>\<open>Relay i\<close> is a round of
  \<^verbatim>\<open>RelayPolicyEventToGrpcStream\<close>, \<^verbatim>\<open>Disconnect i\<close> its return.
\<close>

inductive store_step :: "PolicyStore \<Rightarrow> store_event \<Rightarrow> PolicyStore \<Rightarrow> bool" where
  add: "ps_publishing st = None \<Longrightarrow> store_step st (Add i c) (AddConsumer i c st)"
| remove: "ps_publishing st = None \<Longrightarrow> store_step st (Remove i) (RemoveConsumer i st)"
| publish: "ps_publishing st = None \<Longrightarrow> distinct is \<Longrightarrow> set is = fst ` set (ps_Consumers st) \<Longrightarrow>
    store_step st (PublishCall p) (st\<lparr>ps_publishing := Some (p, is)\<rparr>)"
| skip: "ps_publishing st = Some (p, i # is) \<Longrightarrow> \<not> consumer_matches st p i \<Longrightarrow>
    store_step st (Visit i) (st\<lparr>ps_publishing := Some (p, is)\<rparr>)"
| send: "ps_publishing st = Some (p, i # is) \<Longrightarrow> consumer_matches st p i \<Longrightarrow>
    length (ps_Events st i) < event_capacity \<Longrightarrow>
    store_step st (Visit i)
      (st\<lparr>ps_publishing := Some (p, is), ps_Events := (ps_Events st)(i := ps_Events st i @ [p])\<rparr>)"
| publish_return: "ps_publishing st = Some (p, []) \<Longrightarrow>
    store_step st PublishReturn (st\<lparr>ps_publishing := None\<rparr>)"
| relay: "i \<in> ps_relaying st \<Longrightarrow> ps_Events st i = p # ps \<Longrightarrow>
    store_step st (Relay i)
      (st\<lparr>ps_Events := (ps_Events st)(i := ps),
          ps_sent := (ps_sent st)(i := ps_sent st i @ [convertPolicyYamlToGrpcResponse p])\<rparr>)"
| disconnect: "i \<in> ps_relaying st \<Longrightarrow>
    store_step st (Disconnect i) (st\<lparr>ps_relaying := ps_relaying st - {i}\<rparr>)"

inductive store_run :: "PolicyStore \<Rightarrow> store_event list \<Rightarrow> PolicyStore \<Rightarrow> bool" where
  run_done: "store_run st [] st"
| run_step: "store_step st e st' \<Longrightarrow> store_run st' es st'' \<Longrightarrow> store_run st (e # es) st''"

inductive_cases store_stepE: "store_step st e st'"

section \<open>Delivery\<close>

definition published :: "store_event \<Rightarrow> PolicyYaml list" where
  "published e = (case e of PublishCall p \<Rightarrow> [p] | _ \<Rightarrow> [])"

text \<open>What a consumer has been given, in its stream and its channel, and what the call of
  \<^verbatim>\<open>Publish\<close> that is under way will still give it.\<close>

definition delivered :: "PolicyStore \<Rightarrow> nat \<Rightarrow> GetPolicyResponse list" where
  "delivered st i = ps_sent st i @ map convertPolicyYamlToGrpcResponse (ps_Events st i)"

definition pending :: "PolicyStore \<Rightarrow> nat \<Rightarrow> PolicyConsumer \<Rightarrow> PolicyYaml list" where
  "pending st i c = (case ps_publishing st of None \<Rightarrow> []
     | Some (p, is) \<Rightarrow> if i \<in> set is \<and> matchPolicyYaml p c then [p] else [])"

definition visits_once :: "PolicyStore \<Rightarrow> bool" where
  "visits_once st \<longleftrightarrow> (case ps_publishing st of None \<Rightarrow> True | Some (p, is) \<Rightarrow> distinct is)"

lemma store_step_delivers:
  assumes "store_step st e st'" and "map_of (ps_Consumers st) i = Some c" and "visits_once st"
    and "\<And>c'. e \<noteq> Add i c'" and "e \<noteq> Remove i"
  shows "map_of (ps_Consumers st') i = Some c \<and> visits_once st' \<and>
    delivered st' i @ map convertPolicyYamlToGrpcResponse (pending st' i c) =
    delivered st i @ map convertPolicyYamlToGrpcResponse (pending st i c) @
      map convertPolicyYamlToGrpcResponse (filter (\<lambda>p. matchPolicyYaml p c) (published e))"
  using assms(1)
proof cases
  case (add j d)
  then show ?thesis using assms(2-4)
    by (auto simp: AddConsumer_def update_conv' visits_once_def delivered_def pending_def published_def)
next
  case (remove j)
  then show ?thesis using assms(2,3,5)
    by (auto simp: RemoveConsumer_def delete_conv' visits_once_def delivered_def pending_def published_def)
next
  case (publish "is" p)
  moreover have "i \<in> fst ` set (ps_Consumers st)" using assms(2) by (force dest: map_of_SomeD)
  ultimately show ?thesis using assms(2)
    by (auto simp: visits_once_def delivered_def pending_def published_def)
qed (use assms(2,3) in \<open>auto simp: visits_once_def delivered_def pending_def published_def consumer_matches_def\<close>)

lemma store_run_delivers:
  assumes "store_run st es st'" and "map_of (ps_Consumers st) i = Some c" and "visits_once st"
    and "\<And>c'. Add i c' \<notin> set es" and "Remove i \<notin> set es"
  shows "delivered st' i @ map convertPolicyYamlToGrpcResponse (pending st' i c) =
    delivered st i @ map convertPolicyYamlToGrpcResponse (pending st i c) @
      map convertPolicyYamlToGrpcResponse (filter (\<lambda>p. matchPolicyYaml p c) (concat (map published es)))"
  using assms
proof (induction rule: store_run.induct)
  case (run_step st e st' es st'')
  have "map_of (ps_Consumers st') i = Some c \<and> visits_once st' \<and>
    delivered st' i @ map convertPolicyYamlToGrpcResponse (pending st' i c) =
    delivered st i @ map convertPolicyYamlToGrpcResponse (pending st i c) @
      map convertPolicyYamlToGrpcResponse (filter (\<lambda>p. matchPolicyYaml p c) (published e))"
    using run_step.hyps(1) run_step.prems by (intro store_step_delivers) auto
  then show ?case using run_step.IH run_step.prems(3,4) by simp
qed simp

definition store_blocked :: "PolicyStore \<Rightarrow> PolicyYaml \<Rightarrow> nat \<Rightarrow> nat list \<Rightarrow> bool" where
  "store_blocked st p i is \<longleftrightarrow>
     ps_publishing st = Some (p, i # is) \<and> consumer_matches st p i \<and>
     event_capacity \<le> length (ps_Events st i) \<and> i \<notin> ps_relaying st"

lemma store_step_blocked:
  assumes "store_step st e st'" and "store_blocked st p i is"
  shows "store_blocked st' p i is \<and> ps_Consumers st' = ps_Consumers st \<and>
    (\<forall>j c q. e \<noteq> Add j c \<and> e \<noteq> Remove j \<and> e \<noteq> PublishCall q \<and> e \<noteq> PublishReturn)"
  using assms by (cases rule: store_step.cases) (auto simp: store_blocked_def consumer_matches_def)

section \<open>Properties\<close>

text \<open>C17: a consumer that stays registered gets every policy that is published and that its filter
  matches, once, in the order of the calls, and nothing else, whatever else is registered, removed
  and relayed in between: what its stream has been sent and its channel holds after the run is what
  it was before followed by these policies.\<close>

theorem Publish_delivers:
  assumes "store_run st es st'" and "ps_publishing st = None" and "ps_publishing st' = None"
    and "map_of (ps_Consumers st) i = Some c"
    and "\<And>c'. Add i c' \<notin> set es" and "Remove i \<notin> set es"
  shows "ps_sent st' i @ map convertPolicyYamlToGrpcResponse (ps_Events st' i) =
    ps_sent st i @ map convertPolicyYamlToGrpcResponse (ps_Events st i) @
      map convertPolicyYamlToGrpcResponse (filter (\<lambda>p. matchPolicyYaml p c) (concat (map published es)))"
  using store_run_delivers [OF assms(1,4) _ assms(5,6)] assms(2,3)
  by (simp add: visits_once_def delivered_def pending_def)

text \<open>A client that goes away while its channel is full locks the store for good. Once \<^verbatim>\<open>Publish\<close>
  waits to send to a consumer whose goroutine has returned, it waits in every continuation, and it
  holds the mutex: no consumer is ever added or removed again (not even this one), and no policy is published.\<close>

theorem Publish_blocks_forever:
  assumes "store_run st es st'" and "store_blocked st p i is"
  shows "store_blocked st' p i is \<and> ps_Consumers st' = ps_Consumers st \<and>
    (\<forall>j c q. Add j c \<notin> set es \<and> Remove j \<notin> set es \<and> PublishCall q \<notin> set es \<and> PublishReturn \<notin> set es)"
  using assms
proof (induction rule: store_run.induct)
  case (run_step st e st' es st'')
  note b = store_step_blocked [OF run_step.hyps(1) run_step.prems]
  then have "store_blocked st'' p i is \<and> ps_Consumers st'' = ps_Consumers st' \<and>
    (\<forall>j c q. Add j c \<notin> set es \<and> Remove j \<notin> set es \<and> PublishCall q \<notin> set es \<and> PublishReturn \<notin> set es)"
    using run_step.IH by blast
  then show ?case using b by auto
qed simp

section \<open>Runs\<close>

definition demo_consumer :: PolicyConsumer where
  "demo_consumer = \<lparr>pc_policyType = [PolicyTypeSystem], pc_Kind = [''KubeArmorPolicy''],
     pc_Filter = \<lparr>pf_Cluster = [], pf_Namespace = ''ns'', pf_Labels = fmempty\<rparr>\<rparr>"

definition demo_yaml :: "string \<Rightarrow> PolicyYaml" where
  "demo_yaml namespace = \<lparr>py_Type = PolicyTypeSystem, py_Kind = ''KubeArmorPolicy'', py_Name = ''p'',
     py_Namespace = namespace, py_Cluster = ''c1'', py_ClusterId = 1, py_WorkspaceId = 1,
     py_Labels = fmempty, py_Yaml = ''kind: KubeArmorPolicy''\<rparr>"

lemma demo_match: "matchPolicyYaml (demo_yaml ''ns'') demo_consumer" "\<not> matchPolicyYaml (demo_yaml ''kube'') demo_consumer"
  by code_simp+

definition demo_store :: PolicyStore where
  "demo_store = AddConsumer 0 demo_consumer store_init"

theorem Publish_delivers_witness:
  "\<exists>st'. store_run demo_store [PublishCall (demo_yaml ''ns''), Visit 0, PublishReturn] st' \<and>
     ps_sent st' 0 @ map convertPolicyYamlToGrpcResponse (ps_Events st' 0) =
       [convertPolicyYamlToGrpcResponse (demo_yaml ''ns'')]"
proof -
  let ?p = "demo_yaml ''ns''"
  let ?es = "[PublishCall ?p, Visit 0, PublishReturn]"
  let ?s1 = "demo_store\<lparr>ps_publishing := Some (?p, [0])\<rparr>"
  let ?s2 = "demo_store\<lparr>ps_publishing := Some (?p, []), ps_Events := (ps_Events demo_store)(0 := [?p])\<rparr>"
  let ?s3 = "?s2\<lparr>ps_publishing := None\<rparr>"
  have init: "ps_Events demo_store 0 = []" "ps_sent demo_store 0 = []" "ps_publishing demo_store = None"
    by (simp_all add: demo_store_def AddConsumer_def store_init_def)
  have 1: "store_step demo_store (PublishCall ?p) ?s1"
    by (rule publish) (simp_all add: demo_store_def AddConsumer_def store_init_def)
  have "consumer_matches ?s1 ?p 0"
    by (simp add: consumer_matches_def demo_match demo_store_def AddConsumer_def store_init_def)
  then have 2: "store_step ?s1 (Visit 0) ?s2"
    using send [of ?s1 ?p 0 "[]"] by (simp add: init event_capacity_def)
  have 3: "store_step ?s2 PublishReturn ?s3"
    using publish_return [of ?s2 ?p] by (simp add: init)
  have run: "store_run demo_store ?es ?s3"
    by (rule run_step [OF 1 run_step [OF 2 run_step [OF 3 run_done]]])
  have "ps_sent ?s3 0 @ map convertPolicyYamlToGrpcResponse (ps_Events ?s3 0) =
      ps_sent demo_store 0 @ map convertPolicyYamlToGrpcResponse (ps_Events demo_store 0) @
      map convertPolicyYamlToGrpcResponse (filter (\<lambda>p. matchPolicyYaml p demo_consumer) (concat (map published ?es)))"
    by (rule Publish_delivers [OF run]) (simp_all add: demo_store_def AddConsumer_def store_init_def)
  then show ?thesis
    using run by (intro exI [of _ ?s3]) (simp add: init published_def demo_match)
qed

definition demo_full :: PolicyStore where
  "demo_full = demo_store\<lparr>ps_publishing := Some (demo_yaml ''ns'', [0]), ps_relaying := {},
     ps_Events := (\<lambda>_. replicate event_capacity (demo_yaml ''ns''))\<rparr>"

theorem Publish_blocks_forever_witness:
  "\<not> (\<exists>st'. store_run demo_full [Remove 0] st')"
proof
  assume "\<exists>st'. store_run demo_full [Remove 0] st'"
  then obtain st' where run: "store_run demo_full [Remove 0] st'" by blast
  have "store_blocked demo_full (demo_yaml ''ns'') 0 []"
    by (simp add: store_blocked_def demo_full_def consumer_matches_def demo_store_def AddConsumer_def store_init_def
        demo_match)
  from Publish_blocks_forever [OF run this] show False by auto
qed

end
