(* ===== verification/GoNet.thy ===== *)
theory GoNet
  imports Prelude
begin

text \<open>
  What the repository uses of Go's packages \<^verbatim>\<open>net\<close>, \<^verbatim>\<open>strconv\<close> and \<^verbatim>\<open>strings\<close> for the addresses and
  ports of network logs: \<^verbatim>\<open>net.ParseIP\<close> with the two tests of an address, \<^verbatim>\<open>strconv.Atoi\<close> and
  \<^verbatim>\<open>strconv.ParseInt(_, 10, 32)\<close>. An address is its 16 bytes; an IPv4 address is
  the IPv6 address that it is mapped to; nil is \<^term>\<open>None\<close>.
\<close>

unbundle bit_operations_syntax

text \<open>\<^verbatim>\<open>strings.ToUpper\<close> on ASCII text.\<close>

definition ToUpper :: "string \<Rightarrow> string" where
  "ToUpper s = map (\<lambda>c. if CHR ''a'' \<le> c \<and> c \<le> CHR ''z'' then char_of (of_char c - 32 :: nat) else c) s"

section \<open>Addresses\<close>

definition is_digit :: "char \<Rightarrow> bool" where
  "is_digit c \<longleftrightarrow> CHR ''0'' \<le> c \<and> c \<le> CHR ''9''"

definition octet :: "string \<Rightarrow> int option" where
  "octet s =
     (if s = [] \<or> \<not> list_all is_digit s \<or> length s > 1 \<and> hd s = CHR ''0'' \<or> int_of_digits 0 s > 255 then None
      else Some (int_of_digits 0 s))"

fun octets :: "string list \<Rightarrow> int list option" where
  "octets [] = Some []"
| "octets (s # ss) = (case (octet s, octets ss) of (Some n, Some ns) \<Rightarrow> Some (n # ns) | _ \<Rightarrow> None)"

definition parse_quad :: "string \<Rightarrow> int list option" where
  "parse_quad s = (let ss = Split s (CHR ''.'') in if length ss = 4 then octets ss else None)"

definition v4_mapped :: "int list \<Rightarrow> int list" where
  "v4_mapped q = replicate 10 0 @ [255, 255] @ q"

definition hex_digit :: "char \<Rightarrow> int option" where
  "hex_digit c =
     (if CHR ''0'' \<le> c \<and> c \<le> CHR ''9'' then Some (of_char c - 48)
      else if CHR ''a'' \<le> c \<and> c \<le> CHR ''f'' then Some (of_char c - 87)
      else if CHR ''A'' \<le> c \<and> c \<le> CHR ''F'' then Some (of_char c - 55)
      else None)"

definition hex_value :: "string \<Rightarrow> int" where
  "hex_value s = fold (\<lambda>c n. n * 16 + (case hex_digit c of Some d \<Rightarrow> d | None \<Rightarrow> 0)) s 0"

text \<open>The loop of \<^verbatim>\<open>parseIPv6\<close>: the bytes read so far, the position of the ellipsis, the rest of the text.\<close>

function v6_groups :: "int list \<Rightarrow> nat option \<Rightarrow> string \<Rightarrow> (int list \<times> nat option \<times> string) option" where
  "v6_groups acc ell s =
     (if length acc \<ge> 16 then Some (acc, ell, s)
      else
        let d = takeWhile (\<lambda>c. hex_digit c \<noteq> None) s;
            rest = dropWhile (\<lambda>c. hex_digit c \<noteq> None) s;
            n = hex_value d
        in if d = [] \<or> n > 0xFFFF then None
           else if rest \<noteq> [] \<and> hd rest = CHR ''.'' then
             (if ell = None \<and> length acc \<noteq> 12 then None
              else if length acc + 4 > 16 then None
              else map_option (\<lambda>q. (acc @ q, ell, [])) (parse_quad s))
           else
             let acc' = acc @ [n div 256, n mod 256]
             in if rest = [] then Some (acc', ell, [])
                else if hd rest \<noteq> CHR '':'' \<or> tl rest = [] then None
                else if hd (tl rest) = CHR '':'' then
                  (if ell \<noteq> None then None
                   else if tl (tl rest) = [] then Some (acc', Some (length acc'), [])
                   else v6_groups acc' (Some (length acc')) (tl (tl rest)))
                else v6_groups acc' ell (tl rest))"
  by pat_completeness auto
termination by (relation "measure (\<lambda>(acc, _, _). 16 - length acc)") auto

declare v6_groups.simps [simp del]

definition parseIPv6 :: "string \<Rightarrow> int list option" where
  "parseIPv6 s =
     (if s = ''::'' then Some (replicate 16 0)
      else
        case (if HasPrefix s ''::'' then v6_groups [] (Some 0) (drop 2 s) else v6_groups [] None s) of
          None \<Rightarrow> None
        | Some (acc, ell, rest) \<Rightarrow>
            if rest \<noteq> [] then None
            else if length acc < 16 then
              map_option (\<lambda>e. take e acc @ replicate (16 - length acc) 0 @ drop e acc) ell
            else if ell \<noteq> None then None else Some acc)"

definition ParseIP :: "string \<Rightarrow> int list option" where
  "ParseIP s =
     (case List.find (\<lambda>c. c = CHR ''.'' \<or> c = CHR '':'') s of
        None \<Rightarrow> None
      | Some c \<Rightarrow> if c = CHR ''.'' then map_option v4_mapped (parse_quad s) else parseIPv6 s)"

definition To4 :: "int list \<Rightarrow> int list option" where
  "To4 ip = (if take 12 ip = v4_mapped [] then Some (drop 12 ip) else None)"

definition IsLinkLocalUnicast :: "int list option \<Rightarrow> bool" where
  "IsLinkLocalUnicast ip \<longleftrightarrow>
     (case ip of None \<Rightarrow> False
      | Some b \<Rightarrow> (case To4 b of
            Some q \<Rightarrow> q ! 0 = 169 \<and> q ! 1 = 254
          | None \<Rightarrow> b ! 0 = 0xfe \<and> (b ! 1) AND 0xc0 = 0x80))"

definition IsLoopback :: "int list option \<Rightarrow> bool" where
  "IsLoopback ip \<longleftrightarrow>
     (case ip of None \<Rightarrow> False
      | Some b \<Rightarrow> (case To4 b of Some q \<Rightarrow> q ! 0 = 127 | None \<Rightarrow> b = replicate 15 0 @ [1]))"

section \<open>Numbers\<close>

text \<open>A sign and decimal digits; other text has no value.\<close>

definition parse_decimal :: "string \<Rightarrow> int option" where
  "parse_decimal s =
     (let neg = HasPrefix s ''-'';
          t = (if neg \<or> HasPrefix s ''+'' then tl s else s)
      in if t = [] \<or> \<not> list_all is_digit t then None
         else Some (if neg then - int_of_digits 0 t else int_of_digits 0 t))"

text \<open>The value that comes with an error, too: zero for text that is no number, and the nearest
  bound for a number out of the range of the bits.\<close>

definition ParseInt :: "nat \<Rightarrow> string \<Rightarrow> int" where
  "ParseInt bits s =
     (case parse_decimal s of None \<Rightarrow> 0
      | Some n \<Rightarrow> max (- (2 ^ (bits - 1))) (min (2 ^ (bits - 1) - 1) n))"

definition Atoi :: "string \<Rightarrow> int" where
  "Atoi s = ParseInt 64 s"

lemma octets_length: "octets ss = Some ns \<Longrightarrow> length ns = length ss"
  by (induction ss arbitrary: ns) (auto split: option.splits)

lemma parse_quad_length: "parse_quad s = Some q \<Longrightarrow> length q = 4"
  by (auto simp: parse_quad_def Let_def octets_length split: if_splits)

text \<open>A port that was written by \<^verbatim>\<open>strconv.Itoa\<close> is read back.\<close>

lemma is_digit_iff: "is_digit c \<longleftrightarrow> (48 :: int) \<le> of_char c \<and> of_char c \<le> (57 :: int)"
proof -
  have "is_digit c \<longleftrightarrow> (48 :: nat) \<le> of_char c \<and> of_char c \<le> (57 :: nat)"
    by (simp add: is_digit_def less_eq_char_def)
  also have "\<dots> \<longleftrightarrow> int 48 \<le> int (of_char c) \<and> int (of_char c) \<le> int 57" by linarith
  finally show ?thesis by (simp add: of_nat_of_char)
qed

lemma parse_decimal_Itoa: "parse_decimal (Itoa n) = Some n"
proof -
  have digits: "list_all is_digit (digits_of m)" if "0 \<le> m" for m
    using digits_of_chars [OF that] by (simp add: list_all_iff is_digit_iff)
  show ?thesis
  proof (cases "n < 0")
    case True
    then show ?thesis using digits [of "- n"] digits_of_no_minus [of "- n"]
      by (simp add: parse_decimal_def Itoa_def HasPrefix_def int_of_digits_of)
  next
    case False
    have "hd (digits_of n) \<noteq> CHR ''+''"
      using digits [of n] False digits_of_no_minus [of n]
      by (cases "digits_of n") (auto simp: is_digit_def)
    then show ?thesis using digits [of n] digits_of_no_minus [of n] int_of_digits_of [of n] False
      by (cases "digits_of n") (auto simp: parse_decimal_def Itoa_def HasPrefix_def)
  qed
qed

lemma ParseInt_Itoa: "- (2 ^ (bits - 1)) \<le> n \<Longrightarrow> n < 2 ^ (bits - 1) \<Longrightarrow> ParseInt bits (Itoa n) = n"
  by (simp add: ParseInt_def parse_decimal_Itoa)

lemma ParseInt_range: "- (2 ^ (bits - 1)) \<le> ParseInt bits s \<and> ParseInt bits s < 2 ^ (bits - 1)"
proof -
  have "(0 :: int) < 2 ^ (bits - 1)" by simp
  then show ?thesis unfolding ParseInt_def by (cases "parse_decimal s") (auto simp: max_def min_def)
qed

end
