(* ===== verification/NetworkPolicy.thy ===== *)
theory NetworkPolicy
  imports Libs
begin

text \<open>
  \<^verbatim>\<open>networkpolicy/networkPolicy.go\<close>: the policies that one network log gives rise to, an
  ingress policy, an egress policy, both or none, and the check of their shape. A pointer to a
  policy that may be nil is an option.
\<close>

section \<open>Constants and building blocks\<close>

definition PolicyTypeIngress :: string where "PolicyTypeIngress = ''ingress''"
definition PolicyTypeEgress :: string where "PolicyTypeEgress = ''egress''"
definition ReservedHost :: string where "ReservedHost = ''reserved:host''"
definition KindKnoxNetworkPolicy :: string where "KindKnoxNetworkPolicy = ''KnoxNetworkPolicy''"
definition KindKnoxHostNetworkPolicy :: string where
  "KindKnoxHostNetworkPolicy = ''KnoxHostNetworkPolicy''"

definition np_meta :: "KnoxNetworkPolicy \<Rightarrow> string \<Rightarrow> string" where
  "np_meta policy k = lookup_str (np_Metadata policy) k"

definition set_np_meta :: "string \<Rightarrow> string \<Rightarrow> KnoxNetworkPolicy \<Rightarrow> KnoxNetworkPolicy" where
  "set_np_meta k v policy = policy\<lparr>np_Metadata := fmupd k v (np_Metadata policy)\<rparr>"

definition set_np_selector :: "LabelMap \<Rightarrow> KnoxNetworkPolicy \<Rightarrow> KnoxNetworkPolicy" where
  "set_np_selector labels policy =
     policy\<lparr>np_Spec := (np_Spec policy)\<lparr>spec_Selector := \<lparr>sel_MatchLabels = labels\<rparr>\<rparr>\<rparr>"

definition add_egress :: "Egress \<Rightarrow> KnoxNetworkPolicy \<Rightarrow> KnoxNetworkPolicy" where
  "add_egress egress policy =
     policy\<lparr>np_Spec := (np_Spec policy)\<lparr>spec_Egress := spec_Egress (np_Spec policy) @ [egress]\<rparr>\<rparr>"

definition add_ingress :: "Ingress \<Rightarrow> KnoxNetworkPolicy \<Rightarrow> KnoxNetworkPolicy" where
  "add_ingress ingress policy =
     policy\<lparr>np_Spec := (np_Spec policy)\<lparr>spec_Ingress := spec_Ingress (np_Spec policy) @ [ingress]\<rparr>\<rparr>"

definition KnoxNetworkPolicy_zero :: KnoxNetworkPolicy where
  "KnoxNetworkPolicy_zero = \<lparr>np_APIVersion = [], np_Kind = [], np_FlowIDs = [], np_Metadata = fmempty,
     np_Outdated = [], np_Spec = \<lparr>spec_Selector = \<lparr>sel_MatchLabels = fmempty\<rparr>, spec_Egress = [],
       spec_Ingress = [], spec_Action = []\<rparr>, np_GeneratedTime = 0, np_UpdatedTime = 0\<rparr>"

definition buildNewKnoxPolicy :: KnoxNetworkPolicy where
  "buildNewKnoxPolicy = \<lparr>np_APIVersion = ''v1'', np_Kind = KindKnoxNetworkPolicy, np_FlowIDs = [],
     np_Metadata = fmupd ''status'' ''latest'' fmempty, np_Outdated = [],
     np_Spec = \<lparr>spec_Selector = \<lparr>sel_MatchLabels = fmempty\<rparr>, spec_Egress = [], spec_Ingress = [],
       spec_Action = ''allow''\<rparr>, np_GeneratedTime = 0, np_UpdatedTime = 0\<rparr>"

definition buildNewKnoxEgressPolicy :: KnoxNetworkPolicy where
  "buildNewKnoxEgressPolicy = set_np_meta ''type'' PolicyTypeEgress buildNewKnoxPolicy"

definition buildNewKnoxIngressPolicy :: KnoxNetworkPolicy where
  "buildNewKnoxIngressPolicy = set_np_meta ''type'' PolicyTypeIngress buildNewKnoxPolicy"

section \<open>Labels and entities\<close>

definition getLabelsFromPod_net :: "string \<Rightarrow> Pod list \<Rightarrow> string list" where
  "getLabelsFromPod_net podName pods =
     (case List.find (\<lambda>pod. pod_PodName pod = podName) pods of
        Some pod \<Rightarrow> pod_Labels pod | None \<Rightarrow> [])"

definition getLabelMapFromArray :: "string list \<Rightarrow> LabelMap" where
  "getLabelMapFromArray labels =
     fold (\<lambda>label m. case Split label (CHR ''='') of [k, v] \<Rightarrow> fmupd k v m | _ \<Rightarrow> m) labels fmempty"

definition getLabelArrayFromMap :: "LabelMap \<Rightarrow> string list" where
  "getLabelArrayFromMap labelMap = sort (map (\<lambda>(k, v). k @ ''='' @ v) (sorted_list_of_fmap labelMap))"

definition getEndpointMatchLabels :: "string \<Rightarrow> Pod list \<Rightarrow> LabelMap" where
  "getEndpointMatchLabels podName pods = getLabelMapFromArray (getLabelsFromPod_net podName pods)"

definition isVM :: "string \<Rightarrow> Pod list \<Rightarrow> bool" where
  "isVM podName pods = ContainsElement (getLabelsFromPod_net podName pods) ReservedHost"

definition getEntityFromReservedLabels :: "string list \<Rightarrow> string" where
  "getEntityFromReservedLabels reservedLabels =
     (let entities = map (\<lambda>label. TrimPrefix label ''reserved:'') reservedLabels
      in if ContainsElement entities ''kube-apiserver'' then ''kube-apiserver''
         else if ContainsElement entities ''world'' then ''world''
         else if ContainsElement entities ''remote-node'' then ''remote-node''
         else if ContainsElement entities ''host'' then ''host''
         else [])"

text \<open>\<^verbatim>\<open>len(labels) == 0\<close>, for a map that may be nil.\<close>

definition no_labels :: "LabelMap option \<Rightarrow> bool" where
  "no_labels m \<longleftrightarrow> (case m of None \<Rightarrow> True | Some m \<Rightarrow> sorted_list_of_fmap m = [])"

section \<open>Rules of a log\<close>

definition log_port :: "KnoxNetworkLog \<Rightarrow> SpecPort" where
  "log_port log = \<lparr>port_Port = Itoa (nl_DstPort log), port_Protocol = GetProtocol (nl_Protocol log)\<rparr>"

definition log_icmp :: "KnoxNetworkLog \<Rightarrow> SpecICMP" where
  "log_icmp log = \<lparr>icmp_Family = (if nl_Protocol log = IPProtocolICMPv6 then ''IPv6'' else ''IPv4''),
     icmp_Type = word_of_int (nl_ICMPType log)\<rparr>"

definition log_http :: "KnoxNetworkLog \<Rightarrow> SpecHTTP" where
  "log_http log = \<lparr>http_Method = nl_HTTPMethod log, http_Path = nl_HTTPPath log, http_Aggregated = False\<rparr>"

text \<open>The port or the ICMP type of the log, and its HTTP rule.\<close>

definition egress_l47 :: "KnoxNetworkLog \<Rightarrow> Egress \<Rightarrow> Egress" where
  "egress_l47 log egress =
     (let egress = (if \<not> IsICMP (nl_Protocol log) then egress\<lparr>eg_ToPorts := [log_port log]\<rparr>
            else egress\<lparr>eg_ICMPs := [log_icmp log]\<rparr>)
      in if nl_L7Protocol log = L7ProtocolHTTP then egress\<lparr>eg_ToHTTPs := [log_http log]\<rparr> else egress)"

definition ingress_l47 :: "KnoxNetworkLog \<Rightarrow> Ingress \<Rightarrow> Ingress" where
  "ingress_l47 log ingress =
     (let ingress = (if \<not> IsICMP (nl_Protocol log) then ingress\<lparr>in_ToPorts := [log_port log]\<rparr>
            else ingress\<lparr>in_ICMPs := [log_icmp log]\<rparr>)
      in if nl_L7Protocol log = L7ProtocolHTTP then ingress\<lparr>in_ToHTTPs := [log_http log]\<rparr> else ingress)"

text \<open>The labels of the peer, with its namespace if that is another one.\<close>

definition peer_labels :: "KnoxNetworkLog \<Rightarrow> string \<Rightarrow> string \<Rightarrow> Pod list \<Rightarrow> LabelMap" where
  "peer_labels log podName namespace pods =
     (let m = getEndpointMatchLabels podName pods
      in if nl_SrcNamespace log \<noteq> nl_DstNamespace log then fmupd ''io.kubernetes.pod.namespace'' namespace m else m)"

definition populateIngressEgressPolicyFromKnoxNetLog :: "KnoxNetworkLog \<Rightarrow> Pod list \<Rightarrow> KnoxNetworkPolicy" where
  "populateIngressEgressPolicyFromKnoxNetLog log pods =
     (let specVal = \<lparr>cidr_CIDRs = [''0.0.0.0/32''], cidr_Except = []\<rparr>;
          portVal = log_port log;
          iePolicy =
            (if nl_Direction log = ''EGRESS'' then
               add_egress (Egress_zero\<lparr>eg_ToPorts := [portVal], eg_ToCIDRs := [specVal]\<rparr>) buildNewKnoxEgressPolicy
             else if nl_Direction log = ''INGRESS'' then
               add_ingress (Ingress_zero\<lparr>in_ToPorts := [portVal], in_FromCIDRs := [specVal]\<rparr>) buildNewKnoxIngressPolicy
             else KnoxNetworkPolicy_zero)
      in set_np_selector (getEndpointMatchLabels (nl_SrcPodName log) pods) iePolicy)"

section \<open>Shape\<close>

definition https_valid :: "SpecHTTP list \<Rightarrow> SpecPort list \<Rightarrow> bool" where
  "https_valid https ports \<longleftrightarrow> \<not> (length https > 0 \<and>
     (length ports = 0 \<or> list_ex (\<lambda>p. port_Protocol p \<noteq> ''TCP'') ports))"

definition ingress_valid :: "Ingress \<Rightarrow> bool" where
  "ingress_valid ingress \<longleftrightarrow>
     \<not> (no_labels (in_MatchLabels ingress) \<and> length (in_FromEntities ingress) = 0 \<and> length (in_FromCIDRs ingress) = 0) \<and>
     \<not> (length (in_ToPorts ingress) = 0 \<and> length (in_ICMPs ingress) = 0) \<and>
     https_valid (in_ToHTTPs ingress) (in_ToPorts ingress)"

definition egress_valid :: "Egress \<Rightarrow> bool" where
  "egress_valid egress \<longleftrightarrow>
     \<not> (no_labels (eg_MatchLabels egress) \<and> length (eg_ToEntities egress) = 0 \<and> length (eg_ToFQDNs egress) = 0 \<and>
        length (eg_ToCIDRs egress) = 0) \<and>
     \<not> (length (eg_ToPorts egress) = 0 \<and> length (eg_ICMPs egress) = 0) \<and>
     https_valid (eg_ToHTTPs egress) (eg_ToPorts egress)"

definition isValidPolicy :: "KnoxNetworkPolicy option \<Rightarrow> bool" where
  "isValidPolicy p =
     (case p of None \<Rightarrow> False
      | Some policy \<Rightarrow>
          sorted_list_of_fmap (sel_MatchLabels (spec_Selector (np_Spec policy))) \<noteq> [] \<and>
          (np_meta policy ''type'' = PolicyTypeIngress \<longrightarrow>
             length (spec_Ingress (np_Spec policy)) \<noteq> 0 \<and> list_all ingress_valid (spec_Ingress (np_Spec policy))) \<and>
          (np_meta policy ''type'' = PolicyTypeEgress \<longrightarrow>
             length (spec_Egress (np_Spec policy)) \<noteq> 0 \<and> list_all egress_valid (spec_Egress (np_Spec policy))))"

section \<open>The policies of a log\<close>

text \<open>Between two pods.\<close>

definition pod_policies :: "KnoxNetworkLog \<Rightarrow> Pod list \<Rightarrow> KnoxNetworkPolicy \<times> KnoxNetworkPolicy" where
  "pod_policies log pods =
     (let ePolicy = set_np_selector (getEndpointMatchLabels (nl_DstPodName log) pods) buildNewKnoxEgressPolicy;
          iPolicy = set_np_selector (getEndpointMatchLabels (nl_SrcPodName log) pods) buildNewKnoxIngressPolicy;
          egress = Egress_zero\<lparr>eg_MatchLabels := Some (peer_labels log (nl_SrcPodName log) (nl_SrcNamespace log) pods)\<rparr>;
          ingress = Ingress_zero\<lparr>in_MatchLabels := Some (peer_labels log (nl_DstPodName log) (nl_DstNamespace log) pods)\<rparr>
      in (set_np_meta ''namespace'' (nl_SrcNamespace log) (add_ingress (ingress_l47 log ingress) iPolicy),
          set_np_meta ''namespace'' (nl_DstNamespace log) (add_egress (egress_l47 log egress) ePolicy)))"

text \<open>From an entity outside to a pod.\<close>

definition from_entity_policy :: "KnoxNetworkLog \<Rightarrow> Pod list \<Rightarrow> KnoxNetworkPolicy option" where
  "from_entity_policy log pods =
     (let srcEntity = getEntityFromReservedLabels (nl_SrcReservedLabels log);
          ingress = Ingress_zero\<lparr>in_FromEntities := [srcEntity]\<rparr>
      in if srcEntity \<noteq> [] then
           Some (set_np_meta ''container_name'' (nl_ContainerName log)
             (set_np_meta ''namespace'' (nl_DstNamespace log) (add_ingress (ingress_l47 log ingress)
               (set_np_selector (getEndpointMatchLabels (nl_DstPodName log) pods) buildNewKnoxIngressPolicy))))
         else None)"

text \<open>From a pod to an entity or a domain outside.\<close>

definition to_entity_policy :: "KnoxNetworkLog \<Rightarrow> Pod list \<Rightarrow> KnoxNetworkPolicy option" where
  "to_entity_policy log pods =
     (let dstEntity = getEntityFromReservedLabels (nl_DstReservedLabels log);
          egress = (if dstEntity = ''world'' \<and> nl_DNSQuery log \<noteq> []
            then Egress_zero\<lparr>eg_ToFQDNs := [\<lparr>fqdn_MatchNames = [nl_DNSQuery log]\<rparr>]\<rparr>
            else Egress_zero\<lparr>eg_ToEntities := [dstEntity]\<rparr>)
      in if dstEntity \<noteq> [] then
           Some (set_np_meta ''container_name'' (nl_ContainerName log)
             (set_np_meta ''namespace'' (nl_SrcNamespace log) (add_egress (egress_l47 log egress)
               (set_np_selector (getEndpointMatchLabels (nl_SrcPodName log) pods) buildNewKnoxEgressPolicy))))
         else None)"

definition cidr_policies ::
  "KnoxNetworkLog \<Rightarrow> Pod list \<Rightarrow> KnoxNetworkPolicy option \<times> KnoxNetworkPolicy option" where
  "cidr_policies log pods =
     (let iePolicy = populateIngressEgressPolicyFromKnoxNetLog log pods;
          iePolicy = (if np_meta iePolicy ''status'' = ''latest''
            then set_np_meta ''container_name'' (nl_ContainerName log)
              (set_np_meta ''namespace'' (nl_SrcNamespace log) iePolicy) else iePolicy)
      in if nl_Direction log = ''EGRESS'' then (None, Some iePolicy)
         else if nl_Direction log = ''INGRESS'' then (Some iePolicy, None)
         else (None, None))"

definition candidate_policies ::
  "KnoxNetworkLog \<Rightarrow> Pod list \<Rightarrow> KnoxNetworkPolicy option \<times> KnoxNetworkPolicy option" where
  "candidate_policies log pods =
     (if nl_SrcPodName log \<noteq> [] \<and> nl_DstPodName log \<noteq> [] then
        map_prod Some Some (pod_policies log pods)
      else if nl_SrcPodName log = [] \<and> length (nl_SrcReservedLabels log) > 0 then (from_entity_policy log pods, None)
      else if nl_DstPodName log = [] \<and> length (nl_DstReservedLabels log) > 0 then (None, to_entity_policy log pods)
      else if nl_DstPodName log = [] \<and> length (nl_DstReservedLabels log) = 0 then cidr_policies log pods
      else (None, None))"

definition host_kind :: "string \<Rightarrow> Pod list \<Rightarrow> KnoxNetworkPolicy option \<Rightarrow> KnoxNetworkPolicy option" where
  "host_kind podName pods p =
     map_option (\<lambda>policy. if podName \<noteq> [] \<and> isVM podName pods
       then policy\<lparr>np_Kind := KindKnoxHostNetworkPolicy\<rparr> else policy) p"

definition convertKnoxNetworkLogToKnoxNetworkPolicy ::
  "KnoxNetworkLog \<Rightarrow> Pod list \<Rightarrow> KnoxNetworkPolicy option \<times> KnoxNetworkPolicy option" where
  "convertKnoxNetworkLogToKnoxNetworkPolicy log pods =
     (let (ingressPolicy, egressPolicy) = candidate_policies log pods;
          ingressPolicy = (if \<not> isValidPolicy ingressPolicy then None else ingressPolicy);
          egressPolicy = (if \<not> isValidPolicy egressPolicy then None else egressPolicy)
      in (host_kind (nl_DstPodName log) pods ingressPolicy, host_kind (nl_SrcPodName log) pods egressPolicy))"

section \<open>Facts\<close>

named_theorems net_policy \<open>the functions that build policies, unfolded\<close>

declare np_meta_def [net_policy] set_np_meta_def [net_policy] set_np_selector_def [net_policy]
  add_egress_def [net_policy] add_ingress_def [net_policy] buildNewKnoxPolicy_def [net_policy]
  buildNewKnoxEgressPolicy_def [net_policy] buildNewKnoxIngressPolicy_def [net_policy]
  PolicyTypeIngress_def [net_policy] PolicyTypeEgress_def [net_policy]

text \<open>The shape of the candidates: one rule, in one direction.\<close>

definition ingress_shape :: "KnoxNetworkPolicy \<Rightarrow> bool" where
  "ingress_shape p \<longleftrightarrow> np_meta p ''type'' = PolicyTypeIngress \<and> np_meta p ''status'' = ''latest'' \<and>
     length (spec_Ingress (np_Spec p)) = 1 \<and> spec_Egress (np_Spec p) = []"

definition egress_shape :: "KnoxNetworkPolicy \<Rightarrow> bool" where
  "egress_shape p \<longleftrightarrow> np_meta p ''type'' = PolicyTypeEgress \<and> np_meta p ''status'' = ''latest'' \<and>
     length (spec_Egress (np_Spec p)) = 1 \<and> spec_Ingress (np_Spec p) = []"

lemma candidates_shape:
  "fst (candidate_policies log pods) = Some p \<Longrightarrow> ingress_shape p"
  "snd (candidate_policies log pods) = Some p \<Longrightarrow> egress_shape p"
  by (auto simp: candidate_policies_def pod_policies_def from_entity_policy_def to_entity_policy_def
      cidr_policies_def populateIngressEgressPolicyFromKnoxNetLog_def Let_def ingress_shape_def egress_shape_def
      net_policy split: if_splits)

lemma isValidPolicy_kind [simp]: "isValidPolicy (Some (p\<lparr>np_Kind := k\<rparr>)) = isValidPolicy (Some p)"
  by (simp add: isValidPolicy_def np_meta_def)

lemma host_kind_cases:
  "host_kind podName pods q = Some p \<Longrightarrow> \<exists>p' k. q = Some p' \<and> p = p'\<lparr>np_Kind := k\<rparr>"
proof -
  assume "host_kind podName pods q = Some p"
  then obtain p' where q: "q = Some p'"
    and p: "p = (if podName \<noteq> [] \<and> isVM podName pods then p'\<lparr>np_Kind := KindKnoxHostNetworkPolicy\<rparr> else p')"
    by (auto simp: host_kind_def)
  have "p = p'\<lparr>np_Kind := if podName \<noteq> [] \<and> isVM podName pods then KindKnoxHostNetworkPolicy else np_Kind p'\<rparr>"
    using p by simp
  then show ?thesis using q by blast
qed

lemma convert_ingress:
  assumes "fst (convertKnoxNetworkLogToKnoxNetworkPolicy log pods) = Some p"
  obtains p' k where "fst (candidate_policies log pods) = Some p'" "isValidPolicy (Some p')" "p = p'\<lparr>np_Kind := k\<rparr>"
  using assms host_kind_cases
  by (fastforce simp: convertKnoxNetworkLogToKnoxNetworkPolicy_def case_prod_unfold Let_def split: if_splits)

lemma convert_egress:
  assumes "snd (convertKnoxNetworkLogToKnoxNetworkPolicy log pods) = Some p"
  obtains p' k where "snd (candidate_policies log pods) = Some p'" "isValidPolicy (Some p')" "p = p'\<lparr>np_Kind := k\<rparr>"
  using assms host_kind_cases
  by (fastforce simp: convertKnoxNetworkLogToKnoxNetworkPolicy_def case_prod_unfold Let_def split: if_splits)

lemma shape_kind [simp]:
  "ingress_shape (p\<lparr>np_Kind := k\<rparr>) = ingress_shape p" "egress_shape (p\<lparr>np_Kind := k\<rparr>) = egress_shape p"
  by (simp_all add: ingress_shape_def egress_shape_def np_meta_def)

lemma convert_shape:
  "fst (convertKnoxNetworkLogToKnoxNetworkPolicy log pods) = Some p \<Longrightarrow> ingress_shape p \<and> isValidPolicy (Some p)"
  "snd (convertKnoxNetworkLogToKnoxNetworkPolicy log pods) = Some q \<Longrightarrow> egress_shape q \<and> isValidPolicy (Some q)"
  by (erule convert_ingress, simp add: candidates_shape) (erule convert_egress, simp add: candidates_shape)

section \<open>Properties\<close>

text \<open>The policies of a log are well formed: an ingress policy has the type and status of one, exactly one
  ingress rule and no egress rule, and the other way round for an egress policy, and each passes
  \<^verbatim>\<open>isValidPolicy\<close>: it selects by at least one label, its rule names a peer and a port or an
  ICMP type, and HTTP rules only with TCP ports.\<close>

theorem convertKnoxNetworkLogToKnoxNetworkPolicy_valid:
  "(\<forall>p. fst (convertKnoxNetworkLogToKnoxNetworkPolicy log pods) = Some p \<longrightarrow>
      ingress_shape p \<and> isValidPolicy (Some p)) \<and>
   (\<forall>p. snd (convertKnoxNetworkLogToKnoxNetworkPolicy log pods) = Some p \<longrightarrow>
      egress_shape p \<and> isValidPolicy (Some p))"
  by (auto simp: convert_shape)

definition demo_net_pods :: "Pod list" where
  "demo_net_pods =
     [\<lparr>pod_Namespace = ''ns'', pod_PodName = ''client'', pod_Labels = [''app=client''], pod_PodIP = ''10.0.0.1''\<rparr>,
      \<lparr>pod_Namespace = ''ns'', pod_PodName = ''server'', pod_Labels = [''app=server''], pod_PodIP = ''10.0.0.2''\<rparr>]"

definition demo_flow :: KnoxNetworkLog where
  "demo_flow = KnoxNetworkLog_zero\<lparr>nl_SrcNamespace := ''ns'', nl_DstNamespace := ''ns'', nl_SrcPodName := ''client'',
     nl_DstPodName := ''server'', nl_Protocol := 6, nl_DstPort := 80, nl_Direction := ''EGRESS''\<rparr>"

theorem convertKnoxNetworkLogToKnoxNetworkPolicy_valid_witness:
  "isValidPolicy (snd (convertKnoxNetworkLogToKnoxNetworkPolicy demo_flow demo_net_pods))"
proof -
  have "snd (convertKnoxNetworkLogToKnoxNetworkPolicy demo_flow demo_net_pods) \<noteq> None" by code_simp
  then obtain p where p: "snd (convertKnoxNetworkLogToKnoxNetworkPolicy demo_flow demo_net_pods) = Some p" by blast
  then show ?thesis using convertKnoxNetworkLogToKnoxNetworkPolicy_valid [of demo_flow demo_net_pods] by simp
qed

text \<open>For a flow between two pods the egress policy is attached to the destination and allows it to
  reach the source, and the ingress policy is attached to the source and allows it to be reached from the destination: both
  policies are those of a flow in the other direction. (The comments of the code, and its test, put the
  egress policy on the source.)\<close>

theorem pod_policies_are_reversed:
  assumes "nl_SrcPodName log \<noteq> []" and "nl_DstPodName log \<noteq> []"
    and "convertKnoxNetworkLogToKnoxNetworkPolicy log pods = (Some i, Some e)"
  shows "sel_MatchLabels (spec_Selector (np_Spec e)) = getEndpointMatchLabels (nl_DstPodName log) pods \<and>
    map eg_MatchLabels (spec_Egress (np_Spec e)) = [Some (peer_labels log (nl_SrcPodName log) (nl_SrcNamespace log) pods)] \<and>
    np_meta e ''namespace'' = nl_DstNamespace log \<and>
    sel_MatchLabels (spec_Selector (np_Spec i)) = getEndpointMatchLabels (nl_SrcPodName log) pods \<and>
    map in_MatchLabels (spec_Ingress (np_Spec i)) = [Some (peer_labels log (nl_DstPodName log) (nl_DstNamespace log) pods)] \<and>
    np_meta i ''namespace'' = nl_SrcNamespace log"
proof -
  obtain e' k i' l where "snd (candidate_policies log pods) = Some e'" "e = e'\<lparr>np_Kind := k\<rparr>"
    "fst (candidate_policies log pods) = Some i'" "i = i'\<lparr>np_Kind := l\<rparr>"
    using convert_egress [of log pods e] convert_ingress [of log pods i] assms(3) by (metis fst_conv snd_conv)
  then show ?thesis using assms(1,2)
    by (auto simp: candidate_policies_def pod_policies_def Let_def net_policy egress_l47_def ingress_l47_def)
qed

theorem pod_policies_are_reversed_witness:
  "map_option (\<lambda>e. sel_MatchLabels (spec_Selector (np_Spec e)))
     (snd (convertKnoxNetworkLogToKnoxNetworkPolicy demo_flow demo_net_pods)) =
   Some (getEndpointMatchLabels ''server'' demo_net_pods)"
proof -
  have "fst (convertKnoxNetworkLogToKnoxNetworkPolicy demo_flow demo_net_pods) \<noteq> None"
    "snd (convertKnoxNetworkLogToKnoxNetworkPolicy demo_flow demo_net_pods) \<noteq> None" by code_simp+
  then obtain i e where c: "convertKnoxNetworkLogToKnoxNetworkPolicy demo_flow demo_net_pods = (Some i, Some e)"
    by (metis not_None_eq prod.collapse)
  from pod_policies_are_reversed [OF _ _ c] show ?thesis by (simp add: c) (simp add: demo_flow_def)
qed

end
