(* ===== verification/NetworkLog.thy ===== *)
theory NetworkLog
  imports SystemPolicy GoNet NetworkPolicy
begin

text \<open>
  \<^verbatim>\<open>networkpolicy/helperFunctions.go\<close>: which network logs the configuration filters out, the choice of
  the logs of a namespace, the domain names of addresses outside the cluster, the ports of the
  services, and the variables that are kept for each cluster. The package variables that hold the
  state of the current cluster are the record \<^verbatim>\<open>ClusterVariable\<close>, as the code itself groups them.
\<close>

section \<open>State\<close>

record SrcSimple =
  ss_Namespace :: string
  ss_PodName :: string
  ss_MatchLabels :: string

record Dst =
  dst_Namespace :: string
  dst_PodName :: string
  dst_Additional :: string
  dst_MatchLabels :: string
  dst_ICMPType :: int
  dst_Protocol :: int
  dst_DstPort :: int
  dst_HTTP :: string

record FlowIDTrackingFirst =
  ft_Src :: SrcSimple
  ft_Dst :: Dst

record FlowIDTrackingSecond =
  ft_AggregatedSrc :: string
  ft_AggregatedDst :: Dst

record ClusterVariable =
  K8sServiceTCPPorts :: "int list"
  K8sServiceUDPPorts :: "int list"
  K8sServiceSCTPPorts :: "int list"
  K8sDNSServices :: "Service list"
  LabeledSrcsPerDst :: "(string \<times> (Dst \<times> SrcSimple list) list) list"
  DomainToIPs :: "(string \<times> string list) list"
  FlowIDTrackerFirst :: "(FlowIDTrackingFirst \<times> int list) list"
  FlowIDTrackerSecond :: "(FlowIDTrackingSecond \<times> int list) list"

definition ClusterVariable_empty :: ClusterVariable where
  "ClusterVariable_empty = \<lparr>K8sServiceTCPPorts = [], K8sServiceUDPPorts = [], K8sServiceSCTPPorts = [],
     K8sDNSServices = [], LabeledSrcsPerDst = [], DomainToIPs = [], FlowIDTrackerFirst = [],
     FlowIDTrackerSecond = []\<rparr>"

type_synonym cluster_map = "(string \<times> ClusterVariable) list"

definition initMultiClusterVariables :: "string \<Rightarrow> cluster_map \<Rightarrow> ClusterVariable" where
  "initMultiClusterVariables clusterName ClusterVariableMap =
     (case map_of ClusterVariableMap clusterName of Some exist \<Rightarrow> exist | None \<Rightarrow> ClusterVariable_empty)"

definition updateMultiClusterVariables :: "string \<Rightarrow> ClusterVariable \<Rightarrow> cluster_map \<Rightarrow> cluster_map" where
  "updateMultiClusterVariables clusterName g ClusterVariableMap =
     (case map_of ClusterVariableMap clusterName of
        Some _ \<Rightarrow> AList.update clusterName g ClusterVariableMap | None \<Rightarrow> ClusterVariableMap)"

definition clearTrackFlowIDMaps :: "ClusterVariable \<Rightarrow> ClusterVariable" where
  "clearTrackFlowIDMaps g = g\<lparr>FlowIDTrackerFirst := [], FlowIDTrackerSecond := []\<rparr>"

section \<open>Filters\<close>

definition getHaveToCheckItems_net :: "NetworkLogFilter \<Rightarrow> int" where
  "getHaveToCheckItems_net igFlows =
     (let check = 0;
          check = (if nlf_SourceNamespace igFlows \<noteq> [] then check OR push_bit 0 1 else check);
          check = (if length (nlf_SourceLabels igFlows) > 0 then check OR push_bit 1 1 else check);
          check = (if nlf_DestinationNamespace igFlows \<noteq> [] then check OR push_bit 2 1 else check);
          check = (if length (nlf_DestinationLabels igFlows) > 0 then check OR push_bit 3 1 else check);
          check = (if nlf_Protocol igFlows \<noteq> [] then check OR push_bit 4 1 else check);
          check = (if nlf_PortNumber igFlows \<noteq> [] then check OR push_bit 5 1 else check)
      in check)"

definition containLabelByConfiguration_net :: "string list \<Rightarrow> string list \<Rightarrow> bool" where
  "containLabelByConfiguration_net igLabels flowLabels =
     list_all (\<lambda>label. ContainsElement flowLabels (''k8s:'' @ label)) igLabels"

text \<open>The checks at the start of the loop, each of which skips the log.\<close>

definition net_basic_checks :: "KnoxNetworkLog \<Rightarrow> bool" where
  "net_basic_checks log \<longleftrightarrow>
     \<not> (IsLinkLocalUnicast (ParseIP (nl_SrcIP log)) \<or> IsLinkLocalUnicast (ParseIP (nl_DstIP log))) \<and>
     \<not> (nl_L7Protocol log = L7ProtocolHTTP \<and> nl_IsReply log) \<and>
     \<not> (nl_L7Protocol log \<noteq> L7ProtocolHTTP \<and> nl_Protocol log = IPProtocolTCP \<and> \<not> nl_SynFlag log) \<and>
     \<not> (nl_Protocol log = IPProtocolUDP \<and> nl_Direction log = ''TRAFFIC_DIRECTION_UNKNOWN'') \<and>
     \<not> (nl_Protocol log = IPProtocolUDP \<and> nl_IsReply log) \<and>
     \<not> (IsICMP (nl_Protocol log) \<and> nl_IsReply log)"

text \<open>The body of the loop over the filters.\<close>

definition net_filter_matches :: "KnoxNetworkLog \<Rightarrow> Pod list \<Rightarrow> NetworkLogFilter \<Rightarrow> bool" where
  "net_filter_matches log pods flt =
     (let checkItems = getHaveToCheckItems_net flt;
          checkedItems = 0;
          checkedItems = (if checkItems AND 1 > 0 \<and> nlf_SourceNamespace flt = nl_SrcNamespace log
            then checkedItems OR push_bit 0 1 else checkedItems);
          checkedItems = (if checkItems AND 2 > 0 \<and>
              containLabelByConfiguration_net (nlf_SourceLabels flt) (getLabelsFromPod_net (nl_SrcPodName log) pods)
            then checkedItems OR push_bit 1 1 else checkedItems);
          checkedItems = (if checkItems AND 4 > 0 \<and> nlf_DestinationNamespace flt = nl_DstNamespace log
            then checkedItems OR push_bit 2 1 else checkedItems);
          checkedItems = (if checkItems AND 8 > 0 \<and>
              containLabelByConfiguration_net (nlf_DestinationLabels flt) (getLabelsFromPod_net (nl_DstPodName log) pods)
            then checkedItems OR push_bit 3 1 else checkedItems);
          checkedItems = (if checkItems AND 16 > 0 \<and> GetProtocol (nl_Protocol log) = ToUpper (nlf_Protocol flt)
            then checkedItems OR push_bit 4 1 else checkedItems);
          checkedItems = (if checkItems AND 32 > 0 \<and>
              (Itoa (nl_SrcPort log) = nlf_PortNumber flt \<or> Itoa (nl_DstPort log) = nlf_PortNumber flt)
            then checkedItems OR push_bit 5 1 else checkedItems)
      in checkItems = checkedItems)"

definition FilterNetworkLogsByConfig ::
  "NetworkLogFilter list \<Rightarrow> KnoxNetworkLog list \<Rightarrow> Pod list \<Rightarrow> KnoxNetworkLog list" where
  "FilterNetworkLogsByConfig NetworkLogFilters logs pods =
     filter (\<lambda>log. net_basic_checks log \<and> \<not> list_ex (net_filter_matches log pods) NetworkLogFilters) logs"

definition FilterNetworkLogsByNamespace :: "string \<Rightarrow> KnoxNetworkLog list \<Rightarrow> KnoxNetworkLog list" where
  "FilterNetworkLogsByNamespace targetNamespace logs =
     filter (\<lambda>log. if nl_SrcNamespace log = targetNamespace then True
       else if length (nl_SrcReservedLabels log) > 0 \<and> nl_DstNamespace log = targetNamespace then True
       else False) logs"

section \<open>Domain names\<close>

definition ReservedWorld :: string where "ReservedWorld = ''reserved:world''"

definition learn_domain :: "KnoxNetworkLog \<Rightarrow> (string \<times> string list) list \<Rightarrow> (string \<times> string list) list" where
  "learn_domain log m =
     (if nl_DNSRes log \<noteq> [] \<and> length (nl_DNSResIPs log) > 0 then
        (case map_of m (nl_DNSRes log) of
           Some dnsIps \<Rightarrow> AList.update (nl_DNSRes log) (append_missing dnsIps (nl_DNSResIPs log)) m
         | None \<Rightarrow> AList.update (nl_DNSRes log) (nl_DNSResIPs log) m)
      else m)"

text \<open>The loop over the map ends at the first domain with the address, in the order that the
  iteration happens to have.\<close>

definition getDomainNameFromDNSToIP ::
  "((string \<times> string list) list \<Rightarrow> (string \<times> string list) list) \<Rightarrow> (string \<times> string list) list \<Rightarrow>
   KnoxNetworkLog \<Rightarrow> string" where
  "getDomainNameFromDNSToIP ord m log =
     (case List.find (\<lambda>(domain, ips). ContainsElement ips (nl_DstIP log)) (ord m) of
        Some (domain, _) \<Rightarrow> domain | None \<Rightarrow> [])"

definition set_dns_query ::
  "((string \<times> string list) list \<Rightarrow> (string \<times> string list) list) \<Rightarrow> (string \<times> string list) list \<Rightarrow>
   KnoxNetworkLog \<Rightarrow> KnoxNetworkLog" where
  "set_dns_query ord m log =
     (if ContainsElement (nl_DstReservedLabels log) ReservedWorld then
        (let dns = getDomainNameFromDNSToIP ord m log
         in if dns \<noteq> [] then log\<lparr>nl_DNSQuery := dns\<rparr> else log)
      else log)"

text \<open>Each log has its own iteration over the map: the order is a function of the position.\<close>

definition updateDNSFlows ::
  "(nat \<Rightarrow> (string \<times> string list) list \<Rightarrow> (string \<times> string list) list) \<Rightarrow> KnoxNetworkLog list \<Rightarrow>
   ClusterVariable \<Rightarrow> ClusterVariable \<times> KnoxNetworkLog list" where
  "updateDNSFlows ord networkLogs g =
     (let m = fold learn_domain networkLogs (DomainToIPs g)
      in (g\<lparr>DomainToIPs := m\<rparr>, map (\<lambda>i. set_dns_query (ord i) m (networkLogs ! i)) [0..<length networkLogs]))"

section \<open>Services\<close>

definition svc_matches :: "KnoxNetworkLog \<Rightarrow> Service \<Rightarrow> bool" where
  "svc_matches log svc \<longleftrightarrow>
     (if nl_DstIP log = sv_ClusterIP svc then True
      else if sv_Type svc = ''NodePort'' then
        ContainsElement (sv_ExternalIPs svc) (nl_DstIP log) \<and> sv_NodePort svc = nl_DstPort log \<and>
        sv_Protocol svc = GetProtocol (nl_Protocol log)
      else ContainsElement (sv_ExternalIPs svc) (nl_DstIP log))"

definition checkK8sService :: "KnoxNetworkLog \<Rightarrow> Service list \<Rightarrow> Service option" where
  "checkK8sService log services = List.find (svc_matches log) services"

definition isExposedPort :: "ClusterVariable \<Rightarrow> int \<Rightarrow> int \<Rightarrow> bool" where
  "isExposedPort g protocol port =
     (if protocol = IPProtocolTCP then ContainsElement (K8sServiceTCPPorts g) port
      else if protocol = IPProtocolUDP then ContainsElement (K8sServiceUDPPorts g) port
      else if protocol = IPProtocolSCTP then ContainsElement (K8sServiceSCTPPorts g) port
      else False)"

definition add_ports :: "string \<Rightarrow> int list \<Rightarrow> ClusterVariable \<Rightarrow> ClusterVariable" where
  "add_ports protocol ports g =
     (if ToLower protocol = ''tcp'' then
        g\<lparr>K8sServiceTCPPorts := append_missing (K8sServiceTCPPorts g) ports\<rparr>
      else if ToLower protocol = ''udp'' then
        g\<lparr>K8sServiceUDPPorts := append_missing (K8sServiceUDPPorts g) ports\<rparr>
      else if ToLower protocol = ''sctp'' then
        g\<lparr>K8sServiceSCTPPorts := append_missing (K8sServiceSCTPPorts g) ports\<rparr>
      else g)"

definition add_service_ports :: "Service list \<Rightarrow> ClusterVariable \<Rightarrow> ClusterVariable" where
  "add_service_ports services =
     fold (\<lambda>service. add_ports (sv_Protocol service)
       [sv_ServicePort service, sv_NodePort service, sv_TargetPort service]) services"

definition add_endpoint_ports :: "Endpoint list \<Rightarrow> ClusterVariable \<Rightarrow> ClusterVariable" where
  "add_endpoint_ports endpoints =
     fold (\<lambda>endpoint. fold (\<lambda>ep. add_ports (map_Protocol ep) [map_Port ep]) (ep_Endpoints endpoint)) endpoints"

definition is_kube_dns :: "Service \<Rightarrow> bool" where
  "is_kube_dns svc \<longleftrightarrow> sv_Namespace svc = ''kube-system'' \<and> sv_ServiceName svc = ''kube-dns'' \<and>
     (sv_Protocol svc = ''UDP'' \<or> sv_Protocol svc = ''TCP'')"

definition updateServiceEndpoint ::
  "Service list \<Rightarrow> Endpoint list \<Rightarrow> Pod list \<Rightarrow> ClusterVariable \<Rightarrow> ClusterVariable" where
  "updateServiceEndpoint services endpoints pods g =
     (let g = add_endpoint_ports endpoints (add_service_ports services g)
      in g\<lparr>K8sDNSServices := K8sDNSServices g @ filter is_kube_dns services\<rparr>)"

section \<open>Clusters\<close>

text \<open>The map of logs has pointers as keys, here numbers with the log each points to. The logs are
  taken from the given map and deleted from the package variable.\<close>

type_synonym log_map = "(nat \<times> KnoxNetworkLog) list"

definition clusteringNetworkLogs ::
  "(log_map \<Rightarrow> log_map) \<Rightarrow> log_map \<Rightarrow> log_map \<Rightarrow> (string \<times> KnoxNetworkLog list) list \<times> log_map" where
  "clusteringNetworkLogs ord networkLogMap NetworkLogMap =
     fold (\<lambda>(p, log) (clusterNameMap, logMap).
         (append_at (nl_ClusterName log) [log] clusterNameMap, AList.delete p logMap))
       (ord networkLogMap) ([], NetworkLogMap)"

section \<open>The masks\<close>

lemma bit_getHaveToCheckItems_net:
  "bit (getHaveToCheckItems_net f) n \<longleftrightarrow>
     nlf_SourceNamespace f \<noteq> [] \<and> n = 0 \<or> nlf_SourceLabels f \<noteq> [] \<and> n = 1 \<or>
     nlf_DestinationNamespace f \<noteq> [] \<and> n = 2 \<or> nlf_DestinationLabels f \<noteq> [] \<and> n = 3 \<or>
     nlf_Protocol f \<noteq> [] \<and> n = 4 \<or> nlf_PortNumber f \<noteq> [] \<and> n = 5"
  unfolding getHaveToCheckItems_net_def Let_def bit_or_push by auto

definition net_filter_spec :: "KnoxNetworkLog \<Rightarrow> Pod list \<Rightarrow> NetworkLogFilter \<Rightarrow> bool" where
  "net_filter_spec log pods f \<longleftrightarrow>
     (nlf_SourceNamespace f \<noteq> [] \<longrightarrow> nlf_SourceNamespace f = nl_SrcNamespace log) \<and>
     (\<forall>l \<in> set (nlf_SourceLabels f). ''k8s:'' @ l \<in> set (getLabelsFromPod_net (nl_SrcPodName log) pods)) \<and>
     (nlf_DestinationNamespace f \<noteq> [] \<longrightarrow> nlf_DestinationNamespace f = nl_DstNamespace log) \<and>
     (\<forall>l \<in> set (nlf_DestinationLabels f). ''k8s:'' @ l \<in> set (getLabelsFromPod_net (nl_DstPodName log) pods)) \<and>
     (nlf_Protocol f \<noteq> [] \<longrightarrow> GetProtocol (nl_Protocol log) = ToUpper (nlf_Protocol f)) \<and>
     (nlf_PortNumber f \<noteq> [] \<longrightarrow> Itoa (nl_SrcPort log) = nlf_PortNumber f \<or> Itoa (nl_DstPort log) = nlf_PortNumber f)"

lemma net_filter_matches_iff: "net_filter_matches log pods f \<longleftrightarrow> net_filter_spec log pods f"
proof -
  let ?sl = "containLabelByConfiguration_net (nlf_SourceLabels f) (getLabelsFromPod_net (nl_SrcPodName log) pods)"
  let ?dl = "containLabelByConfiguration_net (nlf_DestinationLabels f) (getLabelsFromPod_net (nl_DstPodName log) pods)"
  let ?a = "\<lambda>n. (nlf_SourceNamespace f \<noteq> [] \<and> nlf_SourceNamespace f = nl_SrcNamespace log) \<and> n = (0 :: nat) \<or>
     (nlf_SourceLabels f \<noteq> [] \<and> ?sl) \<and> n = 1 \<or>
     (nlf_DestinationNamespace f \<noteq> [] \<and> nlf_DestinationNamespace f = nl_DstNamespace log) \<and> n = 2 \<or>
     (nlf_DestinationLabels f \<noteq> [] \<and> ?dl) \<and> n = 3 \<or>
     (nlf_Protocol f \<noteq> [] \<and> GetProtocol (nl_Protocol log) = ToUpper (nlf_Protocol f)) \<and> n = 4 \<or>
     (nlf_PortNumber f \<noteq> [] \<and> (Itoa (nl_SrcPort log) = nlf_PortNumber f \<or> Itoa (nl_DstPort log) = nlf_PortNumber f)) \<and> n = 5"
  have configured: "(A \<longleftrightarrow> A \<and> B) \<longleftrightarrow> (A \<longrightarrow> B)" for A B by blast
  have labels: "(ls \<noteq> [] \<longrightarrow> containLabelByConfiguration_net ls ms) \<longleftrightarrow> (\<forall>l \<in> set ls. ''k8s:'' @ l \<in> set ms)" for ls ms
    by (auto simp: containLabelByConfiguration_net_def list_all_iff)
  have "net_filter_matches log pods f \<longleftrightarrow> (\<forall>n. bit (getHaveToCheckItems_net f) n \<longleftrightarrow> ?a n)"
    unfolding net_filter_matches_def Let_def bit_eq_iff bit_or_push and_pos_numeral
    by (simp add: bit_getHaveToCheckItems_net)
  also have "\<dots> \<longleftrightarrow> net_filter_spec log pods f"
    unfolding bit_getHaveToCheckItems_net mask_eq_iff net_filter_spec_def configured labels ..
  finally show ?thesis .
qed

section \<open>Properties\<close>

text \<open>\<^verbatim>\<open>FilterNetworkLogsByConfig\<close> keeps, in their order, the logs that pass the basic checks and that no
  configured filter describes: the bit masks of the code are the conjunction of the criteria that a
  filter configures.\<close>

theorem FilterNetworkLogsByConfig_spec:
  "FilterNetworkLogsByConfig flts logs pods =
     filter (\<lambda>log. net_basic_checks log \<and> \<not> (\<exists>f. f \<in> set flts \<and> net_filter_spec log pods f)) logs"
  by (simp add: FilterNetworkLogsByConfig_def net_filter_matches_iff list_ex_iff Bex_def)

end
