(* ===== verification/NetworkMerge.thy ===== *)
theory NetworkMerge
  imports NetworkPolicy SystemPolicy
begin

text \<open>
  \<^verbatim>\<open>networkpolicy/networkPolicy.go\<close>: merging the policies of many logs,
  \<^verbatim>\<open>mergeHttpRules\<close> on the interface \<^verbatim>\<open>L47Rule\<close>, \<^verbatim>\<open>mergeIngressPolicies\<close>,
  \<^verbatim>\<open>mergeEgressPolicies\<close> and \<^verbatim>\<open>DiscoverNetworkPolicy\<close>. The locale
  \<^verbatim>\<open>l47_rule\<close> states what the merge needs of a kind of rules; it is interpreted for ingress and
  for egress rules.
\<close>

section \<open>Merging two rules\<close>

text \<open>
  The interface is given by its three methods. The result is whether the rules match, whether the
  HTTP rules are updated, and the new HTTP rules of the existing rule, nil (empty) without a match.
\<close>

definition mergeHttpRules ::
  "('r \<Rightarrow> SpecICMP list) \<Rightarrow> ('r \<Rightarrow> SpecPort list) \<Rightarrow> ('r \<Rightarrow> SpecHTTP list) \<Rightarrow> 'r \<Rightarrow> 'r \<Rightarrow>
   go_panic + bool \<times> bool \<times> SpecHTTP list" where
  "mergeHttpRules icmps ports https existRule newRule =
     (let existIsICMP = (length (icmps existRule) > 0);
          newIsICMP = (length (icmps newRule) > 0)
      in if existIsICMP \<and> \<not> newIsICMP then Inr (False, False, [])
         else if \<not> existIsICMP \<and> newIsICMP then Inr (False, False, [])
         else if existIsICMP \<and> newIsICMP then
           go_bind (index (icmps existRule) 0) (\<lambda>e. go_bind (index (icmps newRule) 0) (\<lambda>n.
             if SpecICMP_Equal e n then Inr (True, False, []) else Inr (False, False, [])))
         else
           go_bind (index (ports existRule) 0) (\<lambda>e. go_bind (index (ports newRule) 0) (\<lambda>n.
             if SpecPort_Equal e n then
               (let added = filter (\<lambda>h. \<not> ContainsElement (https existRule) h) (https newRule)
                in Inr (True, added \<noteq> [], https existRule @ added))
             else Inr (False, False, []))))"

text \<open>
  The loop over the existing rules: a rule with the same peer is merged, and its HTTP rules are
  replaced whether it matches or not; the loop ends at the first match. The result is whether a
  rule matched, the flag \<^verbatim>\<open>updated\<close>, and the rules.
\<close>

fun merge_scan ::
  "('r \<Rightarrow> SpecICMP list) \<Rightarrow> ('r \<Rightarrow> SpecPort list) \<Rightarrow> ('r \<Rightarrow> SpecHTTP list) \<Rightarrow> (SpecHTTP list \<Rightarrow> 'r \<Rightarrow> 'r) \<Rightarrow>
   ('r \<Rightarrow> go_panic + bool) \<Rightarrow> 'r \<Rightarrow> bool \<Rightarrow> 'r list \<Rightarrow> go_panic + bool \<times> bool \<times> 'r list" where
  "merge_scan icmps ports https set_https same new updated [] = Inr (False, updated, [])"
| "merge_scan icmps ports https set_https same new updated (r # rs) =
     go_bind (same r) (\<lambda>eq.
       if \<not> eq then
         go_bind (merge_scan icmps ports https set_https same new updated rs) (\<lambda>(m, u, rs').
           Inr (m, u, r # rs'))
       else
         go_bind (mergeHttpRules icmps ports https r new) (\<lambda>(m, u, h).
           if m then Inr (True, u, set_https h r # rs)
           else go_bind (merge_scan icmps ports https set_https same new u rs) (\<lambda>(m', u', rs').
             Inr (m', u', set_https h r # rs'))))"

section \<open>Merging policies\<close>

definition label_text :: "LabelMap option \<Rightarrow> string" where
  "label_text m = (case m of None \<Rightarrow> [] | Some m \<Rightarrow> Join (getLabelArrayFromMap m) '','')"

definition same_labels :: "('r \<Rightarrow> LabelMap option) \<Rightarrow> 'r \<Rightarrow> 'r \<Rightarrow> go_panic + bool" where
  "same_labels labels new r = Inr (\<not> no_labels (labels r) \<and> label_text (labels new) = label_text (labels r))"

definition same_entity :: "('r \<Rightarrow> string list) \<Rightarrow> 'r \<Rightarrow> 'r \<Rightarrow> go_panic + bool" where
  "same_entity entities new r = Inr (entities r \<noteq> [] \<and> hd (entities new) = hd (entities r))"

definition first_fqdn :: "Egress \<Rightarrow> go_panic + string" where
  "first_fqdn r = go_bind (index (eg_ToFQDNs r) 0) (\<lambda>f. index (fqdn_MatchNames f) 0)"

definition same_fqdn :: "string \<Rightarrow> Egress \<Rightarrow> go_panic + bool" where
  "same_fqdn newFQDN r =
     (if length (eg_ToFQDNs r) = 0 then Inr False
      else go_bind (first_fqdn r) (\<lambda>existFQDN. Inr (newFQDN = existFQDN)))"

text \<open>\<^verbatim>\<open>checkIfIngressEgressPortExist\<close>, for one direction.\<close>

definition checkIfPortExist :: "('r \<Rightarrow> SpecPort list) \<Rightarrow> SpecPort \<Rightarrow> 'r list \<Rightarrow> bool" where
  "checkIfPortExist ports newToPort rules =
     list_ex (\<lambda>r. ports r \<noteq> [] \<and> hd (ports r) = newToPort) rules"

definition in_set_https :: "SpecHTTP list \<Rightarrow> Ingress \<Rightarrow> Ingress" where
  "in_set_https h r = r\<lparr>in_ToHTTPs := h\<rparr>"

definition eg_set_https :: "SpecHTTP list \<Rightarrow> Egress \<Rightarrow> Egress" where
  "eg_set_https h r = r\<lparr>eg_ToHTTPs := h\<rparr>"

definition ingress_match :: "Ingress \<Rightarrow> bool \<Rightarrow> Ingress list \<Rightarrow> go_panic + bool \<times> bool \<times> Ingress list" where
  "ingress_match newIngress updated rules =
     (let scan = (\<lambda>same. merge_scan Ingress_GetICMPRules Ingress_GetPortRules Ingress_GetHTTPRules in_set_https
            same newIngress updated rules)
      in if \<not> no_labels (in_MatchLabels newIngress) then scan (same_labels in_MatchLabels newIngress)
         else if length (in_FromEntities newIngress) > 0 then scan (same_entity in_FromEntities newIngress)
         else if length (in_FromCIDRs newIngress) > 0 \<and> length (in_ToPorts newIngress) > 0 then
           Inr (checkIfPortExist in_ToPorts (in_ToPorts newIngress ! 0) rules, updated, rules)
         else Inr (False, updated, rules))"

definition egress_match :: "Egress \<Rightarrow> bool \<Rightarrow> Egress list \<Rightarrow> go_panic + bool \<times> bool \<times> Egress list" where
  "egress_match newEgress updated rules =
     (let scan = (\<lambda>same. merge_scan Egress_GetICMPRules Egress_GetPortRules Egress_GetHTTPRules eg_set_https
            same newEgress updated rules)
      in if \<not> no_labels (eg_MatchLabels newEgress) then scan (same_labels eg_MatchLabels newEgress)
         else if length (eg_ToEntities newEgress) > 0 then scan (same_entity eg_ToEntities newEgress)
         else if length (eg_ToFQDNs newEgress) > 0 then
           go_bind (first_fqdn newEgress) (\<lambda>newFQDN. scan (same_fqdn newFQDN))
         else if length (eg_ToCIDRs newEgress) > 0 \<and> length (eg_ToPorts newEgress) > 0 then
           Inr (checkIfPortExist eg_ToPorts (eg_ToPorts newEgress ! 0) rules, updated, rules)
         else Inr (False, updated, rules))"

text \<open>One new rule: merged, or appended if no rule matches.\<close>

definition add_rule ::
  "('r \<Rightarrow> bool \<Rightarrow> 'r list \<Rightarrow> go_panic + bool \<times> bool \<times> 'r list) \<Rightarrow> bool \<times> 'r list \<Rightarrow> 'r \<Rightarrow> go_panic + bool \<times> 'r list" where
  "add_rule match st new =
     go_bind (match new (fst st) (snd st)) (\<lambda>(matched, updated, rules).
       if \<not> matched then Inr (True, rules @ [new]) else Inr (updated, rules))"

definition mergeIngressPolicies ::
  "KnoxNetworkPolicy \<Rightarrow> KnoxNetworkPolicy list \<Rightarrow> go_panic + KnoxNetworkPolicy \<times> bool" where
  "mergeIngressPolicies existPolicy policies =
     go_bind (foldM (add_rule ingress_match) (False, spec_Ingress (np_Spec existPolicy))
         (concat (map (\<lambda>p. spec_Ingress (np_Spec p)) policies)))
       (\<lambda>(updated, rules). Inr (existPolicy\<lparr>np_Spec := (np_Spec existPolicy)\<lparr>spec_Ingress := rules\<rparr>\<rparr>, updated))"

definition mergeEgressPolicies ::
  "KnoxNetworkPolicy \<Rightarrow> KnoxNetworkPolicy list \<Rightarrow> go_panic + KnoxNetworkPolicy \<times> bool" where
  "mergeEgressPolicies existPolicy policies =
     go_bind (foldM (add_rule egress_match) (False, spec_Egress (np_Spec existPolicy))
         (concat (map (\<lambda>p. spec_Egress (np_Spec p)) policies)))
       (\<lambda>(updated, rules). Inr (existPolicy\<lparr>np_Spec := (np_Spec existPolicy)\<lparr>spec_Egress := rules\<rparr>\<rparr>, updated))"

definition mergeNetworkPolicies ::
  "KnoxNetworkPolicy \<Rightarrow> KnoxNetworkPolicy list \<Rightarrow> go_panic + KnoxNetworkPolicy \<times> bool" where
  "mergeNetworkPolicies existPolicy policies =
     (if np_meta existPolicy ''type'' = PolicyTypeIngress then mergeIngressPolicies existPolicy policies
      else mergeEgressPolicies existPolicy policies)"

section \<open>Discovery\<close>

record NetSelector =
  nsel_Kind :: string
  nsel_Labels :: string

definition policy_selector :: "KnoxNetworkPolicy \<Rightarrow> NetSelector" where
  "policy_selector p = \<lparr>nsel_Kind = np_Kind p,
     nsel_Labels = Join (getLabelArrayFromMap (sel_MatchLabels (spec_Selector (np_Spec p)))) '',''\<rparr>"

type_synonym policy_map = "(NetSelector \<times> KnoxNetworkPolicy list) list"

definition group_policy :: "KnoxNetworkPolicy option \<Rightarrow> policy_map \<Rightarrow> policy_map" where
  "group_policy p m = (case p of None \<Rightarrow> m | Some policy \<Rightarrow> append_at (policy_selector policy) [policy] m)"

definition group_policies :: "KnoxNetworkLog list \<Rightarrow> Pod list \<Rightarrow> policy_map \<times> policy_map" where
  "group_policies networkLogs pods =
     fold (\<lambda>log (ingressPolicies, egressPolicies).
       let (ingress, egress) = convertKnoxNetworkLogToKnoxNetworkPolicy log pods
       in (group_policy ingress ingressPolicies, group_policy egress egressPolicies)) networkLogs ([], [])"

text \<open>The second loop replaces the policies of each entry by their merge.\<close>

definition merge_group :: "KnoxNetworkPolicy list \<Rightarrow> go_panic + KnoxNetworkPolicy list" where
  "merge_group policies =
     (if length policies > 1 then
        go_bind (mergeNetworkPolicies (hd policies) (tl policies)) (\<lambda>(mergedPolicy, _). Inr [mergedPolicy])
      else Inr policies)"

definition merge_groups :: "policy_map \<Rightarrow> go_panic + policy_map" where
  "merge_groups m =
     foldM (\<lambda>m' (k, ps). go_bind (merge_group ps) (\<lambda>ps'. Inr (m' @ [(k, ps')]))) [] m"

definition DiscoverNetworkPolicy ::
  "(policy_map \<Rightarrow> policy_map) \<Rightarrow> string \<Rightarrow> KnoxNetworkLog list \<Rightarrow> Service list \<Rightarrow> Pod list \<Rightarrow>
   go_panic + KnoxNetworkPolicy list" where
  "DiscoverNetworkPolicy ord namespace networkLogs services pods =
     (let (ingressPolicies, egressPolicies) = group_policies networkLogs pods in
      go_bind (merge_groups (ord ingressPolicies)) (\<lambda>is.
      go_bind (merge_groups (ord egressPolicies)) (\<lambda>es.
        Inr (concat (map snd is) @ concat (map snd es)))))"

section \<open>The contract of a kind of rules\<close>

text \<open>
  The three methods of the interface, the update of the HTTP rules, and the peer of a rule; the
  laws say that the update changes what one method reads and nothing else.
\<close>

locale l47_rule =
  fixes icmps :: "'r \<Rightarrow> SpecICMP list" and ports :: "'r \<Rightarrow> SpecPort list" and https :: "'r \<Rightarrow> SpecHTTP list"
    and set_https :: "SpecHTTP list \<Rightarrow> 'r \<Rightarrow> 'r" and peer :: "'r \<Rightarrow> 'p"
  assumes icmps_set: "icmps (set_https h r) = icmps r"
    and ports_set: "ports (set_https h r) = ports r"
    and https_set: "https (set_https h r) = h"
    and peer_set: "peer (set_https h r) = peer r"
begin

definition usable :: "'r \<Rightarrow> bool" where
  "usable r \<longleftrightarrow> icmps r \<noteq> [] \<or> ports r \<noteq> []"

definition same_l4 :: "'r \<Rightarrow> 'r \<Rightarrow> bool" where
  "same_l4 r n \<longleftrightarrow>
     (if icmps n \<noteq> [] then icmps r \<noteq> [] \<and> hd (icmps r) = hd (icmps n)
      else icmps r = [] \<and> ports r \<noteq> [] \<and> ports n \<noteq> [] \<and> hd (ports r) = hd (ports n))"

definition http_ok :: "'r \<Rightarrow> bool" where
  "http_ok r \<longleftrightarrow> https_valid (https r) (ports r) \<and> length (ports r) \<le> 1"

definition new_https :: "'r \<Rightarrow> 'r \<Rightarrow> SpecHTTP list" where
  "new_https e n = filter (\<lambda>h. h \<notin> set (https e)) (https n)"

text \<open>The merge, without its branches.\<close>

lemma merge_http_eq:
  "mergeHttpRules icmps ports https e n =
     (if icmps e = [] \<and> icmps n = [] \<and> (ports e = [] \<or> ports n = []) then Inl IndexOutOfRange
      else if same_l4 e n \<and> icmps n = [] then Inr (True, new_https e n \<noteq> [], https e @ new_https e n)
      else Inr (same_l4 e n, False, []))"
proof (cases "icmps e = [] \<and> icmps n = []")
  case True
  then show ?thesis
    by (cases "ports e"; cases "ports n") (simp_all add: mergeHttpRules_def same_l4_def new_https_def Let_def)
next
  case False
  then show ?thesis
    by (cases "icmps e"; cases "icmps n") (simp_all add: mergeHttpRules_def same_l4_def Let_def)
qed

lemma merge_http_total:
  "usable e \<Longrightarrow> usable n \<Longrightarrow> \<exists>m u h. mergeHttpRules icmps ports https e n = Inr (m, u, h)"
  by (auto simp: merge_http_eq usable_def)

lemma merge_http_match:
  assumes "mergeHttpRules icmps ports https e n = Inr (m, u, h)"
  shows "m = same_l4 e n" and "h = (if m \<and> icmps n = [] then https e @ new_https e n else [])"
  using assms by (auto simp: merge_http_eq split: if_splits)

lemma merge_http_ok:
  assumes "mergeHttpRules icmps ports https e n = Inr (m, u, h)" and "http_ok e" and "http_ok n"
  shows "http_ok (set_https h e)"
proof (cases "m \<and> icmps n = []")
  case True
  then have l4: "same_l4 e n" and h: "h = https e @ new_https e n"
    using merge_http_match [OF assms(1)] by auto
  have "ports e = ports n" using l4 True assms(2,3)
    by (cases "ports e"; cases "ports n") (auto simp: same_l4_def http_ok_def)
  moreover have "h \<noteq> [] \<Longrightarrow> https e \<noteq> [] \<or> https n \<noteq> []" using h by (auto simp: new_https_def)
  ultimately show ?thesis using assms(2,3)
    by (auto simp: http_ok_def https_valid_def https_set ports_set)
next
  case False
  then have "h = []" using merge_http_match(2) [OF assms(1)] by auto
  then show ?thesis using assms(2) by (simp add: http_ok_def https_valid_def https_set ports_set)
qed

abbreviation scan where "scan \<equiv> merge_scan icmps ports https set_https"

lemma scan_total:
  assumes "\<And>r. r \<in> set rs \<Longrightarrow> usable r \<and> (\<exists>b. same r = Inr b)" and "usable new"
  shows "\<exists>res. scan same new updated rs = Inr res"
  using assms(1)
proof (induction rs arbitrary: updated)
  case (Cons r rs)
  obtain b where b: "same r = Inr b" using Cons.prems [of r] by auto
  obtain m u h where h: "mergeHttpRules icmps ports https r new = Inr (m, u, h)"
    using merge_http_total [of r new] Cons.prems [of r] assms(2) by auto
  have IH: "\<exists>res. scan same new u' rs = Inr res" for u' using Cons.IH Cons.prems by simp
  obtain r1 r2 where "scan same new updated rs = Inr r1" "scan same new u rs = Inr r2"
    using IH [of updated] IH [of u] by blast
  then show ?case using b h by (cases b; cases m) (auto simp: case_prod_unfold)
qed auto

text \<open>The loop keeps the peers and the ports, and what matches covers the new rule.\<close>

definition l4_of :: "'r \<Rightarrow> 'p \<times> SpecICMP list \<times> SpecPort list" where
  "l4_of r = (peer r, icmps r, ports r)"

lemma scan_keeps:
  "scan same new updated rs = Inr (m, u, rs') \<Longrightarrow> map l4_of rs' = map l4_of rs"
proof (induction rs arbitrary: updated m u rs')
  case (Cons r rs)
  have set: "l4_of (set_https h r) = l4_of r" for h by (simp add: l4_of_def peer_set icmps_set ports_set)
  show ?case using Cons.prems
    by (auto simp: go_bind_Inr_iff set split: if_splits dest: Cons.IH)
qed simp

lemma scan_match:
  "scan same new updated rs = Inr (True, u, rs') \<Longrightarrow>
   \<exists>r \<in> set rs. \<exists>r' \<in> set rs'. same r = Inr True \<and> same_l4 r new \<and> l4_of r' = l4_of r \<and>
     (icmps new = [] \<longrightarrow> set (https new) \<subseteq> set (https r'))"
proof (induction rs arbitrary: updated u rs')
  case (Cons r rs)
  have set: "l4_of (set_https h r) = l4_of r" for h by (simp add: l4_of_def peer_set icmps_set ports_set)
  obtain b where b: "same r = Inr b" using Cons.prems by (auto simp: go_bind_Inr_iff)
  show ?case
  proof (cases b)
    case False
    then obtain rs1 where "scan same new updated rs = Inr (True, u, rs1)" "rs' = r # rs1"
      using Cons.prems b by (auto simp: go_bind_Inr_iff)
    then show ?thesis using Cons.IH [of updated u rs1] by auto
  next
    case True
    then obtain m u1 h where h: "mergeHttpRules icmps ports https r new = Inr (m, u1, h)"
      using Cons.prems b by (auto simp: go_bind_Inr_iff)
    show ?thesis
    proof (cases m)
      case m: True
      then have "rs' = set_https h r # rs" using Cons.prems b True h by simp
      moreover have "icmps new = [] \<Longrightarrow> set (https new) \<subseteq> set (https (set_https h r))"
        using merge_http_match(2) [OF h] m by (auto simp: https_set new_https_def)
      ultimately show ?thesis using merge_http_match(1) [OF h] m b True set by auto
    next
      case m: False
      then obtain rs1 where "scan same new u1 rs = Inr (True, u, rs1)" "rs' = set_https h r # rs1"
        using Cons.prems b True h by (auto simp: go_bind_Inr_iff)
      then show ?thesis using Cons.IH [of u1 u rs1] by auto
    qed
  qed
qed simp

lemma scan_no_match:
  "scan same new updated rs = Inr (False, u, rs') \<Longrightarrow> r \<in> set rs \<Longrightarrow> same r = Inr True \<Longrightarrow> \<not> same_l4 r new"
proof (induction rs arbitrary: updated u rs')
  case (Cons x rs)
  obtain b where b: "same x = Inr b" using Cons.prems by (auto simp: go_bind_Inr_iff)
  obtain u1 rs1 where scan: "scan same new u1 rs = Inr (False, u, rs1)"
    using Cons.prems(1) b by (auto simp: go_bind_Inr_iff split: if_splits)
  show ?case
  proof (cases "r = x")
    case True
    then obtain m u1 h where "mergeHttpRules icmps ports https r new = Inr (m, u1, h)" "\<not> m"
      using Cons.prems by (auto simp: go_bind_Inr_iff split: if_splits)
    then show ?thesis using merge_http_match(1) by blast
  next
    case False
    then show ?thesis using scan Cons.IH Cons.prems(2,3) by auto
  qed
qed simp

lemma scan_ok:
  assumes "scan same new updated rs = Inr (m, u, rs')" and "\<forall>r \<in> set rs. good r" and "http_ok new"
    and "\<And>r. good r \<Longrightarrow> http_ok r" and "\<And>r h. good r \<Longrightarrow> http_ok (set_https h r) \<Longrightarrow> good (set_https h r)"
  shows "\<forall>r \<in> set rs'. good r"
  using assms(1,2)
proof (induction rs arbitrary: updated m u rs')
  case (Cons r rs)
  have "mergeHttpRules icmps ports https r new = Inr (m', u', h) \<Longrightarrow> good (set_https h r)" for m' u' h
    using merge_http_ok [OF _ assms(4) assms(3)] Cons.prems(2) assms(5) by simp
  then show ?case using Cons
    by (auto simp: go_bind_Inr_iff split: if_splits)
qed simp

end

text \<open>
  A way to merge one rule into a list: the loop over the rules with the same peer, or, for rules that name
  CIDRs only, a look at the ports that changes nothing.
\<close>

locale rule_merge = l47_rule icmps ports https set_https peer
  for icmps :: "'r \<Rightarrow> SpecICMP list" and ports :: "'r \<Rightarrow> SpecPort list" and https :: "'r \<Rightarrow> SpecHTTP list"
    and set_https :: "SpecHTTP list \<Rightarrow> 'r \<Rightarrow> 'r" and peer :: "'r \<Rightarrow> 'p" +
  fixes match :: "'r \<Rightarrow> bool \<Rightarrow> 'r list \<Rightarrow> go_panic + bool \<times> bool \<times> 'r list"
    and good :: "'r \<Rightarrow> bool" and by_port :: "'r \<Rightarrow> bool" and same_peer :: "'p \<Rightarrow> 'p \<Rightarrow> bool"
  assumes good_usable: "good r \<Longrightarrow> usable r \<and> http_ok r"
    and good_set: "good r \<Longrightarrow> http_ok (set_https h r) \<Longrightarrow> good (set_https h r)"
    and peer_self: "good r \<Longrightarrow> \<not> by_port r \<Longrightarrow> same_peer (peer r) (peer r)"
    and port_no_peer: "by_port n \<Longrightarrow> \<not> same_peer p (peer n)"
    and match_peer: "good n \<Longrightarrow> \<not> by_port n \<Longrightarrow>
      \<exists>same. (\<forall>u rs. match n u rs = merge_scan icmps ports https set_https same n u rs) \<and>
        (\<forall>r. good r \<longrightarrow> same r = Inr (same_peer (peer r) (peer n)))"
    and match_port: "good n \<Longrightarrow> by_port n \<Longrightarrow> \<exists>m. match n u rs = Inr (m, u, rs)"
begin

definition covers :: "'r \<Rightarrow> 'r \<Rightarrow> bool" where
  "covers r n \<longleftrightarrow> same_peer (peer r) (peer n) \<and> same_l4 r n"

lemma covers_l4: "l4_of r' = l4_of r \<Longrightarrow> covers r' n = covers r n"
  by (simp add: covers_def same_l4_def l4_of_def)

definition minimal :: "'r list \<Rightarrow> bool" where
  "minimal rs \<longleftrightarrow> sorted_wrt (\<lambda>r n. \<not> covers r n) rs"

lemma minimal_l4:
  assumes "map l4_of rs' = map l4_of rs"
  shows "minimal rs' = minimal rs"
proof -
  have len: "length rs' = length rs" using assms by (rule map_eq_imp_length_eq)
  have "l4_of (rs' ! i) = l4_of (rs ! i)" if "i < length rs" for i
    using that assms len by (metis nth_map)
  then have "covers (rs' ! i) (rs' ! j) = covers (rs ! i) (rs ! j)" if "i < j" "j < length rs" for i j
    using that by (simp add: covers_def same_l4_def l4_of_def)
  then show ?thesis using len by (simp add: minimal_def sorted_wrt_iff_nth_less)
qed

lemma covers_self: "good n \<Longrightarrow> \<not> by_port n \<Longrightarrow> covers n n"
  using good_usable [of n] peer_self [of n] by (simp add: covers_def same_l4_def usable_def)

lemma match_ok:
  assumes "good n" and "\<forall>r \<in> set rs. good r"
  obtains m u' rs' where "match n u rs = Inr (m, u', rs')" "map l4_of rs' = map l4_of rs" "\<forall>r \<in> set rs'. good r"
    "\<not> by_port n \<longrightarrow> m = (\<exists>r \<in> set rs. covers r n)"
proof (cases "by_port n")
  case True
  then show ?thesis using match_port [OF assms(1), of u rs] assms(2) that by blast
next
  case False
  then obtain same where match: "\<And>u rs. match n u rs = merge_scan icmps ports https set_https same n u rs"
    and same: "\<And>r. good r \<Longrightarrow> same r = Inr (same_peer (peer r) (peer n))"
    using match_peer [OF assms(1)] by blast
  have n: "usable n" "http_ok n" using good_usable [OF assms(1)] by auto
  obtain m u' rs' where scan: "scan same n u rs = Inr (m, u', rs')"
    using scan_total [of rs same n u] good_usable same assms(2) n by (metis prod_cases3)
  have "m \<longleftrightarrow> (\<exists>r \<in> set rs. covers r n)"
    using scan scan_match [of same n u rs u' rs'] scan_no_match [of same n u rs u' rs'] same assms(2)
    by (cases m) (auto simp: covers_def)
  moreover have "\<forall>r \<in> set rs'. good r"
    by (rule scan_ok [OF scan assms(2) n(2)]) (auto simp: good_usable good_set)
  ultimately show ?thesis using that match scan scan_keeps [OF scan] by auto
qed

text \<open>Merging a list of rules: it does not panic, it keeps what there is up to HTTP rules, it covers each
  new rule that names a peer, and adds no rule that another one covers.\<close>

definition merged :: "'r list \<Rightarrow> 'r list \<Rightarrow> 'r list \<Rightarrow> bool" where
  "merged rs ns rs' \<longleftrightarrow> (\<forall>r \<in> set rs'. good r) \<and> prefix (map l4_of rs) (map l4_of rs') \<and>
     (\<forall>n \<in> set ns. \<not> by_port n \<longrightarrow> (\<exists>r \<in> set rs'. covers r n)) \<and> (minimal rs \<longrightarrow> minimal rs') \<and>
     l4_of ` set rs' \<subseteq> l4_of ` (set rs \<union> set ns)"

lemma l4_mem: "prefix (map l4_of rs) (map l4_of rs') \<Longrightarrow> r \<in> set rs \<Longrightarrow> \<exists>r' \<in> set rs'. l4_of r' = l4_of r"
  by (metis (no_types, lifting) imageE imageI in_mono set_map set_mono_prefix)

lemma merged_step:
  assumes "add_rule match (u, rs) n = Inr (u', rs')" and "good n" and "\<forall>r \<in> set rs. good r"
  shows "merged rs [n] rs'"
proof -
  obtain m v rs1 where m: "match n u rs = Inr (m, v, rs1)" "map l4_of rs1 = map l4_of rs" "\<forall>r \<in> set rs1. good r"
    "\<not> by_port n \<longrightarrow> m = (\<exists>r \<in> set rs. covers r n)" using match_ok [OF assms(2,3), of u] .
  have rs': "rs' = (if m then rs1 else rs1 @ [n])" using assms(1) m(1) by (auto simp: add_rule_def)
  have "\<not> by_port n \<Longrightarrow> m \<Longrightarrow> \<exists>r \<in> set rs1. covers r n"
    using m(4) l4_mem [of rs rs1] m(2) covers_l4 by (metis prefix_order.order_refl)
  moreover have "minimal rs'" if "minimal rs"
  proof (cases m)
    case False
    then have "\<forall>r \<in> set rs. \<not> covers r n" using m(4) port_no_peer by (auto simp: covers_def)
    then have "\<forall>r \<in> set rs1. \<not> covers r n"
      using l4_mem [of rs1 rs] m(2) covers_l4 by (metis prefix_order.order_refl)
    then show ?thesis using that minimal_l4 [OF m(2)] False rs' by (simp add: minimal_def sorted_wrt_append)
  qed (simp add: that rs' minimal_l4 [OF m(2)])
  moreover have "l4_of ` set rs1 = l4_of ` set rs" using m(2) by (metis set_map)
  ultimately show ?thesis using rs' m assms(2) covers_self by (auto simp: merged_def)
qed

lemma add_rule_total:
  assumes "good n" and "\<forall>r \<in> set rs. good r"
  shows "\<exists>u' rs'. add_rule match (u, rs) n = Inr (u', rs')"
proof -
  obtain m v rs1 where "match n u rs = Inr (m, v, rs1)" using match_ok [OF assms, of u] .
  then show ?thesis by (cases m) (auto simp: add_rule_def)
qed

lemma merged_trans: "merged rs ns rs' \<Longrightarrow> merged rs' ms rs'' \<Longrightarrow> merged rs (ns @ ms) rs''"
proof -
  assume m: "merged rs ns rs'" "merged rs' ms rs''"
  have pre: "prefix (map l4_of rs) (map l4_of rs')" "prefix (map l4_of rs') (map l4_of rs'')"
    and cov: "\<forall>n \<in> set ns. \<not> by_port n \<longrightarrow> (\<exists>r \<in> set rs'. covers r n)"
      "\<forall>n \<in> set ms. \<not> by_port n \<longrightarrow> (\<exists>r \<in> set rs''. covers r n)"
    and img: "l4_of ` set rs' \<subseteq> l4_of ` set rs \<union> l4_of ` set ns" "l4_of ` set rs'' \<subseteq> l4_of ` set rs' \<union> l4_of ` set ms"
    and rest: "\<forall>r \<in> set rs''. good r" "minimal rs \<longrightarrow> minimal rs''"
    using m by (simp_all add: merged_def image_Un)
  have "\<exists>r \<in> set rs''. covers r n" if "\<exists>r \<in> set rs'. covers r n" for n
    using that l4_mem [OF pre(2)] covers_l4 by blast
  then have "\<forall>n \<in> set (ns @ ms). \<not> by_port n \<longrightarrow> (\<exists>r \<in> set rs''. covers r n)" using cov by auto
  moreover have "l4_of ` set rs'' \<subseteq> l4_of ` (set rs \<union> set (ns @ ms))"
    using subset_trans [OF img(2) Un_mono [OF img(1) subset_refl]] by (simp add: image_Un Un_assoc)
  ultimately show ?thesis using rest prefix_order.trans [OF pre] by (simp add: merged_def)
qed

lemma merge_rules:
  assumes "\<forall>n \<in> set ns. good n" and "\<forall>r \<in> set rs. good r"
  shows "\<exists>u' rs'. foldM (add_rule match) (u, rs) ns = Inr (u', rs') \<and> merged rs ns rs'"
  using assms
proof (induction ns arbitrary: u rs)
  case Nil
  then show ?case by (simp add: merged_def)
next
  case (Cons n ns)
  obtain v rs1 where step: "add_rule match (u, rs) n = Inr (v, rs1)"
    using add_rule_total [of n rs u] Cons.prems by auto
  have m: "merged rs [n] rs1" using merged_step [OF step] Cons.prems by simp
  then obtain u' rs' where "foldM (add_rule match) (v, rs1) ns = Inr (u', rs')" "merged rs1 ns rs'"
    using Cons.IH [of rs1 v] Cons.prems by (auto simp: merged_def)
  then show ?case using step merged_trans [OF m] by fastforce
qed

end

text \<open>A kind of policies whose rules are merged that way.\<close>

locale policy_merge = rule_merge icmps ports https set_https peer match good by_port same_peer
  for icmps :: "'r \<Rightarrow> SpecICMP list" and ports :: "'r \<Rightarrow> SpecPort list" and https :: "'r \<Rightarrow> SpecHTTP list"
    and set_https :: "SpecHTTP list \<Rightarrow> 'r \<Rightarrow> 'r" and peer :: "'r \<Rightarrow> 'p"
    and match :: "'r \<Rightarrow> bool \<Rightarrow> 'r list \<Rightarrow> go_panic + bool \<times> bool \<times> 'r list"
    and good :: "'r \<Rightarrow> bool" and by_port :: "'r \<Rightarrow> bool" and same_peer :: "'p \<Rightarrow> 'p \<Rightarrow> bool" +
  fixes rules :: "KnoxNetworkPolicy \<Rightarrow> 'r list" and set_rules :: "'r list \<Rightarrow> KnoxNetworkPolicy \<Rightarrow> KnoxNetworkPolicy"
    and direction :: "KnoxNetworkPolicy \<Rightarrow> bool"
  assumes rules_set: "rules (set_rules rs p) = rs"
    and set_rules_id: "set_rules (rules p) p = p"
    and direction_set: "direction (set_rules rs p) = direction p"
    and selector_set: "policy_selector (set_rules rs p) = policy_selector p"
    and merge_eq: "direction p \<Longrightarrow> mergeNetworkPolicies p ps =
      go_bind (foldM (add_rule match) (False, rules p) (concat (map rules ps))) (\<lambda>(u, rs). Inr (set_rules rs p, u))"
begin

text \<open>What a policy of one log looks like, and the merge of the policies of one selector.\<close>

definition single :: "KnoxNetworkPolicy \<Rightarrow> bool" where
  "single p \<longleftrightarrow> direction p \<and> (\<exists>r. rules p = [r] \<and> good r)"

definition merged_policy :: "KnoxNetworkPolicy list \<Rightarrow> KnoxNetworkPolicy \<Rightarrow> bool" where
  "merged_policy ps q \<longleftrightarrow> (\<exists>rs. q = set_rules rs (hd ps) \<and> rs \<noteq> [] \<and> (\<forall>r \<in> set rs. good r) \<and> minimal rs \<and>
     (\<forall>p \<in> set ps. \<forall>n \<in> set (rules p). \<not> by_port n \<longrightarrow> (\<exists>r \<in> set rs. covers r n)) \<and>
     (\<forall>r \<in> set rs. \<exists>p \<in> set ps. \<exists>n \<in> set (rules p). l4_of r = l4_of n))"

lemma merge_group_single:
  assumes "ps \<noteq> []" and "\<forall>p \<in> set ps. single p"
  shows "\<exists>q. merge_group ps = Inr [q] \<and> merged_policy ps q"
proof -
  obtain p qs where ps: "ps = p # qs" using assms(1) by (cases ps) auto
  obtain r where r: "rules p = [r]" "good r" "direction p" using assms(2) ps by (auto simp: single_def)
  have "\<forall>n \<in> set (concat (map rules qs)). good n" using assms(2) ps by (auto simp: single_def)
  then obtain u rs where m: "foldM (add_rule match) (False, rules p) (concat (map rules qs)) = Inr (u, rs)"
    "merged (rules p) (concat (map rules qs)) rs"
    using merge_rules [of "concat (map rules qs)" "rules p" False] r by auto
  have "merge_group ps = Inr [set_rules rs (hd ps)]"
  proof (cases qs)
    case Nil
    then have "rs = rules p" using m(1) by simp
    then show ?thesis using ps Nil set_rules_id [of p] by (simp add: merge_group_def)
  qed (use ps m(1) merge_eq [OF r(3)] in \<open>simp add: merge_group_def\<close>)
  moreover have "\<exists>r' \<in> set rs. covers r' n" if n: "n \<in> set (rules p)" "\<not> by_port n" for n
  proof -
    have "covers n n" using n r by (intro covers_self) auto
    moreover obtain r' where "r' \<in> set rs" "l4_of r' = l4_of n"
      using l4_mem [of "rules p" rs n] n(1) m(2) unfolding merged_def by blast
    ultimately show ?thesis using covers_l4 by blast
  qed
  moreover have "rs \<noteq> []" using m(2) r(1) by (auto simp: merged_def)
  moreover have "minimal rs" using m(2) r(1) by (simp add: merged_def minimal_def)
  moreover have "\<forall>p \<in> set qs. \<forall>n \<in> set (rules p). \<not> by_port n \<longrightarrow> (\<exists>r \<in> set rs. covers r n)"
    "\<forall>r \<in> set rs. good r" using m(2) by (auto simp: merged_def)
  moreover have "\<forall>r \<in> set rs. \<exists>p \<in> set ps. \<exists>n \<in> set (rules p). l4_of r = l4_of n"
    using m(2) ps by (fastforce simp: merged_def)
  ultimately have "merged_policy ps (set_rules rs (hd ps))"
    unfolding merged_policy_def by (intro exI [of _ rs] conjI) (simp_all add: ps)
  then show ?thesis using \<open>merge_group ps = Inr [set_rules rs (hd ps)]\<close> by blast
qed

definition group_ok :: "policy_map \<Rightarrow> bool" where
  "group_ok m \<longleftrightarrow> distinct (map fst m) \<and>
     (\<forall>(k, ps) \<in> set m. ps \<noteq> [] \<and> (\<forall>p \<in> set ps. single p \<and> policy_selector p = k))"

text \<open>The merge of all groups: the result has one policy for each, of the same selector.\<close>

definition result_ok :: "policy_map \<Rightarrow> policy_map \<Rightarrow> bool" where
  "result_ok m m' \<longleftrightarrow> list_all2 (\<lambda>(k, ps) (k', qs). k' = k \<and> (\<exists>q. qs = [q] \<and> merged_policy ps q)) m m'"

lemma merge_groups_ok:
  assumes "group_ok m"
  shows "\<exists>m'. merge_groups m = Inr m' \<and> result_ok m m'"
proof -
  have "\<exists>m'. foldM (\<lambda>m' (k, ps). go_bind (merge_group ps) (\<lambda>ps'. Inr (m' @ [(k, ps')]))) acc m = Inr (acc @ m') \<and>
      result_ok m m'" for acc
    using assms
  proof (induction m arbitrary: acc)
    case (Cons x m)
    obtain k ps where x: "x = (k, ps)" by fastforce
    have "ps \<noteq> []" "\<forall>p \<in> set ps. single p" using Cons.prems x by (auto simp: group_ok_def)
    then obtain q where q: "merge_group ps = Inr [q]" "merged_policy ps q" using merge_group_single by blast
    have "group_ok m" using Cons.prems by (simp add: group_ok_def)
    then obtain m' where m': "foldM (\<lambda>m' (k, ps). go_bind (merge_group ps) (\<lambda>ps'. Inr (m' @ [(k, ps')])))
        (acc @ [(k, [q])]) m = Inr ((acc @ [(k, [q])]) @ m')" "result_ok m m'"
      using Cons.IH [of "acc @ [(k, [q])]"] by blast
    show ?case
      by (rule exI [of _ "(k, [q]) # m'"]) (use m' q x in \<open>simp add: result_ok_def\<close>)
  qed (simp add: result_ok_def)
  from this [of "[]"] show ?thesis by (simp add: merge_groups_def)
qed

text \<open>Grouping by selector.\<close>

lemma group_policy_ok:
  assumes "group_ok m" and "\<And>p. q = Some p \<Longrightarrow> single p"
  shows "group_ok (group_policy q m)"
    and "(k, ps) \<in> set m \<Longrightarrow> \<exists>qs. (k, qs) \<in> set (group_policy q m) \<and> set ps \<subseteq> set qs"
    and "q = Some p \<Longrightarrow> \<exists>qs. (policy_selector p, qs) \<in> set (group_policy q m) \<and> p \<in> set qs"
    and "(k, qs) \<in> set (group_policy q m) \<Longrightarrow> p \<in> set qs \<Longrightarrow> q = Some p \<or> (\<exists>ps. (k, ps) \<in> set m \<and> p \<in> set ps)"
proof -
  have d: "distinct (map fst m)" using assms(1) by (simp add: group_ok_def)
  have upd: "set (group_policy (Some p) m) = insert (policy_selector p, entries m (policy_selector p) @ [p])
      {(a, b). (a, b) \<in> set m \<and> a \<noteq> policy_selector p}" for p
    by (simp add: group_policy_def append_at_def set_AList_update [OF d])
  have old: "p \<in> set (entries m k) \<Longrightarrow> \<exists>ps. (k, ps) \<in> set m \<and> p \<in> set ps" for p k
    using entries_mem [of m k] by fastforce
  show "group_ok (group_policy q m)"
  proof (cases q)
    case (Some p)
    have "single x \<and> policy_selector x = policy_selector p" if "x \<in> set (entries m (policy_selector p))" for x
      using old [OF that] assms(1) by (auto simp: group_ok_def)
    then show ?thesis using assms Some d upd [of p] append_at_distinct [OF d]
      by (auto simp: group_ok_def group_policy_def)
  qed (use assms in \<open>simp add: group_policy_def\<close>)
  show "(k, ps) \<in> set m \<Longrightarrow> \<exists>qs. (k, qs) \<in> set (group_policy q m) \<and> set ps \<subseteq> set qs"
    using upd entries_of_mem [OF d, of k ps]
    by (cases q; cases "Some k = map_option policy_selector q") (auto simp: group_policy_def [of None])
  show "q = Some p \<Longrightarrow> \<exists>qs. (policy_selector p, qs) \<in> set (group_policy q m) \<and> p \<in> set qs"
    using upd by auto
  show "(k, qs) \<in> set (group_policy q m) \<Longrightarrow> p \<in> set qs \<Longrightarrow> q = Some p \<or> (\<exists>ps. (k, ps) \<in> set m \<and> p \<in> set ps)"
    using upd old by (cases q) (auto simp: group_policy_def [of None], blast+)
qed

lemma group_policies_ok:
  assumes "\<forall>p. Some p \<in> set qs \<longrightarrow> single p"
  shows "group_ok (fold group_policy qs [])"
    and "Some p \<in> set qs \<Longrightarrow> \<exists>ps. (policy_selector p, ps) \<in> set (fold group_policy qs []) \<and> p \<in> set ps"
    and "(k, ps) \<in> set (fold group_policy qs []) \<Longrightarrow> p \<in> set ps \<Longrightarrow> Some p \<in> set qs"
proof -
  have "group_ok (fold group_policy qs []) \<and>
    (\<forall>p. Some p \<in> set qs \<longrightarrow> (\<exists>ps. (policy_selector p, ps) \<in> set (fold group_policy qs []) \<and> p \<in> set ps)) \<and>
    (\<forall>(k, ps) \<in> set (fold group_policy qs []). \<forall>p \<in> set ps. Some p \<in> set qs)"
    using assms
  proof (induction qs rule: rev_induct)
    case (snoc q qs)
    let ?m = "fold group_policy qs []"
    have IH: "group_ok ?m" "\<And>p. Some p \<in> set qs \<Longrightarrow> \<exists>ps. (policy_selector p, ps) \<in> set ?m \<and> p \<in> set ps"
      "\<And>k ps p. (k, ps) \<in> set ?m \<Longrightarrow> p \<in> set ps \<Longrightarrow> Some p \<in> set qs"
      using snoc by fastforce+
    note ok = group_policy_ok [OF IH(1), of q]
    have q: "q = Some p \<Longrightarrow> single p" for p using snoc.prems by simp
    have "\<exists>ps. (policy_selector p, ps) \<in> set (group_policy q ?m) \<and> p \<in> set ps" if p: "Some p \<in> set (qs @ [q])" for p
    proof (cases "q = Some p")
      case False
      then obtain ps where "(policy_selector p, ps) \<in> set ?m" "p \<in> set ps" using IH(2) [of p] p by auto
      then show ?thesis using ok(2) [OF q] by fastforce
    qed (use ok(3) [OF q] in blast)
    then show ?case using ok(1) [OF q] ok(4) [OF q] IH(3) by fastforce
  qed (simp add: group_ok_def)
  then show "group_ok (fold group_policy qs [])"
    and "Some p \<in> set qs \<Longrightarrow> \<exists>ps. (policy_selector p, ps) \<in> set (fold group_policy qs []) \<and> p \<in> set ps"
    and "(k, ps) \<in> set (fold group_policy qs []) \<Longrightarrow> p \<in> set ps \<Longrightarrow> Some p \<in> set qs"
    by auto
qed

text \<open>What the caller reads off: the policies of the groups, in both directions.\<close>

lemma result_group:
  assumes "result_ok m m'" and "group_ok m" and "q \<in> set (concat (map snd m'))"
  obtains ps where "(policy_selector q, ps) \<in> set m" "ps \<noteq> []" "\<forall>p \<in> set ps. single p" "merged_policy ps q" "direction q"
proof -
  have "\<exists>x \<in> set m. merged_policy (snd x) q"
    using assms(1,3) unfolding result_ok_def
    by (induction rule: list_all2_induct) (auto split: prod.splits)
  then obtain k ps where m: "(k, ps) \<in> set m" "merged_policy ps q" by auto
  have ps: "ps \<noteq> []" "\<forall>p \<in> set ps. single p \<and> policy_selector p = k" using m(1) assms(2) by (auto simp: group_ok_def)
  then have "policy_selector q = k" "direction q"
    using m(2) by (auto simp: merged_policy_def selector_set direction_set single_def)
  then show ?thesis using that m ps by blast
qed

lemma group_result:
  assumes "result_ok m m'" and "(k, ps) \<in> set m"
  obtains q where "q \<in> set (concat (map snd m'))" "merged_policy ps q"
proof -
  have "\<exists>q \<in> set (concat (map snd m')). merged_policy ps q"
    using assms unfolding result_ok_def
    by (induction rule: list_all2_induct) (auto split: prod.splits)
  then show ?thesis using that by blast
qed

lemma merged_policy_rules:
  assumes "merged_policy ps q"
  shows "\<forall>r \<in> set (rules q). good r" "minimal (rules q)" "rules q \<noteq> []"
    "p \<in> set ps \<Longrightarrow> n \<in> set (rules p) \<Longrightarrow> \<not> by_port n \<Longrightarrow> \<exists>r \<in> set (rules q). covers r n"
    "r \<in> set (rules q) \<Longrightarrow> \<exists>p \<in> set ps. \<exists>n \<in> set (rules p). l4_of r = l4_of n"
  using assms by (auto simp: merged_policy_def rules_set)

lemma result_covers:
  assumes "result_ok m m'" and "group_ok m" and "(k, ps) \<in> set m" and "p \<in> set ps" and "n \<in> set (rules p)"
    and "\<not> by_port n"
  shows "\<exists>q \<in> set (concat (map snd m')). direction q \<and> policy_selector q = k \<and> (\<exists>r \<in> set (rules q). covers r n)"
proof -
  obtain q where q: "q \<in> set (concat (map snd m'))" "merged_policy ps q" using group_result [OF assms(1,3)] .
  have "ps \<noteq> []" "\<forall>p \<in> set ps. single p \<and> policy_selector p = k" using assms(2,3) by (auto simp: group_ok_def)
  then have "policy_selector q = k" "direction q"
    using q(2) by (auto simp: merged_policy_def selector_set direction_set single_def)
  then show ?thesis using q merged_policy_rules(4) [OF q(2) assms(4-6)] by blast
qed

lemma result_selectors:
  assumes "result_ok m m'" and "group_ok m"
  shows "map policy_selector (concat (map snd m')) = map fst m"
  using assms unfolding result_ok_def group_ok_def
  by (induction rule: list_all2_induct)
    (auto split: prod.splits simp: merged_policy_def selector_set)

end

section \<open>Ingress and egress\<close>

text \<open>The peer of a rule, as the code compares it: the labels as text, the first entity, the first name.\<close>

type_synonym ingress_peer = "LabelMap option \<times> string list \<times> SpecCIDR list"
type_synonym egress_peer = "LabelMap option \<times> string list \<times> SpecFQDN list \<times> SpecCIDR list"

definition ingress_peer :: "Ingress \<Rightarrow> ingress_peer" where
  "ingress_peer r = (in_MatchLabels r, in_FromEntities r, in_FromCIDRs r)"

definition egress_peer :: "Egress \<Rightarrow> egress_peer" where
  "egress_peer r = (eg_MatchLabels r, eg_ToEntities r, eg_ToFQDNs r, eg_ToCIDRs r)"

definition same_ingress_peer :: "ingress_peer \<Rightarrow> ingress_peer \<Rightarrow> bool" where
  "same_ingress_peer = (\<lambda>(lm, es, _) (lm', es', _).
     if \<not> no_labels lm' then \<not> no_labels lm \<and> label_text lm' = label_text lm
     else es' \<noteq> [] \<and> es \<noteq> [] \<and> hd es' = hd es)"

definition same_egress_peer :: "egress_peer \<Rightarrow> egress_peer \<Rightarrow> bool" where
  "same_egress_peer = (\<lambda>(lm, es, fs, _) (lm', es', fs', _).
     if \<not> no_labels lm' then \<not> no_labels lm \<and> label_text lm' = label_text lm
     else if es' \<noteq> [] then es \<noteq> [] \<and> hd es' = hd es
     else fs' \<noteq> [] \<and> fs \<noteq> [] \<and> hd (fqdn_MatchNames (hd fs')) = hd (fqdn_MatchNames (hd fs)))"

text \<open>Rules that name CIDRs only are compared by their ports.\<close>

definition ingress_by_port :: "Ingress \<Rightarrow> bool" where
  "ingress_by_port r \<longleftrightarrow> no_labels (in_MatchLabels r) \<and> in_FromEntities r = []"

definition egress_by_port :: "Egress \<Rightarrow> bool" where
  "egress_by_port r \<longleftrightarrow> no_labels (eg_MatchLabels r) \<and> eg_ToEntities r = [] \<and> eg_ToFQDNs r = []"

definition good_ingress :: "Ingress \<Rightarrow> bool" where
  "good_ingress r \<longleftrightarrow> ingress_valid r \<and> length (in_ToPorts r) \<le> 1"

definition good_egress :: "Egress \<Rightarrow> bool" where
  "good_egress r \<longleftrightarrow> egress_valid r \<and> length (eg_ToPorts r) \<le> 1 \<and>
     list_all (\<lambda>f. fqdn_MatchNames f \<noteq> []) (eg_ToFQDNs r)"

definition set_ingress :: "Ingress list \<Rightarrow> KnoxNetworkPolicy \<Rightarrow> KnoxNetworkPolicy" where
  "set_ingress rs p = p\<lparr>np_Spec := (np_Spec p)\<lparr>spec_Ingress := rs\<rparr>\<rparr>"

definition set_egress :: "Egress list \<Rightarrow> KnoxNetworkPolicy \<Rightarrow> KnoxNetworkPolicy" where
  "set_egress rs p = p\<lparr>np_Spec := (np_Spec p)\<lparr>spec_Egress := rs\<rparr>\<rparr>"

lemmas ingress_rule_defs = in_set_https_def Ingress_GetICMPRules_def Ingress_GetPortRules_def
  Ingress_GetHTTPRules_def ingress_peer_def
lemmas egress_rule_defs = eg_set_https_def Egress_GetICMPRules_def Egress_GetPortRules_def
  Egress_GetHTTPRules_def egress_peer_def

interpretation ingress_rule: l47_rule Ingress_GetICMPRules Ingress_GetPortRules Ingress_GetHTTPRules
    in_set_https ingress_peer
  by unfold_locales (simp_all add: ingress_rule_defs)

interpretation egress_rule: l47_rule Egress_GetICMPRules Egress_GetPortRules Egress_GetHTTPRules
    eg_set_https egress_peer
  by unfold_locales (simp_all add: egress_rule_defs)

lemma ingress_match_cases:
  "ingress_match n u rs =
     (if \<not> no_labels (in_MatchLabels n) then ingress_rule.scan (same_labels in_MatchLabels n) n u rs
      else if in_FromEntities n \<noteq> [] then ingress_rule.scan (same_entity in_FromEntities n) n u rs
      else if in_FromCIDRs n \<noteq> [] \<and> in_ToPorts n \<noteq> [] then
        Inr (checkIfPortExist in_ToPorts (in_ToPorts n ! 0) rs, u, rs)
      else Inr (False, u, rs))"
  by (simp add: ingress_match_def Let_def)

lemma egress_match_cases:
  "egress_match n u rs =
     (if \<not> no_labels (eg_MatchLabels n) then egress_rule.scan (same_labels eg_MatchLabels n) n u rs
      else if eg_ToEntities n \<noteq> [] then egress_rule.scan (same_entity eg_ToEntities n) n u rs
      else if eg_ToFQDNs n \<noteq> [] then
        go_bind (first_fqdn n) (\<lambda>f. egress_rule.scan (same_fqdn f) n u rs)
      else if eg_ToCIDRs n \<noteq> [] \<and> eg_ToPorts n \<noteq> [] then
        Inr (checkIfPortExist eg_ToPorts (eg_ToPorts n ! 0) rs, u, rs)
      else Inr (False, u, rs))"
  by (simp add: egress_match_def Let_def)

lemma first_fqdn_good:
  "good_egress r \<Longrightarrow> eg_ToFQDNs r \<noteq> [] \<Longrightarrow> first_fqdn r = Inr (hd (fqdn_MatchNames (hd (eg_ToFQDNs r))))"
  by (cases "eg_ToFQDNs r"; cases "fqdn_MatchNames (hd (eg_ToFQDNs r))")
    (auto simp: first_fqdn_def good_egress_def)

interpretation ingress_rules: rule_merge Ingress_GetICMPRules Ingress_GetPortRules Ingress_GetHTTPRules
    in_set_https ingress_peer ingress_match good_ingress ingress_by_port same_ingress_peer
proof unfold_locales
  show "good_ingress r \<Longrightarrow> ingress_rule.usable r \<and> ingress_rule.http_ok r" for r
    by (auto simp: good_ingress_def ingress_valid_def ingress_rule.usable_def ingress_rule.http_ok_def ingress_rule_defs)
  show "good_ingress r \<Longrightarrow> ingress_rule.http_ok (in_set_https h r) \<Longrightarrow> good_ingress (in_set_https h r)" for r h
    by (auto simp: good_ingress_def ingress_valid_def ingress_rule.http_ok_def ingress_rule_defs)
  show "good_ingress r \<Longrightarrow> \<not> ingress_by_port r \<Longrightarrow> same_ingress_peer (ingress_peer r) (ingress_peer r)" for r
    by (auto simp: ingress_by_port_def same_ingress_peer_def ingress_peer_def)
  show "ingress_by_port n \<Longrightarrow> \<not> same_ingress_peer p (ingress_peer n)" for p n
    by (auto simp: ingress_by_port_def same_ingress_peer_def ingress_peer_def)
  show "good_ingress n \<Longrightarrow> ingress_by_port n \<Longrightarrow> \<exists>m. ingress_match n u rs = Inr (m, u, rs)" for n u rs
    by (auto simp: ingress_match_cases ingress_by_port_def)
  fix n assume n: "good_ingress n" "\<not> ingress_by_port n"
  show "\<exists>same. (\<forall>u rs. ingress_match n u rs = ingress_rule.scan same n u rs) \<and>
      (\<forall>r. good_ingress r \<longrightarrow> same r = Inr (same_ingress_peer (ingress_peer r) (ingress_peer n)))"
  proof (cases "no_labels (in_MatchLabels n)")
    case False
    then show ?thesis
      by (intro exI [of _ "same_labels in_MatchLabels n"])
        (simp add: ingress_match_cases same_labels_def same_ingress_peer_def ingress_peer_def)
  next
    case True
    then show ?thesis using n(2)
      by (intro exI [of _ "same_entity in_FromEntities n"])
        (simp add: ingress_match_cases ingress_by_port_def same_entity_def same_ingress_peer_def ingress_peer_def)
  qed
qed

interpretation egress_rules: rule_merge Egress_GetICMPRules Egress_GetPortRules Egress_GetHTTPRules
    eg_set_https egress_peer egress_match good_egress egress_by_port same_egress_peer
proof unfold_locales
  show "good_egress r \<Longrightarrow> egress_rule.usable r \<and> egress_rule.http_ok r" for r
    by (auto simp: good_egress_def egress_valid_def egress_rule.usable_def egress_rule.http_ok_def egress_rule_defs)
  show "good_egress r \<Longrightarrow> egress_rule.http_ok (eg_set_https h r) \<Longrightarrow> good_egress (eg_set_https h r)" for r h
    by (auto simp: good_egress_def egress_valid_def egress_rule.http_ok_def egress_rule_defs)
  show "good_egress r \<Longrightarrow> \<not> egress_by_port r \<Longrightarrow> same_egress_peer (egress_peer r) (egress_peer r)" for r
    by (auto simp: egress_by_port_def same_egress_peer_def egress_peer_def)
  show "egress_by_port n \<Longrightarrow> \<not> same_egress_peer p (egress_peer n)" for p n
    by (auto simp: egress_by_port_def same_egress_peer_def egress_peer_def)
  show "good_egress n \<Longrightarrow> egress_by_port n \<Longrightarrow> \<exists>m. egress_match n u rs = Inr (m, u, rs)" for n u rs
    by (auto simp: egress_match_cases egress_by_port_def)
  fix n assume n: "good_egress n" "\<not> egress_by_port n"
  show "\<exists>same. (\<forall>u rs. egress_match n u rs = egress_rule.scan same n u rs) \<and>
      (\<forall>r. good_egress r \<longrightarrow> same r = Inr (same_egress_peer (egress_peer r) (egress_peer n)))"
  proof (cases "no_labels (eg_MatchLabels n)")
    case False
    then show ?thesis
      by (intro exI [of _ "same_labels eg_MatchLabels n"])
        (simp add: egress_match_cases same_labels_def same_egress_peer_def egress_peer_def)
  next
    case labels: True
    show ?thesis
    proof (cases "eg_ToEntities n = []")
      case False
      then show ?thesis using labels
        by (intro exI [of _ "same_entity eg_ToEntities n"])
          (simp add: egress_match_cases same_entity_def same_egress_peer_def egress_peer_def)
    next
      case True
      then have "eg_ToFQDNs n \<noteq> []" using n(2) labels by (simp add: egress_by_port_def)
      then show ?thesis using n(1) labels True
        by (intro exI [of _ "same_fqdn (hd (fqdn_MatchNames (hd (eg_ToFQDNs n))))"])
          (auto simp: egress_match_cases first_fqdn_good same_fqdn_def same_egress_peer_def egress_peer_def)
    qed
  qed
qed

interpretation ingress_net: policy_merge Ingress_GetICMPRules Ingress_GetPortRules Ingress_GetHTTPRules
    in_set_https ingress_peer ingress_match good_ingress ingress_by_port same_ingress_peer
    "\<lambda>p. spec_Ingress (np_Spec p)" set_ingress "\<lambda>p. np_meta p ''type'' = PolicyTypeIngress"
  by unfold_locales
    (simp_all add: set_ingress_def np_meta_def policy_selector_def mergeNetworkPolicies_def mergeIngressPolicies_def)

interpretation egress_net: policy_merge Egress_GetICMPRules Egress_GetPortRules Egress_GetHTTPRules
    eg_set_https egress_peer egress_match good_egress egress_by_port same_egress_peer
    "\<lambda>p. spec_Egress (np_Spec p)" set_egress "\<lambda>p. np_meta p ''type'' = PolicyTypeEgress"
  by unfold_locales
    (simp_all add: set_egress_def np_meta_def policy_selector_def mergeNetworkPolicies_def mergeEgressPolicies_def
      PolicyTypeEgress_def PolicyTypeIngress_def)

end
