(* ===== verification/NetworkDiscovery.thy ===== *)
theory NetworkDiscovery
  imports NetworkMerge
begin

text \<open>
  \<^verbatim>\<open>networkpolicy/networkPolicy.go\<close>: what network discovery as a whole promises. The
  contract of \<^verbatim>\<open>NetworkMerge\<close> is applied to the policies that \<^verbatim>\<open>NetworkPolicy\<close> derives
  from the logs.
\<close>

section \<open>Discovery\<close>

lemma candidate_rules:
  "fst (candidate_policies log pods) = Some p \<Longrightarrow> r \<in> set (spec_Ingress (np_Spec p)) \<Longrightarrow> length (in_ToPorts r) \<le> 1"
  "snd (candidate_policies log pods) = Some q \<Longrightarrow> e \<in> set (spec_Egress (np_Spec q)) \<Longrightarrow>
    length (eg_ToPorts e) \<le> 1 \<and> list_all (\<lambda>f. fqdn_MatchNames f \<noteq> []) (eg_ToFQDNs e)"
  by (auto simp: candidate_policies_def pod_policies_def from_entity_policy_def to_entity_policy_def
      cidr_policies_def populateIngressEgressPolicyFromKnoxNetLog_def Let_def net_policy egress_l47_def ingress_l47_def
      Egress_zero_def Ingress_zero_def split: if_splits)

lemma ingress_single:
  assumes "fst (convertKnoxNetworkLogToKnoxNetworkPolicy log pods) = Some p"
  shows "ingress_net.single p"
proof -
  obtain p' k where c: "fst (candidate_policies log pods) = Some p'" "p = p'\<lparr>np_Kind := k\<rparr>"
    using convert_ingress [OF assms] by blast
  have shape: "ingress_shape p" "isValidPolicy (Some p)" using convert_shape(1) [OF assms] by auto
  then obtain r where r: "spec_Ingress (np_Spec p) = [r]" by (auto simp: ingress_shape_def length_Suc_conv)
  moreover have "length (in_ToPorts r) \<le> 1" using candidate_rules(1) [OF c(1), of r] c(2) r by simp
  moreover have "ingress_valid r" using shape r by (simp add: isValidPolicy_def ingress_shape_def)
  ultimately show ?thesis using shape by (auto simp: ingress_net.single_def ingress_shape_def good_ingress_def)
qed

lemma egress_single:
  assumes "snd (convertKnoxNetworkLogToKnoxNetworkPolicy log pods) = Some p"
  shows "egress_net.single p"
proof -
  obtain p' k where c: "snd (candidate_policies log pods) = Some p'" "p = p'\<lparr>np_Kind := k\<rparr>"
    using convert_egress [OF assms] by blast
  have shape: "egress_shape p" "isValidPolicy (Some p)" using convert_shape(2) [OF assms] by auto
  then obtain r where r: "spec_Egress (np_Spec p) = [r]" by (auto simp: egress_shape_def length_Suc_conv)
  moreover have "length (eg_ToPorts r) \<le> 1 \<and> list_all (\<lambda>f. fqdn_MatchNames f \<noteq> []) (eg_ToFQDNs r)"
    using candidate_rules(2) [OF c(1), of r] c(2) r by simp
  moreover have "egress_valid r" using shape r by (simp add: isValidPolicy_def egress_shape_def)
  ultimately show ?thesis using shape by (auto simp: egress_net.single_def egress_shape_def good_egress_def)
qed

text \<open>The two maps are built apart.\<close>

lemma group_policies_eq:
  "group_policies networkLogs pods =
     (fold group_policy (map (\<lambda>log. fst (convertKnoxNetworkLogToKnoxNetworkPolicy log pods)) networkLogs) [],
      fold group_policy (map (\<lambda>log. snd (convertKnoxNetworkLogToKnoxNetworkPolicy log pods)) networkLogs) [])"
proof -
  have "fold (\<lambda>log (is, es). let (i, e) = convertKnoxNetworkLogToKnoxNetworkPolicy log pods
        in (group_policy i is, group_policy e es)) logs (is, es) =
      (fold group_policy (map (\<lambda>log. fst (convertKnoxNetworkLogToKnoxNetworkPolicy log pods)) logs) is,
       fold group_policy (map (\<lambda>log. snd (convertKnoxNetworkLogToKnoxNetworkPolicy log pods)) logs) es)" for logs "is" es
    by (induction logs arbitrary: "is" es) (simp_all add: Let_def case_prod_unfold)
  then show ?thesis by (simp add: group_policies_def)
qed

text \<open>The groups the second loop works on, in the order it meets them.\<close>

definition ingress_groups :: "(policy_map \<Rightarrow> policy_map) \<Rightarrow> KnoxNetworkLog list \<Rightarrow> Pod list \<Rightarrow> policy_map" where
  "ingress_groups ord networkLogs pods = ord (fst (group_policies networkLogs pods))"

definition egress_groups :: "(policy_map \<Rightarrow> policy_map) \<Rightarrow> KnoxNetworkLog list \<Rightarrow> Pod list \<Rightarrow> policy_map" where
  "egress_groups ord networkLogs pods = ord (snd (group_policies networkLogs pods))"

lemma distinct_keys_perm: "iter_order ord \<Longrightarrow> distinct (map fst (ord m)) = distinct (map fst m)"
  unfolding iter_order_def by (metis mset_eq_imp_distinct_iff mset_map)

lemma ingress_groups:
  assumes "iter_order ord"
  shows "ingress_net.group_ok (ingress_groups ord networkLogs pods)"
    and "log \<in> set networkLogs \<Longrightarrow> fst (convertKnoxNetworkLogToKnoxNetworkPolicy log pods) = Some p \<Longrightarrow>
      \<exists>ps. (policy_selector p, ps) \<in> set (ingress_groups ord networkLogs pods) \<and> p \<in> set ps"
    and "(k, ps) \<in> set (ingress_groups ord networkLogs pods) \<Longrightarrow> p \<in> set ps \<Longrightarrow>
      \<exists>log \<in> set networkLogs. fst (convertKnoxNetworkLogToKnoxNetworkPolicy log pods) = Some p"
proof -
  let ?is = "map (\<lambda>log. fst (convertKnoxNetworkLogToKnoxNetworkPolicy log pods)) networkLogs"
  have "\<forall>p. Some p \<in> set ?is \<longrightarrow> ingress_net.single p" using ingress_single by auto
  note ok = ingress_net.group_policies_ok [of ?is, OF this]
  note group = ingress_groups_def group_policies_eq fst_conv iter_order_set [OF assms]
  show "ingress_net.group_ok (ingress_groups ord networkLogs pods)"
    using ok(1) unfolding ingress_net.group_ok_def group distinct_keys_perm [OF assms] .
  show "log \<in> set networkLogs \<Longrightarrow> fst (convertKnoxNetworkLogToKnoxNetworkPolicy log pods) = Some p \<Longrightarrow>
      \<exists>ps. (policy_selector p, ps) \<in> set (ingress_groups ord networkLogs pods) \<and> p \<in> set ps"
    unfolding group by (rule ok(2), unfold set_map, rule rev_image_eqI, assumption, simp)
  show "(k, ps) \<in> set (ingress_groups ord networkLogs pods) \<Longrightarrow> p \<in> set ps \<Longrightarrow>
      \<exists>log \<in> set networkLogs. fst (convertKnoxNetworkLogToKnoxNetworkPolicy log pods) = Some p"
    unfolding group by (drule (1) ok(3)) force
qed

lemma egress_groups:
  assumes "iter_order ord"
  shows "egress_net.group_ok (egress_groups ord networkLogs pods)"
    and "log \<in> set networkLogs \<Longrightarrow> snd (convertKnoxNetworkLogToKnoxNetworkPolicy log pods) = Some p \<Longrightarrow>
      \<exists>ps. (policy_selector p, ps) \<in> set (egress_groups ord networkLogs pods) \<and> p \<in> set ps"
    and "(k, ps) \<in> set (egress_groups ord networkLogs pods) \<Longrightarrow> p \<in> set ps \<Longrightarrow>
      \<exists>log \<in> set networkLogs. snd (convertKnoxNetworkLogToKnoxNetworkPolicy log pods) = Some p"
proof -
  let ?es = "map (\<lambda>log. snd (convertKnoxNetworkLogToKnoxNetworkPolicy log pods)) networkLogs"
  have "\<forall>p. Some p \<in> set ?es \<longrightarrow> egress_net.single p" using egress_single by auto
  note ok = egress_net.group_policies_ok [of ?es, OF this]
  note group = egress_groups_def group_policies_eq snd_conv iter_order_set [OF assms]
  show "egress_net.group_ok (egress_groups ord networkLogs pods)"
    using ok(1) unfolding egress_net.group_ok_def group distinct_keys_perm [OF assms] .
  show "log \<in> set networkLogs \<Longrightarrow> snd (convertKnoxNetworkLogToKnoxNetworkPolicy log pods) = Some p \<Longrightarrow>
      \<exists>ps. (policy_selector p, ps) \<in> set (egress_groups ord networkLogs pods) \<and> p \<in> set ps"
    unfolding group by (rule ok(2), unfold set_map, rule rev_image_eqI, assumption, simp)
  show "(k, ps) \<in> set (egress_groups ord networkLogs pods) \<Longrightarrow> p \<in> set ps \<Longrightarrow>
      \<exists>log \<in> set networkLogs. snd (convertKnoxNetworkLogToKnoxNetworkPolicy log pods) = Some p"
    unfolding group by (drule (1) ok(3)) force
qed

text \<open>The result of the discovery, in the terms of the contract.\<close>

lemma discover_groups:
  assumes "iter_order ord"
  shows "\<exists>is es. DiscoverNetworkPolicy ord namespace networkLogs services pods = Inr (concat (map snd is) @ concat (map snd es)) \<and>
    ingress_net.result_ok (ingress_groups ord networkLogs pods) is \<and> egress_net.result_ok (egress_groups ord networkLogs pods) es"
proof -
  obtain "is" es where "merge_groups (ingress_groups ord networkLogs pods) = Inr is"
    "ingress_net.result_ok (ingress_groups ord networkLogs pods) is"
    "merge_groups (egress_groups ord networkLogs pods) = Inr es"
    "egress_net.result_ok (egress_groups ord networkLogs pods) es"
    using ingress_net.merge_groups_ok [OF ingress_groups(1) [OF assms]] egress_net.merge_groups_ok [OF egress_groups(1) [OF assms]]
    by blast
  then show ?thesis by (auto simp: DiscoverNetworkPolicy_def ingress_groups_def egress_groups_def case_prod_unfold)
qed

lemma discovered:
  assumes "iter_order ord" and "DiscoverNetworkPolicy ord namespace networkLogs services pods = Inr ps"
  obtains "is" es where "ps = concat (map snd is) @ concat (map snd es)"
    "ingress_net.result_ok (ingress_groups ord networkLogs pods) is" "egress_net.result_ok (egress_groups ord networkLogs pods) es"
  using discover_groups [OF assms(1), of namespace networkLogs services pods] assms(2) that by auto

text \<open>What an ingress policy and an egress policy of the result comes from.\<close>

lemma discovered_ingress:
  assumes "iter_order ord" and "ingress_net.result_ok (ingress_groups ord networkLogs pods) is" and "q \<in> set (concat (map snd is))"
  obtains qs where "qs \<noteq> []" "ingress_net.merged_policy qs q" "np_meta q ''type'' = PolicyTypeIngress"
    "\<forall>p \<in> set qs. policy_selector p = policy_selector q \<and>
      (\<exists>log \<in> set networkLogs. fst (convertKnoxNetworkLogToKnoxNetworkPolicy log pods) = Some p)"
proof -
  note g = ingress_groups [OF assms(1), where networkLogs = networkLogs and pods = pods]
  obtain qs where qs: "(policy_selector q, qs) \<in> set (ingress_groups ord networkLogs pods)" "qs \<noteq> []"
    "ingress_net.merged_policy qs q" "np_meta q ''type'' = PolicyTypeIngress"
    using ingress_net.result_group [OF assms(2) g(1) assms(3)] by blast
  have "policy_selector p = policy_selector q" if "p \<in> set qs" for p
    using g(1) qs(1) that by (auto simp: ingress_net.group_ok_def)
  then show ?thesis using that [OF qs(2-4)] g(3) [OF qs(1)] by blast
qed

lemma discovered_egress:
  assumes "iter_order ord" and "egress_net.result_ok (egress_groups ord networkLogs pods) es" and "q \<in> set (concat (map snd es))"
  obtains qs where "qs \<noteq> []" "egress_net.merged_policy qs q" "np_meta q ''type'' = PolicyTypeEgress"
    "\<forall>p \<in> set qs. policy_selector p = policy_selector q \<and>
      (\<exists>log \<in> set networkLogs. snd (convertKnoxNetworkLogToKnoxNetworkPolicy log pods) = Some p)"
proof -
  note g = egress_groups [OF assms(1), where networkLogs = networkLogs and pods = pods]
  obtain qs where qs: "(policy_selector q, qs) \<in> set (egress_groups ord networkLogs pods)" "qs \<noteq> []"
    "egress_net.merged_policy qs q" "np_meta q ''type'' = PolicyTypeEgress"
    using egress_net.result_group [OF assms(2) g(1) assms(3)] by blast
  have "policy_selector p = policy_selector q" if "p \<in> set qs" for p
    using g(1) qs(1) that by (auto simp: egress_net.group_ok_def)
  then show ?thesis using that [OF qs(2-4)] g(3) [OF qs(1)] by blast
qed

section \<open>Properties\<close>

text \<open>When one rule stands for another: the same peer, and the same ICMP type or the same port.\<close>

definition ingress_covers :: "Ingress \<Rightarrow> Ingress \<Rightarrow> bool" where
  "ingress_covers r n \<longleftrightarrow> same_ingress_peer (ingress_peer r) (ingress_peer n) \<and>
     (if in_ICMPs n \<noteq> [] then in_ICMPs r \<noteq> [] \<and> hd (in_ICMPs r) = hd (in_ICMPs n)
      else in_ICMPs r = [] \<and> in_ToPorts r \<noteq> [] \<and> in_ToPorts n \<noteq> [] \<and> hd (in_ToPorts r) = hd (in_ToPorts n))"

definition egress_covers :: "Egress \<Rightarrow> Egress \<Rightarrow> bool" where
  "egress_covers r n \<longleftrightarrow> same_egress_peer (egress_peer r) (egress_peer n) \<and>
     (if eg_ICMPs n \<noteq> [] then eg_ICMPs r \<noteq> [] \<and> hd (eg_ICMPs r) = hd (eg_ICMPs n)
      else eg_ICMPs r = [] \<and> eg_ToPorts r \<noteq> [] \<and> eg_ToPorts n \<noteq> [] \<and> hd (eg_ToPorts r) = hd (eg_ToPorts n))"

lemma ingress_covers_eq: "ingress_rules.covers = ingress_covers"
  by (intro ext) (simp add: ingress_rules.covers_def ingress_rule.same_l4_def ingress_covers_def ingress_rule_defs)

lemma egress_covers_eq: "egress_rules.covers = egress_covers"
  by (intro ext) (simp add: egress_rules.covers_def egress_rule.same_l4_def egress_covers_def egress_rule_defs)

lemma ingress_l4:
  "ingress_rule.l4_of r = ingress_rule.l4_of n \<longleftrightarrow>
     ingress_peer r = ingress_peer n \<and> in_ToPorts r = in_ToPorts n \<and> in_ICMPs r = in_ICMPs n"
  by (auto simp: ingress_rule.l4_of_def ingress_rule_defs)

lemma egress_l4:
  "egress_rule.l4_of r = egress_rule.l4_of n \<longleftrightarrow>
     egress_peer r = egress_peer n \<and> eg_ToPorts r = eg_ToPorts n \<and> eg_ICMPs r = eg_ICMPs n"
  by (auto simp: egress_rule.l4_of_def egress_rule_defs)

lemma ingress_policy_valid:
  assumes "ingress_net.merged_policy qs q" and "isValidPolicy (Some (hd qs))" and "np_meta q ''type'' = PolicyTypeIngress"
  shows "isValidPolicy (Some q)"
proof -
  have "spec_Selector (np_Spec q) = spec_Selector (np_Spec (hd qs))"
    using assms(1) by (auto simp: ingress_net.merged_policy_def set_ingress_def)
  moreover have "\<forall>r \<in> set (spec_Ingress (np_Spec q)). good_ingress r" "spec_Ingress (np_Spec q) \<noteq> []"
    using ingress_net.merged_policy_rules(1,3) [OF assms(1)] by auto
  ultimately show ?thesis using assms(2,3)
    by (simp add: isValidPolicy_def good_ingress_def list_all_iff PolicyTypeIngress_def PolicyTypeEgress_def)
qed

lemma egress_policy_valid:
  assumes "egress_net.merged_policy qs q" and "isValidPolicy (Some (hd qs))" and "np_meta q ''type'' = PolicyTypeEgress"
  shows "isValidPolicy (Some q)"
proof -
  have "spec_Selector (np_Spec q) = spec_Selector (np_Spec (hd qs))"
    using assms(1) by (auto simp: egress_net.merged_policy_def set_egress_def)
  moreover have "\<forall>r \<in> set (spec_Egress (np_Spec q)). good_egress r" "spec_Egress (np_Spec q) \<noteq> []"
    using egress_net.merged_policy_rules(1,3) [OF assms(1)] by auto
  ultimately show ?thesis using assms(2,3)
    by (simp add: isValidPolicy_def good_egress_def list_all_iff PolicyTypeIngress_def PolicyTypeEgress_def)
qed

lemma discover_valid:
  assumes "iter_order ord" and "DiscoverNetworkPolicy ord namespace networkLogs services pods = Inr ps" and "q \<in> set ps"
  shows "isValidPolicy (Some q)"
proof -
  obtain "is" es where d: "ps = concat (map snd is) @ concat (map snd es)"
    "ingress_net.result_ok (ingress_groups ord networkLogs pods) is" "egress_net.result_ok (egress_groups ord networkLogs pods) es"
    using discovered [OF assms(1,2)] .
  consider "q \<in> set (concat (map snd is))" | "q \<in> set (concat (map snd es))" using d(1) assms(3) by auto
  then show ?thesis
  proof cases
    case 1
    obtain qs where qs: "qs \<noteq> []" "ingress_net.merged_policy qs q" "np_meta q ''type'' = PolicyTypeIngress"
      "\<forall>p \<in> set qs. policy_selector p = policy_selector q \<and>
        (\<exists>log \<in> set networkLogs. fst (convertKnoxNetworkLogToKnoxNetworkPolicy log pods) = Some p)"
      using discovered_ingress [OF assms(1) d(2) 1] .
    have "isValidPolicy (Some (hd qs))" using bspec [OF qs(4) hd_in_set [OF qs(1)]] convert_shape(1) by blast
    then show ?thesis by (rule ingress_policy_valid [OF qs(2) _ qs(3)])
  next
    case 2
    obtain qs where qs: "qs \<noteq> []" "egress_net.merged_policy qs q" "np_meta q ''type'' = PolicyTypeEgress"
      "\<forall>p \<in> set qs. policy_selector p = policy_selector q \<and>
        (\<exists>log \<in> set networkLogs. snd (convertKnoxNetworkLogToKnoxNetworkPolicy log pods) = Some p)"
      using discovered_egress [OF assms(1) d(3) 2] .
    have "isValidPolicy (Some (hd qs))" using bspec [OF qs(4) hd_in_set [OF qs(1)]] convert_shape(2) by blast
    then show ?thesis by (rule egress_policy_valid [OF qs(2) _ qs(3)])
  qed
qed

lemma discovered_selectors:
  assumes "iter_order ord" and "ingress_net.result_ok (ingress_groups ord networkLogs pods) is"
    and "egress_net.result_ok (egress_groups ord networkLogs pods) es"
  shows "distinct (map policy_selector (concat (map snd is)))" "distinct (map policy_selector (concat (map snd es)))"
    "\<forall>p \<in> set (concat (map snd is)). np_meta p ''type'' = PolicyTypeIngress"
    "\<forall>p \<in> set (concat (map snd es)). np_meta p ''type'' = PolicyTypeEgress"
proof -
  note gi = ingress_groups(1) [OF assms(1), of networkLogs pods] and ge = egress_groups(1) [OF assms(1), of networkLogs pods]
  show "distinct (map policy_selector (concat (map snd is)))" "distinct (map policy_selector (concat (map snd es)))"
    unfolding ingress_net.result_selectors [OF assms(2) gi] egress_net.result_selectors [OF assms(3) ge]
    using gi ge by (simp_all add: ingress_net.group_ok_def egress_net.group_ok_def)
  show "\<forall>p \<in> set (concat (map snd is)). np_meta p ''type'' = PolicyTypeIngress"
    "\<forall>p \<in> set (concat (map snd es)). np_meta p ''type'' = PolicyTypeEgress"
    using discovered_ingress [OF assms(1,2)] discovered_egress [OF assms(1,3)] by blast+
qed

text \<open>C34: network discovery never panics, whatever the logs, and its policies are well formed: each passes
  \<^verbatim>\<open>isValidPolicy\<close>, and there is at most one policy for each direction, kind and
  selector.\<close>

theorem DiscoverNetworkPolicy_well_formed:
  assumes "iter_order ord"
  shows "\<exists>ps. DiscoverNetworkPolicy ord namespace networkLogs services pods = Inr ps \<and>
    (\<forall>p \<in> set ps. isValidPolicy (Some p)) \<and>
    distinct (map (\<lambda>p. (np_meta p ''type'', policy_selector p)) ps)"
proof -
  obtain "is" es where
    d: "DiscoverNetworkPolicy ord namespace networkLogs services pods = Inr (concat (map snd is) @ concat (map snd es))"
    "ingress_net.result_ok (ingress_groups ord networkLogs pods) is" "egress_net.result_ok (egress_groups ord networkLogs pods) es"
    using discover_groups [OF assms] by blast
  note sel = discovered_selectors [OF assms d(2,3)]
  have pair: "distinct (map policy_selector xs) \<Longrightarrow> distinct (map (\<lambda>p. (np_meta p ''type'', policy_selector p)) xs)" for xs
    by (auto simp: distinct_map inj_on_def)
  have "PolicyTypeEgress \<noteq> PolicyTypeIngress" by (simp add: PolicyTypeIngress_def PolicyTypeEgress_def)
  then have "(\<lambda>p. (np_meta p ''type'', policy_selector p)) ` set (concat (map snd is)) \<inter>
      (\<lambda>p. (np_meta p ''type'', policy_selector p)) ` set (concat (map snd es)) = {}"
    using sel(3,4) by fastforce
  then have "distinct (map (\<lambda>p. (np_meta p ''type'', policy_selector p)) (concat (map snd is) @ concat (map snd es)))"
    unfolding map_append distinct_append set_map using pair [OF sel(1)] pair [OF sel(2)] by blast
  then show ?thesis using d(1) discover_valid [OF assms d(1)] by blast
qed

definition demo_web_flow :: KnoxNetworkLog where
  "demo_web_flow = KnoxNetworkLog_zero\<lparr>nl_SrcNamespace := ''ns'', nl_DstNamespace := ''ns'', nl_SrcPodName := ''client'',
     nl_DstReservedLabels := [''reserved:world''], nl_DNSQuery := ''example.com'', nl_Protocol := 6, nl_DstPort := 443,
     nl_Direction := ''EGRESS''\<rparr>"

theorem DiscoverNetworkPolicy_well_formed_witness:
  "\<exists>ps. DiscoverNetworkPolicy rev ''ns'' [demo_flow, demo_web_flow, demo_flow] [] demo_net_pods = Inr ps \<and>
    list_all (\<lambda>p. isValidPolicy (Some p)) ps"
  using DiscoverNetworkPolicy_well_formed [OF iter_order_rev, of "''ns''" "[demo_flow, demo_web_flow, demo_flow]" "[]" demo_net_pods]
  unfolding list_all_iff by blast

text \<open>C3: nothing observed is lost by the merge: the rule of each log, unless it names CIDRs only, is covered
  in the discovered policy of the same direction, kind and selector, by a rule with the same peer
  and the same port or ICMP type.\<close>

theorem DiscoverNetworkPolicy_covers:
  assumes "iter_order ord" and "DiscoverNetworkPolicy ord namespace networkLogs services pods = Inr ps"
    and "log \<in> set networkLogs"
  shows "(\<forall>p. fst (convertKnoxNetworkLogToKnoxNetworkPolicy log pods) = Some p \<longrightarrow>
      (\<forall>n \<in> set (spec_Ingress (np_Spec p)). \<not> ingress_by_port n \<longrightarrow>
        (\<exists>q \<in> set ps. np_meta q ''type'' = PolicyTypeIngress \<and> policy_selector q = policy_selector p \<and>
           (\<exists>r \<in> set (spec_Ingress (np_Spec q)). ingress_covers r n)))) \<and>
    (\<forall>p. snd (convertKnoxNetworkLogToKnoxNetworkPolicy log pods) = Some p \<longrightarrow>
      (\<forall>n \<in> set (spec_Egress (np_Spec p)). \<not> egress_by_port n \<longrightarrow>
        (\<exists>q \<in> set ps. np_meta q ''type'' = PolicyTypeEgress \<and> policy_selector q = policy_selector p \<and>
           (\<exists>r \<in> set (spec_Egress (np_Spec q)). egress_covers r n))))"
proof -
  obtain "is" es where d: "ps = concat (map snd is) @ concat (map snd es)"
    "ingress_net.result_ok (ingress_groups ord networkLogs pods) is" "egress_net.result_ok (egress_groups ord networkLogs pods) es"
    using discovered [OF assms(1,2)] .
  note gi = ingress_groups [OF assms(1), where networkLogs = networkLogs and pods = pods]
    and ge = egress_groups [OF assms(1), where networkLogs = networkLogs and pods = pods]
  note cov = ingress_net.result_covers [OF d(2) gi(1), unfolded ingress_covers_eq]
    egress_net.result_covers [OF d(3) ge(1), unfolded egress_covers_eq]
  show ?thesis
  proof (intro conjI allI impI ballI)
    fix p n
    assume "fst (convertKnoxNetworkLogToKnoxNetworkPolicy log pods) = Some p"
      and n: "n \<in> set (spec_Ingress (np_Spec p))" "\<not> ingress_by_port n"
    then obtain qs where "(policy_selector p, qs) \<in> set (ingress_groups ord networkLogs pods)" "p \<in> set qs"
      using gi(2) [OF assms(3)] by blast
    from cov(1) [OF this n]
    show "\<exists>q \<in> set ps. np_meta q ''type'' = PolicyTypeIngress \<and> policy_selector q = policy_selector p \<and>
        (\<exists>r \<in> set (spec_Ingress (np_Spec q)). ingress_covers r n)" unfolding d(1) by auto
  next
    fix p n
    assume "snd (convertKnoxNetworkLogToKnoxNetworkPolicy log pods) = Some p"
      and n: "n \<in> set (spec_Egress (np_Spec p))" "\<not> egress_by_port n"
    then obtain qs where "(policy_selector p, qs) \<in> set (egress_groups ord networkLogs pods)" "p \<in> set qs"
      using ge(2) [OF assms(3)] by blast
    from cov(2) [OF this n]
    show "\<exists>q \<in> set ps. np_meta q ''type'' = PolicyTypeEgress \<and> policy_selector q = policy_selector p \<and>
        (\<exists>r \<in> set (spec_Egress (np_Spec q)). egress_covers r n)" unfolding d(1) by auto
  qed
qed

definition demo_discovered :: "KnoxNetworkPolicy list" where
  "demo_discovered =
     (case DiscoverNetworkPolicy rev ''ns'' [demo_flow, demo_web_flow, demo_flow] [] demo_net_pods of
        Inl _ \<Rightarrow> [] | Inr ps \<Rightarrow> ps)"

lemma demo_discovered:
  "DiscoverNetworkPolicy rev ''ns'' [demo_flow, demo_web_flow, demo_flow] [] demo_net_pods = Inr demo_discovered"
proof -
  obtain ps where "DiscoverNetworkPolicy rev ''ns'' [demo_flow, demo_web_flow, demo_flow] [] demo_net_pods = Inr ps"
    using discover_groups [OF iter_order_rev] by blast
  then show ?thesis by (simp add: demo_discovered_def)
qed

definition demo_web_policy :: KnoxNetworkPolicy where
  "demo_web_policy = the (snd (convertKnoxNetworkLogToKnoxNetworkPolicy demo_web_flow demo_net_pods))"

theorem DiscoverNetworkPolicy_covers_witness:
  "\<exists>q \<in> set demo_discovered. policy_selector q = policy_selector demo_web_policy \<and>
     (\<exists>r \<in> set (spec_Egress (np_Spec q)). egress_covers r (hd (spec_Egress (np_Spec demo_web_policy))))"
proof -
  have mem: "demo_web_flow \<in> set [demo_flow, demo_web_flow, demo_flow]" by simp
  have "snd (convertKnoxNetworkLogToKnoxNetworkPolicy demo_web_flow demo_net_pods) \<noteq> None" by code_simp
  then have p: "snd (convertKnoxNetworkLogToKnoxNetworkPolicy demo_web_flow demo_net_pods) = Some demo_web_policy"
    by (auto simp: demo_web_policy_def)
  have "map egress_by_port (spec_Egress (np_Spec demo_web_policy)) = [False]" by code_simp
  then have n: "hd (spec_Egress (np_Spec demo_web_policy)) \<in> set (spec_Egress (np_Spec demo_web_policy))"
    "\<not> egress_by_port (hd (spec_Egress (np_Spec demo_web_policy)))"
    by (cases "spec_Egress (np_Spec demo_web_policy)"; simp)+
  from DiscoverNetworkPolicy_covers [OF iter_order_rev demo_discovered mem] p n show ?thesis by blast
qed

text \<open>C14: nothing is added by the merge: each rule of a discovered policy has exactly the peer, the ports and
  the ICMP types of the rule of some log whose policy has the same direction, kind and selector, and no two rules of a policy
  cover one another.\<close>

theorem DiscoverNetworkPolicy_exact:
  assumes "iter_order ord" and "DiscoverNetworkPolicy ord namespace networkLogs services pods = Inr ps"
    and "q \<in> set ps"
  shows "(np_meta q ''type'' = PolicyTypeIngress \<longrightarrow>
      sorted_wrt (\<lambda>r n. \<not> ingress_covers r n) (spec_Ingress (np_Spec q)) \<and>
      (\<forall>r \<in> set (spec_Ingress (np_Spec q)). \<exists>log \<in> set networkLogs. \<exists>p.
        fst (convertKnoxNetworkLogToKnoxNetworkPolicy log pods) = Some p \<and> policy_selector p = policy_selector q \<and>
        (\<exists>n \<in> set (spec_Ingress (np_Spec p)). ingress_peer r = ingress_peer n \<and> in_ToPorts r = in_ToPorts n \<and>
           in_ICMPs r = in_ICMPs n))) \<and>
    (np_meta q ''type'' \<noteq> PolicyTypeIngress \<longrightarrow>
      sorted_wrt (\<lambda>r n. \<not> egress_covers r n) (spec_Egress (np_Spec q)) \<and>
      (\<forall>r \<in> set (spec_Egress (np_Spec q)). \<exists>log \<in> set networkLogs. \<exists>p.
        snd (convertKnoxNetworkLogToKnoxNetworkPolicy log pods) = Some p \<and> policy_selector p = policy_selector q \<and>
        (\<exists>n \<in> set (spec_Egress (np_Spec p)). egress_peer r = egress_peer n \<and> eg_ToPorts r = eg_ToPorts n \<and>
           eg_ICMPs r = eg_ICMPs n)))"
proof -
  obtain "is" es where d: "ps = concat (map snd is) @ concat (map snd es)"
    "ingress_net.result_ok (ingress_groups ord networkLogs pods) is" "egress_net.result_ok (egress_groups ord networkLogs pods) es"
    using discovered [OF assms(1,2)] .
  have neq: "PolicyTypeEgress \<noteq> PolicyTypeIngress" by (simp add: PolicyTypeIngress_def PolicyTypeEgress_def)
  consider "q \<in> set (concat (map snd is))" | "q \<in> set (concat (map snd es))" using d(1) assms(3) by auto
  then show ?thesis
  proof cases
    case 1
    obtain qs where qs: "qs \<noteq> []" "ingress_net.merged_policy qs q" "np_meta q ''type'' = PolicyTypeIngress"
      "\<forall>p \<in> set qs. policy_selector p = policy_selector q \<and>
        (\<exists>log \<in> set networkLogs. fst (convertKnoxNetworkLogToKnoxNetworkPolicy log pods) = Some p)"
      using discovered_ingress [OF assms(1) d(2) 1] .
    note rules = ingress_net.merged_policy_rules [OF qs(2), unfolded ingress_rules.minimal_def ingress_covers_eq ingress_l4]
    show ?thesis using qs(3) rules(2) rules(5) qs(4) by (simp, metis)
  next
    case 2
    obtain qs where qs: "qs \<noteq> []" "egress_net.merged_policy qs q" "np_meta q ''type'' = PolicyTypeEgress"
      "\<forall>p \<in> set qs. policy_selector p = policy_selector q \<and>
        (\<exists>log \<in> set networkLogs. snd (convertKnoxNetworkLogToKnoxNetworkPolicy log pods) = Some p)"
      using discovered_egress [OF assms(1) d(3) 2] .
    note rules = egress_net.merged_policy_rules [OF qs(2), unfolded egress_rules.minimal_def egress_covers_eq egress_l4]
    show ?thesis using qs(3) neq rules(2) rules(5) qs(4) by (simp, metis)
  qed
qed

theorem DiscoverNetworkPolicy_exact_witness:
  "sorted_wrt (\<lambda>r n. \<not> ingress_covers r n) (spec_Ingress (np_Spec (hd demo_discovered)))"
proof -
  have "np_meta (hd demo_discovered) ''type'' = PolicyTypeIngress" "demo_discovered \<noteq> []" by code_simp+
  then show ?thesis using DiscoverNetworkPolicy_exact [OF iter_order_rev demo_discovered, of "hd demo_discovered"] by simp
qed

text \<open>Merging loses HTTP restrictions: a rule on another port of the same peer leaves the existing rule
  without its HTTP rules, so that the policy then allows every request on the first port.\<close>

theorem mergeIngressPolicies_drops_http:
  assumes "spec_Ingress (np_Spec existPolicy) = [r]" and "spec_Ingress (np_Spec newPolicy) = [n]"
    and "good_ingress r" and "good_ingress n" and "in_ICMPs r = []" and "in_ICMPs n = []"
    and "\<not> no_labels (in_MatchLabels r)" and "\<not> no_labels (in_MatchLabels n)"
    and "label_text (in_MatchLabels r) = label_text (in_MatchLabels n)"
    and "hd (in_ToPorts r) \<noteq> hd (in_ToPorts n)"
  shows "mergeIngressPolicies existPolicy [newPolicy] =
    Inr (set_ingress [r\<lparr>in_ToHTTPs := []\<rparr>, n] existPolicy, True)"
proof -
  have ports: "in_ToPorts r \<noteq> []" "in_ToPorts n \<noteq> []"
    using assms(3-6) by (auto simp: good_ingress_def ingress_valid_def)
  then have "mergeHttpRules Ingress_GetICMPRules Ingress_GetPortRules Ingress_GetHTTPRules r n = Inr (False, False, [])"
    using assms(5,6,10) by (simp add: ingress_rule.merge_http_eq ingress_rule.same_l4_def ingress_rule_defs)
  then have "ingress_match n False [r] = Inr (False, False, [r\<lparr>in_ToHTTPs := []\<rparr>])"
    using assms(7-9) by (simp add: ingress_match_cases same_labels_def in_set_https_def)
  then show ?thesis using assms(1,2)
    by (simp add: mergeIngressPolicies_def add_rule_def set_ingress_def)
qed

definition demo_rule :: "string \<Rightarrow> SpecHTTP list \<Rightarrow> Ingress" where
  "demo_rule port https = Ingress_zero\<lparr>in_MatchLabels := Some (fmupd ''app'' ''client'' fmempty),
     in_ToPorts := [\<lparr>port_Port = port, port_Protocol = ''TCP''\<rparr>], in_ToHTTPs := https\<rparr>"

definition demo_http :: SpecHTTP where
  "demo_http = \<lparr>http_Method = ''GET'', http_Path = ''/api'', http_Aggregated = False\<rparr>"

theorem mergeIngressPolicies_drops_http_witness:
  "mergeIngressPolicies (set_ingress [demo_rule ''80'' [demo_http]] buildNewKnoxIngressPolicy)
     [set_ingress [demo_rule ''443'' []] buildNewKnoxIngressPolicy] =
   Inr (set_ingress [demo_rule ''80'' [], demo_rule ''443'' []] buildNewKnoxIngressPolicy, True)"
proof -
  have "good_ingress (demo_rule ''80'' [demo_http])" "good_ingress (demo_rule ''443'' [])"
    "\<not> no_labels (in_MatchLabels (demo_rule ''80'' [demo_http]))" "\<not> no_labels (in_MatchLabels (demo_rule ''443'' []))"
    by code_simp+
  moreover have "demo_rule ''80'' [demo_http]\<lparr>in_ToHTTPs := []\<rparr> = demo_rule ''80'' []"
    "set_ingress xs (set_ingress ys p) = set_ingress xs p" for xs ys p
    by (simp_all add: demo_rule_def set_ingress_def)
  ultimately show ?thesis
    using mergeIngressPolicies_drops_http [of "set_ingress [demo_rule ''80'' [demo_http]] buildNewKnoxIngressPolicy"
        "demo_rule ''80'' [demo_http]" "set_ingress [demo_rule ''443'' []] buildNewKnoxIngressPolicy" "demo_rule ''443'' []"]
    by (simp add: ingress_net.rules_set) (simp add: demo_rule_def Ingress_zero_def)
qed

text \<open>Merging loses CIDRs: a rule that names only CIDRs is dropped as soon as some rule of the policy has
  its port, whoever the peer of that rule is.\<close>

theorem mergeIngressPolicies_drops_cidr:
  assumes "spec_Ingress (np_Spec newPolicy) = [n]" and "ingress_by_port n" and "in_FromCIDRs n \<noteq> []"
    and "in_ToPorts n \<noteq> []" and "r \<in> set (spec_Ingress (np_Spec existPolicy))" and "in_ToPorts r \<noteq> []"
    and "hd (in_ToPorts r) = hd (in_ToPorts n)"
  shows "mergeIngressPolicies existPolicy [newPolicy] = Inr (existPolicy, False)"
proof -
  have "checkIfPortExist in_ToPorts (in_ToPorts n ! 0) (spec_Ingress (np_Spec existPolicy))"
    using assms(4-7) by (auto simp: checkIfPortExist_def list_ex_iff hd_conv_nth)
  then have "ingress_match n u (spec_Ingress (np_Spec existPolicy)) = Inr (True, u, spec_Ingress (np_Spec existPolicy))" for u
    using assms(2-4) by (simp add: ingress_match_cases ingress_by_port_def)
  then show ?thesis using assms(1) by (simp add: mergeIngressPolicies_def add_rule_def)
qed

definition demo_cidr_rule :: Ingress where
  "demo_cidr_rule = Ingress_zero\<lparr>in_FromCIDRs := [\<lparr>cidr_CIDRs = [''10.0.0.0/8''], cidr_Except = []\<rparr>],
     in_ToPorts := [\<lparr>port_Port = ''80'', port_Protocol = ''TCP''\<rparr>]\<rparr>"

theorem mergeIngressPolicies_drops_cidr_witness:
  "mergeIngressPolicies (set_ingress [demo_rule ''80'' []] buildNewKnoxIngressPolicy)
     [set_ingress [demo_cidr_rule] buildNewKnoxIngressPolicy] =
   Inr (set_ingress [demo_rule ''80'' []] buildNewKnoxIngressPolicy, False)"
proof -
  have "ingress_by_port demo_cidr_rule" by code_simp
  then show ?thesis
    by (intro mergeIngressPolicies_drops_cidr [where n = demo_cidr_rule and r = "demo_rule ''80'' []"])
      (simp_all add: ingress_net.rules_set, simp_all add: demo_cidr_rule_def demo_rule_def)
qed

end
