(* ===== verification/PolicyTables.thy ===== *)
theory PolicyTables
  imports NetworkPolicy
begin

text \<open>
  \<^verbatim>\<open>libs/dbHandler.go\<close>, \<^verbatim>\<open>libs/mysqlHandler.go\<close> and \<^verbatim>\<open>libs/sqliteHandler.go\<close>: the tables of network and
  system policies. A table is the list of its rows in the order of insertion; a statement is the
  function on rows that its text describes. Columns are compared as bytes. The JSON columns hold the value
  that decoding gives back: a map of labels that is empty is left out and read back as nil. MySQL, in its default
  strict mode, refuses a value that is longer than its column, SQLite does not enforce lengths. Failures of
  the connection are not modelled.
\<close>

section \<open>Rows\<close>

record NetRow =
  nrow_apiVersion :: string
  nrow_kind :: string
  nrow_flow_ids :: "int list"
  nrow_name :: string
  nrow_cluster_name :: string
  nrow_namespace :: string
  nrow_type :: string
  nrow_rule :: string
  nrow_status :: string
  nrow_outdated :: string
  nrow_spec :: Spec
  nrow_generatedTime :: int
  nrow_updatedTime :: int

record SysRow =
  srow_apiVersion :: string
  srow_kind :: string
  srow_name :: string
  srow_clusterName :: string
  srow_namespace :: string
  srow_type :: string
  srow_status :: string
  srow_outdated :: string
  srow_spec :: KnoxSystemSpec
  srow_generatedTime :: int
  srow_updatedTime :: int
  srow_latest :: bool

record PolicyDB =
  network_policy :: "NetRow list"
  system_policy :: "SysRow list"

text \<open>The columns by name.\<close>

definition net_column :: "NetRow \<Rightarrow> string \<Rightarrow> string" where
  "net_column r c =
     (if c = ''apiVersion'' then nrow_apiVersion r else if c = ''kind'' then nrow_kind r
      else if c = ''name'' then nrow_name r else if c = ''cluster_name'' then nrow_cluster_name r
      else if c = ''namespace'' then nrow_namespace r else if c = ''type'' then nrow_type r
      else if c = ''rule'' then nrow_rule r else if c = ''status'' then nrow_status r
      else nrow_outdated r)"

definition sys_column :: "SysRow \<Rightarrow> string \<Rightarrow> string" where
  "sys_column r c =
     (if c = ''apiVersion'' then srow_apiVersion r else if c = ''kind'' then srow_kind r
      else if c = ''name'' then srow_name r else if c = ''clusterName'' then srow_clusterName r
      else if c = ''namespace'' then srow_namespace r else if c = ''type'' then srow_type r
      else if c = ''status'' then srow_status r else srow_outdated r)"

text \<open>The lengths that the schema of MySQL gives the text columns.\<close>

definition CreateTableNetworkPolicyMySQL :: "(string \<times> nat) list" where
  "CreateTableNetworkPolicyMySQL =
     [(''apiVersion'', 20), (''kind'', 20), (''name'', 50), (''cluster_name'', 50), (''namespace'', 50),
      (''type'', 10), (''rule'', 30), (''status'', 10), (''outdated'', 50)]"

definition CreateTableSystemPolicyMySQL :: "(string \<times> nat) list" where
  "CreateTableSystemPolicyMySQL =
     [(''apiVersion'', 40), (''kind'', 20), (''name'', 128), (''clusterName'', 50), (''namespace'', 50),
      (''type'', 20), (''status'', 10), (''outdated'', 50)]"

definition fits :: "(string \<times> nat) list \<Rightarrow> (string \<Rightarrow> string) \<Rightarrow> bool" where
  "fits widths column = list_all (\<lambda>(c, w). length (column c) \<le> w) widths"

text \<open>A condition for each column that the query restricts.\<close>

definition concatWhereClause :: "(string \<times> string) list \<Rightarrow> string \<Rightarrow> string \<Rightarrow> (string \<times> string) list" where
  "concatWhereClause whereClause field arg = whereClause @ [(field, arg)]"

definition selected :: "(string \<times> string) list \<Rightarrow> (string \<Rightarrow> string) \<Rightarrow> bool" where
  "selected whereClause column = list_all (\<lambda>(c, v). column c = v) whereClause"

section \<open>Network policies\<close>

definition json_labels :: "LabelMap option \<Rightarrow> LabelMap option" where
  "json_labels m = (if no_labels m then None else m)"

definition json_spec :: "Spec \<Rightarrow> Spec" where
  "json_spec spec = spec\<lparr>
     spec_Egress := map (\<lambda>r. r\<lparr>eg_MatchLabels := json_labels (eg_MatchLabels r)\<rparr>) (spec_Egress spec),
     spec_Ingress := map (\<lambda>r. r\<lparr>in_MatchLabels := json_labels (in_MatchLabels r)\<rparr>) (spec_Ingress spec)\<rparr>"

definition net_row :: "int \<Rightarrow> KnoxNetworkPolicy \<Rightarrow> NetRow" where
  "net_row now policy = \<lparr>nrow_apiVersion = np_APIVersion policy, nrow_kind = np_Kind policy,
     nrow_flow_ids = np_FlowIDs policy, nrow_name = np_meta policy ''name'',
     nrow_cluster_name = np_meta policy ''cluster_name'', nrow_namespace = np_meta policy ''namespace'',
     nrow_type = np_meta policy ''type'', nrow_rule = np_meta policy ''rule'',
     nrow_status = np_meta policy ''status'', nrow_outdated = np_Outdated policy,
     nrow_spec = json_spec (np_Spec policy), nrow_generatedTime = now, nrow_updatedTime = now\<rparr>"

definition net_policy_of :: "NetRow \<Rightarrow> KnoxNetworkPolicy" where
  "net_policy_of r = \<lparr>np_APIVersion = nrow_apiVersion r, np_Kind = nrow_kind r, np_FlowIDs = nrow_flow_ids r,
     np_Metadata = fmap_of_list [(''name'', nrow_name r), (''cluster_name'', nrow_cluster_name r),
       (''namespace'', nrow_namespace r), (''type'', nrow_type r), (''rule'', nrow_rule r),
       (''status'', nrow_status r)],
     np_Outdated = nrow_outdated r, np_Spec = nrow_spec r, np_GeneratedTime = nrow_generatedTime r,
     np_UpdatedTime = nrow_updatedTime r\<rparr>"

definition GetNetworkPoliciesFromMySQL ::
  "string \<Rightarrow> string \<Rightarrow> string \<Rightarrow> string \<Rightarrow> string \<Rightarrow> NetRow list \<Rightarrow> KnoxNetworkPolicy list" where
  "GetNetworkPoliciesFromMySQL cluster namespace status nwtype rule rows =
     (let whereClause = [];
          whereClause = (if cluster \<noteq> [] then concatWhereClause whereClause ''cluster_name'' cluster else whereClause);
          whereClause = (if namespace \<noteq> [] then concatWhereClause whereClause ''namespace'' namespace else whereClause);
          whereClause = (if status \<noteq> [] then concatWhereClause whereClause ''status'' status else whereClause);
          whereClause = (if nwtype \<noteq> [] then concatWhereClause whereClause ''type'' nwtype else whereClause);
          whereClause = (if rule \<noteq> [] then concatWhereClause whereClause ''rule'' rule else whereClause)
      in map net_policy_of (filter (\<lambda>r. selected whereClause (net_column r)) rows))"

definition GetNetworkPoliciesFromSQLite ::
  "string \<Rightarrow> string \<Rightarrow> string \<Rightarrow> NetRow list \<Rightarrow> KnoxNetworkPolicy list" where
  "GetNetworkPoliciesFromSQLite cluster namespace status rows =
     (let whereClause =
        (if cluster \<noteq> [] \<and> namespace \<noteq> [] \<and> status \<noteq> [] then
           [(''cluster_name'', cluster), (''namespace'', namespace), (''status'', status)]
         else if cluster \<noteq> [] \<and> status \<noteq> [] then [(''cluster_name'', cluster), (''status'', status)]
         else if namespace \<noteq> [] \<and> status \<noteq> [] then [(''namespace'', namespace), (''status'', status)]
         else if status \<noteq> [] then [(''status'', status)]
         else [])
      in map net_policy_of (filter (\<lambda>r. selected whereClause (net_column r)) rows))"

definition GetNetworkPolicies ::
  "string \<Rightarrow> string \<Rightarrow> string \<Rightarrow> string \<Rightarrow> string \<Rightarrow> string \<Rightarrow> PolicyDB \<Rightarrow> KnoxNetworkPolicy list" where
  "GetNetworkPolicies DBDriver cluster namespace status nwtype rule db =
     (if DBDriver = ''mysql'' then
        GetNetworkPoliciesFromMySQL cluster namespace status nwtype rule (network_policy db)
      else if DBDriver = ''sqlite3'' then
        GetNetworkPoliciesFromSQLite cluster namespace status (network_policy db)
      else [])"

definition GetNetworkPoliciesBySelector ::
  "string \<Rightarrow> string \<Rightarrow> string \<Rightarrow> string \<Rightarrow> LabelMap \<Rightarrow> PolicyDB \<Rightarrow> KnoxNetworkPolicy list" where
  "GetNetworkPoliciesBySelector DBDriver cluster namespace status selector db =
     filter (\<lambda>policy. IsLabelMapSubset (sel_MatchLabels (spec_Selector (np_Spec policy))) selector)
       (GetNetworkPolicies DBDriver cluster namespace status [] [] db)"

text \<open>An update sets the columns of every row with the name.\<close>

definition update_net_row :: "int \<Rightarrow> KnoxNetworkPolicy \<Rightarrow> NetRow \<Rightarrow> NetRow" where
  "update_net_row now policy r =
     (if nrow_name r = np_meta policy ''name'' then
        r\<lparr>nrow_apiVersion := np_APIVersion policy, nrow_kind := np_Kind policy,
          nrow_cluster_name := np_meta policy ''cluster_name'', nrow_namespace := np_meta policy ''namespace'',
          nrow_type := np_meta policy ''type'', nrow_status := np_meta policy ''status'',
          nrow_outdated := np_Outdated policy, nrow_spec := json_spec (np_Spec policy),
          nrow_updatedTime := now\<rparr>
      else r)"

definition DataTooLong :: string where "DataTooLong = ''Data too long for column''"

definition UpdateNetworkPolicyToMySQL :: "int \<Rightarrow> KnoxNetworkPolicy \<Rightarrow> NetRow list \<Rightarrow> string option \<times> NetRow list" where
  "UpdateNetworkPolicyToMySQL now policy rows =
     (let rows' = map (update_net_row now policy) rows
      in if list_all (\<lambda>r. nrow_name r = np_meta policy ''name'' \<longrightarrow> fits CreateTableNetworkPolicyMySQL (net_column r)) rows'
         then (None, rows') else (Some DataTooLong, rows))"

definition UpdateNetworkPolicyToSQLite :: "int \<Rightarrow> KnoxNetworkPolicy \<Rightarrow> NetRow list \<Rightarrow> string option \<times> NetRow list" where
  "UpdateNetworkPolicyToSQLite now policy rows = (None, map (update_net_row now policy) rows)"

definition UpdateNetworkPolicy :: "string \<Rightarrow> int \<Rightarrow> KnoxNetworkPolicy \<Rightarrow> PolicyDB \<Rightarrow> PolicyDB" where
  "UpdateNetworkPolicy DBDriver now policy db =
     (if DBDriver = ''mysql'' then db\<lparr>network_policy := snd (UpdateNetworkPolicyToMySQL now policy (network_policy db))\<rparr>
      else if DBDriver = ''sqlite3'' then
        db\<lparr>network_policy := snd (UpdateNetworkPolicyToSQLite now policy (network_policy db))\<rparr>
      else db)"

definition UpdateNetworkPolicies :: "string \<Rightarrow> int \<Rightarrow> KnoxNetworkPolicy list \<Rightarrow> PolicyDB \<Rightarrow> PolicyDB" where
  "UpdateNetworkPolicies DBDriver now policies db = fold (UpdateNetworkPolicy DBDriver now) policies db"

text \<open>Two statements; MySQL refuses the second when the name of the new policy is too long for its column.\<close>

definition UpdateOutdatedNetworkPolicyFromMySQL :: "string \<Rightarrow> string \<Rightarrow> NetRow list \<Rightarrow> string option \<times> NetRow list" where
  "UpdateOutdatedNetworkPolicyFromMySQL outdatedPolicy latestPolicy rows =
     (let rows1 = map (\<lambda>r. if nrow_name r = outdatedPolicy then r\<lparr>nrow_status := ''outdated''\<rparr> else r) rows
      in if length latestPolicy \<le> 50 \<or> \<not> list_ex (\<lambda>r. nrow_name r = outdatedPolicy) rows
         then (None, map (\<lambda>r. if nrow_name r = outdatedPolicy then r\<lparr>nrow_outdated := latestPolicy\<rparr> else r) rows1)
         else (Some DataTooLong, rows1))"

definition UpdateOutdatedNetworkPolicyFromSQLite :: "string \<Rightarrow> string \<Rightarrow> NetRow list \<Rightarrow> string option \<times> NetRow list" where
  "UpdateOutdatedNetworkPolicyFromSQLite outdatedPolicy latestPolicy rows =
     (let rows1 = map (\<lambda>r. if nrow_name r = outdatedPolicy then r\<lparr>nrow_status := ''outdated''\<rparr> else r) rows
      in (None, map (\<lambda>r. if nrow_name r = outdatedPolicy then r\<lparr>nrow_outdated := latestPolicy\<rparr> else r) rows1))"

definition UpdateOutdatedNetworkPolicy :: "string \<Rightarrow> string \<Rightarrow> string \<Rightarrow> PolicyDB \<Rightarrow> PolicyDB" where
  "UpdateOutdatedNetworkPolicy DBDriver outdatedPolicy latestPolicy db =
     (if DBDriver = ''mysql'' then
        db\<lparr>network_policy := snd (UpdateOutdatedNetworkPolicyFromMySQL outdatedPolicy latestPolicy (network_policy db))\<rparr>
      else if DBDriver = ''sqlite3'' then
        db\<lparr>network_policy := snd (UpdateOutdatedNetworkPolicyFromSQLite outdatedPolicy latestPolicy (network_policy db))\<rparr>
      else db)"

definition insertNetworkPolicy :: "int \<Rightarrow> KnoxNetworkPolicy \<Rightarrow> NetRow list \<Rightarrow> string + NetRow list" where
  "insertNetworkPolicy now policy rows =
     (if fits CreateTableNetworkPolicyMySQL (net_column (net_row now policy)) then Inr (rows @ [net_row now policy])
      else Inl DataTooLong)"

text \<open>The loop ends at the first error; the rows inserted before stay.\<close>

fun InsertNetworkPoliciesToMySQL :: "int \<Rightarrow> KnoxNetworkPolicy list \<Rightarrow> NetRow list \<Rightarrow> string option \<times> NetRow list" where
  "InsertNetworkPoliciesToMySQL now [] rows = (None, rows)"
| "InsertNetworkPoliciesToMySQL now (policy # policies) rows =
     (case insertNetworkPolicy now policy rows of
        Inl err \<Rightarrow> (Some err, rows)
      | Inr rows' \<Rightarrow> InsertNetworkPoliciesToMySQL now policies rows')"

definition insertNetworkPolicySQLite :: "int \<Rightarrow> KnoxNetworkPolicy \<Rightarrow> NetRow list \<Rightarrow> NetRow list" where
  "insertNetworkPolicySQLite now policy rows = rows @ [net_row now policy]"

definition InsertNetworkPoliciesToSQLite :: "int \<Rightarrow> KnoxNetworkPolicy list \<Rightarrow> NetRow list \<Rightarrow> string option \<times> NetRow list" where
  "InsertNetworkPoliciesToSQLite now policies rows = (None, fold (insertNetworkPolicySQLite now) policies rows)"

definition InsertNetworkPolicies :: "string \<Rightarrow> int \<Rightarrow> KnoxNetworkPolicy list \<Rightarrow> PolicyDB \<Rightarrow> PolicyDB" where
  "InsertNetworkPolicies DBDriver now policies db =
     (if DBDriver = ''mysql'' then db\<lparr>network_policy := snd (InsertNetworkPoliciesToMySQL now policies (network_policy db))\<rparr>
      else if DBDriver = ''sqlite3'' then
        db\<lparr>network_policy := snd (InsertNetworkPoliciesToSQLite now policies (network_policy db))\<rparr>
      else db)"

section \<open>System policies\<close>

definition sysp_meta :: "KnoxSystemPolicy \<Rightarrow> string \<Rightarrow> string" where
  "sysp_meta policy k = lookup_str (sysp_Metadata policy) k"

definition sys_row :: "int \<Rightarrow> KnoxSystemPolicy \<Rightarrow> SysRow" where
  "sys_row now policy = \<lparr>srow_apiVersion = sysp_APIVersion policy, srow_kind = sysp_Kind policy,
     srow_name = sysp_meta policy ''name'', srow_clusterName = sysp_meta policy ''clusterName'',
     srow_namespace = sysp_meta policy ''namespace'', srow_type = sysp_meta policy ''type'',
     srow_status = sysp_meta policy ''status'', srow_outdated = sysp_Outdated policy,
     srow_spec = sysp_Spec policy, srow_generatedTime = now, srow_updatedTime = now, srow_latest = True\<rparr>"

definition sys_policy_of :: "SysRow \<Rightarrow> KnoxSystemPolicy" where
  "sys_policy_of r = \<lparr>sysp_APIVersion = srow_apiVersion r, sysp_Kind = srow_kind r,
     sysp_Metadata = fmap_of_list [(''name'', srow_name r), (''clusterName'', srow_clusterName r),
       (''namespace'', srow_namespace r), (''type'', srow_type r), (''status'', srow_status r)],
     sysp_Outdated = srow_outdated r, sysp_Spec = srow_spec r, sysp_GeneratedTime = srow_generatedTime r,
     sysp_UpdatedTime = srow_updatedTime r, sysp_Latest = srow_latest r\<rparr>"

definition sys_where :: "string \<Rightarrow> string \<Rightarrow> (string \<times> string) list" where
  "sys_where namespace status =
     (if namespace \<noteq> [] \<and> status \<noteq> [] then [(''namespace'', namespace), (''status'', status)]
      else if namespace \<noteq> [] then [(''namespace'', namespace)]
      else if status \<noteq> [] then [(''status'', status)]
      else [])"

definition GetSystemPoliciesFromMySQL :: "string \<Rightarrow> string \<Rightarrow> SysRow list \<Rightarrow> KnoxSystemPolicy list" where
  "GetSystemPoliciesFromMySQL namespace status rows =
     map sys_policy_of (filter (\<lambda>r. selected (sys_where namespace status) (sys_column r)) rows)"

definition GetSystemPoliciesFromSQLite :: "string \<Rightarrow> string \<Rightarrow> SysRow list \<Rightarrow> KnoxSystemPolicy list" where
  "GetSystemPoliciesFromSQLite namespace status rows =
     map sys_policy_of (filter (\<lambda>r. selected (sys_where namespace status) (sys_column r)) rows)"

definition GetSystemPolicies :: "string \<Rightarrow> string \<Rightarrow> string \<Rightarrow> PolicyDB \<Rightarrow> KnoxSystemPolicy list" where
  "GetSystemPolicies DBDriver namespace status db =
     (if DBDriver = ''mysql'' then GetSystemPoliciesFromMySQL namespace status (system_policy db)
      else if DBDriver = ''sqlite3'' then GetSystemPoliciesFromSQLite namespace status (system_policy db)
      else [])"

definition insertSystemPolicy :: "int \<Rightarrow> KnoxSystemPolicy \<Rightarrow> SysRow list \<Rightarrow> string + SysRow list" where
  "insertSystemPolicy now policy rows =
     (if fits CreateTableSystemPolicyMySQL (sys_column (sys_row now policy)) then Inr (rows @ [sys_row now policy])
      else Inl DataTooLong)"

fun InsertSystemPoliciesToMySQL :: "int \<Rightarrow> KnoxSystemPolicy list \<Rightarrow> SysRow list \<Rightarrow> string option \<times> SysRow list" where
  "InsertSystemPoliciesToMySQL now [] rows = (None, rows)"
| "InsertSystemPoliciesToMySQL now (policy # policies) rows =
     (case insertSystemPolicy now policy rows of
        Inl err \<Rightarrow> (Some err, rows)
      | Inr rows' \<Rightarrow> InsertSystemPoliciesToMySQL now policies rows')"

definition insertSystemPolicySQLite :: "int \<Rightarrow> KnoxSystemPolicy \<Rightarrow> SysRow list \<Rightarrow> SysRow list" where
  "insertSystemPolicySQLite now policy rows = rows @ [sys_row now policy]"

definition InsertSystemPoliciesToSQLite :: "int \<Rightarrow> KnoxSystemPolicy list \<Rightarrow> SysRow list \<Rightarrow> string option \<times> SysRow list" where
  "InsertSystemPoliciesToSQLite now policies rows = (None, fold (insertSystemPolicySQLite now) policies rows)"

definition InsertSystemPolicies :: "string \<Rightarrow> int \<Rightarrow> KnoxSystemPolicy list \<Rightarrow> PolicyDB \<Rightarrow> PolicyDB" where
  "InsertSystemPolicies DBDriver now policies db =
     (if DBDriver = ''mysql'' then db\<lparr>system_policy := snd (InsertSystemPoliciesToMySQL now policies (system_policy db))\<rparr>
      else if DBDriver = ''sqlite3'' then
        db\<lparr>system_policy := snd (InsertSystemPoliciesToSQLite now policies (system_policy db))\<rparr>
      else db)"

definition update_sys_row :: "int \<Rightarrow> KnoxSystemPolicy \<Rightarrow> SysRow \<Rightarrow> SysRow" where
  "update_sys_row now policy r =
     (if srow_name r = sysp_meta policy ''name'' then
        r\<lparr>srow_apiVersion := sysp_APIVersion policy, srow_kind := sysp_Kind policy,
          srow_clusterName := sysp_meta policy ''clusterName'', srow_namespace := sysp_meta policy ''namespace'',
          srow_type := sysp_meta policy ''type'', srow_status := sysp_meta policy ''status'',
          srow_outdated := sysp_Outdated policy, srow_spec := sysp_Spec policy, srow_updatedTime := now,
          srow_latest := True\<rparr>
      else r)"

definition UpdateSystemPolicyToMySQL :: "int \<Rightarrow> KnoxSystemPolicy \<Rightarrow> SysRow list \<Rightarrow> string option \<times> SysRow list" where
  "UpdateSystemPolicyToMySQL now policy rows =
     (let rows' = map (update_sys_row now policy) rows
      in if list_all (\<lambda>r. srow_name r = sysp_meta policy ''name'' \<longrightarrow> fits CreateTableSystemPolicyMySQL (sys_column r)) rows'
         then (None, rows') else (Some DataTooLong, rows))"

definition UpdateSystemPolicyToSQLite :: "int \<Rightarrow> KnoxSystemPolicy \<Rightarrow> SysRow list \<Rightarrow> string option \<times> SysRow list" where
  "UpdateSystemPolicyToSQLite now policy rows = (None, map (update_sys_row now policy) rows)"

definition UpdateSystemPolicy :: "string \<Rightarrow> int \<Rightarrow> KnoxSystemPolicy \<Rightarrow> PolicyDB \<Rightarrow> PolicyDB" where
  "UpdateSystemPolicy DBDriver now policy db =
     (if DBDriver = ''mysql'' then db\<lparr>system_policy := snd (UpdateSystemPolicyToMySQL now policy (system_policy db))\<rparr>
      else if DBDriver = ''sqlite3'' then
        db\<lparr>system_policy := snd (UpdateSystemPolicyToSQLite now policy (system_policy db))\<rparr>
      else db)"

text \<open>The first statement is on the table of system policies, the second on the table of network
  policies.\<close>

definition UpdateOutdatedSystemPolicyFromMySQL :: "string \<Rightarrow> string \<Rightarrow> PolicyDB \<Rightarrow> string option \<times> PolicyDB" where
  "UpdateOutdatedSystemPolicyFromMySQL outdatedPolicy latestPolicy db =
     (let db1 = db\<lparr>system_policy :=
        map (\<lambda>r. if srow_name r = outdatedPolicy then r\<lparr>srow_status := ''outdated''\<rparr> else r) (system_policy db)\<rparr>
      in if length latestPolicy \<le> 50 \<or> \<not> list_ex (\<lambda>r. nrow_name r = outdatedPolicy) (network_policy db)
         then (None, db1\<lparr>network_policy :=
           map (\<lambda>r. if nrow_name r = outdatedPolicy then r\<lparr>nrow_outdated := latestPolicy\<rparr> else r) (network_policy db)\<rparr>)
         else (Some DataTooLong, db1))"

definition UpdateOutdatedSystemPolicyFromSQLite :: "string \<Rightarrow> string \<Rightarrow> PolicyDB \<Rightarrow> string option \<times> PolicyDB" where
  "UpdateOutdatedSystemPolicyFromSQLite outdatedPolicy latestPolicy db =
     (let db1 = db\<lparr>system_policy :=
        map (\<lambda>r. if srow_name r = outdatedPolicy then r\<lparr>srow_status := ''outdated''\<rparr> else r) (system_policy db)\<rparr>
      in (None, db1\<lparr>network_policy :=
           map (\<lambda>r. if nrow_name r = outdatedPolicy then r\<lparr>nrow_outdated := latestPolicy\<rparr> else r) (network_policy db)\<rparr>))"

definition UpdateOutdatedSystemPolicy :: "string \<Rightarrow> string \<Rightarrow> string \<Rightarrow> PolicyDB \<Rightarrow> PolicyDB" where
  "UpdateOutdatedSystemPolicy DBDriver outdatedPolicy latestPolicy db =
     (if DBDriver = ''mysql'' then snd (UpdateOutdatedSystemPolicyFromMySQL outdatedPolicy latestPolicy db)
      else if DBDriver = ''sqlite3'' then snd (UpdateOutdatedSystemPolicyFromSQLite outdatedPolicy latestPolicy db)
      else db)"

text \<open>Clearing; the file sets are another table.\<close>

definition ClearNetworkDBTableMySQL :: "PolicyDB \<Rightarrow> PolicyDB" where
  "ClearNetworkDBTableMySQL db = db\<lparr>network_policy := []\<rparr>"

definition ClearDBTablesMySQL :: "PolicyDB \<Rightarrow> PolicyDB" where
  "ClearDBTablesMySQL db = db\<lparr>network_policy := [], system_policy := []\<rparr>"

definition ClearDBTablesSQLite :: "PolicyDB \<Rightarrow> PolicyDB" where
  "ClearDBTablesSQLite db = db\<lparr>network_policy := [], system_policy := []\<rparr>"

definition ClearDBTables :: "string \<Rightarrow> PolicyDB \<Rightarrow> PolicyDB" where
  "ClearDBTables DBDriver db =
     (if DBDriver = ''mysql'' then ClearDBTablesMySQL db
      else if DBDriver = ''sqlite3'' then ClearDBTablesSQLite db
      else db)"

definition ClearNetworkDBTable :: "string \<Rightarrow> PolicyDB \<Rightarrow> PolicyDB" where
  "ClearNetworkDBTable DBDriver db = (if DBDriver = ''mysql'' then ClearNetworkDBTableMySQL db else db)"

section \<open>What a policy is after it has been stored\<close>

text \<open>The six metadata keys of the table survive, the empty maps of labels become nil, and both times are
  the time of the insertion.\<close>

definition net_keys :: "string list" where
  "net_keys = [''name'', ''cluster_name'', ''namespace'', ''type'', ''rule'', ''status'']"

definition stored_net :: "int \<Rightarrow> KnoxNetworkPolicy \<Rightarrow> KnoxNetworkPolicy" where
  "stored_net now p = p\<lparr>np_Metadata := fmap_of_list (map (\<lambda>k. (k, np_meta p k)) net_keys),
     np_Spec := json_spec (np_Spec p), np_GeneratedTime := now, np_UpdatedTime := now\<rparr>"

definition asked_net :: "string \<Rightarrow> string \<Rightarrow> string \<Rightarrow> KnoxNetworkPolicy \<Rightarrow> bool" where
  "asked_net cluster namespace status p \<longleftrightarrow>
     (cluster \<noteq> [] \<longrightarrow> np_meta p ''cluster_name'' = cluster) \<and>
     (namespace \<noteq> [] \<longrightarrow> np_meta p ''namespace'' = namespace) \<and>
     (status \<noteq> [] \<longrightarrow> np_meta p ''status'' = status)"

definition fits_net :: "KnoxNetworkPolicy \<Rightarrow> bool" where
  "fits_net p \<longleftrightarrow> fits CreateTableNetworkPolicyMySQL (net_column (net_row 0 p))"

lemma fits_net_row [simp]: "fits CreateTableNetworkPolicyMySQL (net_column (net_row now p)) \<longleftrightarrow> fits_net p"
  by (simp add: fits_net_def fits_def CreateTableNetworkPolicyMySQL_def net_column_def net_row_def)

lemma net_policy_of_row: "net_policy_of (net_row now p) = stored_net now p"
  by (simp add: net_policy_of_def net_row_def stored_net_def net_keys_def)

lemma InsertNetworkPoliciesToMySQL_rows:
  "snd (InsertNetworkPoliciesToMySQL now ps rows) = rows @ map (net_row now) (takeWhile fits_net ps)"
  by (induction ps arbitrary: rows) (auto simp: insertNetworkPolicy_def)

lemma InsertNetworkPoliciesToSQLite_rows:
  "snd (InsertNetworkPoliciesToSQLite now ps rows) = rows @ map (net_row now) ps"
proof -
  have "fold (insertNetworkPolicySQLite now) ps rows = rows @ map (net_row now) ps"
    by (induction ps arbitrary: rows) (auto simp: insertNetworkPolicySQLite_def)
  then show ?thesis by (simp add: InsertNetworkPoliciesToSQLite_def)
qed

lemma GetNetworkPoliciesFromMySQL_filter:
  "GetNetworkPoliciesFromMySQL c n s [] [] rows = filter (asked_net c n s) (map net_policy_of rows)"
  unfolding GetNetworkPoliciesFromMySQL_def Let_def filter_map
  by (rule arg_cong [of _ _ "map net_policy_of"], rule filter_cong)
    (auto simp: concatWhereClause_def selected_def asked_net_def net_policy_of_def net_column_def np_meta_def lookup_str_def)

lemma GetNetworkPoliciesFromSQLite_filter:
  assumes "s \<noteq> []"
  shows "GetNetworkPoliciesFromSQLite c n s rows = filter (asked_net c n s) (map net_policy_of rows)"
  unfolding GetNetworkPoliciesFromSQLite_def Let_def filter_map
  by (rule arg_cong [of _ _ "map net_policy_of"], rule filter_cong)
    (use assms in \<open>auto simp: selected_def asked_net_def net_policy_of_def net_column_def np_meta_def lookup_str_def\<close>)

text \<open>C29: with either driver, a query for a status finds, after the insertion of policies whose columns fit, the
  policies that it found before, followed by those of the inserted ones that have the status, and the cluster
  and the namespace if one is asked for: none is lost, none is changed beyond the encoding of the table, and
  the two drivers give the same answer.\<close>

theorem InsertNetworkPolicies_roundtrip:
  assumes "DBDriver = ''mysql'' \<and> list_all fits_net policies \<or> DBDriver = ''sqlite3''" and "status \<noteq> []"
  shows "GetNetworkPolicies DBDriver cluster namespace status [] [] (InsertNetworkPolicies DBDriver now policies db) =
    GetNetworkPolicies DBDriver cluster namespace status [] [] db @
    filter (asked_net cluster namespace status) (map (stored_net now) policies)"
proof -
  have all: "takeWhile fits_net policies = policies" if "list_all fits_net policies"
    using that by (metis list_all_iff takeWhile_eq_all_conv)
  have stored: "map net_policy_of (map (net_row now) policies) = map (stored_net now) policies"
    by (simp add: net_policy_of_row)
  from assms(1) show ?thesis
  proof (elim disjE conjE)
    assume drv: "DBDriver = ''mysql''" and "list_all fits_net policies"
    then show ?thesis
      using stored by (simp add: all GetNetworkPolicies_def InsertNetworkPolicies_def
          InsertNetworkPoliciesToMySQL_rows GetNetworkPoliciesFromMySQL_filter del: map_map)
  next
    assume drv: "DBDriver = ''sqlite3''"
    then show ?thesis
      using stored assms(2) by (simp add: GetNetworkPolicies_def InsertNetworkPolicies_def
          InsertNetworkPoliciesToSQLite_rows GetNetworkPoliciesFromSQLite_filter del: map_map)
  qed
qed

definition demo_named :: "string \<Rightarrow> string \<Rightarrow> KnoxNetworkPolicy" where
  "demo_named kind name = buildNewKnoxPolicy\<lparr>np_Kind := kind,
     np_Metadata := fmap_of_list [(''name'', name), (''status'', ''latest''), (''type'', ''ingress'')]\<rparr>"

theorem InsertNetworkPolicies_roundtrip_witness:
  "map (\<lambda>p. np_meta p ''name'') (GetNetworkPolicies ''mysql'' [] [] ''latest'' [] []
     (InsertNetworkPolicies ''mysql'' 7 [demo_named KindKnoxNetworkPolicy ''a'', demo_named KindKnoxNetworkPolicy ''b'']
       \<lparr>network_policy = [], system_policy = []\<rparr>)) = [''a'', ''b'']"
proof -
  have fits: "list_all fits_net [demo_named KindKnoxNetworkPolicy ''a'', demo_named KindKnoxNetworkPolicy ''b'']"
    by code_simp
  show ?thesis
    by (subst InsertNetworkPolicies_roundtrip) (use fits in \<open>code_simp | simp\<close>)+
qed

text \<open>The column for the kind has 20 characters and KnoxHostNetworkPolicy has 21, so MySQL refuses
  every host policy, and since the loop ends at the first error the policies after it in the same batch are not
  stored either.\<close>

theorem InsertNetworkPolicies_host_policy_ends_batch:
  assumes "np_Kind host = KindKnoxHostNetworkPolicy"
  shows "network_policy (InsertNetworkPolicies ''mysql'' now (before @ host # after) db) =
    network_policy (InsertNetworkPolicies ''mysql'' now before db)"
proof -
  have "\<not> fits_net host"
    using assms by (simp add: fits_net_def fits_def CreateTableNetworkPolicyMySQL_def net_column_def net_row_def
        KindKnoxHostNetworkPolicy_def)
  then have "takeWhile fits_net (before @ host # after) = takeWhile fits_net before"
    by (induction before) auto
  then show ?thesis
    by (simp add: InsertNetworkPolicies_def InsertNetworkPoliciesToMySQL_rows)
qed

theorem InsertNetworkPolicies_host_policy_ends_batch_witness:
  "map nrow_name (network_policy (InsertNetworkPolicies ''mysql'' 7
     ([demo_named KindKnoxNetworkPolicy ''a''] @ demo_named KindKnoxHostNetworkPolicy ''b'' #
      [demo_named KindKnoxNetworkPolicy ''c'']) \<lparr>network_policy = [], system_policy = []\<rparr>)) = [''a'']"
proof -
  have "np_Kind (demo_named KindKnoxHostNetworkPolicy ''b'') = KindKnoxHostNetworkPolicy"
    by (simp add: demo_named_def)
  from InsertNetworkPolicies_host_policy_ends_batch [OF this]
  show ?thesis by (simp only:) code_simp
qed

text \<open>The second statement of the update of an outdated system policy names the table of network policies.\<close>

lemma UpdateOutdatedSystemPolicy_wrong_table:
  "map srow_outdated (system_policy (UpdateOutdatedSystemPolicy DBDriver old latest db)) =
     map srow_outdated (system_policy db)"
  "map nrow_outdated (network_policy (UpdateOutdatedSystemPolicy ''sqlite3'' old latest db)) =
     map (\<lambda>r. if nrow_name r = old then latest else nrow_outdated r) (network_policy db)"
  by (auto simp: UpdateOutdatedSystemPolicy_def UpdateOutdatedSystemPolicyFromMySQL_def
      UpdateOutdatedSystemPolicyFromSQLite_def Let_def)

end
