(* ===== verification/NetworkDedup.thy ===== *)
theory NetworkDedup
  imports NetworkDiscovery PolicyTables
begin

text \<open>
  \<^verbatim>\<open>networkpolicy/deduplicator.go\<close>: discovered network policies are compared with the stored
  ones. \<^verbatim>\<open>UpdateDuplicatedPolicy\<close> names the new ones and merges the others into the stored
  policy of the same selector. The merge works in place on the rules of the stored policy: as long
  as no append has to move the rules, the slice in the map and the slice of the merged policy share
  their memory. The capacities of the slices are parameters.
\<close>

section \<open>Names\<close>

definition existPolicyName_net :: "string list \<Rightarrow> string \<Rightarrow> bool" where
  "existPolicyName_net policyNamesMap name = List.member policyNamesMap name"

definition net_policy_name :: "KnoxNetworkPolicy \<Rightarrow> string \<Rightarrow> string" where
  "net_policy_name policy clusterName =
     (let polType = np_meta policy ''type'';
          labels = sort (map (\<lambda>(k, v). k @ ''='' @ v) (sorted_list_of_fmap (sel_MatchLabels (spec_Selector (np_Spec policy)))));
          hashInt = HashInt (polType @ Join labels '','' @ np_meta policy ''namespace'' @ clusterName);
          hash = digits_of (uint hashInt)
      in ''autopol-'' @ polType @ ''-'' @ hash)"

definition GeneratePolicyName_net ::
  "string list \<Rightarrow> KnoxNetworkPolicy \<Rightarrow> string \<Rightarrow> string list \<times> KnoxNetworkPolicy" where
  "GeneratePolicyName_net policyNamesMap policy clusterName =
     (let name = net_policy_name policy clusterName
      in (name # policyNamesMap, set_np_meta ''cluster_name'' clusterName (set_np_meta ''name'' name policy)))"

section \<open>Merging into a stored policy\<close>

text \<open>
  The merge of the rules, with what becomes of the slice in the map: the flag, the merged rules, the
  capacity of their slice, the rules that are seen through the slice of the map, and whether both are
  the same memory.
\<close>

type_synonym 'r shared_merge = "bool \<times> 'r list \<times> nat \<times> 'r list \<times> bool"

definition shared_step ::
  "(nat \<Rightarrow> nat \<Rightarrow> nat) \<Rightarrow> ('r \<Rightarrow> bool \<Rightarrow> 'r list \<Rightarrow> go_panic + bool \<times> bool \<times> 'r list) \<Rightarrow> nat \<Rightarrow>
   'r shared_merge \<Rightarrow> 'r \<Rightarrow> go_panic + 'r shared_merge" where
  "shared_step grow match n st new =
     (let (updated, rules, capacity, seen, shared) = st in
      go_bind (add_rule match (updated, rules) new) (\<lambda>(updated', rules').
        let fits = (length rules' \<le> capacity)
        in Inr (updated', rules', if fits then capacity else grow capacity (length rules'),
             if shared then take n rules' else seen, shared \<and> fits)))"

definition shared_merge ::
  "(nat \<Rightarrow> nat \<Rightarrow> nat) \<Rightarrow> ('r \<Rightarrow> bool \<Rightarrow> 'r list \<Rightarrow> go_panic + bool \<times> bool \<times> 'r list) \<Rightarrow> 'r list \<Rightarrow> nat \<Rightarrow>
   'r list \<Rightarrow> go_panic + 'r shared_merge" where
  "shared_merge grow match rules capacity news =
     foldM (shared_step grow match (length rules)) (False, rules, capacity, rules, True) news"

type_synonym entry = "KnoxNetworkPolicy \<times> nat"

definition merge_into ::
  "(nat \<Rightarrow> nat \<Rightarrow> nat) \<Rightarrow> ('r \<Rightarrow> bool \<Rightarrow> 'r list \<Rightarrow> go_panic + bool \<times> bool \<times> 'r list) \<Rightarrow>
   (KnoxNetworkPolicy \<Rightarrow> 'r list) \<Rightarrow> ('r list \<Rightarrow> KnoxNetworkPolicy \<Rightarrow> KnoxNetworkPolicy) \<Rightarrow>
   entry \<Rightarrow> KnoxNetworkPolicy \<Rightarrow> go_panic + entry" where
  "merge_into grow match rules set_rules e newPolicy =
     (let (existPolicy, capacity) = e in
      go_bind (shared_merge grow match (rules existPolicy) capacity (rules newPolicy))
        (\<lambda>(updated, merged, capacity', seen, _).
          if updated then Inr (set_np_meta ''status'' ''updated'' (set_rules merged existPolicy), capacity')
          else Inr (set_rules seen existPolicy, capacity)))"

type_synonym exist_map = "(NetSelector \<times> entry) list"

definition dedup_policy ::
  "(entry \<Rightarrow> KnoxNetworkPolicy \<Rightarrow> go_panic + entry) \<Rightarrow> string \<Rightarrow> KnoxNetworkPolicy \<Rightarrow>
   exist_map \<times> string list \<times> KnoxNetworkPolicy list \<Rightarrow> go_panic + exist_map \<times> string list \<times> KnoxNetworkPolicy list" where
  "dedup_policy merge clusterName newPolicy st =
     (let (existPolicies, policyNamesMap, newPolicies) = st; selector = policy_selector newPolicy in
      case map_of existPolicies selector of
        Some existPolicy \<Rightarrow> go_bind (merge existPolicy newPolicy) (\<lambda>e.
          Inr (AList.update selector e existPolicies, policyNamesMap, newPolicies))
      | None \<Rightarrow>
          (let (policyNamesMap', namedPolicy) = GeneratePolicyName_net policyNamesMap newPolicy clusterName
           in Inr (existPolicies, policyNamesMap', newPolicies @ [namedPolicy])))"

record dedup_state =
  existIngressPolicies :: exist_map
  existEgressPolicies :: exist_map
  policyNames :: "string list"
  newPolicies :: "KnoxNetworkPolicy list"

definition dedup_step ::
  "(nat \<Rightarrow> nat \<Rightarrow> nat) \<Rightarrow> string \<Rightarrow> dedup_state \<Rightarrow> KnoxNetworkPolicy \<Rightarrow> go_panic + dedup_state" where
  "dedup_step grow clusterName st newPolicy =
     (if np_meta newPolicy ''type'' = PolicyTypeIngress then
        go_bind (dedup_policy (merge_into grow ingress_match (\<lambda>p. spec_Ingress (np_Spec p)) set_ingress) clusterName
            newPolicy (existIngressPolicies st, policyNames st, newPolicies st))
          (\<lambda>(m, names, new). Inr (st\<lparr>existIngressPolicies := m, policyNames := names, newPolicies := new\<rparr>))
      else
        go_bind (dedup_policy (merge_into grow egress_match (\<lambda>p. spec_Egress (np_Spec p)) set_egress) clusterName
            newPolicy (existEgressPolicies st, policyNames st, newPolicies st))
          (\<lambda>(m, names, new). Inr (st\<lparr>existEgressPolicies := m, policyNames := names, newPolicies := new\<rparr>)))"

text \<open>The capacity of a slice that was read from the database depends on its length.\<close>

definition exist_state :: "(nat \<Rightarrow> nat) \<Rightarrow> KnoxNetworkPolicy list \<Rightarrow> dedup_state" where
  "exist_state capacity existingPolicies =
     fold (\<lambda>existPolicy st.
       let selector = policy_selector existPolicy;
           st = st\<lparr>policyNames := np_meta existPolicy ''name'' # policyNames st\<rparr>
       in if np_meta existPolicy ''type'' = PolicyTypeIngress
          then st\<lparr>existIngressPolicies := AList.update selector
            (existPolicy, capacity (length (spec_Ingress (np_Spec existPolicy)))) (existIngressPolicies st)\<rparr>
          else st\<lparr>existEgressPolicies := AList.update selector
            (existPolicy, capacity (length (spec_Egress (np_Spec existPolicy)))) (existEgressPolicies st)\<rparr>)
       existingPolicies \<lparr>existIngressPolicies = [], existEgressPolicies = [], policyNames = [], newPolicies = []\<rparr>"

definition updated_policies :: "exist_map \<Rightarrow> KnoxNetworkPolicy list" where
  "updated_policies m =
     map (\<lambda>(_, policy, _). set_np_meta ''status'' ''latest'' policy)
       (filter (\<lambda>(_, policy, _). np_meta policy ''status'' = ''updated'') m)"

definition UpdateDuplicatedPolicy_net ::
  "(exist_map \<Rightarrow> exist_map) \<Rightarrow> (exist_map \<Rightarrow> exist_map) \<Rightarrow> (nat \<Rightarrow> nat) \<Rightarrow> (nat \<Rightarrow> nat \<Rightarrow> nat) \<Rightarrow>
   KnoxNetworkPolicy list \<Rightarrow> KnoxNetworkPolicy list \<Rightarrow> string \<Rightarrow>
   go_panic + KnoxNetworkPolicy list \<times> KnoxNetworkPolicy list" where
  "UpdateDuplicatedPolicy_net ordI ordE capacity grow existingPolicies discoveredPolicies clusterName =
     go_bind (foldM (dedup_step grow clusterName) (exist_state capacity existingPolicies) discoveredPolicies) (\<lambda>st.
       Inr (newPolicies st, updated_policies (ordI (existIngressPolicies st)) @
         updated_policies (ordE (existEgressPolicies st))))"

section \<open>The contract of the merge into a stored policy\<close>

text \<open>Without the memory, it is the merge of \<^verbatim>\<open>networkPolicy.go\<close>.\<close>

lemma shared_merge_eq:
  "go_bind (shared_merge grow match rules capacity news) (\<lambda>(updated, merged, _). Inr (updated, merged)) =
   foldM (add_rule match) (False, rules) news"
proof -
  have "go_bind (foldM (shared_step grow match n) (u, rs, c, s, b) news) (\<lambda>(u, rs, _). Inr (u, rs)) =
      foldM (add_rule match) (u, rs) news" for n u rs c s b
  proof (induction news arbitrary: u rs c s b)
    case (Cons x xs)
    then show ?case by (cases "add_rule match (u, rs) x") (auto simp: shared_step_def Let_def split_beta)
  qed simp
  then show ?thesis by (simp add: shared_merge_def)
qed

lemma set_np_meta_twice: "set_np_meta k v (set_np_meta k v' p) = set_np_meta k v p"
  by (simp add: set_np_meta_def)

locale policy_dedup = policy_merge icmps ports https set_https peer match good by_port same_peer rules set_rules direction
  for icmps :: "'r \<Rightarrow> SpecICMP list" and ports :: "'r \<Rightarrow> SpecPort list" and https :: "'r \<Rightarrow> SpecHTTP list"
    and set_https :: "SpecHTTP list \<Rightarrow> 'r \<Rightarrow> 'r" and peer :: "'r \<Rightarrow> 'p"
    and match :: "'r \<Rightarrow> bool \<Rightarrow> 'r list \<Rightarrow> go_panic + bool \<times> bool \<times> 'r list"
    and good :: "'r \<Rightarrow> bool" and by_port :: "'r \<Rightarrow> bool" and same_peer :: "'p \<Rightarrow> 'p \<Rightarrow> bool"
    and rules :: "KnoxNetworkPolicy \<Rightarrow> 'r list" and set_rules :: "'r list \<Rightarrow> KnoxNetworkPolicy \<Rightarrow> KnoxNetworkPolicy"
    and direction :: "KnoxNetworkPolicy \<Rightarrow> bool" +
  assumes rules_meta: "rules (set_np_meta k v p) = rules p"
    and set_rules_meta: "set_rules rs (set_np_meta k v p) = set_np_meta k v (set_rules rs p)"
    and set_rules_set: "set_rules rs (set_rules rs' p) = set_rules rs p"
begin

text \<open>What merging several lists of rules does to a stored policy: nothing but its rules and its status change, the
  rules that were there stay, up to their HTTP rules, what is added comes from the lists, no rule covers a later one,
  and the rule of a list with one rule is covered. If the status does not say so, no rule was added.\<close>

definition grown :: "'r list list \<Rightarrow> KnoxNetworkPolicy \<Rightarrow> KnoxNetworkPolicy \<Rightarrow> bool" where
  "grown nss p q \<longleftrightarrow>
     (q = set_np_meta ''status'' ''updated'' (set_rules (rules q) p) \<or>
      q = set_rules (rules q) p \<and> map l4_of (rules q) = map l4_of (rules p)) \<and>
     (\<forall>r \<in> set (rules q). good r) \<and> prefix (map l4_of (rules p)) (map l4_of (rules q)) \<and>
     l4_of ` set (rules q) \<subseteq> l4_of ` (set (rules p) \<union> set (concat nss)) \<and>
     (minimal (rules p) \<longrightarrow> minimal (rules q)) \<and>
     (\<forall>n. [n] \<in> set nss \<and> \<not> by_port n \<longrightarrow> (\<exists>r \<in> set (rules q). covers r n))"

lemma grownD:
  assumes "grown nss p q"
  shows "prefix (map l4_of (rules p)) (map l4_of (rules q))"
    and "l4_of ` set (rules q) \<subseteq> l4_of ` (set (rules p) \<union> set (concat nss))"
    and "\<forall>r \<in> set (rules q). good r"
    and "[n] \<in> set nss \<Longrightarrow> \<not> by_port n \<Longrightarrow> \<exists>r \<in> set (rules q). covers r n"
  using assms unfolding grown_def by (elim conjE, blast)+

lemma grown_refl: "\<forall>r \<in> set (rules p). good r \<Longrightarrow> grown [] p p"
  by (simp add: grown_def set_rules_id)

lemma grown_trans:
  assumes "grown nss p q" and "grown mss q q'"
  shows "grown (nss @ mss) p q'"
proof -
  have pre: "prefix (map l4_of (rules p)) (map l4_of (rules q))" "prefix (map l4_of (rules q)) (map l4_of (rules q'))"
    and img: "l4_of ` set (rules q) \<subseteq> l4_of ` set (rules p) \<union> l4_of ` set (concat nss)"
      "l4_of ` set (rules q') \<subseteq> l4_of ` set (rules q) \<union> l4_of ` set (concat mss)"
    using assms by (simp_all add: grown_def image_Un)
  have "q' = set_np_meta ''status'' ''updated'' (set_rules (rules q') p) \<or>
      q' = set_rules (rules q') p \<and> map l4_of (rules q') = map l4_of (rules p)"
    using assms unfolding grown_def
    by (metis (no_types, lifting) set_rules_meta set_rules_set set_np_meta_twice)
  moreover have "l4_of ` set (rules q') \<subseteq> l4_of ` (set (rules p) \<union> set (concat (nss @ mss)))"
    using subset_trans [OF img(2) Un_mono [OF img(1) subset_refl]] by (simp add: image_Un Un_assoc)
  moreover have "\<exists>r \<in> set (rules q'). covers r n" if n: "[n] \<in> set (nss @ mss)" "\<not> by_port n" for n
  proof (cases "[n] \<in> set mss")
    case False
    then have "[n] \<in> set nss" using n(1) by simp
    then obtain r where "r \<in> set (rules q)" "covers r n"
      using n(2) assms(1) unfolding grown_def by blast
    then show ?thesis using l4_mem [OF pre(2)] covers_l4 by blast
  qed (use n assms(2) in \<open>simp add: grown_def\<close>)
  ultimately show ?thesis
    using assms prefix_order.trans [OF pre] by (simp add: grown_def)
qed

text \<open>The rules that the map sees keep their peers and ports as well.\<close>

lemma shared_steps_ok:
  assumes "\<forall>n \<in> set ns. good n" and "\<forall>r \<in> set rs. good r" and "\<forall>r \<in> set seen. good r"
    and "prefix (map l4_of old) (map l4_of rs)" and "map l4_of seen = map l4_of old"
  shows "\<exists>u' rs' c' seen' b'.
    foldM (shared_step grow match (length old)) (u, rs, c, seen, b) ns = Inr (u', rs', c', seen', b') \<and>
    foldM (add_rule match) (u, rs) ns = Inr (u', rs') \<and> merged rs ns rs' \<and>
    map l4_of seen' = map l4_of old \<and> (\<forall>r \<in> set seen'. good r)"
  using assms
proof (induction ns arbitrary: u rs c seen b)
  case Nil
  then show ?case by (simp add: merged_def)
next
  case (Cons n ns)
  obtain v rs1 where step: "add_rule match (u, rs) n = Inr (v, rs1)"
    using add_rule_total [of n rs u] Cons.prems by auto
  have m: "merged rs [n] rs1" using merged_step [OF step] Cons.prems by simp
  let ?seen = "if b then take (length old) rs1 else seen"
  let ?fits = "length rs1 \<le> c"
  have pre: "prefix (map l4_of old) (map l4_of rs1)" and good1: "\<forall>r \<in> set rs1. good r"
    using m Cons.prems(4) prefix_order.trans by (auto simp: merged_def)
  have "take (length old) (map l4_of rs1) = map l4_of old"
    using pre by (auto simp: prefix_def)
  then have seen: "map l4_of ?seen = map l4_of old" using Cons.prems(5) by (simp add: take_map)
  have "\<forall>r \<in> set ?seen. good r" using good1 Cons.prems(3) by (auto dest: in_set_takeD)
  moreover have "\<forall>n \<in> set ns. good n" using Cons.prems(1) by simp
  ultimately obtain u' rs' c' seen' b' where IH:
    "foldM (shared_step grow match (length old)) (v, rs1, if ?fits then c else grow c (length rs1), ?seen, b \<and> ?fits) ns =
      Inr (u', rs', c', seen', b')" "foldM (add_rule match) (v, rs1) ns = Inr (u', rs')" "merged rs1 ns rs'"
    "map l4_of seen' = map l4_of old" "\<forall>r \<in> set seen'. good r"
    using Cons.IH [of rs1 ?seen v "if ?fits then c else grow c (length rs1)" "b \<and> ?fits"] good1 pre seen by blast
  have "shared_step grow match (length old) (u, rs, c, seen, b) n =
      Inr (v, rs1, if ?fits then c else grow c (length rs1), ?seen, b \<and> ?fits)"
    using step by (simp add: shared_step_def Let_def)
  then have fold: "foldM (shared_step grow match (length old)) (u, rs, c, seen, b) (n # ns) = Inr (u', rs', c', seen', b')"
    "foldM (add_rule match) (u, rs) (n # ns) = Inr (u', rs')"
    using IH(1,2) step by (simp_all only: foldM.simps go_bind.simps)
  have "merged rs (n # ns) rs'" using merged_trans [OF m IH(3)] by simp
  with fold IH(4,5) show ?case by blast
qed

lemma add_rule_same:
  assumes "add_rule match (u, rs) n = Inr (False, rs')" and "good n" and "\<forall>r \<in> set rs. good r"
  shows "map l4_of rs' = map l4_of rs"
proof -
  obtain m v rs1 where m: "match n u rs = Inr (m, v, rs1)" "map l4_of rs1 = map l4_of rs"
    using match_ok [OF assms(2,3), of u] .
  then show ?thesis using assms(1) by (cases m) (simp_all add: add_rule_def)
qed

lemma merge_into_grown:
  assumes "\<forall>n \<in> set (rules new). good n" and "\<forall>r \<in> set (rules p). good r"
  shows "\<exists>q c'. merge_into grow match rules set_rules (p, c) new = Inr (q, c') \<and> grown [rules new] p q"
proof -
  obtain u rs c' seen b where m: "shared_merge grow match (rules p) c (rules new) = Inr (u, rs, c', seen, b)"
    "foldM (add_rule match) (False, rules p) (rules new) = Inr (u, rs)" "merged (rules p) (rules new) rs"
    "map l4_of seen = map l4_of (rules p)" "\<forall>r \<in> set seen. good r"
    using shared_steps_ok [of "rules new" "rules p" "rules p" "rules p" grow False c True] assms
    by (auto simp: shared_merge_def)
  show ?thesis
  proof (cases u)
    case True
    have "grown [rules new] p (set_np_meta ''status'' ''updated'' (set_rules rs p))"
      using m(3) by (simp add: grown_def merged_def rules_meta rules_set) (metis list.set_intros(1))
    then show ?thesis using m(1) True by (simp add: merge_into_def)
  next
    case False
    have "\<exists>r \<in> set seen. covers r n" if n: "rules new = [n]" "\<not> by_port n" for n
    proof -
      have "add_rule match (False, rules p) n = Inr (False, rs)"
        using m(2) n(1) False by (auto simp: go_bind_Inr_iff)
      then have "map l4_of rs = map l4_of seen" using add_rule_same [of False "rules p" n rs] assms n(1) m(4) by simp
      moreover obtain r where "r \<in> set rs" "covers r n" using m(3) n by (auto simp: merged_def)
      ultimately show ?thesis using l4_mem [of rs seen r] covers_l4 by (metis prefix_order.order_refl)
    qed
    moreover have "l4_of ` set seen = l4_of ` set (rules p)" using m(4) by (metis set_map)
    ultimately have "grown [rules new] p (set_rules seen p)"
      using m minimal_l4 [OF m(4)] by (auto simp: grown_def rules_set)
    then show ?thesis using m(1) False by (simp add: merge_into_def)
  qed
qed

text \<open>The map of the stored policies of one direction.\<close>

definition grown_map :: "KnoxNetworkPolicy list \<Rightarrow> exist_map \<Rightarrow> exist_map \<Rightarrow> bool" where
  "grown_map ds m m' \<longleftrightarrow> map fst m' = map fst m \<and>
     (\<forall>k p c. map_of m k = Some (p, c) \<longrightarrow>
       (\<exists>q c'. map_of m' k = Some (q, c') \<and> grown (map rules (filter (\<lambda>d. policy_selector d = k) ds)) p q))"

definition good_map :: "exist_map \<Rightarrow> bool" where
  "good_map m \<longleftrightarrow> (\<forall>k p c. map_of m k = Some (p, c) \<longrightarrow> (\<forall>r \<in> set (rules p). good r))"

lemma grown_map_refl: "good_map m \<Longrightarrow> grown_map [] m m"
  by (auto simp: grown_map_def good_map_def grown_refl)

lemma grown_map_good: "good_map m \<Longrightarrow> grown_map ds m m' \<Longrightarrow> good_map m'"
proof -
  assume a: "good_map m" "grown_map ds m m'"
  have "\<forall>r \<in> set (rules q). good r" if "map_of m' k = Some (q, c)" for k q c
  proof -
    have "map fst m' = map fst m" using a(2) by (simp add: grown_map_def)
    then have "k \<in> fst ` set m" using map_of_SomeD [OF that] by (metis fst_conv image_eqI set_map)
    then have "map_of m k \<noteq> None" by (simp add: map_of_eq_None_iff)
    then obtain p c0 where "map_of m k = Some (p, c0)" by auto
    then obtain q' c' where "map_of m' k = Some (q', c')" "\<forall>r \<in> set (rules q'). good r"
      using a(2) unfolding grown_map_def grown_def by blast
    then show ?thesis using that by simp
  qed
  then show ?thesis by (simp add: good_map_def)
qed

lemma grown_map_keys: "grown_map ds m m' \<Longrightarrow> set (map fst m') = set (map fst m)"
  unfolding grown_map_def by metis

lemma grown_map_trans: "grown_map ds m m' \<Longrightarrow> grown_map es m' m'' \<Longrightarrow> grown_map (ds @ es) m m''"
  unfolding grown_map_def by (force intro: grown_trans)

lemma dedup_policy_ok:
  assumes "\<forall>n \<in> set (rules d). good n" and "good_map m"
  shows "\<exists>m' names'. dedup_policy (merge_into grow match rules set_rules) clusterName d (m, names, new) =
      Inr (m', names', new @ (if map_of m (policy_selector d) = None then [snd (GeneratePolicyName_net [] d clusterName)] else [])) \<and>
    grown_map [d] m m'"
proof (cases "map_of m (policy_selector d)")
  case None
  then have "k \<noteq> policy_selector d" if "map_of m k = Some pc" for k pc using that by auto
  then have "grown_map [d] m m" using grown_map_refl [OF assms(2)] by (fastforce simp: grown_map_def)
  then show ?thesis using None by (simp add: dedup_policy_def GeneratePolicyName_net_def Let_def)
next
  case (Some e)
  obtain p c where e: "e = (p, c)" by fastforce
  obtain q c' where q: "merge_into grow match rules set_rules (p, c) d = Inr (q, c')" "grown [rules d] p q"
    using merge_into_grown [OF assms(1)] assms(2) Some e by (metis good_map_def)
  have keys: "map fst (AList.update (policy_selector d) (q, c') m) = map fst m"
    using Some by (simp add: update_keys) (metis domI dom_map_of_conv_image_fst)
  have "grown_map [d] m (AList.update (policy_selector d) (q, c') m)"
    using keys q(2) Some e grown_map_refl [OF assms(2)] by (auto simp: grown_map_def update_conv')
  then show ?thesis using Some e q(1) by (simp add: dedup_policy_def)
qed

end

interpretation ingress_dedup: policy_dedup Ingress_GetICMPRules Ingress_GetPortRules Ingress_GetHTTPRules
    in_set_https ingress_peer ingress_match good_ingress ingress_by_port same_ingress_peer
    "\<lambda>p. spec_Ingress (np_Spec p)" set_ingress "\<lambda>p. np_meta p ''type'' = PolicyTypeIngress"
  by unfold_locales (simp_all add: set_ingress_def set_np_meta_def)

interpretation egress_dedup: policy_dedup Egress_GetICMPRules Egress_GetPortRules Egress_GetHTTPRules
    eg_set_https egress_peer egress_match good_egress egress_by_port same_egress_peer
    "\<lambda>p. spec_Egress (np_Spec p)" set_egress "\<lambda>p. np_meta p ''type'' = PolicyTypeEgress"
  by unfold_locales (simp_all add: set_egress_def set_np_meta_def)

section \<open>The loop over the discovered policies\<close>

definition is_ingress :: "KnoxNetworkPolicy \<Rightarrow> bool" where
  "is_ingress p \<longleftrightarrow> np_meta p ''type'' = PolicyTypeIngress"

text \<open>Policies whose rules have the shape that discovery gives them.\<close>

definition well_formed_net :: "KnoxNetworkPolicy \<Rightarrow> bool" where
  "well_formed_net p \<longleftrightarrow>
     (if is_ingress p then list_all good_ingress (spec_Ingress (np_Spec p))
      else list_all good_egress (spec_Egress (np_Spec p)))"

definition same_target :: "KnoxNetworkPolicy \<Rightarrow> KnoxNetworkPolicy \<Rightarrow> bool" where
  "same_target p d \<longleftrightarrow> is_ingress p = is_ingress d \<and> policy_selector p = policy_selector d"

definition named_net :: "string \<Rightarrow> KnoxNetworkPolicy \<Rightarrow> KnoxNetworkPolicy" where
  "named_net clusterName d = set_np_meta ''cluster_name'' clusterName (set_np_meta ''name'' (net_policy_name d clusterName) d)"

lemma named_net_eq: "snd (GeneratePolicyName_net names d clusterName) = named_net clusterName d"
  by (simp add: GeneratePolicyName_net_def named_net_def Let_def)

definition not_stored :: "exist_map \<Rightarrow> exist_map \<Rightarrow> KnoxNetworkPolicy \<Rightarrow> bool" where
  "not_stored mi me d \<longleftrightarrow> policy_selector d \<notin> set (map fst (if is_ingress d then mi else me))"

lemma dedup_loop:
  assumes "\<forall>d \<in> set ds. well_formed_net d" and "ingress_dedup.good_map mi" and "egress_dedup.good_map me"
  shows "\<exists>mi' me' names'. foldM (dedup_step grow clusterName)
        \<lparr>existIngressPolicies = mi, existEgressPolicies = me, policyNames = names, newPolicies = new\<rparr> ds =
      Inr \<lparr>existIngressPolicies = mi', existEgressPolicies = me', policyNames = names',
        newPolicies = new @ map (named_net clusterName) (filter (not_stored mi me) ds)\<rparr> \<and>
    ingress_dedup.grown_map (filter is_ingress ds) mi mi' \<and>
    egress_dedup.grown_map (filter (\<lambda>d. \<not> is_ingress d) ds) me me'"
  using assms
proof (induction ds arbitrary: mi me names new)
  case Nil
  then show ?case by (simp add: ingress_dedup.grown_map_refl egress_dedup.grown_map_refl)
next
  case (Cons d ds)
  let ?new = "new @ (if not_stored mi me d then [named_net clusterName d] else [])"
  obtain mi1 me1 names1 where step: "dedup_step grow clusterName
        \<lparr>existIngressPolicies = mi, existEgressPolicies = me, policyNames = names, newPolicies = new\<rparr> d =
      Inr \<lparr>existIngressPolicies = mi1, existEgressPolicies = me1, policyNames = names1, newPolicies = ?new\<rparr>"
    and g: "ingress_dedup.grown_map (filter is_ingress [d]) mi mi1"
      "egress_dedup.grown_map (filter (\<lambda>d. \<not> is_ingress d) [d]) me me1"
  proof (cases "is_ingress d")
    case True
    then have "\<forall>r \<in> set (spec_Ingress (np_Spec d)). good_ingress r"
      using Cons.prems(1) by (simp add: well_formed_net_def list_all_iff)
    from ingress_dedup.dedup_policy_ok [OF this Cons.prems(2), of grow clusterName names new]
    obtain m' names' where "dedup_policy (merge_into grow ingress_match (\<lambda>p. spec_Ingress (np_Spec p)) set_ingress)
        clusterName d (mi, names, new) = Inr (m', names', ?new)" "ingress_dedup.grown_map [d] mi m'"
      using True by (auto simp: named_net_eq not_stored_def map_of_eq_None_iff)
    then show ?thesis
      using that [of m' me names'] True egress_dedup.grown_map_refl [OF Cons.prems(3)]
      by (simp add: dedup_step_def is_ingress_def)
  next
    case False
    then have "\<forall>r \<in> set (spec_Egress (np_Spec d)). good_egress r"
      using Cons.prems(1) by (simp add: well_formed_net_def list_all_iff)
    from egress_dedup.dedup_policy_ok [OF this Cons.prems(3), of grow clusterName names new]
    obtain m' names' where "dedup_policy (merge_into grow egress_match (\<lambda>p. spec_Egress (np_Spec p)) set_egress)
        clusterName d (me, names, new) = Inr (m', names', ?new)" "egress_dedup.grown_map [d] me m'"
      using False by (auto simp: named_net_eq not_stored_def map_of_eq_None_iff)
    then show ?thesis
      using that [of mi m' names'] False ingress_dedup.grown_map_refl [OF Cons.prems(2)]
      by (simp add: dedup_step_def is_ingress_def)
  qed
  have good: "ingress_dedup.good_map mi1" "egress_dedup.good_map me1"
    using ingress_dedup.grown_map_good [OF Cons.prems(2) g(1)] egress_dedup.grown_map_good [OF Cons.prems(3) g(2)] by auto
  have keys: "not_stored mi1 me1 = not_stored mi me"
  proof -
    have "map fst mi1 = map fst mi" "map fst me1 = map fst me"
      using g unfolding ingress_dedup.grown_map_def egress_dedup.grown_map_def by blast+
    then show ?thesis unfolding not_stored_def by (intro ext) (simp del: set_map)
  qed
  have "\<forall>d \<in> set ds. well_formed_net d" using Cons.prems(1) by simp
  from Cons.IH [OF this good, of names1 ?new]
  obtain mi' me' names' where IH: "foldM (dedup_step grow clusterName)
        \<lparr>existIngressPolicies = mi1, existEgressPolicies = me1, policyNames = names1, newPolicies = ?new\<rparr> ds =
      Inr \<lparr>existIngressPolicies = mi', existEgressPolicies = me', policyNames = names',
        newPolicies = ?new @ map (named_net clusterName) (filter (not_stored mi me) ds)\<rparr>"
    "ingress_dedup.grown_map (filter is_ingress ds) mi1 mi'" "egress_dedup.grown_map (filter (\<lambda>d. \<not> is_ingress d) ds) me1 me'"
    unfolding keys by blast
  have "ingress_dedup.grown_map (filter is_ingress (d # ds)) mi mi'"
    "egress_dedup.grown_map (filter (\<lambda>d. \<not> is_ingress d) (d # ds)) me me'"
    using ingress_dedup.grown_map_trans [OF g(1) IH(2)] egress_dedup.grown_map_trans [OF g(2) IH(3)]
    by (cases "is_ingress d"; simp)+
  then show ?case using step IH(1) by (auto simp del: filter.simps simp: filter.simps(2) [of _ d ds])
qed

text \<open>The stored policy of a selector is the last one in the list.\<close>

definition stored_for :: "bool \<Rightarrow> KnoxNetworkPolicy list \<Rightarrow> NetSelector \<Rightarrow> KnoxNetworkPolicy option" where
  "stored_for ing ps k = List.find (\<lambda>p. is_ingress p = ing \<and> policy_selector p = k) (rev ps)"

lemma exist_state_maps:
  "map_of (existIngressPolicies (exist_state capacity ps)) k =
     map_option (\<lambda>p. (p, capacity (length (spec_Ingress (np_Spec p))))) (stored_for True ps k)"
  "map_of (existEgressPolicies (exist_state capacity ps)) k =
     map_option (\<lambda>p. (p, capacity (length (spec_Egress (np_Spec p))))) (stored_for False ps k)"
  "newPolicies (exist_state capacity ps) = []"
  "distinct (map fst (existIngressPolicies (exist_state capacity ps)))"
  "distinct (map fst (existEgressPolicies (exist_state capacity ps)))"
proof (induction ps rule: rev_induct)
  case (snoc p ps)
  { case 1 with snoc show ?case
      by (auto simp: exist_state_def stored_for_def Let_def is_ingress_def update_conv')
  next
    case 2 with snoc show ?case
      by (auto simp: exist_state_def stored_for_def Let_def is_ingress_def update_conv')
  next
    case 3 with snoc show ?case by (auto simp: exist_state_def Let_def)
  next
    case 4 with snoc show ?case by (auto simp: exist_state_def Let_def distinct_AList_update)
  next
    case 5 with snoc show ?case by (auto simp: exist_state_def Let_def distinct_AList_update)
  }
qed (simp_all add: exist_state_def stored_for_def)

lemma stored_for_Some:
  "stored_for ing ps k = Some p \<Longrightarrow> p \<in> set ps \<and> is_ingress p = ing \<and> policy_selector p = k"
proof -
  assume "stored_for ing ps k = Some p"
  then obtain i where "i < length (rev ps)" "is_ingress (rev ps ! i) = ing" "policy_selector (rev ps ! i) = k" "p = rev ps ! i"
    unfolding stored_for_def find_Some_iff by blast
  then show ?thesis using nth_mem [of i "rev ps"] by simp
qed

lemma stored_for_None: "stored_for ing ps k = None \<longleftrightarrow> (\<forall>p \<in> set ps. \<not> (is_ingress p = ing \<and> policy_selector p = k))"
  by (auto simp: stored_for_def find_None_iff)

lemma updated_policies_iff:
  assumes "distinct (map fst m)" and "iter_order ord"
  shows "q \<in> set (updated_policies (ord m)) \<longleftrightarrow>
    (\<exists>k p c. map_of m k = Some (p, c) \<and> np_meta p ''status'' = ''updated'' \<and> q = set_np_meta ''status'' ''latest'' p)"
  using assms by (force simp: updated_policies_def iter_order_set)

lemma iter_order_short: "iter_order ord \<Longrightarrow> ord [] = []" "iter_order ord \<Longrightarrow> ord [x] = [x]"
  using iter_order_length [of ord "[]"] iter_order_length [of ord "[x]"] iter_order_set [of ord "[x]"]
  by (auto simp: length_Suc_conv)

lemma length_digits_of: "n < 10 ^ Suc k \<Longrightarrow> length (digits_of n) \<le> Suc k"
proof (induction k arbitrary: n)
  case 0
  then show ?case by (subst digits_of.simps) simp
next
  case (Suc k)
  show ?case
  proof (cases "n < 10")
    case True
    then show ?thesis by (subst digits_of.simps) simp
  next
    case False
    have "n div 10 < 10 ^ Suc k" using Suc.prems by (simp add: int_div_less_self)
    then show ?thesis using Suc.IH [of "n div 10"] False by (subst digits_of.simps) simp
  qed
qed

section \<open>Properties\<close>

text \<open>What a rule is about, apart from its HTTP rules: the peer, the ICMP types and the ports.\<close>

type_synonym net_key = "(ingress_peer \<times> SpecICMP list \<times> SpecPort list) + (egress_peer \<times> SpecICMP list \<times> SpecPort list)"

definition net_rules :: "KnoxNetworkPolicy \<Rightarrow> net_key set" where
  "net_rules p =
     (if is_ingress p then Inl ` (\<lambda>r. (ingress_peer r, in_ICMPs r, in_ToPorts r)) ` set (spec_Ingress (np_Spec p))
      else Inr ` (\<lambda>r. (egress_peer r, eg_ICMPs r, eg_ToPorts r)) ` set (spec_Egress (np_Spec p)))"

lemma l4_of_keys:
  "ingress_rule.l4_of = (\<lambda>r. (ingress_peer r, in_ICMPs r, in_ToPorts r))"
  "egress_rule.l4_of = (\<lambda>r. (egress_peer r, eg_ICMPs r, eg_ToPorts r))"
  by (auto simp: ingress_rule.l4_of_def egress_rule.l4_of_def ingress_rule_defs egress_rule_defs)

text \<open>The state after the loop, in terms of the lists.\<close>

definition stored_now :: "KnoxNetworkPolicy list \<Rightarrow> KnoxNetworkPolicy list \<Rightarrow> KnoxNetworkPolicy \<Rightarrow> KnoxNetworkPolicy \<Rightarrow> bool" where
  "stored_now existing ds p q \<longleftrightarrow> stored_for (is_ingress p) existing (policy_selector p) = Some p \<and>
     (if is_ingress p then
        ingress_dedup.grown (map (\<lambda>p. spec_Ingress (np_Spec p)) (filter (same_target p) ds)) p q
      else egress_dedup.grown (map (\<lambda>p. spec_Egress (np_Spec p)) (filter (same_target p) ds)) p q)"

lemma dedup_result:
  assumes ord: "iter_order ordI" "iter_order ordE"
    and "\<forall>p \<in> set existing. well_formed_net p" and "\<forall>d \<in> set discovered. well_formed_net d"
  obtains upd where "UpdateDuplicatedPolicy_net ordI ordE capacity grow existing discovered clusterName =
      Inr (map (named_net clusterName) (filter (\<lambda>d. \<not> list_ex (\<lambda>p. same_target p d) existing) discovered), upd)"
    and "\<forall>q \<in> set upd. \<exists>p q'. stored_now existing discovered p q' \<and> np_meta q' ''status'' = ''updated'' \<and>
      q = set_np_meta ''status'' ''latest'' q'"
    and "\<forall>p. stored_for (is_ingress p) existing (policy_selector p) = Some p \<longrightarrow>
      (\<exists>q. stored_now existing discovered p q \<and>
        (np_meta q ''status'' = ''updated'' \<longrightarrow> set_np_meta ''status'' ''latest'' q \<in> set upd))"
proof -
  let ?st = "exist_state capacity existing"
  let ?mi = "existIngressPolicies ?st" and ?me = "existEgressPolicies ?st"
  have wf: "well_formed_net p" if "stored_for ing existing k = Some p" for ing k p
    using stored_for_Some [OF that] assms(3) by blast
  have good: "ingress_dedup.good_map ?mi" "egress_dedup.good_map ?me"
    using wf stored_for_Some
    by (fastforce simp: ingress_dedup.good_map_def egress_dedup.good_map_def exist_state_maps well_formed_net_def list_all_iff)+
  have st: "\<lparr>existIngressPolicies = ?mi, existEgressPolicies = ?me, policyNames = policyNames ?st, newPolicies = []\<rparr> = ?st"
    by (rule dedup_state.equality) (simp_all add: exist_state_maps(3))
  obtain mi' me' names' where loop: "foldM (dedup_step grow clusterName) ?st discovered =
      Inr \<lparr>existIngressPolicies = mi', existEgressPolicies = me', policyNames = names',
        newPolicies = map (named_net clusterName) (filter (not_stored ?mi ?me) discovered)\<rparr>"
    and g: "ingress_dedup.grown_map (filter is_ingress discovered) ?mi mi'"
      "egress_dedup.grown_map (filter (\<lambda>d. \<not> is_ingress d) discovered) ?me me'"
    using dedup_loop [OF assms(4) good, of grow clusterName "policyNames ?st" "[]"] unfolding st by auto
  have new: "not_stored ?mi ?me = (\<lambda>d. \<not> list_ex (\<lambda>p. same_target p d) existing)"
  proof
    fix d
    have "policy_selector d \<notin> set (map fst ?mi) \<longleftrightarrow> stored_for True existing (policy_selector d) = None"
      "policy_selector d \<notin> set (map fst ?me) \<longleftrightarrow> stored_for False existing (policy_selector d) = None"
      by (simp_all add: map_of_eq_None_iff [symmetric] exist_state_maps)
    then show "not_stored ?mi ?me d = (\<not> list_ex (\<lambda>p. same_target p d) existing)"
      by (auto simp: not_stored_def stored_for_None same_target_def list_ex_iff simp del: set_map)
  qed
  have keys: "distinct (map fst mi')" "distinct (map fst me')"
    using g exist_state_maps(4,5) unfolding ingress_dedup.grown_map_def egress_dedup.grown_map_def by metis+
  let ?upd = "updated_policies (ordI mi') @ updated_policies (ordE me')"
  have result: "UpdateDuplicatedPolicy_net ordI ordE capacity grow existing discovered clusterName =
      Inr (map (named_net clusterName) (filter (\<lambda>d. \<not> list_ex (\<lambda>p. same_target p d) existing) discovered), ?upd)"
    using loop unfolding new by (simp add: UpdateDuplicatedPolicy_net_def)
  have ing: "\<exists>q c. map_of mi' k = Some (q, c) \<and> stored_now existing discovered p q"
    if st: "stored_for True existing k = Some p" for k p
  proof -
    have p: "is_ingress p" "policy_selector p = k" using stored_for_Some [OF st] by auto
    then have "filter (\<lambda>d. policy_selector d = k) (filter is_ingress discovered) = filter (same_target p) discovered"
      by (auto simp: same_target_def intro!: filter_cong)
    moreover obtain c where "map_of ?mi k = Some (p, c)" using st by (simp add: exist_state_maps)
    ultimately obtain q c' where "map_of mi' k = Some (q, c')"
      "ingress_dedup.grown (map (\<lambda>p. spec_Ingress (np_Spec p)) (filter (same_target p) discovered)) p q"
      using g(1) unfolding ingress_dedup.grown_map_def by metis
    then show ?thesis using st p by (auto simp: stored_now_def)
  qed
  have eg: "\<exists>q c. map_of me' k = Some (q, c) \<and> stored_now existing discovered p q"
    if st: "stored_for False existing k = Some p" for k p
  proof -
    have p: "\<not> is_ingress p" "policy_selector p = k" using stored_for_Some [OF st] by auto
    then have "filter (\<lambda>d. policy_selector d = k) (filter (\<lambda>d. \<not> is_ingress d) discovered) = filter (same_target p) discovered"
      by (auto simp: same_target_def intro!: filter_cong)
    moreover obtain c where "map_of ?me k = Some (p, c)" using st by (simp add: exist_state_maps)
    ultimately obtain q c' where "map_of me' k = Some (q, c')"
      "egress_dedup.grown (map (\<lambda>p. spec_Egress (np_Spec p)) (filter (same_target p) discovered)) p q"
      using g(2) unfolding egress_dedup.grown_map_def by metis
    then show ?thesis using st p by (auto simp: stored_now_def)
  qed
  have from_mi: "\<exists>p. stored_for True existing k = Some p" if "map_of mi' k = Some e" for k e
  proof -
    have "k \<in> set (map fst mi')" using map_of_SomeD [OF that] by force
    then have "k \<in> set (map fst ?mi)" using ingress_dedup.grown_map_keys [OF g(1)] by blast
    then have "map_of ?mi k \<noteq> None" by (simp add: map_of_eq_None_iff)
    then show ?thesis by (simp add: exist_state_maps)
  qed
  have from_me: "\<exists>p. stored_for False existing k = Some p" if "map_of me' k = Some e" for k e
  proof -
    have "k \<in> set (map fst me')" using map_of_SomeD [OF that] by force
    then have "k \<in> set (map fst ?me)" using egress_dedup.grown_map_keys [OF g(2)] by blast
    then have "map_of ?me k \<noteq> None" by (simp add: map_of_eq_None_iff)
    then show ?thesis by (simp add: exist_state_maps)
  qed
  have upd: "q \<in> set ?upd \<longleftrightarrow> (\<exists>k p c. (map_of mi' k = Some (p, c) \<or> map_of me' k = Some (p, c)) \<and>
      np_meta p ''status'' = ''updated'' \<and> q = set_np_meta ''status'' ''latest'' p)" for q
    unfolding set_append Un_iff updated_policies_iff [OF keys(1) ord(1)] updated_policies_iff [OF keys(2) ord(2)] by blast
  show ?thesis
  proof (rule that [OF result]; intro allI ballI impI)
    fix q assume "q \<in> set ?upd"
    then obtain k q' c where q': "map_of mi' k = Some (q', c) \<or> map_of me' k = Some (q', c)"
      "np_meta q' ''status'' = ''updated''" "q = set_np_meta ''status'' ''latest'' q'" using upd by blast
    from q'(1) have "\<exists>p. stored_now existing discovered p q'"
      using from_mi ing from_me eg by (metis option.inject prod.inject)
    then show "\<exists>p q'. stored_now existing discovered p q' \<and> np_meta q' ''status'' = ''updated'' \<and>
        q = set_np_meta ''status'' ''latest'' q'" using q' by blast
  next
    fix p assume "stored_for (is_ingress p) existing (policy_selector p) = Some p"
    then obtain q c where q: "stored_now existing discovered p q"
      "map_of mi' (policy_selector p) = Some (q, c) \<or> map_of me' (policy_selector p) = Some (q, c)"
      using ing [of "policy_selector p" p] eg [of "policy_selector p" p] by (cases "is_ingress p") auto
    then show "\<exists>q. stored_now existing discovered p q \<and>
        (np_meta q ''status'' = ''updated'' \<longrightarrow> set_np_meta ''status'' ''latest'' q \<in> set ?upd)"
      using upd by blast
  qed
qed

lemma set_status_simps [simp]:
  "is_ingress (set_np_meta ''status'' v p) = is_ingress p"
  "policy_selector (set_np_meta k v p) = policy_selector p"
  "np_meta (set_np_meta k v p) k' = (if k = k' then v else np_meta p k')"
  "np_Spec (set_np_meta k v p) = np_Spec p"
  by (simp_all add: is_ingress_def np_meta_def set_np_meta_def policy_selector_def)

lemma set_rules_simps [simp]:
  "is_ingress (set_ingress rs p) = is_ingress p" "is_ingress (set_egress es p) = is_ingress p"
  "policy_selector (set_ingress rs p) = policy_selector p" "policy_selector (set_egress es p) = policy_selector p"
  "np_meta (set_ingress rs p) k = np_meta p k" "np_meta (set_egress es p) k = np_meta p k"
  by (simp_all add: is_ingress_def np_meta_def set_ingress_def set_egress_def policy_selector_def)

lemma changed_frame:
  assumes "q = set_np_meta ''status'' ''updated'' r \<or> q = r \<and> same"
    and "r = set_ingress rs p \<or> r = set_egress es p"
  shows "is_ingress q = is_ingress p \<and> policy_selector q = policy_selector p \<and>
    (k \<noteq> ''status'' \<longrightarrow> np_meta q k = np_meta p k) \<and> (np_meta q ''status'' \<noteq> ''updated'' \<longrightarrow> same)"
  using assms by auto

lemma grown_frame:
  "ingress_dedup.grown nss p q \<Longrightarrow> is_ingress q = is_ingress p \<and> policy_selector q = policy_selector p \<and>
    (k \<noteq> ''status'' \<longrightarrow> np_meta q k = np_meta p k) \<and>
    (np_meta q ''status'' \<noteq> ''updated'' \<longrightarrow>
      map ingress_rule.l4_of (spec_Ingress (np_Spec q)) = map ingress_rule.l4_of (spec_Ingress (np_Spec p)))"
  "egress_dedup.grown mss p q' \<Longrightarrow> is_ingress q' = is_ingress p \<and> policy_selector q' = policy_selector p \<and>
    (k \<noteq> ''status'' \<longrightarrow> np_meta q' k = np_meta p k) \<and>
    (np_meta q' ''status'' \<noteq> ''updated'' \<longrightarrow>
      map egress_rule.l4_of (spec_Egress (np_Spec q')) = map egress_rule.l4_of (spec_Egress (np_Spec p)))"
proof -
  show "ingress_dedup.grown nss p q \<Longrightarrow> is_ingress q = is_ingress p \<and> policy_selector q = policy_selector p \<and>
    (k \<noteq> ''status'' \<longrightarrow> np_meta q k = np_meta p k) \<and>
    (np_meta q ''status'' \<noteq> ''updated'' \<longrightarrow>
      map ingress_rule.l4_of (spec_Ingress (np_Spec q)) = map ingress_rule.l4_of (spec_Ingress (np_Spec p)))"
    unfolding ingress_dedup.grown_def by (elim conjE, erule changed_frame) (rule disjI1, rule refl)
  show "egress_dedup.grown mss p q' \<Longrightarrow> is_ingress q' = is_ingress p \<and> policy_selector q' = policy_selector p \<and>
    (k \<noteq> ''status'' \<longrightarrow> np_meta q' k = np_meta p k) \<and>
    (np_meta q' ''status'' \<noteq> ''updated'' \<longrightarrow>
      map egress_rule.l4_of (spec_Egress (np_Spec q')) = map egress_rule.l4_of (spec_Egress (np_Spec p)))"
    unfolding egress_dedup.grown_def by (elim conjE, erule changed_frame) (rule disjI2, rule refl)
qed

lemma keys_between:
  assumes "prefix (map l (rs p)) (map l (rs q))" and "l ` set (rs q) \<subseteq> l ` (set (rs p) \<union> set (concat (map rs ds)))"
    and "\<forall>r \<in> {p, q} \<union> set ds. keys r = c ` l ` set (rs r)"
  shows "keys p \<subseteq> keys q" and "keys q \<subseteq> keys p \<union> (\<Union>d \<in> set ds. keys d)"
proof -
  have "l ` set (rs p) \<subseteq> l ` set (rs q)" using set_mono_prefix [OF assms(1)] by simp
  then show "keys p \<subseteq> keys q" using assms(3) by (simp add: image_mono)
  have "c ` l ` set (rs q) \<subseteq> c ` l ` set (rs p) \<union> c ` l ` (\<Union>d \<in> set ds. set (rs d))"
    using image_mono [OF assms(2), of c] by (simp add: image_Un)
  moreover have "c ` l ` (\<Union>d \<in> set ds. set (rs d)) = (\<Union>d \<in> set ds. keys d)"
    using assms(3) by (simp add: image_UN)
  ultimately show "keys q \<subseteq> keys p \<union> (\<Union>d \<in> set ds. keys d)" using assms(3) by simp
qed

lemma stored_now_frame:
  assumes "stored_now existing ds p q"
  shows "p \<in> set existing" "same_target p q" "np_meta q ''name'' = np_meta p ''name''" "well_formed_net q"
    "net_rules p \<subseteq> net_rules q" "net_rules q \<subseteq> net_rules p \<union> (\<Union>d \<in> set (filter (same_target p) ds). net_rules d)"
    "np_meta q ''status'' \<noteq> ''updated'' \<longrightarrow> net_rules q = net_rules p"
proof -
  show "p \<in> set existing" using assms stored_for_Some by (auto simp: stored_now_def)
  have "same_target p q \<and> np_meta q ''name'' = np_meta p ''name'' \<and> well_formed_net q \<and> net_rules p \<subseteq> net_rules q \<and>
    net_rules q \<subseteq> net_rules p \<union> (\<Union>d \<in> set (filter (same_target p) ds). net_rules d) \<and>
    (np_meta q ''status'' \<noteq> ''updated'' \<longrightarrow> net_rules q = net_rules p)"
  proof (cases "is_ingress p")
    case True
    then have g: "ingress_dedup.grown (map (\<lambda>p. spec_Ingress (np_Spec p)) (filter (same_target p) ds)) p q"
      using assms by (simp add: stored_now_def)
    note f = grown_frame(1) [OF g]
    have keys: "net_rules r = Inl ` ingress_rule.l4_of ` set (spec_Ingress (np_Spec r))" if "is_ingress r" for r
      using that by (simp add: net_rules_def l4_of_keys)
    have "\<forall>r \<in> {p, q} \<union> set (filter (same_target p) ds). is_ingress r" using True f by (auto simp: same_target_def)
    then have all: "\<forall>r \<in> {p, q} \<union> set (filter (same_target p) ds).
        net_rules r = Inl ` ingress_rule.l4_of ` set (spec_Ingress (np_Spec r))" using keys by blast
    have "well_formed_net q" using f True ingress_dedup.grownD(3) [OF g] by (simp add: well_formed_net_def list_all_iff)
    moreover have "net_rules q = net_rules p" if "np_meta q ''status'' \<noteq> ''updated''"
    proof -
      have "map ingress_rule.l4_of (spec_Ingress (np_Spec q)) = map ingress_rule.l4_of (spec_Ingress (np_Spec p))"
        using f that by blast
      from arg_cong [OF this, of set] show ?thesis using all by simp
    qed
    ultimately show ?thesis
      using f keys_between [OF ingress_dedup.grownD(1,2) [OF g] all] by (simp add: same_target_def)
  next

    case False
    then have g: "egress_dedup.grown (map (\<lambda>p. spec_Egress (np_Spec p)) (filter (same_target p) ds)) p q"
      using assms by (simp add: stored_now_def)
    note f = grown_frame(2) [OF g]
    have keys: "net_rules r = Inr ` egress_rule.l4_of ` set (spec_Egress (np_Spec r))" if "\<not> is_ingress r" for r
      using that by (simp add: net_rules_def l4_of_keys)
    have "\<forall>r \<in> {p, q} \<union> set (filter (same_target p) ds). \<not> is_ingress r" using False f by (auto simp: same_target_def)
    then have all: "\<forall>r \<in> {p, q} \<union> set (filter (same_target p) ds).
        net_rules r = Inr ` egress_rule.l4_of ` set (spec_Egress (np_Spec r))" using keys by blast
    have "well_formed_net q" using f False egress_dedup.grownD(3) [OF g] by (simp add: well_formed_net_def list_all_iff)
    moreover have "net_rules q = net_rules p" if "np_meta q ''status'' \<noteq> ''updated''"
    proof -
      have "map egress_rule.l4_of (spec_Egress (np_Spec q)) = map egress_rule.l4_of (spec_Egress (np_Spec p))"
        using f that by blast
      from arg_cong [OF this, of set] show ?thesis using all by simp
    qed
    ultimately show ?thesis
      using f keys_between [OF egress_dedup.grownD(1,2) [OF g] all] by (simp add: same_target_def)
  qed
  then show "same_target p q" "np_meta q ''name'' = np_meta p ''name''" "well_formed_net q"
    "net_rules p \<subseteq> net_rules q" "net_rules q \<subseteq> net_rules p \<union> (\<Union>d \<in> set (filter (same_target p) ds). net_rules d)"
    "np_meta q ''status'' \<noteq> ''updated'' \<longrightarrow> net_rules q = net_rules p" by auto
qed

lemma latest_simps [simp]:
  "well_formed_net (set_np_meta ''status'' v q) = well_formed_net q"
  "net_rules (set_np_meta ''status'' v q) = net_rules q"
  "same_target p (set_np_meta ''status'' v q) = same_target p q"
  "same_target (set_np_meta ''status'' v q) d = same_target q d"
  by (simp_all add: well_formed_net_def net_rules_def same_target_def)


definition demo_named_rule :: "string \<Rightarrow> string \<Rightarrow> Ingress" where
  "demo_named_rule app port = Ingress_zero\<lparr>in_MatchLabels := Some (fmupd ''app'' app fmempty),
     in_ToPorts := [\<lparr>port_Port = port, port_Protocol = ''TCP''\<rparr>]\<rparr>"

definition demo_stored :: KnoxNetworkPolicy where
  "demo_stored = set_np_meta ''name'' ''stored'' (set_ingress [demo_named_rule ''a'' ''80''] buildNewKnoxIngressPolicy)"

definition demo_found :: KnoxNetworkPolicy where
  "demo_found = set_ingress [demo_named_rule ''b'' ''80''] buildNewKnoxIngressPolicy"

definition demo_new :: KnoxNetworkPolicy where
  "demo_new = set_np_selector (fmupd ''app'' ''c'' fmempty) demo_found"

lemma demo_dedup_ok:
  "list_all well_formed_net [demo_stored]" "list_all well_formed_net [demo_found, demo_new]"
  "filter (\<lambda>d. \<not> list_ex (\<lambda>p. same_target p d) [demo_stored]) [demo_found, demo_new] = [demo_new]"
  by code_simp+


text \<open>A rule that covers another, for policies of either direction.\<close>

definition net_covers :: "KnoxNetworkPolicy \<Rightarrow> KnoxNetworkPolicy \<Rightarrow> bool" where
  "net_covers q d \<longleftrightarrow>
     (if is_ingress d then list_all (\<lambda>n. list_ex (\<lambda>r. ingress_covers r n) (spec_Ingress (np_Spec q))) (spec_Ingress (np_Spec d))
      else list_all (\<lambda>n. list_ex (\<lambda>r. egress_covers r n) (spec_Egress (np_Spec q))) (spec_Egress (np_Spec d)))"

definition one_rule :: "KnoxNetworkPolicy \<Rightarrow> bool" where
  "one_rule d \<longleftrightarrow>
     (if is_ingress d then length (spec_Ingress (np_Spec d)) = 1 \<and> list_all (\<lambda>r. \<not> ingress_by_port r) (spec_Ingress (np_Spec d))
      else length (spec_Egress (np_Spec d)) = 1 \<and> list_all (\<lambda>r. \<not> egress_by_port r) (spec_Egress (np_Spec d)))"

lemma net_covers_latest: "net_covers (set_np_meta k v q) d = net_covers q d"
  by (simp add: net_covers_def)

lemma stored_now_covers:
  assumes "stored_now existing ds p q" and "d \<in> set ds" and "same_target p d" and "one_rule d"
  shows "net_covers q d \<and> (np_meta q ''status'' \<noteq> ''updated'' \<longrightarrow> net_covers p d)"
proof (cases "is_ingress d")
  case True
  let ?nss = "map (\<lambda>p. spec_Ingress (np_Spec p)) (filter (same_target p) ds)"
  have g: "ingress_dedup.grown ?nss p q" using assms(1,3) True by (simp add: stored_now_def same_target_def)
  obtain n where n: "spec_Ingress (np_Spec d) = [n]" "\<not> ingress_by_port n"
    using assms(4) True by (auto simp: one_rule_def length_Suc_conv)
  then have "[n] \<in> set ?nss" using assms(2,3) by force
  then obtain r where r: "r \<in> set (spec_Ingress (np_Spec q))" "ingress_rules.covers r n"
    using ingress_dedup.grownD(4) [OF g] n(2) by blast
  have "\<exists>r \<in> set (spec_Ingress (np_Spec p)). ingress_rules.covers r n" if "np_meta q ''status'' \<noteq> ''updated''"
    using grown_frame(1) [OF g] that ingress_rules.l4_mem [of "spec_Ingress (np_Spec q)" "spec_Ingress (np_Spec p)" r]
      r ingress_rules.covers_l4 by (metis prefix_order.order_refl)
  then show ?thesis using r n(1) True by (auto simp: net_covers_def list_ex_iff ingress_covers_eq)
next
  case False
  let ?nss = "map (\<lambda>p. spec_Egress (np_Spec p)) (filter (same_target p) ds)"
  have g: "egress_dedup.grown ?nss p q" using assms(1,3) False by (simp add: stored_now_def same_target_def)
  obtain n where n: "spec_Egress (np_Spec d) = [n]" "\<not> egress_by_port n"
    using assms(4) False by (auto simp: one_rule_def length_Suc_conv)
  then have "[n] \<in> set ?nss" using assms(2,3) by force
  then obtain r where r: "r \<in> set (spec_Egress (np_Spec q))" "egress_rules.covers r n"
    using egress_dedup.grownD(4) [OF g] n(2) by blast
  have "\<exists>r \<in> set (spec_Egress (np_Spec p)). egress_rules.covers r n" if "np_meta q ''status'' \<noteq> ''updated''"
    using grown_frame(2) [OF g] that egress_rules.l4_mem [of "spec_Egress (np_Spec q)" "spec_Egress (np_Spec p)" r]
      r egress_rules.covers_l4 by (metis prefix_order.order_refl)
  then show ?thesis using r n(1) False by (auto simp: net_covers_def list_ex_iff egress_covers_eq)
qed

text \<open>A discovered policy with one rule that names a peer is covered after deduplication: by a new policy, by an
  updated one, or by the stored one as it was.\<close>

theorem UpdateDuplicatedPolicy_net_covers:
  assumes "iter_order ordI" and "iter_order ordE"
    and "list_all well_formed_net existing" and "list_all well_formed_net discovered"
    and "UpdateDuplicatedPolicy_net ordI ordE capacity grow existing discovered clusterName = Inr (new, updated)"
    and "d \<in> set discovered" and "one_rule d"
  shows "\<exists>q \<in> set (new @ updated @ existing). same_target q d \<and> net_covers q d"
proof -
  have wf: "\<forall>p \<in> set existing. well_formed_net p" "\<forall>d \<in> set discovered. well_formed_net d"
    using assms(3,4) by (simp_all add: list_all_iff)
  from dedup_result [OF assms(1,2) wf, of capacity grow clusterName] assms(5)
  have new: "new = map (named_net clusterName) (filter (\<lambda>d. \<not> list_ex (\<lambda>p. same_target p d) existing) discovered)"
    and upd: "\<forall>p. stored_for (is_ingress p) existing (policy_selector p) = Some p \<longrightarrow>
      (\<exists>q. stored_now existing discovered p q \<and>
        (np_meta q ''status'' = ''updated'' \<longrightarrow> set_np_meta ''status'' ''latest'' q \<in> set updated))" by auto
  show ?thesis
  proof (cases "stored_for (is_ingress d) existing (policy_selector d)")
    case None
    then have "named_net clusterName d \<in> set new"
      using assms(6) new by (auto simp: stored_for_None same_target_def list_ex_iff)
    moreover have "same_target (named_net clusterName d) d" by (simp add: named_net_def same_target_def is_ingress_def)
    moreover have "net_covers (named_net clusterName d) d"
    proof -
      have "well_formed_net d" using wf(2) assms(6) by blast
      then show ?thesis using assms(7) ingress_rules.covers_self egress_rules.covers_self
        by (auto simp: net_covers_def one_rule_def named_net_def well_formed_net_def list_all_iff list_ex_iff
            ingress_covers_eq egress_covers_eq split: if_splits) blast+
    qed
    ultimately show ?thesis by auto
  next
    case (Some p)
    note p = stored_for_Some [OF Some]
    then have d: "same_target p d" by (simp add: same_target_def)
    have "stored_for (is_ingress p) existing (policy_selector p) = Some p" using Some p by simp
    then obtain q where q: "stored_now existing discovered p q"
      "np_meta q ''status'' = ''updated'' \<longrightarrow> set_np_meta ''status'' ''latest'' q \<in> set updated" using upd by blast
    note c = stored_now_covers [OF q(1) assms(6) d assms(7)]
    show ?thesis
    proof (cases "np_meta q ''status'' = ''updated''")
      case True
      have "same_target q d" using stored_now_frame(2) [OF q(1)] d by (simp add: same_target_def)
      then show ?thesis using True q(2) c
        by (intro bexI [of _ "set_np_meta ''status'' ''latest'' q"]) (auto simp: net_covers_latest)
    next
      case False
      then show ?thesis using c d p by (intro bexI [of _ p]) auto
    qed
  qed
qed

theorem UpdateDuplicatedPolicy_net_covers_witness:
  "\<exists>new updated. UpdateDuplicatedPolicy_net id rev (\<lambda>n. n) (\<lambda>c n. n) [demo_stored] [demo_found, demo_new] ''x'' = Inr (new, updated) \<and>
     list_ex (\<lambda>q. same_target q demo_found \<and> net_covers q demo_found) (new @ updated @ [demo_stored])"
proof -
  have ord: "iter_order id" by (simp add: iter_order_def)
  have wf: "\<forall>p \<in> set [demo_stored]. well_formed_net p" "\<forall>d \<in> set [demo_found, demo_new]. well_formed_net d"
    using demo_dedup_ok(1,2) by (simp_all add: list_all_iff)
  obtain new updated where r: "UpdateDuplicatedPolicy_net id rev (\<lambda>n. n) (\<lambda>c n. n) [demo_stored] [demo_found, demo_new] ''x'' =
      Inr (new, updated)" by (rule dedup_result [OF ord iter_order_rev wf], rule that)
  have "one_rule demo_found" by code_simp
  from UpdateDuplicatedPolicy_net_covers [OF ord iter_order_rev demo_dedup_ok(1,2) r _ this]
  show ?thesis using r by (auto simp: list_ex_iff)
qed

text \<open>The flag says only whether the last rule changed anything. A discovered policy that has a rule for a
  new peer, followed by a rule that is stored already, is dropped as a whole: nothing is new and nothing is updated,
  and the rule for the new peer is lost.\<close>

theorem UpdateDuplicatedPolicy_net_loses_rule:
  assumes "iter_order ordI" and "iter_order ordE" and "is_ingress p" and "same_target p d"
    and "np_meta p ''status'' \<noteq> ''updated''"
    and "spec_Ingress (np_Spec p) = [e]" and "spec_Ingress (np_Spec d) = [n, e]" and "good_ingress e"
    and "\<not> no_labels (in_MatchLabels e)" and "\<not> no_labels (in_MatchLabels n)"
    and "label_text (in_MatchLabels n) \<noteq> label_text (in_MatchLabels e)"
  shows "UpdateDuplicatedPolicy_net ordI ordE capacity grow [p] [d] clusterName = Inr ([], []) \<and> \<not> net_covers p d"
proof -
  have http: "\<exists>h. mergeHttpRules Ingress_GetICMPRules Ingress_GetPortRules Ingress_GetHTTPRules e e = Inr (True, False, h)"
    using assms(8) by (cases "in_ICMPs e"; cases "in_ToPorts e")
      (auto simp: mergeHttpRules_def good_ingress_def ingress_valid_def ingress_rule_defs SpecICMP_Equal_def SpecPort_Equal_def)
  then obtain h where h: "mergeHttpRules Ingress_GetICMPRules Ingress_GetPortRules Ingress_GetHTTPRules e e = Inr (True, False, h)" ..
  have n: "add_rule ingress_match (False, [e]) n = Inr (True, [e, n])"
    using assms(9-11) by (simp add: add_rule_def ingress_match_cases same_labels_def)
  have e: "add_rule ingress_match (True, [e, n]) e = Inr (False, [in_set_https h e, n])"
    using assms(9-11) h by (simp add: add_rule_def ingress_match_cases same_labels_def)
  obtain c rs b where m: "shared_merge grow ingress_match [e] (capacity 1) [n, e] = Inr (False, [in_set_https h e, n], c, rs, b)"
    using n e by (auto simp: shared_merge_def shared_step_def Let_def)
  let ?sel = "policy_selector p"
  have st: "exist_state capacity [p] = \<lparr>existIngressPolicies = [(?sel, (p, capacity 1))], existEgressPolicies = [],
      policyNames = [np_meta p ''name''], newPolicies = []\<rparr>"
    using assms(3,6) by (simp add: exist_state_def Let_def is_ingress_def)
  have d: "np_meta d ''type'' = PolicyTypeIngress" "policy_selector d = ?sel"
    using assms(3,4) by (simp_all add: same_target_def is_ingress_def)
  have "foldM (dedup_step grow clusterName) (exist_state capacity [p]) [d] =
      Inr ((exist_state capacity [p])\<lparr>existIngressPolicies := [(?sel, (set_ingress rs p, capacity 1))]\<rparr>)"
    using d m assms(6,7) by (simp add: st dedup_step_def dedup_policy_def merge_into_def)
  moreover have "ordI [(?sel, (set_ingress rs p, capacity 1))] = [(?sel, (set_ingress rs p, capacity 1))]" "ordE [] = []"
    by (rule iter_order_short(2) [OF assms(1)], rule iter_order_short(1) [OF assms(2)])
  ultimately have "UpdateDuplicatedPolicy_net ordI ordE capacity grow [p] [d] clusterName = Inr ([], [])"
    using assms(5) by (simp add: UpdateDuplicatedPolicy_net_def updated_policies_def st)
  moreover have "\<not> ingress_covers e n"
    using assms(9-11) by (simp add: ingress_covers_def same_ingress_peer_def ingress_peer_def)
  ultimately show ?thesis using assms(3,4,6,7) by (simp add: net_covers_def same_target_def)
qed

theorem UpdateDuplicatedPolicy_net_loses_rule_witness:
  "UpdateDuplicatedPolicy_net rev rev (\<lambda>n. n) (\<lambda>c n. n) [demo_stored]
     [set_ingress [demo_named_rule ''b'' ''80'', demo_named_rule ''a'' ''80''] buildNewKnoxIngressPolicy] ''x'' = Inr ([], [])"
proof -
  let ?d = "set_ingress [demo_named_rule ''b'' ''80'', demo_named_rule ''a'' ''80''] buildNewKnoxIngressPolicy"
  have "is_ingress demo_stored" "same_target demo_stored ?d" "np_meta demo_stored ''status'' \<noteq> ''updated''"
    "spec_Ingress (np_Spec demo_stored) = [demo_named_rule ''a'' ''80'']"
    "spec_Ingress (np_Spec ?d) = [demo_named_rule ''b'' ''80'', demo_named_rule ''a'' ''80'']"
    by (code_simp, code_simp, code_simp, simp_all add: demo_stored_def ingress_net.rules_set)
  moreover have "good_ingress (demo_named_rule ''a'' ''80'')" "\<not> no_labels (in_MatchLabels (demo_named_rule ''a'' ''80''))"
    "\<not> no_labels (in_MatchLabels (demo_named_rule ''b'' ''80''))"
    "label_text (in_MatchLabels (demo_named_rule ''b'' ''80'')) \<noteq> label_text (in_MatchLabels (demo_named_rule ''a'' ''80''))"
    by code_simp+
  ultimately show ?thesis
    using UpdateDuplicatedPolicy_net_loses_rule [OF iter_order_rev iter_order_rev, of demo_stored ?d] by blast
qed

text \<open>The name of a policy is at most 26 characters long, and a pod policy that has been named fits the table when
  its other columns do.\<close>

theorem GeneratePolicyName_net_fits:
  assumes "np_meta p ''type'' = PolicyTypeIngress \<or> np_meta p ''type'' = PolicyTypeEgress"
    and "np_Kind p = KindKnoxNetworkPolicy" and "length (np_APIVersion p) \<le> 20" and "length (np_Outdated p) \<le> 50"
    and "length clusterName \<le> 50" and "length (np_meta p ''namespace'') \<le> 50"
    and "length (np_meta p ''rule'') \<le> 30" and "length (np_meta p ''status'') \<le> 10"
  shows "length (np_meta (snd (GeneratePolicyName_net names p clusterName)) ''name'') \<le> 26 \<and>
    fits_net (snd (GeneratePolicyName_net names p clusterName))"
proof -
  have ten: "length (digits_of (uint h)) \<le> 10" for h :: "32 word"
    using uint_bounded [of h] length_digits_of [of "uint h" 9] by simp
  have "length (digits_of (uint h)) \<le> 11" for h :: "32 word" using ten [of h] by linarith
  then have name: "length (net_policy_name p clusterName) \<le> 26"
    using assms(1) ten
    by (auto simp: net_policy_name_def Let_def PolicyTypeIngress_def PolicyTypeEgress_def)
  moreover have "fits_net (named_net clusterName p)"
    using assms name by (auto simp: fits_net_def fits_def CreateTableNetworkPolicyMySQL_def net_column_def net_row_def
        named_net_def KindKnoxNetworkPolicy_def PolicyTypeIngress_def PolicyTypeEgress_def set_np_meta_def np_meta_def)
  ultimately show ?thesis by (simp add: named_net_eq) (simp add: named_net_def)
qed

theorem GeneratePolicyName_net_fits_witness:
  "fits_net (snd (GeneratePolicyName_net [] demo_new ''default''))"
proof -
  have "np_meta demo_new ''type'' = PolicyTypeIngress" "np_Kind demo_new = KindKnoxNetworkPolicy"
    "length (np_APIVersion demo_new) \<le> 20" "length (np_Outdated demo_new) \<le> 50" "length ''default'' \<le> 50"
    "length (np_meta demo_new ''namespace'') \<le> 50" "length (np_meta demo_new ''rule'') \<le> 30"
    "length (np_meta demo_new ''status'') \<le> 10"
    by code_simp+
  then show ?thesis using GeneratePolicyName_net_fits [of demo_new "''default''" "[]"] by blast
qed

end
