(* ===== verification/NetworkOutdate.thy ===== *)
theory NetworkOutdate
  imports NetworkDedup
begin

text \<open>
  \<^verbatim>\<open>networkpolicy/deduplicator.go\<close>, the comparison by the kind of rule: which latest policies a new
  policy replaces, and how it takes over their rules. The functions read the first rule of a policy, so a policy
  without the rule that its metadata announces is a panic. The calls of
  \<^verbatim>\<open>libs.UpdateOutdatedNetworkPolicy\<close> are part of the result, as pairs of an outdated and a latest
  name. \<^verbatim>\<open>cmp.Equal\<close> is a parameter.
\<close>

section \<open>The latest policies\<close>

definition includeSelectorLabels_net :: "LabelMap \<Rightarrow> LabelMap \<Rightarrow> bool" where
  "includeSelectorLabels_net newSelectorLabels existSelectorLabels =
     list_all (\<lambda>(k, v). lookup_str existSelectorLabels k = v) (sorted_list_of_fmap newSelectorLabels)"

definition selector_labels :: "KnoxNetworkPolicy \<Rightarrow> LabelMap" where
  "selector_labels p = sel_MatchLabels (spec_Selector (np_Spec p))"

text \<open>The conditions at the start of each loop.\<close>

definition latest_candidate :: "KnoxNetworkPolicy \<Rightarrow> KnoxNetworkPolicy \<Rightarrow> bool" where
  "latest_candidate policy exist \<longleftrightarrow>
     np_meta exist ''namespace'' = np_meta policy ''namespace'' \<and> np_meta exist ''type'' = np_meta policy ''type'' \<and>
     np_meta exist ''rule'' = np_meta policy ''rule'' \<and> np_meta exist ''status'' = ''latest'' \<and>
     includeSelectorLabels_net (selector_labels policy) (selector_labels exist)"

definition egress0 :: "KnoxNetworkPolicy \<Rightarrow> go_panic + Egress" where
  "egress0 p = index (spec_Egress (np_Spec p)) 0"

definition ingress0 :: "KnoxNetworkPolicy \<Rightarrow> go_panic + Ingress" where
  "ingress0 p = index (spec_Ingress (np_Spec p)) 0"

definition cidrs0 :: "KnoxNetworkPolicy \<Rightarrow> go_panic + string list" where
  "cidrs0 p = go_bind (egress0 p) (\<lambda>e. go_bind (index (eg_ToCIDRs e) 0) (\<lambda>c. Inr (cidr_CIDRs c)))"

definition fqdns0 :: "KnoxNetworkPolicy \<Rightarrow> go_panic + string list" where
  "fqdns0 p = go_bind (egress0 p) (\<lambda>e. go_bind (index (eg_ToFQDNs e) 0) (\<lambda>f. Inr (fqdn_MatchNames f)))"

text \<open>The two nested loops: the inner list is evaluated for each element of the outer one.\<close>

definition all_equal :: "string list \<Rightarrow> (go_panic + string list) \<Rightarrow> go_panic + bool" where
  "all_equal new exist =
     foldM (\<lambda>match c. go_bind exist (\<lambda>es. Inr (match \<and> list_all (\<lambda>e. c = e) es))) True new"

definition GetLatestCIDRPolicy :: "KnoxNetworkPolicy list \<Rightarrow> KnoxNetworkPolicy \<Rightarrow> go_panic + KnoxNetworkPolicy list" where
  "GetLatestCIDRPolicy existingPolicies policy =
     foldM (\<lambda>latest exist.
       if latest_candidate policy exist then
         go_bind (cidrs0 policy) (\<lambda>new. go_bind (all_equal new (cidrs0 exist)) (\<lambda>m.
           Inr (if m then latest @ [exist] else latest)))
       else Inr latest) [] existingPolicies"

definition GetLatestFQDNPolicy :: "KnoxNetworkPolicy list \<Rightarrow> KnoxNetworkPolicy \<Rightarrow> go_panic + KnoxNetworkPolicy list" where
  "GetLatestFQDNPolicy existingPolicies policy =
     foldM (\<lambda>latest exist.
       if latest_candidate policy exist then
         go_bind (fqdns0 policy) (\<lambda>new. go_bind (all_equal new (fqdns0 exist)) (\<lambda>m.
           Inr (if m then latest @ [exist] else latest)))
       else Inr latest) [] existingPolicies"

record http_target =
  ht_MatchLabels :: "LabelMap option"
  ht_CIDRs :: "string list"
  ht_FQDNs :: "string list"
  ht_Entities :: "string list"
  ht_ToPorts :: "SpecPort list"

definition http_target_of :: "string \<Rightarrow> string \<Rightarrow> KnoxNetworkPolicy \<Rightarrow> go_panic + http_target" where
  "http_target_of policyType rule p =
     (if policyType = PolicyTypeEgress then
        go_bind (egress0 p) (\<lambda>e.
        go_bind (if Contains rule ''toCIDRs'' then cidrs0 p else Inr []) (\<lambda>cidrs.
        go_bind (if Contains rule ''toFQDNs'' then fqdns0 p else Inr []) (\<lambda>fqdns.
          Inr \<lparr>ht_MatchLabels = eg_MatchLabels e, ht_CIDRs = cidrs, ht_FQDNs = fqdns,
            ht_Entities = eg_ToEntities e, ht_ToPorts = eg_ToPorts e\<rparr>)))
      else
        go_bind (ingress0 p) (\<lambda>r.
          Inr \<lparr>ht_MatchLabels = in_MatchLabels r, ht_CIDRs = [], ht_FQDNs = [],
            ht_Entities = in_FromEntities r, ht_ToPorts = in_ToPorts r\<rparr>))"

definition labels_included :: "LabelMap option \<Rightarrow> LabelMap option \<Rightarrow> bool" where
  "labels_included new exist =
     list_all (\<lambda>(k, v). (case exist of None \<Rightarrow> [] | Some m \<Rightarrow> lookup_str m k) = v)
       (case new of None \<Rightarrow> [] | Some m \<Rightarrow> sorted_list_of_fmap m)"

definition http_target_matches :: "string \<Rightarrow> string \<Rightarrow> http_target \<Rightarrow> http_target \<Rightarrow> bool" where
  "http_target_matches policyType rule new exist \<longleftrightarrow>
     (if Contains rule ''matchLabels'' then labels_included (ht_MatchLabels new) (ht_MatchLabels exist)
      else if Contains rule ''toCIDRs'' \<and> policyType = PolicyTypeEgress then
        list_all (ContainsElement (ht_CIDRs exist)) (ht_CIDRs new)
      else if Contains rule ''toFQDNs'' \<and> policyType = PolicyTypeEgress then
        list_all (ContainsElement (ht_FQDNs exist)) (ht_FQDNs new)
      else if Contains rule ''toEntities'' \<or> Contains rule ''fromEntities'' then
        list_all (ContainsElement (ht_Entities exist)) (ht_Entities new)
      else False) \<and>
     list_all (ContainsElement (ht_ToPorts exist)) (ht_ToPorts new)"

definition GetLatestHTTPPolicy :: "KnoxNetworkPolicy list \<Rightarrow> KnoxNetworkPolicy \<Rightarrow> go_panic + KnoxNetworkPolicy list" where
  "GetLatestHTTPPolicy existingPolicies policy =
     foldM (\<lambda>latest exist.
       let policyType = np_meta exist ''type''; rule = np_meta exist ''rule'' in
       if latest_candidate policy exist \<and> Contains rule ''toHTTPs'' then
         go_bind (http_target_of policyType rule policy) (\<lambda>new.
         go_bind (http_target_of policyType rule exist) (\<lambda>old.
           Inr (if http_target_matches policyType rule new old then latest @ [exist] else latest)))
       else Inr latest) [] existingPolicies"

definition rule0_labels :: "string \<Rightarrow> KnoxNetworkPolicy \<Rightarrow> go_panic + LabelMap option" where
  "rule0_labels policyType p =
     (if policyType = ''egress'' then go_bind (egress0 p) (\<lambda>e. Inr (eg_MatchLabels e))
      else go_bind (ingress0 p) (\<lambda>r. Inr (in_MatchLabels r)))"

definition GetLatestMatchLabelsPolicy ::
  "KnoxNetworkPolicy list \<Rightarrow> KnoxNetworkPolicy \<Rightarrow> go_panic + KnoxNetworkPolicy list" where
  "GetLatestMatchLabelsPolicy existingPolicies policy =
     foldM (\<lambda>latest exist.
       if latest_candidate policy exist then
         go_bind (rule0_labels (np_meta exist ''type'') policy) (\<lambda>new.
         go_bind (rule0_labels (np_meta exist ''type'') exist) (\<lambda>old.
           Inr (if labels_included new old then latest @ [exist] else latest)))
       else Inr latest) [] existingPolicies"

definition GetLatestEntityPolicy :: "KnoxNetworkPolicy list \<Rightarrow> KnoxNetworkPolicy \<Rightarrow> KnoxNetworkPolicy list" where
  "GetLatestEntityPolicy existingPolicies policy = filter (latest_candidate policy) existingPolicies"

section \<open>Taking over the rules\<close>

definition updateOutdatedPolicy_net ::
  "KnoxNetworkPolicy \<Rightarrow> KnoxNetworkPolicy \<Rightarrow> KnoxNetworkPolicy \<times> (string \<times> string)" where
  "updateOutdatedPolicy_net outdatedPolicy newPolicy =
     (newPolicy\<lparr>np_FlowIDs := append_missing (np_FlowIDs newPolicy) (np_FlowIDs outdatedPolicy)\<rparr>,
      (np_meta outdatedPolicy ''name'', np_meta newPolicy ''name''))"

definition includedHTTPPath :: "SpecHTTP list \<Rightarrow> SpecHTTP \<Rightarrow> bool" where
  "includedHTTPPath httpRules targetRule =
     list_ex (\<lambda>httpRule. http_Method httpRule = http_Method targetRule \<and> http_Path httpRule = http_Path targetRule) httpRules"

text \<open>Reading and writing the first rule of the direction of the new policy.\<close>

definition get0 :: "bool \<Rightarrow> (Egress \<Rightarrow> 'a) \<Rightarrow> (Ingress \<Rightarrow> 'a) \<Rightarrow> KnoxNetworkPolicy \<Rightarrow> go_panic + 'a" where
  "get0 egress fe fi p =
     (if egress then go_bind (egress0 p) (\<lambda>e. Inr (fe e)) else go_bind (ingress0 p) (\<lambda>r. Inr (fi r)))"

definition set0 :: "bool \<Rightarrow> (Egress \<Rightarrow> Egress) \<Rightarrow> (Ingress \<Rightarrow> Ingress) \<Rightarrow> KnoxNetworkPolicy \<Rightarrow> KnoxNetworkPolicy" where
  "set0 egress fe fi p =
     (if egress then set_egress ((spec_Egress (np_Spec p))[0 := fe (spec_Egress (np_Spec p) ! 0)]) p
      else set_ingress ((spec_Ingress (np_Spec p))[0 := fi (spec_Ingress (np_Spec p) ! 0)]) p)"

text \<open>The result of an update: the new policy, whether it is to be stored, and the calls.\<close>

type_synonym update_result = "KnoxNetworkPolicy \<times> bool \<times> (string \<times> string) list"

text \<open>
  The loop over the latest policies: what the new policy has gathered so far, the policy itself, the flag and the
  calls. The step says whether the latest policy is outdated, and what the new policy takes over from it.
\<close>

definition outdate_step ::
  "('a \<Rightarrow> KnoxNetworkPolicy \<Rightarrow> go_panic + 'a option) \<Rightarrow> 'a \<times> update_result \<Rightarrow> KnoxNetworkPolicy \<Rightarrow> go_panic + 'a \<times> update_result" where
  "outdate_step step st latestPolicy =
     (let (g, policy, updated, calls) = st in
      go_bind (step g latestPolicy) (\<lambda>r.
        case r of None \<Rightarrow> Inr (g, policy, updated, calls)
        | Some g' \<Rightarrow> (let (policy', call) = updateOutdatedPolicy_net latestPolicy policy
                      in Inr (g', policy', True, calls @ [call]))))"

definition outdate_loop ::
  "('a \<Rightarrow> KnoxNetworkPolicy \<Rightarrow> go_panic + 'a option) \<Rightarrow> 'a \<Rightarrow> KnoxNetworkPolicy \<Rightarrow> KnoxNetworkPolicy list \<Rightarrow>
   go_panic + 'a \<times> update_result" where
  "outdate_loop step gathered newPolicy latestPolicies =
     foldM (outdate_step step) (gathered, newPolicy, False, []) latestPolicies"

definition http_step :: "bool \<Rightarrow> SpecHTTP list \<Rightarrow> KnoxNetworkPolicy \<Rightarrow> go_panic + SpecHTTP list option" where
  "http_step egress newHTTPs latestPolicy =
     go_bind (get0 egress eg_ToHTTPs in_ToHTTPs latestPolicy) (\<lambda>existHTTPs.
       Inr (if list_all (includedHTTPPath existHTTPs) newHTTPs then None
            else Some (append_missing newHTTPs existHTTPs)))"

definition UpdateHTTP :: "KnoxNetworkPolicy \<Rightarrow> KnoxNetworkPolicy list \<Rightarrow> go_panic + update_result" where
  "UpdateHTTP newPolicy existingPolicies =
     go_bind (GetLatestHTTPPolicy existingPolicies newPolicy) (\<lambda>latestPolicies.
       if length latestPolicies = 0 then Inr (newPolicy, True, [])
       else let egress = (np_meta newPolicy ''type'' = PolicyTypeEgress) in
         go_bind (get0 egress eg_ToHTTPs in_ToHTTPs newPolicy) (\<lambda>newHTTPs.
         go_bind (outdate_loop (http_step egress) newHTTPs newPolicy latestPolicies)
           (\<lambda>(https, policy, updated, calls).
             if updated then Inr (set0 egress (eg_set_https https) (in_set_https https) policy, True, calls)
             else Inr (policy, False, calls))))"

text \<open>Ports and ICMP types are handled alike in two functions; what is included, and what is taken over.\<close>

type_synonym l4 = "SpecPort list \<times> SpecICMP list"

definition get_l4 :: "bool \<Rightarrow> KnoxNetworkPolicy \<Rightarrow> go_panic + l4" where
  "get_l4 egress = get0 egress (\<lambda>e. (eg_ToPorts e, eg_ICMPs e)) (\<lambda>r. (in_ToPorts r, in_ICMPs r))"

definition set_l4 :: "bool \<Rightarrow> l4 \<Rightarrow> KnoxNetworkPolicy \<Rightarrow> KnoxNetworkPolicy" where
  "set_l4 egress l = set0 egress (\<lambda>e. e\<lparr>eg_ToPorts := fst l, eg_ICMPs := snd l\<rparr>) (\<lambda>r. r\<lparr>in_ToPorts := fst l, in_ICMPs := snd l\<rparr>)"

definition take_over :: "'a list \<Rightarrow> 'a list \<Rightarrow> 'a list" where
  "take_over new exist = (if list_all (ContainsElement exist) new then new else append_missing new exist)"

definition l4_included :: "l4 \<Rightarrow> l4 \<Rightarrow> bool" where
  "l4_included new exist \<longleftrightarrow> list_all (ContainsElement (fst exist)) (fst new) \<and> list_all (ContainsElement (snd exist)) (snd new)"

definition ports_step :: "bool \<Rightarrow> l4 \<Rightarrow> KnoxNetworkPolicy \<Rightarrow> go_panic + l4 option" where
  "ports_step egress new latestPolicy =
     go_bind (get_l4 egress latestPolicy) (\<lambda>exist.
       Inr (if l4_included new exist then None
            else Some (take_over (fst new) (fst exist), take_over (snd new) (snd exist))))"

definition UpdateToPorts :: "KnoxNetworkPolicy \<Rightarrow> KnoxNetworkPolicy list \<Rightarrow> go_panic + update_result" where
  "UpdateToPorts newPolicy existingPolicies =
     go_bind (if Contains (np_meta newPolicy ''rule'') ''toCIDRs'' then GetLatestCIDRPolicy existingPolicies newPolicy
              else if Contains (np_meta newPolicy ''rule'') ''toFQDNs'' then GetLatestFQDNPolicy existingPolicies newPolicy
              else Inr []) (\<lambda>latestPolicies.
       if length latestPolicies = 0 then Inr (newPolicy, False, [])
       else let egress = (np_meta newPolicy ''type'' = PolicyTypeEgress) in
         go_bind (get_l4 egress newPolicy) (\<lambda>new.
         go_bind (outdate_loop (ports_step egress) new newPolicy latestPolicies) (\<lambda>(l, policy, updated, calls).
           if updated then Inr (set_l4 egress l policy, True, calls) else Inr (policy, False, calls))))"

definition labels_count :: "LabelMap option \<Rightarrow> nat" where
  "labels_count m = (case m of None \<Rightarrow> 0 | Some m \<Rightarrow> length (sorted_list_of_fmap m))"

definition match_labels_step ::
  "bool \<Rightarrow> nat \<Rightarrow> nat \<Rightarrow> l4 \<Rightarrow> KnoxNetworkPolicy \<Rightarrow> go_panic + l4 option" where
  "match_labels_step egress selectorCount targetCount new latestPolicy =
     go_bind (get_l4 egress latestPolicy) (\<lambda>exist.
     go_bind (get0 egress eg_MatchLabels in_MatchLabels latestPolicy) (\<lambda>existLabels.
       Inr (if l4_included new exist then
              (if selectorCount < length (sorted_list_of_fmap (selector_labels latestPolicy)) \<or>
                  targetCount < labels_count existLabels then Some new else None)
            else Some (take_over (fst new) (fst exist), take_over (snd new) (snd exist)))))"

definition UpdateMatchLabels :: "KnoxNetworkPolicy \<Rightarrow> KnoxNetworkPolicy list \<Rightarrow> go_panic + update_result" where
  "UpdateMatchLabels newPolicy existingPolicies =
     go_bind (GetLatestMatchLabelsPolicy existingPolicies newPolicy) (\<lambda>latestPolicies.
       if length latestPolicies = 0 then Inr (newPolicy, True, [])
       else let egress = (np_meta newPolicy ''type'' = PolicyTypeEgress) in
         go_bind (get_l4 egress newPolicy) (\<lambda>new.
         go_bind (get0 egress eg_MatchLabels in_MatchLabels newPolicy) (\<lambda>newLabels.
         go_bind (outdate_loop (match_labels_step egress (length (sorted_list_of_fmap (selector_labels newPolicy)))
             (labels_count newLabels)) new newPolicy latestPolicies) (\<lambda>(l, policy, updated, calls).
           if updated then Inr (set_l4 egress l policy, True, calls) else Inr (policy, False, calls)))))"

text \<open>The existing ports and ICMP types are read from the new policy.\<close>

definition entity_step :: "bool \<Rightarrow> l4 \<Rightarrow> KnoxNetworkPolicy \<Rightarrow> string list \<Rightarrow> KnoxNetworkPolicy \<Rightarrow> go_panic + string list option" where
  "entity_step egress new newPolicy newEntities latestPolicy =
     go_bind (get0 egress eg_ToEntities in_FromEntities latestPolicy) (\<lambda>existEntities.
     go_bind (get_l4 egress newPolicy) (\<lambda>exist.
       Inr (if \<not> l4_included new exist then None else Some (append_missing newEntities existEntities))))"

definition UpdateEntity :: "KnoxNetworkPolicy \<Rightarrow> KnoxNetworkPolicy list \<Rightarrow> go_panic + update_result" where
  "UpdateEntity newPolicy existingPolicies =
     (let latestPolicies = GetLatestEntityPolicy existingPolicies newPolicy in
      if length latestPolicies = 0 then Inr (newPolicy, False, [])
      else let egress = (np_meta newPolicy ''type'' = PolicyTypeEgress) in
        go_bind (get0 egress eg_ToEntities in_FromEntities newPolicy) (\<lambda>newEntities.
        go_bind (get_l4 egress newPolicy) (\<lambda>new.
        go_bind (outdate_loop (entity_step egress new newPolicy) newEntities newPolicy latestPolicies)
          (\<lambda>(entities, policy, updated, calls).
            if updated then
              Inr (set0 egress (\<lambda>e. e\<lparr>eg_ToEntities := entities\<rparr>) (\<lambda>r. r\<lparr>in_FromEntities := entities\<rparr>) policy, True, calls)
            else Inr (policy, False, calls)))))"

definition service_step :: "nat \<Rightarrow> SpecService list \<Rightarrow> KnoxNetworkPolicy \<Rightarrow> go_panic + SpecService list option" where
  "service_step selectorCount newServices latestPolicy =
     go_bind (egress0 latestPolicy) (\<lambda>e.
       Inr (if list_all (ContainsElement (eg_ToServices e)) newServices then
              (if selectorCount < length (sorted_list_of_fmap (selector_labels latestPolicy)) then Some newServices else None)
            else Some (append_missing newServices (eg_ToServices e))))"

definition UpdateService :: "KnoxNetworkPolicy \<Rightarrow> KnoxNetworkPolicy list \<Rightarrow> go_panic + update_result" where
  "UpdateService newPolicy existingPolicies =
     (let latestPolicies = GetLatestEntityPolicy existingPolicies newPolicy in
      if length latestPolicies = 0 then Inr (newPolicy, True, [])
      else if np_meta newPolicy ''type'' = PolicyTypeEgress then
        go_bind (egress0 newPolicy) (\<lambda>e.
        go_bind (outdate_loop (service_step (length (sorted_list_of_fmap (selector_labels newPolicy)))) (eg_ToServices e)
            newPolicy latestPolicies) (\<lambda>(services, policy, updated, calls).
          if updated then Inr (set0 True (\<lambda>e. e\<lparr>eg_ToServices := services\<rparr>) id policy, True, calls)
          else Inr (policy, False, calls)))
      else Inr (newPolicy, True, []))"

section \<open>Addresses and domain names\<close>

definition GetToFQDNsFromNewDiscoveredPolicies ::
  "(Selector \<Rightarrow> Selector \<Rightarrow> bool) \<Rightarrow> KnoxNetworkPolicy \<Rightarrow> KnoxNetworkPolicy list \<Rightarrow> KnoxNetworkPolicy list" where
  "GetToFQDNsFromNewDiscoveredPolicies cmp_equal policy discovered =
     fold (\<lambda>newPolicy toFQDNs.
       if cmp_equal (spec_Selector (np_Spec policy)) (spec_Selector (np_Spec newPolicy)) then
         fold (\<lambda>egress toFQDNs.
           if length (eg_ToFQDNs egress) > 0 \<and> \<not> ContainsElement toFQDNs newPolicy then toFQDNs @ [newPolicy] else toFQDNs)
           (spec_Egress (np_Spec newPolicy)) toFQDNs
       else toFQDNs) discovered []"

definition GetDomainNameFromMap ::
  "((string \<times> string list) list \<Rightarrow> (string \<times> string list) list) \<Rightarrow> string \<Rightarrow> (string \<times> string list) list \<Rightarrow> string" where
  "GetDomainNameFromMap ord ipAddr dnsToIPs =
     (case List.find (\<lambda>(domain, ips). list_ex (\<lambda>ip. ipAddr = ip) ips) (ord dnsToIPs) of
        Some (domain, _) \<Rightarrow> domain | None \<Rightarrow> [])"

definition GetFQDNFromDomainName :: "string \<Rightarrow> KnoxNetworkPolicy list \<Rightarrow> KnoxNetworkPolicy \<times> bool" where
  "GetFQDNFromDomainName domainName fqdnPolicies =
     (case List.find (\<lambda>policy. list_ex (\<lambda>egress. list_ex (\<lambda>fqdn. ContainsElement (fqdn_MatchNames fqdn) domainName)
         (eg_ToFQDNs egress)) (spec_Egress (np_Spec policy))) fqdnPolicies of
        Some policy \<Rightarrow> (policy, True) | None \<Rightarrow> (KnoxNetworkPolicy_zero, False))"

definition IsExistingPolicySpec :: "(Spec \<Rightarrow> Spec \<Rightarrow> bool) \<Rightarrow> KnoxNetworkPolicy list \<Rightarrow> KnoxNetworkPolicy \<Rightarrow> bool" where
  "IsExistingPolicySpec cmp_equal existingPolicies newPolicy =
     list_ex (\<lambda>exist. cmp_equal (np_Spec exist) (np_Spec newPolicy)) existingPolicies"

section \<open>What the loop does\<close>

text \<open>The outdated policies are a part of the latest ones; each gives one call, and the new policy keeps everything but
  the flow identifiers.\<close>

lemma outdate_loop_steps:
  assumes "foldM (outdate_step step) (g, p\<lparr>np_FlowIDs := f\<rparr>, u, cs) ls = Inr (g', p', u', cs')"
    and "\<forall>g l g'. step g l = Inr (Some g') \<longrightarrow> content g' = content g \<union> given l"
  shows "\<exists>outs f'. set outs \<subseteq> set ls \<and> cs' = cs @ map (\<lambda>l. (np_meta l ''name'', np_meta p ''name'')) outs \<and>
    u' = (u \<or> outs \<noteq> []) \<and> p' = p\<lparr>np_FlowIDs := f'\<rparr> \<and>
    set f' = set f \<union> (\<Union>l \<in> set outs. set (np_FlowIDs l)) \<and> content g' = content g \<union> (\<Union>l \<in> set outs. given l)"
  using assms(1)
proof (induction ls arbitrary: g f u cs)
  case Nil
  then show ?case by (intro exI [of _ "[]"] exI [of _ f]) auto
next
  case (Cons l ls)
  then obtain r where r: "step g l = Inr r" by (auto simp: go_bind_Inr_iff outdate_step_def)
  show ?case
  proof (cases r)
    case None
    then have "outdate_step step (g, p\<lparr>np_FlowIDs := f\<rparr>, u, cs) l = Inr (g, p\<lparr>np_FlowIDs := f\<rparr>, u, cs)"
      using r by (simp add: outdate_step_def)
    then obtain outs f' where IH: "set outs \<subseteq> set ls" "cs' = cs @ map (\<lambda>l. (np_meta l ''name'', np_meta p ''name'')) outs"
      "u' = (u \<or> outs \<noteq> [])" "p' = p\<lparr>np_FlowIDs := f'\<rparr>" "set f' = set f \<union> (\<Union>l \<in> set outs. set (np_FlowIDs l))"
      "content g' = content g \<union> (\<Union>l \<in> set outs. given l)" using Cons.IH [of g f u cs] Cons.prems by auto
    then show ?thesis by (intro exI [of _ outs] exI [of _ f'] conjI) auto
  next
    case (Some h)
    let ?f = "append_missing f (np_FlowIDs l)"
    have "outdate_step step (g, p\<lparr>np_FlowIDs := f\<rparr>, u, cs) l =
        Inr (h, p\<lparr>np_FlowIDs := ?f\<rparr>, True, cs @ [(np_meta l ''name'', np_meta p ''name'')])"
      using r Some by (simp add: outdate_step_def updateOutdatedPolicy_net_def np_meta_def)
    then obtain outs f' where IH: "set outs \<subseteq> set ls"
      "cs' = cs @ (np_meta l ''name'', np_meta p ''name'') # map (\<lambda>l. (np_meta l ''name'', np_meta p ''name'')) outs"
      "u'" "p' = p\<lparr>np_FlowIDs := f'\<rparr>" "set f' = set ?f \<union> (\<Union>l \<in> set outs. set (np_FlowIDs l))"
      "content g' = content h \<union> (\<Union>l \<in> set outs. given l)"
      using Cons.IH [of h ?f True "cs @ [(np_meta l ''name'', np_meta p ''name'')]"] Cons.prems by auto
    have "content h = content g \<union> given l" using assms(2) r Some by simp
    then show ?thesis using IH by (intro exI [of _ "l # outs"] exI [of _ f'] conjI) auto
  qed
qed

text \<open>The first HTTP rules of a policy, in its own direction.\<close>

definition https0 :: "KnoxNetworkPolicy \<Rightarrow> SpecHTTP set" where
  "https0 p = (if np_meta p ''type'' = PolicyTypeEgress
     then (case spec_Egress (np_Spec p) of [] \<Rightarrow> {} | e # _ \<Rightarrow> set (eg_ToHTTPs e))
     else (case spec_Ingress (np_Spec p) of [] \<Rightarrow> {} | r # _ \<Rightarrow> set (in_ToHTTPs r)))"

lemma latest_http_candidates:
  assumes "GetLatestHTTPPolicy existing policy = Inr ls"
  shows "\<forall>l \<in> set ls. l \<in> set existing \<and> latest_candidate policy l"
  using assms unfolding GetLatestHTTPPolicy_def
  by (rule foldM_invariant) (auto simp: Let_def go_bind_Inr_iff split: if_splits)

lemma https0_get0:
  "https0 p = (case get0 (np_meta p ''type'' = PolicyTypeEgress) eg_ToHTTPs in_ToHTTPs p of Inr h \<Rightarrow> set h | Inl _ \<Rightarrow> {})"
  by (auto simp: https0_def get0_def egress0_def ingress0_def split: list.splits)

lemma https0_set0:
  assumes "get0 (np_meta p ''type'' = PolicyTypeEgress) eg_ToHTTPs in_ToHTTPs p = Inr h"
  shows "https0 (set0 (np_meta p ''type'' = PolicyTypeEgress) (eg_set_https g) (in_set_https g) p) = set g"
  using assms by (cases "spec_Egress (np_Spec p)"; cases "spec_Ingress (np_Spec p)")
    (auto simp: https0_def get0_def set0_def egress0_def ingress0_def ingress_net.rules_set egress_net.rules_set
      eg_set_https_def in_set_https_def split: if_splits)

text \<open>A new policy with HTTP rules takes over those of the policies that it makes outdated. If the update does not
  panic and there is a latest policy, the outdated ones are stored policies of the same namespace, type and kind of rule whose
  selector the new one includes; the result has the HTTP rules and flow identifiers of the new policy and of all of them, there
  is one database call for each, and the policy is to be stored iff there is one.\<close>

theorem UpdateHTTP_takes_over:
  assumes "UpdateHTTP newPolicy existing = Inr (p, updated, calls)" and "GetLatestHTTPPolicy existing newPolicy = Inr ls" and "ls \<noteq> []"
  shows "\<exists>outs. set outs \<subseteq> set ls \<and> (\<forall>l \<in> set outs. l \<in> set existing \<and> latest_candidate newPolicy l) \<and>
    calls = map (\<lambda>l. (np_meta l ''name'', np_meta newPolicy ''name'')) outs \<and> updated = (outs \<noteq> []) \<and>
    https0 p = https0 newPolicy \<union> (\<Union>l \<in> set outs. https0 l) \<and>
    set (np_FlowIDs p) = set (np_FlowIDs newPolicy) \<union> (\<Union>l \<in> set outs. set (np_FlowIDs l))"
proof -
  let ?eg = "np_meta newPolicy ''type'' = PolicyTypeEgress"
  obtain new g p' where new: "get0 ?eg eg_ToHTTPs in_ToHTTPs newPolicy = Inr new"
    and loop: "outdate_loop (http_step ?eg) new newPolicy ls = Inr (g, p', updated, calls)"
    and p: "p = (if updated then set0 ?eg (eg_set_https g) (in_set_https g) p' else p')"
    using assms by (auto simp: UpdateHTTP_def Let_def go_bind_Inr_iff split: if_splits)
  have step: "\<forall>g l g'. http_step ?eg g l = Inr (Some g') \<longrightarrow>
      set g' = set g \<union> (case get0 ?eg eg_ToHTTPs in_ToHTTPs l of Inr h \<Rightarrow> set h | Inl _ \<Rightarrow> {})"
    by (auto simp: http_step_def go_bind_Inr_iff split: if_splits)
  obtain outs f where r: "set outs \<subseteq> set ls" "calls = map (\<lambda>l. (np_meta l ''name'', np_meta newPolicy ''name'')) outs"
    "updated = (outs \<noteq> [])" "p' = newPolicy\<lparr>np_FlowIDs := f\<rparr>"
    "set f = set (np_FlowIDs newPolicy) \<union> (\<Union>l \<in> set outs. set (np_FlowIDs l))"
    "set g = set new \<union> (\<Union>l \<in> set outs. case get0 ?eg eg_ToHTTPs in_ToHTTPs l of Inr h \<Rightarrow> set h | Inl _ \<Rightarrow> {})"
  proof -
    have "foldM (outdate_step (http_step ?eg)) (new, newPolicy\<lparr>np_FlowIDs := np_FlowIDs newPolicy\<rparr>, False, []) ls =
      Inr (g, p', updated, calls)" using loop by (simp add: outdate_loop_def)
    from outdate_loop_steps [OF this step]
    show ?thesis by (elim exE conjE) (rule that, simp_all)
  qed
  have cand: "\<forall>l \<in> set outs. l \<in> set existing \<and> latest_candidate newPolicy l"
    using latest_http_candidates [OF assms(2)] r(1) by blast
  then have "\<forall>l \<in> set outs. (case get0 ?eg eg_ToHTTPs in_ToHTTPs l of Inr h \<Rightarrow> set h | Inl _ \<Rightarrow> {}) = https0 l"
    by (auto simp: https0_get0 latest_candidate_def)
  then have g: "set g = https0 newPolicy \<union> (\<Union>l \<in> set outs. https0 l)" using r(6) new by (simp add: https0_get0)
  have meta: "np_meta p' ''type'' = np_meta newPolicy ''type''" using r(4) by (simp add: np_meta_def)
  have "get0 ?eg eg_ToHTTPs in_ToHTTPs p' = Inr new" using new r(4) by (simp add: get0_def egress0_def ingress0_def cong: if_cong)
  then have "https0 p = https0 newPolicy \<union> (\<Union>l \<in> set outs. https0 l)"
    using https0_set0 [of p' new g] meta g p r(3) by (auto simp: https0_get0 new)
  moreover have "np_FlowIDs p = f" using p r(4) by (simp add: set0_def set_ingress_def set_egress_def)
  ultimately show ?thesis using r cand by blast
qed

definition demo_http_policy :: "string \<Rightarrow> int list \<Rightarrow> SpecHTTP list \<Rightarrow> KnoxNetworkPolicy" where
  "demo_http_policy name ids https = set_np_meta ''name'' name (set_np_meta ''rule'' ''matchLabels+toHTTPs''
     (set_ingress [demo_rule ''80'' https] buildNewKnoxIngressPolicy))\<lparr>np_FlowIDs := ids\<rparr>"

theorem UpdateHTTP_takes_over_witness:
  "map_sum id (\<lambda>(p, updated, calls). (np_FlowIDs p, updated, calls))
     (UpdateHTTP (demo_http_policy ''new'' [1] [demo_http]) [demo_http_policy ''old'' [2] []]) =
   Inr ([1, 2], True, [(''old'', ''new'')]) \<and>
   (\<exists>outs. set outs \<subseteq> {demo_http_policy ''old'' [2] []} \<and>
     [(''old'', ''new'')] = map (\<lambda>l. (np_meta l ''name'', np_meta (demo_http_policy ''new'' [1] [demo_http]) ''name'')) outs)"
proof -
  let ?new = "demo_http_policy ''new'' [1] [demo_http]" and ?old = "demo_http_policy ''old'' [2] []"
  have run: "map_sum id (\<lambda>(p, updated, calls). (np_FlowIDs p, updated, calls)) (UpdateHTTP ?new [?old]) =
      Inr ([1, 2], True, [(''old'', ''new'')])" by code_simp
  have "map_sum id (map (\<lambda>l. np_meta l ''name'')) (GetLatestHTTPPolicy [?old] ?new) = Inr [''old'']" by code_simp
  then obtain ls where ls: "GetLatestHTTPPolicy [?old] ?new = Inr ls" "ls \<noteq> []"
    by (cases "GetLatestHTTPPolicy [?old] ?new") auto
  obtain p where p: "UpdateHTTP ?new [?old] = Inr (p, True, [(''old'', ''new'')])"
    using run by (cases "UpdateHTTP ?new [?old]") auto
  from UpdateHTTP_takes_over [OF p ls] latest_http_candidates [OF ls(1)] run show ?thesis
    by (auto simp: subset_iff)
qed

text \<open>The update of entities compares the ports of the new policy with themselves: a latest policy with other
  ports is made outdated, and its ports are not taken over.\<close>

lemma UpdateEntity_drops_ports:
  assumes "latest_candidate newPolicy l" and "np_meta newPolicy ''type'' = PolicyTypeEgress"
    and "spec_Egress (np_Spec newPolicy) = [e]" and "spec_Egress (np_Spec l) = [old]"
  shows "\<exists>p r. UpdateEntity newPolicy [l] = Inr (p, True, [(np_meta l ''name'', np_meta newPolicy ''name'')]) \<and>
    spec_Egress (np_Spec p) = [r] \<and> eg_ToPorts r = eg_ToPorts e \<and> set (eg_ToEntities r) = set (eg_ToEntities e) \<union> set (eg_ToEntities old)"
  using assms
  by (simp add: UpdateEntity_def GetLatestEntityPolicy_def Let_def get0_def get_l4_def egress0_def outdate_loop_def outdate_step_def
      entity_step_def l4_included_def list_all_iff updateOutdatedPolicy_net_def set0_def set_egress_def)

end
