(* ===== verification/Cilium.thy ===== *)
theory Cilium
  imports NetworkDiscovery GoNet
begin

text \<open>
  \<^verbatim>\<open>plugin/cilium.go\<close>: the flows of Cilium as network logs, network policies in the format of
  Cilium, and the buffers of flows. Of the message types of \<^verbatim>\<open>github.com/cilium/cilium\<close> the records
  have the fields that the code reads; a field that may be nil is an option, and the getters give the zero value on nil, as the
  generated code documents. \<^verbatim>\<open>url.Parse\<close> is the parameter \<^verbatim>\<open>url_path\<close>, the path of an address, or
  \<^verbatim>\<open>None\<close> if it is no address.
\<close>

section \<open>Flows\<close>

record cilium_endpoint =
  cend_Namespace :: string
  cend_PodName :: string
  cend_Labels :: "string list"

text \<open>The flags of TCP are SYN and ACK.\<close>

datatype layer4 =
    L4_TCP (l4_src: int) (l4_dst: int) (l4_flags: "(bool \<times> bool) option")
  | L4_UDP (l4_src: int) (l4_dst: int)
  | L4_ICMPv4 (l4_type: int) (l4_code: int)
  | L4_ICMPv6 (l4_type: int)
  | L4_Other

datatype layer7_record =
    L7_Http (http_method: string) (http_url: string)
  | L7_Dns (dns_query: string) (dns_ips: "string list")
  | L7_OtherRecord

record layer7 =
  l7_Type :: int
  l7_Record :: layer7_record

record cilium_flow =
  cf_Verdict :: int
  cf_DropReasonDesc :: int
  cf_TrafficDirection :: string
  cf_Source :: "cilium_endpoint option"
  cf_Destination :: "cilium_endpoint option"
  cf_IsReply :: bool
  cf_IP :: "(string \<times> string) option"
  cf_L4 :: "layer4 option"
  cf_L7 :: "layer7 option"

definition TrafficDirection :: "string \<rightharpoonup> int" where
  "TrafficDirection = map_of [(''TRAFFIC_DIRECTION_UNKNOWN'', 0), (''INGRESS'', 1), (''EGRESS'', 2)]"

definition Verdict :: "string \<rightharpoonup> int" where
  "Verdict = map_of [(''VERDICT_UNKNOWN'', 0), (''FORWARDED'', 1), (''DROPPED'', 2), (''ERROR'', 3)]"

definition convertVerdictToInt :: "string \<Rightarrow> int" where
  "convertVerdictToInt vType = (case Verdict vType of None \<Rightarrow> 0 | Some n \<Rightarrow> n)"

definition convertTrafficDirectionToInt :: "string \<Rightarrow> int" where
  "convertTrafficDirectionToInt tType = (case TrafficDirection tType of None \<Rightarrow> 0 | Some n \<Rightarrow> n)"

definition isSynFlagOnly :: "layer4 \<Rightarrow> bool" where
  "isSynFlagOnly l4 = (case l4 of L4_TCP _ _ (Some (syn, ack)) \<Rightarrow> syn \<and> \<not> ack | _ \<Rightarrow> False)"

definition getL4Ports :: "layer4 \<Rightarrow> int \<times> int" where
  "getL4Ports l4 = (case l4 of L4_TCP s d _ \<Rightarrow> (s, d) | L4_UDP s d \<Rightarrow> (s, d) | L4_ICMPv4 t c \<Rightarrow> (t, c) | _ \<Rightarrow> (- 1, - 1))"

definition getICMPType :: "layer4 \<Rightarrow> int" where
  "getICMPType l4 = (case l4 of L4_ICMPv4 t _ \<Rightarrow> t | L4_ICMPv6 t \<Rightarrow> t | _ \<Rightarrow> - 1)"

definition getProtocol_l4 :: "layer4 \<Rightarrow> int" where
  "getProtocol_l4 l4 = (case l4 of L4_TCP _ _ _ \<Rightarrow> IPProtocolTCP | L4_UDP _ _ \<Rightarrow> IPProtocolUDP
     | L4_ICMPv4 _ _ \<Rightarrow> IPProtocolICMP | L4_ICMPv6 _ \<Rightarrow> IPProtocolICMPv6 | L4_Other \<Rightarrow> IPProtoUnknown)"

definition getReservedLabelsIfExist :: "string list \<Rightarrow> string list" where
  "getReservedLabelsIfExist labels = filter (\<lambda>label. HasPrefix label ''reserved:'') labels"

text \<open>The path of a nil URL is a panic. Only the first double slash is replaced.\<close>

definition getHTTP :: "(string \<Rightarrow> string option) \<Rightarrow> cilium_flow \<Rightarrow> go_panic + string \<times> string" where
  "getHTTP url_path flow =
     (case cf_L7 flow of
        Some l7 \<Rightarrow>
          (case l7_Record l7 of
             L7_Http method url \<Rightarrow>
               if l7_Type l7 = 1 then
                 (case url_path url of None \<Rightarrow> Inl NilDereference
                  | Some path \<Rightarrow> Inr (method, if HasPrefix path ''//'' then CHR ''/'' # drop 2 path else path))
               else Inr ([], [])
           | _ \<Rightarrow> Inr ([], []))
      | None \<Rightarrow> Inr ([], []))"

text \<open>The parts of the conversion, in the order of the code. Each works on the log and says whether to go on.\<close>

definition cilium_l4 :: "layer4 \<Rightarrow> KnoxNetworkLog \<Rightarrow> KnoxNetworkLog" where
  "cilium_l4 l4 log =
     (let log = log\<lparr>nl_Protocol := getProtocol_l4 l4\<rparr>;
          log = (if IsICMP (nl_Protocol log) then
                   (let log = log\<lparr>nl_ICMPType := getICMPType l4\<rparr>
                    in if IsReplyICMP (nl_ICMPType log) then log\<lparr>nl_IsReply := True\<rparr> else log)
                 else log\<lparr>nl_SrcPort := fst (getL4Ports l4), nl_DstPort := snd (getL4Ports l4)\<rparr>)
      in if nl_Protocol log = IPProtocolTCP then log\<lparr>nl_SynFlag := isSynFlagOnly l4\<rparr> else log)"

definition cilium_http ::
  "(string \<Rightarrow> string option) \<Rightarrow> cilium_flow \<Rightarrow> KnoxNetworkLog \<Rightarrow> go_panic + KnoxNetworkLog \<times> bool" where
  "cilium_http url_path flow log =
     (case cf_L7 flow of
        Some l7 \<Rightarrow>
          (case l7_Record l7 of
             L7_Http _ _ \<Rightarrow>
               go_bind (getHTTP url_path flow) (\<lambda>(method, path).
                 let log = log\<lparr>nl_HTTPMethod := method, nl_HTTPPath := path\<rparr>
                 in if method = [] \<and> path = [] then Inr (log, False)
                    else Inr (log\<lparr>nl_L7Protocol := L7ProtocolHTTP\<rparr>, True))
           | _ \<Rightarrow> Inr (log, True))
      | None \<Rightarrow> Inr (log, True))"

definition cilium_dns :: "cilium_flow \<Rightarrow> KnoxNetworkLog \<Rightarrow> KnoxNetworkLog \<times> bool" where
  "cilium_dns flow log =
     (case cf_L7 flow of
        Some l7 \<Rightarrow>
          (case l7_Record l7 of
             L7_Dns query ips \<Rightarrow>
               if l7_Type l7 = 2 \<and> length ips > 0 then
                 if HasSuffix query ''svc.cluster.local.'' then (log, False)
                 else (log\<lparr>nl_DNSRes := TrimSuffix query ''.'', nl_DNSResIPs := ips, nl_L7Protocol := L7ProtocolDNS\<rparr>, True)
               else (log, True)
           | _ \<Rightarrow> (log, True))
      | None \<Rightarrow> (log, True))"

definition ConvertCiliumFlowToKnoxNetworkLog ::
  "(string \<Rightarrow> string option) \<Rightarrow> cilium_flow \<Rightarrow> go_panic + KnoxNetworkLog \<times> bool" where
  "ConvertCiliumFlowToKnoxNetworkLog url_path flow =
     (let log = KnoxNetworkLog_zero in
      if cf_Verdict flow = 2 \<and> cf_DropReasonDesc flow = 181 then Inr (log, False)
      else
        (let log = log\<lparr>nl_Action := if cf_Verdict flow = 2 then ''deny'' else ''allow'',
               nl_Direction := cf_TrafficDirection flow\<rparr> in
         case (cf_Source flow, cf_Destination flow) of
           (Some src, Some dst) \<Rightarrow>
             (let log = log\<lparr>nl_SrcNamespace := cend_Namespace src, nl_DstNamespace := cend_Namespace dst,
                    nl_SrcPodName := cend_PodName src, nl_DstPodName := cend_PodName dst,
                    nl_DstReservedLabels := getReservedLabelsIfExist (cend_Labels dst),
                    nl_SrcReservedLabels := getReservedLabelsIfExist (cend_Labels src),
                    nl_IsReply := cf_IsReply flow\<rparr> in
              case cf_IP flow of None \<Rightarrow> Inr (log, False)
              | Some (s, d) \<Rightarrow>
                (let log = log\<lparr>nl_SrcIP := s, nl_DstIP := d\<rparr> in
                 case cf_L4 flow of None \<Rightarrow> Inr (log, False)
                 | Some l4 \<Rightarrow>
                   go_bind (cilium_http url_path flow (cilium_l4 l4 log)) (\<lambda>(log, ok).
                     if ok then Inr (cilium_dns flow log) else Inr (log, False))))
         | _ \<Rightarrow> Inl NilDereference))"

section \<open>Policies\<close>

record CiliumPort =
  cpt_Port :: string
  cpt_Protocol :: string

text \<open>Rules is nil or a map from the kind of rule to the rules.\<close>

record CiliumPortList =
  cpl_Ports :: "CiliumPort list"
  cpl_Rules :: "(string, LabelMap list) fmap option"

record CiliumICMPField =
  cif_Family :: string
  cif_Type :: "8 word"

record CiliumEgress =
  ceg_ToEndpoints :: "LabelMap list"
  ceg_ToPorts :: "CiliumPortList list"
  ceg_ICMPs :: "CiliumICMPField list list"
  ceg_ToCIDRs :: "string list"
  ceg_ToEntities :: "string list"
  ceg_ToServices :: "SpecService list"
  ceg_ToFQDNs :: "LabelMap list"

record CiliumIngress =
  cin_FromEndpoints :: "LabelMap list"
  cin_ToPorts :: "CiliumPortList list"
  cin_ICMPs :: "CiliumICMPField list list"
  cin_FromCIDRs :: "string list"
  cin_FromEntities :: "string list"

record CiliumNetworkPolicy =
  cnp_APIVersion :: string
  cnp_Kind :: string
  cnp_Metadata :: LabelMap
  cnp_NodeSelector :: Selector
  cnp_EndpointSelector :: Selector
  cnp_Egress :: "CiliumEgress list"
  cnp_Ingress :: "CiliumIngress list"

definition getCoreDNSEndpoint :: "Service list \<Rightarrow> LabelMap list \<times> CiliumPortList list" where
  "getCoreDNSEndpoint services =
     (let matchLabel = fmap_of_list [(''k8s:io.kubernetes.pod.namespace'', ''kube-system''), (''k8s-app'', ''kube-dns'')];
          ports = (if length services = 0 then [\<lparr>cpt_Port = Itoa 53, cpt_Protocol = ToUpper ''UDP''\<rparr>]
            else map (\<lambda>svc. \<lparr>cpt_Port = Itoa (sv_ServicePort svc), cpt_Protocol = ToUpper (sv_Protocol svc)\<rparr>)
              (filter (\<lambda>svc. sv_Namespace svc = ''kube-system'' \<and> sv_ServiceName svc = ''kube-dns'') services))
      in ([matchLabel], [\<lparr>cpl_Ports = ports,
        cpl_Rules = Some (fmupd ''dns'' [fmupd ''matchPattern'' ''*'' fmempty] fmempty)\<rparr>]))"

text \<open>The two kinds are constants of the library, \<^verbatim>\<open>cnp\<close> and \<^verbatim>\<open>ccnp\<close>.\<close>

definition buildNewCiliumNetworkPolicy :: "string \<Rightarrow> string \<Rightarrow> KnoxNetworkPolicy \<Rightarrow> CiliumNetworkPolicy" where
  "buildNewCiliumNetworkPolicy cnp ccnp inPolicy =
     (let host = (np_Kind inPolicy = KindKnoxHostNetworkPolicy); selector = spec_Selector (np_Spec inPolicy);
          none = \<lparr>sel_MatchLabels = fmempty\<rparr>
      in \<lparr>cnp_APIVersion = ''cilium.io/v2'',
        cnp_Kind = (if host then ccnp else cnp),
        cnp_Metadata = fmfilter (\<lambda>k. k = ''name'' \<or> k = ''namespace'') (np_Metadata inPolicy),
        cnp_NodeSelector = (if host then selector else none),
        cnp_EndpointSelector = (if host then none else selector), cnp_Egress = [], cnp_Ingress = []\<rparr>)"

definition http_subrule :: "SpecHTTP \<Rightarrow> LabelMap" where
  "http_subrule http = fmap_of_list [(''method'', http_Method http), (''path'', http_Path http)]"

text \<open>One port: the list of port lists is created for the first one, and each port sets the HTTP rules anew.\<close>

definition add_cilium_port :: "SpecHTTP list \<Rightarrow> SpecPort \<Rightarrow> CiliumPortList list \<Rightarrow> CiliumPortList list" where
  "add_cilium_port https toPort toPorts =
     (let toPorts = (if toPorts = [] then [\<lparr>cpl_Ports = [], cpl_Rules = None\<rparr>] else toPorts);
          toPorts = (if length https > 0 then
            toPorts[0 := (toPorts ! 0)\<lparr>cpl_Rules := Some (fmupd ''http'' (map http_subrule https) fmempty)\<rparr>] else toPorts);
          port = \<lparr>cpt_Port = port_Port toPort, cpt_Protocol = ToUpper (port_Protocol toPort)\<rparr>
      in toPorts[0 := (toPorts ! 0)\<lparr>cpl_Ports := cpl_Ports (toPorts ! 0) @ [port]\<rparr>])"

definition add_cilium_icmp :: "SpecICMP \<Rightarrow> CiliumICMPField list list \<Rightarrow> CiliumICMPField list list" where
  "add_cilium_icmp icmp icmps =
     (let icmps = (if icmps = [] then [[]] else icmps)
      in icmps[0 := icmps ! 0 @ [\<lparr>cif_Family = icmp_Family icmp, cif_Type = icmp_Type icmp\<rparr>]])"

text \<open>Egress rules: one kind of peer, of the CIDRs the last entry only, and no port without a number.\<close>

definition cilium_egress_peer :: "Egress \<Rightarrow> CiliumEgress \<Rightarrow> CiliumEgress" where
  "cilium_egress_peer knoxEgress ciliumEgress =
     (case eg_MatchLabels knoxEgress of
        Some m \<Rightarrow> ciliumEgress\<lparr>ceg_ToEndpoints := [m]\<rparr>
      | None \<Rightarrow>
          if length (eg_ToCIDRs knoxEgress) > 0 then
            fold (\<lambda>toCIDR c. c\<lparr>ceg_ToCIDRs := cidr_CIDRs toCIDR\<rparr>) (eg_ToCIDRs knoxEgress) ciliumEgress
          else if length (eg_ToEntities knoxEgress) > 0 then
            fold (\<lambda>entity c. c\<lparr>ceg_ToEntities := ceg_ToEntities c @ [entity]\<rparr>) (eg_ToEntities knoxEgress) ciliumEgress
          else if length (eg_ToFQDNs knoxEgress) > 0 then
            fold (\<lambda>fqdn c. fold (\<lambda>matchName c. c\<lparr>ceg_ToFQDNs := ceg_ToFQDNs c @ [fmupd ''matchName'' matchName fmempty]\<rparr>)
              (fqdn_MatchNames fqdn) c) (eg_ToFQDNs knoxEgress) ciliumEgress
          else if length (eg_ToServices knoxEgress) > 0 then
            fold (\<lambda>service c. c\<lparr>ceg_ToServices := ceg_ToServices c @ [service]\<rparr>) (eg_ToServices knoxEgress) ciliumEgress
          else ciliumEgress)"

definition CiliumEgress_zero :: CiliumEgress where
  "CiliumEgress_zero = \<lparr>ceg_ToEndpoints = [], ceg_ToPorts = [], ceg_ICMPs = [], ceg_ToCIDRs = [], ceg_ToEntities = [],
     ceg_ToServices = [], ceg_ToFQDNs = []\<rparr>"

definition CiliumIngress_zero :: CiliumIngress where
  "CiliumIngress_zero = \<lparr>cin_FromEndpoints = [], cin_ToPorts = [], cin_ICMPs = [], cin_FromCIDRs = [], cin_FromEntities = []\<rparr>"

definition cilium_egress :: "Egress \<Rightarrow> CiliumEgress" where
  "cilium_egress knoxEgress =
     (let c = cilium_egress_peer knoxEgress CiliumEgress_zero
      in c\<lparr>ceg_ToPorts := fold (\<lambda>toPort ps. if port_Port toPort = [] then ps else add_cilium_port (eg_ToHTTPs knoxEgress) toPort ps)
             (eg_ToPorts knoxEgress) [],
           ceg_ICMPs := fold add_cilium_icmp (eg_ICMPs knoxEgress) []\<rparr>)"

definition cilium_ingress :: "Ingress \<Rightarrow> CiliumIngress" where
  "cilium_ingress knoxIngress =
     (let c = CiliumIngress_zero;
          c = (case in_MatchLabels knoxIngress of None \<Rightarrow> c | Some m \<Rightarrow> c\<lparr>cin_FromEndpoints := [m]\<rparr>);
          c = fold (\<lambda>fromCIDR c. c\<lparr>cin_FromCIDRs := cin_FromCIDRs c @ cidr_CIDRs fromCIDR\<rparr>) (in_FromCIDRs knoxIngress) c;
          c = fold (\<lambda>entity c. c\<lparr>cin_FromEntities := cin_FromEntities c @ [entity]\<rparr>) (in_FromEntities knoxIngress) c
      in c\<lparr>cin_ToPorts := fold (add_cilium_port (in_ToHTTPs knoxIngress)) (in_ToPorts knoxIngress) [],
           cin_ICMPs := fold add_cilium_icmp (in_ICMPs knoxIngress) []\<rparr>)"

definition ConvertKnoxNetworkPolicyToCiliumPolicy :: "string \<Rightarrow> string \<Rightarrow> KnoxNetworkPolicy \<Rightarrow> CiliumNetworkPolicy" where
  "ConvertKnoxNetworkPolicyToCiliumPolicy cnp ccnp inPolicy =
     (buildNewCiliumNetworkPolicy cnp ccnp inPolicy)\<lparr>
       cnp_Egress := fold (\<lambda>e cs. cs @ [cilium_egress e]) (spec_Egress (np_Spec inPolicy)) [],
       cnp_Ingress := fold (\<lambda>r cs. cs @ [cilium_ingress r]) (spec_Ingress (np_Spec inPolicy)) []\<rparr>"

definition ConvertKnoxPoliciesToCiliumPolicies :: "string \<Rightarrow> string \<Rightarrow> KnoxNetworkPolicy list \<Rightarrow> CiliumNetworkPolicy list" where
  "ConvertKnoxPoliciesToCiliumPolicies cnp ccnp policies =
     fold (\<lambda>policy ps. ps @ [ConvertKnoxNetworkPolicyToCiliumPolicy cnp ccnp policy]) policies []"

section \<open>Buffers\<close>

text \<open>A flow in the buffer, with its time, which may be nil. The buffer is emptied before the times of the first
  and the last flow are read.\<close>

type_synonym timed_flow = "cilium_flow \<times> int option"

definition GetCiliumFlowsFromHubble ::
  "nat \<Rightarrow> timed_flow list \<Rightarrow> (go_panic + timed_flow list) \<times> timed_flow list" where
  "GetCiliumFlowsFromHubble trigger CiliumFlows =
     (if length CiliumFlows = 0 then (Inr [], CiliumFlows)
      else if length CiliumFlows < trigger then (Inr [], CiliumFlows)
      else if snd (hd CiliumFlows) = None \<or> snd (last CiliumFlows) = None then (Inl NilDereference, [])
      else (Inr CiliumFlows, []))"

definition GetCiliumFlowsFromFeedConsumer ::
  "nat \<Rightarrow> KnoxNetworkLog list \<Rightarrow> KnoxNetworkLog list \<times> KnoxNetworkLog list" where
  "GetCiliumFlowsFromFeedConsumer trigger CiliumFlowsFC =
     (if length CiliumFlowsFC = 0 then ([], CiliumFlowsFC)
      else if length CiliumFlowsFC < trigger then ([], CiliumFlowsFC)
      else (CiliumFlowsFC, []))"

section \<open>What a rule is for\<close>

text \<open>A peer, for both formats, and the view of a rule: its peers, ports, ICMP types and HTTP rules.\<close>

datatype rule_peer =
    PeerLabels LabelMap | PeerCIDR string | PeerEntity string | PeerFQDN LabelMap | PeerService SpecService

type_synonym rule_view =
  "rule_peer set \<times> (string \<times> string) set \<times> (string \<times> 8 word) set \<times> LabelMap set"

definition port_view :: "SpecPort list \<Rightarrow> (string \<times> string) set" where
  "port_view ps = (\<lambda>p. (port_Port p, ToUpper (port_Protocol p))) ` set ps"

definition icmp_view :: "SpecICMP list \<Rightarrow> (string \<times> 8 word) set" where
  "icmp_view is = (\<lambda>i. (icmp_Family i, icmp_Type i)) ` set is"

definition cilium_port_view :: "CiliumPortList list \<Rightarrow> (string \<times> string) set" where
  "cilium_port_view pls = (\<lambda>p. (cpt_Port p, cpt_Protocol p)) ` set (concat (map cpl_Ports pls))"

definition cilium_http_view :: "CiliumPortList list \<Rightarrow> LabelMap set" where
  "cilium_http_view pls = (\<Union>pl \<in> set pls. case cpl_Rules pl of None \<Rightarrow> {} | Some m \<Rightarrow>
     (case fmlookup m ''http'' of None \<Rightarrow> {} | Some rs \<Rightarrow> set rs))"

definition cilium_icmp_view :: "CiliumICMPField list list \<Rightarrow> (string \<times> 8 word) set" where
  "cilium_icmp_view fs = (\<lambda>f. (cif_Family f, cif_Type f)) ` set (concat fs)"

definition egress_view :: "Egress \<Rightarrow> rule_view" where
  "egress_view r =
     (PeerLabels ` set_option (eg_MatchLabels r) \<union> PeerCIDR ` (\<Union>c \<in> set (eg_ToCIDRs r). set (cidr_CIDRs c)) \<union>
        PeerEntity ` set (eg_ToEntities r) \<union>
        PeerFQDN ` (\<Union>f \<in> set (eg_ToFQDNs r). (\<lambda>n. fmupd ''matchName'' n fmempty) ` set (fqdn_MatchNames f)) \<union>
        PeerService ` set (eg_ToServices r),
      port_view (eg_ToPorts r), icmp_view (eg_ICMPs r), http_subrule ` set (eg_ToHTTPs r))"

definition ingress_view :: "Ingress \<Rightarrow> rule_view" where
  "ingress_view r =
     (PeerLabels ` set_option (in_MatchLabels r) \<union> PeerCIDR ` (\<Union>c \<in> set (in_FromCIDRs r). set (cidr_CIDRs c)) \<union>
        PeerEntity ` set (in_FromEntities r),
      port_view (in_ToPorts r), icmp_view (in_ICMPs r), http_subrule ` set (in_ToHTTPs r))"

definition cilium_egress_view :: "CiliumEgress \<Rightarrow> rule_view" where
  "cilium_egress_view c =
     (PeerLabels ` set (ceg_ToEndpoints c) \<union> PeerCIDR ` set (ceg_ToCIDRs c) \<union> PeerEntity ` set (ceg_ToEntities c) \<union>
        PeerFQDN ` set (ceg_ToFQDNs c) \<union> PeerService ` set (ceg_ToServices c),
      cilium_port_view (ceg_ToPorts c), cilium_icmp_view (ceg_ICMPs c), cilium_http_view (ceg_ToPorts c))"

definition cilium_ingress_view :: "CiliumIngress \<Rightarrow> rule_view" where
  "cilium_ingress_view c =
     (PeerLabels ` set (cin_FromEndpoints c) \<union> PeerCIDR ` set (cin_FromCIDRs c) \<union> PeerEntity ` set (cin_FromEntities c),
      cilium_port_view (cin_ToPorts c), cilium_icmp_view (cin_ICMPs c), cilium_http_view (cin_ToPorts c))"

lemma cilium_icmps: "fold add_cilium_icmp is [] = (if is = [] then [] else [map (\<lambda>i. \<lparr>cif_Family = icmp_Family i, cif_Type = icmp_Type i\<rparr>) is])"
proof -
  have "fold add_cilium_icmp is [fs] = [fs @ map (\<lambda>i. \<lparr>cif_Family = icmp_Family i, cif_Type = icmp_Type i\<rparr>) is]" for fs
    by (induction "is" arbitrary: fs) (simp_all add: add_cilium_icmp_def Let_def)
  from this [of "[]"] show ?thesis by (cases "is") (simp_all add: add_cilium_icmp_def Let_def)
qed

lemma cilium_ports:
  "fold (add_cilium_port https) ps [] = (if ps = [] then [] else
     [\<lparr>cpl_Ports = map (\<lambda>p. \<lparr>cpt_Port = port_Port p, cpt_Protocol = ToUpper (port_Protocol p)\<rparr>) ps,
       cpl_Rules = (if https = [] then None else Some (fmupd ''http'' (map http_subrule https) fmempty))\<rparr>])"
proof -
  have step: "fold (add_cilium_port https) ps [\<lparr>cpl_Ports = qs, cpl_Rules = rules\<rparr>] =
      [\<lparr>cpl_Ports = qs @ map (\<lambda>p. \<lparr>cpt_Port = port_Port p, cpt_Protocol = ToUpper (port_Protocol p)\<rparr>) ps, cpl_Rules = rules\<rparr>]"
    if "rules = (if https = [] then None else Some (fmupd ''http'' (map http_subrule https) fmempty))" for rules qs ps
    using that by (induction ps arbitrary: qs) (auto simp: add_cilium_port_def Let_def)
  show ?thesis
  proof (cases ps)
    case (Cons p ps')
    then show ?thesis using step [OF refl, where ps = ps' and qs = "[\<lparr>cpt_Port = port_Port p, cpt_Protocol = ToUpper (port_Protocol p)\<rparr>]"]
      by (cases "https = []") (simp_all add: add_cilium_port_def Let_def)
  qed simp
qed

lemma fold_collect: "fold (\<lambda>x acc. acc @ [f x]) xs acc = acc @ map f xs"
  by (induction xs arbitrary: acc) simp_all

lemma cilium_l4_views:
  "cilium_port_view (fold (add_cilium_port https) ps []) = port_view ps"
  "cilium_http_view (fold (add_cilium_port https) ps []) = (if ps = [] then {} else http_subrule ` set https)"
  "cilium_icmp_view (fold add_cilium_icmp is []) = icmp_view is"
  by (auto simp: cilium_ports cilium_icmps cilium_port_view_def port_view_def cilium_http_view_def cilium_icmp_view_def
      icmp_view_def image_image)

text \<open>The rules that survive the conversion: HTTP rules need a port, and an egress rule may name one kind of peer, one entry of
  CIDRs, and only ports with a number.\<close>

definition plain_egress :: "Egress \<Rightarrow> bool" where
  "plain_egress r \<longleftrightarrow> list_all (\<lambda>p. port_Port p \<noteq> []) (eg_ToPorts r) \<and> length (eg_ToCIDRs r) \<le> 1 \<and>
     (eg_ToPorts r = [] \<longrightarrow> eg_ToHTTPs r = []) \<and>
     length (filter id [eg_MatchLabels r \<noteq> None, eg_ToCIDRs r \<noteq> [], eg_ToEntities r \<noteq> [], eg_ToFQDNs r \<noteq> [],
       eg_ToServices r \<noteq> []]) \<le> 1"

definition plain_ingress :: "Ingress \<Rightarrow> bool" where
  "plain_ingress r \<longleftrightarrow> (in_ToPorts r = [] \<longrightarrow> in_ToHTTPs r = [])"

lemma cilium_ingress_refines: "plain_ingress r \<Longrightarrow> cilium_ingress_view (cilium_ingress r) = ingress_view r"
proof -
  have cidrs: "fold (\<lambda>fromCIDR c. c\<lparr>cin_FromCIDRs := cin_FromCIDRs c @ cidr_CIDRs fromCIDR\<rparr>) xs c =
      c\<lparr>cin_FromCIDRs := cin_FromCIDRs c @ concat (map cidr_CIDRs xs)\<rparr>" for xs c
    by (induction xs arbitrary: c) simp_all
  have entities: "fold (\<lambda>entity c. c\<lparr>cin_FromEntities := cin_FromEntities c @ [entity]\<rparr>) xs c =
      c\<lparr>cin_FromEntities := cin_FromEntities c @ xs\<rparr>" for xs c
    by (induction xs arbitrary: c) simp_all
  assume "plain_ingress r"
  then show ?thesis
    by (cases "in_MatchLabels r") (auto simp: cilium_ingress_view_def cilium_ingress_def Let_def cidrs entities cilium_l4_views
        ingress_view_def CiliumIngress_zero_def plain_ingress_def)
qed

lemma cilium_egress_refines: "plain_egress r \<Longrightarrow> cilium_egress_view (cilium_egress r) = egress_view r"
proof -
  assume plain: "plain_egress r"
  have ports: "fold (\<lambda>toPort ps. if port_Port toPort = [] then ps else add_cilium_port https toPort ps) xs acc =
      fold (add_cilium_port https) xs acc" if "list_all (\<lambda>p. port_Port p \<noteq> []) xs" for https xs acc
    using that by (induction xs arbitrary: acc) simp_all
  have entities: "fold (\<lambda>entity c. c\<lparr>ceg_ToEntities := ceg_ToEntities c @ [entity]\<rparr>) xs c =
      c\<lparr>ceg_ToEntities := ceg_ToEntities c @ xs\<rparr>" for xs c
    by (induction xs arbitrary: c) simp_all
  have services: "fold (\<lambda>service c. c\<lparr>ceg_ToServices := ceg_ToServices c @ [service]\<rparr>) xs c =
      c\<lparr>ceg_ToServices := ceg_ToServices c @ xs\<rparr>" for xs c
    by (induction xs arbitrary: c) simp_all
  have names: "fold (\<lambda>n c. c\<lparr>ceg_ToFQDNs := ceg_ToFQDNs c @ [fmupd ''matchName'' n fmempty]\<rparr>) ns c =
      c\<lparr>ceg_ToFQDNs := ceg_ToFQDNs c @ map (\<lambda>n. fmupd ''matchName'' n fmempty) ns\<rparr>" for ns c
    by (induction ns arbitrary: c) simp_all
  have fqdns: "fold (\<lambda>fqdn c. fold (\<lambda>matchName c. c\<lparr>ceg_ToFQDNs := ceg_ToFQDNs c @ [fmupd ''matchName'' matchName fmempty]\<rparr>)
      (fqdn_MatchNames fqdn) c) xs c =
      c\<lparr>ceg_ToFQDNs := ceg_ToFQDNs c @ concat (map (\<lambda>f. map (\<lambda>n. fmupd ''matchName'' n fmempty) (fqdn_MatchNames f)) xs)\<rparr>" for xs c
    by (induction xs arbitrary: c) (simp_all add: names)
  have cidrs: "fold (\<lambda>toCIDR c. c\<lparr>ceg_ToCIDRs := cidr_CIDRs toCIDR\<rparr>) (eg_ToCIDRs r) c =
      c\<lparr>ceg_ToCIDRs := concat (map cidr_CIDRs (eg_ToCIDRs r))\<rparr>" if "eg_ToCIDRs r \<noteq> []" for c
    using plain that by (cases "eg_ToCIDRs r") (simp_all add: plain_egress_def)
  note peers = cilium_egress_view_def cilium_egress_def cilium_egress_peer_def egress_view_def CiliumEgress_zero_def
  have l4: "cilium_port_view (fold (\<lambda>toPort ps. if port_Port toPort = [] then ps else add_cilium_port (eg_ToHTTPs r) toPort ps)
        (eg_ToPorts r) []) = port_view (eg_ToPorts r)"
      "cilium_http_view (fold (\<lambda>toPort ps. if port_Port toPort = [] then ps else add_cilium_port (eg_ToHTTPs r) toPort ps)
        (eg_ToPorts r) []) = http_subrule ` set (eg_ToHTTPs r)"
    using plain by (auto simp: plain_egress_def ports cilium_l4_views)
  show ?thesis
  proof (cases "eg_MatchLabels r")
    case (Some m)
    then have "eg_ToCIDRs r = []" "eg_ToEntities r = []" "eg_ToFQDNs r = []" "eg_ToServices r = []"
      using plain by (auto simp: plain_egress_def split: if_splits)
    with Some show ?thesis by (simp add: peers Let_def l4 cilium_l4_views)
  next
    case None
    consider (cidr) "eg_ToCIDRs r \<noteq> []" "eg_ToEntities r = []" "eg_ToFQDNs r = []" "eg_ToServices r = []"
      | (entity) "eg_ToCIDRs r = []" "eg_ToEntities r \<noteq> []" "eg_ToFQDNs r = []" "eg_ToServices r = []"
      | (fqdn) "eg_ToCIDRs r = []" "eg_ToEntities r = []" "eg_ToFQDNs r \<noteq> []" "eg_ToServices r = []"
      | (service) "eg_ToCIDRs r = []" "eg_ToEntities r = []" "eg_ToFQDNs r = []"
      using plain None unfolding plain_egress_def by (auto split: if_splits)
    then show ?thesis
    proof cases
      case cidr
      with None show ?thesis by (simp add: peers Let_def l4 cilium_l4_views cidrs)
    next
      case entity
      with None show ?thesis by (simp add: peers Let_def l4 cilium_l4_views entities)
    next
      case fqdn
      with None show ?thesis by (simp add: peers Let_def l4 cilium_l4_views fqdns)
    next
      case service
      with None show ?thesis by (simp add: peers Let_def l4 cilium_l4_views services)
    qed
  qed
qed

section \<open>Properties\<close>

lemma getHTTP_panics: "isl (getHTTP url_path flow) \<longleftrightarrow>
    (\<exists>l7 m u. cf_L7 flow = Some l7 \<and> l7_Record l7 = L7_Http m u \<and> l7_Type l7 = 1 \<and> url_path u = None)"
  by (auto simp: getHTTP_def split: option.splits layer7_record.splits)

lemma cilium_http_panics: "isl (cilium_http url_path flow log) \<longleftrightarrow> isl (getHTTP url_path flow)"
  by (auto simp: cilium_http_def getHTTP_def Let_def split: option.splits layer7_record.splits)

text \<open>The conversion of a flow panics exactly when the flow is not one of the drops that are left out, and it has no source
  or no destination, or it is a request of HTTP whose address cannot be parsed.\<close>

theorem ConvertCiliumFlowToKnoxNetworkLog_panics_iff:
  "isl (ConvertCiliumFlowToKnoxNetworkLog url_path flow) \<longleftrightarrow>
     \<not> (cf_Verdict flow = 2 \<and> cf_DropReasonDesc flow = 181) \<and>
     (cf_Source flow = None \<or> cf_Destination flow = None \<or>
      cf_IP flow \<noteq> None \<and> cf_L4 flow \<noteq> None \<and>
        (\<exists>l7 m u. cf_L7 flow = Some l7 \<and> l7_Record l7 = L7_Http m u \<and> l7_Type l7 = 1 \<and> url_path u = None))"
proof -
  have "isl (go_bind (cilium_http url_path flow log) (\<lambda>(log, ok). if ok then Inr (cilium_dns flow log) else Inr (log, False))) \<longleftrightarrow>
      isl (getHTTP url_path flow)" for log
    using cilium_http_panics [of url_path flow log] by (cases "cilium_http url_path flow log") (auto split: prod.splits)
  then show ?thesis
    unfolding ConvertCiliumFlowToKnoxNetworkLog_def Let_def getHTTP_panics [symmetric]
    by (auto split: option.splits prod.splits)
qed

text \<open>C32: The rules of a policy for Cilium are for the peers, the ports, the types of ICMP and the requests of HTTP of the
  discovered policy, rule by rule, if each rule for outgoing traffic has one kind of peer, at most one entry of CIDRs
  and ports with a number, and rules of HTTP come with a port.\<close>

theorem ConvertKnoxNetworkPolicyToCiliumPolicy_refines:
  "list_all plain_egress (spec_Egress (np_Spec policy)) \<Longrightarrow> list_all plain_ingress (spec_Ingress (np_Spec policy)) \<Longrightarrow>
   map cilium_egress_view (cnp_Egress (ConvertKnoxNetworkPolicyToCiliumPolicy cnp ccnp policy)) =
     map egress_view (spec_Egress (np_Spec policy)) \<and>
   map cilium_ingress_view (cnp_Ingress (ConvertKnoxNetworkPolicyToCiliumPolicy cnp ccnp policy)) =
     map ingress_view (spec_Ingress (np_Spec policy))"
  by (simp add: ConvertKnoxNetworkPolicyToCiliumPolicy_def fold_collect list_all_iff cilium_egress_refines
      cilium_ingress_refines)

definition demo_cilium_policy :: KnoxNetworkPolicy where
  "demo_cilium_policy = buildNewKnoxEgressPolicy\<lparr>np_Spec := (np_Spec buildNewKnoxEgressPolicy)\<lparr>
     spec_Egress := [Egress_zero\<lparr>eg_ToFQDNs := [\<lparr>fqdn_MatchNames = [''a.org'', ''b.org'']\<rparr>],
         eg_ToPorts := [\<lparr>port_Port = ''443'', port_Protocol = ''tcp''\<rparr>],
         eg_ToHTTPs := [\<lparr>http_Method = ''GET'', http_Path = ''/'', http_Aggregated = False\<rparr>]\<rparr>],
     spec_Ingress := [Ingress_zero\<lparr>in_FromCIDRs := [\<lparr>cidr_CIDRs = [''10.0.0.0/8''], cidr_Except = []\<rparr>]\<rparr>]\<rparr>\<rparr>"

theorem ConvertKnoxNetworkPolicyToCiliumPolicy_refines_witness:
  "map cilium_egress_view (cnp_Egress (ConvertKnoxNetworkPolicyToCiliumPolicy ''n'' ''c'' demo_cilium_policy)) =
     [({PeerFQDN (fmupd ''matchName'' ''a.org'' fmempty), PeerFQDN (fmupd ''matchName'' ''b.org'' fmempty)}, {(''443'', ''TCP'')}, {},
        {fmap_of_list [(''method'', ''GET''), (''path'', ''/'')]})]"
proof -
  have "list_all plain_egress (spec_Egress (np_Spec demo_cilium_policy))"
    "list_all plain_ingress (spec_Ingress (np_Spec demo_cilium_policy))" by code_simp+
  note policy = ConvertKnoxNetworkPolicyToCiliumPolicy_refines [OF this, THEN conjunct1]
  have "ToUpper ''tcp'' = ''TCP''" by code_simp
  then show ?thesis unfolding policy
    by (auto simp: demo_cilium_policy_def egress_view_def port_view_def icmp_view_def http_subrule_def Egress_zero_def)
qed

end
