(* ===== verification/NetworkSource.thy ===== *)
theory NetworkSource
  imports Cilium KubeArmorRelay NetworkLog
begin

text \<open>
  Where the logs of network policy discovery come from: the logs of KubeArmor (\<^verbatim>\<open>plugin/kubearmor.go\<close>),
  \<^verbatim>\<open>getNetworkLogs\<close> of \<^verbatim>\<open>networkpolicy/helperFunctions.go\<close>, which reads one of four sources, and the lookup of an
  address (\<^verbatim>\<open>cluster/clusterResourceHandler.go\<close>). The resources of a cluster come from the Kubernetes API and are a parameter,
  \<^verbatim>\<open>None\<close> for an error.
\<close>

section \<open>Addresses\<close>

definition ExtractPodSvcInfoFromIP :: "string \<Rightarrow> string \<Rightarrow> Pod list \<Rightarrow> Service list \<Rightarrow> string \<times> string \<times> string" where
  "ExtractPodSvcInfoFromIP ip clustername pods services =
     (case List.find (\<lambda>pod. pod_PodIP pod = ip) pods of
        Some pod \<Rightarrow> (''pod/'' @ pod_PodName pod, Join (pod_Labels pod) '','', pod_Namespace pod)
      | None \<Rightarrow>
          (case List.find (\<lambda>svc. sv_ClusterIP svc = ip) services of
             Some svc \<Rightarrow> (''svc/'' @ sv_ServiceName svc, Join (sv_Labels svc) '','', sv_Namespace svc)
           | None \<Rightarrow> (ip, [], [])))"

section \<open>Logs of KubeArmor\<close>

type_synonym resources = "string list \<times> Service list \<times> Endpoint list \<times> Pod list"

text \<open>\<^verbatim>\<open>strings.Split(word, "=")[1]\<close>\<close>

definition field_value :: "string \<Rightarrow> go_panic + string" where
  "field_value word = index (Split word (CHR ''='')) 1"

definition remote_address :: "string \<times> string \<Rightarrow> string \<Rightarrow> go_panic + string \<times> string" where
  "remote_address st locres =
     (let (ip, port) = st in
      go_bind (if Contains locres ''remoteip'' then field_value locres else Inr ip) (\<lambda>ip.
      go_bind (if Contains locres ''port'' then field_value locres else Inr port) (\<lambda>port. Inr (ip, port))))"

definition bind_port :: "string \<Rightarrow> string \<Rightarrow> go_panic + string" where
  "bind_port port v = (if Contains v ''sin_port'' then field_value v else Inr port)"

definition InvalidLog :: string where "InvalidLog = ''invalid log''"

definition with_direction :: "Alert \<Rightarrow> KnoxNetworkLog \<Rightarrow> KnoxNetworkLog" where
  "with_direction kaNwLog log =
     (if Contains (al_Data kaNwLog) ''tcp_accept'' then log\<lparr>nl_Direction := ''INGRESS''\<rparr>
      else if Contains (al_Data kaNwLog) ''tcp_connect'' then log\<lparr>nl_Direction := ''EGRESS''\<rparr>
      else log)"

definition ka_tcp ::
  "(string \<Rightarrow> resources option) \<Rightarrow> Alert \<Rightarrow> KnoxNetworkLog \<Rightarrow> go_panic + string + KnoxNetworkLog" where
  "ka_tcp GetAllClusterResources kaNwLog knoxNetLog =
     (let knoxNetLog = with_direction kaNwLog (knoxNetLog\<lparr>nl_Protocol := IPProtocolTCP\<rparr>) in
      go_bind (foldM remote_address ([], []) (Split (al_Resource kaNwLog) (CHR '' ''))) (\<lambda>(ip, port).
        if IsLoopback (ParseIP ip) then Inr (Inl InvalidLog)
        else
          (let (services, pods) =
                 (if [] \<noteq> al_ClusterName kaNwLog then
                    (case GetAllClusterResources (al_ClusterName kaNwLog) of
                       None \<Rightarrow> ([], []) | Some (_, services, _, pods) \<Rightarrow> (services, pods))
                  else ([], []));
               (destPod, destLabels, destNs) = ExtractPodSvcInfoFromIP ip (al_ClusterName kaNwLog) pods services in
           go_bind (if ip \<noteq> destPod \<and> (Contains destPod ''pod'' \<or> Contains destPod ''svc'') then
               go_bind (index (Split destPod (CHR ''/'')) 1) (\<lambda>name.
                 Inr (knoxNetLog\<lparr>nl_DstPodName := name, nl_DstReservedLabels := Split destLabels (CHR '',''),
                   nl_DstNamespace := destNs\<rparr>))
             else Inr knoxNetLog) (\<lambda>knoxNetLog.
           Inr (Inr (knoxNetLog\<lparr>nl_DstIP := ip, nl_DstPort := Atoi port, nl_SynFlag := True\<rparr>))))))"

definition ConvertKubeArmorNetLogToKnoxNetLog ::
  "(string \<Rightarrow> resources option) \<Rightarrow> Alert \<Rightarrow> go_panic + string + KnoxNetworkLog" where
  "ConvertKubeArmorNetLogToKnoxNetLog GetAllClusterResources kaNwLog =
     (let knoxNetLog = KnoxNetworkLog_zero\<lparr>nl_ClusterName := al_ClusterName kaNwLog, nl_ContainerName := al_ContainerName kaNwLog,
            nl_SrcNamespace := al_NamespaceName kaNwLog, nl_SrcReservedLabels := Split (al_Labels kaNwLog) (CHR '',''),
            nl_SrcPodName := al_PodName kaNwLog\<rparr> in
      go_bind
        (if Contains (al_Data kaNwLog) ''tcp_'' then ka_tcp GetAllClusterResources kaNwLog knoxNetLog
         else if Contains (al_Data kaNwLog) ''SYS_BIND'' then
           go_bind (foldM bind_port [] (Split (al_Resource kaNwLog) (CHR '' ''))) (\<lambda>port.
             Inr (Inr (knoxNetLog\<lparr>nl_DstPort := Atoi port, nl_Direction := ''INGRESS''\<rparr>)))
         else if Contains (al_Data kaNwLog) ''SYS_SOCKET'' \<and> Contains (al_Resource kaNwLog) ''SOCK_DGRAM'' then
           Inr (Inr (knoxNetLog\<lparr>nl_Protocol := IPProtocolUDP, nl_Direction := ''EGRESS''\<rparr>))
         else Inr (Inl ''not an ingress/egress traffic''))
        (\<lambda>r. case r of Inl err \<Rightarrow> Inr (Inl err)
          | Inr log \<Rightarrow>
              (let log = log\<lparr>nl_Action := if al_Result kaNwLog \<noteq> ''Passed'' then ''Deny'' else ''Allow''\<rparr>
               in if nl_Protocol log = 0 \<and> nl_DstPort log = 0 \<and> length (nl_DstReservedLabels log) = 0
                  then Inr (Inl InvalidLog) else Inr (Inr log))))"

section \<open>Names of the pods in a file of flows\<close>

definition last_pod :: "(string \<Rightarrow> bool) \<Rightarrow> Pod list \<Rightarrow> string" where
  "last_pod P pods = fold (\<lambda>pod n. if P (pod_PodName pod) then pod_PodName pod else n) pods []"

definition flow_source :: "cilium_flow \<Rightarrow> string" where
  "flow_source flow = (case cf_Source flow of None \<Rightarrow> [] | Some e \<Rightarrow> cend_PodName e)"

definition flow_destination :: "cilium_flow \<Rightarrow> string" where
  "flow_destination flow = (case cf_Destination flow of None \<Rightarrow> [] | Some e \<Rightarrow> cend_PodName e)"

text \<open>The third argument, which excludes, is looked for in the name of the source in both cases.\<close>

definition rename_pods :: "string \<times> string option \<times> string \<Rightarrow> cilium_flow \<Rightarrow> cilium_flow" where
  "rename_pods r flow =
     (let (part, but, name) = r;
          set_name = map_option (\<lambda>e. e\<lparr>cend_PodName := name\<rparr>);
          excluded = (\<lambda>flow. case but of None \<Rightarrow> False | Some b \<Rightarrow> Contains (flow_source flow) b);
          flow = (if Contains (flow_source flow) part \<and> \<not> excluded flow
            then flow\<lparr>cf_Source := set_name (cf_Source flow)\<rparr> else flow)
      in if Contains (flow_destination flow) part \<and> \<not> excluded flow
         then flow\<lparr>cf_Destination := set_name (cf_Destination flow)\<rparr> else flow)"

definition ReplaceMultiubuntuPodName :: "cilium_flow list \<Rightarrow> Pod list \<Rightarrow> cilium_flow list" where
  "ReplaceMultiubuntuPodName flows pods =
     (let ubuntu = (\<lambda>n. ''ubuntu-'' @ n @ ''-deployment'');
          pod_of = (\<lambda>n. (ubuntu n, None, last_pod (\<lambda>s. Contains s (ubuntu n)) pods));
          kubeDNS = last_pod (\<lambda>s. Contains s ''kube-dns'' \<and> \<not> Contains s ''kube-dns-autoscaler'' \<or>
            Contains s ''coredns'' \<and> \<not> Contains s ''coredns-autoscaler'') pods;
          renames = map pod_of [''1'', ''2'', ''3'', ''4'', ''5''] @
            [(''kube-dns'', Some ''kube-dns-autoscaler'', kubeDNS), (''coredns'', Some ''coredns-autoscaler'', kubeDNS)]
      in map (\<lambda>flow. fold rename_pods renames flow) flows)"

section \<open>The four sources\<close>

record NetSource =
  src_Flows :: "timed_flow list"
  src_FlowsFC :: "KnoxNetworkLog list"
  src_Relay :: RelayState
  src_LogMap :: log_map
  src_next :: nat

text \<open>A log of its own for each entry of the map.\<close>

definition keep_log :: "KnoxNetworkLog \<Rightarrow> NetSource \<Rightarrow> NetSource" where
  "keep_log log st = st\<lparr>src_LogMap := src_LogMap st @ [(src_next st, log)], src_next := Suc (src_next st)\<rparr>"

record NetSourceCfg =
  nsc_LogFrom :: string
  nsc_Trigger :: nat

text \<open>The logs of the first two sources are collected in a list of their own, which is only given a cluster name.
  The file is the parameter \<^verbatim>\<open>flows_of_file\<close>, \<^verbatim>\<open>None\<close> when it cannot be read.\<close>

definition default_cluster :: "KnoxNetworkLog list \<Rightarrow> KnoxNetworkLog list" where
  "default_cluster networkLogs =
     map (\<lambda>log. if nl_ClusterName log = [] then log\<lparr>nl_ClusterName := ''Default''\<rparr> else log) networkLogs"

definition convert_flows ::
  "(string \<Rightarrow> string option) \<Rightarrow> cilium_flow list \<Rightarrow> go_panic + KnoxNetworkLog list" where
  "convert_flows url_path flows =
     foldM (\<lambda>networkLogs flow. go_bind (ConvertCiliumFlowToKnoxNetworkLog url_path flow) (\<lambda>(log, valid).
       Inr (if valid then networkLogs @ [log] else networkLogs))) [] flows"

definition getNetworkLogs ::
  "(string \<Rightarrow> string option) \<Rightarrow> (string \<Rightarrow> resources option) \<Rightarrow> cilium_flow list option \<Rightarrow> Pod list \<Rightarrow> NetSourceCfg \<Rightarrow>
   NetSource \<Rightarrow> go_panic + log_map option \<times> NetSource" where
  "getNetworkLogs url_path GetAllClusterResources flows_of_file pods cfg st =
     (if nsc_LogFrom cfg = ''hubble'' then
        (let (taken, rest) = GetCiliumFlowsFromHubble (nsc_Trigger cfg) (src_Flows st); st = st\<lparr>src_Flows := rest\<rparr> in
         go_bind taken (\<lambda>flows.
           if length flows = 0 \<or> length flows < nsc_Trigger cfg then Inr (None, st)
           else go_bind (convert_flows url_path (map fst flows)) (\<lambda>networkLogs.
             let networkLogs = default_cluster networkLogs in Inr (Some (src_LogMap st), st))))
      else if nsc_LogFrom cfg = ''feed-consumer'' then
        (let (flows, rest) = GetCiliumFlowsFromFeedConsumer (nsc_Trigger cfg) (src_FlowsFC st); st = st\<lparr>src_FlowsFC := rest\<rparr> in
         if length flows = 0 \<or> length flows < nsc_Trigger cfg then Inr (None, st)
         else (let networkLogs = default_cluster flows in Inr (Some (src_LogMap st), st)))
      else if nsc_LogFrom cfg = ''file'' then
        (case flows_of_file of None \<Rightarrow> Inr (None, st)
         | Some flows \<Rightarrow>
             go_bind (convert_flows url_path (ReplaceMultiubuntuPodName flows pods)) (\<lambda>logs.
               let st = fold keep_log logs st in Inr (Some (src_LogMap st), st)))
      else if nsc_LogFrom cfg = ''kubearmor'' then
        (let (kaNwLogs, relay) = GetNetworkLogsFromKubeArmor (src_Relay st); st = st\<lparr>src_Relay := relay\<rparr> in
         go_bind (foldM (\<lambda>st nwLog. go_bind (ConvertKubeArmorNetLogToKnoxNetLog GetAllClusterResources nwLog) (\<lambda>r.
             Inr (case r of Inl err \<Rightarrow> st | Inr knoxNetLog \<Rightarrow> keep_log knoxNetLog st))) st kaNwLogs) (\<lambda>st.
           Inr (Some (src_LogMap st), st)))
      else Inr (None, st))"

section \<open>Panics\<close>

lemma length_Split: "length (Split s c) = Suc (length (filter ((=) c) s))"
  by (induction s c rule: Split.induct) (auto split: list.splits)

lemma isl_second_part: "isl (index (Split w c) (Suc 0)) \<longleftrightarrow> c \<notin> set w"
  by (auto simp: index_def length_Split filter_empty_conv)

lemma isl_field_value: "isl (field_value w) \<longleftrightarrow> CHR ''='' \<notin> set w"
  by (simp add: field_value_def isl_second_part)

lemma isl_go_bind: "isl (go_bind m f) \<longleftrightarrow> (case m of Inl _ \<Rightarrow> True | Inr x \<Rightarrow> isl (f x))"
  by (cases m) simp_all

lemma isl_go_bind_total: "(\<And>x. \<not> isl (f x)) \<Longrightarrow> isl (go_bind m f) \<longleftrightarrow> isl m"
  by (cases m) simp_all

lemma isl_foldM: "(\<And>s x. isl (f s x) \<longleftrightarrow> P x) \<Longrightarrow> isl (foldM f s xs) \<longleftrightarrow> list_ex P xs"
proof (induction xs arbitrary: s)
  case (Cons x xs)
  then show ?case using Cons.prems [of s x] by (cases "f s x") auto
qed simp

definition no_value :: "string list \<Rightarrow> string \<Rightarrow> bool" where
  "no_value keys word \<longleftrightarrow> list_ex (Contains word) keys \<and> CHR ''='' \<notin> set word"

lemma isl_remote_address: "isl (remote_address st w) \<longleftrightarrow> no_value [''remoteip'', ''port''] w"
  using isl_field_value [of w]
  by (cases st; cases "field_value w") (auto simp: remote_address_def no_value_def Let_def)

lemma isl_bind_port: "isl (bind_port port w) \<longleftrightarrow> no_value [''sin_port''] w"
  by (simp add: bind_port_def no_value_def isl_field_value)

lemma isl_addresses: "isl (foldM remote_address st ws) \<longleftrightarrow> list_ex (no_value [''remoteip'', ''port'']) ws"
  by (rule isl_foldM) (rule isl_remote_address)

lemma ExtractPodSvcInfoFromIP_name:
  assumes "ExtractPodSvcInfoFromIP ip c pods services = (destPod, labels, ns)" and "ip \<noteq> destPod"
  shows "\<exists>name. index (Split destPod (CHR ''/'')) (Suc 0) = Inr name"
proof -
  have "CHR ''/'' \<in> set destPod"
    using assms by (auto simp: ExtractPodSvcInfoFromIP_def split: option.splits)
  then have "\<not> isl (index (Split destPod (CHR ''/'')) (Suc 0))" by (simp add: isl_second_part)
  then show ?thesis by (cases "index (Split destPod (CHR ''/'')) (Suc 0)") simp_all
qed

lemma isl_ka_tcp: "isl (ka_tcp res kaNwLog log) \<longleftrightarrow> list_ex (no_value [''remoteip'', ''port'']) (Split (al_Resource kaNwLog) (CHR '' ''))"
proof (cases "foldM remote_address ([], []) (Split (al_Resource kaNwLog) (CHR '' ''))")
  case (Inl e)
  then show ?thesis using isl_addresses [of "([], [])" "Split (al_Resource kaNwLog) (CHR '' '')"]
    by (simp add: ka_tcp_def Let_def)
next
  case (Inr r)
  obtain ip port where r: "r = (ip, port)" by (cases r)
  obtain services pods where res: "(if [] \<noteq> al_ClusterName kaNwLog then
        (case res (al_ClusterName kaNwLog) of None \<Rightarrow> ([], []) | Some (_, services, _, pods) \<Rightarrow> (services, pods))
      else ([], [])) = (services, pods)" by fastforce
  obtain destPod labels ns where dest: "ExtractPodSvcInfoFromIP ip (al_ClusterName kaNwLog) pods services = (destPod, labels, ns)"
    by (rule prod_cases3)
  have "\<not> isl (ka_tcp res kaNwLog log)"
    unfolding ka_tcp_def Let_def Inr r go_bind.simps prod.case res dest
    using ExtractPodSvcInfoFromIP_name [OF dest] by (cases "ip = destPod") auto
  then show ?thesis
    using Inr isl_addresses [of "([], [])" "Split (al_Resource kaNwLog) (CHR '' '')"] by simp
qed

text \<open>The conversion of a log of KubeArmor panics exactly when a word of its resource names the remote address or a port (for a
  bind, the port) and has no equals sign; the lookup of the address never panics.\<close>

lemma ConvertKubeArmorNetLogToKnoxNetLog_panics_iff:
  "isl (ConvertKubeArmorNetLogToKnoxNetLog GetAllClusterResources kaNwLog) \<longleftrightarrow>
     (if Contains (al_Data kaNwLog) ''tcp_'' then
        list_ex (no_value [''remoteip'', ''port'']) (Split (al_Resource kaNwLog) (CHR '' ''))
      else Contains (al_Data kaNwLog) ''SYS_BIND'' \<and>
        list_ex (no_value [''sin_port'']) (Split (al_Resource kaNwLog) (CHR '' '')))"
proof -
  have rest: "isl (go_bind m (\<lambda>r. case r of Inl err \<Rightarrow> Inr (Inl err)
          | Inr log \<Rightarrow>
              (let log = log\<lparr>nl_Action := if al_Result kaNwLog \<noteq> ''Passed'' then ''Deny'' else ''Allow''\<rparr>
               in if nl_Protocol log = 0 \<and> nl_DstPort log = 0 \<and> length (nl_DstReservedLabels log) = 0
                  then Inr (Inl InvalidLog) else Inr (Inr log)))) \<longleftrightarrow> isl m" for m :: "go_panic + string + KnoxNetworkLog"
    by (rule isl_go_bind_total) (simp add: Let_def split: sum.split)
  have bind: "isl (go_bind (foldM bind_port [] ws) (\<lambda>port. Inr (Inr (f port)))) \<longleftrightarrow> list_ex (no_value [''sin_port'']) ws"
    for ws and f :: "string \<Rightarrow> KnoxNetworkLog"
    by (subst isl_go_bind_total) (simp_all add: isl_foldM [OF isl_bind_port])
  show ?thesis
    unfolding ConvertKubeArmorNetLogToKnoxNetLog_def rest [unfolded Let_def] Let_def
    by (simp add: isl_ka_tcp bind)
qed

section \<open>Lost logs\<close>

text \<open>Logs that come from Hubble or from the message queue are lost: \<^verbatim>\<open>getNetworkLogs\<close> empties the buffer, converts the flows
  and gives the map of logs, to which it has added none of them.\<close>

lemma getNetworkLogs_loses_flows:
  assumes "nsc_LogFrom cfg = ''hubble'' \<or> nsc_LogFrom cfg = ''feed-consumer''"
    and "getNetworkLogs url_path GetAllClusterResources flows_of_file pods cfg st = Inr (r, st')"
  shows "src_LogMap st' = src_LogMap st \<and> (r = None \<or> r = Some (src_LogMap st)) \<and>
    (r \<noteq> None \<longrightarrow> (if nsc_LogFrom cfg = ''hubble'' then src_Flows st' = [] else src_FlowsFC st' = []))"
  using assms
  by (auto simp: getNetworkLogs_def GetCiliumFlowsFromHubble_def GetCiliumFlowsFromFeedConsumer_def Let_def go_bind_Inr_iff
      split: if_splits)

end
