(* ===== verification/PolicyYamls.thy ===== *)
theory PolicyYamls
  imports PolicyTables PolicyStore KubeArmor
begin

text \<open>
  \<^verbatim>\<open>libs/dbHandler.go\<close>, \<^verbatim>\<open>libs/mysqlHandler.go\<close> and \<^verbatim>\<open>libs/sqliteHandler.go\<close>: the table of the policies that
  are handed out, as text. The two drivers count the rows that an update has affected in their own way:
  SQLite counts the rows that it finds, MySQL, as it is connected to here, only those that it changes. The time is the second of the call,
  the name of the cluster that of the configuration.
\<close>

section \<open>Table\<close>

record YamlRow =
  yr_type :: string
  yr_kind :: string
  yr_cluster_name :: string
  yr_namespace :: string
  yr_labels :: string
  yr_policy_name :: string
  yr_policy_yaml :: string
  yr_updated_time :: int
  yr_workspace_id :: int
  yr_cluster_id :: int

definition yaml_column :: "YamlRow \<Rightarrow> string \<Rightarrow> string" where
  "yaml_column r c =
     (if c = ''type'' then yr_type r else if c = ''kind'' then yr_kind r
      else if c = ''cluster_name'' then yr_cluster_name r else if c = ''namespace'' then yr_namespace r
      else if c = ''labels'' then yr_labels r else if c = ''policy_name'' then yr_policy_name r
      else yr_policy_yaml r)"

text \<open>A column of type text has 65535 bytes.\<close>

definition CreatePolicyTableMySQL :: "(string \<times> nat) list" where
  "CreatePolicyTableMySQL = [(''type'', 50), (''kind'', 50), (''cluster_name'', 50), (''namespace'', 50), (''labels'', 65535),
     (''policy_name'', 150), (''policy_yaml'', 65535)]"

definition yaml_policy_of :: "YamlRow \<Rightarrow> PolicyYaml" where
  "yaml_policy_of r = \<lparr>py_Type = yr_type r, py_Kind = yr_kind r, py_Name = yr_policy_name r, py_Namespace = yr_namespace r,
     py_Cluster = yr_cluster_name r, py_ClusterId = yr_cluster_id r, py_WorkspaceId = yr_workspace_id r,
     py_Labels = LabelMapFromString (yr_labels r), py_Yaml = yr_policy_yaml r\<rparr>"

definition GetPolicyYamlsMySQL :: "string \<Rightarrow> PolicyFilter \<Rightarrow> YamlRow list \<Rightarrow> PolicyYaml list" where
  "GetPolicyYamlsMySQL policyType filterOptions rows =
     (let whereClause = concatWhereClause [] ''type'' policyType;
          whereClause = (if pf_Namespace filterOptions \<noteq> []
            then concatWhereClause whereClause ''namespace'' (pf_Namespace filterOptions) else whereClause);
          whereClause = (if pf_Cluster filterOptions \<noteq> []
            then concatWhereClause whereClause ''cluster_name'' (pf_Cluster filterOptions) else whereClause);
          labels = LabelMapToString (pf_Labels filterOptions);
          whereClause = (if labels \<noteq> [] then concatWhereClause whereClause ''labels'' labels else whereClause)
      in map yaml_policy_of (filter (\<lambda>r. selected whereClause (yaml_column r)) rows))"

definition GetPolicyYamlsSQLite :: "string \<Rightarrow> PolicyFilter \<Rightarrow> YamlRow list \<Rightarrow> PolicyYaml list" where
  "GetPolicyYamlsSQLite policyType filterOptions rows =
     (let whereClause = concatWhereClause [] ''type'' policyType;
          whereClause = (if pf_Namespace filterOptions \<noteq> []
            then concatWhereClause whereClause ''namespace'' (pf_Namespace filterOptions) else whereClause);
          whereClause = (if pf_Cluster filterOptions \<noteq> []
            then concatWhereClause whereClause ''cluster_name'' (pf_Cluster filterOptions) else whereClause);
          labels = LabelMapToString (pf_Labels filterOptions);
          whereClause = (if labels \<noteq> [] then concatWhereClause whereClause ''labels'' labels else whereClause)
      in map yaml_policy_of (filter (\<lambda>r. selected whereClause (yaml_column r)) rows))"

definition GetPolicyYamls :: "string \<Rightarrow> string \<Rightarrow> PolicyFilter \<Rightarrow> YamlRow list \<Rightarrow> PolicyYaml list" where
  "GetPolicyYamls DBDriver policyType filterOptions rows =
     (if DBDriver = ''mysql'' then GetPolicyYamlsMySQL policyType filterOptions rows
      else if DBDriver = ''sqlite3'' then GetPolicyYamlsSQLite policyType filterOptions rows
      else [])"

definition yaml_row :: "string \<Rightarrow> int \<Rightarrow> PolicyYaml \<Rightarrow> YamlRow" where
  "yaml_row clusterName now policy = \<lparr>yr_type = py_Type policy, yr_kind = py_Kind policy, yr_cluster_name = clusterName,
     yr_namespace = py_Namespace policy, yr_labels = LabelMapToString (py_Labels policy), yr_policy_name = py_Name policy,
     yr_policy_yaml = py_Yaml policy, yr_updated_time = now, yr_workspace_id = py_WorkspaceId policy,
     yr_cluster_id = py_ClusterId policy\<rparr>"

definition update_yaml_row :: "int \<Rightarrow> PolicyYaml \<Rightarrow> YamlRow \<Rightarrow> YamlRow" where
  "update_yaml_row now policy r =
     (if yr_policy_name r = py_Name policy then r\<lparr>yr_policy_yaml := py_Yaml policy, yr_updated_time := now\<rparr> else r)"

text \<open>The error of the insertion is logged only.\<close>

definition updateOrInsertPolicyYamlMySQL ::
  "string \<Rightarrow> int \<Rightarrow> PolicyYaml \<Rightarrow> YamlRow list \<Rightarrow> string option \<times> YamlRow list" where
  "updateOrInsertPolicyYamlMySQL clusterName now policy rows =
     (if list_ex (\<lambda>r. yr_policy_name r = py_Name policy) rows \<and> length (py_Yaml policy) > 65535 then (Some DataTooLong, rows)
      else
        (let rows' = map (update_yaml_row now policy) rows;
             rowsAffected = length (filter (\<lambda>r. update_yaml_row now policy r \<noteq> r) rows);
             row = yaml_row clusterName now policy
         in if rowsAffected = 0 \<and> fits CreatePolicyTableMySQL (yaml_column row) then (None, rows' @ [row])
            else (None, rows')))"

definition updateOrInsertPolicyYamlSQLite ::
  "string \<Rightarrow> int \<Rightarrow> PolicyYaml \<Rightarrow> YamlRow list \<Rightarrow> string option \<times> YamlRow list" where
  "updateOrInsertPolicyYamlSQLite clusterName now policy rows =
     (let rows' = map (update_yaml_row now policy) rows;
          rowsAffected = length (filter (\<lambda>r. yr_policy_name r = py_Name policy) rows)
      in if rowsAffected = 0 then (None, rows' @ [yaml_row clusterName now policy]) else (None, rows'))"

definition UpdateOrInsertPolicyYamlsMySQL :: "string \<Rightarrow> int \<Rightarrow> PolicyYaml list \<Rightarrow> YamlRow list \<Rightarrow> YamlRow list" where
  "UpdateOrInsertPolicyYamlsMySQL clusterName now policies rows =
     fold (\<lambda>pol rows. snd (updateOrInsertPolicyYamlMySQL clusterName now pol rows)) policies rows"

definition UpdateOrInsertPolicyYamlsSQLite :: "string \<Rightarrow> int \<Rightarrow> PolicyYaml list \<Rightarrow> YamlRow list \<Rightarrow> YamlRow list" where
  "UpdateOrInsertPolicyYamlsSQLite clusterName now policies rows =
     fold (\<lambda>pol rows. snd (updateOrInsertPolicyYamlSQLite clusterName now pol rows)) policies rows"

definition UnknownDriver :: string where "UnknownDriver = ''unknown db driver''"

definition UpdateOrInsertPolicyYamls ::
  "string \<Rightarrow> string \<Rightarrow> int \<Rightarrow> PolicyYaml list \<Rightarrow> YamlRow list \<Rightarrow> string option \<times> YamlRow list" where
  "UpdateOrInsertPolicyYamls DBDriver clusterName now policies rows =
     (if DBDriver = ''mysql'' then (None, UpdateOrInsertPolicyYamlsMySQL clusterName now policies rows)
      else if DBDriver = ''sqlite3'' then (None, UpdateOrInsertPolicyYamlsSQLite clusterName now policies rows)
      else (Some UnknownDriver, rows))"

definition DeletePolicyBasedOnPolicyNameMySQL :: "string \<Rightarrow> string \<Rightarrow> string \<Rightarrow> YamlRow list \<Rightarrow> YamlRow list" where
  "DeletePolicyBasedOnPolicyNameMySQL policyName namespace labels rows =
     filter (\<lambda>r. \<not> (yr_policy_name r = policyName \<and> yr_namespace r = namespace \<and> yr_labels r = labels)) rows"

definition DeletePolicyBasedOnPolicyNameSQLite :: "string \<Rightarrow> string \<Rightarrow> string \<Rightarrow> YamlRow list \<Rightarrow> YamlRow list" where
  "DeletePolicyBasedOnPolicyNameSQLite policyName namespace labels rows =
     filter (\<lambda>r. \<not> (yr_policy_name r = policyName \<and> yr_namespace r = namespace \<and> yr_labels r = labels)) rows"

definition DeletePolicyBasedOnPolicyName ::
  "string \<Rightarrow> string \<Rightarrow> string \<Rightarrow> string \<Rightarrow> YamlRow list \<Rightarrow> string option \<times> YamlRow list" where
  "DeletePolicyBasedOnPolicyName DBDriver policyName namespace labels rows =
     (if DBDriver = ''mysql'' then (None, DeletePolicyBasedOnPolicyNameMySQL policyName namespace labels rows)
      else if DBDriver = ''sqlite3'' then (None, DeletePolicyBasedOnPolicyNameSQLite policyName namespace labels rows)
      else (Some UnknownDriver, rows))"

section \<open>Policies for the table\<close>

text \<open>\<^verbatim>\<open>InsertSysPoliciesYamlToDB\<close> of \<^verbatim>\<open>systempolicy/systemPolicy.go\<close>: the policies whose text could be made, in order. The JSON
  and YAML libraries are the parameter \<^verbatim>\<open>marshal\<close>. The texts are published one by one before all are stored.\<close>

record YamlConfig =
  yc_ClusterName :: string
  yc_WorkspaceId :: int
  yc_ClusterId :: int

definition sys_policy_yaml :: "YamlConfig \<Rightarrow> (KubeArmorPolicy \<Rightarrow> string option) \<Rightarrow> KubeArmorPolicy \<Rightarrow> PolicyYaml option" where
  "sys_policy_yaml cfg marshal kubearmorPolicy =
     (let kubearmorPolicy = kubearmorPolicy\<lparr>kap_Spec := (kap_Spec kubearmorPolicy)\<lparr>ss_Network := \<lparr>nr_MatchProtocols = []\<rparr>\<rparr>\<rparr>
      in map_option (\<lambda>text. \<lparr>py_Type = PolicyTypeSystem, py_Kind = kap_Kind kubearmorPolicy,
           py_Name = om_Name (kap_Metadata kubearmorPolicy), py_Namespace = om_Namespace (kap_Metadata kubearmorPolicy),
           py_Cluster = yc_ClusterName cfg, py_ClusterId = yc_ClusterId cfg, py_WorkspaceId = yc_WorkspaceId cfg,
           py_Labels = sel_MatchLabels (ss_Selector (kap_Spec kubearmorPolicy)), py_Yaml = text\<rparr>) (marshal kubearmorPolicy))"

definition InsertSysPoliciesYamlToDB ::
  "string \<Rightarrow> YamlConfig \<Rightarrow> int \<Rightarrow> (KubeArmorPolicy \<Rightarrow> string option) \<Rightarrow> KnoxSystemPolicy list \<Rightarrow> YamlRow list \<Rightarrow>
   PolicyYaml list \<times> YamlRow list" where
  "InsertSysPoliciesYamlToDB DBDriver cfg now marshal policies rows =
     (let res = List.map_filter (sys_policy_yaml cfg marshal) (ConvertKnoxSystemPolicyToKubeArmorPolicy policies)
      in (res, snd (UpdateOrInsertPolicyYamls DBDriver (yc_ClusterName cfg) now res rows)))"

section \<open>The table as a map\<close>

definition yaml_table :: "YamlRow list \<Rightarrow> string \<rightharpoonup> YamlRow" where
  "yaml_table rows = map_of (map (\<lambda>r. (yr_policy_name r, r)) rows)"

text \<open>What a write means: a new policy gets its row, of a known name only the text and the time change.\<close>

definition upsert_yaml :: "string \<Rightarrow> int \<Rightarrow> PolicyYaml \<Rightarrow> (string \<rightharpoonup> YamlRow) \<Rightarrow> (string \<rightharpoonup> YamlRow)" where
  "upsert_yaml clusterName now policy m =
     m(py_Name policy \<mapsto> (case m (py_Name policy) of None \<Rightarrow> yaml_row clusterName now policy
       | Some r \<Rightarrow> r\<lparr>yr_policy_yaml := py_Yaml policy, yr_updated_time := now\<rparr>))"

lemma yaml_table_simps [simp]:
  "yaml_table [] = Map.empty"
  "yaml_table (r # rows) = (yaml_table rows)(yr_policy_name r \<mapsto> r)"
  by (simp_all add: yaml_table_def)

lemma update_yaml_row_name [simp]: "yr_policy_name (update_yaml_row now policy r) = yr_policy_name r"
  by (simp add: update_yaml_row_def)

lemma yaml_row_name [simp]: "yr_policy_name (yaml_row clusterName now policy) = py_Name policy"
  by (simp add: yaml_row_def)

lemma yaml_table_None: "yaml_table rows n = None \<longleftrightarrow> n \<notin> yr_policy_name ` set rows"
  by (induction rows) auto

lemma yaml_table_update:
  "yaml_table (map (update_yaml_row now policy) rows) = (\<lambda>n. map_option (update_yaml_row now policy) (yaml_table rows n))"
  by (induction rows) auto

lemma yaml_table_name: "yaml_table rows n = Some r \<Longrightarrow> yr_policy_name r = n"
  by (induction rows) (auto split: if_splits)

lemma yaml_table_append: "yaml_table (rows @ [r]) = (\<lambda>n. case yaml_table rows n of None \<Rightarrow> if n = yr_policy_name r then Some r else None | Some x \<Rightarrow> Some x)"
  by (induction rows) (auto simp: fun_eq_iff)

lemma updateOrInsertPolicyYamlSQLite_table:
  assumes "distinct (map yr_policy_name rows)"
  shows "distinct (map yr_policy_name (snd (updateOrInsertPolicyYamlSQLite clusterName now policy rows))) \<and>
    yaml_table (snd (updateOrInsertPolicyYamlSQLite clusterName now policy rows)) = upsert_yaml clusterName now policy (yaml_table rows)"
proof (cases "py_Name policy \<in> yr_policy_name ` set rows")
  case True
  then have "filter (\<lambda>r. yr_policy_name r = py_Name policy) rows \<noteq> []" by (auto simp: filter_empty_conv)
  moreover obtain r where r: "yaml_table rows (py_Name policy) = Some r"
    using True yaml_table_None [of rows "py_Name policy"] by auto
  moreover have "map yr_policy_name (map (update_yaml_row now policy) rows) = map yr_policy_name rows" by simp
  moreover have "yaml_table (map (update_yaml_row now policy) rows) = upsert_yaml clusterName now policy (yaml_table rows)"
  proof
    fix n
    show "yaml_table (map (update_yaml_row now policy) rows) n = upsert_yaml clusterName now policy (yaml_table rows) n"
      using r by (cases "yaml_table rows n")
        (auto simp: yaml_table_update upsert_yaml_def update_yaml_row_def dest: yaml_table_name)
  qed
  ultimately show ?thesis using assms by (simp add: updateOrInsertPolicyYamlSQLite_def Let_def del: map_map)
next
  case False
  then have other: "yr_policy_name r \<noteq> py_Name policy" if "r \<in> set rows" for r using that by (metis imageI)
  then have empty: "filter (\<lambda>r. yr_policy_name r = py_Name policy) rows = []" by (simp add: filter_empty_conv)
  have same: "map (update_yaml_row now policy) rows = rows"
    using other by (intro map_idI) (simp add: update_yaml_row_def)
  have "yaml_table rows (py_Name policy) = None" using False by (simp add: yaml_table_None)
  then have "yaml_table (rows @ [yaml_row clusterName now policy]) = upsert_yaml clusterName now policy (yaml_table rows)"
    by (auto simp: yaml_table_append upsert_yaml_def fun_eq_iff split: option.splits)
  then show ?thesis using assms False by (simp add: updateOrInsertPolicyYamlSQLite_def Let_def empty same)
qed

text \<open>The update of MySQL is that of SQLite if every row it finds is older than the second of the call.\<close>

definition fits_yaml :: "PolicyYaml \<Rightarrow> bool" where
  "fits_yaml p \<longleftrightarrow> fits CreatePolicyTableMySQL (yaml_column (yaml_row [] 0 p))"

lemma fits_yaml_row [simp]:
  "fits CreatePolicyTableMySQL (yaml_column (yaml_row clusterName now p)) \<longleftrightarrow> fits_yaml p \<and> length clusterName \<le> 50"
  by (auto simp: fits_yaml_def fits_def CreatePolicyTableMySQL_def yaml_column_def yaml_row_def)

lemma updateOrInsertPolicyYaml_agree:
  assumes "fits_yaml policy" and "length clusterName \<le> 50"
    and "\<forall>r \<in> set rows. yr_policy_name r = py_Name policy \<longrightarrow> yr_updated_time r \<noteq> now"
  shows "updateOrInsertPolicyYamlMySQL clusterName now policy rows = updateOrInsertPolicyYamlSQLite clusterName now policy rows"
proof -
  have "update_yaml_row now policy r \<noteq> r \<longleftrightarrow> yr_policy_name r = py_Name policy" if "r \<in> set rows" for r
    using assms(3) that by (cases r) (auto simp: update_yaml_row_def)
  then have "filter (\<lambda>r. update_yaml_row now policy r \<noteq> r) rows = filter (\<lambda>r. yr_policy_name r = py_Name policy) rows"
    by (intro filter_cong) auto
  moreover have "\<not> length (py_Yaml policy) > 65535"
    using assms(1) by (simp add: fits_yaml_def fits_def CreatePolicyTableMySQL_def yaml_column_def yaml_row_def)
  ultimately show ?thesis using assms(1,2)
    by (simp add: updateOrInsertPolicyYamlMySQL_def updateOrInsertPolicyYamlSQLite_def Let_def)
qed

lemma updateOrInsertPolicyYamlSQLite_other:
  assumes "r \<in> set (snd (updateOrInsertPolicyYamlSQLite clusterName now policy rows))" and "yr_policy_name r \<noteq> py_Name policy"
  shows "r \<in> set rows"
  using assms by (auto simp: updateOrInsertPolicyYamlSQLite_def Let_def update_yaml_row_def split: if_splits)

lemma updateOrInsertPolicyYamls_agree:
  assumes "distinct (map py_Name policies)" and "\<forall>p \<in> set policies. fits_yaml p" and "length clusterName \<le> 50"
    and "\<forall>r \<in> set rows. yr_policy_name r \<in> py_Name ` set policies \<longrightarrow> yr_updated_time r \<noteq> now"
  shows "UpdateOrInsertPolicyYamlsMySQL clusterName now policies rows = UpdateOrInsertPolicyYamlsSQLite clusterName now policies rows"
  unfolding UpdateOrInsertPolicyYamlsMySQL_def UpdateOrInsertPolicyYamlsSQLite_def
  using assms
proof (induction policies arbitrary: rows)
  case (Cons p ps)
  let ?rows = "snd (updateOrInsertPolicyYamlSQLite clusterName now p rows)"
  have "\<forall>r \<in> set ?rows. yr_policy_name r \<in> py_Name ` set ps \<longrightarrow> yr_updated_time r \<noteq> now"
  proof (intro ballI impI)
    fix r assume r: "r \<in> set ?rows" "yr_policy_name r \<in> py_Name ` set ps"
    then have "yr_policy_name r \<noteq> py_Name p" using Cons.prems(1) by auto
    with r(1) have "r \<in> set rows" by (rule updateOrInsertPolicyYamlSQLite_other)
    then show "yr_updated_time r \<noteq> now" using r(2) Cons.prems(4) by auto
  qed
  then show ?case using Cons updateOrInsertPolicyYaml_agree [of p clusterName rows now] by auto
qed simp

section \<open>Properties\<close>

text \<open>C33: The table of texts is a map from names, and a write of policies with SQLite is the write of each of them to this map, in order: a
  new policy gets a row, and of a name that is stored only the text and the time change. No name has two rows afterwards if none had
  before.\<close>

theorem UpdateOrInsertPolicyYamls_upserts:
  assumes "distinct (map yr_policy_name rows)"
  shows "\<exists>rows'. UpdateOrInsertPolicyYamls ''sqlite3'' clusterName now policies rows = (None, rows') \<and>
    distinct (map yr_policy_name rows') \<and>
    yaml_table rows' = fold (upsert_yaml clusterName now) policies (yaml_table rows)"
proof -
  have "distinct (map yr_policy_name (UpdateOrInsertPolicyYamlsSQLite clusterName now policies rows)) \<and>
      yaml_table (UpdateOrInsertPolicyYamlsSQLite clusterName now policies rows) =
        fold (upsert_yaml clusterName now) policies (yaml_table rows)"
    using assms unfolding UpdateOrInsertPolicyYamlsSQLite_def
    by (induction policies arbitrary: rows) (simp_all add: updateOrInsertPolicyYamlSQLite_table)
  then show ?thesis by (simp add: UpdateOrInsertPolicyYamls_def)
qed

definition demo_yaml :: "string \<Rightarrow> string \<Rightarrow> PolicyYaml" where
  "demo_yaml name text = \<lparr>py_Type = PolicyTypeSystem, py_Kind = ''KubeArmorPolicy'', py_Name = name, py_Namespace = ''ns'',
     py_Cluster = ''c'', py_ClusterId = 1, py_WorkspaceId = 2, py_Labels = fmupd ''app'' ''web'' fmempty, py_Yaml = text\<rparr>"

theorem UpdateOrInsertPolicyYamls_upserts_witness:
  "map_option yr_policy_yaml (yaml_table (snd (UpdateOrInsertPolicyYamls ''sqlite3'' ''c'' 7
     [demo_yaml ''a'' ''new'', demo_yaml ''b'' ''other''] [yaml_row ''c'' 3 (demo_yaml ''a'' ''old'')])) ''a'') = Some ''new''"
proof -
  have "distinct (map yr_policy_name [yaml_row ''c'' 3 (demo_yaml ''a'' ''old'')])" by simp
  from UpdateOrInsertPolicyYamls_upserts [OF this, of "''c''" 7 "[demo_yaml ''a'' ''new'', demo_yaml ''b'' ''other'']"]
  show ?thesis by (auto simp: upsert_yaml_def demo_yaml_def)
qed

text \<open>The two drivers store the same rows, if the policies have different names and fit their columns and no
  row of these names was written in the second of the call.\<close>

theorem UpdateOrInsertPolicyYamls_drivers_agree:
  assumes "distinct (map py_Name policies)" and "list_all fits_yaml policies" and "length clusterName \<le> 50"
    and "list_all (\<lambda>r. yr_updated_time r < now) rows"
  shows "UpdateOrInsertPolicyYamls ''mysql'' clusterName now policies rows =
    UpdateOrInsertPolicyYamls ''sqlite3'' clusterName now policies rows"
proof -
  have "\<forall>p \<in> set policies. fits_yaml p" "\<forall>r \<in> set rows. yr_policy_name r \<in> py_Name ` set policies \<longrightarrow> yr_updated_time r \<noteq> now"
    using assms(2,4) by (auto simp: list_all_iff)
  then show ?thesis using assms(1,3)
    by (simp add: UpdateOrInsertPolicyYamls_def updateOrInsertPolicyYamls_agree)
qed

theorem UpdateOrInsertPolicyYamls_drivers_agree_witness:
  "map yr_policy_yaml (snd (UpdateOrInsertPolicyYamls ''mysql'' ''c'' 7 [demo_yaml ''a'' ''new''] [yaml_row ''c'' 3 (demo_yaml ''a'' ''old'')])) =
     [''new'']"
proof -
  have "LabelMapToString (fmupd ''app'' ''web'' fmempty) = ''app=web''" by code_simp
  then have "list_all fits_yaml [demo_yaml ''a'' ''new'']"
    by (simp add: fits_yaml_def fits_def CreatePolicyTableMySQL_def yaml_column_def yaml_row_def demo_yaml_def PolicyTypeSystem_def)
  then have "distinct (map py_Name [demo_yaml ''a'' ''new''])" "list_all fits_yaml [demo_yaml ''a'' ''new'']"
    "length ''c'' \<le> 50" "list_all (\<lambda>r. yr_updated_time r < 7) [yaml_row ''c'' 3 (demo_yaml ''a'' ''old'')]"
    by (simp_all add: yaml_row_def)
  note agree = UpdateOrInsertPolicyYamls_drivers_agree [OF this]
  show ?thesis unfolding agree by code_simp
qed

text \<open>In the same second MySQL has changed no row, and the policy is stored a second time.\<close>

lemma MySQL_duplicates_a_policy:
  assumes "fits_yaml policy" and "length clusterName \<le> 50"
  shows "map yr_policy_name (snd (UpdateOrInsertPolicyYamls ''mysql'' clusterName now [policy, policy] [])) =
    [py_Name policy, py_Name policy]"
proof -
  have same: "update_yaml_row now policy (yaml_row clusterName now policy) = yaml_row clusterName now policy"
    by (simp add: update_yaml_row_def yaml_row_def)
  have short: "\<not> length (py_Yaml policy) > 65535"
    using assms(1) by (simp add: fits_yaml_def fits_def CreatePolicyTableMySQL_def yaml_column_def yaml_row_def)
  have "updateOrInsertPolicyYamlMySQL clusterName now policy [] = (None, [yaml_row clusterName now policy])"
    "updateOrInsertPolicyYamlMySQL clusterName now policy [yaml_row clusterName now policy] =
      (None, [yaml_row clusterName now policy, yaml_row clusterName now policy])"
    using assms short by (simp_all add: updateOrInsertPolicyYamlMySQL_def Let_def same)
  then show ?thesis by (simp add: UpdateOrInsertPolicyYamls_def UpdateOrInsertPolicyYamlsMySQL_def)
qed

text \<open>A policy whose name is stored under another type keeps that type: nobody who asks for its own type finds it.\<close>

lemma stored_type_is_kept:
  assumes "yr_policy_name r = py_Name policy"
  shows "map yr_type (snd (UpdateOrInsertPolicyYamls ''sqlite3'' clusterName now [policy] [r])) = [yr_type r]"
  using assms by (simp add: UpdateOrInsertPolicyYamls_def UpdateOrInsertPolicyYamlsSQLite_def
      updateOrInsertPolicyYamlSQLite_def Let_def update_yaml_row_def)

section \<open>Published and stored\<close>

lemma SQLite_fresh_rows:
  assumes "distinct (map py_Name policies)" and "\<forall>p \<in> set policies. py_Name p \<notin> yr_policy_name ` set rows"
  shows "UpdateOrInsertPolicyYamlsSQLite clusterName now policies rows = rows @ map (yaml_row clusterName now) policies"
  using assms unfolding UpdateOrInsertPolicyYamlsSQLite_def
proof (induction policies arbitrary: rows)
  case (Cons p ps)
  have "filter (\<lambda>r. yr_policy_name r = py_Name p) rows = []"
    using Cons.prems(2) by (auto simp: filter_empty_conv image_iff)
  moreover have "map (update_yaml_row now p) rows = rows"
    using Cons.prems(2) by (intro map_idI) (auto simp: update_yaml_row_def image_iff)
  ultimately have "snd (updateOrInsertPolicyYamlSQLite clusterName now p rows) = rows @ [yaml_row clusterName now p]"
    by (simp add: updateOrInsertPolicyYamlSQLite_def Let_def)
  moreover have "\<forall>q \<in> set ps. py_Name q \<notin> yr_policy_name ` set (rows @ [yaml_row clusterName now p])"
    using Cons.prems by (auto simp: image_iff)
  ultimately show ?case using Cons.IH [of "rows @ [yaml_row clusterName now p]"] Cons.prems(1) by simp
qed simp

lemma yaml_policy_of_row:
  "plain_labels (py_Labels p) \<Longrightarrow> py_Cluster p = clusterName \<Longrightarrow> yaml_policy_of (yaml_row clusterName now p) = p"
  by (simp add: yaml_policy_of_def yaml_row_def LabelMap_string_inverse)

definition no_filter :: PolicyFilter where
  "no_filter = \<lparr>pf_Cluster = [], pf_Namespace = [], pf_Labels = fmempty\<rparr>"

lemma GetPolicyYamls_no_filter:
  "GetPolicyYamls ''sqlite3'' ty no_filter rows = map yaml_policy_of (filter (\<lambda>r. yr_type r = ty) rows)"
proof -
  have "LabelMapToString fmempty = []" by code_simp
  then show ?thesis
    by (simp add: GetPolicyYamls_def GetPolicyYamlsSQLite_def no_filter_def concatWhereClause_def selected_def yaml_column_def)
qed

lemma sys_policy_yaml_fields:
  assumes "sys_policy_yaml cfg marshal k = Some p"
  shows "py_Type p = PolicyTypeSystem" "py_Cluster p = yc_ClusterName cfg"
    "py_Labels p = sel_MatchLabels (ss_Selector (kap_Spec k))"
  using assms by (auto simp: sys_policy_yaml_def Let_def)

text \<open>What is published of a batch of system policies is what can be read back: if their names are new and different and their
  labels have none of the separators, a query of the table without a filter finds, after what it found before, exactly the
  published policies, with their labels and texts, in order.\<close>

theorem InsertSysPoliciesYamlToDB_roundtrip:
  assumes "InsertSysPoliciesYamlToDB ''sqlite3'' cfg now marshal policies rows = (res, rows')"
    and "distinct (map py_Name res)" and "list_all (\<lambda>p. \<not> list_ex (\<lambda>r. yr_policy_name r = py_Name p) rows) res"
    and "list_all (\<lambda>p. plain_labels (py_Labels p)) res"
  shows "GetPolicyYamls ''sqlite3'' PolicyTypeSystem no_filter rows' =
    GetPolicyYamls ''sqlite3'' PolicyTypeSystem no_filter rows @ res"
proof -
  have res: "res = List.map_filter (sys_policy_yaml cfg marshal) (ConvertKnoxSystemPolicyToKubeArmorPolicy policies)"
    "rows' = UpdateOrInsertPolicyYamlsSQLite (yc_ClusterName cfg) now res rows"
    using assms(1) by (auto simp: InsertSysPoliciesYamlToDB_def UpdateOrInsertPolicyYamls_def Let_def)
  have "\<forall>p \<in> set res. py_Name p \<notin> yr_policy_name ` set rows"
    using assms(3) unfolding list_all_iff list_ex_iff by fastforce
  from SQLite_fresh_rows [OF assms(2) this] res(2)
  have rows: "rows' = rows @ map (yaml_row (yc_ClusterName cfg) now) res" by simp
  have fields: "py_Type p = PolicyTypeSystem \<and> py_Cluster p = yc_ClusterName cfg" if "p \<in> set res" for p
    using that sys_policy_yaml_fields(1,2) unfolding res(1) by (auto simp: List.map_filter_def)
  have "filter (\<lambda>r. yr_type r = PolicyTypeSystem) (map (yaml_row (yc_ClusterName cfg) now) res) =
      map (yaml_row (yc_ClusterName cfg) now) res"
    using fields by (simp add: filter_id_conv yaml_row_def)
  moreover have "map yaml_policy_of (map (yaml_row (yc_ClusterName cfg) now) res) = res"
    using fields assms(4) by (simp add: list_all_iff map_idI yaml_policy_of_row)
  ultimately show ?thesis by (simp add: GetPolicyYamls_no_filter rows)
qed

definition demo_sys_policy :: KnoxSystemPolicy where
  "demo_sys_policy = buildSystemPolicy\<lparr>sysp_Metadata := fmap_of_list [(''name'', ''p''), (''namespace'', ''ns'')]\<rparr>"

definition demo_written :: "PolicyYaml list \<times> YamlRow list" where
  "demo_written = InsertSysPoliciesYamlToDB ''sqlite3'' \<lparr>yc_ClusterName = ''c'', yc_WorkspaceId = 1, yc_ClusterId = 2\<rparr> 7
     (\<lambda>k. Some ''text'') [demo_sys_policy] []"

theorem InsertSysPoliciesYamlToDB_roundtrip_witness:
  "map py_Yaml (GetPolicyYamls ''sqlite3'' PolicyTypeSystem no_filter (snd demo_written)) = [''text'']"
proof -
  have ok: "distinct (map py_Name (fst demo_written))" "list_all (\<lambda>p. plain_labels (py_Labels p)) (fst demo_written)"
    "map py_Yaml (fst demo_written) = [''text'']" by code_simp+
  have "InsertSysPoliciesYamlToDB ''sqlite3'' \<lparr>yc_ClusterName = ''c'', yc_WorkspaceId = 1, yc_ClusterId = 2\<rparr> 7
      (\<lambda>k. Some ''text'') [demo_sys_policy] [] = (fst demo_written, snd demo_written)"
    by (simp add: demo_written_def)
  from InsertSysPoliciesYamlToDB_roundtrip [OF this ok(1) _ ok(2)] ok(3)
  show ?thesis by (simp add: GetPolicyYamls_no_filter list_all_iff)
qed

end
