(* ===== verification/K8sNetwork.thy ===== *)
theory K8sNetwork
  imports NetworkDiscovery GoNet
begin

text \<open>
  \<^verbatim>\<open>plugin/k8sNetwork.go\<close>: network policies in the format of Kubernetes. Of the types of
  \<^verbatim>\<open>k8s.io/api/networking/v1\<close> the records have the fields that the code sets. An egress and an ingress
  rule have the same two fields, the ports and the peers (\<^verbatim>\<open>To\<close> or \<^verbatim>\<open>From\<close>), and are one
  record here; a rule without peers is a rule for every peer.
\<close>

definition K8sNwPolicyAPIVersion :: string where "K8sNwPolicyAPIVersion = ''networking.k8s.io/v1''"
definition K8sNwPolicyKind :: string where "K8sNwPolicyKind = ''NetworkPolicy''"

record K8sPort =
  kp_Protocol :: "string option"
  kp_Port :: "int option"

record K8sRule =
  kr_Ports :: "K8sPort list"
  kr_Peers :: "LabelMap list"

record K8sNetworkPolicy =
  k8_APIVersion :: string
  k8_Kind :: string
  k8_Name :: string
  k8_Namespace :: string
  k8_PodSelector :: LabelMap
  k8_Egress :: "K8sRule list"
  k8_Ingress :: "K8sRule list"
  k8_PolicyTypes :: "string list"

section \<open>Conversion\<close>

text \<open>The protocols other than TCP and UDP stay empty.\<close>

definition k8s_protocol :: "SpecPort \<Rightarrow> string" where
  "k8s_protocol p = (if port_Protocol p = ''TCP'' then ''TCP'' else if port_Protocol p = ''UDP'' then ''UDP'' else [])"

text \<open>The body of both loops, \<^verbatim>\<open>None\<close> for \<^verbatim>\<open>continue\<close>.\<close>

definition convert_k8s_rule :: "SpecPort list \<Rightarrow> LabelMap option \<Rightarrow> go_panic + K8sRule option" where
  "convert_k8s_rule toPorts matchLabels =
     go_bind (index toPorts 0) (\<lambda>p.
       let protocol = k8s_protocol p;
           portVal = ParseInt 32 (port_Port p);
           port = \<lparr>kp_Protocol = (if protocol \<noteq> [] then Some protocol else None),
             kp_Port = (if portVal \<noteq> 0 then Some portVal else None)\<rparr>;
           peers = (case matchLabels of None \<Rightarrow> [] | Some m \<Rightarrow> if no_labels matchLabels then [] else [m])
       in if portVal = 0 \<and> protocol = [] then Inr None
          else Inr (Some \<lparr>kr_Ports = [port], kr_Peers = peers\<rparr>))"

definition convert_k8s_rules :: "('r \<Rightarrow> SpecPort list) \<Rightarrow> ('r \<Rightarrow> LabelMap option) \<Rightarrow> 'r list \<Rightarrow> go_panic + K8sRule list" where
  "convert_k8s_rules ports labels rules =
     foldM (\<lambda>acc r. go_bind (convert_k8s_rule (ports r) (labels r)) (\<lambda>k.
       Inr (case k of None \<Rightarrow> acc | Some rule \<Rightarrow> acc @ [rule]))) [] rules"

definition convert_k8s_policy :: "KnoxNetworkPolicy \<Rightarrow> go_panic + K8sNetworkPolicy" where
  "convert_k8s_policy knp =
     go_bind (convert_k8s_rules eg_ToPorts eg_MatchLabels (spec_Egress (np_Spec knp))) (\<lambda>egress.
     go_bind (convert_k8s_rules in_ToPorts in_MatchLabels (spec_Ingress (np_Spec knp))) (\<lambda>ingress.
       Inr \<lparr>k8_APIVersion = K8sNwPolicyAPIVersion, k8_Kind = K8sNwPolicyKind,
         k8_Name = np_meta knp ''name'', k8_Namespace = np_meta knp ''namespace'',
         k8_PodSelector = sel_MatchLabels (spec_Selector (np_Spec knp)), k8_Egress = egress, k8_Ingress = ingress,
         k8_PolicyTypes = (if length (spec_Egress (np_Spec knp)) > 0 then [''Egress''] else []) @
           (if length (spec_Ingress (np_Spec knp)) > 0 then [''Ingress''] else [])\<rparr>))"

definition ConvertKnoxNetPolicyToK8sNetworkPolicy ::
  "string \<Rightarrow> string \<Rightarrow> KnoxNetworkPolicy list \<Rightarrow> go_panic + K8sNetworkPolicy list" where
  "ConvertKnoxNetPolicyToK8sNetworkPolicy clustername namespace knoxNetPolicies =
     foldM (\<lambda>res knp. go_bind (convert_k8s_policy knp) (\<lambda>k. Inr (res @ [k]))) [] knoxNetPolicies"

section \<open>Loops that append\<close>

lemma foldM_append_panics:
  assumes "\<And>acc x. (\<exists>e. f acc x = Inl e) \<longleftrightarrow> bad x"
  shows "(\<exists>e. foldM f s xs = Inl e) \<longleftrightarrow> (\<exists>x \<in> set xs. bad x)"
proof (induction xs arbitrary: s)
  case (Cons x xs)
  show ?case
  proof (cases "f s x")
    case (Inl e)
    then show ?thesis using assms [of s x] by auto
  next
    case (Inr t)
    then have "\<not> bad x" using assms [of s x] by auto
    then show ?thesis using Inr Cons.IH [of t] by simp
  qed
qed simp

lemma foldM_collect:
  assumes "\<forall>x \<in> set xs. \<forall>acc. f acc x = Inr (acc @ g x)"
  shows "foldM f acc xs = Inr (acc @ concat (map g xs))"
  using assms by (induction xs arbitrary: acc) auto

lemma convert_k8s_rule_panics: "(\<exists>e. convert_k8s_rule ports labels = Inl e) \<longleftrightarrow> ports = []"
  by (cases ports) (auto simp: convert_k8s_rule_def Let_def)

lemma convert_k8s_rules_panics:
  "(\<exists>e. convert_k8s_rules ports labels rules = Inl e) \<longleftrightarrow> (\<exists>r \<in> set rules. ports r = [])"
  unfolding convert_k8s_rules_def
proof (rule foldM_append_panics)
  fix acc r
  show "(\<exists>e. go_bind (convert_k8s_rule (ports r) (labels r)) (\<lambda>k. Inr (case k of None \<Rightarrow> acc | Some rule \<Rightarrow> acc @ [rule])) =
      Inl e) = (ports r = [])"
    using convert_k8s_rule_panics [of "ports r" "labels r"]
    by (cases "convert_k8s_rule (ports r) (labels r)") auto
qed

section \<open>Properties\<close>

text \<open>The conversion panics exactly when some rule has no port, as every rule that discovery makes for ICMP.\<close>

theorem ConvertKnoxNetPolicyToK8sNetworkPolicy_panics_iff:
  "(\<exists>e. ConvertKnoxNetPolicyToK8sNetworkPolicy clustername namespace policies = Inl e) \<longleftrightarrow>
    (\<exists>p. p \<in> set policies \<and> ((\<exists>r. r \<in> set (spec_Egress (np_Spec p)) \<and> eg_ToPorts r = []) \<or>
      (\<exists>r. r \<in> set (spec_Ingress (np_Spec p)) \<and> in_ToPorts r = [])))"
proof -
  have one: "(\<exists>e. convert_k8s_policy p = Inl e) \<longleftrightarrow> (\<exists>r \<in> set (spec_Egress (np_Spec p)). eg_ToPorts r = []) \<or>
      (\<exists>r \<in> set (spec_Ingress (np_Spec p)). in_ToPorts r = [])" for p
    using convert_k8s_rules_panics [of eg_ToPorts eg_MatchLabels "spec_Egress (np_Spec p)"]
      convert_k8s_rules_panics [of in_ToPorts in_MatchLabels "spec_Ingress (np_Spec p)"]
    by (cases "convert_k8s_rules eg_ToPorts eg_MatchLabels (spec_Egress (np_Spec p))";
        cases "convert_k8s_rules in_ToPorts in_MatchLabels (spec_Ingress (np_Spec p))") (auto simp: convert_k8s_policy_def)
  have "(\<exists>e. go_bind (convert_k8s_policy p) (\<lambda>k. Inr (acc @ [k])) = Inl e) \<longleftrightarrow> (\<exists>e. convert_k8s_policy p = Inl e)"
    for p and acc :: "K8sNetworkPolicy list"
    by (cases "convert_k8s_policy p") auto
  from foldM_append_panics [where f = "\<lambda>res knp. go_bind (convert_k8s_policy knp) (\<lambda>k. Inr (res @ [k]))", OF this]
  show ?thesis unfolding ConvertKnoxNetPolicyToK8sNetworkPolicy_def one Bex_def .
qed

text \<open>A port as discovery writes it: a number of a port, and TCP or UDP.\<close>

definition plain_port :: "SpecPort list \<Rightarrow> bool" where
  "plain_port ps \<longleftrightarrow> ps \<noteq> [] \<and> (port_Protocol (hd ps) = ''TCP'' \<or> port_Protocol (hd ps) = ''UDP'') \<and>
     (let n = Atoi (port_Port (hd ps)) in 0 < n \<and> n \<le> 65535 \<and> port_Port (hd ps) = Itoa n)"

definition plain_policy :: "KnoxNetworkPolicy \<Rightarrow> bool" where
  "plain_policy p \<longleftrightarrow> list_all (\<lambda>r. plain_port (eg_ToPorts r)) (spec_Egress (np_Spec p)) \<and>
     list_all (\<lambda>r. plain_port (in_ToPorts r)) (spec_Ingress (np_Spec p))"

definition k8s_rule_spec :: "SpecPort list \<Rightarrow> LabelMap option \<Rightarrow> K8sRule" where
  "k8s_rule_spec ps labels =
     \<lparr>kr_Ports = [\<lparr>kp_Protocol = Some (port_Protocol (hd ps)), kp_Port = Some (Atoi (port_Port (hd ps)))\<rparr>],
      kr_Peers = (if no_labels labels then [] else [the labels])\<rparr>"

definition k8s_policy_spec :: "KnoxNetworkPolicy \<Rightarrow> K8sNetworkPolicy" where
  "k8s_policy_spec p = \<lparr>k8_APIVersion = ''networking.k8s.io/v1'', k8_Kind = ''NetworkPolicy'',
     k8_Name = np_meta p ''name'', k8_Namespace = np_meta p ''namespace'',
     k8_PodSelector = sel_MatchLabels (spec_Selector (np_Spec p)),
     k8_Egress = map (\<lambda>r. k8s_rule_spec (eg_ToPorts r) (eg_MatchLabels r)) (spec_Egress (np_Spec p)),
     k8_Ingress = map (\<lambda>r. k8s_rule_spec (in_ToPorts r) (in_MatchLabels r)) (spec_Ingress (np_Spec p)),
     k8_PolicyTypes = (if spec_Egress (np_Spec p) = [] then [] else [''Egress'']) @
       (if spec_Ingress (np_Spec p) = [] then [] else [''Ingress''])\<rparr>"

lemma convert_plain_rule:
  assumes "plain_port ps"
  shows "convert_k8s_rule ps labels = Inr (Some (k8s_rule_spec ps labels))"
proof -
  obtain p qs where ps: "ps = p # qs" using assms by (cases ps) (auto simp: plain_port_def)
  obtain n where n: "port_Port p = Itoa n" "0 < n" "n \<le> 65535" and proto: "port_Protocol p = ''TCP'' \<or> port_Protocol p = ''UDP''"
    using assms ps by (auto simp: plain_port_def Let_def)
  have val: "ParseInt 32 (Itoa n) = n" "Atoi (Itoa n) = n" using n by (simp_all add: Atoi_def ParseInt_Itoa)
  have "(case labels of None \<Rightarrow> [] | Some m \<Rightarrow> if no_labels labels then [] else [m]) = (if no_labels labels then [] else [the labels])"
    by (cases labels) (simp_all add: no_labels_def)
  then show ?thesis using proto n val
    by (auto simp: convert_k8s_rule_def k8s_rule_spec_def k8s_protocol_def ps Let_def)
qed

lemma convert_plain_rules:
  assumes "list_all (\<lambda>r. plain_port (ports r)) rules"
  shows "convert_k8s_rules ports labels rules = Inr (map (\<lambda>r. k8s_rule_spec (ports r) (labels r)) rules)"
proof -
  have "\<forall>r \<in> set rules. \<forall>acc. go_bind (convert_k8s_rule (ports r) (labels r)) (\<lambda>k.
      Inr (case k of None \<Rightarrow> acc | Some rule \<Rightarrow> acc @ [rule])) = Inr (acc @ [k8s_rule_spec (ports r) (labels r)])"
    using assms by (simp add: list_all_iff convert_plain_rule)
  from foldM_collect [where acc = "[]", OF this]
  show ?thesis by (simp add: convert_k8s_rules_def)
qed

text \<open>Policies with plain ports are converted rule by rule: each rule has its port and protocol, and the labels of its
  peer if it names labels. A rule that names entities, CIDRs, domain names or services has no peer in the result, and is
  a rule for every peer.\<close>

theorem ConvertKnoxNetPolicyToK8sNetworkPolicy_plain:
  assumes "list_all plain_policy policies"
  shows "ConvertKnoxNetPolicyToK8sNetworkPolicy clustername namespace policies = Inr (map k8s_policy_spec policies)"
proof -
  have "\<forall>p \<in> set policies. \<forall>acc. go_bind (convert_k8s_policy p) (\<lambda>k. Inr (acc @ [k])) = Inr (acc @ [k8s_policy_spec p])"
    using assms by (simp add: list_all_iff convert_k8s_policy_def plain_policy_def convert_plain_rules k8s_policy_spec_def
        K8sNwPolicyAPIVersion_def K8sNwPolicyKind_def)
  from foldM_collect [where acc = "[]", OF this]
  show ?thesis by (simp add: ConvertKnoxNetPolicyToK8sNetworkPolicy_def)
qed

definition demo_entity_policy :: KnoxNetworkPolicy where
  "demo_entity_policy = add_egress (Egress_zero\<lparr>eg_ToEntities := [''host''],
     eg_ToPorts := [\<lparr>port_Port = ''443'', port_Protocol = ''TCP''\<rparr>]\<rparr>) buildNewKnoxEgressPolicy"

theorem ConvertKnoxNetPolicyToK8sNetworkPolicy_plain_witness:
  "map_sum id (map (\<lambda>k. map kr_Peers (k8_Egress k)))
     (ConvertKnoxNetPolicyToK8sNetworkPolicy ''default'' [] [demo_entity_policy]) = Inr [[[]]]"
proof -
  have "list_all plain_policy [demo_entity_policy]" by code_simp
  from ConvertKnoxNetPolicyToK8sNetworkPolicy_plain [OF this, of "''default''" "[]"]
  show ?thesis by (simp only:) code_simp
qed

end
