(* ===== verification/NetworkPipeline.thy ===== *)
theory NetworkPipeline
  imports NetworkSource NetworkDedup PolicyYamls K8sNetwork
begin

text \<open>
  The discovery of network policies from end to end: \<^verbatim>\<open>PopulateNetworkPoliciesFromNetworkLogs\<close>,
  \<^verbatim>\<open>writeNetworkPoliciesYamlToDB\<close> and \<^verbatim>\<open>DiscoverNetworkPolicyMain\<close> of \<^verbatim>\<open>networkpolicy/networkPolicy.go\<close>, and the call of the
  analyzer (\<^verbatim>\<open>analyzer/networkPolicyAnalyzer.go\<close>). The configuration, the resources of the clusters and the libraries that make
  the texts are in one record, the orders in which maps are iterated and the capacities of slices in another.
\<close>

section \<open>Environment and state\<close>

record NetEnv =
  ne_DBDriver :: string
  ne_Yaml :: YamlConfig
  ne_LogFrom :: string
  ne_NsFilter :: "string list"
  ne_NsNotFilter :: "string list"
  ne_Filters :: "NetworkLogFilter list"
  ne_cnp :: string
  ne_ccnp :: string
  ne_resources :: "string \<Rightarrow> resources option"
  ne_now :: int
  ne_marshal_k8s :: "K8sNetworkPolicy \<Rightarrow> string option"
  ne_marshal_cilium :: "CiliumNetworkPolicy \<Rightarrow> string option"

text \<open>The orders may differ from cluster to cluster and from one iteration to the next.\<close>

record NetOrders =
  no_logs :: "log_map \<Rightarrow> log_map"
  no_clusters :: "(string \<times> KnoxNetworkLog list) list \<Rightarrow> (string \<times> KnoxNetworkLog list) list"
  no_dns :: "string \<Rightarrow> nat \<Rightarrow> (string \<times> string list) list \<Rightarrow> (string \<times> string list) list"
  no_groups :: "string \<Rightarrow> nat \<Rightarrow> policy_map \<Rightarrow> policy_map"
  no_ingress :: "string \<Rightarrow> nat \<Rightarrow> exist_map \<Rightarrow> exist_map"
  no_egress :: "string \<Rightarrow> nat \<Rightarrow> exist_map \<Rightarrow> exist_map"
  no_capacity :: "nat \<Rightarrow> nat"
  no_grow :: "nat \<Rightarrow> nat \<Rightarrow> nat"

type_synonym discovered = "(string \<times> KnoxNetworkPolicy list) list"

record NetState =
  nst_Clusters :: cluster_map
  nst_DB :: PolicyDB
  nst_Yamls :: "YamlRow list"
  nst_Published :: "PolicyYaml list"
  nst_LogMap :: log_map

section \<open>Policies as text\<close>

definition k8s_policy_yaml :: "NetEnv \<Rightarrow> K8sNetworkPolicy \<Rightarrow> PolicyYaml option" where
  "k8s_policy_yaml env np =
     map_option (\<lambda>text. \<lparr>py_Type = PolicyTypeNetwork, py_Kind = k8_Kind np, py_Name = k8_Name np,
       py_Namespace = k8_Namespace np, py_Cluster = yc_ClusterName (ne_Yaml env), py_ClusterId = yc_ClusterId (ne_Yaml env),
       py_WorkspaceId = yc_WorkspaceId (ne_Yaml env), py_Labels = k8_PodSelector np, py_Yaml = text\<rparr>) (ne_marshal_k8s env np)"

definition cilium_policy_yaml :: "NetEnv \<Rightarrow> CiliumNetworkPolicy \<Rightarrow> PolicyYaml option" where
  "cilium_policy_yaml env ciliumPolicy =
     (let labels = (if cnp_Kind ciliumPolicy = ne_cnp env then sel_MatchLabels (cnp_EndpointSelector ciliumPolicy)
        else sel_MatchLabels (cnp_NodeSelector ciliumPolicy))
      in map_option (\<lambda>text. \<lparr>py_Type = PolicyTypeNetwork, py_Kind = cnp_Kind ciliumPolicy,
           py_Name = lookup_str (cnp_Metadata ciliumPolicy) ''name'', py_Namespace = lookup_str (cnp_Metadata ciliumPolicy) ''namespace'',
           py_Cluster = yc_ClusterName (ne_Yaml env), py_ClusterId = yc_ClusterId (ne_Yaml env),
           py_WorkspaceId = yc_WorkspaceId (ne_Yaml env), py_Labels = labels, py_Yaml = text\<rparr>) (ne_marshal_cilium env ciliumPolicy))"

definition write_yamls :: "NetEnv \<Rightarrow> PolicyYaml list \<Rightarrow> NetState \<Rightarrow> NetState" where
  "write_yamls env res st = st\<lparr>nst_Published := nst_Published st @ res,
     nst_Yamls := snd (UpdateOrInsertPolicyYamls (ne_DBDriver env) (yc_ClusterName (ne_Yaml env)) (ne_now env) res (nst_Yamls st))\<rparr>"

definition writeNetworkPoliciesYamlToDB :: "NetEnv \<Rightarrow> KnoxNetworkPolicy list \<Rightarrow> NetState \<Rightarrow> go_panic + NetState" where
  "writeNetworkPoliciesYamlToDB env policies st =
     (if ne_LogFrom env = ''kubearmor'' then
        go_bind (ConvertKnoxNetPolicyToK8sNetworkPolicy [] [] policies) (\<lambda>k8sNetPolicies.
          Inr (write_yamls env (List.map_filter (k8s_policy_yaml env) k8sNetPolicies) st))
      else Inr (write_yamls env (List.map_filter (cilium_policy_yaml env)
        (ConvertKnoxPoliciesToCiliumPolicies (ne_cnp env) (ne_ccnp env) policies)) st))"

section \<open>Discovery\<close>

definition applyPolicyFilter :: "NetEnv \<Rightarrow> discovered \<Rightarrow> discovered" where
  "applyPolicyFilter env discoveredPolicies =
     (if length (ne_NsFilter env) > 0 then filter (\<lambda>(ns, _). ContainsElement (ne_NsFilter env) ns) discoveredPolicies
      else if length (ne_NsNotFilter env) > 0 then
        filter (\<lambda>(ns, _). \<not> ContainsElement (ne_NsNotFilter env) ns) discoveredPolicies
      else discoveredPolicies)"

text \<open>The first loop over the namespaces. The tracks of flow ids are cleared for each.\<close>

definition discover_namespace ::
  "NetOrders \<Rightarrow> string \<Rightarrow> KnoxNetworkLog list \<Rightarrow> Service list \<Rightarrow> Pod list \<Rightarrow> ClusterVariable \<times> discovered \<Rightarrow>
   nat \<times> string \<Rightarrow> go_panic + ClusterVariable \<times> discovered" where
  "discover_namespace ords clusterName filteredLogs services pods st ns =
     (let (g, discoveredNetworkPolicies) = st; (i, namespace) = ns;
          logsPerNamespace = FilterNetworkLogsByNamespace namespace filteredLogs in
      if length logsPerNamespace = 0 then Inr st
      else
        go_bind (DiscoverNetworkPolicy (no_groups ords clusterName i) namespace logsPerNamespace services pods)
          (\<lambda>discoveredNetPolicies.
            Inr (clearTrackFlowIDMaps g,
              fold (\<lambda>policy d. append_at (np_meta policy ''namespace'') [policy] d) discoveredNetPolicies discoveredNetworkPolicies)))"

text \<open>The second loop. The metadata of a new policy is the map that the discovered policy has, and gets its name too.\<close>

definition name_discovered :: "string \<Rightarrow> KnoxNetworkPolicy list \<Rightarrow> KnoxNetworkPolicy list \<Rightarrow> KnoxNetworkPolicy list" where
  "name_discovered clusterName existing policies =
     map (\<lambda>d. if list_ex (\<lambda>p. same_target p d) existing then d else named_net clusterName d) policies"

definition store_namespace ::
  "NetEnv \<Rightarrow> NetOrders \<Rightarrow> string \<Rightarrow> NetState \<times> discovered \<Rightarrow> nat \<times> string \<Rightarrow> go_panic + NetState \<times> discovered" where
  "store_namespace env ords clusterName s ns =
     (let (st, discoveredNetworkPolicies) = s; (i, namespace) = ns;
          discoveredPolicies = (case map_of discoveredNetworkPolicies namespace of None \<Rightarrow> [] | Some ps \<Rightarrow> ps) in
      if length discoveredPolicies = 0 then Inr s
      else
        (let existing = GetNetworkPolicies (ne_DBDriver env) clusterName namespace ''latest'' [] [] (nst_DB st) in
         go_bind (UpdateDuplicatedPolicy_net (no_ingress ords clusterName i) (no_egress ords clusterName i) (no_capacity ords)
             (no_grow ords) existing discoveredPolicies clusterName) (\<lambda>(new, updated).
         go_bind (if length updated > 0 then
             writeNetworkPoliciesYamlToDB env updated
               (st\<lparr>nst_DB := UpdateNetworkPolicies (ne_DBDriver env) (ne_now env) updated (nst_DB st)\<rparr>)
           else Inr st) (\<lambda>st.
         go_bind (if length new > 0 then
             writeNetworkPoliciesYamlToDB env new
               (st\<lparr>nst_DB := InsertNetworkPolicies (ne_DBDriver env) (ne_now env) new (nst_DB st)\<rparr>)
           else Inr st) (\<lambda>st.
         Inr (st, AList.update namespace (name_discovered clusterName existing discoveredPolicies) discoveredNetworkPolicies))))))"

definition populate_cluster ::
  "NetEnv \<Rightarrow> NetOrders \<Rightarrow> NetState \<times> discovered \<Rightarrow> string \<times> KnoxNetworkLog list \<Rightarrow> go_panic + NetState \<times> discovered" where
  "populate_cluster env ords s cl =
     (let (st, discoveredNetworkPolicies) = s; (clusterName, networkLogs) = cl;
          g = initMultiClusterVariables clusterName (nst_Clusters st) in
      case ne_resources env clusterName of
        None \<Rightarrow> Inr s
      | Some (namespaces, services, endpoints, pods) \<Rightarrow>
          (let (g, networkLogs) = updateDNSFlows (no_dns ords clusterName) networkLogs g;
               g = updateServiceEndpoint services endpoints pods g;
               filteredLogs = FilterNetworkLogsByConfig (ne_Filters env) networkLogs pods in
           go_bind (foldM (discover_namespace ords clusterName filteredLogs services pods) (g, discoveredNetworkPolicies)
               (enumerate 0 namespaces)) (\<lambda>(g, discoveredNetworkPolicies).
           go_bind (foldM (store_namespace env ords clusterName) (st, applyPolicyFilter env discoveredNetworkPolicies)
               (enumerate 0 namespaces)) (\<lambda>(st, discoveredNetworkPolicies).
           Inr (st\<lparr>nst_Clusters := updateMultiClusterVariables clusterName g (nst_Clusters st)\<rparr>, discoveredNetworkPolicies)))))"

definition PopulateNetworkPoliciesFromNetworkLogs ::
  "NetEnv \<Rightarrow> NetOrders \<Rightarrow> log_map \<Rightarrow> NetState \<Rightarrow> go_panic + NetState \<times> discovered" where
  "PopulateNetworkPoliciesFromNetworkLogs env ords networkLogMap st =
     (let (clusteredLogs, logMap) = clusteringNetworkLogs (no_logs ords) networkLogMap (nst_LogMap st)
      in foldM (populate_cluster env ords) (st\<lparr>nst_LogMap := logMap\<rparr>, []) (no_clusters ords clusteredLogs))"

text \<open>The worker. While it runs, its status keeps a second call from doing anything.\<close>

record NetWorker =
  nw_Running :: bool
  nw_Source :: NetSource
  nw_State :: NetState

definition DiscoverNetworkPolicyMain ::
  "(string \<Rightarrow> string option) \<Rightarrow> cilium_flow list option \<Rightarrow> Pod list \<Rightarrow> NetSourceCfg \<Rightarrow> NetEnv \<Rightarrow> NetOrders \<Rightarrow>
   NetWorker \<Rightarrow> go_panic + NetWorker" where
  "DiscoverNetworkPolicyMain url_path flows_of_file pods cfg env ords w =
     (if nw_Running w then Inr w
      else
        go_bind (getNetworkLogs url_path (ne_resources env) flows_of_file pods cfg (nw_Source w)) (\<lambda>(r, source).
          case r of
            None \<Rightarrow> Inr (w\<lparr>nw_Source := source\<rparr>)
          | Some allNetworkLogs \<Rightarrow>
              if length allNetworkLogs < nsc_Trigger cfg then Inr (w\<lparr>nw_Source := source\<rparr>)
              else go_bind (PopulateNetworkPoliciesFromNetworkLogs env ords allNetworkLogs
                  ((nw_State w)\<lparr>nst_LogMap := src_LogMap source\<rparr>)) (\<lambda>(st, _).
                Inr (w\<lparr>nw_Source := source\<lparr>src_LogMap := nst_LogMap st\<rparr>, nw_State := st\<rparr>))))"

section \<open>The analyzer\<close>

text \<open>The logs of the request are converted and then not used: the discovery gets no log.\<close>

definition extractNetworkPoliciesFromNetworkLogs ::
  "NetEnv \<Rightarrow> NetOrders \<Rightarrow> (discovered \<Rightarrow> discovered) \<Rightarrow> KnoxNetworkLog list \<Rightarrow> NetState \<Rightarrow>
   go_panic + NetState \<times> KnoxNetworkPolicy list" where
  "extractNetworkPoliciesFromNetworkLogs env ords ord networkLogs st =
     go_bind (PopulateNetworkPoliciesFromNetworkLogs env ords [] st) (\<lambda>(st, netPoliciesPerNamespace).
       Inr (st, concat (map snd (ord netPoliciesPerNamespace))))"

section \<open>Well-formed policies, from the logs to the table\<close>

definition net_db_ok :: "PolicyDB \<Rightarrow> bool" where
  "net_db_ok db \<longleftrightarrow> list_all (\<lambda>r. well_formed_net (net_policy_of r)) (network_policy db)"

definition discovered_ok :: "discovered \<Rightarrow> bool" where
  "discovered_ok d \<longleftrightarrow> list_all (\<lambda>(_, ps). list_all well_formed_net ps) d"

lemma discover_well_formed:
  assumes "iter_order ord" and "DiscoverNetworkPolicy ord namespace networkLogs services pods = Inr ps"
  shows "list_all well_formed_net ps"
proof -
  obtain "is" es where d: "ps = concat (map snd is) @ concat (map snd es)"
    "ingress_net.result_ok (ingress_groups ord networkLogs pods) is" "egress_net.result_ok (egress_groups ord networkLogs pods) es"
    using discovered [OF assms] .
  have "well_formed_net q" if q: "q \<in> set (concat (map snd is))" for q
  proof -
    obtain qs where "ingress_net.merged_policy qs q" "np_meta q ''type'' = PolicyTypeIngress"
      using discovered_ingress [OF assms(1) d(2) q] .
    then show ?thesis using ingress_net.merged_policy_rules(1) [of qs q]
      by (simp add: well_formed_net_def is_ingress_def list_all_iff)
  qed
  moreover have "well_formed_net q" if q: "q \<in> set (concat (map snd es))" for q
  proof -
    obtain qs where "egress_net.merged_policy qs q" "np_meta q ''type'' = PolicyTypeEgress"
      using discovered_egress [OF assms(1) d(3) q] .
    then show ?thesis using egress_net.merged_policy_rules(1) [of qs q]
      by (simp add: well_formed_net_def is_ingress_def list_all_iff PolicyTypeIngress_def PolicyTypeEgress_def)
  qed
  ultimately show ?thesis unfolding d(1) list_all_iff set_append by blast
qed

lemma no_labels_json [simp]: "no_labels (json_labels m) = no_labels m"
  by (simp add: json_labels_def no_labels_def split: option.splits)

lemma well_formed_json:
  "list_all good_ingress (map (\<lambda>r. r\<lparr>in_MatchLabels := json_labels (in_MatchLabels r)\<rparr>) rs) = list_all good_ingress rs"
  "list_all good_egress (map (\<lambda>r. r\<lparr>eg_MatchLabels := json_labels (eg_MatchLabels r)\<rparr>) es) = list_all good_egress es"
  by (simp_all add: list_all_iff good_ingress_def good_egress_def ingress_valid_def egress_valid_def)

lemma well_formed_stored [simp]: "well_formed_net (stored_net now p) = well_formed_net p"
proof -
  have "np_meta (stored_net now p) ''type'' = np_meta p ''type''"
    by (simp add: stored_net_def net_keys_def np_meta_def lookup_str_def)
  then show ?thesis by (simp add: well_formed_net_def is_ingress_def stored_net_def json_spec_def well_formed_json)
qed

lemma well_formed_updated:
  assumes "well_formed_net p" and "well_formed_net (net_policy_of r)"
  shows "well_formed_net (net_policy_of (update_net_row now p r))"
proof (cases "nrow_name r = np_meta p ''name''")
  case True
  have "np_meta (net_policy_of (update_net_row now p r)) ''type'' = np_meta p ''type''"
    using True by (simp add: update_net_row_def net_policy_of_def np_meta_def lookup_str_def)
  then show ?thesis using assms(1) True
    by (simp add: well_formed_net_def is_ingress_def update_net_row_def net_policy_of_def json_spec_def well_formed_json)
qed (use assms(2) in \<open>simp add: update_net_row_def\<close>)

lemma UpdateNetworkPolicies_ok:
  assumes "net_db_ok db" and "list_all well_formed_net ps"
  shows "net_db_ok (UpdateNetworkPolicies DBDriver now ps db)"
  using assms unfolding UpdateNetworkPolicies_def
proof (induction ps arbitrary: db)
  case (Cons p ps)
  have "net_db_ok (UpdateNetworkPolicy DBDriver now p db)"
    using Cons.prems well_formed_updated [of p _ now]
    by (auto simp: UpdateNetworkPolicy_def UpdateNetworkPolicyToMySQL_def UpdateNetworkPolicyToSQLite_def net_db_ok_def
        list_all_iff Let_def)
  then show ?case using Cons.IH Cons.prems(2) by simp
qed simp

lemma InsertNetworkPolicies_ok:
  assumes "net_db_ok db" and "list_all well_formed_net ps"
  shows "net_db_ok (InsertNetworkPolicies DBDriver now ps db)"
  using assms
  by (auto simp: InsertNetworkPolicies_def InsertNetworkPoliciesToMySQL_rows InsertNetworkPoliciesToSQLite_rows net_db_ok_def
      list_all_iff net_policy_of_row dest: set_takeWhileD)

lemma GetNetworkPolicies_ok:
  "net_db_ok db \<Longrightarrow> list_all well_formed_net (GetNetworkPolicies DBDriver cluster namespace status nwtype rule db)"
  by (auto simp: GetNetworkPolicies_def GetNetworkPoliciesFromMySQL_def GetNetworkPoliciesFromSQLite_def net_db_ok_def
      list_all_iff Let_def)

lemma well_formed_named [simp]: "well_formed_net (named_net clusterName d) = well_formed_net d"
  by (simp add: named_net_def well_formed_net_def is_ingress_def np_meta_def set_np_meta_def lookup_str_def)

section \<open>The loops\<close>

definition orders_ok :: "NetOrders \<Rightarrow> bool" where
  "orders_ok ords \<longleftrightarrow> (\<forall>c i. iter_order (no_groups ords c i) \<and> iter_order (no_ingress ords c i) \<and> iter_order (no_egress ords c i))"

lemma discovered_ok_lookup: "discovered_ok d \<Longrightarrow> map_of d ns = Some ps \<Longrightarrow> list_all well_formed_net ps"
  by (auto simp: discovered_ok_def list_all_iff dest!: map_of_SomeD)

lemma discovered_ok_update: "discovered_ok d \<Longrightarrow> list_all well_formed_net ps \<Longrightarrow> discovered_ok (AList.update ns ps d)"
  by (induction d) (auto simp: discovered_ok_def)

lemma discovered_ok_append_at:
  assumes "discovered_ok d" and "list_all well_formed_net ps"
  shows "discovered_ok (fold (\<lambda>policy d. append_at (key policy) [policy] d) ps d)"
  using assms
proof (induction ps arbitrary: d)
  case (Cons p ps)
  have "discovered_ok (append_at (key p) [p] d)"
    using Cons.prems discovered_ok_lookup [OF Cons.prems(1), of "key p"]
    by (auto simp: append_at_def entries_def intro!: discovered_ok_update split: option.splits)
  then show ?case using Cons.IH Cons.prems(2) by simp
qed simp

lemma discovered_ok_filter: "discovered_ok d \<Longrightarrow> discovered_ok (applyPolicyFilter env d)"
  by (auto simp: applyPolicyFilter_def discovered_ok_def list_all_iff)

lemma name_discovered_ok: "list_all well_formed_net ps \<Longrightarrow> list_all well_formed_net (name_discovered clusterName existing ps)"
  by (auto simp: name_discovered_def list_all_iff)

lemma discover_namespace_ok:
  assumes "orders_ok ords" and "discovered_ok (snd st)"
  shows "\<exists>st'. discover_namespace ords clusterName logs services pods st ns = Inr st' \<and> discovered_ok (snd st')"
proof -
  obtain g d i namespace where st: "st = (g, d)" "ns = (i, namespace)" by (metis surj_pair)
  have ord: "iter_order (no_groups ords clusterName i)" using assms(1) by (simp add: orders_ok_def)
  obtain ps where ps: "DiscoverNetworkPolicy (no_groups ords clusterName i) namespace
      (FilterNetworkLogsByNamespace namespace logs) services pods = Inr ps"
    using discover_groups [OF ord] by blast
  from discovered_ok_append_at [OF _ discover_well_formed [OF ord ps]] show ?thesis
    using assms(2) by (simp add: discover_namespace_def st ps Let_def)
qed

lemma writeNetworkPoliciesYamlToDB_ok:
  "ne_LogFrom env \<noteq> ''kubearmor'' \<Longrightarrow>
   \<exists>st'. writeNetworkPoliciesYamlToDB env policies st = Inr st' \<and> nst_DB st' = nst_DB st"
  by (simp add: writeNetworkPoliciesYamlToDB_def write_yamls_def)

definition pipeline_ok :: "NetState \<times> discovered \<Rightarrow> bool" where
  "pipeline_ok s \<longleftrightarrow> net_db_ok (nst_DB (fst s)) \<and> discovered_ok (snd s)"

lemma store_namespace_ok:
  assumes "orders_ok ords" and "ne_LogFrom env \<noteq> ''kubearmor''" and "pipeline_ok s"
  shows "\<exists>s'. store_namespace env ords clusterName s ns = Inr s' \<and> pipeline_ok s'"
proof -
  obtain st d i namespace where s: "s = (st, d)" "ns = (i, namespace)" by (metis surj_pair)
  note written = writeNetworkPoliciesYamlToDB_ok [OF assms(2)]
  show ?thesis
  proof (cases "map_of d namespace")
    case None
    then show ?thesis using assms(3) by (simp add: store_namespace_def s Let_def)
  next
    case (Some ps)
    define existing where "existing = GetNetworkPolicies (ne_DBDriver env) clusterName namespace ''latest'' [] [] (nst_DB st)"
    have wf: "list_all well_formed_net existing" "list_all well_formed_net ps"
      using assms(3) GetNetworkPolicies_ok discovered_ok_lookup [OF _ Some]
      by (auto simp: pipeline_ok_def s existing_def)
    have ord: "iter_order (no_ingress ords clusterName i)" "iter_order (no_egress ords clusterName i)"
      using assms(1) by (simp_all add: orders_ok_def)
    have wf': "\<forall>p \<in> set existing. well_formed_net p" "\<forall>d \<in> set ps. well_formed_net d" using wf by (simp_all add: list_all_iff)
    obtain updated where dd: "UpdateDuplicatedPolicy_net (no_ingress ords clusterName i) (no_egress ords clusterName i)
          (no_capacity ords) (no_grow ords) existing ps clusterName =
        Inr (map (named_net clusterName) (filter (\<lambda>d. \<not> list_ex (\<lambda>p. same_target p d) existing) ps), updated)"
      "\<forall>q \<in> set updated. \<exists>p q'. stored_now existing ps p q' \<and> np_meta q' ''status'' = ''updated'' \<and>
        q = set_np_meta ''status'' ''latest'' q'"
      using dedup_result [OF ord wf'] .
    have upd: "list_all well_formed_net updated"
      using dd(2) stored_now_frame(4) unfolding list_all_iff by fastforce
    let ?new = "map (named_net clusterName) (filter (\<lambda>d. \<not> list_ex (\<lambda>p. same_target p d) existing) ps)"
    have new: "list_all well_formed_net ?new" using wf(2) by (auto simp: list_all_iff)
    obtain st1 where st1: "(if length updated > 0 then writeNetworkPoliciesYamlToDB env updated
          (st\<lparr>nst_DB := UpdateNetworkPolicies (ne_DBDriver env) (ne_now env) updated (nst_DB st)\<rparr>) else Inr st) = Inr st1"
        "net_db_ok (nst_DB st1)"
      using written [of updated "st\<lparr>nst_DB := UpdateNetworkPolicies (ne_DBDriver env) (ne_now env) updated (nst_DB st)\<rparr>"]
        UpdateNetworkPolicies_ok [OF _ upd] assms(3) by (cases "length updated > 0") (auto simp: pipeline_ok_def s)
    obtain st2 where st2: "(if length ?new > 0 then writeNetworkPoliciesYamlToDB env ?new
          (st1\<lparr>nst_DB := InsertNetworkPolicies (ne_DBDriver env) (ne_now env) ?new (nst_DB st1)\<rparr>) else Inr st1) = Inr st2"
        "net_db_ok (nst_DB st2)"
      using written [of ?new "st1\<lparr>nst_DB := InsertNetworkPolicies (ne_DBDriver env) (ne_now env) ?new (nst_DB st1)\<rparr>"]
        InsertNetworkPolicies_ok [OF _ new] st1(2) by (cases "length ?new > 0") auto
    show ?thesis
      using assms(3) st1 st2 discovered_ok_update [OF _ name_discovered_ok [OF wf(2)]]
      by (simp add: store_namespace_def s Let_def Some existing_def [symmetric] dd(1) pipeline_ok_def)
  qed
qed

lemma populate_cluster_ok:
  assumes "orders_ok ords" and "ne_LogFrom env \<noteq> ''kubearmor''" and "pipeline_ok s"
  shows "\<exists>s'. populate_cluster env ords s cl = Inr s' \<and> pipeline_ok s'"
proof -
  obtain st d clusterName logs where s: "s = (st, d)" "cl = (clusterName, logs)" by (metis surj_pair)
  show ?thesis
  proof (cases "ne_resources env clusterName")
    case None
    then show ?thesis using assms(3) by (simp add: populate_cluster_def s Let_def)
  next
    case (Some r)
    obtain namespaces services endpoints pods where r: "r = (namespaces, services, endpoints, pods)" by (rule prod_cases4)
    obtain g logs' where dns: "updateDNSFlows (no_dns ords clusterName) logs
        (initMultiClusterVariables clusterName (nst_Clusters st)) = (g, logs')" by fastforce
    let ?g = "updateServiceEndpoint services endpoints pods g"
    let ?logs = "FilterNetworkLogsByConfig (ne_Filters env) logs' pods"
    have "\<exists>st'. foldM (discover_namespace ords clusterName ?logs services pods) (?g, d) (enumerate 0 namespaces) = Inr st' \<and>
        discovered_ok (snd st')"
      by (rule foldM_total [where I = "\<lambda>st. discovered_ok (snd st)"])
        (use assms(3) in \<open>simp add: pipeline_ok_def s\<close>, rule discover_namespace_ok [OF assms(1)])
    then obtain g2 d2 where d2: "foldM (discover_namespace ords clusterName ?logs services pods) (?g, d) (enumerate 0 namespaces) = Inr (g2, d2)"
      "discovered_ok d2" by auto
    have "pipeline_ok (st, applyPolicyFilter env d2)"
      using assms(3) d2(2) by (simp add: pipeline_ok_def s discovered_ok_filter)
    then have "\<exists>s'. foldM (store_namespace env ords clusterName) (st, applyPolicyFilter env d2) (enumerate 0 namespaces) = Inr s' \<and>
        pipeline_ok s'"
      by (rule foldM_total) (rule store_namespace_ok [OF assms(1,2)])
    then obtain st3 d3 where "foldM (store_namespace env ords clusterName) (st, applyPolicyFilter env d2) (enumerate 0 namespaces) =
        Inr (st3, d3)" "pipeline_ok (st3, d3)" by auto
    then show ?thesis
      by (simp add: populate_cluster_def s Some r dns Let_def d2(1) pipeline_ok_def)
  qed
qed

section \<open>Properties\<close>


definition demo_orders :: NetOrders where
  "demo_orders = \<lparr>no_logs = \<lambda>m. m, no_clusters = \<lambda>m. m, no_dns = \<lambda>_ _ m. m, no_groups = \<lambda>_ _ m. m, no_ingress = \<lambda>_ _ m. m,
     no_egress = \<lambda>_ _ m. m, no_capacity = \<lambda>n. n, no_grow = \<lambda>_ n. n\<rparr>"

definition demo_env :: NetEnv where
  "demo_env = \<lparr>ne_DBDriver = ''sqlite3'', ne_Yaml = \<lparr>yc_ClusterName = ''c'', yc_WorkspaceId = 1, yc_ClusterId = 2\<rparr>,
     ne_LogFrom = ''file'', ne_NsFilter = [], ne_NsNotFilter = [], ne_Filters = [], ne_cnp = ''cnp'', ne_ccnp = ''ccnp'',
     ne_resources = \<lambda>_. Some ([''ns''], [], [], demo_net_pods), ne_now = 7, ne_marshal_k8s = \<lambda>_. None,
     ne_marshal_cilium = \<lambda>p. Some (lookup_str (cnp_Metadata p) ''name'')\<rparr>"

definition demo_net_state :: NetState where
  "demo_net_state = \<lparr>nst_Clusters = [], nst_DB = \<lparr>network_policy = [net_row 3 demo_stored], system_policy = []\<rparr>, nst_Yamls = [], nst_Published = [],
     nst_LogMap = []\<rparr>"


text \<open>With Hubble or the message queue as the source nothing is ever discovered: from the empty map of logs the worker starts with,
  each run leaves the policies, the texts, what is published and the map of logs as they were, and so does every
  later run.\<close>

theorem DiscoverNetworkPolicyMain_discovers_nothing:
  assumes "nsc_LogFrom cfg = ''hubble'' \<or> nsc_LogFrom cfg = ''feed-consumer''" and "nsc_Trigger cfg > 0"
    and "src_LogMap (nw_Source w) = []"
    and "DiscoverNetworkPolicyMain url_path flows_of_file pods cfg env ords w = Inr w'"
  shows "nw_State w' = nw_State w \<and> src_LogMap (nw_Source w') = []"
proof (cases "nw_Running w")
  case False
  obtain r source where g: "getNetworkLogs url_path (ne_resources env) flows_of_file pods cfg (nw_Source w) = Inr (r, source)"
    using assms(4) False by (auto simp: DiscoverNetworkPolicyMain_def go_bind_Inr_iff)
  have "src_LogMap source = []" "r = None \<or> r = Some []"
    using getNetworkLogs_loses_flows [OF assms(1) g] assms(3) by auto
  then show ?thesis using assms(2,4) False g by (auto simp: DiscoverNetworkPolicyMain_def)
qed (use assms in \<open>auto simp: DiscoverNetworkPolicyMain_def\<close>)

definition demo_worker :: NetWorker where
  "demo_worker = \<lparr>nw_Running = False, nw_Source = \<lparr>src_Flows = [], src_FlowsFC = [demo_web_flow],
     src_Relay = \<lparr>ka_RelayLogs = [], ka_NetworkLogs = [], ka_FCLogs = [], ka_Started = False, ka_streams = [], ka_next = 0\<rparr>,
     src_LogMap = [], src_next = 0\<rparr>, nw_State = demo_net_state\<rparr>"

definition demo_source_cfg :: NetSourceCfg where
  "demo_source_cfg = \<lparr>nsc_LogFrom = ''feed-consumer'', nsc_Trigger = 1\<rparr>"

definition demo_after :: NetWorker where
  "demo_after = (case DiscoverNetworkPolicyMain (\<lambda>_. None) None [] demo_source_cfg demo_env demo_orders demo_worker of
     Inl _ \<Rightarrow> demo_worker | Inr w \<Rightarrow> w)"

theorem DiscoverNetworkPolicyMain_discovers_nothing_witness:
  "src_FlowsFC (nw_Source demo_after) = [] \<and> nw_State demo_after = demo_net_state"
proof -
  have ok: "\<not> isl (DiscoverNetworkPolicyMain (\<lambda>_. None) None [] demo_source_cfg demo_env demo_orders demo_worker)"
    "src_FlowsFC (nw_Source demo_after) = []" by code_simp+
  from ok(1) have "DiscoverNetworkPolicyMain (\<lambda>_. None) None [] demo_source_cfg demo_env demo_orders demo_worker = Inr demo_after"
    by (auto simp: demo_after_def isl_def split: sum.splits)
  from DiscoverNetworkPolicyMain_discovers_nothing [OF _ _ _ this] ok(2) show ?thesis
    by (simp add: demo_source_cfg_def demo_worker_def)
qed

text \<open>The analyzer never finds a network policy: whatever the logs of the request, the answer is empty and nothing changes.\<close>

lemma analyzer_finds_no_network_policy:
  assumes "iter_order ord" and "iter_order (no_logs ords)" and "iter_order (no_clusters ords)"
  shows "extractNetworkPoliciesFromNetworkLogs env ords ord networkLogs st = Inr (st, [])"
proof -
  have "ord [] = []" "no_logs ords [] = []" "no_clusters ords [] = []"
    using assms unfolding iter_order_def by (metis mset_zero_iff)+
  then show ?thesis
    by (simp add: extractNetworkPoliciesFromNetworkLogs_def PopulateNetworkPoliciesFromNetworkLogs_def
        clusteringNetworkLogs_def)
qed

lemma analyzer_finds_no_network_policy_witness:
  "extractNetworkPoliciesFromNetworkLogs demo_env demo_orders (\<lambda>m. m) [demo_web_flow] demo_net_state = Inr (demo_net_state, [])"
  by (rule analyzer_finds_no_network_policy) (simp_all add: demo_orders_def)

lemma go_bindE: "go_bind m f = Inr y \<Longrightarrow> (\<And>x. m = Inr x \<Longrightarrow> f x = Inr y \<Longrightarrow> R) \<Longrightarrow> R"
  by (cases m) simp_all

text \<open>The variables of a cluster are kept only for a cluster that is in the map already, and nothing puts one there.\<close>

lemma cluster_variables_are_not_kept:
  assumes "PopulateNetworkPoliciesFromNetworkLogs env ords networkLogMap st = Inr (st', d)" and "nst_Clusters st = []"
  shows "nst_Clusters st' = []"
proof -
  have written: "nst_Clusters st2 = nst_Clusters st1" if "writeNetworkPoliciesYamlToDB env ps st1 = Inr st2" for ps st1 st2
    using that by (auto simp: writeNetworkPoliciesYamlToDB_def write_yamls_def go_bind_Inr_iff split: if_splits)
  have part: "nst_Clusters st2 = nst_Clusters st1"
    if "(if b then writeNetworkPoliciesYamlToDB env ps (st1\<lparr>nst_DB := db\<rparr>) else Inr st1) = Inr st2" for b ps st1 st2 db
    using that written [of ps "st1\<lparr>nst_DB := db\<rparr>" st2] by (auto split: if_splits)
  have store: "nst_Clusters (fst s') = []" if h: "store_namespace env ords c s ns = Inr s'" "nst_Clusters (fst s) = []" for c s ns s'
  proof -
    obtain st1 d1 i namespace where s: "s = (st1, d1)" "ns = (i, namespace)" by (metis surj_pair)
    let ?ps = "case map_of d1 namespace of None \<Rightarrow> [] | Some ps \<Rightarrow> ps"
    show ?thesis
    proof (cases "length ?ps = 0")
      case True
      then show ?thesis using h by (simp add: store_namespace_def s Let_def)
    next
      case False
      with h(1) show ?thesis
        unfolding store_namespace_def s Let_def prod.case if_not_P [OF False]
      proof (elim go_bindE, goal_cases)
        case (1 x)
        obtain new upd where x: "x = (new, upd)" by (cases x)
        from 1 show ?case unfolding x prod.case
          by (elim go_bindE) (use h(2) in \<open>auto simp: s dest!: part\<close>)
      qed
    qed
  qed
  have cluster: "nst_Clusters (fst s') = []" if c: "populate_cluster env ords s cl = Inr s'" "nst_Clusters (fst s) = []" for s cl s'
  proof -
    obtain st1 d1 cn logs where s: "s = (st1, d1)" "cl = (cn, logs)" by (metis surj_pair)
    have "nst_Clusters (fst s3) = []"
      if "foldM (store_namespace env ords cn) (st1, d2) nss = Inr s3" for d2 nss s3
      by (rule foldM_invariant [where I = "\<lambda>s. nst_Clusters (fst s) = []", OF that]) (use c(2) s store in auto)
    then show ?thesis using c
      by (fastforce simp: populate_cluster_def s Let_def go_bind_Inr_iff updateMultiClusterVariables_def
          split: option.splits prod.splits)
  qed
  obtain cls logMap where c: "clusteringNetworkLogs (no_logs ords) networkLogMap (nst_LogMap st) = (cls, logMap)" by fastforce
  have "nst_Clusters (fst (st', d)) = []"
    by (rule foldM_invariant [where I = "\<lambda>s. nst_Clusters (fst s) = []",
          OF assms(1) [unfolded PopulateNetworkPoliciesFromNetworkLogs_def c Let_def prod.case]])
      (use assms(2) cluster in auto)
  then show ?thesis by simp
qed

end
