(* ===== verification/SystemSummary.thy ===== *)
theory SystemSummary
  imports PathAggregator NetworkSource
begin

text \<open>
  The summary of what the containers do, in memory: \<^verbatim>\<open>observability/summarizer.go\<close>, which counts equal events of KubeArmor
  in a map, and \<^verbatim>\<open>observability/publisher.go\<close>, which aggregates the files of the map. The map is an association
  list with one entry for each key; where the code iterates over it, the order is a parameter. Counts are
  \<^verbatim>\<open>int32\<close>, here \<^verbatim>\<open>32 word\<close>.
\<close>

section \<open>Data\<close>

record Workload =
  wl_Type :: string
  wl_Name :: string

record SystemSummary =
  su_ClusterName :: string
  su_ClusterId :: int
  su_NamespaceName :: string
  su_NamespaceId :: int
  su_ContainerName :: string
  su_ContainerImage :: string
  su_ContainerID :: string
  su_PodName :: string
  su_PodId :: int
  su_Operation :: string
  su_Labels :: string
  su_Deployment :: string
  su_Source :: string
  su_Destination :: string
  su_DestNamespace :: string
  su_DestLabels :: string
  su_NwType :: string
  su_IP :: string
  su_Port :: int
  su_Protocol :: string
  su_Action :: string
  su_Count :: "32 word"
  su_UpdatedTime :: int
  su_WorkspaceId :: int
  su_BindPort :: string
  su_BindAddress :: string
  su_Severity :: string
  su_Tags :: string
  su_Message :: string
  su_Enforcer :: string
  su_PolicyName :: string
  su_Workload :: Workload

definition Workload_zero :: Workload where
  "Workload_zero = \<lparr>wl_Type = [], wl_Name = []\<rparr>"

definition SystemSummary_zero :: SystemSummary where
  "SystemSummary_zero =
     \<lparr>su_ClusterName = [], su_ClusterId = 0, su_NamespaceName = [], su_NamespaceId = 0, su_ContainerName = [],
      su_ContainerImage = [], su_ContainerID = [], su_PodName = [], su_PodId = 0, su_Operation = [], su_Labels = [],
      su_Deployment = [], su_Source = [], su_Destination = [], su_DestNamespace = [], su_DestLabels = [],
      su_NwType = [], su_IP = [], su_Port = 0, su_Protocol = [], su_Action = [], su_Count = 0, su_UpdatedTime = 0,
      su_WorkspaceId = 0, su_BindPort = [], su_BindAddress = [], su_Severity = [], su_Tags = [], su_Message = [],
      su_Enforcer = [], su_PolicyName = [], su_Workload = Workload_zero\<rparr>"

record SysSummaryTimeCount =
  tc_Count :: "32 word"
  tc_UpdatedTime :: int

type_synonym SummaryMap = "(SystemSummary \<times> SysSummaryTimeCount) list"

definition FileOperation :: string where "FileOperation = ''File''"

section \<open>The address of a network event\<close>

record NwInfo =
  ni_ip :: string
  ni_destNs :: string
  ni_destLabel :: string
  ni_port :: string
  ni_bindPort :: string
  ni_bindAddress :: string
  ni_protocol :: string
  ni_nwrule :: string

text \<open>\<^verbatim>\<open>if strings.Contains(word, key) { x = strings.Split(word, "=")[1] }\<close>\<close>

definition scan_field :: "string \<Rightarrow> string \<Rightarrow> (string \<Rightarrow> NwInfo \<Rightarrow> NwInfo) \<Rightarrow> NwInfo \<Rightarrow> go_panic + NwInfo" where
  "scan_field word key set_field info =
     (if Contains word key then go_bind (field_value word) (\<lambda>v. Inr (set_field v info)) else Inr info)"

definition scan_tcp :: "string \<Rightarrow> Pod list \<Rightarrow> Service list \<Rightarrow> NwInfo \<Rightarrow> string \<Rightarrow> go_panic + NwInfo" where
  "scan_tcp clusterName pods services info locres =
     go_bind (scan_field locres ''remoteip'' (\<lambda>v info.
         let (ip, destLabel, destNs) = ExtractPodSvcInfoFromIP v clusterName pods services
         in info\<lparr>ni_ip := ip, ni_destLabel := destLabel, ni_destNs := destNs\<rparr>) info) (\<lambda>info.
     go_bind (scan_field locres ''port'' (\<lambda>v info. info\<lparr>ni_port := v\<rparr>) info) (\<lambda>info.
     scan_field locres ''protocol'' (\<lambda>v info. info\<lparr>ni_protocol := v\<rparr>) info))"

fun scan_unix :: "NwInfo \<Rightarrow> string list \<Rightarrow> go_panic + NwInfo" where
  "scan_unix info [] = Inr info"
| "scan_unix info (locres # resslice) =
     (if Contains locres ''sun_path'' then
        go_bind (field_value locres) (\<lambda>path.
          if path \<noteq> [] then Inr (info\<lparr>ni_ip := path, ni_bindAddress := path\<rparr>) else scan_unix info resslice)
      else scan_unix info resslice)"

definition scan_bind :: "NwInfo \<Rightarrow> string \<Rightarrow> go_panic + NwInfo" where
  "scan_bind info locres =
     go_bind (scan_field locres ''sin_port'' (\<lambda>v info. info\<lparr>ni_bindPort := v\<rparr>) info) (\<lambda>info.
     go_bind (scan_field locres ''sin_addr'' (\<lambda>v info. info\<lparr>ni_bindAddress := v\<rparr>) info) (\<lambda>info.
     scan_field locres ''sa_family'' (\<lambda>v info. info\<lparr>ni_protocol := v\<rparr>) info))"

text \<open>The results that come with an error are not used by the caller.\<close>

definition extractNetworkInfoFromSystemLog ::
  "Alert \<Rightarrow> Pod list \<Rightarrow> Service list \<Rightarrow> go_panic + string + NwInfo" where
  "extractNetworkInfoFromSystemLog netLog pods services =
     (let err = ''not a valid incoming/outgoing connection'';
          info = (\<lambda>nwrule. \<lparr>ni_ip = [], ni_destNs = [], ni_destLabel = [], ni_port = [], ni_bindPort = [],
            ni_bindAddress = [], ni_protocol = [], ni_nwrule = nwrule\<rparr>);
          data = al_Data netLog;
          resslice = Split (al_Resource netLog) (CHR '' '');
          scan = (\<lambda>nwrule.
            if Contains data ''tcp_'' then
              go_bind (foldM (scan_tcp (al_ClusterName netLog) pods services) (info nwrule) resslice) (\<lambda>info. Inr (Inr info))
            else if Contains (al_Resource netLog) ''AF_UNIX'' then
              go_bind (scan_unix ((info nwrule)\<lparr>ni_protocol := ''AF_UNIX''\<rparr>) resslice) (\<lambda>info. Inr (Inr info))
            else if Contains data ''SYS_BIND'' then
              go_bind (foldM scan_bind (info nwrule) resslice) (\<lambda>info. Inr (Inr info))
            else Inr (Inl err))
      in if Contains data ''tcp_connect'' \<or> Contains data ''SYS_CONNECT'' then scan ''egress''
         else if Contains data ''tcp_accept'' then scan ''ingress''
         else if Contains data ''SYS_BIND'' then scan ''bind''
         else Inr (Inl err))"

section \<open>The summary of an event\<close>

record SummaryCfg =
  sc_ClusterName :: string
  sc_WorkspaceId :: int
  sc_ClusterId :: int

text \<open>The variables of \<^verbatim>\<open>convertSysLogToSysSummaryMap\<close> that the rounds of its loop share.\<close>

record ClusterCache =
  cc_services :: "Service list"
  cc_pods :: "Pod list"
  cc_existingClustername :: string

definition ClusterCache_zero :: ClusterCache where
  "ClusterCache_zero = \<lparr>cc_services = [], cc_pods = [], cc_existingClustername = []\<rparr>"

definition summary_base :: "SummaryCfg \<Rightarrow> Alert \<Rightarrow> SystemSummary" where
  "summary_base cfg syslog =
     (let sysSummary = SystemSummary_zero\<lparr>
            su_Action := if al_Action syslog \<noteq> [] then al_Action syslog else ''Allow'',
            su_ClusterName := if sc_ClusterName cfg = [] then al_ClusterName syslog else sc_ClusterName cfg,
            su_WorkspaceId := sc_WorkspaceId cfg, su_ClusterId := sc_ClusterId cfg,
            su_NamespaceName := al_NamespaceName syslog, su_ContainerName := al_ContainerName syslog,
            su_ContainerImage := al_ContainerImage syslog, su_ContainerID := al_ContainerID syslog,
            su_PodName := al_PodName syslog, su_Operation := al_Operation syslog,
            su_Source := first_word (al_Source syslog), su_Labels := al_Labels syslog,
            su_Enforcer := al_Enforcer syslog, su_Tags := al_Tags syslog, su_Message := al_Message syslog,
            su_Severity := al_Severity syslog, su_PolicyName := al_PolicyName syslog\<rparr>
      in case al_Owner syslog of None \<Rightarrow> sysSummary
         | Some owner \<Rightarrow> sysSummary\<lparr>su_Workload := \<lparr>wl_Type = po_Ref owner, wl_Name = po_Name owner\<rparr>,
             su_Deployment := po_Name owner\<rparr>)"

definition summary_host :: "Alert \<Rightarrow> SystemSummary \<Rightarrow> SystemSummary" where
  "summary_host syslog sysSummary =
     (let sysSummary =
            (if al_Type syslog = ''ContainerLog'' \<and> al_NamespaceName syslog = PolicyDiscoveryContainerNamespace
             then sysSummary\<lparr>su_NamespaceName := PolicyDiscoveryContainerNamespace\<rparr> else sysSummary)
      in if al_Type syslog = ''HostLog'' \<or> al_Type syslog = ''MatchedHostPolicy''
         then sysSummary\<lparr>su_ContainerName := al_HostName syslog, su_NamespaceName := PolicyDiscoveryVMNamespace,
           su_PodName := PolicyDiscoveryVMPodName\<rparr>
         else sysSummary)"

text \<open>The resources of the cluster are fetched again when the cluster of the event is not the one of the last
  successful fetch; an error leaves empty lists behind.\<close>

definition fetch_cluster :: "(string \<Rightarrow> resources option) \<Rightarrow> Alert \<Rightarrow> ClusterCache \<Rightarrow> ClusterCache" where
  "fetch_cluster GetAllClusterResources syslog cache =
     (if cc_existingClustername cache \<noteq> al_ClusterName syslog then
        (case GetAllClusterResources (al_ClusterName syslog) of
           None \<Rightarrow> cache\<lparr>cc_services := [], cc_pods := []\<rparr>
         | Some (_, services, _, pods) \<Rightarrow>
             \<lparr>cc_services = services, cc_pods = pods, cc_existingClustername = al_ClusterName syslog\<rparr>)
      else cache)"

definition with_network :: "NwInfo \<Rightarrow> SystemSummary \<Rightarrow> SystemSummary" where
  "with_network info sysSummary = sysSummary\<lparr>su_NwType := ni_nwrule info, su_IP := ni_ip info,
     su_Port := ParseInt 32 (ni_port info), su_BindPort := ni_bindPort info, su_BindAddress := ni_bindAddress info,
     su_Protocol := ni_protocol info, su_DestNamespace := ni_destNs info, su_DestLabels := ni_destLabel info\<rparr>"

text \<open>A round of the loop up to the assignment to the map; \<^verbatim>\<open>None\<close> is \<^verbatim>\<open>continue\<close>.\<close>

definition syslog_summary ::
  "(string \<Rightarrow> resources option) \<Rightarrow> SummaryCfg \<Rightarrow> ClusterCache \<Rightarrow> Alert \<Rightarrow> go_panic + (ClusterCache \<times> SystemSummary option)" where
  "syslog_summary GetAllClusterResources cfg cache syslog =
     (if HasPrefix (al_Source syslog) ''./'' then Inr (cache, None)
      else if HasPrefix (al_Resource syslog) ''./'' then Inr (cache, None)
      else if al_Operation syslog \<noteq> ''File'' \<and> al_Operation syslog \<noteq> ''Process'' \<and> al_Operation syslog \<noteq> ''Network''
      then Inr (cache, None)
      else
       (let sysSummary = summary_base cfg syslog in
        if al_Operation syslog = ''Network'' then
          (let cache = fetch_cluster GetAllClusterResources syslog cache in
           go_bind (extractNetworkInfoFromSystemLog syslog (cc_pods cache) (cc_services cache)) (\<lambda>r.
             case r of Inl err \<Rightarrow> Inr (cache, None)
             | Inr info \<Rightarrow> Inr (cache, Some (summary_host syslog (with_network info sysSummary)))))
        else Inr (cache, Some (summary_host syslog
               (sysSummary\<lparr>su_NwType := [], su_IP := [], su_Port := 0, su_Protocol := [], su_DestNamespace := [],
                  su_DestLabels := [], su_Destination := first_word (al_Resource syslog)\<rparr>)))))"

text \<open>A missing key of the map reads as the zero value.\<close>

definition summary_count :: "SummaryMap \<Rightarrow> SystemSummary \<Rightarrow> 32 word" where
  "summary_count m s = (case map_of m s of None \<Rightarrow> 0 | Some tc \<Rightarrow> tc_Count tc)"

definition appendSummaryDataToSummaryMap :: "SystemSummary \<Rightarrow> int \<Rightarrow> SummaryMap \<Rightarrow> SummaryMap" where
  "appendSummaryDataToSummaryMap summary ts m =
     AList.update summary \<lparr>tc_Count = summary_count m summary + 1, tc_UpdatedTime = ts\<rparr> m"

definition convertSysLogToSysSummaryMap ::
  "(string \<Rightarrow> resources option) \<Rightarrow> SummaryCfg \<Rightarrow> Alert list \<Rightarrow> SummaryMap \<Rightarrow> go_panic + SummaryMap" where
  "convertSysLogToSysSummaryMap GetAllClusterResources cfg syslogs m =
     go_bind (foldM (\<lambda>(cache, m) syslog.
         go_bind (syslog_summary GetAllClusterResources cfg cache syslog) (\<lambda>(cache, s).
           Inr (cache, case s of None \<Rightarrow> m | Some s \<Rightarrow> appendSummaryDataToSummaryMap s (al_Timestamp syslog) m)))
       (ClusterCache_zero, m) syslogs) (\<lambda>(cache, m). Inr m)"

section \<open>Counting\<close>

text \<open>The number of events in the entries of a map with a property.\<close>

definition summary_total :: "(SystemSummary \<Rightarrow> bool) \<Rightarrow> SummaryMap \<Rightarrow> 32 word" where
  "summary_total P m = sum_list (map (\<lambda>e. tc_Count (snd e)) (filter (\<lambda>e. P (fst e)) m))"

lemma summary_total_Nil [simp]: "summary_total P [] = 0"
  by (simp add: summary_total_def)

lemma summary_total_Cons [simp]:
  "summary_total P (e # m) = (if P (fst e) then tc_Count (snd e) else 0) + summary_total P m"
  by (simp add: summary_total_def)

lemma summary_total_append [simp]: "summary_total P (m @ m') = summary_total P m + summary_total P m'"
  by (simp add: summary_total_def)

lemma summary_count_Cons [simp]:
  "summary_count (e # m) s = (if fst e = s then tc_Count (snd e) else summary_count m s)"
  by (simp add: summary_count_def)

lemma summary_total_update:
  "summary_total P (AList.update k v m) =
   summary_total P m + (if P k then tc_Count v - summary_count m k else 0)"
  by (induction m) (auto simp: summary_count_def split: option.splits)

lemma summary_total_delete:
  "distinct (map fst m) \<Longrightarrow>
   summary_total P (AList.delete k m) = summary_total P m - (if P k then summary_count m k else 0)"
proof (induction m)
  case (Cons e m)
  have "AList.delete k m = m" if "k \<notin> fst ` set m" using that by (induction m) (auto simp: AList.delete_eq)
  moreover have "summary_count m k = 0" if "k \<notin> fst ` set m"
    using that by (metis map_of_eq_None_iff option.simps(4) summary_count_def)
  ultimately show ?case using Cons by (cases "fst e = k") (auto simp: case_prod_beta)
qed (simp add: summary_count_def)

lemma summary_total_mset: "mset m = mset m' \<Longrightarrow> summary_total P m = summary_total P m'"
proof -
  assume "mset m = mset m'"
  then have "mset (map (\<lambda>e. tc_Count (snd e)) (filter (\<lambda>e. P (fst e)) m)) =
      mset (map (\<lambda>e. tc_Count (snd e)) (filter (\<lambda>e. P (fst e)) m'))"
    by simp
  then show ?thesis unfolding summary_total_def by (metis sum_mset_sum_list)
qed

lemma map_of_appendSummary [simp]:
  "map_of (appendSummaryDataToSummaryMap s ts m) k =
   (if k = s then Some \<lparr>tc_Count = summary_count m s + 1, tc_UpdatedTime = ts\<rparr> else map_of m k)"
  by (simp add: appendSummaryDataToSummaryMap_def update_conv')

lemma summary_count_appendSummary [simp]:
  "summary_count (appendSummaryDataToSummaryMap s ts m) k = summary_count m k + (if k = s then 1 else 0)"
  by (simp add: summary_count_def)

lemma appendSummaryDataToSummaryMap_distinct [simp]:
  "distinct (map fst m) \<Longrightarrow> distinct (map fst (appendSummaryDataToSummaryMap s ts m))"
  by (simp add: appendSummaryDataToSummaryMap_def distinct_update)

text \<open>The events of a batch that are counted, with their times.\<close>

fun syslog_summaries ::
  "(string \<Rightarrow> resources option) \<Rightarrow> SummaryCfg \<Rightarrow> ClusterCache \<Rightarrow> Alert list \<Rightarrow> go_panic + (SystemSummary \<times> int) list" where
  "syslog_summaries res cfg cache [] = Inr []"
| "syslog_summaries res cfg cache (l # ls) =
     go_bind (syslog_summary res cfg cache l) (\<lambda>(cache, s).
     go_bind (syslog_summaries res cfg cache ls) (\<lambda>es.
       Inr ((case s of None \<Rightarrow> [] | Some s \<Rightarrow> [(s, al_Timestamp l)]) @ es)))"

lemma go_bind_assoc: "go_bind (go_bind m f) g = go_bind m (\<lambda>x. go_bind (f x) g)"
  by (cases m) auto

lemma go_bind_Inr [simp]: "go_bind m Inr = m"
  by (cases m) auto

lemma convert_summaries:
  "go_bind (foldM (\<lambda>(cache, m) syslog.
       go_bind (syslog_summary res cfg cache syslog) (\<lambda>(cache, s).
         Inr (cache, case s of None \<Rightarrow> m | Some s \<Rightarrow> appendSummaryDataToSummaryMap s (al_Timestamp syslog) m)))
     (cache, m) ls) (\<lambda>(cache, m). Inr m) =
   go_bind (syslog_summaries res cfg cache ls)
     (\<lambda>es. Inr (fold (\<lambda>(s, t). appendSummaryDataToSummaryMap s t) es m))"
proof (induction ls arbitrary: cache m)
  case (Cons l ls)
  show ?case
  proof (cases "syslog_summary res cfg cache l")
    case (Inr r)
    obtain cache' s where r: "r = (cache', s)" by fastforce
    show ?thesis using Inr r Cons.IH by (cases s) (auto simp: go_bind_assoc)
  qed simp
qed simp

lemma convertSysLogToSysSummaryMap_eq:
  "convertSysLogToSysSummaryMap res cfg ls m =
   go_bind (syslog_summaries res cfg ClusterCache_zero ls)
     (\<lambda>es. Inr (fold (\<lambda>(s, t). appendSummaryDataToSummaryMap s t) es m))"
  unfolding convertSysLogToSysSummaryMap_def by (rule convert_summaries)

lemma map_of_fold_append:
  "map_of (fold (\<lambda>(s, t). appendSummaryDataToSummaryMap s t) es m) s =
   (case filter (\<lambda>e. fst e = s) es of [] \<Rightarrow> map_of m s
    | evs \<Rightarrow> Some \<lparr>tc_Count = summary_count m s + of_nat (length evs), tc_UpdatedTime = snd (last evs)\<rparr>)"
proof (induction es arbitrary: m)
  case (Cons e es)
  obtain a t where e: "e = (a, t)" by fastforce
  show ?case
    by (simp add: Cons.IH e split: list.splits)
qed simp

lemma summary_total_fold_append:
  "summary_total P (fold (\<lambda>(s, t). appendSummaryDataToSummaryMap s t) es m) =
   summary_total P m + of_nat (length (filter (\<lambda>e. P (fst e)) es))"
proof (induction es arbitrary: m)
  case (Cons e es)
  then show ?case
    by (cases e) (simp add: appendSummaryDataToSummaryMap_def summary_total_update)
qed simp

lemma distinct_fold_append:
  "distinct (map fst m) \<Longrightarrow> distinct (map fst (fold (\<lambda>(s, t). appendSummaryDataToSummaryMap s t) es m))"
  by (induction es arbitrary: m) auto

section \<open>Panics\<close>

lemma isl_scan_field: "isl (scan_field w k f info) \<longleftrightarrow> no_value [k] w"
  by (cases "field_value w") (use isl_field_value [of w] in \<open>auto simp: scan_field_def no_value_def\<close>)

lemma scan_fields_isl:
  assumes "\<And>i. isl (g i) \<longleftrightarrow> b"
  shows "isl (go_bind (scan_field w k f info) g) \<longleftrightarrow> no_value [k] w \<or> b"
  using isl_scan_field [of w k f info] assms by (cases "scan_field w k f info") auto

lemma isl_scan_tcp: "isl (scan_tcp c pods services info w) \<longleftrightarrow> no_value [''remoteip'', ''port'', ''protocol''] w"
  unfolding scan_tcp_def
  by (subst scan_fields_isl, subst scan_fields_isl, rule isl_scan_field, rule refl) (auto simp: no_value_def)

lemma isl_scan_bind: "isl (scan_bind info w) \<longleftrightarrow> no_value [''sin_port'', ''sin_addr'', ''sa_family''] w"
  unfolding scan_bind_def
  by (subst scan_fields_isl, subst scan_fields_isl, rule isl_scan_field, rule refl) (auto simp: no_value_def)

text \<open>The loop over the words for \<^verbatim>\<open>AF_UNIX\<close> ends at the first path that is not empty.\<close>

definition path_found :: "string \<Rightarrow> bool" where
  "path_found w \<longleftrightarrow> Contains w ''sun_path'' \<and>
     (case field_value w of Inl e \<Rightarrow> False | Inr v \<Rightarrow> v \<noteq> [])"

lemma isl_scan_unix:
  "isl (scan_unix info ws) \<longleftrightarrow> list_ex (no_value [''sun_path'']) (takeWhile (\<lambda>w. \<not> path_found w) ws)"
proof (induction ws)
  case (Cons w ws)
  show ?case
    using isl_field_value [of w] Cons.IH
    by (cases "field_value w") (auto simp: path_found_def no_value_def)
qed simp

definition summary_panics :: "Alert \<Rightarrow> bool" where
  "summary_panics netLog \<longleftrightarrow>
     (let data = al_Data netLog; ws = Split (al_Resource netLog) (CHR '' '') in
      list_ex (Contains data) [''tcp_connect'', ''SYS_CONNECT'', ''tcp_accept'', ''SYS_BIND''] \<and>
      (if Contains data ''tcp_'' then list_ex (no_value [''remoteip'', ''port'', ''protocol'']) ws
       else if Contains (al_Resource netLog) ''AF_UNIX'' then
         list_ex (no_value [''sun_path'']) (takeWhile (\<lambda>w. \<not> path_found w) ws)
       else Contains data ''SYS_BIND'' \<and> list_ex (no_value [''sin_port'', ''sin_addr'', ''sa_family'']) ws))"

lemma isl_go_bind_Inr: "isl (go_bind m (\<lambda>x. Inr (f x))) \<longleftrightarrow> isl m"
  by (cases m) auto

lemma isl_extractNetworkInfo:
  "isl (extractNetworkInfoFromSystemLog netLog pods services) \<longleftrightarrow> summary_panics netLog"
  unfolding extractNetworkInfoFromSystemLog_def summary_panics_def Let_def
  by (simp add: isl_go_bind_Inr isl_foldM [OF isl_scan_tcp] isl_foldM [OF isl_scan_bind] isl_scan_unix)

lemma isl_syslog_summary:
  "isl (syslog_summary res cfg cache syslog) \<longleftrightarrow>
     \<not> HasPrefix (al_Source syslog) ''./'' \<and> \<not> HasPrefix (al_Resource syslog) ''./'' \<and>
     al_Operation syslog = ''Network'' \<and> summary_panics syslog"
proof -
  have "isl (go_bind (extractNetworkInfoFromSystemLog syslog p s) (\<lambda>r.
      case r of Inl err \<Rightarrow> Inr (c, None) | Inr info \<Rightarrow> Inr (c, Some (f info)))) \<longleftrightarrow> summary_panics syslog"
    for p s and c :: ClusterCache and f :: "NwInfo \<Rightarrow> SystemSummary"
    unfolding isl_extractNetworkInfo [symmetric, of syslog p s]
    by (cases "extractNetworkInfoFromSystemLog syslog p s") (auto split: sum.splits)
  then show ?thesis unfolding syslog_summary_def Let_def by auto
qed

section \<open>Properties\<close>

text \<open>Events are counted one by one. The new map has the counts of the old one plus the number of events of
  the batch with that summary, and the time of the last one; an event is left out only by the tests at the
  start of the loop or because it is no connection, not by its position in the batch.\<close>

theorem convertSysLogToSysSummaryMap_counts:
  assumes "convertSysLogToSysSummaryMap GetAllClusterResources cfg syslogs m = Inr m'"
  shows "\<exists>es. syslog_summaries GetAllClusterResources cfg ClusterCache_zero syslogs = Inr es \<and>
    (\<forall>s. map_of m' s = (case filter (\<lambda>e. fst e = s) es of [] \<Rightarrow> map_of m s
       | evs \<Rightarrow> Some \<lparr>tc_Count = summary_count m s + of_nat (length evs), tc_UpdatedTime = snd (last evs)\<rparr>))"
proof -
  obtain es where es: "syslog_summaries GetAllClusterResources cfg ClusterCache_zero syslogs = Inr es"
    and m': "m' = fold (\<lambda>(s, t). appendSummaryDataToSummaryMap s t) es m"
    using assms by (auto simp: convertSysLogToSysSummaryMap_eq go_bind_Inr_iff)
  then show ?thesis by (simp only: m' map_of_fold_append) simp
qed

text \<open>One event with a word that has no value ends the program: the conversion of a batch panics exactly if the
  batch has a network event that names an address, a port, a path or a protocol without an equals sign where the code
  takes what is behind it. Resources of the cluster do not matter.\<close>

theorem convertSysLogToSysSummaryMap_panics_iff:
  "isl (convertSysLogToSysSummaryMap GetAllClusterResources cfg syslogs m) \<longleftrightarrow>
     list_ex (\<lambda>l. \<not> HasPrefix (al_Source l) ''./'' \<and> \<not> HasPrefix (al_Resource l) ''./'' \<and>
       al_Operation l = ''Network'' \<and> summary_panics l) syslogs"
proof -
  have "isl (syslog_summaries GetAllClusterResources cfg cache syslogs) \<longleftrightarrow>
      list_ex (\<lambda>l. \<not> HasPrefix (al_Source l) ''./'' \<and> \<not> HasPrefix (al_Resource l) ''./'' \<and>
        al_Operation l = ''Network'' \<and> summary_panics l) syslogs" for cache
  proof (induction syslogs arbitrary: cache)
    case (Cons l ls)
    show ?case
    proof (cases "syslog_summary GetAllClusterResources cfg cache l")
      case (Inl e)
      then show ?thesis using isl_syslog_summary [of GetAllClusterResources cfg cache l] by simp
    next
      case (Inr r)
      obtain cache' s where r: "r = (cache', s)" by fastforce
      then show ?thesis
        using Inr isl_syslog_summary [of GetAllClusterResources cfg cache l] Cons.IH [of cache']
        by (auto simp: isl_go_bind_Inr)
    qed
  qed simp
  then show ?thesis by (simp add: convertSysLogToSysSummaryMap_eq isl_go_bind_Inr)
qed

text \<open>A failed fetch of another cluster is remembered wrongly: the resources are gone and the name of the last successful
  fetch stays, so that the next event of that cluster is resolved against no pod at all.\<close>

lemma fetch_cluster_forgets:
  assumes "GetAllClusterResources c' = None" and "c' \<noteq> c" and "al_ClusterName l' = c'" and "al_ClusterName l = c"
    and "cc_existingClustername cache = c"
  shows "cc_pods (fetch_cluster GetAllClusterResources l (fetch_cluster GetAllClusterResources l' cache)) = [] \<and>
    cc_services (fetch_cluster GetAllClusterResources l (fetch_cluster GetAllClusterResources l' cache)) = []"
  using assms by (simp add: fetch_cluster_def)

section \<open>Witnesses\<close>

definition demo_alert :: "string \<Rightarrow> string \<Rightarrow> string \<Rightarrow> int \<Rightarrow> Alert" where
  "demo_alert operation resource data time = \<lparr>al_Timestamp = time, al_UpdatedTime = [], al_ClusterName = ''c'',
     al_HostName = ''h'', al_NamespaceName = ''ns'', al_PodName = ''pod'', al_Labels = ''app=a'', al_ContainerID = ''1'',
     al_ContainerName = ''ct'', al_ContainerImage = ''img'', al_ParentProcessName = [], al_ProcessName = [],
     al_HostPPID = 0, al_HostPID = 0, al_PPID = 0, al_PID = 0, al_UID = 0, al_Type = ''ContainerLog'',
     al_Source = ''/bin/sh -c x'', al_Operation = operation, al_Resource = resource, al_Data = data,
     al_Result = ''Passed'', al_Action = [], al_Enforcer = [], al_Tags = [], al_Message = [], al_Severity = [],
     al_PolicyName = [], al_Owner = Some \<lparr>po_Ref = ''Deployment'', po_Name = ''d''\<rparr>\<rparr>"

definition demo_cfg :: SummaryCfg where
  "demo_cfg = \<lparr>sc_ClusterName = [], sc_WorkspaceId = 1, sc_ClusterId = 2\<rparr>"

definition demo_logs :: "Alert list" where
  "demo_logs = [demo_alert ''File'' ''/etc/x'' [] 3, demo_alert ''Network'' ''remoteip=10.0.0.1 port=80'' ''kprobe=tcp_connect'' 4,
     demo_alert ''Syscall'' ''x'' [] 5, demo_alert ''File'' ''/etc/x'' [] 6]"

definition demo_file :: SystemSummary where
  "demo_file = SystemSummary_zero\<lparr>su_ClusterName := ''c'', su_ClusterId := 2, su_NamespaceName := ''ns'',
     su_ContainerName := ''ct'', su_ContainerImage := ''img'', su_ContainerID := ''1'', su_PodName := ''pod'',
     su_Operation := ''File'', su_Labels := ''app=a'', su_Deployment := ''d'', su_Source := ''/bin/sh'',
     su_Destination := ''/etc/x'', su_Action := ''Allow'', su_WorkspaceId := 1,
     su_Workload := \<lparr>wl_Type = ''Deployment'', wl_Name = ''d''\<rparr>\<rparr>"

theorem convertSysLogToSysSummaryMap_counts_witness:
  "\<exists>m'. convertSysLogToSysSummaryMap (\<lambda>_. None) demo_cfg demo_logs [] = Inr m' \<and>
     map_of m' demo_file = Some \<lparr>tc_Count = 2, tc_UpdatedTime = 6\<rparr>"
proof -
  have run: "\<not> isl (convertSysLogToSysSummaryMap (\<lambda>_. None) demo_cfg demo_logs [])" by code_simp
  then obtain m' where m': "convertSysLogToSysSummaryMap (\<lambda>_. None) demo_cfg demo_logs [] = Inr m'"
    by (cases "convertSysLogToSysSummaryMap (\<lambda>_. None) demo_cfg demo_logs []") auto
  have ev: "filter (\<lambda>e. fst e = demo_file) (projr (syslog_summaries (\<lambda>_. None) demo_cfg ClusterCache_zero demo_logs)) =
      [(demo_file, 3), (demo_file, 6)]"
    by code_simp
  obtain es where es: "syslog_summaries (\<lambda>_. None) demo_cfg ClusterCache_zero demo_logs = Inr es"
    "map_of m' demo_file = (case filter (\<lambda>e. fst e = demo_file) es of [] \<Rightarrow> map_of [] demo_file
       | evs \<Rightarrow> Some \<lparr>tc_Count = summary_count [] demo_file + of_nat (length evs), tc_UpdatedTime = snd (last evs)\<rparr>)"
    using convertSysLogToSysSummaryMap_counts [OF m'] by blast
  have "filter (\<lambda>e. fst e = demo_file) es = [(demo_file, 3), (demo_file, 6)]" using ev es(1) by simp
  then have "map_of m' demo_file = Some \<lparr>tc_Count = 2, tc_UpdatedTime = 6\<rparr>"
    using es(2) by (simp add: summary_count_def)
  then show ?thesis using m' by blast
qed

end
