(* ===== verification/SummaryAggregate.thy ===== *)
theory SummaryAggregate
  imports SystemSummary
begin

text \<open>
  \<^verbatim>\<open>aggregateSummaryMap\<close> of \<^verbatim>\<open>observability/publisher.go\<close>: the file events of the map are taken out, the
  files of each pod and process are aggregated, and the events are put back under the aggregated paths, with their
  counts added up.
\<close>

section \<open>The code\<close>

definition file_key :: "SystemSummary \<Rightarrow> string" where
  "file_key s = su_PodName s @ ''_'' @ su_Source s"

definition paths_of :: "(string \<times> 'a list) list \<Rightarrow> string \<Rightarrow> 'a list" where
  "paths_of m key = (case map_of m key of None \<Rightarrow> [] | Some ps \<Rightarrow> ps)"

text \<open>The first loop, over the entries of the map in their order: the state is \<^verbatim>\<open>podFilePaths\<close>,
  \<^verbatim>\<open>fileSummarizerMap\<close> and \<^verbatim>\<open>summaryMap\<close>.\<close>

definition take_file ::
  "SystemSummary \<times> SysSummaryTimeCount \<Rightarrow> (string \<times> string list) list \<times> SummaryMap \<times> SummaryMap \<Rightarrow>
   (string \<times> string list) list \<times> SummaryMap \<times> SummaryMap" where
  "take_file = (\<lambda>(sysSummary, summaryTimeCount) (podFilePaths, fileSummarizerMap, summaryMap).
     if su_Operation sysSummary = FileOperation then
       (let key = file_key sysSummary in
        (AList.update key (paths_of podFilePaths key @ [su_Destination sysSummary]) podFilePaths,
         AList.update sysSummary summaryTimeCount fileSummarizerMap,
         AList.delete sysSummary summaryMap))
     else (podFilePaths, fileSummarizerMap, summaryMap))"

text \<open>The loop over the aggregated paths of a key, up to its \<^verbatim>\<open>break\<close>.\<close>

fun aggregate_destination :: "SysPath list \<Rightarrow> string \<Rightarrow> go_panic + string" where
  "aggregate_destination [] destination = Inr destination"
| "aggregate_destination (path # files) destination =
     (if HasPrefix destination (sp_Path path) then
        (if length destination = length (sp_Path path) then Inr (sp_Path path)
         else go_bind (index destination (length (TrimSuffix (sp_Path path) ''/''))) (\<lambda>c.
           if c = CHR ''/'' then Inr (sp_Path path) else aggregate_destination files destination))
      else aggregate_destination files destination)"

text \<open>A round of the last loop.\<close>

definition put_back ::
  "(string \<times> SysPath list) list \<Rightarrow> SummaryMap \<Rightarrow> SystemSummary \<times> SysSummaryTimeCount \<Rightarrow> go_panic + SummaryMap" where
  "put_back aggPodFilePaths summaryMap = (\<lambda>(sysSummary, summaryTimeCount).
     go_bind (aggregate_destination (paths_of aggPodFilePaths (file_key sysSummary)) (su_Destination sysSummary))
       (\<lambda>destination.
         let sysSummary = sysSummary\<lparr>su_Destination := destination\<rparr> in
         Inr (case map_of summaryMap sysSummary of
             Some timeCount \<Rightarrow> AList.update sysSummary
               \<lparr>tc_Count = tc_Count timeCount + tc_Count summaryTimeCount,
                tc_UpdatedTime = (if tc_UpdatedTime summaryTimeCount > tc_UpdatedTime timeCount
                  then tc_UpdatedTime summaryTimeCount else tc_UpdatedTime timeCount)\<rparr> summaryMap
           | None \<Rightarrow> AList.update sysSummary summaryTimeCount summaryMap)))"

text \<open>The orders: of the two loops over maps of summaries, and of the two maps of \<^verbatim>\<open>AggregatePaths\<close>.\<close>

record agg_orders =
  ao_summaries :: "SummaryMap \<Rightarrow> SummaryMap"
  ao_files :: "SummaryMap \<Rightarrow> SummaryMap"
  ao_tree :: "tree_map \<Rightarrow> tree_map"
  ao_paths :: "(string \<times> bool) list \<Rightarrow> (string \<times> bool) list"

definition agg_orders_ok :: "agg_orders \<Rightarrow> bool" where
  "agg_orders_ok ord \<longleftrightarrow> iter_order (ao_summaries ord) \<and> iter_order (ao_files ord) \<and>
     iter_order (ao_tree ord) \<and> iter_order (ao_paths ord)"

definition aggregate_paths_of :: "agg_orders \<Rightarrow> (string \<times> string list) list \<Rightarrow> (string \<times> SysPath list) list" where
  "aggregate_paths_of ord podFilePaths =
     map (\<lambda>(key, files). (key, AggregatePaths (ao_tree ord) (ao_paths ord) files)) podFilePaths"

definition aggregateSummaryMap :: "agg_orders \<Rightarrow> SummaryMap \<Rightarrow> go_panic + SummaryMap" where
  "aggregateSummaryMap ord summaryMap =
     (let (podFilePaths, fileSummarizerMap, summaryMap) =
            fold take_file (ao_summaries ord summaryMap) ([], [], summaryMap)
      in foldM (put_back (aggregate_paths_of ord podFilePaths)) summaryMap (ao_files ord fileSummarizerMap))"

section \<open>The destination\<close>

definition goes_to :: "SysPath \<Rightarrow> string \<Rightarrow> bool" where
  "goes_to path destination \<longleftrightarrow> HasPrefix destination (sp_Path path) \<and>
     (length destination = length (sp_Path path) \<or>
      destination ! length (TrimSuffix (sp_Path path) ''/'') = CHR ''/'')"

definition new_destination :: "SysPath list \<Rightarrow> string \<Rightarrow> string" where
  "new_destination files destination =
     (case List.find (\<lambda>path. goes_to path destination) files of None \<Rightarrow> destination | Some path \<Rightarrow> sp_Path path)"

lemma length_TrimSuffix: "length (TrimSuffix s p) \<le> length s"
  by (simp add: TrimSuffix_def)

lemma aggregate_destination_eq: "aggregate_destination files d = Inr (new_destination files d)"
proof (induction files)
  case (Cons path files)
  have "index d (length (TrimSuffix (sp_Path path) ''/'')) = Inr (d ! length (TrimSuffix (sp_Path path) ''/''))"
    if "HasPrefix d (sp_Path path)" "length d \<noteq> length (sp_Path path)"
  proof -
    have "length (sp_Path path) < length d"
      using that by (auto simp: HasPrefix_iff dest: prefix_length_le)
    then show ?thesis using length_TrimSuffix [of "sp_Path path" "''/''"] by (simp add: index_def)
  qed
  then show ?case using Cons.IH by (simp add: new_destination_def goes_to_def)
qed (simp add: new_destination_def)

text \<open>The new destination is the old one, or a path of the list that contains it.\<close>

lemma goes_to_covers:
  assumes "goes_to path d"
  shows "sp_Path path = d \<or> HasPrefix d (with_slash (sp_Path path))"
proof (cases "length d = length (sp_Path path)")
  case True
  then show ?thesis using assms by (auto simp: goes_to_def HasPrefix_iff prefix_def)
next
  case False
  obtain r where d: "d = sp_Path path @ r" "r \<noteq> []"
    using assms False by (auto simp: goes_to_def HasPrefix_iff prefix_def)
  then have "d ! length (TrimSuffix (sp_Path path) ''/'') = CHR ''/''" using assms False by (simp add: goes_to_def)
  then show ?thesis
  proof (cases "HasSuffix (sp_Path path) ''/''")
    case False
    then show ?thesis using \<open>d ! _ = _\<close> d
      by (cases r) (auto simp: TrimSuffix_def with_slash_def HasPrefix_def)
  qed (simp add: with_slash_def d HasPrefix_def)
qed

section \<open>Taking the files out\<close>

abbreviation is_file :: "SystemSummary \<times> SysSummaryTimeCount \<Rightarrow> bool" where
  "is_file e \<equiv> su_Operation (fst e) = FileOperation"

text \<open>The destinations recorded for a key, in the order of the loop.\<close>

definition key_files :: "SummaryMap \<Rightarrow> string \<Rightarrow> string list" where
  "key_files m key = map (\<lambda>e. su_Destination (fst e)) (filter (\<lambda>e. is_file e \<and> file_key (fst e) = key) m)"

lemma update_new: "k \<notin> fst ` set xs \<Longrightarrow> AList.update k v xs = xs @ [(k, v)]"
  by (induction xs) auto

lemma paths_of_update: "paths_of (AList.update k v m) k' = (if k' = k then v else paths_of m k')"
  by (simp add: paths_of_def update_conv')

lemma fold_take_file:
  assumes "distinct (map fst es)" and "fst ` set es \<inter> fst ` set fm = {}"
    and "fold take_file es (pfp, fm, m) = (pfp', fm', m')"
  shows "(\<forall>key. paths_of pfp' key = paths_of pfp key @ key_files es key) \<and> fm' = fm @ filter is_file es \<and>
    m' = filter (\<lambda>e. fst e \<notin> fst ` set (filter is_file es)) m"
  using assms
proof (induction es arbitrary: pfp fm m)
  case (Cons e es)
  obtain s tc where e: "e = (s, tc)" by fastforce
  show ?case
  proof (cases "is_file e")
    case True
    let ?pfp = "AList.update (file_key s) (paths_of pfp (file_key s) @ [su_Destination s]) pfp"
    have step: "take_file e (pfp, fm, m) = (?pfp, fm @ [(s, tc)], AList.delete s m)"
      using True Cons.prems(2) e by (simp add: take_file_def update_new Let_def)
    have "(\<forall>key. paths_of pfp' key = paths_of ?pfp key @ key_files es key) \<and>
        fm' = (fm @ [(s, tc)]) @ filter is_file es \<and>
        m' = filter (\<lambda>e. fst e \<notin> fst ` set (filter is_file es)) (AList.delete s m)"
      by (rule Cons.IH) (use Cons.prems e step in auto)
    then show ?thesis using True e
      by (auto simp: paths_of_update key_files_def AList.delete_eq intro!: filter_cong)
  next
    case False
    have "take_file e (pfp, fm, m) = (pfp, fm, m)" using False e by (simp add: take_file_def)
    then have "(\<forall>key. paths_of pfp' key = paths_of pfp key @ key_files es key) \<and> fm' = fm @ filter is_file es \<and>
        m' = filter (\<lambda>e. fst e \<notin> fst ` set (filter is_file es)) m"
      by (intro Cons.IH) (use Cons.prems in auto)
    then show ?thesis using False by (simp add: key_files_def)
  qed
qed (auto simp: key_files_def)

text \<open>The three variables after the first loop.\<close>

lemma take_files:
  assumes "iter_order ord" and "distinct (map fst m)" and "fold take_file (ord m) ([], [], m) = (pfp, fm, rest)"
  shows "paths_of pfp key = key_files (ord m) key" and "fm = filter is_file (ord m)"
    and "rest = filter (\<lambda>e. \<not> is_file e) m"
proof -
  have "mset (map fst (ord m)) = mset (map fst m)" by (rule iter_order_map [OF assms(1)])
  then have "distinct (map fst (ord m))" using assms(2) by (metis mset_eq_imp_distinct_iff)
  note t = fold_take_file [OF this _ assms(3)]
  show "paths_of pfp key = key_files (ord m) key" and fm: "fm = filter is_file (ord m)"
    using t by (simp_all add: paths_of_def)
  have "fst e \<in> fst ` set (filter is_file (ord m)) \<longleftrightarrow> is_file e" if "e \<in> set m" for e
    using that iter_order_set [OF assms(1)] by force
  then show "rest = filter (\<lambda>e. \<not> is_file e) m"
    using t by (auto intro: filter_cong)
qed

section \<open>Putting them back\<close>

definition moved :: "(string \<Rightarrow> SysPath list) \<Rightarrow> SystemSummary \<Rightarrow> SystemSummary" where
  "moved aggs s = s\<lparr>su_Destination := new_destination (aggs (file_key s)) (su_Destination s)\<rparr>"

definition add_counts :: "SysSummaryTimeCount \<Rightarrow> SysSummaryTimeCount \<Rightarrow> SysSummaryTimeCount" where
  "add_counts a b = \<lparr>tc_Count = tc_Count a + tc_Count b, tc_UpdatedTime = max (tc_UpdatedTime a) (tc_UpdatedTime b)\<rparr>"

definition put :: "SystemSummary \<Rightarrow> SysSummaryTimeCount \<Rightarrow> SummaryMap \<Rightarrow> SummaryMap" where
  "put s tc m = AList.update s (case map_of m s of Some t \<Rightarrow> add_counts t tc | None \<Rightarrow> tc) m"

lemma put_back_eq: "put_back aggs m (s, tc) = Inr (put (moved (paths_of aggs) s) tc m)"
  by (simp add: put_back_def put_def moved_def add_counts_def aggregate_destination_eq max_def Let_def
      split: option.splits)

lemma foldM_put_back:
  "foldM (put_back aggs) m es = Inr (fold (\<lambda>e. put (moved (paths_of aggs) (fst e)) (snd e)) es m)"
  by (induction es arbitrary: m) (auto simp: put_back_eq)

lemma map_of_put:
  "map_of (put s tc m) k = (if k = s then Some (case map_of m s of Some t \<Rightarrow> add_counts t tc | None \<Rightarrow> tc) else map_of m k)"
  by (simp add: put_def update_conv')

lemma summary_count_put: "summary_count (put s tc m) k = summary_count m k + (if k = s then tc_Count tc else 0)"
  by (simp add: summary_count_def map_of_put add_counts_def split: option.splits)

lemma summary_total_put: "summary_total P (put s tc m) = summary_total P m + (if P s then tc_Count tc else 0)"
proof -
  have "tc_Count (case map_of m s of Some t \<Rightarrow> add_counts t tc | None \<Rightarrow> tc) = summary_count m s + tc_Count tc"
    by (simp add: summary_count_def add_counts_def split: option.splits)
  then show ?thesis by (simp add: put_def summary_total_update)
qed

lemma summary_total_fold_put:
  "summary_total P (fold (\<lambda>e. put (f (fst e)) (snd e)) es m) =
   summary_total P m + summary_total (\<lambda>s. P (f s)) es"
  by (induction es arbitrary: m) (auto simp: summary_total_put)

lemma distinct_fold_put:
  "distinct (map fst m) \<Longrightarrow> distinct (map fst (fold (\<lambda>e. put (f (fst e)) (snd e)) es m))"
  by (induction es arbitrary: m) (auto simp: put_def distinct_update)

text \<open>The aggregated paths of a key.\<close>

definition key_paths :: "agg_orders \<Rightarrow> SummaryMap \<Rightarrow> string \<Rightarrow> SysPath list" where
  "key_paths ord m key = AggregatePaths (ao_tree ord) (ao_paths ord) (key_files (ao_summaries ord m) key)"

lemma AggregatePaths_Nil: "iter_order ord' \<Longrightarrow> iter_order ord \<Longrightarrow> AggregatePaths ord ord' [] = []"
  using set_AggregatePaths [of "[]" ord ord']
  by (simp add: agg_paths_def agg_leaf_def all_components_def no_wild_def)

lemma paths_of_aggregate:
  assumes "agg_orders_ok ord" and "\<And>key. paths_of pfp key = key_files (ao_summaries ord m) key"
  shows "paths_of (aggregate_paths_of ord pfp) = key_paths ord m"
proof
  fix key
  have "map_of (aggregate_paths_of ord pfp) key =
      map_option (AggregatePaths (ao_tree ord) (ao_paths ord)) (map_of pfp key)"
    by (induction pfp) (auto simp: aggregate_paths_of_def)
  then show "paths_of (aggregate_paths_of ord pfp) key = key_paths ord m key"
    using assms(1) assms(2) [of key] AggregatePaths_Nil [of "ao_paths ord" "ao_tree ord"]
    by (auto simp: paths_of_def key_paths_def agg_orders_ok_def split: option.splits)
qed

lemma aggregateSummaryMap_eq:
  assumes "agg_orders_ok ord" and "distinct (map fst m)"
  shows "aggregateSummaryMap ord m = Inr (fold (\<lambda>e. put (moved (key_paths ord m) (fst e)) (snd e))
    (ao_files ord (filter is_file (ao_summaries ord m))) (filter (\<lambda>e. \<not> is_file e) m))"
proof -
  obtain pfp fm rest where t: "fold take_file (ao_summaries ord m) ([], [], m) = (pfp, fm, rest)"
    by (metis surj_pair)
  have "iter_order (ao_summaries ord)" using assms(1) by (simp add: agg_orders_ok_def)
  note f = take_files [OF this assms(2) t]
  show ?thesis
    using paths_of_aggregate [OF assms(1) f(1)] f(2,3) t
    by (simp add: aggregateSummaryMap_def foldM_put_back)
qed

lemma summary_total_split:
  "summary_total P (filter (\<lambda>e. \<not> Q e) m) + summary_total P (filter Q m) = summary_total P m"
  by (induction m) auto

lemma distinct_filter_fst: "distinct (map fst m) \<Longrightarrow> distinct (map fst (filter Q m))"
  by (induction m) auto

section \<open>The order does not matter\<close>

text \<open>A path without empty components that the tokens describe completely and none of which reads as a
  regular expression.\<close>

definition plain_path :: "string \<Rightarrow> bool" where
  "plain_path p \<longleftrightarrow> canonical p \<and> \<not> Contains p ''//'' \<and> list_all (\<lambda>t. t \<notin> set WildPaths) (path_tokens p)"

lemma path_tokens_append:
  assumes "\<forall>t \<in> set us. good_token t" and "r = [] \<or> (\<exists>s. r = CHR ''/'' # s)"
  shows "path_tokens (concat us @ r) = us @ path_tokens r"
  using assms(1)
proof (induction us)
  case (Cons t us)
  have "concat us @ r = [] \<or> (\<exists>s. concat us @ r = CHR ''/'' # s)"
  proof (cases us)
    case Nil
    then show ?thesis using assms(2) by simp
  next
    case (Cons u us')
    then show ?thesis using Cons.prems by (auto simp: good_token_def)
  qed
  then show ?case using Cons.IH Cons.prems path_tokens_Cons [of t "concat us @ r"] by simp
qed simp

lemma plain_prefix_no_slash:
  assumes "plain_path p" and "prefix us (path_tokens p)" and "us \<noteq> []"
  shows "\<not> HasSuffix (concat us) ''/''"
proof
  assume end_slash: "HasSuffix (concat us) ''/''"
  obtain ts t where us: "us = ts @ [t]" using assms(3) by (metis rev_exhaust)
  have "t \<in> set (path_tokens p)" using assms(2) us by (auto simp: prefix_def)
  then obtain d r where t: "t = CHR ''/'' # d # r" "CHR ''/'' \<notin> set r"
    using path_tokens_good [of t p] by (auto simp: good_token_def)
  obtain a where a: "concat ts @ CHR ''/'' # d # r = a @ ''/''"
    using end_slash us t by (auto simp: HasSuffix_iff suffix_def)
  have "r = [] \<and> d = CHR ''/''"
  proof (cases r rule: rev_cases)
    case Nil
    then have "(concat ts @ [CHR ''/'']) @ [d] = a @ [CHR ''/'']" using a by simp
    then show ?thesis using Nil by (metis append1_eq_conv)
  next
    case (snoc r' c)
    then have "(concat ts @ CHR ''/'' # d # r') @ [c] = a @ [CHR ''/'']" using a by simp
    then have "c = CHR ''/''" by (metis append1_eq_conv)
    then show ?thesis using t(2) snoc by simp
  qed
  moreover have "\<exists>b. p = concat us @ b"
    using assms(1,2) by (metis canonical_def concat_append plain_path_def prefixE)
  ultimately have "\<exists>a b. p = a @ ''//'' @ b" using us t by auto
  then show False using assms(1) by (auto simp: plain_path_def Contains_iff)
qed

lemma goes_to_prefix:
  assumes "goes_to \<lparr>sp_Path = (if d then with_slash (concat us) else concat us), sp_IsDir = d\<rparr> p"
    and "canonical p" and "\<forall>t \<in> set us. good_token t" and "\<not> HasSuffix (concat us) ''/''"
  shows "prefix us (path_tokens p)"
proof -
  let ?q = "if d then with_slash (concat us) else concat us"
  have trim: "TrimSuffix ?q ''/'' = concat us"
    using assms(4) by (simp add: TrimSuffix_def with_slash_def) (simp add: HasSuffix_def)
  obtain r where r: "p = ?q @ r" using assms(1) by (auto simp: goes_to_def HasPrefix_iff prefix_def)
  have "\<exists>s. p = concat us @ s \<and> (s = [] \<or> (\<exists>s'. s = CHR ''/'' # s'))"
  proof (cases d)
    case True
    then show ?thesis using r assms(4) by (simp add: with_slash_def)
  next
    case False
    have "r = [] \<or> (p ! length (concat us) = CHR ''/'')"
      using assms(1) r trim False by (auto simp: goes_to_def)
    then show ?thesis using r False by (cases r) auto
  qed
  then obtain s where s: "p = concat us @ s" "s = [] \<or> (\<exists>s'. s = CHR ''/'' # s')" by blast
  then have "path_tokens p = us @ path_tokens s" using path_tokens_append [OF assms(3)] by blast
  then show ?thesis by simp
qed

lemma agg_leaf_unique:
  assumes "agg_leaf C us d" and "agg_leaf C vs e" and "prefix us ts" and "prefix vs ts"
  shows "us = vs \<and> d = e"
proof -
  have no: "\<not> strict_prefix us vs" if "agg_leaf C us d" "agg_leaf C vs e" for us vs d e
  proof
    assume st: "strict_prefix us vs"
    note leaf = that(2)
    have "us \<noteq> []" using that(1) by (simp add: agg_leaf_def)
    then have "card (kids C us) \<le> Threshold" using that(2) st by (auto simp: agg_leaf_def)
    then have "kids C us = {}" using that(1) by (auto simp: agg_leaf_def)
    moreover obtain t zs where vs_eq: "vs = us @ t # zs"
      using st by (metis append_Nil2 list.exhaust prefixE strict_prefix_def)
    moreover obtain q where "q \<in> C" "prefix vs q" using leaf by (auto simp: agg_leaf_def)
    ultimately show False by (auto simp: kids_def prefix_def)
  qed
  have "us = vs" using no assms prefix_same_cases [OF assms(3,4)] by (metis strict_prefix_def)
  then show ?thesis using assms(1,2) by (auto simp: agg_leaf_def split: if_splits)
qed

lemma goes_to_unique:
  assumes plain: "\<And>q. q \<in> set ps \<Longrightarrow> plain_path q" and "p \<in> set ps"
    and sp: "sp \<in> agg_paths (all_components ps)" "goes_to sp p"
    and sp': "sp' \<in> agg_paths (all_components ps)" "goes_to sp' p"
  shows "sp = sp'"
proof -
  have pre: "prefix us (path_tokens p)"
    if leaf: "agg_leaf (all_components ps) us d"
      and to: "goes_to \<lparr>sp_Path = (if d then with_slash (concat us) else concat us), sp_IsDir = d\<rparr> p" for us d
  proof -
    obtain q where q: "q \<in> set ps" "prefix us (components q)" "us \<noteq> []"
      using leaf unfolding agg_leaf_def all_components_def by blast
    have "prefix us (path_tokens q)" using q(2) components_prefix by (metis prefix_order.trans)
    moreover have "t \<in> set (path_tokens q)" if "t \<in> set us" for t
      using that calculation by (auto simp: prefix_def)
    ultimately have "\<not> HasSuffix (concat us) ''/''" "\<forall>t \<in> set us. good_token t"
      using plain_prefix_no_slash [OF plain [OF q(1)]] q(3) path_tokens_good by blast+
    then show ?thesis using to goes_to_prefix plain [OF assms(2)] by (simp add: plain_path_def)
  qed
  from sp sp' show ?thesis unfolding agg_paths_def
    using pre agg_leaf_unique by blast
qed

lemma find_unique:
  assumes "set xs = set ys" and "\<And>x y. x \<in> set xs \<Longrightarrow> y \<in> set xs \<Longrightarrow> P x \<Longrightarrow> P y \<Longrightarrow> x = y"
  shows "List.find P xs = List.find P ys"
proof (cases "List.find P ys")
  case None
  then show ?thesis using assms(1) by (metis find_None_iff)
next
  case (Some y)
  then have y: "y \<in> set ys" "P y" by (auto simp: find_Some_iff)
  then obtain x where x: "List.find P xs = Some x"
    using assms(1) by (metis find_None_iff not_None_eq)
  then have "x \<in> set xs" "P x" by (auto simp: find_Some_iff)
  then show ?thesis using x Some y assms by simp
qed

lemma set_key_files: "iter_order ord \<Longrightarrow> set (key_files (ord m) key) = set (key_files m key)"
  by (auto simp: key_files_def iter_order_set)

lemma new_destination_order:
  assumes "agg_orders_ok ord" and "agg_orders_ok ord'"
    and "\<And>e. e \<in> set m \<Longrightarrow> is_file e \<Longrightarrow> plain_path (su_Destination (fst e))"
    and "e \<in> set m" and "is_file e"
  shows "moved (key_paths ord m) (fst e) = moved (key_paths ord' m) (fst e)"
proof -
  let ?k = "file_key (fst e)"
  have keys: "set (key_files (ao_summaries o' m) ?k) = set (key_files m ?k)" if "agg_orders_ok o'" for o'
    using that by (simp add: agg_orders_ok_def set_key_files)
  have plain: "plain_path q" if "q \<in> set (key_files m ?k)" for q
    using that assms(3) by (auto simp: key_files_def)
  have agg: "set (key_paths o' m ?k) = agg_paths (all_components (key_files m ?k))" if "agg_orders_ok o'" for o'
  proof -
    have "no_wild (key_files (ao_summaries o' m) ?k)"
      using plain keys [OF that] by (auto simp: no_wild_def plain_path_def list_all_iff)
    then show ?thesis using that keys [OF that]
      by (simp add: key_paths_def set_AggregatePaths agg_orders_ok_def all_components_def)
  qed
  have "su_Destination (fst e) \<in> set (key_files m ?k)" using assms(4,5) by (auto simp: key_files_def)
  note uni = goes_to_unique [OF plain this]
  have "List.find (\<lambda>path. goes_to path (su_Destination (fst e))) (key_paths ord m ?k) =
      List.find (\<lambda>path. goes_to path (su_Destination (fst e))) (key_paths ord' m ?k)"
    by (rule find_unique) (use agg assms(1,2) uni in auto)
  then show ?thesis by (simp add: moved_def new_destination_def)
qed

definition put_map ::
  "SystemSummary \<Rightarrow> SysSummaryTimeCount \<Rightarrow> (SystemSummary \<rightharpoonup> SysSummaryTimeCount) \<Rightarrow> (SystemSummary \<rightharpoonup> SysSummaryTimeCount)" where
  "put_map s tc M = M(s \<mapsto> (case M s of Some t \<Rightarrow> add_counts t tc | None \<Rightarrow> tc))"

lemma map_of_fold_put:
  "map_of (fold (\<lambda>e. put (f (fst e)) (snd e)) es m) = fold (\<lambda>e. put_map (f (fst e)) (snd e)) es (map_of m)"
proof (induction es arbitrary: m)
  case (Cons e es)
  have "map_of (put (f (fst e)) (snd e) m) = put_map (f (fst e)) (snd e) (map_of m)"
    by (simp add: fun_eq_iff map_of_put put_map_def)
  then show ?case using Cons.IH by simp
qed simp

lemma put_map_commute: "put_map s t \<circ> put_map s' t' = put_map s' t' \<circ> put_map s t"
  by (auto simp: fun_eq_iff put_map_def add_counts_def max.commute max.left_commute add.commute add.left_commute
      split: option.splits)

lemma map_of_fold_put_mset:
  assumes "mset es = mset es'" and "\<And>e. e \<in> set es \<Longrightarrow> f (fst e) = g (fst e)"
  shows "map_of (fold (\<lambda>e. put (f (fst e)) (snd e)) es m) = map_of (fold (\<lambda>e. put (g (fst e)) (snd e)) es' m)"
proof -
  have "fold (\<lambda>e. put_map (f (fst e)) (snd e)) es = fold (\<lambda>e. put_map (g (fst e)) (snd e)) es"
    using assms(2) by (intro ext fold_cong) auto
  also have "\<dots> = fold (\<lambda>e. put_map (g (fst e)) (snd e)) es'"
    using assms(1) by (intro fold_multiset_equiv) (auto simp: put_map_commute)
  finally show ?thesis by (simp add: map_of_fold_put)
qed

lemma map_of_fold_put_other:
  "(\<And>e. e \<in> set es \<Longrightarrow> f (fst e) \<noteq> k) \<Longrightarrow> map_of (fold (\<lambda>e. put (f (fst e)) (snd e)) es m) k = map_of m k"
  by (induction es arbitrary: m) (auto simp: map_of_put)

lemma map_of_filter_key: "Q k \<Longrightarrow> map_of (filter (\<lambda>e. Q (fst e)) m) k = map_of m k"
  by (induction m) auto

lemma keys_fold_put:
  "fst ` set (fold (\<lambda>e. put (f (fst e)) (snd e)) es m) \<subseteq> fst ` set m \<union> f ` fst ` set es"
proof (induction es arbitrary: m)
  case (Cons e es)
  have "fst ` set (put (f (fst e)) (snd e) m) = insert (f (fst e)) (fst ` set m)"
    by (simp add: put_def dom_update)
  then show ?case using Cons.IH [of "put (f (fst e)) (snd e) m"] by auto
qed simp

text \<open>The new keys are old keys with another destination.\<close>

lemma aggregate_keys:
  assumes "agg_orders_ok ord" and "distinct (map fst m)" and "aggregateSummaryMap ord m = Inr m'" and "(s, tc) \<in> set m'"
  shows "\<exists>s0 d. s0 \<in> fst ` set m \<and> s = s0\<lparr>su_Destination := d\<rparr>"
proof -
  let ?f = "moved (key_paths ord m)" and ?es = "ao_files ord (filter is_file (ao_summaries ord m))"
  have "set ?es \<subseteq> set m" using assms(1) by (auto simp: agg_orders_ok_def iter_order_set)
  then have es: "fst ` set ?es \<subseteq> fst ` set m" by (rule image_mono)
  have m': "m' = fold (\<lambda>e. put (?f (fst e)) (snd e)) ?es (filter (\<lambda>e. \<not> is_file e) m)"
    using aggregateSummaryMap_eq [OF assms(1,2)] assms(3) by simp
  have "s \<in> fst ` set m'" using assms(4) by (rule image_eqI [rotated]) simp
  then have "s \<in> fst ` set (filter (\<lambda>e. \<not> is_file e) m) \<union> ?f ` fst ` set ?es"
    unfolding m' by (rule subsetD [OF keys_fold_put])
  then have "s \<in> fst ` set m \<or> s \<in> ?f ` fst ` set m"
  proof
    assume "s \<in> fst ` set (filter (\<lambda>e. \<not> is_file e) m)"
    then show ?thesis by auto
  next
    assume "s \<in> ?f ` fst ` set ?es"
    then show ?thesis using image_mono [OF es, of ?f] by (intro disjI2) (rule subsetD)
  qed
  then show ?thesis
  proof
    assume "s \<in> fst ` set m"
    then show ?thesis by (intro exI [of _ s] exI [of _ "su_Destination s"]) simp
  qed (auto simp: moved_def)
qed

lemma aggregate_total:
  assumes "agg_orders_ok ord" and "distinct (map fst m)"
    and "\<And>s d. P (s\<lparr>su_Destination := d\<rparr>) = P s"
  shows "\<exists>m'. aggregateSummaryMap ord m = Inr m' \<and> distinct (map fst m') \<and>
    summary_total P m' = summary_total P m \<and>
    (\<forall>s. su_Operation s \<noteq> FileOperation \<longrightarrow> map_of m' s = map_of m s)"
proof -
  let ?f = "moved (key_paths ord m)" and ?es = "ao_files ord (filter is_file (ao_summaries ord m))"
  let ?r = "filter (\<lambda>e. \<not> is_file e) m"
  have es: "mset ?es = mset (filter is_file m)" using assms(1) by (simp add: agg_orders_ok_def iter_order_def)
  have "P (?f s) = P s" for s using assms(3) by (simp add: moved_def)
  then have "summary_total P (fold (\<lambda>e. put (?f (fst e)) (snd e)) ?es ?r) = summary_total P ?r + summary_total P ?es"
    by (simp add: summary_total_fold_put)
  also have "\<dots> = summary_total P m"
    using summary_total_mset [OF es] summary_total_split [of P is_file m] by simp
  finally have total: "summary_total P (fold (\<lambda>e. put (?f (fst e)) (snd e)) ?es ?r) = summary_total P m" .
  have "map_of (fold (\<lambda>e. put (?f (fst e)) (snd e)) ?es ?r) s = map_of m s" if "su_Operation s \<noteq> FileOperation" for s
  proof -
    have "map_of (fold (\<lambda>e. put (?f (fst e)) (snd e)) ?es ?r) s = map_of ?r s"
      using that mset_eq_setD [OF es] by (intro map_of_fold_put_other) (auto simp: moved_def)
    then show ?thesis using that map_of_filter_key [of "\<lambda>s. su_Operation s \<noteq> FileOperation" s m] by simp
  qed
  then show ?thesis using total aggregateSummaryMap_eq [OF assms(1,2)] assms(2)
    by (auto intro: distinct_fold_put distinct_filter_fst)
qed

section \<open>Properties\<close>

text \<open>C19: the aggregation loses no event and invents none. It never panics (the index into the destination is in
  range), keeps one entry for each key, and for every property of a summary that does not look at its
  destination the number of events with it stays the same; all entries that are no file events are kept as they
  are. The orders of the four maps do not matter for that.\<close>

theorem aggregateSummaryMap_conserves:
  assumes "agg_orders_ok ord" and "distinct (map fst m)"
    and "\<And>s d. P (s\<lparr>su_Destination := d\<rparr>) = P s"
  shows "\<exists>m'. aggregateSummaryMap ord m = Inr m' \<and> distinct (map fst m') \<and>
    summary_total P m' = summary_total P m \<and>
    (\<forall>s. su_Operation s \<noteq> FileOperation \<longrightarrow> map_of m' s = map_of m s)"
  using assms by (rule aggregate_total)

text \<open>The result does not depend on the orders in which Go iterates over the maps: with any two families of orders
  the aggregated maps have the same entries. The destinations of file events are plain
  paths.\<close>

theorem aggregateSummaryMap_order:
  assumes "agg_orders_ok ord" and "agg_orders_ok ord'" and "distinct (map fst m)"
    and "\<And>s tc. (s, tc) \<in> set m \<Longrightarrow> su_Operation s = FileOperation \<Longrightarrow> plain_path (su_Destination s)"
  shows "\<exists>m1 m2. aggregateSummaryMap ord m = Inr m1 \<and> aggregateSummaryMap ord' m = Inr m2 \<and> map_of m1 = map_of m2"
proof -
  have "mset (ao_files ord (filter is_file (ao_summaries ord m))) =
      mset (ao_files ord' (filter is_file (ao_summaries ord' m)))"
    using assms(1,2) by (simp add: agg_orders_ok_def iter_order_def)
  moreover have "moved (key_paths ord m) (fst e) = moved (key_paths ord' m) (fst e)"
    if "e \<in> set (ao_files ord (filter is_file (ao_summaries ord m)))" for e
  proof (rule new_destination_order [OF assms(1,2)])
    show "e \<in> set m" "is_file e" using that assms(1) by (auto simp: agg_orders_ok_def iter_order_set)
    show "plain_path (su_Destination (fst e))" if "e \<in> set m" "is_file e" for e
      using that assms(4) [of "fst e" "snd e"] by simp
  qed
  ultimately have "map_of (fold (\<lambda>e. put (moved (key_paths ord m) (fst e)) (snd e))
        (ao_files ord (filter is_file (ao_summaries ord m))) (filter (\<lambda>e. \<not> is_file e) m)) =
      map_of (fold (\<lambda>e. put (moved (key_paths ord' m) (fst e)) (snd e))
        (ao_files ord' (filter is_file (ao_summaries ord' m))) (filter (\<lambda>e. \<not> is_file e) m))"
    by (rule map_of_fold_put_mset)
  then show ?thesis using assms(1-3) by (simp add: aggregateSummaryMap_eq)
qed

section \<open>Witnesses\<close>

definition demo_orders :: agg_orders where
  "demo_orders = \<lparr>ao_summaries = (\<lambda>m. m), ao_files = rev, ao_tree = (\<lambda>m. m), ao_paths = rev\<rparr>"

definition demo_summary :: "string \<Rightarrow> string \<Rightarrow> SystemSummary" where
  "demo_summary operation destination = SystemSummary_zero\<lparr>su_PodName := ''pod'', su_Source := ''/bin/sh'',
     su_Operation := operation, su_Destination := destination\<rparr>"

definition demo_sum_map :: SummaryMap where
  "demo_sum_map = [(demo_summary ''File'' ''/a/1'', \<lparr>tc_Count = 1, tc_UpdatedTime = 5\<rparr>),
     (demo_summary ''File'' ''/a/2'', \<lparr>tc_Count = 2, tc_UpdatedTime = 9\<rparr>),
     (demo_summary ''Process'' ''/bin/ls'', \<lparr>tc_Count = 8, tc_UpdatedTime = 7\<rparr>),
     (demo_summary ''File'' ''/a/3'', \<lparr>tc_Count = 3, tc_UpdatedTime = 6\<rparr>),
     (demo_summary ''File'' ''/a/4'', \<lparr>tc_Count = 4, tc_UpdatedTime = 8\<rparr>)]"

lemma demo_orders_ok: "agg_orders_ok demo_orders"
  by (simp add: agg_orders_ok_def demo_orders_def)

lemma demo_map_distinct: "distinct (map fst demo_sum_map)"
  by (simp add: demo_sum_map_def demo_summary_def SystemSummary_zero_def)

lemma demo_aggregate:
  "aggregateSummaryMap demo_orders demo_sum_map =
   Inr [(demo_summary ''Process'' ''/bin/ls'', \<lparr>tc_Count = 8, tc_UpdatedTime = 7\<rparr>),
        (demo_summary ''File'' ''/a/'', \<lparr>tc_Count = 10, tc_UpdatedTime = 9\<rparr>)]"
  by code_simp

theorem aggregateSummaryMap_conserves_witness:
  "\<exists>m'. aggregateSummaryMap demo_orders demo_sum_map = Inr m' \<and> summary_total (\<lambda>s. su_PodName s = ''pod'') m' = 18"
proof -
  have "summary_total (\<lambda>s. su_PodName s = ''pod'') demo_sum_map = 18"
    by (simp add: demo_sum_map_def demo_summary_def)
  then show ?thesis
    using aggregateSummaryMap_conserves [OF demo_orders_ok demo_map_distinct, of "\<lambda>s. su_PodName s = ''pod''"] by auto
qed

theorem aggregateSummaryMap_order_witness:
  "\<exists>m1 m2. aggregateSummaryMap demo_orders demo_sum_map = Inr m1 \<and>
     aggregateSummaryMap (demo_orders\<lparr>ao_summaries := rev\<rparr>) demo_sum_map = Inr m2 \<and> map_of m1 = map_of m2"
proof (rule aggregateSummaryMap_order [OF demo_orders_ok _ demo_map_distinct])
  show "agg_orders_ok (demo_orders\<lparr>ao_summaries := rev\<rparr>)" by (simp add: agg_orders_ok_def demo_orders_def)
  have "list_all (\<lambda>(s, tc). su_Operation s = FileOperation \<longrightarrow> plain_path (su_Destination s)) demo_sum_map" by code_simp
  then show "plain_path (su_Destination s)" if "(s, tc) \<in> set demo_sum_map" "su_Operation s = FileOperation" for s tc
    using that by (auto simp: list_all_iff)
qed

end
