(* ===== verification/SummaryTable.thy ===== *)
theory SummaryTable
  imports SummaryAggregate PolicyTables
begin

text \<open>
  The table of summaries: \<^verbatim>\<open>libs/dbHandler.go\<close> with both drivers, and \<^verbatim>\<open>ProcessSystemSummary\<close> of
  \<^verbatim>\<open>observability/publisher.go\<close>, which aggregates the map, stores it and publishes it. A row is found by the hash of
  its columns; SHA-256 is a parameter. Only the driver of SQLite creates the table, so that a table is an option; its
  counts are integers of 64 bits, which the model does not bound. A text that reads as a number is stored as it is, also in the column
  \<^verbatim>\<open>ip\<close>, which is declared an integer.
\<close>

section \<open>Table\<close>

definition CreateSystemSummaryTableSQLite :: "string list" where
  "CreateSystemSummaryTableSQLite = [''id'', ''cluster_name'', ''cluster_id'', ''workspace_id'', ''namespace_name'',
     ''namespace_id'', ''container_name'', ''container_image'', ''container_id'', ''podname'', ''operation'', ''labels'',
     ''deployment_name'', ''source'', ''destination'', ''destination_namespace'', ''destination_labels'', ''type'', ''ip'',
     ''port'', ''protocol'', ''bindport'', ''bindaddr'', ''action'', ''count'', ''updated_time'', ''hash_id'']"

text \<open>The columns that hold a part of the summary are a summary whose other parts are zero.\<close>

record SumRow =
  sr_hash_id :: string
  sr_columns :: SystemSummary
  sr_count :: int
  sr_updated_time :: int

type_synonym SumTable = "SumRow list option"

definition CreateSystemSummaryTable :: "string \<Rightarrow> SumTable \<Rightarrow> SumTable" where
  "CreateSystemSummaryTable DBDriver table =
     (if DBDriver = ''sqlite3'' then (case table of None \<Rightarrow> Some [] | Some rows \<Rightarrow> Some rows) else table)"

definition summary_column :: "SumRow \<Rightarrow> string \<Rightarrow> string" where
  "summary_column r c =
     (let s = sr_columns r in
      if c = ''cluster_name'' then su_ClusterName s else if c = ''cluster_id'' then Itoa (su_ClusterId s)
      else if c = ''workspace_id'' then Itoa (su_WorkspaceId s) else if c = ''namespace_name'' then su_NamespaceName s
      else if c = ''namespace_id'' then Itoa (su_NamespaceId s) else if c = ''container_name'' then su_ContainerName s
      else if c = ''container_image'' then su_ContainerImage s else if c = ''container_id'' then su_ContainerID s
      else if c = ''podname'' then su_PodName s else if c = ''operation'' then su_Operation s
      else if c = ''labels'' then su_Labels s else if c = ''deployment_name'' then su_Deployment s
      else if c = ''source'' then su_Source s else if c = ''destination'' then su_Destination s
      else if c = ''destination_namespace'' then su_DestNamespace s
      else if c = ''destination_labels'' then su_DestLabels s else if c = ''type'' then su_NwType s
      else if c = ''ip'' then su_IP s else if c = ''port'' then Itoa (su_Port s)
      else if c = ''protocol'' then su_Protocol s else if c = ''bindport'' then su_BindPort s
      else if c = ''bindaddr'' then su_BindAddress s else if c = ''action'' then su_Action s
      else if c = ''count'' then Itoa (sr_count r) else if c = ''updated_time'' then Itoa (sr_updated_time r)
      else if c = ''hash_id'' then sr_hash_id r else [])"

text \<open>A query for a table or a column that does not exist is an error.\<close>

definition run_query :: "(string \<times> string) list \<Rightarrow> SumTable \<Rightarrow> string + SumRow list" where
  "run_query whereClause table =
     (case table of None \<Rightarrow> Inl ''no such table''
      | Some rows \<Rightarrow>
          if list_all (\<lambda>(c, v). c \<in> set CreateSystemSummaryTableSQLite) whereClause
          then Inr (filter (\<lambda>r. selected whereClause (summary_column r)) rows) else Inl ''no such column'')"

section \<open>Storing\<close>

definition summary_text :: "SystemSummary \<Rightarrow> string" where
  "summary_text s = su_ClusterName s @ Itoa (su_ClusterId s) @ Itoa (su_WorkspaceId s) @ su_NamespaceName s @
     Itoa (su_NamespaceId s) @ su_ContainerName s @ su_ContainerImage s @ su_ContainerID s @ su_PodName s @
     su_Operation s @ su_Labels s @ su_Deployment s @ su_Source s @ su_Destination s @ su_DestNamespace s @
     su_DestLabels s @ su_NwType s @ su_IP s @ Itoa (su_Port s) @ su_Protocol s @ su_Action s @ su_BindPort s @
     su_BindAddress s"

definition HashSystemSummary :: "(string \<Rightarrow> string) \<Rightarrow> SystemSummary \<Rightarrow> string" where
  "HashSystemSummary sha summary = sha (summary_text summary)"

definition summary_columns :: "SystemSummary \<Rightarrow> SystemSummary" where
  "summary_columns s = SystemSummary_zero\<lparr>su_ClusterName := su_ClusterName s, su_ClusterId := su_ClusterId s,
     su_WorkspaceId := su_WorkspaceId s, su_NamespaceName := su_NamespaceName s, su_NamespaceId := su_NamespaceId s,
     su_ContainerName := su_ContainerName s, su_ContainerImage := su_ContainerImage s,
     su_ContainerID := su_ContainerID s, su_PodName := su_PodName s, su_Operation := su_Operation s,
     su_Labels := su_Labels s, su_Deployment := su_Deployment s, su_Source := su_Source s,
     su_Destination := su_Destination s, su_DestNamespace := su_DestNamespace s, su_DestLabels := su_DestLabels s,
     su_NwType := su_NwType s, su_IP := su_IP s, su_Port := su_Port s, su_Protocol := su_Protocol s,
     su_Action := su_Action s, su_BindPort := su_BindPort s, su_BindAddress := su_BindAddress s\<rparr>"

definition sort_labels :: "SystemSummary \<Rightarrow> SystemSummary" where
  "sort_labels summary = summary\<lparr>su_Labels := Join (sort (Split (su_Labels summary) (CHR '',''))) '',''\<rparr>"

text \<open>The statement of SQLite; the new row, or the update of the row with the same \<^verbatim>\<open>hash_id\<close>.\<close>

definition upsert_row :: "SumRow \<Rightarrow> SumRow list \<Rightarrow> SumRow list" where
  "upsert_row row rows =
     (if list_ex (\<lambda>r. sr_hash_id r = sr_hash_id row) rows
      then map (\<lambda>r. if sr_hash_id r = sr_hash_id row
             then r\<lparr>sr_count := sr_count r + sr_count row, sr_updated_time := sr_updated_time row\<rparr> else r) rows
      else rows @ [row])"

definition summary_row :: "(string \<Rightarrow> string) \<Rightarrow> SystemSummary \<Rightarrow> SysSummaryTimeCount \<Rightarrow> SumRow" where
  "summary_row sha summary timeCount =
     (let summary = sort_labels summary in
      \<lparr>sr_hash_id = HashSystemSummary sha summary, sr_columns = summary_columns summary,
       sr_count = sint (tc_Count timeCount), sr_updated_time = tc_UpdatedTime timeCount\<rparr>)"

text \<open>MySQL has no \<^verbatim>\<open>ON CONFLICT\<close>: the statement cannot be prepared.\<close>

definition upsertSysSummarySQL ::
  "bool \<Rightarrow> (string \<Rightarrow> string) \<Rightarrow> SystemSummary \<Rightarrow> SysSummaryTimeCount \<Rightarrow> SumTable \<Rightarrow> string option \<times> SumTable" where
  "upsertSysSummarySQL mysql sha summary timeCount table =
     (case table of None \<Rightarrow> (Some ''no such table'', None)
      | Some rows \<Rightarrow>
          if mysql then (Some ''syntax error'', Some rows)
          else (None, Some (upsert_row (summary_row sha summary timeCount) rows)))"

text \<open>The loop of both drivers, which ends at the first error.\<close>

fun upsert_all ::
  "bool \<Rightarrow> (string \<Rightarrow> string) \<Rightarrow> SummaryMap \<Rightarrow> SumTable \<Rightarrow> string option \<times> SumTable" where
  "upsert_all mysql sha [] table = (None, table)"
| "upsert_all mysql sha ((ss, sstc) # es) table =
     (case upsertSysSummarySQL mysql sha ss sstc table of
        (Some err, table) \<Rightarrow> (Some err, table)
      | (None, table) \<Rightarrow> upsert_all mysql sha es table)"

definition UpsertSystemSummaryMySQL ::
  "(string \<Rightarrow> string) \<Rightarrow> (SummaryMap \<Rightarrow> SummaryMap) \<Rightarrow> SummaryMap \<Rightarrow> SumTable \<Rightarrow> string option \<times> SumTable" where
  "UpsertSystemSummaryMySQL sha ord sysSummary table = upsert_all True sha (ord sysSummary) table"

definition UpsertSystemSummarySQLite ::
  "(string \<Rightarrow> string) \<Rightarrow> (SummaryMap \<Rightarrow> SummaryMap) \<Rightarrow> SummaryMap \<Rightarrow> SumTable \<Rightarrow> string option \<times> SumTable" where
  "UpsertSystemSummarySQLite sha ord sysSummary table = upsert_all False sha (ord sysSummary) table"

definition UpsertSystemSummary ::
  "string \<Rightarrow> (string \<Rightarrow> string) \<Rightarrow> (SummaryMap \<Rightarrow> SummaryMap) \<Rightarrow> SummaryMap \<Rightarrow> SumTable \<Rightarrow> string option \<times> SumTable" where
  "UpsertSystemSummary DBDriver sha ord summaryMap table =
     (if DBDriver = ''mysql'' then UpsertSystemSummaryMySQL sha ord summaryMap table
      else if DBDriver = ''sqlite3'' then UpsertSystemSummarySQLite sha ord summaryMap table
      else (Some ''unknown db driver'', table))"

section \<open>Reading\<close>

text \<open>\<^verbatim>\<open>if v != "" { concatWhereClause(&whereClause, c); args = append(args, v) }\<close>\<close>

definition where_text :: "string \<Rightarrow> string \<Rightarrow> (string \<times> string) list \<Rightarrow> (string \<times> string) list" where
  "where_text c v w = (if v \<noteq> [] then concatWhereClause w c v else w)"

definition where_number :: "string \<Rightarrow> int \<Rightarrow> (string \<times> string) list \<Rightarrow> (string \<times> string) list" where
  "where_number c v w = (if v \<noteq> 0 then concatWhereClause w c (Itoa v) else w)"

text \<open>A condition for each part of the filter that is not zero; one of the columns is misspelled.\<close>

definition summary_where :: "SystemSummary \<Rightarrow> (string \<times> string) list" where
  "summary_where f =
     (let w = where_text ''cluster_name'' (su_ClusterName f) [];
          w = where_number ''cluster_id'' (su_ClusterId f) w;
          w = where_number ''workpsace_id'' (su_WorkspaceId f) w;
          w = where_text ''namespace_name'' (su_NamespaceName f) w;
          w = where_number ''namespace_id'' (su_NamespaceId f) w;
          w = where_text ''container_name'' (su_ContainerName f) w;
          w = where_text ''container_image'' (su_ContainerImage f) w;
          w = where_text ''container_id'' (su_ContainerID f) w;
          w = where_text ''podname'' (su_PodName f) w;
          w = where_text ''operation'' (su_Operation f) w;
          w = where_text ''labels'' (su_Labels f) w;
          w = where_text ''deployment_name'' (su_Deployment f) w;
          w = where_text ''source'' (su_Source f) w
      in where_text ''destination'' (su_Destination f) w)"

text \<open>The count is read into an \<^verbatim>\<open>int32\<close>, which is an error if it does not fit.\<close>

definition scan_count :: "int \<Rightarrow> (32 word) option" where
  "scan_count n = (if - (2 ^ 31) \<le> n \<and> n < 2 ^ 31 then Some (word_of_int n) else None)"

fun scan_rows :: "SumRow list \<Rightarrow> string + SystemSummary list" where
  "scan_rows [] = Inr []"
| "scan_rows (r # rows) =
     (case scan_count (sr_count r) of None \<Rightarrow> Inl ''value out of range''
      | Some n \<Rightarrow>
          (case scan_rows rows of Inl err \<Rightarrow> Inl err
           | Inr res \<Rightarrow> Inr ((sr_columns r)\<lparr>su_Count := n, su_UpdatedTime := sr_updated_time r\<rparr> # res)))"

definition getSysSummarySQL :: "SystemSummary \<Rightarrow> SumTable \<Rightarrow> string + SystemSummary list" where
  "getSysSummarySQL filterOptions table =
     (case run_query (summary_where filterOptions) table of Inl err \<Rightarrow> Inl err | Inr rows \<Rightarrow> scan_rows rows)"

definition GetSystemSummary :: "string \<Rightarrow> SystemSummary \<Rightarrow> SumTable \<Rightarrow> string + SystemSummary list" where
  "GetSystemSummary DBDriver filterOptions table =
     (if DBDriver = ''mysql'' \<or> DBDriver = ''sqlite3'' then getSysSummarySQL filterOptions table
      else Inl ''unknown db driver'')"

record ObsPodDetail =
  od_PodName :: string
  od_Namespace :: string
  od_ClusterName :: string
  od_ContainerName :: string
  od_Labels :: string
  od_DeployName :: string

text \<open>The same code for both drivers; the pod is looked for in a column that the table does not have.\<close>

definition GetPodNamesSQLite :: "ObsPodDetail \<Rightarrow> SumTable \<Rightarrow> string + string list" where
  "GetPodNamesSQLite f table =
     (let w = where_text ''cluster_name'' (od_ClusterName f) [];
          w = where_text ''namespace_name'' (od_Namespace f) w;
          w = where_text ''pod_name'' (od_PodName f) w;
          w = where_text ''labels'' (od_Labels f) w;
          w = where_text ''container_name'' (od_ContainerName f) w;
          w = where_text ''deployment_name'' (od_DeployName f) w
      in case run_query w table of Inl err \<Rightarrow> Inl err | Inr rows \<Rightarrow> Inr (map (\<lambda>r. su_PodName (sr_columns r)) rows))"

definition GetDeployNamesSQLite :: "ObsPodDetail \<Rightarrow> SumTable \<Rightarrow> string + string list" where
  "GetDeployNamesSQLite f table =
     (let w = where_text ''cluster_name'' (od_ClusterName f) [];
          w = where_text ''namespace_name'' (od_Namespace f) w;
          w = where_text ''deployment_name'' (od_DeployName f) w;
          w = where_text ''labels'' (od_Labels f) w
      in case run_query w table of Inl err \<Rightarrow> Inl err | Inr rows \<Rightarrow> Inr (map (\<lambda>r. su_Deployment (sr_columns r)) rows))"

definition GetPodNamesMySQL :: "ObsPodDetail \<Rightarrow> SumTable \<Rightarrow> string + string list" where
  "GetPodNamesMySQL f table =
     (let w = where_text ''cluster_name'' (od_ClusterName f) [];
          w = where_text ''namespace_name'' (od_Namespace f) w;
          w = where_text ''pod_name'' (od_PodName f) w;
          w = where_text ''labels'' (od_Labels f) w;
          w = where_text ''container_name'' (od_ContainerName f) w;
          w = where_text ''deployment_name'' (od_DeployName f) w
      in case run_query w table of Inl err \<Rightarrow> Inl err | Inr rows \<Rightarrow> Inr (map (\<lambda>r. su_PodName (sr_columns r)) rows))"

definition GetDeployNamesMySQL :: "ObsPodDetail \<Rightarrow> SumTable \<Rightarrow> string + string list" where
  "GetDeployNamesMySQL f table =
     (let w = where_text ''cluster_name'' (od_ClusterName f) [];
          w = where_text ''namespace_name'' (od_Namespace f) w;
          w = where_text ''deployment_name'' (od_DeployName f) w;
          w = where_text ''labels'' (od_Labels f) w
      in case run_query w table of Inl err \<Rightarrow> Inl err | Inr rows \<Rightarrow> Inr (map (\<lambda>r. su_Deployment (sr_columns r)) rows))"

definition GetPodNames_db :: "string \<Rightarrow> ObsPodDetail \<Rightarrow> SumTable \<Rightarrow> string + string list" where
  "GetPodNames_db DBDriver f table =
     (if DBDriver = ''mysql'' then GetPodNamesMySQL f table
      else if DBDriver = ''sqlite3'' then GetPodNamesSQLite f table else Inl ''unknown db driver'')"

definition GetDeployNames_db :: "string \<Rightarrow> ObsPodDetail \<Rightarrow> SumTable \<Rightarrow> string + string list" where
  "GetDeployNames_db DBDriver f table =
     (if DBDriver = ''mysql'' then GetDeployNamesMySQL f table
      else if DBDriver = ''sqlite3'' then GetDeployNamesSQLite f table else Inl ''unknown db driver'')"

section \<open>The job\<close>

record SummaryJobs =
  sj_DBDriver :: string
  sj_WriteToDB :: bool
  sj_Publisher :: bool

record SummaryState =
  st_SummarizerMap :: SummaryMap
  st_table :: SumTable
  st_published :: "SystemSummary list"

definition with_count :: "SystemSummary \<times> SysSummaryTimeCount \<Rightarrow> SystemSummary" where
  "with_count = (\<lambda>(sysSummary, summaryTimeCount).
     sysSummary\<lparr>su_Count := tc_Count summaryTimeCount, su_UpdatedTime := tc_UpdatedTime summaryTimeCount\<rparr>)"

text \<open>An error of the database is logged. \<^verbatim>\<open>st_published\<close> are the calls of \<^verbatim>\<open>SysSummary.Publish\<close>.\<close>

definition ProcessSystemSummary ::
  "(string \<Rightarrow> string) \<Rightarrow> SummaryJobs \<Rightarrow> agg_orders \<Rightarrow> (SummaryMap \<Rightarrow> SummaryMap) \<Rightarrow> (SummaryMap \<Rightarrow> SummaryMap) \<Rightarrow>
   SummaryState \<Rightarrow> go_panic + SummaryState" where
  "ProcessSystemSummary sha cfg ord ord_db ord_pub st =
     (if length (st_SummarizerMap st) = 0 then Inr st
      else
       (let tempSummarizerMap = st_SummarizerMap st; st = st\<lparr>st_SummarizerMap := []\<rparr> in
        go_bind (aggregateSummaryMap ord tempSummarizerMap) (\<lambda>tempSummarizerMap.
          let st = (if sj_WriteToDB cfg
                then st\<lparr>st_table := snd (UpsertSystemSummary (sj_DBDriver cfg) sha ord_db tempSummarizerMap (st_table st))\<rparr>
                else st)
          in Inr (if sj_Publisher cfg
              then st\<lparr>st_published := st_published st @ map with_count (ord_pub tempSummarizerMap)\<rparr> else st))))"

section \<open>Rows\<close>

text \<open>The number of events in the rows with a property, as the counter of the map counts it.\<close>

definition rows_total :: "(SystemSummary \<Rightarrow> bool) \<Rightarrow> SumRow list \<Rightarrow> 32 word" where
  "rows_total P rows = sum_list (map (\<lambda>r. word_of_int (sr_count r)) (filter (\<lambda>r. P (sr_columns r)) rows))"

lemma rows_total_simps [simp]:
  "rows_total P [] = 0"
  "rows_total P (r # rows) = (if P (sr_columns r) then word_of_int (sr_count r) else 0) + rows_total P rows"
  "rows_total P (rows @ rows') = rows_total P rows + rows_total P rows'"
  by (simp_all add: rows_total_def)

text \<open>No two rows have the same hash, which is the hash of the columns.\<close>

definition rows_wf :: "(string \<Rightarrow> string) \<Rightarrow> SumRow list \<Rightarrow> bool" where
  "rows_wf sha rows \<longleftrightarrow> distinct (map sr_hash_id rows) \<and>
     list_all (\<lambda>r. sr_hash_id r = HashSystemSummary sha (sr_columns r)) rows"

lemma summary_text_columns [simp]: "summary_text (summary_columns s) = summary_text s"
  by (simp add: summary_text_def summary_columns_def)

lemma Hash_columns [simp]: "HashSystemSummary sha (summary_columns s) = HashSystemSummary sha s"
  by (simp add: HashSystemSummary_def)

lemma summary_row_simps [simp]:
  "sr_hash_id (summary_row sha s tc) = HashSystemSummary sha (sort_labels s)"
  "sr_columns (summary_row sha s tc) = summary_columns (sort_labels s)"
  "sr_count (summary_row sha s tc) = sint (tc_Count tc)"
  "sr_updated_time (summary_row sha s tc) = tc_UpdatedTime tc"
  by (simp_all add: summary_row_def Let_def)

lemma upsert_row_wf:
  assumes "rows_wf sha rows" and "sr_hash_id row = HashSystemSummary sha (sr_columns row)"
  shows "rows_wf sha (upsert_row row rows)"
proof (cases "list_ex (\<lambda>r. sr_hash_id r = sr_hash_id row) rows")
  case True
  have "map sr_hash_id (upsert_row row rows) = map sr_hash_id rows" using True by (simp add: upsert_row_def)
  moreover have "list_all (\<lambda>r. sr_hash_id r = HashSystemSummary sha (sr_columns r)) (upsert_row row rows)"
    using assms True by (auto simp: rows_wf_def upsert_row_def list_all_iff)
  ultimately show ?thesis using assms(1) by (simp add: rows_wf_def)
next
  case False
  then show ?thesis using assms by (auto simp: rows_wf_def upsert_row_def list_ex_iff)
qed

lemma upsert_row_keys: "sr_columns ` set (upsert_row row rows) \<subseteq> insert (sr_columns row) (sr_columns ` set rows)"
  by (auto simp: upsert_row_def)

text \<open>An upsert adds the events of its row, where rows with the same hash agree on the property.\<close>

lemma rows_total_upsert:
  assumes "distinct (map sr_hash_id rows)"
    and "\<And>r. r \<in> set rows \<Longrightarrow> sr_hash_id r = sr_hash_id row \<Longrightarrow> P (sr_columns r) = P (sr_columns row)"
  shows "rows_total P (upsert_row row rows) =
    rows_total P rows + (if P (sr_columns row) then word_of_int (sr_count row) else 0)"
proof -
  let ?f = "\<lambda>r. if sr_hash_id r = sr_hash_id row
    then r\<lparr>sr_count := sr_count r + sr_count row, sr_updated_time := sr_updated_time row\<rparr> else r"
  have "rows_total P (map ?f rows) = rows_total P rows +
      (if list_ex (\<lambda>r. sr_hash_id r = sr_hash_id row) rows \<and> P (sr_columns row) then word_of_int (sr_count row) else 0)"
    using assms
  proof (induction rows)
    case (Cons r rows)
    have "map ?f rows = rows" if "sr_hash_id r = sr_hash_id row"
      using Cons.prems(1) that by (intro map_idI) (auto simp: image_iff)
    moreover have "\<not> list_ex (\<lambda>r. sr_hash_id r = sr_hash_id row) rows" if "sr_hash_id r = sr_hash_id row"
      using Cons.prems(1) that by (auto simp: list_ex_iff image_iff)
    ultimately show ?case using Cons by (cases "sr_hash_id r = sr_hash_id row") auto
  qed simp
  then show ?thesis by (auto simp: upsert_row_def)
qed

lemma upsert_all_sqlite:
  "upsert_all False sha es (Some rows) = (None, Some (fold (\<lambda>(s, tc). upsert_row (summary_row sha s tc)) es rows))"
  by (induction es arbitrary: rows) (auto simp: upsertSysSummarySQL_def)

lemma upsert_all_mysql: "snd (upsert_all True sha es table) = table"
  by (cases es; cases table) (auto simp: upsertSysSummarySQL_def)

lemma fold_upsert_total:
  assumes "rows_wf sha rows"
    and "\<And>a b. a \<in> S \<Longrightarrow> b \<in> S \<Longrightarrow> HashSystemSummary sha a = HashSystemSummary sha b \<Longrightarrow> P a = P b"
    and "sr_columns ` set rows \<subseteq> S" and "\<And>s tc. (s, tc) \<in> set es \<Longrightarrow> summary_columns (sort_labels s) \<in> S"
  shows "rows_wf sha (fold (\<lambda>(s, tc). upsert_row (summary_row sha s tc)) es rows) \<and>
    rows_total P (fold (\<lambda>(s, tc). upsert_row (summary_row sha s tc)) es rows) =
      rows_total P rows + summary_total (\<lambda>s. P (summary_columns (sort_labels s))) es"
  using assms(1,3,4)
proof (induction es arbitrary: rows)
  case (Cons e es)
  obtain s tc where e: "e = (s, tc)" by fastforce
  let ?row = "summary_row sha s tc"
  have row: "summary_columns (sort_labels s) \<in> S" using Cons.prems(3) [of s tc] e by simp
  have "P (sr_columns r) = P (sr_columns ?row)" if "r \<in> set rows" "sr_hash_id r = sr_hash_id ?row" for r
  proof (rule assms(2))
    show "sr_columns r \<in> S" "sr_columns ?row \<in> S" using that Cons.prems(2) row by auto
    show "HashSystemSummary sha (sr_columns r) = HashSystemSummary sha (sr_columns ?row)"
      using that Cons.prems(1) by (simp add: rows_wf_def list_all_iff)
  qed
  then have total: "rows_total P (upsert_row ?row rows) = rows_total P rows +
      (if P (summary_columns (sort_labels s)) then tc_Count tc else 0)"
    using Cons.prems(1) rows_total_upsert [of rows ?row P] by (simp add: rows_wf_def)
  have "rows_wf sha (upsert_row ?row rows)" using Cons.prems(1) by (rule upsert_row_wf) simp
  moreover have "sr_columns ` set (upsert_row ?row rows) \<subseteq> S"
  proof -
    have "insert (sr_columns ?row) (sr_columns ` set rows) \<subseteq> S" using Cons.prems(2) row by simp
    then show ?thesis using upsert_row_keys by (rule order_trans [rotated])
  qed
  moreover have "summary_columns (sort_labels s) \<in> S" if "(s, tc) \<in> set es" for s tc
    using Cons.prems(3) that by (meson list.set_intros(2))
  ultimately have "rows_wf sha (fold (\<lambda>(s, tc). upsert_row (summary_row sha s tc)) es (upsert_row ?row rows)) \<and>
      rows_total P (fold (\<lambda>(s, tc). upsert_row (summary_row sha s tc)) es (upsert_row ?row rows)) =
      rows_total P (upsert_row ?row rows) + summary_total (\<lambda>s. P (summary_columns (sort_labels s))) es"
    by (rule Cons.IH)
  then show ?case using total e by simp
qed simp

text \<open>The shared part of the job.\<close>

lemma ProcessSystemSummary_eq:
  assumes "st_SummarizerMap st \<noteq> []" and "aggregateSummaryMap ord (st_SummarizerMap st) = Inr m'"
  shows "ProcessSystemSummary sha cfg ord ord_db ord_pub st = Inr (st\<lparr>st_SummarizerMap := [],
    st_table := (if sj_WriteToDB cfg then snd (UpsertSystemSummary (sj_DBDriver cfg) sha ord_db m' (st_table st)) else st_table st),
    st_published := (if sj_Publisher cfg then st_published st @ map with_count (ord_pub m') else st_published st)\<rparr>)"
  using assms by (simp add: ProcessSystemSummary_def Let_def)

lemma summary_total_with_count:
  "(\<And>s n t. P (s\<lparr>su_Count := n, su_UpdatedTime := t\<rparr>) = P s) \<Longrightarrow>
   sum_list (map su_Count (filter P (map with_count m))) = summary_total P m"
  by (induction m) (auto simp: with_count_def)

lemma summary_columns_dest:
  "summary_columns (sort_labels (s\<lparr>su_Destination := d\<rparr>)) = (summary_columns (sort_labels s))\<lparr>su_Destination := d\<rparr>"
  by (simp add: summary_columns_def sort_labels_def)

lemma fold_upsert_fresh:
  assumes "distinct (map (\<lambda>e. HashSystemSummary sha (sort_labels (fst e))) es)"
    and "sr_hash_id ` set rows \<inter> (\<lambda>e. HashSystemSummary sha (sort_labels (fst e))) ` set es = {}"
  shows "fold (\<lambda>(s, tc). upsert_row (summary_row sha s tc)) es rows = rows @ map (\<lambda>(s, tc). summary_row sha s tc) es"
  using assms
proof (induction es arbitrary: rows)
  case (Cons e es)
  obtain s tc where e: "e = (s, tc)" by fastforce
  have "\<not> list_ex (\<lambda>r. sr_hash_id r = HashSystemSummary sha (sort_labels s)) rows"
    using Cons.prems(2) e by (auto simp: list_ex_iff image_iff)
  then have step: "upsert_row (summary_row sha s tc) rows = rows @ [summary_row sha s tc]"
    by (simp add: upsert_row_def)
  have "fold (\<lambda>(s, tc). upsert_row (summary_row sha s tc)) es (rows @ [summary_row sha s tc]) =
      (rows @ [summary_row sha s tc]) @ map (\<lambda>(s, tc). summary_row sha s tc) es"
    by (rule Cons.IH) (use Cons.prems e in auto)
  then show ?case using step e by simp
qed simp

lemma scan_count_sint [simp]: "scan_count (sint (w :: 32 word)) = Some w"
  using sint_ge [of w] sint_lt [of w] by (simp add: scan_count_def)

lemma scan_summary_rows:
  "scan_rows (map (\<lambda>(s, tc). summary_row sha s tc) es) =
   Inr (map (\<lambda>(s, tc). with_count (summary_columns (sort_labels s), tc)) es)"
  by (induction es) (auto simp: with_count_def)

lemma query_all: "run_query [] (Some rows) = Inr rows"
  by (simp add: run_query_def selected_def)

lemma summary_where_zero: "summary_where SystemSummary_zero = []"
  by (simp add: summary_where_def SystemSummary_zero_def where_text_def where_number_def)

lemma sort_labels_stored: "summary_columns (sort_labels s) = s \<Longrightarrow> sort_labels s = s"
proof -
  assume "summary_columns (sort_labels s) = s"
  then have "su_Labels (summary_columns (sort_labels s)) = su_Labels s" by simp
  then show ?thesis by (simp add: summary_columns_def sort_labels_def)
qed

text \<open>The number of all events needs nothing of the hash, and no publisher.\<close>

lemma ProcessSystemSummary_total:
  assumes "agg_orders_ok ord" and "iter_order ord_db" and "distinct (map fst (st_SummarizerMap st))"
    and "sj_DBDriver cfg = ''sqlite3''" and "sj_WriteToDB cfg" and "st_table st = Some rows" and "rows_wf sha rows"
    and "ProcessSystemSummary sha cfg ord ord_db ord_pub st = Inr st'"
  shows "\<exists>rows'. st_table st' = Some rows' \<and> st_SummarizerMap st' = [] \<and>
    rows_total (\<lambda>_. True) rows' = rows_total (\<lambda>_. True) rows + summary_total (\<lambda>_. True) (st_SummarizerMap st)"
proof (cases "st_SummarizerMap st = []")
  case True
  then show ?thesis using assms(6,8) by (auto simp: ProcessSystemSummary_def)
next
  case False
  obtain m' where m': "aggregateSummaryMap ord (st_SummarizerMap st) = Inr m'"
    and total: "summary_total (\<lambda>_. True) m' = summary_total (\<lambda>_. True) (st_SummarizerMap st)"
    using aggregate_total [OF assms(1,3), of "\<lambda>_. True"] by blast
  have "rows_total (\<lambda>_. True) (fold (\<lambda>(s, tc). upsert_row (summary_row sha s tc)) (ord_db m') rows) =
      rows_total (\<lambda>_. True) rows + summary_total (\<lambda>_. True) (ord_db m')"
    using fold_upsert_total [OF assms(7), of UNIV "\<lambda>_. True" "ord_db m'"] by simp
  moreover have "summary_total (\<lambda>_. True) (ord_db m') = summary_total (\<lambda>_. True) m'"
    using assms(2) by (auto simp: iter_order_def intro: summary_total_mset)
  ultimately show ?thesis
    using ProcessSystemSummary_eq [OF False m', of sha cfg ord_db ord_pub] assms(4-6,8) total
    by (auto simp: UpsertSystemSummary_def UpsertSystemSummarySQLite_def upsert_all_sqlite)
qed

section \<open>Properties\<close>

text \<open>C20: no event is lost and none is counted twice. A run of the job with SQLite does not panic, empties
  the map, and for every property of a summary that does not look at what the table leaves out or the job changes,
  the rows with the property count as many events more as there were in the map; the events published have the same number.
  The summaries that are in the table or may be stored (\<^verbatim>\<open>S\<close>) agree on the property when they have the same hash.\<close>

theorem ProcessSystemSummary_conserves:
  assumes "agg_orders_ok ord" and "iter_order ord_db" and "iter_order ord_pub"
    and "distinct (map fst (st_SummarizerMap st))" and "st_SummarizerMap st \<noteq> []"
    and "sj_DBDriver cfg = ''sqlite3''" and "sj_WriteToDB cfg" and "sj_Publisher cfg"
    and "st_table st = Some rows" and "rows_wf sha rows"
    and "\<And>s. P (summary_columns (sort_labels s)) = P s" and "\<And>s d. P (s\<lparr>su_Destination := d\<rparr>) = P s"
    and "\<And>s n t. P (s\<lparr>su_Count := n, su_UpdatedTime := t\<rparr>) = P s"
    and "\<And>a b. a \<in> S \<Longrightarrow> b \<in> S \<Longrightarrow> HashSystemSummary sha a = HashSystemSummary sha b \<Longrightarrow> P a = P b"
    and "sr_columns ` set rows \<subseteq> S"
    and "\<And>s d. s \<in> fst ` set (st_SummarizerMap st) \<Longrightarrow> (summary_columns (sort_labels s))\<lparr>su_Destination := d\<rparr> \<in> S"
  shows "\<exists>st' rows'. ProcessSystemSummary sha cfg ord ord_db ord_pub st = Inr st' \<and> st_SummarizerMap st' = [] \<and>
    st_table st' = Some rows' \<and> rows_wf sha rows' \<and>
    rows_total P rows' = rows_total P rows + summary_total P (st_SummarizerMap st) \<and>
    (\<exists>new. st_published st' = st_published st @ new \<and>
       sum_list (map su_Count (filter P new)) = summary_total P (st_SummarizerMap st))"
proof -
  obtain m' where m': "aggregateSummaryMap ord (st_SummarizerMap st) = Inr m'"
    and total: "summary_total P m' = summary_total P (st_SummarizerMap st)"
    using aggregate_total [OF assms(1,4), of P] assms(12) by blast
  let ?rows = "fold (\<lambda>(s, tc). upsert_row (summary_row sha s tc)) (ord_db m') rows"
  have db: "UpsertSystemSummary ''sqlite3'' sha ord_db m' (Some rows) = (None, Some ?rows)"
    by (simp add: UpsertSystemSummary_def UpsertSystemSummarySQLite_def upsert_all_sqlite)
  have "summary_columns (sort_labels s) \<in> S" if "(s, tc) \<in> set (ord_db m')" for s tc
  proof -
    have "(s, tc) \<in> set m'" using that assms(2) by (simp add: iter_order_set)
    then obtain s0 d where "s0 \<in> fst ` set (st_SummarizerMap st)" "s = s0\<lparr>su_Destination := d\<rparr>"
      using aggregate_keys [OF assms(1,4) m'] by blast
    then show ?thesis using assms(16) by (simp add: summary_columns_dest)
  qed
  then have "rows_wf sha ?rows \<and> rows_total P ?rows =
      rows_total P rows + summary_total (\<lambda>s. P (summary_columns (sort_labels s))) (ord_db m')"
    using fold_upsert_total [of sha rows S P "ord_db m'"] assms(10,14,15) by blast
  moreover have "summary_total P (ord_db m') = summary_total P m'" "summary_total P (ord_pub m') = summary_total P m'"
    using assms(2,3) by (auto simp: iter_order_def intro: summary_total_mset)
  moreover have "sum_list (map su_Count (filter P (map with_count (ord_pub m')))) = summary_total P (ord_pub m')"
    using assms(13) by (rule summary_total_with_count)
  ultimately show ?thesis
    using ProcessSystemSummary_eq [OF assms(5) m', of sha cfg ord_db ord_pub] assms(6-9,11) db total by simp
qed

text \<open>The hash is taken of the parts without a separator, so that different summaries share a row whatever
  the hash function: if the end of the identifier of a container is the start of the name of a pod, the events of the
  second pod are counted for the first, and no row names the second.\<close>

theorem UpsertSystemSummary_merges_different:
  assumes "s1 = s\<lparr>su_ContainerID := x @ y, su_PodName := z\<rparr>" and "s2 = s\<lparr>su_ContainerID := x, su_PodName := y @ z\<rparr>"
  shows "snd (upsertSysSummarySQL False sha s2 tc' (snd (upsertSysSummarySQL False sha s1 tc (Some [])))) =
    Some [(summary_row sha s1 tc)\<lparr>sr_count := sint (tc_Count tc) + sint (tc_Count tc'),
      sr_updated_time := tc_UpdatedTime tc'\<rparr>]"
proof -
  have "summary_text (sort_labels s2) = summary_text (sort_labels s1)"
    by (simp add: assms summary_text_def sort_labels_def)
  then have "HashSystemSummary sha (sort_labels s2) = HashSystemSummary sha (sort_labels s1)"
    by (simp add: HashSystemSummary_def)
  then show ?thesis by (simp add: upsertSysSummarySQL_def upsert_row_def)
qed

text \<open>With MySQL all events are lost: every run empties the map and leaves the database as it is.\<close>

theorem ProcessSystemSummary_mysql_loses:
  assumes "agg_orders_ok ord" and "distinct (map fst (st_SummarizerMap st))" and "sj_DBDriver cfg = ''mysql''"
  shows "\<exists>st'. ProcessSystemSummary sha cfg ord ord_db ord_pub st = Inr st' \<and> st_SummarizerMap st' = [] \<and>
    st_table st' = st_table st"
proof (cases "st_SummarizerMap st = []")
  case True
  then show ?thesis by (simp add: ProcessSystemSummary_def)
next
  case False
  obtain m' where "aggregateSummaryMap ord (st_SummarizerMap st) = Inr m'"
    using aggregate_total [OF assms(1,2), of "\<lambda>_. True"] by blast
  from ProcessSystemSummary_eq [OF False this, of sha cfg ord_db ord_pub] show ?thesis
    using assms(3) by (simp add: UpsertSystemSummary_def UpsertSystemSummaryMySQL_def upsert_all_mysql)
qed

text \<open>What is stored is read back: after the summaries of a map have been written to the empty table, a query without conditions
  returns each of them with its count and its time, in the order in which they were written. The summaries have only parts that
  the table has, sorted labels and different hashes.\<close>

theorem UpsertSystemSummary_roundtrip:
  assumes "iter_order ord" and "distinct (map fst m)"
    and "\<And>s tc. (s, tc) \<in> set m \<Longrightarrow> summary_columns (sort_labels s) = s"
    and "inj_on (HashSystemSummary sha) (fst ` set m)"
  shows "GetSystemSummary ''sqlite3'' SystemSummary_zero (snd (UpsertSystemSummary ''sqlite3'' sha ord m (Some []))) =
    Inr (map with_count (ord m))"
proof -
  have stored: "summary_columns (sort_labels (fst e)) = fst e" "sort_labels (fst e) = fst e" if "e \<in> set (ord m)" for e
    using that assms(1) assms(3) [of "fst e" "snd e"] sort_labels_stored by (simp_all add: iter_order_set)
  have hashes: "map (\<lambda>e. HashSystemSummary sha (sort_labels (fst e))) (ord m) = map (HashSystemSummary sha) (map fst (ord m))"
    using stored(2) by simp
  have "mset (map fst (ord m)) = mset (map fst m)" using assms(1) by (rule iter_order_map)
  then have "distinct (map fst (ord m))" using assms(2) by (metis mset_eq_imp_distinct_iff)
  moreover have "inj_on (HashSystemSummary sha) (set (map fst (ord m)))"
    using assms(1,4) by (simp add: iter_order_set)
  ultimately have "distinct (map (HashSystemSummary sha) (map fst (ord m)))"
    by (simp only: distinct_map)
  then have fresh: "fold (\<lambda>(s, tc). upsert_row (summary_row sha s tc)) (ord m) [] = map (\<lambda>(s, tc). summary_row sha s tc) (ord m)"
    using fold_upsert_fresh [of sha "ord m" "[]"] by (simp only: hashes) simp
  have "map (\<lambda>(s, tc). with_count (summary_columns (sort_labels s), tc)) (ord m) = map with_count (ord m)"
    using stored(1) by (auto intro: map_cong)
  then show ?thesis
    by (simp add: UpsertSystemSummary_def UpsertSystemSummarySQLite_def upsert_all_sqlite fresh GetSystemSummary_def
        getSysSummarySQL_def summary_where_zero query_all scan_summary_rows)
qed

text \<open>A request for a pod by its name fails: the column is misspelled. So does every request with MySQL, which has no such table.\<close>

lemma GetPodNames_by_name_fails:
  assumes "od_PodName f \<noteq> []"
  shows "isl (GetPodNames_db DBDriver f table)"
proof -
  have "isl (run_query (w @ (''pod_name'', v) # w') table)" for w w' v
    by (cases table) (auto simp: run_query_def CreateSystemSummaryTableSQLite_def)
  then have no: "isl (case run_query (w @ (''pod_name'', v) # w') table of Inl err \<Rightarrow> Inl err | Inr rows \<Rightarrow> Inr (g rows))"
    for w w' v and g :: "SumRow list \<Rightarrow> string list"
    using \<open>isl (run_query (w @ (''pod_name'', v) # w') table)\<close>
    by (cases "run_query (w @ (''pod_name'', v) # w') table") auto
  show ?thesis
    using assms no by (auto simp: GetPodNames_db_def GetPodNamesMySQL_def GetPodNamesSQLite_def Let_def where_text_def concatWhereClause_def)
qed

lemma GetSystemSummary_mysql_fails:
  "isl (GetSystemSummary ''mysql'' f (CreateSystemSummaryTable ''mysql'' None))"
  by (simp add: GetSystemSummary_def getSysSummarySQL_def run_query_def CreateSystemSummaryTable_def)

section \<open>Witnesses\<close>

definition demo_jobs :: SummaryJobs where
  "demo_jobs = \<lparr>sj_DBDriver = ''sqlite3'', sj_WriteToDB = True, sj_Publisher = True\<rparr>"

definition demo_state :: SummaryState where
  "demo_state = \<lparr>st_SummarizerMap = demo_sum_map, st_table = Some [], st_published = []\<rparr>"

theorem ProcessSystemSummary_conserves_witness:
  "\<exists>st' rows'. ProcessSystemSummary (\<lambda>t. t) demo_jobs demo_orders rev (\<lambda>m. m) demo_state = Inr st' \<and>
     st_table st' = Some rows' \<and> rows_total (\<lambda>s. su_PodName s = ''pod'') rows' = 18"
proof -
  let ?P = "\<lambda>s. su_PodName s = ''pod''"
  have total: "summary_total ?P (st_SummarizerMap demo_state) = 18"
    by (simp add: demo_state_def demo_sum_map_def demo_summary_def)
  have "\<exists>st' rows'. ProcessSystemSummary (\<lambda>t. t) demo_jobs demo_orders rev (\<lambda>m. m) demo_state = Inr st' \<and>
      st_SummarizerMap st' = [] \<and> st_table st' = Some rows' \<and> rows_wf (\<lambda>t. t) rows' \<and>
      rows_total ?P rows' = rows_total ?P [] + summary_total ?P (st_SummarizerMap demo_state) \<and>
      (\<exists>new. st_published st' = st_published demo_state @ new \<and>
         sum_list (map su_Count (filter ?P new)) = summary_total ?P (st_SummarizerMap demo_state))"
  proof (rule ProcessSystemSummary_conserves [OF demo_orders_ok iter_order_rev iter_order_id, where S = "{s. ?P s}"])
    show "distinct (map fst (st_SummarizerMap demo_state))" by (simp add: demo_state_def demo_map_distinct)
    show "(summary_columns (sort_labels s))\<lparr>su_Destination := d\<rparr> \<in> {s. ?P s}"
      if "s \<in> fst ` set (st_SummarizerMap demo_state)" for s d
      using that by (auto simp: demo_state_def demo_sum_map_def demo_summary_def summary_columns_def sort_labels_def)
  qed (simp_all add: demo_state_def demo_jobs_def demo_sum_map_def rows_wf_def summary_columns_def sort_labels_def)
  then show ?thesis using total by auto
qed

theorem UpsertSystemSummary_merges_different_witness:
  "snd (upsertSysSummarySQL False (\<lambda>t. t) (demo_summary ''Process'' ''/bin/ls''\<lparr>su_ContainerID := ''c'', su_PodName := ''1-web''\<rparr>)
      \<lparr>tc_Count = 2, tc_UpdatedTime = 7\<rparr>
     (snd (upsertSysSummarySQL False (\<lambda>t. t) (demo_summary ''Process'' ''/bin/ls''\<lparr>su_ContainerID := ''c1'', su_PodName := ''-web''\<rparr>)
        \<lparr>tc_Count = 1, tc_UpdatedTime = 5\<rparr> (Some [])))) =
   Some [(summary_row (\<lambda>t. t) (demo_summary ''Process'' ''/bin/ls''\<lparr>su_ContainerID := ''c1'', su_PodName := ''-web''\<rparr>)
      \<lparr>tc_Count = 1, tc_UpdatedTime = 5\<rparr>)\<lparr>sr_count := 3, sr_updated_time := 7\<rparr>]"
  using UpsertSystemSummary_merges_different [OF refl refl, where s = "demo_summary ''Process'' ''/bin/ls''" and x = "''c''"
      and y = "''1''" and z = "''-web''" and sha = "\<lambda>t. t" and tc = "\<lparr>tc_Count = 1, tc_UpdatedTime = 5\<rparr>"
      and tc' = "\<lparr>tc_Count = 2, tc_UpdatedTime = 7\<rparr>"]
  by simp

theorem ProcessSystemSummary_mysql_loses_witness:
  "\<exists>st'. ProcessSystemSummary (\<lambda>t. t) (demo_jobs\<lparr>sj_DBDriver := ''mysql''\<rparr>) demo_orders rev rev demo_state = Inr st' \<and>
     st_SummarizerMap st' = [] \<and> st_table st' = Some []"
  using ProcessSystemSummary_mysql_loses [OF demo_orders_ok, of demo_state "demo_jobs\<lparr>sj_DBDriver := ''mysql''\<rparr>" "\<lambda>t. t" rev rev]
  by (simp add: demo_state_def demo_map_distinct)

theorem UpsertSystemSummary_roundtrip_witness:
  "GetSystemSummary ''sqlite3'' SystemSummary_zero
     (snd (UpsertSystemSummary ''sqlite3'' (\<lambda>t. t) rev (take 3 demo_sum_map) (Some []))) =
   Inr (map with_count (rev (take 3 demo_sum_map)))"
proof (rule UpsertSystemSummary_roundtrip)
  show "distinct (map fst (take 3 demo_sum_map))"
    using demo_map_distinct by (simp add: take_map [symmetric] distinct_take)
  have "list_all (\<lambda>(s, tc). summary_columns (sort_labels s) = s) (take 3 demo_sum_map)" by code_simp
  then show "summary_columns (sort_labels s) = s" if "(s, tc) \<in> set (take 3 demo_sum_map)" for s tc
    using that by (auto simp: list_all_iff)
  have "distinct (map (\<lambda>e. HashSystemSummary (\<lambda>t. t) (fst e)) (take 3 demo_sum_map))" by code_simp
  then have "distinct (map (HashSystemSummary (\<lambda>t. t)) (map fst (take 3 demo_sum_map)))" by (simp add: comp_def)
  then show "inj_on (HashSystemSummary (\<lambda>t. t)) (fst ` set (take 3 demo_sum_map))"
    by (metis distinct_map list.set_map)
qed simp

end
