(* ===== verification/CiliumLogs.thy ===== *)
theory CiliumLogs
  imports Cilium PolicyTables
begin

text \<open>
  The flows of Cilium as they are kept for the observability API: \<^verbatim>\<open>observability/cilium.go\<close> and the table of
  network logs of both drivers. A flow is the message that Hubble sends; its enumerations are given by their names, a part
  that may be missing is an option. The table is the list of its rows.
\<close>

section \<open>Flows\<close>

datatype obs_layer4 =
    ObsTCP (o4_source: int) (o4_destination: int)
  | ObsUDP (o4_source: int) (o4_destination: int)
  | ObsICMPv4 (o4_type: int) (o4_code: int)
  | ObsICMPv6 (o4_type: int) (o4_code: int)
  | ObsOtherL4

datatype obs_l7_record =
    ObsDns (od_cnames: "string list") (od_source: string)
  | ObsHttp (oh_code: int) (oh_method: string) (oh_url: string) (oh_protocol: string) (oh_headers: "(string \<times> string) list")
  | ObsOtherL7

record obs_ip =
  oip_Source :: string
  oip_Destination :: string
  oip_Version :: string
  oip_Encrypted :: bool

record obs_service =
  osv_Name :: string
  osv_Namespace :: string

record obs_flow =
  of_Time :: "int option"
  of_Verdict :: string
  of_DropReasonDesc :: string
  of_IP :: "obs_ip option"
  of_L4 :: "obs_layer4 option"
  of_Source :: "cilium_endpoint option"
  of_Destination :: "cilium_endpoint option"
  of_Type :: string
  of_NodeName :: string
  of_L7 :: "(string \<times> obs_l7_record) option"
  of_EventType :: "(int \<times> int) option"
  of_SourceService :: "obs_service option"
  of_DestinationService :: "obs_service option"
  of_TrafficDirection :: string
  of_TraceObservationPoint :: string
  of_IsReply :: "bool option"

record CiliumLog =
  cl_Verdict :: string
  cl_IpSource :: string
  cl_IpDestination :: string
  cl_IpVersion :: string
  cl_IpEncrypted :: bool
  cl_L4TCPSourcePort :: int
  cl_L4TCPDestinationPort :: int
  cl_L4UDPSourcePort :: int
  cl_L4UDPDestinationPort :: int
  cl_L4ICMPv4Type :: int
  cl_L4ICMPv4Code :: int
  cl_L4ICMPv6Type :: int
  cl_L4ICMPv6Code :: int
  cl_SourceNamespace :: string
  cl_SourceLabels :: string
  cl_SourcePodName :: string
  cl_DestinationNamespace :: string
  cl_DestinationLabels :: string
  cl_DestinationPodName :: string
  cl_Type :: string
  cl_NodeName :: string
  cl_L7Type :: string
  cl_L7DnsCnames :: string
  cl_L7DnsObservationsource :: string
  cl_L7HttpCode :: int
  cl_L7HttpMethod :: string
  cl_L7HttpUrl :: string
  cl_L7HttpProtocol :: string
  cl_L7HttpHeaders :: string
  cl_EventTypeType :: int
  cl_EventTypeSubType :: int
  cl_SourceServiceName :: string
  cl_SourceServiceNamespace :: string
  cl_DestinationServiceName :: string
  cl_DestinationServiceNamespace :: string
  cl_TrafficDirection :: string
  cl_TraceObservationPoint :: string
  cl_DropReasonDesc :: string
  cl_IsReply :: bool
  cl_StartTime :: int
  cl_UpdatedTime :: int
  cl_Total :: int

section \<open>Conversion\<close>

definition endpoint_of :: "cilium_endpoint option \<Rightarrow> cilium_endpoint" where
  "endpoint_of e = (case e of None \<Rightarrow> \<lparr>cend_Namespace = [], cend_PodName = [], cend_Labels = []\<rparr> | Some e \<Rightarrow> e)"

definition service_of :: "obs_service option \<Rightarrow> obs_service" where
  "service_of s = (case s of None \<Rightarrow> \<lparr>osv_Name = [], osv_Namespace = []\<rparr> | Some s \<Rightarrow> s)"

text \<open>The zero value of \<^verbatim>\<open>flow.IP\<close> has the version whose number is zero.\<close>

definition ip_of :: "obs_ip option \<Rightarrow> obs_ip" where
  "ip_of i = (case i of None \<Rightarrow>
       \<lparr>oip_Source = [], oip_Destination = [], oip_Version = ''IP_NOT_USED'', oip_Encrypted = False\<rparr> | Some i \<Rightarrow> i)"

text \<open>The values of the four protocols, of which a flow has one: ports of TCP and UDP, type and code of ICMP.\<close>

definition l4_values :: "obs_layer4 option \<Rightarrow> (int \<times> int) \<times> (int \<times> int) \<times> (int \<times> int) \<times> (int \<times> int)" where
  "l4_values l4 =
     (case l4 of
        Some (ObsTCP s d) \<Rightarrow> ((s, d), (0, 0), (0, 0), (0, 0))
      | Some (ObsUDP s d) \<Rightarrow> ((0, 0), (s, d), (0, 0), (0, 0))
      | Some (ObsICMPv4 t c) \<Rightarrow> ((0, 0), (0, 0), (t, c), (0, 0))
      | Some (ObsICMPv6 t c) \<Rightarrow> ((0, 0), (0, 0), (0, 0), (t, c))
      | _ \<Rightarrow> ((0, 0), (0, 0), (0, 0), (0, 0)))"

definition l7_dns :: "(string \<times> obs_l7_record) option \<Rightarrow> string list \<times> string" where
  "l7_dns l7 = (case l7 of Some (_, ObsDns cnames source) \<Rightarrow> (cnames, source) | _ \<Rightarrow> ([], []))"

definition l7_http :: "(string \<times> obs_l7_record) option \<Rightarrow> int \<times> string \<times> string \<times> string \<times> string" where
  "l7_http l7 = (case l7 of
       Some (_, ObsHttp code method url protocol headers) \<Rightarrow>
         (code, method, url, protocol, ConvertArrayToString (map (\<lambda>(k, v). k @ ''='' @ v) headers))
     | _ \<Rightarrow> (0, [], [], [], []))"

definition cilium_log_of :: "obs_flow \<Rightarrow> int \<Rightarrow> CiliumLog" where
  "cilium_log_of flowLog seconds =
     (let ip = ip_of (of_IP flowLog);
          ((tcpS, tcpD), (udpS, udpD), (icmp4T, icmp4C), (icmp6T, icmp6C)) = l4_values (of_L4 flowLog);
          source = endpoint_of (of_Source flowLog); destination = endpoint_of (of_Destination flowLog);
          (cnames, observationSource) = l7_dns (of_L7 flowLog);
          (code, method, url, protocol, headers) = l7_http (of_L7 flowLog);
          (eventType, eventSubType) = (case of_EventType flowLog of None \<Rightarrow> (0, 0) | Some e \<Rightarrow> e);
          sourceService = service_of (of_SourceService flowLog);
          destinationService = service_of (of_DestinationService flowLog)
      in \<lparr>cl_Verdict = of_Verdict flowLog, cl_IpSource = oip_Source ip, cl_IpDestination = oip_Destination ip,
          cl_IpVersion = oip_Version ip, cl_IpEncrypted = oip_Encrypted ip, cl_L4TCPSourcePort = tcpS,
          cl_L4TCPDestinationPort = tcpD, cl_L4UDPSourcePort = udpS, cl_L4UDPDestinationPort = udpD,
          cl_L4ICMPv4Type = icmp4T, cl_L4ICMPv4Code = icmp4C, cl_L4ICMPv6Type = icmp6T, cl_L4ICMPv6Code = icmp6C,
          cl_SourceNamespace = cend_Namespace source, cl_SourceLabels = ConvertArrayToString (cend_Labels source),
          cl_SourcePodName = cend_PodName source, cl_DestinationNamespace = cend_Namespace destination,
          cl_DestinationLabels = ConvertArrayToString (cend_Labels destination),
          cl_DestinationPodName = cend_PodName destination, cl_Type = of_Type flowLog, cl_NodeName = of_NodeName flowLog,
          cl_L7Type = (case of_L7 flowLog of None \<Rightarrow> [] | Some (t, _) \<Rightarrow> t),
          cl_L7DnsCnames = ConvertArrayToString cnames, cl_L7DnsObservationsource = observationSource,
          cl_L7HttpCode = code, cl_L7HttpMethod = method, cl_L7HttpUrl = url, cl_L7HttpProtocol = protocol,
          cl_L7HttpHeaders = headers, cl_EventTypeType = eventType, cl_EventTypeSubType = eventSubType,
          cl_SourceServiceName = osv_Name sourceService, cl_SourceServiceNamespace = osv_Namespace sourceService,
          cl_DestinationServiceName = osv_Name destinationService,
          cl_DestinationServiceNamespace = osv_Namespace destinationService,
          cl_TrafficDirection = of_TrafficDirection flowLog, cl_TraceObservationPoint = of_TraceObservationPoint flowLog,
          cl_DropReasonDesc = (if of_Verdict flowLog = ''DROPPED'' then of_DropReasonDesc flowLog else []),
          cl_IsReply = (case of_IsReply flowLog of None \<Rightarrow> False | Some b \<Rightarrow> b),
          cl_StartTime = seconds, cl_UpdatedTime = seconds, cl_Total = 0\<rparr>)"

text \<open>A flow that is nil is an error, one without a time a panic.\<close>

definition convertFlowLogToCiliumLog :: "obs_flow option \<Rightarrow> go_panic + string + CiliumLog" where
  "convertFlowLogToCiliumLog flowLog =
     (case flowLog of None \<Rightarrow> Inr (Inl ''cilium flow log empty'')
      | Some flowLog \<Rightarrow>
          (case of_Time flowLog of None \<Rightarrow> Inl NilDereference
           | Some seconds \<Rightarrow> Inr (Inr (cilium_log_of flowLog seconds))))"

section \<open>Table\<close>

datatype sql_value = SqlText string | SqlNumber int | SqlBool bool

fun sql_zero :: "sql_value \<Rightarrow> bool" where
  "sql_zero (SqlText s) = (s = [])"
| "sql_zero (SqlNumber n) = (n = 0)"
| "sql_zero (SqlBool b) = (\<not> b)"

text \<open>The columns that identify a row.\<close>

definition cilium_key :: "CiliumLog \<Rightarrow> (string \<times> sql_value) list" where
  "cilium_key l =
     [(''verdict'', SqlText (cl_Verdict l)), (''ip_source'', SqlText (cl_IpSource l)),
      (''ip_destination'', SqlText (cl_IpDestination l)), (''ip_version'', SqlText (cl_IpVersion l)),
      (''ip_encrypted'', SqlBool (cl_IpEncrypted l)), (''l4_tcp_source_port'', SqlNumber (cl_L4TCPSourcePort l)),
      (''l4_tcp_destination_port'', SqlNumber (cl_L4TCPDestinationPort l)),
      (''l4_udp_source_port'', SqlNumber (cl_L4UDPSourcePort l)),
      (''l4_udp_destination_port'', SqlNumber (cl_L4UDPDestinationPort l)),
      (''l4_icmpv4_type'', SqlNumber (cl_L4ICMPv4Type l)), (''l4_icmpv4_code'', SqlNumber (cl_L4ICMPv4Code l)),
      (''l4_icmpv6_type'', SqlNumber (cl_L4ICMPv6Type l)), (''l4_icmpv6_code'', SqlNumber (cl_L4ICMPv6Code l)),
      (''source_namespace'', SqlText (cl_SourceNamespace l)), (''source_labels'', SqlText (cl_SourceLabels l)),
      (''source_pod_name'', SqlText (cl_SourcePodName l)),
      (''destination_namespace'', SqlText (cl_DestinationNamespace l)),
      (''destination_labels'', SqlText (cl_DestinationLabels l)),
      (''destination_pod_name'', SqlText (cl_DestinationPodName l)), (''type'', SqlText (cl_Type l)),
      (''node_name'', SqlText (cl_NodeName l)), (''l7_type'', SqlText (cl_L7Type l)),
      (''l7_dns_cnames'', SqlText (cl_L7DnsCnames l)),
      (''l7_dns_observation_source'', SqlText (cl_L7DnsObservationsource l)),
      (''l7_http_code'', SqlNumber (cl_L7HttpCode l)), (''l7_http_method'', SqlText (cl_L7HttpMethod l)),
      (''l7_http_url'', SqlText (cl_L7HttpUrl l)), (''l7_http_protocol'', SqlText (cl_L7HttpProtocol l)),
      (''l7_http_headers'', SqlText (cl_L7HttpHeaders l)), (''event_type_type'', SqlNumber (cl_EventTypeType l)),
      (''event_type_sub_type'', SqlNumber (cl_EventTypeSubType l)),
      (''source_service_name'', SqlText (cl_SourceServiceName l)),
      (''source_service_namespace'', SqlText (cl_SourceServiceNamespace l)),
      (''destination_service_name'', SqlText (cl_DestinationServiceName l)),
      (''destination_service_namespace'', SqlText (cl_DestinationServiceNamespace l)),
      (''traffic_direction'', SqlText (cl_TrafficDirection l)),
      (''trace_observation_point'', SqlText (cl_TraceObservationPoint l)),
      (''drop_reason_desc'', SqlText (cl_DropReasonDesc l)), (''is_reply'', SqlBool (cl_IsReply l))]"

text \<open>A row; the column \<^verbatim>\<open>total\<close> is \<^verbatim>\<open>cr_total\<close>.\<close>

record CiliumRow =
  cr_log :: CiliumLog
  cr_total :: int

definition cilium_columns :: "CiliumRow \<Rightarrow> (string \<times> sql_value) list" where
  "cilium_columns r = cilium_key (cr_log r) @ [(''start_time'', SqlNumber (cl_StartTime (cr_log r))),
     (''updated_time'', SqlNumber (cl_UpdatedTime (cr_log r))), (''total'', SqlNumber (cr_total r))]"

text \<open>The columns of text with their widths in MySQL.\<close>

definition CreateTableNetworkLogsMySQL :: "(string \<times> nat) list" where
  "CreateTableNetworkLogsMySQL =
     [(''verdict'', 100), (''ip_source'', 100), (''ip_destination'', 100), (''ip_version'', 100), (''source_namespace'', 100),
      (''source_labels'', 200), (''source_pod_name'', 100), (''destination_namespace'', 100), (''destination_labels'', 200),
      (''destination_pod_name'', 100), (''type'', 100), (''node_name'', 100), (''l7_type'', 100), (''l7_dns_cnames'', 100),
      (''l7_dns_observation_source'', 150), (''l7_http_method'', 100), (''l7_http_url'', 200), (''l7_http_protocol'', 50),
      (''l7_http_headers'', 200), (''source_service_name'', 150), (''source_service_namespace'', 100),
      (''destination_service_name'', 100), (''destination_service_namespace'', 100), (''traffic_direction'', 100),
      (''trace_observation_point'', 100), (''drop_reason_desc'', 100)]"

definition text_column :: "(string \<times> sql_value) list \<Rightarrow> string \<Rightarrow> string" where
  "text_column cs c = (case map_of cs c of Some (SqlText s) \<Rightarrow> s | _ \<Rightarrow> [])"

text \<open>The update of all rows with the same key, or the insertion of a row if there is none; both drivers count a row whose
  total goes up as changed. MySQL refuses a text that is too long, which is logged.\<close>

definition update_cilium_row :: "CiliumLog \<Rightarrow> CiliumRow \<Rightarrow> CiliumRow" where
  "update_cilium_row log r =
     (if cilium_key (cr_log r) = cilium_key log
      then r\<lparr>cr_total := cr_total r + 1, cr_log := (cr_log r)\<lparr>cl_UpdatedTime := cl_UpdatedTime log\<rparr>\<rparr> else r)"

definition cilium_row :: "CiliumLog \<Rightarrow> CiliumRow" where
  "cilium_row log = \<lparr>cr_log = log\<lparr>cl_Total := 0\<rparr>, cr_total = 1\<rparr>"

definition updateOrInsertCiliumLogSQLite :: "CiliumLog \<Rightarrow> CiliumRow list \<Rightarrow> CiliumRow list" where
  "updateOrInsertCiliumLogSQLite ciliumlog rows =
     (if list_ex (\<lambda>r. cilium_key (cr_log r) = cilium_key ciliumlog) rows then map (update_cilium_row ciliumlog) rows
      else rows @ [cilium_row ciliumlog])"

definition updateOrInsertCiliumLogMySQL :: "CiliumLog \<Rightarrow> CiliumRow list \<Rightarrow> CiliumRow list" where
  "updateOrInsertCiliumLogMySQL ciliumlog rows =
     (if list_ex (\<lambda>r. cilium_key (cr_log r) = cilium_key ciliumlog) rows then map (update_cilium_row ciliumlog) rows
      else if fits CreateTableNetworkLogsMySQL (text_column (cilium_key ciliumlog)) then rows @ [cilium_row ciliumlog]
      else rows)"

definition UpdateOrInsertCiliumLogsSQLite :: "CiliumLog list \<Rightarrow> CiliumRow list \<Rightarrow> CiliumRow list" where
  "UpdateOrInsertCiliumLogsSQLite ciliumlogs rows = fold updateOrInsertCiliumLogSQLite ciliumlogs rows"

definition UpdateOrInsertCiliumLogsMySQL :: "CiliumLog list \<Rightarrow> CiliumRow list \<Rightarrow> CiliumRow list" where
  "UpdateOrInsertCiliumLogsMySQL ciliumlogs rows = fold updateOrInsertCiliumLogMySQL ciliumlogs rows"

definition UpdateOrInsertCiliumLogs :: "string \<Rightarrow> CiliumLog list \<Rightarrow> CiliumRow list \<Rightarrow> CiliumRow list" where
  "UpdateOrInsertCiliumLogs DBDriver ciliumLogs rows =
     (if DBDriver = ''mysql'' then UpdateOrInsertCiliumLogsMySQL ciliumLogs rows
      else if DBDriver = ''sqlite3'' then UpdateOrInsertCiliumLogsSQLite ciliumLogs rows else rows)"

text \<open>A condition for each part of the filter that is not zero, but none for the destination pod. Totals are read into
  \<^verbatim>\<open>uint32\<close>.\<close>

definition cilium_where :: "CiliumLog \<Rightarrow> (string \<times> sql_value) list" where
  "cilium_where filterLog =
     filter (\<lambda>(c, v). c \<noteq> ''destination_pod_name'' \<and> \<not> sql_zero v)
       (cilium_columns \<lparr>cr_log = filterLog, cr_total = cl_Total filterLog\<rparr>)"

definition selected_cilium :: "(string \<times> sql_value) list \<Rightarrow> CiliumRow \<Rightarrow> bool" where
  "selected_cilium whereClause r = list_all (\<lambda>(c, v). map_of (cilium_columns r) c = Some v) whereClause"

definition scan_total :: "CiliumRow list \<Rightarrow> string + (CiliumLog list \<times> int list)" where
  "scan_total rows =
     (if list_all (\<lambda>r. 0 \<le> cr_total r \<and> cr_total r < 2 ^ 32) rows
      then Inr (map cr_log rows, map cr_total rows) else Inl ''value out of range'')"

definition GetCiliumLogsMySQL :: "CiliumLog \<Rightarrow> CiliumRow list \<Rightarrow> string + (CiliumLog list \<times> int list)" where
  "GetCiliumLogsMySQL filterLog rows = scan_total (filter (selected_cilium (cilium_where filterLog)) rows)"

definition GetCiliumLogsSQLite :: "CiliumLog \<Rightarrow> CiliumRow list \<Rightarrow> string + (CiliumLog list \<times> int list)" where
  "GetCiliumLogsSQLite filterLog rows = scan_total (filter (selected_cilium (cilium_where filterLog)) rows)"

definition GetCiliumLogs :: "string \<Rightarrow> CiliumLog \<Rightarrow> CiliumRow list \<Rightarrow> string + (CiliumLog list \<times> int list)" where
  "GetCiliumLogs DBDriver ciliumFilter rows =
     (if DBDriver = ''mysql'' then GetCiliumLogsMySQL ciliumFilter rows
      else if DBDriver = ''sqlite3'' then GetCiliumLogsSQLite ciliumFilter rows else Inl ''unknown db driver'')"

section \<open>The job\<close>

record CiliumObs =
  co_NetworkLogs :: "obs_flow option list"
  co_rows :: "CiliumRow list"

definition ProcessCiliumFlow :: "obs_flow option \<Rightarrow> CiliumObs \<Rightarrow> CiliumObs" where
  "ProcessCiliumFlow flowLog st = st\<lparr>co_NetworkLogs := co_NetworkLogs st @ [flowLog]\<rparr>"

definition ProcessNetworkLogs :: "string \<Rightarrow> CiliumObs \<Rightarrow> go_panic + CiliumObs" where
  "ProcessNetworkLogs DBDriver st =
     (if length (co_NetworkLogs st) \<le> 0 then Inr st
      else
       (let locNetLogs = co_NetworkLogs st; st = st\<lparr>co_NetworkLogs := []\<rparr> in
        go_bind (foldM (\<lambda>res flowLog. go_bind (convertFlowLogToCiliumLog flowLog) (\<lambda>r.
            case r of Inl err \<Rightarrow> Inr res | Inr netLog \<Rightarrow> Inr (res @ [netLog]))) [] locNetLogs) (\<lambda>res.
          Inr (st\<lparr>co_rows := UpdateOrInsertCiliumLogs DBDriver res (co_rows st)\<rparr>))))"

section \<open>The summary of a request\<close>

record NwObsIngressEgressData =
  ne_SrcPodName :: string
  ne_DestPodName :: string
  ne_DestinationNamespace :: string
  ne_DestinationLabel :: string
  ne_Protocol :: string
  ne_Port :: string
  ne_Status :: string
  ne_Count :: string
  ne_UpdatedTime :: string

definition flow_protocol :: "CiliumLog \<Rightarrow> string \<times> string" where
  "flow_protocol netlog =
     (if cl_L4TCPDestinationPort netlog \<noteq> 0 then
        (if cl_L7HttpMethod netlog \<noteq> [] then ''HTTP'' else ''TCP'', Itoa (cl_L4TCPDestinationPort netlog))
      else if cl_L4UDPDestinationPort netlog \<noteq> 0 then
        (if cl_L7DnsCnames netlog \<noteq> [] then ''DNS'' else ''UDP'', Itoa (cl_L4UDPDestinationPort netlog))
      else if cl_L4ICMPv4Code netlog \<noteq> 0 then (''ICMPv4'', [])
      else (''ICMPv6'', []))"

definition flow_status :: "string \<Rightarrow> string" where
  "flow_status verdict =
     (if verdict = ''FORWARDED'' \<or> verdict = ''REDIRECTED'' then ''ALLOW''
      else if verdict = ''DROPPED'' \<or> verdict = ''ERROR'' then ''DENY''
      else if verdict = ''AUDIT'' then ''AUDIT'' else [])"

definition flow_data :: "(int \<Rightarrow> string) \<Rightarrow> CiliumLog \<Rightarrow> int \<Rightarrow> NwObsIngressEgressData" where
  "flow_data unix_date netlog logCount =
     \<lparr>ne_SrcPodName = cl_SourcePodName netlog, ne_DestPodName = cl_DestinationPodName netlog,
      ne_DestinationNamespace = cl_DestinationNamespace netlog, ne_DestinationLabel = cl_DestinationLabels netlog,
      ne_Protocol = fst (flow_protocol netlog), ne_Port = snd (flow_protocol netlog),
      ne_Status = flow_status (cl_Verdict netlog), ne_Count = Itoa logCount,
      ne_UpdatedTime = unix_date (cl_UpdatedTime netlog)\<rparr>"

definition CiliumLog_zero :: CiliumLog where
  "CiliumLog_zero = (cilium_log_of \<lparr>of_Time = None, of_Verdict = [], of_DropReasonDesc = [], of_IP = None, of_L4 = None,
     of_Source = None, of_Destination = None, of_Type = [], of_NodeName = [], of_L7 = None, of_EventType = None,
     of_SourceService = None, of_DestinationService = None, of_TrafficDirection = [], of_TraceObservationPoint = [],
     of_IsReply = None\<rparr> 0)\<lparr>cl_IpVersion := []\<rparr>"

text \<open>The logs of all pods are read: the request is not looked at. The result is the data of ingress and of egress and the
  pod, namespace and labels of the first log.\<close>

definition GetCiliumSummaryData ::
  "(int \<Rightarrow> string) \<Rightarrow> string \<Rightarrow> CiliumRow list \<Rightarrow>
   NwObsIngressEgressData list \<times> NwObsIngressEgressData list \<times> (string \<times> string \<times> string)" where
  "GetCiliumSummaryData unix_date DBDriver rows =
     (case GetCiliumLogs DBDriver CiliumLog_zero rows of
        Inl err \<Rightarrow> ([], [], ([], [], []))
      | Inr (ciliumLogs, logCount) \<Rightarrow>
          (let es = zip ciliumLogs logCount;
               data = (\<lambda>d. map (\<lambda>(l, n). flow_data unix_date l n) (filter (\<lambda>(l, n). cl_TrafficDirection l = d) es))
           in (data ''INGRESS'', data ''EGRESS'',
               (case ciliumLogs of [] \<Rightarrow> ([], [], [])
                | l # _ \<Rightarrow> (cl_SourcePodName l, cl_SourceNamespace l, cl_SourceLabels l)))))"

section \<open>Counting\<close>

definition key_total :: "CiliumRow list \<Rightarrow> (string \<times> sql_value) list \<Rightarrow> int" where
  "key_total rows k = sum_list (map cr_total (filter (\<lambda>r. cilium_key (cr_log r) = k) rows))"

lemma cilium_key_time [simp]: "cilium_key (l\<lparr>cl_UpdatedTime := t\<rparr>) = cilium_key l" "cilium_key (l\<lparr>cl_Total := n\<rparr>) = cilium_key l"
  by (simp_all add: cilium_key_def)

lemma update_cilium_key [simp]: "cilium_key (cr_log (update_cilium_row l r)) = cilium_key (cr_log r)"
  by (simp add: update_cilium_row_def)

abbreviation row_keys :: "CiliumRow list \<Rightarrow> (string \<times> sql_value) list list" where
  "row_keys rows \<equiv> map (\<lambda>r. cilium_key (cr_log r)) rows"

lemma key_total_Cons [simp]:
  "key_total (r # rows) k = (if cilium_key (cr_log r) = k then cr_total r else 0) + key_total rows k"
  by (simp add: key_total_def)

lemma key_total_update:
  assumes "distinct (row_keys rows)"
  shows "key_total (map (update_cilium_row l) rows) k =
    key_total rows k + (if cilium_key l = k \<and> k \<in> set (row_keys rows) then 1 else 0)"
  using assms
proof (induction rows)
  case (Cons r rows)
  have "cr_total (update_cilium_row l r) = cr_total r + (if cilium_key (cr_log r) = cilium_key l then 1 else 0)"
    by (simp add: update_cilium_row_def)
  then show ?case using Cons by auto
qed (simp add: key_total_def)

lemma updateOrInsertCiliumLogSQLite_counts:
  assumes "distinct (row_keys rows)"
  shows "distinct (row_keys (updateOrInsertCiliumLogSQLite l rows)) \<and>
    key_total (updateOrInsertCiliumLogSQLite l rows) k = key_total rows k + (if cilium_key l = k then 1 else 0)"
proof (cases "list_ex (\<lambda>r. cilium_key (cr_log r) = cilium_key l) rows")
  case True
  then have "cilium_key l \<in> set (row_keys rows)" by (auto simp: list_ex_iff rev_image_eqI)
  moreover have "row_keys (map (update_cilium_row l) rows) = row_keys rows" by simp
  ultimately show ?thesis using True key_total_update [OF assms, of l k] assms
    by (auto simp: updateOrInsertCiliumLogSQLite_def simp del: map_map)
next
  case False
  then show ?thesis using assms
    by (auto simp: updateOrInsertCiliumLogSQLite_def list_ex_iff cilium_row_def key_total_def)
qed

lemma UpdateOrInsertCiliumLogsSQLite_counts:
  assumes "distinct (row_keys rows)"
  shows "distinct (row_keys (UpdateOrInsertCiliumLogsSQLite ls rows)) \<and>
    key_total (UpdateOrInsertCiliumLogsSQLite ls rows) k =
      key_total rows k + int (length (filter (\<lambda>l. cilium_key l = k) ls))"
  using assms unfolding UpdateOrInsertCiliumLogsSQLite_def
proof (induction ls arbitrary: rows)
  case (Cons l ls)
  then show ?case using updateOrInsertCiliumLogSQLite_counts [of rows l k] Cons.IH by simp
qed simp

text \<open>The logs of the flows of a buffer.\<close>

definition timed_logs :: "obs_flow option list \<Rightarrow> CiliumLog list" where
  "timed_logs fs = List.map_filter (\<lambda>f. case f of None \<Rightarrow> None
     | Some f \<Rightarrow> (case of_Time f of None \<Rightarrow> None | Some t \<Rightarrow> Some (cilium_log_of f t))) fs"

definition untimed :: "obs_flow option \<Rightarrow> bool" where
  "untimed f \<longleftrightarrow> (case f of None \<Rightarrow> False | Some f \<Rightarrow> of_Time f = None)"

lemma convert_flow_cases [simp]:
  "convertFlowLogToCiliumLog None = Inr (Inl ''cilium flow log empty'')"
  "of_Time f = None \<Longrightarrow> convertFlowLogToCiliumLog (Some f) = Inl NilDereference"
  "of_Time f = Some t \<Longrightarrow> convertFlowLogToCiliumLog (Some f) = Inr (Inr (cilium_log_of f t))"
  "\<not> untimed None" "untimed (Some f) \<longleftrightarrow> of_Time f = None"
  "timed_logs [] = []" "timed_logs (None # fs) = timed_logs fs"
  "of_Time f = Some t \<Longrightarrow> timed_logs (Some f # fs) = cilium_log_of f t # timed_logs fs"
  by (simp_all add: convertFlowLogToCiliumLog_def untimed_def timed_logs_def map_filter_simps)

lemma convert_flows:
  "foldM (\<lambda>res flowLog. go_bind (convertFlowLogToCiliumLog flowLog) (\<lambda>r.
     case r of Inl err \<Rightarrow> Inr res | Inr netLog \<Rightarrow> Inr (res @ [netLog]))) res fs =
   (if list_ex untimed fs then Inl NilDereference else Inr (res @ timed_logs fs))"
proof (induction fs arbitrary: res)
  case (Cons f fs)
  show ?case
  proof (cases f)
    case (Some g)
    then show ?thesis using Cons.IH by (cases "of_Time g") simp_all
  qed (simp add: Cons.IH)
qed simp

section \<open>Properties\<close>

text \<open>C21: the table counts flows. If no flow of the buffer lacks its time, a run of the job with SQLite empties the buffer, keeps one row
  for each combination of values, and the total of each combination goes up by the number of flows of the buffer that
  have it; flows that are nil are left out. If one lacks its time the run panics.\<close>

theorem ProcessNetworkLogs_counts:
  assumes "distinct (row_keys (co_rows st))"
  shows "if list_ex untimed (co_NetworkLogs st) then ProcessNetworkLogs ''sqlite3'' st = Inl NilDereference
    else \<exists>st'. ProcessNetworkLogs ''sqlite3'' st = Inr st' \<and> co_NetworkLogs st' = [] \<and> distinct (row_keys (co_rows st')) \<and>
      (\<forall>k. key_total (co_rows st') k =
         key_total (co_rows st) k + int (length (filter (\<lambda>l. cilium_key l = k) (timed_logs (co_NetworkLogs st)))))"
proof (cases "co_NetworkLogs st = []")
  case True
  then show ?thesis using assms by (simp add: ProcessNetworkLogs_def timed_logs_def map_filter_simps)
next
  case False
  then show ?thesis
    using UpdateOrInsertCiliumLogsSQLite_counts [OF assms, of "timed_logs (co_NetworkLogs st)"]
    by (simp add: ProcessNetworkLogs_def Let_def convert_flows UpdateOrInsertCiliumLogs_def)
qed

text \<open>An echo over IPv4 is shown as ICMPv6: the code of an echo is zero, which is read as no ICMPv4.\<close>

lemma flow_protocol_echo:
  "of_L4 f = Some (ObsICMPv4 t 0) \<Longrightarrow> fst (flow_protocol (cilium_log_of f s)) = ''ICMPv6''"
  by (simp add: flow_protocol_def cilium_log_of_def l4_values_def Let_def split: prod.split)

section \<open>Witnesses\<close>

definition demo_obs_flow :: "int option \<Rightarrow> string \<Rightarrow> obs_flow" where
  "demo_obs_flow time verdict = \<lparr>of_Time = time, of_Verdict = verdict, of_DropReasonDesc = [],
     of_IP = Some \<lparr>oip_Source = ''10.0.0.1'', oip_Destination = ''10.0.0.2'', oip_Version = ''IPv4'', oip_Encrypted = False\<rparr>,
     of_L4 = Some (ObsTCP 40000 80), of_Source = None, of_Destination = None, of_Type = ''L3_L4'', of_NodeName = ''n'',
     of_L7 = None, of_EventType = None, of_SourceService = None, of_DestinationService = None,
     of_TrafficDirection = ''INGRESS'', of_TraceObservationPoint = [], of_IsReply = None\<rparr>"

definition demo_obs :: CiliumObs where
  "demo_obs = \<lparr>co_NetworkLogs = [Some (demo_obs_flow (Some 3) ''FORWARDED''), None,
     Some (demo_obs_flow (Some 5) ''DROPPED''), Some (demo_obs_flow (Some 7) ''FORWARDED'')], co_rows = []\<rparr>"

theorem ProcessNetworkLogs_counts_witness:
  "\<exists>st'. ProcessNetworkLogs ''sqlite3'' demo_obs = Inr st' \<and>
     key_total (co_rows st') (cilium_key (cilium_log_of (demo_obs_flow (Some 3) ''FORWARDED'') 3)) = 2"
proof -
  let ?k = "cilium_key (cilium_log_of (demo_obs_flow (Some 3) ''FORWARDED'') 3)"
  have "\<not> list_ex untimed (co_NetworkLogs demo_obs)" "distinct (row_keys (co_rows demo_obs))"
    by (simp_all add: demo_obs_def untimed_def demo_obs_flow_def)
  moreover have "length (filter (\<lambda>l. cilium_key l = ?k) (timed_logs (co_NetworkLogs demo_obs))) = 2" by code_simp
  moreover have "key_total (co_rows demo_obs) ?k = 0" by (simp add: demo_obs_def key_total_def)
  ultimately show ?thesis using ProcessNetworkLogs_counts [of demo_obs] by auto
qed

end
