(* ===== verification/Observability.thy ===== *)
theory Observability
  imports SummaryTable CiliumLogs
begin

text \<open>
  The rest of the observability module: the logs of KubeArmor (\<^verbatim>\<open>observability/kubearmor.go\<close>) with their table, and the
  answers to the requests of its API (\<^verbatim>\<open>observability/summary.go\<close>, \<^verbatim>\<open>observability/observability.go\<close>). The round
  trip of a log through JSON is a parameter, as are the current time and the format of dates.
\<close>

section \<open>Logs of KubeArmor\<close>

record KubeArmorLog =
  kl_Timestamp :: int
  kl_UpdatedTime :: int
  kl_ClusterName :: string
  kl_HostName :: string
  kl_NamespaceName :: string
  kl_PodName :: string
  kl_Labels :: string
  kl_ContainerID :: string
  kl_ContainerName :: string
  kl_ContainerImage :: string
  kl_ParentProcessName :: string
  kl_ProcessName :: string
  kl_HostPPID :: int
  kl_HostPID :: int
  kl_PPID :: int
  kl_PID :: int
  kl_UID :: int
  kl_Type :: string
  kl_Source :: string
  kl_Operation :: string
  kl_Resource :: string
  kl_Data :: string
  kl_Action :: string
  kl_Result :: string
  kl_Category :: string

text \<open>\<^verbatim>\<open>pb.Log\<close> has the fields of \<^verbatim>\<open>pb.Alert\<close> that the conversion reads.\<close>

definition convertKubearmorPbLogToKubearmorLog :: "Alert \<Rightarrow> KubeArmorLog" where
  "convertKubearmorPbLogToKubearmorLog pbLog =
     \<lparr>kl_Timestamp = al_Timestamp pbLog, kl_UpdatedTime = al_Timestamp pbLog, kl_ClusterName = al_ClusterName pbLog,
      kl_HostName = al_HostName pbLog, kl_NamespaceName = al_NamespaceName pbLog, kl_PodName = al_PodName pbLog,
      kl_Labels = al_Labels pbLog, kl_ContainerID = al_ContainerID pbLog, kl_ContainerName = al_ContainerName pbLog,
      kl_ContainerImage = al_ContainerImage pbLog, kl_ParentProcessName = al_ParentProcessName pbLog,
      kl_ProcessName = al_ProcessName pbLog, kl_HostPPID = al_HostPPID pbLog, kl_HostPID = al_HostPID pbLog,
      kl_PPID = al_PPID pbLog, kl_PID = al_PID pbLog, kl_UID = al_UID pbLog, kl_Type = al_Type pbLog,
      kl_Source = al_Source pbLog, kl_Operation = al_Operation pbLog, kl_Resource = al_Resource pbLog,
      kl_Data = al_Data pbLog, kl_Action = [], kl_Result = al_Result pbLog, kl_Category = []\<rparr>"

text \<open>A round of the loop of \<^verbatim>\<open>ProcessSystemLogs\<close>.\<close>

definition stored_log :: "KubeArmorLog \<Rightarrow> KubeArmorLog" where
  "stored_log locLog =
     (let locLog =
            (if kl_Type locLog = ''MatchedPolicy'' \<or> kl_Type locLog = ''MatchedHostPolicy''
             then locLog\<lparr>kl_Category := ''Alert'', kl_Action := if kl_Result locLog = ''Passed'' then ''Audit'' else ''Deny''\<rparr>
             else locLog\<lparr>kl_Action := ''Allow'', kl_Category := ''Log''\<rparr>);
          locLog =
            (if kl_Type locLog = ''ContainerLog'' \<and> kl_NamespaceName locLog = PolicyDiscoveryContainerNamespace
             then locLog\<lparr>kl_NamespaceName := PolicyDiscoveryContainerNamespace\<rparr> else locLog);
          locLog =
            (if kl_Type locLog = ''HostLog'' \<or> kl_Type locLog = ''MatchedHostPolicy''
             then locLog\<lparr>kl_ContainerName := kl_HostName locLog, kl_NamespaceName := PolicyDiscoveryVMNamespace,
               kl_PodName := PolicyDiscoveryVMPodName\<rparr> else locLog)
      in if kl_Operation locLog \<noteq> ''Network''
         then locLog\<lparr>kl_Source := first_word (kl_Source locLog), kl_Resource := first_word (kl_Resource locLog), kl_Data := []\<rparr>
         else locLog)"

text \<open>
  The loop over the map looks at one entry only, whichever comes first; \<^verbatim>\<open>ord i\<close> is the order in round
  \<^verbatim>\<open>i\<close>.
\<close>

type_synonym LogMap = "(KubeArmorLog \<times> int) list"

definition group_step :: "(LogMap \<Rightarrow> LogMap) \<Rightarrow> KubeArmorLog \<Rightarrow> LogMap \<Rightarrow> LogMap" where
  "group_step ord log m =
     (case ord m of [] \<Rightarrow> m
      | (k, v) # _ \<Rightarrow> if log = k then AList.update log (v + 1) m else AList.update log 1 m)"

fun group_rounds :: "(nat \<Rightarrow> LogMap \<Rightarrow> LogMap) \<Rightarrow> nat \<Rightarrow> KubeArmorLog list \<Rightarrow> LogMap \<Rightarrow> LogMap" where
  "group_rounds ord i [] m = m"
| "group_rounds ord i (log # logs) m =
     group_rounds ord (Suc i) logs (if i = 0 then AList.update log 1 m else group_step (ord i) log m)"

definition groupKubeArmorLogs :: "(nat \<Rightarrow> LogMap \<Rightarrow> LogMap) \<Rightarrow> KubeArmorLog list \<Rightarrow> LogMap \<Rightarrow> LogMap" where
  "groupKubeArmorLogs ord logs m = group_rounds ord 0 logs m"

section \<open>The table of system logs\<close>

record SysLogRow =
  sl_cluster_name :: string
  sl_namespace_name :: string
  sl_pod_name :: string
  sl_container_name :: string
  sl_operation :: string
  sl_labels :: string
  sl_data :: string
  sl_category :: string
  sl_action :: string
  sl_updated_time :: int
  sl_result :: string
  sl_total :: int
  sl_source :: string
  sl_resource :: string

definition syslog_row :: "int \<Rightarrow> KubeArmorLog \<Rightarrow> int \<Rightarrow> SysLogRow" where
  "syslog_row now log total_count =
     \<lparr>sl_cluster_name = kl_ClusterName log, sl_namespace_name = kl_NamespaceName log, sl_pod_name = kl_PodName log,
      sl_container_name = kl_ContainerName log, sl_operation = kl_Operation log, sl_labels = kl_Labels log,
      sl_data = kl_Data log, sl_category = kl_Category log, sl_action = kl_Action log, sl_updated_time = now,
      sl_result = kl_Result log, sl_total = total_count, sl_source = kl_Source log, sl_resource = kl_Resource log\<rparr>"

text \<open>The columns of the condition of the update are all but the total and the time.\<close>

definition syslog_key :: "SysLogRow \<Rightarrow> SysLogRow" where
  "syslog_key r = r\<lparr>sl_total := 0, sl_updated_time := 0\<rparr>"

definition update_syslog_row :: "SysLogRow \<Rightarrow> SysLogRow \<Rightarrow> SysLogRow" where
  "update_syslog_row new r =
     (if syslog_key r = syslog_key new
      then r\<lparr>sl_total := sl_total r + sl_total new, sl_updated_time := sl_updated_time new\<rparr> else r)"

definition CreateTableSystemLogsMySQL :: "(string \<times> nat) list" where
  "CreateTableSystemLogsMySQL = [(''cluster_name'', 50), (''namespace_name'', 50), (''pod_name'', 50), (''container_name'', 100),
     (''source'', 250), (''operation'', 250), (''resource'', 250), (''labels'', 250), (''data'', 250), (''category'', 50),
     (''action'', 50), (''result'', 100)]"

definition syslog_column :: "SysLogRow \<Rightarrow> string \<Rightarrow> string" where
  "syslog_column r c =
     (if c = ''cluster_name'' then sl_cluster_name r else if c = ''namespace_name'' then sl_namespace_name r
      else if c = ''pod_name'' then sl_pod_name r else if c = ''container_name'' then sl_container_name r
      else if c = ''operation'' then sl_operation r else if c = ''labels'' then sl_labels r
      else if c = ''data'' then sl_data r else if c = ''category'' then sl_category r
      else if c = ''action'' then sl_action r else if c = ''updated_time'' then Itoa (sl_updated_time r)
      else if c = ''result'' then sl_result r else if c = ''total'' then Itoa (sl_total r)
      else if c = ''source'' then sl_source r else if c = ''resource'' then sl_resource r else [])"

text \<open>Both drivers count the rows that an update finds: it always changes the total. A row that does not fit in the
  columns of MySQL is not inserted.\<close>

definition updateOrInsertKubearmorLogsSQLite :: "int \<Rightarrow> KubeArmorLog \<times> int \<Rightarrow> SysLogRow list \<Rightarrow> SysLogRow list" where
  "updateOrInsertKubearmorLogsSQLite now = (\<lambda>(log, n) rows.
     let new = syslog_row now log n in
     if list_ex (\<lambda>r. syslog_key r = syslog_key new) rows then map (update_syslog_row new) rows else rows @ [new])"

definition updateOrInsertKubearmorLogsMySQL :: "int \<Rightarrow> KubeArmorLog \<times> int \<Rightarrow> SysLogRow list \<Rightarrow> SysLogRow list" where
  "updateOrInsertKubearmorLogsMySQL now = (\<lambda>(log, n) rows.
     let new = syslog_row now log n in
     if list_ex (\<lambda>r. syslog_key r = syslog_key new) rows then map (update_syslog_row new) rows
     else if fits CreateTableSystemLogsMySQL (syslog_column new) then rows @ [new] else rows)"

definition UpdateOrInsertKubearmorLogsSQLite :: "int \<Rightarrow> (LogMap \<Rightarrow> LogMap) \<Rightarrow> LogMap \<Rightarrow> SysLogRow list \<Rightarrow> SysLogRow list" where
  "UpdateOrInsertKubearmorLogsSQLite now ord kubearmorlogmap rows =
     fold (updateOrInsertKubearmorLogsSQLite now) (ord kubearmorlogmap) rows"

definition UpdateOrInsertKubearmorLogsMySQL :: "int \<Rightarrow> (LogMap \<Rightarrow> LogMap) \<Rightarrow> LogMap \<Rightarrow> SysLogRow list \<Rightarrow> SysLogRow list" where
  "UpdateOrInsertKubearmorLogsMySQL now ord kubearmorlogmap rows =
     fold (updateOrInsertKubearmorLogsMySQL now) (ord kubearmorlogmap) rows"

definition UpdateOrInsertKubearmorLogs ::
  "string \<Rightarrow> int \<Rightarrow> (LogMap \<Rightarrow> LogMap) \<Rightarrow> LogMap \<Rightarrow> SysLogRow list \<Rightarrow> SysLogRow list" where
  "UpdateOrInsertKubearmorLogs DBDriver now ord kubearmorLogMap rows =
     (if DBDriver = ''mysql'' then UpdateOrInsertKubearmorLogsMySQL now ord kubearmorLogMap rows
      else if DBDriver = ''sqlite3'' then UpdateOrInsertKubearmorLogsSQLite now ord kubearmorLogMap rows else rows)"

text \<open>Totals are read into \<^verbatim>\<open>uint32\<close>.\<close>

definition syslog_of :: "SysLogRow \<Rightarrow> KubeArmorLog" where
  "syslog_of r =
     \<lparr>kl_Timestamp = 0, kl_UpdatedTime = sl_updated_time r, kl_ClusterName = sl_cluster_name r, kl_HostName = [],
      kl_NamespaceName = sl_namespace_name r, kl_PodName = sl_pod_name r, kl_Labels = sl_labels r, kl_ContainerID = [],
      kl_ContainerName = sl_container_name r, kl_ContainerImage = [], kl_ParentProcessName = [], kl_ProcessName = [],
      kl_HostPPID = 0, kl_HostPID = 0, kl_PPID = 0, kl_PID = 0, kl_UID = 0, kl_Type = [], kl_Source = sl_source r,
      kl_Operation = sl_operation r, kl_Resource = sl_resource r, kl_Data = sl_data r, kl_Action = sl_action r,
      kl_Result = sl_result r, kl_Category = sl_category r\<rparr>"

definition GetSystemLogsSQLite :: "KubeArmorLog \<Rightarrow> SysLogRow list \<Rightarrow> string + (KubeArmorLog list \<times> int list)" where
  "GetSystemLogsSQLite f rows =
     (let w = where_text ''cluster_name'' (kl_ClusterName f) [];
          w = where_text ''namespace_name'' (kl_NamespaceName f) w;
          w = where_text ''pod_name'' (kl_PodName f) w;
          w = where_text ''container_name'' (kl_ContainerName f) w;
          w = where_text ''operation'' (kl_Operation f) w;
          w = where_text ''labels'' (kl_Labels f) w;
          w = where_text ''data'' (kl_Data f) w;
          w = where_text ''category'' (kl_Category f) w;
          w = where_text ''action'' (kl_Action f) w;
          w = where_number ''updated_time'' (kl_UpdatedTime f) w;
          w = where_text ''result'' (kl_Result f) w;
          w = where_text ''source'' (kl_Source f) w;
          w = where_text ''resource'' (kl_Resource f) w;
          found = filter (\<lambda>r. selected w (syslog_column r)) rows
      in if list_all (\<lambda>r. 0 \<le> sl_total r \<and> sl_total r < 2 ^ 32) found
         then Inr (map syslog_of found, map sl_total found) else Inl ''value out of range'')"

text \<open>The query for MySQL selects two columns that the table does not have, which is an error of the database.\<close>

definition system_log_columns :: "string list" where
  "system_log_columns = [''id'', ''cluster_name'', ''host_name'', ''namespace_name'', ''pod_name'', ''container_id'',
     ''container_name'', ''uid'', ''type'', ''source'', ''operation'', ''resource'', ''labels'', ''data'', ''category'', ''action'',
     ''start_time'', ''updated_time'', ''result'', ''total'']"

definition GetSystemLogsMySQL :: "KubeArmorLog \<Rightarrow> SysLogRow list \<Rightarrow> string + (KubeArmorLog list \<times> int list)" where
  "GetSystemLogsMySQL f rows =
     (let selection = [''cluster_name'', ''namespace_name'', ''pod_name'', ''container_name'', ''operation'', ''labels'', ''data'',
            ''category'', ''action'', ''updated_time'', ''result'', ''total'', ''process_name'', ''parent_process_name'', ''resource''];
          w = where_text ''cluster_name'' (kl_ClusterName f) [];
          w = where_text ''namespace_name'' (kl_NamespaceName f) w;
          w = where_text ''pod_name'' (kl_PodName f) w;
          w = where_text ''container_name'' (kl_ContainerName f) w;
          w = where_text ''operation'' (kl_Operation f) w;
          w = where_text ''labels'' (kl_Labels f) w;
          w = where_text ''data'' (kl_Data f) w;
          w = where_text ''category'' (kl_Category f) w;
          w = where_text ''action'' (kl_Action f) w;
          w = where_number ''updated_time'' (kl_UpdatedTime f) w;
          w = where_text ''result'' (kl_Result f) w;
          w = where_text ''process_name'' (kl_ProcessName f) w;
          w = where_text ''parent_process_name'' (kl_ParentProcessName f) w;
          w = where_text ''resource'' (kl_Resource f) w;
          found = filter (\<lambda>r. selected w (syslog_column r)) rows
      in if \<not> list_all (\<lambda>c. c \<in> set system_log_columns) (selection @ map fst w) then Inl ''unknown column''
         else if list_all (\<lambda>r. 0 \<le> sl_total r \<and> sl_total r < 2 ^ 32) found
         then Inr (map (\<lambda>r. (syslog_of r)\<lparr>kl_Source := [], kl_ProcessName := syslog_column r ''process_name'',
                kl_ParentProcessName := syslog_column r ''parent_process_name''\<rparr>) found, map sl_total found)
         else Inl ''value out of range'')"

definition GetKubearmorLogs :: "string \<Rightarrow> KubeArmorLog \<Rightarrow> SysLogRow list \<Rightarrow> string + (KubeArmorLog list \<times> int list)" where
  "GetKubearmorLogs DBDriver filterLog rows =
     (if DBDriver = ''mysql'' then GetSystemLogsMySQL filterLog rows
      else if DBDriver = ''sqlite3'' then GetSystemLogsSQLite filterLog rows else Inl ''unknown db driver'')"

text \<open>So that no log can be read from MySQL.\<close>

lemma GetSystemLogsMySQL_fails: "GetSystemLogsMySQL f rows = Inl ''unknown column''"
  by (simp add: GetSystemLogsMySQL_def system_log_columns_def Let_def)

section \<open>The job\<close>

record ObsCfg =
  oc_DBDriver :: string
  oc_WriteLogsToDB :: bool
  oc_Summary :: SummaryCfg

record SystemObs =
  so_SystemLogs :: "Alert list"
  so_rows :: "SysLogRow list"
  so_SummarizerMap :: SummaryMap

definition ProcessKubearmorLogs :: "Alert \<Rightarrow> SystemObs \<Rightarrow> SystemObs" where
  "ProcessKubearmorLogs kubearmorLog st = st\<lparr>so_SystemLogs := so_SystemLogs st @ [kubearmorLog]\<rparr>"

text \<open>\<^verbatim>\<open>decode\<close> is the round trip of a log through JSON; if it fails the function returns at once. The map of logs
  is empty before and after.\<close>

definition ProcessSystemLogs ::
  "(Alert \<Rightarrow> Alert option) \<Rightarrow> (string \<Rightarrow> resources option) \<Rightarrow> ObsCfg \<Rightarrow> int \<Rightarrow> (nat \<Rightarrow> LogMap \<Rightarrow> LogMap) \<Rightarrow>
   (LogMap \<Rightarrow> LogMap) \<Rightarrow> SystemObs \<Rightarrow> go_panic + SystemObs" where
  "ProcessSystemLogs decode GetAllClusterResources cfg now ord ord_db st =
     (let locSysLogs = so_SystemLogs st; st = st\<lparr>so_SystemLogs := []\<rparr> in
      if length locSysLogs \<le> 0 then Inr st
      else if oc_WriteLogsToDB cfg \<and> list_ex (\<lambda>l. decode l = None) locSysLogs then Inr st
      else
       (let res = map (\<lambda>l. stored_log (convertKubearmorPbLogToKubearmorLog (the (decode l)))) locSysLogs;
            st = (if oc_WriteLogsToDB cfg
              then st\<lparr>so_rows := UpdateOrInsertKubearmorLogs (oc_DBDriver cfg) now ord_db (groupKubeArmorLogs ord res []) (so_rows st)\<rparr>
              else st)
        in go_bind (convertSysLogToSysSummaryMap GetAllClusterResources (oc_Summary cfg) locSysLogs (so_SummarizerMap st))
             (\<lambda>m. Inr (st\<lparr>so_SummarizerMap := m\<rparr>))))"

section \<open>Summaries of files\<close>

record SysObsProcFileData =
  pf_Source :: string
  pf_Destination :: string
  pf_Status :: string
  pf_Count :: "32 word"
  pf_UpdatedTime :: string

type_synonym ProcFileMap = "((string \<times> string \<times> string) \<times> (32 word \<times> string)) list"

text \<open>The loop over the directories; without directories the destination stays empty.\<close>

fun proc_destination :: "string list \<Rightarrow> string \<Rightarrow> string \<Rightarrow> string" where
  "proc_destination [] d destination = destination"
| "proc_destination (dir # dirs) d destination =
     (if HasPrefix d dir then dir else proc_destination dirs d d)"

definition proc_file_step :: "string list \<Rightarrow> SysObsProcFileData \<Rightarrow> ProcFileMap \<Rightarrow> ProcFileMap" where
  "proc_file_step aggregatedDir locData m =
     (let locKey = (pf_Source locData, proc_destination aggregatedDir (pf_Destination locData) [], pf_Status locData);
          v = (case map_of m locKey of None \<Rightarrow> (0, []) | Some v \<Rightarrow> v)
      in AList.update locKey (fst v + pf_Count locData, pf_UpdatedTime locData) m)"

definition proc_file_data :: "(string \<times> string \<times> string) \<times> (32 word \<times> string) \<Rightarrow> SysObsProcFileData" where
  "proc_file_data = (\<lambda>((source, destination, status), (n, t)).
     \<lparr>pf_Source = source, pf_Destination = destination, pf_Status = status, pf_Count = n, pf_UpdatedTime = t\<rparr>)"

text \<open>The map is empty before and after; \<^verbatim>\<open>ord\<close> is the order of the last loop.\<close>

definition aggregateProcFileData ::
  "(tree_map \<Rightarrow> tree_map) \<Rightarrow> ((string \<times> bool) list \<Rightarrow> (string \<times> bool) list) \<Rightarrow> (ProcFileMap \<Rightarrow> ProcFileMap) \<Rightarrow>
   SysObsProcFileData list \<Rightarrow> SysObsProcFileData list" where
  "aggregateProcFileData ord_tree ord_paths ord data =
     (if length data \<le> 0 then []
      else
       (let aggregatedSysPath = AggregatePaths ord_tree ord_paths (map pf_Destination data);
            aggregatedDir = map sp_Path (filter sp_IsDir aggregatedSysPath)
        in map proc_file_data (ord (fold (proc_file_step aggregatedDir) data []))))"

section \<open>Requests\<close>

record ObsRequest =
  or_DeployName :: string
  or_PodName :: string
  or_NameSpace :: string
  or_ClusterName :: string
  or_ContainerName :: string
  or_Label :: string
  or_Type :: string
  or_Aggregate :: bool

record SysObsNwData =
  on_NetType :: string
  on_Protocol :: string
  on_Command :: string
  on_PodSvcIP :: string
  on_ServerPort :: string
  on_Namespace :: string
  on_Labels :: string
  on_Count :: "32 word"
  on_UpdatedTime :: string
  on_BindPort :: string
  on_BindAddress :: string

definition request_filter :: "ObsRequest \<Rightarrow> SystemSummary" where
  "request_filter req = SystemSummary_zero\<lparr>su_PodName := or_PodName req, su_NamespaceName := or_NameSpace req,
     su_ContainerName := or_ContainerName req, su_ClusterName := or_ClusterName req, su_Labels := or_Label req,
     su_Deployment := or_DeployName req\<rparr>"

definition proc_data_of :: "(int \<Rightarrow> string) \<Rightarrow> SystemSummary \<Rightarrow> SysObsProcFileData" where
  "proc_data_of unix_date ss = \<lparr>pf_Source = su_Source ss, pf_Destination = su_Destination ss, pf_Status = su_Action ss,
     pf_Count = su_Count ss, pf_UpdatedTime = unix_date (su_UpdatedTime ss)\<rparr>"

definition nw_data_of :: "(int \<Rightarrow> string) \<Rightarrow> SystemSummary \<Rightarrow> SysObsNwData" where
  "nw_data_of unix_date ss = \<lparr>on_NetType = su_NwType ss, on_Protocol = su_Protocol ss, on_Command = su_Source ss,
     on_PodSvcIP = su_IP ss, on_ServerPort = Itoa (su_Port ss), on_Namespace = su_DestNamespace ss,
     on_Labels = su_DestLabels ss, on_Count = su_Count ss, on_UpdatedTime = unix_date (su_UpdatedTime ss),
     on_BindPort = su_BindPort ss, on_BindAddress = su_BindAddress ss\<rparr>"

definition ObsPodDetail_zero :: ObsPodDetail where
  "ObsPodDetail_zero = \<lparr>od_PodName = [], od_Namespace = [], od_ClusterName = [], od_ContainerName = [], od_Labels = [],
     od_DeployName = []\<rparr>"

definition pod_info :: "SystemSummary list \<Rightarrow> ObsPodDetail" where
  "pod_info sysSummary = (case sysSummary of [] \<Rightarrow> ObsPodDetail_zero
     | ss # _ \<Rightarrow> \<lparr>od_PodName = su_PodName ss, od_Namespace = su_NamespaceName ss, od_ClusterName = su_ClusterName ss,
         od_ContainerName = su_ContainerName ss, od_Labels = su_Labels ss, od_DeployName = su_Deployment ss\<rparr>)"

text \<open>What the answers need from outside: the format of dates and the orders of the maps.\<close>

record ObsEnv =
  oe_unix_date :: "int \<Rightarrow> string"
  oe_tree :: "tree_map \<Rightarrow> tree_map"
  oe_paths :: "(string \<times> bool) list \<Rightarrow> (string \<times> bool) list"
  oe_files :: "ProcFileMap \<Rightarrow> ProcFileMap"

definition GetKubearmorSummaryData ::
  "ObsEnv \<Rightarrow> string \<Rightarrow> SumTable \<Rightarrow> ObsRequest \<Rightarrow>
   SysObsProcFileData list \<times> SysObsProcFileData list \<times> SysObsNwData list \<times> ObsPodDetail" where
  "GetKubearmorSummaryData env DBDriver table req =
     (case GetSystemSummary DBDriver (request_filter req) table of
        Inl err \<Rightarrow> ([], [], [], ObsPodDetail_zero)
      | Inr sysSummary \<Rightarrow>
          (let processData = map (proc_data_of (oe_unix_date env)) (filter (\<lambda>ss. su_Operation ss = ''Process'') sysSummary);
               fileData = map (proc_data_of (oe_unix_date env)) (filter (\<lambda>ss. su_Operation ss = ''File'') sysSummary);
               nwData = map (nw_data_of (oe_unix_date env)) (filter (\<lambda>ss. su_Operation ss = ''Network'') sysSummary);
               fileData = (if or_Aggregate req
                 then aggregateProcFileData (oe_tree env) (oe_paths env) (oe_files env) fileData else fileData)
           in (processData, fileData, nwData, pod_info sysSummary)))"

record SysProcFileSummaryData =
  sp_Source :: string
  sp_Destination :: string
  sp_Count :: string
  sp_Status :: string
  sp_UpdatedTime :: string

record SysNwSummaryData =
  sn_Protocol :: string
  sn_Command :: string
  sn_IP :: string
  sn_Port :: string
  sn_BindPort :: string
  sn_BindAddress :: string
  sn_Labels :: string
  sn_Namespace :: string
  sn_Count :: string
  sn_UpdatedTime :: string

record CiliumSummData =
  cs_SrcPod :: string
  cs_DestPod :: string
  cs_DestNamespace :: string
  cs_DestLabel :: string
  cs_Protocol :: string
  cs_Port :: string
  cs_Count :: string
  cs_Status :: string
  cs_UpdatedTime :: string

record ObsResponse =
  rp_DeploymentName :: string
  rp_PodName :: string
  rp_ClusterName :: string
  rp_Namespace :: string
  rp_Label :: string
  rp_ContainerName :: string
  rp_ProcessData :: "SysProcFileSummaryData list"
  rp_FileData :: "SysProcFileSummaryData list"
  rp_IngressConnection :: "SysNwSummaryData list"
  rp_EgressConnection :: "SysNwSummaryData list"
  rp_BindConnection :: "SysNwSummaryData list"
  rp_IngressData :: "CiliumSummData list"
  rp_EgressData :: "CiliumSummData list"

definition ObsResponse_zero :: ObsResponse where
  "ObsResponse_zero = \<lparr>rp_DeploymentName = [], rp_PodName = [], rp_ClusterName = [], rp_Namespace = [], rp_Label = [],
     rp_ContainerName = [], rp_ProcessData = [], rp_FileData = [], rp_IngressConnection = [], rp_EgressConnection = [],
     rp_BindConnection = [], rp_IngressData = [], rp_EgressData = []\<rparr>"

text \<open>\<^verbatim>\<open>strconv.Itoa(int(count))\<close> of a \<^verbatim>\<open>uint32\<close>.\<close>

definition proc_summary :: "SysObsProcFileData \<Rightarrow> SysProcFileSummaryData" where
  "proc_summary d = \<lparr>sp_Source = pf_Source d, sp_Destination = pf_Destination d, sp_Count = Itoa (uint (pf_Count d)),
     sp_Status = pf_Status d, sp_UpdatedTime = pf_UpdatedTime d\<rparr>"

definition nw_summary :: "SysObsNwData \<Rightarrow> SysNwSummaryData" where
  "nw_summary d = \<lparr>sn_Protocol = on_Protocol d, sn_Command = on_Command d, sn_IP = on_PodSvcIP d, sn_Port = on_ServerPort d,
     sn_BindPort = [], sn_BindAddress = [], sn_Labels = on_Labels d, sn_Namespace = on_Namespace d,
     sn_Count = Itoa (uint (on_Count d)), sn_UpdatedTime = on_UpdatedTime d\<rparr>"

definition bind_summary :: "SysObsNwData \<Rightarrow> SysNwSummaryData" where
  "bind_summary d = (nw_summary d)\<lparr>sn_Port := [], sn_BindPort := on_BindPort d, sn_BindAddress := on_BindAddress d\<rparr>"

definition cilium_summary :: "NwObsIngressEgressData \<Rightarrow> CiliumSummData" where
  "cilium_summary d = \<lparr>cs_SrcPod = [], cs_DestPod = [], cs_DestNamespace = [], cs_DestLabel = [], cs_Protocol = ne_Protocol d,
     cs_Port = ne_Port d, cs_Count = ne_Count d, cs_Status = ne_Status d, cs_UpdatedTime = ne_UpdatedTime d\<rparr>"

text \<open>The data of KubeArmor in a response.\<close>

definition system_response ::
  "string \<Rightarrow> SysObsProcFileData list \<Rightarrow> SysObsProcFileData list \<Rightarrow> SysObsNwData list \<Rightarrow> ObsPodDetail \<Rightarrow> ObsResponse" where
  "system_response kind proc file nw podInfo =
     (let net = (\<lambda>t f. if Contains kind ''network'' then map f (filter (\<lambda>d. on_NetType d = t) nw) else []) in
      ObsResponse_zero\<lparr>rp_DeploymentName := od_DeployName podInfo, rp_PodName := od_PodName podInfo,
        rp_ClusterName := od_ClusterName podInfo, rp_Namespace := od_Namespace podInfo, rp_Label := od_Labels podInfo,
        rp_ContainerName := od_ContainerName podInfo,
        rp_ProcessData := if Contains kind ''process'' then map proc_summary proc else [],
        rp_FileData := if Contains kind ''file'' then map proc_summary file else [],
        rp_IngressConnection := net ''ingress'' nw_summary, rp_EgressConnection := net ''egress'' nw_summary,
        rp_BindConnection := net ''bind'' bind_summary\<rparr>)"

text \<open>The loop for egress runs over the data of ingress.\<close>

definition cilium_response ::
  "string \<Rightarrow> NwObsIngressEgressData list \<Rightarrow> NwObsIngressEgressData list \<Rightarrow> ObsResponse \<Rightarrow> ObsResponse" where
  "cilium_response kind ingressData egressData resp =
     resp\<lparr>rp_IngressData := if Contains kind ''ingress'' then map cilium_summary ingressData else [],
       rp_EgressData := if length egressData > 0 \<and> Contains kind ''egress'' then map cilium_summary ingressData else []\<rparr>"

definition system_part :: "ObsEnv \<Rightarrow> string \<Rightarrow> SumTable \<Rightarrow> ObsRequest \<Rightarrow> string + ObsResponse" where
  "system_part env DBDriver table request =
     (let kind = or_Type request in
      if Contains kind ''process'' \<or> Contains kind ''file'' \<or> Contains kind ''network'' then
        (let (proc, file, nw, podInfo) = GetKubearmorSummaryData env DBDriver table request in
         if length proc \<le> 0 \<and> length file \<le> 0 \<and> length nw \<le> 0
         then Inl ''no system summary info present for the requested pod name''
         else Inr (system_response kind proc file nw podInfo))
      else Inr ObsResponse_zero)"

definition cilium_part ::
  "ObsEnv \<Rightarrow> string \<Rightarrow> CiliumRow list \<Rightarrow> string \<Rightarrow> ObsResponse \<Rightarrow> string + ObsResponse" where
  "cilium_part env DBDriver flows kind resp =
     (if Contains kind ''ingress'' \<or> Contains kind ''egress'' then
        (let (ingressData, egressData, (podName, namespace, labels)) =
               GetCiliumSummaryData (oe_unix_date env) DBDriver flows in
         if length ingressData \<le> 0 \<and> length egressData \<le> 0 \<and> kind = ''network''
         then Inl ''no ingress/egress summary info present for the requested pod''
         else
           (let resp = (if kind = ''network''
                  then resp\<lparr>rp_PodName := podName, rp_Namespace := namespace, rp_Label := labels\<rparr> else resp)
            in Inr (cilium_response kind ingressData egressData resp)))
      else Inr resp)"

definition GetSummaryData ::
  "ObsEnv \<Rightarrow> string \<Rightarrow> SumTable \<Rightarrow> CiliumRow list \<Rightarrow> ObsRequest \<Rightarrow> string + ObsResponse" where
  "GetSummaryData env DBDriver table flows request =
     (case system_part env DBDriver table request of Inl err \<Rightarrow> Inl err
      | Inr resp \<Rightarrow> cilium_part env DBDriver flows (or_Type request) resp)"

definition request_pod :: "ObsRequest \<Rightarrow> ObsPodDetail" where
  "request_pod request = \<lparr>od_PodName = or_PodName request, od_Namespace = or_NameSpace request,
     od_ClusterName = or_ClusterName request, od_ContainerName = or_ContainerName request, od_Labels = or_Label request,
     od_DeployName = or_DeployName request\<rparr>"

definition GetPodNames :: "string \<Rightarrow> SumTable \<Rightarrow> ObsRequest \<Rightarrow> string + string list" where
  "GetPodNames DBDriver table request =
     (case GetPodNames_db DBDriver (request_pod request) table of Inl err \<Rightarrow> Inl err
      | Inr names \<Rightarrow>
          (let result = StringDeDuplication names in
           if length result \<le> 0 then Inl ''no pods matching the input request'' else Inr result))"

definition GetDeployNames :: "string \<Rightarrow> SumTable \<Rightarrow> ObsRequest \<Rightarrow> string + string list" where
  "GetDeployNames DBDriver table request =
     (case GetDeployNames_db DBDriver (request_pod request) table of Inl err \<Rightarrow> Inl err
      | Inr names \<Rightarrow>
          (let result = StringDeDuplication names in
           if length result \<le> 0 then Inl ''no pods matching the input request'' else Inr result))"

definition append_response :: "ObsResponse \<Rightarrow> ObsResponse \<Rightarrow> ObsResponse" where
  "append_response resp pod =
     \<lparr>rp_DeploymentName = rp_DeploymentName pod, rp_PodName = rp_PodName resp, rp_ClusterName = rp_ClusterName pod,
      rp_Namespace = rp_Namespace pod, rp_Label = rp_Label pod, rp_ContainerName = rp_ContainerName pod,
      rp_ProcessData = rp_ProcessData resp @ rp_ProcessData pod, rp_FileData = rp_FileData resp @ rp_FileData pod,
      rp_IngressConnection = rp_IngressConnection resp @ rp_IngressConnection pod,
      rp_EgressConnection = rp_EgressConnection resp @ rp_EgressConnection pod,
      rp_BindConnection = rp_BindConnection resp @ rp_BindConnection pod,
      rp_IngressData = rp_IngressData resp @ rp_IngressData pod, rp_EgressData = rp_EgressData resp @ rp_EgressData pod\<rparr>"

fun per_pod :: "(string \<Rightarrow> string + ObsResponse) \<Rightarrow> string list \<Rightarrow> ObsResponse \<Rightarrow> string + ObsResponse" where
  "per_pod get [] resp = Inr resp"
| "per_pod get (pod # pods) resp =
     (case get pod of Inl err \<Rightarrow> Inl ''no system summary info present for the requested pod''
      | Inr podDataResp \<Rightarrow> per_pod get pods (append_response resp podDataResp))"

definition ObsRequest_zero :: ObsRequest where
  "ObsRequest_zero = \<lparr>or_DeployName = [], or_PodName = [], or_NameSpace = [], or_ClusterName = [], or_ContainerName = [],
     or_Label = [], or_Type = [], or_Aggregate = False\<rparr>"

definition GetSummaryDataPerDeploy ::
  "ObsEnv \<Rightarrow> string \<Rightarrow> SumTable \<Rightarrow> CiliumRow list \<Rightarrow> ObsRequest \<Rightarrow> string + ObsResponse" where
  "GetSummaryDataPerDeploy env DBDriver table flows request =
     (case GetPodNames DBDriver table (ObsRequest_zero\<lparr>or_DeployName := or_DeployName request\<rparr>) of
        Inl err \<Rightarrow> Inl ''no system summary info present for the requested deployment''
      | Inr pods \<Rightarrow>
          (case per_pod (\<lambda>pod. GetSummaryData env DBDriver table flows (request\<lparr>or_PodName := pod\<rparr>)) pods ObsResponse_zero of
             Inl err \<Rightarrow> Inl err
           | Inr resp \<Rightarrow> Inr (resp\<lparr>rp_PodName := Join pods '',''\<rparr>)))"

section \<open>Grouping\<close>

definition log_count :: "LogMap \<Rightarrow> KubeArmorLog \<Rightarrow> int" where
  "log_count m l = (case map_of m l of None \<Rightarrow> 0 | Some n \<Rightarrow> n)"

text \<open>The keys are the logs seen so far, and no count is above the number of times the log was seen.\<close>

definition grouped_up_to :: "KubeArmorLog list \<Rightarrow> LogMap \<Rightarrow> bool" where
  "grouped_up_to seen m \<longleftrightarrow> distinct (map fst m) \<and> fst ` set m = set seen \<and>
     (\<forall>l \<in> set seen. 1 \<le> log_count m l \<and> log_count m l \<le> int (count_list seen l))"

lemma log_count_update: "log_count (AList.update k v m) l = (if l = k then v else log_count m l)"
  by (simp add: log_count_def update_conv')

lemma log_count_map_of: "map_of m k = Some v \<Longrightarrow> log_count m k = v"
  by (simp add: log_count_def)

lemma grouped_update:
  assumes "grouped_up_to seen m" and "1 \<le> v" and "v \<le> log_count m l + 1"
  shows "grouped_up_to (seen @ [l]) (AList.update l v m)"
proof -
  have "log_count m l \<le> int (count_list seen l)"
  proof (cases "l \<in> set seen")
    case False
    then have "map_of m l = None" using assms(1) by (simp add: grouped_up_to_def map_of_eq_None_iff)
    then show ?thesis by (simp add: log_count_def)
  qed (use assms(1) in \<open>simp add: grouped_up_to_def\<close>)
  moreover have "fst ` set (AList.update l v m) = insert l (set seen)"
    using assms(1) by (simp add: grouped_up_to_def dom_update)
  ultimately show ?thesis using assms
    by (auto simp: grouped_up_to_def log_count_update distinct_update)
qed

lemma log_count_nonneg: "grouped_up_to seen m \<Longrightarrow> 0 \<le> log_count m l"
proof (cases "l \<in> set seen")
  case False
  moreover assume "grouped_up_to seen m"
  ultimately have "map_of m l = None" by (simp add: grouped_up_to_def map_of_eq_None_iff)
  then show ?thesis by (simp add: log_count_def)
qed (auto simp: grouped_up_to_def)

lemma group_step_grouped:
  assumes "grouped_up_to seen m" and "seen \<noteq> []" and "iter_order ord"
  shows "grouped_up_to (seen @ [l]) (group_step ord l m)"
proof -
  have "fst ` set (ord m) \<noteq> {}" using assms by (simp add: grouped_up_to_def iter_order_set)
  then obtain k v r where o: "ord m = (k, v) # r" by (cases "ord m") auto
  then have "(k, v) \<in> set m" using iter_order_set [OF assms(3), of m] by (metis list.set_intros(1))
  moreover have d: "distinct (map fst m)" using assms(1) by (simp add: grouped_up_to_def)
  ultimately have "log_count m k = v" by (simp add: log_count_def)
  then show ?thesis using o grouped_update [OF assms(1), of "v + 1" l] grouped_update [OF assms(1), of 1 l]
      log_count_nonneg [OF assms(1), of l]
    by (auto simp: group_step_def)
qed

lemma group_rounds_grouped:
  assumes "\<And>i. iter_order (ord i)" and "grouped_up_to seen m" and "seen = [] \<longleftrightarrow> i = 0"
  shows "grouped_up_to (seen @ logs) (group_rounds ord i logs m)"
  using assms(2,3)
proof (induction logs arbitrary: i seen m)
  case (Cons l logs)
  have "grouped_up_to (seen @ [l]) (if i = 0 then AList.update l 1 m else group_step (ord i) l m)"
  proof (cases "i = 0")
    case True
    then show ?thesis using grouped_update [OF Cons.prems(1), of 1 l] log_count_nonneg [OF Cons.prems(1), of l] by simp
  qed (use group_step_grouped [OF Cons.prems(1) _ assms(1)] Cons.prems(2) in simp)
  from Cons.IH [OF this, of "Suc i"] show ?case by simp
qed simp

text \<open>An order that shows the entry of one log first.\<close>

definition show_first :: "KubeArmorLog \<Rightarrow> LogMap \<Rightarrow> LogMap" where
  "show_first b m = filter (\<lambda>e. fst e = b) m @ filter (\<lambda>e. fst e \<noteq> b) m"

lemma iter_order_show_first: "iter_order (show_first b)"
  by (simp add: iter_order_def show_first_def)

lemma group_rounds_show_first:
  assumes "a \<noteq> b" and "map_of m a = Some 1" and "b \<in> fst ` set m" and "i \<noteq> 0"
  shows "map_of (group_rounds (\<lambda>_. show_first b) i (replicate n a) m) a = Some 1"
  using assms(2-4)
proof (induction n arbitrary: i m)
  case (Suc n)
  have "filter (\<lambda>e. fst e = b) m \<noteq> []" using Suc.prems(2) by (auto simp: filter_empty_conv)
  then obtain e r where e: "filter (\<lambda>e. fst e = b) m = e # r" by (meson neq_Nil_conv)
  then have "e \<in> set (filter (\<lambda>e. fst e = b) m)" by simp
  then have "fst e = b" by simp
  then have "group_step (show_first b) a m = AList.update a 1 m"
    using e assms(1) by (cases e) (simp add: group_step_def show_first_def)
  then show ?case using Suc.IH [of "AList.update a 1 m" "Suc i"] Suc.prems
    by (simp add: update_conv' dom_update)
qed simp

section \<open>Aggregated files\<close>

lemma proc_file_step_sum:
  "sum_list (map pf_Count (filter (\<lambda>d. P (pf_Source d) (pf_Status d)) (map proc_file_data (proc_file_step dirs x m)))) =
   sum_list (map pf_Count (filter (\<lambda>d. P (pf_Source d) (pf_Status d)) (map proc_file_data m))) +
   (if P (pf_Source x) (pf_Status x) then pf_Count x else 0)"
proof -
  have upd: "sum_list (map pf_Count (filter (\<lambda>d. P (pf_Source d) (pf_Status d)) (map proc_file_data (AList.update (a, d, c) (n, t) m)))) =
      sum_list (map pf_Count (filter (\<lambda>d. P (pf_Source d) (pf_Status d)) (map proc_file_data m))) +
      (if P a c then n - (case map_of m (a, d, c) of None \<Rightarrow> 0 | Some v \<Rightarrow> fst v) else 0)" for a c d n t
    by (induction m) (auto simp: proc_file_data_def split: option.splits)
  show ?thesis by (simp add: proc_file_step_def Let_def upd split: option.splits)
qed

lemma fold_proc_file_sum:
  "sum_list (map pf_Count (filter (\<lambda>d. P (pf_Source d) (pf_Status d)) (map proc_file_data (fold (proc_file_step dirs) xs m)))) =
   sum_list (map pf_Count (filter (\<lambda>d. P (pf_Source d) (pf_Status d)) (map proc_file_data m))) +
   sum_list (map pf_Count (filter (\<lambda>d. P (pf_Source d) (pf_Status d)) xs))"
  by (induction xs arbitrary: m) (auto simp: proc_file_step_sum)

lemma sum_list_mset: "mset xs = mset ys \<Longrightarrow> sum_list (xs :: 'a :: comm_monoid_add list) = sum_list ys"
  by (metis sum_mset_sum_list)

lemma fold_proc_file_keys:
  "(a, d, c) \<in> fst ` set (fold (proc_file_step dirs) xs m) \<Longrightarrow>
   (a, d, c) \<in> fst ` set m \<or> (\<exists>x \<in> set xs. a = pf_Source x \<and> c = pf_Status x \<and> d = proc_destination dirs (pf_Destination x) [])"
proof (induction xs arbitrary: m)
  case (Cons x xs)
  from Cons.IH [of "proc_file_step dirs x m"] Cons.prems show ?case
    by (auto simp: proc_file_step_def Let_def dom_update)
qed simp

section \<open>From the batch to the table\<close>

lemma batch_events:
  assumes "ProcessSystemLogs decode GetAllClusterResources cfg now ord ord_log st = Inr st1"
    and "so_SummarizerMap st = []" and "\<not> oc_WriteLogsToDB cfg \<or> list_all (\<lambda>l. decode l \<noteq> None) (so_SystemLogs st)"
  shows "\<exists>es. syslog_summaries GetAllClusterResources (oc_Summary cfg) ClusterCache_zero (so_SystemLogs st) = Inr es \<and>
    so_SummarizerMap st1 = fold (\<lambda>(s, t). appendSummaryDataToSummaryMap s t) es [] \<and> so_SystemLogs st1 = []"
proof (cases "so_SystemLogs st = []")
  case True
  then show ?thesis using assms by (auto simp: ProcessSystemLogs_def)
next
  case False
  have "\<not> (oc_WriteLogsToDB cfg \<and> list_ex (\<lambda>l. decode l = None) (so_SystemLogs st))"
    using assms(3) by (auto simp: list_ex_iff list_all_iff)
  then show ?thesis using assms(1,2) False
    by (auto simp: ProcessSystemLogs_def Let_def convertSysLogToSysSummaryMap_eq go_bind_Inr_iff)
qed

section \<open>Egress\<close>

lemma system_part_egress: "system_part env DBDriver table request = Inr r \<Longrightarrow> rp_EgressData r = []"
proof -
  assume r: "system_part env DBDriver table request = Inr r"
  obtain proc files nw pod where k: "GetKubearmorSummaryData env DBDriver table request = (proc, files, nw, pod)"
    by (metis surj_pair)
  have "r = ObsResponse_zero \<or> r = system_response (or_Type request) proc files nw pod"
    using r unfolding system_part_def Let_def k prod.case by (simp split: if_split_asm)
  then show ?thesis by (auto simp: system_response_def ObsResponse_zero_def Let_def)
qed

lemma cilium_part_egress:
  assumes "cilium_part env DBDriver flows kind r = Inr resp"
  shows "rp_EgressData resp = rp_EgressData r \<or> rp_EgressData resp = [] \<or>
    rp_EgressData resp = map cilium_summary (fst (GetCiliumSummaryData (oe_unix_date env) DBDriver flows))"
proof -
  obtain ing eg p n l where c: "GetCiliumSummaryData (oe_unix_date env) DBDriver flows = (ing, eg, (p, n, l))"
    by (metis surj_pair)
  have "resp = r \<or> (\<exists>r'. resp = cilium_response kind ing eg r')"
    using assms unfolding cilium_part_def Let_def c prod.case by (simp split: if_split_asm) metis+
  then show ?thesis by (auto simp: cilium_response_def c)
qed

section \<open>Properties\<close>


text \<open>Grouping counts too little. For logs that are seen more than once there are orders of the map, which Go may choose,
  in which repetitions are forgotten: however often an event comes again after another one, it is counted once.\<close>

theorem groupKubeArmorLogs_undercounts:
  assumes "a \<noteq> b"
  shows "\<exists>ord. (\<forall>i. iter_order (ord i)) \<and> log_count (groupKubeArmorLogs ord (a # b # replicate n a) []) a = 1"
proof (intro exI conjI)
  show "\<forall>i. iter_order ((\<lambda>_. show_first b) i)" by (simp add: iter_order_show_first)
  have "group_step (show_first b) b [(a, 1)] = [(a, 1), (b, 1)]"
    using assms by (simp add: group_step_def show_first_def)
  then show "log_count (groupKubeArmorLogs (\<lambda>_. show_first b) (a # b # replicate n a) []) a = 1"
    using assms group_rounds_show_first [of a b "[(a, 1), (b, 1)]" 2 n]
    by (simp add: groupKubeArmorLogs_def log_count_def numeral_2_eq_2)
qed

text \<open>But it never counts too much and forgets no log: the keys of the map are the logs of the batch, and
  each has a count between one and the number of times it is in the batch.\<close>

theorem groupKubeArmorLogs_bounds:
  assumes "\<And>i. iter_order (ord i)"
  shows "fst ` set (groupKubeArmorLogs ord logs []) = set logs \<and>
    (\<forall>l \<in> set logs. 1 \<le> log_count (groupKubeArmorLogs ord logs []) l \<and>
       log_count (groupKubeArmorLogs ord logs []) l \<le> int (count_list logs l))"
proof -
  have "grouped_up_to ([] @ logs) (group_rounds ord 0 logs [])"
    using assms by (rule group_rounds_grouped) (simp_all add: grouped_up_to_def)
  then show ?thesis by (simp add: groupKubeArmorLogs_def grouped_up_to_def)
qed

text \<open>When the files of a request are aggregated, the events of each process with each status are kept. But unless
  a directory is found, the answer has lost all paths: every destination is empty, so that there is one entry for a process and
  a status.\<close>

theorem aggregateProcFileData_loses_destinations:
  assumes "iter_order ord"
  shows "sum_list (map pf_Count (filter (\<lambda>d. P (pf_Source d) (pf_Status d)) (aggregateProcFileData ord_tree ord_paths ord data))) =
      sum_list (map pf_Count (filter (\<lambda>d. P (pf_Source d) (pf_Status d)) data)) \<and>
    (list_all (\<lambda>sp. \<not> sp_IsDir sp) (AggregatePaths ord_tree ord_paths (map pf_Destination data)) \<longrightarrow>
       list_all (\<lambda>d. pf_Destination d = []) (aggregateProcFileData ord_tree ord_paths ord data))"
proof (cases "data = []")
  case False
  let ?dirs = "map sp_Path (filter sp_IsDir (AggregatePaths ord_tree ord_paths (map pf_Destination data)))"
  let ?m = "fold (proc_file_step ?dirs) data []"
  have res: "aggregateProcFileData ord_tree ord_paths ord data = map proc_file_data (ord ?m)"
    using False by (simp add: aggregateProcFileData_def Let_def)
  have "mset (map pf_Count (filter (\<lambda>d. P (pf_Source d) (pf_Status d)) (map proc_file_data (ord ?m)))) =
      mset (map pf_Count (filter (\<lambda>d. P (pf_Source d) (pf_Status d)) (map proc_file_data ?m)))"
    using assms by (simp add: iter_order_def filter_map)
  then have "sum_list (map pf_Count (filter (\<lambda>d. P (pf_Source d) (pf_Status d)) (map proc_file_data (ord ?m)))) =
      sum_list (map pf_Count (filter (\<lambda>d. P (pf_Source d) (pf_Status d)) (map proc_file_data ?m)))"
    by (rule sum_list_mset)
  moreover have "pf_Destination d = []"
    if none: "list_all (\<lambda>sp. \<not> sp_IsDir sp) (AggregatePaths ord_tree ord_paths (map pf_Destination data))"
      and d: "d \<in> set (map proc_file_data (ord ?m))" for d
  proof -
    have dirs: "?dirs = []" using none by (auto simp: filter_empty_conv list_all_iff)
    obtain a b c v where e: "((a, b, c), v) \<in> set ?m" "d = proc_file_data ((a, b, c), v)"
      using d assms by (auto simp: iter_order_set)
    then have "(a, b, c) \<in> fst ` set ?m" by force
    then have "b = []" using fold_proc_file_keys [of a b c ?dirs data "[]"] dirs by auto
    then show ?thesis using e(2) by (cases v) (simp add: proc_file_data_def)
  qed
  ultimately show ?thesis unfolding res by (simp add: fold_proc_file_sum list_all_iff)
qed (simp add: aggregateProcFileData_def)

text \<open>No answer shows a flow of egress: what is given as egress is nothing or the data of ingress.\<close>

theorem GetSummaryData_egress_is_ingress:
  assumes "GetSummaryData env DBDriver table flows request = Inr resp"
  shows "rp_EgressData resp = [] \<or>
    rp_EgressData resp = map cilium_summary (fst (GetCiliumSummaryData (oe_unix_date env) DBDriver flows))"
proof -
  obtain r where r: "system_part env DBDriver table request = Inr r" "cilium_part env DBDriver flows (or_Type request) r = Inr resp"
    using assms by (cases "system_part env DBDriver table request") (auto simp: GetSummaryData_def)
  from cilium_part_egress [OF r(2)] system_part_egress [OF r(1)] show ?thesis by simp
qed

section \<open>Witnesses\<close>

definition demo_obs_cfg :: ObsCfg where
  "demo_obs_cfg = \<lparr>oc_DBDriver = ''sqlite3'', oc_WriteLogsToDB = False, oc_Summary = demo_cfg\<rparr>"

definition demo_system_obs :: SystemObs where
  "demo_system_obs = \<lparr>so_SystemLogs = demo_logs, so_rows = [], so_SummarizerMap = []\<rparr>"

definition demo_first :: SystemObs where
  "demo_first = projr (ProcessSystemLogs Some (\<lambda>_. None) demo_obs_cfg 0 (\<lambda>_ m. m) rev demo_system_obs)"

definition demo_second :: SummaryState where
  "demo_second = projr (ProcessSystemSummary (\<lambda>t. t) demo_jobs demo_orders rev rev
     \<lparr>st_SummarizerMap = so_SummarizerMap demo_first, st_table = Some [], st_published = []\<rparr>)"


definition demo_log :: "string \<Rightarrow> KubeArmorLog" where
  "demo_log resource = stored_log (convertKubearmorPbLogToKubearmorLog (demo_alert ''File'' resource [] 3))"

lemma demo_log_neq: "demo_log ''/a'' \<noteq> demo_log ''/b''"
  by code_simp

theorem groupKubeArmorLogs_undercounts_witness:
  "\<exists>ord. log_count (groupKubeArmorLogs ord (demo_log ''/a'' # demo_log ''/b'' # replicate 100 (demo_log ''/a'')) []) (demo_log ''/a'') = 1"
  using groupKubeArmorLogs_undercounts [OF demo_log_neq] by blast

theorem groupKubeArmorLogs_bounds_witness:
  "log_count (groupKubeArmorLogs (\<lambda>_. rev) [demo_log ''/a'', demo_log ''/a'', demo_log ''/b''] []) (demo_log ''/a'') \<le> 2"
  using groupKubeArmorLogs_bounds [of "\<lambda>_. rev" "[demo_log ''/a'', demo_log ''/a'', demo_log ''/b'']"] demo_log_neq
  by simp

definition demo_file_data :: "SysObsProcFileData list" where
  "demo_file_data = [\<lparr>pf_Source = ''/bin/sh'', pf_Destination = ''/etc/x'', pf_Status = ''Allow'', pf_Count = 3, pf_UpdatedTime = ''t''\<rparr>,
     \<lparr>pf_Source = ''/bin/sh'', pf_Destination = ''/usr/y'', pf_Status = ''Allow'', pf_Count = 4, pf_UpdatedTime = ''u''\<rparr>]"

theorem aggregateProcFileData_loses_destinations_witness:
  "list_all (\<lambda>d. pf_Destination d = []) (aggregateProcFileData (\<lambda>m. m) rev rev demo_file_data)"
proof -
  have "list_all (\<lambda>sp. \<not> sp_IsDir sp) (AggregatePaths (\<lambda>m. m) rev (map pf_Destination demo_file_data))" by code_simp
  then show ?thesis
    using aggregateProcFileData_loses_destinations [OF iter_order_rev, of "\<lambda>_ _. True" "\<lambda>m. m" rev demo_file_data] by simp
qed

definition demo_env :: ObsEnv where
  "demo_env = \<lparr>oe_unix_date = Itoa, oe_tree = (\<lambda>m. m), oe_paths = (\<lambda>m. m), oe_files = (\<lambda>m. m)\<rparr>"

definition demo_egress :: "CiliumRow list" where
  "demo_egress = [cilium_row (cilium_log_of ((demo_obs_flow (Some 3) ''FORWARDED'')\<lparr>of_TrafficDirection := ''EGRESS''\<rparr>) 3)]"

theorem GetSummaryData_egress_is_ingress_witness:
  "\<exists>resp. GetSummaryData demo_env ''sqlite3'' None demo_egress (ObsRequest_zero\<lparr>or_Type := ''egress''\<rparr>) = Inr resp \<and>
     rp_EgressData resp = []"
proof -
  let ?r = "GetSummaryData demo_env ''sqlite3'' None demo_egress (ObsRequest_zero\<lparr>or_Type := ''egress''\<rparr>)"
  have "\<not> isl ?r" by code_simp
  then obtain resp where resp: "?r = Inr resp" by (cases ?r) auto
  have "fst (GetCiliumSummaryData (oe_unix_date demo_env) ''sqlite3'' demo_egress) = []" by code_simp
  then show ?thesis using GetSummaryData_egress_is_ingress [OF resp] resp by auto
qed

end
