(* ===== verification/SystemPipeline.thy ===== *)
theory SystemPipeline
  imports SystemDedup PolicyYamls NetworkSource
begin

text \<open>
  The discovery of system policies from end to end: \<^verbatim>\<open>getSystemLogs\<close>, \<^verbatim>\<open>UpdateSysPolicies\<close>,
  \<^verbatim>\<open>PopulateSystemPoliciesFromSystemLogs\<close>, \<^verbatim>\<open>DiscoverSystemPolicyMain\<close> and the functions that hand out the policies,
  of \<^verbatim>\<open>systempolicy/systemPolicy.go\<close>. The configuration, the pods of the clusters and the libraries that make the texts are in
  one record; what differs from pod to pod (orders of maps, random names, the time) in another. A run in which the loop that
  looks for a new name has not ended has the state \<^verbatim>\<open>None\<close>.
\<close>

section \<open>Environment and state\<close>

record SysEnv =
  se_Globals :: SysGlobals
  se_Yaml :: YamlConfig
  se_DeprecateOldMode :: bool
  se_pods :: "string \<Rightarrow> Pod list"
  se_marshal :: "KubeArmorPolicy \<Rightarrow> string option"
  se_cmp_equal :: "KnoxSystemSpec \<Rightarrow> KnoxSystemSpec \<Rightarrow> bool"

record PodRun =
  pr_file :: fs_iteration
  pr_process :: fs_iteration
  pr_network :: fs_iteration
  pr_dedup :: iteration
  pr_sets :: "ResourceSetMap \<Rightarrow> ResourceSetMap"
  pr_draws :: "string list"
  pr_rand :: string
  pr_now :: int

record SysRun =
  sr_logs :: "KnoxSystemLog list \<Rightarrow> KnoxSystemLog list"
  sr_clusters :: "(string \<times> KnoxSystemLog list) list \<Rightarrow> (string \<times> KnoxSystemLog list) list"
  sr_pods :: "string \<Rightarrow> (SysLogKey \<times> KnoxSystemLog list) list \<Rightarrow> (SysLogKey \<times> KnoxSystemLog list) list"
  sr_pod :: "string \<Rightarrow> nat \<Rightarrow> PodRun"

text \<open>\<^verbatim>\<open>sst_Files\<close> are the files that have been written, with their names.\<close>

record SysState =
  sst_Sets :: "wpfs_row list"
  sst_DB :: PolicyDB
  sst_Yamls :: "YamlRow list"
  sst_Published :: "PolicyYaml list"
  sst_Files :: "(string \<times> KubeArmorPolicy list) list"

definition DBDriver_of :: "SysEnv \<Rightarrow> string" where
  "DBDriver_of env = g_DBDriver (se_Globals env)"

section \<open>Logs\<close>

definition ReplaceMultiubuntuPodName_sys :: "KnoxSystemLog list \<Rightarrow> Pod list \<Rightarrow> KnoxSystemLog list" where
  "ReplaceMultiubuntuPodName_sys logs pods =
     (let ubuntu = (\<lambda>n. ''ubuntu-'' @ n @ ''-deployment'');
          names = map (\<lambda>n. (ubuntu n, last_pod (\<lambda>s. Contains s (ubuntu n)) pods)) [''1'', ''2'', ''3'', ''4'', ''5''];
          rename = (\<lambda>log. fold (\<lambda>(part, name) result.
            if Contains (sl_PodName log) part then result\<lparr>sl_PodName := name\<rparr> else result) names log)
      in map rename logs)"

record SystemSource =
  ss_Relay :: RelayState
  ss_LogMap :: "KnoxSystemLog list"

text \<open>The documents of the file are given as the logs that they decode to; \<^verbatim>\<open>None\<close> if the file cannot be read. What is read
  from the file and from the message queue goes into a local variable only. The map of logs is the list of its keys.\<close>

definition getSystemLogs ::
  "string \<Rightarrow> string \<Rightarrow> int \<Rightarrow> SystemLogEvent list option \<Rightarrow> Pod list \<Rightarrow> SystemSource \<Rightarrow>
   KnoxSystemLog list option \<times> SystemSource" where
  "getSystemLogs DBDriver SystemLogFrom OperationTrigger file_docs pods src =
     (if SystemLogFrom = ''file'' then
        (case file_docs of
           None \<Rightarrow> (None, src)
         | Some jsonLogs \<Rightarrow>
             (let systemLogs = (if DBDriver = ''mysql'' then ConvertMySQLKubeArmorLogsToKnoxSystemLogs Some jsonLogs
                    else if DBDriver = ''sqlite3'' then ConvertSQLiteKubeArmorLogsToKnoxSystemLogs Some jsonLogs else []);
                  systemLogs = ReplaceMultiubuntuPodName_sys systemLogs pods
              in (Some (ss_LogMap src), src)))
      else if SystemLogFrom = ''kubearmor'' then
        (let (relayLogs, relay) = GetSystemAlertsFromKubeArmorRelay OperationTrigger (ss_Relay src);
             src = src\<lparr>ss_Relay := relay\<rparr>
         in if length relayLogs = 0 \<or> int (length relayLogs) < OperationTrigger then (None, src)
            else
              (let logMap = fold (\<lambda>relayLog logMap. case ConvertKubeArmorLogToKnoxSystemLog relayLog of
                     Inl err \<Rightarrow> logMap
                   | Inr log \<Rightarrow> List.insert log logMap) relayLogs (ss_LogMap src)
               in (Some logMap, src\<lparr>ss_LogMap := logMap\<rparr>)))
      else if SystemLogFrom = ''feed-consumer'' then
        (let (sysLogs, relay) = GetSystemLogsFromFeedConsumer OperationTrigger (ss_Relay src);
             src = src\<lparr>ss_Relay := relay\<rparr>
         in if length sysLogs = 0 \<or> int (length sysLogs) < OperationTrigger then (None, src)
            else (Some (ss_LogMap src), src))
      else (None, src))"

section \<open>Handing out policies\<close>

definition replace_slash :: "string \<Rightarrow> string" where
  "replace_slash s = map (\<lambda>c. if c = CHR ''/'' then CHR ''-'' else c) s"

definition WriteSystemPoliciesToFile_Ext ::
  "SysGlobals \<Rightarrow> (ResourceSetMap \<Rightarrow> ResourceSetMap) \<Rightarrow> wpfs_row list \<Rightarrow> string \<Rightarrow> string \<Rightarrow> string \<Rightarrow> string \<Rightarrow> bool \<Rightarrow>
   go_panic + (string \<times> KubeArmorPolicy list) list" where
  "WriteSystemPoliciesToFile_Ext g ord db namespace clustername labels fromsource includeNetwork =
     go_bind (extractK8SSystemPolicies g ord db namespace clustername labels fromsource includeNetwork) (\<lambda>kubearmorK8SPolicies.
     go_bind (extractVMSystemPolicies g ord db PolicyDiscoveryVMNamespace clustername labels fromsource)
       (\<lambda>(kubearmorVMPolicies, sources).
         let fname = (\<lambda>pol s. ''kubearmor_policies_'' @ om_Namespace (kap_Metadata pol) @ ''_'' @ s) in
         Inr (map (\<lambda>pol. (fname pol (om_Name (kap_Metadata pol)), [pol])) kubearmorK8SPolicies @
              map (\<lambda>(pol, source). (fname pol (replace_slash source), [pol])) (zip kubearmorVMPolicies sources))))"

definition WriteSystemPoliciesToFile ::
  "SysEnv \<Rightarrow> (ResourceSetMap \<Rightarrow> ResourceSetMap) \<Rightarrow> string \<Rightarrow> string \<Rightarrow> string \<Rightarrow> string \<Rightarrow> bool \<Rightarrow> SysState \<Rightarrow>
   go_panic + SysState" where
  "WriteSystemPoliciesToFile env ord namespace clustername labels fromsource includeNetwork st =
     (let latestPolicies = GetSystemPolicies (DBDriver_of env) namespace ''latest'' (sst_DB st);
          files = (if length latestPolicies > 0
            then [(''kubearmor_policies'', ConvertKnoxSystemPolicyToKubeArmorPolicy latestPolicies)] else [])
      in go_bind (WriteSystemPoliciesToFile_Ext (se_Globals env) ord (sst_Sets st) namespace clustername labels fromsource
           includeNetwork) (\<lambda>ext. Inr (st\<lparr>sst_Files := sst_Files st @ files @ ext\<rparr>)))"

text \<open>A policy whose text cannot be made is sent as nil.\<close>

record WorkerResponse =
  wr_Res :: string
  wr_Kubearmorpolicy :: "string list"

definition GetSysPolicy ::
  "SysEnv \<Rightarrow> (ResourceSetMap \<Rightarrow> ResourceSetMap) \<Rightarrow> wpfs_row list \<Rightarrow> string \<Rightarrow> string \<Rightarrow> string \<Rightarrow> string \<Rightarrow> bool \<Rightarrow>
   go_panic + WorkerResponse" where
  "GetSysPolicy env ord db namespace clustername labels fromsource includeNetwork =
     (let g = se_Globals env;
          data = (\<lambda>pol. case se_marshal env pol of None \<Rightarrow> [] | Some val \<Rightarrow> val)
      in go_bind (extractK8SSystemPolicies g ord db namespace clustername labels fromsource includeNetwork) (\<lambda>kubearmorK8SPolicies.
         go_bind (extractVMSystemPolicies g ord db PolicyDiscoveryVMNamespace clustername labels fromsource)
           (\<lambda>(kubearmorVMPolicies, _).
             Inr \<lparr>wr_Res = ''OK'', wr_Kubearmorpolicy = map data kubearmorK8SPolicies @ map data kubearmorVMPolicies\<rparr>)))"

section \<open>Storing policies\<close>

text \<open>A round of the loop over the policies of the file sets.\<close>

definition update_sys_policy ::
  "string \<Rightarrow> int \<Rightarrow> KnoxSystemPolicy \<Rightarrow> PolicyDB \<times> KnoxSystemPolicy list \<Rightarrow> PolicyDB \<times> KnoxSystemPolicy list" where
  "update_sys_policy DBDriver now wpfsPolicy = (\<lambda>(db, locSysPolicies).
     let sysPoliciesDb = GetSystemPolicies DBDriver [] [] db in
     if list_ex (\<lambda>sysPolicyDb. sys_name sysPolicyDb = sys_name wpfsPolicy) sysPoliciesDb
     then (UpdateSystemPolicy DBDriver now wpfsPolicy db, locSysPolicies)
     else (db, locSysPolicies @ [wpfsPolicy]))"

definition UpdateSysPolicies ::
  "SysEnv \<Rightarrow> (ResourceSetMap \<Rightarrow> ResourceSetMap) \<Rightarrow> int \<Rightarrow> KnoxSystemPolicy list \<Rightarrow> SysState \<Rightarrow> go_panic + SysState" where
  "UpdateSysPolicies env ord now wpfsPolicies st =
     go_bind (if length wpfsPolicies < 1
         then populateKnoxSysPolicyFromWPFSDb (se_Globals env) ord (sst_Sets st) [] [] [] []
         else Inr wpfsPolicies) (\<lambda>wpfsPolicies.
       let driver = DBDriver_of env;
           (published, yamls) = InsertSysPoliciesYamlToDB driver (se_Yaml env) now (se_marshal env) wpfsPolicies (sst_Yamls st);
           (db, locSysPolicies) = fold (update_sys_policy driver now) wpfsPolicies (sst_DB st, [])
       in Inr (st\<lparr>sst_Published := sst_Published st @ published, sst_Yamls := yamls,
            sst_DB := InsertSystemPolicies driver now locSysPolicies db\<rparr>))"

section \<open>Discovery\<close>

definition op_enabled :: "SysEnv \<Rightarrow> int \<Rightarrow> bool" where
  "op_enabled env op \<longleftrightarrow> g_SystemPolicyTypes (se_Globals env) AND op > 0"

text \<open>The file sets of the three kinds of operations; the result says whether the table was updated.\<close>

definition update_sets ::
  "SysEnv \<Rightarrow> PodRun \<Rightarrow> Pod list \<Rightarrow> fs_iteration \<Rightarrow> string \<Rightarrow> int \<Rightarrow> KnoxSystemLog list \<Rightarrow> wpfs_row list \<times> bool \<Rightarrow>
   wpfs_row list \<times> bool" where
  "update_sets env run pods it op op_int perPodlogs = (\<lambda>(db, isWpfsDbUpdated).
     if op_enabled env op_int then
       (let (db, updated) = GenFileSetForAllPodsInCluster it (DBDriver_of env) (pr_rand run) (pr_now run) db pods op
              (getOperationLogs op perPodlogs)
        in (db, updated \<or> isWpfsDbUpdated))
     else (db, isWpfsDbUpdated))"

definition pod_sets ::
  "SysEnv \<Rightarrow> PodRun \<Rightarrow> Pod list \<Rightarrow> KnoxSystemLog list \<Rightarrow> wpfs_row list \<Rightarrow> wpfs_row list \<times> bool" where
  "pod_sets env run pods perPodlogs db =
     update_sets env run pods (pr_network run) SYS_OP_NETWORK SYS_OP_NETWORK_INT perPodlogs
     (update_sets env run pods (pr_process run) SYS_OP_PROCESS SYS_OP_PROCESS_INT perPodlogs
     (update_sets env run pods (pr_file run) SYS_OP_FILE SYS_OP_FILE_INT perPodlogs (db, False)))"

text \<open>The mode without the table of file sets.\<close>

definition pod_sys_policies :: "SysEnv \<Rightarrow> PodRun \<Rightarrow> Pod \<Rightarrow> KnoxSystemLog list \<Rightarrow> KnoxSystemPolicy list" where
  "pod_sys_policies env run pod perPodlogs =
     (let g = se_Globals env;
          discovered = (if op_enabled env SYS_OP_FILE_INT
            then discoverFileOperationPolicy (pr_dedup run) g [] pod (getOperationLogs SYS_OP_FILE perPodlogs) else [])
      in if op_enabled env SYS_OP_PROCESS_INT
         then discoverProcessOperationPolicy (pr_dedup run) g discovered pod (getOperationLogs SYS_OP_PROCESS perPodlogs)
         else discovered)"

definition store_policies ::
  "SysEnv \<Rightarrow> PodRun \<Rightarrow> string \<Rightarrow> KnoxSystemPolicy list \<Rightarrow> KnoxSystemPolicy list \<Rightarrow> SysState \<Rightarrow> SysState option" where
  "store_policies env run clusterName existingPolicies discovered st =
     (case UpdateDuplicatedPolicy_sys (pr_dedup run) (se_cmp_equal env) (pr_draws run) (pr_now run) existingPolicies
         discovered clusterName of
        None \<Rightarrow> None
      | Some (newPolicies, outdated) \<Rightarrow>
          (let db = fold (\<lambda>(old, new). UpdateOutdatedSystemPolicy (DBDriver_of env) old new) outdated (sst_DB st);
               db = (if length newPolicies > 0 \<and> Contains (g_SystemPolicyTo (se_Globals env)) ''db''
                 then InsertSystemPolicies (DBDriver_of env) (pr_now run) newPolicies db else db)
           in Some (st\<lparr>sst_DB := db\<rparr>)))"

text \<open>A round of the loop over the pods of a cluster.\<close>

definition populate_pod ::
  "SysEnv \<Rightarrow> PodRun \<Rightarrow> string \<Rightarrow> Pod list \<Rightarrow> KnoxSystemPolicy list \<Rightarrow> SysLogKey \<times> KnoxSystemLog list \<Rightarrow> SysState \<Rightarrow>
   go_panic + SysState option" where
  "populate_pod env run clusterName pods existingPolicies = (\<lambda>(sysKey, perPodlogs) st.
     case getPodInstance sysKey pods of
       Inl err \<Rightarrow> Inr (Some st)
     | Inr pod \<Rightarrow>
         (let (sets, isWpfsDbUpdated) = pod_sets env run pods perPodlogs (sst_Sets st);
              st = st\<lparr>sst_Sets := sets\<rparr>
          in go_bind
              (if se_DeprecateOldMode env then
                 (if isWpfsDbUpdated then go_bind (UpdateSysPolicies env (pr_sets run) (pr_now run) [] st) (\<lambda>st. Inr (Some st))
                  else Inr (Some st))
               else go_bind (updateSysPolicySelector clusterName pod (pod_sys_policies env run pod perPodlogs))
                 (\<lambda>discovered. Inr (store_policies env run clusterName existingPolicies discovered st)))
              (\<lambda>r. case r of
                 None \<Rightarrow> Inr None
               | Some st \<Rightarrow>
                   if Contains (g_SystemPolicyTo (se_Globals env)) ''file'' then
                     go_bind (WriteSystemPoliciesToFile env (pr_sets run) (slk_Namespace sysKey) [] [] [] True st)
                       (\<lambda>st. Inr (Some st))
                   else Inr (Some st))))"

text \<open>The loops, which stop where a round has not ended.\<close>

definition when_ended :: "('s \<Rightarrow> go_panic + 's option) \<Rightarrow> 's option \<Rightarrow> go_panic + 's option" where
  "when_ended f r = (case r of None \<Rightarrow> Inr None | Some st \<Rightarrow> f st)"

definition populate_sys_cluster ::
  "SysEnv \<Rightarrow> SysRun \<Rightarrow> KnoxSystemPolicy list \<Rightarrow> string \<times> KnoxSystemLog list \<Rightarrow> SysState \<Rightarrow> go_panic + SysState option" where
  "populate_sys_cluster env runs existingPolicies = (\<lambda>(clusterName, sysLogs) st.
     let pods = se_pods env clusterName;
         cfgFilteredLogs = FilterSystemLogsByConfig (g_SystemLogFilters (se_Globals env)) sysLogs pods;
         nsPodLogs = sr_pods runs clusterName (clusteringSystemLogsByNamespacePod cfgFilteredLogs)
     in foldM (\<lambda>r (i, kl). when_ended (populate_pod env (sr_pod runs clusterName i) clusterName pods existingPolicies kl) r)
          (Some st) (enumerate 0 nsPodLogs))"

text \<open>The result is the state and the map of logs, which is emptied. The policies that the function returns are left out: the worker
  does not look at them, and the analyzer calls it without logs.\<close>

definition PopulateSystemPoliciesFromSystemLogs ::
  "SysEnv \<Rightarrow> SysRun \<Rightarrow> KnoxSystemLog list \<Rightarrow> SysState \<Rightarrow> go_panic + (SysState option \<times> KnoxSystemLog list)" where
  "PopulateSystemPoliciesFromSystemLogs env runs sysLogMap st =
     (if length sysLogMap = 0 then Inr (Some st, sysLogMap)
      else
        (let (sysLogs, sysLogMap) = cleanseSystemLog (sr_logs runs) sysLogMap;
             clusteredLogs = clusteringSystemLogsByCluster sysLogs;
             existingPolicies = GetSystemPolicies (DBDriver_of env) [] [] (sst_DB st)
         in go_bind (foldM (\<lambda>r cl. when_ended (populate_sys_cluster env runs existingPolicies cl) r) (Some st)
              (sr_clusters runs clusteredLogs)) (\<lambda>r. Inr (r, sysLogMap))))"

section \<open>The worker\<close>

record SysWorker =
  sw_Running :: bool
  sw_Source :: SystemSource
  sw_State :: SysState

record SysSourceCfg =
  ssc_LogFrom :: string
  ssc_Trigger :: int
  ssc_docs :: "SystemLogEvent list option"
  ssc_pods :: "Pod list"

text \<open>The status keeps a second call from doing anything; a call in the state \<^verbatim>\<open>None\<close> has not returned.\<close>

definition DiscoverSystemPolicyMain ::
  "SysSourceCfg \<Rightarrow> SysEnv \<Rightarrow> SysRun \<Rightarrow> SysWorker \<Rightarrow> go_panic + SysWorker option" where
  "DiscoverSystemPolicyMain cfg env runs w =
     (if sw_Running w then Inr (Some w)
      else
        (let (logs, src) = getSystemLogs (DBDriver_of env) (ssc_LogFrom cfg) (ssc_Trigger cfg) (ssc_docs cfg) (ssc_pods cfg)
               (sw_Source w)
         in case logs of
              None \<Rightarrow> go_bind (PopulateSystemPoliciesFromSystemLogs env runs [] (sw_State w)) (\<lambda>(r, _).
                Inr (map_option (\<lambda>st. w\<lparr>sw_Source := src, sw_State := st\<rparr>) r))
            | Some logMap \<Rightarrow> go_bind (PopulateSystemPoliciesFromSystemLogs env runs logMap (sw_State w)) (\<lambda>(r, logMap).
                Inr (map_option (\<lambda>st. w\<lparr>sw_Source := src\<lparr>ss_LogMap := logMap\<rparr>, sw_State := st\<rparr>) r))))"

section \<open>Grouping and cleansing\<close>

text \<open>The entries of a list that was grouped by a key: for each key that occurs the elements with it, in order.\<close>

lemma fold_append_at:
  "distinct (map fst m) \<Longrightarrow> \<forall>(k, ys) \<in> set m. ys \<noteq> [] \<Longrightarrow>
   distinct (map fst (fold (\<lambda>x m. append_at (key x) [x] m) xs m)) \<and>
   (\<forall>k. entries (fold (\<lambda>x m. append_at (key x) [x] m) xs m) k = entries m k @ filter (\<lambda>x. key x = k) xs) \<and>
   (\<forall>(k, ys) \<in> set (fold (\<lambda>x m. append_at (key x) [x] m) xs m). ys \<noteq> [])"
proof (induction xs arbitrary: m)
  case (Cons x xs)
  have "distinct (map fst (append_at (key x) [x] m))" using Cons.prems(1) by (simp add: append_at_def distinct_update)
  moreover have "\<forall>(k, ys) \<in> set (append_at (key x) [x] m). ys \<noteq> []"
    using Cons.prems(2) by (auto simp: append_at_def dest!: AList_update_mem)
  ultimately show ?case using Cons.IH [of "append_at (key x) [x] m"] by (auto simp: entries_append_at)
qed simp

lemma grouped_mem:
  assumes "m = fold (\<lambda>x m. append_at (key x) [x] m) xs []"
  shows "distinct (map fst m)" and "(k, ys) \<in> set m \<longleftrightarrow> ys = filter (\<lambda>x. key x = k) xs \<and> k \<in> key ` set xs"
proof -
  note f = fold_append_at [of "[]" key xs]
  show dist: "distinct (map fst m)" using f assms by simp
  have ent: "entries m k = filter (\<lambda>x. key x = k) xs" for k
    using f assms by (simp add: entries_def)
  have mem: "(k, ys) \<in> set m \<longleftrightarrow> map_of m k = Some ys" using dist by (simp add: map_of_eq_Some_iff)
  have "ys \<noteq> []" if "(k, ys) \<in> set m" using f that assms by fastforce
  moreover have "filter (\<lambda>x. key x = k) xs = [] \<longleftrightarrow> k \<notin> key ` set xs" by (auto simp: filter_empty_conv)
  ultimately show "(k, ys) \<in> set m \<longleftrightarrow> ys = filter (\<lambda>x. key x = k) xs \<and> k \<in> key ` set xs"
    using ent [of k] mem by (cases "map_of m k") (auto simp: entries_def)
qed

lemma clustering_mem:
  "(c, ls) \<in> set (clusteringSystemLogsByCluster logs) \<longleftrightarrow>
     ls = filter (\<lambda>l. sl_ClusterName l = c) logs \<and> c \<in> sl_ClusterName ` set logs"
  unfolding clusteringSystemLogsByCluster_def by (rule grouped_mem(2)) simp

definition pod_key :: "KnoxSystemLog \<Rightarrow> SysLogKey" where
  "pod_key log = \<lparr>slk_Namespace = sl_Namespace log, slk_PodName = sl_PodName log\<rparr>"

lemma clustering_pods_mem:
  "(k, ls) \<in> set (clusteringSystemLogsByNamespacePod logs) \<longleftrightarrow>
     ls = filter (\<lambda>l. pod_key l = k) logs \<and> k \<in> pod_key ` set logs"
  unfolding clusteringSystemLogsByNamespacePod_def by (rule grouped_mem(2)) (simp add: pod_key_def)

definition clean_log :: "KnoxSystemLog \<Rightarrow> bool" where
  "clean_log log \<longleftrightarrow> sl_Source log \<noteq> sl_Resource log \<and> sl_PodName log \<noteq> [] \<and> sl_Namespace log \<noteq> []"

lemma cleanse_fold:
  "fold (\<lambda>log (results, logMap).
       if sl_Source log = sl_Resource log then (results, remove1 log logMap)
       else if sl_PodName log = [] \<or> sl_Namespace log = [] then (results, remove1 log logMap)
       else (results @ [log], remove1 log logMap)) ls (rs, m) =
   (rs @ filter clean_log ls, fold remove1 ls m)"
  by (induction ls arbitrary: rs m) (auto simp: clean_log_def)

lemma fold_remove1: "mset ls = mset m \<Longrightarrow> fold remove1 ls m = []"
proof (induction ls arbitrary: m)
  case (Cons l ls)
  then have "mset ls = mset (remove1 l m)" by (metis add_mset_remove_trivial mset.simps(2) mset_remove1)
  then show ?case using Cons.IH by simp
qed simp

lemma cleanseSystemLog_eq:
  "iter_order ord \<Longrightarrow> cleanseSystemLog ord m = (filter clean_log (ord m), [])"
  using fold_remove1 [of "ord m" m] by (simp add: cleanseSystemLog_def cleanse_fold iter_order_def)

section \<open>Loops\<close>

lemma when_ended_simps [simp]: "when_ended f None = Inr None" "when_ended f (Some s) = f s"
  by (simp_all add: when_ended_def)

lemma foldM_ended_None: "foldM (\<lambda>r x. when_ended (f x) r) None xs = Inr None"
  by (induction xs) simp_all

text \<open>A loop that ends has ended in every round; if each round keeps an invariant and adds a set to some value, the loop
  adds their union.\<close>

lemma foldM_ended:
  assumes "foldM (\<lambda>r x. when_ended (f x) r) (Some s) xs = Inr (Some s')" and "I s"
    and "\<And>x s s'. x \<in> set xs \<Longrightarrow> I s \<Longrightarrow> f x s = Inr (Some s') \<Longrightarrow> I s' \<and> V s' = V s \<union> A x"
  shows "I s' \<and> V s' = V s \<union> (\<Union>x \<in> set xs. A x)"
  using assms
proof (induction xs arbitrary: s)
  case (Cons x xs)
  obtain r where r: "f x s = Inr r" "foldM (\<lambda>r x. when_ended (f x) r) r xs = Inr (Some s')"
    using Cons.prems(1) by (auto simp: go_bind_Inr_iff)
  then obtain s1 where s1: "r = Some s1" by (cases r) (auto simp: foldM_ended_None)
  have "I s1 \<and> V s1 = V s \<union> A x" using Cons.prems(3) [OF _ Cons.prems(2), of x s1] r(1) s1 by simp
  moreover from this have "I s' \<and> V s' = V s1 \<union> (\<Union>x \<in> set xs. A x)"
    using r(2) s1 by (intro Cons.IH) (auto dest: Cons.prems(3) [rotated 2])
  ultimately show ?case by auto
qed simp

section \<open>The table of file sets\<close>

text \<open>Only the file sets of a round change the table of file sets.\<close>

lemma UpdateSysPolicies_sets: "UpdateSysPolicies env ord now ps st = Inr st' \<Longrightarrow> sst_Sets st' = sst_Sets st"
  by (auto simp: UpdateSysPolicies_def Let_def go_bind_Inr_iff case_prod_unfold)

lemma store_policies_sets: "store_policies env run c ex ds st = Some st' \<Longrightarrow> sst_Sets st' = sst_Sets st"
  by (auto simp: store_policies_def Let_def split: option.splits)

lemma WriteSystemPoliciesToFile_sets:
  "WriteSystemPoliciesToFile env ord ns c l fs inc st = Inr st' \<Longrightarrow> sst_Sets st' = sst_Sets st"
  by (auto simp: WriteSystemPoliciesToFile_def Let_def go_bind_Inr_iff)

lemma populate_pod_sets:
  assumes "populate_pod env run c pods ex (k, ls) st = Inr (Some st')"
  shows "sst_Sets st' = (case getPodInstance k pods of Inl _ \<Rightarrow> sst_Sets st | Inr _ \<Rightarrow> fst (pod_sets env run pods ls (sst_Sets st)))"
proof (cases "getPodInstance k pods")
  case (Inr pod)
  obtain sets b where sets: "pod_sets env run pods ls (sst_Sets st) = (sets, b)" by fastforce
  have ext: "sst_Sets st' = sst_Sets s" if "(if Contains (g_SystemPolicyTo (se_Globals env)) ''file'' then
      go_bind (WriteSystemPoliciesToFile env (pr_sets run) (slk_Namespace k) [] [] [] True s) (\<lambda>st. Inr (Some st))
      else Inr (Some s)) = Inr (Some st')" for s
    using that by (auto simp: go_bind_Inr_iff split: if_splits dest: WriteSystemPoliciesToFile_sets)
  show ?thesis
  proof (cases "se_DeprecateOldMode env")
    case True
    show ?thesis
    proof (cases b)
      case b: True
      obtain s where "UpdateSysPolicies env (pr_sets run) (pr_now run) [] (st\<lparr>sst_Sets := sets\<rparr>) = Inr s" "sst_Sets st' = sst_Sets s"
        using assms Inr sets True b by (auto simp: populate_pod_def Let_def go_bind_Inr_iff dest!: ext)
      then show ?thesis using UpdateSysPolicies_sets Inr sets by fastforce
    qed (use assms Inr sets True in \<open>auto simp: populate_pod_def Let_def dest!: ext\<close>)
  next
    case False
    obtain ds where ds: "updateSysPolicySelector c pod (pod_sys_policies env run pod ls) = Inr ds"
      using assms Inr sets False by (auto simp: populate_pod_def Let_def go_bind_Inr_iff)
    obtain s where "store_policies env run c ex ds (st\<lparr>sst_Sets := sets\<rparr>) = Some s" "sst_Sets st' = sst_Sets s"
      using assms Inr sets False ds
      by (cases "store_policies env run c ex ds (st\<lparr>sst_Sets := sets\<rparr>)") (auto simp: populate_pod_def Let_def dest!: ext)
    then show ?thesis using store_policies_sets Inr sets by fastforce
  qed
qed (use assms in \<open>simp add: populate_pod_def\<close>)

definition run_ok :: "SysRun \<Rightarrow> bool" where
  "run_ok runs \<longleftrightarrow> iter_order (sr_logs runs) \<and> iter_order (sr_clusters runs) \<and> (\<forall>c. iter_order (sr_pods runs c)) \<and>
     (\<forall>c i. iter_order (it_sets (pr_file (sr_pod runs c i))) \<and> iter_order (it_sets (pr_process (sr_pod runs c i))) \<and>
       iter_order (it_sets (pr_network (sr_pod runs c i))) \<and> iter_order (pr_sets (sr_pod runs c i)))"

text \<open>The protocols that a list of logs adds to a set.\<close>

definition new_protocols :: "Pod list \<Rightarrow> WorkloadProcessFileSet \<Rightarrow> KnoxSystemLog list \<Rightarrow> string set" where
  "new_protocols pods w logs =
     {r. \<exists>log \<in> set logs. sl_Operation log = SYS_OP_NETWORK \<and> (\<exists>rs. log_entry pods SYS_OP_NETWORK log = Some (w, rs) \<and> r \<in> set rs)}"

definition sets_ok :: "string \<Rightarrow> wpfs_row list \<Rightarrow> bool" where
  "sets_ok driver db \<longleftrightarrow> db_ok db \<and> (\<forall>w. wpfs_SetType w = SYS_OP_NETWORK \<longrightarrow> set (db_lookup driver db w) \<subseteq> protocols)"

lemma collect_sets_type: "w \<in> fst ` set (collect_sets pods settype logs) \<Longrightarrow> wpfs_SetType w = settype"
proof -
  assume "w \<in> fst ` set (collect_sets pods settype logs)"
  then obtain fs where "(w, fs) \<in> set (collect_sets pods settype logs)" by fastforce
  then have "map_of (collect_sets pods settype logs) w = Some fs"
    using collect_sets_distinct by (simp add: map_of_eq_Some_iff)
  then show "wpfs_SetType w = settype" by (rule collect_sets_key)
qed

lemma update_sets_other:
  assumes "driver_ok (DBDriver_of env)" and "sets_ok (DBDriver_of env) (fst s)" and "iter_order (it_sets it)" and "op \<noteq> SYS_OP_NETWORK"
    and "wpfs_SetType w = SYS_OP_NETWORK"
  shows "sets_ok (DBDriver_of env) (fst (update_sets env run pods it op n logs s)) \<and>
    db_lookup (DBDriver_of env) (fst (update_sets env run pods it op n logs s)) w = db_lookup (DBDriver_of env) (fst s) w"
proof -
  obtain db b where s: "s = (db, b)" by fastforce
  let ?g = "GenFileSetForAllPodsInCluster it (DBDriver_of env) (pr_rand run) (pr_now run) db pods op (getOperationLogs op logs)"
  have db: "db_ok db" using assms(2) by (simp add: s sets_ok_def)
  have same: "db_lookup (DBDriver_of env) (fst ?g) v = db_lookup (DBDriver_of env) db v" if "wpfs_SetType v = SYS_OP_NETWORK" for v
    using assms(4) that collect_sets_type [of v pods op "getOperationLogs op logs"]
    by (intro GenFileSet_other [OF assms(1) db assms(3)]) auto
  have "sets_ok (DBDriver_of env) (fst ?g)"
    using same GenFileSet_inv [OF assms(1) db] assms(2) by (simp add: sets_ok_def s)
  then show ?thesis
    using assms(2) same [OF assms(5)] by (simp add: update_sets_def s case_prod_unfold Let_def)
qed

lemma update_sets_network:
  assumes "driver_ok (DBDriver_of env)" and "sets_ok (DBDriver_of env) (fst s)" and "iter_order (it_sets it)"
    and "op_enabled env SYS_OP_NETWORK_INT" and "wpfs_SetType w = SYS_OP_NETWORK"
  shows "sets_ok (DBDriver_of env) (fst (update_sets env run pods it SYS_OP_NETWORK SYS_OP_NETWORK_INT logs s)) \<and>
    set (db_lookup (DBDriver_of env) (fst (update_sets env run pods it SYS_OP_NETWORK SYS_OP_NETWORK_INT logs s)) w) =
      set (db_lookup (DBDriver_of env) (fst s) w) \<union> new_protocols pods w logs"
proof -
  obtain db b where s: "s = (db, b)" by fastforce
  let ?g = "GenFileSetForAllPodsInCluster it (DBDriver_of env) (pr_rand run) (pr_now run) db pods SYS_OP_NETWORK
    (getOperationLogs SYS_OP_NETWORK logs)"
  have db: "db_ok db" "\<And>w. wpfs_SetType w = SYS_OP_NETWORK \<Longrightarrow> set (db_lookup (DBDriver_of env) db w) \<subseteq> protocols"
    using assms(2) by (simp_all add: s sets_ok_def)
  have look: "set (db_lookup (DBDriver_of env) (fst ?g) v) = set (db_lookup (DBDriver_of env) db v) \<union> new_protocols pods v logs" for v
    using GenFileSet_network_sets [OF assms(1) db(1) assms(3) db(2)]
    by (auto simp: new_protocols_def getOperationLogs_def)
  have "new_protocols pods v logs \<subseteq> protocols" for v
    using log_entry_network by (fastforce simp: new_protocols_def)
  then have "sets_ok (DBDriver_of env) (fst ?g)"
    using look db(2) GenFileSet_inv [OF assms(1) db(1)] by (auto simp: sets_ok_def)
  then show ?thesis
    using assms(4) look by (simp add: update_sets_def s case_prod_unfold Let_def)
qed


lemma pod_sets_network:
  assumes "driver_ok (DBDriver_of env)" and "sets_ok (DBDriver_of env) db" and "run_ok runs"
    and "op_enabled env SYS_OP_NETWORK_INT" and "wpfs_SetType w = SYS_OP_NETWORK"
  shows "sets_ok (DBDriver_of env) (fst (pod_sets env (sr_pod runs c i) pods logs db)) \<and>
    set (db_lookup (DBDriver_of env) (fst (pod_sets env (sr_pod runs c i) pods logs db)) w) =
      set (db_lookup (DBDriver_of env) db w) \<union> new_protocols pods w logs"
proof -
  let ?run = "sr_pod runs c i"
  let ?s1 = "update_sets env ?run pods (pr_file ?run) SYS_OP_FILE SYS_OP_FILE_INT logs (db, False)"
  let ?s2 = "update_sets env ?run pods (pr_process ?run) SYS_OP_PROCESS SYS_OP_PROCESS_INT logs ?s1"
  have its: "iter_order (it_sets (pr_file ?run))" "iter_order (it_sets (pr_process ?run))" "iter_order (it_sets (pr_network ?run))"
    using assms(3) by (simp_all add: run_ok_def)
  have ne: "SYS_OP_FILE \<noteq> SYS_OP_NETWORK" "SYS_OP_PROCESS \<noteq> SYS_OP_NETWORK" by (simp_all add: sys_ops)
  have s1: "sets_ok (DBDriver_of env) (fst ?s1)" "db_lookup (DBDriver_of env) (fst ?s1) w = db_lookup (DBDriver_of env) db w"
    using update_sets_other [of env "(db, False)" "pr_file ?run" SYS_OP_FILE w] assms(1,2,5) its(1) ne(1) by simp_all
  have s2: "sets_ok (DBDriver_of env) (fst ?s2)" "db_lookup (DBDriver_of env) (fst ?s2) w = db_lookup (DBDriver_of env) db w"
    using update_sets_other [of env ?s1 "pr_process ?run" SYS_OP_PROCESS w] assms(1,5) its(2) ne(2) s1 by simp_all
  show ?thesis
    using update_sets_network [of env ?s2 "pr_network ?run" w] assms(1,4,5) its(3) s2 by (simp add: pod_sets_def)
qed

text \<open>A log whose pod is not known adds nothing.\<close>

lemma unknown_pod_log: "getPodInstance (pod_key log) pods = Inl e \<Longrightarrow> log_entry pods settype log = None"
proof -
  assume "getPodInstance (pod_key log) pods = Inl e"
  then have "pod_Namespace pod \<noteq> sl_Namespace log \<or> pod_PodName pod \<noteq> sl_PodName log" if "pod \<in> set pods" for pod
    using that by (cases "List.find (\<lambda>pod. sl_Namespace log = pod_Namespace pod \<and> sl_PodName log = pod_PodName pod) pods")
      (simp_all add: getPodInstance_def pod_key_def find_None_iff, metis)
  then have "List.find (\<lambda>pod. pod_Namespace pod = sl_Namespace log \<and> pod_PodName pod = sl_PodName log) pods = None"
    by (auto simp: find_None_iff)
  then show ?thesis by (simp add: log_entry_def GetPodLabels_def)
qed

lemma unknown_pod_protocols:
  assumes "getPodInstance k pods = Inl e" and "\<And>log. log \<in> set logs \<Longrightarrow> pod_key log = k"
  shows "new_protocols pods w logs = {}"
  using assms unknown_pod_log by (fastforce simp: new_protocols_def)

lemma populate_pod_network:
  assumes "driver_ok (DBDriver_of env)" and "sets_ok (DBDriver_of env) (sst_Sets st)" and "run_ok runs"
    and "op_enabled env SYS_OP_NETWORK_INT" and "wpfs_SetType w = SYS_OP_NETWORK"
    and "\<And>log. log \<in> set ls \<Longrightarrow> pod_key log = k"
    and "populate_pod env (sr_pod runs c i) c pods ex (k, ls) st = Inr (Some st')"
  shows "sets_ok (DBDriver_of env) (sst_Sets st') \<and>
    set (db_lookup (DBDriver_of env) (sst_Sets st') w) =
      set (db_lookup (DBDriver_of env) (sst_Sets st) w) \<union> new_protocols pods w ls"
proof (cases "getPodInstance k pods")
  case (Inl e)
  then show ?thesis
    using populate_pod_sets [OF assms(7)] unknown_pod_protocols [OF Inl assms(6)] assms(2) by simp
next
  case (Inr pod)
  then show ?thesis
    using populate_pod_sets [OF assms(7)] pod_sets_network [OF assms(1-5)] by simp
qed

lemma grouped_UN:
  assumes "\<And>k ls. (k, ls) \<in> set G \<longleftrightarrow> ls = filter (\<lambda>l. key l = k) logs \<and> k \<in> key ` set logs"
  shows "(\<Union>(k, ls) \<in> set G. {r. \<exists>log \<in> set ls. Q k log r}) = {r. \<exists>log \<in> set logs. Q (key log) log r}"
proof (intro subset_antisym subsetI)
  fix r assume "r \<in> {r. \<exists>log \<in> set logs. Q (key log) log r}"
  then obtain log where log: "log \<in> set logs" "Q (key log) log r" by blast
  have "(key log, filter (\<lambda>l. key l = key log) logs) \<in> set G" using log(1) assms by simp
  then show "r \<in> (\<Union>(k, ls) \<in> set G. {r. \<exists>log \<in> set ls. Q k log r})"
    using log by (intro UN_I [of "(key log, filter (\<lambda>l. key l = key log) logs)"]) auto
qed (use assms in auto)

lemma new_protocols_by_pod:
  "(\<Union>(k, ls) \<in> set (clusteringSystemLogsByNamespacePod logs). new_protocols pods w ls) = new_protocols pods w logs"
  unfolding new_protocols_def by (rule grouped_UN [where key = pod_key]) (rule clustering_pods_mem)

lemma set_enumerate_snd: "snd ` set (enumerate n xs) = set xs"
  by (metis list.set_map map_snd_enumerate)

lemma populate_sys_cluster_network:
  assumes "driver_ok (DBDriver_of env)" and "sets_ok (DBDriver_of env) (sst_Sets st)" and "run_ok runs"
    and "op_enabled env SYS_OP_NETWORK_INT" and "wpfs_SetType w = SYS_OP_NETWORK"
    and "populate_sys_cluster env runs ex (c, logs) st = Inr (Some st')"
  shows "sets_ok (DBDriver_of env) (sst_Sets st') \<and>
    set (db_lookup (DBDriver_of env) (sst_Sets st') w) = set (db_lookup (DBDriver_of env) (sst_Sets st) w) \<union>
      new_protocols (se_pods env c) w
        (FilterSystemLogsByConfig (g_SystemLogFilters (se_Globals env)) logs (se_pods env c))"
proof -
  let ?pods = "se_pods env c"
  let ?logs = "FilterSystemLogsByConfig (g_SystemLogFilters (se_Globals env)) logs ?pods"
  let ?groups = "clusteringSystemLogsByNamespacePod ?logs"
  let ?xs = "enumerate 0 (sr_pods runs c ?groups)"
  have ord: "set (sr_pods runs c ?groups) = set ?groups" using assms(3) by (simp add: run_ok_def iter_order_set)
  have run: "foldM (\<lambda>r x. when_ended ((\<lambda>(i, kl). populate_pod env (sr_pod runs c i) c ?pods ex kl) x) r) (Some st) ?xs = Inr (Some st')"
    using assms(6) by (simp add: populate_sys_cluster_def Let_def case_prod_unfold)
  have "sets_ok (DBDriver_of env) (sst_Sets st') \<and>
    set (db_lookup (DBDriver_of env) (sst_Sets st') w) = set (db_lookup (DBDriver_of env) (sst_Sets st) w) \<union>
      (\<Union>x \<in> set ?xs. new_protocols ?pods w (snd (snd x)))"
    using run
  proof (rule foldM_ended [where I = "\<lambda>st. sets_ok (DBDriver_of env) (sst_Sets st)"
        and V = "\<lambda>st. set (db_lookup (DBDriver_of env) (sst_Sets st) w)"])
    show "sets_ok (DBDriver_of env) (sst_Sets st)" by (rule assms(2))
    fix x s s'
    assume x: "x \<in> set ?xs" and s: "sets_ok (DBDriver_of env) (sst_Sets s)"
      and step: "(\<lambda>(i, kl). populate_pod env (sr_pod runs c i) c ?pods ex kl) x s = Inr (Some s')"
    obtain i k ls where xe: "x = (i, k, ls)" by (metis surj_pair)
    have "(k, ls) \<in> set ?groups" using x ord by (simp add: xe) (metis imageI set_enumerate_snd snd_conv)
    then have keys: "pod_key log = k" if "log \<in> set ls" for log using that by (auto simp: clustering_pods_mem)
    show "sets_ok (DBDriver_of env) (sst_Sets s') \<and>
      set (db_lookup (DBDriver_of env) (sst_Sets s') w) =
        set (db_lookup (DBDriver_of env) (sst_Sets s) w) \<union> new_protocols ?pods w (snd (snd x))"
      using populate_pod_network [OF assms(1) s assms(3-5) keys] step by (simp add: xe)
  qed
  moreover have "(\<Union>x \<in> set ?xs. new_protocols ?pods w (snd (snd x))) = (\<Union>kl \<in> set ?groups. new_protocols ?pods w (snd kl))"
    by (simp only: ord [symmetric] set_enumerate_snd [of 0 "sr_pods runs c ?groups", symmetric] image_image)
  ultimately show ?thesis
    using new_protocols_by_pod [of ?pods w ?logs] by (simp add: case_prod_unfold)
qed

text \<open>What the logs of a map teach about a workload: the protocols of its network logs that are clean and pass the filters.\<close>

definition learned_protocols :: "SysEnv \<Rightarrow> WorkloadProcessFileSet \<Rightarrow> KnoxSystemLog set \<Rightarrow> string set" where
  "learned_protocols env w logs =
     {r. \<exists>log \<in> logs. clean_log log \<and> sl_Operation log = SYS_OP_NETWORK \<and> basic_checks log \<and>
        \<not> list_ex (filter_matches log (se_pods env (sl_ClusterName log))) (g_SystemLogFilters (se_Globals env)) \<and>
        (\<exists>rs. log_entry (se_pods env (sl_ClusterName log)) SYS_OP_NETWORK log = Some (w, rs) \<and> r \<in> set rs)}"

lemma learned_by_cluster:
  "(\<Union>(c, ls) \<in> set (clusteringSystemLogsByCluster (filter clean_log logs)).
      new_protocols (se_pods env c) w (FilterSystemLogsByConfig (g_SystemLogFilters (se_Globals env)) ls (se_pods env c))) =
   learned_protocols env w (set logs)"
proof -
  let ?Q = "\<lambda>c log r. basic_checks log \<and> \<not> list_ex (filter_matches log (se_pods env c)) (g_SystemLogFilters (se_Globals env)) \<and>
    sl_Operation log = SYS_OP_NETWORK \<and> (\<exists>rs. log_entry (se_pods env c) SYS_OP_NETWORK log = Some (w, rs) \<and> r \<in> set rs)"
  have one: "new_protocols (se_pods env c) w (FilterSystemLogsByConfig (g_SystemLogFilters (se_Globals env)) ls (se_pods env c)) =
      {r. \<exists>log \<in> set ls. ?Q c log r}" for c ls
    by (auto simp: new_protocols_def FilterSystemLogsByConfig_def)
  have "(\<Union>(c, ls) \<in> set (clusteringSystemLogsByCluster (filter clean_log logs)). {r. \<exists>log \<in> set ls. ?Q c log r}) =
      {r. \<exists>log \<in> set (filter clean_log logs). ?Q (sl_ClusterName log) log r}"
    by (rule grouped_UN) (rule clustering_mem)
  then show ?thesis unfolding one by (auto simp: learned_protocols_def)
qed

lemma PopulateSystemPolicies_sets:
  assumes "driver_ok (DBDriver_of env)" and "sets_ok (DBDriver_of env) (sst_Sets st)" and "run_ok runs"
    and "op_enabled env SYS_OP_NETWORK_INT" and "wpfs_SetType w = SYS_OP_NETWORK"
    and "PopulateSystemPoliciesFromSystemLogs env runs sysLogMap st = Inr (Some st', logMap)"
  shows "logMap = [] \<and> sets_ok (DBDriver_of env) (sst_Sets st') \<and>
    set (db_lookup (DBDriver_of env) (sst_Sets st') w) =
      set (db_lookup (DBDriver_of env) (sst_Sets st) w) \<union> learned_protocols env w (set sysLogMap)"
proof (cases "sysLogMap = []")
  case True
  then show ?thesis using assms(2,6) by (simp add: PopulateSystemPoliciesFromSystemLogs_def learned_protocols_def)
next
  case False
  let ?ex = "GetSystemPolicies (DBDriver_of env) [] [] (sst_DB st)"
  let ?logs = "filter clean_log (sr_logs runs sysLogMap)"
  let ?groups = "clusteringSystemLogsByCluster ?logs"
  have ords: "iter_order (sr_logs runs)" "set (sr_clusters runs ?groups) = set ?groups"
    "set (sr_logs runs sysLogMap) = set sysLogMap"
    using assms(3) by (simp_all add: run_ok_def iter_order_set)
  have run: "foldM (\<lambda>r cl. when_ended (populate_sys_cluster env runs ?ex cl) r) (Some st) (sr_clusters runs ?groups) = Inr (Some st')"
    and map: "logMap = []"
    using assms(6) False ords(1)
    by (auto simp: PopulateSystemPoliciesFromSystemLogs_def cleanseSystemLog_eq go_bind_Inr_iff)
  let ?A = "\<lambda>(c, ls). new_protocols (se_pods env c) w
    (FilterSystemLogsByConfig (g_SystemLogFilters (se_Globals env)) ls (se_pods env c))"
  have "sets_ok (DBDriver_of env) (sst_Sets st') \<and>
    set (db_lookup (DBDriver_of env) (sst_Sets st') w) = set (db_lookup (DBDriver_of env) (sst_Sets st) w) \<union>
      (\<Union>x \<in> set (sr_clusters runs ?groups). ?A x)"
    using run
  proof (rule foldM_ended [where I = "\<lambda>st. sets_ok (DBDriver_of env) (sst_Sets st)"
        and V = "\<lambda>st. set (db_lookup (DBDriver_of env) (sst_Sets st) w)"])
    show "sets_ok (DBDriver_of env) (sst_Sets st)" by (rule assms(2))
    fix x s s'
    assume "sets_ok (DBDriver_of env) (sst_Sets s)" and "populate_sys_cluster env runs ?ex x s = Inr (Some s')"
    then show "sets_ok (DBDriver_of env) (sst_Sets s') \<and>
      set (db_lookup (DBDriver_of env) (sst_Sets s') w) = set (db_lookup (DBDriver_of env) (sst_Sets s) w) \<union> ?A x"
      using populate_sys_cluster_network [OF assms(1) _ assms(3-5), of s ?ex "fst x" "snd x" s'] by (simp add: case_prod_unfold)
  qed
  then show ?thesis using learned_by_cluster [of env w "sr_logs runs sysLogMap"] ords(2,3) map by simp
qed

section \<open>No panics\<close>

text \<open>The texts of labels that the conversion of file sets can take apart.\<close>

definition labels_parse :: "string \<Rightarrow> bool" where
  "labels_parse ls \<longleftrightarrow> ls = [] \<or> (\<forall>l \<in> set (Split ls (CHR '','')). CHR ''='' \<in> set l)"

definition rows_parse :: "wpfs_row list \<Rightarrow> bool" where
  "rows_parse db \<longleftrightarrow> (\<forall>r \<in> set db. labels_parse (wpfs_Labels (row_key r)))"

definition label_ok :: "string \<Rightarrow> bool" where
  "label_ok l \<longleftrightarrow> CHR ''='' \<in> set l \<and> CHR '','' \<notin> set l"

definition pods_labelled :: "Pod list \<Rightarrow> bool" where
  "pods_labelled pods \<longleftrightarrow> (\<forall>pod \<in> set pods. \<forall>l \<in> set (pod_Labels pod). label_ok l)"

lemma Join_labels_parse: "\<forall>l \<in> set ls. label_ok l \<Longrightarrow> labels_parse (Join ls '','')"
  by (cases "ls = []") (simp_all add: labels_parse_def label_ok_def Split_Join)

lemma log_entry_labels:
  assumes "log_entry pods settype log = Some (w, rs)" and "pods_labelled pods" and "CHR '','' \<notin> set (sl_ContainerName log)"
  shows "labels_parse (wpfs_Labels w)"
proof -
  obtain ls where ls: "GetPodLabels (sl_ClusterName log) (sl_PodName log) (sl_Namespace log) pods = Inr ls"
    and w: "w = log_wpfs settype (log_labels log ls) log"
    using assms(1) by (auto simp: log_entry_def Let_def split: sum.splits if_splits)
  have "\<forall>l \<in> set ls. label_ok l"
    using ls assms(2) unfolding GetPodLabels_def pods_labelled_def
    by (auto simp: find_Some_iff split: option.splits dest: nth_mem)
  then have "\<forall>l \<in> set (log_labels log ls). label_ok l"
    using assms(3) by (auto simp: log_labels_def label_ok_def)
  then show ?thesis by (simp add: w log_wpfs_def Join_labels_parse)
qed

lemma collect_sets_log:
  assumes "w \<in> fst ` set (collect_sets pods settype logs)"
  shows "\<exists>log \<in> set logs. \<exists>rs. log_entry pods settype log = Some (w, rs)"
proof -
  obtain fs where fs: "(w, fs) \<in> set (collect_sets pods settype logs)" using assms by fastforce
  then have "map_of (collect_sets pods settype logs) w = Some fs"
    using collect_sets_distinct by (simp add: map_of_eq_Some_iff)
  moreover obtain r where "r \<in> set fs" using collect_sets_not_Nil [OF fs] by (cases fs) auto
  ultimately have "r \<in> set (entries (collect_sets pods settype logs) w)" by (simp add: entries_map_of)
  then show ?thesis unfolding collect_sets_entries by blast
qed

lemma GenFileSet_rows_parse:
  assumes "driver_ok driver" and "db_ok db" and "iter_order (it_sets it)" and "rows_parse db" and "pods_labelled pods"
    and "\<And>log. log \<in> set logs \<Longrightarrow> CHR '','' \<notin> set (sl_ContainerName log)"
  shows "rows_parse (fst (GenFileSetForAllPodsInCluster it driver rand now db pods settype logs))"
  unfolding rows_parse_def
proof
  let ?g = "fst (GenFileSetForAllPodsInCluster it driver rand now db pods settype logs)"
  fix r assume r: "r \<in> set ?g"
  show "labels_parse (wpfs_Labels (row_key r))"
  proof (cases "row_key r \<in> fst ` set (collect_sets pods settype logs)")
    case True
    then show ?thesis using collect_sets_log log_entry_labels [OF _ assms(5)] assms(6) by blast
  next
    case False
    have "db_lookup driver ?g (row_key r) \<noteq> []"
      using r db_lookup_none [OF assms(1) GenFileSet_inv [OF assms(1,2)]] by blast
    then have "row_key r \<in> row_key ` set db"
      using GenFileSet_other [OF assms(1-3) False, of rand now] db_lookup_none [OF assms(1,2)] by metis
    then show ?thesis using assms(4) by (auto simp: rows_parse_def)
  qed
qed

lemma update_sets_rows:
  assumes "driver_ok (DBDriver_of env)" and "db_ok (fst s)" and "rows_parse (fst s)" and "iter_order (it_sets it)"
    and "pods_labelled pods" and "\<And>log. log \<in> set logs \<Longrightarrow> CHR '','' \<notin> set (sl_ContainerName log)"
  shows "db_ok (fst (update_sets env run pods it op n logs s)) \<and> rows_parse (fst (update_sets env run pods it op n logs s))"
proof -
  obtain db b where s: "s = (db, b)" by fastforce
  have "log \<in> set logs" if "log \<in> set (getOperationLogs op logs)" for log
    using that by (simp add: getOperationLogs_def)
  then show ?thesis
    using assms GenFileSet_rows_parse [OF assms(1) _ assms(4) _ assms(5), of db "getOperationLogs op logs"] GenFileSet_inv [OF assms(1)]
    by (simp add: update_sets_def s case_prod_unfold Let_def)
qed

lemma pod_sets_rows:
  assumes "driver_ok (DBDriver_of env)" and "db_ok db" and "rows_parse db" and "run_ok runs" and "pods_labelled pods"
    and "\<And>log. log \<in> set logs \<Longrightarrow> CHR '','' \<notin> set (sl_ContainerName log)"
  shows "db_ok (fst (pod_sets env (sr_pod runs c i) pods logs db)) \<and> rows_parse (fst (pod_sets env (sr_pod runs c i) pods logs db))"
  using assms unfolding pod_sets_def run_ok_def
  by (intro update_sets_rows conjunct1 [OF update_sets_rows] conjunct2 [OF update_sets_rows]) auto

lemma scan_sets_keys: "fst ` set (fst (scan_sets rows)) \<subseteq> row_key ` set rows"
proof -
  have "fst ` set (fst (fold (\<lambda>r (res, pnMap). (AList.update (row_key r) (split_record (row_fileset r)) res,
      AList.update (row_key r) (row_policyName r) pnMap)) rows (m, pn))) \<subseteq> fst ` set m \<union> row_key ` set rows" for m pn
    by (induction rows arbitrary: m pn) (force dest: AList_update_mem)+
  from this [of "[]" "[]"] show ?thesis by (simp add: scan_sets_def)
qed

lemma populateKnoxSysPolicy_total:
  assumes "rows_parse db" and "iter_order ord"
  shows "\<exists>pols. populateKnoxSysPolicyFromWPFSDb g ord db ns c ls src = Inr pols"
proof -
  have "\<exists>pols. ConvertWPFSToKnoxSysPolicy ord g (fst (scan_sets (filter (where_match w) db))) pn = Inr pols" for w pn
  proof (cases "ConvertWPFSToKnoxSysPolicy ord g (fst (scan_sets (filter (where_match w) db))) pn")
    case (Inl e)
    then obtain ws where ws: "ws \<in> set (fst (scan_sets (filter (where_match w) db)))" "\<not> labels_parse (wpfs_Labels (fst ws))"
      unfolding ConvertWPFSToKnoxSysPolicy_panics_iff [OF assms(2)] labels_parse_def by blast
    then have "fst ws \<in> row_key ` set db" using scan_sets_keys by fastforce
    then show ?thesis using ws(2) assms(1) by (auto simp: rows_parse_def)
  qed simp
  then show ?thesis
    by (simp add: populateKnoxSysPolicyFromWPFSDb_def GetWorkloadProcessFileSet_eq case_prod_unfold)
qed

lemma extractK8S_total:
  "rows_parse db \<Longrightarrow> iter_order ord \<Longrightarrow> \<exists>pols. extractK8SSystemPolicies g ord db ns c ls src inc = Inr pols"
  using populateKnoxSysPolicy_total [of db ord g ns c ls src] by (auto simp: extractK8SSystemPolicies_def)

lemma extractVM_total:
  assumes "rows_parse db" and "iter_order ord"
  shows "\<exists>r. extractVMSystemPolicies g ord db ns c ls src = Inr r"
proof -
  have "\<exists>s'. foldM (extractVM_source g ord db ns c ls) ([], []) xs = Inr s' \<and> True" for xs
  proof (rule foldM_total)
    show "\<exists>s'. extractVM_source g ord db ns c ls s x = Inr s' \<and> True" for s x
      using populateKnoxSysPolicy_total [OF assms, of g ns c ls x] by (auto simp: extractVM_source_def Let_def)
  qed simp
  then show ?thesis by (simp add: extractVMSystemPolicies_def)
qed

lemma WriteSystemPoliciesToFile_total:
  assumes "rows_parse (sst_Sets st)" and "iter_order ord"
  shows "\<exists>st'. WriteSystemPoliciesToFile env ord ns c ls src inc st = Inr st'"
proof -
  obtain k where "extractK8SSystemPolicies (se_Globals env) ord (sst_Sets st) ns c ls src inc = Inr k"
    using extractK8S_total [OF assms] by metis
  moreover obtain v where "extractVMSystemPolicies (se_Globals env) ord (sst_Sets st) PolicyDiscoveryVMNamespace c ls src = Inr v"
    using extractVM_total [OF assms] by metis
  ultimately show ?thesis
    by (simp add: WriteSystemPoliciesToFile_def WriteSystemPoliciesToFile_Ext_def case_prod_unfold Let_def)
qed

lemma UpdateSysPolicies_total:
  assumes "rows_parse (sst_Sets st)" and "iter_order ord"
  shows "\<exists>st'. UpdateSysPolicies env ord now ps st = Inr st'"
proof -
  obtain qs where "populateKnoxSysPolicyFromWPFSDb (se_Globals env) ord (sst_Sets st) [] [] [] [] = Inr qs"
    using populateKnoxSysPolicy_total [OF assms] by metis
  then show ?thesis by (simp add: UpdateSysPolicies_def case_prod_unfold Let_def)
qed

text \<open>A round, or a run, that keeps an invariant if it ends, and that ends if \<^verbatim>\<open>E\<close>.\<close>

definition ended_ok :: "bool \<Rightarrow> ('s \<Rightarrow> bool) \<Rightarrow> 's option \<Rightarrow> bool" where
  "ended_ok E I r = (case r of None \<Rightarrow> \<not> E | Some s \<Rightarrow> I s)"

lemma ended_ok_simps [simp]: "ended_ok E I None \<longleftrightarrow> \<not> E" "ended_ok E I (Some s) \<longleftrightarrow> I s"
  by (simp_all add: ended_ok_def)

lemma foldM_ended_total:
  assumes "ended_ok E I r" and "\<And>x s. x \<in> set xs \<Longrightarrow> I s \<Longrightarrow> \<exists>r. f x s = Inr r \<and> ended_ok E I r"
  shows "\<exists>r'. foldM (\<lambda>r x. when_ended (f x) r) r xs = Inr r' \<and> ended_ok E I r'"
  using assms
proof (induction xs arbitrary: r)
  case (Cons x xs)
  have "\<exists>r'. when_ended (f x) r = Inr r' \<and> ended_ok E I r'"
    using Cons.prems by (cases r) auto
  then obtain r' where r': "when_ended (f x) r = Inr r'" "ended_ok E I r'" by blast
  then show ?case using Cons.IH [OF r'(2)] Cons.prems(2) by simp
qed simp

definition sets_parse :: "SysState \<Rightarrow> bool" where
  "sets_parse st \<longleftrightarrow> db_ok (sst_Sets st) \<and> rows_parse (sst_Sets st)"

lemma populate_pod_total:
  assumes "driver_ok (DBDriver_of env)" and "sets_parse st" and "run_ok runs" and "pods_labelled pods"
    and "\<And>log. log \<in> set ls \<Longrightarrow> CHR '','' \<notin> set (sl_ContainerName log)"
  shows "\<exists>r. populate_pod env (sr_pod runs c i) c pods ex (k, ls) st = Inr r \<and>
    ended_ok (se_DeprecateOldMode env) sets_parse r"
proof (cases "getPodInstance k pods")
  case (Inl e)
  then show ?thesis using assms(2) by (simp add: populate_pod_def)
next
  case (Inr pod)
  let ?run = "sr_pod runs c i"
  obtain sets b where sets: "pod_sets env ?run pods ls (sst_Sets st) = (sets, b)" by fastforce
  have ok: "db_ok sets \<and> rows_parse sets"
    using pod_sets_rows [OF assms(1) _ _ assms(3-5), where db = "sst_Sets st" and c = c and i = i, of ls] assms(2) sets by (simp add: sets_parse_def)
  have ord: "iter_order (pr_sets ?run)" using assms(3) by (simp add: run_ok_def)
  have files: "\<exists>s'. WriteSystemPoliciesToFile env (pr_sets ?run) (slk_Namespace k) [] [] [] True s = Inr s' \<and> sets_parse s'"
    if "sst_Sets s = sets" for s
    using WriteSystemPoliciesToFile_total [of s "pr_sets ?run" env "slk_Namespace k" "[]" "[]" "[]" True] ok ord that
      WriteSystemPoliciesToFile_sets by (fastforce simp: sets_parse_def)
  let ?st = "st\<lparr>sst_Sets := sets\<rparr>"
  let ?mode = "if se_DeprecateOldMode env then
      (if b then go_bind (UpdateSysPolicies env (pr_sets ?run) (pr_now ?run) [] ?st) (\<lambda>st. Inr (Some st)) else Inr (Some ?st))
     else go_bind (updateSysPolicySelector c pod (pod_sys_policies env ?run pod ls))
       (\<lambda>discovered. Inr (store_policies env ?run c ex discovered ?st))"
  have "\<exists>r. ?mode = Inr r \<and> ended_ok (se_DeprecateOldMode env) (\<lambda>s. sst_Sets s = sets) r"
  proof (cases "se_DeprecateOldMode env")
    case True
    then show ?thesis
      using UpdateSysPolicies_total [of ?st "pr_sets ?run" env "pr_now ?run" "[]"] ok ord UpdateSysPolicies_sets
      by (fastforce simp: ended_ok_def)
  next
    case False
    have "pod \<in> set pods" using Inr
      by (auto simp: getPodInstance_def find_Some_iff split: option.splits dest: nth_mem)
    then have "updateSysPolicySelector c pod (pod_sys_policies env ?run pod ls) \<noteq> Inl e" for e
      using assms(4) unfolding updateSysPolicySelector_Inl pods_labelled_def label_ok_def by blast
    then obtain ds where "updateSysPolicySelector c pod (pod_sys_policies env ?run pod ls) = Inr ds"
      by (cases "updateSysPolicySelector c pod (pod_sys_policies env ?run pod ls)") auto
    then show ?thesis
      using False store_policies_sets [of env ?run c ex ds ?st] by (simp add: ended_ok_def split: option.split)
  qed
  then obtain r where r: "?mode = Inr r" "ended_ok (se_DeprecateOldMode env) (\<lambda>s. sst_Sets s = sets) r" by blast
  have eq: "populate_pod env ?run c pods ex (k, ls) st = go_bind ?mode (\<lambda>r. case r of None \<Rightarrow> Inr None
      | Some st \<Rightarrow> if Contains (g_SystemPolicyTo (se_Globals env)) ''file''
          then go_bind (WriteSystemPoliciesToFile env (pr_sets ?run) (slk_Namespace k) [] [] [] True st) (\<lambda>st. Inr (Some st))
          else Inr (Some st))"
    by (simp only: populate_pod_def prod.case Inr sum.case sets Let_def)
  show ?thesis
  proof (cases r)
    case None
    then show ?thesis using eq r by simp
  next
    case (Some s)
    then have "sst_Sets s = sets" using r(2) by simp
    then show ?thesis using eq r(1) Some files [of s] ok by (auto simp: sets_parse_def)
  qed
qed

lemma populate_sys_cluster_total:
  assumes "driver_ok (DBDriver_of env)" and "sets_parse st" and "run_ok runs" and "pods_labelled (se_pods env c)"
    and "\<And>log. log \<in> set ls \<Longrightarrow> CHR '','' \<notin> set (sl_ContainerName log)"
  shows "\<exists>r. populate_sys_cluster env runs ex (c, ls) st = Inr r \<and> ended_ok (se_DeprecateOldMode env) sets_parse r"
proof -
  let ?pods = "se_pods env c"
  let ?logs = "FilterSystemLogsByConfig (g_SystemLogFilters (se_Globals env)) ls ?pods"
  let ?groups = "clusteringSystemLogsByNamespacePod ?logs"
  let ?xs = "enumerate 0 (sr_pods runs c ?groups)"
  have ord: "set (sr_pods runs c ?groups) = set ?groups" using assms(3) by (simp add: run_ok_def iter_order_set)
  have "\<exists>r. foldM (\<lambda>r x. when_ended ((\<lambda>(i, kl). populate_pod env (sr_pod runs c i) c ?pods ex kl) x) r) (Some st) ?xs = Inr r \<and>
    ended_ok (se_DeprecateOldMode env) sets_parse r"
  proof (rule foldM_ended_total)
    show "ended_ok (se_DeprecateOldMode env) sets_parse (Some st)" using assms(2) by simp
    fix x s assume x: "x \<in> set ?xs" and s: "sets_parse s"
    obtain i k ms where xe: "x = (i, k, ms)" by (metis surj_pair)
    have "(k, ms) \<in> set ?groups" using x ord by (simp add: xe) (metis imageI set_enumerate_snd snd_conv)
    then have names: "CHR '','' \<notin> set (sl_ContainerName log)" if "log \<in> set ms" for log
      using that assms(5) by (auto simp: clustering_pods_mem FilterSystemLogsByConfig_def)
    show "\<exists>r. (\<lambda>(i, kl). populate_pod env (sr_pod runs c i) c ?pods ex kl) x s = Inr r \<and>
        ended_ok (se_DeprecateOldMode env) sets_parse r"
      using populate_pod_total [OF assms(1) s assms(3,4) names] by (simp add: xe)
  qed
  then show ?thesis by (simp add: populate_sys_cluster_def Let_def case_prod_unfold)
qed

lemma PopulateSystemPolicies_total:
  assumes "driver_ok (DBDriver_of env)" and "sets_parse st" and "run_ok runs"
    and "\<And>log. log \<in> set sysLogMap \<Longrightarrow>
      pods_labelled (se_pods env (sl_ClusterName log)) \<and> CHR '','' \<notin> set (sl_ContainerName log)"
  shows "\<exists>r. PopulateSystemPoliciesFromSystemLogs env runs sysLogMap st = Inr (r, []) \<and>
    ended_ok (se_DeprecateOldMode env) sets_parse r"
proof (cases "sysLogMap = []")
  case True
  then show ?thesis using assms(2) by (simp add: PopulateSystemPoliciesFromSystemLogs_def)
next
  case False
  let ?ex = "GetSystemPolicies (DBDriver_of env) [] [] (sst_DB st)"
  let ?groups = "clusteringSystemLogsByCluster (filter clean_log (sr_logs runs sysLogMap))"
  have ords: "iter_order (sr_logs runs)" "set (sr_clusters runs ?groups) = set ?groups"
    "set (sr_logs runs sysLogMap) = set sysLogMap"
    using assms(3) by (simp_all add: run_ok_def iter_order_set)
  have "\<exists>r. foldM (\<lambda>r cl. when_ended (populate_sys_cluster env runs ?ex cl) r) (Some st) (sr_clusters runs ?groups) = Inr r \<and>
    ended_ok (se_DeprecateOldMode env) sets_parse r"
  proof (rule foldM_ended_total)
    show "ended_ok (se_DeprecateOldMode env) sets_parse (Some st)" using assms(2) by simp
    fix x s assume x: "x \<in> set (sr_clusters runs ?groups)" and s: "sets_parse s"
    obtain c ls where xe: "x = (c, ls)" by fastforce
    then have mem: "ls = filter (\<lambda>l. sl_ClusterName l = c) (filter clean_log (sr_logs runs sysLogMap))"
      "c \<in> sl_ClusterName ` set (filter clean_log (sr_logs runs sysLogMap))"
      using x ords(2) by (simp_all add: clustering_mem)
    then have "pods_labelled (se_pods env c)" using assms(4) ords(3) by fastforce
    moreover have "CHR '','' \<notin> set (sl_ContainerName log)" if "log \<in> set ls" for log
      using that mem(1) assms(4) ords(3) by simp
    ultimately show "\<exists>r. populate_sys_cluster env runs ?ex x s = Inr r \<and> ended_ok (se_DeprecateOldMode env) sets_parse r"
      using populate_sys_cluster_total [OF assms(1) s assms(3)] by (simp add: xe)
  qed
  then show ?thesis
    using False by (auto simp: PopulateSystemPoliciesFromSystemLogs_def cleanseSystemLog_eq [OF ords(1)])
qed

section \<open>The table of policies\<close>

definition sys_specs :: "PolicyDB \<Rightarrow> string \<Rightarrow> KnoxSystemSpec option" where
  "sys_specs db = map_of (map (\<lambda>r. (srow_name r, srow_spec r)) (system_policy db))"

definition sys_names :: "PolicyDB \<Rightarrow> string list" where
  "sys_names db = map srow_name (system_policy db)"

definition policy_specs :: "KnoxSystemPolicy list \<Rightarrow> string \<Rightarrow> KnoxSystemSpec option" where
  "policy_specs ps = map_of (map (\<lambda>p. (sys_name p, sysp_Spec p)) ps)"

lemma dom_sys_specs: "dom (sys_specs db) = set (sys_names db)"
  by (simp add: sys_specs_def sys_names_def dom_map_of_conv_image_fst image_image)

lemma dom_policy_specs: "dom (policy_specs ps) = sys_name ` set ps"
  by (simp add: policy_specs_def dom_map_of_conv_image_fst image_image)

lemma policy_specs_Nil: "policy_specs [] = Map.empty"
  by (simp add: policy_specs_def)

lemma policy_specs_Cons: "policy_specs (p # ps) = (policy_specs ps)(sys_name p \<mapsto> sysp_Spec p)"
  by (simp add: policy_specs_def)

lemma update_sys_row_fields:
  "srow_name (update_sys_row now p r) = srow_name r"
  "srow_spec (update_sys_row now p r) = (if srow_name r = sys_name p then sysp_Spec p else srow_spec r)"
  by (simp_all add: update_sys_row_def sys_name_def sysp_meta_def)

lemma UpdateSystemPolicy_specs:
  "sys_names (UpdateSystemPolicy ''sqlite3'' now p db) = sys_names db"
  "sys_name p \<in> set (sys_names db) \<Longrightarrow> sys_specs (UpdateSystemPolicy ''sqlite3'' now p db) = (sys_specs db)(sys_name p \<mapsto> sysp_Spec p)"
proof -
  show "sys_names (UpdateSystemPolicy ''sqlite3'' now p db) = sys_names db"
    by (simp add: sys_names_def UpdateSystemPolicy_def UpdateSystemPolicyToSQLite_def update_sys_row_fields comp_def)
  have "map_of (map (\<lambda>r. (srow_name r, srow_spec r)) (map (update_sys_row now p) rows)) n =
      (if n = sys_name p \<and> n \<in> srow_name ` set rows then Some (sysp_Spec p)
       else map_of (map (\<lambda>r. (srow_name r, srow_spec r)) rows) n)" for rows n
    by (induction rows) (auto simp: update_sys_row_fields)
  then show "sys_name p \<in> set (sys_names db) \<Longrightarrow>
      sys_specs (UpdateSystemPolicy ''sqlite3'' now p db) = (sys_specs db)(sys_name p \<mapsto> sysp_Spec p)"
    by (auto simp: sys_specs_def sys_names_def UpdateSystemPolicy_def UpdateSystemPolicyToSQLite_def)
qed

lemma existing_name:
  "list_ex (\<lambda>q. sys_name q = n) (GetSystemPolicies ''sqlite3'' [] [] db) \<longleftrightarrow> n \<in> set (sys_names db)"
  by (auto simp: list_ex_iff GetSystemPolicies_def GetSystemPoliciesFromSQLite_def sys_where_def selected_def sys_names_def
      sys_name_def sys_policy_of_def lookup_str_def)

lemma update_sys_policy_step:
  "update_sys_policy ''sqlite3'' now p (db, loc) =
     (if sys_name p \<in> set (sys_names db) then (UpdateSystemPolicy ''sqlite3'' now p db, loc) else (db, loc @ [p]))"
  by (simp add: update_sys_policy_def existing_name)

text \<open>The loop updates the policies that the table has and collects the others.\<close>

lemma update_sys_policies_loop:
  assumes "distinct (map sys_name ps)"
    and "fold (update_sys_policy ''sqlite3'' now) ps (db, loc) = (db', loc')"
  shows "sys_names db' = sys_names db \<and> loc' = loc @ filter (\<lambda>p. sys_name p \<notin> set (sys_names db)) ps \<and>
    sys_specs db' = sys_specs db ++ policy_specs (filter (\<lambda>p. sys_name p \<in> set (sys_names db)) ps)"
  using assms
proof (induction ps arbitrary: db loc)
  case (Cons p ps)
  show ?case
  proof (cases "sys_name p \<in> set (sys_names db)")
    case True
    let ?db = "UpdateSystemPolicy ''sqlite3'' now p db"
    have "fold (update_sys_policy ''sqlite3'' now) ps (?db, loc) = (db', loc')"
      using Cons.prems(2) True by (simp add: update_sys_policy_step)
    moreover have "sys_name p \<notin> dom (policy_specs (filter (\<lambda>p. sys_name p \<in> set (sys_names db)) ps))"
      using Cons.prems(1) by (auto simp: dom_policy_specs)
    ultimately show ?thesis
      using Cons.IH [of ?db loc] Cons.prems(1) True UpdateSystemPolicy_specs [where now = now and p = p and db = db]
      by (auto simp: policy_specs_Cons map_add_def fun_eq_iff dom_def)
  next
    case False
    then have "fold (update_sys_policy ''sqlite3'' now) ps (db, loc @ [p]) = (db', loc')"
      using Cons.prems(2) by (simp add: update_sys_policy_step)
    then show ?thesis using Cons.IH [of db "loc @ [p]"] Cons.prems(1) False by simp
  qed
qed (simp add: policy_specs_def)

lemma InsertSystemPolicies_specs:
  assumes "sys_name ` set ps \<inter> set (sys_names db) = {}"
  shows "sys_names (InsertSystemPolicies ''sqlite3'' now ps db) = sys_names db @ map sys_name ps"
    and "sys_specs (InsertSystemPolicies ''sqlite3'' now ps db) = sys_specs db ++ policy_specs ps"
proof -
  have "fold (insertSystemPolicySQLite now) ps rows = rows @ map (sys_row now) ps" for rows
    by (induction ps arbitrary: rows) (simp_all add: insertSystemPolicySQLite_def)
  then have rows: "system_policy (InsertSystemPolicies ''sqlite3'' now ps db) = system_policy db @ map (sys_row now) ps"
    by (simp add: InsertSystemPolicies_def InsertSystemPoliciesToSQLite_def)
  have policy_specs_comm: "policy_specs ps ++ sys_specs db = sys_specs db ++ policy_specs ps"
    using assms by (intro map_add_comm) (simp add: dom_sys_specs dom_policy_specs)
  have "srow_name (sys_row now p) = sys_name p" "srow_spec (sys_row now p) = sysp_Spec p" for p
    by (simp_all add: sys_row_def sys_name_def sysp_meta_def)
  then show "sys_names (InsertSystemPolicies ''sqlite3'' now ps db) = sys_names db @ map sys_name ps"
    and "sys_specs (InsertSystemPolicies ''sqlite3'' now ps db) = sys_specs db ++ policy_specs ps"
    using rows policy_specs_comm
    by (simp_all add: sys_names_def sys_specs_def policy_specs_def comp_def map_of_append)
qed

lemma policy_specs_split:
  assumes "distinct (map sys_name ps)"
  shows "policy_specs (filter (\<lambda>p. sys_name p \<in> N) ps) ++ policy_specs (filter (\<lambda>p. sys_name p \<notin> N) ps) = policy_specs ps"
  using assms
proof (induction ps)
  case (Cons p ps)
  have "sys_name p \<notin> dom (policy_specs (filter (\<lambda>p. sys_name p \<notin> N) ps))" using Cons.prems by (auto simp: dom_policy_specs)
  then show ?case using Cons by (auto simp: policy_specs_Cons map_add_def fun_eq_iff dom_def split: option.splits) (metis option.distinct(1))
qed (simp add: policy_specs_Nil)

section \<open>Properties\<close>


text \<open>C12: The run is safe: if the labels of the pods have an equals sign and no comma and the names of the containers no comma,
  \<^verbatim>\<open>PopulateSystemPoliciesFromSystemLogs\<close> does not panic, empties the map of logs and leaves a table of file sets with
  one row for each workload, whose labels can be taken apart; and without the old mode it returns.\<close>

theorem PopulateSystemPolicies_safe:
  assumes "driver_ok (DBDriver_of env)" and "sets_parse st" and "run_ok runs"
    and "\<And>log. log \<in> set sysLogMap \<Longrightarrow>
      pods_labelled (se_pods env (sl_ClusterName log)) \<and> CHR '','' \<notin> set (sl_ContainerName log)"
  shows "\<exists>r. PopulateSystemPoliciesFromSystemLogs env runs sysLogMap st = Inr (r, []) \<and>
    ended_ok (se_DeprecateOldMode env) sets_parse r"
  using assms by (rule PopulateSystemPolicies_total)

lemma insert_converted:
  "set (fold (\<lambda>a m. case ConvertKubeArmorLogToKnoxSystemLog a of Inl err \<Rightarrow> m | Inr log \<Rightarrow> List.insert log m) as m) =
     set m \<union> {log. \<exists>a \<in> set as. ConvertKubeArmorLogToKnoxSystemLog a = Inr log}"
  by (induction as arbitrary: m) (auto split: sum.split)

text \<open>C4: The round trip from the alerts of KubeArmor to the table: when enough of them have arrived, a round of the worker that ends
  consumes them all, and the stored protocols of every workload are those from before and exactly those of its network logs
  among the alerts that are clean and pass the filters; nothing is lost between the batches.\<close>

theorem DiscoverSystemPolicyMain_learns:
  assumes "\<not> sw_Running w" and "ssc_LogFrom cfg = ''kubearmor''" and "ss_LogMap (sw_Source w) = []"
    and "ka_RelayLogs (ss_Relay (sw_Source w)) = alerts" and "alerts \<noteq> []" and "ssc_Trigger cfg \<le> int (length alerts)"
    and "driver_ok (DBDriver_of env)" and "sets_ok (DBDriver_of env) (sst_Sets (sw_State w))" and "run_ok runs"
    and "op_enabled env SYS_OP_NETWORK_INT" and "wpfs_SetType k = SYS_OP_NETWORK"
    and "DiscoverSystemPolicyMain cfg env runs w = Inr (Some w')"
  shows "ka_RelayLogs (ss_Relay (sw_Source w')) = [] \<and> ss_LogMap (sw_Source w') = [] \<and>
    sets_ok (DBDriver_of env) (sst_Sets (sw_State w')) \<and>
    set (db_lookup (DBDriver_of env) (sst_Sets (sw_State w')) k) =
      set (db_lookup (DBDriver_of env) (sst_Sets (sw_State w)) k) \<union>
      learned_protocols env k {log. \<exists>a \<in> set alerts. ConvertKubeArmorLogToKnoxSystemLog a = Inr log}"
proof -
  let ?m = "fold (\<lambda>a m. case ConvertKubeArmorLogToKnoxSystemLog a of Inl err \<Rightarrow> m | Inr log \<Rightarrow> List.insert log m) alerts []"
  let ?src = "(sw_Source w)\<lparr>ss_Relay := (ss_Relay (sw_Source w))\<lparr>ka_RelayLogs := []\<rparr>, ss_LogMap := ?m\<rparr>"
  have "getSystemLogs (DBDriver_of env) (ssc_LogFrom cfg) (ssc_Trigger cfg) (ssc_docs cfg) (ssc_pods cfg) (sw_Source w) =
      (Some ?m, ?src)"
    using assms(2-6) by (simp add: getSystemLogs_def GetSystemAlertsFromKubeArmorRelay_def Let_def)
  then have "go_bind (PopulateSystemPoliciesFromSystemLogs env runs ?m (sw_State w)) (\<lambda>(r, logMap).
      Inr (map_option (\<lambda>st. w\<lparr>sw_Source := ?src\<lparr>ss_LogMap := logMap\<rparr>, sw_State := st\<rparr>) r)) = Inr (Some w')"
    using assms(1,12) by (simp add: DiscoverSystemPolicyMain_def)
  then obtain st' logMap where run: "PopulateSystemPoliciesFromSystemLogs env runs ?m (sw_State w) = Inr (Some st', logMap)"
    and w': "w' = w\<lparr>sw_Source := ?src\<lparr>ss_LogMap := logMap\<rparr>, sw_State := st'\<rparr>"
    by (auto simp: go_bind_Inr_iff)
  show ?thesis
    using PopulateSystemPolicies_sets [OF assms(7-11) run] insert_converted [of alerts "[]"] by (simp add: w')
qed

text \<open>From a file or from the message queue nothing is discovered: the logs that are read go into a variable that is not
  used. The tables stay as they are; the logs of the queue are taken from it and lost.\<close>

theorem DiscoverSystemPolicyMain_ignores_file_and_queue:
  assumes "ssc_LogFrom cfg = ''file'' \<or> ssc_LogFrom cfg = ''feed-consumer''" and "ss_LogMap (sw_Source w) = []"
  shows "\<exists>w'. DiscoverSystemPolicyMain cfg env runs w = Inr (Some w') \<and> sw_State w' = sw_State w \<and>
    ss_LogMap (sw_Source w') = [] \<and>
    (\<not> sw_Running w \<and> ssc_LogFrom cfg = ''feed-consumer'' \<and> ssc_Trigger cfg \<le> int (length (ka_FCLogs (ss_Relay (sw_Source w)))) \<longrightarrow>
      ka_FCLogs (ss_Relay (sw_Source w')) = [])"
  using assms
  by (auto simp: DiscoverSystemPolicyMain_def getSystemLogs_def GetSystemLogsFromFeedConsumer_def
      PopulateSystemPoliciesFromSystemLogs_def Let_def split: option.splits)

section \<open>Runs\<close>

definition demo_two_pods :: "Pod list" where
  "demo_two_pods = map (\<lambda>n. \<lparr>pod_Namespace = ''ns'', pod_PodName = n, pod_Labels = [''app=web''], pod_PodIP = []\<rparr>)
     [''web-1'', ''web-2'']"

definition demo_env :: "bool \<Rightarrow> SysEnv" where
  "demo_env mode = \<lparr>se_Globals = \<lparr>g_DBDriver = ''sqlite3'', g_SystemPolicyTo = ''db'', g_SystemPolicyTypes = 7,
       g_SystemLogFilters = [], g_ProcessFromSource = True, g_FileFromSource = True\<rparr>,
     se_Yaml = \<lparr>yc_ClusterName = ''c1'', yc_WorkspaceId = 1, yc_ClusterId = 2\<rparr>, se_DeprecateOldMode = mode,
     se_pods = (\<lambda>_. demo_two_pods), se_marshal = (\<lambda>_. Some ''text''), se_cmp_equal = (=)\<rparr>"

definition demo_run :: SysRun where
  "demo_run = \<lparr>sr_logs = id, sr_clusters = id, sr_pods = (\<lambda>_. id),
     sr_pod = (\<lambda>_ i. \<lparr>pr_file = fs_it_id, pr_process = fs_it_id, pr_network = fs_it_id, pr_dedup = it_id, pr_sets = id,
       pr_draws = [[CHR ''a'', char_of (97 + i)]], pr_rand = ''x'', pr_now = 7\<rparr>)\<rparr>"

lemma demo_run_ok: "run_ok demo_run"
  by (simp add: run_ok_def demo_run_def fs_it_id_def iter_order_def)

definition demo_process_log :: "string \<Rightarrow> KnoxSystemLog" where
  "demo_process_log pod = (demo_log ''/bin/ls'')\<lparr>sl_PodName := pod, sl_Operation := SYS_OP_PROCESS, sl_Result := ''Passed''\<rparr>"

definition demo_state :: "wpfs_row list \<Rightarrow> SysState" where
  "demo_state rows = \<lparr>sst_Sets = rows, sst_DB = \<lparr>network_policy = [], system_policy = []\<rparr>, sst_Yamls = [],
     sst_Published = [], sst_Files = []\<rparr>"

definition demo_batch_run :: "bool \<Rightarrow> KnoxSystemLog list \<Rightarrow> SysState \<Rightarrow> SysState option" where
  "demo_batch_run mode logs st = (case PopulateSystemPoliciesFromSystemLogs (demo_env mode) demo_run logs st of
     Inr (r, m) \<Rightarrow> r | Inl _ \<Rightarrow> None)"

text \<open>In the old mode the policies of the table are read once for a batch: two pods of a workload with the same log get two policies
  with the same specification, while in two batches the second adds none.\<close>

theorem PopulateSystemPolicies_reads_policies_once:
  "map_option (\<lambda>st. map sysp_Spec (GetSystemPolicies ''sqlite3'' [] [] (sst_DB st)))
     (demo_batch_run False [demo_process_log ''web-1'', demo_process_log ''web-2''] (demo_state [])) =
   map_option (\<lambda>st. let s = map sysp_Spec (GetSystemPolicies ''sqlite3'' [] [] (sst_DB st)) in s @ s)
     (Option.bind (demo_batch_run False [demo_process_log ''web-1''] (demo_state [])) (demo_batch_run False [demo_process_log ''web-2'']))
   \<and> demo_batch_run False [demo_process_log ''web-1'', demo_process_log ''web-2''] (demo_state []) \<noteq> None"
  by code_simp

definition demo_set_rows :: "wpfs_row list" where
  "demo_set_rows = [new_set_row ''x'' 3 (demo_key SYS_OP_PROCESS) [''/bin/ls'']]"

definition demo_ps :: "KnoxSystemPolicy list" where
  "demo_ps = (case populateKnoxSysPolicyFromWPFSDb (se_Globals (demo_env True)) id demo_set_rows [] [] [] [] of
     Inr ps \<Rightarrow> ps | Inl _ \<Rightarrow> [])"


theorem PopulateSystemPolicies_safe_witness:
  "\<exists>st'. PopulateSystemPoliciesFromSystemLogs (demo_env True) demo_run [demo_process_log ''web-1'', demo_process_log ''web-3'']
      (demo_state demo_set_rows) = Inr (Some st', []) \<and> sets_parse st'"
proof -
  have "driver_ok (DBDriver_of (demo_env True))" by (simp add: driver_ok_def DBDriver_of_def demo_env_def)
  moreover have "sets_parse (demo_state demo_set_rows)"
    by (simp add: sets_parse_def demo_state_def db_ok_def rows_parse_def demo_set_rows_def new_set_row_def, code_simp)
  moreover have "\<forall>pod \<in> set demo_two_pods. \<forall>l \<in> set (pod_Labels pod). label_ok l" by code_simp
  moreover have "CHR '','' \<notin> set (sl_ContainerName (demo_process_log p))" for p
    by (simp add: demo_process_log_def demo_log_def)
  moreover have env: "se_pods (demo_env True) c = demo_two_pods" "se_DeprecateOldMode (demo_env True)" for c
    by (simp_all add: demo_env_def)
  ultimately have "\<exists>r. PopulateSystemPoliciesFromSystemLogs (demo_env True) demo_run
      [demo_process_log ''web-1'', demo_process_log ''web-3''] (demo_state demo_set_rows) = Inr (r, []) \<and>
      ended_ok (se_DeprecateOldMode (demo_env True)) sets_parse r"
    using demo_run_ok by (intro PopulateSystemPolicies_safe) (auto simp: pods_labelled_def)
  then obtain r where r: "PopulateSystemPoliciesFromSystemLogs (demo_env True) demo_run
      [demo_process_log ''web-1'', demo_process_log ''web-3''] (demo_state demo_set_rows) = Inr (r, [])"
      "ended_ok True sets_parse r" using env(2) by auto
  then show ?thesis by (cases r) auto
qed

definition demo_network_alert :: Alert where
  "demo_network_alert = demo_alert\<lparr>al_ClusterName := ''c1'', al_Operation := SYS_OP_NETWORK, al_Source := ''/bin/sh'',
     al_Resource := ''domain=AF_INET type=SOCK_STREAM protocol=TCP'', al_Result := ''Passed''\<rparr>"

definition demo_worker :: SysWorker where
  "demo_worker = \<lparr>sw_Running = False, sw_Source = \<lparr>ss_Relay = relay_init\<lparr>ka_RelayLogs := [demo_network_alert]\<rparr>, ss_LogMap = []\<rparr>,
     sw_State = demo_state []\<rparr>"

definition demo_source_cfg :: "string \<Rightarrow> SysSourceCfg" where
  "demo_source_cfg from = \<lparr>ssc_LogFrom = from, ssc_Trigger = 1, ssc_docs = None, ssc_pods = []\<rparr>"

definition demo_round :: SysWorker where
  "demo_round = (case DiscoverSystemPolicyMain (demo_source_cfg ''kubearmor'') (demo_env True) demo_run demo_worker of
     Inr (Some w) \<Rightarrow> w | _ \<Rightarrow> demo_worker)"

theorem DiscoverSystemPolicyMain_learns_witness:
  "set (db_lookup ''sqlite3'' (sst_Sets (sw_State demo_round)) (demo_key SYS_OP_NETWORK)) = {''tcp''} \<and>
   learned_protocols (demo_env True) (demo_key SYS_OP_NETWORK)
     {log. \<exists>a \<in> set [demo_network_alert]. ConvertKubeArmorLogToKnoxSystemLog a = Inr log} = {''tcp''} \<and>
   ss_LogMap (sw_Source demo_round) = []"
proof -
  have "case DiscoverSystemPolicyMain (demo_source_cfg ''kubearmor'') (demo_env True) demo_run demo_worker of
      Inr (Some w) \<Rightarrow> True | _ \<Rightarrow> False" by code_simp
  then have run: "DiscoverSystemPolicyMain (demo_source_cfg ''kubearmor'') (demo_env True) demo_run demo_worker = Inr (Some demo_round)"
    by (simp add: demo_round_def split: sum.splits option.splits)
  have driver: "DBDriver_of (demo_env True) = ''sqlite3''" by (simp add: DBDriver_of_def demo_env_def)
  have none: "db_lookup ''sqlite3'' [] k = []" for k by (simp add: db_lookup_none driver_ok_def db_ok_def)
  have sets: "sets_ok ''sqlite3'' []" by (simp add: sets_ok_def db_ok_def none)
  have tcp: "db_lookup ''sqlite3'' (sst_Sets (sw_State demo_round)) (demo_key SYS_OP_NETWORK) = [''tcp'']" by code_simp
  have "ss_LogMap (sw_Source demo_round) = [] \<and>
    set (db_lookup (DBDriver_of (demo_env True)) (sst_Sets (sw_State demo_round)) (demo_key SYS_OP_NETWORK)) =
      set (db_lookup (DBDriver_of (demo_env True)) (sst_Sets (sw_State demo_worker)) (demo_key SYS_OP_NETWORK)) \<union>
      learned_protocols (demo_env True) (demo_key SYS_OP_NETWORK)
        {log. \<exists>a \<in> set [demo_network_alert]. ConvertKubeArmorLogToKnoxSystemLog a = Inr log}"
    using DiscoverSystemPolicyMain_learns [where w = demo_worker and cfg = "demo_source_cfg ''kubearmor''" and env = "demo_env True" and
        runs = demo_run and w' = demo_round and k = "demo_key SYS_OP_NETWORK" and alerts = "[demo_network_alert]"]
      run driver sets demo_run_ok
    by (simp add: demo_worker_def demo_source_cfg_def demo_state_def driver_ok_def demo_key_def log_wpfs_def op_enabled_def demo_env_def
        SYS_OP_NETWORK_INT_def)
  then show ?thesis using tcp driver by (simp add: demo_worker_def demo_state_def none)
qed

theorem DiscoverSystemPolicyMain_ignores_file_and_queue_witness:
  "\<exists>w'. DiscoverSystemPolicyMain (demo_source_cfg ''feed-consumer'') (demo_env True) demo_run
      (demo_worker\<lparr>sw_Source := \<lparr>ss_Relay = relay_init\<lparr>ka_FCLogs := [demo_process_log ''web-1'']\<rparr>, ss_LogMap = []\<rparr>\<rparr>) = Inr (Some w') \<and>
    sst_Sets (sw_State w') = [] \<and> ka_FCLogs (ss_Relay (sw_Source w')) = []"
  using DiscoverSystemPolicyMain_ignores_file_and_queue [of "demo_source_cfg ''feed-consumer''"
      "demo_worker\<lparr>sw_Source := \<lparr>ss_Relay = relay_init\<lparr>ka_FCLogs := [demo_process_log ''web-1'']\<rparr>, ss_LogMap = []\<rparr>\<rparr>"
      "demo_env True" demo_run]
  by (auto simp: demo_source_cfg_def demo_worker_def demo_state_def)

end
