(* ===== verification/Insight.thy ===== *)
theory Insight
  imports SystemPipeline
begin

text \<open>
  Package \<^verbatim>\<open>insight\<close>: requests for the stored file sets and network policies, whose answers are grouped by workload, and requests to
  delete them. The messages of \<^verbatim>\<open>insight.proto\<close> are records; the rules have the same parts as those of \<^verbatim>\<open>types\<close>, which
  are used for the parts. The orders of maps are parameters; \<^verbatim>\<open>time.ParseDuration\<close> is the parameter \<^verbatim>\<open>parse_seconds\<close>, which
  gives whole seconds.
\<close>

section \<open>Messages\<close>

record InsightRequest =
  iq_Request :: string
  iq_Source :: string
  iq_ClusterName :: string
  iq_Namespace :: string
  iq_ContainerName :: string
  iq_Labels :: string
  iq_FromSource :: string
  iq_Duration :: string
  iq_Type :: string
  iq_Rule :: string

record SystemData =
  sd_FromSource :: string
  sd_ProcessPaths :: "string list"
  sd_FilePaths :: "string list"
  sd_NetworkPaths :: "string list"

record SysInsightData =
  sid_ClusterName :: string
  sid_Namespace :: string
  sid_Labels :: string
  sid_ContainerName :: string
  sid_SysProcessFileData :: "SystemData list"

record PbSystemData =
  psd_FromSource :: string
  psd_ProcessPaths :: "string list"
  psd_FilePaths :: "string list"
  psd_NetworkProtocol :: "string list"

record SystemInsightData =
  si_ClusterName :: string
  si_Namespace :: string
  si_Labels :: string
  si_ContainerName :: string
  si_SysResource :: "PbSystemData list"

record PbEgress =
  pe_MatchLabels :: "LabelMap option"
  pe_ToPorts :: "SpecPort list"
  pe_ToCIDRs :: "SpecCIDR list"
  pe_ToEndtities :: "string list"
  pe_ToServices :: "SpecService list"
  pe_ToFQDNs :: "SpecFQDN list"
  pe_ToHTTPs :: "SpecHTTP list"

record PbIngress =
  pi_MatchLabels :: "LabelMap option"
  pi_ToPorts :: "SpecPort list"
  pi_ToHTTPs :: "SpecHTTP list"
  pi_FromCIDRs :: "SpecCIDR list"
  pi_FromEntities :: "string list"

record NetworkData =
  nd_Labels :: string
  nd_Egressess :: "PbEgress list"
  nd_Ingressess :: "PbIngress list"

record NetworkInsightData =
  ni_ClusterName :: string
  ni_Namespace :: string
  ni_Labels :: string
  ni_Type :: string
  ni_Rule :: string
  ni_NetResource :: "NetworkData list"

record InsightResponse =
  ir_ClusterName :: string
  ir_NameSpace :: string
  ir_Labels :: string
  ir_SystemResource :: "SystemInsightData list"
  ir_NetworkResource :: "NetworkInsightData list"

definition InsightResponse_zero :: InsightResponse where
  "InsightResponse_zero = \<lparr>ir_ClusterName = [], ir_NameSpace = [], ir_Labels = [], ir_SystemResource = [], ir_NetworkResource = []\<rparr>"

definition SystemInsightData_zero :: SystemInsightData where
  "SystemInsightData_zero = \<lparr>si_ClusterName = [], si_Namespace = [], si_Labels = [], si_ContainerName = [], si_SysResource = []\<rparr>"

definition NetworkInsightData_zero :: NetworkInsightData where
  "NetworkInsightData_zero = \<lparr>ni_ClusterName = [], ni_Namespace = [], ni_Labels = [], ni_Type = [], ni_Rule = [],
     ni_NetResource = []\<rparr>"

definition NetworkData_zero :: NetworkData where
  "NetworkData_zero = \<lparr>nd_Labels = [], nd_Egressess = [], nd_Ingressess = []\<rparr>"

text \<open>What the package works on: the table of policies and that of file sets.\<close>

type_synonym InsightDB = "PolicyDB \<times> wpfs_row list"

section \<open>System\<close>

definition ConvertSysInsDataToInsResponse :: "SystemInsightData \<Rightarrow> InsightResponse" where
  "ConvertSysInsDataToInsResponse sysdata =
     (let locsysinsdata = SystemInsightData_zero\<lparr>si_ContainerName := si_ContainerName sysdata,
            si_SysResource := si_SysResource sysdata\<rparr>
      in InsightResponse_zero\<lparr>ir_ClusterName := si_ClusterName sysdata, ir_NameSpace := si_Namespace sysdata,
           ir_Labels := si_Labels sysdata, ir_SystemResource := [locsysinsdata]\<rparr>)"

text \<open>The loops that look for an entry, change it or, if there is none, append one.\<close>

fun update_or_add :: "('a \<Rightarrow> bool) \<Rightarrow> ('a \<Rightarrow> 'a) \<Rightarrow> 'a \<Rightarrow> 'a list \<Rightarrow> 'a list" where
  "update_or_add P f new [] = [new]"
| "update_or_add P f new (x # xs) = (if P x then f x # xs else x # update_or_add P f new xs)"

definition fs_data :: "WorkloadProcessFileSet \<Rightarrow> string list \<Rightarrow> SystemData" where
  "fs_data wpfs fsset = \<lparr>sd_FromSource = wpfs_FromSource wpfs,
     sd_ProcessPaths = (if wpfs_SetType wpfs = SYS_OP_PROCESS then fsset else []),
     sd_FilePaths = (if wpfs_SetType wpfs = SYS_OP_FILE then fsset else []),
     sd_NetworkPaths = (if wpfs_SetType wpfs = SYS_OP_NETWORK then fsset else [])\<rparr>"

definition obs_data :: "WorkloadProcessFileSet \<Rightarrow> SystemData \<Rightarrow> SysInsightData" where
  "obs_data wpfs locFsData = \<lparr>sid_ClusterName = wpfs_ClusterName wpfs, sid_Namespace = wpfs_Namespace wpfs,
     sid_Labels = wpfs_Labels wpfs, sid_ContainerName = wpfs_ContainerName wpfs, sid_SysProcessFileData = [locFsData]\<rparr>"

definition convertWPFSToInsightData :: "(ResourceSetMap \<Rightarrow> ResourceSetMap) \<Rightarrow> ResourceSetMap \<Rightarrow> SysInsightData list" where
  "convertWPFSToInsightData ord wpfsSet =
     fold (\<lambda>(wpfs, fsset) resData.
       let locFsData = fs_data wpfs fsset in
       if length resData > 0 then
         update_or_add
           (\<lambda>d. sid_ClusterName d = wpfs_ClusterName wpfs \<and> sid_Namespace d = wpfs_Namespace wpfs \<and>
              sid_Labels d = wpfs_Labels wpfs \<and> sid_ContainerName d = wpfs_ContainerName wpfs)
           (\<lambda>d. d\<lparr>sid_SysProcessFileData := sid_SysProcessFileData d @ [locFsData]\<rparr>) (obs_data wpfs locFsData) resData
       else resData @ [obs_data wpfs locFsData]) (ord wpfsSet) []"

definition convertSysInsDataToResponse :: "SysInsightData list \<Rightarrow> SystemInsightData list" where
  "convertSysInsDataToResponse resData =
     map (\<lambda>d. \<lparr>si_ClusterName = sid_ClusterName d, si_Namespace = sid_Namespace d, si_Labels = sid_Labels d,
       si_ContainerName = sid_ContainerName d,
       si_SysResource = map (\<lambda>fsset. \<lparr>psd_FromSource = sd_FromSource fsset, psd_ProcessPaths = sd_ProcessPaths fsset,
         psd_FilePaths = sd_FilePaths fsset, psd_NetworkProtocol = sd_NetworkPaths fsset\<rparr>) (sid_SysProcessFileData d)\<rparr>) resData"

definition getSysInsightData ::
  "(ResourceSetMap \<Rightarrow> ResourceSetMap) \<Rightarrow> string \<Rightarrow> wpfs_row list \<Rightarrow> WorkloadProcessFileSet \<Rightarrow> SystemInsightData list" where
  "getSysInsightData ord DBDriver db wpfs =
     (let res = (case GetWorkloadProcessFileSet DBDriver db wpfs of Inl _ \<Rightarrow> [] | Inr (res, _) \<Rightarrow> res)
      in convertSysInsDataToResponse (convertWPFSToInsightData ord res))"

definition ClearSysDb ::
  "(string \<Rightarrow> string + int) \<Rightarrow> string \<Rightarrow> int \<Rightarrow> WorkloadProcessFileSet \<Rightarrow> string \<Rightarrow> wpfs_row list \<Rightarrow> string option \<times> wpfs_row list" where
  "ClearSysDb parse_seconds DBDriver now wpfs durationStr db =
     (if durationStr = ''0'' then (Some ''not a valid duration'', db)
      else case parse_seconds durationStr of
        Inl err \<Rightarrow> (Some err, db)
      | Inr duration \<Rightarrow>
          (case ClearWPFSDb DBDriver now db wpfs duration of
             Inl err \<Rightarrow> (Some err, db) | Inr db \<Rightarrow> (None, db)))"

record InsightEnv =
  ie_DBDriver :: string
  ie_parse_seconds :: "string \<Rightarrow> string + int"
  ie_now :: int
  ie_sets :: "ResourceSetMap \<Rightarrow> ResourceSetMap"
  ie_labels :: "nat \<Rightarrow> (string \<times> string) list \<Rightarrow> (string \<times> string) list"

definition request_sets :: "InsightRequest \<Rightarrow> WorkloadProcessFileSet" where
  "request_sets request = \<lparr>wpfs_ClusterName = iq_ClusterName request, wpfs_ContainerName = iq_ContainerName request,
     wpfs_Namespace = iq_Namespace request, wpfs_Labels = iq_Labels request, wpfs_FromSource = iq_FromSource request,
     wpfs_SetType = []\<rparr>"

text \<open>The results are the data, the error and the tables.\<close>

definition GetSysInsightData ::
  "InsightEnv \<Rightarrow> InsightRequest \<Rightarrow> InsightDB \<Rightarrow> SystemInsightData list \<times> string option \<times> InsightDB" where
  "GetSysInsightData env request = (\<lambda>(pols, sets).
     let wpfs = request_sets request in
     if iq_Request request = ''dbclear'' then
       (let (err, sets) = ClearSysDb (ie_parse_seconds env) (ie_DBDriver env) (ie_now env) wpfs (iq_Duration request) sets
        in ([], err, (pols, sets)))
     else if iq_Request request = ''observe'' then
       (getSysInsightData (ie_sets env) (ie_DBDriver env) sets wpfs, None, (pols, sets))
     else ([], Some ''not a valid request, use observe/dbclear'', (pols, sets)))"

definition GetSystemInsightData ::
  "InsightEnv \<Rightarrow> InsightRequest \<Rightarrow> InsightDB \<Rightarrow> InsightResponse list \<times> string option \<times> InsightDB" where
  "GetSystemInsightData env req dbs =
     (let (sysData, err, dbs) = GetSysInsightData env req dbs in
      if iq_Request req \<noteq> ''observe'' \<or> length sysData = 0 then ([], err, dbs)
      else ([InsightResponse_zero\<lparr>ir_SystemResource := sysData\<rparr>], err, dbs))"

section \<open>Network\<close>

definition ConvertNetInsDataToInsResponse :: "NetworkInsightData \<Rightarrow> InsightResponse" where
  "ConvertNetInsDataToInsResponse netdata =
     (let locnetinsdata = NetworkInsightData_zero\<lparr>ni_Type := ni_Type netdata, ni_Rule := ni_Rule netdata,
            ni_NetResource := ni_NetResource netdata\<rparr>
      in InsightResponse_zero\<lparr>ir_ClusterName := ni_ClusterName netdata, ir_NameSpace := ni_Namespace netdata,
           ir_Labels := ni_Labels netdata, ir_NetworkResource := [locnetinsdata]\<rparr>)"

text \<open>The variable of the inner loop is a copy of the entry, so that what is appended to it is lost.\<close>

definition aggregateNetInsightData :: "NetworkInsightData list \<Rightarrow> NetworkInsightData list" where
  "aggregateNetInsightData networkData =
     fold (\<lambda>(index, nwpolicy) net.
       if index = 0 then net @ [nwpolicy]
       else update_or_add
         (\<lambda>d. ni_ClusterName d = ni_ClusterName nwpolicy \<and> ni_Namespace d = ni_Namespace nwpolicy \<and>
            ni_Rule d = ni_Rule nwpolicy \<and> ni_Type d = ni_Type nwpolicy \<and> ni_Labels d = ni_Labels nwpolicy)
         (\<lambda>d. d) nwpolicy net) (enumerate 0 networkData) []"

text \<open>The entities of an ingress rule are appended twice.\<close>

definition populateNwInsightData :: "((string \<times> string) list \<Rightarrow> (string \<times> string) list) \<Rightarrow> KnoxNetworkPolicy \<Rightarrow> NetworkData" where
  "populateNwInsightData ord policy =
     \<lparr>nd_Labels = fold (\<lambda>(k, v) labels. k @ ''='' @ v) (ord (sorted_list_of_fmap (sel_MatchLabels (spec_Selector (np_Spec policy))))) [],
      nd_Egressess = map (\<lambda>egress. \<lparr>pe_MatchLabels = eg_MatchLabels egress, pe_ToPorts = eg_ToPorts egress,
        pe_ToCIDRs = eg_ToCIDRs egress, pe_ToEndtities = eg_ToEntities egress, pe_ToServices = eg_ToServices egress,
        pe_ToFQDNs = eg_ToFQDNs egress, pe_ToHTTPs = eg_ToHTTPs egress\<rparr>) (spec_Egress (np_Spec policy)),
      nd_Ingressess = map (\<lambda>ingress. \<lparr>pi_MatchLabels = in_MatchLabels ingress, pi_ToPorts = in_ToPorts ingress,
        pi_ToHTTPs = in_ToHTTPs ingress, pi_FromCIDRs = in_FromCIDRs ingress,
        pi_FromEntities = in_FromEntities ingress @ in_FromEntities ingress\<rparr>) (spec_Ingress (np_Spec policy))\<rparr>"

definition net_insight :: "((string \<times> string) list \<Rightarrow> (string \<times> string) list) \<Rightarrow> KnoxNetworkPolicy \<Rightarrow> NetworkInsightData" where
  "net_insight ord nwpolicy =
     (let nwPbSpec = populateNwInsightData ord nwpolicy
      in \<lparr>ni_ClusterName = np_meta nwpolicy ''cluster_name'', ni_Namespace = np_meta nwpolicy ''namespace'',
          ni_Labels = nd_Labels nwPbSpec, ni_Type = np_meta nwpolicy ''type'', ni_Rule = np_meta nwpolicy ''rule'',
          ni_NetResource = [nwPbSpec\<lparr>nd_Labels := []\<rparr>]\<rparr>)"

definition GetNetInsightData :: "InsightEnv \<Rightarrow> InsightRequest \<Rightarrow> PolicyDB \<Rightarrow> NetworkInsightData list" where
  "GetNetInsightData env req db =
     (let nwpolicies = GetNetworkPolicies (ie_DBDriver env) (iq_ClusterName req) (iq_Namespace req) ''latest'' (iq_Type req)
            (iq_Rule req) db;
          networkData = filter (\<lambda>locRes. iq_Labels req = [] \<or> ni_Labels locRes = iq_Labels req)
            (map (\<lambda>(i, nwpolicy). net_insight (ie_labels env i) nwpolicy) (enumerate 0 nwpolicies))
      in aggregateNetInsightData networkData)"

definition getNetworkData ::
  "InsightEnv \<Rightarrow> InsightRequest \<Rightarrow> InsightDB \<Rightarrow> NetworkInsightData list \<times> string option \<times> InsightDB" where
  "getNetworkData env request = (\<lambda>(pols, sets).
     if iq_Request request = ''dbclear'' then ([], None, (ClearNetworkDBTable (ie_DBDriver env) pols, sets))
     else if iq_Request request = ''observe'' then (GetNetInsightData env request pols, None, (pols, sets))
     else ([], Some ''not a valid request, use observe/dbclear'', (pols, sets)))"

definition GetNetworkInsightData ::
  "InsightEnv \<Rightarrow> InsightRequest \<Rightarrow> InsightDB \<Rightarrow> InsightResponse list \<times> string option \<times> InsightDB" where
  "GetNetworkInsightData env req dbs =
     (let (netData, err, dbs) = getNetworkData env req dbs in
      if iq_Request req \<noteq> ''observe'' \<or> length netData = 0 then ([], err, dbs)
      else ([InsightResponse_zero\<lparr>ir_NetworkResource := netData\<rparr>], None, dbs))"

section \<open>Both\<close>

definition same_workload :: "string \<Rightarrow> string \<Rightarrow> string \<Rightarrow> InsightResponse \<Rightarrow> bool" where
  "same_workload clusterName namespace labels r \<longleftrightarrow>
     ir_ClusterName r = clusterName \<and> ir_NameSpace r = namespace \<and> ir_Labels r = labels"

definition populateAggregatedResp :: "SystemInsightData list \<Rightarrow> NetworkInsightData list \<Rightarrow> InsightResponse list" where
  "populateAggregatedResp sysInsightData netInsightData =
     (let res = fold (\<lambda>(index, sysdata) res.
            if index = 0 then res @ [ConvertSysInsDataToInsResponse sysdata]
            else update_or_add (same_workload (si_ClusterName sysdata) (si_Namespace sysdata) (si_Labels sysdata))
              (\<lambda>r. r\<lparr>ir_SystemResource := ir_SystemResource r @
                 [SystemInsightData_zero\<lparr>si_ContainerName := si_ContainerName sysdata, si_SysResource := si_SysResource sysdata\<rparr>]\<rparr>)
              (ConvertSysInsDataToInsResponse sysdata) res) (enumerate 0 sysInsightData) []
      in fold (\<lambda>netdata res.
            update_or_add (same_workload (ni_ClusterName netdata) (ni_Namespace netdata) (ni_Labels netdata))
              (\<lambda>r. r\<lparr>ir_NetworkResource := ir_NetworkResource r @ [NetworkInsightData_zero\<lparr>ni_Type := ni_Type netdata,
                 ni_Rule := ni_Rule netdata, ni_NetResource := ni_NetResource netdata\<rparr>]\<rparr>)
              (ConvertNetInsDataToInsResponse netdata) res) netInsightData res)"

text \<open>Here the network data are asked for with no regard to the kind of request.\<close>

definition getAllInsightData ::
  "InsightEnv \<Rightarrow> InsightRequest \<Rightarrow> InsightDB \<Rightarrow> InsightResponse list \<times> string option \<times> InsightDB" where
  "getAllInsightData env req dbs =
     (let (sysData, err, dbs) = GetSysInsightData env req dbs in
      if err \<noteq> None then ([], err, dbs)
      else (let netData = GetNetInsightData env req (fst dbs) in (populateAggregatedResp sysData netData, None, dbs)))"

definition GetInsightData ::
  "InsightEnv \<Rightarrow> InsightRequest \<Rightarrow> InsightDB \<Rightarrow> InsightResponse list \<times> string option \<times> InsightDB" where
  "GetInsightData env req dbs =
     (if iq_Source req = ''system'' then GetSystemInsightData env req dbs
      else if iq_Source req = ''network'' then GetNetworkInsightData env req dbs
      else if iq_Source req = ''all'' then getAllInsightData env req dbs
      else ([], None, dbs))"

section \<open>Grouping\<close>

text \<open>What the entries with a key contain.\<close>

definition group_contents :: "('g \<Rightarrow> 'k) \<Rightarrow> ('g \<Rightarrow> 'c list) \<Rightarrow> 'g list \<Rightarrow> 'k \<Rightarrow> 'c list" where
  "group_contents key content gs k = concat (map content (filter (\<lambda>g. key g = k) gs))"

lemma group_contents_Nil [simp]: "group_contents key content [] k = []"
  by (simp add: group_contents_def)

lemma group_contents_Cons:
  "group_contents key content (g # gs) k = (if key g = k then content g else []) @ group_contents key content gs k"
  by (simp add: group_contents_def)

lemma group_contents_absent: "k \<notin> key ` set gs \<Longrightarrow> group_contents key content gs k = []"
  by (induction gs) (auto simp: group_contents_Cons)

lemma group_contents_mem: "c \<in> set (group_contents key content gs k) \<longleftrightarrow> (\<exists>g \<in> set gs. key g = k \<and> c \<in> set (content g))"
  by (auto simp: group_contents_def)

text \<open>A loop over items that puts each into the entry with its key: the contract of its parts, and what it computes.\<close>

locale grouping =
  fixes key :: "'g \<Rightarrow> 'k" and ikey :: "'i \<Rightarrow> 'k" and new :: "'i \<Rightarrow> 'g" and add :: "'i \<Rightarrow> 'g \<Rightarrow> 'g"
    and content :: "'g \<Rightarrow> 'c list" and item :: "'i \<Rightarrow> 'c"
  assumes key_new: "key (new i) = ikey i" and key_add: "key (add i g) = key g"
    and content_new: "content (new i) = [item i]" and content_add: "content (add i g) = content g @ [item i]"
begin

lemma step_keys:
  "key ` set (update_or_add (\<lambda>g. key g = ikey i) (add i) (new i) gs) = insert (ikey i) (key ` set gs)"
  by (induction gs) (auto simp: key_new key_add)

lemma step_distinct:
  "distinct (map key gs) \<Longrightarrow> distinct (map key (update_or_add (\<lambda>g. key g = ikey i) (add i) (new i) gs))"
proof (induction gs)
  case (Cons g gs)
  then show ?case using step_keys [of i gs] by (auto simp: key_add)
qed simp

lemma step_contents:
  "distinct (map key gs) \<Longrightarrow>
   group_contents key content (update_or_add (\<lambda>g. key g = ikey i) (add i) (new i) gs) k =
     group_contents key content gs k @ (if ikey i = k then [item i] else [])"
proof (induction gs)
  case Nil
  then show ?case by (simp add: group_contents_Cons key_new content_new)
next
  case (Cons g gs)
  have "group_contents key content gs (key g) = []" using Cons.prems by (intro group_contents_absent) simp
  then show ?case using Cons by (auto simp: group_contents_Cons key_add content_add)
qed

lemma group_all:
  assumes "distinct (map key gs)"
  shows "distinct (map key (fold (\<lambda>i. update_or_add (\<lambda>g. key g = ikey i) (add i) (new i)) is gs)) \<and>
    key ` set (fold (\<lambda>i. update_or_add (\<lambda>g. key g = ikey i) (add i) (new i)) is gs) = key ` set gs \<union> ikey ` set is \<and>
    group_contents key content (fold (\<lambda>i. update_or_add (\<lambda>g. key g = ikey i) (add i) (new i)) is gs) k =
      group_contents key content gs k @ map item (filter (\<lambda>i. ikey i = k) is)"
  using assms
proof (induction "is" arbitrary: gs)
  case (Cons i "is")
  then show ?case
    using Cons.IH [OF step_distinct [OF Cons.prems, of i]] step_keys [of i gs] step_contents [OF Cons.prems, of i k] by auto
qed simp

lemma group_mem:
  "(\<exists>g \<in> set (fold (\<lambda>i. update_or_add (\<lambda>g. key g = ikey i) (add i) (new i)) is []). key g = k \<and> c \<in> set (content g)) \<longleftrightarrow>
   (\<exists>i \<in> set is. ikey i = k \<and> item i = c)"
  using group_all [of "[]" "is" k] by (auto simp flip: group_contents_mem)

end

text \<open>A part of the entries that the loop leaves alone.\<close>

locale grouping_beside = grouping key ikey new add content item
  for key :: "'g \<Rightarrow> 'k" and ikey :: "'i \<Rightarrow> 'k" and new :: "'i \<Rightarrow> 'g" and add :: "'i \<Rightarrow> 'g \<Rightarrow> 'g"
    and content :: "'g \<Rightarrow> 'c list" and item :: "'i \<Rightarrow> 'c" +
  fixes other :: "'g \<Rightarrow> 'd list"
  assumes other_new: "other (new i) = []" and other_add: "other (add i g) = other g"
begin

lemma step_beside:
  "group_contents key other (update_or_add (\<lambda>g. key g = ikey i) (add i) (new i) gs) k = group_contents key other gs k"
  by (induction gs) (simp_all add: group_contents_Cons key_new key_add other_new other_add)

lemma group_beside:
  "group_contents key other (fold (\<lambda>i. update_or_add (\<lambda>g. key g = ikey i) (add i) (new i)) is gs) k = group_contents key other gs k"
  by (induction "is" arbitrary: gs) (simp_all add: step_beside)

end

text \<open>The three loops.\<close>

definition sid_key :: "SysInsightData \<Rightarrow> string \<times> string \<times> string \<times> string" where
  "sid_key d = (sid_ClusterName d, sid_Namespace d, sid_Labels d, sid_ContainerName d)"

definition wpfs_key :: "WorkloadProcessFileSet \<Rightarrow> string \<times> string \<times> string \<times> string" where
  "wpfs_key w = (wpfs_ClusterName w, wpfs_Namespace w, wpfs_Labels w, wpfs_ContainerName w)"

definition add_sid :: "WorkloadProcessFileSet \<times> string list \<Rightarrow> SysInsightData \<Rightarrow> SysInsightData" where
  "add_sid i d = d\<lparr>sid_SysProcessFileData := sid_SysProcessFileData d @ [fs_data (fst i) (snd i)]\<rparr>"

interpretation sets_by_container: grouping sid_key "\<lambda>i. wpfs_key (fst i)" "\<lambda>i. obs_data (fst i) (fs_data (fst i) (snd i))" add_sid
  sid_SysProcessFileData "\<lambda>i. fs_data (fst i) (snd i)"
  by unfold_locales (simp_all add: sid_key_def wpfs_key_def obs_data_def add_sid_def)

definition ir_key :: "InsightResponse \<Rightarrow> string \<times> string \<times> string" where
  "ir_key r = (ir_ClusterName r, ir_NameSpace r, ir_Labels r)"

definition si_key :: "SystemInsightData \<Rightarrow> string \<times> string \<times> string" where
  "si_key d = (si_ClusterName d, si_Namespace d, si_Labels d)"

definition ni_key :: "NetworkInsightData \<Rightarrow> string \<times> string \<times> string" where
  "ni_key d = (ni_ClusterName d, ni_Namespace d, ni_Labels d)"

definition si_part :: "SystemInsightData \<Rightarrow> SystemInsightData" where
  "si_part d = SystemInsightData_zero\<lparr>si_ContainerName := si_ContainerName d, si_SysResource := si_SysResource d\<rparr>"

definition ni_part :: "NetworkInsightData \<Rightarrow> NetworkInsightData" where
  "ni_part d = NetworkInsightData_zero\<lparr>ni_Type := ni_Type d, ni_Rule := ni_Rule d, ni_NetResource := ni_NetResource d\<rparr>"

definition add_si :: "SystemInsightData \<Rightarrow> InsightResponse \<Rightarrow> InsightResponse" where
  "add_si d r = r\<lparr>ir_SystemResource := ir_SystemResource r @ [si_part d]\<rparr>"

definition add_ni :: "NetworkInsightData \<Rightarrow> InsightResponse \<Rightarrow> InsightResponse" where
  "add_ni d r = r\<lparr>ir_NetworkResource := ir_NetworkResource r @ [ni_part d]\<rparr>"

interpretation sys_by_workload: grouping_beside ir_key si_key ConvertSysInsDataToInsResponse add_si ir_SystemResource si_part
  ir_NetworkResource
  by unfold_locales (simp_all add: ir_key_def si_key_def add_si_def si_part_def ConvertSysInsDataToInsResponse_def
    InsightResponse_zero_def)

interpretation net_by_workload: grouping_beside ir_key ni_key ConvertNetInsDataToInsResponse add_ni ir_NetworkResource ni_part
  ir_SystemResource
  by unfold_locales (simp_all add: ir_key_def ni_key_def add_ni_def ni_part_def ConvertNetInsDataToInsResponse_def
    InsightResponse_zero_def)

section \<open>The loops group\<close>

lemma fold_first_new:
  assumes "\<And>x. U x [] = [new x]"
  shows "fold (\<lambda>(index, x) res. if index = 0 then res @ [new x] else U x res) (enumerate 0 xs) [] = fold U xs []"
proof -
  have later: "fold (\<lambda>(index, x) res. if index = 0 then res @ [new x] else U x res) (enumerate (Suc n) xs) res = fold U xs res" for n xs res
    by (induction xs arbitrary: n res) simp_all
  show ?thesis by (cases xs) (simp_all add: later assms)
qed

lemma convertWPFS_grouping:
  "convertWPFSToInsightData ord S =
     fold (\<lambda>i. update_or_add (\<lambda>d. sid_key d = wpfs_key (fst i)) (add_sid i) (obs_data (fst i) (fs_data (fst i) (snd i)))) (ord S) []"
proof -
  have "(case i of (wpfs, fsset) \<Rightarrow> \<lambda>resData. let locFsData = fs_data wpfs fsset in
       if length resData > 0 then
         update_or_add
           (\<lambda>d. sid_ClusterName d = wpfs_ClusterName wpfs \<and> sid_Namespace d = wpfs_Namespace wpfs \<and>
              sid_Labels d = wpfs_Labels wpfs \<and> sid_ContainerName d = wpfs_ContainerName wpfs)
           (\<lambda>d. d\<lparr>sid_SysProcessFileData := sid_SysProcessFileData d @ [locFsData]\<rparr>) (obs_data wpfs locFsData) resData
       else resData @ [obs_data wpfs locFsData]) resData =
     update_or_add (\<lambda>d. sid_key d = wpfs_key (fst i)) (add_sid i) (obs_data (fst i) (fs_data (fst i) (snd i))) resData" for i resData
    by (cases i; cases resData) (simp_all add: sid_key_def wpfs_key_def add_sid_def [abs_def] Let_def)
  then show ?thesis unfolding convertWPFSToInsightData_def by (intro fold_cong) auto
qed

lemma same_workload_key: "same_workload c n l = (\<lambda>r. ir_key r = (c, n, l))"
  by (auto simp: same_workload_def ir_key_def)

lemma populateAggregatedResp_grouping:
  "populateAggregatedResp sys net =
     fold (\<lambda>d. update_or_add (\<lambda>r. ir_key r = ni_key d) (add_ni d) (ConvertNetInsDataToInsResponse d)) net
      (fold (\<lambda>d. update_or_add (\<lambda>r. ir_key r = si_key d) (add_si d) (ConvertSysInsDataToInsResponse d)) sys [])"
  unfolding populateAggregatedResp_def Let_def
  by (subst fold_first_new)
    (simp_all add: same_workload_key si_key_def ni_key_def add_si_def [abs_def] add_ni_def [abs_def] si_part_def ni_part_def)

lemma sets_by_container_mem:
  "(\<exists>d \<in> set (convertWPFSToInsightData ord S). sid_key d = k \<and> s \<in> set (sid_SysProcessFileData d)) \<longleftrightarrow>
   (\<exists>i \<in> set (ord S). wpfs_key (fst i) = k \<and> fs_data (fst i) (snd i) = s)"
  unfolding convertWPFS_grouping by (rule sets_by_container.group_mem)

lemma responses_mem:
  "(\<exists>r \<in> set (populateAggregatedResp sys net). ir_key r = k \<and> d \<in> set (ir_SystemResource r)) \<longleftrightarrow>
   (\<exists>d' \<in> set sys. si_key d' = k \<and> si_part d' = d)"
proof -
  let ?sys = "fold (\<lambda>d. update_or_add (\<lambda>r. ir_key r = si_key d) (add_si d) (ConvertSysInsDataToInsResponse d)) sys []"
  have "group_contents ir_key ir_SystemResource (populateAggregatedResp sys net) k = map si_part (filter (\<lambda>d. si_key d = k) sys)"
    using net_by_workload.group_beside [of net ?sys k] sys_by_workload.group_all [of "[]" sys k]
    by (simp add: populateAggregatedResp_grouping)
  then have "d \<in> set (group_contents ir_key ir_SystemResource (populateAggregatedResp sys net) k) \<longleftrightarrow>
      (\<exists>d' \<in> set sys. si_key d' = k \<and> si_part d' = d)" by auto
  then show ?thesis by (simp add: group_contents_mem)
qed

text \<open>The rows of a query with different keys are the entries of the map.\<close>

lemma scan_sets_rows:
  assumes "distinct (map row_key rows)"
  shows "fst (scan_sets rows) = map (\<lambda>r. (row_key r, split_record (row_fileset r))) rows"
proof -
  have new: "AList.update k v m = m @ [(k, v)]" if "k \<notin> fst ` set m" for k :: WorkloadProcessFileSet and v :: "string list" and m
    using that by (induction m) auto
  have "fst (fold (\<lambda>r (res, pnMap). (AList.update (row_key r) (split_record (row_fileset r)) res,
      AList.update (row_key r) (row_policyName r) pnMap)) rows (m, pn)) = m @ map (\<lambda>r. (row_key r, split_record (row_fileset r))) rows"
    if "fst ` set m \<inter> row_key ` set rows = {}" for m pn
    using that assms
  proof (induction rows arbitrary: m pn)
    case (Cons r rows)
    have "row_key r \<notin> fst ` set m" using Cons.prems(1) by auto
    then have "AList.update (row_key r) (split_record (row_fileset r)) m = m @ [(row_key r, split_record (row_fileset r))]" by (rule new)
    then show ?case using Cons by auto
  qed simp
  from this [of "[]" "[]"] show ?thesis by (simp add: scan_sets_def)
qed

section \<open>What is reported\<close>

text \<open>What an answer reports of the file sets: a workload, a container and the data of a source.\<close>

definition reported :: "InsightResponse list \<Rightarrow> ((string \<times> string \<times> string) \<times> string \<times> PbSystemData) set" where
  "reported resp = {(ir_key r, si_ContainerName d, s) |r d s. r \<in> set resp \<and> d \<in> set (ir_SystemResource r) \<and> s \<in> set (si_SysResource d)}"

definition set_report :: "WorkloadProcessFileSet \<Rightarrow> string list \<Rightarrow> (string \<times> string \<times> string) \<times> string \<times> PbSystemData" where
  "set_report w fs = ((wpfs_ClusterName w, wpfs_Namespace w, wpfs_Labels w), wpfs_ContainerName w,
     \<lparr>psd_FromSource = wpfs_FromSource w, psd_ProcessPaths = (if wpfs_SetType w = SYS_OP_PROCESS then fs else []),
      psd_FilePaths = (if wpfs_SetType w = SYS_OP_FILE then fs else []),
      psd_NetworkProtocol = (if wpfs_SetType w = SYS_OP_NETWORK then fs else [])\<rparr>)"

definition pb_data :: "SystemData \<Rightarrow> PbSystemData" where
  "pb_data fsset = \<lparr>psd_FromSource = sd_FromSource fsset, psd_ProcessPaths = sd_ProcessPaths fsset,
     psd_FilePaths = sd_FilePaths fsset, psd_NetworkProtocol = sd_NetworkPaths fsset\<rparr>"

lemma reported_mem:
  "(k, c, s) \<in> reported resp \<longleftrightarrow>
     (\<exists>d. (\<exists>r \<in> set resp. ir_key r = k \<and> d \<in> set (ir_SystemResource r)) \<and> si_ContainerName d = c \<and> s \<in> set (si_SysResource d))"
  by (auto simp: reported_def)

lemma convertSys_eq:
  "convertSysInsDataToResponse ds = map (\<lambda>d. \<lparr>si_ClusterName = sid_ClusterName d, si_Namespace = sid_Namespace d,
     si_Labels = sid_Labels d, si_ContainerName = sid_ContainerName d, si_SysResource = map pb_data (sid_SysProcessFileData d)\<rparr>) ds"
  by (simp add: convertSysInsDataToResponse_def pb_data_def [abs_def])

lemma set_report_eq:
  "wpfs_key w = (cl, ns, ls, c) \<and> pb_data (fs_data w fs) = s \<longleftrightarrow> ((cl, ns, ls), c, s) = set_report w fs"
  by (auto simp: set_report_def wpfs_key_def pb_data_def fs_data_def)

lemma reported_aggregated:
  "((cl, ns, ls), c, s) \<in> reported (populateAggregatedResp (convertSysInsDataToResponse ds) net) \<longleftrightarrow>
     (\<exists>t. (\<exists>d \<in> set ds. sid_key d = (cl, ns, ls, c) \<and> t \<in> set (sid_SysProcessFileData d)) \<and> s = pb_data t)"
  unfolding reported_mem responses_mem
  by (auto simp: convertSys_eq si_key_def si_part_def sid_key_def SystemInsightData_zero_def) blast

lemma reported_sets:
  assumes "iter_order ord"
  shows "reported (populateAggregatedResp (convertSysInsDataToResponse (convertWPFSToInsightData ord S)) net) =
    (\<lambda>(w, fs). set_report w fs) ` set S"
proof -
  have "(k, c, s) \<in> reported (populateAggregatedResp (convertSysInsDataToResponse (convertWPFSToInsightData ord S)) net) \<longleftrightarrow>
      (k, c, s) \<in> (\<lambda>(w, fs). set_report w fs) ` set S" for k c s
  proof -
    obtain cl ns ls where k: "k = (cl, ns, ls)" by (metis surj_pair)
    have "(\<exists>i \<in> set S. wpfs_key (fst i) = (cl, ns, ls, c) \<and> pb_data (fs_data (fst i) (snd i)) = s) \<longleftrightarrow>
        (k, c, s) \<in> (\<lambda>(w, fs). set_report w fs) ` set S"
      unfolding k set_report_eq by (simp add: image_iff case_prod_unfold)
    then show ?thesis
      unfolding k reported_aggregated sets_by_container_mem iter_order_set [OF assms] by metis
  qed
  then show ?thesis by (metis (no_types, lifting) subset_antisym subsetI surj_pair)
qed

section \<open>Network data\<close>

definition net_key :: "NetworkInsightData \<Rightarrow> string \<times> string \<times> string \<times> string \<times> string" where
  "net_key d = (ni_ClusterName d, ni_Namespace d, ni_Labels d, ni_Type d, ni_Rule d)"

text \<open>The first element with each key.\<close>

fun first_by :: "('a \<Rightarrow> 'k) \<Rightarrow> 'k set \<Rightarrow> 'a list \<Rightarrow> 'a list" where
  "first_by key seen [] = []"
| "first_by key seen (x # xs) = (if key x \<in> seen then first_by key seen xs else x # first_by key (insert (key x) seen) xs)"

lemma update_or_add_same:
  "update_or_add P (\<lambda>x. x) new xs = (if list_ex P xs then xs else xs @ [new])"
  by (induction xs) auto

lemma fold_first_by:
  "fold (\<lambda>x. update_or_add (\<lambda>d. key d = key x) (\<lambda>d. d) x) xs gs = gs @ first_by key (key ` set gs) xs"
proof (induction xs arbitrary: gs)
  case (Cons x xs)
  have "list_ex (\<lambda>d. key d = key x) gs \<longleftrightarrow> key x \<in> key ` set gs" unfolding list_ex_iff image_iff by metis
  then show ?case using Cons.IH by (simp add: update_or_add_same insert_commute)
qed simp

lemma aggregateNetInsightData_first: "aggregateNetInsightData ds = first_by net_key {} ds"
proof -
  have "(\<lambda>d. ni_ClusterName d = ni_ClusterName x \<and> ni_Namespace d = ni_Namespace x \<and>
            ni_Rule d = ni_Rule x \<and> ni_Type d = ni_Type x \<and> ni_Labels d = ni_Labels x) = (\<lambda>d. net_key d = net_key x)" for x
    by (auto simp: net_key_def)
  then have "aggregateNetInsightData ds = fold (\<lambda>x. update_or_add (\<lambda>d. net_key d = net_key x) (\<lambda>d. d) x) ds []"
    unfolding aggregateNetInsightData_def by (simp only: fold_first_new [of "\<lambda>x. update_or_add (\<lambda>d. net_key d = net_key x) (\<lambda>d. d) x", simplified])
  then show ?thesis by (simp add: fold_first_by)
qed

lemma first_by_facts:
  "distinct (map key (first_by key seen xs)) \<and> key ` set (first_by key seen xs) = key ` set xs - seen \<and>
   set (first_by key seen xs) \<subseteq> set xs"
  by (induction xs arbitrary: seen) auto

section \<open>Properties\<close>

text \<open>C22: The answer to a request to observe everything has one entry for each workload, and reports of the file sets exactly the rows of
  the table that match the request: each with its container, its source and its paths as those of its kind. This holds for
  every order in which the map of the sets is iterated.\<close>

theorem GetInsightData_reports:
  assumes "driver_ok (ie_DBDriver env)" and "iter_order (ie_sets env)" and "db_ok sets"
    and "iq_Source req = ''all''" and "iq_Request req = ''observe''"
  shows "\<exists>resp. GetInsightData env req (pols, sets) = (resp, None, (pols, sets)) \<and> distinct (map ir_key resp) \<and>
    reported resp = {set_report (row_key r) (split_record (row_fileset r)) |r. r \<in> set sets \<and> where_match (request_sets req) r}"
proof -
  let ?rows = "filter (where_match (request_sets req)) sets"
  let ?S = "fst (scan_sets ?rows)"
  let ?sys = "convertSysInsDataToResponse (convertWPFSToInsightData (ie_sets env) ?S)"
  let ?net = "GetNetInsightData env req pols"
  have "getSysInsightData (ie_sets env) (ie_DBDriver env) sets (request_sets req) = ?sys"
    using assms(1) by (auto simp: getSysInsightData_def GetWorkloadProcessFileSet_eq driver_ok_def case_prod_unfold)
  then have run: "GetInsightData env req (pols, sets) = (populateAggregatedResp ?sys ?net, None, (pols, sets))"
    using assms(4,5) by (simp add: GetInsightData_def getAllInsightData_def GetSysInsightData_def)
  have "distinct (map row_key ?rows)" using assms(3) by (simp add: db_ok_def distinct_map_filter)
  then have S: "set ?S = (\<lambda>r. (row_key r, split_record (row_fileset r))) ` {r \<in> set sets. where_match (request_sets req) r}"
    by (simp add: scan_sets_rows)
  have "reported (populateAggregatedResp ?sys ?net) =
      {set_report (row_key r) (split_record (row_fileset r)) |r. r \<in> set sets \<and> where_match (request_sets req) r}"
    unfolding reported_sets [OF assms(2)] S image_image prod.case by blast
  moreover have "distinct (map ir_key (populateAggregatedResp ?sys ?net))"
    using net_by_workload.group_all sys_by_workload.group_all [of "[]"] by (simp add: populateAggregatedResp_grouping)
  ultimately show ?thesis using run by blast
qed

text \<open>Of the network policies with the same cluster, namespace, labels, type and rule only the first is reported: the loop appends the
  others to a copy of the entry.\<close>

theorem GetNetInsightData_loses_policies:
  assumes "nd = map (\<lambda>(i, p). net_insight (ie_labels env i) p)
      (enumerate 0 (GetNetworkPolicies (ie_DBDriver env) (iq_ClusterName req) (iq_Namespace req) ''latest'' (iq_Type req) (iq_Rule req) db))"
    and "iq_Labels req = []"
  shows "GetNetInsightData env req db = first_by net_key {} nd \<and> distinct (map net_key (GetNetInsightData env req db)) \<and>
    net_key ` set (GetNetInsightData env req db) = net_key ` set nd"
  using assms first_by_facts [of net_key "{}" nd] by (simp add: GetNetInsightData_def aggregateNetInsightData_first)

text \<open>A request to delete everything deletes the file sets, but no network policy; instead the network policies are answered.\<close>

theorem GetInsightData_clears_sets_only:
  assumes "iq_Source req = ''all''" and "iq_Request req = ''dbclear''"
    and "GetInsightData env req (pols, sets) = (resp, None, (pols', sets'))"
  shows "pols' = pols \<and> resp = populateAggregatedResp [] (GetNetInsightData env req pols)"
  using assms
  by (auto simp: GetInsightData_def getAllInsightData_def GetSysInsightData_def case_prod_unfold Let_def split: if_splits)

text \<open>The entities of an ingress rule are reported twice.\<close>

theorem populateNwInsightData_doubles_entities:
  "map pi_FromEntities (nd_Ingressess (populateNwInsightData ord policy)) =
     map (\<lambda>r. in_FromEntities r @ in_FromEntities r) (spec_Ingress (np_Spec policy))"
  by (simp add: populateNwInsightData_def)

text \<open>Of the labels of a selector only the one that is iterated over last is reported.\<close>

theorem populateNwInsightData_one_label:
  assumes "iter_order ord" and "nd_Labels (populateNwInsightData ord policy) \<noteq> []"
  shows "\<exists>k v. fmlookup (sel_MatchLabels (spec_Selector (np_Spec policy))) k = Some v \<and>
    nd_Labels (populateNwInsightData ord policy) = k @ ''='' @ v"
proof -
  let ?ls = "sorted_list_of_fmap (sel_MatchLabels (spec_Selector (np_Spec policy)))"
  have last: "fold (\<lambda>(k, v) l. k @ ''='' @ v) kvs a = (if kvs = [] then a else fst (last kvs) @ ''='' @ snd (last kvs))"
    for kvs :: "(string \<times> string) list" and a
    by (induction kvs arbitrary: a) (auto split: prod.splits)
  have "ord ?ls \<noteq> []" using assms(2) by (auto simp: populateNwInsightData_def)
  then have "last (ord ?ls) \<in> set ?ls" using iter_order_set [OF assms(1)] last_in_set by metis
  moreover obtain k v where "last (ord ?ls) = (k, v)" by fastforce
  ultimately show ?thesis
    using \<open>ord ?ls \<noteq> []\<close> last [of "ord ?ls" "[]"]
    by (intro exI [of _ k, OF exI [of _ v]]) (simp add: populateNwInsightData_def sorted_entries_mem)
qed

definition demo_insight_env :: InsightEnv where
  "demo_insight_env = \<lparr>ie_DBDriver = ''mysql'', ie_parse_seconds = (\<lambda>_. Inr 60), ie_now = 7, ie_sets = rev, ie_labels = (\<lambda>_. id)\<rparr>"

definition demo_observe :: "string \<Rightarrow> InsightRequest" where
  "demo_observe source = \<lparr>iq_Request = ''observe'', iq_Source = source, iq_ClusterName = [], iq_Namespace = [],
     iq_ContainerName = [], iq_Labels = [], iq_FromSource = [], iq_Duration = [], iq_Type = [], iq_Rule = []\<rparr>"

theorem GetInsightData_reports_witness:
  "set_report (demo_key SYS_OP_PROCESS) [''/bin/ls''] \<in>
     reported (fst (GetInsightData demo_insight_env (demo_observe ''all'') (\<lparr>network_policy = [], system_policy = []\<rparr>, demo_set_rows)))"
proof -
  let ?db = "\<lparr>network_policy = [], system_policy = []\<rparr>"
  have "db_ok demo_set_rows" by (simp add: db_ok_def demo_set_rows_def)
  then obtain resp where resp: "GetInsightData demo_insight_env (demo_observe ''all'') (?db, demo_set_rows) = (resp, None, (?db, demo_set_rows))"
    "reported resp = {set_report (row_key r) (split_record (row_fileset r)) |r. r \<in> set demo_set_rows \<and>
       where_match (request_sets (demo_observe ''all'')) r}"
    using GetInsightData_reports [of demo_insight_env demo_set_rows "demo_observe ''all''" ?db]
    by (auto simp: demo_insight_env_def demo_observe_def driver_ok_def)
  have "list_ex (\<lambda>r. where_match (request_sets (demo_observe ''all'')) r \<and> row_key r = demo_key SYS_OP_PROCESS \<and>
      split_record (row_fileset r) = [''/bin/ls'']) demo_set_rows" by code_simp
  then obtain r where r: "r \<in> set demo_set_rows" "where_match (request_sets (demo_observe ''all'')) r"
    "row_key r = demo_key SYS_OP_PROCESS" "split_record (row_fileset r) = [''/bin/ls'']" by (auto simp: list_ex_iff)
  have "set_report (row_key r) (split_record (row_fileset r)) \<in> reported resp" unfolding resp(2) using r(1,2) by blast
  then show ?thesis using r(3,4) resp(1) by simp
qed

theorem GetNetInsightData_loses_policies_witness:
  "length (GetNetInsightData demo_insight_env (demo_observe ''network'')
     \<lparr>network_policy = map (net_row 3) [demo_named ''a'' ''ns'', demo_named ''b'' ''ns''], system_policy = []\<rparr>) = 1"
proof -
  let ?db = "\<lparr>network_policy = map (net_row 3) [demo_named ''a'' ''ns'', demo_named ''b'' ''ns''], system_policy = []\<rparr>"
  let ?nd = "map (\<lambda>(i, p). net_insight (ie_labels demo_insight_env i) p) (enumerate 0 (GetNetworkPolicies (ie_DBDriver demo_insight_env)
      (iq_ClusterName (demo_observe ''network'')) (iq_Namespace (demo_observe ''network'')) ''latest''
      (iq_Type (demo_observe ''network'')) (iq_Rule (demo_observe ''network'')) ?db))"
  have "GetNetInsightData demo_insight_env (demo_observe ''network'') ?db = first_by net_key {} ?nd"
    using GetNetInsightData_loses_policies [of ?nd demo_insight_env "demo_observe ''network''" ?db] by (simp add: demo_observe_def)
  moreover have "length (first_by net_key {} ?nd) = 1" by code_simp
  ultimately show ?thesis by simp
qed

end
