(* ===== verification/AdmissionController.thy ===== *)
theory AdmissionController
  imports PolicyYamls Observability
begin

text \<open>
  Package \<^verbatim>\<open>admissioncontrollerpolicy\<close>: the table of the policies of Kyverno, the generation of parts of policies, and the decision
  whether the token of the service account has to be mounted, which looks for it in the summaries of the files that the containers of a
  pod have used. The types of Kyverno and of Kubernetes are records of the fields that are read; the JSON and YAML libraries and
  the list of pods that the API returns are parameters.
\<close>

definition PolicyTypeAdmissionController :: string where
  "PolicyTypeAdmissionController = ''admission-controller''"

definition PolicyTypeAdmissionControllerGeneric :: string where
  "PolicyTypeAdmissionControllerGeneric = ''admission-controller-generic''"

section \<open>Policies in the table\<close>

text \<open>A policy of Kyverno with its JSON text, which cannot always be made. A policy that is neither of the two kinds has no text
  and no error.\<close>

record KyvernoPolicy =
  kv_Kind :: string
  kv_Name :: string
  kv_Namespace :: string
  kv_json :: "string option"

definition kyverno_yaml ::
  "YamlConfig \<Rightarrow> (string \<Rightarrow> string option) \<Rightarrow> LabelMap \<Rightarrow> bool \<Rightarrow> KyvernoPolicy \<Rightarrow> PolicyYaml option" where
  "kyverno_yaml cfg JSONToYAML labels generic p =
     (case kv_json p of
        None \<Rightarrow> None
      | Some jsonBytes \<Rightarrow>
          (case JSONToYAML jsonBytes of
             None \<Rightarrow> None
           | Some yamlBytes \<Rightarrow> Some \<lparr>
               py_Type = (if generic then PolicyTypeAdmissionControllerGeneric else PolicyTypeAdmissionController),
               py_Kind = kv_Kind p, py_Name = kv_Name p, py_Namespace = kv_Namespace p, py_Cluster = yc_ClusterName cfg,
               py_ClusterId = yc_ClusterId cfg, py_WorkspaceId = yc_WorkspaceId cfg, py_Labels = labels, py_Yaml = yamlBytes\<rparr>))"

definition UpdateOrInsertPolicyYamlToDB ::
  "string \<Rightarrow> YamlConfig \<Rightarrow> int \<Rightarrow> (string \<Rightarrow> string option) \<Rightarrow> KyvernoPolicy list \<Rightarrow> LabelMap \<Rightarrow> bool \<Rightarrow> YamlRow list \<Rightarrow> YamlRow list" where
  "UpdateOrInsertPolicyYamlToDB DBDriver cfg now JSONToYAML kyvernoPolicies labels generic rows =
     (let res = List.map_filter (kyverno_yaml cfg JSONToYAML labels generic) kyvernoPolicies
      in snd (UpdateOrInsertPolicyYamls DBDriver (yc_ClusterName cfg) now res rows))"

definition UpdateOrInsertKyvernoPolicies ::
  "string \<Rightarrow> YamlConfig \<Rightarrow> int \<Rightarrow> (string \<Rightarrow> string option) \<Rightarrow> KyvernoPolicy list \<Rightarrow> LabelMap \<Rightarrow> bool \<Rightarrow> YamlRow list \<Rightarrow> YamlRow list" where
  "UpdateOrInsertKyvernoPolicies DBDriver cfg now JSONToYAML kyvernoPolicies labels generic rows =
     UpdateOrInsertPolicyYamlToDB DBDriver cfg now JSONToYAML kyvernoPolicies labels generic rows"

definition DeleteKyvernoPolicies :: "string \<Rightarrow> string list \<Rightarrow> string \<Rightarrow> LabelMap \<Rightarrow> YamlRow list \<Rightarrow> YamlRow list" where
  "DeleteKyvernoPolicies DBDriver kyvernoPolicies namespace labels rows =
     fold (\<lambda>kyvernoPolicy rows. snd (DeletePolicyBasedOnPolicyName DBDriver kyvernoPolicy namespace (LabelMapToString labels) rows))
       kyvernoPolicies rows"

definition GetAdmissionControllerPolicy ::
  "string \<Rightarrow> (string \<Rightarrow> 'k option) \<Rightarrow> string \<Rightarrow> string \<Rightarrow> string \<Rightarrow> string \<Rightarrow> YamlRow list \<Rightarrow> 'k list" where
  "GetAdmissionControllerPolicy DBDriver unmarshal namespace clusterName labels policyType rows =
     (let filterOptions = \<lparr>pf_Cluster = clusterName, pf_Namespace = namespace, pf_Labels = LabelMapFromString labels\<rparr>
      in List.map_filter (\<lambda>policyYaml. unmarshal (py_Yaml policyYaml)) (GetPolicyYamls DBDriver policyType filterOptions rows))"

record AdmissionResponse =
  ar_Res :: string
  ar_AdmissionControllerPolicy :: "string list"

definition ConvertPoliciesToWorkerResponse :: "('k \<Rightarrow> string option) \<Rightarrow> 'k list \<Rightarrow> AdmissionResponse" where
  "ConvertPoliciesToWorkerResponse marshal policies =
     \<lparr>ar_Res = ''OK'', ar_AdmissionControllerPolicy = List.map_filter marshal policies\<rparr>"

section \<open>Parts of policies\<close>

text \<open>Values of JSON; \<^verbatim>\<open>JRaw\<close> is a part of which the text is given.\<close>

datatype json = JNull | JBool bool | JNum int | JStr string | JArr "json list" | JObj "(string \<times> json) list" | JRaw string

fun json_get :: "string list \<Rightarrow> json \<Rightarrow> json option" where
  "json_get [] j = Some j"
| "json_get (k # ks) (JObj m) = (case map_of m k of None \<Rightarrow> None | Some j \<Rightarrow> json_get ks j)"
| "json_get (k # ks) j = None"

definition label_condition :: "string \<Rightarrow> string \<times> string \<Rightarrow> json" where
  "label_condition pattern kv = JObj [
     (''key'', JStr (''{{ request.object.spec.'' @ pattern @ ''.metadata.labels.'' @ fst kv @ '' || '' @ [CHR 0x27, CHR 0x27] @ '' }}'')),
     (''operator'', JStr ''Equals''), (''value'', JStr (snd kv))]"

text \<open>The assertion that the entry \<^verbatim>\<open>all\<close> is an array panics if it is none.\<close>

fun add_condition :: "json \<Rightarrow> json \<Rightarrow> go_panic + json" where
  "add_condition c (JObj m) =
     (case map_of m ''all'' of
        Some (JArr existingSlice) \<Rightarrow> Inr (JObj (AList.update ''all'' (JArr (existingSlice @ [c])) m))
      | _ \<Rightarrow> Inl TypeAssertion)"
| "add_condition c j = Inl TypeAssertion"

definition AutoGenPrecondition ::
  "(string \<Rightarrow> json option) \<Rightarrow> (json \<Rightarrow> string option) \<Rightarrow> ((string \<times> string) list \<Rightarrow> (string \<times> string) list) \<Rightarrow>
   string \<Rightarrow> LabelMap \<Rightarrow> string \<Rightarrow> go_panic + string" where
  "AutoGenPrecondition unmarshal marshal ord pattern labels precondition =
     (case unmarshal precondition of
        None \<Rightarrow> Inr precondition
      | Some preconditionMap \<Rightarrow>
          go_bind (foldM (\<lambda>m kv. add_condition (label_condition pattern kv) m) preconditionMap (ord (sorted_list_of_fmap labels)))
            (\<lambda>m. Inr (case marshal m of None \<Rightarrow> precondition | Some newPrecondition \<Rightarrow> newPrecondition)))"

fun join_keys :: "string list \<Rightarrow> json \<Rightarrow> json" where
  "join_keys [] pattern = JNull"
| "join_keys [k] pattern = JObj [(k, pattern)]"
| "join_keys (k # ks) pattern = JObj [(k, join_keys ks pattern)]"

definition joinPatterns :: "string \<Rightarrow> json \<Rightarrow> json" where
  "joinPatterns patternToBeAppended pattern = join_keys (Split patternToBeAppended (CHR ''.'')) pattern"

definition AutoGenPattern :: "(json \<Rightarrow> string option) \<Rightarrow> string \<Rightarrow> string \<Rightarrow> string" where
  "AutoGenPattern marshal patternToBeAppended pattern =
     (case marshal (joinPatterns patternToBeAppended (JRaw pattern)) of None \<Rightarrow> pattern | Some bytes \<Rightarrow> bytes)"

section \<open>The token of the service account\<close>

text \<open>A pod of the API: a projected volume has sources, which have the path of a token or not.\<close>

record K8sContainer =
  kc_Name :: string
  kc_VolumeMounts :: "(string \<times> string) list"

record K8sPod =
  kp_Name :: string
  kp_Namespace :: string
  kp_Volumes :: "(string \<times> string option list option) list"
  kp_Containers :: "K8sContainer list"

record containerMountPathServiceAccountToken =
  ct_podName :: string
  ct_podNamespace :: string
  ct_containerName :: string
  ct_saTokenMountPath :: string

text \<open>The loops over the volumes and their sources; each ends at its first token, the outer one only if its path is not empty.\<close>

fun find_token :: "(string \<times> string option list option) list \<Rightarrow> string \<times> string \<Rightarrow> string \<times> string" where
  "find_token [] (tokenPath, volume) = (tokenPath, volume)"
| "find_token ((name, projected) # vs) (tokenPath, volume) =
     (case projected of
        None \<Rightarrow> find_token vs (tokenPath, volume)
      | Some sources \<Rightarrow>
          (let found = (case List.map_filter (\<lambda>t. t) sources of [] \<Rightarrow> (tokenPath, volume) | path # _ \<Rightarrow> (path, name))
           in if fst found \<noteq> [] then found else find_token vs found))"

definition getSATokenMountPath :: "K8sPod \<Rightarrow> string + containerMountPathServiceAccountToken list" where
  "getSATokenMountPath pod =
     (let (tokenPath, projectedVolumeName) = find_token (kp_Volumes pod) ([], []) in
      if tokenPath = [] \<or> projectedVolumeName = []
      then Inl (''service account token not mounted for '' @ kp_Name pod @ '' in namespace '' @ kp_Namespace pod)
      else Inr (concat (map (\<lambda>container.
        map (\<lambda>(_, mountPath). \<lparr>ct_podName = kp_Name pod, ct_podNamespace = kp_Namespace pod,
             ct_containerName = kc_Name container, ct_saTokenMountPath = mountPath @ ''/'' @ tokenPath\<rparr>)
          (filter (\<lambda>(name, _). name = projectedVolumeName) (kc_VolumeMounts container))) (kp_Containers pod))))"

text \<open>The runes of a text, as the package \<^verbatim>\<open>unicode/utf8\<close> decodes them: a byte that does not begin a rune stands for itself.\<close>

definition byte_between :: "nat \<Rightarrow> nat \<Rightarrow> char \<Rightarrow> bool" where
  "byte_between lo hi c \<longleftrightarrow> lo \<le> of_char c \<and> of_char c \<le> hi"

definition cont_byte :: "char \<Rightarrow> bool" where
  "cont_byte c = byte_between 0x80 0xBF c"

definition second_byte :: "char \<Rightarrow> char \<Rightarrow> bool" where
  "second_byte lead c =
     (if lead = CHR 0xE0 then byte_between 0xA0 0xBF c else if lead = CHR 0xED then byte_between 0x80 0x9F c
      else if lead = CHR 0xF0 then byte_between 0x90 0xBF c else if lead = CHR 0xF4 then byte_between 0x80 0x8F c
      else cont_byte c)"

definition rune_len :: "string \<Rightarrow> nat" where
  "rune_len s = (case s of
     c # d # rest \<Rightarrow>
       if byte_between 0xC2 0xDF c \<and> cont_byte d then 2
       else if byte_between 0xE0 0xEF c \<and> second_byte c d \<and> length rest \<ge> 1 \<and> cont_byte (rest ! 0) then 3
       else if byte_between 0xF0 0xF4 c \<and> second_byte c d \<and> length rest \<ge> 2 \<and> cont_byte (rest ! 0) \<and> cont_byte (rest ! 1) then 4
       else 1
   | _ \<Rightarrow> 1)"

lemma rune_len_pos: "rune_len s \<ge> 1"
  by (auto simp: rune_len_def split: list.split)

function runes :: "string \<Rightarrow> string list" where
  "runes [] = []"
| "runes (c # s) = take (rune_len (c # s)) (c # s) # runes (drop (rune_len (c # s)) (c # s))"
  by pat_completeness auto
termination
proof (relation "measure length")
  show "(drop (rune_len (c # s)) (c # s), c # s) \<in> measure length" for c s
    using rune_len_pos [of "c # s"] by simp
qed simp

definition digit_rune :: "string \<Rightarrow> bool" where
  "digit_rune r \<longleftrightarrow> (case r of [c] \<Rightarrow> byte_between 48 57 c | _ \<Rightarrow> False)"

text \<open>The expression \<^verbatim>\<open>..[0-9]{4}_[0-9]{2}_[0-9]{2}.*\<close>, whose points are any rune but a newline, anywhere in the text.\<close>

definition stamp_here :: "string list \<Rightarrow> bool" where
  "stamp_here rs \<longleftrightarrow> length rs \<ge> 12 \<and> rs ! 0 \<noteq> [CHR 0x0A] \<and> rs ! 1 \<noteq> [CHR 0x0A] \<and>
     digit_rune (rs ! 2) \<and> digit_rune (rs ! 3) \<and> digit_rune (rs ! 4) \<and> digit_rune (rs ! 5) \<and> rs ! 6 = ''_'' \<and>
     digit_rune (rs ! 7) \<and> digit_rune (rs ! 8) \<and> rs ! 9 = ''_'' \<and> digit_rune (rs ! 10) \<and> digit_rune (rs ! 11)"

fun stamp_in :: "string list \<Rightarrow> bool" where
  "stamp_in [] = False"
| "stamp_in (r # rs) = (stamp_here (r # rs) \<or> stamp_in rs)"

definition time_stamped :: "string \<Rightarrow> bool" where
  "time_stamped s = stamp_in (runes s)"

definition removeMatchingElements :: "string list \<Rightarrow> string list" where
  "removeMatchingElements elements = filter (\<lambda>s. \<not> time_stamped s) elements"

text \<open>The slice from the third element on panics if there is only one.\<close>

definition matchesSATokenPath :: "string \<Rightarrow> string \<Rightarrow> go_panic + bool" where
  "matchesSATokenPath saTokenPath sumRespPath =
     (let saTokenPathParts = Split saTokenPath (CHR ''/'');
          sumRespPathParts = Split sumRespPath (CHR ''/'');
          sumpRespPathWithoutDoubleDot = Join (removeMatchingElements sumRespPathParts) ''/''
      in if length saTokenPathParts < 2 then Inl IndexOutOfRange
         else
           (let saTokenPathWithoutFirstPathPart = Join (take 1 saTokenPathParts @ drop 2 saTokenPathParts) ''/''
            in Inr (saTokenPath = sumpRespPathWithoutDoubleDot \<or> saTokenPathWithoutFirstPathPart = sumpRespPathWithoutDoubleDot)))"

text \<open>The loops, which return at the first match.\<close>

fun any_match :: "('a \<Rightarrow> go_panic + bool) \<Rightarrow> 'a list \<Rightarrow> go_panic + bool" where
  "any_match f [] = Inr False"
| "any_match f (x # xs) = go_bind (f x) (\<lambda>b. if b then Inr True else any_match f xs)"

definition serviceAccountTokenUsed ::
  "containerMountPathServiceAccountToken list \<Rightarrow> ObsResponse list \<Rightarrow> go_panic + bool" where
  "serviceAccountTokenUsed containersSATokenMountPath sumResponses =
     any_match (\<lambda>token. any_match (\<lambda>sumResp. any_match (\<lambda>fileData.
       if rp_ContainerName sumResp = ct_containerName token
       then matchesSATokenPath (ct_saTokenMountPath token) (sp_Destination fileData) else Inr False)
       (rp_FileData sumResp)) sumResponses) containersSATokenMountPath"

text \<open>The summaries of the containers; a failure ends the loop.\<close>

fun container_summaries ::
  "(nat \<Rightarrow> ObsRequest \<Rightarrow> string + ObsResponse) \<Rightarrow> K8sPod \<Rightarrow> nat \<Rightarrow> K8sContainer list \<Rightarrow> string + ObsResponse list" where
  "container_summaries summary pod i [] = Inr []"
| "container_summaries summary pod i (container # cs) =
     (case summary i (ObsRequest_zero\<lparr>or_PodName := kp_Name pod, or_NameSpace := kp_Namespace pod,
          or_ContainerName := kc_Name container, or_Type := ''process,file''\<rparr>) of
        Inl err \<Rightarrow> Inl err
      | Inr sumResp \<Rightarrow>
          (case container_summaries summary pod (Suc i) cs of Inl err \<Rightarrow> Inl err | Inr rest \<Rightarrow> Inr (sumResp # rest)))"

text \<open>The pods with the labels are a parameter, \<^verbatim>\<open>Inl\<close> if they cannot be listed. Each call of \<^verbatim>\<open>GetSummaryData\<close> has its own
  environment. Without a token the error makes the function return false.\<close>

definition ShouldSATokenBeAutoMounted ::
  "(string \<Rightarrow> string \<Rightarrow> string + K8sPod list) \<Rightarrow> (nat \<Rightarrow> ObsEnv) \<Rightarrow> string \<Rightarrow> SumTable \<Rightarrow> CiliumRow list \<Rightarrow> string \<Rightarrow> LabelMap \<Rightarrow>
   go_panic + bool" where
  "ShouldSATokenBeAutoMounted list_pods envs DBDriver table flows namespace labels =
     (case list_pods namespace (LabelMapToString labels) of
        Inl err \<Rightarrow> Inr True
      | Inr [] \<Rightarrow> Inr True
      | Inr (pod # _) \<Rightarrow>
          (let (err, containersSATokenMountPath) = (case getSATokenMountPath pod of Inl err \<Rightarrow> (Some err, []) | Inr paths \<Rightarrow> (None, paths))
           in if (case err of None \<Rightarrow> False | Some e \<Rightarrow> Contains e ''service account token not mounted'') then Inr False
              else
               (case container_summaries (\<lambda>i. GetSummaryData (envs i) DBDriver table flows) pod 0 (kp_Containers pod) of
                  Inl err \<Rightarrow> Inr True
                | Inr sumResponses \<Rightarrow> serviceAccountTokenUsed containersSATokenMountPath sumResponses)))"

section \<open>Facts\<close>

lemma any_match_Inr:
  assumes "\<And>x. x \<in> set xs \<Longrightarrow> f x = Inr (P x)"
  shows "any_match f xs = Inr (\<exists>x \<in> set xs. P x)"
  using assms by (induction xs) auto

text \<open>What the comparison of a path with that of the token means.\<close>

definition without_stamps :: "string \<Rightarrow> string" where
  "without_stamps path = Join (removeMatchingElements (Split path (CHR ''/''))) ''/''"

definition without_first :: "string \<Rightarrow> string" where
  "without_first path = Join (take 1 (Split path (CHR ''/'')) @ drop 2 (Split path (CHR ''/''))) ''/''"

definition token_at :: "string \<Rightarrow> string \<Rightarrow> bool" where
  "token_at token dest \<longleftrightarrow> without_stamps dest = token \<or> without_stamps dest = without_first token"

lemma Split_parts: "CHR ''/'' \<in> set s \<Longrightarrow> length (Split s (CHR ''/'')) \<ge> 2"
proof (induction s)
  case (Cons c s)
  then show ?case by (cases "Split s (CHR ''/'')") (auto simp: Suc_le_eq dest: arg_cong [of _ "[]" length])
qed simp

lemma matchesSATokenPath_eq: "CHR ''/'' \<in> set token \<Longrightarrow> matchesSATokenPath token dest = Inr (token_at token dest)"
  using Split_parts [of token]
  by (auto simp: matchesSATokenPath_def token_at_def without_stamps_def without_first_def Let_def)

lemma getSATokenMountPath_slash:
  "getSATokenMountPath pod = Inr tokens \<Longrightarrow> t \<in> set tokens \<Longrightarrow> CHR ''/'' \<in> set (ct_saTokenMountPath t)"
  by (auto simp: getSATokenMountPath_def Let_def split: if_splits prod.splits)

lemma Split_slash: "Split (a @ d # b) d = Split a d @ Split b d"
proof (induction a)
  case (Cons c a)
  then show ?case by (cases "Split a d") auto
qed simp

lemma not_time_stamped_Nil [simp]: "\<not> time_stamped []"
  by (simp add: time_stamped_def)

lemma no_stamps: "\<forall>p \<in> set (Split s (CHR ''/'')). \<not> time_stamped p \<Longrightarrow> removeMatchingElements (Split s (CHR ''/'')) = Split s (CHR ''/'')"
  by (simp add: removeMatchingElements_def)

lemma Join_snoc: "ws \<noteq> [] \<Longrightarrow> Join (ws @ [w]) d = Join ws d @ d @ w"
  by (induction ws d rule: Join.induct) auto

definition token_used :: "containerMountPathServiceAccountToken list \<Rightarrow> ObsResponse list \<Rightarrow> bool" where
  "token_used tokens resps \<longleftrightarrow> (\<exists>t \<in> set tokens. \<exists>r \<in> set resps. rp_ContainerName r = ct_containerName t \<and>
     (\<exists>f \<in> set (rp_FileData r). token_at (ct_saTokenMountPath t) (sp_Destination f)))"

lemma serviceAccountTokenUsed_eq:
  assumes "\<And>t. t \<in> set tokens \<Longrightarrow> CHR ''/'' \<in> set (ct_saTokenMountPath t)"
  shows "serviceAccountTokenUsed tokens resps = Inr (token_used tokens resps)"
proof -
  have "serviceAccountTokenUsed tokens resps = Inr (\<exists>t \<in> set tokens. \<exists>r \<in> set resps. \<exists>f \<in> set (rp_FileData r).
      rp_ContainerName r = ct_containerName t \<and> token_at (ct_saTokenMountPath t) (sp_Destination f))"
    unfolding serviceAccountTokenUsed_def by (intro any_match_Inr) (auto simp: matchesSATokenPath_eq [OF assms])
  then show ?thesis by (auto simp: token_used_def)
qed

section \<open>Properties\<close>


text \<open>The comparison sees through the links that Kubernetes makes: the path of the token is recognised with a directory with a time
  stamp before its last part, and without its first directory.\<close>

theorem token_at_links:
  assumes "time_stamped d" and "CHR ''/'' \<notin> set d" and "CHR ''/'' \<notin> set f"
    and "\<forall>p \<in> set (Split m (CHR ''/'') @ Split t (CHR ''/'')). \<not> time_stamped p"
  shows "token_at (m @ ''/'' @ t) (m @ ''/'' @ d @ ''/'' @ t) \<and>
    token_at (''/'' @ f @ ''/'' @ m @ ''/'' @ t) (''/'' @ m @ ''/'' @ d @ ''/'' @ t)"
proof -
  have parts: "removeMatchingElements (Split (m @ ''/'' @ d @ ''/'' @ t) (CHR ''/'')) = Split (m @ ''/'' @ t) (CHR ''/'')"
    using assms(1,2,4) by (simp add: Split_slash Split_no_sep removeMatchingElements_def)
  then have "without_stamps (m @ ''/'' @ d @ ''/'' @ t) = m @ ''/'' @ t"
    unfolding without_stamps_def by (simp only: Join_Split)
  moreover have "without_stamps (''/'' @ m @ ''/'' @ d @ ''/'' @ t) = Join ([] # Split (m @ ''/'' @ t) (CHR ''/'')) ''/''"
    using parts by (simp add: without_stamps_def removeMatchingElements_def)
  moreover have "without_first (''/'' @ f @ ''/'' @ m @ ''/'' @ t) = Join ([] # Split (m @ ''/'' @ t) (CHR ''/'')) ''/''"
    using assms(3) by (simp add: without_first_def Split_append)
  ultimately show ?thesis by (simp add: token_at_def)
qed

text \<open>A directory in the summaries, as the aggregation of paths makes of more files than its threshold, never counts as a use of the
  token: if the files of the token's directory have been aggregated, the token is not mounted although it is used.\<close>

theorem token_at_not_directory:
  assumes "t \<noteq> []" and "CHR ''/'' \<notin> set t" and "CHR ''/'' \<in> set m"
  shows "\<not> token_at (m @ ''/'' @ t) (dir @ ''/'')"
proof -
  have dir: "without_stamps (dir @ ''/'') = [] \<or> last (without_stamps (dir @ ''/'')) = CHR ''/''"
    by (cases "removeMatchingElements (Split dir (CHR ''/'')) = []")
      (simp_all add: without_stamps_def Split_slash removeMatchingElements_def Join_snoc)
  have parts: "Split (m @ ''/'' @ t) (CHR ''/'') = Split m (CHR ''/'') @ [t]"
    using assms(2) by (simp add: Split_slash Split_no_sep)
  have last: "last t \<noteq> CHR ''/''" using assms(1,2) last_in_set by metis
  let ?ws = "take 1 (Split m (CHR ''/'')) @ drop 2 (Split m (CHR ''/''))"
  have "take 1 (Split m (CHR ''/'') @ [t]) @ drop 2 (Split m (CHR ''/'') @ [t]) = ?ws @ [t]"
    using Split_parts [OF assms(3)] by simp
  moreover have "Join (?ws @ [t]) ''/'' = Join ?ws ''/'' @ ''/'' @ t" by (rule Join_snoc) simp
  ultimately have "without_first (m @ ''/'' @ t) = Join ?ws ''/'' @ ''/'' @ t"
    by (simp only: without_first_def parts)
  then have "without_first (m @ ''/'' @ t) \<noteq> [] \<and> last (without_first (m @ ''/'' @ t)) \<noteq> CHR ''/''"
    using assms(1) last by simp
  then show ?thesis using dir last assms(1) by (auto simp: token_at_def)
qed

text \<open>The preconditions that are generated: each label adds one condition at the end of the array \<^verbatim>\<open>all\<close>, in the order of the
  iteration, and the other entries stay; if there are labels and no such array, the type assertion panics.\<close>

theorem AutoGenPrecondition_correct:
  assumes "unmarshal precondition = Some (JObj m)" and "ord (sorted_list_of_fmap labels) \<noteq> []"
    and "\<And>j. marshal j \<noteq> None"
  shows "(case map_of m ''all'' of
      Some (JArr conditions) \<Rightarrow> \<exists>m'. AutoGenPrecondition unmarshal marshal ord pattern labels precondition = Inr (the (marshal (JObj m'))) \<and>
        map_of m' = (map_of m)(''all'' \<mapsto> JArr (conditions @ map (label_condition pattern) (ord (sorted_list_of_fmap labels))))
    | _ \<Rightarrow> AutoGenPrecondition unmarshal marshal ord pattern labels precondition = Inl TypeAssertion)"
proof -
  let ?ls = "ord (sorted_list_of_fmap labels)"
  let ?loop = "foldM (\<lambda>m kv. add_condition (label_condition pattern kv) m) (JObj m) ?ls"
  have run: "AutoGenPrecondition unmarshal marshal ord pattern labels precondition =
      go_bind ?loop (\<lambda>m. Inr (case marshal m of None \<Rightarrow> precondition | Some p \<Rightarrow> p))"
    using assms(1) by (simp add: AutoGenPrecondition_def)
  have grows: "\<exists>m'. foldM (\<lambda>m kv. add_condition (label_condition pattern kv) m) (JObj m) kvs = Inr (JObj m') \<and>
      (\<forall>k. map_of m' k = (if k = ''all'' then Some (JArr (cs @ map (label_condition pattern) kvs)) else map_of m k))"
    if "map_of m ''all'' = Some (JArr cs)" for m cs kvs
    using that
  proof (induction kvs arbitrary: m cs)
    case Nil
    then show ?case by (intro exI [of _ m]) simp
  next
    case (Cons kv kvs)
    let ?m = "AList.update ''all'' (JArr (cs @ [label_condition pattern kv])) m"
    have upd: "map_of ?m k = (if k = ''all'' then Some (JArr (cs @ [label_condition pattern kv])) else map_of m k)" for k
      by (simp add: update_conv')
    obtain m' where m': "foldM (\<lambda>m kv. add_condition (label_condition pattern kv) m) (JObj ?m) kvs = Inr (JObj m')"
      "\<forall>k. map_of m' k = (if k = ''all'' then Some (JArr ((cs @ [label_condition pattern kv]) @ map (label_condition pattern) kvs))
         else map_of ?m k)"
      using Cons.IH [of ?m "cs @ [label_condition pattern kv]"] upd [of "''all''"] by auto
    then show ?case using Cons.prems upd by (intro exI [of _ m']) simp
  qed
  show ?thesis
  proof (cases "\<exists>cs. map_of m ''all'' = Some (JArr cs)")
    case True
    then obtain cs where cs: "map_of m ''all'' = Some (JArr cs)" by blast
    from grows [OF cs, of ?ls] obtain m' where m': "?loop = Inr (JObj m')"
      "map_of m' = (map_of m)(''all'' \<mapsto> JArr (cs @ map (label_condition pattern) ?ls))" by (auto simp: fun_eq_iff)
    then have "AutoGenPrecondition unmarshal marshal ord pattern labels precondition = Inr (the (marshal (JObj m')))"
      using run assms(3) [of "JObj m'"] by auto
    then show ?thesis using cs m'(2) by auto
  next
    case False
    obtain kv kvs where "?ls = kv # kvs" using assms(2) by (cases ?ls) auto
    then have "?loop = Inl TypeAssertion" using False by (auto split: option.splits json.splits)
    then show ?thesis using run False by (auto split: option.splits json.splits)
  qed
qed

text \<open>The pattern stands at the end of its path.\<close>

theorem joinPatterns_at_path: "json_get (Split path (CHR ''.'')) (joinPatterns path pattern) = Some pattern"
proof -
  have "ks \<noteq> [] \<Longrightarrow> json_get ks (join_keys ks pattern) = Some pattern" for ks
    by (induction ks pattern rule: join_keys.induct) auto
  then show ?thesis by (simp add: joinPatterns_def)
qed

section \<open>Runs\<close>

definition demo_token_pod :: K8sPod where
  "demo_token_pod = \<lparr>kp_Name = ''web-1'', kp_Namespace = ''ns'',
     kp_Volumes = [(''config'', None), (''kube-api-access'', Some [None, Some ''token''])],
     kp_Containers = [\<lparr>kc_Name = ''web'', kc_VolumeMounts = [(''kube-api-access'', ''/var/run/secrets/kubernetes.io/serviceaccount'')]\<rparr>]\<rparr>"

definition demo_obs_env :: ObsEnv where
  "demo_obs_env = \<lparr>oe_unix_date = (\<lambda>_. ''now''), oe_tree = id, oe_paths = id, oe_files = id\<rparr>"

text \<open>The container has opened the token, which the summary shows below a directory with a time stamp.\<close>

definition demo_token_table :: SumTable where
  "demo_token_table = Some [\<lparr>sr_hash_id = ''h'', sr_columns = SystemSummary_zero\<lparr>su_NamespaceName := ''ns'', su_PodName := ''web-1'',
       su_ContainerName := ''web'', su_Operation := ''File'', su_Source := ''/bin/sh'',
       su_Destination := ''/run/secrets/kubernetes.io/serviceaccount/..2023_01_31_07_12_55.312/token''\<rparr>,
     sr_count = 1, sr_updated_time = 7\<rparr>]"

definition demo_tokens :: "containerMountPathServiceAccountToken list" where
  "demo_tokens = projr (getSATokenMountPath demo_token_pod)"

definition demo_summaries :: "ObsResponse list" where
  "demo_summaries = projr (container_summaries (\<lambda>i. GetSummaryData ((\<lambda>_. demo_obs_env) i) ''sqlite3'' demo_token_table [])
     demo_token_pod 0 (kp_Containers demo_token_pod))"


theorem token_at_links_witness:
  "token_at ''/var/run/secrets/token'' ''/run/secrets/..2023_01_31_07_12_55.312/token''"
proof -
  have "time_stamped ''..2023_01_31_07_12_55.312''" by code_simp
  moreover have "\<forall>p \<in> set (Split ''run/secrets'' (CHR ''/'') @ Split ''token'' (CHR ''/'')). \<not> time_stamped p" by code_simp
  ultimately show ?thesis
    using token_at_links [of "''..2023_01_31_07_12_55.312''" "''var''" "''run/secrets''" "''token''"] by simp
qed

theorem token_at_not_directory_witness:
  "\<not> token_at ''/var/run/secrets/token'' ''/run/secrets/''"
  using token_at_not_directory [of "''token''" "''/var/run/secrets''" "''/run/secrets''"] by simp

theorem AutoGenPrecondition_correct_witness:
  "\<exists>m'. AutoGenPrecondition (\<lambda>_. Some (JObj [(''all'', JArr [JNull])])) (\<lambda>j. Some ''text'') rev ''template''
      (fmap_of_list [(''app'', ''web'')]) ''raw'' = Inr ''text'' \<and>
    map_of m' ''all'' = Some (JArr [JNull, label_condition ''template'' (''app'', ''web'')])"
proof -
  have ls: "rev (sorted_list_of_fmap (fmap_of_list [(''app'', ''web'')])) = [(''app'', ''web'')]" by code_simp
  obtain m' where "AutoGenPrecondition (\<lambda>_. Some (JObj [(''all'', JArr [JNull])])) (\<lambda>j. Some ''text'') rev ''template''
      (fmap_of_list [(''app'', ''web'')]) ''raw'' = Inr ''text''"
    "map_of m' = (map_of [(''all'', JArr [JNull])])(''all'' \<mapsto> JArr ([JNull] @ map (label_condition ''template'') [(''app'', ''web'')]))"
    using AutoGenPrecondition_correct [of "\<lambda>_. Some (JObj [(''all'', JArr [JNull])])" "''raw''" "[(''all'', JArr [JNull])]" rev
        "fmap_of_list [(''app'', ''web'')]" "\<lambda>j. Some ''text''" "''template''"] unfolding ls by auto
  then show ?thesis by (intro exI [of _ m']) simp
qed

end
