(* ===== verification/FeedConsumer.thy ===== *)
theory FeedConsumer
  imports Cilium KubeArmorRelay
begin

text \<open>
  Package \<^verbatim>\<open>feedconsumer\<close>: consumers of a message queue collect the events of the messages and, when as many have arrived as the
  buffer is to hold, convert them and append them to the buffers of \<^verbatim>\<open>plugin\<close>, from which the workers read. The JSON library is a
  parameter, and so are the clients of Kafka and Pulsar: what they deliver are the events of a run. A message
  of a topic is a text.
\<close>

section \<open>Events\<close>

text \<open>The fields that are read. The parts of a flow are texts, or missing.\<close>

record NetworkLogEvent =
  ne_ClusterName :: string
  ne_Verdict :: string
  ne_TrafficDirection :: string
  ne_Reply :: bool
  ne_Source :: "string option"
  ne_Destination :: "string option"
  ne_IP :: "string option"
  ne_L4 :: "string option"
  ne_L7 :: "string option"

text \<open>The second name of the cluster is that of the message queue.\<close>

record FeedLogEvent = SystemLogEvent +
  fe_Clustername :: string

text \<open>A decoder fills a value; after an error it may have filled a part.\<close>

record FeedJson =
  fj_map :: "string \<Rightarrow> string + (string \<rightharpoonup> string)"
  fj_string :: "string \<Rightarrow> string + string"
  fj_flow :: "string \<Rightarrow> string + NetworkLogEvent"
  fj_syslog :: "string \<Rightarrow> string + FeedLogEvent"
  fj_endpoint :: "string \<Rightarrow> cilium_endpoint \<Rightarrow> string option \<times> cilium_endpoint"
  fj_ip :: "string \<Rightarrow> string \<times> string \<Rightarrow> string option \<times> (string \<times> string)"
  fj_l4 :: "string \<Rightarrow> layer4 \<Rightarrow> string option \<times> layer4"
  fj_l7 :: "string \<Rightarrow> layer7 \<Rightarrow> string option \<times> layer7"
  fj_url_path :: "string \<Rightarrow> string option"

definition GetFlowData :: "(string \<Rightarrow> 'a \<Rightarrow> string option \<times> 'a) \<Rightarrow> string option \<Rightarrow> 'a \<Rightarrow> string option \<times> 'a" where
  "GetFlowData unmarshal netLogEventType flowEventType =
     (case netLogEventType of None \<Rightarrow> (None, flowEventType) | Some bytes \<Rightarrow> unmarshal bytes flowEventType)"

definition direction_name :: "int \<Rightarrow> string" where
  "direction_name n = (if n = 1 then ''INGRESS'' else if n = 2 then ''EGRESS'' else ''TRAFFIC_DIRECTION_UNKNOWN'')"

definition endpoint_zero :: cilium_endpoint where
  "endpoint_zero = \<lparr>cend_Namespace = [], cend_PodName = [], cend_Labels = []\<rparr>"

definition layer7_zero :: layer7 where
  "layer7_zero = \<lparr>l7_Type = 0, l7_Record = L7_OtherRecord\<rparr>"

text \<open>The flow of an event. The reason of a drop goes to a field that the conversion does not read.\<close>

definition event_flow :: "FeedJson \<Rightarrow> NetworkLogEvent \<Rightarrow> cilium_flow" where
  "event_flow json netLog =
     \<lparr>cf_Verdict = convertVerdictToInt (ne_Verdict netLog), cf_DropReasonDesc = 0,
      cf_TrafficDirection = direction_name (convertTrafficDirectionToInt (ne_TrafficDirection netLog)),
      cf_Source = Some (snd (GetFlowData (fj_endpoint json) (ne_Source netLog) endpoint_zero)),
      cf_Destination = Some (snd (GetFlowData (fj_endpoint json) (ne_Destination netLog) endpoint_zero)),
      cf_IsReply = ne_Reply netLog,
      cf_IP = Some (snd (GetFlowData (fj_ip json) (ne_IP netLog) ([], []))),
      cf_L4 = Some (snd (GetFlowData (fj_l4 json) (ne_L4 netLog) L4_Other)),
      cf_L7 = Some (snd (GetFlowData (fj_l7 json) (ne_L7 netLog) layer7_zero))\<rparr>"

definition Alert_zero :: Alert where
  "Alert_zero = \<lparr>al_Timestamp = 0, al_UpdatedTime = [], al_ClusterName = [], al_HostName = [], al_NamespaceName = [],
     al_PodName = [], al_Labels = [], al_ContainerID = [], al_ContainerName = [], al_ContainerImage = [],
     al_ParentProcessName = [], al_ProcessName = [], al_HostPPID = 0, al_HostPID = 0, al_PPID = 0, al_PID = 0, al_UID = 0,
     al_Type = [], al_Source = [], al_Operation = [], al_Resource = [], al_Data = [], al_Result = [], al_Action = [],
     al_Enforcer = [], al_Tags = [], al_Message = [], al_Severity = [], al_PolicyName = [], al_Owner = None\<rparr>"

definition event_alert :: "FeedLogEvent \<Rightarrow> Alert" where
  "event_alert syslog = Alert_zero\<lparr>al_ClusterName := se_ClusterName syslog, al_HostName := se_HostName syslog,
     al_NamespaceName := se_NamespaceName syslog, al_ContainerName := se_ContainerName syslog, al_PodName := se_PodName syslog,
     al_Source := se_Source syslog, al_Operation := se_Operation syslog, al_Resource := se_Resource syslog,
     al_Data := se_Data syslog, al_Result := se_Result syslog\<rparr>"

section \<open>Consumers\<close>

record KnoxFeedConsumer =
  kc_id :: int
  kc_driver :: string
  kc_ciliumTopic :: string
  kc_kubearmorTopic :: string
  kc_eventsBuffer :: int
  kc_netLogEvents :: "NetworkLogEvent list"
  kc_netLogEventsCount :: int
  kc_syslogEvents :: "FeedLogEvent list"
  kc_syslogEventsCount :: int

text \<open>The buffers of \<^verbatim>\<open>plugin\<close>.\<close>

record FeedBuffers =
  fb_CiliumFlowsFC :: "KnoxNetworkLog list"
  fb_KubeArmorFCLogs :: "KnoxSystemLog list"

definition deliver_net :: "FeedJson \<Rightarrow> NetworkLogEvent list \<Rightarrow> KnoxNetworkLog list \<Rightarrow> go_panic + KnoxNetworkLog list" where
  "deliver_net json events CiliumFlowsFC =
     foldM (\<lambda>CiliumFlowsFC netLog.
       go_bind (ConvertCiliumFlowToKnoxNetworkLog (fj_url_path json) (event_flow json netLog)) (\<lambda>(knoxFlow, valid).
         Inr (if valid then CiliumFlowsFC @ [knoxFlow\<lparr>nl_ClusterName := ne_ClusterName netLog\<rparr>] else CiliumFlowsFC)))
       CiliumFlowsFC events"

definition knox_syslog_of :: "FeedLogEvent \<Rightarrow> KnoxSystemLog option" where
  "knox_syslog_of syslog = (case ConvertKubeArmorLogToKnoxSystemLog (event_alert syslog) of
     Inl err \<Rightarrow> None | Inr knoxLog \<Rightarrow> Some (knoxLog\<lparr>sl_ClusterName := fe_Clustername syslog\<rparr>))"

definition deliver_sys :: "FeedLogEvent list \<Rightarrow> KnoxSystemLog list \<Rightarrow> KnoxSystemLog list" where
  "deliver_sys events KubeArmorFCLogs =
     fold (\<lambda>syslog logs. case knox_syslog_of syslog of None \<Rightarrow> logs | Some knoxLog \<Rightarrow> logs @ [knoxLog]) events KubeArmorFCLogs"

definition processNetworkLogMessage ::
  "FeedJson \<Rightarrow> string \<Rightarrow> KnoxFeedConsumer \<Rightarrow> FeedBuffers \<Rightarrow> go_panic + (string option \<times> KnoxFeedConsumer \<times> FeedBuffers)" where
  "processNetworkLogMessage json message cfc bufs =
     (case fj_map json message of
        Inl err \<Rightarrow> Inr (Some err, cfc, bufs)
      | Inr eventMap \<Rightarrow>
         (case (case eventMap ''cluster_name'' of None \<Rightarrow> Inr ''default'' | Some clusterName \<Rightarrow> fj_string json clusterName) of
            Inl err \<Rightarrow> Inr (Some err, cfc, bufs)
          | Inr clusterNameStr \<Rightarrow>
             (case eventMap ''flow'' of
                None \<Rightarrow> Inr (Some ''Unable to parse feed-consumer message'', cfc, bufs)
              | Some flowEvent \<Rightarrow>
                 (case fj_flow json flowEvent of
                    Inl err \<Rightarrow> Inr (Some err, cfc, bufs)
                  | Inr event \<Rightarrow>
                     (let event = event\<lparr>ne_ClusterName := clusterNameStr\<rparr>;
                          events = kc_netLogEvents cfc @ [event];
                          n = kc_netLogEventsCount cfc + 1
                      in if n = kc_eventsBuffer cfc then
                           go_bind (deliver_net json events (fb_CiliumFlowsFC bufs)) (\<lambda>flows.
                             Inr (None, cfc\<lparr>kc_netLogEvents := [], kc_netLogEventsCount := 0\<rparr>, bufs\<lparr>fb_CiliumFlowsFC := flows\<rparr>))
                         else Inr (None, cfc\<lparr>kc_netLogEvents := events, kc_netLogEventsCount := n\<rparr>, bufs))))))"

definition processSystemLogMessage ::
  "FeedJson \<Rightarrow> string \<Rightarrow> KnoxFeedConsumer \<Rightarrow> FeedBuffers \<Rightarrow> string option \<times> KnoxFeedConsumer \<times> FeedBuffers" where
  "processSystemLogMessage json message cfc bufs =
     (case fj_syslog json message of
        Inl err \<Rightarrow> (Some err, cfc, bufs)
      | Inr syslogEvent \<Rightarrow>
         (let events = kc_syslogEvents cfc @ [syslogEvent];
              n = kc_syslogEventsCount cfc + 1
          in if n = kc_eventsBuffer cfc then
               (None, cfc\<lparr>kc_syslogEvents := [], kc_syslogEventsCount := 0\<rparr>,
                bufs\<lparr>fb_KubeArmorFCLogs := deliver_sys events (fb_KubeArmorFCLogs bufs)\<rparr>)
             else (None, cfc\<lparr>kc_syslogEvents := events, kc_syslogEventsCount := n\<rparr>, bufs)))"

text \<open>What the clients deliver: a message, an error of Kafka or something else. The loop of a consumer ends with the result False.\<close>

datatype poll_event = Message (pe_topic: string) (pe_payload: string) | KafkaError (pe_all_brokers_down: bool) | OtherEvent

definition poll_message :: "poll_event \<Rightarrow> string \<times> string" where
  "poll_message ev = (case ev of Message topic msg \<Rightarrow> (topic, msg) | _ \<Rightarrow> ([], []))"

definition HandlePollEvent ::
  "FeedJson \<Rightarrow> poll_event \<Rightarrow> KnoxFeedConsumer \<Rightarrow> FeedBuffers \<Rightarrow> go_panic + (bool \<times> KnoxFeedConsumer \<times> FeedBuffers)" where
  "HandlePollEvent json ev cfc bufs =
     (let (topic, msg) = poll_message ev in
      if ev = KafkaError True then Inr (False, cfc, bufs)
      else if topic = kc_ciliumTopic cfc then
        go_bind (processNetworkLogMessage json msg cfc bufs) (\<lambda>(err, cfc, bufs). Inr (True, cfc, bufs))
      else if topic = kc_kubearmorTopic cfc then
        (let (err, cfc, bufs) = processSystemLogMessage json msg cfc bufs in Inr (True, cfc, bufs))
      else Inr (True, cfc, bufs))"

definition getSubscriptionTopics :: "string \<Rightarrow> string \<Rightarrow> KnoxFeedConsumer \<Rightarrow> string list" where
  "getSubscriptionTopics NetworkLogFrom SystemLogFrom cfc =
     (if NetworkLogFrom = ''feed-consumer'' then [kc_ciliumTopic cfc] else []) @
     (if SystemLogFrom = ''feed-consumer'' then [kc_kubearmorTopic cfc] else [])"

text \<open>The loops of the goroutines. \<^verbatim>\<open>None\<close> in the list of Kafka is a poll without an event; the list ends where the stop is
  signalled. With Pulsar the loop waits for a message before it looks at the signal again: \<^verbatim>\<open>rounds\<close> is the number of rounds that
  have begun when it comes, and the result is \<^verbatim>\<open>None\<close> if the loop is still waiting then.\<close>

fun kafka_loop ::
  "FeedJson \<Rightarrow> poll_event option list \<Rightarrow> KnoxFeedConsumer \<Rightarrow> FeedBuffers \<Rightarrow> go_panic + (KnoxFeedConsumer \<times> FeedBuffers)" where
  "kafka_loop json [] cfc bufs = Inr (cfc, bufs)"
| "kafka_loop json (None # evs) cfc bufs = kafka_loop json evs cfc bufs"
| "kafka_loop json (Some ev # evs) cfc bufs =
     go_bind (HandlePollEvent json ev cfc bufs) (\<lambda>(run, cfc, bufs).
       if run then kafka_loop json evs cfc bufs else Inr (cfc, bufs))"

fun pulsar_loop ::
  "FeedJson \<Rightarrow> nat \<Rightarrow> poll_event list \<Rightarrow> KnoxFeedConsumer \<Rightarrow> FeedBuffers \<Rightarrow> go_panic + (KnoxFeedConsumer \<times> FeedBuffers) option" where
  "pulsar_loop json 0 evs cfc bufs = Inr (Some (cfc, bufs))"
| "pulsar_loop json (Suc rounds) [] cfc bufs = Inr None"
| "pulsar_loop json (Suc rounds) (ev # evs) cfc bufs =
     go_bind (HandlePollEvent json ev cfc bufs) (\<lambda>(run, cfc, bufs).
       if run then pulsar_loop json rounds evs cfc bufs else Inr (Some (cfc, bufs)))"

section \<open>Starting and stopping\<close>

text \<open>One goroutine starts and stops the consumers. \<^verbatim>\<open>Starting n b\<close> says that it is in the loop that starts them, \<^verbatim>\<open>n\<close> rounds
  done and, where \<^verbatim>\<open>b\<close> holds, a goroutine started that the group has not counted yet. \<^verbatim>\<open>fm_wait\<close> is the counter of the
  group and \<^verbatim>\<open>fm_alive\<close> the number of goroutines that will lower it, which are those with a loop; a counter below zero is a panic.\<close>

datatype feed_phase = Free | Starting nat bool | Stopping

record FeedMain =
  fm_running :: bool
  fm_phase :: feed_phase
  fm_consumers :: "KnoxFeedConsumer list"
  fm_alive :: nat
  fm_wait :: int
  fm_panic :: bool

definition feed_init :: FeedMain where
  "feed_init = \<lparr>fm_running = False, fm_phase = Free, fm_consumers = [], fm_alive = 0, fm_wait = 0, fm_panic = False\<rparr>"

definition has_loop :: "string \<Rightarrow> bool" where
  "has_loop driver \<longleftrightarrow> driver = ''kafka'' \<or> driver = ''pulsar''"

definition new_consumer :: "KnoxFeedConsumer \<Rightarrow> nat \<Rightarrow> KnoxFeedConsumer" where
  "new_consumer config n = config\<lparr>kc_id := int n + 1, kc_netLogEvents := [], kc_netLogEventsCount := 0,
     kc_syslogEvents := [], kc_syslogEventsCount := 0\<rparr>"

datatype feed_event = StartCall | Spawn | GroupAdd | StartReturns | ConsumerEnds | StopCall | StopReturns

inductive feed_step :: "KnoxFeedConsumer \<Rightarrow> int \<Rightarrow> FeedMain \<Rightarrow> feed_event \<Rightarrow> FeedMain \<Rightarrow> bool" for config numOfConsumers where
  start: "\<not> fm_panic st \<Longrightarrow> fm_phase st = Free \<Longrightarrow> \<not> fm_running st \<Longrightarrow>
    feed_step config numOfConsumers st StartCall (st\<lparr>fm_phase := Starting 0 False\<rparr>)"
| spawn: "\<not> fm_panic st \<Longrightarrow> fm_phase st = Starting n False \<Longrightarrow> int n < numOfConsumers \<Longrightarrow>
    feed_step config numOfConsumers st Spawn
      (st\<lparr>fm_phase := Starting n True, fm_consumers := fm_consumers st @ [new_consumer config n],
          fm_alive := fm_alive st + (if has_loop (kc_driver config) then 1 else 0)\<rparr>)"
| add: "\<not> fm_panic st \<Longrightarrow> fm_phase st = Starting n True \<Longrightarrow>
    feed_step config numOfConsumers st GroupAdd (st\<lparr>fm_phase := Starting (n + 1) False, fm_wait := fm_wait st + 1\<rparr>)"
| started: "\<not> fm_panic st \<Longrightarrow> fm_phase st = Starting n False \<Longrightarrow> \<not> int n < numOfConsumers \<Longrightarrow>
    feed_step config numOfConsumers st StartReturns (st\<lparr>fm_phase := Free, fm_running := True\<rparr>)"
| ends: "\<not> fm_panic st \<Longrightarrow> fm_alive st = Suc k \<Longrightarrow>
    feed_step config numOfConsumers st ConsumerEnds
      (st\<lparr>fm_alive := k, fm_wait := fm_wait st - 1, fm_panic := fm_wait st - 1 < 0\<rparr>)"
| stop: "\<not> fm_panic st \<Longrightarrow> fm_phase st = Free \<Longrightarrow> fm_running st \<Longrightarrow>
    feed_step config numOfConsumers st StopCall (st\<lparr>fm_running := False, fm_phase := Stopping\<rparr>)"
| stopped: "\<not> fm_panic st \<Longrightarrow> fm_phase st = Stopping \<Longrightarrow> fm_wait st = 0 \<Longrightarrow>
    feed_step config numOfConsumers st StopReturns (st\<lparr>fm_consumers := [], fm_phase := Free\<rparr>)"

inductive feed_run :: "KnoxFeedConsumer \<Rightarrow> int \<Rightarrow> FeedMain \<Rightarrow> feed_event list \<Rightarrow> FeedMain \<Rightarrow> bool" for config numOfConsumers where
  run_Nil: "feed_run config numOfConsumers st [] st"
| run_Cons: "feed_step config numOfConsumers st e st' \<Longrightarrow> feed_run config numOfConsumers st' es st'' \<Longrightarrow>
    feed_run config numOfConsumers st (e # es) st''"

inductive_cases feed_stepE: "feed_step config numOfConsumers st e st'"
inductive_cases feed_stopE: "feed_step config numOfConsumers st StopReturns st'"

text \<open>The counter agrees with the goroutines, but for the one that is not counted yet.\<close>

definition feed_counted :: "FeedMain \<Rightarrow> bool" where
  "feed_counted st \<longleftrightarrow> fm_wait st = int (fm_alive st) - (case fm_phase st of Starting n True \<Rightarrow> 1 | _ \<Rightarrow> 0)"

text \<open>Without a loop nothing lowers the counter.\<close>

definition feed_stuck :: "FeedMain \<Rightarrow> bool" where
  "feed_stuck st \<longleftrightarrow> fm_alive st = 0 \<and> fm_wait st \<ge> 0 \<and>
     (case fm_phase st of Starting n b \<Rightarrow> fm_wait st \<ge> int n | Stopping \<Rightarrow> fm_wait st > 0 | Free \<Rightarrow> fm_running st \<longrightarrow> fm_wait st > 0)"

lemma feed_step_counted:
  assumes "feed_step config n st e st'" "has_loop (kc_driver config)" "feed_counted st"
  shows "feed_counted st'"
  using assms by (auto elim!: feed_stepE simp: feed_counted_def split: feed_phase.splits bool.splits)

lemma feed_step_stuck:
  assumes "feed_step config n st e st'" "\<not> has_loop (kc_driver config)" "0 < n" "feed_stuck st"
  shows "feed_stuck st' \<and> e \<noteq> StopReturns"
  using assms by (auto elim!: feed_stepE simp: feed_stuck_def split: feed_phase.splits)

lemma feed_run_counted:
  assumes "feed_run config n st es st'" "has_loop (kc_driver config)" "feed_counted st"
  shows "feed_counted st'"
  using assms by (induction rule: feed_run.induct) (auto dest: feed_step_counted)

lemma feed_run_stuck:
  assumes "feed_run config n st es st'" "\<not> has_loop (kc_driver config)" "0 < n" "feed_stuck st"
  shows "feed_stuck st' \<and> StopReturns \<notin> set es"
  using assms by (induction rule: feed_run.induct) (auto dest: feed_step_stuck)

lemma feed_run_snoc:
  "feed_run config n st es st' \<Longrightarrow> feed_step config n st' e st'' \<Longrightarrow> feed_run config n st (es @ [e]) st''"
  by (induction rule: feed_run.induct) (auto intro: feed_run.intros)

section \<open>Batches\<close>

text \<open>The part of \<^verbatim>\<open>n\<close> elements that whole batches take.\<close>

definition whole :: "int \<Rightarrow> nat \<Rightarrow> nat" where
  "whole B n = n div nat B * nat B"

lemma whole_less: "0 < B \<Longrightarrow> int n < B \<Longrightarrow> whole B n = 0"
  by (simp add: whole_def)

lemma whole_add: "0 < B \<Longrightarrow> whole B (nat B + n) = nat B + whole B n"
  by (simp add: whole_def)

lemma whole_rest:
  assumes "0 < B"
  shows "whole B n \<le> n \<and> int n - int (whole B n) < B"
proof -
  have "n - whole B n = n mod nat B" by (simp add: whole_def minus_div_mult_eq_mod)
  moreover have "int (n mod nat B) < B" using assms mod_less_divisor [of "nat B" n] by (simp add: zless_nat_eq_int_zless)
  moreover have "whole B n \<le> n" by (simp add: whole_def)
  ultimately show ?thesis by (metis of_nat_diff)
qed

text \<open>The contract of a buffer of \<^verbatim>\<open>B\<close> places: a message that decodes adds an element to those that wait, and when
  they are \<^verbatim>\<open>B\<close> all are put out together.\<close>

locale batching =
  fixes process :: "'m \<Rightarrow> 's \<Rightarrow> go_panic + 's"
    and decode :: "'m \<Rightarrow> 'e option"
    and waiting :: "'s \<Rightarrow> 'e list"
    and out :: "'s \<Rightarrow> 'o list"
    and conv :: "'e list \<Rightarrow> 'o list"
    and inv :: "'s \<Rightarrow> bool"
    and B :: int
  assumes conv_append: "conv (xs @ ys) = conv xs @ conv ys"
    and keeps: "inv s \<Longrightarrow> process m s = Inr s' \<Longrightarrow> inv s'"
    and other: "inv s \<Longrightarrow> process m s = Inr s' \<Longrightarrow> decode m = None \<Longrightarrow> waiting s' = waiting s \<and> out s' = out s"
    and full: "inv s \<Longrightarrow> process m s = Inr s' \<Longrightarrow> decode m = Some e \<Longrightarrow> int (length (waiting s)) + 1 = B \<Longrightarrow>
      waiting s' = [] \<and> out s' = out s @ conv (waiting s @ [e])"
    and wait: "inv s \<Longrightarrow> process m s = Inr s' \<Longrightarrow> decode m = Some e \<Longrightarrow> int (length (waiting s)) + 1 \<noteq> B \<Longrightarrow>
      waiting s' = waiting s @ [e] \<and> out s' = out s"
begin

lemma conv_Nil: "conv [] = []"
  using conv_append [of "[]" "[]"] by simp

lemma batches:
  assumes "0 < B" "foldM (\<lambda>s m. process m s) s ms = Inr s'" "inv s" "int (length (waiting s)) < B"
  shows "waiting s' = drop (whole B (length (waiting s @ List.map_filter decode ms))) (waiting s @ List.map_filter decode ms) \<and>
    out s' = out s @ conv (take (whole B (length (waiting s @ List.map_filter decode ms))) (waiting s @ List.map_filter decode ms))"
  using assms(2-4)
proof (induction ms arbitrary: s)
  case Nil
  then show ?case by (simp add: whole_less assms(1) List.map_filter_simps conv_Nil)
next
  case (Cons m ms)
  from Cons.prems(1) obtain s1 where s1: "process m s = Inr s1" "foldM (\<lambda>s m. process m s) s1 ms = Inr s'"
    by (cases "process m s") auto
  note inv1 = keeps [OF Cons.prems(2) s1(1)]
  show ?case
  proof (cases "decode m")
    case None
    from other [OF Cons.prems(2) s1(1) None] Cons.IH [OF s1(2) inv1] Cons.prems(3) None
    show ?thesis by (simp add: List.map_filter_simps)
  next
    case (Some e)
    show ?thesis
    proof (cases "int (length (waiting s)) + 1 = B")
      case True
      from full [OF Cons.prems(2) s1(1) Some True] Cons.IH [OF s1(2) inv1] assms(1)
      have ih: "waiting s' = drop (whole B (length (List.map_filter decode ms))) (List.map_filter decode ms)"
        "out s' = out s @ conv (waiting s @ [e]) @ conv (take (whole B (length (List.map_filter decode ms))) (List.map_filter decode ms))"
        by simp_all
      from True have B: "nat B = Suc (length (waiting s))" by simp
      have len: "length (waiting s @ List.map_filter decode (m # ms)) = nat B + length (List.map_filter decode ms)"
        using Some B by (simp add: List.map_filter_simps)
      show ?thesis
        unfolding len whole_add [OF assms(1)] using Some ih by (simp add: B List.map_filter_simps conv_append [symmetric])
    next
      case False
      from wait [OF Cons.prems(2) s1(1) Some False] Cons.IH [OF s1(2) inv1] Cons.prems(3) False Some
      show ?thesis by (simp add: List.map_filter_simps)
    qed
  qed
qed

lemma never_out:
  assumes "B \<le> 0" "foldM (\<lambda>s m. process m s) s ms = Inr s'" "inv s"
  shows "waiting s' = waiting s @ List.map_filter decode ms \<and> out s' = out s"
  using assms(2,3)
proof (induction ms arbitrary: s)
  case Nil
  then show ?case by (simp add: List.map_filter_simps)
next
  case (Cons m ms)
  from Cons.prems(1) obtain s1 where s1: "process m s = Inr s1" "foldM (\<lambda>s m. process m s) s1 ms = Inr s'"
    by (cases "process m s") auto
  note ih = Cons.IH [OF s1(2) keeps [OF Cons.prems(2) s1(1)]]
  show ?case
  proof (cases "decode m")
    case None
    with other [OF Cons.prems(2) s1(1) None] ih show ?thesis by (simp add: List.map_filter_simps)
  next
    case (Some e)
    with wait [OF Cons.prems(2) s1(1) Some] ih assms(1) show ?thesis by (simp add: List.map_filter_simps)
  qed
qed

end

text \<open>The elements of the two buffers of a consumer whose settings are those of \<^verbatim>\<open>config\<close>.\<close>

definition decode_net :: "FeedJson \<Rightarrow> KnoxFeedConsumer \<Rightarrow> poll_event \<Rightarrow> NetworkLogEvent option" where
  "decode_net json config ev =
     (if ev \<noteq> KafkaError True \<and> fst (poll_message ev) = kc_ciliumTopic config then
        (case fj_map json (snd (poll_message ev)) of Inl err \<Rightarrow> None | Inr eventMap \<Rightarrow>
           (case (case eventMap ''cluster_name'' of None \<Rightarrow> Inr ''default'' | Some name \<Rightarrow> fj_string json name, eventMap ''flow'') of
              (Inr name, Some flow) \<Rightarrow> (case fj_flow json flow of Inl err \<Rightarrow> None | Inr event \<Rightarrow> Some (event\<lparr>ne_ClusterName := name\<rparr>))
            | _ \<Rightarrow> None))
      else None)"

definition decode_sys :: "FeedJson \<Rightarrow> KnoxFeedConsumer \<Rightarrow> poll_event \<Rightarrow> FeedLogEvent option" where
  "decode_sys json config ev =
     (if ev \<noteq> KafkaError True \<and> fst (poll_message ev) \<noteq> kc_ciliumTopic config \<and> fst (poll_message ev) = kc_kubearmorTopic config then
        (case fj_syslog json (snd (poll_message ev)) of Inl err \<Rightarrow> None | Inr event \<Rightarrow> Some event)
      else None)"

definition netlog_of :: "FeedJson \<Rightarrow> NetworkLogEvent \<Rightarrow> KnoxNetworkLog option" where
  "netlog_of json event = (case ConvertCiliumFlowToKnoxNetworkLog (fj_url_path json) (event_flow json event) of
     Inr (log, True) \<Rightarrow> Some (log\<lparr>nl_ClusterName := ne_ClusterName event\<rparr>) | _ \<Rightarrow> None)"

definition same_settings :: "KnoxFeedConsumer \<Rightarrow> KnoxFeedConsumer \<Rightarrow> bool" where
  "same_settings config cfc \<longleftrightarrow> kc_ciliumTopic cfc = kc_ciliumTopic config \<and> kc_kubearmorTopic cfc = kc_kubearmorTopic config \<and>
     kc_eventsBuffer cfc = kc_eventsBuffer config \<and> kc_netLogEventsCount cfc = int (length (kc_netLogEvents cfc)) \<and>
     kc_syslogEventsCount cfc = int (length (kc_syslogEvents cfc))"

lemma deliver_sys_eq: "deliver_sys events logs = logs @ List.map_filter knox_syslog_of events"
  unfolding deliver_sys_def
  by (induction events arbitrary: logs) (auto simp: List.map_filter_simps split: option.splits)

lemma deliver_net_eq: "deliver_net json events flows = Inr flows' \<Longrightarrow> flows' = flows @ List.map_filter (netlog_of json) events"
proof (induction events arbitrary: flows)
  case (Cons e es)
  from Cons.prems obtain log valid where log:
    "ConvertCiliumFlowToKnoxNetworkLog (fj_url_path json) (event_flow json e) = Inr (log, valid)"
    "deliver_net json es (if valid then flows @ [log\<lparr>nl_ClusterName := ne_ClusterName e\<rparr>] else flows) = Inr flows'"
    by (auto simp: deliver_net_def go_bind_Inr_iff)
  from Cons.IH [OF log(2)] log(1) show ?case by (cases valid) (auto simp: netlog_of_def)
qed (simp add: deliver_net_def)

lemma map_filter_append: "List.map_filter f (xs @ ys) = List.map_filter f xs @ List.map_filter f ys"
  by (simp add: List.map_filter_def)

text \<open>A poll as a step of the loop.\<close>

definition handle :: "FeedJson \<Rightarrow> poll_event \<Rightarrow> KnoxFeedConsumer \<times> FeedBuffers \<Rightarrow> go_panic + (KnoxFeedConsumer \<times> FeedBuffers)" where
  "handle json ev s = go_bind (HandlePollEvent json ev (fst s) (snd s)) (\<lambda>(run, s'). Inr s')"

lemma processNetworkLogMessage_cases:
  assumes "processNetworkLogMessage json msg cfc bufs = Inr (err, cfc', bufs')" "same_settings config cfc"
    and "d = decode_net json config (Message (kc_ciliumTopic config) msg)"
  shows "(case d of None \<Rightarrow> cfc' = cfc \<and> bufs' = bufs
    | Some e \<Rightarrow> if int (length (kc_netLogEvents cfc)) + 1 = kc_eventsBuffer config
        then cfc' = cfc\<lparr>kc_netLogEvents := [], kc_netLogEventsCount := 0\<rparr> \<and>
          bufs' = bufs\<lparr>fb_CiliumFlowsFC := fb_CiliumFlowsFC bufs @ List.map_filter (netlog_of json) (kc_netLogEvents cfc @ [e])\<rparr>
        else bufs' = bufs \<and> cfc' = cfc\<lparr>kc_netLogEvents := kc_netLogEvents cfc @ [e],
               kc_netLogEventsCount := int (length (kc_netLogEvents cfc)) + 1\<rparr>)"
  using assms
  by (auto simp: processNetworkLogMessage_def decode_net_def poll_message_def same_settings_def Let_def go_bind_Inr_iff
      dest!: deliver_net_eq split: sum.splits option.splits if_splits)

lemma processSystemLogMessage_cases:
  assumes "processSystemLogMessage json msg cfc bufs = (err, cfc', bufs')" "same_settings config cfc"
    and "kc_kubearmorTopic config \<noteq> kc_ciliumTopic config"
    and "d = decode_sys json config (Message (kc_kubearmorTopic config) msg)"
  shows "(case d of None \<Rightarrow> cfc' = cfc \<and> bufs' = bufs
    | Some e \<Rightarrow> if int (length (kc_syslogEvents cfc)) + 1 = kc_eventsBuffer config
        then cfc' = cfc\<lparr>kc_syslogEvents := [], kc_syslogEventsCount := 0\<rparr> \<and>
          bufs' = bufs\<lparr>fb_KubeArmorFCLogs := fb_KubeArmorFCLogs bufs @ List.map_filter knox_syslog_of (kc_syslogEvents cfc @ [e])\<rparr>
        else bufs' = bufs \<and> cfc' = cfc\<lparr>kc_syslogEvents := kc_syslogEvents cfc @ [e],
               kc_syslogEventsCount := int (length (kc_syslogEvents cfc)) + 1\<rparr>)"
  using assms
  by (auto simp: processSystemLogMessage_def decode_sys_def poll_message_def same_settings_def Let_def deliver_sys_eq
      split: sum.splits option.splits if_splits)

text \<open>A poll is an event of the network, an event of the system or nothing.\<close>

lemma handle_cases:
  assumes "handle json ev s = Inr s'"
  obtains (net) err where "fst (poll_message ev) = kc_ciliumTopic (fst s)" "ev \<noteq> KafkaError True"
      "processNetworkLogMessage json (snd (poll_message ev)) (fst s) (snd s) = Inr (err, fst s', snd s')"
  | (sys) err where "fst (poll_message ev) \<noteq> kc_ciliumTopic (fst s)" "fst (poll_message ev) = kc_kubearmorTopic (fst s)"
      "ev \<noteq> KafkaError True"
      "processSystemLogMessage json (snd (poll_message ev)) (fst s) (snd s) = (err, fst s', snd s')"
  | (other) "s' = s"
      "ev = KafkaError True \<or> fst (poll_message ev) \<noteq> kc_ciliumTopic (fst s) \<and> fst (poll_message ev) \<noteq> kc_kubearmorTopic (fst s)"
  using assms
  by (auto simp: handle_def HandlePollEvent_def Let_def go_bind_Inr_iff split: if_splits prod.splits)

lemma decode_net_message: "ev \<noteq> KafkaError True \<Longrightarrow> fst (poll_message ev) = kc_ciliumTopic config \<Longrightarrow>
    decode_net json config (Message (kc_ciliumTopic config) (snd (poll_message ev))) = decode_net json config ev"
  by (simp add: decode_net_def poll_message_def)

lemma decode_sys_message: "ev \<noteq> KafkaError True \<Longrightarrow> fst (poll_message ev) = kc_kubearmorTopic config \<Longrightarrow>
    decode_sys json config (Message (kc_kubearmorTopic config) (snd (poll_message ev))) = decode_sys json config ev"
  by (simp add: decode_sys_def poll_message_def)

definition net_after :: "FeedJson \<Rightarrow> KnoxFeedConsumer \<Rightarrow> poll_event \<Rightarrow> KnoxFeedConsumer \<times> FeedBuffers \<Rightarrow> NetworkLogEvent list \<times> KnoxNetworkLog list" where
  "net_after json config ev s = (case decode_net json config ev of
     None \<Rightarrow> (kc_netLogEvents (fst s), fb_CiliumFlowsFC (snd s))
   | Some e \<Rightarrow> if int (length (kc_netLogEvents (fst s))) + 1 = kc_eventsBuffer config
       then ([], fb_CiliumFlowsFC (snd s) @ List.map_filter (netlog_of json) (kc_netLogEvents (fst s) @ [e]))
       else (kc_netLogEvents (fst s) @ [e], fb_CiliumFlowsFC (snd s)))"

definition sys_after :: "FeedJson \<Rightarrow> KnoxFeedConsumer \<Rightarrow> poll_event \<Rightarrow> KnoxFeedConsumer \<times> FeedBuffers \<Rightarrow> FeedLogEvent list \<times> KnoxSystemLog list" where
  "sys_after json config ev s = (case decode_sys json config ev of
     None \<Rightarrow> (kc_syslogEvents (fst s), fb_KubeArmorFCLogs (snd s))
   | Some e \<Rightarrow> if int (length (kc_syslogEvents (fst s))) + 1 = kc_eventsBuffer config
       then ([], fb_KubeArmorFCLogs (snd s) @ List.map_filter knox_syslog_of (kc_syslogEvents (fst s) @ [e]))
       else (kc_syslogEvents (fst s) @ [e], fb_KubeArmorFCLogs (snd s)))"

lemma handle_after:
  assumes "same_settings config (fst s)" "handle json ev s = Inr s'"
  shows "same_settings config (fst s') \<and> (kc_netLogEvents (fst s'), fb_CiliumFlowsFC (snd s')) = net_after json config ev s \<and>
    (kc_syslogEvents (fst s'), fb_KubeArmorFCLogs (snd s')) = sys_after json config ev s"
  using assms(2)
proof (cases rule: handle_cases)
  case net
  with assms(1) have t: "fst (poll_message ev) = kc_ciliumTopic config" by (simp add: same_settings_def)
  then have "decode_sys json config ev = None" by (simp add: decode_sys_def)
  with processNetworkLogMessage_cases [OF net(3) assms(1) refl] decode_net_message [OF net(2) t] assms(1)
  show ?thesis by (auto simp: net_after_def sys_after_def same_settings_def split: option.splits if_splits)
next
  case sys
  with assms(1) have t: "fst (poll_message ev) = kc_kubearmorTopic config" "kc_kubearmorTopic config \<noteq> kc_ciliumTopic config"
    by (auto simp: same_settings_def)
  then have "decode_net json config ev = None" by (simp add: decode_net_def)
  with processSystemLogMessage_cases [OF sys(4) assms(1) t(2) refl] decode_sys_message [OF sys(3) t(1)] assms(1)
  show ?thesis by (auto simp: net_after_def sys_after_def same_settings_def split: option.splits if_splits)
next
  case other
  with assms(1) show ?thesis
    by (auto simp: net_after_def sys_after_def same_settings_def decode_net_def decode_sys_def split: option.splits)
qed

interpretation net_batch: batching "handle json" "decode_net json config" "\<lambda>s. kc_netLogEvents (fst s)"
    "\<lambda>s. fb_CiliumFlowsFC (snd s)" "List.map_filter (netlog_of json)" "\<lambda>s. same_settings config (fst s)" "kc_eventsBuffer config"
  for json config
  by unfold_locales (auto simp: map_filter_append net_after_def dest: handle_after)

interpretation sys_batch: batching "handle json" "decode_sys json config" "\<lambda>s. kc_syslogEvents (fst s)"
    "\<lambda>s. fb_KubeArmorFCLogs (snd s)" "List.map_filter knox_syslog_of" "\<lambda>s. same_settings config (fst s)" "kc_eventsBuffer config"
  for json config
  by unfold_locales (auto simp: map_filter_append sys_after_def dest: handle_after)

text \<open>The events that a loop handles.\<close>

definition handled :: "poll_event option list \<Rightarrow> poll_event list" where
  "handled evs = takeWhile (\<lambda>ev. ev \<noteq> KafkaError True) (List.map_filter id evs)"

lemma handle_HandlePollEvent:
  "HandlePollEvent json ev cfc bufs = go_bind (handle json ev (cfc, bufs)) (\<lambda>s'. Inr (ev \<noteq> KafkaError True, s'))"
  unfolding handle_def HandlePollEvent_def
  by (cases "processNetworkLogMessage json (snd (poll_message ev)) cfc bufs") (auto simp: Let_def split: prod.splits)

lemma kafka_loop_foldM: "kafka_loop json evs cfc bufs = foldM (\<lambda>s ev. handle json ev s) (cfc, bufs) (handled evs)"
proof (induction json evs cfc bufs rule: kafka_loop.induct)
  case (3 json ev evs cfc bufs)
  show ?case
  proof (cases "ev = KafkaError True")
    case True
    then show ?thesis by (simp add: handled_def HandlePollEvent_def poll_message_def)
  next
    case False
    then have h: "handled (Some ev # evs) = ev # handled evs" by (simp add: handled_def)
    show ?thesis
    proof (cases "handle json ev (cfc, bufs)")
      case (Inr s')
      have "kafka_loop json evs (fst s') (snd s') = foldM (\<lambda>s ev. handle json ev s) s' (handled evs)"
        using 3 by simp
      with False Inr show ?thesis by (cases s') (simp add: h handle_HandlePollEvent)
    qed (simp add: h handle_HandlePollEvent)
  qed
qed (simp_all add: handled_def)

lemma same_settings_new: "same_settings config (new_consumer config n)"
  by (simp add: same_settings_def new_consumer_def)

section \<open>What the workers get\<close>

text \<open>C23: The loop of a consumer of Kafka puts the events of its topics out in whole batches and in order: the logs that
  the workers find are those of the events of the batches, and fewer events than a buffer holds wait in the consumer.\<close>

theorem kafka_loop_batches:
  assumes "kafka_loop json evs (new_consumer config i) bufs = Inr (cfc', bufs')" "0 < kc_eventsBuffer config"
    and "net = List.map_filter (decode_net json config) (handled evs)"
    and "sys = List.map_filter (decode_sys json config) (handled evs)"
    and "n = whole (kc_eventsBuffer config) (length net)" "k = whole (kc_eventsBuffer config) (length sys)"
  shows "fb_CiliumFlowsFC bufs' = fb_CiliumFlowsFC bufs @ List.map_filter (netlog_of json) (take n net) \<and>
    kc_netLogEvents cfc' = drop n net \<and> int (length (kc_netLogEvents cfc')) < kc_eventsBuffer config \<and>
    fb_KubeArmorFCLogs bufs' = fb_KubeArmorFCLogs bufs @ List.map_filter knox_syslog_of (take k sys) \<and>
    kc_syslogEvents cfc' = drop k sys \<and> int (length (kc_syslogEvents cfc')) < kc_eventsBuffer config"
proof -
  have loop: "foldM (\<lambda>s ev. handle json ev s) (new_consumer config i, bufs) (handled evs) = Inr (cfc', bufs')"
    using assms(1) by (simp add: kafka_loop_foldM)
  have w: "kc_netLogEvents (new_consumer config i) = []" "kc_syslogEvents (new_consumer config i) = []"
    by (simp_all add: new_consumer_def)
  from net_batch.batches [OF assms(2) loop] sys_batch.batches [OF assms(2) loop] whole_rest [OF assms(2)]
  show ?thesis by (simp add: same_settings_new w assms)
qed

text \<open>With a buffer of no places nothing that arrives reaches the workers: the consumer keeps every event, whatever number
  arrives.\<close>

theorem kafka_loop_no_buffer:
  assumes "kafka_loop json evs (new_consumer config i) bufs = Inr (cfc', bufs')" "kc_eventsBuffer config \<le> 0"
  shows "bufs' = bufs \<and> kc_netLogEvents cfc' = List.map_filter (decode_net json config) (handled evs) \<and>
    kc_syslogEvents cfc' = List.map_filter (decode_sys json config) (handled evs)"
proof -
  have loop: "foldM (\<lambda>s ev. handle json ev s) (new_consumer config i, bufs) (handled evs) = Inr (cfc', bufs')"
    using assms(1) by (simp add: kafka_loop_foldM)
  have w: "kc_netLogEvents (new_consumer config i) = []" "kc_syslogEvents (new_consumer config i) = []"
    by (simp_all add: new_consumer_def)
  from net_batch.never_out [OF assms(2) loop] sys_batch.never_out [OF assms(2) loop]
  show ?thesis by (simp add: same_settings_new w)
qed

section \<open>Starting and stopping, proved\<close>

text \<open>C25: \<^verbatim>\<open>StopConsumer\<close> returns only when the goroutine of each consumer with a loop has ended, if the group has not
  panicked.\<close>

theorem StopConsumer_joins:
  assumes "feed_run config numOfConsumers feed_init es st" "has_loop (kc_driver config)"
    and "feed_step config numOfConsumers st StopReturns st'"
  shows "fm_alive st = 0 \<and> fm_consumers st' = []"
proof -
  have "feed_counted st"
    using feed_run_counted [OF assms(1,2)] by (simp add: feed_counted_def feed_init_def)
  with assms(3) show ?thesis by (auto elim!: feed_stopE simp: feed_counted_def)
qed

text \<open>With a driver that is neither Kafka nor Pulsar, \<^verbatim>\<open>StopConsumer\<close> never returns once a consumer has been started:
  the goroutine ends without lowering the counter.\<close>

theorem StopConsumer_hangs:
  assumes "feed_run config numOfConsumers feed_init es st" "\<not> has_loop (kc_driver config)" "0 < numOfConsumers"
  shows "StopReturns \<notin> set es \<and> (fm_phase st = Stopping \<longrightarrow> \<not> feed_step config numOfConsumers st e st')"
proof -
  have stuck: "feed_stuck st \<and> StopReturns \<notin> set es"
    using feed_run_stuck [OF assms] by (simp add: feed_stuck_def feed_init_def)
  then have "\<not> feed_step config numOfConsumers st e st'" if "fm_phase st = Stopping"
    using that by (auto elim!: feed_stepE simp: feed_stuck_def)
  with stuck show ?thesis by blast
qed

text \<open>The group counts a goroutine only after it has been started: if the goroutine ends at once, the program panics.\<close>

theorem StartConsumer_races:
  assumes "has_loop (kc_driver config)" "0 < numOfConsumers"
  shows "\<exists>st. feed_run config numOfConsumers feed_init [StartCall, Spawn, ConsumerEnds] st \<and> fm_panic st"
proof -
  let ?s1 = "feed_init\<lparr>fm_phase := Starting 0 False\<rparr>"
  let ?s2 = "?s1\<lparr>fm_phase := Starting 0 True, fm_consumers := [new_consumer config 0], fm_alive := 1\<rparr>"
  let ?s3 = "?s2\<lparr>fm_alive := 0, fm_wait := - 1, fm_panic := True\<rparr>"
  have "feed_step config numOfConsumers feed_init StartCall ?s1"
    by (rule feed_step.start) (simp_all add: feed_init_def)
  moreover have "feed_step config numOfConsumers ?s1 Spawn ?s2"
    using feed_step.spawn [of ?s1 0 numOfConsumers config] assms by (simp add: feed_init_def)
  moreover have "feed_step config numOfConsumers ?s2 ConsumerEnds ?s3"
    using feed_step.ends [of ?s2 0 config numOfConsumers] by (simp add: feed_init_def)
  ultimately have "feed_run config numOfConsumers feed_init [StartCall, Spawn, ConsumerEnds] ?s3"
    by (blast intro: feed_run.intros)
  then show ?thesis by (intro exI [of _ ?s3]) simp
qed

text \<open>A consumer of Pulsar does not see the signal to stop before another message arrives: after as many rounds as there were
  messages it waits.\<close>

theorem pulsar_loop_waits:
  assumes "pulsar_loop json (Suc (length evs)) evs cfc bufs = Inr r" "KafkaError True \<notin> set evs"
  shows "r = None"
  using assms
proof (induction evs arbitrary: cfc bufs)
  case (Cons ev evs)
  then show ?case
    by (cases "handle json ev (cfc, bufs)") (auto simp: handle_HandlePollEvent)
qed simp

section \<open>Witnesses\<close>

definition feed_config_ex :: KnoxFeedConsumer where
  "feed_config_ex = \<lparr>kc_id = 0, kc_driver = ''kafka'', kc_ciliumTopic = ''c'', kc_kubearmorTopic = ''k'', kc_eventsBuffer = 2,
     kc_netLogEvents = [], kc_netLogEventsCount = 0, kc_syslogEvents = [], kc_syslogEventsCount = 0\<rparr>"

definition feed_event_ex :: FeedLogEvent where
  "feed_event_ex = \<lparr>se_ClusterName = [], se_HostName = [], se_NamespaceName = ''n'', se_PodName = ''p'', se_ContainerName = ''c'',
     se_Source = ''/a'', se_Operation = ''File'', se_Resource = ''/b'', se_Data = [], se_Result = ''Passed'', fe_Clustername = ''cl''\<rparr>"

definition feed_json_ex :: FeedJson where
  "feed_json_ex = \<lparr>fj_map = \<lambda>m. Inl ''no map'', fj_string = Inr, fj_flow = \<lambda>m. Inl ''no flow'',
     fj_syslog = \<lambda>m. if m = ''e'' then Inr feed_event_ex else Inl ''no event'',
     fj_endpoint = \<lambda>m x. (None, x), fj_ip = \<lambda>m x. (None, x), fj_l4 = \<lambda>m x. (None, x), fj_l7 = \<lambda>m x. (None, x), fj_url_path = Some\<rparr>"

definition feed_polls_ex :: "poll_event option list" where
  "feed_polls_ex = [Some (Message ''k'' ''e''), None, Some (Message ''k'' ''?''), Some (Message ''c'' ''e''), Some (Message ''k'' ''e''),
     Some (KafkaError False), Some (Message ''k'' ''e''), Some (KafkaError True), Some (Message ''k'' ''e'')]"

lemma feed_sys_ex: "List.map_filter (decode_sys feed_json_ex feed_config_ex) (handled feed_polls_ex) =
    [feed_event_ex, feed_event_ex, feed_event_ex]"
  by (simp add: feed_polls_ex_def handled_def decode_sys_def poll_message_def feed_json_ex_def feed_config_ex_def)

lemma kafka_loop_ex:
  "\<exists>cfc bufs. kafka_loop feed_json_ex feed_polls_ex (new_consumer (feed_config_ex\<lparr>kc_eventsBuffer := B\<rparr>) 0) \<lparr>fb_CiliumFlowsFC = [], fb_KubeArmorFCLogs = []\<rparr>
     = Inr (cfc, bufs)"
  by (auto simp: feed_polls_ex_def HandlePollEvent_def poll_message_def Let_def processNetworkLogMessage_def
      processSystemLogMessage_def feed_json_ex_def feed_config_ex_def new_consumer_def)

theorem kafka_loop_batches_witness:
  "\<exists>cfc bufs. kafka_loop feed_json_ex feed_polls_ex (new_consumer feed_config_ex 0) \<lparr>fb_CiliumFlowsFC = [], fb_KubeArmorFCLogs = []\<rparr>
      = Inr (cfc, bufs) \<and> map sl_Resource (fb_KubeArmorFCLogs bufs) = [''/b'', ''/b''] \<and> kc_syslogEvents cfc = [feed_event_ex]"
proof -
  have c: "feed_config_ex\<lparr>kc_eventsBuffer := 2\<rparr> = feed_config_ex" by (simp add: feed_config_ex_def)
  from kafka_loop_ex [of 2] obtain cfc bufs where
    r: "kafka_loop feed_json_ex feed_polls_ex (new_consumer feed_config_ex 0) \<lparr>fb_CiliumFlowsFC = [], fb_KubeArmorFCLogs = []\<rparr> = Inr (cfc, bufs)"
    unfolding c by blast
  have s: "map_option sl_Resource (knox_syslog_of feed_event_ex) = Some ''/b''" by code_simp
  then obtain l where l: "knox_syslog_of feed_event_ex = Some l" "sl_Resource l = ''/b''" by auto
  have b: "0 < kc_eventsBuffer feed_config_ex" "whole (kc_eventsBuffer feed_config_ex) (Suc (Suc (Suc 0))) = Suc (Suc 0)"
    by (simp_all add: feed_config_ex_def whole_def)
  from kafka_loop_batches [OF r b(1) refl refl refl refl]
  have k: "fb_KubeArmorFCLogs bufs = [l, l]" "kc_syslogEvents cfc = [feed_event_ex]"
    by (simp_all add: feed_sys_ex b(2) l)
  show ?thesis by (intro exI [of _ cfc] exI [of _ bufs]) (simp add: r k l)
qed

theorem kafka_loop_no_buffer_witness:
  "\<exists>cfc bufs. kafka_loop feed_json_ex feed_polls_ex (new_consumer (feed_config_ex\<lparr>kc_eventsBuffer := 0\<rparr>) 0)
      \<lparr>fb_CiliumFlowsFC = [], fb_KubeArmorFCLogs = []\<rparr> = Inr (cfc, bufs) \<and>
    fb_KubeArmorFCLogs bufs = [] \<and> kc_syslogEvents cfc = [feed_event_ex, feed_event_ex, feed_event_ex]"
proof -
  from kafka_loop_ex [of 0] obtain cfc bufs where
    r: "kafka_loop feed_json_ex feed_polls_ex (new_consumer (feed_config_ex\<lparr>kc_eventsBuffer := 0\<rparr>) 0)
      \<lparr>fb_CiliumFlowsFC = [], fb_KubeArmorFCLogs = []\<rparr> = Inr (cfc, bufs)" by blast
  have d: "decode_sys feed_json_ex (feed_config_ex\<lparr>kc_eventsBuffer := 0\<rparr>) = decode_sys feed_json_ex feed_config_ex"
    by (simp add: decode_sys_def fun_eq_iff)
  from kafka_loop_no_buffer [OF r] show ?thesis
    by (intro exI [of _ cfc] exI [of _ bufs]) (simp add: r d feed_sys_ex)
qed

theorem StopConsumer_joins_witness:
  "\<exists>st st'. feed_step feed_config_ex 1 st StopReturns st' \<and> fm_alive st = 0 \<and> fm_consumers st' = [] \<and> fm_consumers st \<noteq> []"
proof -
  let ?s = "\<lambda>r p c a w. \<lparr>fm_running = r, fm_phase = p, fm_consumers = c, fm_alive = a, fm_wait = w, fm_panic = False\<rparr>"
  let ?c = "[new_consumer feed_config_ex 0]"
  note r = feed_step.intros(1) [of "?s False Free [] 0 0" feed_config_ex 1]
    feed_step.intros(2) [of "?s False (Starting 0 False) [] 0 0" 0 1 feed_config_ex]
    feed_step.intros(3) [of "?s False (Starting 0 True) ?c 1 0" 0 feed_config_ex 1]
    feed_step.intros(4) [of "?s False (Starting 1 False) ?c 1 1" 1 1 feed_config_ex]
    feed_step.intros(6) [of "?s True Free ?c 1 1" feed_config_ex 1]
    feed_step.intros(5) [of "?s False Stopping ?c 1 1" 0 feed_config_ex 1]
    feed_step.intros(7) [of "?s False Stopping ?c 0 0" feed_config_ex 1]
  have l: "has_loop (kc_driver feed_config_ex)" by (simp add: has_loop_def feed_config_ex_def)
  have i: "feed_init = ?s False Free [] 0 0" by (simp add: feed_init_def)
  have run: "feed_run feed_config_ex 1 feed_init [StartCall, Spawn, GroupAdd, StartReturns, StopCall, ConsumerEnds] (?s False Stopping ?c 0 0)"
    using r(1-6) l unfolding i by (simp) (blast intro: feed_run.intros)
  from r(7) have step: "feed_step feed_config_ex 1 (?s False Stopping ?c 0 0) StopReturns (?s False Free [] 0 0)" by simp
  from StopConsumer_joins [OF run l step] step show ?thesis
    by (intro exI [of _ "?s False Stopping ?c 0 0"] exI [of _ "?s False Free [] 0 0"]) simp
qed

theorem StopConsumer_hangs_witness:
  "\<exists>st. feed_run (feed_config_ex\<lparr>kc_driver := ''nats''\<rparr>) 1 feed_init [StartCall, Spawn, GroupAdd, StartReturns, StopCall] st \<and>
     fm_phase st = Stopping \<and> \<not> feed_step (feed_config_ex\<lparr>kc_driver := ''nats''\<rparr>) 1 st StopReturns feed_init"
proof -
  let ?f = "feed_config_ex\<lparr>kc_driver := ''nats''\<rparr>"
  let ?s = "\<lambda>r p c a w. \<lparr>fm_running = r, fm_phase = p, fm_consumers = c, fm_alive = a, fm_wait = w, fm_panic = False\<rparr>"
  let ?c = "[new_consumer ?f 0]"
  note r = feed_step.intros(1) [of "?s False Free [] 0 0" ?f 1]
    feed_step.intros(2) [of "?s False (Starting 0 False) [] 0 0" 0 1 ?f]
    feed_step.intros(3) [of "?s False (Starting 0 True) ?c 0 0" 0 ?f 1]
    feed_step.intros(4) [of "?s False (Starting 1 False) ?c 0 1" 1 1 ?f]
    feed_step.intros(6) [of "?s True Free ?c 0 1" ?f 1]
  have l: "\<not> has_loop (kc_driver ?f)" by (simp add: has_loop_def)
  have i: "feed_init = ?s False Free [] 0 0" by (simp add: feed_init_def)
  have run: "feed_run ?f 1 feed_init [StartCall, Spawn, GroupAdd, StartReturns, StopCall] (?s False Stopping ?c 0 1)"
    using r l unfolding i by (simp) (blast intro: feed_run.intros)
  from StopConsumer_hangs [OF run l, of StopReturns feed_init] run show ?thesis
    by (intro exI [of _ "?s False Stopping ?c 0 1"]) simp
qed

theorem StartConsumer_races_witness:
  "\<exists>st. feed_run feed_config_ex 4 feed_init [StartCall, Spawn, ConsumerEnds] st \<and> fm_panic st"
  by (rule StartConsumer_races) (simp_all add: has_loop_def feed_config_ex_def)

end
