(* ===== verification/SummaryStore.thy ===== *)
theory SummaryStore
  imports SystemSummary
begin

text \<open>
  \<^verbatim>\<open>observability/consumer.go\<close>: the clients that ask for a stream of summaries. A handler registers a consumer
  and then relays what arrives in its channel to the stream, until the client is gone, when it removes the consumer, or a message
  cannot be sent, when it does not. \<^verbatim>\<open>Publish\<close> holds the mutex of the store while it sends to the channels of 1024
  places. A consumer is a pointer, here a number; a new one differs from all before.
\<close>

section \<open>Requests and responses\<close>

record SummaryRequest =
  sq_ClusterName :: string
  sq_Namespace :: string
  sq_Labels :: string
  sq_PodName :: string
  sq_DeploymentName :: string
  sq_Operation :: string

record SummaryConsumer =
  sc_ClusterName :: string
  sc_ContainerName :: string
  sc_PodName :: string
  sc_Namespace :: string
  sc_Labels :: string
  sc_Deployment :: string
  sc_Operation :: string

definition NewSummaryConsumer :: "SummaryRequest \<Rightarrow> SummaryConsumer" where
  "NewSummaryConsumer req = \<lparr>sc_ClusterName = sq_ClusterName req, sc_ContainerName = [], sc_PodName = sq_PodName req,
     sc_Namespace = sq_Namespace req, sc_Labels = sq_Labels req, sc_Deployment = sq_DeploymentName req,
     sc_Operation = sq_Operation req\<rparr>"

definition validateSummaryRequest :: "SummaryConsumer \<Rightarrow> SystemSummary \<Rightarrow> bool" where
  "validateSummaryRequest consumer summary =
     (if sc_ClusterName consumer \<noteq> [] \<and> sc_ClusterName consumer \<noteq> su_ClusterName summary then False
      else if sc_Deployment consumer \<noteq> [] \<and> sc_Deployment consumer \<noteq> su_Deployment summary then False
      else if sc_Labels consumer \<noteq> [] \<and> sc_Labels consumer \<noteq> su_Labels summary then False
      else if sc_PodName consumer \<noteq> [] \<and> sc_PodName consumer \<noteq> su_PodName summary then False
      else if sc_Namespace consumer \<noteq> [] \<and> sc_Namespace consumer \<noteq> su_NamespaceName summary then False
      else if sc_Operation consumer \<noteq> [] \<and> sc_Operation consumer \<noteq> su_Operation summary then False
      else True)"

text \<open>The fields of the response that the conversion sets; the others keep their zero values.\<close>

record SummaryResponse =
  sr_ClusterName :: string
  sr_ClusterId :: int
  sr_NamespaceName :: string
  sr_NamespaceId :: int
  sr_ContainerName :: string
  sr_ContainerId :: string
  sr_PodName :: string
  sr_PodId :: int
  sr_Operation :: string
  sr_Labels :: string
  sr_Source :: string
  sr_Destination :: string
  sr_DestNamespace :: string
  sr_DestLabels :: string
  sr_NwType :: string
  sr_IP :: string
  sr_Port :: int
  sr_Protocol :: string
  sr_Action :: string
  sr_Count :: "32 word"
  sr_UpdatedTime :: int
  sr_WorkspaceId :: int
  sr_Workload :: "Workload option"

definition convertSystemSummaryToGrpcResponse :: "SystemSummary \<Rightarrow> SummaryResponse" where
  "convertSystemSummaryToGrpcResponse summary =
     \<lparr>sr_ClusterName = su_ClusterName summary, sr_ClusterId = su_ClusterId summary, sr_NamespaceName = su_NamespaceName summary,
      sr_NamespaceId = su_NamespaceId summary, sr_ContainerName = su_ContainerName summary,
      sr_ContainerId = su_ContainerID summary, sr_PodName = su_PodName summary, sr_PodId = su_PodId summary,
      sr_Operation = su_Operation summary, sr_Labels = su_Labels summary, sr_Source = su_Source summary,
      sr_Destination = su_Destination summary, sr_DestNamespace = su_DestNamespace summary, sr_DestLabels = su_DestLabels summary,
      sr_NwType = su_NwType summary, sr_IP = su_IP summary, sr_Port = su_Port summary, sr_Protocol = su_Protocol summary,
      sr_Action = su_Action summary, sr_Count = su_Count summary, sr_UpdatedTime = su_UpdatedTime summary,
      sr_WorkspaceId = su_WorkspaceId summary,
      sr_Workload = (if su_Workload summary \<noteq> Workload_zero then Some (su_Workload summary) else None)\<rparr>"

section \<open>The store\<close>

text \<open>\<^verbatim>\<open>ss_publishing\<close> is the call of \<^verbatim>\<open>Publish\<close> under way with the consumers still to visit;
  \<^verbatim>\<open>ss_leaving\<close> are the handlers that have seen that the client is gone and wait for the mutex.\<close>

record SummaryStore =
  ss_Consumers :: "(nat \<times> SummaryConsumer) list"
  ss_publishing :: "(SystemSummary \<times> nat list) option"
  ss_Events :: "nat \<Rightarrow> SystemSummary list"
  ss_used :: "nat set"
  ss_relaying :: "nat set"
  ss_leaving :: "nat set"
  ss_sent :: "nat \<Rightarrow> SummaryResponse list"

definition summary_capacity :: nat where
  "summary_capacity = 1024"

definition summary_init :: SummaryStore where
  "summary_init = \<lparr>ss_Consumers = [], ss_publishing = None, ss_Events = (\<lambda>_. []), ss_used = {}, ss_relaying = {},
     ss_leaving = {}, ss_sent = (\<lambda>_. [])\<rparr>"

text \<open>\<^verbatim>\<open>GetSummary\<close> registers a consumer, after which its handler relays.\<close>

definition AddSummaryConsumer :: "nat \<Rightarrow> SummaryRequest \<Rightarrow> SummaryStore \<Rightarrow> SummaryStore" where
  "AddSummaryConsumer i req st = st\<lparr>ss_Consumers := AList.update i (NewSummaryConsumer req) (ss_Consumers st),
     ss_Events := (ss_Events st)(i := []), ss_sent := (ss_sent st)(i := []), ss_used := insert i (ss_used st),
     ss_relaying := insert i (ss_relaying st)\<rparr>"

definition RemoveSummaryConsumer :: "nat \<Rightarrow> SummaryStore \<Rightarrow> SummaryStore" where
  "RemoveSummaryConsumer i st = st\<lparr>ss_Consumers := AList.delete i (ss_Consumers st), ss_leaving := ss_leaving st - {i}\<rparr>"

definition summary_matches :: "SummaryStore \<Rightarrow> SystemSummary \<Rightarrow> nat \<Rightarrow> bool" where
  "summary_matches st s i = (case map_of (ss_Consumers st) i of None \<Rightarrow> False | Some c \<Rightarrow> validateSummaryRequest c s)"

datatype summary_event =
    GetSummary nat SummaryRequest
  | ClientGone nat
  | RemoveGone nat
  | PublishSummary SystemSummary
  | VisitConsumer nat
  | PublishDone
  | RelaySummary nat
  | SendFails nat

inductive summary_step :: "SummaryStore \<Rightarrow> summary_event \<Rightarrow> SummaryStore \<Rightarrow> bool" where
  get: "ss_publishing st = None \<Longrightarrow> i \<notin> ss_used st \<Longrightarrow>
    summary_step st (GetSummary i req) (AddSummaryConsumer i req st)"
| gone: "i \<in> ss_relaying st \<Longrightarrow>
    summary_step st (ClientGone i) (st\<lparr>ss_relaying := ss_relaying st - {i}, ss_leaving := insert i (ss_leaving st)\<rparr>)"
| remove: "ss_publishing st = None \<Longrightarrow> i \<in> ss_leaving st \<Longrightarrow>
    summary_step st (RemoveGone i) (RemoveSummaryConsumer i st)"
| publish: "ss_publishing st = None \<Longrightarrow> distinct is \<Longrightarrow> set is = fst ` set (ss_Consumers st) \<Longrightarrow>
    summary_step st (PublishSummary s) (st\<lparr>ss_publishing := Some (s, is)\<rparr>)"
| skip: "ss_publishing st = Some (s, i # is) \<Longrightarrow> \<not> summary_matches st s i \<Longrightarrow>
    summary_step st (VisitConsumer i) (st\<lparr>ss_publishing := Some (s, is)\<rparr>)"
| send: "ss_publishing st = Some (s, i # is) \<Longrightarrow> summary_matches st s i \<Longrightarrow> length (ss_Events st i) < summary_capacity \<Longrightarrow>
    summary_step st (VisitConsumer i)
      (st\<lparr>ss_publishing := Some (s, is), ss_Events := (ss_Events st)(i := ss_Events st i @ [s])\<rparr>)"
| published: "ss_publishing st = Some (s, []) \<Longrightarrow> summary_step st PublishDone (st\<lparr>ss_publishing := None\<rparr>)"
| relay: "i \<in> ss_relaying st \<Longrightarrow> ss_Events st i = s # ss \<Longrightarrow>
    summary_step st (RelaySummary i)
      (st\<lparr>ss_Events := (ss_Events st)(i := ss), ss_sent := (ss_sent st)(i := ss_sent st i @ [convertSystemSummaryToGrpcResponse s])\<rparr>)"
| fails: "i \<in> ss_relaying st \<Longrightarrow> ss_Events st i = s # ss \<Longrightarrow>
    summary_step st (SendFails i) (st\<lparr>ss_Events := (ss_Events st)(i := ss), ss_relaying := ss_relaying st - {i}\<rparr>)"

inductive summary_run :: "SummaryStore \<Rightarrow> summary_event list \<Rightarrow> SummaryStore \<Rightarrow> bool" where
  run_done: "summary_run st [] st"
| run_step: "summary_step st e st' \<Longrightarrow> summary_run st' es st'' \<Longrightarrow> summary_run st (e # es) st''"

inductive_cases summary_stepE: "summary_step st e st'"

section \<open>Invariants\<close>

definition summary_wf :: "SummaryStore \<Rightarrow> bool" where
  "summary_wf st \<longleftrightarrow> ss_relaying st \<inter> ss_leaving st = {} \<and> ss_relaying st \<union> ss_leaving st \<subseteq> fst ` set (ss_Consumers st) \<and>
     fst ` set (ss_Consumers st) \<subseteq> ss_used st \<and> (\<forall>i. length (ss_Events st i) \<le> summary_capacity) \<and>
     (case ss_publishing st of None \<Rightarrow> True | Some (s, is) \<Rightarrow> distinct is)"

lemma summary_init_wf: "summary_wf summary_init"
  by (simp add: summary_wf_def summary_init_def)

lemma dom_delete: "fst ` set (AList.delete k xs) = fst ` set xs - {k}"
  using arg_cong [OF delete_keys [of k xs], of set] by simp

lemma summary_step_wf: "summary_step st e st' \<Longrightarrow> summary_wf st \<Longrightarrow> summary_wf st'"
proof (erule summary_stepE, goal_cases)
  case (1 i req)
  then have "i \<notin> ss_leaving st" unfolding summary_wf_def by blast
  with 1 show ?case by (auto simp: summary_wf_def AddSummaryConsumer_def AList.dom_update)
next
  case (8 i s ss)
  then have "Suc (length ss) \<le> summary_capacity" unfolding summary_wf_def by (metis length_Cons)
  with 8 show ?case by (auto simp: summary_wf_def)
next
  case (9 i s ss)
  then have "Suc (length ss) \<le> summary_capacity" unfolding summary_wf_def by (metis length_Cons)
  with 9 show ?case by (auto simp: summary_wf_def)
qed (auto simp: summary_wf_def AddSummaryConsumer_def RemoveSummaryConsumer_def AList.dom_update dom_delete)

lemma summary_run_wf: "summary_run st es st' \<Longrightarrow> summary_wf st \<Longrightarrow> summary_wf st'"
  by (induction rule: summary_run.induct) (auto dest: summary_step_wf)

section \<open>Delivery\<close>

definition summaries_of :: "summary_event \<Rightarrow> SystemSummary list" where
  "summaries_of e = (case e of PublishSummary s \<Rightarrow> [s] | _ \<Rightarrow> [])"

text \<open>What a consumer has been given: what its stream was sent, what its channel holds and what the call under way will still
  give it.\<close>

definition underway :: "SummaryStore \<Rightarrow> nat \<Rightarrow> SummaryConsumer \<Rightarrow> SystemSummary list" where
  "underway st i c = (case ss_publishing st of None \<Rightarrow> [] | Some (s, is) \<Rightarrow> if i \<in> set is \<and> validateSummaryRequest c s then [s] else [])"

definition given :: "SummaryStore \<Rightarrow> nat \<Rightarrow> SummaryConsumer \<Rightarrow> SummaryResponse list" where
  "given st i c = ss_sent st i @ map convertSystemSummaryToGrpcResponse (ss_Events st i @ underway st i c)"

definition matching :: "SummaryConsumer \<Rightarrow> summary_event list \<Rightarrow> SystemSummary list" where
  "matching c es = filter (validateSummaryRequest c) (concat (map summaries_of es))"

lemma matching_simps [simp]:
  "matching c [] = []"
  "matching c (e # es) = filter (validateSummaryRequest c) (summaries_of e) @ matching c es"
  by (simp_all add: matching_def)

lemma summary_step_gives:
  assumes "summary_step st e st'" "summary_wf st" "map_of (ss_Consumers st) i = Some c" "e \<noteq> RemoveGone i" "e \<noteq> SendFails i"
  shows "map_of (ss_Consumers st') i = Some c \<and>
    given st' i c = given st i c @ map convertSystemSummaryToGrpcResponse (filter (validateSummaryRequest c) (summaries_of e))"
proof -
  from assms(3) have i: "i \<in> fst ` set (ss_Consumers st)" by (force dest: map_of_SomeD)
  with assms(2) have used: "i \<in> ss_used st" by (auto simp: summary_wf_def)
  from assms(1) show ?thesis
  proof cases
    case (get j req)
    with used assms(3) show ?thesis
      by (auto simp: AddSummaryConsumer_def update_conv' given_def underway_def summaries_of_def)
  next
    case (remove j)
    with assms(3,4) show ?thesis
      by (auto simp: RemoveSummaryConsumer_def delete_conv' given_def underway_def summaries_of_def)
  next
    case (publish "is" s)
    with i assms(3) show ?thesis by (auto simp: given_def underway_def summaries_of_def)
  next
    case (skip s j "is")
    with assms(3) show ?thesis by (auto simp: given_def underway_def summaries_of_def summary_matches_def)
  next
    case (send s j "is")
    with assms(2,3) show ?thesis by (auto simp: given_def underway_def summaries_of_def summary_matches_def summary_wf_def)
  next
    case (fails j s ss)
    with assms(3,5) show ?thesis by (auto simp: given_def underway_def summaries_of_def)
  qed (use assms(3) in \<open>auto simp: given_def underway_def summaries_of_def\<close>)
qed

text \<open>A handler that has stopped does not start again, and the one of a consumer that is neither relaying nor leaving has stopped
  for good.\<close>

lemma summary_step_stays:
  assumes "summary_step st e st'" "i \<in> ss_used st"
  shows "i \<in> ss_used st' \<and> (i \<in> ss_relaying st' \<longrightarrow> i \<in> ss_relaying st \<and> e \<noteq> SendFails i) \<and>
    (i \<notin> ss_relaying st \<and> i \<notin> ss_leaving st \<longrightarrow> i \<notin> ss_relaying st' \<and> i \<notin> ss_leaving st' \<and> e \<noteq> SendFails i \<and> e \<noteq> RemoveGone i \<and>
       ss_sent st' i = ss_sent st i)"
  using assms by (cases rule: summary_step.cases) (auto simp: AddSummaryConsumer_def RemoveSummaryConsumer_def)

lemma summary_run_relaying:
  assumes "summary_run st es st'" "i \<in> ss_used st" "i \<in> ss_relaying st'"
  shows "i \<in> ss_relaying st"
  using assms by (induction rule: summary_run.induct) (auto dest: summary_step_stays)

lemma summary_run_gives:
  assumes "summary_run st es st'" "summary_wf st" "map_of (ss_Consumers st) i = Some c" "i \<in> ss_relaying st'"
  shows "given st' i c = given st i c @ map convertSystemSummaryToGrpcResponse (matching c es)"
  using assms
proof (induction rule: summary_run.induct)
  case (run_step st e st' es st'')
  from run_step.prems(2) have "i \<in> fst ` set (ss_Consumers st)" by (force dest: map_of_SomeD)
  with run_step.prems(1) have used: "i \<in> ss_used st" by (auto simp: summary_wf_def)
  note stays = summary_step_stays [OF run_step.hyps(1) used]
  from stays have r: "i \<in> ss_relaying st'" using summary_run_relaying [OF run_step.hyps(2)] run_step.prems(3) by blast
  with stays have rel: "i \<in> ss_relaying st" "e \<noteq> SendFails i" by blast+
  with run_step.prems(1) have "i \<notin> ss_leaving st" by (auto simp: summary_wf_def)
  then have "e \<noteq> RemoveGone i" using run_step.hyps(1) by (auto elim: summary_stepE)
  from summary_step_gives [OF run_step.hyps(1) run_step.prems(1,2) this rel(2)]
    run_step.IH [OF summary_step_wf [OF run_step.hyps(1) run_step.prems(1)] _ run_step.prems(3)]
  show ?case by simp
qed simp

lemma summary_run_leaks:
  assumes "summary_run st es st'" "summary_wf st" "map_of (ss_Consumers st) i = Some c" "i \<notin> ss_relaying st" "i \<notin> ss_leaving st"
  shows "map_of (ss_Consumers st') i = Some c \<and> i \<notin> ss_relaying st' \<and> i \<notin> ss_leaving st' \<and> ss_sent st' i = ss_sent st i \<and>
    given st' i c = given st i c @ map convertSystemSummaryToGrpcResponse (matching c es)"
  using assms
proof (induction rule: summary_run.induct)
  case (run_step st e st' es st'')
  from run_step.prems(2) have "i \<in> fst ` set (ss_Consumers st)" by (force dest: map_of_SomeD)
  with run_step.prems(1) have used: "i \<in> ss_used st" by (auto simp: summary_wf_def)
  note stays = summary_step_stays [OF run_step.hyps(1) used]
  with run_step.prems(3,4) have "e \<noteq> RemoveGone i" "e \<noteq> SendFails i" by blast+
  from summary_step_gives [OF run_step.hyps(1) run_step.prems(1,2) this] stays run_step.prems(3,4)
    run_step.IH [OF summary_step_wf [OF run_step.hyps(1) run_step.prems(1)]]
  show ?case by simp
qed simp

section \<open>Properties\<close>

text \<open>C26: A client that stays connected gets every summary that matches its request, once, in the order of the calls, and
  nothing else, whatever other clients come, go or fail.\<close>

theorem GetSummary_delivers:
  assumes "summary_run summary_init es st" "summary_step st (GetSummary i req) st'" "summary_run st' es' st''"
    and "i \<in> ss_relaying st''" "ss_publishing st'' = None"
  shows "ss_sent st'' i @ map convertSystemSummaryToGrpcResponse (ss_Events st'' i) =
    map convertSystemSummaryToGrpcResponse (matching (NewSummaryConsumer req) es')"
proof -
  have wf: "summary_wf st'"
    using summary_step_wf [OF assms(2) summary_run_wf [OF assms(1) summary_init_wf]] .
  from assms(2) have new: "st' = AddSummaryConsumer i req st" "ss_publishing st = None" by (auto elim: summary_stepE)
  then have "map_of (ss_Consumers st') i = Some (NewSummaryConsumer req)" "given st' i (NewSummaryConsumer req) = []"
    by (simp_all add: AddSummaryConsumer_def update_conv' given_def underway_def)
  with summary_run_gives [OF assms(3) wf _ assms(4)] assms(5) show ?thesis
    by (simp add: given_def underway_def)
qed

text \<open>A client to which a summary cannot be sent is never removed from the store, and its channel is read no more. At most 1024
  further summaries that match its request are published, in any run: then the call of \<^verbatim>\<open>Publish\<close> waits with the
  mutex, and with it the job that processes the summaries.\<close>

theorem SendFails_bounds:
  assumes "summary_run summary_init es st" "summary_step st (SendFails i) st'" "map_of (ss_Consumers st') i = Some c"
    and "summary_run st' es' st''" "ss_publishing st' = None" "ss_publishing st'' = None"
  shows "length (ss_Events st' i) + length (matching c es') \<le> 1024 \<and> map_of (ss_Consumers st'') i = Some c"
proof -
  note wf = summary_run_wf [OF assms(1) summary_init_wf]
  note wf' = summary_step_wf [OF assms(2) wf]
  from assms(2) wf have "i \<notin> ss_relaying st'" "i \<notin> ss_leaving st'"
    by (auto elim!: summary_stepE simp: summary_wf_def)
  from summary_run_leaks [OF assms(4) wf' assms(3) this] assms(5,6)
  have leak: "map_of (ss_Consumers st'') i = Some c"
    "map convertSystemSummaryToGrpcResponse (ss_Events st'' i) =
      map convertSystemSummaryToGrpcResponse (ss_Events st' i) @ map convertSystemSummaryToGrpcResponse (matching c es')"
    by (auto simp: given_def underway_def)
  have "length (ss_Events st'' i) = length (ss_Events st' i) + length (matching c es')"
    using arg_cong [OF leak(2), of length] unfolding length_append length_map .
  with summary_run_wf [OF assms(4) wf'] leak(1) show ?thesis
    by (simp add: summary_wf_def summary_capacity_def) (metis)
qed

text \<open>What tells the ports and addresses of two servers apart is lost in the response.\<close>

theorem convertSystemSummaryToGrpcResponse_forgets:
  "convertSystemSummaryToGrpcResponse (summary\<lparr>su_BindPort := p, su_BindAddress := a, su_ContainerImage := im, su_Severity := sv,
     su_Tags := t, su_Message := msg, su_Enforcer := en, su_PolicyName := n\<rparr>) = convertSystemSummaryToGrpcResponse summary"
  by (simp add: convertSystemSummaryToGrpcResponse_def)

section \<open>Runs\<close>

definition demo_request :: SummaryRequest where
  "demo_request = \<lparr>sq_ClusterName = [], sq_Namespace = ''ns'', sq_Labels = [], sq_PodName = [], sq_DeploymentName = [], sq_Operation = []\<rparr>"

definition demo_summary :: "string \<Rightarrow> SystemSummary" where
  "demo_summary ns = SystemSummary_zero\<lparr>su_NamespaceName := ns, su_Count := 3\<rparr>"

lemma demo_validate: "validateSummaryRequest (NewSummaryConsumer demo_request) (demo_summary ns) \<longleftrightarrow> ns = ''ns''"
  by (simp add: validateSummaryRequest_def NewSummaryConsumer_def demo_request_def demo_summary_def)

definition demo_client :: SummaryStore where
  "demo_client = AddSummaryConsumer 0 demo_request summary_init"

lemma demo_get: "summary_step summary_init (GetSummary 0 demo_request) demo_client"
  unfolding demo_client_def by (rule summary_step.get) (simp_all add: summary_init_def)

text \<open>A published summary that matches, put into the channel.\<close>

lemma demo_publish:
  assumes "ss_publishing st = None" "ss_Consumers st = [(0, NewSummaryConsumer demo_request)]" "length (ss_Events st 0) < summary_capacity"
  shows "summary_run st [PublishSummary (demo_summary ''ns''), VisitConsumer 0, PublishDone]
    (st\<lparr>ss_Events := (ss_Events st)(0 := ss_Events st 0 @ [demo_summary ''ns'']), ss_publishing := None\<rparr>)"
proof -
  let ?s = "demo_summary ''ns''"
  let ?s1 = "st\<lparr>ss_publishing := Some (?s, [0])\<rparr>"
  let ?s2 = "st\<lparr>ss_publishing := Some (?s, []), ss_Events := (ss_Events st)(0 := ss_Events st 0 @ [?s])\<rparr>"
  have "summary_step st (PublishSummary ?s) ?s1" using assms by (intro summary_step.publish) auto
  moreover have "summary_matches ?s1 ?s 0" by (simp add: summary_matches_def assms demo_validate)
  then have "summary_step ?s1 (VisitConsumer 0) ?s2" using summary_step.send [of ?s1 ?s 0 "[]"] assms by simp
  moreover have "summary_step ?s2 PublishDone (?s2\<lparr>ss_publishing := None\<rparr>)" using summary_step.published [of ?s2 ?s] by simp
  ultimately have "summary_run st [PublishSummary ?s, VisitConsumer 0, PublishDone] (?s2\<lparr>ss_publishing := None\<rparr>)"
    by (blast intro: summary_run.intros)
  then show ?thesis by simp
qed

lemma demo_client_fields [simp]:
  "ss_publishing demo_client = None" "ss_Consumers demo_client = [(0, NewSummaryConsumer demo_request)]" "ss_Events demo_client 0 = []"
  "ss_relaying demo_client = {0}" "ss_sent demo_client 0 = []"
  by (simp_all add: demo_client_def AddSummaryConsumer_def summary_init_def)

theorem GetSummary_delivers_witness:
  "\<exists>st. summary_run demo_client [PublishSummary (demo_summary ''ns''), VisitConsumer 0, PublishDone] st \<and>
     ss_sent st 0 @ map convertSystemSummaryToGrpcResponse (ss_Events st 0) =
       [convertSystemSummaryToGrpcResponse (demo_summary ''ns'')]"
proof -
  let ?st = "demo_client\<lparr>ss_Events := (ss_Events demo_client)(0 := [demo_summary ''ns'']), ss_publishing := None\<rparr>"
  have run: "summary_run demo_client [PublishSummary (demo_summary ''ns''), VisitConsumer 0, PublishDone] ?st"
    using demo_publish [of demo_client] by (simp add: summary_capacity_def)
  from GetSummary_delivers [OF run_done demo_get run] run show ?thesis
    by (intro exI [of _ ?st]) (simp add: summaries_of_def demo_validate)
qed

theorem SendFails_bounds_witness:
  "\<exists>st st'. summary_step st (SendFails 0) st' \<and>
     (\<exists>st''. summary_run st' [PublishSummary (demo_summary ''ns''), VisitConsumer 0, PublishDone] st'') \<and>
     length (ss_Events st' 0) + length (matching (NewSummaryConsumer demo_request)
       [PublishSummary (demo_summary ''ns''), VisitConsumer 0, PublishDone]) \<le> 1024"
proof -
  let ?es = "[PublishSummary (demo_summary ''ns''), VisitConsumer 0, PublishDone]"
  let ?st = "demo_client\<lparr>ss_Events := (ss_Events demo_client)(0 := [demo_summary ''ns'']), ss_publishing := None\<rparr>"
  let ?st' = "?st\<lparr>ss_Events := (ss_Events ?st)(0 := []), ss_relaying := {}\<rparr>"
  have "summary_run demo_client ?es ?st"
    using demo_publish [of demo_client] by (simp add: summary_capacity_def)
  with demo_get have run: "summary_run summary_init (GetSummary 0 demo_request # ?es) ?st" by (rule run_step)
  have fail: "summary_step ?st (SendFails 0) ?st'"
    using summary_step.fails [of 0 ?st "demo_summary ''ns''" "[]"] by simp
  have run': "summary_run ?st' ?es
      (?st'\<lparr>ss_Events := (ss_Events ?st')(0 := ss_Events ?st' 0 @ [demo_summary ''ns'']), ss_publishing := None\<rparr>)"
    by (rule demo_publish) (simp_all add: summary_capacity_def)
  from SendFails_bounds [OF run fail _ run', of "NewSummaryConsumer demo_request"] run' fail show ?thesis
    by (intro exI [of _ ?st] exI [of _ ?st']) auto
qed

end
