(* ===== verification/Templates.thy ===== *)
theory Templates
  imports AdmissionController KubeArmor
begin

text \<open>
  Package \<^verbatim>\<open>recommendpolicy\<close>, the templates: a release is downloaded and unpacked, the rules of its files
  \<^verbatim>\<open>metadata.yaml\<close> are put together into one file \<^verbatim>\<open>rules.yaml\<close>, and the rules are read from this file. The libraries for
  JSON, YAML and archives and the files are parameters.
\<close>

section \<open>Rules\<close>

text \<open>The parts of a policy of Kyverno that are read or changed; \<^verbatim>\<open>kvp_Kind\<close> is what \<^verbatim>\<open>GetKind\<close> returns. A rule has the kinds of its resource filters, the text of
  its preconditions and that of its pattern.\<close>

record KvRule =
  kr_Any :: "string list list"
  kr_RawAnyAllConditions :: "string option"
  kr_RawPattern :: "string option"

record KvPolicy =
  kvp_ClusterPolicy :: bool
  kvp_Kind :: string
  kvp_Name :: string
  kvp_Namespace :: string
  kvp_Annotations :: "LabelMap option"
  kvp_Rules :: "KvRule list"

record MatchSpec =
  ms_Name :: string
  ms_Precondition :: "string list"
  ms_Tldr :: string
  ms_Detailed :: string
  ms_Yaml :: string
  ms_Spec :: KnoxSystemSpec
  ms_Kind :: string
  ms_KyvernoPolicy :: "KvPolicy option"
  ms_KyvernoPolicyTags :: "string list"

text \<open>A decoded rule, in which a policy of Kyverno is a value without a type: \<^verbatim>\<open>Some None\<close> if YAML cannot be made of it.\<close>

type_synonym decoded_rule = "MatchSpec \<times> string option option"

record TemplateLib =
  tl_YAMLToJSON :: "string \<Rightarrow> string option"
  tl_object :: "string \<Rightarrow> (string \<Rightarrow> string) option"
  tl_array :: "string \<Rightarrow> string option list option"
  tl_rule :: "string \<Rightarrow> decoded_rule option"
  tl_map :: "string \<Rightarrow> (string \<rightharpoonup> json) option"
  tl_kyverno :: "bool \<Rightarrow> string \<Rightarrow> KvPolicy option"
  tl_kubearmor :: "string \<Rightarrow> (string \<times> KnoxSystemSpec) option"
  tl_marshal :: "MatchSpec list \<Rightarrow> string option"

definition json_string :: "json option \<Rightarrow> go_panic + string" where
  "json_string j = (case j of Some (JStr s) \<Rightarrow> Inr s | _ \<Rightarrow> Inl TypeAssertion)"

definition getKyvernoPolicy :: "TemplateLib \<Rightarrow> string \<Rightarrow> string \<Rightarrow> string + KvPolicy" where
  "getKyvernoPolicy lib policyKind policyYaml =
     (if policyKind = ''Policy'' then
        (case tl_kyverno lib False policyYaml of None \<Rightarrow> Inl ''unmarshal'' | Some p \<Rightarrow> Inr p)
      else if policyKind = ''ClusterPolicy'' then
        (case tl_kyverno lib True policyYaml of None \<Rightarrow> Inl ''unmarshal'' | Some p \<Rightarrow> Inr p)
      else Inl (''unexpected policy kind: '' @ policyKind))"

text \<open>The results of functions that may panic and may fail: the error or the value.\<close>

definition unmarshalMatchSpec :: "TemplateLib \<Rightarrow> string \<Rightarrow> go_panic + (string + MatchSpec)" where
  "unmarshalMatchSpec lib matchSpecJSONBytes =
     (case tl_rule lib matchSpecJSONBytes of
        None \<Rightarrow> Inr (Inl ''unmarshal'')
      | Some (matchSpec, kyverno) \<Rightarrow>
          (let matchSpec = matchSpec\<lparr>ms_KyvernoPolicy := None\<rparr> in
           case kyverno of
             None \<Rightarrow> Inr (Inr matchSpec)
           | Some None \<Rightarrow> Inr (Inl ''marshal'')
           | Some (Some kyvernoPolicyBytes) \<Rightarrow>
               (case tl_map lib kyvernoPolicyBytes of
                  None \<Rightarrow> Inr (Inl ''unmarshal'')
                | Some policy \<Rightarrow>
                    go_bind (json_string (policy ''kind'')) (\<lambda>policyKind.
                      Inr (case getKyvernoPolicy lib policyKind kyvernoPolicyBytes of
                             Inl err \<Rightarrow> Inl err
                           | Inr p \<Rightarrow> Inr (matchSpec\<lparr>ms_KyvernoPolicy := Some p\<rparr>))))))"

text \<open>The result is the version, as JSON, and the rules, which are a variable of the package.\<close>

definition updateRulesYAML :: "TemplateLib \<Rightarrow> string \<Rightarrow> go_panic + (string \<times> MatchSpec list)" where
  "updateRulesYAML lib yamlFile =
     (case tl_YAMLToJSON lib yamlFile of
        None \<Rightarrow> Inr ([], [])
      | Some policyRulesJSON \<Rightarrow>
          (case tl_object lib policyRulesJSON of
             None \<Rightarrow> Inr ([], [])
           | Some jsonRaw \<Rightarrow>
               (case tl_array lib (jsonRaw ''policyRules'') of
                  None \<Rightarrow> Inr ([], [])
                | Some policyRulesInterface \<Rightarrow>
                    go_bind (foldM (\<lambda>policyRules policyRuleJSON.
                        case policyRuleJSON of
                          None \<Rightarrow> Inr policyRules
                        | Some policyRuleJSON \<Rightarrow>
                            go_bind (unmarshalMatchSpec lib policyRuleJSON) (\<lambda>r.
                              Inr (case r of Inl err \<Rightarrow> policyRules | Inr policyRule \<Rightarrow> policyRules @ [policyRule])))
                      [] policyRulesInterface)
                    (\<lambda>policyRules. Inr (jsonRaw ''version'', policyRules)))))"

definition getNextRule :: "MatchSpec list \<Rightarrow> int \<Rightarrow> MatchSpec option \<times> int" where
  "getNextRule policyRules idx =
     (let idx = (if idx < 0 then idx + 1 else idx) in
      if idx \<ge> int (length policyRules) then (None, idx) else (Some (policyRules ! nat idx), idx + 1))"

text \<open>The rules that a loop over \<^verbatim>\<open>getNextRule\<close> sees. The loops begin with the index 0.\<close>

function rules_from :: "MatchSpec list \<Rightarrow> nat \<Rightarrow> MatchSpec list" where
  "rules_from policyRules idx =
     (case getNextRule policyRules (int idx) of
        (None, _) \<Rightarrow> [] | (Some ms, idx') \<Rightarrow> ms # rules_from policyRules (nat idx'))"
  by pat_completeness auto
termination
  by (relation "measure (\<lambda>(rs, i). length rs - i)") (auto simp: getNextRule_def Let_def split: if_splits)

declare rules_from.simps [simp del]

lemma rules_from_drop: "rules_from rs i = drop i rs"
proof (induction rs i rule: rules_from.induct)
  case (1 rs i)
  show ?case
  proof (cases "i < length rs")
    case True
    then have "getNextRule rs (int i) = (Some (rs ! i), int i + 1)" by (simp add: getNextRule_def)
    with 1 [OF this [symmetric] refl] True show ?thesis
      by (subst rules_from.simps) (simp add: nat_add_distrib Cons_nth_drop_Suc)
  next
    case False
    then show ?thesis by (subst rules_from.simps) (simp add: getNextRule_def)
  qed
qed

section \<open>Releases\<close>

text \<open>\<^verbatim>\<open>fs_read\<close> reads a file of the unpacked release, \<^verbatim>\<open>fs_walk\<close> are the paths of its files \<^verbatim>\<open>metadata.yaml\<close> in
  the order of the walk, or an error.\<close>

record Files =
  fs_read :: "string \<Rightarrow> string option"
  fs_walk :: "string list option"

text \<open>A rule of a file: the policy it names is read in.\<close>

definition resolve_rule :: "TemplateLib \<Rightarrow> Files \<Rightarrow> string \<Rightarrow> string \<Rightarrow> MatchSpec \<Rightarrow> go_panic + (string + MatchSpec)" where
  "resolve_rule lib files filePath file ms =
     (if ms_Yaml ms = [] then Inr (Inr ms)
      else
        (case (case fs_read files (Clean (TrimSuffix file ''metadata.yaml'' @ ms_Yaml ms)) of
                 None \<Rightarrow> fs_read files (Clean (filePath @ ''/'' @ ms_Yaml ms)) | Some y \<Rightarrow> Some y) of
           None \<Rightarrow> Inr (Inl ''read'')
         | Some newYaml \<Rightarrow>
             (case tl_map lib newYaml of
                None \<Rightarrow> Inr (Inl ''unmarshal'')
              | Some policy \<Rightarrow>
                  go_bind (json_string (policy ''apiVersion'')) (\<lambda>apiVersion.
                    if Contains apiVersion ''kyverno'' then
                      go_bind (json_string (policy ''kind'')) (\<lambda>policyKind.
                        Inr (case getKyvernoPolicy lib policyKind newYaml of
                               Inl err \<Rightarrow> Inl err
                             | Inr p \<Rightarrow> Inr (ms\<lparr>ms_KyvernoPolicy := Some p,
                                 ms_Kind := kvp_Kind p, ms_Yaml := []\<rparr>)))
                    else if Contains apiVersion ''kubearmor'' then
                      Inr (case tl_kubearmor lib newYaml of
                             None \<Rightarrow> Inl ''unmarshal''
                           | Some (kind, spec) \<Rightarrow> Inr (ms\<lparr>ms_Kind := kind, ms_Spec := spec, ms_Yaml := []\<rparr>))
                    else Inr (Inr (ms\<lparr>ms_Yaml := []\<rparr>))))))"

text \<open>The state of the loop over the files: the error that ended it, the rules of the package, the version and the rules so far.\<close>

type_synonym release_state = "string option \<times> MatchSpec list \<times> string \<times> MatchSpec list"

definition release_rule :: "TemplateLib \<Rightarrow> Files \<Rightarrow> string \<Rightarrow> string \<Rightarrow> release_state \<Rightarrow> MatchSpec \<Rightarrow> go_panic + release_state" where
  "release_rule lib files filePath file = (\<lambda>(err, rules, version, completePolicy) ms.
     if err \<noteq> None then Inr (err, rules, version, completePolicy)
     else go_bind (resolve_rule lib files filePath file ms) (\<lambda>r.
       Inr (case r of Inl e \<Rightarrow> (Some e, rules, version, completePolicy)
            | Inr ms \<Rightarrow> (None, rules, version, completePolicy @ [ms]))))"

definition release_file :: "TemplateLib \<Rightarrow> Files \<Rightarrow> string \<Rightarrow> release_state \<Rightarrow> string \<Rightarrow> go_panic + release_state" where
  "release_file lib files filePath = (\<lambda>(err, rules, version, completePolicy) file.
     if err \<noteq> None then Inr (err, rules, version, completePolicy)
     else
       (case fs_read files (Clean file) of
          None \<Rightarrow> Inr (Some ''read'', rules, version, completePolicy)
        | Some yamlFile \<Rightarrow>
            go_bind (updateRulesYAML lib yamlFile) (\<lambda>(version, rules).
              foldM (release_rule lib files filePath file) (None, rules, version, completePolicy) (rules_from rules 0))))"

definition trim_quotes :: "string \<Rightarrow> string" where
  "trim_quotes s = rev (dropWhile (\<lambda>c. c = CHR 0x22) (rev (dropWhile (\<lambda>c. c = CHR 0x22) s)))"

definition rules_yaml :: "string \<Rightarrow> string \<Rightarrow> string" where
  "rules_yaml version yamlFile = ''version: '' @ trim_quotes version @ [CHR 0x0A] @ ''policyRules:'' @ [CHR 0x0A] @ yamlFile"

text \<open>The result: the error, the rules of the package and, without an error, the text of \<^verbatim>\<open>rules.yaml\<close>, whose writing does not
  fail in the model.\<close>

definition updatePolicyRules ::
  "TemplateLib \<Rightarrow> Files \<Rightarrow> string \<Rightarrow> MatchSpec list \<Rightarrow> go_panic + (string option \<times> MatchSpec list \<times> string)" where
  "updatePolicyRules lib files filePath rules =
     (case fs_walk files of
        None \<Rightarrow> Inr (Some ''walk'', rules, [])
      | Some paths \<Rightarrow>
          go_bind (foldM (release_file lib files filePath) (None, rules, [], []) paths) (\<lambda>(err, rules, version, completePolicy).
            Inr (case err of
                   Some e \<Rightarrow> (Some e, rules, [])
                 | None \<Rightarrow>
                     (case tl_marshal lib completePolicy of
                        None \<Rightarrow> (Some ''marshal'', rules, [])
                      | Some yamlFile \<Rightarrow> (None, rules, rules_yaml version yamlFile)))))"

text \<open>\<^verbatim>\<open>None\<close> if \<^verbatim>\<open>rules.yaml\<close> cannot be read.\<close>

definition updatePolicyMap :: "TemplateLib \<Rightarrow> string option \<Rightarrow> go_panic + MatchSpec list" where
  "updatePolicyMap lib content = go_bind (updateRulesYAML lib (case content of None \<Rightarrow> [] | Some yamlFile \<Rightarrow> yamlFile)) (\<lambda>(version, rules). Inr rules)"

record TemplateState =
  ts_policyRules :: "MatchSpec list"
  ts_CurrentVersion :: string
  ts_LatestVersion :: string

text \<open>\<^verbatim>\<open>fetch\<close> downloads and unpacks a version: an error or the files.\<close>

definition DownloadAndUnzipRelease ::
  "TemplateLib \<Rightarrow> (string \<Rightarrow> string + Files) \<Rightarrow> string \<Rightarrow> string \<Rightarrow> TemplateState \<Rightarrow> go_panic + (string option \<times> TemplateState)" where
  "DownloadAndUnzipRelease lib fetch cachePath version st =
     (let st = (if version \<noteq> [] then st\<lparr>ts_LatestVersion := version\<rparr> else st) in
      case fetch (ts_LatestVersion st) of
        Inl err \<Rightarrow> Inr (Some err, st)
      | Inr files \<Rightarrow>
          go_bind (updatePolicyRules lib files cachePath (ts_policyRules st)) (\<lambda>(err, rules, content).
            case err of
              Some e \<Rightarrow> Inr (Some e, st\<lparr>ts_policyRules := rules\<rparr>)
            | None \<Rightarrow>
                go_bind (updatePolicyMap lib (Some content)) (\<lambda>rules.
                  Inr (None, st\<lparr>ts_policyRules := rules, ts_CurrentVersion := ts_LatestVersion st\<rparr>))))"

text \<open>\<^verbatim>\<open>latestRelease\<close> asks for the name of the latest release, an empty text on an error.\<close>

definition isLatest :: "string \<Rightarrow> string \<Rightarrow> TemplateState \<Rightarrow> bool \<times> TemplateState" where
  "isLatest Version latestRelease st =
     (let st = (if Version = [] then st\<lparr>ts_LatestVersion := latestRelease\<rparr> else st) in
      if ts_LatestVersion st = [] \<and> ts_CurrentVersion st = [] then (False, st)
      else if ts_LatestVersion st = [] then (True, st)
      else (ts_CurrentVersion st = ts_LatestVersion st, st))"

text \<open>\<^verbatim>\<open>filepath.Join\<close> of two elements.\<close>

definition JoinPath :: "string \<Rightarrow> string \<Rightarrow> string" where
  "JoinPath d t = (if d = [] \<and> t = [] then [] else if d = [] then Clean t else if t = [] then Clean d else Clean (d @ ''/'' @ t))"

definition sanitizeArchivePath :: "string \<Rightarrow> string \<Rightarrow> string + string" where
  "sanitizeArchivePath d t =
     (let v = JoinPath d t in if HasPrefix v (Clean d) then Inr v else Inl (''content filepath is tainted: '' @ t))"

section \<open>What is read is what was put together\<close>

text \<open>The rules of a file, resolved.\<close>

definition file_rules :: "TemplateLib \<Rightarrow> Files \<Rightarrow> string \<Rightarrow> string \<Rightarrow> MatchSpec list \<Rightarrow> bool" where
  "file_rules lib files filePath file rs \<longleftrightarrow>
     (\<exists>yamlFile version rules. fs_read files (Clean file) = Some yamlFile \<and> updateRulesYAML lib yamlFile = Inr (version, rules) \<and>
        list_all2 (\<lambda>ms r. resolve_rule lib files filePath file ms = Inr (Inr r)) rules rs)"

lemma release_rule_failed: "foldM (release_rule lib files filePath file) (Some e, rules, v, cp) ms = Inr (Some e, rules, v, cp)"
  by (induction ms) (simp_all add: release_rule_def)

lemma release_file_failed: "foldM (release_file lib files filePath) (Some e, rules, v, cp) paths = Inr (Some e, rules, v, cp)"
  by (induction paths) (simp_all add: release_file_def)

lemma release_rule_ok:
  "release_rule lib files filePath file (None, rules, v, cp) ms = go_bind (resolve_rule lib files filePath file ms) (\<lambda>r.
     Inr (case r of Inl e \<Rightarrow> (Some e, rules, v, cp) | Inr ms \<Rightarrow> (None, rules, v, cp @ [ms])))"
  by (simp add: release_rule_def)

lemma release_rules:
  assumes "foldM (release_rule lib files filePath file) (None, rules, v, cp) ms = Inr (None, rules', v', cp')"
  shows "\<exists>rs. list_all2 (\<lambda>m r. resolve_rule lib files filePath file m = Inr (Inr r)) ms rs \<and> cp' = cp @ rs"
  using assms
proof (induction ms arbitrary: cp)
  case (Cons m ms)
  from Cons.prems obtain q where q: "resolve_rule lib files filePath file m = Inr q"
    by (cases "resolve_rule lib files filePath file m") (simp_all add: release_rule_ok)
  show ?case
  proof (cases q)
    case (Inl e)
    with q Cons.prems show ?thesis by (simp add: release_rule_ok release_rule_failed)
  next
    case (Inr r)
    with q Cons.prems have "foldM (release_rule lib files filePath file) (None, rules, v, cp @ [r]) ms = Inr (None, rules', v', cp')"
      by (simp add: release_rule_ok)
    from Cons.IH [OF this] obtain rs where
      "list_all2 (\<lambda>m r. resolve_rule lib files filePath file m = Inr (Inr r)) ms rs" "cp' = (cp @ [r]) @ rs" by blast
    with q Inr show ?thesis by (intro exI [of _ "r # rs"]) simp
  qed
qed simp

lemma release_files:
  assumes "foldM (release_file lib files filePath) (None, rules, v, cp) paths = Inr (None, rules', v', cp')"
  shows "\<exists>rss. list_all2 (file_rules lib files filePath) paths rss \<and> cp' = cp @ concat rss"
  using assms
proof (induction paths arbitrary: rules v cp)
  case (Cons p paths)
  from Cons.prems obtain e r1 v1 c1 where one: "release_file lib files filePath (None, rules, v, cp) p = Inr (e, r1, v1, c1)"
    and rest: "foldM (release_file lib files filePath) (e, r1, v1, c1) paths = Inr (None, rules', v', cp')"
    by (auto simp: go_bind_Inr_iff)
  from rest have e: "e = None" by (cases e) (simp_all add: release_file_failed)
  with one obtain yamlFile version rs where f: "fs_read files (Clean p) = Some yamlFile" "updateRulesYAML lib yamlFile = Inr (version, rs)"
    "foldM (release_rule lib files filePath p) (None, rs, version, cp) rs = Inr (None, r1, v1, c1)"
    by (auto simp: release_file_def go_bind_Inr_iff rules_from_drop split: option.splits)
  from release_rules [OF f(3)] obtain ps where ps: "list_all2 (\<lambda>m r. resolve_rule lib files filePath p m = Inr (Inr r)) rs ps" "c1 = cp @ ps"
    by blast
  with f(1,2) have "file_rules lib files filePath p ps" by (auto simp: file_rules_def)
  moreover from rest e have "foldM (release_file lib files filePath) (None, r1, v1, c1) paths = Inr (None, rules', v', cp')" by simp
  from Cons.IH [OF this] obtain rss where "list_all2 (file_rules lib files filePath) paths rss" "cp' = c1 @ concat rss" by blast
  ultimately show ?case using ps(2) by (intro exI [of _ "ps # rss"]) simp
qed simp


section \<open>Versions and archives\<close>

text \<open>A change of the configured version is not seen while the version in use is the one that was downloaded last.\<close>

theorem isLatest_ignores_version:
  assumes "DownloadAndUnzipRelease lib fetch cachePath version st = Inr (None, st')" "ts_LatestVersion st' \<noteq> []" "Version \<noteq> []"
  shows "isLatest Version release st' = (True, st')"
proof -
  have "ts_CurrentVersion st' = ts_LatestVersion st'"
    using assms(1) by (auto simp: DownloadAndUnzipRelease_def Let_def go_bind_Inr_iff split: sum.splits option.splits if_splits)
  with assms(2,3) show ?thesis by (simp add: isLatest_def)
qed

definition plain_element :: "string \<Rightarrow> bool" where
  "plain_element e \<longleftrightarrow> e \<noteq> [] \<and> e \<noteq> ''.'' \<and> e \<noteq> ''..'' \<and> CHR ''/'' \<notin> set e"

lemma clean_plain: "list_all plain_element es \<Longrightarrow> clean_elems rooted acc (es @ rest) = clean_elems rooted (rev es @ acc) rest"
  by (induction es arbitrary: acc) (simp_all add: plain_element_def)

lemma Split_Join_plain: "es \<noteq> [] \<Longrightarrow> list_all plain_element es \<Longrightarrow> Split (Join es ''/'' @ CHR ''/'' # s) (CHR ''/'') = es @ Split s (CHR ''/'')"
proof (induction es rule: induct_list012)
  case (2 e)
  then show ?case by (simp add: Split_append plain_element_def)
next
  case (3 e f es)
  then show ?case by (simp add: Split_append plain_element_def)
qed simp

text \<open>The check of the paths in an archive compares texts, not directories: a name that begins with two points and then the
  name of the directory passes, and the file is written beside the directory.\<close>

theorem sanitizeArchivePath_escapes:
  assumes "list_all plain_element (ps @ [e])" "plain_element (e @ s)"
  shows "sanitizeArchivePath (CHR ''/'' # Join (ps @ [e]) ''/'') (''../'' @ e @ s) = Inr (CHR ''/'' # Join (ps @ [e @ s]) ''/'')"
proof -
  let ?J = "Join (ps @ [e]) ''/''"
  have e: "plain_element e" using assms(1) by simp
  have "Split (?J @ ''/../'' @ e @ s) (CHR ''/'') = ps @ [e, ''..'', e @ s]"
    using Split_Join_plain [OF _ assms(1), of "''../'' @ e @ s"] assms(2)
    by (simp add: Split_append Split_no_sep plain_element_def)
  then have join: "Clean (CHR ''/'' # ?J @ ''/'' @ ''../'' @ e @ s) = CHR ''/'' # Join (ps @ [e @ s]) ''/''"
    using assms clean_plain [of "ps @ [e]" True "[]" "[''..'', e @ s]"] e
    by (simp add: Clean_def HasPrefix_def plain_element_def)
  have "Split ?J (CHR ''/'') = ps @ [e]"
    by (rule Split_Join) (use assms(1) in \<open>auto simp: list_all_iff plain_element_def\<close>)
  then have dir: "Clean (CHR ''/'' # ?J) = CHR ''/'' # ?J"
    using clean_plain [OF assms(1), of True "[]" "[]"] by (simp add: Clean_def HasPrefix_def)
  have "prefix ?J (Join (ps @ [e @ s]) ''/'')"
    by (cases "ps = []") (simp_all add: Join_snoc)
  then show ?thesis
    by (simp add: sanitizeArchivePath_def JoinPath_def join [simplified] dir HasPrefix_iff)
qed

section \<open>Examples\<close>

definition demo_template :: MatchSpec where
  "demo_template = \<lparr>ms_Name = ''shell'', ms_Precondition = [''OPTSCAN''], ms_Tldr = ''t'', ms_Detailed = ''d'', ms_Yaml = [],
     ms_Spec = KnoxSystemSpec_zero, ms_Kind = ''KubeArmorPolicy'', ms_KyvernoPolicy = None, ms_KyvernoPolicyTags = []\<rparr>"

definition demo_lib :: TemplateLib where
  "demo_lib = \<lparr>tl_YAMLToJSON = Some, tl_object = (\<lambda>_. Some (\<lambda>k. if k = ''policyRules'' then ''[r]'' else ''1'')),
     tl_array = (\<lambda>_. Some [Some ''r'']), tl_rule = (\<lambda>_. Some (demo_template, None)), tl_map = (\<lambda>_. None),
     tl_kyverno = (\<lambda>_ _. None), tl_kubearmor = (\<lambda>_. None),
     tl_marshal = (\<lambda>ps. if ps = [demo_template] then Some ''- r'' else None)\<rparr>"

definition demo_files :: Files where
  "demo_files = \<lparr>fs_read = (\<lambda>p. if p = ''/c/a/metadata.yaml'' then Some ''x'' else None), fs_walk = Some [''/c/a/metadata.yaml'']\<rparr>"

lemma demo_updateRulesYAML: "updateRulesYAML demo_lib y = Inr (''1'', [demo_template])"
  by (simp add: updateRulesYAML_def demo_lib_def unmarshalMatchSpec_def demo_template_def)

lemma demo_roundtrip: "tl_marshal demo_lib ps = Some y \<Longrightarrow> \<exists>v'. updateRulesYAML demo_lib (rules_yaml v y) = Inr (v', ps)"
proof -
  assume "tl_marshal demo_lib ps = Some y"
  then have "ps = [demo_template]" by (simp add: demo_lib_def split: if_splits)
  then show ?thesis by (simp add: demo_updateRulesYAML)
qed

lemma demo_download:
  "DownloadAndUnzipRelease demo_lib (\<lambda>_. Inr demo_files) ''/c'' ''v1'' \<lparr>ts_policyRules = [], ts_CurrentVersion = [], ts_LatestVersion = []\<rparr> =
    Inr (None, \<lparr>ts_policyRules = [demo_template], ts_CurrentVersion = ''v1'', ts_LatestVersion = ''v1''\<rparr>)"
proof -
  have c: "Clean ''/c/a/metadata.yaml'' = ''/c/a/metadata.yaml''" by code_simp
  have m: "ms_Yaml demo_template = []" "tl_marshal demo_lib [demo_template] = Some ''- r''" by (simp_all add: demo_template_def demo_lib_def)
  show ?thesis
    by (simp add: DownloadAndUnzipRelease_def updatePolicyRules_def demo_files_def release_file_def release_rule_ok
        demo_updateRulesYAML rules_from_drop resolve_rule_def c m updatePolicyMap_def)
qed


theorem isLatest_ignores_version_witness:
  "isLatest ''v2'' [] \<lparr>ts_policyRules = [demo_template], ts_CurrentVersion = ''v1'', ts_LatestVersion = ''v1''\<rparr> =
     (True, \<lparr>ts_policyRules = [demo_template], ts_CurrentVersion = ''v1'', ts_LatestVersion = ''v1''\<rparr>)"
  by (rule isLatest_ignores_version [OF demo_download]) simp_all

theorem sanitizeArchivePath_escapes_witness:
  "sanitizeArchivePath ''/root/.cache/karmor'' ''../karmor-x/f'' = Inr ''/root/.cache/karmor-x/f'' \<and>
   sanitizeArchivePath ''/root/.cache/karmor'' ''../karmor-x'' = Inr ''/root/.cache/karmor-x''"
proof
  show "sanitizeArchivePath ''/root/.cache/karmor'' ''../karmor-x'' = Inr ''/root/.cache/karmor-x''"
    using sanitizeArchivePath_escapes [of "[''root'', ''.cache'']" "''karmor''" "''-x''"] by (simp add: plain_element_def)
  show "sanitizeArchivePath ''/root/.cache/karmor'' ''../karmor-x/f'' = Inr ''/root/.cache/karmor-x/f''"
    by code_simp
qed

end
