(* ===== verification/Recommend.thy ===== *)
theory Recommend
  imports Templates SystemPipeline
begin

text \<open>
  Package \<^verbatim>\<open>recommendpolicy\<close>: the policies that are recommended for the workloads of a cluster, made of the rules of the
  templates, one run of the worker, and the watcher of deployments. What the Kubernetes API and the configuration return are
  parameters, and so are the libraries of JSON, YAML and Kyverno.
\<close>

section \<open>Policies of a workload\<close>

definition HardeningPolicy :: string where "HardeningPolicy = ''harden''"
definition RecommendedPolicyTagsAnnotation :: string where
  "RecommendedPolicyTagsAnnotation = ''recommended-policies.accuknox.com/tags''"
definition RecommendedPolicyTitleAnnotation :: string where "RecommendedPolicyTitleAnnotation = ''policies.kyverno.io/title''"
definition RecommendedPolicyDescriptionAnnotation :: string where
  "RecommendedPolicyDescriptionAnnotation = ''policies.kyverno.io/description''"

definition genericPolicy :: "string list \<Rightarrow> bool" where
  "genericPolicy precondition = list_ex (\<lambda>p. Contains p ''OPTSCAN'') precondition"

text \<open>A nil slice and an empty one are the same here.\<close>

definition addPolicyRule :: "KnoxSystemSpec \<Rightarrow> KnoxSystemSpec \<Rightarrow> KnoxSystemSpec" where
  "addPolicyRule spec r =
     (let spec = (if ks_MatchDirectories (ss_File r) \<noteq> [] \<or> ks_MatchPaths (ss_File r) \<noteq> [] then spec\<lparr>ss_File := ss_File r\<rparr> else spec);
          spec = (if ks_MatchPaths (ss_Process r) \<noteq> [] \<or> ks_MatchDirectories (ss_Process r) \<noteq> []
                  then spec\<lparr>ss_Process := ss_Process r\<rparr> else spec)
      in if nr_MatchProtocols (ss_Network r) \<noteq> [] then spec\<lparr>ss_Network := ss_Network r\<rparr> else spec)"

definition KnoxSystemPolicy_empty :: KnoxSystemPolicy where
  "KnoxSystemPolicy_empty = \<lparr>sysp_APIVersion = [], sysp_Kind = [], sysp_Metadata = fmempty, sysp_Outdated = [],
     sysp_Spec = KnoxSystemSpec_zero, sysp_GeneratedTime = 0, sysp_UpdatedTime = 0, sysp_Latest = False\<rparr>"

definition createPolicy :: "MatchSpec \<Rightarrow> string \<Rightarrow> string \<Rightarrow> LabelMap \<Rightarrow> KnoxSystemPolicy" where
  "createPolicy ms name namespace labels =
     (let metadata = fmupd ''annotation-description'' (ms_Detailed ms) (fmupd ''annotation-tldr'' (ms_Tldr ms) fmempty);
          metadata = (if ms_Kind ms \<noteq> KindKubeArmorHostPolicy then
              fmupd ''namespace'' namespace (fmupd ''name'' (HardeningPolicy @ ''-'' @ name @ ''-'' @ ms_Name ms) metadata)
            else fmupd ''name'' (HardeningPolicy @ ''-host-'' @ name @ ''-'' @ ms_Name ms) metadata);
          spec = KnoxSystemSpec_zero\<lparr>ss_Action := ss_Action (ms_Spec ms), ss_Severity := ss_Severity (ms_Spec ms)\<rparr>;
          spec = (if ss_Message (ms_Spec ms) \<noteq> [] then spec\<lparr>ss_Message := ss_Message (ms_Spec ms)\<rparr> else spec);
          spec = (if length (ss_Tags (ms_Spec ms)) > 0 then spec\<lparr>ss_Tags := ss_Tags (ms_Spec ms)\<rparr> else spec);
          spec = spec\<lparr>ss_Selector := \<lparr>sel_MatchLabels = labels\<rparr>\<rparr>
      in KnoxSystemPolicy_empty\<lparr>sysp_APIVersion := ''v1'', sysp_Kind := ms_Kind ms, sysp_Metadata := metadata,
           sysp_Spec := addPolicyRule spec (ms_Spec ms)\<rparr>)"

text \<open>The nodes of the cluster with their labels, or an error. The rules are those of the package.\<close>

definition generateKnoxSystemPolicy ::
  "bool \<Rightarrow> string + (string \<times> LabelMap) list \<Rightarrow> MatchSpec list \<Rightarrow> string \<Rightarrow> string \<Rightarrow> LabelMap \<Rightarrow> string + KnoxSystemPolicy list" where
  "generateKnoxSystemPolicy RecommendHostPolicy nodes policyRules name namespace labels =
     fold (\<lambda>ms r. case r of Inl err \<Rightarrow> Inl err | Inr policies \<Rightarrow>
       if ms_KyvernoPolicy ms = None then
         if genericPolicy (ms_Precondition ms) then Inr (policies @ [createPolicy ms name namespace labels])
         else if ms_Kind ms = KindKubeArmorHostPolicy \<and> RecommendHostPolicy then
           (case nodes of Inl err \<Rightarrow> Inl err
            | Inr nodeList \<Rightarrow> Inr (policies @ map (\<lambda>(node, nodeLabels). createPolicy ms node [] nodeLabels) nodeList))
         else Inr policies
       else Inr policies) (rules_from policyRules 0) (Inr [])"

definition generateHardenPolicy ::
  "bool \<Rightarrow> string + (string \<times> LabelMap) list \<Rightarrow> MatchSpec list \<Rightarrow> string \<Rightarrow> string \<Rightarrow> LabelMap \<Rightarrow> KnoxSystemPolicy list" where
  "generateHardenPolicy RecommendHostPolicy nodes policyRules name namespace labels =
     (case generateKnoxSystemPolicy RecommendHostPolicy nodes policyRules name namespace labels of Inl err \<Rightarrow> [] | Inr policies \<Rightarrow> policies)"

section \<open>Policies of Kyverno\<close>

definition containsRequiredAnnotations :: "LabelMap option \<Rightarrow> bool" where
  "containsRequiredAnnotations annotations = (case annotations of None \<Rightarrow> False | Some a \<Rightarrow>
     fmlookup a RecommendedPolicyTagsAnnotation \<noteq> None \<and> fmlookup a RecommendedPolicyTitleAnnotation \<noteq> None \<and>
     fmlookup a RecommendedPolicyDescriptionAnnotation \<noteq> None)"

definition set_tags :: "MatchSpec \<Rightarrow> KvPolicy \<Rightarrow> go_panic + KvPolicy" where
  "set_tags ms policy = (case kvp_Annotations policy of None \<Rightarrow> Inl NilMapWrite
     | Some a \<Rightarrow> Inr (policy\<lparr>kvp_Annotations := Some (fmupd RecommendedPolicyTagsAnnotation (Join (ms_KyvernoPolicyTags ms) '','') a)\<rparr>))"

text \<open>\<^verbatim>\<open>autogen\<close> stands for \<^verbatim>\<open>AutoGenPrecondition\<close> and \<^verbatim>\<open>AutoGenPattern\<close> with their libraries.\<close>

record Autogen =
  ag_precondition :: "string \<Rightarrow> LabelMap \<Rightarrow> string \<Rightarrow> go_panic + string"
  ag_pattern :: "string \<Rightarrow> string \<Rightarrow> string"

definition autogen :: "(string \<Rightarrow> json option) \<Rightarrow> (json \<Rightarrow> string option) \<Rightarrow> ((string \<times> string) list \<Rightarrow> (string \<times> string) list) \<Rightarrow> Autogen" where
  "autogen unmarshal marshal ord = \<lparr>ag_precondition = AutoGenPrecondition unmarshal marshal ord, ag_pattern = AutoGenPattern marshal\<rparr>"

definition createRestrictAutomountSATokenPolicy ::
  "Autogen \<Rightarrow> MatchSpec \<Rightarrow> KvPolicy \<Rightarrow> string \<Rightarrow> string \<Rightarrow> LabelMap \<Rightarrow> go_panic + KvPolicy" where
  "createRestrictAutomountSATokenPolicy ag ms policyInterface name namespace labels =
     (if kvp_ClusterPolicy policyInterface then Inl TypeAssertion
      else go_bind (set_tags ms policyInterface) (\<lambda>policy.
        let policy = policy\<lparr>kvp_Name := name @ ''-'' @ ms_Name ms, kvp_Namespace := namespace\<rparr> in
        case kvp_Rules policy of
          [] \<Rightarrow> Inl IndexOutOfRange
        | rule # rules \<Rightarrow>
            (case kr_Any rule of
               [] \<Rightarrow> Inl IndexOutOfRange
             | kinds # any \<Rightarrow>
                 (case kr_RawAnyAllConditions rule of
                    None \<Rightarrow> Inl NilDereference
                  | Some preconditions \<Rightarrow>
                      go_bind (ag_precondition ag ''template'' labels preconditions) (\<lambda>preconditions.
                        case kr_RawPattern rule of
                          None \<Rightarrow> Inl NilDereference
                        | Some pattern \<Rightarrow> Inr (policy\<lparr>kvp_Rules := rule\<lparr>kr_Any := [''Deployment''] # any,
                              kr_RawAnyAllConditions := Some preconditions,
                              kr_RawPattern := Some (ag_pattern ag ''spec.template'' pattern)\<rparr> # rules\<rparr>))))))"

text \<open>\<^verbatim>\<open>automount\<close> stands for \<^verbatim>\<open>ShouldSATokenBeAutoMounted\<close>.\<close>

definition kyverno_step ::
  "Autogen \<Rightarrow> (string \<Rightarrow> LabelMap \<Rightarrow> go_panic + bool) \<Rightarrow> string \<Rightarrow> string \<Rightarrow> LabelMap \<Rightarrow>
   KvPolicy list \<times> string list \<Rightarrow> MatchSpec \<Rightarrow> go_panic + KvPolicy list \<times> string list" where
  "kyverno_step ag automount name namespace labels = (\<lambda>(policies, policiesToBeDeleted) ms.
     case ms_KyvernoPolicy ms of
       None \<Rightarrow> Inr (policies, policiesToBeDeleted)
     | Some p \<Rightarrow>
         if ms_Name ms = ''restrict-automount-sa-token'' then
           go_bind (automount namespace labels) (\<lambda>mounted.
             if \<not> mounted then
               go_bind (createRestrictAutomountSATokenPolicy ag ms p name namespace labels) (\<lambda>policy.
                 Inr (if \<not> containsRequiredAnnotations (kvp_Annotations policy) then (policies, policiesToBeDeleted)
                      else (policies @ [policy], policiesToBeDeleted)))
             else Inr (policies, policiesToBeDeleted @ [name @ ''-'' @ ms_Name ms]))
         else Inr (policies, policiesToBeDeleted))"

definition generateKyvernoPolicy ::
  "Autogen \<Rightarrow> (string \<Rightarrow> LabelMap \<Rightarrow> go_panic + bool) \<Rightarrow> MatchSpec list \<Rightarrow> string \<Rightarrow> string \<Rightarrow> LabelMap \<Rightarrow>
   go_panic + KvPolicy list \<times> string list" where
  "generateKyvernoPolicy ag automount policyRules name namespace labels =
     foldM (kyverno_step ag automount name namespace labels) ([], []) (rules_from policyRules 0)"

definition createGenericKyvernoPolicy :: "MatchSpec \<Rightarrow> KvPolicy \<Rightarrow> go_panic + KvPolicy" where
  "createGenericKyvernoPolicy ms p = set_tags ms p"

definition generateGenericKyvernoPolicy :: "MatchSpec list \<Rightarrow> string list \<Rightarrow> go_panic + KvPolicy list" where
  "generateGenericKyvernoPolicy policyRules genericAdmissionControllerPolicyList =
     foldM (\<lambda>policies ms.
       case ms_KyvernoPolicy ms of
         None \<Rightarrow> Inr policies
       | Some p \<Rightarrow>
           if ms_Name ms \<in> set genericAdmissionControllerPolicyList then
             go_bind (createGenericKyvernoPolicy ms p) (\<lambda>policy.
               Inr (if \<not> containsRequiredAnnotations (kvp_Annotations policy) then policies else policies @ [policy]))
           else Inr policies) [] (rules_from policyRules 0)"

definition isNamespaceAllowed :: "string \<Rightarrow> string list \<Rightarrow> string list \<Rightarrow> bool" where
  "isNamespaceAllowed namespace nsNotFilter nsFilter =
     (if length nsFilter > 0 then list_ex (\<lambda>ns. namespace = ns) nsFilter
      else if length nsNotFilter > 0 then \<not> list_ex (\<lambda>ns. namespace = ns) nsNotFilter
      else True)"

section \<open>A run of the worker\<close>

record Workload_k8s =
  wk_Name :: string
  wk_Namespace :: string
  wk_Owners :: nat
  wk_Labels :: LabelMap

record RecEnv =
  re_Version :: string
  re_latestRelease :: string
  re_lib :: TemplateLib
  re_fetch :: "string \<Rightarrow> string + Files"
  re_cachePath :: string
  re_HostPolicy :: bool
  re_nodes :: "string + (string \<times> LabelMap) list"
  re_NsNotFilter :: "string list"
  re_AdmissionController :: bool
  re_acNsNotFilter :: "string list"
  re_acNsFilter :: "string list"
  re_GenericPolicyList :: "string list"
  re_autogen :: Autogen
  re_automount :: "string \<Rightarrow> LabelMap \<Rightarrow> go_panic + bool"
  re_kyverno :: "KvPolicy \<Rightarrow> KyvernoPolicy"
  re_JSONToYAML :: "string \<Rightarrow> string option"
  re_sys :: SysEnv
  re_sets :: "ResourceSetMap \<Rightarrow> ResourceSetMap"
  re_now :: int

record RecState =
  rc_Templates :: TemplateState
  rc_DeployNsName :: "Deployment list"
  rc_Sys :: SysState

text \<open>The result is a pointer that is never nil: to the deployment, or to an empty one if it is known.\<close>

definition uniqueNsDeploy :: "string \<Rightarrow> string \<Rightarrow> Deployment list \<Rightarrow> Deployment" where
  "uniqueNsDeploy deployName deployNamespace DeployNsName =
     (if list_ex (\<lambda>data. dep_Name data = deployName \<and> dep_Namespace data = deployNamespace) DeployNsName
      then \<lparr>dep_Name = [], dep_Namespace = [], dep_Labels = []\<rparr>
      else \<lparr>dep_Name = deployName, dep_Namespace = deployNamespace, dep_Labels = []\<rparr>)"

definition add_deploy :: "Workload_k8s \<Rightarrow> Deployment list \<Rightarrow> Deployment list" where
  "add_deploy d DeployNsName = DeployNsName @ [uniqueNsDeploy (wk_Name d) (wk_Namespace d) DeployNsName]"

definition harden :: "RecEnv \<Rightarrow> MatchSpec list \<Rightarrow> Workload_k8s \<Rightarrow> KnoxSystemPolicy list" where
  "harden env rules d = generateHardenPolicy (re_HostPolicy env) (re_nodes env) rules (wk_Name d) (wk_Namespace d) (wk_Labels d)"

text \<open>The inner loop, over the namespaces that are not to get policies.\<close>

definition harden_workload :: "RecEnv \<Rightarrow> MatchSpec list \<Rightarrow> Workload_k8s \<Rightarrow> KnoxSystemPolicy list \<Rightarrow> KnoxSystemPolicy list" where
  "harden_workload env rules d policies =
     fold (\<lambda>ns policies. if wk_Namespace d \<noteq> ns \<and> wk_Owners d = 0 then policies @ harden env rules d else policies)
       (re_NsNotFilter env) policies"

text \<open>\<^verbatim>\<open>None\<close> is the result nil of a failed download.\<close>

definition GetHardenPolicy ::
  "RecEnv \<Rightarrow> Workload_k8s list \<Rightarrow> Workload_k8s list \<Rightarrow> Workload_k8s list \<Rightarrow> Workload_k8s list \<Rightarrow> RecState \<Rightarrow>
   go_panic + (KnoxSystemPolicy list option \<times> RecState)" where
  "GetHardenPolicy env deployments replicaSets statefulSets daemonSets st =
     (let (latest, templates) = isLatest (re_Version env) (re_latestRelease env) (rc_Templates st) in
      go_bind (if \<not> latest then DownloadAndUnzipRelease (re_lib env) (re_fetch env) (re_cachePath env) (re_Version env) templates
               else Inr (None, templates)) (\<lambda>(err, templates).
        let st = st\<lparr>rc_Templates := templates\<rparr> in
        if err \<noteq> None then Inr (None, st)
        else
          (let rules = ts_policyRules templates;
               (deploys, policies) = fold (\<lambda>d (deploys, policies). (add_deploy d deploys, harden_workload env rules d policies))
                 deployments (rc_DeployNsName st, []);
               policies = fold (harden_workload env rules) replicaSets policies;
               policies = fold (harden_workload env rules) statefulSets policies;
               policies = fold (harden_workload env rules) daemonSets policies
           in Inr (Some policies, st\<lparr>rc_DeployNsName := deploys\<rparr>))))"

text \<open>The policies for the admission controller go into the table of texts, which the state of the system policies holds.\<close>

definition generateAdmissionControllerPolicy ::
  "RecEnv \<Rightarrow> MatchSpec list \<Rightarrow> Workload_k8s \<Rightarrow> YamlRow list \<Rightarrow> go_panic + YamlRow list" where
  "generateAdmissionControllerPolicy env rules d rows =
     go_bind (generateKyvernoPolicy (re_autogen env) (re_automount env) rules (wk_Name d) (wk_Namespace d) (wk_Labels d))
       (\<lambda>(policies, policiesToBeDeleted).
         let driver = DBDriver_of (re_sys env);
             rows = DeleteKyvernoPolicies driver policiesToBeDeleted (wk_Namespace d) (wk_Labels d) rows
         in Inr (UpdateOrInsertKyvernoPolicies driver (se_Yaml (re_sys env)) (re_now env) (re_JSONToYAML env)
              (map (re_kyverno env) policies) (wk_Labels d) False rows))"

definition generateGenericAdmissionControllerPolicy :: "RecEnv \<Rightarrow> MatchSpec list \<Rightarrow> YamlRow list \<Rightarrow> go_panic + YamlRow list" where
  "generateGenericAdmissionControllerPolicy env rules rows =
     go_bind (generateGenericKyvernoPolicy rules (re_GenericPolicyList env)) (\<lambda>policies.
       Inr (UpdateOrInsertKyvernoPolicies (DBDriver_of (re_sys env)) (se_Yaml (re_sys env)) (re_now env) (re_JSONToYAML env)
         (map (re_kyverno env) policies) fmempty True rows))"

text \<open>The round of the loop over the deployments: the hardening policies are made again and dropped.\<close>

definition recommend_deployment :: "RecEnv \<Rightarrow> RecState \<Rightarrow> Workload_k8s \<Rightarrow> go_panic + RecState" where
  "recommend_deployment env st d =
     (let st = st\<lparr>rc_DeployNsName := add_deploy d (rc_DeployNsName st)\<rparr> in
      if re_AdmissionController env \<and> isNamespaceAllowed (wk_Namespace d) (re_acNsNotFilter env) (re_acNsFilter env) then
        go_bind (generateAdmissionControllerPolicy env (ts_policyRules (rc_Templates st)) d (sst_Yamls (rc_Sys st))) (\<lambda>rows.
          Inr (st\<lparr>rc_Sys := (rc_Sys st)\<lparr>sst_Yamls := rows\<rparr>\<rparr>))
      else Inr st)"

text \<open>The resources are \<^verbatim>\<open>None\<close> if there is no client or a list cannot be had. A nil list of policies, as it is without any policy,
  ends the run.\<close>

definition RecommendPolicyMain ::
  "RecEnv \<Rightarrow> (Workload_k8s list \<times> Workload_k8s list \<times> Workload_k8s list \<times> Workload_k8s list) option \<Rightarrow> RecState \<Rightarrow> go_panic + RecState" where
  "RecommendPolicyMain env resources st =
     (case resources of
        None \<Rightarrow> Inr st
      | Some (deployments, replicaSets, statefulSets, daemonSets) \<Rightarrow>
          go_bind (GetHardenPolicy env deployments replicaSets statefulSets daemonSets st) (\<lambda>(r, st).
            case r of
              None \<Rightarrow> Inr st
            | Some policies \<Rightarrow>
                if policies = [] then Inr st
                else
                  go_bind (UpdateSysPolicies (re_sys env) (re_sets env) (re_now env) policies (rc_Sys st)) (\<lambda>sys.
                  go_bind (foldM (recommend_deployment env) (st\<lparr>rc_Sys := sys\<rparr>) deployments) (\<lambda>st.
                    if re_AdmissionController env then
                      go_bind (generateGenericAdmissionControllerPolicy env (ts_policyRules (rc_Templates st)) (sst_Yamls (rc_Sys st)))
                        (\<lambda>rows. Inr (st\<lparr>rc_Sys := (rc_Sys st)\<lparr>sst_Yamls := rows\<rparr>\<rparr>))
                    else Inr st))))"

text \<open>The watcher. The policies that are made for a new deployment are dropped.\<close>

datatype watch_event = Added Workload_k8s | Deleted Workload_k8s | OtherChange

fun remove_deploy :: "string \<Rightarrow> string \<Rightarrow> Deployment list \<Rightarrow> Deployment list" where
  "remove_deploy name namespace [] = []"
| "remove_deploy name namespace (d # ds) =
     (if dep_Name d = name \<and> dep_Namespace d = namespace then ds else d # remove_deploy name namespace ds)"

definition initDeploymentWatcher :: "watch_event list \<Rightarrow> RecState \<Rightarrow> RecState" where
  "initDeploymentWatcher events st =
     fold (\<lambda>event st. case event of
        Deleted d \<Rightarrow> st\<lparr>rc_DeployNsName := remove_deploy (wk_Name d) (wk_Namespace d) (rc_DeployNsName st)\<rparr>
      | _ \<Rightarrow> st) events st"

section \<open>The policies of a run\<close>

text \<open>How often the loop over the namespaces makes the policies of a workload.\<close>

definition copies :: "RecEnv \<Rightarrow> Workload_k8s \<Rightarrow> nat" where
  "copies env d = (if wk_Owners d = 0 then length (filter (\<lambda>ns. ns \<noteq> wk_Namespace d) (re_NsNotFilter env)) else 0)"

definition copied :: "RecEnv \<Rightarrow> MatchSpec list \<Rightarrow> Workload_k8s \<Rightarrow> KnoxSystemPolicy list" where
  "copied env rules d = concat (replicate (copies env d) (harden env rules d))"

lemma harden_workload_copied: "harden_workload env rules d policies = policies @ copied env rules d"
proof -
  have "fold (\<lambda>ns policies. if wk_Namespace d \<noteq> ns \<and> wk_Owners d = 0 then policies @ harden env rules d else policies) nss policies =
      policies @ concat (replicate (if wk_Owners d = 0 then length (filter (\<lambda>ns. ns \<noteq> wk_Namespace d) nss) else 0) (harden env rules d))"
    for nss
    by (induction nss arbitrary: policies) auto
  then show ?thesis by (simp add: harden_workload_def copied_def copies_def)
qed

lemma harden_workloads: "fold (harden_workload env rules) ds policies = policies @ concat (map (copied env rules) ds)"
  by (induction ds arbitrary: policies) (simp_all add: harden_workload_copied)

lemma harden_deployments:
  "fold (\<lambda>d (deploys, policies). (add_deploy d deploys, harden_workload env rules d policies)) ds (deploys, policies) =
     (fold add_deploy ds deploys, policies @ concat (map (copied env rules) ds))"
  by (induction ds arbitrary: deploys policies) (simp_all add: harden_workload_copied)

lemma GetHardenPolicy_eq:
  assumes "GetHardenPolicy env ds rs ss dss st = Inr (Some policies, st')"
  shows "policies = concat (map (copied env (ts_policyRules (rc_Templates st'))) (ds @ rs @ ss @ dss)) \<and>
    rc_DeployNsName st' = fold add_deploy ds (rc_DeployNsName st) \<and> rc_Sys st' = rc_Sys st"
  using assms
  by (auto simp: GetHardenPolicy_def Let_def go_bind_Inr_iff harden_deployments harden_workloads split: prod.splits if_splits)

lemma length_add_deploy: "length (fold add_deploy ds deploys) = length deploys + length ds"
  by (induction ds arbitrary: deploys) (simp_all add: add_deploy_def)

text \<open>With one excluded namespace the policies that are recommended are those of the workloads without an owner outside of it, in the
  order of the lists, each once.\<close>

theorem GetHardenPolicy_exact:
  assumes "GetHardenPolicy env ds rs ss dss st = Inr (Some policies, st')" "re_NsNotFilter env = [excluded]"
  shows "policies = concat (map (harden env (ts_policyRules (rc_Templates st')))
    (filter (\<lambda>d. wk_Owners d = 0 \<and> wk_Namespace d \<noteq> excluded) (ds @ rs @ ss @ dss)))"
proof -
  have "concat (map (copied env rules) ws) =
      concat (map (harden env rules) (filter (\<lambda>d. wk_Owners d = 0 \<and> wk_Namespace d \<noteq> excluded) ws))" for rules ws
    by (induction ws) (auto simp: copied_def copies_def assms(2))
  with GetHardenPolicy_eq [OF assms(1)] show ?thesis by simp
qed

text \<open>With two excluded namespaces none is excluded: the policies of all workloads without an owner are made.\<close>

theorem GetHardenPolicy_excludes_nothing:
  assumes "GetHardenPolicy env ds rs ss dss st = Inr (Some policies, st')"
    and "ns1 \<in> set (re_NsNotFilter env)" "ns2 \<in> set (re_NsNotFilter env)" "ns1 \<noteq> ns2"
  shows "set policies = (\<Union>d \<in> {d \<in> set (ds @ rs @ ss @ dss). wk_Owners d = 0}. set (harden env (ts_policyRules (rc_Templates st')) d))"
proof -
  have "\<exists>ns \<in> set (re_NsNotFilter env). ns \<noteq> wk_Namespace d" for d :: Workload_k8s
    using assms(2-4) by metis
  then have pos: "copies env d = 0 \<longleftrightarrow> wk_Owners d \<noteq> 0" for d
    by (simp add: copies_def filter_empty_conv)
  have "set (copied env rules d) = (if wk_Owners d = 0 then set (harden env rules d) else {})" for rules d
    using pos [of d] by (cases "copies env d") (auto simp: copied_def)
  with GetHardenPolicy_eq [OF assms(1)] show ?thesis by (auto split: if_splits)
qed

section \<open>The table\<close>

lemma update_sys_policies_new:
  "fold (update_sys_policy ''sqlite3'' now) ps (db, loc) = (db', loc') \<Longrightarrow>
     sys_names db' = sys_names db \<and> loc' = loc @ filter (\<lambda>p. sys_name p \<notin> set (sys_names db)) ps"
proof (induction ps arbitrary: db loc)
  case (Cons p ps)
  show ?case
  proof (cases "sys_name p \<in> set (sys_names db)")
    case True
    with Cons.prems have "fold (update_sys_policy ''sqlite3'' now) ps (UpdateSystemPolicy ''sqlite3'' now p db, loc) = (db', loc')"
      by (simp add: update_sys_policy_step)
    from Cons.IH [OF this] True show ?thesis by (simp add: UpdateSystemPolicy_specs)
  next
    case False
    with Cons.prems have "fold (update_sys_policy ''sqlite3'' now) ps (db, loc @ [p]) = (db', loc')"
      by (simp add: update_sys_policy_step)
    from Cons.IH [OF this] False show ?thesis by simp
  qed
qed simp

lemma UpdateSysPolicies_names:
  assumes "DBDriver_of env = ''sqlite3''" "ps \<noteq> []"
  shows "\<exists>sys. UpdateSysPolicies env ord now ps st = Inr sys \<and>
    sys_names (sst_DB sys) = sys_names (sst_DB st) @ map sys_name (filter (\<lambda>p. sys_name p \<notin> set (sys_names (sst_DB st))) ps)"
proof -
  obtain published yamls where y:
    "InsertSysPoliciesYamlToDB ''sqlite3'' (se_Yaml env) now (se_marshal env) ps (sst_Yamls st) = (published, yamls)" by fastforce
  obtain db loc where loop: "fold (update_sys_policy ''sqlite3'' now) ps (sst_DB st, []) = (db, loc)" by fastforce
  note l = update_sys_policies_new [OF loop]
  then have "sys_name ` set loc \<inter> set (sys_names db) = {}" by auto
  from InsertSystemPolicies_specs(1) [OF this] l y loop assms show ?thesis
    by (auto simp: UpdateSysPolicies_def)
qed

lemma recommend_deployment_keeps:
  "recommend_deployment env st d = Inr st' \<Longrightarrow>
     sst_DB (rc_Sys st') = sst_DB (rc_Sys st) \<and> rc_Templates st' = rc_Templates st \<and>
     rc_DeployNsName st' = add_deploy d (rc_DeployNsName st)"
  by (auto simp: recommend_deployment_def Let_def go_bind_Inr_iff split: if_splits)

lemma recommend_deployments_keep:
  "foldM (recommend_deployment env) st ds = Inr st' \<Longrightarrow>
     sst_DB (rc_Sys st') = sst_DB (rc_Sys st) \<and> rc_DeployNsName st' = fold add_deploy ds (rc_DeployNsName st)"
  by (induction ds arbitrary: st) (auto simp: go_bind_Inr_iff dest: recommend_deployment_keeps)


text \<open>Without an excluded namespace nothing is recommended: no policy is made, and the run ends before the policies for the admission
  controller.\<close>

theorem RecommendPolicyMain_needs_exclusion:
  assumes "RecommendPolicyMain env resources st = Inr st'" "re_NsNotFilter env = []"
  shows "rc_Sys st' = rc_Sys st"
proof -
  show ?thesis
  proof (cases resources)
    case None
    with assms(1) show ?thesis by (simp add: RecommendPolicyMain_def)
  next
    case (Some r)
    obtain ds rs ss dss where r: "r = (ds, rs, ss, dss)" by (metis surj_pair)
    obtain policies st1 where h: "GetHardenPolicy env ds rs ss dss st = Inr (policies, st1)"
      using assms(1) Some r by (auto simp: RecommendPolicyMain_def go_bind_Inr_iff)
    then have rest: "st' = st1" if "policies = None \<or> policies = Some []"
      using assms(1) Some r that by (auto simp: RecommendPolicyMain_def)
    have "copied env rules = (\<lambda>d. [])" for rules by (simp add: copied_def copies_def assms(2) fun_eq_iff)
    with GetHardenPolicy_eq [of env ds rs ss dss st _ st1] h
    have "policies = None \<or> policies = Some []" by (cases policies) auto
    moreover have "rc_Sys st1 = rc_Sys st"
      using h by (auto simp: GetHardenPolicy_def Let_def go_bind_Inr_iff split: prod.splits if_splits)
    ultimately show ?thesis using rest by simp
  qed
qed

section \<open>Single policies\<close>

text \<open>The policy that is made of a rule has the specification of the rule with the labels of the workload as its selector.\<close>

theorem createPolicy_spec:
  "sysp_Spec (createPolicy ms name namespace labels) = (ms_Spec ms)\<lparr>ss_Selector := \<lparr>sel_MatchLabels = labels\<rparr>\<rparr>"
proof (cases "ms_Spec ms")
  case (fields severity tags msg selector p f n action)
  then show ?thesis
    by (cases p; cases f; cases n)
      (auto simp: createPolicy_def addPolicyRule_def Let_def KnoxSystemSpec_zero_def KnoxSys_zero_def KnoxSystemPolicy_empty_def)
qed

text \<open>Names are not unique: the hyphens of the parts run together.\<close>

theorem createPolicy_same_name:
  assumes "ms_Kind m1 = KindKubeArmorPolicy" "ms_Kind m2 = KindKubeArmorPolicy" "ms_Name m1 = b @ ''-'' @ ms_Name m2"
  shows "sys_name (createPolicy m1 a ns1 l1) = sys_name (createPolicy m2 (a @ ''-'' @ b) ns2 l2)"
  using assms
  by (simp add: createPolicy_def sys_name_def lookup_str_def KindKubeArmorPolicy_def KindKubeArmorHostPolicy_def
      KnoxSystemPolicy_empty_def Let_def)

section \<open>Policies for the admission controller\<close>

text \<open>A template that the code expects.\<close>

definition kv_template :: "KvPolicy \<Rightarrow> bool" where
  "kv_template p \<longleftrightarrow> kvp_Annotations p \<noteq> None \<and> (\<not> kvp_ClusterPolicy p \<longrightarrow>
     (\<exists>rule rules kinds any. kvp_Rules p = rule # rules \<and> kr_Any rule = kinds # any \<and> kr_RawAnyAllConditions rule \<noteq> None \<and>
        kr_RawPattern rule \<noteq> None))"

definition good_rule :: "MatchSpec \<Rightarrow> bool" where
  "good_rule ms \<longleftrightarrow> (case ms_KyvernoPolicy ms of None \<Rightarrow> True
     | Some p \<Rightarrow> kv_template p \<and> (ms_Name ms = ''restrict-automount-sa-token'' \<longrightarrow> \<not> kvp_ClusterPolicy p))"

definition autogen_total :: "Autogen \<Rightarrow> bool" where
  "autogen_total ag \<longleftrightarrow> (\<forall>path labels c. \<exists>c'. ag_precondition ag path labels c = Inr c')"

definition automount_total :: "(string \<Rightarrow> LabelMap \<Rightarrow> go_panic + bool) \<Rightarrow> bool" where
  "automount_total automount \<longleftrightarrow> (\<forall>namespace labels. \<exists>b. automount namespace labels = Inr b)"

lemma createRestrict_total:
  assumes "kv_template p" "\<not> kvp_ClusterPolicy p" "autogen_total ag"
  shows "\<exists>policy. createRestrictAutomountSATokenPolicy ag ms p name namespace labels = Inr policy \<and>
    kvp_Name policy = name @ ''-'' @ ms_Name ms \<and> kvp_Namespace policy = namespace \<and>
    kr_Any (hd (kvp_Rules policy)) = [''Deployment''] # tl (kr_Any (hd (kvp_Rules p))) \<and> tl (kvp_Rules policy) = tl (kvp_Rules p)"
proof -
  from assms(1,2) obtain a rule rules kinds any c pat where p: "kvp_Annotations p = Some a" "kvp_Rules p = rule # rules"
    "kr_Any rule = kinds # any" "kr_RawAnyAllConditions rule = Some c" "kr_RawPattern rule = Some pat"
    by (auto simp: kv_template_def)
  from assms(3) obtain c' where "ag_precondition ag ''template'' labels c = Inr c'"
    unfolding autogen_total_def by blast
  with p assms(2) show ?thesis by (simp add: createRestrictAutomountSATokenPolicy_def set_tags_def)
qed

lemma kyverno_step_total:
  assumes "good_rule ms" "autogen_total ag" "automount_total automount"
  shows "\<exists>r. kyverno_step ag automount name namespace labels s ms = Inr r"
proof (cases "ms_KyvernoPolicy ms")
  case None
  then show ?thesis by (cases s) (simp add: kyverno_step_def)
next
  case (Some p)
  from assms(3) obtain b where b: "automount namespace labels = Inr b" unfolding automount_total_def by blast
  have "\<exists>q. createRestrictAutomountSATokenPolicy ag ms p name namespace labels = Inr q" if "ms_Name ms = ''restrict-automount-sa-token''"
  proof -
    from assms(1) Some that have "kv_template p" "\<not> kvp_ClusterPolicy p" by (simp_all add: good_rule_def)
    from createRestrict_total [OF this assms(2)] show ?thesis by blast
  qed
  with Some b show ?thesis by (cases s) (auto simp: kyverno_step_def)
qed

lemma generateKyvernoPolicy_total:
  assumes "list_all good_rule rules" "autogen_total ag" "automount_total automount"
  shows "\<exists>r. generateKyvernoPolicy ag automount rules name namespace labels = Inr r"
  unfolding generateKyvernoPolicy_def rules_from_drop drop_0
  using foldM_total [where I = "\<lambda>_. True" and f = "kyverno_step ag automount name namespace labels" and s = "([], [])" and xs = rules]
    kyverno_step_total [OF _ assms(2,3)] assms(1) by (auto simp: list_all_iff)

lemma generateGenericKyvernoPolicy_total:
  assumes "list_all good_rule rules"
  shows "\<exists>r. generateGenericKyvernoPolicy rules names = Inr r"
proof -
  let ?f = "\<lambda>policies ms. case ms_KyvernoPolicy ms of None \<Rightarrow> Inr policies
    | Some p \<Rightarrow> if ms_Name ms \<in> set names then go_bind (createGenericKyvernoPolicy ms p) (\<lambda>policy.
          Inr (if \<not> containsRequiredAnnotations (kvp_Annotations policy) then policies else policies @ [policy])) else Inr policies"
  have "\<exists>r. ?f s ms = Inr r" if "good_rule ms" for s ms
    using that by (auto simp: good_rule_def kv_template_def createGenericKyvernoPolicy_def set_tags_def split: option.splits)
  then show ?thesis
    unfolding generateGenericKyvernoPolicy_def rules_from_drop drop_0
    using foldM_total [where I = "\<lambda>_. True" and f = ?f and s = "[]" and xs = rules] assms by (simp add: list_all_iff)
qed

text \<open>A run does not panic if the templates in use, or those that a download leaves, have the parts that the code expects.\<close>

theorem RecommendPolicyMain_safe:
  assumes "GetHardenPolicy env ds rs ss dss st0 = Inr (ps, st1)" "list_all good_rule (ts_policyRules (rc_Templates st1))"
    and "autogen_total (re_autogen env)" "automount_total (re_automount env)"
    and "DBDriver_of (re_sys env) = ''sqlite3''"
  shows "\<exists>st'. RecommendPolicyMain env (Some (ds, rs, ss, dss)) st0 = Inr st'"
proof -
  note h = assms(1,2)
  show ?thesis
  proof (cases "ps = None \<or> ps = Some []")
    case True
    with h show ?thesis by (auto simp: RecommendPolicyMain_def)
  next
    case False
    then obtain policies where p: "ps = Some policies" "policies \<noteq> []" by auto
    from UpdateSysPolicies_names [OF assms(5) p(2)] obtain sys where
      sys: "UpdateSysPolicies (re_sys env) (re_sets env) (re_now env) policies (rc_Sys st1) = Inr sys" by blast
    let ?I = "\<lambda>st. rc_Templates st = rc_Templates st1"
    have step: "\<exists>st'. recommend_deployment env st d = Inr st' \<and> ?I st'" if "?I st" for st d
    proof -
      obtain r where "generateKyvernoPolicy (re_autogen env) (re_automount env) (ts_policyRules (rc_Templates st1))
          (wk_Name d) (wk_Namespace d) (wk_Labels d) = Inr r"
        using generateKyvernoPolicy_total [OF h(2) assms(3,4)] by blast
      with that show ?thesis
        by (cases r) (simp add: recommend_deployment_def generateAdmissionControllerPolicy_def Let_def)
    qed
    have "\<exists>st2. foldM (recommend_deployment env) (st1\<lparr>rc_Sys := sys\<rparr>) ds = Inr st2 \<and> ?I st2"
      by (rule foldM_total) (use step in auto)
    then obtain st2 where st2: "foldM (recommend_deployment env) (st1\<lparr>rc_Sys := sys\<rparr>) ds = Inr st2" "?I st2" by blast
    from generateGenericKyvernoPolicy_total [OF h(2), of "re_GenericPolicyList env"] st2(2) obtain g where
      "generateGenericKyvernoPolicy (ts_policyRules (rc_Templates st2)) (re_GenericPolicyList env) = Inr g" by auto
    with h p sys st2(1) show ?thesis
      by (simp add: RecommendPolicyMain_def generateGenericAdmissionControllerPolicy_def)
  qed
qed

section \<open>Examples\<close>

definition demo_rec_env :: "string list \<Rightarrow> RecEnv" where
  "demo_rec_env excluded = \<lparr>re_Version = ''v1'', re_latestRelease = [], re_lib = demo_lib, re_fetch = (\<lambda>_. Inl ''offline''),
     re_cachePath = ''/c'', re_HostPolicy = False, re_nodes = Inr [], re_NsNotFilter = excluded, re_AdmissionController = False,
     re_acNsNotFilter = [], re_acNsFilter = [], re_GenericPolicyList = [],
     re_autogen = \<lparr>ag_precondition = (\<lambda>_ _ c. Inr c), ag_pattern = (\<lambda>_ p. p)\<rparr>, re_automount = (\<lambda>_ _. Inr True),
     re_kyverno = (\<lambda>p. \<lparr>kv_Kind = kvp_Kind p, kv_Name = kvp_Name p, kv_Namespace = kvp_Namespace p, kv_json = None\<rparr>),
     re_JSONToYAML = Some, re_sys = demo_env True, re_sets = id, re_now = 7\<rparr>"

definition demo_rec_state :: RecState where
  "demo_rec_state = \<lparr>rc_Templates = \<lparr>ts_policyRules = [demo_template], ts_CurrentVersion = ''v1'', ts_LatestVersion = ''v1''\<rparr>,
     rc_DeployNsName = [], rc_Sys = demo_state []\<rparr>"

definition demo_workload :: "string \<Rightarrow> Workload_k8s" where
  "demo_workload ns = \<lparr>wk_Name = ''web'', wk_Namespace = ns, wk_Owners = 0, wk_Labels = fmempty\<rparr>"

definition demo_policy_of :: "string \<Rightarrow> KnoxSystemPolicy" where
  "demo_policy_of ns = createPolicy demo_template ''web'' ns fmempty"

lemma demo_harden: "harden (demo_rec_env excluded) [demo_template] (demo_workload ns) = [demo_policy_of ns]"
  by (simp add: harden_def demo_rec_env_def demo_workload_def generateHardenPolicy_def generateKnoxSystemPolicy_def rules_from_drop
      demo_template_def genericPolicy_def demo_policy_of_def)

lemma demo_GetHardenPolicy:
  "GetHardenPolicy (demo_rec_env excluded) [demo_workload ns] [] [] [] demo_rec_state =
     Inr (Some (concat (replicate (length (filter (\<lambda>e. e \<noteq> ns) excluded)) [demo_policy_of ns])),
       demo_rec_state\<lparr>rc_DeployNsName := [\<lparr>dep_Name = ''web'', dep_Namespace = ns, dep_Labels = []\<rparr>]\<rparr>)"
proof -
  have e: "re_Version (demo_rec_env excluded) = ''v1''" "re_NsNotFilter (demo_rec_env excluded) = excluded"
    by (simp_all add: demo_rec_env_def)
  have s: "rc_Templates demo_rec_state = \<lparr>ts_policyRules = [demo_template], ts_CurrentVersion = ''v1'', ts_LatestVersion = ''v1''\<rparr>"
    "rc_DeployNsName demo_rec_state = []" by (simp_all add: demo_rec_state_def)
  have w: "wk_Namespace (demo_workload ns) = ns" "wk_Name (demo_workload ns) = ''web''" "wk_Owners (demo_workload ns) = 0"
    by (simp_all add: demo_workload_def)
  show ?thesis
    by (simp add: GetHardenPolicy_def isLatest_def e s harden_workload_copied copied_def copies_def w demo_harden add_deploy_def
        uniqueNsDeploy_def Let_def)
qed

theorem GetHardenPolicy_exact_witness:
  "GetHardenPolicy (demo_rec_env [''kube'']) [demo_workload ''shop''] [] [] [] demo_rec_state =
     Inr (Some [demo_policy_of ''shop''], demo_rec_state\<lparr>rc_DeployNsName := [\<lparr>dep_Name = ''web'', dep_Namespace = ''shop'', dep_Labels = []\<rparr>]\<rparr>)"
proof -
  note g = demo_GetHardenPolicy [of "[''kube'']" "''shop''"]
  have "re_NsNotFilter (demo_rec_env [''kube'']) = [''kube'']" by (simp add: demo_rec_env_def)
  from GetHardenPolicy_exact [OF g this] g show ?thesis
    by (simp add: demo_harden demo_rec_state_def)
qed

theorem GetHardenPolicy_excludes_nothing_witness:
  "\<exists>ps st. GetHardenPolicy (demo_rec_env [''kube'', ''ci'']) [demo_workload ''kube''] [] [] [] demo_rec_state = Inr (Some ps, st) \<and>
     demo_policy_of ''kube'' \<in> set ps"
proof -
  note g = demo_GetHardenPolicy [of "[''kube'', ''ci'']" "''kube''"]
  have e: "''kube'' \<in> set (re_NsNotFilter (demo_rec_env [''kube'', ''ci'']))" "''ci'' \<in> set (re_NsNotFilter (demo_rec_env [''kube'', ''ci'']))"
    by (simp_all add: demo_rec_env_def)
  have w: "wk_Owners (demo_workload ''kube'') = 0" by (simp add: demo_workload_def)
  from GetHardenPolicy_excludes_nothing [OF g e] g w show ?thesis
    by (auto simp: demo_harden demo_rec_state_def)
qed

lemma demo_run_ends:
  assumes "excluded \<noteq> []" "''shop'' \<notin> set excluded"
  shows "\<exists>st. RecommendPolicyMain (demo_rec_env excluded) (Some ([demo_workload ''shop''], [], [], [])) demo_rec_state = Inr st"
proof -
  have p: "concat (replicate (length (filter (\<lambda>e. e \<noteq> ''shop'') excluded)) [demo_policy_of ''shop'']) \<noteq> []"
    using assms by (cases excluded) auto
  have d: "DBDriver_of (re_sys (demo_rec_env excluded)) = ''sqlite3''" by (simp add: DBDriver_of_def demo_rec_env_def demo_env_def)
  have a: "\<not> re_AdmissionController (demo_rec_env excluded)" by (simp add: demo_rec_env_def)
  from UpdateSysPolicies_names [OF d p] obtain sys where
    "UpdateSysPolicies (re_sys (demo_rec_env excluded)) (re_sets (demo_rec_env excluded)) (re_now (demo_rec_env excluded))
      (concat (replicate (length (filter (\<lambda>e. e \<noteq> ''shop'') excluded)) [demo_policy_of ''shop''])) (rc_Sys demo_rec_state) = Inr sys"
    by blast
  then have u: "UpdateSysPolicies (re_sys (demo_rec_env excluded)) (re_sets (demo_rec_env excluded)) (re_now (demo_rec_env excluded))
      (replicate (length (filter (\<lambda>e. e \<noteq> ''shop'') excluded)) (demo_policy_of ''shop'')) (rc_Sys demo_rec_state) = Inr sys"
    by simp
  show ?thesis
    using p a by (auto simp: RecommendPolicyMain_def demo_GetHardenPolicy recommend_deployment_def u)
qed


theorem RecommendPolicyMain_needs_exclusion_witness:
  "\<exists>st. RecommendPolicyMain (demo_rec_env []) (Some ([demo_workload ''shop''], [], [], [])) demo_rec_state = Inr st \<and>
     rc_Sys st = rc_Sys demo_rec_state"
proof -
  have r: "RecommendPolicyMain (demo_rec_env []) (Some ([demo_workload ''shop''], [], [], [])) demo_rec_state =
      Inr (demo_rec_state\<lparr>rc_DeployNsName := [\<lparr>dep_Name = ''web'', dep_Namespace = ''shop'', dep_Labels = []\<rparr>]\<rparr>)"
    by (simp add: RecommendPolicyMain_def demo_GetHardenPolicy)
  have "re_NsNotFilter (demo_rec_env []) = []" by (simp add: demo_rec_env_def)
  from RecommendPolicyMain_needs_exclusion [OF r this] r show ?thesis by blast
qed

theorem RecommendPolicyMain_safe_witness:
  "\<exists>st. RecommendPolicyMain (demo_rec_env [''kube'']) (Some ([demo_workload ''shop''], [], [], [])) demo_rec_state = Inr st"
proof -
  have d: "DBDriver_of (re_sys (demo_rec_env [''kube''])) = ''sqlite3''" by (simp add: DBDriver_of_def demo_rec_env_def demo_env_def)
  have t: "autogen_total (re_autogen (demo_rec_env [''kube'']))" "automount_total (re_automount (demo_rec_env [''kube'']))"
    by (auto simp: demo_rec_env_def autogen_total_def automount_total_def intro: exI [of _ True])
  have "list_all good_rule [demo_template]" by (simp add: good_rule_def demo_template_def)
  then show ?thesis
    using RecommendPolicyMain_safe [OF demo_GetHardenPolicy [of "[''kube'']" "''shop''"] _ t d] by (simp add: demo_rec_state_def)
qed

theorem createPolicy_same_name_witness:
  "sys_name (createPolicy (demo_template\<lparr>ms_Name := ''b-x''\<rparr>) ''a'' ''n'' fmempty) =
   sys_name (createPolicy (demo_template\<lparr>ms_Name := ''x''\<rparr>) ''a-b'' ''n'' fmempty)"
  using createPolicy_same_name [of "demo_template\<lparr>ms_Name := ''b-x''\<rparr>" "demo_template\<lparr>ms_Name := ''x''\<rparr>" "''b''" "''a''"]
  by (simp add: demo_template_def KindKubeArmorPolicy_def)

end
