(* ===== verification/DiscoveredPolicies.thy ===== *)
theory DiscoveredPolicies
  imports Libs
begin

text \<open>
  The controller of discovered policies: \<^verbatim>\<open>pkg/discoveredpolicy/controllers\<close> with its objects in
  \<^verbatim>\<open>api/security.kubearmor.com/v1\<close>, and \<^verbatim>\<open>src/cluster/dspHandler.go\<close>, which makes them. A discovered policy holds a
  policy as text and a status, Inactive at first; the user sets it to Active, and the controller then creates the policy in the cluster,
  or deletes it when the status is Inactive. A watcher sets the status back when someone else deletes the policy.

  The state is that of the Kubernetes API: the discovered policies and the policies of three kinds by namespace and name, and the
  notifications of deletions that have not been handled yet. A call of the API does what is documented, or fails with any error and changes
  nothing: the errors are a parameter of each operation. Decoding and merging of JSON are parameters.
\<close>

section \<open>Objects\<close>

text \<open>The constants of \<^verbatim>\<open>common.go\<close>.\<close>

definition DspCreated :: string where "DspCreated = ''Discovered Policy Has Been Created''"
definition PolicyIsInactive :: string where "PolicyIsInactive = ''Policy status is Currently Inactive''"
definition Activated :: string where "Activated = ''Policy has been deployed and Active''"
definition UnsupportedPolicyType :: string where "UnsupportedPolicyType = ''Provided Policy Kind is not supported''"
definition ParsingFailed :: string where "ParsingFailed = ''Unable to parse the specified policy''"
definition ValidationFailed :: string where "ValidationFailed = ''Policy Validation Failed''"
definition ValidationFailedReason :: string where "ValidationFailedReason = ''Policy NamespacedName should match with dsp NamespacedName''"
definition UnknownStatus :: string where "UnknownStatus = ''Policy Resource Status is Unknown''"
definition InactivationFailed :: string where "InactivationFailed = ''Unable to Inactivate the Policy''"
definition ActivationFailed :: string where "ActivationFailed = ''Policy Activation Failed''"
definition UpdationFailed :: string where "UpdationFailed = ''Policy Rules Updation Failed''"

lemmas dsp_constants = DspCreated_def PolicyIsInactive_def Activated_def UnsupportedPolicyType_def ParsingFailed_def ValidationFailed_def
  ValidationFailedReason_def UnknownStatus_def InactivationFailed_def ActivationFailed_def UpdationFailed_def

text \<open>Namespace and name.\<close>

type_synonym nskey = "string \<times> string"

record DiscoveredPolicySpec =
  dsp_PolicyStatus :: string
  dsp_Policy :: "string option"

record DiscoveredPolicyStatus =
  dst_PolicyPhase :: string
  dst_PolicyKind :: string
  dst_LastUpdatedTime :: int
  dst_Message :: string
  dst_Reason :: string

record DiscoveredPolicy =
  dsp_Name :: string
  dsp_Namespace :: string
  dsp_Deleting :: bool
  dsp_Spec :: DiscoveredPolicySpec
  dsp_Status :: DiscoveredPolicyStatus

definition DiscoveredPolicyStatus_zero :: DiscoveredPolicyStatus where
  "DiscoveredPolicyStatus_zero = \<lparr>dst_PolicyPhase = [], dst_PolicyKind = [], dst_LastUpdatedTime = 0, dst_Message = [], dst_Reason = []\<rparr>"

text \<open>The kinds of policies of the cluster. A specification is what the code looks at, the lists of capabilities and protocols, which only
  policies of KubeArmor have and where nil differs from empty, the other fields of these two sections, and the other rules as text.\<close>

datatype pol_kind = KSP | NP | CNP

record PolicySpec =
  pls_Capabilities :: "string list option"
  pls_Protocols :: "string list option"
  pls_CapabilityFields :: string
  pls_NetworkFields :: string
  pls_Rules :: string

definition PolicySpec_zero :: PolicySpec where
  "PolicySpec_zero = \<lparr>pls_Capabilities = None, pls_Protocols = None, pls_CapabilityFields = [], pls_NetworkFields = [], pls_Rules = []\<rparr>"

record Crd =
  crd_Kind :: string
  crd_Name :: string
  crd_Namespace :: string
  crd_Spec :: PolicySpec

datatype decoded = DecodedKSP Crd | DecodedNP Crd | DecodedCNP Crd | DecodedOther

text \<open>The type assertions of the handlers.\<close>

fun crd_of :: "pol_kind \<Rightarrow> decoded \<Rightarrow> go_panic + Crd" where
  "crd_of KSP (DecodedKSP crd) = Inr crd"
| "crd_of NP (DecodedNP crd) = Inr crd"
| "crd_of CNP (DecodedCNP crd) = Inr crd"
| "crd_of _ _ = Inl TypeAssertion"

section \<open>The API of Kubernetes\<close>

datatype api_error = NotFound string | AlreadyExists string | InvalidObject string | ApiError string

fun err_text :: "api_error \<Rightarrow> string" where
  "err_text (NotFound s) = s"
| "err_text (AlreadyExists s) = s"
| "err_text (InvalidObject s) = s"
| "err_text (ApiError s) = s"

definition IsNotFound :: "api_error \<Rightarrow> bool" where
  "IsNotFound err = (case err of NotFound _ \<Rightarrow> True | _ \<Rightarrow> False)"

definition IsAlreadyExists :: "api_error \<Rightarrow> bool" where
  "IsAlreadyExists err = (case err of AlreadyExists _ \<Rightarrow> True | _ \<Rightarrow> False)"

definition IsInvalid :: "api_error \<Rightarrow> bool" where
  "IsInvalid err = (case err of InvalidObject _ \<Rightarrow> True | _ \<Rightarrow> False)"

definition IsCRDNotInstalledError :: "api_error \<Rightarrow> bool" where
  "IsCRDNotInstalledError err = (if Contains (err_text err) ''no matches for kind'' then True else False)"

definition isRecoverableError :: "api_error \<Rightarrow> bool" where
  "isRecoverableError err = (if IsInvalid err then False else if IsCRDNotInstalledError err then False else True)"

record DspCluster =
  cl_dsps :: "nskey \<Rightarrow> DiscoveredPolicy option"
  cl_pols :: "pol_kind \<Rightarrow> nskey \<Rightarrow> PolicySpec option"
  cl_watched :: "pol_kind list"
  cl_deleted :: "(pol_kind \<times> nskey) list"

text \<open>The errors of the calls of one operation: reading the discovered policy, the four calls for the policy, and writing the discovered
  policy or its status.\<close>

record Faults =
  flt_Dsp :: "api_error option"
  flt_Get :: "api_error option"
  flt_Create :: "api_error option"
  flt_Delete :: "api_error option"
  flt_Patch :: "api_error option"
  flt_Write :: "api_error option"

definition no_faults :: Faults where
  "no_faults = \<lparr>flt_Dsp = None, flt_Get = None, flt_Create = None, flt_Delete = None, flt_Patch = None, flt_Write = None\<rparr>"

record DspEnv =
  de_kind :: "string \<Rightarrow> string option"
  de_decode :: "string \<Rightarrow> string + decoded"
  de_unmarshal :: "pol_kind \<Rightarrow> string \<Rightarrow> PolicySpec"
  de_merge :: "string \<Rightarrow> string \<Rightarrow> string"
  de_not_found :: "nskey \<Rightarrow> string"
  de_now :: int

definition get_policy :: "DspEnv \<Rightarrow> Faults \<Rightarrow> pol_kind \<Rightarrow> nskey \<Rightarrow> DspCluster \<Rightarrow> api_error + PolicySpec" where
  "get_policy env f k key c = (case flt_Get f of Some err \<Rightarrow> Inl err
     | None \<Rightarrow> (case cl_pols c k key of None \<Rightarrow> Inl (NotFound (de_not_found env key)) | Some spec \<Rightarrow> Inr spec))"

definition put_policy :: "pol_kind \<Rightarrow> nskey \<Rightarrow> PolicySpec \<Rightarrow> DspCluster \<Rightarrow> DspCluster" where
  "put_policy k key spec c = c\<lparr>cl_pols := (cl_pols c)(k := (cl_pols c k)(key \<mapsto> spec))\<rparr>"

definition create_policy :: "Faults \<Rightarrow> pol_kind \<Rightarrow> nskey \<Rightarrow> PolicySpec \<Rightarrow> DspCluster \<Rightarrow> api_error + DspCluster" where
  "create_policy f k key spec c = (case flt_Create f of Some err \<Rightarrow> Inl err | None \<Rightarrow> Inr (put_policy k key spec c))"

definition patch_policy :: "DspEnv \<Rightarrow> Faults \<Rightarrow> pol_kind \<Rightarrow> nskey \<Rightarrow> PolicySpec \<Rightarrow> DspCluster \<Rightarrow> api_error + DspCluster" where
  "patch_policy env f k key spec c = (case flt_Patch f of Some err \<Rightarrow> Inl err
     | None \<Rightarrow> (case cl_pols c k key of None \<Rightarrow> Inl (NotFound (de_not_found env key)) | Some _ \<Rightarrow> Inr (put_policy k key spec c)))"

text \<open>A deletion is notified to the watcher of the kind.\<close>

definition remove_policy :: "pol_kind \<Rightarrow> nskey \<Rightarrow> DspCluster \<Rightarrow> DspCluster" where
  "remove_policy k key c = (if cl_pols c k key = None then c
     else c\<lparr>cl_pols := (cl_pols c)(k := (cl_pols c k)(key := None)),
            cl_deleted := cl_deleted c @ (if k \<in> set (cl_watched c) then [(k, key)] else [])\<rparr>)"

definition delete_policy :: "Faults \<Rightarrow> pol_kind \<Rightarrow> nskey \<Rightarrow> DspCluster \<Rightarrow> api_error + DspCluster" where
  "delete_policy f k key c = (case flt_Delete f of Some err \<Rightarrow> Inl err | None \<Rightarrow> Inr (remove_policy k key c))"

definition dsp_key :: "DiscoveredPolicy \<Rightarrow> nskey" where
  "dsp_key d = (dsp_Namespace d, dsp_Name d)"

definition write_dsp :: "nskey \<Rightarrow> DiscoveredPolicy \<Rightarrow> DspCluster \<Rightarrow> DspCluster" where
  "write_dsp key d c = c\<lparr>cl_dsps := (cl_dsps c)(key \<mapsto> d)\<rparr>"

section \<open>Reconciliation\<close>

definition isStatusChanged :: "DiscoveredPolicy \<Rightarrow> string \<Rightarrow> string \<Rightarrow> string \<Rightarrow> string \<Rightarrow> bool" where
  "isStatusChanged instance' phase kind message reason =
     (if dst_PolicyPhase (dsp_Status instance') \<noteq> phase then True
      else if dst_PolicyKind (dsp_Status instance') \<noteq> kind then True
      else if dst_Message (dsp_Status instance') \<noteq> message then True
      else if dst_Reason (dsp_Status instance') \<noteq> reason then True
      else False)"

text \<open>An error of the patch of the status is only logged.\<close>

definition updateDiscoveredPolicyStatus ::
  "DspEnv \<Rightarrow> Faults \<Rightarrow> DiscoveredPolicy \<Rightarrow> string \<Rightarrow> string \<Rightarrow> string \<Rightarrow> string \<Rightarrow> DspCluster \<Rightarrow> DspCluster" where
  "updateDiscoveredPolicyStatus env f instance' phase kind message reason c =
     (if \<not> isStatusChanged instance' phase kind message reason then c
      else if flt_Write f \<noteq> None then c
      else write_dsp (dsp_key instance')
        (instance'\<lparr>dsp_Status := \<lparr>dst_PolicyPhase = phase, dst_PolicyKind = kind, dst_LastUpdatedTime = de_now env,
           dst_Message = message, dst_Reason = reason\<rparr>\<rparr>) c)"

text \<open>The part of the handlers for an active policy after the policy has been read, or after reading it has failed with another error than
  that it does not exist: then \<^verbatim>\<open>pol\<close> is the empty policy, without a name.\<close>

definition update_dsp_rules ::
  "DspEnv \<Rightarrow> Faults \<Rightarrow> pol_kind \<Rightarrow> DiscoveredPolicy \<Rightarrow> Crd \<Rightarrow> nskey \<Rightarrow> PolicySpec \<Rightarrow> DspCluster \<Rightarrow> api_error option \<times> DspCluster" where
  "update_dsp_rules env f kind instance' crd key spec c =
     (let activated = (\<lambda>c. (None, updateDiscoveredPolicyStatus env f instance' ''Success'' (crd_Kind crd) Activated [] c)) in
      if crd_Spec crd \<noteq> spec then
        (case patch_policy env f kind key (crd_Spec crd) c of
           Inl err \<Rightarrow> (Some err, updateDiscoveredPolicyStatus env f instance' ''Failed'' (crd_Kind crd) UpdationFailed (err_text err) c)
         | Inr c \<Rightarrow> activated c)
      else activated c)"

text \<open>The three handlers are the same but for the kind and the lists that the first one completes.\<close>

definition handle_policy ::
  "DspEnv \<Rightarrow> Faults \<Rightarrow> pol_kind \<Rightarrow> (PolicySpec \<Rightarrow> PolicySpec) \<Rightarrow> DiscoveredPolicy \<Rightarrow> DspCluster \<Rightarrow>
   go_panic + (api_error option \<times> DspCluster)" where
  "handle_policy env f kind complete instance' c =
     (case dsp_Policy (dsp_Spec instance') of None \<Rightarrow> Inl NilDereference | Some raw \<Rightarrow>
      (case de_decode env raw of
         Inl err \<Rightarrow> Inr (None, updateDiscoveredPolicyStatus env f instance' ''Failed'' ''Unknown'' ParsingFailed err c)
       | Inr obj \<Rightarrow> go_bind (crd_of kind obj) (\<lambda>crd.
           let status = updateDiscoveredPolicyStatus env f instance';
               key = (crd_Namespace crd, crd_Name crd) in
           if crd_Name crd \<noteq> dsp_Name instance' \<or> crd_Namespace crd \<noteq> dsp_Namespace instance' then
             Inr (None, status ''Failed'' (crd_Kind crd) ValidationFailed ValidationFailedReason c)
           else let crd = crd\<lparr>crd_Spec := complete (crd_Spec crd)\<rparr> in
           if dsp_PolicyStatus (dsp_Spec instance') \<in> {''Inactive'', ''inactive''} then
             (case get_policy env f kind key c of
                Inl err \<Rightarrow>
                  if IsNotFound err then Inr (None, status ''Success'' (crd_Kind crd) DspCreated PolicyIsInactive c)
                  else Inr (Some err, status ''Unknown'' (crd_Kind crd) UnknownStatus (err_text err) c)
              | Inr _ \<Rightarrow>
                  (case delete_policy f kind key c of
                     Inl err \<Rightarrow> Inr (Some err, status ''Failed'' (crd_Kind crd) InactivationFailed (err_text err) c)
                   | Inr c \<Rightarrow> Inr (None, status ''Success'' (crd_Kind crd) DspCreated PolicyIsInactive c)))
           else if dsp_PolicyStatus (dsp_Spec instance') \<in> {''Active'', ''active''} then
             (case get_policy env f kind key c of
                Inl err \<Rightarrow>
                  if IsNotFound err then
                    (case create_policy f kind key (crd_Spec crd) c of
                       Inl err \<Rightarrow> Inr (Some err, status ''Failed'' (crd_Kind crd) ActivationFailed (err_text err) c)
                     | Inr c \<Rightarrow> Inr (None, status ''Success'' (crd_Kind crd) Activated [] c))
                  else Inr (update_dsp_rules env f kind instance' crd ([], []) PolicySpec_zero c)
              | Inr spec \<Rightarrow> Inr (update_dsp_rules env f kind instance' crd key spec c))
           else Inr (None, c))))"

text \<open>\<^verbatim>\<open>append([]T{}, xs...)\<close> is never nil. Both sections are new ones with nothing but the list: their severities, tags, messages and
  actions are dropped.\<close>

definition complete_ksp :: "PolicySpec \<Rightarrow> PolicySpec" where
  "complete_ksp spec = spec\<lparr>pls_Capabilities := Some (case pls_Capabilities spec of None \<Rightarrow> [] | Some xs \<Rightarrow> xs),
     pls_Protocols := Some (case pls_Protocols spec of None \<Rightarrow> [] | Some xs \<Rightarrow> xs),
     pls_CapabilityFields := [], pls_NetworkFields := []\<rparr>"

definition handleKubeArmorPolicy :: "DspEnv \<Rightarrow> Faults \<Rightarrow> DiscoveredPolicy \<Rightarrow> DspCluster \<Rightarrow> go_panic + (api_error option \<times> DspCluster)" where
  "handleKubeArmorPolicy env f instance' c = handle_policy env f KSP complete_ksp instance' c"

definition handleK8sNetworkPolicy :: "DspEnv \<Rightarrow> Faults \<Rightarrow> DiscoveredPolicy \<Rightarrow> DspCluster \<Rightarrow> go_panic + (api_error option \<times> DspCluster)" where
  "handleK8sNetworkPolicy env f instance' c = handle_policy env f NP id instance' c"

definition handleCiliumNetworkPolicy :: "DspEnv \<Rightarrow> Faults \<Rightarrow> DiscoveredPolicy \<Rightarrow> DspCluster \<Rightarrow> go_panic + (api_error option \<times> DspCluster)" where
  "handleCiliumNetworkPolicy env f instance' c = handle_policy env f CNP id instance' c"

text \<open>The error that the reconciler returns makes the manager call it again.\<close>

definition recoverable :: "api_error option \<times> DspCluster \<Rightarrow> api_error option \<times> DspCluster" where
  "recoverable = (\<lambda>(err, c). (case err of None \<Rightarrow> None | Some err \<Rightarrow> if isRecoverableError err then Some err else None, c))"

definition CreateOrUpdateReconciler ::
  "DspEnv \<Rightarrow> Faults \<Rightarrow> DiscoveredPolicy \<Rightarrow> DspCluster \<Rightarrow> go_panic + (api_error option \<times> DspCluster)" where
  "CreateOrUpdateReconciler env f crInstance c =
     (if dsp_PolicyStatus (dsp_Spec crInstance) = ''PendingUpdates'' then Inr (None, c)
      else case dsp_Policy (dsp_Spec crInstance) of None \<Rightarrow> Inl NilDereference | Some raw \<Rightarrow>
        (case de_kind env raw of None \<Rightarrow> Inl NilDereference | Some kind \<Rightarrow>
           if kind = ''KubeArmorPolicy'' then go_bind (handleKubeArmorPolicy env f crInstance c) (\<lambda>r. Inr (recoverable r))
           else if kind = ''CiliumNetworkPolicy'' then go_bind (handleCiliumNetworkPolicy env f crInstance c) (\<lambda>r. Inr (recoverable r))
           else if kind = ''NetworkPolicy'' then go_bind (handleK8sNetworkPolicy env f crInstance c) (\<lambda>r. Inr (recoverable r))
           else Inr (None, updateDiscoveredPolicyStatus env f crInstance ''Failed'' kind UnsupportedPolicyType [] c)))"

definition DeletionReconciler :: "DspCluster \<Rightarrow> go_panic + (api_error option \<times> DspCluster)" where
  "DeletionReconciler c = Inr (None, c)"

definition Reconcile :: "DspEnv \<Rightarrow> Faults \<Rightarrow> nskey \<Rightarrow> DspCluster \<Rightarrow> go_panic + (api_error option \<times> DspCluster)" where
  "Reconcile env f key c =
     (case flt_Dsp f of Some err \<Rightarrow> Inr (if IsNotFound err then None else Some err, c)
      | None \<Rightarrow> (case cl_dsps c key of None \<Rightarrow> Inr (None, c)
          | Some cr \<Rightarrow> if dsp_Deleting cr then DeletionReconciler c else CreateOrUpdateReconciler env f cr c))"

section \<open>The watcher\<close>

text \<open>The handler of a deletion. The object is \<^verbatim>\<open>None\<close> if the watcher has missed the deletion and gets a marker of another type.\<close>

definition policy_deleted :: "Faults \<Rightarrow> nskey option \<Rightarrow> DspCluster \<Rightarrow> go_panic + DspCluster" where
  "policy_deleted f obj c = (case obj of None \<Rightarrow> Inl TypeAssertion | Some key \<Rightarrow>
     Inr (if flt_Dsp f \<noteq> None then c
       else case cl_dsps c key of None \<Rightarrow> c
         | Some dsp \<Rightarrow> if flt_Write f \<noteq> None then c
             else write_dsp key (dsp\<lparr>dsp_Spec := (dsp_Spec dsp)\<lparr>dsp_PolicyStatus := ''Inactive''\<rparr>\<rparr>) c))"

text \<open>An informer is run for each kind of policies whose resource is available when the watchers start.\<close>

definition IsAPIResourceAvailable :: "string option \<Rightarrow> string + string list \<Rightarrow> string \<Rightarrow> bool" where
  "IsAPIResourceAvailable clientErr apiResources resource =
     (if clientErr \<noteq> None then False
      else case apiResources of Inl err \<Rightarrow> False | Inr names \<Rightarrow> if list_ex (\<lambda>n. n = resource) names then True else False)"

definition StartWatchers :: "(pol_kind \<Rightarrow> bool) \<Rightarrow> (pol_kind \<Rightarrow> bool) \<Rightarrow> (pol_kind \<Rightarrow> bool) \<Rightarrow> string option \<times> pol_kind list" where
  "StartWatchers available informer synced =
     fold (\<lambda>k (err, watched). if err \<noteq> None then (err, watched)
       else if available k then
         (if \<not> informer k then (Some ''Failed to initialize informer'', watched)
          else if \<not> synced k then (Some ''Failed to wait for cache sync'', watched @ [k])
          else (None, watched @ [k]))
       else (None, watched)) [KSP, CNP, NP] (None, [])"

section \<open>Discovery\<close>

datatype dsp_error = NoClient | DspError api_error

definition create_dsp :: "DspEnv \<Rightarrow> Faults \<Rightarrow> nskey \<Rightarrow> DiscoveredPolicy \<Rightarrow> DspCluster \<Rightarrow> api_error + DspCluster" where
  "create_dsp env f key d c = (case flt_Create f of Some err \<Rightarrow> Inl err
     | None \<Rightarrow> if cl_dsps c key \<noteq> None then Inl (AlreadyExists (de_not_found env key)) else Inr (write_dsp key d c))"

definition get_dsp :: "DspEnv \<Rightarrow> Faults \<Rightarrow> nskey \<Rightarrow> DspCluster \<Rightarrow> api_error + DiscoveredPolicy" where
  "get_dsp env f key c = (case flt_Dsp f of Some err \<Rightarrow> Inl err
     | None \<Rightarrow> (case cl_dsps c key of None \<Rightarrow> Inl (NotFound (de_not_found env key)) | Some d \<Rightarrow> Inr d))"

definition KUBEARMOR_POLICY :: string where "KUBEARMOR_POLICY = ''KubeArmorPolicy''"
definition CILIUM_NETWORK_POLICY :: string where "CILIUM_NETWORK_POLICY = ''CiliumNetworkPolicy''"
definition K8s_NETWORK_POLICY :: string where "K8s_NETWORK_POLICY = ''K8sNetworkPolicy''"

text \<open>The policies are \<^verbatim>\<open>None\<close> if they are nil.\<close>

definition AreRulesSame :: "PolicySpec option \<Rightarrow> PolicySpec option \<Rightarrow> string \<Rightarrow> go_panic + bool" where
  "AreRulesSame policyA policyB policyType =
     (if policyType \<in> {''KubeArmorPolicy'', ''CiliumNetworkPolicy'', ''NetworkPolicy''} then
        (case (policyA, policyB) of (Some a, Some b) \<Rightarrow> Inr (a = b) | _ \<Rightarrow> Inl TypeAssertion)
      else Inr False)"

definition kind_of_type :: "string \<Rightarrow> pol_kind option" where
  "kind_of_type policyType =
     (if policyType = ''KubeArmorPolicy'' then Some KSP
      else if policyType = ''CiliumNetworkPolicy'' then Some CNP
      else if policyType = ''K8sNetworkPolicy'' then Some NP
      else None)"

text \<open>The patch is merged into the stored object, the policy as well.\<close>

definition UpdateExisting ::
  "DspEnv \<Rightarrow> bool \<Rightarrow> Faults \<Rightarrow> string \<Rightarrow> string \<Rightarrow> string \<Rightarrow> string \<Rightarrow> DspCluster \<Rightarrow> go_panic + (dsp_error option \<times> DspCluster)" where
  "UpdateExisting env client f name namespace policyType pol c =
     (let key = (namespace, name) in
      if \<not> client then Inr (Some NoClient, c)
      else case get_dsp env f key c of Inl err \<Rightarrow> Inr (Some (DspError err), c)
      | Inr dsp \<Rightarrow>
          (case dsp_Policy (dsp_Spec dsp) of None \<Rightarrow> Inl NilDereference
           | Some raw \<Rightarrow>
               (let newPolicy = map_option (\<lambda>k. de_unmarshal env k pol) (kind_of_type policyType);
                    existingPolicy = map_option (\<lambda>k. de_unmarshal env k raw) (kind_of_type policyType) in
                go_bind (AreRulesSame existingPolicy newPolicy policyType) (\<lambda>same.
                  if same then Inr (None, c)
                  else
                    (let status = dsp_PolicyStatus (dsp_Spec dsp);
                         newStatus = (if status \<in> {''Active'', ''active''} then ''PendingUpdates'' else status) in
                     case flt_Write f of Some err \<Rightarrow> Inr (Some (DspError err), c)
                     | None \<Rightarrow> Inr (None, write_dsp key (dsp\<lparr>dsp_Spec :=
                         \<lparr>dsp_PolicyStatus = newStatus, dsp_Policy = Some (de_merge env raw pol)\<rparr>\<rparr>) c))))))"

definition CreateDsp ::
  "DspEnv \<Rightarrow> bool \<times> bool \<Rightarrow> Faults \<Rightarrow> string \<Rightarrow> string \<Rightarrow> string \<Rightarrow> string \<Rightarrow> DspCluster \<Rightarrow> go_panic + (dsp_error option \<times> DspCluster)" where
  "CreateDsp env clients f name namespace policyType pol c =
     (if \<not> fst clients then Inr (Some NoClient, c)
      else
        (let dsp = \<lparr>dsp_Name = name, dsp_Namespace = namespace, dsp_Deleting = False,
                    dsp_Spec = \<lparr>dsp_PolicyStatus = ''Inactive'', dsp_Policy = Some pol\<rparr>, dsp_Status = DiscoveredPolicyStatus_zero\<rparr> in
         case create_dsp env f (namespace, name) dsp c of
           Inl err \<Rightarrow> if IsAlreadyExists err then UpdateExisting env (snd clients) f name namespace policyType pol c
                     else Inr (Some (DspError err), c)
         | Inr c \<Rightarrow> Inr (None, c)))"

section \<open>Steps\<close>

text \<open>A step is one call of the discovery engine, one reconciliation, the handling of the notification at an index (or, with a marker, of
  a missed one), or an action of the user.\<close>

datatype dsp_event =
    Discovers "bool \<times> bool" Faults string string string string
  | Reconciles nskey Faults
  | Notified nat bool Faults
  | UserSets nskey string
  | UserCreates pol_kind nskey PolicySpec
  | UserDeletes pol_kind nskey
  | UserDeletesDsp nskey

fun dsp_step :: "DspEnv \<Rightarrow> DspCluster \<Rightarrow> dsp_event \<Rightarrow> go_panic + DspCluster" where
  "dsp_step env c (Discovers clients f name namespace policyType pol) =
     go_bind (CreateDsp env clients f name namespace policyType pol c) (\<lambda>(err, c). Inr c)"
| "dsp_step env c (Reconciles key f) = go_bind (Reconcile env f key c) (\<lambda>(err, c). Inr c)"
| "dsp_step env c (Notified i missed f) =
     (if i < length (cl_deleted c) then
        policy_deleted f (if missed then None else Some (snd (cl_deleted c ! i)))
          (c\<lparr>cl_deleted := take i (cl_deleted c) @ drop (Suc i) (cl_deleted c)\<rparr>)
      else Inr c)"
| "dsp_step env c (UserSets key status) =
     Inr (case cl_dsps c key of None \<Rightarrow> c
       | Some d \<Rightarrow> write_dsp key (d\<lparr>dsp_Spec := (dsp_Spec d)\<lparr>dsp_PolicyStatus := status\<rparr>\<rparr>) c)"
| "dsp_step env c (UserCreates k key spec) = Inr (if cl_pols c k key = None then put_policy k key spec c else c)"
| "dsp_step env c (UserDeletes k key) = Inr (remove_policy k key c)"
| "dsp_step env c (UserDeletesDsp key) = Inr (c\<lparr>cl_dsps := (cl_dsps c)(key := None)\<rparr>)"

definition dsp_run :: "DspEnv \<Rightarrow> DspCluster \<Rightarrow> dsp_event list \<Rightarrow> go_panic + DspCluster" where
  "dsp_run env c es = foldM (dsp_step env) c es"

section \<open>Rewriting\<close>

lemma no_faults_sel [simp]:
  "flt_Dsp no_faults = None" "flt_Get no_faults = None" "flt_Create no_faults = None" "flt_Delete no_faults = None"
  "flt_Patch no_faults = None" "flt_Write no_faults = None"
  by (simp_all add: no_faults_def)

lemma put_policy_sel [simp]:
  "cl_pols (put_policy k key spec c) = (cl_pols c)(k := (cl_pols c k)(key \<mapsto> spec))"
  "cl_dsps (put_policy k key spec c) = cl_dsps c" "cl_watched (put_policy k key spec c) = cl_watched c"
  "cl_deleted (put_policy k key spec c) = cl_deleted c"
  by (simp_all add: put_policy_def)

lemma write_dsp_sel [simp]:
  "cl_pols (write_dsp key d c) = cl_pols c" "cl_dsps (write_dsp key d c) = (cl_dsps c)(key \<mapsto> d)"
  "cl_watched (write_dsp key d c) = cl_watched c" "cl_deleted (write_dsp key d c) = cl_deleted c"
  by (simp_all add: write_dsp_def)

lemma remove_policy_sel [simp]:
  "cl_pols (remove_policy k key c) = (cl_pols c)(k := (cl_pols c k)(key := None))"
  "cl_dsps (remove_policy k key c) = cl_dsps c" "cl_watched (remove_policy k key c) = cl_watched c"
  "cl_deleted (remove_policy k key c) = cl_deleted c @ (if cl_pols c k key \<noteq> None \<and> k \<in> set (cl_watched c) then [(k, key)] else [])"
  by (auto simp: remove_policy_def fun_eq_iff)

lemma status_sel [simp]:
  "cl_pols (updateDiscoveredPolicyStatus env f d phase kind message reason c) = cl_pols c"
  "cl_watched (updateDiscoveredPolicyStatus env f d phase kind message reason c) = cl_watched c"
  "cl_deleted (updateDiscoveredPolicyStatus env f d phase kind message reason c) = cl_deleted c"
  by (simp_all add: updateDiscoveredPolicyStatus_def)

section \<open>What a reconciliation changes\<close>

abbreviation active :: "DiscoveredPolicy \<Rightarrow> bool" where
  "active d \<equiv> dsp_PolicyStatus (dsp_Spec d) \<in> {''Active'', ''active''}"

abbreviation inactive :: "DiscoveredPolicy \<Rightarrow> bool" where
  "inactive d \<equiv> dsp_PolicyStatus (dsp_Spec d) \<in> {''Inactive'', ''inactive''}"

inductive policy_change :: "pol_kind \<Rightarrow> DiscoveredPolicy \<Rightarrow> DspCluster \<Rightarrow> DspCluster \<Rightarrow> bool" for k d c where
  unchanged: "policy_change k d c c"
| removed: "inactive d \<Longrightarrow> policy_change k d c (remove_policy k (dsp_key d) c)"
| put: "active d \<Longrightarrow> key = dsp_key d \<or> key = ([], []) \<and> cl_pols c k key \<noteq> None \<Longrightarrow> policy_change k d c (put_policy k key spec c)"

inductive status_change :: "DspEnv \<Rightarrow> Faults \<Rightarrow> DiscoveredPolicy \<Rightarrow> DspCluster \<Rightarrow> DspCluster \<Rightarrow> bool" for env f d c where
  kept: "status_change env f d c c"
| written: "status_change env f d c (updateDiscoveredPolicyStatus env f d phase kind message reason c)"

lemma update_dsp_rules_changes:
  assumes "update_dsp_rules env f k d crd key spec c = (r, c')" "active d" "key = dsp_key d \<or> key = ([], [])"
  shows "\<exists>c1. policy_change k d c c1 \<and> status_change env f d c1 c'"
proof (cases "crd_Spec crd \<noteq> spec \<and> flt_Patch f = None \<and> cl_pols c k key \<noteq> None")
  case True
  then have "c' = updateDiscoveredPolicyStatus env f d ''Success'' (crd_Kind crd) Activated [] (put_policy k key (crd_Spec crd) c)"
    using assms(1) by (auto simp: update_dsp_rules_def patch_policy_def Let_def split: option.splits)
  moreover have "policy_change k d c (put_policy k key (crd_Spec crd) c)" using True assms(2,3) by (intro put) auto
  ultimately show ?thesis by (blast intro: written)
next
  case False
  then have "\<exists>phase message reason. c' = updateDiscoveredPolicyStatus env f d phase (crd_Kind crd) message reason c"
    using assms(1) by (auto simp: update_dsp_rules_def patch_policy_def Let_def split: option.splits if_splits)
  then show ?thesis by (blast intro: unchanged written)
qed

lemma handle_policy_changes:
  assumes "handle_policy env f k complete d c = Inr (r, c')"
  shows "\<exists>c1. policy_change k d c c1 \<and> status_change env f d c1 c'"
proof -
  note intros = unchanged written kept
  obtain raw where raw: "dsp_Policy (dsp_Spec d) = Some raw"
    using assms by (cases "dsp_Policy (dsp_Spec d)") (auto simp: handle_policy_def)
  show ?thesis
  proof (cases "de_decode env raw")
    case (Inl err)
    with assms raw show ?thesis by (auto simp: handle_policy_def intro: intros)
  next
    case (Inr obj)
    with assms raw obtain crd0 where crd0: "crd_of k obj = Inr crd0"
      by (cases "crd_of k obj") (auto simp: handle_policy_def)
    let ?crd = "crd0\<lparr>crd_Spec := complete (crd_Spec crd0)\<rparr>"
    show ?thesis
    proof (cases "crd_Name crd0 \<noteq> dsp_Name d \<or> crd_Namespace crd0 \<noteq> dsp_Namespace d")
      case True
      with assms raw Inr crd0 show ?thesis by (auto simp: handle_policy_def Let_def intro: intros)
    next
      case False
      then have key: "(crd_Namespace crd0, crd_Name crd0) = dsp_key d" by (simp add: dsp_key_def)
      consider "inactive d" | "active d" "\<not> inactive d" | "\<not> active d" "\<not> inactive d" by blast
      then show ?thesis
      proof cases
        case 1
        then have "policy_change k d c (remove_policy k (dsp_key d) c)" by (rule removed)
        with assms raw Inr crd0 False 1 key show ?thesis
          by (auto simp: handle_policy_def Let_def delete_policy_def split: sum.splits if_splits option.splits intro: intros)
      next
        case 2
        have put': "policy_change k d c (put_policy k (dsp_key d) (complete (crd_Spec crd0)) c)" using 2 by (intro put) auto
        show ?thesis
        proof (cases "get_policy env f k (dsp_key d) c")
          case (Inl err)
          show ?thesis
          proof (cases "IsNotFound err")
            case True
            with assms raw Inr crd0 False 2 key Inl put' show ?thesis
              by (auto simp: handle_policy_def Let_def create_policy_def split: sum.splits if_splits option.splits intro: intros)
          next
            case no: False
            with assms raw Inr crd0 False 2 key Inl have "update_dsp_rules env f k d ?crd ([], []) PolicySpec_zero c = (r, c')"
              by (auto simp: handle_policy_def Let_def)
            then show ?thesis using 2 by (intro update_dsp_rules_changes) auto
          qed
        next
          case spec: (Inr spec)
          with assms raw Inr crd0 False 2 key have "update_dsp_rules env f k d ?crd (dsp_key d) spec c = (r, c')"
            by (auto simp: handle_policy_def Let_def)
          then show ?thesis using 2 by (intro update_dsp_rules_changes) auto
        qed
      next
        case 3
        with assms raw Inr crd0 False key have "c' = c" by (auto simp: handle_policy_def Let_def)
        then show ?thesis by (blast intro: intros)
      qed
    qed
  qed
qed

lemma CreateOrUpdateReconciler_changes:
  assumes "CreateOrUpdateReconciler env f d c = Inr (r, c')"
  shows "\<exists>k c1. policy_change k d c c1 \<and> status_change env f d c1 c'"
proof -
  have go: "\<exists>k c1. policy_change k d c c1 \<and> status_change env f d c1 c'"
    if "go_bind (handle_policy env f k complete d c) (\<lambda>r. Inr (recoverable r)) = Inr (r, c')" for k complete
  proof -
    from that obtain r' where "handle_policy env f k complete d c = Inr (r', c')"
      by (auto simp: go_bind_Inr_iff recoverable_def split: prod.splits)
    from handle_policy_changes [OF this] show ?thesis by blast
  qed
  show ?thesis
    using assms go unfolding CreateOrUpdateReconciler_def handleKubeArmorPolicy_def handleCiliumNetworkPolicy_def handleK8sNetworkPolicy_def
    by (auto split: if_splits option.splits intro: unchanged kept written)
qed

lemma Reconcile_changes:
  assumes "Reconcile env f key c = Inr (r, c')"
  shows "c' = c \<or> (\<exists>d k c1. cl_dsps c key = Some d \<and> policy_change k d c c1 \<and> status_change env f d c1 c')"
proof (cases "flt_Dsp f = None \<and> (\<exists>d. cl_dsps c key = Some d \<and> \<not> dsp_Deleting d)")
  case True
  then obtain d where d: "cl_dsps c key = Some d" "\<not> dsp_Deleting d" by blast
  with True assms have "CreateOrUpdateReconciler env f d c = Inr (r, c')" by (simp add: Reconcile_def)
  from CreateOrUpdateReconciler_changes [OF this] d(1) show ?thesis by blast
next
  case False
  with assms show ?thesis by (auto simp: Reconcile_def DeletionReconciler_def split: option.splits)
qed

section \<open>Frame\<close>

text \<open>What the controller may not change of a discovered policy.\<close>

definition spec_view :: "DiscoveredPolicy \<Rightarrow> string \<times> string \<times> bool \<times> DiscoveredPolicySpec" where
  "spec_view d = (dsp_Name d, dsp_Namespace d, dsp_Deleting d, dsp_Spec d)"

text \<open>Objects are stored by their own name, and no policy is without one.\<close>

definition dsp_keyed :: "DspCluster \<Rightarrow> bool" where
  "dsp_keyed c \<longleftrightarrow> (\<forall>key d. cl_dsps c key = Some d \<longrightarrow> dsp_key d = key) \<and> (\<forall>k. cl_pols c k ([], []) = None)"

lemma dsp_keyedD: "dsp_keyed c \<Longrightarrow> cl_dsps c key = Some d \<Longrightarrow> dsp_key d = key"
  unfolding dsp_keyed_def by blast

lemma policy_change_other:
  assumes "policy_change k d c c1" "dsp_keyed c" "k' \<noteq> k \<or> key \<noteq> dsp_key d"
  shows "cl_pols c1 k' key = cl_pols c k' key"
  using assms by (auto simp: dsp_keyed_def elim!: policy_change.cases)

lemma policy_change_dsps: "policy_change k d c c1 \<Longrightarrow> cl_dsps c1 = cl_dsps c"
  by (auto elim: policy_change.cases)

lemma status_change_pols: "status_change env f d c c' \<Longrightarrow> cl_pols c' = cl_pols c"
  by (auto elim: status_change.cases)

lemma status_change_dsps:
  assumes "status_change env f d c c'" "cl_dsps c (dsp_key d) = Some d"
  shows "\<exists>s. cl_dsps c' = (cl_dsps c)(dsp_key d \<mapsto> d\<lparr>dsp_Status := s\<rparr>)"
  using assms(1)
proof cases
  case kept
  have "cl_dsps c = (cl_dsps c)(dsp_key d \<mapsto> d\<lparr>dsp_Status := dsp_Status d\<rparr>)" using assms(2) by (simp add: fun_upd_idem)
  with kept show ?thesis by blast
next
  case (written phase kind message reason)
  show ?thesis
  proof (cases "isStatusChanged d phase kind message reason \<and> flt_Write f = None")
    case True
    with written show ?thesis by (auto simp: updateDiscoveredPolicyStatus_def)
  next
    case False
    then have "c' = c" using written by (auto simp: updateDiscoveredPolicyStatus_def)
    moreover have "cl_dsps c = (cl_dsps c)(dsp_key d \<mapsto> d\<lparr>dsp_Status := dsp_Status d\<rparr>)" using assms(2) by (simp add: fun_upd_idem)
    ultimately show ?thesis by metis
  qed
qed

text \<open>C8: Whatever the calls of the API return, a reconciliation changes at most the policy of one kind that has the name of its discovered
  policy, and the status of that; it creates or changes a policy only if the status is Active, and deletes one only if it is Inactive.\<close>

theorem Reconcile_touches_only:
  assumes "Reconcile env f key c = Inr (r, c')" "dsp_keyed c"
  shows "\<exists>k. (\<forall>k' key'. k' \<noteq> k \<or> key' \<noteq> key \<longrightarrow> cl_pols c' k' key' = cl_pols c k' key') \<and>
    (\<forall>key'. map_option spec_view (cl_dsps c' key') = map_option spec_view (cl_dsps c key')) \<and>
    (\<forall>key'. key' \<noteq> key \<longrightarrow> cl_dsps c' key' = cl_dsps c key') \<and>
    (cl_pols c' k key = cl_pols c k key \<or>
     (\<exists>d. cl_dsps c key = Some d \<and> (if cl_pols c' k key = None then inactive d else active d)))"
proof -
  from Reconcile_changes [OF assms(1)] consider "c' = c"
    | d k c1 where "cl_dsps c key = Some d" "policy_change k d c c1" "status_change env f d c1 c'" by blast
  then show ?thesis
  proof cases
    case 1
    then show ?thesis by auto
  next
    case 2
    have key: "dsp_key d = key" using dsp_keyedD [OF assms(2) 2(1)] .
    have dsps: "cl_dsps c1 = cl_dsps c" by (rule policy_change_dsps [OF 2(2)])
    from status_change_dsps [OF 2(3)] obtain s where s: "cl_dsps c' = (cl_dsps c)(key \<mapsto> d\<lparr>dsp_Status := s\<rparr>)"
      using 2(1) by (auto simp: dsps key)
    have pols: "cl_pols c' = cl_pols c1" by (rule status_change_pols [OF 2(3)])
    have "cl_pols c1 k key = cl_pols c k key \<or> (if cl_pols c1 k key = None then inactive d else active d)"
      using 2(2) by cases (auto simp: key)
    moreover have "cl_pols c1 k' key' = cl_pols c k' key'" if "k' \<noteq> k \<or> key' \<noteq> key" for k' key'
      using policy_change_other [OF 2(2) assms(2)] that by (simp add: key)
    ultimately show ?thesis
      using 2(1) by (intro exI [of _ k]) (auto simp: pols s spec_view_def)
  qed
qed

section \<open>Convergence\<close>

fun kind_name :: "pol_kind \<Rightarrow> string" where
  "kind_name KSP = ''KubeArmorPolicy''"
| "kind_name NP = ''NetworkPolicy''"
| "kind_name CNP = ''CiliumNetworkPolicy''"

definition complete_spec :: "pol_kind \<Rightarrow> PolicySpec \<Rightarrow> PolicySpec" where
  "complete_spec k = (if k = KSP then complete_ksp else id)"

text \<open>The policy of \<^verbatim>\<open>d\<close> can be decoded to the policy \<^verbatim>\<open>crd\<close> of the kind, which has its name.\<close>

definition decodes :: "DspEnv \<Rightarrow> DiscoveredPolicy \<Rightarrow> pol_kind \<Rightarrow> Crd \<Rightarrow> bool" where
  "decodes env d k crd = (case dsp_Policy (dsp_Spec d) of None \<Rightarrow> False | Some raw \<Rightarrow>
     de_kind env raw = Some (kind_name k) \<and>
     (case de_decode env raw of Inl _ \<Rightarrow> False | Inr obj \<Rightarrow> crd_of k obj = Inr crd) \<and>
     crd_Name crd = dsp_Name d \<and> crd_Namespace crd = dsp_Namespace d)"

lemma CreateOrUpdateReconciler_decodes:
  assumes "decodes env d k crd" "dsp_PolicyStatus (dsp_Spec d) \<noteq> ''PendingUpdates''"
  shows "CreateOrUpdateReconciler env f d c =
    go_bind (handle_policy env f k (complete_spec k) d c) (\<lambda>r. Inr (recoverable r))"
proof -
  obtain raw where raw: "dsp_Policy (dsp_Spec d) = Some raw" "de_kind env raw = Some (kind_name k)"
    using assms(1) by (auto simp: decodes_def split: option.splits)
  show ?thesis
    by (cases k) (simp_all add: CreateOrUpdateReconciler_def assms(2) raw handleKubeArmorPolicy_def handleK8sNetworkPolicy_def
      handleCiliumNetworkPolicy_def complete_spec_def)
qed

lemma handle_policy_decodes:
  assumes "decodes env d k crd"
  shows "handle_policy env no_faults k complete d c =
    (let status = updateDiscoveredPolicyStatus env no_faults d ''Success'' (crd_Kind crd); key = dsp_key d; spec = complete (crd_Spec crd) in
     Inr (None, if inactive d then status DspCreated PolicyIsInactive (remove_policy k key c)
       else if active d then status Activated [] (if cl_pols c k key = Some spec then c else put_policy k key spec c) else c))"
proof -
  obtain raw obj where raw: "dsp_Policy (dsp_Spec d) = Some raw" "de_decode env raw = Inr obj" "crd_of k obj = Inr crd"
      "crd_Name crd = dsp_Name d" "crd_Namespace crd = dsp_Namespace d"
    using assms by (auto simp: decodes_def split: option.splits sum.splits)
  then show ?thesis
    by (cases "cl_pols c k (dsp_Namespace d, dsp_Name d)")
      (auto simp: handle_policy_def Let_def get_policy_def create_policy_def delete_policy_def IsNotFound_def remove_policy_def
        update_dsp_rules_def patch_policy_def dsp_key_def)
qed

lemma Reconcile_decodes:
  assumes "cl_dsps c key = Some d" "dsp_key d = key" "\<not> dsp_Deleting d" "decodes env d k crd" "active d \<or> inactive d"
  shows "Reconcile env no_faults key c =
    (let status = updateDiscoveredPolicyStatus env no_faults d ''Success'' (crd_Kind crd); spec = complete_spec k (crd_Spec crd) in
     Inr (None, if inactive d then status DspCreated PolicyIsInactive (remove_policy k key c)
       else status Activated [] (if cl_pols c k key = Some spec then c else put_policy k key spec c)))"
proof -
  have "dsp_PolicyStatus (dsp_Spec d) \<noteq> ''PendingUpdates''" using assms(5) by auto
  from CreateOrUpdateReconciler_decodes [OF assms(4) this] handle_policy_decodes [OF assms(4)] assms show ?thesis
    by (auto simp: Reconcile_def recoverable_def Let_def)
qed

definition status_is :: "DiscoveredPolicy \<Rightarrow> string \<Rightarrow> string \<Rightarrow> string \<Rightarrow> string \<Rightarrow> bool" where
  "status_is d phase kind message reason \<longleftrightarrow> \<not> isStatusChanged d phase kind message reason"

lemma update_status_reads:
  assumes "cl_dsps c (dsp_key d) = Some d"
  shows "\<exists>d'. cl_dsps (updateDiscoveredPolicyStatus env no_faults d phase kind message reason c) (dsp_key d) = Some d' \<and>
    spec_view d' = spec_view d \<and> status_is d' phase kind message reason"
  using assms by (auto simp: updateDiscoveredPolicyStatus_def status_is_def isStatusChanged_def spec_view_def)

lemma update_status_idle: "status_is d phase kind message reason \<Longrightarrow> updateDiscoveredPolicyStatus env f d phase kind message reason c = c"
  by (simp add: status_is_def updateDiscoveredPolicyStatus_def)

lemma status_is_sel:
  "status_is d phase kind message reason \<longleftrightarrow> dst_PolicyPhase (dsp_Status d) = phase \<and> dst_PolicyKind (dsp_Status d) = kind \<and>
     dst_Message (dsp_Status d) = message \<and> dst_Reason (dsp_Status d) = reason"
  by (auto simp: status_is_def isStatusChanged_def)

lemma Reconcile_desired:
  assumes "cl_dsps c key = Some d" "dsp_key d = key" "\<not> dsp_Deleting d" "decodes env d k crd" "active d \<or> inactive d"
  shows "\<exists>c' s. Reconcile env no_faults key c = Inr (None, c') \<and>
    cl_pols c' = (cl_pols c)(k := (cl_pols c k)(key := if active d then Some (complete_spec k (crd_Spec crd)) else None)) \<and>
    cl_dsps c' = (cl_dsps c)(key \<mapsto> d\<lparr>dsp_Status := s\<rparr>) \<and>
    status_is (d\<lparr>dsp_Status := s\<rparr>) ''Success'' (crd_Kind crd) (if inactive d then DspCreated else Activated)
      (if inactive d then PolicyIsInactive else []) \<and>
    cl_watched c' = cl_watched c \<and>
    cl_deleted c' = cl_deleted c @ (if inactive d \<and> cl_pols c k key \<noteq> None \<and> k \<in> set (cl_watched c) then [(k, key)] else [])"
proof -
  let ?spec = "complete_spec k (crd_Spec crd)"
  let ?message = "if inactive d then DspCreated else Activated" and ?reason = "if inactive d then PolicyIsInactive else []"
  define c1 where "c1 = (if inactive d then remove_policy k key c else if cl_pols c k key = Some ?spec then c else put_policy k key ?spec c)"
  define c' where "c' = updateDiscoveredPolicyStatus env no_faults d ''Success'' (crd_Kind crd) ?message ?reason c1"
  have r: "Reconcile env no_faults key c = Inr (None, c')"
    using Reconcile_decodes [OF assms] by (simp add: c'_def c1_def Let_def)
  have act: "active d \<longleftrightarrow> \<not> inactive d" using assms(5) by auto
  have pols: "cl_pols c' = (cl_pols c)(k := (cl_pols c k)(key := if active d then Some ?spec else None))"
    unfolding c'_def c1_def act by (auto simp: fun_upd_idem)
  have dsps: "cl_dsps c1 = cl_dsps c" by (simp add: c1_def)
  obtain s where s: "cl_dsps c' = (cl_dsps c)(key \<mapsto> d\<lparr>dsp_Status := s\<rparr>)"
    using status_change_dsps [of env no_faults d c1 c'] assms(1,2) written [of env no_faults d c1] by (auto simp: c'_def dsps)
  have "status_is (d\<lparr>dsp_Status := s\<rparr>) ''Success'' (crd_Kind crd) ?message ?reason"
    using update_status_reads [of c1 d env "''Success''" "crd_Kind crd" ?message ?reason] assms(1,2) s unfolding c'_def dsps by auto
  moreover have "cl_watched c' = cl_watched c"
    "cl_deleted c' = cl_deleted c @ (if inactive d \<and> cl_pols c k key \<noteq> None \<and> k \<in> set (cl_watched c) then [(k, key)] else [])"
    by (simp_all add: c'_def c1_def)
  ultimately show ?thesis using r pols s by blast
qed


section \<open>Activation\<close>

definition none_active :: "DspCluster \<Rightarrow> bool" where
  "none_active c \<longleftrightarrow> (\<forall>key d. cl_dsps c key = Some d \<longrightarrow> \<not> active d)"

fun activates :: "dsp_event \<Rightarrow> bool" where
  "activates (UserSets key status) = (status \<in> {''Active'', ''active''})"
| "activates _ = False"

lemma none_active_write: "none_active c \<Longrightarrow> \<not> active d \<Longrightarrow> none_active (write_dsp key d c)"
  by (auto simp: none_active_def split: if_splits)

lemma none_activeD: "none_active c \<Longrightarrow> cl_dsps c key = Some d \<Longrightarrow> \<not> active d"
  unfolding none_active_def by blast

lemma none_active_cong: "cl_dsps c' = cl_dsps c \<Longrightarrow> none_active c' = none_active c"
  by (simp add: none_active_def)

lemma status_change_none_active: "status_change env f d c c' \<Longrightarrow> none_active c \<Longrightarrow> \<not> active d \<Longrightarrow> none_active c'"
  by (auto simp: updateDiscoveredPolicyStatus_def intro!: none_active_write elim!: status_change.cases)

lemma UpdateExisting_keeps:
  assumes "UpdateExisting env client f name namespace policyType pol c = Inr (r, c')"
  shows "cl_pols c' = cl_pols c" "none_active c \<Longrightarrow> none_active c'"
proof -
  have "c' = c \<or> (\<exists>d raw. cl_dsps c (namespace, name) = Some d \<and> dsp_Policy (dsp_Spec d) = Some raw \<and>
      c' = write_dsp (namespace, name) (d\<lparr>dsp_Spec := \<lparr>dsp_PolicyStatus =
          (if active d then ''PendingUpdates'' else dsp_PolicyStatus (dsp_Spec d)), dsp_Policy = Some (de_merge env raw pol)\<rparr>\<rparr>) c)"
    using assms by (auto simp: UpdateExisting_def get_dsp_def Let_def go_bind_Inr_iff split: if_splits option.splits)
  then show "cl_pols c' = cl_pols c" "none_active c \<Longrightarrow> none_active c'"
    by (auto intro!: none_active_write dest: none_activeD split: if_splits)
qed

lemma CreateDsp_keeps:
  assumes "CreateDsp env clients f name namespace policyType pol c = Inr (r, c')"
  shows "cl_pols c' = cl_pols c" "none_active c \<Longrightarrow> none_active c'"
proof -
  let ?d = "\<lparr>dsp_Name = name, dsp_Namespace = namespace, dsp_Deleting = False,
      dsp_Spec = \<lparr>dsp_PolicyStatus = ''Inactive'', dsp_Policy = Some pol\<rparr>, dsp_Status = DiscoveredPolicyStatus_zero\<rparr>"
  have "c' = c \<or> c' = write_dsp (namespace, name) ?d c \<or>
      UpdateExisting env (snd clients) f name namespace policyType pol c = Inr (r, c')"
    using assms by (auto simp: CreateDsp_def create_dsp_def Let_def split: if_splits option.splits)
  then show "cl_pols c' = cl_pols c" "none_active c \<Longrightarrow> none_active c'"
    using UpdateExisting_keeps by (auto intro!: none_active_write)
qed

lemma Reconcile_none_active:
  assumes "Reconcile env f key c = Inr (r, c')" "none_active c"
  shows "none_active c'" "cl_pols c' k key' = Some spec \<Longrightarrow> cl_pols c k key' = Some spec"
proof -
  have *: "none_active c' \<and> (\<forall>k key' spec. cl_pols c' k key' = Some spec \<longrightarrow> cl_pols c k key' = Some spec)"
    using Reconcile_changes [OF assms(1)]
  proof (elim disjE exE conjE)
    fix d k c1 assume h: "cl_dsps c key = Some d" "policy_change k d c c1" "status_change env f d c1 c'"
    have d: "\<not> active d" by (rule none_activeD [OF assms(2) h(1)])
    have "none_active c1" using none_active_cong [OF policy_change_dsps [OF h(2)]] assms(2) by blast
    then have "none_active c'" by (rule status_change_none_active [OF h(3) _ d])
    moreover have "cl_pols c1 k' key' = Some spec \<Longrightarrow> cl_pols c k' key' = Some spec" for k' key' spec
      using h(2) d by cases (auto split: if_splits)
    ultimately show ?thesis by (simp add: status_change_pols [OF h(3)])
  qed (use assms(2) in simp)
  then show "none_active c'" "cl_pols c' k key' = Some spec \<Longrightarrow> cl_pols c k key' = Some spec" by blast+
qed

lemma policy_deleted_keeps:
  assumes "policy_deleted f obj c = Inr c'"
  shows "cl_pols c' = cl_pols c" "none_active c \<Longrightarrow> none_active c'"
  using assms by (auto simp: policy_deleted_def split: option.splits if_splits intro!: none_active_write)

lemma dsp_step_none_active:
  assumes "dsp_step env c e = Inr c'" "\<not> activates e" "none_active c"
  shows "none_active c' \<and> (\<forall>k key spec. cl_pols c' k key = Some spec \<longrightarrow> cl_pols c k key = Some spec \<or> e = UserCreates k key spec)"
proof (cases e)
  case (Discovers clients f name namespace policyType pol)
  then obtain r where "CreateDsp env clients f name namespace policyType pol c = Inr (r, c')"
    using assms(1) by (auto simp: go_bind_Inr_iff)
  from CreateDsp_keeps [OF this] assms(3) show ?thesis by simp
next
  case (Reconciles key f)
  then obtain r where "Reconcile env f key c = Inr (r, c')" using assms(1) by (auto simp: go_bind_Inr_iff)
  from Reconcile_none_active [OF this assms(3)] show ?thesis by blast
next
  case (Notified i missed f)
  let ?c = "c\<lparr>cl_deleted := take i (cl_deleted c) @ drop (Suc i) (cl_deleted c)\<rparr>"
  have "none_active ?c" using assms(3) by (simp add: none_active_def)
  then show ?thesis
    using Notified assms(1,3) policy_deleted_keeps [of f _ ?c c'] by (auto split: if_splits)
next
  case (UserSets key status)
  then show ?thesis using assms by (auto split: option.splits intro!: none_active_write)
next
  case (UserCreates k key spec)
  then show ?thesis using assms by (auto simp: none_active_def split: if_splits)
next
  case (UserDeletes k key)
  then show ?thesis using assms by (auto simp: none_active_def split: if_splits)
next
  case (UserDeletesDsp key)
  then show ?thesis using assms by (auto simp: none_active_def split: if_splits)
qed

text \<open>C7: Nothing that has been discovered is enforced on its own. As long as no discovered policy is Active and no user makes one so, every
  policy of the cluster was there before or has been made by a user, whatever the engine, the controller and the watcher do and however
  the calls of the API end.\<close>

theorem dsp_run_enforces_nothing:
  assumes "dsp_run env c es = Inr c'" "none_active c" "\<not> list_ex activates es" "cl_pols c' k key = Some spec"
  shows "cl_pols c k key = Some spec \<or> UserCreates k key spec \<in> set es"
proof -
  have "none_active c' \<and> (\<forall>k key spec. cl_pols c' k key = Some spec \<longrightarrow> cl_pols c k key = Some spec \<or> UserCreates k key spec \<in> set es)"
    using assms(1-3) unfolding dsp_run_def
  proof (induction es arbitrary: c)
    case Nil
    then show ?case by simp
  next
    case (Cons e es)
    then obtain c1 where c1: "dsp_step env c e = Inr c1" "foldM (dsp_step env) c1 es = Inr c'" by (auto simp: go_bind_Inr_iff)
    from dsp_step_none_active [OF c1(1)] Cons.prems have
      s: "none_active c1" "\<And>k key spec. cl_pols c1 k key = Some spec \<Longrightarrow> cl_pols c k key = Some spec \<or> e = UserCreates k key spec"
      by auto
    from Cons.IH [OF c1(2) s(1)] Cons.prems s(2) show ?case by fastforce
  qed
  with assms(4) show ?thesis by blast
qed

section \<open>What goes wrong\<close>

lemma dsp_run_simps [simp]:
  "dsp_run env c [] = Inr c" "dsp_run env c (e # es) = go_bind (dsp_step env c e) (\<lambda>c. dsp_run env c es)"
  by (simp_all add: dsp_run_def)

text \<open>The notification of a deletion is handled.\<close>

lemma Notified_inactive:
  assumes "cl_deleted c = [(k, key)]" "cl_dsps c key = Some d"
  shows "dsp_step env c (Notified 0 False no_faults) =
    Inr (write_dsp key (d\<lparr>dsp_Spec := (dsp_Spec d)\<lparr>dsp_PolicyStatus := ''Inactive''\<rparr>\<rparr>) (c\<lparr>cl_deleted := []\<rparr>))"
  using assms by (simp add: policy_deleted_def)

lemma decodes_status [simp]:
  "decodes env (d\<lparr>dsp_Spec := (dsp_Spec d)\<lparr>dsp_PolicyStatus := s\<rparr>\<rparr>) k crd = decodes env d k crd"
  "decodes env (d\<lparr>dsp_Status := st\<rparr>) k crd = decodes env d k crd"
  "dsp_key (d\<lparr>dsp_Spec := (dsp_Spec d)\<lparr>dsp_PolicyStatus := s\<rparr>\<rparr>) = dsp_key d"
  "dsp_key (d\<lparr>dsp_Status := st\<rparr>) = dsp_key d"
  by (simp_all add: decodes_def dsp_key_def split: option.split)

lemma Notified_reconciled:
  assumes "cl_deleted c = [(k', key)]" "cl_dsps c key = Some d" "dsp_key d = key" "\<not> dsp_Deleting d" "decodes env d k crd"
  shows "\<exists>c' d'. dsp_run env c [Notified 0 False no_faults, Reconciles key no_faults] = Inr c' \<and> cl_pols c' k key = None \<and>
    cl_dsps c' key = Some d' \<and> dsp_PolicyStatus (dsp_Spec d') = ''Inactive''"
proof -
  let ?d = "d\<lparr>dsp_Spec := (dsp_Spec d)\<lparr>dsp_PolicyStatus := ''Inactive''\<rparr>\<rparr>"
  let ?c = "write_dsp key ?d (c\<lparr>cl_deleted := []\<rparr>)"
  have "cl_dsps ?c key = Some ?d" "dsp_key ?d = key" "\<not> dsp_Deleting ?d" "decodes env ?d k crd" "active ?d \<or> inactive ?d"
    using assms by simp_all
  from Reconcile_desired [OF this] obtain c' s where "Reconcile env no_faults key ?c = Inr (None, c')"
    "cl_pols c' k key = None" "cl_dsps c' key = Some (?d\<lparr>dsp_Status := s\<rparr>)" by auto
  with Notified_inactive [OF assms(1,2)] show ?thesis by (simp del: dsp_step.simps) simp
qed

text \<open>The watcher does not look at the kind of the policy that was deleted: when a user deletes a policy of another kind that has the
  same namespace and name, the active policy is deleted as well.\<close>

theorem other_kind_deactivates:
  assumes "cl_dsps c key = Some d" "dsp_key d = key" "\<not> dsp_Deleting d" "decodes env d k crd"
    and "k' \<in> set (cl_watched c)" "cl_pols c k' key = Some spec" "cl_deleted c = []"
  shows "\<exists>c' d'. dsp_run env c [UserDeletes k' key, Notified 0 False no_faults, Reconciles key no_faults] = Inr c' \<and>
    cl_pols c' k key = None \<and> cl_dsps c' key = Some d' \<and> dsp_PolicyStatus (dsp_Spec d') = ''Inactive''"
  using Notified_reconciled [of "remove_policy k' key c" k' key d env k crd] assms by simp

text \<open>C37: An activation can be lost. The controller's own deletion of a policy is notified, too: if the user makes the discovered policy
  Active before the notification is handled, the new policy is deleted again and the status is back at Inactive.\<close>

theorem activation_is_lost:
  assumes "cl_dsps c key = Some d" "dsp_key d = key" "\<not> dsp_Deleting d" "decodes env d k crd" "inactive d"
    and "k \<in> set (cl_watched c)" "cl_pols c k key = Some spec" "cl_deleted c = []"
  shows "\<exists>c' d'. dsp_run env c [Reconciles key no_faults, UserSets key ''Active'', Reconciles key no_faults,
      Notified 0 False no_faults, Reconciles key no_faults] = Inr c' \<and>
    cl_pols c' k key = None \<and> cl_dsps c' key = Some d' \<and> dsp_PolicyStatus (dsp_Spec d') = ''Inactive''"
proof -
  from Reconcile_desired [OF assms(1-4)] assms(5-8) obtain c1 s1 where c1: "Reconcile env no_faults key c = Inr (None, c1)"
    "cl_dsps c1 key = Some (d\<lparr>dsp_Status := s1\<rparr>)" "cl_deleted c1 = [(k, key)]" by auto
  let ?d = "d\<lparr>dsp_Status := s1\<rparr>\<lparr>dsp_Spec := (dsp_Spec d)\<lparr>dsp_PolicyStatus := ''Active''\<rparr>\<rparr>"
  let ?c = "write_dsp key ?d c1"
  have d: "dsp_key ?d = key" "\<not> dsp_Deleting ?d" "decodes env ?d k crd" "active ?d \<or> inactive ?d"
    using assms(2-4) by (auto simp: decodes_def dsp_key_def split: option.splits)
  have n: "\<not> inactive ?d" by simp
  from Reconcile_desired [of ?c key, OF _ d] n c1(3) obtain c2 s2 where c2: "Reconcile env no_faults key ?c = Inr (None, c2)"
    "cl_dsps c2 key = Some (?d\<lparr>dsp_Status := s2\<rparr>)" "cl_deleted c2 = [(k, key)]" by auto
  have d2: "dsp_key (?d\<lparr>dsp_Status := s2\<rparr>) = key" "\<not> dsp_Deleting (?d\<lparr>dsp_Status := s2\<rparr>)" "decodes env (?d\<lparr>dsp_Status := s2\<rparr>) k crd"
    using assms(2-4) by (auto simp: decodes_def dsp_key_def split: option.splits)
  from Notified_reconciled [OF c2(3,2) d2] c1 c2(1) show ?thesis
    by (simp del: dsp_step.simps) simp
qed

text \<open>C36: The rules of a network policy of Kubernetes are never the same, because the type that discovery gives is not the one that the comparison
  knows: discovering an active policy again, without any change, sets it to PendingUpdates, and from then on the controller does nothing.
  A policy of KubeArmor stays as it is.\<close>

theorem CreateDsp_suspends:
  assumes "cl_dsps c (namespace, name) = Some d" "\<not> dsp_Deleting d" "active d" "dsp_Policy (dsp_Spec d) = Some raw" "flt_Dsp f = None"
  shows "CreateDsp env (True, True) no_faults name namespace KUBEARMOR_POLICY raw c = Inr (None, c) \<and>
    (\<exists>c' d'. CreateDsp env (True, True) no_faults name namespace K8s_NETWORK_POLICY raw c = Inr (None, c') \<and>
      cl_dsps c' (namespace, name) = Some d' \<and> dsp_PolicyStatus (dsp_Spec d') = ''PendingUpdates'' \<and>
      Reconcile env f (namespace, name) c' = Inr (None, c'))"
  using assms
  by (auto simp: CreateDsp_def create_dsp_def IsAlreadyExists_def UpdateExisting_def get_dsp_def AreRulesSame_def KUBEARMOR_POLICY_def
      K8s_NETWORK_POLICY_def kind_of_type_def Reconcile_def CreateOrUpdateReconciler_def)

section \<open>Examples\<close>

definition demo_crd :: Crd where
  "demo_crd = \<lparr>crd_Kind = ''KubeArmorPolicy'', crd_Name = ''web'', crd_Namespace = ''shop'',
     crd_Spec = \<lparr>pls_Capabilities = None, pls_Protocols = Some [''tcp''], pls_CapabilityFields = [], pls_NetworkFields = [], pls_Rules = ''allow''\<rparr>\<rparr>"

definition demo_dsp_env :: DspEnv where
  "demo_dsp_env = \<lparr>de_kind = (\<lambda>_. Some ''KubeArmorPolicy''), de_decode = (\<lambda>_. Inr (DecodedKSP demo_crd)),
     de_unmarshal = (\<lambda>_ _. PolicySpec_zero), de_merge = (\<lambda>old new. new), de_not_found = (\<lambda>_. ''not found''), de_now = 1\<rparr>"

definition demo_dsp :: "string \<Rightarrow> DiscoveredPolicy" where
  "demo_dsp status = \<lparr>dsp_Name = ''web'', dsp_Namespace = ''shop'', dsp_Deleting = False,
     dsp_Spec = \<lparr>dsp_PolicyStatus = status, dsp_Policy = Some ''raw''\<rparr>, dsp_Status = DiscoveredPolicyStatus_zero\<rparr>"

definition demo_nskey :: nskey where "demo_nskey = (''shop'', ''web'')"

definition demo_dsp_cluster :: "string \<Rightarrow> pol_kind list \<Rightarrow> DspCluster" where
  "demo_dsp_cluster status kinds = \<lparr>cl_dsps = [demo_nskey \<mapsto> demo_dsp status],
     cl_pols = (\<lambda>k key. if k \<in> set kinds \<and> key = demo_nskey then Some PolicySpec_zero else None), cl_watched = [KSP, CNP, NP], cl_deleted = []\<rparr>"

lemma demo_dsp_facts [simp]:
  "cl_dsps (demo_dsp_cluster status kinds) demo_nskey = Some (demo_dsp status)" "dsp_key (demo_dsp status) = demo_nskey"
  "\<not> dsp_Deleting (demo_dsp status)" "decodes demo_dsp_env (demo_dsp status) KSP demo_crd"
  "dsp_PolicyStatus (dsp_Spec (demo_dsp status)) = status" "cl_deleted (demo_dsp_cluster status kinds) = []"
  "cl_watched (demo_dsp_cluster status kinds) = [KSP, CNP, NP]" "dsp_keyed (demo_dsp_cluster status kinds)"
  "cl_pols (demo_dsp_cluster status kinds) k key = (if k \<in> set kinds \<and> key = demo_nskey then Some PolicySpec_zero else None)"
  by (auto simp: demo_dsp_cluster_def demo_dsp_def demo_nskey_def dsp_key_def decodes_def demo_dsp_env_def demo_crd_def dsp_keyed_def
      split: if_splits)

lemma demo_dsp_decode:
  "dsp_Policy (dsp_Spec (demo_dsp status)) = Some ''raw''" "de_decode demo_dsp_env raw = Inr (DecodedKSP demo_crd)"
  "crd_Name demo_crd = ''web''" "crd_Namespace demo_crd = ''shop''"
  "dsp_Name (demo_dsp status) = ''web''" "dsp_Namespace (demo_dsp status) = ''shop''"
  by (simp_all add: demo_dsp_env_def demo_dsp_def demo_crd_def demo_nskey_def)

lemma demo_complete:
  "complete_spec KSP (crd_Spec demo_crd) = \<lparr>pls_Capabilities = Some [], pls_Protocols = Some [''tcp''], pls_CapabilityFields = [], pls_NetworkFields = [], pls_Rules = ''allow''\<rparr>"
  by (simp add: complete_spec_def complete_ksp_def demo_crd_def)

theorem Reconcile_touches_only_witness:
  "\<exists>r c'. Reconcile demo_dsp_env (no_faults\<lparr>flt_Delete := Some (ApiError ''down'')\<rparr>) demo_nskey (demo_dsp_cluster ''Inactive'' [KSP]) = Inr (r, c') \<and>
     map_option spec_view (cl_dsps c' demo_nskey) = Some (spec_view (demo_dsp ''Inactive''))"
proof -
  obtain r c' where r: "Reconcile demo_dsp_env (no_faults\<lparr>flt_Delete := Some (ApiError ''down'')\<rparr>) demo_nskey (demo_dsp_cluster ''Inactive'' [KSP]) = Inr (r, c')"
    by (simp add: Reconcile_def CreateOrUpdateReconciler_decodes [OF demo_dsp_facts(4)] handle_policy_def get_policy_def demo_dsp_decode
        demo_nskey_def [symmetric]
        Let_def delete_policy_def recoverable_def)
  have "map_option spec_view (cl_dsps c' demo_nskey) = map_option spec_view (cl_dsps (demo_dsp_cluster ''Inactive'' [KSP]) demo_nskey)"
    using Reconcile_touches_only [OF r demo_dsp_facts(8)] by blast
  with r show ?thesis by simp
qed


theorem dsp_run_enforces_nothing_witness:
  "\<exists>c'. dsp_run demo_dsp_env (demo_dsp_cluster ''PendingUpdates'' [NP]) [UserSets demo_nskey ''Inactive'', UserCreates CNP demo_nskey PolicySpec_zero] = Inr c' \<and>
     (cl_pols (demo_dsp_cluster ''PendingUpdates'' [NP]) CNP demo_nskey = Some PolicySpec_zero \<or>
      UserCreates CNP demo_nskey PolicySpec_zero \<in> set [UserSets demo_nskey ''Inactive'', UserCreates CNP demo_nskey PolicySpec_zero])"
proof -
  let ?es = "[UserSets demo_nskey ''Inactive'', UserCreates CNP demo_nskey PolicySpec_zero]" and ?c = "demo_dsp_cluster ''PendingUpdates'' [NP]"
  obtain c' where r: "dsp_run demo_dsp_env ?c ?es = Inr c'" "cl_pols c' CNP demo_nskey = Some PolicySpec_zero" by simp
  have "none_active ?c" by (auto simp: none_active_def demo_dsp_cluster_def demo_dsp_def split: if_splits)
  from dsp_run_enforces_nothing [OF r(1) this _ r(2)] r(1) show ?thesis by auto
qed

theorem other_kind_deactivates_witness:
  "\<exists>c'. dsp_run demo_dsp_env (demo_dsp_cluster ''Active'' [KSP, CNP])
       [UserDeletes CNP demo_nskey, Notified 0 False no_faults, Reconciles demo_nskey no_faults] = Inr c' \<and> cl_pols c' KSP demo_nskey = None"
  using other_kind_deactivates [of "demo_dsp_cluster ''Active'' [KSP, CNP]" demo_nskey "demo_dsp ''Active''" demo_dsp_env KSP demo_crd CNP PolicySpec_zero]
  by auto

theorem activation_is_lost_witness:
  "\<exists>c'. dsp_run demo_dsp_env (demo_dsp_cluster ''Inactive'' [KSP])
       [Reconciles demo_nskey no_faults, UserSets demo_nskey ''Active'', Reconciles demo_nskey no_faults, Notified 0 False no_faults,
        Reconciles demo_nskey no_faults] = Inr c' \<and> cl_pols c' KSP demo_nskey = None"
  using activation_is_lost [of "demo_dsp_cluster ''Inactive'' [KSP]" demo_nskey "demo_dsp ''Inactive''" demo_dsp_env KSP demo_crd PolicySpec_zero]
  by (auto simp del: dsp_run_simps)

theorem CreateDsp_suspends_witness:
  "CreateDsp demo_dsp_env (True, True) no_faults ''web'' ''shop'' KUBEARMOR_POLICY ''raw'' (demo_dsp_cluster ''Active'' [NP]) =
     Inr (None, demo_dsp_cluster ''Active'' [NP])"
  using CreateDsp_suspends [of "demo_dsp_cluster ''Active'' [NP]" "''shop''" "''web''" "demo_dsp ''Active''" "''raw''" no_faults demo_dsp_env]
    demo_dsp_facts(1) [of "''Active''" "[NP]"]
  by (simp add: demo_nskey_def) (simp add: demo_dsp_def)

end
