(* ===== verification/License.thy ===== *)
theory License
  imports Prelude
begin

text \<open>
  Package \<^verbatim>\<open>license\<close> with the secrets of \<^verbatim>\<open>cluster/k8sClientHandler.go\<close>. A licence is a user with a key; the key is an
  encrypted token (JWT) that names the user and has a time of expiry. A licence that is installed is kept in the configuration and as a secret of the
  cluster, from which it is read again when the program starts.

  The state is the configuration \<^verbatim>\<open>LCfg\<close> and the secret. Decryption and the JWT library are parameters: a token that the library
  gives back together with an error is one whose claims could be read but whose signature or times are not valid. A call of the Kubernetes API
  may fail with a text.
\<close>

section \<open>Data\<close>

text \<open>The pointers to claims, registered claims and times may be nil.\<close>

record RegisteredClaims =
  rg_Subject :: string
  rg_ExpiresAt :: "int option"
  rg_IssuedAt :: "int option"

record Claims =
  cm_Features :: "string list option"
  cm_Registered :: "RegisteredClaims option"

record Token =
  tk_claims :: "Claims option"

record License =
  li_UserId :: string
  li_Key :: string
  li_PlatformUUID :: string

record LicenseConfig =
  lc_Enabled :: bool
  lc_validate :: string
  lc_k8sClient :: bool
  lc_Tkn :: "Token option"
  lc_Lcs :: "License option"

record LicenseSecret =
  sc_UserId :: string
  sc_Key :: string

record LicState =
  ls_LCfg :: LicenseConfig
  ls_secret :: "LicenseSecret option"

record JwtLib =
  jl_publicKey :: "string option"
  jl_parse :: "string \<Rightarrow> Claims option \<times> string option"
  jl_decrypt :: "string \<Rightarrow> string \<Rightarrow> string"

record LicApi =
  la_get :: "string option"
  la_create :: "string option"
  la_delete :: "string option"
  la_missing :: string
  la_uuid :: "string + string"

definition InitializeConfig :: "bool \<Rightarrow> bool \<Rightarrow> string \<Rightarrow> LicenseConfig" where
  "InitializeConfig enabled k8sClient validate = \<lparr>lc_Enabled = enabled, lc_validate = validate, lc_k8sClient = k8sClient, lc_Tkn = None, lc_Lcs = None\<rparr>"

section \<open>Secrets\<close>

definition GetSecrets :: "bool \<Rightarrow> LicApi \<Rightarrow> LicenseSecret option \<Rightarrow> string + LicenseSecret option" where
  "GetSecrets k8sClient api secret =
     (if \<not> k8sClient then Inl ''k8s client not created''
      else case la_get api of
        Some err \<Rightarrow> if \<not> Contains err ''not found'' then Inl err else Inr None
      | None \<Rightarrow> Inr secret)"

definition CreateLicenseSecret ::
  "bool \<Rightarrow> LicApi \<Rightarrow> string \<Rightarrow> string \<Rightarrow> LicenseSecret option \<Rightarrow> string + LicenseSecret option" where
  "CreateLicenseSecret k8sClient api key userId secret =
     (if \<not> k8sClient then Inl ''k8s client not created''
      else case GetSecrets k8sClient api secret of
        Inl err \<Rightarrow> Inl err
      | Inr (Some existing) \<Rightarrow> Inr secret
      | Inr None \<Rightarrow> (case la_create api of Some err \<Rightarrow> Inl err | None \<Rightarrow> Inr (Some \<lparr>sc_UserId = userId, sc_Key = key\<rparr>)))"

definition DeleteSecrets :: "bool \<Rightarrow> LicApi \<Rightarrow> LicenseSecret option \<Rightarrow> string option \<times> LicenseSecret option" where
  "DeleteSecrets k8sClient api secret =
     (if \<not> k8sClient then (Some ''k8s client not created'', secret)
      else case la_delete api of Some err \<Rightarrow> (Some err, secret)
        | None \<Rightarrow> if secret = None then (Some (la_missing api), None) else (None, None))"

definition GetKubeSystemUUID :: "bool \<Rightarrow> LicApi \<Rightarrow> string + string" where
  "GetKubeSystemUUID k8sClient api = (if \<not> k8sClient then Inl ''k8s client not created'' else la_uuid api)"

section \<open>Tokens\<close>

definition checkExpiration :: "int \<Rightarrow> Token option \<Rightarrow> go_panic + bool" where
  "checkExpiration now t = (case t of None \<Rightarrow> Inr True
     | Some tk \<Rightarrow> (case tk_claims tk of None \<Rightarrow> Inl NilDereference
     | Some claims \<Rightarrow> (case cm_Registered claims of None \<Rightarrow> Inl NilDereference
     | Some registered \<Rightarrow> (case rg_ExpiresAt registered of None \<Rightarrow> Inl NilDereference
     | Some exp \<Rightarrow> Inr (if exp < now then True else False)))))"

definition licence_text :: "string \<Rightarrow> License option \<Rightarrow> go_panic + string" where
  "licence_text what lcs = (case lcs of None \<Rightarrow> Inl NilDereference
     | Some l \<Rightarrow> Inr (what @ '' with user-id: '' @ li_UserId l @ '', key: '' @ li_Key l @ '' and platform uuid: '' @ li_PlatformUUID l))"

definition checkTokenExpiration :: "int \<Rightarrow> LicenseConfig \<Rightarrow> Token option \<Rightarrow> go_panic + string option" where
  "checkTokenExpiration now cfg t = go_bind (checkExpiration now t) (\<lambda>expired.
     if expired then go_bind (licence_text ''license is expired, valid license doesn't exist'' (lc_Lcs cfg)) (\<lambda>err. Inr (Some err))
     else Inr None)"

definition decryptKey :: "JwtLib \<Rightarrow> string \<Rightarrow> string \<Rightarrow> string + string" where
  "decryptKey lib key passphrase =
     (let decryptedKey = jl_decrypt lib key passphrase; tokenSplit = Split decryptedKey (CHR ''.'') in
      if length tokenSplit \<noteq> 3 then Inl ''invalid license key'' else Inr decryptedKey)"

definition validateUserId :: "Token \<Rightarrow> string \<Rightarrow> go_panic + string option" where
  "validateUserId t userId = (case tk_claims t of None \<Rightarrow> Inl NilDereference
     | Some claims \<Rightarrow> (case cm_Registered claims of None \<Rightarrow> Inl NilDereference
     | Some registered \<Rightarrow> Inr (if rg_Subject registered \<noteq> userId then Some ''error while validating userId'' else None)))"

definition validateClaims :: "Token \<Rightarrow> string \<Rightarrow> go_panic + string option" where
  "validateClaims t userId = validateUserId t userId"

text \<open>The token is given back with the error where there is one.\<close>

definition validateToken :: "JwtLib \<Rightarrow> string \<Rightarrow> string \<Rightarrow> go_panic + Token option \<times> string option" where
  "validateToken lib decryptedKey userId = (case jl_publicKey lib of
     Some err \<Rightarrow> Inr (None, Some err)
   | None \<Rightarrow>
       (let (claims, err) = jl_parse lib decryptedKey; t = \<lparr>tk_claims = claims\<rparr> in
        case err of Some err \<Rightarrow> Inr (Some t, Some err)
        | None \<Rightarrow> go_bind (validateClaims t userId) (\<lambda>err. Inr (Some t, err))))"

definition getKubeSystemUUID :: "LicenseConfig \<Rightarrow> LicApi \<Rightarrow> string \<times> string option" where
  "getKubeSystemUUID cfg api = (case GetKubeSystemUUID (lc_k8sClient cfg) api of Inl err \<Rightarrow> ([], Some err) | Inr uuid \<Rightarrow> (uuid, None))"

text \<open>The licence gets the identity of the platform.\<close>

definition getLicenseToken ::
  "JwtLib \<Rightarrow> LicApi \<Rightarrow> LicenseConfig \<Rightarrow> License \<Rightarrow> go_panic + (Token option \<times> string option) \<times> License" where
  "getLicenseToken lib api cfg l =
     (let validate = (\<lambda>passphrase l. case decryptKey lib (li_Key l) passphrase of Inl err \<Rightarrow> Inr ((None, Some err), l)
        | Inr decryptedKey \<Rightarrow> go_bind (validateToken lib decryptedKey (li_UserId l)) (\<lambda>r. Inr (r, l))) in
      if lc_validate cfg = ''platform-uuid'' then
        (case getKubeSystemUUID cfg api of
           (uuid, Some err) \<Rightarrow> Inr ((None, Some err), l\<lparr>li_PlatformUUID := uuid\<rparr>)
         | (uuid, None) \<Rightarrow> validate uuid (l\<lparr>li_PlatformUUID := uuid\<rparr>))
      else validate (li_UserId l) l)"

section \<open>Operations\<close>

text \<open>The result is the error.\<close>

definition CheckLicenseSecret :: "JwtLib \<Rightarrow> LicApi \<Rightarrow> int \<Rightarrow> LicState \<Rightarrow> go_panic + string option \<times> LicState" where
  "CheckLicenseSecret lib api now st =
     (let cfg = ls_LCfg st in
      case GetSecrets (lc_k8sClient cfg) api (ls_secret st) of
        Inl err \<Rightarrow> Inr (Some err, st)
      | Inr None \<Rightarrow> Inr (Some ''license secret doesn't exist for discovery-engine'', st)
      | Inr (Some secret) \<Rightarrow>
          if sc_UserId secret = [] \<or> sc_Key secret = [] then Inr (Some ''invalid secret exists for license'', st)
          else
            (let l = \<lparr>li_UserId = sc_UserId secret, li_Key = sc_Key secret, li_PlatformUUID = []\<rparr> in
             go_bind (getLicenseToken lib api cfg l) (\<lambda>((t, _), l).
               let cfg = cfg\<lparr>lc_Lcs := Some l, lc_Tkn := t\<rparr> in
               go_bind (checkTokenExpiration now cfg t) (\<lambda>err. Inr (err, st\<lparr>ls_LCfg := cfg\<rparr>)))))"

definition checkExistingLicense :: "LicenseConfig \<Rightarrow> bool" where
  "checkExistingLicense cfg \<longleftrightarrow> lc_Lcs cfg \<noteq> None \<or> lc_Tkn cfg \<noteq> None"

definition removeLicenseSecretsConfig :: "LicApi \<Rightarrow> LicState \<Rightarrow> string option \<times> LicState" where
  "removeLicenseSecretsConfig api st =
     (let cfg = ls_LCfg st; (err, secret) = DeleteSecrets (lc_k8sClient cfg) api (ls_secret st) in
      (err, st\<lparr>ls_LCfg := cfg\<lparr>lc_Lcs := None, lc_Tkn := None\<rparr>, ls_secret := secret\<rparr>))"

definition ValidateLicense :: "JwtLib \<Rightarrow> LicApi \<Rightarrow> int \<Rightarrow> License \<Rightarrow> LicState \<Rightarrow> go_panic + string option \<times> LicState" where
  "ValidateLicense lib api now l st =
     (let existingLicense = checkExistingLicense (ls_LCfg st) in
      go_bind (if existingLicense then checkExpiration now (lc_Tkn (ls_LCfg st)) else Inr True) (\<lambda>expired.
        if existingLicense \<and> \<not> expired then
          go_bind (licence_text ''valid license already exists'' (lc_Lcs (ls_LCfg st))) (\<lambda>err. Inr (Some err, st))
        else
          go_bind (getLicenseToken lib api (ls_LCfg st) l) (\<lambda>((t, err), l).
            if err \<noteq> None then Inr (err, st)
            else
              (let (err, st) = (if existingLicense then removeLicenseSecretsConfig api st else (None, st)) in
               if err \<noteq> None then Inr (err, st)
               else
                 (case CreateLicenseSecret (lc_k8sClient (ls_LCfg st)) api (li_Key l) (li_UserId l) (ls_secret st) of
                    Inl err \<Rightarrow> Inr (Some err, st)
                  | Inr secret \<Rightarrow>
                      Inr (None, st\<lparr>ls_secret := secret, ls_LCfg := (ls_LCfg st)\<lparr>lc_Lcs := Some l, lc_Tkn := t\<rparr>\<rparr>))))))"

text \<open>The server: a request with the result code and the message of the response, and the error.\<close>

definition InstallLicense ::
  "JwtLib \<Rightarrow> LicApi \<Rightarrow> int \<Rightarrow> string \<Rightarrow> string \<Rightarrow> LicState \<Rightarrow> go_panic + ((int \<times> string) \<times> string option) \<times> LicState" where
  "InstallLicense lib api now userId key st =
     (if userId = [] \<or> key = [] then Inr (((-1, ''error while validating license''), Some ''invalid request body''), st)
      else
        (let l = \<lparr>li_UserId = userId, li_Key = key, li_PlatformUUID = []\<rparr> in
         go_bind (ValidateLicense lib api now l st) (\<lambda>(err, st).
           if err \<noteq> None then Inr (((-1, ''error while validating license''), err), st)
           else Inr (((0, ''license installed successfully''), None), st))))"

record LicenseStatusResponse =
  lr_Key :: string
  lr_UserId :: string
  lr_PlatformUUID :: string
  lr_IssuedAt :: string
  lr_Expiration :: string
  lr_Features :: "string list"
  lr_Status :: string

definition getFeatures :: "Claims \<Rightarrow> string list option" where
  "getFeatures claims = cm_Features claims"

text \<open>Without features the error to be logged is nil.\<close>

definition GetLicenseStatus :: "(int \<Rightarrow> string) \<Rightarrow> int \<Rightarrow> LicenseConfig \<Rightarrow> go_panic + (string + LicenseStatusResponse)" where
  "GetLicenseStatus time_string now cfg =
     (case (lc_Lcs cfg, lc_Tkn cfg) of
        (Some l, Some t) \<Rightarrow>
          (case tk_claims t of None \<Rightarrow> Inl NilDereference
           | Some claims \<Rightarrow> (case cm_Registered claims of None \<Rightarrow> Inl NilDereference
           | Some registered \<Rightarrow> (case getFeatures claims of None \<Rightarrow> Inl NilDereference
           | Some features \<Rightarrow> (case rg_ExpiresAt registered of None \<Rightarrow> Inl NilDereference
           | Some exp \<Rightarrow> (case rg_IssuedAt registered of None \<Rightarrow> Inl NilDereference
           | Some iAt \<Rightarrow> Inr (Inr \<lparr>lr_Key = li_Key l, lr_UserId = li_UserId l, lr_PlatformUUID = li_PlatformUUID l,
               lr_IssuedAt = time_string iAt, lr_Expiration = time_string exp, lr_Features = features,
               lr_Status = (if exp > now then ''Active'' else ''Expired'')\<rparr>))))))
      | _ \<Rightarrow> Inr (Inl ''error while fetching status, no license secrets exists''))"

text \<open>The loops look at the configuration again and again, here at what they see at the given times. \<^verbatim>\<open>WatchFeatures\<close> ends when there is a valid
  licence, \<^verbatim>\<open>WatchLicenseValidity\<close> ends the program when there is none; the result says whether they do so at one of the times.\<close>

fun WatchFeatures :: "(LicenseConfig \<times> int) list \<Rightarrow> go_panic + bool" where
  "WatchFeatures [] = Inr False"
| "WatchFeatures ((cfg, now) # rest) =
     (if lc_Lcs cfg = None \<or> lc_Tkn cfg = None then WatchFeatures rest
      else go_bind (checkExpiration now (lc_Tkn cfg)) (\<lambda>expired. if \<not> expired then Inr True else WatchFeatures rest))"

fun WatchLicenseValidity :: "(LicenseConfig \<times> int) list \<Rightarrow> go_panic + bool" where
  "WatchLicenseValidity [] = Inr False"
| "WatchLicenseValidity ((cfg, now) # rest) =
     (if lc_Lcs cfg = None \<or> lc_Tkn cfg = None then Inr True
      else go_bind (checkExpiration now (lc_Tkn cfg)) (\<lambda>expired. if expired then Inr True else WatchLicenseValidity rest))"

text \<open>The beginning of \<^verbatim>\<open>main\<close> with licensing: the program works if there is no error; otherwise only the licence server runs until there is
  a licence, and then the program ends, to be started again.\<close>

definition start_program :: "JwtLib \<Rightarrow> LicApi \<Rightarrow> int \<Rightarrow> string \<Rightarrow> LicState \<Rightarrow> go_panic + string option \<times> LicState" where
  "start_program lib api now validate st =
     CheckLicenseSecret lib api now (st\<lparr>ls_LCfg := InitializeConfig True (lc_k8sClient (ls_LCfg st)) validate\<rparr>)"

section \<open>What an installed licence is\<close>

definition passphrase :: "LicApi \<Rightarrow> LicenseConfig \<Rightarrow> string \<Rightarrow> string" where
  "passphrase api cfg userId = (if lc_validate cfg = ''platform-uuid'' then fst (getKubeSystemUUID cfg api) else userId)"

text \<open>The token of a key that the library accepts and that names the user.\<close>

definition valid_key :: "JwtLib \<Rightarrow> string \<Rightarrow> string \<Rightarrow> string \<Rightarrow> Claims \<Rightarrow> bool" where
  "valid_key lib phrase userId key claims \<longleftrightarrow>
     (let text = jl_decrypt lib key phrase in
      length (Split text (CHR ''.'')) = 3 \<and> jl_publicKey lib = None \<and> jl_parse lib text = (Some claims, None) \<and>
      (case cm_Registered claims of None \<Rightarrow> False | Some r \<Rightarrow> rg_Subject r = userId))"

lemma validateToken_ok:
  "validateToken lib text userId = Inr (t, None) \<longleftrightarrow>
     (\<exists>claims r. jl_publicKey lib = None \<and> jl_parse lib text = (Some claims, None) \<and> cm_Registered claims = Some r \<and>
       rg_Subject r = userId \<and> t = Some \<lparr>tk_claims = Some claims\<rparr>)"
  by (auto simp: validateToken_def validateClaims_def validateUserId_def Let_def go_bind_Inr_iff split: option.splits prod.splits)

lemma getLicenseToken_ok:
  "getLicenseToken lib api cfg l = Inr ((t, None), l') \<longleftrightarrow>
     (\<exists>claims. valid_key lib (passphrase api cfg (li_UserId l)) (li_UserId l) (li_Key l) claims \<and>
       t = Some \<lparr>tk_claims = Some claims\<rparr> \<and>
       l' = (if lc_validate cfg = ''platform-uuid'' then l\<lparr>li_PlatformUUID := passphrase api cfg (li_UserId l)\<rparr> else l) \<and>
       (lc_validate cfg = ''platform-uuid'' \<longrightarrow> snd (getKubeSystemUUID cfg api) = None))"
  by (auto simp: getLicenseToken_def passphrase_def valid_key_def Let_def decryptKey_def validateToken_ok go_bind_Inr_iff
      split: prod.splits option.splits if_splits)

lemma ValidateLicense_ok:
  assumes "ValidateLicense lib api now l st = Inr (None, st')"
  shows "\<exists>t l' st1. getLicenseToken lib api (ls_LCfg st) l = Inr ((t, None), l') \<and>
    (checkExistingLicense (ls_LCfg st) \<and> checkExpiration now (lc_Tkn (ls_LCfg st)) = Inr True \<and> removeLicenseSecretsConfig api st = (None, st1) \<or>
     \<not> checkExistingLicense (ls_LCfg st) \<and> st1 = st) \<and>
    CreateLicenseSecret (lc_k8sClient (ls_LCfg st1)) api (li_Key l') (li_UserId l') (ls_secret st1) = Inr (ls_secret st') \<and>
    st' = st1\<lparr>ls_secret := ls_secret st', ls_LCfg := (ls_LCfg st1)\<lparr>lc_Lcs := Some l', lc_Tkn := t\<rparr>\<rparr>"
proof (cases "checkExistingLicense (ls_LCfg st)")
  case True
  from assms True obtain expired where e: "checkExpiration now (lc_Tkn (ls_LCfg st)) = Inr expired" "expired"
    by (auto simp: ValidateLicense_def Let_def go_bind_Inr_iff split: if_splits)
  with assms True obtain t l' st1 where t: "getLicenseToken lib api (ls_LCfg st) l = Inr ((t, None), l')"
    and r: "removeLicenseSecretsConfig api st = (None, st1)"
    by (auto simp: ValidateLicense_def Let_def go_bind_Inr_iff split: if_splits prod.splits)
  with assms True e show ?thesis
    by (auto simp: ValidateLicense_def Let_def split: sum.splits)
next
  case False
  with assms obtain t l' where t: "getLicenseToken lib api (ls_LCfg st) l = Inr ((t, None), l')"
    by (auto simp: ValidateLicense_def Let_def go_bind_Inr_iff split: if_splits prod.splits)
  with assms False show ?thesis
    by (auto simp: ValidateLicense_def Let_def split: sum.splits)
qed

lemma InstallLicense_ok:
  assumes "InstallLicense lib api now userId key st = Inr (((0, msg), err), st')"
  shows "ValidateLicense lib api now \<lparr>li_UserId = userId, li_Key = key, li_PlatformUUID = []\<rparr> st = Inr (None, st')" "userId \<noteq> []" "key \<noteq> []"
  using assms by (auto simp: InstallLicense_def Let_def go_bind_Inr_iff split: if_splits)

text \<open>C9: A licence that is installed is valid: the key can be decrypted, the library has accepted the token, and the token names the user;
  the configuration holds this token, and there was no other licence that is not expired.\<close>

theorem InstallLicense_sound:
  assumes "InstallLicense lib api now userId key st = Inr (((0, msg), err), st')"
  shows "\<exists>claims l. valid_key lib (passphrase api (ls_LCfg st) userId) userId key claims \<and>
    lc_Tkn (ls_LCfg st') = Some \<lparr>tk_claims = Some claims\<rparr> \<and> lc_Lcs (ls_LCfg st') = Some l \<and> li_UserId l = userId \<and> li_Key l = key \<and>
    (\<not> checkExistingLicense (ls_LCfg st) \<or> checkExpiration now (lc_Tkn (ls_LCfg st)) = Inr True)"
proof -
  from ValidateLicense_ok [OF InstallLicense_ok(1) [OF assms]] obtain t l' st1 where
    t: "getLicenseToken lib api (ls_LCfg st) \<lparr>li_UserId = userId, li_Key = key, li_PlatformUUID = []\<rparr> = Inr ((t, None), l')"
    and e: "\<not> checkExistingLicense (ls_LCfg st) \<or> checkExpiration now (lc_Tkn (ls_LCfg st)) = Inr True"
    and st': "st' = st1\<lparr>ls_secret := ls_secret st', ls_LCfg := (ls_LCfg st1)\<lparr>lc_Lcs := Some l', lc_Tkn := t\<rparr>\<rparr>" by blast
  have "lc_Lcs (ls_LCfg st') = Some l'" "lc_Tkn (ls_LCfg st') = t"
    using arg_cong [OF st', of ls_LCfg] by simp_all
  with t e show ?thesis by (auto simp: getLicenseToken_ok)
qed

section \<open>After a restart\<close>

lemma start_program_reads:
  assumes "lc_k8sClient (ls_LCfg st)" "la_get api = None" "ls_secret st = Some \<lparr>sc_UserId = userId, sc_Key = key\<rparr>"
    "userId \<noteq> []" "key \<noteq> []"
  shows "start_program lib api now validate st =
    (let cfg = InitializeConfig True True validate in
     go_bind (getLicenseToken lib api cfg \<lparr>li_UserId = userId, li_Key = key, li_PlatformUUID = []\<rparr>) (\<lambda>((t, _), l).
       let cfg = cfg\<lparr>lc_Lcs := Some l, lc_Tkn := t\<rparr> in
       go_bind (checkTokenExpiration now cfg t) (\<lambda>err. Inr (err, st\<lparr>ls_LCfg := cfg\<rparr>))))"
  using assms by (simp add: start_program_def CheckLicenseSecret_def GetSecrets_def Let_def InitializeConfig_def)

lemma CreateLicenseSecret_new:
  assumes "CreateLicenseSecret k8sClient api key userId secret = Inr secret'" "secret = None \<or> la_get api \<noteq> None"
  shows "k8sClient \<and> secret' = Some \<lparr>sc_UserId = userId, sc_Key = key\<rparr>"
  using assms by (auto simp: CreateLicenseSecret_def GetSecrets_def split: if_splits option.splits)

lemma getLicenseToken_config:
  assumes "lc_validate cfg' = lc_validate cfg" "lc_k8sClient cfg' = lc_k8sClient cfg" "la_uuid api' = la_uuid api"
  shows "getLicenseToken lib api' cfg' l = getLicenseToken lib api cfg l"
  using assms by (simp add: getLicenseToken_def getKubeSystemUUID_def GetKubeSystemUUID_def)


text \<open>If there is a secret that the program does not know of, as when its key was empty, a licence can be installed, but is not stored: after
  the restart that follows, the program is where it was.\<close>

theorem InstallLicense_not_stored:
  assumes "InstallLicense lib api now userId key st = Inr (((0, msg), err), st')"
    and "ls_secret st = Some secret" "\<not> checkExistingLicense (ls_LCfg st)" "la_get api = None"
  shows "ls_secret st' = Some secret \<and>
    start_program lib api' later validate st' = start_program lib api' later validate st"
proof -
  from ValidateLicense_ok [OF InstallLicense_ok(1) [OF assms(1)]] assms(3) obtain t l' where
    c: "CreateLicenseSecret (lc_k8sClient (ls_LCfg st)) api (li_Key l') (li_UserId l') (ls_secret st) = Inr (ls_secret st')"
    and st': "st' = st\<lparr>ls_secret := ls_secret st', ls_LCfg := (ls_LCfg st)\<lparr>lc_Lcs := Some l', lc_Tkn := t\<rparr>\<rparr>" by blast
  have sec: "ls_secret st' = Some secret"
    using c assms(2,4) by (auto simp: CreateLicenseSecret_def GetSecrets_def split: if_splits)
  have "st'\<lparr>ls_LCfg := cfg\<rparr> = st\<lparr>ls_LCfg := cfg\<rparr>" for cfg
    using st' sec assms(2) by (metis LicState.surjective LicState.update_convs(1,2) LicState.select_convs(2))
  moreover have "lc_k8sClient (ls_LCfg st') = lc_k8sClient (ls_LCfg st)" using arg_cong [OF st', of "\<lambda>s. lc_k8sClient (ls_LCfg s)"] by simp
  ultimately show ?thesis using sec by (simp add: start_program_def)
qed

text \<open>C35: The check at the start ignores the errors of the token: a secret with a token that the library has refused, because its signature is not
  that of the issuer, or that names another user, counts as a licence as long as its time has not come. To install the same licence is an error.\<close>

theorem CheckLicenseSecret_accepts_forged:
  assumes "lc_k8sClient (ls_LCfg st)" "la_get api = None" "ls_secret st = Some \<lparr>sc_UserId = userId, sc_Key = key\<rparr>" "userId \<noteq> []" "key \<noteq> []"
    and "validate \<noteq> ''platform-uuid''" "lc_validate (ls_LCfg st) = validate" "\<not> checkExistingLicense (ls_LCfg st)"
    and "jl_publicKey lib = None" "length (Split (jl_decrypt lib key userId) (CHR ''.'')) = 3"
    and "jl_parse lib (jl_decrypt lib key userId) = (Some claims, Some refused)"
    and "cm_Registered claims = Some r" "rg_ExpiresAt r = Some exp" "now \<le> exp"
  shows "(\<exists>st'. start_program lib api now validate st = Inr (None, st') \<and> lc_Tkn (ls_LCfg st') = Some \<lparr>tk_claims = Some claims\<rparr>) \<and>
    (\<exists>msg. InstallLicense lib api now userId key st = Inr (((-1, msg), Some refused), st))"
proof
  have g: "getLicenseToken lib api cfg \<lparr>li_UserId = userId, li_Key = key, li_PlatformUUID = []\<rparr> =
      Inr ((Some \<lparr>tk_claims = Some claims\<rparr>, Some refused), \<lparr>li_UserId = userId, li_Key = key, li_PlatformUUID = []\<rparr>)"
    if "lc_validate cfg = validate" for cfg
    using that assms by (simp add: getLicenseToken_def decryptKey_def Let_def validateToken_def)
  have "checkExpiration now (Some \<lparr>tk_claims = Some claims\<rparr>) = Inr False" using assms by (simp add: checkExpiration_def)
  then show "\<exists>st'. start_program lib api now validate st = Inr (None, st') \<and> lc_Tkn (ls_LCfg st') = Some \<lparr>tk_claims = Some claims\<rparr>"
    by (simp add: start_program_reads [OF assms(1-5)] g InitializeConfig_def checkTokenExpiration_def Let_def)
  show "\<exists>msg. InstallLicense lib api now userId key st = Inr (((-1, msg), Some refused), st)"
    using assms(4,5,8) by (simp add: InstallLicense_def ValidateLicense_def Let_def g [OF assms(7)])
qed

section \<open>Panics\<close>

text \<open>The library has read the claims of each text, and they have a time of expiry.\<close>

definition usable_token :: "Token \<Rightarrow> bool" where
  "usable_token t \<longleftrightarrow> (\<exists>claims r e. tk_claims t = Some claims \<and> cm_Registered claims = Some r \<and> rg_ExpiresAt r = Some e)"

definition usable_lib :: "JwtLib \<Rightarrow> bool" where
  "usable_lib lib \<longleftrightarrow> (\<forall>text. usable_token \<lparr>tk_claims = fst (jl_parse lib text)\<rparr>)"

definition licence_wf :: "LicenseConfig \<Rightarrow> bool" where
  "licence_wf cfg = (case lc_Tkn cfg of None \<Rightarrow> True | Some t \<Rightarrow> usable_token t \<and> lc_Lcs cfg \<noteq> None)"

datatype lic_op = Install string string LicApi int | Restart LicApi int string | CheckSecret LicApi int

fun lic_step :: "JwtLib \<Rightarrow> LicState \<Rightarrow> lic_op \<Rightarrow> go_panic + LicState" where
  "lic_step lib st (Install userId key api now) = go_bind (InstallLicense lib api now userId key st) (\<lambda>(_, st). Inr st)"
| "lic_step lib st (Restart api now validate) = go_bind (start_program lib api now validate st) (\<lambda>(_, st). Inr st)"
| "lic_step lib st (CheckSecret api now) = go_bind (CheckLicenseSecret lib api now st) (\<lambda>(_, st). Inr st)"

lemma checkExpiration_usable: "usable_token t \<Longrightarrow> \<exists>b. checkExpiration now (Some t) = Inr b"
  by (auto simp: usable_token_def checkExpiration_def)

lemma getLicenseToken_usable:
  assumes "usable_lib lib"
  shows "\<exists>t err l'. getLicenseToken lib api cfg l = Inr ((t, err), l') \<and> (\<forall>tk. t = Some tk \<longrightarrow> usable_token tk)"
proof -
  have v: "\<exists>t err. validateToken lib raw userId = Inr (t, err) \<and> (\<forall>tk. t = Some tk \<longrightarrow> usable_token tk)" for raw userId
  proof -
    have u: "usable_token \<lparr>tk_claims = fst (jl_parse lib raw)\<rparr>" using assms by (simp add: usable_lib_def)
    then obtain claims r e where "fst (jl_parse lib raw) = Some claims" "cm_Registered claims = Some r" "rg_ExpiresAt r = Some e"
      by (auto simp: usable_token_def)
    then show ?thesis
      using u by (cases "jl_parse lib raw"; cases "jl_publicKey lib"; cases "snd (jl_parse lib raw)")
        (auto simp: validateToken_def validateClaims_def validateUserId_def Let_def)
  qed
  have d: "\<exists>t err l'. (case decryptKey lib key phrase of Inl err \<Rightarrow> Inr ((None, Some err), l)
        | Inr raw \<Rightarrow> go_bind (validateToken lib raw userId) (\<lambda>r. Inr (r, l))) = Inr ((t, err), l') \<and>
      (\<forall>tk. t = Some tk \<longrightarrow> usable_token tk)" for key phrase userId and l :: License
  proof (cases "decryptKey lib key phrase")
    case (Inr raw)
    with v [of raw userId] show ?thesis by auto
  qed simp
  show ?thesis
  proof (cases "lc_validate cfg = ''platform-uuid''")
    case True
    obtain uuid err where u: "getKubeSystemUUID cfg api = (uuid, err)" by (cases "getKubeSystemUUID cfg api")
    show ?thesis
      using d [where key = "li_Key (l\<lparr>li_PlatformUUID := uuid\<rparr>)" and phrase = uuid and userId = "li_UserId (l\<lparr>li_PlatformUUID := uuid\<rparr>)" and l = "l\<lparr>li_PlatformUUID := uuid\<rparr>"] True u
      by (cases err) (simp_all add: getLicenseToken_def Let_def)
  next
    case False
    then show ?thesis using d [where key = "li_Key l" and phrase = "li_UserId l" and userId = "li_UserId l" and l = l] by (simp add: getLicenseToken_def Let_def)
  qed
qed

lemma CheckLicenseSecret_usable:
  assumes "usable_lib lib" "licence_wf (ls_LCfg st)"
  shows "\<exists>err st'. CheckLicenseSecret lib api now st = Inr (err, st') \<and> licence_wf (ls_LCfg st')"
proof -
  have "\<exists>err. checkTokenExpiration now (cfg\<lparr>lc_Lcs := Some l, lc_Tkn := t\<rparr>) t = Inr err"
    if u: "\<forall>tk. t = Some tk \<longrightarrow> usable_token tk" for cfg l t
  proof (cases t)
    case None
    then show ?thesis by (simp add: checkTokenExpiration_def checkExpiration_def licence_text_def)
  next
    case (Some tk)
    then obtain b where "checkExpiration now (Some tk) = Inr b" using u checkExpiration_usable by blast
    then show ?thesis using Some by (simp add: checkTokenExpiration_def licence_text_def)
  qed
  note c = this
  let ?cfg = "ls_LCfg st"
  consider err where "GetSecrets (lc_k8sClient ?cfg) api (ls_secret st) = Inl err"
    | "GetSecrets (lc_k8sClient ?cfg) api (ls_secret st) = Inr None"
    | secret where "GetSecrets (lc_k8sClient ?cfg) api (ls_secret st) = Inr (Some secret)"
    by (metis obj_sumE option.exhaust)
  then show ?thesis
  proof cases
    case (3 secret)
    show ?thesis
    proof (cases "sc_UserId secret = [] \<or> sc_Key secret = []")
      case False
      let ?l = "\<lparr>li_UserId = sc_UserId secret, li_Key = sc_Key secret, li_PlatformUUID = []\<rparr>"
      obtain t err l' where t: "getLicenseToken lib api ?cfg ?l = Inr ((t, err), l')" "\<forall>tk. t = Some tk \<longrightarrow> usable_token tk"
        using getLicenseToken_usable [OF assms(1)] by blast
      from c [OF t(2)] obtain e where "checkTokenExpiration now (?cfg\<lparr>lc_Lcs := Some l', lc_Tkn := t\<rparr>) t = Inr e" by blast
      moreover have "licence_wf (?cfg\<lparr>lc_Lcs := Some l', lc_Tkn := t\<rparr>)" using t(2) by (simp add: licence_wf_def split: option.split)
      ultimately show ?thesis using 3 False t(1) by (simp add: CheckLicenseSecret_def Let_def)
    qed (use 3 assms(2) in \<open>simp add: CheckLicenseSecret_def Let_def\<close>)
  qed (use assms(2) in \<open>simp_all add: CheckLicenseSecret_def Let_def\<close>)
qed

lemma ValidateLicense_usable:
  assumes "usable_lib lib" "licence_wf (ls_LCfg st)"
  shows "\<exists>err st'. ValidateLicense lib api now l st = Inr (err, st') \<and> licence_wf (ls_LCfg st')"
proof -
  let ?cfg = "ls_LCfg st"
  obtain t err l' where t: "getLicenseToken lib api ?cfg l = Inr ((t, err), l')" "\<forall>tk. t = Some tk \<longrightarrow> usable_token tk"
    using getLicenseToken_usable [OF assms(1)] by blast
  obtain expired where x: "checkExpiration now (lc_Tkn ?cfg) = Inr expired"
    using assms(2) checkExpiration_usable by (cases "lc_Tkn ?cfg") (auto simp: licence_wf_def checkExpiration_def)
  show ?thesis
  proof (cases "checkExistingLicense ?cfg \<and> \<not> expired")
    case True
    then have "lc_Lcs ?cfg \<noteq> None" using assms(2) x
      by (cases "lc_Tkn ?cfg") (auto simp: checkExistingLicense_def licence_wf_def checkExpiration_def)
    with True x assms(2) show ?thesis by (auto simp: ValidateLicense_def Let_def licence_text_def)
  next
    case False
    obtain err1 st1 where r: "(if checkExistingLicense ?cfg then removeLicenseSecretsConfig api st else (None, st)) = (err1, st1)"
      by (meson surj_pair)
    have w: "licence_wf (ls_LCfg st1)"
      using r assms(2) by (auto simp: removeLicenseSecretsConfig_def Let_def licence_wf_def split: if_splits prod.splits)
    obtain cr where cr: "CreateLicenseSecret (lc_k8sClient (ls_LCfg st1)) api (li_Key l') (li_UserId l') (ls_secret st1) = cr" by blast
    have "licence_wf ((ls_LCfg st1)\<lparr>lc_Lcs := Some l', lc_Tkn := t\<rparr>)" using t(2) by (simp add: licence_wf_def split: option.split)
    with False x t(1) r cr w assms(2) show ?thesis
      by (cases cr; cases "checkExistingLicense ?cfg") (auto simp: ValidateLicense_def Let_def)
  qed
qed

lemma InstallLicense_usable:
  assumes "usable_lib lib" "licence_wf (ls_LCfg st)"
  shows "\<exists>r st'. InstallLicense lib api now userId key st = Inr (r, st') \<and> licence_wf (ls_LCfg st')"
proof -
  let ?l = "\<lparr>li_UserId = userId, li_Key = key, li_PlatformUUID = []\<rparr>"
  obtain err st' where "ValidateLicense lib api now ?l st = Inr (err, st')" "licence_wf (ls_LCfg st')"
    using ValidateLicense_usable [OF assms] by blast
  with assms(2) show ?thesis by (cases err) (auto simp: InstallLicense_def Let_def)
qed

text \<open>If the library reads the claims of every text, with a time of expiry, no sequence of installations, checks and restarts panics, and the
  configuration never has a token without its licence.\<close>

theorem licence_operations_safe:
  assumes "usable_lib lib" "licence_wf (ls_LCfg st)"
  shows "\<exists>st'. foldM (lic_step lib) st ops = Inr st' \<and> licence_wf (ls_LCfg st')"
proof (rule foldM_total [where I = "\<lambda>st. licence_wf (ls_LCfg st)"])
  show "licence_wf (ls_LCfg st)" by (rule assms(2))
  fix st :: LicState and op assume w: "licence_wf (ls_LCfg st)"
  show "\<exists>st'. lic_step lib st op = Inr st' \<and> licence_wf (ls_LCfg st')"
  proof (cases op)
    case (Install userId key api now)
    with InstallLicense_usable [OF assms(1) w, of api now userId key] show ?thesis by auto
  next
    case (Restart api now validate)
    have "licence_wf (ls_LCfg (st\<lparr>ls_LCfg := InitializeConfig True (lc_k8sClient (ls_LCfg st)) validate\<rparr>))"
      by (simp add: licence_wf_def InitializeConfig_def)
    from CheckLicenseSecret_usable [OF assms(1) this, of api now] Restart show ?thesis by (auto simp: start_program_def)
  next
    case (CheckSecret api now)
    with CheckLicenseSecret_usable [OF assms(1) w, of api now] show ?thesis by auto
  qed
qed

text \<open>The status of a licence without features cannot be asked for: the error to be logged is nil.\<close>

theorem GetLicenseStatus_panics:
  assumes "lc_Lcs cfg \<noteq> None" "lc_Tkn cfg = Some \<lparr>tk_claims = Some claims\<rparr>" "cm_Features claims = None"
  shows "GetLicenseStatus time_string now cfg = Inl NilDereference"
  using assms by (auto simp: GetLicenseStatus_def getFeatures_def split: option.splits)

section \<open>Examples\<close>

definition demo_claims :: Claims where
  "demo_claims = \<lparr>cm_Features = Some [''policies''],
     cm_Registered = Some \<lparr>rg_Subject = ''ann'', rg_ExpiresAt = Some 100, rg_IssuedAt = Some 1\<rparr>\<rparr>"

text \<open>A library whose keys are the tokens, and that refuses a token with the signature \<^verbatim>\<open>x\<close>.\<close>

definition demo_jwt :: JwtLib where
  "demo_jwt = \<lparr>jl_publicKey = None, jl_parse = (\<lambda>token. (Some demo_claims, if token = ''h.c.x'' then Some ''invalid signature'' else None)),
     jl_decrypt = (\<lambda>key phrase. key)\<rparr>"

definition demo_lic_api :: LicApi where
  "demo_lic_api = \<lparr>la_get = None, la_create = None, la_delete = None, la_missing = ''not found'', la_uuid = Inr ''u1''\<rparr>"

definition demo_lic_state :: "LicenseSecret option \<Rightarrow> LicState" where
  "demo_lic_state secret = \<lparr>ls_LCfg = InitializeConfig True True ''user-id'', ls_secret = secret\<rparr>"

lemma demo_Split: "Split ''h.c.s'' (CHR ''.'') = [''h'', ''c'', ''s'']" "Split ''h.c.x'' (CHR ''.'') = [''h'', ''c'', ''x'']"
  by code_simp+

lemma demo_install:
  assumes "secret = None \<or> secret = Some \<lparr>sc_UserId = ''ann'', sc_Key = []\<rparr>"
  shows "InstallLicense demo_jwt demo_lic_api 5 ''ann'' ''h.c.s'' (demo_lic_state secret) =
    Inr (((0, ''license installed successfully''), None),
      \<lparr>ls_LCfg = \<lparr>lc_Enabled = True, lc_validate = ''user-id'', lc_k8sClient = True, lc_Tkn = Some \<lparr>tk_claims = Some demo_claims\<rparr>,
          lc_Lcs = Some \<lparr>li_UserId = ''ann'', li_Key = ''h.c.s'', li_PlatformUUID = []\<rparr>\<rparr>,
       ls_secret = (if secret = None then Some \<lparr>sc_UserId = ''ann'', sc_Key = ''h.c.s''\<rparr> else secret)\<rparr>)"
  using assms
  by (auto simp: InstallLicense_def ValidateLicense_def demo_lic_state_def checkExistingLicense_def InitializeConfig_def Let_def
      getLicenseToken_def decryptKey_def demo_jwt_def demo_Split validateToken_def validateClaims_def validateUserId_def demo_claims_def
      CreateLicenseSecret_def GetSecrets_def demo_lic_api_def)

theorem InstallLicense_sound_witness:
  "\<exists>st'. InstallLicense demo_jwt demo_lic_api 5 ''ann'' ''h.c.s'' (demo_lic_state None) = Inr (((0, ''license installed successfully''), None), st') \<and>
     lc_Tkn (ls_LCfg st') = Some \<lparr>tk_claims = Some demo_claims\<rparr>"
  using InstallLicense_sound [OF demo_install [of None]] demo_install [of None] by simp


theorem InstallLicense_not_stored_witness:
  "\<exists>st'. InstallLicense demo_jwt demo_lic_api 5 ''ann'' ''h.c.s'' (demo_lic_state (Some \<lparr>sc_UserId = ''ann'', sc_Key = []\<rparr>)) =
       Inr (((0, ''license installed successfully''), None), st') \<and>
     ls_secret st' = Some \<lparr>sc_UserId = ''ann'', sc_Key = []\<rparr>"
proof -
  note i = demo_install [of "Some \<lparr>sc_UserId = ''ann'', sc_Key = []\<rparr>", simplified]
  have s: "ls_secret (demo_lic_state (Some \<lparr>sc_UserId = ''ann'', sc_Key = []\<rparr>)) = Some \<lparr>sc_UserId = ''ann'', sc_Key = []\<rparr>"
    "\<not> checkExistingLicense (ls_LCfg (demo_lic_state (Some \<lparr>sc_UserId = ''ann'', sc_Key = []\<rparr>)))" "la_get demo_lic_api = None"
    by (simp_all add: demo_lic_state_def checkExistingLicense_def InitializeConfig_def demo_lic_api_def)
  from InstallLicense_not_stored [OF i s] i show ?thesis by simp
qed

theorem CheckLicenseSecret_accepts_forged_witness:
  "\<exists>st'. start_program demo_jwt demo_lic_api 5 ''user-id'' (demo_lic_state (Some \<lparr>sc_UserId = ''eve'', sc_Key = ''h.c.x''\<rparr>)) = Inr (None, st') \<and>
     lc_Tkn (ls_LCfg st') = Some \<lparr>tk_claims = Some demo_claims\<rparr>"
  using CheckLicenseSecret_accepts_forged [of "demo_lic_state (Some \<lparr>sc_UserId = ''eve'', sc_Key = ''h.c.x''\<rparr>)" demo_lic_api "''eve''" "''h.c.x''"
      "''user-id''" demo_jwt demo_claims "''invalid signature''" "\<lparr>rg_Subject = ''ann'', rg_ExpiresAt = Some 100, rg_IssuedAt = Some 1\<rparr>" 100 5]
  by (simp add: demo_lic_state_def InitializeConfig_def demo_lic_api_def demo_jwt_def demo_Split checkExistingLicense_def)
    (simp add: demo_claims_def)

theorem licence_operations_safe_witness:
  "\<exists>st'. foldM (lic_step demo_jwt) (demo_lic_state None) [Install ''ann'' ''h.c.s'' demo_lic_api 5, Restart demo_lic_api 200 ''user-id''] = Inr st' \<and>
     licence_wf (ls_LCfg st')"
  by (rule licence_operations_safe)
    (auto simp: usable_lib_def usable_token_def demo_jwt_def demo_claims_def licence_wf_def demo_lic_state_def InitializeConfig_def)

theorem GetLicenseStatus_panics_witness:
  "GetLicenseStatus (\<lambda>t. []) 5 \<lparr>lc_Enabled = True, lc_validate = [], lc_k8sClient = True, lc_Tkn = Some \<lparr>tk_claims = Some (demo_claims\<lparr>cm_Features := None\<rparr>)\<rparr>,
     lc_Lcs = Some \<lparr>li_UserId = ''ann'', li_Key = ''k'', li_PlatformUUID = []\<rparr>\<rparr> = Inl NilDereference"
  by (rule GetLicenseStatus_panics [where claims = "demo_claims\<lparr>cm_Features := None\<rparr>"]) simp_all

end
