(* ===== verification/Workers.thy ===== *)
theory Workers
  imports Prelude
begin

text \<open>
  Starting and stopping the workers: the last parts of \<^verbatim>\<open>networkpolicy/networkPolicy.go\<close> and \<^verbatim>\<open>systempolicy/systemPolicy.go\<close>, the
  beginning of \<^verbatim>\<open>recommendpolicy/recommendPolicy.go\<close>, and the worker service of \<^verbatim>\<open>server/grpcServer.go\<close>. A worker runs rounds of
  discovery at the times of a cron scheduler, and a goroutine receives the logs for it from a relay. The three workers are the same but for the
  work of a round, which the theories on the pipelines model.

  A worker is a record of its package variables and of the goroutines that exist. A step is one statement of one goroutine that reads
  or writes the variables; runs are sequences of steps. Which scheduler the variable for the cron job refers to is a number.
\<close>

section \<open>A worker\<close>

definition OP_MODE_NOOP :: int where "OP_MODE_NOOP = 0"
definition OP_MODE_CRONJOB :: int where "OP_MODE_CRONJOB = 1"
definition OP_MODE_ONETIME :: int where "OP_MODE_ONETIME = 2"
definition STATUS_RUNNING :: string where "STATUS_RUNNING = ''running''"
definition STATUS_IDLE :: string where "STATUS_IDLE = ''idle''"

lemmas worker_constants = OP_MODE_NOOP_def OP_MODE_CRONJOB_def OP_MODE_ONETIME_def STATUS_RUNNING_def STATUS_IDLE_def

text \<open>The stream of the relay: there is none, its goroutine is about to look at the channel, or it waits for the next log.\<close>

datatype stream = NoStream | Polling | Receiving

text \<open>\<^verbatim>\<open>w_Schedulers\<close> are the schedulers that have been started and not stopped, \<^verbatim>\<open>w_Closed\<close> says that the stop channel has been closed,
  \<^verbatim>\<open>w_Receivers\<close> counts the goroutines that receive logs (for recommendations, those that watch deployments). A round of discovery first looks
  at the status; \<^verbatim>\<open>w_Checked\<close> counts those that have found it not to be running, \<^verbatim>\<open>w_Active\<close> those that have then set it.\<close>

record Worker =
  w_Status :: string
  w_CronJob :: "nat option"
  w_Schedulers :: "nat list"
  w_Next :: nat
  w_Closed :: bool
  w_Receivers :: nat
  w_Stream :: stream
  w_Received :: nat
  w_Checked :: nat
  w_Active :: nat

definition worker_init :: Worker where
  "worker_init = \<lparr>w_Status = STATUS_IDLE, w_CronJob = None, w_Schedulers = [], w_Next = 0, w_Closed = False, w_Receivers = 0,
     w_Stream = NoStream, w_Received = 0, w_Checked = 0, w_Active = 0\<rparr>"

text \<open>The variable refers to the new scheduler also if its times cannot be parsed, and it is not started.\<close>

definition StartCronJob :: "bool \<Rightarrow> Worker \<Rightarrow> Worker" where
  "StartCronJob timesOk w =
     (let w = w\<lparr>w_Receivers := Suc (w_Receivers w), w_CronJob := Some (w_Next w), w_Next := Suc (w_Next w)\<rparr> in
      if \<not> timesOk then w else w\<lparr>w_Schedulers := w_Schedulers w @ [w_Next w - 1]\<rparr>)"

definition StopCronJob :: "Worker \<Rightarrow> go_panic + Worker" where
  "StopCronJob w = (case w_CronJob w of None \<Rightarrow> Inr w
     | Some cron \<Rightarrow>
         if w_Closed w then Inl CloseOfClosedChannel
         else Inr (w\<lparr>w_Closed := True, w_Schedulers := filter (\<lambda>s. s \<noteq> cron) (w_Schedulers w), w_CronJob := None\<rparr>))"

text \<open>A round begins with the look at the status.\<close>

definition begin_round :: "Worker \<Rightarrow> Worker" where
  "begin_round w = (if w_Status w = STATUS_RUNNING then w else w\<lparr>w_Checked := Suc (w_Checked w)\<rparr>)"

definition StartWorker :: "int \<Rightarrow> bool \<Rightarrow> Worker \<Rightarrow> Worker" where
  "StartWorker mode timesOk w =
     (if w_Status w \<noteq> STATUS_IDLE then w
      else if mode = OP_MODE_NOOP then w
      else if mode = OP_MODE_CRONJOB then StartCronJob timesOk w
      else begin_round w)"

definition StopWorker :: "int \<Rightarrow> Worker \<Rightarrow> go_panic + Worker" where
  "StopWorker mode w =
     (if mode = OP_MODE_CRONJOB then StopCronJob w
      else if w_Status w \<noteq> STATUS_RUNNING then Inr w
      else Inr w)"

text \<open>The worker for system policies has the same statements on its own variables.\<close>

definition StartSystemCronJob :: "bool \<Rightarrow> Worker \<Rightarrow> Worker" where
  "StartSystemCronJob timesOk w = StartCronJob timesOk w"

definition StopSystemCronJob :: "Worker \<Rightarrow> go_panic + Worker" where
  "StopSystemCronJob w = StopCronJob w"

definition StartSystemWorker :: "int \<Rightarrow> bool \<Rightarrow> Worker \<Rightarrow> Worker" where
  "StartSystemWorker mode timesOk w =
     (if w_Status w \<noteq> STATUS_IDLE then w
      else if mode = OP_MODE_NOOP then w
      else if mode = OP_MODE_CRONJOB then StartSystemCronJob timesOk w
      else begin_round w)"

definition StopSystemWorker :: "int \<Rightarrow> Worker \<Rightarrow> go_panic + Worker" where
  "StopSystemWorker mode w =
     (if mode = OP_MODE_CRONJOB then StopSystemCronJob w
      else if w_Status w \<noteq> STATUS_RUNNING then Inr w
      else Inr w)"

section \<open>Steps\<close>

datatype worker_event =
    Starts bool
  | Stops
  | Tick nat
  | SetsRunning
  | RoundEnds
  | RelayConnects
  | RelayPolls
  | RelayGets bool

text \<open>A tick of a scheduler that is not running does nothing. A goroutine that receives logs connects again and again; once there is a stream,
  the channel is looked at before each log. \<^verbatim>\<open>RelayGets False\<close> is an error of the stream.\<close>

fun worker_step :: "int \<Rightarrow> Worker \<Rightarrow> worker_event \<Rightarrow> go_panic + Worker" where
  "worker_step mode w (Starts timesOk) = Inr (StartWorker mode timesOk w)"
| "worker_step mode w Stops = StopWorker mode w"
| "worker_step mode w (Tick s) = Inr (if s \<in> set (w_Schedulers w) then begin_round w else w)"
| "worker_step mode w SetsRunning =
     Inr (if w_Checked w > 0 then w\<lparr>w_Checked := w_Checked w - 1, w_Status := STATUS_RUNNING, w_Active := Suc (w_Active w)\<rparr> else w)"
| "worker_step mode w RoundEnds =
     Inr (if w_Active w > 0 then w\<lparr>w_Active := w_Active w - 1, w_Status := STATUS_IDLE\<rparr> else w)"
| "worker_step mode w RelayConnects =
     Inr (if w_Receivers w > 0 \<and> w_Stream w = NoStream then w\<lparr>w_Stream := Polling\<rparr> else w)"
| "worker_step mode w RelayPolls =
     Inr (if w_Stream w = Polling then w\<lparr>w_Stream := (if w_Closed w then NoStream else Receiving)\<rparr> else w)"
| "worker_step mode w (RelayGets ok) =
     Inr (if w_Stream w = Receiving then
            (if ok then w\<lparr>w_Stream := Polling, w_Received := Suc (w_Received w)\<rparr> else w\<lparr>w_Stream := NoStream\<rparr>)
          else w)"

definition worker_run :: "int \<Rightarrow> Worker \<Rightarrow> worker_event list \<Rightarrow> go_panic + Worker" where
  "worker_run mode w es = foldM (worker_step mode) w es"

lemma worker_run_simps [simp]:
  "worker_run mode w [] = Inr w" "worker_run mode w (e # es) = go_bind (worker_step mode w e) (\<lambda>w. worker_run mode w es)"
  by (simp_all add: worker_run_def)

lemma worker_run_append: "worker_run mode w (es @ fs) = go_bind (worker_run mode w es) (\<lambda>w. worker_run mode w fs)"
  by (simp add: worker_run_def foldM_append)

lemma StartCronJob_sel [simp]:
  "w_Schedulers (StartCronJob timesOk w) = w_Schedulers w @ (if timesOk then [w_Next w] else [])"
  "w_CronJob (StartCronJob timesOk w) = Some (w_Next w)" "w_Next (StartCronJob timesOk w) = Suc (w_Next w)"
  "w_Closed (StartCronJob timesOk w) = w_Closed w" "w_Status (StartCronJob timesOk w) = w_Status w"
  "w_Received (StartCronJob timesOk w) = w_Received w" "w_Stream (StartCronJob timesOk w) = w_Stream w"
  "w_Checked (StartCronJob timesOk w) = w_Checked w" "w_Active (StartCronJob timesOk w) = w_Active w"
  by (simp_all add: StartCronJob_def Let_def)

text \<open>Facts that hold of every step hold of every run.\<close>

lemma worker_run_invariant:
  assumes "worker_run mode w es = Inr w'" "I w" "list_all P es"
    and "\<And>w e w'. I w \<Longrightarrow> P e \<Longrightarrow> worker_step mode w e = Inr w' \<Longrightarrow> I w'"
  shows "I w'"
  using assms(1-3)
proof (induction es arbitrary: w)
  case (Cons e es)
  then obtain w1 where w1: "worker_step mode w e = Inr w1" "worker_run mode w1 es = Inr w'" by (auto simp: go_bind_Inr_iff)
  from assms(4) [OF _ _ w1(1)] Cons.prems have "I w1" by simp
  with Cons.IH [OF w1(2)] Cons.prems show ?case by simp
qed simp

lemma worker_step_cases:
  assumes "worker_step mode w e = Inr w'"
  shows "w_Next w' = w_Next w \<and> w_CronJob w' = w_CronJob w \<and> w_Schedulers w' = w_Schedulers w \<and> w_Closed w' = w_Closed w \<or>
    (\<exists>timesOk. e = Starts timesOk \<and> w' = StartCronJob timesOk w) \<or>
    (\<exists>cron. e = Stops \<and> w_CronJob w = Some cron \<and> \<not> w_Closed w \<and>
       w' = w\<lparr>w_Closed := True, w_Schedulers := filter (\<lambda>s. s \<noteq> cron) (w_Schedulers w), w_CronJob := None\<rparr>)"
  using assms
  by (cases e) (auto simp: StartWorker_def StopWorker_def StopCronJob_def begin_round_def split: if_splits option.splits)

section \<open>The worker service\<close>

record WorkerRequest =
  wr_Req :: string
  wr_Logfile :: string
  wr_Policytype :: string

record WorkerServer =
  sv_Network :: Worker
  sv_System :: Worker
  sv_LogFile :: string
  sv_Cleared :: nat

text \<open>The configuration: the modes of both workers and whether their times can be parsed.\<close>

record WorkerCfg =
  wc_NetMode :: int
  wc_SysMode :: int
  wc_NetTimesOk :: bool
  wc_SysTimesOk :: bool

definition workerServer_Start :: "WorkerCfg \<Rightarrow> WorkerRequest \<Rightarrow> WorkerServer \<Rightarrow> string \<times> WorkerServer" where
  "workerServer_Start cfg req sv =
     (let (response, sv) = (if wr_Req req = ''dbclear'' then (''Cleared DB.'', sv\<lparr>sv_Cleared := Suc (sv_Cleared sv)\<rparr>) else ([], sv));
          (response, sv) = (if wr_Logfile req \<noteq> [] then (response @ ''Log File Set ,'', sv\<lparr>sv_LogFile := wr_Logfile req\<rparr>) else (response, sv)) in
      if wr_Policytype req \<noteq> [] then
        (response @ ''Starting '' @ wr_Policytype req @ '' policy discovery'',
         if wr_Policytype req = ''network'' then sv\<lparr>sv_Network := StartWorker (wc_NetMode cfg) (wc_NetTimesOk cfg) (sv_Network sv)\<rparr>
         else if wr_Policytype req = ''system'' then sv\<lparr>sv_System := StartSystemWorker (wc_SysMode cfg) (wc_SysTimesOk cfg) (sv_System sv)\<rparr>
         else sv)
      else (response, sv))"

definition no_policy_type :: "WorkerRequest \<Rightarrow> string" where
  "no_policy_type req = ''No policy type, choose 'network' or 'system', not ['' @ wr_Policytype req @ '']''"

definition workerServer_Stop :: "WorkerCfg \<Rightarrow> WorkerRequest \<Rightarrow> WorkerServer \<Rightarrow> go_panic + string \<times> WorkerServer" where
  "workerServer_Stop cfg req sv =
     (let response = ''ok stopping '' @ wr_Policytype req @ '' policy discovery'' in
      if wr_Policytype req = ''network'' then
        go_bind (StopWorker (wc_NetMode cfg) (sv_Network sv)) (\<lambda>w. Inr (response, sv\<lparr>sv_Network := w\<rparr>))
      else if wr_Policytype req = ''system'' then
        go_bind (StopSystemWorker (wc_SysMode cfg) (sv_System sv)) (\<lambda>w. Inr (response, sv\<lparr>sv_System := w\<rparr>))
      else Inr (no_policy_type req, sv))"

definition workerServer_GetWorkerStatus :: "WorkerRequest \<Rightarrow> WorkerServer \<Rightarrow> string" where
  "workerServer_GetWorkerStatus req sv =
     (if wr_Policytype req = ''network'' then w_Status (sv_Network sv)
      else if wr_Policytype req = ''system'' then w_Status (sv_System sv)
      else no_policy_type req)"

section \<open>The worker for recommendations\<close>

text \<open>Its status is never changed. \<^verbatim>\<open>run\<close> is a run of the worker on the other variables of its package, which begins with an empty
  list of deployments in the mode for cron jobs.\<close>

definition StartRecommendCronJob :: "bool \<Rightarrow> Worker \<Rightarrow> Worker" where
  "StartRecommendCronJob timesOk w =
     (let w = w\<lparr>w_CronJob := Some (w_Next w), w_Next := Suc (w_Next w)\<rparr> in
      if \<not> timesOk then w
      else w\<lparr>w_Schedulers := w_Schedulers w @ [w_Next w - 1], w_Receivers := Suc (w_Receivers w)\<rparr>)"

definition StopRecommendCronJob :: "Worker \<Rightarrow> go_panic + Worker" where
  "StopRecommendCronJob w = StopCronJob w"

definition StartRecommendWorker ::
  "int \<Rightarrow> bool \<Rightarrow> ('s \<Rightarrow> 's) \<Rightarrow> ('s \<Rightarrow> go_panic + 's) \<Rightarrow> Worker \<times> 's \<Rightarrow> go_panic + Worker \<times> 's" where
  "StartRecommendWorker mode timesOk reset run = (\<lambda>(w, st).
     if w_Status w \<noteq> STATUS_IDLE then Inr (w, st)
     else if mode = OP_MODE_NOOP then Inr (w, st)
     else if mode = OP_MODE_CRONJOB then
       go_bind (run (reset st)) (\<lambda>st. Inr (StartRecommendCronJob timesOk w, st))
     else go_bind (run st) (\<lambda>st. Inr (w, st)))"

definition StopRecommendWorker :: "int \<Rightarrow> Worker \<Rightarrow> go_panic + Worker" where
  "StopRecommendWorker mode w =
     (if mode = OP_MODE_CRONJOB then StopRecommendCronJob w
      else if w_Status w \<noteq> STATUS_RUNNING then Inr w
      else Inr w)"

section \<open>What stopping does\<close>

lemma closed_stays:
  assumes "worker_step mode w e = Inr w'" "w_Closed w"
  shows "w_Closed w'"
  using worker_step_cases [OF assms(1)] assms(2) by auto


lemma workerServer_Start_network:
  assumes "wr_Policytype req = ''network''"
  shows "sv_Network (snd (workerServer_Start cfg req sv)) = StartWorker (wc_NetMode cfg) (wc_NetTimesOk cfg) (sv_Network sv)"
  using assms by (simp add: workerServer_Start_def Let_def)

text \<open>C39: Stop, start and stop again in the mode for cron jobs, as clients of the service may ask for, ends the whole program: the channel is closed a
  second time.\<close>

theorem second_stop_panics:
  assumes "wc_NetMode cfg = OP_MODE_CRONJOB" "wr_Policytype req = ''network''"
    and "w_CronJob (sv_Network sv) \<noteq> None" "w_Status (sv_Network sv) = STATUS_IDLE" "\<not> w_Closed (sv_Network sv)"
  shows "\<exists>r1 sv1 r2 sv2. workerServer_Stop cfg req sv = Inr (r1, sv1) \<and> workerServer_Start cfg req sv1 = (r2, sv2) \<and>
    workerServer_Stop cfg req sv2 = Inl CloseOfClosedChannel"
proof -
  let ?w = "sv_Network sv"
  obtain cron where cron: "w_CronJob ?w = Some cron" using assms(3) by blast
  define w1 where "w1 = ?w\<lparr>w_Closed := True, w_Schedulers := filter (\<lambda>s. s \<noteq> cron) (w_Schedulers ?w), w_CronJob := None\<rparr>"
  have "StopWorker OP_MODE_CRONJOB ?w = Inr w1" using cron assms(5) by (simp add: StopWorker_def StopCronJob_def w1_def)
  then obtain r1 where 1: "workerServer_Stop cfg req sv = Inr (r1, sv\<lparr>sv_Network := w1\<rparr>)"
    using assms(1,2) by (simp add: workerServer_Stop_def Let_def)
  obtain r2 sv2 where 2: "workerServer_Start cfg req (sv\<lparr>sv_Network := w1\<rparr>) = (r2, sv2)" by (meson surj_pair)
  have "w_Status w1 = STATUS_IDLE" using assms(4) by (simp add: w1_def)
  then have "sv_Network sv2 = StartCronJob (wc_NetTimesOk cfg) w1"
    using workerServer_Start_network [OF assms(2), of cfg "sv\<lparr>sv_Network := w1\<rparr>"] 2 assms(1)
    by (simp add: StartWorker_def worker_constants)
  then have "StopWorker OP_MODE_CRONJOB (sv_Network sv2) = Inl CloseOfClosedChannel"
    by (simp add: StopWorker_def StopCronJob_def w1_def)
  then have "workerServer_Stop cfg req sv2 = Inl CloseOfClosedChannel"
    using assms(1,2) by (simp add: workerServer_Stop_def Let_def)
  with 1 2 show ?thesis by blast
qed

text \<open>The schedulers that run, and the one that can be stopped.\<close>

definition worker_wf :: "Worker \<Rightarrow> bool" where
  "worker_wf w \<longleftrightarrow> (\<forall>s\<in>set (w_Schedulers w). s < w_Next w) \<and> (\<forall>s. w_CronJob w = Some s \<longrightarrow> s < w_Next w) \<and>
     distinct (w_Schedulers w) \<and> w_Status w \<in> {STATUS_IDLE, STATUS_RUNNING}"

lemma worker_step_wf:
  assumes "worker_step mode w e = Inr w'" "worker_wf w"
  shows "worker_wf w'"
proof -
  have "w_Status w' \<in> {STATUS_IDLE, STATUS_RUNNING}"
    using assms
    by (cases e) (auto simp: worker_wf_def StartWorker_def StopWorker_def StopCronJob_def begin_round_def
        split: if_splits option.splits)
  with worker_step_cases [OF assms(1)] assms(2) show ?thesis
    by (auto simp: worker_wf_def less_Suc_eq split: if_splits)
qed

text \<open>A scheduler that has been replaced by another start can never be stopped: it runs after every sequence of events.\<close>

theorem replaced_scheduler_runs_on:
  assumes "worker_wf w" "s \<in> set (w_Schedulers w)" "w_CronJob w \<noteq> Some s" "worker_run mode w es = Inr w'"
  shows "s \<in> set (w_Schedulers w')"
proof -
  have "worker_wf w' \<and> s \<in> set (w_Schedulers w') \<and> w_CronJob w' \<noteq> Some s"
  proof (rule worker_run_invariant [OF assms(4), where P = "\<lambda>_. True"
        and I = "\<lambda>w. worker_wf w \<and> s \<in> set (w_Schedulers w) \<and> w_CronJob w \<noteq> Some s"])
    fix v e v' assume v: "worker_wf v \<and> s \<in> set (w_Schedulers v) \<and> w_CronJob v \<noteq> Some s" "worker_step mode v e = Inr v'"
    from v(1) have "s < w_Next v" by (simp add: worker_wf_def)
    with worker_step_cases [OF v(2)] v(1) worker_step_wf [OF v(2)]
    show "worker_wf v' \<and> s \<in> set (w_Schedulers v') \<and> w_CronJob v' \<noteq> Some s"
      by auto
  qed (use assms(1-3) in \<open>simp_all add: list_all_iff\<close>)
  then show ?thesis by simp
qed

text \<open>With a single start the stop is effective: no scheduler runs afterwards, and as long as the worker is not started again no round begins that had not
  begun before.\<close>

theorem stop_ends_rounds:
  assumes "w_CronJob w = Some s" "w_Schedulers w = [s]" "\<not> w_Closed w"
    and "worker_run OP_MODE_CRONJOB w (Stops # es) = Inr w'" "list_all (\<lambda>e. \<forall>timesOk. e \<noteq> Starts timesOk) es"
  shows "w_Schedulers w' = [] \<and> w_Checked w' + w_Active w' \<le> w_Checked w + w_Active w"
proof -
  let ?n = "\<lambda>w. w_Checked w + w_Active w"
  define w1 where "w1 = w\<lparr>w_Closed := True, w_Schedulers := [], w_CronJob := None\<rparr>"
  have run: "worker_run OP_MODE_CRONJOB w1 es = Inr w'"
    using assms(1-4) by (simp add: StopWorker_def StopCronJob_def w1_def)
  have "w_Schedulers w' = [] \<and> w_CronJob w' = None \<and> ?n w' \<le> ?n w1"
  proof (rule worker_run_invariant [OF run, where P = "\<lambda>e. \<forall>timesOk. e \<noteq> Starts timesOk"
        and I = "\<lambda>v. w_Schedulers v = [] \<and> w_CronJob v = None \<and> ?n v \<le> ?n w1"])
    fix v e v' assume v: "w_Schedulers v = [] \<and> w_CronJob v = None \<and> ?n v \<le> ?n w1" "\<forall>timesOk. e \<noteq> Starts timesOk"
      "worker_step OP_MODE_CRONJOB v e = Inr v'"
    then show "w_Schedulers v' = [] \<and> w_CronJob v' = None \<and> ?n v' \<le> ?n w1"
      by (cases e) (auto simp: StopWorker_def StopCronJob_def split: if_splits)
  qed (use assms(5) in \<open>simp_all add: w1_def\<close>)
  then show ?thesis by (simp add: w1_def)
qed

text \<open>The look at the status and its change are two statements: two ticks can find the worker idle, and then two rounds run at once; the first that ends
  says that the worker is idle while the other one still runs.\<close>

theorem two_rounds_at_once:
  assumes "w_Status w = STATUS_IDLE" "s \<in> set (w_Schedulers w)"
  shows "\<exists>w'. worker_run mode w [Tick s, Tick s, SetsRunning, SetsRunning] = Inr w' \<and> w_Active w' = w_Active w + 2 \<and>
    (\<exists>w''. worker_run mode w' [RoundEnds] = Inr w'' \<and> w_Status w'' = STATUS_IDLE \<and> w_Active w'' > 0)"
  using assms by (simp add: begin_round_def worker_constants)

section \<open>Examples\<close>

lemma worker_init_wf: "worker_wf worker_init"
  by (simp add: worker_wf_def worker_init_def)

definition demo_cron_worker :: Worker where
  "demo_cron_worker = worker_init\<lparr>w_CronJob := Some 1, w_Schedulers := [0, 1], w_Next := 2, w_Receivers := 2\<rparr>"


theorem second_stop_panics_witness:
  "\<exists>sv2. workerServer_Stop \<lparr>wc_NetMode = OP_MODE_CRONJOB, wc_SysMode = OP_MODE_CRONJOB, wc_NetTimesOk = True, wc_SysTimesOk = True\<rparr>
     \<lparr>wr_Req = [], wr_Logfile = [], wr_Policytype = ''network''\<rparr> sv2 = Inl CloseOfClosedChannel"
proof -
  let ?sv = "\<lparr>sv_Network = demo_cron_worker, sv_System = worker_init, sv_LogFile = [], sv_Cleared = 0\<rparr>"
  have "w_CronJob (sv_Network ?sv) \<noteq> None" "w_Status (sv_Network ?sv) = STATUS_IDLE" "\<not> w_Closed (sv_Network ?sv)"
    by (simp_all add: demo_cron_worker_def worker_init_def)
  from second_stop_panics [OF _ _ this, where cfg = "\<lparr>wc_NetMode = OP_MODE_CRONJOB, wc_SysMode = OP_MODE_CRONJOB, wc_NetTimesOk = True, wc_SysTimesOk = True\<rparr>"
      and req = "\<lparr>wr_Req = [], wr_Logfile = [], wr_Policytype = ''network''\<rparr>"]
  show ?thesis by auto
qed

theorem replaced_scheduler_runs_on_witness:
  "\<exists>w'. worker_run OP_MODE_CRONJOB demo_cron_worker [Stops, RoundEnds] = Inr w' \<and> 0 \<in> set (w_Schedulers w')"
proof -
  obtain w' where r: "worker_run OP_MODE_CRONJOB demo_cron_worker [Stops, RoundEnds] = Inr w'"
    by (simp add: StopWorker_def StopCronJob_def demo_cron_worker_def worker_init_def)
  have "worker_wf demo_cron_worker" "0 \<in> set (w_Schedulers demo_cron_worker)" "w_CronJob demo_cron_worker \<noteq> Some 0"
    by (simp_all add: worker_wf_def demo_cron_worker_def worker_init_def)
  from replaced_scheduler_runs_on [OF this r] r show ?thesis by blast
qed

theorem stop_ends_rounds_witness:
  "\<exists>w'. worker_run OP_MODE_CRONJOB (worker_init\<lparr>w_CronJob := Some 0, w_Schedulers := [0], w_Next := 1\<rparr>) [Stops, Tick 0, SetsRunning] = Inr w' \<and>
     w_Schedulers w' = []"
proof -
  let ?w = "worker_init\<lparr>w_CronJob := Some 0, w_Schedulers := [0], w_Next := 1\<rparr>"
  obtain w' where r: "worker_run OP_MODE_CRONJOB ?w [Stops, Tick 0, SetsRunning] = Inr w'"
    by (simp add: StopWorker_def StopCronJob_def worker_init_def)
  have "w_CronJob ?w = Some 0" "w_Schedulers ?w = [0]" "\<not> w_Closed ?w" by (simp_all add: worker_init_def)
  from stop_ends_rounds [OF this r] r show ?thesis by auto
qed

theorem two_rounds_at_once_witness:
  "\<exists>w'. worker_run OP_MODE_CRONJOB demo_cron_worker [Tick 0, Tick 0, SetsRunning, SetsRunning] = Inr w' \<and> w_Active w' = 2"
proof -
  have "w_Status demo_cron_worker = STATUS_IDLE" "0 \<in> set (w_Schedulers demo_cron_worker)" "w_Active demo_cron_worker = 0"
    by (simp_all add: demo_cron_worker_def worker_init_def)
  with two_rounds_at_once [of demo_cron_worker 0 OP_MODE_CRONJOB] show ?thesis by auto
qed

end
