(* ===== verification/Analyzer.thy ===== *)
theory Analyzer
  imports NetworkPipeline SystemPipeline
begin

text \<open>
  Package \<^verbatim>\<open>analyzer\<close>: requests with logs that are to be answered with policies. The messages of the service have integers of 32 bits and
  their own structs for policies; the small structs of rules (ports, services, paths) have the same fields as those of \<^verbatim>\<open>types\<close> and are
  not repeated.
\<close>

unbundle bit_operations_syntax

section \<open>Messages\<close>

record PbEgressRule =
  pbe_MatchLabels :: "LabelMap option"
  pbe_ToPorts :: "SpecPort list"
  pbe_ToCIDRs :: "SpecCIDR list"
  pbe_ToEndtities :: "string list"
  pbe_ToServices :: "SpecService list"
  pbe_ToFQDNs :: "SpecFQDN list"
  pbe_ToHTTPs :: "SpecHTTP list"

record PbIngressRule =
  pbi_MatchLabels :: "LabelMap option"
  pbi_ToPorts :: "SpecPort list"
  pbi_ToHTTPs :: "SpecHTTP list"
  pbi_FromCIDRs :: "SpecCIDR list"
  pbi_FromEntities :: "string list"

record PbNetworkPolicy =
  pbn_APIVersion :: string
  pbn_Kind :: string
  pbn_FlowIDs :: "32 word list"
  pbn_Metadata :: str_map
  pbn_Outdated :: string
  pbn_Selector :: LabelMap
  pbn_Egressess :: "PbEgressRule list"
  pbn_Ingressess :: "PbIngressRule list"
  pbn_Action :: string
  pbn_GeneratedTime :: int

record PbNetworkLog =
  pbl_FlowID :: "32 word"
  pbl_ClusterName :: string
  pbl_SrcNamespace :: string
  pbl_SrcPodName :: string
  pbl_DstNamespace :: string
  pbl_DstPodName :: string
  pbl_EtherType :: "32 word"
  pbl_Protocol :: "32 word"
  pbl_SrcIP :: string
  pbl_DstIP :: string
  pbl_SrcPort :: "32 word"
  pbl_DstPort :: "32 word"
  pbl_SynFlag :: bool
  pbl_IsReply :: bool
  pbl_DNSQuery :: string
  pbl_DNSRes :: string
  pbl_DNSResIPs :: "string list"
  pbl_HTTPMethod :: string
  pbl_HTTPPath :: string
  pbl_Direction :: string
  pbl_Action :: string

text \<open>A directory of a system policy has no field for recursion here.\<close>

record PbMatchDirectories =
  pbd_Dir :: string
  pbd_ReadOnly :: bool
  pbd_OwnerOnly :: bool
  pbd_FromSource :: "KnoxFromSource list"

record PbKnoxSys =
  pbk_MatchPaths :: "KnoxMatchPaths list"
  pbk_MatchDirectories :: "PbMatchDirectories list"

record PbSysSpec =
  pbs_Severity :: "32 word"
  pbs_Tags :: "string list"
  pbs_Message :: string
  pbs_Selector :: "LabelMap option"
  pbs_Process :: PbKnoxSys
  pbs_File :: PbKnoxSys
  pbs_Network :: "KnoxMatchProtocols list"
  pbs_Action :: string

record PbSystemPolicy =
  pbp_APIVersion :: string
  pbp_Kind :: string
  pbp_Metadata :: str_map
  pbp_Outdated :: string
  pbp_SysSpec :: "PbSysSpec option"
  pbp_GeneratedTime :: int

record PbSystemLog =
  pbo_LogID :: "32 word"
  pbo_ClusterName :: string
  pbo_HostName :: string
  pbo_Namespace :: string
  pbo_PodName :: string
  pbo_SourceOrigin :: string
  pbo_Source :: string
  pbo_Operation :: string
  pbo_ResourceOrigin :: string
  pbo_Resource :: string
  pbo_Data :: string
  pbo_ReadOnly :: bool
  pbo_Result :: string

section \<open>Network policies\<close>

definition pb_egress :: "Egress \<Rightarrow> PbEgressRule" where
  "pb_egress egress = \<lparr>pbe_MatchLabels = eg_MatchLabels egress, pbe_ToPorts = map (\<lambda>p. \<lparr>port_Port = port_Port p, port_Protocol = port_Protocol p\<rparr>) (eg_ToPorts egress),
     pbe_ToCIDRs = map (\<lambda>c. \<lparr>cidr_CIDRs = [] @ cidr_CIDRs c, cidr_Except = [] @ cidr_Except c\<rparr>) (eg_ToCIDRs egress),
     pbe_ToEndtities = [] @ eg_ToEntities egress,
     pbe_ToServices = map (\<lambda>s. \<lparr>svc_ServiceName = svc_ServiceName s, svc_Namespace = svc_Namespace s\<rparr>) (eg_ToServices egress),
     pbe_ToFQDNs = map (\<lambda>f. \<lparr>fqdn_MatchNames = [] @ fqdn_MatchNames f\<rparr>) (eg_ToFQDNs egress),
     pbe_ToHTTPs = map (\<lambda>h. \<lparr>http_Method = http_Method h, http_Path = http_Path h, http_Aggregated = http_Aggregated h\<rparr>) (eg_ToHTTPs egress)\<rparr>"

text \<open>The entities are appended at the beginning and at the end of the loop.\<close>

definition pb_ingress :: "Ingress \<Rightarrow> PbIngressRule" where
  "pb_ingress ingress =
     (let FromEntities = [] @ in_FromEntities ingress;
          ToPorts = map (\<lambda>p. \<lparr>port_Port = port_Port p, port_Protocol = port_Protocol p\<rparr>) (in_ToPorts ingress);
          ToHTTPs = map (\<lambda>h. \<lparr>http_Method = http_Method h, http_Path = http_Path h, http_Aggregated = http_Aggregated h\<rparr>) (in_ToHTTPs ingress);
          FromCIDRs = map (\<lambda>c. \<lparr>cidr_CIDRs = [] @ cidr_CIDRs c, cidr_Except = [] @ cidr_Except c\<rparr>) (in_FromCIDRs ingress);
          FromEntities = FromEntities @ in_FromEntities ingress
      in \<lparr>pbi_MatchLabels = in_MatchLabels ingress, pbi_ToPorts = ToPorts, pbi_ToHTTPs = ToHTTPs, pbi_FromCIDRs = FromCIDRs,
          pbi_FromEntities = FromEntities\<rparr>)"

definition populatePbNetPolicyFromNetPolicy :: "KnoxNetworkPolicy \<Rightarrow> PbNetworkPolicy" where
  "populatePbNetPolicyFromNetPolicy p = \<lparr>pbn_APIVersion = np_APIVersion p, pbn_Kind = np_Kind p,
     pbn_FlowIDs = map word_of_int (np_FlowIDs p), pbn_Metadata = np_Metadata p, pbn_Outdated = np_Outdated p,
     pbn_Selector = sel_MatchLabels (spec_Selector (np_Spec p)), pbn_Egressess = map pb_egress (spec_Egress (np_Spec p)),
     pbn_Ingressess = map pb_ingress (spec_Ingress (np_Spec p)), pbn_Action = [], pbn_GeneratedTime = np_GeneratedTime p\<rparr>"

definition populateNetworkLogs :: "PbNetworkLog list \<Rightarrow> KnoxNetworkLog list" where
  "populateNetworkLogs pbNetworkLog = map (\<lambda>l. KnoxNetworkLog_zero\<lparr>nl_FlowID := sint (pbl_FlowID l), nl_ClusterName := pbl_ClusterName l,
     nl_SrcNamespace := pbl_SrcNamespace l, nl_SrcPodName := pbl_SrcPodName l, nl_DstNamespace := pbl_DstNamespace l,
     nl_DstPodName := pbl_DstPodName l, nl_EtherType := sint (pbl_EtherType l), nl_Protocol := sint (pbl_Protocol l),
     nl_SrcIP := pbl_SrcIP l, nl_DstIP := pbl_DstIP l, nl_SrcPort := sint (pbl_SrcPort l), nl_DstPort := sint (pbl_DstPort l),
     nl_SynFlag := pbl_SynFlag l, nl_IsReply := pbl_IsReply l, nl_DNSQuery := pbl_DNSQuery l, nl_DNSRes := pbl_DNSRes l,
     nl_DNSResIPs := [] @ pbl_DNSResIPs l, nl_HTTPMethod := pbl_HTTPMethod l, nl_HTTPPath := pbl_HTTPPath l,
     nl_Direction := pbl_Direction l, nl_Action := pbl_Action l\<rparr>) pbNetworkLog"

definition analyzer_GetNetworkPolicies ::
  "NetEnv \<Rightarrow> NetOrders \<Rightarrow> (discovered \<Rightarrow> discovered) \<Rightarrow> PbNetworkLog list \<Rightarrow> NetState \<Rightarrow> go_panic + NetState \<times> PbNetworkPolicy list" where
  "analyzer_GetNetworkPolicies env ords ord pbNetworkLog st =
     (let networkLogs = populateNetworkLogs pbNetworkLog in
      go_bind (extractNetworkPoliciesFromNetworkLogs env ords ord networkLogs st) (\<lambda>(st, policies).
        Inr (st, map populatePbNetPolicyFromNetPolicy policies)))"

section \<open>System policies\<close>

definition pb_source :: "KnoxFromSource list \<Rightarrow> KnoxFromSource list" where
  "pb_source sources = map (\<lambda>s. \<lparr>fs_Path = fs_Path s, fs_Dir = fs_Dir s\<rparr>) sources"

definition pb_path :: "KnoxMatchPaths \<Rightarrow> KnoxMatchPaths" where
  "pb_path p = \<lparr>mp_Path = mp_Path p, mp_ReadOnly = mp_ReadOnly p, mp_OwnerOnly = mp_OwnerOnly p, mp_FromSource = pb_source (mp_FromSource p)\<rparr>"

definition pb_directory :: "KnoxMatchDirectories \<Rightarrow> PbMatchDirectories" where
  "pb_directory d = \<lparr>pbd_Dir = md_Dir d, pbd_ReadOnly = md_ReadOnly d, pbd_OwnerOnly = md_OwnerOnly d,
     pbd_FromSource = pb_source (md_FromSource d)\<rparr>"

definition pb_sys :: "KnoxSys \<Rightarrow> PbKnoxSys" where
  "pb_sys s = \<lparr>pbk_MatchPaths = map pb_path (ks_MatchPaths s), pbk_MatchDirectories = map pb_directory (ks_MatchDirectories s)\<rparr>"

text \<open>The tags are appended to those of the specification of the new policy, which is nil at this point, and so would be the one that gets the selector.\<close>

definition populatePbSysPolicyFromSysPolicy :: "KnoxSystemPolicy \<Rightarrow> go_panic + PbSystemPolicy" where
  "populatePbSysPolicyFromSysPolicy p =
     (let pbSysPolicy = \<lparr>pbp_APIVersion = sysp_APIVersion p, pbp_Kind = sysp_Kind p, pbp_Metadata = sysp_Metadata p,
            pbp_Outdated = sysp_Outdated p, pbp_SysSpec = None, pbp_GeneratedTime = 0\<rparr>;
          spec = sysp_Spec p
      in case pbp_SysSpec pbSysPolicy of
           None \<Rightarrow> Inl NilDereference
         | Some sysSpec \<Rightarrow>
             (let pbSysSpec = \<lparr>pbs_Severity = word_of_int (ss_Severity spec), pbs_Tags = pbs_Tags sysSpec @ ss_Tags spec,
                    pbs_Message = ss_Message spec, pbs_Selector = None, pbs_Process = pb_sys (ss_Process spec), pbs_File = pb_sys (ss_File spec),
                    pbs_Network = map (\<lambda>m. \<lparr>mpr_Protocol = mpr_Protocol m, mpr_FromSource = pb_source (mpr_FromSource m)\<rparr>)
                      (nr_MatchProtocols (ss_Network spec)), pbs_Action = ss_Action spec\<rparr>
              in Inr (pbSysPolicy\<lparr>pbp_SysSpec := Some pbSysSpec, pbp_GeneratedTime := sysp_GeneratedTime p\<rparr>)))"

text \<open>Without logs the run returns nil.\<close>

definition extractSystemPoliciesFromSystemLogs ::
  "SysEnv \<Rightarrow> SysRun \<Rightarrow> KnoxSystemLog list \<Rightarrow> SysState \<Rightarrow> go_panic + SysState option \<times> PbSystemPolicy list" where
  "extractSystemPoliciesFromSystemLogs env runs systemLogs st =
     go_bind (PopulateSystemPoliciesFromSystemLogs env runs [] st) (\<lambda>(st, _).
     go_bind (foldM (\<lambda>ps p. go_bind (populatePbSysPolicyFromSysPolicy p) (\<lambda>pb. Inr (ps @ [pb]))) [] []) (\<lambda>ps.
       Inr (st, ps)))"

definition populateSystemLogs :: "PbSystemLog list \<Rightarrow> KnoxSystemLog list" where
  "populateSystemLogs pbSysLogs = map (\<lambda>l. KnoxSystemLog_zero\<lparr>sl_LogID := sint (pbo_LogID l), sl_ClusterName := pbo_ClusterName l,
     sl_HostName := pbo_HostName l, sl_Namespace := pbo_Namespace l, sl_PodName := pbo_PodName l, sl_SourceOrigin := pbo_SourceOrigin l,
     sl_Source := pbo_Source l, sl_Operation := pbo_Operation l, sl_ResourceOrigin := pbo_ResourceOrigin l,
     sl_Resource := pbo_Resource l, sl_Data := pbo_Data l, sl_ReadOnly := pbo_ReadOnly l, sl_Result := pbo_Result l\<rparr>) pbSysLogs"

definition analyzer_GetSystemPolicies ::
  "SysEnv \<Rightarrow> SysRun \<Rightarrow> PbSystemLog list \<Rightarrow> SysState \<Rightarrow> go_panic + SysState option \<times> PbSystemPolicy list" where
  "analyzer_GetSystemPolicies env runs pbSystemLogs st =
     (let systemLogs = populateSystemLogs pbSystemLogs in extractSystemPoliciesFromSystemLogs env runs systemLogs st)"

section \<open>What the answers contain\<close>

text \<open>What a message says about a rule, read back.\<close>

definition ingress_of_pb :: "PbIngressRule \<Rightarrow> Ingress" where
  "ingress_of_pb i = Ingress_zero\<lparr>in_MatchLabels := pbi_MatchLabels i, in_ToPorts := pbi_ToPorts i, in_ToHTTPs := pbi_ToHTTPs i,
     in_FromCIDRs := pbi_FromCIDRs i, in_FromEntities := pbi_FromEntities i\<rparr>"

definition egress_of_pb :: "PbEgressRule \<Rightarrow> Egress" where
  "egress_of_pb e = Egress_zero\<lparr>eg_MatchLabels := pbe_MatchLabels e, eg_ToPorts := pbe_ToPorts e, eg_ToCIDRs := pbe_ToCIDRs e,
     eg_ToEntities := pbe_ToEndtities e, eg_ToServices := pbe_ToServices e, eg_ToFQDNs := pbe_ToFQDNs e, eg_ToHTTPs := pbe_ToHTTPs e\<rparr>"

lemma copied_structs [simp]:
  "(\<lambda>p. \<lparr>port_Port = port_Port p, port_Protocol = port_Protocol p\<rparr>) = id"
  "(\<lambda>h. \<lparr>http_Method = http_Method h, http_Path = http_Path h, http_Aggregated = http_Aggregated h\<rparr>) = id"
  "(\<lambda>c. \<lparr>cidr_CIDRs = cidr_CIDRs c, cidr_Except = cidr_Except c\<rparr>) = id"
  "(\<lambda>s. \<lparr>svc_ServiceName = svc_ServiceName s, svc_Namespace = svc_Namespace s\<rparr>) = id"
  "(\<lambda>f. \<lparr>fqdn_MatchNames = fqdn_MatchNames f\<rparr>) = id"
  by (simp_all add: fun_eq_iff)

lemma ingress_of_pb: "ingress_of_pb (pb_ingress i) = i\<lparr>in_ICMPs := [], in_FromEntities := in_FromEntities i @ in_FromEntities i\<rparr>"
  by (cases i) (simp add: ingress_of_pb_def pb_ingress_def Ingress_zero_def Let_def)

lemma egress_of_pb: "egress_of_pb (pb_egress e) = e\<lparr>eg_ICMPs := []\<rparr>"
  by (cases e) (simp add: egress_of_pb_def pb_egress_def Egress_zero_def)

lemma int32_fits: "sint (word_of_int i :: 32 word) = i \<longleftrightarrow> -2147483648 \<le> i \<and> i < 2147483648"
  by (simp add: sint_sbintrunc' signed_take_bit_int_eq_self_iff)

text \<open>The message of a network policy has the rules of the policy except for those on ICMP, which are lost, and with the entities of an ingress
  rule twice; the numbers of the flows are right exactly if they fit into 32 bits.\<close>

theorem populatePbNetPolicy_keeps:
  "map egress_of_pb (pbn_Egressess (populatePbNetPolicyFromNetPolicy p)) = map (\<lambda>e. e\<lparr>eg_ICMPs := []\<rparr>) (spec_Egress (np_Spec p)) \<and>
   map ingress_of_pb (pbn_Ingressess (populatePbNetPolicyFromNetPolicy p)) =
     map (\<lambda>i. i\<lparr>in_ICMPs := [], in_FromEntities := in_FromEntities i @ in_FromEntities i\<rparr>) (spec_Ingress (np_Spec p)) \<and>
   (map sint (pbn_FlowIDs (populatePbNetPolicyFromNetPolicy p)) = np_FlowIDs p \<longleftrightarrow>
     list_all (\<lambda>f. -2147483648 \<le> f \<and> f < 2147483648) (np_FlowIDs p))"
proof -
  have "map sint (map word_of_int fs :: 32 word list) = fs \<longleftrightarrow> list_all (\<lambda>f. -2147483648 \<le> f \<and> f < 2147483648) fs" for fs
    by (induction fs) (simp_all del: map_map add: int32_fits)
  then show ?thesis by (simp add: populatePbNetPolicyFromNetPolicy_def ingress_of_pb egress_of_pb)
qed

text \<open>A system policy can never be converted.\<close>

lemma populatePbSysPolicy_panics: "populatePbSysPolicyFromSysPolicy p = Inl NilDereference"
  by (simp add: populatePbSysPolicyFromSysPolicy_def Let_def)

text \<open>The analyzer finds nothing: whatever the logs of a request, both answers are empty and nothing changes.\<close>

theorem analyzer_finds_nothing:
  assumes "iter_order ord" "iter_order (no_logs ords)" "iter_order (no_clusters ords)"
  shows "analyzer_GetNetworkPolicies env ords ord netLogs st = Inr (st, []) \<and>
    analyzer_GetSystemPolicies senv runs sysLogs sst = Inr (Some sst, [])"
  by (simp add: analyzer_GetNetworkPolicies_def analyzer_finds_no_network_policy [OF assms] analyzer_GetSystemPolicies_def Let_def
      extractSystemPoliciesFromSystemLogs_def PopulateSystemPoliciesFromSystemLogs_def)

theorem analyzer_finds_nothing_witness:
  "analyzer_GetNetworkPolicies NetworkPipeline.demo_env demo_orders (\<lambda>m. m) [] demo_net_state = Inr (demo_net_state, [])"
  using analyzer_finds_nothing [of "\<lambda>m. m" demo_orders NetworkPipeline.demo_env "[]" demo_net_state] by (simp add: demo_orders_def)

end
