(* ===== verification/ClusterResources.thy ===== *)
theory ClusterResources
  imports GoNet FileSet AdmissionController
begin

text \<open>
  Package \<^verbatim>\<open>cluster\<close>: the resources of a cluster as the discovery sees them, from the Kubernetes API
  (\<^verbatim>\<open>k8sClientHandler.go\<close>), from the cluster management (\<^verbatim>\<open>clusterMgmtHandler.go\<close>) or from the KVM service
  (\<^verbatim>\<open>kvmServiceHandler.go\<close>), and the choice among them (\<^verbatim>\<open>clusterResourceHandler.go\<close>).

  What the API returns is a list of objects with the fields that the code reads, or an error, which includes that there is no client. A map
  whose iteration matters is an association list, iterated in an order \<^verbatim>\<open>ord\<close>. HTTP and the decoding of JSON into structs are parameters.
\<close>

type_synonym label_list = "(string \<times> string) list"

section \<open>Objects of Kubernetes\<close>

record K8sNamespace =
  kn_Name :: string
  kn_Phase :: string

record PodObject =
  kp_Namespace :: string
  kp_Name :: string
  kp_PodIP :: string
  kp_Labels :: label_list
  kp_Annotations :: "LabelMap option"

record K8sServicePort =
  ksp_Protocol :: string
  ksp_Port :: int
  ksp_NodePort :: int
  ksp_TargetPort :: int

record K8sService =
  ksv_Namespace :: string
  ksv_Name :: string
  ksv_Type :: string
  ksv_Labels :: label_list
  ksv_ClusterIP :: string
  ksv_ExternalIPs :: "string list"
  ksv_Ports :: "K8sServicePort list"
  ksv_Selector :: LabelMap

record K8sSubset =
  kss_Addresses :: "(string \<times> bool) list"
  kss_Ports :: "(string \<times> int) list"

record K8sEndpoints =
  ke_Namespace :: string
  ke_Name :: string
  ke_Labels :: label_list
  ke_Subsets :: "K8sSubset list"

record K8sConfigMap =
  kc_Name :: string
  kc_Data :: label_list

record K8sWorkload =
  kw_Name :: string
  kw_Namespace :: string
  kw_Owned :: bool
  kw_MatchLabels :: "label_list option"

section \<open>From the Kubernetes API\<close>

definition api_items :: "string + 'a list \<Rightarrow> 'a list" where
  "api_items r = (case r of Inl err \<Rightarrow> [] | Inr items \<Rightarrow> items)"

definition GetNamespacesFromK8sClient :: "string + K8sNamespace list \<Rightarrow> string list" where
  "GetNamespacesFromK8sClient namespaces = map kn_Name (filter (\<lambda>n. kn_Phase n = ''Active'') (api_items namespaces))"

definition LabelJobControllerUid_key :: string where "LabelJobControllerUid_key = ''controller-uid''"

definition skipLabelKey :: "string list" where
  "skipLabelKey = [''pod-template-hash'', ''controller-revision-hash'', ''statefulset.kubernetes.io/pod-name'', LabelJobControllerUid_key]"

definition label_pair :: "string \<times> string \<Rightarrow> string" where
  "label_pair = (\<lambda>(k, v). k @ ''='' @ v)"

definition GetPodsFromK8sClient :: "(label_list \<Rightarrow> label_list) \<Rightarrow> string + PodObject list \<Rightarrow> Pod list" where
  "GetPodsFromK8sClient ord pods = map (\<lambda>pod. \<lparr>pod_Namespace = kp_Namespace pod, pod_PodName = kp_Name pod,
     pod_Labels = sort (map label_pair (filter (\<lambda>(k, v). \<not> ContainsElement skipLabelKey k) (ord (kp_Labels pod)))),
     pod_PodIP = kp_PodIP pod\<rparr>) (api_items pods)"

text \<open>The annotations are merged into those of each pod. An update that fails ends the loop, and the pods before it have been changed.\<close>

definition annotate :: "LabelMap \<Rightarrow> PodObject \<Rightarrow> PodObject" where
  "annotate annotation pod = pod\<lparr>kp_Annotations := Some ((case kp_Annotations pod of None \<Rightarrow> fmempty | Some ann \<Rightarrow> ann) ++\<^sub>f annotation)\<rparr>"

fun update_pods :: "(PodObject \<Rightarrow> string option) \<Rightarrow> (PodObject \<Rightarrow> bool) \<Rightarrow> LabelMap \<Rightarrow> PodObject list \<Rightarrow> string option \<times> PodObject list" where
  "update_pods fault want annotation [] = (None, [])"
| "update_pods fault want annotation (pod # pods) =
     (if \<not> want pod then (let (err, pods) = update_pods fault want annotation pods in (err, pod # pods))
      else case fault (annotate annotation pod) of
        Some err \<Rightarrow> (Some err, pod # pods)
      | None \<Rightarrow> (let (err, pods) = update_pods fault want annotation pods in (err, annotate annotation pod # pods)))"

definition SetAnnotationsToPodsInNamespaceK8s ::
  "bool \<Rightarrow> string option \<Rightarrow> (PodObject \<Rightarrow> string option) \<Rightarrow> string \<Rightarrow> LabelMap \<Rightarrow> PodObject list \<Rightarrow> string option \<times> PodObject list" where
  "SetAnnotationsToPodsInNamespaceK8s client listErr fault namespace annotation pods =
     (if \<not> client then (Some ''no client'', pods)
      else if listErr \<noteq> None then (listErr, pods)
      else update_pods fault (\<lambda>pod. namespace = [] \<or> kp_Namespace pod = namespace) annotation pods)"

definition SetAnnotationsToPodK8s ::
  "bool \<Rightarrow> string option \<Rightarrow> (PodObject \<Rightarrow> string option) \<Rightarrow> string \<Rightarrow> LabelMap \<Rightarrow> PodObject list \<Rightarrow> string option \<times> PodObject list" where
  "SetAnnotationsToPodK8s client listErr fault podName annotation pods =
     (if \<not> client then (Some ''no client'', pods)
      else if listErr \<noteq> None then (listErr, pods)
      else update_pods fault (\<lambda>pod. kp_Name pod = podName) annotation pods)"

text \<open>One service for each port.\<close>

definition services_of :: "(label_list \<Rightarrow> label_list) \<Rightarrow> K8sService \<Rightarrow> Service list" where
  "services_of ord svc = map (\<lambda>port. \<lparr>sv_Namespace = ksv_Namespace svc, sv_ServiceName = ksv_Name svc,
     sv_Labels = map label_pair (ord (ksv_Labels svc)), sv_Type = ksv_Type svc, sv_Protocol = ksp_Protocol port,
     sv_ClusterIP = ksv_ClusterIP svc, sv_ServicePort = ksp_Port port, sv_NodePort = ksp_NodePort port,
     sv_TargetPort = ksp_TargetPort port, sv_ExternalIPs = ksv_ExternalIPs svc, sv_Selector = ksv_Selector svc\<rparr>) (ksv_Ports svc)"

definition GetServicesFromK8sClient :: "(label_list \<Rightarrow> label_list) \<Rightarrow> string + K8sService list \<Rightarrow> Service list" where
  "GetServicesFromK8sClient ord svcs = concat (map (services_of ord) (api_items svcs))"

text \<open>Addresses with a target are left out, and so are subsets without another address or without ports.\<close>

definition subset_endpoint :: "(label_list \<Rightarrow> label_list) \<Rightarrow> K8sEndpoints \<Rightarrow> K8sSubset \<Rightarrow> Endpoint" where
  "subset_endpoint ord e sub = \<lparr>ep_Namespace = ke_Namespace e, ep_EndpointName = ke_Name e,
     ep_Labels = sort (map label_pair (ord (ke_Labels e))),
     ep_Endpoints = concat (map (\<lambda>(ip, target). if target then [] else
       map (\<lambda>(protocol, port). \<lparr>map_Protocol = ToLower protocol, map_IP = ip, map_Port = port\<rparr>) (kss_Ports sub)) (kss_Addresses sub))\<rparr>"

definition GetEndpointsFromK8sClient :: "(label_list \<Rightarrow> label_list) \<Rightarrow> string + K8sEndpoints list \<Rightarrow> Endpoint list" where
  "GetEndpointsFromK8sClient ord endpoints = concat (map (\<lambda>e. if length (ke_Subsets e) = 0 then []
     else filter (\<lambda>ep. length (ep_Endpoints ep) > 0) (map (subset_endpoint ord e) (ke_Subsets e))) (api_items endpoints))"

text \<open>The white space of ASCII.\<close>

definition is_space :: "char \<Rightarrow> bool" where
  "is_space c \<longleftrightarrow> of_char c \<in> {9 :: nat, 10, 11, 12, 13, 32}"

definition TrimSpace :: "string \<Rightarrow> string" where
  "TrimSpace s = rev (dropWhile is_space (rev (dropWhile is_space s)))"

text \<open>The first line with the name in the order of the data; the text after the separator need not be there.\<close>

fun cluster_name_of :: "string list \<Rightarrow> go_panic + string option" where
  "cluster_name_of [] = Inr None"
| "cluster_name_of (line # lines) =
     (if Contains line ''cluster_name:'' then
        (case Split2 (CHR '':'') (CHR '' '') (TrimSpace line) of a # b # rest \<Rightarrow> Inr (Some b) | _ \<Rightarrow> Inl IndexOutOfRange)
      else cluster_name_of lines)"

definition GetClusterNameFromK8sClient :: "(label_list \<Rightarrow> label_list) \<Rightarrow> string + K8sConfigMap list \<Rightarrow> go_panic + string" where
  "GetClusterNameFromK8sClient ord configMaps =
     go_bind (cluster_name_of (concat (map (\<lambda>m. if kc_Name m = ''gke-metrics-agent-conf''
         then concat (map (\<lambda>(_, v). Split v (CHR ''\<newline>'')) (ord (kc_Data m))) else []) (api_items configMaps))))
       (\<lambda>name. Inr (case name of None \<Rightarrow> ''default'' | Some n \<Rightarrow> n))"

definition workload_deployments :: "(label_list \<Rightarrow> label_list) \<Rightarrow> K8sWorkload list \<Rightarrow> Deployment list" where
  "workload_deployments ord ws = concat (map (\<lambda>d. if kw_Namespace d = ''kube-system'' then []
     else case kw_MatchLabels d of None \<Rightarrow> []
       | Some m \<Rightarrow> [\<lparr>dep_Name = kw_Name d, dep_Namespace = kw_Namespace d, dep_Labels = Join (map label_pair (ord m)) '',''\<rparr>]) ws)"

definition GetReplicaSetsFromK8sClient :: "(label_list \<Rightarrow> label_list) \<Rightarrow> string + K8sWorkload list \<Rightarrow> Deployment list" where
  "GetReplicaSetsFromK8sClient ord replicasets = workload_deployments ord (filter (\<lambda>rs. \<not> kw_Owned rs) (api_items replicasets))"

definition GetStatefulSetsFromK8sClient :: "(label_list \<Rightarrow> label_list) \<Rightarrow> string + K8sWorkload list \<Rightarrow> Deployment list" where
  "GetStatefulSetsFromK8sClient ord statefulset = workload_deployments ord (filter (\<lambda>sts. \<not> kw_Owned sts) (api_items statefulset))"

text \<open>If the deployments cannot be listed, the other kinds are left out as well.\<close>

definition GetDeploymentsFromK8sClient ::
  "(label_list \<Rightarrow> label_list) \<Rightarrow> string + K8sWorkload list \<Rightarrow> string + K8sWorkload list \<Rightarrow> string + K8sWorkload list \<Rightarrow> Deployment list" where
  "GetDeploymentsFromK8sClient ord deployments replicasets statefulset =
     (case deployments of Inl err \<Rightarrow> []
      | Inr ds \<Rightarrow> workload_deployments ord ds @ GetReplicaSetsFromK8sClient ord replicasets @ GetStatefulSetsFromK8sClient ord statefulset)"

text \<open>There is no check that there is a client.\<close>

definition GetNodesFromK8sClient :: "bool \<Rightarrow> string + (string \<times> LabelMap) list \<Rightarrow> go_panic + (string + (string \<times> LabelMap) list)" where
  "GetNodesFromK8sClient client nodes = (if \<not> client then Inl NilDereference else Inr nodes)"

definition GetKubearmorRelayURL :: "bool \<Rightarrow> string + (string \<times> string) list \<Rightarrow> string" where
  "GetKubearmorRelayURL client svcs =
     (if \<not> client then []
      else case svcs of Inl err \<Rightarrow> [] | Inr [] \<Rightarrow> []
        | Inr ((name, namespace) # _) \<Rightarrow> name @ ''.'' @ namespace @ ''.svc.cluster.local'')"

section \<open>From the cluster management\<close>

record Cluster =
  clu_ClusterName :: string
  clu_ClusterID :: int
  clu_WorkspaceID :: int
  clu_Location :: string

definition Cluster_zero :: Cluster where
  "Cluster_zero = \<lparr>clu_ClusterName = [], clu_ClusterID = 0, clu_WorkspaceID = 0, clu_Location = []\<rparr>"

record ServiceCluster =
  scl_Namespace :: string
  scl_ServiceName :: string
  scl_Labels :: "label_list list"
  scl_Types :: string
  scl_Mappings :: "label_list list"
  scl_Selector :: "label_list list"
  scl_Status :: string
  scl_ClusterIP :: string

record EndpointCluster =
  ecl_Namespace :: string
  ecl_EndpointName :: string
  ecl_IP :: string
  ecl_Labels :: "label_list list"
  ecl_Mappings :: "(string \<times> json) list list"

record PodCluster =
  pcl_Namespace :: string
  pcl_PodName :: string
  pcl_Labels :: "(string \<times> json) list list"
  pcl_PodIP :: string

text \<open>The service: the body of the response to a request, or nothing if anything fails; and what the JSON library decodes.\<close>

record ClusterMgmt =
  cm_http :: "string \<Rightarrow> string \<Rightarrow> json \<Rightarrow> string option"
  cm_unmarshal :: "string \<Rightarrow> (string \<times> json) list option"
  cm_marshal :: "json \<Rightarrow> string option"
  cm_clusters :: "string \<Rightarrow> Cluster list"
  cm_objects :: "string \<Rightarrow> json list option"
  cm_service :: "json \<Rightarrow> ServiceCluster option"
  cm_endpoint :: "json \<Rightarrow> EndpointCluster"
  cm_pod :: "json \<Rightarrow> PodCluster option"

definition getResponseBytes :: "ClusterMgmt \<Rightarrow> string \<Rightarrow> string \<Rightarrow> string \<Rightarrow> json \<Rightarrow> string option" where
  "getResponseBytes cm BaseURL method url data =
     (case cm_http cm method (BaseURL @ url) data of None \<Rightarrow> None
      | Some resByte \<Rightarrow>
          if \<not> Contains resByte ''result'' then None
          else case cm_unmarshal cm resByte of None \<Rightarrow> None
            | Some result \<Rightarrow> cm_marshal cm (case map_of result ''result'' of None \<Rightarrow> JNull | Some j \<Rightarrow> j))"

definition GetClustersFromClusterNames :: "ClusterMgmt \<Rightarrow> string \<Rightarrow> string list \<Rightarrow> Cluster list" where
  "GetClustersFromClusterNames cm base clusterNames =
     (case getResponseBytes cm base ''POST'' ''/cm/api/v1/cluster-management/get-cluster-ids''
         (JObj [(''cluster_names'', JArr (map JStr clusterNames))]) of
        None \<Rightarrow> [] | Some res \<Rightarrow> cm_clusters cm res)"

definition GetClusterFromClusterName :: "ClusterMgmt \<Rightarrow> string \<Rightarrow> string \<Rightarrow> Cluster" where
  "GetClusterFromClusterName cm base clusterName =
     (let results = (case getResponseBytes cm base ''POST'' ''/cm/api/v1/cluster-management/get-cluster-ids''
         (JObj [(''cluster_names'', JArr [JStr clusterName])]) of None \<Rightarrow> [] | Some res \<Rightarrow> cm_clusters cm res)
      in if length results = 1 then results ! 0 else Cluster_zero)"

text \<open>The objects of a response; an error of decoding gives none.\<close>

definition objects_of :: "ClusterMgmt \<Rightarrow> string \<Rightarrow> string \<Rightarrow> json \<Rightarrow> json list" where
  "objects_of cm base url data = (case getResponseBytes cm base ''POST'' url data of None \<Rightarrow> []
     | Some res \<Rightarrow> (case cm_objects cm res of None \<Rightarrow> [] | Some os \<Rightarrow> os))"

fun json_field :: "string \<Rightarrow> json \<Rightarrow> json option" where
  "json_field k (JObj m) = map_of m k"
| "json_field k _ = None"

definition GetNamespacesFromCluster :: "ClusterMgmt \<Rightarrow> string \<Rightarrow> Cluster \<Rightarrow> go_panic + string list" where
  "GetNamespacesFromCluster cm base cluster =
     foldM (\<lambda>results v. case json_field ''namespace'' v of Some (JStr ns) \<Rightarrow> Inr (results @ [ns]) | _ \<Rightarrow> Inl TypeAssertion) []
       (objects_of cm base ''/cm/api/v1/cluster-management/all-namespaces''
         (JObj [(''workspace_id'', JNum (clu_WorkspaceID cluster)), (''cluster_id'', JArr [JNum (clu_ClusterID cluster)])]))"

text \<open>The value of a key, or the empty text; a number, or zero if the text is none.\<close>

definition field :: "label_list \<Rightarrow> string \<Rightarrow> string" where
  "field m k = (case map_of m k of None \<Rightarrow> [] | Some v \<Rightarrow> v)"

definition AtoiOrZero :: "string \<Rightarrow> int" where
  "AtoiOrZero s = (case parse_decimal s of None \<Rightarrow> 0 | Some n \<Rightarrow> if - (2 ^ 63) \<le> n \<and> n < 2 ^ 63 then n else 0)"

definition cluster_services :: "ServiceCluster \<Rightarrow> Service list" where
  "cluster_services svc = map (\<lambda>mapping. \<lparr>sv_Namespace = scl_Namespace svc, sv_ServiceName = scl_ServiceName svc,
     sv_Labels = map (\<lambda>label. field label ''name'' @ ''='' @ field label ''value'') (scl_Labels svc), sv_Type = scl_Types svc,
     sv_Protocol = field mapping ''Protocol'', sv_ClusterIP = field mapping ''IP'',
     sv_ServicePort = AtoiOrZero (field mapping ''ServicePort''), sv_NodePort = AtoiOrZero (field mapping ''NodePort''),
     sv_TargetPort = AtoiOrZero (field mapping ''TargetPort''), sv_ExternalIPs = [], sv_Selector = fmempty\<rparr>) (scl_Mappings svc)"

definition GetServicesFromCluster :: "ClusterMgmt \<Rightarrow> string \<Rightarrow> Cluster \<Rightarrow> Service list" where
  "GetServicesFromCluster cm base cluster =
     concat (map (\<lambda>v. case cm_service cm v of None \<Rightarrow> [] | Some svc \<Rightarrow> cluster_services svc)
       (objects_of cm base ''/cm/api/v1/cluster-management/get-service-details''
         (JObj [(''WorkspaceID'', JNum (clu_WorkspaceID cluster)), (''ClusterID'', JArr [JNum (clu_ClusterID cluster)])])))"

text \<open>A protocol that is no text is only logged; a port that is no number and an address that is no text panic.\<close>

definition cluster_mapping :: "(string \<times> json) list \<Rightarrow> go_panic + Mapping_rec" where
  "cluster_mapping m = (case (map_of m ''port'', map_of m ''ip'') of
     (Some (JNum port), Some (JStr ip)) \<Rightarrow>
       Inr \<lparr>map_Protocol = (case map_of m ''Protocol'' of Some (JStr p) \<Rightarrow> p | _ \<Rightarrow> []), map_IP = ip, map_Port = port\<rparr>
   | _ \<Rightarrow> Inl TypeAssertion)"

definition GetEndpointsFromCluster :: "ClusterMgmt \<Rightarrow> string \<Rightarrow> Cluster \<Rightarrow> go_panic + Endpoint list" where
  "GetEndpointsFromCluster cm base cluster =
     foldM (\<lambda>results v. let epCluster = cm_endpoint cm v in
       go_bind (foldM (\<lambda>ms m. go_bind (cluster_mapping m) (\<lambda>x. Inr (ms @ [x]))) [] (ecl_Mappings epCluster)) (\<lambda>mappings.
         Inr (results @ [\<lparr>ep_Namespace = ecl_Namespace epCluster, ep_EndpointName = ecl_EndpointName epCluster,
           ep_Labels = map (\<lambda>l. field l ''name'' @ ''='' @ field l ''value'') (ecl_Labels epCluster), ep_Endpoints = mappings\<rparr>]))) []
       (objects_of cm base ''/cm/api/v1/cluster-management/get-endpoints-details''
         (JObj [(''WorkspaceID'', JNum (clu_WorkspaceID cluster)), (''ClusterID'', JArr [JNum (clu_ClusterID cluster)])]))"

definition skippedLabelKeys :: "string list" where
  "skippedLabelKeys = [''pod-template-hash'', ''controller-revision-hash'', ''statefulset.kubernetes.io/pod-name'']"

definition cluster_label :: "(string \<times> json) list \<Rightarrow> string list" where
  "cluster_label label = (case (map_of label ''name'', map_of label ''value'') of
     (Some (JStr key), Some (JStr val)) \<Rightarrow>
       if val = [] then [] else if ContainsElement skippedLabelKeys key then [] else [key @ ''='' @ val]
   | _ \<Rightarrow> [])"

definition GetPodsFromCluster :: "ClusterMgmt \<Rightarrow> string \<Rightarrow> Cluster \<Rightarrow> Pod list" where
  "GetPodsFromCluster cm base cluster =
     concat (map (\<lambda>v. case cm_pod cm v of None \<Rightarrow> []
        | Some p \<Rightarrow> [\<lparr>pod_Namespace = pcl_Namespace p, pod_PodName = pcl_PodName p,
            pod_Labels = sort (concat (map cluster_label (pcl_Labels p))), pod_PodIP = pcl_PodIP p\<rparr>])
       (objects_of cm base ''/cm/api/v1/cluster-management/pods-in-node''
         (JObj [(''workspace_id'', JNum (clu_WorkspaceID cluster)), (''cluster_id'', JArr [JNum (clu_ClusterID cluster)]), (''Time'', JNum 0)])))"

section \<open>From the KVM service\<close>

record KVMSEndpoint =
  kv_VMName :: string
  kv_Namespace_kvm :: string
  kv_Labels_kvm :: "string list"

definition GetResourcesFromKvmService :: "KVMSEndpoint list option \<Rightarrow> string list \<times> Pod list" where
  "GetResourcesFromKvmService endpoints = (case endpoints of None \<Rightarrow> ([], [])
     | Some vms \<Rightarrow> fold (\<lambda>vm (namespaces, pods).
         (if \<not> ContainsElement namespaces (kv_Namespace_kvm vm) then namespaces @ [kv_Namespace_kvm vm] else namespaces,
          pods @ [\<lparr>pod_Namespace = kv_Namespace_kvm vm, pod_PodName = kv_VMName vm, pod_Labels = kv_Labels_kvm vm @ [''reserved:host''], pod_PodIP = []\<rparr>]))
         vms ([], []))"

section \<open>The choice of the source\<close>

record ClusterSource =
  cs_InfoFrom :: string
  cs_ord :: "label_list \<Rightarrow> label_list"
  cs_namespaces :: "string + K8sNamespace list"
  cs_pods :: "string + PodObject list"
  cs_services :: "string + K8sService list"
  cs_endpoints :: "string + K8sEndpoints list"
  cs_mgmt :: ClusterMgmt
  cs_base :: string
  cs_kvm :: "KVMSEndpoint list option"

definition vm_pod :: Pod where
  "vm_pod = \<lparr>pod_Namespace = PolicyDiscoveryVMNamespace, pod_PodName = PolicyDiscoveryVMPodName, pod_Labels = [], pod_PodIP = []\<rparr>"

definition container_pod :: Pod where
  "container_pod = \<lparr>pod_Namespace = PolicyDiscoveryContainerNamespace, pod_PodName = PolicyDiscoveryContainerPodName, pod_Labels = [], pod_PodIP = []\<rparr>"

definition GetPods :: "ClusterSource \<Rightarrow> string \<Rightarrow> Pod list" where
  "GetPods src clusterName =
     (let pods = (if cs_InfoFrom src = ''k8sclient'' then GetPodsFromK8sClient (cs_ord src) (cs_pods src)
        else
          (let clusterInstance = GetClusterFromClusterName (cs_mgmt src) (cs_base src) clusterName in
           if clu_ClusterID clusterInstance = 0 then [] else GetPodsFromCluster (cs_mgmt src) (cs_base src) clusterInstance))
      in pods @ [vm_pod] @ [container_pod])"

definition GetAllClusterResources ::
  "ClusterSource \<Rightarrow> string \<Rightarrow> go_panic + (string + string list \<times> Service list \<times> Endpoint list \<times> Pod list)" where
  "GetAllClusterResources src cluster =
     (if cs_InfoFrom src = ''k8sclient'' then
        Inr (Inr (GetNamespacesFromK8sClient (cs_namespaces src), GetServicesFromK8sClient (cs_ord src) (cs_services src),
          GetEndpointsFromK8sClient (cs_ord src) (cs_endpoints src), GetPodsFromK8sClient (cs_ord src) (cs_pods src)))
      else if cs_InfoFrom src = ''kvmservice'' then
        (let (namespaces, pods) = GetResourcesFromKvmService (cs_kvm src) in Inr (Inr (namespaces, [], [], pods)))
      else
        (let cm = cs_mgmt src; base = cs_base src; clusterInstance = GetClusterFromClusterName cm base cluster in
         if clu_ClusterID clusterInstance = 0 then Inr (Inl (''Cluster '' @ cluster @ '' not onboarded''))
         else go_bind (GetNamespacesFromCluster cm base clusterInstance) (\<lambda>namespaces.
           let services = GetServicesFromCluster cm base clusterInstance in
           go_bind (GetEndpointsFromCluster cm base clusterInstance) (\<lambda>endpoints.
             Inr (Inr (namespaces, services, endpoints, GetPodsFromCluster cm base clusterInstance))))))"

section \<open>What the sources give\<close>

lemma sort_iter_order: "iter_order ord \<Longrightarrow> sort (map f (filter P (ord m))) = sort (map f (filter P m))"
proof -
  assume "iter_order ord"
  then have "mset (map f (filter P (ord m))) = mset (map f (filter P m))" by (simp add: iter_order_def)
  then show ?thesis by (metis sorted_list_of_multiset_mset)
qed

text \<open>C40: The pods of the Kubernetes API do not depend on the order in which Go iterates over the labels: they are sorted, and those that the
  controllers make are left out.\<close>

theorem GetPodsFromK8sClient_labels:
  assumes "iter_order ord"
  shows "GetPodsFromK8sClient ord pods = GetPodsFromK8sClient (\<lambda>m. m) pods \<and>
    list_all (\<lambda>p. sorted (pod_Labels p)) (GetPodsFromK8sClient ord pods) \<and>
    list_all2 (\<lambda>p pod. set (pod_Labels p) = label_pair ` {(k, v) \<in> set (kp_Labels pod). k \<notin> set skipLabelKey})
      (GetPodsFromK8sClient ord pods) (api_items pods)"
  using assms
  by (auto simp: GetPodsFromK8sClient_def sort_iter_order list_all_iff list_all2_map1 list.rel_refl intro!: list.rel_refl)

text \<open>The deployments do depend on it: the same deployment can have different texts of labels.\<close>

theorem GetDeploymentsFromK8sClient_order:
  "GetDeploymentsFromK8sClient (\<lambda>m. m) (Inr [\<lparr>kw_Name = ''web'', kw_Namespace = ''shop'', kw_Owned = False,
       kw_MatchLabels = Some [(''app'', ''web''), (''tier'', ''a'')]\<rparr>]) (Inr []) (Inr []) \<noteq>
   GetDeploymentsFromK8sClient rev (Inr [\<lparr>kw_Name = ''web'', kw_Namespace = ''shop'', kw_Owned = False,
       kw_MatchLabels = Some [(''app'', ''web''), (''tier'', ''a'')]\<rparr>]) (Inr []) (Inr [])"
  by (simp add: GetDeploymentsFromK8sClient_def workload_deployments_def GetReplicaSetsFromK8sClient_def GetStatefulSetsFromK8sClient_def
      api_items_def label_pair_def)

text \<open>With the KVM service as the source, the pods are not those of the service: \<^verbatim>\<open>GetPods\<close> asks the cluster management for them, which the function for all
  resources does not, and has only the two pods that stand for other logs if the cluster is not known there.\<close>

theorem GetPods_ignores_kvm:
  assumes "cs_InfoFrom src = ''kvmservice''" "cs_kvm src = Some vms"
    and "clu_ClusterID (GetClusterFromClusterName (cs_mgmt src) (cs_base src) cluster) = 0"
  shows "GetPods src cluster = [vm_pod, container_pod] \<and>
    (\<exists>namespaces pods. GetAllClusterResources src cluster = Inr (Inr (namespaces, [], [], pods)) \<and>
      map pod_PodName pods = map kv_VMName vms \<and> set namespaces = set (map kv_Namespace_kvm vms))"
proof -
  let ?f = "\<lambda>vm (namespaces, pods). (if \<not> ContainsElement namespaces (kv_Namespace_kvm vm) then namespaces @ [kv_Namespace_kvm vm] else namespaces,
      pods @ [\<lparr>pod_Namespace = kv_Namespace_kvm vm, pod_PodName = kv_VMName vm, pod_Labels = kv_Labels_kvm vm @ [''reserved:host''], pod_PodIP = []\<rparr>])"
  have "\<exists>ns' ps'. fold ?f xs (ns, ps) = (ns', ps') \<and> map pod_PodName ps' = map pod_PodName ps @ map kv_VMName xs \<and>
      set ns' = set ns \<union> set (map kv_Namespace_kvm xs)" for xs ns ps
  proof (induction xs arbitrary: ns ps)
    case (Cons x xs)
    show ?case
      using Cons.IH [of "if \<not> ContainsElement ns (kv_Namespace_kvm x) then ns @ [kv_Namespace_kvm x] else ns"
          "ps @ [\<lparr>pod_Namespace = kv_Namespace_kvm x, pod_PodName = kv_VMName x, pod_Labels = kv_Labels_kvm x @ [''reserved:host''], pod_PodIP = []\<rparr>]"]
      by (auto split: if_splits)
  qed simp
  from this [of vms "[]" "[]"] assms show ?thesis
    by (auto simp: GetPods_def GetAllClusterResources_def GetResourcesFromKvmService_def Let_def)
qed

text \<open>A line with the name of the cluster but without a space after it panics; so does the list of nodes without a client.\<close>

theorem GetClusterName_panics:
  "GetClusterNameFromK8sClient (\<lambda>m. m) (Inr [\<lparr>kc_Name = ''gke-metrics-agent-conf'', kc_Data = [(''conf'', ''cluster_name:demo'')]\<rparr>]) = Inl IndexOutOfRange"
  by code_simp

lemma GetNodesFromK8sClient_panics: "GetNodesFromK8sClient False nodes = Inl NilDereference"
  by (simp add: GetNodesFromK8sClient_def)

section \<open>Examples\<close>

definition demo_mgmt :: ClusterMgmt where
  "demo_mgmt = \<lparr>cm_http = (\<lambda>_ _ _. None), cm_unmarshal = (\<lambda>_. None), cm_marshal = (\<lambda>_. None), cm_clusters = (\<lambda>_. []),
     cm_objects = (\<lambda>_. None), cm_service = (\<lambda>_. None), cm_endpoint = (\<lambda>_. \<lparr>ecl_Namespace = [], ecl_EndpointName = [], ecl_IP = [], ecl_Labels = [], ecl_Mappings = []\<rparr>),
     cm_pod = (\<lambda>_. None)\<rparr>"

definition demo_cluster_source :: ClusterSource where
  "demo_cluster_source = \<lparr>cs_InfoFrom = ''kvmservice'', cs_ord = (\<lambda>m. m), cs_namespaces = Inr [], cs_pods = Inr [], cs_services = Inr [],
     cs_endpoints = Inr [], cs_mgmt = demo_mgmt, cs_base = [], cs_kvm = Some [\<lparr>kv_VMName = ''vm1'', kv_Namespace_kvm = ''vms'', kv_Labels_kvm = []\<rparr>]\<rparr>"

theorem GetPodsFromK8sClient_labels_witness:
  "GetPodsFromK8sClient rev (Inr [\<lparr>kp_Namespace = ''shop'', kp_Name = ''web'', kp_PodIP = [], kp_Labels = [(''tier'', ''a''), (''app'', ''web'')], kp_Annotations = None\<rparr>]) =
   GetPodsFromK8sClient (\<lambda>m. m) (Inr [\<lparr>kp_Namespace = ''shop'', kp_Name = ''web'', kp_PodIP = [], kp_Labels = [(''tier'', ''a''), (''app'', ''web'')], kp_Annotations = None\<rparr>])"
  using GetPodsFromK8sClient_labels [OF iter_order_rev] by blast

theorem GetPods_ignores_kvm_witness:
  "GetPods demo_cluster_source ''c'' = [vm_pod, container_pod]"
  using GetPods_ignores_kvm [of demo_cluster_source "[\<lparr>kv_VMName = ''vm1'', kv_Namespace_kvm = ''vms'', kv_Labels_kvm = []\<rparr>]" "''c''"]
  by (simp add: demo_cluster_source_def demo_mgmt_def GetClusterFromClusterName_def getResponseBytes_def Cluster_zero_def)

end
