(* ===== verification/Spec2Isabelle.thy ===== *)
theory Spec2Isabelle
  imports PathAggregator SystemFilter SystemDedup KubeArmor KubeArmorRelay PolicyStore NetworkLog NetworkOutdate
    NetworkPipeline Observability SystemPipeline Insight AdmissionController FeedConsumer SummaryStore Recommend
    DiscoveredPolicies License Workers Analyzer ClusterResources
begin

text \<open>
  A model of \<^verbatim>\<open>auto-policy-discovery\<close>: the program watches what the containers of a cluster do and derives
  from it system policies (for KubeArmor) and network policies (for Cilium or Kubernetes). Unless they begin with \<^verbatim>\<open>pkg/\<close>, all paths below are
  relative to \<^verbatim>\<open>src/\<close> of the repository; a definition has the name of the Go function it models, with a suffix where two packages use the
  same name (\<^verbatim>\<open>_net\<close>, \<^verbatim>\<open>_sys\<close>).

  \<^bold>\<open>How the program works.\<close> Logs arrive in two ways. KubeArmor streams alerts and logs to two goroutines, which convert
  nothing yet and append to buffers; flows of Cilium arrive from Hubble or from a message queue and are buffered too. Two workers take what is
  buffered. The system worker filters the logs, collects for each container and process the files and protocols that were used
  (the file sets), aggregates the paths to directories, stores the sets and turns all stored sets into policies. The network worker
  filters the logs, makes one or two policies of each, merges the policies of a selector, compares them with the stored
  ones and stores what is new or has grown. Both write the policies as text to a table and publish them to the consumers that have
  registered; a consumer reads a channel of 64 entries and sends to a gRPC stream. The observability module gets the same logs and flows:
  one job counts the logs in a map of summaries, another aggregates the files of this map, stores it in a table and publishes it, and
  requests are answered from the tables. A policy can also be put into the cluster as a discovered policy, an object that a
  second program watches: its controller creates the policy once a user has activated it.

  \<^bold>\<open>Theories.\<close>
  \<^item> \<^verbatim>\<open>Prelude\<close>: Go strings as byte strings with the functions of \<^verbatim>\<open>strings\<close>, \<^verbatim>\<open>strconv\<close>,
    \<^verbatim>\<open>sort\<close> and \<^verbatim>\<open>filepath\<close> that the program uses; panics as the left summand of a sum with the bind \<^verbatim>\<open>go_bind\<close> and the loop
    \<^verbatim>\<open>foldM\<close>; maps that are iterated as association lists with an unknown order (\<^verbatim>\<open>iter_order\<close>: any permutation).
  \<^item> \<^verbatim>\<open>GoNet\<close>: \<^verbatim>\<open>net.ParseIP\<close> for both kinds of addresses, link-local and loopback addresses, and the parsing of
    numbers with their limits.
  \<^item> \<^verbatim>\<open>Types\<close>, \<^verbatim>\<open>Libs\<close>: the data of \<^verbatim>\<open>types/\<close>, and labels, protocols, lists of strings and the hash of names
    (FNV on 32 bits) of \<^verbatim>\<open>libs/common.go\<close> and \<^verbatim>\<open>common/common.go\<close>.
  \<^item> \<^verbatim>\<open>PathTree\<close>, \<^verbatim>\<open>PathAggregator\<close>: \<^verbatim>\<open>common/pathAggregator.go\<close>.
  \<^item> \<^verbatim>\<open>SystemFilter\<close>, \<^verbatim>\<open>SystemPolicy\<close>, \<^verbatim>\<open>SystemMerge\<close>, \<^verbatim>\<open>FileSet\<close>,
    \<^verbatim>\<open>SystemDedup\<close>, \<^verbatim>\<open>SystemPipeline\<close>: package \<^verbatim>\<open>systempolicy\<close> with the table of file sets, from one log to a whole
    run of the worker.
  \<^item> \<^verbatim>\<open>KubeArmor\<close>, \<^verbatim>\<open>KubeArmorRelay\<close>: \<^verbatim>\<open>plugin/kubearmor.go\<close>, the policies and the relay of logs.
  \<^item> \<^verbatim>\<open>NetworkLog\<close>, \<^verbatim>\<open>NetworkPolicy\<close>, \<^verbatim>\<open>NetworkMerge\<close>, \<^verbatim>\<open>NetworkDiscovery\<close>,
    \<^verbatim>\<open>NetworkDedup\<close>, \<^verbatim>\<open>NetworkOutdate\<close>, \<^verbatim>\<open>NetworkSource\<close>, \<^verbatim>\<open>NetworkPipeline\<close>:
    package \<^verbatim>\<open>networkpolicy\<close>, from one log to a whole run of the worker.
  \<^item> \<^verbatim>\<open>Cilium\<close>, \<^verbatim>\<open>K8sNetwork\<close>: \<^verbatim>\<open>plugin/cilium.go\<close>, \<^verbatim>\<open>plugin/k8sNetwork.go\<close>.
  \<^item> \<^verbatim>\<open>PolicyTables\<close>, \<^verbatim>\<open>PolicyYamls\<close>: the tables of policies and of their texts with both drivers
    (\<^verbatim>\<open>libs/dbHandler.go\<close>, \<^verbatim>\<open>mysqlHandler.go\<close>, \<^verbatim>\<open>sqliteHandler.go\<close>).
  \<^item> \<^verbatim>\<open>PolicyStore\<close>: \<^verbatim>\<open>libs/consumer.go\<close>.
  \<^item> \<^verbatim>\<open>SystemSummary\<close>, \<^verbatim>\<open>SummaryAggregate\<close>, \<^verbatim>\<open>SummaryTable\<close>, \<^verbatim>\<open>CiliumLogs\<close>,
    \<^verbatim>\<open>Observability\<close>: package \<^verbatim>\<open>observability\<close> and its tables (\<^verbatim>\<open>summarizer.go\<close>, \<^verbatim>\<open>publisher.go\<close>,
    \<^verbatim>\<open>cilium.go\<close>, \<^verbatim>\<open>kubearmor.go\<close>, \<^verbatim>\<open>summary.go\<close>, \<^verbatim>\<open>observability.go\<close>).
  \<^item> \<^verbatim>\<open>Insight\<close>, \<^verbatim>\<open>AdmissionController\<close>, \<^verbatim>\<open>FeedConsumer\<close>: the packages \<^verbatim>\<open>insight\<close> (requests for what
    is stored), \<^verbatim>\<open>admissioncontrollerpolicy\<close> (Kyverno policies and the token of service accounts) and \<^verbatim>\<open>feedconsumer\<close> (the
    consumers of the message queue).
  \<^item> \<^verbatim>\<open>SummaryStore\<close>: the stream of summaries to clients, \<^verbatim>\<open>observability/consumer.go\<close>.
  \<^item> \<^verbatim>\<open>Templates\<close>, \<^verbatim>\<open>Recommend\<close>: package \<^verbatim>\<open>recommendpolicy\<close>, from the files of a release of templates
    to a run of the worker.
  \<^item> \<^verbatim>\<open>DiscoveredPolicies\<close>: the controller under \<^verbatim>\<open>pkg/discoveredpolicy\<close> with its watcher, and
    \<^verbatim>\<open>cluster/dspHandler.go\<close>, which makes and updates the objects.
  \<^item> \<^verbatim>\<open>License\<close>: package \<^verbatim>\<open>license\<close> with the secret in \<^verbatim>\<open>cluster/k8sClientHandler.go\<close> and the start of
    \<^verbatim>\<open>main.go\<close>.
  \<^item> \<^verbatim>\<open>Workers\<close>: start and stop of the three workers, and the service for them in \<^verbatim>\<open>server/grpcServer.go\<close>.
  \<^item> \<^verbatim>\<open>Analyzer\<close>: package \<^verbatim>\<open>analyzer\<close>, discovery on request with its messages.
  \<^item> \<^verbatim>\<open>ClusterResources\<close>: package \<^verbatim>\<open>cluster\<close>, what is known of namespaces, pods, services, endpoints and workloads from
    its three sources.

  \<^bold>\<open>State.\<close> The package variables are records that the operations take and return: \<^verbatim>\<open>SysGlobals\<close> (configuration of the system
  worker), \<^verbatim>\<open>RelayState\<close> (the buffers of KubeArmor and the streams), \<^verbatim>\<open>ClusterVariable\<close> (what is known of a cluster),
  \<^verbatim>\<open>NetSource\<close> (the buffers of flows and the map of logs), \<^verbatim>\<open>NetState\<close> and \<^verbatim>\<open>NetWorker\<close> (a worker with its tables), \<^verbatim>\<open>SysState\<close> and \<^verbatim>\<open>SysWorker\<close> (the same for system policies),
  \<^verbatim>\<open>PolicyStore\<close>, \<^verbatim>\<open>SystemObs\<close>, \<^verbatim>\<open>CiliumObs\<close> and \<^verbatim>\<open>SummaryState\<close> (the buffers, maps and tables of
  the observability jobs), \<^verbatim>\<open>KnoxFeedConsumer\<close>, \<^verbatim>\<open>FeedBuffers\<close> and \<^verbatim>\<open>FeedMain\<close> (a consumer, the buffers it fills, and
  the goroutines with their wait group), \<^verbatim>\<open>SummaryStore\<close>, \<^verbatim>\<open>TemplateState\<close> and \<^verbatim>\<open>RecState\<close> (the versions and
  rules of the templates, and the worker that recommends policies), \<^verbatim>\<open>DspCluster\<close> (the objects of the Kubernetes API and the
  notifications on their way), \<^verbatim>\<open>LicState\<close> (the licence and its secret) and \<^verbatim>\<open>Worker\<close> (status, cron job, stop channel and
  goroutines of a worker). Concurrency is modelled where it matters: the relay, the policy store, the stream of summaries, the start and stop of the
  feed consumers and of the workers, and the controller with its watcher are step relations whose events are one call or one round of a loop under the mutex, with runs as sequences of events. A table is the list
  of its rows in the order of insertion and a statement a function on rows.

  \<^bold>\<open>Interfaces.\<close> The code has interfaces where several kinds of rules share an algorithm. \<^verbatim>\<open>l47_rule\<close> has the three methods of
  \<^verbatim>\<open>L47Rule\<close>, \<^verbatim>\<open>rule_merge\<close> and \<^verbatim>\<open>policy_merge\<close> the merge of rules and of policies over them, and
  \<^verbatim>\<open>policy_dedup\<close> the merge into a stored policy; each is interpreted for ingress and for egress rules. \<^verbatim>\<open>wpfs_store\<close> is
  the interface of the table of file sets, interpreted on the tables of both drivers, and \<^verbatim>\<open>from_source_rule\<close> what the three kinds of
  rules with sources have in common. \<^verbatim>\<open>grouping\<close> is the loop that looks for an entry or adds one, interpreted for the three
  groupings of the insight answers; \<^verbatim>\<open>batching\<close> is the contract of a buffer that is put out when it is full, interpreted for both
  buffers of a feed consumer.

  \<^bold>\<open>What is shown.\<close>
  \<^item> Paths: the aggregation computes a specified set of paths for any order of the tree; every observed path is permitted by the result,
    except proper ancestors of observed paths, and a directory rule stands for more than \<^verbatim>\<open>Threshold\<close> children.
  \<^item> System policies: every observed access is permitted by the policies of a pod and by what is stored after a run; the
    store keeps one row for each key; the policies made of the stored sets have exactly their paths; naming ends and names are
    fresh and different; a round of the worker turns the buffered alerts into exactly their protocols, a run
    does not panic for labels that can be taken apart, and the table of policies is overridden with the policies of the sets;
    logs from a file or from the message queue are lost.
  \<^item> KubeArmor: the conversion keeps the rules; the extraction for Kubernetes loses the sources of all rules; the relay conserves logs.
  \<^item> Network policies: discovery never panics, its policies are well formed, cover each log and contain nothing that was
    not observed; deduplication stores what is new and lets stored policies only grow; a whole run of the worker never panics and
    keeps the table well formed.
  \<^item> Formats and tables: the rules of a Cilium policy are those of the discovered one; which conversions panic; round trips through the tables; the two
    drivers agree.
  \<^item> Policy store: a consumer gets every policy that matches, once and in order; a client that leaves at the wrong time
    blocks the store for good.
  \<^item> Observability: the events of a batch are in the table of summaries after both jobs, each once; the aggregation of files conserves counts and does not
    depend on the orders of maps; flows are counted by their key; which parts of the requests and of the grouping are wrong.
  \<^item> Insight: the answer to a request has one entry for each workload and exactly the stored sets; network policies of one kind are lost.
  \<^item> Admission controller: the decision on the token never panics and is true exactly when a path of the token was seen.
  \<^item> Feed consumer: what reaches the workers are whole batches in order; stopping waits for the consumers, for good if the driver is
    not known.
  \<^item> Stream of summaries: a client that stays gets every summary it asked for, once and in order; after a failed send at most 1024
    further ones are published.
  \<^item> Recommended policies: the rules in use are those of the files of the release; what a run stores, with its duplicates; runs do not panic
    for templates that have the expected parts; the check of the paths of an archive can be passed from outside.
  \<^item> Discovered policies: a reconciliation touches only what belongs to its object and brings the cluster to what the object says; nothing is
    enforced unless a user has activated it; an activation can be lost to the watcher, and some are suspended at every discovery.
  \<^item> Licence: an installed licence is valid and found again after a restart, no sequence of operations panics for usual tokens, but the check at
    the start accepts forged ones.
  \<^item> Workers: after a stop at most one more log is received, for good; a second stop ends the program; a scheduler that was replaced
    runs on.
  \<^item> Analyzer and cluster: what a message keeps of a policy; the analyzer finds nothing; the pods do not depend on the order of labels.

  The properties of kind error state what the code does where it does not do what it is meant to do; the manifest lists these as
  findings with the lines.

  \<^bold>\<open>Bounds and fuel.\<close> Recursion is structural or has a measure; no definition has fuel. The names of system policies come from random sequences:
  the model takes the list of sequences drawn, and the theorem on naming says how many different ones suffice (for \<^verbatim>\<open>n\<close>
  discovered and \<^verbatim>\<open>m\<close> existing policies, \<^verbatim>\<open>n * (m + n + 2)\<close>), \<^verbatim>\<open>None\<close> being a loop that still runs.
  Machine integers have their width where it matters: the hash and the counters of summaries are a \<^verbatim>\<open>32 word\<close>, the type of an ICMP rule an
  \<^verbatim>\<open>8 word\<close>; \<^verbatim>\<open>int\<close> is unbounded in the model, where the code only compares, counts and prints.

  \<^bold>\<open>Parameters.\<close> Code outside \<^verbatim>\<open>src/\<close> is an argument of the definitions that use it: \<^verbatim>\<open>cmp.Equal\<close>, the texts
  made by the JSON and YAML libraries, the resources that the Kubernetes API returns, \<^verbatim>\<open>url.Parse\<close>, the kinds of policies of the Cilium
  library, random sequences, the time, the orders of maps and the capacities of slices, SHA-256, dates and durations, the
  clients of message queues, the policies of Kyverno, and the pods and workloads of the Kubernetes API. Database connections do not fail in the model;
  The calls of the Kubernetes API for
  discovered policies and licences have the documented effect on the modelled objects or fail, with the errors as an argument; decryption, JWT, HTTP and
  the decoding of JSON are arguments. MySQL refuses values that are longer than their columns, as its default mode does.

  \<^bold>\<open>Not modelled.\<close> The steps of the earlier network pipeline (\<^verbatim>\<open>networkPolicy.go\<close> 244 to 1500 and
  \<^verbatim>\<open>httpAggregator.go\<close>), which nothing calls any more; the purge of old summaries; the download of an archive; the registration of the controller and of the gRPC
  servers, the generated clients, configuration files, command line and logging, which are input and output around the modelled parts.
\<close>

end
